(* ===== verification/Prelude.thy ===== *)
theory Prelude
  imports Main
begin

text \<open>
  Shared vocabulary of the development: Python exceptions as values, the result type every
  fallible operation returns, the three ways SQLAlchemy reads a query (\<open>one\<close>,
  \<open>one_or_none\<close>, \<open>first\<close>), a table as a list of rows with a unique key, and the
  list lemmas the component theories share.
\<close>

named_theorems result_simps \<open>equations that evaluate results, binds and query readers\<close>
named_theorems entity_defs \<open>definitions of the conversions from rows to entities\<close>

section \<open>Exceptions and results\<close>

text \<open>
  The error codes of \<^verbatim>\<open>mlflow.protos.databricks_pb2\<close> that the program raises, and the
  exceptions it raises or lets escape. Message texts are not modelled.
\<close>

datatype error_code =
    RESOURCE_DOES_NOT_EXIST
  | RESOURCE_ALREADY_EXISTS
  | INVALID_STATE
  | INVALID_PARAMETER_VALUE
  | RESOURCE_LIMIT_EXCEEDED
  | BAD_REQUEST
  | UNAUTHENTICATED
  | INTERNAL_ERROR

datatype exn =
    MlflowException error_code
  | NoResultFound
  | MultipleResultsFound
  | IntegrityError
  | KeyError
  | IndexError
  | ValueError
  | ZeroDivisionError
  | HTTPException nat
  | OtherError

type_synonym 'a result = "exn + 'a"

definition bind_result :: "'a result \<Rightarrow> ('a \<Rightarrow> 'b result) \<Rightarrow> 'b result" where
  "bind_result r f = (case r of Inl e \<Rightarrow> Inl e | Inr x \<Rightarrow> f x)"

lemma bind_result_simps [simp, result_simps]:
  "bind_result (Inl e) f = Inl e"
  "bind_result (Inr x) f = f x"
  by (simp_all add: bind_result_def)

lemma bind_result_eq_Inr:
  "bind_result r f = Inr y \<longleftrightarrow> (\<exists>x. r = Inr x \<and> f x = Inr y)"
  by (cases r) simp_all

lemma bind_result_eq_Inl:
  "bind_result r f = Inl e \<longleftrightarrow> r = Inl e \<or> (\<exists>x. r = Inr x \<and> f x = Inl e)"
  by (cases r) simp_all

lemma bind_result_InrE [elim!]:
  assumes "bind_result r f = Inr y"
  obtains x where "r = Inr x" and "f x = Inr y"
  using assms by (auto simp: bind_result_eq_Inr)

text \<open>A list comprehension whose element expression may raise.\<close>

fun mapM_result :: "('a \<Rightarrow> 'b result) \<Rightarrow> 'a list \<Rightarrow> 'b list result" where
  "mapM_result f [] = Inr []"
| "mapM_result f (x # xs) =
     bind_result (f x) (\<lambda>y. bind_result (mapM_result f xs) (\<lambda>ys. Inr (y # ys)))"

lemma mapM_result_Inr:
  "(\<And>x. x \<in> set xs \<Longrightarrow> f x = Inr (g x)) \<Longrightarrow> mapM_result f xs = Inr (map g xs)"
  by (induction xs) simp_all

lemma mapM_result_Inl:
  "mapM_result f xs = Inl e \<Longrightarrow> \<exists>x \<in> set xs. f x = Inl e"
  by (induction xs) (auto simp: bind_result_eq_Inl)

text \<open>An \<^verbatim>\<open>except IntegrityError\<close> clause that raises an MLflow error instead.\<close>

definition on_integrity_error :: "error_code \<Rightarrow> 'a result \<Rightarrow> 'a result" where
  "on_integrity_error c r =
     (case r of Inl IntegrityError \<Rightarrow> Inl (MlflowException c) | _ \<Rightarrow> r)"

lemma on_integrity_error_simps [simp, result_simps]:
  "on_integrity_error c (Inr x) = Inr x"
  "on_integrity_error c (Inl IntegrityError) = Inl (MlflowException c)"
  "on_integrity_error c (Inl (MlflowException d)) = Inl (MlflowException d)"
  by (simp_all add: on_integrity_error_def)

lemma on_integrity_error_eq_Inr [simp]:
  "on_integrity_error c r = Inr x \<longleftrightarrow> r = Inr x"
  by (auto simp: on_integrity_error_def split: sum.splits exn.splits)

section \<open>Reading a query\<close>

fun query_one :: "'a list \<Rightarrow> 'a result" where
  "query_one [] = Inl NoResultFound"
| "query_one [x] = Inr x"
| "query_one (x # y # xs) = Inl MultipleResultsFound"

fun query_one_or_none :: "'a list \<Rightarrow> 'a option result" where
  "query_one_or_none [] = Inr None"
| "query_one_or_none [x] = Inr (Some x)"
| "query_one_or_none (x # y # xs) = Inl MultipleResultsFound"

fun query_first :: "'a list \<Rightarrow> 'a option" where
  "query_first [] = None"
| "query_first (x # xs) = Some x"

text \<open>
  \<^verbatim>\<open>.one()\<close> inside the handlers the repositories wrap around it: no row is
  RESOURCE_DOES_NOT_EXIST, several rows are INVALID_STATE.
\<close>

definition query_one_mlflow :: "'a list \<Rightarrow> 'a result" where
  "query_one_mlflow rows =
     (case query_one rows of
        Inl NoResultFound \<Rightarrow> Inl (MlflowException RESOURCE_DOES_NOT_EXIST)
      | Inl MultipleResultsFound \<Rightarrow> Inl (MlflowException INVALID_STATE)
      | r \<Rightarrow> r)"

lemma query_one_mlflow_simps [simp, result_simps]:
  "query_one_mlflow [] = Inl (MlflowException RESOURCE_DOES_NOT_EXIST)"
  "query_one_mlflow [x] = Inr x"
  "query_one_mlflow (x # y # xs) = Inl (MlflowException INVALID_STATE)"
  by (simp_all add: query_one_mlflow_def)

lemma query_one_Inr: "query_one rows = Inr x \<longleftrightarrow> rows = [x]"
  by (cases rows rule: query_one.cases) auto

lemma query_one_mlflow_Inr: "query_one_mlflow rows = Inr x \<longleftrightarrow> rows = [x]"
  by (cases rows rule: query_one.cases) auto

lemma query_one_or_none_Inr_Some: "query_one_or_none rows = Inr (Some x) \<longleftrightarrow> rows = [x]"
  by (cases rows rule: query_one.cases) auto

lemma query_one_mlflow_Inl:
  "query_one_mlflow rows = Inl e \<Longrightarrow>
   e = MlflowException RESOURCE_DOES_NOT_EXIST \<and> rows = [] \<or> e = MlflowException INVALID_STATE"
  by (cases rows rule: query_one.cases) auto

section \<open>Tables\<close>

text \<open>
  A table is the list of its rows, in the order the engine returns them. \<open>insert_row\<close> is
  \<^verbatim>\<open>session.add\<close> followed by a flush under a unique constraint on \<open>key\<close>;
  \<open>update_rows\<close> changes the selected rows and flushes under the same constraint.
\<close>

definition insert_row :: "('r \<Rightarrow> 'k) \<Rightarrow> 'r \<Rightarrow> 'r list \<Rightarrow> 'r list result" where
  "insert_row key r rows = (if key r \<in> set (map key rows) then Inl IntegrityError else Inr (rows @ [r]))"

definition update_rows :: "('r \<Rightarrow> 'k) \<Rightarrow> ('r \<Rightarrow> bool) \<Rightarrow> ('r \<Rightarrow> 'r) \<Rightarrow> 'r list \<Rightarrow> 'r list result" where
  "update_rows key P f rows =
     (let rows' = map (\<lambda>r. if P r then f r else r) rows
      in if distinct (map key rows') then Inr rows' else Inl IntegrityError)"

definition set_rows :: "('r \<Rightarrow> bool) \<Rightarrow> ('r \<Rightarrow> 'r) \<Rightarrow> 'r list \<Rightarrow> 'r list" where
  "set_rows P f rows = map (\<lambda>r. if P r then f r else r) rows"

definition delete_rows :: "('r \<Rightarrow> bool) \<Rightarrow> 'r list \<Rightarrow> 'r list" where
  "delete_rows P rows = filter (\<lambda>r. \<not> P r) rows"

lemma insert_row_Inr:
  "insert_row key r rows = Inr rows' \<longleftrightarrow> key r \<notin> key ` set rows \<and> rows' = rows @ [r]"
  by (auto simp: insert_row_def)

lemma insert_row_Inl:
  "insert_row key r rows = Inl e \<longleftrightarrow> key r \<in> key ` set rows \<and> e = IntegrityError"
  by (auto simp: insert_row_def)

lemma insert_row_distinct:
  "insert_row key r rows = Inr rows' \<Longrightarrow> distinct (map key rows) \<Longrightarrow> distinct (map key rows')"
  by (auto simp: insert_row_Inr)

lemma update_rows_Inr:
  "update_rows key P f rows = Inr rows' \<longleftrightarrow>
   rows' = set_rows P f rows \<and> distinct (map key rows')"
  by (auto simp: update_rows_def set_rows_def Let_def)

lemma set_rows_map_same:
  "(\<And>r. r \<in> set rows \<Longrightarrow> P r \<Longrightarrow> key (f r) = key r) \<Longrightarrow>
   map key (set_rows P f rows) = map key rows"
  by (simp add: set_rows_def)

lemma set_set_rows: "set (set_rows P f rows) = (\<lambda>r. if P r then f r else r) ` set rows"
  by (simp add: set_rows_def)

lemma delete_rows_distinct:
  "distinct (map key rows) \<Longrightarrow> distinct (map key (delete_rows P rows))"
  by (simp add: delete_rows_def distinct_map_filter)

lemma set_delete_rows [simp]: "set (delete_rows P rows) = {r \<in> set rows. \<not> P r}"
  by (simp add: delete_rows_def)

lemma filter_delete_rows: "filter Q (delete_rows P rows) = filter (\<lambda>r. Q r \<and> \<not> P r) rows"
  unfolding delete_rows_def by (simp add: conj_commute)

section \<open>Rows found by a unique key\<close>

lemma distinct_key_eq:
  "distinct (map key rows) \<Longrightarrow> x \<in> set rows \<Longrightarrow> y \<in> set rows \<Longrightarrow> key x = key y \<Longrightarrow> x = y"
  by (auto simp: distinct_map inj_on_def)

lemma filter_unique:
  assumes "distinct (map key rows)" and "x \<in> set rows"
    and "\<And>y. y \<in> set rows \<Longrightarrow> P y \<longleftrightarrow> key y = key x"
  shows "filter P rows = [x]"
  using assms
proof (induction rows)
  case Nil
  then show ?case by simp
next
  case (Cons a rows)
  show ?case
  proof (cases "key a = key x")
    case True
    with Cons.prems have "a = x"
      by (auto dest: distinct_key_eq [OF Cons.prems(1), of a x])
    moreover have "filter P rows = []"
      using Cons.prems True by (auto simp: filter_empty_conv image_iff)
    ultimately show ?thesis using Cons.prems(3) [of a] by simp
  next
    case False
    with Cons.prems have "x \<in> set rows" by auto
    with Cons False show ?thesis by simp
  qed
qed

lemma filter_key_cases:
  assumes "distinct (map key rows)" and "\<And>y. y \<in> set rows \<Longrightarrow> P y \<longleftrightarrow> key y = v"
  shows "filter P rows = [] \<or> (\<exists>x. filter P rows = [x])"
proof (cases "\<exists>x \<in> set rows. key x = v")
  case True
  then obtain x where "x \<in> set rows" "key x = v" by blast
  with assms have "filter P rows = [x]" by (intro filter_unique [where key = key]) auto
  then show ?thesis by blast
next
  case False
  with assms(2) show ?thesis by (auto simp: filter_empty_conv)
qed

lemma filter_length_le_1:
  assumes "distinct (map key rows)" and "\<And>y. y \<in> set rows \<Longrightarrow> P y \<Longrightarrow> key y = v"
  shows "filter P rows = [] \<or> (\<exists>x. filter P rows = [x] \<and> P x \<and> x \<in> set rows)"
proof (cases "filter P rows")
  case Nil
  then show ?thesis by simp
next
  case (Cons x xs)
  have d: "distinct (map key (filter P rows))"
    using assms(1) by (simp add: distinct_map_filter)
  have x: "x \<in> set rows" "P x"
    using Cons by (auto dest: filter_eq_ConsD)
  have "xs = []"
  proof (rule ccontr)
    assume "xs \<noteq> []"
    then obtain y ys where "xs = y # ys" by (cases xs) auto
    then have "y \<in> set (filter P rows)" using Cons by simp
    with x assms(2) have "key y = key x" by auto
    with d Cons \<open>xs = y # ys\<close> show False by simp
  qed
  with Cons x show ?thesis by blast
qed

lemma map_of_Some_distinct:
  "distinct (map fst xs) \<Longrightarrow> map_of xs k = Some v \<longleftrightarrow> (k, v) \<in> set xs"
  by (simp add: map_of_eq_Some_iff)

lemma option_eqI: "(\<And>r. a = Some r \<longleftrightarrow> b = Some r) \<Longrightarrow> a = b"
  by (cases b) (metis not_Some_eq)+

lemma find_SomeD: "find P xs = Some x \<Longrightarrow> P x \<and> x \<in> set xs"
  by (induction xs) (auto split: if_splits)

lemma find_None_iff_all: "find P xs = None \<longleftrightarrow> (\<forall>x \<in> set xs. \<not> P x)"
  by (auto simp: find_None_iff)


section \<open>The row at a key\<close>

definition row_at :: "('r \<Rightarrow> 'k) \<Rightarrow> 'k \<Rightarrow> 'r list \<Rightarrow> 'r option" where
  "row_at key v rows = find (\<lambda>r. key r = v) rows"

lemma row_at_Nil [simp]: "row_at key v [] = None"
  by (simp add: row_at_def)

lemma row_at_SomeD: "row_at key v rows = Some r \<Longrightarrow> r \<in> set rows \<and> key r = v"
  by (auto simp: row_at_def dest: find_SomeD)

lemma row_at_None: "row_at key v rows = None \<longleftrightarrow> v \<notin> key ` set rows"
  by (auto simp: row_at_def find_None_iff)

lemma row_at_not_None: "row_at key v rows \<noteq> None \<longleftrightarrow> v \<in> key ` set rows"
  by (simp add: row_at_None)

lemma row_at_Some:
  assumes "distinct (map key rows)"
  shows "row_at key v rows = Some r \<longleftrightarrow> r \<in> set rows \<and> key r = v"
proof
  assume "row_at key v rows = Some r"
  then show "r \<in> set rows \<and> key r = v" by (rule row_at_SomeD)
next
  assume r: "r \<in> set rows \<and> key r = v"
  then obtain r' where r': "row_at key v rows = Some r'"
    by (cases "row_at key v rows") (auto simp: row_at_None)
  with r assms have "r' = r" by (auto dest!: row_at_SomeD intro: distinct_key_eq)
  with r' show "row_at key v rows = Some r" by simp
qed

lemma row_at_append:
  "row_at key v (rows @ [r]) =
     (case row_at key v rows of None \<Rightarrow> if key r = v then Some r else None | Some x \<Rightarrow> Some x)"
  unfolding row_at_def by (induction rows) auto

lemma row_at_set_rows:
  assumes "\<And>r. P r \<longleftrightarrow> key r = w" and "\<And>r. key (f r) = key r"
  shows "row_at key v (set_rows P f rows) =
    (if v = w then map_option f (row_at key v rows) else row_at key v rows)"
  unfolding row_at_def set_rows_def using assms by (induction rows) auto

lemma row_at_delete_rows:
  assumes "\<And>r. P r \<longleftrightarrow> key r = w"
  shows "row_at key v (delete_rows P rows) = (if v = w then None else row_at key v rows)"
proof (induction rows)
  case Nil
  show ?case by (simp add: delete_rows_def)
next
  case (Cons a rows)
  then show ?case
    by (cases "key a = w"; cases "v = w") (simp_all add: row_at_def delete_rows_def assms)
qed

lemma row_at_set_key:
  "(\<And>r. key (f r) = key r) \<Longrightarrow>
   row_at key v (set_rows (\<lambda>r. key r = w) f rows) =
     (if v = w then map_option f (row_at key v rows) else row_at key v rows)"
  by (rule row_at_set_rows) auto

lemma row_at_delete_key [simp]:
  "row_at key v (delete_rows (\<lambda>r. key r = w) rows) = (if v = w then None else row_at key v rows)"
  by (rule row_at_delete_rows) auto

lemma filter_row_at:
  assumes "distinct (map key rows)" and "\<And>r. r \<in> set rows \<Longrightarrow> P r \<longleftrightarrow> key r = v"
  shows "filter P rows = (case row_at key v rows of None \<Rightarrow> [] | Some r \<Rightarrow> [r])"
proof (cases "row_at key v rows")
  case None
  then have "filter P rows = []"
    using assms(2) by (auto simp: row_at_None filter_empty_conv)
  with None show ?thesis by simp
next
  case (Some r)
  then have "r \<in> set rows" "key r = v" by (auto dest: row_at_SomeD)
  with assms have "filter P rows = [r]" by (intro filter_unique [where key = key]) auto
  with Some show ?thesis by simp
qed

lemma concat_map_if: "concat (map (\<lambda>x. if P x then [x] else []) xs) = filter P xs"
  by (induction xs) simp_all


lemma set_rows_cong:
  "(\<And>r. r \<in> set rows \<Longrightarrow> P r \<longleftrightarrow> Q r) \<Longrightarrow> set_rows P f rows = set_rows Q f rows"
  by (simp add: set_rows_def)

lemma delete_rows_cong:
  "(\<And>r. r \<in> set rows \<Longrightarrow> P r \<longleftrightarrow> Q r) \<Longrightarrow> delete_rows P rows = delete_rows Q rows"
  unfolding delete_rows_def by (rule filter_cong) auto

text \<open>
  The object a query returned is changed or deleted by its primary key; under the two
  uniqueness constraints that is the same as by its unique key.
\<close>

lemma by_id_iff_by_key:
  assumes "distinct (map idf rows)" and "distinct (map key rows)" and "r0 \<in> set rows"
    and "r \<in> set rows"
  shows "idf r = idf r0 \<longleftrightarrow> key r = key r0"
  using assms by (metis distinct_key_eq)

lemma set_rows_by_id:
  assumes "distinct (map idf rows)" and "distinct (map key rows)" and "r0 \<in> set rows"
  shows "set_rows (\<lambda>r. idf r = idf r0) f rows = set_rows (\<lambda>r. key r = key r0) f rows"
  by (rule set_rows_cong) (rule by_id_iff_by_key [OF assms])

lemma delete_rows_by_id:
  assumes "distinct (map idf rows)" and "distinct (map key rows)" and "r0 \<in> set rows"
  shows "delete_rows (\<lambda>r. idf r = idf r0) rows = delete_rows (\<lambda>r. key r = key r0) rows"
  by (rule delete_rows_cong) (rule by_id_iff_by_key [OF assms])

text \<open>The state a method leaves, without the entity it returns.\<close>

definition result_state :: "('a \<times> 's) result \<Rightarrow> 's result" where
  "result_state r = bind_result r (\<lambda>(x, s). Inr s)"

lemma result_state_simps [simp, result_simps]:
  "result_state (Inl e) = Inl e"
  "result_state (Inr (x, s)) = Inr s"
  by (simp_all add: result_state_def)

lemma result_state_Inr: "result_state r = Inr s \<longleftrightarrow> (\<exists>x. r = Inr (x, s))"
  by (cases r) auto


section \<open>Sequences of committed calls\<close>

text \<open>
  A function that makes several calls of the store, each in a session of its own. An
  exception ends the sequence and keeps what the earlier calls have committed.
\<close>

type_synonym ('a, 's) action = "'s \<Rightarrow> 'a result \<times> 's"

definition act_return :: "'a \<Rightarrow> ('a, 's) action" where
  "act_return x = (\<lambda>s. (Inr x, s))"

definition act_raise :: "exn \<Rightarrow> ('a, 's) action" where
  "act_raise e = (\<lambda>s. (Inl e, s))"

definition act_bind :: "('a, 's) action \<Rightarrow> ('a \<Rightarrow> ('b, 's) action) \<Rightarrow> ('b, 's) action" where
  "act_bind m f = (\<lambda>s. case m s of (Inl e, s') \<Rightarrow> (Inl e, s') | (Inr x, s') \<Rightarrow> f x s')"

definition act_read :: "('s \<Rightarrow> 'a result) \<Rightarrow> ('a, 's) action" where
  "act_read f = (\<lambda>s. (f s, s))"

definition act_commit :: "('s \<Rightarrow> 's result) \<Rightarrow> (unit, 's) action" where
  "act_commit f = (\<lambda>s. case f s of Inl e \<Rightarrow> (Inl e, s) | Inr s' \<Rightarrow> (Inr (), s'))"

definition act_when :: "bool \<Rightarrow> (unit, 's) action \<Rightarrow> (unit, 's) action" where
  "act_when b m = (if b then m else act_return ())"

lemma act_simps [simp, result_simps]:
  "act_return x s = (Inr x, s)"
  "act_raise e s = (Inl e, s)"
  "act_read f s = (f s, s)"
  "act_bind (act_return x) g = g x"
  "act_bind (act_raise e) g = act_raise e"
  by (simp_all add: act_return_def act_raise_def act_read_def act_bind_def fun_eq_iff)

lemma act_bind_eval:
  "m s = (Inr x, s') \<Longrightarrow> act_bind m f s = f x s'"
  "m s = (Inl e, s') \<Longrightarrow> act_bind m f s = (Inl e, s')"
  by (simp_all add: act_bind_def)

lemma act_commit_eval:
  "f s = Inr s' \<Longrightarrow> act_commit f s = (Inr (), s')"
  "f s = Inl e \<Longrightarrow> act_commit f s = (Inl e, s)"
  by (simp_all add: act_commit_def)

end
