(* ===== verification/Permissions.thy ===== *)
theory Permissions
  imports Prelude
begin

text \<open>
  \<^verbatim>\<open>mlflow_oidc_auth/permissions.py\<close>: the five permission levels, their capability bits
  and the priority order that group and workspace resolution compare them by.
\<close>

record permission =
  perm_name :: string
  perm_priority :: int
  can_read :: bool
  can_use :: bool
  can_update :: bool
  can_delete :: bool
  can_manage :: bool

definition READ :: permission where
  "READ = \<lparr>perm_name = ''READ'', perm_priority = 1, can_read = True, can_use = False,
     can_update = False, can_delete = False, can_manage = False\<rparr>"

definition USE :: permission where
  "USE = \<lparr>perm_name = ''USE'', perm_priority = 2, can_read = True, can_use = True,
     can_update = False, can_delete = False, can_manage = False\<rparr>"

definition EDIT :: permission where
  "EDIT = \<lparr>perm_name = ''EDIT'', perm_priority = 3, can_read = True, can_use = True,
     can_update = True, can_delete = False, can_manage = False\<rparr>"

definition MANAGE :: permission where
  "MANAGE = \<lparr>perm_name = ''MANAGE'', perm_priority = 4, can_read = True, can_use = True,
     can_update = True, can_delete = True, can_manage = True\<rparr>"

definition NO_PERMISSIONS :: permission where
  "NO_PERMISSIONS = \<lparr>perm_name = ''NO_PERMISSIONS'', perm_priority = 100, can_read = False,
     can_use = False, can_update = False, can_delete = False, can_manage = False\<rparr>"

lemmas permission_constants = READ_def USE_def EDIT_def MANAGE_def NO_PERMISSIONS_def

definition ALL_PERMISSIONS :: "(string \<times> permission) list" where
  "ALL_PERMISSIONS =
     [(perm_name READ, READ), (perm_name USE, USE), (perm_name EDIT, EDIT),
      (perm_name MANAGE, MANAGE), (perm_name NO_PERMISSIONS, NO_PERMISSIONS)]"

definition get_permission :: "string \<Rightarrow> permission result" where
  "get_permission permission =
     (case map_of ALL_PERMISSIONS permission of None \<Rightarrow> Inl KeyError | Some p \<Rightarrow> Inr p)"

definition validate_permission :: "string \<Rightarrow> unit result" where
  "validate_permission permission =
     (if permission \<notin> set (map fst ALL_PERMISSIONS)
      then Inl (MlflowException INVALID_PARAMETER_VALUE) else Inr ())"

definition compare_permissions :: "string \<Rightarrow> string \<Rightarrow> bool result" where
  "compare_permissions permission1 permission2 =
     bind_result (validate_permission permission1) (\<lambda>_.
     bind_result (validate_permission permission2) (\<lambda>_.
     bind_result (get_permission permission1) (\<lambda>p1.
     bind_result (get_permission permission2) (\<lambda>p2.
     Inr (perm_priority p1 \<le> perm_priority p2)))))"

section \<open>The set of valid names\<close>

definition valid_permission :: "string \<Rightarrow> bool" where
  "valid_permission s \<longleftrightarrow> s \<in> set (map fst ALL_PERMISSIONS)"

text \<open>The priority of a valid name, as a total function.\<close>

definition priority_of :: "string \<Rightarrow> int" where
  "priority_of s = (case get_permission s of Inr p \<Rightarrow> perm_priority p | Inl _ \<Rightarrow> 0)"

lemma valid_permission_cases:
  "valid_permission s \<longleftrightarrow>
     s = ''READ'' \<or> s = ''USE'' \<or> s = ''EDIT'' \<or> s = ''MANAGE'' \<or> s = ''NO_PERMISSIONS''"
  by (simp add: valid_permission_def ALL_PERMISSIONS_def permission_constants)

lemma validate_permission_Inr [simp]:
  "validate_permission s = Inr x \<longleftrightarrow> valid_permission s"
  by (simp add: validate_permission_def valid_permission_def)

lemma validate_permission_Inl [simp]:
  "validate_permission s = Inl e \<longleftrightarrow>
   \<not> valid_permission s \<and> e = MlflowException INVALID_PARAMETER_VALUE"
  by (auto simp: validate_permission_def valid_permission_def)

lemma validate_permission_valid: "valid_permission s \<Longrightarrow> validate_permission s = Inr ()"
  by simp

lemma validate_permission_invalid:
  "\<not> valid_permission s \<Longrightarrow> validate_permission s = Inl (MlflowException INVALID_PARAMETER_VALUE)"
  by simp

lemma get_permission_eval [simp, result_simps]:
  "get_permission ''READ'' = Inr READ"
  "get_permission ''USE'' = Inr USE"
  "get_permission ''EDIT'' = Inr EDIT"
  "get_permission ''MANAGE'' = Inr MANAGE"
  "get_permission ''NO_PERMISSIONS'' = Inr NO_PERMISSIONS"
  by (simp_all add: get_permission_def ALL_PERMISSIONS_def permission_constants)

lemma valid_permission_eval [simp]:
  "valid_permission ''READ''" "valid_permission ''USE''" "valid_permission ''EDIT''"
  "valid_permission ''MANAGE''" "valid_permission ''NO_PERMISSIONS''"
  by (simp_all add: valid_permission_cases)

lemma get_permission_valid_iff: "valid_permission s \<longleftrightarrow> (\<exists>p. get_permission s = Inr p)"
  by (auto simp: get_permission_def valid_permission_def map_of_eq_None_iff
        split: option.splits dest: map_of_SomeD intro!: image_eqI)

lemma get_permission_name: "get_permission s = Inr p \<Longrightarrow> perm_name p = s"
proof -
  assume p: "get_permission s = Inr p"
  then have "valid_permission s" by (auto simp: get_permission_valid_iff)
  with p show ?thesis
    by (auto simp: valid_permission_cases) (simp_all add: permission_constants)
qed

lemma get_permission_invalid: "\<not> valid_permission s \<Longrightarrow> get_permission s = Inl KeyError"
  by (auto simp: get_permission_def valid_permission_def map_of_eq_None_iff split: option.splits
        dest: map_of_SomeD)

lemma compare_permissions_valid:
  "valid_permission s \<Longrightarrow> valid_permission t \<Longrightarrow>
   compare_permissions s t = Inr (priority_of s \<le> priority_of t)"
  by (auto simp: compare_permissions_def priority_of_def get_permission_valid_iff
        validate_permission_valid)

lemma compare_permissions_Inr:
  "compare_permissions s t = Inr b \<longleftrightarrow>
   valid_permission s \<and> valid_permission t \<and> b = (priority_of s \<le> priority_of t)"
proof
  assume "compare_permissions s t = Inr b"
  then have "valid_permission s" "valid_permission t"
    by (auto simp: compare_permissions_def)
  with \<open>compare_permissions s t = Inr b\<close>
  show "valid_permission s \<and> valid_permission t \<and> b = (priority_of s \<le> priority_of t)"
    by (simp add: compare_permissions_valid)
qed (simp add: compare_permissions_valid)

lemma priority_of_eval [simp]:
  "priority_of ''READ'' = 1" "priority_of ''USE'' = 2" "priority_of ''EDIT'' = 3"
  "priority_of ''MANAGE'' = 4" "priority_of ''NO_PERMISSIONS'' = 100"
  by (simp_all add: priority_of_def permission_constants)

lemma priority_of_inj:
  "valid_permission s \<Longrightarrow> valid_permission t \<Longrightarrow> priority_of s = priority_of t \<Longrightarrow> s = t"
  by (auto simp: valid_permission_cases)

end
