(* ===== verification/AuthConfig.thy ===== *)
theory AuthConfig
  imports Permissions
begin

text \<open>
  The settings of \<^verbatim>\<open>config.py\<close> that permission resolution reads, and the two functions of
  other code it calls: \<^verbatim>\<open>re.match\<close>, which raises on a pattern that does not compile, and
  the name of an experiment in MLflow's tracking store.
\<close>

record auth_config =
  PERMISSION_SOURCE_ORDER :: "string list"
  DEFAULT_MLFLOW_PERMISSION :: string
  MLFLOW_ENABLE_WORKSPACES :: bool

definition default_config :: auth_config where
  "default_config =
     \<lparr>PERMISSION_SOURCE_ORDER = [''user'', ''group'', ''regex'', ''group-regex''],
      DEFAULT_MLFLOW_PERMISSION = ''MANAGE'', MLFLOW_ENABLE_WORKSPACES = False\<rparr>"

record outside =
  re_match :: "string \<Rightarrow> string \<Rightarrow> bool result"
  experiment_name :: "string \<Rightarrow> string result"

text \<open>An instance: patterns without special characters, and experiments named by their id.\<close>

definition example_outside :: outside where
  "example_outside =
     \<lparr>re_match = (\<lambda>pattern name. Inr (take (length pattern) name = pattern)),
      experiment_name = (\<lambda>i. Inr i)\<rparr>"

end
