(* ===== verification/Cache.thy ===== *)
theory Cache
  imports Prelude "HOL-Library.Sublist"
begin

text \<open>
  The cache backends of \<^verbatim>\<open>mlflow_oidc_auth/cache\<close>. The protocol \<^verbatim>\<open>CacheBackend\<close> is the
  locale \<open>cache_backend\<close>; its laws allow a backend to lose entries at any time, which is what
  expiry and eviction do, and never to answer with a value that was not stored. A client
  that computes on a miss and stores the answer (\<open>cached_compute\<close>) is proved correct once.
\<close>

section \<open>The protocol\<close>

text \<open>
  \<open>cached_compute\<close> is the shape of the callers: look the key up, on a miss compute the value,
  store it when it is to be kept, and answer with it.
\<close>

definition cached_compute :: "('s \<Rightarrow> string \<Rightarrow> 'v option) \<Rightarrow> ('s \<Rightarrow> string \<Rightarrow> 'v \<Rightarrow> 's) \<Rightarrow> string \<Rightarrow>
    'v result \<Rightarrow> 's \<Rightarrow> 'v result \<times> 's" where
  "cached_compute get put key fresh s =
     (case get s key of
        Some v \<Rightarrow> (Inr v, s)
      | None \<Rightarrow> (case fresh of Inl e \<Rightarrow> (Inl e, s) | Inr v \<Rightarrow> (Inr v, put s key v)))"

definition sound_cache :: "('s \<Rightarrow> string \<Rightarrow> 'v option) \<Rightarrow> (string \<Rightarrow> 'v \<Rightarrow> bool) \<Rightarrow> 's \<Rightarrow> bool" where
  "sound_cache get P s \<longleftrightarrow> (\<forall>k v. get s k = Some v \<longrightarrow> P k v)"

locale cache_backend =
  fixes get :: "'s \<Rightarrow> string \<Rightarrow> 'v option"
    and put :: "'s \<Rightarrow> string \<Rightarrow> 'v \<Rightarrow> 's"
    and delete :: "'s \<Rightarrow> string \<Rightarrow> 's"
    and clear :: "'s \<Rightarrow> 's"
  assumes get_put: "get (put s k v) k' = Some w \<Longrightarrow> (k' = k \<and> w = v) \<or> (k' \<noteq> k \<and> get s k' = Some w)"
    and get_delete: "get (delete s k) k' = Some w \<Longrightarrow> k' \<noteq> k \<and> get s k' = Some w"
    and get_clear: "get (clear s) k = None"
begin

lemma sound_put: "sound_cache get P s \<Longrightarrow> P k v \<Longrightarrow> sound_cache get P (put s k v)"
  unfolding sound_cache_def using get_put by blast

lemma sound_delete: "sound_cache get P s \<Longrightarrow> sound_cache get P (delete s k)"
  unfolding sound_cache_def using get_delete by blast

lemma sound_clear: "sound_cache get P (clear s)"
  unfolding sound_cache_def by (simp add: get_clear)

lemma deleted_gone: "get (delete s k) k = None"
  using get_delete [of s k k] by (cases "get (delete s k) k") auto

text \<open>
  With a sound cache the answer satisfies the same property as a fresh one, and the cache
  stays sound.
\<close>

lemma cached_compute_sound:
  assumes "sound_cache get P s" and "\<And>v. fresh = Inr v \<Longrightarrow> P key v"
    and "cached_compute get put key fresh s = (r, s')"
  shows "sound_cache get P s' \<and> (\<forall>v. r = Inr v \<longrightarrow> P key v) \<and>
    (\<forall>e. r = Inl e \<longrightarrow> fresh = Inl e \<and> s' = s)"
proof (cases "get s key")
  case None
  show ?thesis
  proof (cases fresh)
    case (Inl e)
    with None assms(3) have "r = Inl e" "s' = s" by (simp_all add: cached_compute_def)
    with Inl assms(1) show ?thesis by simp
  next
    case (Inr v)
    with None assms(3) have "r = Inr v" "s' = put s key v" by (simp_all add: cached_compute_def)
    with Inr assms(1,2) sound_put show ?thesis by simp
  qed
next
  case (Some v)
  with assms(1,3) show ?thesis by (auto simp: cached_compute_def sound_cache_def)
qed

text \<open>A hit never computes: the answer is the stored value whatever a fresh one would be.\<close>

lemma cached_compute_hit:
  "get s key = Some v \<Longrightarrow> cached_compute get put key fresh s = (Inr v, s)"
  by (simp add: cached_compute_def)

lemma cached_compute_clear:
  "fst (cached_compute get put key fresh (clear s)) = fresh"
  by (simp add: cached_compute_def get_clear split: sum.split)

end

section \<open>The local backend\<close>

text \<open>
  A TTL cache is represented by the entries it holds at the moment; \<open>local_drop\<close> is the
  passing of time and the eviction of entries, which may take any of them away.
\<close>

type_synonym 'v local_cache = "string \<Rightarrow> 'v option"

definition local_get :: "'v local_cache \<Rightarrow> string \<Rightarrow> 'v option" where
  "local_get cache key = cache key"

definition local_set :: "'v local_cache \<Rightarrow> string \<Rightarrow> 'v \<Rightarrow> 'v local_cache" where
  "local_set cache key value = cache(key \<mapsto> value)"

definition local_delete :: "'v local_cache \<Rightarrow> string \<Rightarrow> 'v local_cache" where
  "local_delete cache key = cache(key := None)"

definition local_clear :: "'v local_cache \<Rightarrow> 'v local_cache" where
  "local_clear cache = (\<lambda>_. None)"

definition local_drop :: "(string \<Rightarrow> bool) \<Rightarrow> 'v local_cache \<Rightarrow> 'v local_cache" where
  "local_drop gone cache = (\<lambda>k. if gone k then None else cache k)"

lemmas local_cache_defs = local_get_def local_set_def local_delete_def local_clear_def local_drop_def

interpretation local_backend: cache_backend local_get local_set local_delete local_clear
  by unfold_locales (auto simp: local_cache_defs split: if_splits)

lemma sound_local_drop: "sound_cache local_get P s \<Longrightarrow> sound_cache local_get P (local_drop gone s)"
  by (simp add: sound_cache_def local_cache_defs)

lemma local_get_set_same: "local_get (local_set s k v) k = Some v"
  by (simp add: local_cache_defs)

section \<open>The Redis backend\<close>

text \<open>
  The server maps names to bytes; several backends share it, each under its own prefix.
  Pickling (\<open>dumps\<close>, \<open>loads\<close>) and the pattern match of SCAN (\<open>scan_match\<close>) are library
  functions. \<open>clear\<close> runs SCAN to its end, so it deletes every name that matches.
\<close>

type_synonym redis_server = "string \<Rightarrow> string option"

definition make_key :: "string \<Rightarrow> string \<Rightarrow> string" where
  "make_key prfx key = prfx @ key"

definition redis_get :: "(string \<Rightarrow> 'v) \<Rightarrow> string \<Rightarrow> redis_server \<Rightarrow> string \<Rightarrow> 'v option" where
  "redis_get loads prfx server key =
     (case server (make_key prfx key) of None \<Rightarrow> None | Some raw \<Rightarrow> Some (loads raw))"

definition redis_set :: "('v \<Rightarrow> string) \<Rightarrow> string \<Rightarrow> redis_server \<Rightarrow> string \<Rightarrow> 'v \<Rightarrow> redis_server" where
  "redis_set dumps prfx server key value =
     (let raw = dumps value in server(make_key prfx key \<mapsto> raw))"

definition redis_delete :: "string \<Rightarrow> redis_server \<Rightarrow> string \<Rightarrow> redis_server" where
  "redis_delete prfx server key = server(make_key prfx key := None)"

definition redis_clear :: "(string \<Rightarrow> string \<Rightarrow> bool) \<Rightarrow> string \<Rightarrow> redis_server \<Rightarrow> redis_server" where
  "redis_clear scan_match prfx server =
     (let pattern = prfx @ ''*'' in (\<lambda>name. if scan_match pattern name then None else server name))"

text \<open>What a pattern that ends in a star matches, for a prefix without pattern characters.\<close>

definition plain_prefix :: "string \<Rightarrow> bool" where
  "plain_prefix prfx \<longleftrightarrow> set prfx \<inter> set [CHR ''*'', CHR ''?'', CHR ''['', CHR 0x5C] = {}"

definition scan_ok :: "(string \<Rightarrow> string \<Rightarrow> bool) \<Rightarrow> bool" where
  "scan_ok scan_match \<longleftrightarrow>
     (\<forall>p name. plain_prefix p \<longrightarrow> scan_match (p @ ''*'') name = prefix p name)"

lemma make_key_inj [simp]: "make_key p k = make_key p k' \<longleftrightarrow> k = k'"
  by (simp add: make_key_def)

lemma redis_cache_backend:
  assumes "\<And>v. loads (dumps v) = v" and "scan_ok scan_match" and "plain_prefix p"
  shows "cache_backend (redis_get loads p) (redis_set dumps p) (redis_delete p)
    (redis_clear scan_match p)"
proof unfold_locales
  fix s :: redis_server and k v k' w
  show "k' = k \<and> w = v \<or> k' \<noteq> k \<and> redis_get loads p s k' = Some w"
    if "redis_get loads p (redis_set dumps p s k v) k' = Some w"
    using that assms(1) by (auto simp: redis_get_def redis_set_def Let_def split: if_splits)
  show "k' \<noteq> k \<and> redis_get loads p s k' = Some w"
    if "redis_get loads p (redis_delete p s k) k' = Some w"
    using that by (auto simp: redis_get_def redis_delete_def split: if_splits)
  show "redis_get loads p (redis_clear scan_match p s) k = None"
    using assms(2,3) by (simp add: redis_get_def redis_clear_def Let_def scan_ok_def make_key_def)
qed

text \<open>Backends whose prefixes do not extend one another never see each other's entries.\<close>

definition separate :: "string \<Rightarrow> string \<Rightarrow> bool" where
  "separate p q \<longleftrightarrow> \<not> prefix p q \<and> \<not> prefix q p"

lemma separate_keys: "separate p q \<Longrightarrow> make_key p k \<noteq> make_key q k'"
proof
  assume s: "separate p q" and "make_key p k = make_key q k'"
  then have "p @ k = q @ k'" by (simp only: make_key_def)
  then have "prefix p (p @ k)" "prefix q (p @ k)" unfolding prefix_def by blast+
  then have "prefix p q \<or> prefix q p" by (rule prefix_same_cases)
  with s show False by (simp add: separate_def)
qed

lemma separate_not_prefix: "separate p q \<Longrightarrow> \<not> prefix p (make_key q k)"
  using prefix_same_cases [of p "make_key q k" q] by (auto simp: separate_def make_key_def)

lemma redis_isolated:
  assumes "separate p q" and "scan_ok scan_match" and "plain_prefix p"
  shows "redis_get loads q (redis_set dumps p s k v) k' = redis_get loads q s k'"
    and "redis_get loads q (redis_delete p s k) k' = redis_get loads q s k'"
    and "redis_get loads q (redis_clear scan_match p s) k' = redis_get loads q s k'"
  using separate_keys [OF assms(1), of k k'] separate_not_prefix [OF assms(1), of k'] assms(2,3)
  by (simp_all add: redis_get_def redis_set_def redis_delete_def redis_clear_def Let_def scan_ok_def)

section \<open>The factory\<close>

record cache_config =
  CACHE_BACKEND :: string
  CACHE_REDIS_URL :: "string option"
  CACHE_KEY_PREFIX :: string

datatype backend_choice =
    LocalTTLCacheBackend nat nat
  | RedisCacheBackend string string nat

definition get_cache_backend ::
    "cache_config \<Rightarrow> string \<Rightarrow> nat \<Rightarrow> nat \<Rightarrow> backend_choice result" where
  "get_cache_backend config namespace maxsize ttl =
     (if CACHE_BACKEND config = ''local'' then Inr (LocalTTLCacheBackend maxsize ttl)
      else if CACHE_BACKEND config = ''redis'' then
        (case CACHE_REDIS_URL config of
           None \<Rightarrow> Inl ValueError
         | Some redis_url \<Rightarrow>
             if redis_url = '''' then Inl ValueError
             else
               let full_prefix = CACHE_KEY_PREFIX config @ namespace @ '':''
               in Inr (RedisCacheBackend redis_url full_prefix ttl))
      else Inl ValueError)"

lemma namespace_prefixes_separate:
  assumes "m \<noteq> n" and "CHR '':'' \<notin> set m" and "CHR '':'' \<notin> set n"
  shows "separate (p @ m @ '':'') (p @ n @ '':'')"
proof -
  have "\<not> prefix (a @ '':'') (b @ '':'')" if "a \<noteq> b" "CHR '':'' \<notin> set b" for a b
  proof
    assume "prefix (a @ '':'') (b @ '':'')"
    then have "prefix (a @ '':'') b" using that(1) by (auto simp: prefix_snoc)
    with that(2) show False by (auto simp: prefix_def)
  qed
  with assms show ?thesis by (simp add: separate_def)
qed

end
