(* ===== verification/Database.thy ===== *)
theory Database
  imports Permissions Complex_Main
begin

text \<open>
  The auth database: the rows of \<^verbatim>\<open>mlflow_oidc_auth/db/models\<close>, the entities the
  repositories return (\<^verbatim>\<open>mlflow_oidc_auth/entities\<close>), the look-ups of
  \<^verbatim>\<open>repository/utils.py\<close>, and the integrity constraints (\<open>db_wf\<close>): unique keys,
  foreign keys, and a primary key generator that returns fresh keys.

  A repository method runs inside one managed session, which commits when the block is left
  normally and rolls back when an exception leaves it. A method is therefore a function
  from the database to a result that carries the new database only when it succeeds.
\<close>

section \<open>Rows\<close>

text \<open>
  The model classes come in one family per resource class; the classes of a family have the
  same columns. \<open>rkey\<close> is the value of the columns that identify the resource:
  \<open>experiment_id\<close>, \<open>name\<close>, \<open>endpoint_id\<close>, \<open>secret_id\<close>, \<open>model_definition_id\<close>, or for a
  scorer the pair \<open>experiment_id\<close>, \<open>scorer_name\<close>.
\<close>

datatype resource_class =
    Experiment | RegisteredModel | Scorer
  | GatewayEndpoint | GatewaySecret | GatewayModelDefinition | Workspace

lemma all_resource_class:
  "(\<forall>c. P c) \<longleftrightarrow>
     P Experiment \<and> P RegisteredModel \<and> P Scorer \<and> P GatewayEndpoint \<and> P GatewaySecret \<and>
     P GatewayModelDefinition \<and> P Workspace"
  (is "?lhs \<longleftrightarrow> ?rhs")
proof
  assume ?rhs
  then have "P c" for c by (cases c) simp_all
  then show ?lhs ..
qed simp

lemma ex_resource_class:
  "(\<exists>c. P c) \<longleftrightarrow>
     P Experiment \<or> P RegisteredModel \<or> P Scorer \<or> P GatewayEndpoint \<or> P GatewaySecret \<or>
     P GatewayModelDefinition \<or> P Workspace"
  using all_resource_class [of "\<lambda>c. \<not> P c"] by auto

instantiation resource_class :: enum
begin

definition enum_resource_class :: "resource_class list" where
  "enum_resource_class =
     [Experiment, RegisteredModel, Scorer, GatewayEndpoint, GatewaySecret,
      GatewayModelDefinition, Workspace]"

definition enum_all_resource_class :: "(resource_class \<Rightarrow> bool) \<Rightarrow> bool" where
  "enum_all_resource_class P \<longleftrightarrow>
     P Experiment \<and> P RegisteredModel \<and> P Scorer \<and> P GatewayEndpoint \<and> P GatewaySecret \<and>
     P GatewayModelDefinition \<and> P Workspace"

definition enum_ex_resource_class :: "(resource_class \<Rightarrow> bool) \<Rightarrow> bool" where
  "enum_ex_resource_class P \<longleftrightarrow>
     P Experiment \<or> P RegisteredModel \<or> P Scorer \<or> P GatewayEndpoint \<or> P GatewaySecret \<or>
     P GatewayModelDefinition \<or> P Workspace"

instance
proof
  show "(UNIV :: resource_class set) = set enum_class.enum"
  proof (rule set_eqI)
    fix c :: resource_class
    show "c \<in> UNIV \<longleftrightarrow> c \<in> set enum_class.enum"
      unfolding enum_resource_class_def by (cases c) simp_all
  qed
  show "distinct (enum_class.enum :: resource_class list)"
    unfolding enum_resource_class_def by simp
  show "enum_class.enum_all P \<longleftrightarrow> Ball UNIV P" for P :: "resource_class \<Rightarrow> bool"
    unfolding enum_all_resource_class_def by (simp add: all_resource_class)
  show "enum_class.enum_ex P \<longleftrightarrow> Bex UNIV P" for P :: "resource_class \<Rightarrow> bool"
    unfolding enum_ex_resource_class_def by (simp add: ex_resource_class)
qed

end

datatype rkey = ResourceId string | ScorerKey string string

text \<open>The column named by \<open>resource_id_attr\<close>, read and written.\<close>

fun resource_id_of :: "rkey \<Rightarrow> string" where
  "resource_id_of (ResourceId i) = i"
| "resource_id_of (ScorerKey e n) = e"

fun set_resource_id :: "string \<Rightarrow> rkey \<Rightarrow> rkey" where
  "set_resource_id new (ResourceId i) = ResourceId new"
| "set_resource_id new (ScorerKey e n) = ScorerKey new n"

record user =
  u_id :: nat
  u_username :: string
  u_display_name :: string
  u_password_hash :: string
  u_password_expiration :: "int option"
  u_is_admin :: bool
  u_is_service_account :: bool

record group =
  g_id :: nat
  g_name :: string

record user_group =
  ug_id :: nat
  ug_user :: nat
  ug_group :: nat

record user_perm =
  up_id :: nat
  up_key :: rkey
  up_user :: nat
  up_permission :: string

record group_perm =
  gp_id :: nat
  gp_key :: rkey
  gp_group :: nat
  gp_permission :: string
  gp_prompt :: bool

record regex_perm =
  rp_id :: nat
  rp_regex :: string
  rp_priority :: int
  rp_user :: nat
  rp_permission :: string
  rp_prompt :: bool

record group_regex_perm =
  grp_id :: nat
  grp_regex :: string
  grp_priority :: int
  grp_group :: nat
  grp_permission :: string
  grp_prompt :: bool

record workspace_perm =
  wp_workspace :: string
  wp_user :: nat
  wp_permission :: string

record workspace_group_perm =
  wgp_workspace :: string
  wgp_group :: nat
  wgp_permission :: string

record user_quota =
  q_id :: nat
  q_user :: nat
  q_quota_bytes :: "int option"
  q_used_bytes :: int
  q_soft_cap_fraction :: "rat option"
  q_last_reconciled_at :: "int option"
  q_soft_notified_at :: "int option"
  q_hard_blocked :: bool
  q_email :: "string option"

text \<open>
  The database. \<open>db_new_id\<close> is the engine's primary key generator for a table, given the
  keys in use; it is part of the engine, not of the program.
\<close>

record db =
  db_users :: "user list"
  db_groups :: "group list"
  db_user_groups :: "user_group list"
  db_user_perms :: "resource_class \<Rightarrow> user_perm list"
  db_group_perms :: "resource_class \<Rightarrow> group_perm list"
  db_regex_perms :: "resource_class \<Rightarrow> regex_perm list"
  db_group_regex_perms :: "resource_class \<Rightarrow> group_regex_perm list"
  db_ws_perms :: "workspace_perm list"
  db_ws_group_perms :: "workspace_group_perm list"
  db_quotas :: "user_quota list"
  db_new_id :: "nat list \<Rightarrow> nat"

section \<open>Unique constraints\<close>

definition ug_unique :: "user_group \<Rightarrow> nat \<times> nat" where
  "ug_unique r = (ug_user r, ug_group r)"

definition up_unique :: "user_perm \<Rightarrow> rkey \<times> nat" where
  "up_unique r = (up_key r, up_user r)"

definition gp_unique :: "group_perm \<Rightarrow> rkey \<times> nat" where
  "gp_unique r = (gp_key r, gp_group r)"

definition rp_unique :: "regex_perm \<Rightarrow> string \<times> nat \<times> bool" where
  "rp_unique r = (rp_regex r, rp_user r, rp_prompt r)"

definition grp_unique :: "group_regex_perm \<Rightarrow> string \<times> nat \<times> bool" where
  "grp_unique r = (grp_regex r, grp_group r, grp_prompt r)"

definition wp_unique :: "workspace_perm \<Rightarrow> string \<times> nat" where
  "wp_unique r = (wp_workspace r, wp_user r)"

definition wgp_unique :: "workspace_group_perm \<Rightarrow> string \<times> nat" where
  "wgp_unique r = (wgp_workspace r, wgp_group r)"

lemmas unique_defs = ug_unique_def up_unique_def gp_unique_def rp_unique_def grp_unique_def
  wp_unique_def wgp_unique_def

section \<open>Entities\<close>

record perm_entity =
  pe_key :: rkey
  pe_permission :: string
  pe_user_id :: "nat option"
  pe_group_id :: "nat option"
  pe_prompt :: bool

record regex_entity =
  re_id :: nat
  re_regex :: string
  re_priority :: int
  re_permission :: string
  re_user_id :: "nat option"
  re_group_id :: "nat option"
  re_prompt :: bool

definition user_perm_entity :: "user_perm \<Rightarrow> perm_entity" where
  "user_perm_entity r =
     \<lparr>pe_key = up_key r, pe_permission = up_permission r, pe_user_id = Some (up_user r),
      pe_group_id = None, pe_prompt = False\<rparr>"

definition group_perm_entity :: "group_perm \<Rightarrow> perm_entity" where
  "group_perm_entity r =
     \<lparr>pe_key = gp_key r, pe_permission = gp_permission r, pe_user_id = None,
      pe_group_id = Some (gp_group r), pe_prompt = gp_prompt r\<rparr>"

definition regex_perm_entity :: "regex_perm \<Rightarrow> regex_entity" where
  "regex_perm_entity r =
     \<lparr>re_id = rp_id r, re_regex = rp_regex r, re_priority = rp_priority r,
      re_permission = rp_permission r, re_user_id = Some (rp_user r), re_group_id = None,
      re_prompt = rp_prompt r\<rparr>"

definition group_regex_perm_entity :: "group_regex_perm \<Rightarrow> regex_entity" where
  "group_regex_perm_entity r =
     \<lparr>re_id = grp_id r, re_regex = grp_regex r, re_priority = grp_priority r,
      re_permission = grp_permission r, re_user_id = None, re_group_id = Some (grp_group r),
      re_prompt = grp_prompt r\<rparr>"

lemmas entity_simps [simp, entity_defs] =
  user_perm_entity_def group_perm_entity_def regex_perm_entity_def group_regex_perm_entity_def

section \<open>Look-ups\<close>

definition get_user :: "db \<Rightarrow> string \<Rightarrow> user result" where
  "get_user db username =
     query_one_mlflow (filter (\<lambda>u. u_username u = username) (db_users db))"

definition get_group :: "db \<Rightarrow> string \<Rightarrow> group result" where
  "get_group db group_name =
     query_one_mlflow (filter (\<lambda>g. g_name g = group_name) (db_groups db))"

definition list_user_groups :: "db \<Rightarrow> user \<Rightarrow> user_group list" where
  "list_user_groups db user = filter (\<lambda>ug. ug_user ug = u_id user) (db_user_groups db)"

section \<open>Integrity\<close>

definition table_ok :: "('r \<Rightarrow> nat) \<Rightarrow> ('r \<Rightarrow> 'k) \<Rightarrow> 'r list \<Rightarrow> bool" where
  "table_ok idf key rows \<longleftrightarrow> distinct (map idf rows) \<and> distinct (map key rows)"

definition user_ids :: "db \<Rightarrow> nat set" where
  "user_ids db = u_id ` set (db_users db)"

definition group_ids :: "db \<Rightarrow> nat set" where
  "group_ids db = g_id ` set (db_groups db)"

definition fresh_keys :: "(nat list \<Rightarrow> nat) \<Rightarrow> bool" where
  "fresh_keys f \<longleftrightarrow> (\<forall>ids. f ids \<notin> set ids)"

definition db_keys_ok :: "db \<Rightarrow> bool" where
  "db_keys_ok db \<longleftrightarrow>
     table_ok u_id u_username (db_users db) \<and>
     table_ok g_id g_name (db_groups db) \<and>
     table_ok ug_id ug_unique (db_user_groups db) \<and>
     (\<forall>c. table_ok up_id up_unique (db_user_perms db c)) \<and>
     (\<forall>c. table_ok gp_id gp_unique (db_group_perms db c)) \<and>
     (\<forall>c. table_ok rp_id rp_unique (db_regex_perms db c)) \<and>
     (\<forall>c. table_ok grp_id grp_unique (db_group_regex_perms db c)) \<and>
     distinct (map wp_unique (db_ws_perms db)) \<and>
     distinct (map wgp_unique (db_ws_group_perms db)) \<and>
     table_ok q_id q_user (db_quotas db)"

definition db_refs_ok :: "db \<Rightarrow> bool" where
  "db_refs_ok db \<longleftrightarrow>
     (\<forall>r \<in> set (db_user_groups db). ug_user r \<in> user_ids db \<and> ug_group r \<in> group_ids db) \<and>
     (\<forall>c. \<forall>r \<in> set (db_user_perms db c). up_user r \<in> user_ids db) \<and>
     (\<forall>c. \<forall>r \<in> set (db_group_perms db c). gp_group r \<in> group_ids db) \<and>
     (\<forall>c. \<forall>r \<in> set (db_regex_perms db c). rp_user r \<in> user_ids db) \<and>
     (\<forall>c. \<forall>r \<in> set (db_group_regex_perms db c). grp_group r \<in> group_ids db) \<and>
     (\<forall>r \<in> set (db_ws_perms db). wp_user r \<in> user_ids db) \<and>
     (\<forall>r \<in> set (db_ws_group_perms db). wgp_group r \<in> group_ids db) \<and>
     (\<forall>r \<in> set (db_quotas db). q_user r \<in> user_ids db)"

definition db_wf :: "db \<Rightarrow> bool" where
  "db_wf db \<longleftrightarrow> db_keys_ok db \<and> db_refs_ok db \<and> fresh_keys (db_new_id db)"


section \<open>Consequences of integrity\<close>

lemma db_wf_keys:
  assumes "db_wf db"
  shows "table_ok u_id u_username (db_users db)"
    and "table_ok g_id g_name (db_groups db)"
    and "table_ok ug_id ug_unique (db_user_groups db)"
    and "table_ok up_id up_unique (db_user_perms db c)"
    and "table_ok gp_id gp_unique (db_group_perms db c)"
    and "table_ok rp_id rp_unique (db_regex_perms db c)"
    and "table_ok grp_id grp_unique (db_group_regex_perms db c)"
    and "distinct (map wp_unique (db_ws_perms db))"
    and "distinct (map wgp_unique (db_ws_group_perms db))"
    and "table_ok q_id q_user (db_quotas db)"
    and "fresh_keys (db_new_id db)"
  using assms by (simp_all add: db_wf_def db_keys_ok_def)

lemma db_wf_refs:
  assumes "db_wf db"
  shows "r1 \<in> set (db_user_groups db) \<Longrightarrow> ug_user r1 \<in> user_ids db"
    and "r1 \<in> set (db_user_groups db) \<Longrightarrow> ug_group r1 \<in> group_ids db"
    and "r2 \<in> set (db_user_perms db c) \<Longrightarrow> up_user r2 \<in> user_ids db"
    and "r3 \<in> set (db_group_perms db c) \<Longrightarrow> gp_group r3 \<in> group_ids db"
    and "r4 \<in> set (db_regex_perms db c) \<Longrightarrow> rp_user r4 \<in> user_ids db"
    and "r5 \<in> set (db_group_regex_perms db c) \<Longrightarrow> grp_group r5 \<in> group_ids db"
    and "r6 \<in> set (db_ws_perms db) \<Longrightarrow> wp_user r6 \<in> user_ids db"
    and "r7 \<in> set (db_ws_group_perms db) \<Longrightarrow> wgp_group r7 \<in> group_ids db"
    and "r8 \<in> set (db_quotas db) \<Longrightarrow> q_user r8 \<in> user_ids db"
  using assms by (auto simp: db_wf_def db_refs_ok_def)

lemma table_okD:
  assumes "table_ok idf key rows"
  shows "distinct (map idf rows)" and "distinct (map key rows)"
  using assms by (simp_all add: table_ok_def)

lemma table_ok_append:
  assumes "table_ok idf key rows" and "idf r \<notin> set (map idf rows)" and "key r \<notin> set (map key rows)"
  shows "table_ok idf key (rows @ [r])"
  using assms by (auto simp: table_ok_def)

lemma table_ok_insert:
  assumes "table_ok idf key rows" and "insert_row key r rows = Inr rows'"
    and "idf r \<notin> set (map idf rows)"
  shows "table_ok idf key rows'"
  using assms by (auto simp: insert_row_Inr intro!: table_ok_append)

lemma table_ok_delete: "table_ok idf key rows \<Longrightarrow> table_ok idf key (delete_rows P rows)"
  by (simp add: table_ok_def delete_rows_distinct)

lemma table_ok_set_rows:
  assumes "table_ok idf key rows"
    and "\<And>r. r \<in> set rows \<Longrightarrow> P r \<Longrightarrow> idf (f r) = idf r"
    and "\<And>r. r \<in> set rows \<Longrightarrow> P r \<Longrightarrow> key (f r) = key r"
  shows "table_ok idf key (set_rows P f rows)"
  using assms by (simp add: table_ok_def set_rows_map_same)

lemma table_ok_update:
  assumes "table_ok idf key rows" and "update_rows key P f rows = Inr rows'"
    and "\<And>r. r \<in> set rows \<Longrightarrow> P r \<Longrightarrow> idf (f r) = idf r"
  shows "table_ok idf key rows'"
  using assms by (auto simp: table_ok_def update_rows_Inr set_rows_map_same)

lemma fresh_keys_notin [simp]: "fresh_keys f \<Longrightarrow> f ids \<notin> set ids"
  by (simp add: fresh_keys_def)

lemma fresh_keys_new_id: "db_wf db \<Longrightarrow> db_new_id db (map idf rows) \<notin> set (map idf rows)"
  using db_wf_keys(11) [of db] unfolding fresh_keys_def by blast

text \<open>SQLite's rule for a row id, one more than the largest in use, is one fresh generator.\<close>

definition max_plus_one :: "nat list \<Rightarrow> nat" where
  "max_plus_one ids = Suc (foldr max ids 0)"

lemma max_plus_one_bound: "i \<in> set ids \<Longrightarrow> i < max_plus_one ids"
  unfolding max_plus_one_def by (induction ids) auto

lemma fresh_keys_max_plus_one [simp]: "fresh_keys max_plus_one"
  unfolding fresh_keys_def using max_plus_one_bound less_irrefl by blast

subsection \<open>Users and groups\<close>

lemma get_user_Inr:
  assumes "db_wf db"
  shows "get_user db n = Inr u \<longleftrightarrow> u \<in> set (db_users db) \<and> u_username u = n"
proof
  assume "get_user db n = Inr u"
  then have "filter (\<lambda>u. u_username u = n) (db_users db) = [u]"
    by (simp add: get_user_def query_one_mlflow_Inr)
  then show "u \<in> set (db_users db) \<and> u_username u = n"
    by (auto dest: filter_eq_ConsD)
next
  assume "u \<in> set (db_users db) \<and> u_username u = n"
  then have "filter (\<lambda>u. u_username u = n) (db_users db) = [u]"
    using table_okD(2) [OF db_wf_keys(1) [OF assms]]
    by (intro filter_unique [where key = u_username]) auto
  then show "get_user db n = Inr u" by (simp add: get_user_def)
qed

lemma get_group_Inr:
  assumes "db_wf db"
  shows "get_group db n = Inr g \<longleftrightarrow> g \<in> set (db_groups db) \<and> g_name g = n"
proof
  assume "get_group db n = Inr g"
  then have "filter (\<lambda>g. g_name g = n) (db_groups db) = [g]"
    by (simp add: get_group_def query_one_mlflow_Inr)
  then show "g \<in> set (db_groups db) \<and> g_name g = n"
    by (auto dest: filter_eq_ConsD)
next
  assume "g \<in> set (db_groups db) \<and> g_name g = n"
  then have "filter (\<lambda>g. g_name g = n) (db_groups db) = [g]"
    using table_okD(2) [OF db_wf_keys(2) [OF assms]]
    by (intro filter_unique [where key = g_name]) auto
  then show "get_group db n = Inr g" by (simp add: get_group_def)
qed

lemma get_user_Inr_mem:
  "get_user db n = Inr u \<Longrightarrow> u \<in> set (db_users db) \<and> u_username u = n"
  by (auto simp: get_user_def query_one_mlflow_Inr dest: filter_eq_ConsD)

lemma get_group_Inr_mem:
  "get_group db n = Inr g \<Longrightarrow> g \<in> set (db_groups db) \<and> g_name g = n"
  by (auto simp: get_group_def query_one_mlflow_Inr dest: filter_eq_ConsD)

lemma get_user_id: "get_user db n = Inr u \<Longrightarrow> u_id u \<in> user_ids db"
  by (auto simp: user_ids_def dest: get_user_Inr_mem)

lemma get_group_id: "get_group db n = Inr g \<Longrightarrow> g_id g \<in> group_ids db"
  by (auto simp: group_ids_def dest: get_group_Inr_mem)

lemma get_user_Inl:
  assumes "db_wf db" and "get_user db n = Inl e"
  shows "e = MlflowException RESOURCE_DOES_NOT_EXIST \<and> n \<notin> u_username ` set (db_users db)"
proof -
  have n: "n \<notin> u_username ` set (db_users db)"
  proof
    assume "n \<in> u_username ` set (db_users db)"
    then obtain u where "u \<in> set (db_users db)" "u_username u = n" by blast
    then have "get_user db n = Inr u" by (simp add: get_user_Inr [OF assms(1)])
    with assms(2) show False by simp
  qed
  then have "filter (\<lambda>u. u_username u = n) (db_users db) = []"
    by (auto simp: filter_empty_conv)
  with assms(2) n show ?thesis by (simp add: get_user_def)
qed

lemma get_group_Inl:
  assumes "db_wf db" and "get_group db n = Inl e"
  shows "e = MlflowException RESOURCE_DOES_NOT_EXIST \<and> n \<notin> g_name ` set (db_groups db)"
proof -
  have n: "n \<notin> g_name ` set (db_groups db)"
  proof
    assume "n \<in> g_name ` set (db_groups db)"
    then obtain g where "g \<in> set (db_groups db)" "g_name g = n" by blast
    then have "get_group db n = Inr g" by (simp add: get_group_Inr [OF assms(1)])
    with assms(2) show False by simp
  qed
  then have "filter (\<lambda>g. g_name g = n) (db_groups db) = []"
    by (auto simp: filter_empty_conv)
  with assms(2) n show ?thesis by (simp add: get_group_def)
qed

lemma user_eq_by_id:
  "db_wf db \<Longrightarrow> u \<in> set (db_users db) \<Longrightarrow> v \<in> set (db_users db) \<Longrightarrow> u_id u = u_id v \<Longrightarrow> u = v"
  using table_okD(1) [OF db_wf_keys(1)] by (rule distinct_key_eq)

lemma group_eq_by_id:
  "db_wf db \<Longrightarrow> g \<in> set (db_groups db) \<Longrightarrow> h \<in> set (db_groups db) \<Longrightarrow> g_id g = g_id h \<Longrightarrow> g = h"
  using table_okD(1) [OF db_wf_keys(2)] by (rule distinct_key_eq)

text \<open>
  A look-up of a user or a group reads only its own table, so any operation that leaves that
  table alone leaves the look-up alone.
\<close>

lemma get_user_cong: "db_users db' = db_users db \<Longrightarrow> get_user db' n = get_user db n"
  by (simp add: get_user_def)

lemma get_group_cong: "db_groups db' = db_groups db \<Longrightarrow> get_group db' n = get_group db n"
  by (simp add: get_group_def)

lemma lookup_frame [simp]:
  "get_user (db\<lparr>db_user_perms := x1\<rparr>) n = get_user db n"
  "get_user (db\<lparr>db_group_perms := x2\<rparr>) n = get_user db n"
  "get_user (db\<lparr>db_regex_perms := x3\<rparr>) n = get_user db n"
  "get_user (db\<lparr>db_group_regex_perms := x4\<rparr>) n = get_user db n"
  "get_user (db\<lparr>db_ws_perms := x5\<rparr>) n = get_user db n"
  "get_user (db\<lparr>db_ws_group_perms := x6\<rparr>) n = get_user db n"
  "get_user (db\<lparr>db_quotas := x7\<rparr>) n = get_user db n"
  "get_user (db\<lparr>db_user_groups := x8\<rparr>) n = get_user db n"
  "get_user (db\<lparr>db_groups := x9\<rparr>) n = get_user db n"
  "get_group (db\<lparr>db_user_perms := x1\<rparr>) n = get_group db n"
  "get_group (db\<lparr>db_group_perms := x2\<rparr>) n = get_group db n"
  "get_group (db\<lparr>db_regex_perms := x3\<rparr>) n = get_group db n"
  "get_group (db\<lparr>db_group_regex_perms := x4\<rparr>) n = get_group db n"
  "get_group (db\<lparr>db_ws_perms := x5\<rparr>) n = get_group db n"
  "get_group (db\<lparr>db_ws_group_perms := x6\<rparr>) n = get_group db n"
  "get_group (db\<lparr>db_quotas := x7\<rparr>) n = get_group db n"
  "get_group (db\<lparr>db_user_groups := x8\<rparr>) n = get_group db n"
  "get_group (db\<lparr>db_users := x10\<rparr>) n = get_group db n"
  by (simp_all add: get_user_def get_group_def)

subsection \<open>Preservation, one table at a time\<close>

lemma db_wf_set_user_perms:
  assumes "db_wf db" and "table_ok up_id up_unique rows"
    and "\<And>r. r \<in> set rows \<Longrightarrow> up_user r \<in> user_ids db"
  shows "db_wf (db\<lparr>db_user_perms := (db_user_perms db)(c := rows)\<rparr>)"
  using assms by (auto simp: db_wf_def db_keys_ok_def db_refs_ok_def user_ids_def group_ids_def)

lemma db_wf_set_group_perms:
  assumes "db_wf db" and "table_ok gp_id gp_unique rows"
    and "\<And>r. r \<in> set rows \<Longrightarrow> gp_group r \<in> group_ids db"
  shows "db_wf (db\<lparr>db_group_perms := (db_group_perms db)(c := rows)\<rparr>)"
  using assms by (auto simp: db_wf_def db_keys_ok_def db_refs_ok_def user_ids_def group_ids_def)

lemma db_wf_set_regex_perms:
  assumes "db_wf db" and "table_ok rp_id rp_unique rows"
    and "\<And>r. r \<in> set rows \<Longrightarrow> rp_user r \<in> user_ids db"
  shows "db_wf (db\<lparr>db_regex_perms := (db_regex_perms db)(c := rows)\<rparr>)"
  using assms by (auto simp: db_wf_def db_keys_ok_def db_refs_ok_def user_ids_def group_ids_def)

lemma db_wf_set_group_regex_perms:
  assumes "db_wf db" and "table_ok grp_id grp_unique rows"
    and "\<And>r. r \<in> set rows \<Longrightarrow> grp_group r \<in> group_ids db"
  shows "db_wf (db\<lparr>db_group_regex_perms := (db_group_regex_perms db)(c := rows)\<rparr>)"
  using assms by (auto simp: db_wf_def db_keys_ok_def db_refs_ok_def user_ids_def group_ids_def)

lemma db_wf_set_ws_perms:
  assumes "db_wf db" and "distinct (map wp_unique rows)"
    and "\<And>r. r \<in> set rows \<Longrightarrow> wp_user r \<in> user_ids db"
  shows "db_wf (db\<lparr>db_ws_perms := rows\<rparr>)"
  using assms by (auto simp: db_wf_def db_keys_ok_def db_refs_ok_def user_ids_def group_ids_def)

lemma db_wf_set_ws_group_perms:
  assumes "db_wf db" and "distinct (map wgp_unique rows)"
    and "\<And>r. r \<in> set rows \<Longrightarrow> wgp_group r \<in> group_ids db"
  shows "db_wf (db\<lparr>db_ws_group_perms := rows\<rparr>)"
  using assms by (auto simp: db_wf_def db_keys_ok_def db_refs_ok_def user_ids_def group_ids_def)

lemma db_wf_set_user_groups:
  assumes "db_wf db" and "table_ok ug_id ug_unique rows"
    and "\<And>r. r \<in> set rows \<Longrightarrow> ug_user r \<in> user_ids db \<and> ug_group r \<in> group_ids db"
  shows "db_wf (db\<lparr>db_user_groups := rows\<rparr>)"
  using assms by (auto simp: db_wf_def db_keys_ok_def db_refs_ok_def user_ids_def group_ids_def)

lemma db_wf_set_quotas:
  assumes "db_wf db" and "table_ok q_id q_user rows"
    and "\<And>r. r \<in> set rows \<Longrightarrow> q_user r \<in> user_ids db"
  shows "db_wf (db\<lparr>db_quotas := rows\<rparr>)"
  using assms by (auto simp: db_wf_def db_keys_ok_def db_refs_ok_def user_ids_def group_ids_def)

lemma db_wf_set_users:
  assumes "db_wf db" and "table_ok u_id u_username rows" and "user_ids db \<subseteq> u_id ` set rows"
  shows "db_wf (db\<lparr>db_users := rows\<rparr>)"
  using assms
  by (auto simp: db_wf_def db_keys_ok_def db_refs_ok_def user_ids_def group_ids_def subset_iff)

lemma db_wf_set_groups:
  assumes "db_wf db" and "table_ok g_id g_name rows" and "group_ids db \<subseteq> g_id ` set rows"
  shows "db_wf (db\<lparr>db_groups := rows\<rparr>)"
  using assms
  by (auto simp: db_wf_def db_keys_ok_def db_refs_ok_def user_ids_def group_ids_def subset_iff)

text \<open>The empty database, where the migrations leave the store.\<close>

definition empty_db :: "(nat list \<Rightarrow> nat) \<Rightarrow> db" where
  "empty_db f =
     \<lparr>db_users = [], db_groups = [], db_user_groups = [], db_user_perms = (\<lambda>_. []),
      db_group_perms = (\<lambda>_. []), db_regex_perms = (\<lambda>_. []), db_group_regex_perms = (\<lambda>_. []),
      db_ws_perms = [], db_ws_group_perms = [], db_quotas = [], db_new_id = f\<rparr>"

lemma db_wf_empty: "fresh_keys f \<Longrightarrow> db_wf (empty_db f)"
  by (simp add: empty_db_def db_wf_def db_keys_ok_def db_refs_ok_def table_ok_def)


section \<open>A small database\<close>

text \<open>Two users, two groups and a few rows, where the properties are applied.\<close>

definition example_db :: db where
  "example_db =
     \<lparr>db_users =
        [\<lparr>u_id = 1, u_username = ''alice'', u_display_name = ''Alice'', u_password_hash = ''pw'',
          u_password_expiration = Some 50, u_is_admin = False, u_is_service_account = False\<rparr>,
         \<lparr>u_id = 2, u_username = ''bob'', u_display_name = ''Bob'', u_password_hash = ''pw2'',
          u_password_expiration = None, u_is_admin = True, u_is_service_account = False\<rparr>],
      db_groups = [\<lparr>g_id = 1, g_name = ''devs''\<rparr>, \<lparr>g_id = 2, g_name = ''ops''\<rparr>],
      db_user_groups = [\<lparr>ug_id = 7, ug_user = 1, ug_group = 1\<rparr>, \<lparr>ug_id = 8, ug_user = 1, ug_group = 2\<rparr>],
      db_user_perms = (\<lambda>_. [])
        (Experiment :=
           [\<lparr>up_id = 1, up_key = ResourceId ''10'', up_user = 1, up_permission = ''READ''\<rparr>]),
      db_group_perms = (\<lambda>_. [])
        (Experiment :=
           [\<lparr>gp_id = 1, gp_key = ResourceId ''20'', gp_group = 1, gp_permission = ''READ'',
             gp_prompt = False\<rparr>,
            \<lparr>gp_id = 2, gp_key = ResourceId ''20'', gp_group = 2, gp_permission = ''EDIT'',
             gp_prompt = False\<rparr>],
         GatewayEndpoint :=
           [\<lparr>gp_id = 1, gp_key = ResourceId ''ep'', gp_group = 1, gp_permission = ''USE'',
             gp_prompt = False\<rparr>]),
      db_regex_perms = (\<lambda>_. [])
        (Experiment :=
           [\<lparr>rp_id = 1, rp_regex = ''b'', rp_priority = 2, rp_user = 1, rp_permission = ''EDIT'',
             rp_prompt = False\<rparr>,
            \<lparr>rp_id = 2, rp_regex = ''a'', rp_priority = 1, rp_user = 1, rp_permission = ''USE'',
             rp_prompt = False\<rparr>]),
      db_group_regex_perms = (\<lambda>_. [])
        (Experiment :=
           [\<lparr>grp_id = 1, grp_regex = ''a'', grp_priority = 5, grp_group = 2,
             grp_permission = ''MANAGE'', grp_prompt = False\<rparr>]),
      db_ws_perms = [\<lparr>wp_workspace = ''w1'', wp_user = 1, wp_permission = ''MANAGE''\<rparr>],
      db_ws_group_perms =
        [\<lparr>wgp_workspace = ''w2'', wgp_group = 1, wgp_permission = ''READ''\<rparr>,
         \<lparr>wgp_workspace = ''w2'', wgp_group = 2, wgp_permission = ''EDIT''\<rparr>],
      db_quotas =
        [\<lparr>q_id = 1, q_user = 1, q_quota_bytes = Some 100, q_used_bytes = 40,
          q_soft_cap_fraction = None, q_last_reconciled_at = None, q_soft_notified_at = None,
          q_hard_blocked = False, q_email = None\<rparr>],
      db_new_id = max_plus_one\<rparr>"

lemma example_db_sel [simp]:
  "db_users example_db =
        [\<lparr>u_id = 1, u_username = ''alice'', u_display_name = ''Alice'', u_password_hash = ''pw'',
          u_password_expiration = Some 50, u_is_admin = False, u_is_service_account = False\<rparr>,
         \<lparr>u_id = 2, u_username = ''bob'', u_display_name = ''Bob'', u_password_hash = ''pw2'',
          u_password_expiration = None, u_is_admin = True, u_is_service_account = False\<rparr>]"
  "db_groups example_db = [\<lparr>g_id = 1, g_name = ''devs''\<rparr>, \<lparr>g_id = 2, g_name = ''ops''\<rparr>]"
  "db_user_groups example_db =
     [\<lparr>ug_id = 7, ug_user = 1, ug_group = 1\<rparr>, \<lparr>ug_id = 8, ug_user = 1, ug_group = 2\<rparr>]"
  "db_new_id example_db = max_plus_one"
  by (simp_all add: example_db_def)

lemma example_db_wf: "db_wf example_db"
  by (simp add: db_wf_def db_keys_ok_def db_refs_ok_def table_ok_def all_resource_class
        user_ids_def group_ids_def unique_defs) (simp add: example_db_def unique_defs)

lemma example_get_user [simp]:
  "get_user example_db ''alice'' = Inr (db_users example_db ! 0)"
  "get_user example_db ''bob'' = Inr (db_users example_db ! 1)"
  by (simp_all add: get_user_def)

lemma example_get_group [simp]:
  "get_group example_db ''devs'' = Inr (db_groups example_db ! 0)"
  "get_group example_db ''ops'' = Inr (db_groups example_db ! 1)"
  by (simp_all add: get_group_def)

end
