(* ===== verification/GroupRepo.thy ===== *)
theory GroupRepo
  imports Database
begin

text \<open>
  \<^verbatim>\<open>GroupRepository\<close> (\<^verbatim>\<open>repository/group.py\<close>): the groups and who is in them. Group
  membership decides the group sources of every permission resolution, so the main facts
  are about \<open>set_groups_for_user\<close>, which the login flow calls with the groups of the token.
\<close>

section \<open>Entities\<close>

record user_entity =
  ue_user :: user
  ue_experiment_permissions :: "perm_entity list"
  ue_registered_model_permissions :: "perm_entity list"
  ue_scorer_permissions :: "perm_entity list"
  ue_gateway_endpoint_permissions :: "perm_entity list"
  ue_gateway_model_definition_permissions :: "perm_entity list"
  ue_gateway_secret_permissions :: "perm_entity list"
  ue_groups :: "group list"

definition user_perm_relation :: "resource_class \<Rightarrow> db \<Rightarrow> user \<Rightarrow> perm_entity list" where
  "user_perm_relation c db u =
     map user_perm_entity (filter (\<lambda>r. up_user r = u_id u) (db_user_perms db c))"

definition user_groups_relation :: "db \<Rightarrow> user \<Rightarrow> group list" where
  "user_groups_relation db u =
     filter (\<lambda>g. g_id g \<in> set (map ug_group (list_user_groups db u))) (db_groups db)"

definition user_to_entity :: "db \<Rightarrow> user \<Rightarrow> user_entity" where
  "user_to_entity db u =
     \<lparr>ue_user = u,
      ue_experiment_permissions = user_perm_relation Experiment db u,
      ue_registered_model_permissions = user_perm_relation RegisteredModel db u,
      ue_scorer_permissions = user_perm_relation Scorer db u,
      ue_gateway_endpoint_permissions = user_perm_relation GatewayEndpoint db u,
      ue_gateway_model_definition_permissions = user_perm_relation GatewayModelDefinition db u,
      ue_gateway_secret_permissions = user_perm_relation GatewaySecret db u,
      ue_groups = user_groups_relation db u\<rparr>"

section \<open>Operations\<close>

text \<open>\<^verbatim>\<open>dict.fromkeys\<close>: the distinct elements, each at its first position.\<close>

fun dict_fromkeys :: "'a list \<Rightarrow> 'a list" where
  "dict_fromkeys [] = []"
| "dict_fromkeys (x # xs) = x # filter (\<lambda>y. y \<noteq> x) (dict_fromkeys xs)"

definition add_group_row :: "db \<Rightarrow> string \<Rightarrow> db result" where
  "add_group_row db group_name =
     bind_result
       (insert_row g_name \<lparr>g_id = db_new_id db (map g_id (db_groups db)), g_name = group_name\<rparr>
          (db_groups db))
       (\<lambda>rows. Inr (db\<lparr>db_groups := rows\<rparr>))"

definition create_group :: "db \<Rightarrow> string \<Rightarrow> db result" where
  "create_group db group_name =
     on_integrity_error RESOURCE_ALREADY_EXISTS (add_group_row db group_name)"

fun create_groups_loop :: "db \<Rightarrow> string list \<Rightarrow> db result" where
  "create_groups_loop db [] = Inr db"
| "create_groups_loop db (group_name # names) =
     (case query_first (filter (\<lambda>g. g_name g = group_name) (db_groups db)) of
        None \<Rightarrow> bind_result (add_group_row db group_name) (\<lambda>db'. create_groups_loop db' names)
      | Some _ \<Rightarrow> create_groups_loop db names)"

definition create_groups :: "db \<Rightarrow> string list \<Rightarrow> db result" where
  "create_groups db group_names = create_groups_loop db (dict_fromkeys group_names)"

definition list_groups :: "db \<Rightarrow> string list" where
  "list_groups db = map g_name (db_groups db)"

definition group_referenced :: "db \<Rightarrow> nat \<Rightarrow> bool" where
  "group_referenced db gid \<longleftrightarrow>
     list_ex (\<lambda>c. list_ex (\<lambda>r. gp_group r = gid) (db_group_perms db c) \<or>
                  list_ex (\<lambda>r. grp_group r = gid) (db_group_regex_perms db c))
       enum_class.enum \<or>
     list_ex (\<lambda>r. wgp_group r = gid) (db_ws_group_perms db)"

text \<open>
  Deleting a group deletes its membership rows (the many-to-many relationship). Whether the
  permission rows that still refer to it stop the deletion is up to the engine: \<open>enforce_fk\<close>
  says whether it checks foreign keys.
\<close>

definition delete_group :: "bool \<Rightarrow> db \<Rightarrow> string \<Rightarrow> db result" where
  "delete_group enforce_fk db group_name =
     bind_result (query_one_mlflow (filter (\<lambda>g. g_name g = group_name) (db_groups db))) (\<lambda>grp.
     if enforce_fk \<and> group_referenced db (g_id grp) then Inl IntegrityError
     else Inr (db\<lparr>db_user_groups := delete_rows (\<lambda>r. ug_group r = g_id grp) (db_user_groups db),
                  db_groups := delete_rows (\<lambda>g. g_id g = g_id grp) (db_groups db)\<rparr>))"

definition add_user_group_row :: "db \<Rightarrow> nat \<Rightarrow> nat \<Rightarrow> db result" where
  "add_user_group_row db uid gid =
     bind_result
       (insert_row ug_unique
          \<lparr>ug_id = db_new_id db (map ug_id (db_user_groups db)), ug_user = uid, ug_group = gid\<rparr>
          (db_user_groups db))
       (\<lambda>rows. Inr (db\<lparr>db_user_groups := rows\<rparr>))"

definition add_user_to_group :: "db \<Rightarrow> string \<Rightarrow> string \<Rightarrow> db result" where
  "add_user_to_group db username group_name =
     bind_result (get_user db username) (\<lambda>user.
     bind_result (get_group db group_name) (\<lambda>grp.
     add_user_group_row db (u_id user) (g_id grp)))"

definition remove_user_from_group :: "db \<Rightarrow> string \<Rightarrow> string \<Rightarrow> db result" where
  "remove_user_from_group db username group_name =
     bind_result (get_user db username) (\<lambda>user.
     bind_result (get_group db group_name) (\<lambda>grp.
     bind_result (query_one (filter (\<lambda>r. ug_user r = u_id user \<and> ug_group r = g_id grp)
                    (db_user_groups db))) (\<lambda>ug.
     Inr (db\<lparr>db_user_groups := delete_rows (\<lambda>r. ug_id r = ug_id ug) (db_user_groups db)\<rparr>))))"

definition list_group_members :: "db \<Rightarrow> string \<Rightarrow> user_entity list result" where
  "list_group_members db group_name =
     bind_result (get_group db group_name) (\<lambda>grp.
     let user_ids = map ug_user (filter (\<lambda>r. ug_group r = g_id grp) (db_user_groups db))
     in Inr (map (user_to_entity db) (filter (\<lambda>u. u_id u \<in> set user_ids) (db_users db))))"

definition list_groups_for_user :: "db \<Rightarrow> string \<Rightarrow> string list result" where
  "list_groups_for_user db username =
     bind_result (get_user db username) (\<lambda>user.
     let user_groups_ids = list_user_groups db user
     in Inr (map g_name (filter (\<lambda>g. g_id g \<in> set (map ug_group user_groups_ids)) (db_groups db))))"

definition list_group_ids_for_user :: "db \<Rightarrow> string \<Rightarrow> nat list result" where
  "list_group_ids_for_user db username =
     bind_result (get_user db username) (\<lambda>user. Inr (map ug_group (list_user_groups db user)))"

fun delete_user_group_rows :: "user_group list \<Rightarrow> user_group list \<Rightarrow> user_group list" where
  "delete_user_group_rows [] rows = rows"
| "delete_user_group_rows (ug # ugs) rows =
     delete_user_group_rows ugs (delete_rows (\<lambda>r. ug_id r = ug_id ug) rows)"

fun set_groups_loop :: "db \<Rightarrow> user \<Rightarrow> string list \<Rightarrow> db result" where
  "set_groups_loop db user [] = Inr db"
| "set_groups_loop db user (group_name # names) =
     bind_result (get_group db group_name) (\<lambda>group.
     bind_result (add_user_group_row db (u_id user) (g_id group)) (\<lambda>db'.
     set_groups_loop db' user names))"

definition set_groups_for_user :: "db \<Rightarrow> string \<Rightarrow> string list \<Rightarrow> db result" where
  "set_groups_for_user db username group_names =
     bind_result (get_user db username) (\<lambda>user.
     set_groups_loop
       (db\<lparr>db_user_groups := delete_user_group_rows (list_user_groups db user) (db_user_groups db)\<rparr>)
       user (dict_fromkeys group_names))"

section \<open>Membership\<close>

text \<open>Who is in which group, by name: what group membership means to the callers.\<close>

definition member_of :: "db \<Rightarrow> string \<Rightarrow> string \<Rightarrow> bool" where
  "member_of db username group_name \<longleftrightarrow>
     (case (get_user db username, get_group db group_name) of
        (Inr u, Inr g) \<Rightarrow> (u_id u, g_id g) \<in> ug_unique ` set (db_user_groups db)
      | _ \<Rightarrow> False)"

lemma set_dict_fromkeys [simp]: "set (dict_fromkeys xs) = set xs"
  by (induction xs) auto

lemma distinct_dict_fromkeys [simp]: "distinct (dict_fromkeys xs)"
  by (induction xs) auto

lemma dict_fromkeys_distinct: "distinct xs \<Longrightarrow> dict_fromkeys xs = xs"
proof (induction xs)
  case (Cons x xs)
  then show ?case by (auto simp: filter_id_conv)
qed simp

lemma list_groups_for_user_set:
  assumes "db_wf db" and "get_user db n = Inr u"
  shows "\<exists>gs. list_groups_for_user db n = Inr gs \<and> set gs = {g. member_of db n g} \<and> distinct gs"
proof -
  let ?gs = "map g_name (filter (\<lambda>g. g_id g \<in> ug_group ` set (list_user_groups db u)) (db_groups db))"
  have "member_of db n g \<longleftrightarrow> g \<in> set ?gs" for g
  proof (cases "get_group db g")
    case (Inl e)
    then have "g \<notin> g_name ` set (db_groups db)" using get_group_Inl [OF assms(1)] by blast
    with Inl show ?thesis by (auto simp: member_of_def split: sum.split)
  next
    case (Inr h)
    then have h: "h \<in> set (db_groups db)" "g_name h = g" by (simp_all add: get_group_Inr [OF assms(1)])
    have "member_of db n g \<longleftrightarrow> g_id h \<in> ug_group ` set (list_user_groups db u)"
      by (force simp: member_of_def assms(2) Inr ug_unique_def list_user_groups_def)
    also have "\<dots> \<longleftrightarrow> g \<in> set ?gs"
    proof
      assume "g_id h \<in> ug_group ` set (list_user_groups db u)"
      with h show "g \<in> set ?gs" by (auto intro!: image_eqI [of _ _ h])
    next
      assume "g \<in> set ?gs"
      then obtain k where "k \<in> set (db_groups db)" "g_name k = g"
        and k: "g_id k \<in> ug_group ` set (list_user_groups db u)" by auto
      then have "k = h" using h distinct_key_eq [OF table_okD(2) [OF db_wf_keys(2) [OF assms(1)]]] by blast
      with k show "g_id h \<in> ug_group ` set (list_user_groups db u)" by simp
    qed
    finally show ?thesis .
  qed
  moreover have "distinct ?gs"
    using table_okD(2) [OF db_wf_keys(2) [OF assms(1)]] by (simp add: distinct_map_filter)
  moreover have "list_groups_for_user db n = Inr ?gs"
    by (simp add: list_groups_for_user_def assms(2) Let_def)
  ultimately show ?thesis by blast
qed


section \<open>Adding, removing and setting memberships\<close>

lemma get_user_same_id:
  assumes "db_wf db" and "get_user db m = Inr v" and "get_user db n = Inr u"
  shows "u_id v = u_id u \<longleftrightarrow> m = n"
  using assms user_eq_by_id [OF assms(1), of v u]
  by (auto simp: get_user_Inr [OF assms(1)] dest: get_user_Inr_mem)
     (metis get_user_Inr [OF assms(1)] assms(2,3) sum.inject(2))

lemma get_group_same_id:
  assumes "db_wf db" and "get_group db m = Inr v" and "get_group db n = Inr u"
  shows "g_id v = g_id u \<longleftrightarrow> m = n"
proof
  assume "g_id v = g_id u"
  then have "v = u"
    using assms group_eq_by_id [OF assms(1), of v u] by (auto dest: get_group_Inr_mem)
  with assms(2,3) show "m = n" by (auto dest!: get_group_Inr_mem)
next
  assume "m = n"
  with assms(2,3) show "g_id v = g_id u" by simp
qed

lemma add_user_group_row_Inr:
  assumes "add_user_group_row db i j = Inr db'"
  obtains r where "ug_unique r = (i, j)" and "ug_id r = db_new_id db (map ug_id (db_user_groups db))"
    and "(i, j) \<notin> ug_unique ` set (db_user_groups db)"
    and "db' = db\<lparr>db_user_groups := db_user_groups db @ [r]\<rparr>"
proof -
  let ?r = "\<lparr>ug_id = db_new_id db (map ug_id (db_user_groups db)), ug_user = i, ug_group = j\<rparr>"
  from assms have "ug_unique ?r \<notin> ug_unique ` set (db_user_groups db)"
    and "db' = db\<lparr>db_user_groups := db_user_groups db @ [?r]\<rparr>"
    by (auto simp: add_user_group_row_def insert_row_Inr)
  then show ?thesis by (intro that [of ?r]) (simp_all add: ug_unique_def)
qed

lemma add_user_group_row_wf:
  assumes "db_wf db" and "add_user_group_row db i j = Inr db'"
    and "i \<in> user_ids db" and "j \<in> group_ids db"
  shows "db_wf db'"
  using assms(2)
proof (rule add_user_group_row_Inr)
  fix r
  assume r: "ug_unique r = (i, j)" "ug_id r = db_new_id db (map ug_id (db_user_groups db))"
    "(i, j) \<notin> ug_unique ` set (db_user_groups db)"
    and d: "db' = db\<lparr>db_user_groups := db_user_groups db @ [r]\<rparr>"
  have "table_ok ug_id ug_unique (db_user_groups db @ [r])"
    using r fresh_keys_new_id [OF assms(1), of ug_id "db_user_groups db"]
    by (intro table_ok_append db_wf_keys(3) [OF assms(1)]) simp_all
  then show ?thesis
    unfolding d using r(1) assms(3,4) db_wf_refs(1,2) [OF assms(1)]
    by (intro db_wf_set_user_groups assms) (auto simp: ug_unique_def)
qed

lemma add_user_group_row_member:
  assumes "db_wf db" and "get_user db n = Inr u" and "get_group db g = Inr h"
    and "add_user_group_row db (u_id u) (g_id h) = Inr db'"
  shows "member_of db' m k \<longleftrightarrow> member_of db m k \<or> (m = n \<and> k = g)"
  using assms(4)
proof (rule add_user_group_row_Inr)
  fix r
  assume r: "ug_unique r = (u_id u, g_id h)"
    and d: "db' = db\<lparr>db_user_groups := db_user_groups db @ [r]\<rparr>"
  show ?thesis
  proof (cases "\<exists>v w. get_user db m = Inr v \<and> get_group db k = Inr w")
    case True
    then obtain v w where vw: "get_user db m = Inr v" "get_group db k = Inr w" by blast
    show ?thesis
      using r get_user_same_id [OF assms(1) vw(1) assms(2)] get_group_same_id [OF assms(1) vw(2) assms(3)]
      by (auto simp: member_of_def d vw)
  next
    case False
    then have "\<not> (m = n \<and> k = g)" using assms(2,3) by blast
    moreover have "\<not> member_of db' m k" "\<not> member_of db m k"
      using False by (auto simp: member_of_def d split: sum.splits)
    ultimately show ?thesis by blast
  qed
qed

lemma add_user_group_row_succeeds:
  assumes "get_user db n = Inr u" and "get_group db g = Inr h"
  shows "(\<exists>db'. add_user_group_row db (u_id u) (g_id h) = Inr db') \<longleftrightarrow> \<not> member_of db n g"
  by (auto simp: add_user_group_row_def member_of_def assms insert_row_def ug_unique_def)

lemma set_groups_loop_ok:
  assumes "db_wf db" and "get_user db n = Inr u" and "distinct names"
    and "\<And>g. g \<in> set names \<Longrightarrow> (\<exists>h. get_group db g = Inr h) \<and> \<not> member_of db n g"
  shows "\<exists>db'. set_groups_loop db u names = Inr db' \<and> db_wf db' \<and>
    (\<forall>m k. member_of db' m k \<longleftrightarrow> member_of db m k \<or> (m = n \<and> k \<in> set names)) \<and>
    db' = db\<lparr>db_user_groups := db_user_groups db'\<rparr>"
  using assms
proof (induction names arbitrary: db)
  case Nil
  then show ?case by simp
next
  case (Cons g names)
  from Cons.prems(4) [of g] obtain h where h: "get_group db g = Inr h" and nm: "\<not> member_of db n g"
    by auto
  then obtain db1 where db1: "add_user_group_row db (u_id u) (g_id h) = Inr db1"
    using add_user_group_row_succeeds [OF Cons.prems(2) h] by blast
  have wf: "db_wf db1"
    using add_user_group_row_wf [OF Cons.prems(1) db1] get_user_id [OF Cons.prems(2)] get_group_id [OF h]
    by blast
  have mem: "member_of db1 m k \<longleftrightarrow> member_of db m k \<or> (m = n \<and> k = g)" for m k
    by (rule add_user_group_row_member [OF Cons.prems(1,2) h db1])
  have fr: "get_user db1 m = get_user db m" "get_group db1 k = get_group db k"
    and same: "db1 = db\<lparr>db_user_groups := db_user_groups db1\<rparr>" for m k
    using db1 by (auto elim!: add_user_group_row_Inr)
  have "\<exists>db'. set_groups_loop db1 u names = Inr db' \<and> db_wf db' \<and>
      (\<forall>m k. member_of db' m k \<longleftrightarrow> member_of db1 m k \<or> (m = n \<and> k \<in> set names)) \<and>
      db' = db1\<lparr>db_user_groups := db_user_groups db'\<rparr>"
    using Cons.prems(2,3,4) by (intro Cons.IH [OF wf]) (auto simp: fr mem)
  then obtain db' where db': "set_groups_loop db1 u names = Inr db'" "db_wf db'"
    "\<forall>m k. member_of db' m k \<longleftrightarrow> member_of db1 m k \<or> (m = n \<and> k \<in> set names)"
    "db' = db1\<lparr>db_user_groups := db_user_groups db'\<rparr>" by blast
  have "db' = db\<lparr>db_user_groups := db_user_groups db'\<rparr>"
    using db'(4) same by (metis db.unfold_congs(3) db.update_convs(3) db.surjective)
  with db' show ?case by (auto simp: h db1 mem intro!: exI [of _ db'])
qed

lemma set_groups_loop_missing:
  assumes "db_wf db" and "get_user db n = Inr u"
    and "distinct names" and "\<And>g. g \<in> set names \<Longrightarrow> \<not> member_of db n g"
    and "g0 \<in> set names" and "g0 \<notin> set (list_groups db)"
  shows "set_groups_loop db u names = Inl (MlflowException RESOURCE_DOES_NOT_EXIST)"
  using assms
proof (induction names arbitrary: db)
  case Nil
  then show ?case by simp
next
  case (Cons g names)
  show ?case
  proof (cases "get_group db g")
    case (Inl e)
    then show ?thesis using get_group_Inl [OF Cons.prems(1)] by simp
  next
    case (Inr h)
    then have "g \<noteq> g0"
      using Cons.prems(6) by (auto simp: list_groups_def dest!: get_group_Inr_mem)
    from Inr obtain db1 where db1: "add_user_group_row db (u_id u) (g_id h) = Inr db1"
      using add_user_group_row_succeeds [OF Cons.prems(2) Inr] Cons.prems(4) by auto
    have wf: "db_wf db1"
      using add_user_group_row_wf [OF Cons.prems(1) db1] get_user_id [OF Cons.prems(2)]
        get_group_id [OF Inr] by blast
    have mem: "member_of db1 m k \<longleftrightarrow> member_of db m k \<or> (m = n \<and> k = g)" for m k
      by (rule add_user_group_row_member [OF Cons.prems(1,2) Inr db1])
    have fr: "get_user db1 m = get_user db m" "list_groups db1 = list_groups db" for m
      using db1 by (auto elim!: add_user_group_row_Inr simp: list_groups_def)
    have "set_groups_loop db1 u names = Inl (MlflowException RESOURCE_DOES_NOT_EXIST)"
      using Cons.prems \<open>g \<noteq> g0\<close> by (intro Cons.IH [OF wf]) (auto simp: fr mem)
    with Inr db1 show ?thesis by simp
  qed
qed


lemma delete_user_group_rows_eq:
  "delete_user_group_rows ugs rows = filter (\<lambda>r. ug_id r \<notin> ug_id ` set ugs) rows"
proof (induction ugs arbitrary: rows)
  case (Cons a ugs)
  show ?case
    unfolding delete_user_group_rows.simps Cons.IH delete_rows_def filter_filter
    by (rule filter_cong) auto
qed simp

lemma delete_all_user_groups:
  assumes "db_wf db"
  shows "delete_user_group_rows (list_user_groups db u) (db_user_groups db) =
    delete_rows (\<lambda>r. ug_user r = u_id u) (db_user_groups db)"
proof -
  have "ug_id r \<in> ug_id ` set (list_user_groups db u) \<longleftrightarrow> ug_user r = u_id u"
    if "r \<in> set (db_user_groups db)" for r
    using that distinct_key_eq [OF table_okD(1) [OF db_wf_keys(3) [OF assms]]]
    by (auto simp: list_user_groups_def)
  then show ?thesis
    unfolding delete_user_group_rows_eq delete_rows_def by (intro filter_cong) auto
qed

lemma member_of_delete_user:
  assumes "db_wf db" and "get_user db n = Inr u"
    and "db' = db\<lparr>db_user_groups := delete_rows (\<lambda>r. ug_user r = u_id u) (db_user_groups db)\<rparr>"
  shows "db_wf db' \<and> (\<forall>m g. member_of db' m g \<longleftrightarrow> member_of db m g \<and> m \<noteq> n)"
proof -
  have "db_wf db'"
    unfolding assms(3) using db_wf_refs(1,2) [OF assms(1)]
    by (intro db_wf_set_user_groups table_ok_delete db_wf_keys(3) assms) auto
  moreover have "member_of db' m g \<longleftrightarrow> member_of db m g \<and> m \<noteq> n" for m g
  proof (cases "get_user db m")
    case (Inl e)
    then show ?thesis by (simp add: member_of_def assms(3))
  next
    case (Inr v)
    then show ?thesis
      using get_user_same_id [OF assms(1) Inr assms(2)]
      by (auto simp: member_of_def assms(3) ug_unique_def split: sum.split)
  qed
  ultimately show ?thesis by blast
qed

lemma set_groups_for_user_ok:
  assumes "db_wf db" and "user_name \<in> u_username ` set (db_users db)"
    and "set names \<subseteq> set (list_groups db)"
  shows "\<exists>db'. set_groups_for_user db user_name names = Inr db' \<and> db_wf db' \<and>
    (\<forall>m g. member_of db' m g \<longleftrightarrow> (if m = user_name then g \<in> set names else member_of db m g)) \<and>
    db' = db\<lparr>db_user_groups := db_user_groups db'\<rparr>"
proof -
  obtain u where u: "get_user db user_name = Inr u"
    using assms(2) get_user_Inr [OF assms(1)] by auto
  define db1 where
    "db1 = db\<lparr>db_user_groups := delete_rows (\<lambda>r. ug_user r = u_id u) (db_user_groups db)\<rparr>"
  have wf: "db_wf db1" and mem: "\<And>m g. member_of db1 m g \<longleftrightarrow> member_of db m g \<and> m \<noteq> user_name"
    using member_of_delete_user [OF assms(1) u db1_def] by blast+
  have ex: "\<exists>h. get_group db1 g = Inr h" if "g \<in> set names" for g
    using that assms(3) get_group_Inr [OF assms(1)] by (auto simp: list_groups_def db1_def)
  have "\<exists>db'. set_groups_loop db1 u (dict_fromkeys names) = Inr db' \<and> db_wf db' \<and>
    (\<forall>m k. member_of db' m k \<longleftrightarrow> member_of db1 m k \<or> (m = user_name \<and> k \<in> set (dict_fromkeys names))) \<and>
    db' = db1\<lparr>db_user_groups := db_user_groups db'\<rparr>"
    using ex mem u by (intro set_groups_loop_ok [OF wf]) (auto simp: db1_def)
  then obtain db' where db': "set_groups_loop db1 u (dict_fromkeys names) = Inr db'" "db_wf db'"
    "\<forall>m k. member_of db' m k \<longleftrightarrow> member_of db1 m k \<or> (m = user_name \<and> k \<in> set (dict_fromkeys names))"
    "db' = db1\<lparr>db_user_groups := db_user_groups db'\<rparr>" by blast
  moreover have "set_groups_for_user db user_name names = set_groups_loop db1 u (dict_fromkeys names)"
    by (simp add: set_groups_for_user_def u delete_all_user_groups [OF assms(1)] db1_def)
  moreover have "db' = db\<lparr>db_user_groups := db_user_groups db'\<rparr>"
    using db'(4) by (simp add: db1_def)
  ultimately show ?thesis using mem by (intro exI [of _ db']) auto
qed

lemma set_groups_for_user_missing:
  assumes "db_wf db" and "user_name \<in> u_username ` set (db_users db)"
    and "\<not> set names \<subseteq> set (list_groups db)"
  shows "set_groups_for_user db user_name names = Inl (MlflowException RESOURCE_DOES_NOT_EXIST)"
proof -
  obtain u where u: "get_user db user_name = Inr u"
    using assms(2) get_user_Inr [OF assms(1)] by auto
  define db1 where
    "db1 = db\<lparr>db_user_groups := delete_rows (\<lambda>r. ug_user r = u_id u) (db_user_groups db)\<rparr>"
  have wf: "db_wf db1" and mem: "\<And>m g. member_of db1 m g \<longleftrightarrow> member_of db m g \<and> m \<noteq> user_name"
    using member_of_delete_user [OF assms(1) u db1_def] by blast+
  from assms(3) obtain g0 where g0: "g0 \<in> set names" "g0 \<notin> set (list_groups db1)"
    by (auto simp: list_groups_def db1_def)
  have "set_groups_loop db1 u (dict_fromkeys names) = Inl (MlflowException RESOURCE_DOES_NOT_EXIST)"
    using u mem g0 by (intro set_groups_loop_missing [OF wf, where n = user_name and ?g0.0 = g0])
      (auto simp: db1_def)
  then show ?thesis
    by (simp add: set_groups_for_user_def u delete_all_user_groups [OF assms(1)] db1_def)
qed

lemma set_groups_for_user_wf:
  assumes "db_wf db" and "set_groups_for_user db n names = Inr db'"
  shows "db_wf db'"
proof -
  have n: "n \<in> u_username ` set (db_users db)"
    using assms(2) by (auto simp: set_groups_for_user_def dest!: get_user_Inr_mem)
  have "set names \<subseteq> set (list_groups db)"
  proof (rule ccontr)
    assume "\<not> set names \<subseteq> set (list_groups db)"
    from set_groups_for_user_missing [OF assms(1) n this] assms(2) show False by simp
  qed
  from set_groups_for_user_ok [OF assms(1) n this] assms(2) show ?thesis by auto
qed

lemma add_user_to_group_wf:
  assumes "db_wf db" and "add_user_to_group db n g = Inr db'"
  shows "db_wf db'"
  using assms(2) unfolding add_user_to_group_def
  by (auto intro: add_user_group_row_wf [OF assms(1)] get_user_id get_group_id)

lemma remove_user_from_group_wf:
  assumes "db_wf db" and "remove_user_from_group db n g = Inr db'"
  shows "db_wf db'"
  using assms(2) db_wf_refs(1,2) [OF assms(1)] unfolding remove_user_from_group_def
  by (auto intro!: db_wf_set_user_groups table_ok_delete db_wf_keys(3) assms)

lemma remove_user_from_group_member:
  assumes "db_wf db" and "remove_user_from_group db n g = Inr db'"
  shows "member_of db n g \<and> (member_of db' m k \<longleftrightarrow> member_of db m k \<and> \<not> (m = n \<and> k = g))"
proof -
  from assms(2) obtain u h r where u: "get_user db n = Inr u" and h: "get_group db g = Inr h"
    and r: "filter (\<lambda>r. ug_user r = u_id u \<and> ug_group r = g_id h) (db_user_groups db) = [r]"
    and d: "db' = db\<lparr>db_user_groups := delete_rows (\<lambda>x. ug_id x = ug_id r) (db_user_groups db)\<rparr>"
    by (auto simp: remove_user_from_group_def query_one_Inr)
  from r have r': "r \<in> set (db_user_groups db)" "ug_unique r = (u_id u, g_id h)"
    by (auto simp: ug_unique_def dest: filter_eq_ConsD)
  have d': "db' = db\<lparr>db_user_groups :=
      delete_rows (\<lambda>x. ug_unique x = (u_id u, g_id h)) (db_user_groups db)\<rparr>"
    unfolding d using delete_rows_by_id [OF table_okD [OF db_wf_keys(3) [OF assms(1)]] r'(1)] r'(2) by simp
  have "member_of db n g" using r' by (auto simp: member_of_def u h intro!: image_eqI [of _ _ r])
  moreover have "member_of db' m k \<longleftrightarrow> member_of db m k \<and> \<not> (m = n \<and> k = g)"
  proof (cases "\<exists>v w. get_user db m = Inr v \<and> get_group db k = Inr w")
    case True
    then obtain v w where vw: "get_user db m = Inr v" "get_group db k = Inr w" by blast
    show ?thesis
      using get_user_same_id [OF assms(1) vw(1) u] get_group_same_id [OF assms(1) vw(2) h]
      by (auto simp: member_of_def d' vw)
  next
    case False
    then show ?thesis by (auto simp: member_of_def d' split: sum.splits)
  qed
  ultimately show ?thesis by blast
qed

section \<open>Properties\<close>

text \<open>Setting a user's groups to names that all exist leaves the user in exactly those groups,
  changes no one else's membership and nothing but the membership table; repeated names count
  once.\<close>

theorem set_groups_is_exact:
  assumes "db_wf db" and "n \<in> u_username ` set (db_users db)" and "set names \<subseteq> set (list_groups db)"
  shows "\<exists>db'. set_groups_for_user db n names = Inr db' \<and> db_wf db' \<and>
    (\<forall>m g. member_of db' m g \<longleftrightarrow> (if m = n then g \<in> set names else member_of db m g)) \<and>
    db' = db\<lparr>db_user_groups := db_user_groups db'\<rparr>"
  by (rule set_groups_for_user_ok [OF assms])

theorem set_groups_is_exact_witness:
  "\<exists>db'. set_groups_for_user example_db ''alice'' [''ops'', ''ops''] = Inr db' \<and>
     member_of db' ''alice'' ''ops'' \<and> \<not> member_of db' ''alice'' ''devs''"
proof -
  have "\<exists>db'. set_groups_for_user example_db ''alice'' [''ops'', ''ops''] = Inr db' \<and> db_wf db' \<and>
    (\<forall>m g. member_of db' m g \<longleftrightarrow>
       (if m = ''alice'' then g \<in> set [''ops'', ''ops''] else member_of example_db m g)) \<and>
    db' = example_db\<lparr>db_user_groups := db_user_groups db'\<rparr>"
    by (rule set_groups_is_exact) (simp_all add: example_db_wf list_groups_def)
  then show ?thesis by force
qed

text \<open>A name that is no group makes the call fail, and a failed call changes nothing: the
  user keeps the groups it had.\<close>

theorem set_groups_unknown_group:
  assumes "db_wf db" and "n \<in> u_username ` set (db_users db)" and "\<not> set names \<subseteq> set (list_groups db)"
  shows "set_groups_for_user db n names = Inl (MlflowException RESOURCE_DOES_NOT_EXIST)"
  by (rule set_groups_for_user_missing [OF assms])

theorem set_groups_unknown_group_witness:
  "set_groups_for_user example_db ''alice'' [''ops'', ''nobody''] =
   Inl (MlflowException RESOURCE_DOES_NOT_EXIST)"
  by (rule set_groups_unknown_group) (simp_all add: example_db_wf list_groups_def)

end
