(* ===== verification/RepositoryInterface.thy ===== *)
theory RepositoryInterface
  imports Permissions
begin

text \<open>
  What a permission repository promises, whatever table it keeps: a partial map from
  resource and subject to a permission name, changed by grant, update and revoke, each of
  which either commits or raises and changes nothing. \<open>spec_apply\<close> is the abstract
  specification; the locale \<open>permission_repository\<close> states that the operations of a
  repository simulate it, and proves once what its callers rely on.
\<close>

section \<open>The abstract specification\<close>

type_synonym ('k, 'u) perm_map = "'k \<Rightarrow> 'u \<Rightarrow> string option"

datatype ('k, 'u) perm_op =
    Grant 'k 'u string
  | Update 'k 'u string
  | Revoke 'k 'u

definition perm_upd :: "('k, 'u) perm_map \<Rightarrow> 'k \<Rightarrow> 'u \<Rightarrow> string option \<Rightarrow> ('k, 'u) perm_map" where
  "perm_upd m k u v = m(k := (m k)(u := v))"

lemma perm_upd_apply: "perm_upd m k u v k' u' = (if k' = k \<and> u' = u then v else m k' u')"
  by (simp add: perm_upd_def)

lemma perm_upd_twice [simp]: "perm_upd (perm_upd m k u v) k u w = perm_upd m k u w"
  by (simp add: perm_upd_def)

lemma perm_upd_triv: "m k u = v \<Longrightarrow> perm_upd m k u v = m"
  by (auto simp: perm_upd_def)

lemma perm_map_eqI: "(\<And>k u. m k u = m' k u) \<Longrightarrow> m = m'"
  by (intro ext)

text \<open>
  \<open>valid\<close> is the check of the permission name, \<open>subj\<close> says which users or groups exist, and
  \<open>missing\<close> is what is raised when an existing subject has no row.
\<close>

fun spec_apply :: "(string \<Rightarrow> bool) \<Rightarrow> exn \<Rightarrow> ('u \<Rightarrow> bool) \<Rightarrow> ('k, 'u) perm_map \<Rightarrow>
    ('k, 'u) perm_op \<Rightarrow> ('k, 'u) perm_map result" where
  "spec_apply valid missing subj m (Grant k u p) =
     (if \<not> valid p then Inl (MlflowException INVALID_PARAMETER_VALUE)
      else if \<not> subj u then Inl (MlflowException RESOURCE_DOES_NOT_EXIST)
      else if m k u \<noteq> None then Inl (MlflowException RESOURCE_ALREADY_EXISTS)
      else Inr (perm_upd m k u (Some p)))"
| "spec_apply valid missing subj m (Update k u p) =
     (if \<not> valid p then Inl (MlflowException INVALID_PARAMETER_VALUE)
      else if m k u = None
           then Inl (if subj u then missing else MlflowException RESOURCE_DOES_NOT_EXIST)
      else Inr (perm_upd m k u (Some p)))"
| "spec_apply valid missing subj m (Revoke k u) =
     (if m k u = None
      then Inl (if subj u then missing else MlflowException RESOURCE_DOES_NOT_EXIST)
      else Inr (perm_upd m k u None))"

text \<open>A request either commits or leaves the state as it was.\<close>

definition commit :: "'s result \<Rightarrow> 's \<Rightarrow> 's" where
  "commit r s = (case r of Inl _ \<Rightarrow> s | Inr s' \<Rightarrow> s')"

lemma commit_simps [simp]: "commit (Inl e) s = s" "commit (Inr s') s = s'"
  by (simp_all add: commit_def)

text \<open>What the caller of a request sees: that it returned, or the exception it raised.\<close>

definition outcome_of :: "'s result \<Rightarrow> unit result" where
  "outcome_of r = (case r of Inl e \<Rightarrow> Inl e | Inr _ \<Rightarrow> Inr ())"

lemma outcome_of_simps [simp]: "outcome_of (Inl e) = Inl e" "outcome_of (Inr s) = Inr ()"
  by (simp_all add: outcome_of_def)

text \<open>A history of requests: the outcome of each, in order, and the map at the end.\<close>

fun spec_run :: "(string \<Rightarrow> bool) \<Rightarrow> exn \<Rightarrow> ('u \<Rightarrow> bool) \<Rightarrow> ('k, 'u) perm_map \<Rightarrow>
    ('k, 'u) perm_op list \<Rightarrow> unit result list \<times> ('k, 'u) perm_map" where
  "spec_run valid missing subj m [] = ([], m)"
| "spec_run valid missing subj m (x # xs) =
     (let r = spec_apply valid missing subj m x;
          (os, m') = spec_run valid missing subj (commit r m) xs
      in (outcome_of r # os, m'))"

text \<open>The operations of a repository, dispatched on the request.\<close>

fun repo_apply :: "('s \<Rightarrow> 'k \<Rightarrow> 'u \<Rightarrow> string \<Rightarrow> 's result) \<Rightarrow> ('s \<Rightarrow> 'k \<Rightarrow> 'u \<Rightarrow> string \<Rightarrow> 's result) \<Rightarrow>
    ('s \<Rightarrow> 'k \<Rightarrow> 'u \<Rightarrow> 's result) \<Rightarrow> 's \<Rightarrow> ('k, 'u) perm_op \<Rightarrow> 's result" where
  "repo_apply grant update revoke s (Grant k u p) = grant s k u p"
| "repo_apply grant update revoke s (Update k u p) = update s k u p"
| "repo_apply grant update revoke s (Revoke k u) = revoke s k u"

fun repo_run :: "('s \<Rightarrow> 'k \<Rightarrow> 'u \<Rightarrow> string \<Rightarrow> 's result) \<Rightarrow> ('s \<Rightarrow> 'k \<Rightarrow> 'u \<Rightarrow> string \<Rightarrow> 's result) \<Rightarrow>
    ('s \<Rightarrow> 'k \<Rightarrow> 'u \<Rightarrow> 's result) \<Rightarrow> 's \<Rightarrow> ('k, 'u) perm_op list \<Rightarrow> unit result list \<times> 's" where
  "repo_run grant update revoke s [] = ([], s)"
| "repo_run grant update revoke s (x # xs) =
     (let r = repo_apply grant update revoke s x;
          (os, s') = repo_run grant update revoke (commit r s) xs
      in (outcome_of r # os, s'))"

section \<open>The contract\<close>

text \<open>One step of a repository simulates one step of the specification.\<close>

definition step_refines :: "('s \<Rightarrow> bool) \<Rightarrow> ('s \<Rightarrow> 'u \<Rightarrow> bool) \<Rightarrow> ('s \<Rightarrow> ('k, 'u) perm_map) \<Rightarrow>
    's \<Rightarrow> 's result \<Rightarrow> ('k, 'u) perm_map result \<Rightarrow> bool" where
  "step_refines ok subj lookup s r spec \<longleftrightarrow>
     (case r of
        Inl e \<Rightarrow> spec = Inl e
      | Inr s' \<Rightarrow> ok s' \<and> subj s' = subj s \<and> spec = Inr (lookup s'))"

lemma step_refines_Inr:
  "step_refines ok subj lookup s r (Inr m) \<Longrightarrow>
   \<exists>s'. r = Inr s' \<and> ok s' \<and> subj s' = subj s \<and> lookup s' = m"
  by (cases r) (auto simp: step_refines_def)

lemma step_refines_Inl: "step_refines ok subj lookup s r (Inl e) \<Longrightarrow> r = Inl e"
  by (cases r) (auto simp: step_refines_def)

lemma step_refinesD:
  "step_refines ok subj lookup s (Inr s') spec \<Longrightarrow>
   ok s' \<and> subj s' = subj s \<and> spec = Inr (lookup s')"
  by (simp add: step_refines_def)

locale permission_repository =
  fixes ok :: "'s \<Rightarrow> bool"
    and valid :: "string \<Rightarrow> bool"
    and missing :: exn
    and subj :: "'s \<Rightarrow> 'u \<Rightarrow> bool"
    and lookup :: "'s \<Rightarrow> 'k \<Rightarrow> 'u \<Rightarrow> string option"
    and grant :: "'s \<Rightarrow> 'k \<Rightarrow> 'u \<Rightarrow> string \<Rightarrow> 's result"
    and update :: "'s \<Rightarrow> 'k \<Rightarrow> 'u \<Rightarrow> string \<Rightarrow> 's result"
    and revoke :: "'s \<Rightarrow> 'k \<Rightarrow> 'u \<Rightarrow> 's result"
  assumes grant_law: "ok s \<Longrightarrow> step_refines ok subj lookup s (grant s k u p)
      (spec_apply valid missing (subj s) (lookup s) (Grant k u p))"
    and update_law: "ok s \<Longrightarrow> step_refines ok subj lookup s (update s k u p)
      (spec_apply valid missing (subj s) (lookup s) (Update k u p))"
    and revoke_law: "ok s \<Longrightarrow> step_refines ok subj lookup s (revoke s k u)
      (spec_apply valid missing (subj s) (lookup s) (Revoke k u))"
    and lookup_subj: "ok s \<Longrightarrow> lookup s k u \<noteq> None \<Longrightarrow> subj s u"
begin

lemma apply_law:
  "ok s \<Longrightarrow> step_refines ok subj lookup s (repo_apply grant update revoke s x)
     (spec_apply valid missing (subj s) (lookup s) x)"
  by (cases x) (simp_all only: repo_apply.simps grant_law update_law revoke_law)

lemma run_refines:
  assumes "ok s"
  shows "case repo_run grant update revoke s xs of (os, s') \<Rightarrow>
    ok s' \<and> (os, lookup s') = spec_run valid missing (subj s) (lookup s) xs"
  using assms
proof (induction xs arbitrary: s)
  case Nil
  then show ?case by simp
next
  case (Cons x xs)
  show ?case
  proof (cases "repo_apply grant update revoke s x")
    case (Inl e)
    then have "spec_apply valid missing (subj s) (lookup s) x = Inl e"
      using apply_law [OF Cons.prems, of x] by (simp add: step_refines_def)
    with Inl Cons.IH [OF Cons.prems] show ?thesis
      by (auto simp: Let_def split: prod.splits)
  next
    case (Inr s')
    then have "ok s' \<and> subj s' = subj s \<and>
        spec_apply valid missing (subj s) (lookup s) x = Inr (lookup s')"
      using apply_law [OF Cons.prems, of x] by (simp add: step_refines_def)
    with Inr Cons.IH [of s'] show ?thesis
      by (auto simp: Let_def split: prod.splits)
  qed
qed

lemma grant_Inr:
  assumes "ok s" and "grant s k u p = Inr s'"
  shows "ok s' \<and> valid p \<and> subj s u \<and> lookup s k u = None \<and>
    lookup s' = perm_upd (lookup s) k u (Some p)"
  using grant_law [OF assms(1), of k u p] assms(2)
  by (auto simp: step_refines_def split: if_splits)

lemma update_Inr:
  assumes "ok s" and "update s k u p = Inr s'"
  shows "ok s' \<and> valid p \<and> lookup s k u \<noteq> None \<and>
    lookup s' = perm_upd (lookup s) k u (Some p)"
  using update_law [OF assms(1), of k u p] assms(2)
  by (auto simp: step_refines_def split: if_splits)

lemma revoke_Inr:
  assumes "ok s" and "revoke s k u = Inr s'"
  shows "ok s' \<and> lookup s k u \<noteq> None \<and> lookup s' = perm_upd (lookup s) k u None"
  using revoke_law [OF assms(1), of k u] assms(2)
  by (auto simp: step_refines_def split: if_splits)

lemma grant_succeeds:
  assumes "ok s" and "valid p" and "subj s u" and "lookup s k u = None"
  shows "\<exists>s'. grant s k u p = Inr s' \<and> ok s' \<and> lookup s' = perm_upd (lookup s) k u (Some p)"
  using grant_law [OF assms(1), of k u p] assms by (auto dest: step_refines_Inr)

lemma grant_twice:
  assumes "ok s" and "grant s k u p = Inr s'" and "valid q"
  shows "grant s' k u q = Inl (MlflowException RESOURCE_ALREADY_EXISTS)"
proof -
  have ok: "ok s'" and l: "lookup s' k u = Some p"
    using grant_Inr [OF assms(1,2)] by (simp_all add: perm_upd_apply)
  then have "subj s' u" using lookup_subj by force
  with ok l assms(3) show ?thesis
    using grant_law [OF ok, of k u q] by (auto dest: step_refines_Inl)
qed

lemma grant_revoke:
  assumes "ok s" and "grant s k u p = Inr s'"
  shows "\<exists>s''. revoke s' k u = Inr s'' \<and> ok s'' \<and> lookup s'' = lookup s"
proof -
  have g: "ok s'" "lookup s k u = None" "lookup s' = perm_upd (lookup s) k u (Some p)"
    using grant_Inr [OF assms] by simp_all
  then have "step_refines ok subj lookup s' (revoke s' k u) (Inr (perm_upd (lookup s) k u None))"
    using revoke_law [OF g(1), of k u] by (simp add: perm_upd_apply)
  then show ?thesis
    using g(2) by (auto dest!: step_refines_Inr simp: perm_upd_triv)
qed

lemma other_subject_unaffected:
  assumes "ok s" and "repo_apply grant update revoke s x = Inr s'"
    and "x = Grant k u p \<or> x = Update k u p \<or> x = Revoke k u" and "k' \<noteq> k \<or> u' \<noteq> u"
  shows "lookup s' k' u' = lookup s k' u'"
proof -
  have "\<exists>v. lookup s' = perm_upd (lookup s) k u v"
    using assms(3)
  proof (elim disjE)
    assume "x = Grant k u p"
    with assms(2) have "grant s k u p = Inr s'" by simp
    from grant_Inr [OF assms(1) this] show ?thesis by blast
  next
    assume "x = Update k u p"
    with assms(2) have "update s k u p = Inr s'" by simp
    from update_Inr [OF assms(1) this] show ?thesis by blast
  next
    assume "x = Revoke k u"
    with assms(2) have "revoke s k u = Inr s'" by simp
    from revoke_Inr [OF assms(1) this] show ?thesis by blast
  qed
  then show ?thesis using assms(4) by (auto simp: perm_upd_apply)
qed

end

text \<open>A repository with a reader that returns the permission or raises.\<close>

locale readable_permission_repository =
  permission_repository ok valid missing subj lookup grant update revoke
  for ok :: "'s \<Rightarrow> bool" and valid missing and subj :: "'s \<Rightarrow> 'u \<Rightarrow> bool"
    and lookup :: "'s \<Rightarrow> 'k \<Rightarrow> 'u \<Rightarrow> string option" and grant update revoke +
  fixes get :: "'s \<Rightarrow> 'k \<Rightarrow> 'u \<Rightarrow> string result"
  assumes get_law: "ok s \<Longrightarrow> get s k u =
      (case lookup s k u of None \<Rightarrow> Inl (MlflowException RESOURCE_DOES_NOT_EXIST) | Some p \<Rightarrow> Inr p)"
begin

lemma grant_get:
  "ok s \<Longrightarrow> grant s k u p = Inr s' \<Longrightarrow> get s' k u = Inr p"
  using grant_Inr [of s k u p s'] get_law [of s' k u] by (simp add: perm_upd_apply)

lemma update_get:
  "ok s \<Longrightarrow> update s k u p = Inr s' \<Longrightarrow> get s' k u = Inr p"
  using update_Inr [of s k u p s'] get_law [of s' k u] by (simp add: perm_upd_apply)

lemma revoke_get:
  "ok s \<Longrightarrow> revoke s k u = Inr s' \<Longrightarrow>
   get s' k u = Inl (MlflowException RESOURCE_DOES_NOT_EXIST)"
  using revoke_Inr [of s k u s'] get_law [of s' k u] by (simp add: perm_upd_apply)

lemma get_frame:
  assumes "ok s" and "ok s'" and "lookup s' k u = lookup s k u"
  shows "get s' k u = get s k u"
  using assms by (simp add: get_law)

end

end
