(* ===== verification/GroupPermissionRepo.thy ===== *)
theory GroupPermissionRepo
  imports GroupRepo RepositoryInterface
begin

text \<open>
  \<^verbatim>\<open>BaseGroupPermissionRepository\<close> (\<^verbatim>\<open>repository/_base.py\<close>) with the overrides of the
  registered model, prompt, scorer and gateway repositories. Prompts and registered models
  share one table; a prompt's row carries \<open>gp_prompt\<close>. Besides the contract of a permission
  repository, the main result is that the group permission found for a user is one of
  greatest priority among the permissions of the user's groups.
\<close>

section \<open>Operations\<close>

definition group_perm_query :: "resource_class \<Rightarrow> db \<Rightarrow> rkey \<Rightarrow> string \<Rightarrow> group_perm list" where
  "group_perm_query c db key group_name =
     concat (map (\<lambda>p. map (\<lambda>_. p)
       (filter (\<lambda>g. gp_group p = g_id g \<and> gp_key p = key \<and> g_name g = group_name) (db_groups db)))
       (db_group_perms db c))"

definition group_get_permission_row ::
    "resource_class \<Rightarrow> db \<Rightarrow> rkey \<Rightarrow> string \<Rightarrow> group_perm result" where
  "group_get_permission_row c db key group_name =
     query_one_mlflow (group_perm_query c db key group_name)"

definition group_get_permission_or_none ::
    "resource_class \<Rightarrow> db \<Rightarrow> rkey \<Rightarrow> string \<Rightarrow> group_perm option result" where
  "group_get_permission_or_none c db key group_name =
     bind_result (query_one_or_none (filter (\<lambda>g. g_name g = group_name) (db_groups db))) (\<lambda>grp.
     case grp of
       None \<Rightarrow> Inr None
     | Some g \<Rightarrow>
         query_one_or_none (filter (\<lambda>p. gp_key p = key \<and> gp_group p = g_id g) (db_group_perms db c)))"

definition group_list_user_groups :: "db \<Rightarrow> string \<Rightarrow> string list result" where
  "group_list_user_groups db username =
     bind_result (get_user db username) (\<lambda>user.
     let user_groups_ids = list_user_groups db user
     in Inr (map g_name (filter (\<lambda>g. g_id g \<in> set (map ug_group user_groups_ids)) (db_groups db))))"

definition add_group_perm_row ::
    "resource_class \<Rightarrow> db \<Rightarrow> rkey \<Rightarrow> nat \<Rightarrow> string \<Rightarrow> bool \<Rightarrow> (perm_entity \<times> db) result" where
  "add_group_perm_row c db key gid permission prompt =
     (let perm = \<lparr>gp_id = db_new_id db (map gp_id (db_group_perms db c)), gp_key = key,
                  gp_group = gid, gp_permission = permission, gp_prompt = prompt\<rparr>
      in bind_result (insert_row gp_unique perm (db_group_perms db c)) (\<lambda>rows.
         Inr (group_perm_entity perm, db\<lparr>db_group_perms := (db_group_perms db)(c := rows)\<rparr>)))"

definition group_grant_permission ::
    "resource_class \<Rightarrow> db \<Rightarrow> string \<Rightarrow> rkey \<Rightarrow> string \<Rightarrow> (perm_entity \<times> db) result" where
  "group_grant_permission c db group_name key permission =
     bind_result (validate_permission permission) (\<lambda>_.
     on_integrity_error RESOURCE_ALREADY_EXISTS
       (bind_result (get_group db group_name) (\<lambda>grp.
        add_group_perm_row c db key (g_id grp) permission False)))"

definition group_list_permissions_for_group ::
    "resource_class \<Rightarrow> db \<Rightarrow> string \<Rightarrow> perm_entity list result" where
  "group_list_permissions_for_group c db group_name =
     bind_result (get_group db group_name) (\<lambda>grp.
     Inr (map group_perm_entity (filter (\<lambda>r. gp_group r = g_id grp) (db_group_perms db c))))"

definition group_list_permissions_for_group_id ::
    "resource_class \<Rightarrow> db \<Rightarrow> nat \<Rightarrow> perm_entity list" where
  "group_list_permissions_for_group_id c db gid =
     map group_perm_entity (filter (\<lambda>r. gp_group r = gid) (db_group_perms db c))"

text \<open>The rows of the join of groups and permissions, in the order of the groups.\<close>

definition group_join_rows ::
    "resource_class \<Rightarrow> db \<Rightarrow> (group_perm \<Rightarrow> bool) \<Rightarrow> (string \<times> string) list" where
  "group_join_rows c db P =
     concat (map (\<lambda>g. map (\<lambda>r. (g_name g, gp_permission r))
       (filter (\<lambda>r. gp_group r = g_id g \<and> P r) (db_group_perms db c))) (db_groups db))"

definition group_list_groups_for_resource ::
    "resource_class \<Rightarrow> db \<Rightarrow> string \<Rightarrow> (string \<times> string) list" where
  "group_list_groups_for_resource c db resource_id =
     group_join_rows c db (\<lambda>r. resource_id_of (gp_key r) = resource_id)"

text \<open>
  The loop over the user's groups that keeps the better permission. \<open>get\<close> reads the row of
  one group; a row that compares equal replaces the one kept.
\<close>

fun highest_loop :: "(string \<Rightarrow> 'r option result) \<Rightarrow> ('r \<Rightarrow> string) \<Rightarrow> string list \<Rightarrow> 'r option \<Rightarrow>
    'r option result" where
  "highest_loop get perm [] user_perms = Inr user_perms"
| "highest_loop get perm (ug # user_groups) user_perms =
     bind_result (get ug) (\<lambda>perms.
     case perms of
       None \<Rightarrow> highest_loop get perm user_groups user_perms
     | Some p \<Rightarrow>
         (case user_perms of
            None \<Rightarrow> highest_loop get perm user_groups (Some p)
          | Some q \<Rightarrow>
              bind_result (compare_permissions (perm q) (perm p)) (\<lambda>le.
              highest_loop get perm user_groups (if le then Some p else Some q))))"

definition group_get_permission_for_user_resource ::
    "resource_class \<Rightarrow> db \<Rightarrow> rkey \<Rightarrow> string \<Rightarrow> perm_entity result" where
  "group_get_permission_for_user_resource c db key username =
     bind_result (group_list_user_groups db username) (\<lambda>user_groups.
     bind_result (highest_loop (group_get_permission_or_none c db key) gp_permission user_groups None)
       (\<lambda>user_perms.
       case user_perms of
         None \<Rightarrow> Inl (MlflowException RESOURCE_DOES_NOT_EXIST)
       | Some r \<Rightarrow> Inr (group_perm_entity r)))"

definition group_list_permissions_for_user_groups ::
    "resource_class \<Rightarrow> db \<Rightarrow> string \<Rightarrow> perm_entity list result" where
  "group_list_permissions_for_user_groups c db username =
     bind_result (get_user db username) (\<lambda>user.
     let user_groups = list_user_groups db user
     in Inr (map group_perm_entity
          (filter (\<lambda>r. gp_group r \<in> set (map ug_group user_groups)) (db_group_perms db c))))"

text \<open>An update and a deletion read the row with a plain \<^verbatim>\<open>.one()\<close>.\<close>

definition group_update_permission ::
    "resource_class \<Rightarrow> db \<Rightarrow> string \<Rightarrow> rkey \<Rightarrow> string \<Rightarrow> (perm_entity \<times> db) result" where
  "group_update_permission c db group_name key permission =
     bind_result (validate_permission permission) (\<lambda>_.
     bind_result (get_group db group_name) (\<lambda>grp.
     bind_result (query_one (filter (\<lambda>p. gp_key p = key \<and> gp_group p = g_id grp)
                    (db_group_perms db c))) (\<lambda>perm.
     let rows = set_rows (\<lambda>r. gp_id r = gp_id perm) (\<lambda>r. r\<lparr>gp_permission := permission\<rparr>)
                  (db_group_perms db c)
     in Inr (group_perm_entity (perm\<lparr>gp_permission := permission\<rparr>),
             db\<lparr>db_group_perms := (db_group_perms db)(c := rows)\<rparr>))))"

definition group_revoke_permission ::
    "resource_class \<Rightarrow> db \<Rightarrow> string \<Rightarrow> rkey \<Rightarrow> db result" where
  "group_revoke_permission c db group_name key =
     bind_result (get_group db group_name) (\<lambda>grp.
     bind_result (query_one (filter (\<lambda>p. gp_key p = key \<and> gp_group p = g_id grp)
                    (db_group_perms db c))) (\<lambda>perm.
     Inr (db\<lparr>db_group_perms := (db_group_perms db)
            (c := delete_rows (\<lambda>r. gp_id r = gp_id perm) (db_group_perms db c))\<rparr>)))"

definition group_rename :: "resource_class \<Rightarrow> db \<Rightarrow> string \<Rightarrow> string \<Rightarrow> db result" where
  "group_rename c db old_name new_name =
     bind_result
       (update_rows gp_unique (\<lambda>r. resource_id_of (gp_key r) = old_name)
          (\<lambda>r. r\<lparr>gp_key := set_resource_id new_name (gp_key r)\<rparr>) (db_group_perms db c))
       (\<lambda>rows. Inr (db\<lparr>db_group_perms := (db_group_perms db)(c := rows)\<rparr>))"

definition group_wipe :: "resource_class \<Rightarrow> db \<Rightarrow> string \<Rightarrow> db" where
  "group_wipe c db resource_id =
     db\<lparr>db_group_perms := (db_group_perms db)
          (c := delete_rows (\<lambda>r. resource_id_of (gp_key r) = resource_id) (db_group_perms db c))\<rparr>"

subsection \<open>Registered models\<close>

definition registered_model_group_rename :: "db \<Rightarrow> string \<Rightarrow> string \<Rightarrow> db result" where
  "registered_model_group_rename db old_name new_name =
     (if filter (\<lambda>r. resource_id_of (gp_key r) = old_name) (db_group_perms db RegisteredModel) = []
      then Inl (MlflowException RESOURCE_DOES_NOT_EXIST)
      else group_rename RegisteredModel db old_name new_name)"

definition list_groups_for_model :: "db \<Rightarrow> string \<Rightarrow> (string \<times> string) list" where
  "list_groups_for_model db name =
     group_join_rows RegisteredModel db
       (\<lambda>r. resource_id_of (gp_key r) = name \<and> gp_prompt r = False)"

definition registered_model_get_for_user :: "db \<Rightarrow> string \<Rightarrow> string \<Rightarrow> perm_entity result" where
  "registered_model_get_for_user db name username =
     bind_result (list_groups_for_user db username) (\<lambda>user_groups.
     bind_result (highest_loop (group_get_permission_or_none RegisteredModel db (ResourceId name))
                    gp_permission user_groups None) (\<lambda>user_perms.
     case user_perms of
       None \<Rightarrow> Inl (MlflowException RESOURCE_DOES_NOT_EXIST)
     | Some r \<Rightarrow> Inr (group_perm_entity r)))"

definition registered_model_list_for_user :: "db \<Rightarrow> string \<Rightarrow> perm_entity list result" where
  "registered_model_list_for_user db username =
     bind_result (get_user db username) (\<lambda>user.
     let user_groups = list_user_groups db user
     in Inr (map group_perm_entity
          (filter (\<lambda>r. gp_group r \<in> set (map ug_group user_groups))
             (db_group_perms db RegisteredModel))))"

subsection \<open>Prompts\<close>

definition get_prompt_group_permission :: "db \<Rightarrow> string \<Rightarrow> nat \<Rightarrow> group_perm result" where
  "get_prompt_group_permission db name gid =
     query_one_mlflow
       (filter (\<lambda>p. gp_key p = ResourceId name \<and> gp_group p = gid \<and> gp_prompt p = True)
          (db_group_perms db RegisteredModel))"

definition grant_prompt_permission_to_group ::
    "db \<Rightarrow> string \<Rightarrow> string \<Rightarrow> string \<Rightarrow> (perm_entity \<times> db) result" where
  "grant_prompt_permission_to_group db group_name name permission =
     bind_result (validate_permission permission) (\<lambda>_.
     bind_result (get_group db group_name) (\<lambda>grp.
     add_group_perm_row RegisteredModel db (ResourceId name) (g_id grp) permission True))"

definition list_prompt_permissions_for_group :: "db \<Rightarrow> string \<Rightarrow> perm_entity list result" where
  "list_prompt_permissions_for_group db group_name =
     bind_result (get_group db group_name) (\<lambda>grp.
     Inr (map group_perm_entity
       (filter (\<lambda>r. gp_group r = g_id grp \<and> gp_prompt r = True)
          (db_group_perms db RegisteredModel))))"

definition list_groups_for_prompt :: "db \<Rightarrow> string \<Rightarrow> (string \<times> string) list" where
  "list_groups_for_prompt db name =
     group_join_rows RegisteredModel db
       (\<lambda>r. resource_id_of (gp_key r) = name \<and> gp_prompt r = True)"

definition update_prompt_permission_for_group ::
    "db \<Rightarrow> string \<Rightarrow> string \<Rightarrow> string \<Rightarrow> (perm_entity \<times> db) result" where
  "update_prompt_permission_for_group db group_name name permission =
     bind_result (validate_permission permission) (\<lambda>_.
     bind_result (get_group db group_name) (\<lambda>grp.
     bind_result (get_prompt_group_permission db name (g_id grp)) (\<lambda>perm.
     let rows = set_rows (\<lambda>r. gp_id r = gp_id perm) (\<lambda>r. r\<lparr>gp_permission := permission\<rparr>)
                  (db_group_perms db RegisteredModel)
     in Inr (group_perm_entity (perm\<lparr>gp_permission := permission\<rparr>),
             db\<lparr>db_group_perms := (db_group_perms db)(RegisteredModel := rows)\<rparr>))))"

definition revoke_prompt_permission_from_group :: "db \<Rightarrow> string \<Rightarrow> string \<Rightarrow> db result" where
  "revoke_prompt_permission_from_group db group_name name =
     bind_result (get_group db group_name) (\<lambda>grp.
     bind_result (get_prompt_group_permission db name (g_id grp)) (\<lambda>perm.
     Inr (db\<lparr>db_group_perms := (db_group_perms db)
       (RegisteredModel :=
          delete_rows (\<lambda>r. gp_id r = gp_id perm) (db_group_perms db RegisteredModel))\<rparr>)))"

subsection \<open>Scorers\<close>

text \<open>The same steps on the two-column key, without the IntegrityError handler of the base class.\<close>

definition scorer_group_permission_or_none ::
    "db \<Rightarrow> string \<Rightarrow> string \<Rightarrow> string \<Rightarrow> group_perm option result" where
  "scorer_group_permission_or_none db experiment_id scorer_name group_name =
     group_get_permission_or_none Scorer db (ScorerKey experiment_id scorer_name) group_name"

definition scorer_group_grant_permission ::
    "db \<Rightarrow> string \<Rightarrow> string \<Rightarrow> string \<Rightarrow> string \<Rightarrow> (perm_entity \<times> db) result" where
  "scorer_group_grant_permission db group_name experiment_id scorer_name permission =
     bind_result (validate_permission permission) (\<lambda>_.
     bind_result (get_group db group_name) (\<lambda>grp.
     add_group_perm_row Scorer db (ScorerKey experiment_id scorer_name) (g_id grp) permission False))"

definition list_groups_for_scorer :: "db \<Rightarrow> string \<Rightarrow> string \<Rightarrow> (string \<times> string) list" where
  "list_groups_for_scorer db experiment_id scorer_name =
     group_join_rows Scorer db (\<lambda>r. gp_key r = ScorerKey experiment_id scorer_name)"

definition get_group_permission_for_user_scorer ::
    "db \<Rightarrow> string \<Rightarrow> string \<Rightarrow> string \<Rightarrow> perm_entity result" where
  "get_group_permission_for_user_scorer db experiment_id scorer_name username =
     bind_result (group_list_user_groups db username) (\<lambda>user_groups.
     bind_result (highest_loop (scorer_group_permission_or_none db experiment_id scorer_name)
                    gp_permission user_groups None) (\<lambda>best.
     case best of
       None \<Rightarrow> Inl (MlflowException RESOURCE_DOES_NOT_EXIST)
     | Some r \<Rightarrow> Inr (group_perm_entity r)))"

definition scorer_group_update_permission ::
    "db \<Rightarrow> string \<Rightarrow> string \<Rightarrow> string \<Rightarrow> string \<Rightarrow> (perm_entity \<times> db) result" where
  "scorer_group_update_permission db group_name experiment_id scorer_name permission =
     group_update_permission Scorer db group_name (ScorerKey experiment_id scorer_name) permission"

definition scorer_group_revoke_permission ::
    "db \<Rightarrow> string \<Rightarrow> string \<Rightarrow> string \<Rightarrow> db result" where
  "scorer_group_revoke_permission db group_name experiment_id scorer_name =
     group_revoke_permission Scorer db group_name (ScorerKey experiment_id scorer_name)"

subsection \<open>Gateway resources\<close>

text \<open>The argument is a group name; no loop over groups is made.\<close>

definition gateway_get_group_permission_for_user ::
    "resource_class \<Rightarrow> db \<Rightarrow> string \<Rightarrow> string \<Rightarrow> perm_entity result" where
  "gateway_get_group_permission_for_user c db resource_id group_name =
     bind_result (group_get_permission_row c db (ResourceId resource_id) group_name)
       (\<lambda>perm. Inr (group_perm_entity perm))"

section \<open>The table as a map\<close>

definition group_exists :: "db \<Rightarrow> string \<Rightarrow> bool" where
  "group_exists db group_name \<longleftrightarrow> group_name \<in> g_name ` set (db_groups db)"

definition group_perm_at :: "resource_class \<Rightarrow> db \<Rightarrow> rkey \<Rightarrow> nat \<Rightarrow> group_perm option" where
  "group_perm_at c db key gid = row_at gp_unique (key, gid) (db_group_perms db c)"

definition group_perm_lookup :: "resource_class \<Rightarrow> db \<Rightarrow> rkey \<Rightarrow> string \<Rightarrow> string option" where
  "group_perm_lookup c db key group_name =
     (case get_group db group_name of
        Inl _ \<Rightarrow> None
      | Inr g \<Rightarrow> map_option gp_permission (group_perm_at c db key (g_id g)))"

lemma group_exists_iff: "db_wf db \<Longrightarrow> group_exists db n \<longleftrightarrow> (\<exists>g. get_group db n = Inr g)"
  unfolding group_exists_def by (auto simp: get_group_Inr)

lemma group_exists_Inl:
  "db_wf db \<Longrightarrow> get_group db n = Inl e \<Longrightarrow>
   \<not> group_exists db n \<and> e = MlflowException RESOURCE_DOES_NOT_EXIST"
  unfolding group_exists_def by (simp add: get_group_Inl)

lemma group_key_filter:
  assumes "db_wf db"
  shows "filter (\<lambda>p. gp_key p = key \<and> gp_group p = gid) (db_group_perms db c) =
    (case group_perm_at c db key gid of None \<Rightarrow> [] | Some r \<Rightarrow> [r])"
  unfolding group_perm_at_def
  by (rule filter_row_at [OF table_okD(2) [OF db_wf_keys(5) [OF assms]]]) (simp add: gp_unique_def)

lemma group_name_filter:
  assumes "db_wf db"
  shows "filter (\<lambda>g. g_name g = n) (db_groups db) =
    (case get_group db n of Inl _ \<Rightarrow> [] | Inr g \<Rightarrow> [g])"
proof (cases "get_group db n")
  case (Inl e)
  with get_group_Inl [OF assms Inl] show ?thesis by (auto simp: filter_empty_conv)
next
  case (Inr g)
  then show ?thesis by (simp add: get_group_def query_one_mlflow_Inr)
qed

lemma group_get_permission_or_none_eq:
  assumes "db_wf db"
  shows "group_get_permission_or_none c db key n =
    Inr (case get_group db n of Inl _ \<Rightarrow> None | Inr g \<Rightarrow> group_perm_at c db key (g_id g))"
  by (simp add: group_get_permission_or_none_def group_name_filter [OF assms]
        group_key_filter [OF assms] split: sum.split option.split)

lemma group_perm_lookup_or_none:
  assumes "db_wf db"
  shows "\<exists>r. group_get_permission_or_none c db key n = Inr r \<and>
    map_option gp_permission r = group_perm_lookup c db key n"
  by (simp add: group_get_permission_or_none_eq [OF assms] group_perm_lookup_def split: sum.split)

section \<open>The repository meets its contract\<close>

lemma gp_unique_upd [simp]: "gp_unique (r\<lparr>gp_permission := p\<rparr>) = gp_unique r"
  by (simp add: gp_unique_def)

lemma group_perm_row_key:
  assumes "db_wf db" and "r \<in> set (db_group_perms db c)"
  shows "set_rows (\<lambda>x. gp_id x = gp_id r) f (db_group_perms db c) =
           set_rows (\<lambda>x. gp_unique x = gp_unique r) f (db_group_perms db c)"
    and "delete_rows (\<lambda>x. gp_id x = gp_id r) (db_group_perms db c) =
           delete_rows (\<lambda>x. gp_unique x = gp_unique r) (db_group_perms db c)"
  using table_okD [OF db_wf_keys(5) [OF assms(1)]] assms(2)
  by (auto intro: set_rows_by_id delete_rows_by_id)

lemma group_perm_at_SomeD:
  "group_perm_at c db key i = Some r \<Longrightarrow>
   r \<in> set (db_group_perms db c) \<and> gp_unique r = (key, i) \<and> gp_key r = key \<and> gp_group r = i"
  by (auto simp: group_perm_at_def gp_unique_def dest: row_at_SomeD)

lemma group_perm_lookup_upd:
  assumes "db_wf db" and "get_group db n = Inr g"
    and "\<And>k i. group_perm_at c db' k i =
           (if k = key \<and> i = g_id g then r else group_perm_at c db k i)"
    and "\<And>m. get_group db' m = get_group db m"
  shows "group_perm_lookup c db' = perm_upd (group_perm_lookup c db) key n (map_option gp_permission r)"
proof (intro perm_map_eqI)
  fix k m
  show "group_perm_lookup c db' k m =
      perm_upd (group_perm_lookup c db) key n (map_option gp_permission r) k m"
  proof (cases "get_group db m")
    case (Inl e)
    then have "m \<noteq> n" using assms(2) by auto
    with Inl show ?thesis by (simp add: group_perm_lookup_def perm_upd_apply assms(4))
  next
    case (Inr h)
    with get_group_same_id [OF assms(1) Inr assms(2)] show ?thesis
      by (auto simp: group_perm_lookup_def perm_upd_apply assms(3,4))
  qed
qed

lemma add_group_perm_row_Inr:
  assumes "add_group_perm_row c db key i permission prompt = Inr (e, db')"
  obtains perm where "gp_id perm = db_new_id db (map gp_id (db_group_perms db c))"
    and "gp_unique perm = (key, i)" and "gp_group perm = i" and "gp_permission perm = permission"
    and "gp_prompt perm = prompt" and "group_perm_at c db key i = None"
    and "db' = db\<lparr>db_group_perms := (db_group_perms db)(c := db_group_perms db c @ [perm])\<rparr>"
proof -
  let ?r = "\<lparr>gp_id = db_new_id db (map gp_id (db_group_perms db c)), gp_key = key,
    gp_group = i, gp_permission = permission, gp_prompt = prompt\<rparr>"
  from assms have "group_perm_at c db key i = None"
    and "db' = db\<lparr>db_group_perms := (db_group_perms db)(c := db_group_perms db c @ [?r])\<rparr>"
    by (auto simp: add_group_perm_row_def Let_def insert_row_Inr group_perm_at_def row_at_None
          gp_unique_def)
  then show ?thesis by (intro that [of ?r]) (simp_all add: gp_unique_def)
qed

lemma add_group_perm_row_Inl:
  "add_group_perm_row c db key i permission prompt = Inl e \<longleftrightarrow>
   e = IntegrityError \<and> group_perm_at c db key i \<noteq> None"
  by (auto simp: add_group_perm_row_def Let_def bind_result_eq_Inl insert_row_Inl group_perm_at_def
        row_at_None gp_unique_def)

lemma add_group_perm_row_wf:
  assumes "db_wf db" and "i \<in> group_ids db"
    and "add_group_perm_row c db key i permission prompt = Inr (e, db')"
  shows "db_wf db'"
  using assms(3)
proof (rule add_group_perm_row_Inr)
  fix perm
  assume p: "gp_id perm = db_new_id db (map gp_id (db_group_perms db c))"
    "gp_unique perm = (key, i)" "gp_group perm = i" "group_perm_at c db key i = None"
    and db': "db' = db\<lparr>db_group_perms := (db_group_perms db)(c := db_group_perms db c @ [perm])\<rparr>"
  have "table_ok gp_id gp_unique (db_group_perms db c @ [perm])"
    using p fresh_keys_new_id [OF assms(1), of gp_id "db_group_perms db c"]
    by (intro table_ok_append db_wf_keys(5) [OF assms(1)])
       (auto simp: group_perm_at_def row_at_None)
  then show "db_wf db'"
    unfolding db' using p(3) assms(2) db_wf_refs(4) [OF assms(1)]
    by (intro db_wf_set_group_perms assms) auto
qed

lemma add_group_perm_row_lookup:
  assumes "db_wf db" and "get_group db n = Inr g"
    and "add_group_perm_row c db key (g_id g) permission prompt = Inr (e, db')"
  shows "group_perm_lookup c db' = perm_upd (group_perm_lookup c db) key n (Some permission)"
    and "group_exists db' = group_exists db"
proof -
  from assms(3) obtain perm where p: "gp_unique perm = (key, g_id g)" "gp_permission perm = permission"
    "group_perm_at c db key (g_id g) = None"
    and db': "db' = db\<lparr>db_group_perms := (db_group_perms db)(c := db_group_perms db c @ [perm])\<rparr>"
    by (rule add_group_perm_row_Inr)
  have "group_perm_at c db' k i = (if k = key \<and> i = g_id g then Some perm else group_perm_at c db k i)"
    for k i
    using p by (auto simp: db' group_perm_at_def row_at_append split: option.split)
  then show "group_perm_lookup c db' = perm_upd (group_perm_lookup c db) key n (Some permission)"
    using group_perm_lookup_upd [OF assms(1,2), of c db' key "Some perm"] p(2) by (simp add: db')
  show "group_exists db' = group_exists db" by (rule ext) (simp add: group_exists_def db')
qed

lemma group_grant_permission_refines:
  assumes "db_wf db"
  shows "step_refines db_wf group_exists (group_perm_lookup c) db
    (result_state (group_grant_permission c db n key p))
    (spec_apply valid_permission NoResultFound (group_exists db)
       (group_perm_lookup c db) (Grant key n p))"
proof (cases "valid_permission p")
  case False
  then show ?thesis
    by (simp add: step_refines_def group_grant_permission_def validate_permission_invalid)
next
  case True
  show ?thesis
  proof (cases "get_group db n")
    case (Inl e)
    with True group_exists_Inl [OF assms Inl] show ?thesis
      by (simp add: step_refines_def group_grant_permission_def validate_permission_valid)
  next
    case (Inr g)
    then have ex: "group_exists db n" by (simp add: group_exists_iff [OF assms])
    show ?thesis
    proof (cases "add_group_perm_row c db key (g_id g) p False")
      case (Inl e)
      then have "e = IntegrityError" "group_perm_lookup c db key n \<noteq> None"
        by (auto simp: add_group_perm_row_Inl group_perm_lookup_def Inr)
      with True Inr Inl ex show ?thesis
        by (simp add: step_refines_def group_grant_permission_def validate_permission_valid)
    next
      case (Inr x)
      then obtain e db' where r: "add_group_perm_row c db key (g_id g) p False = Inr (e, db')"
        by (cases x) simp
      have wf: "db_wf db'"
        using add_group_perm_row_wf [OF assms get_group_id r] \<open>get_group db n = Inr g\<close> by blast
      have "group_perm_lookup c db key n = None"
        using r \<open>get_group db n = Inr g\<close>
        by (auto simp: group_perm_lookup_def elim: add_group_perm_row_Inr)
      with True ex wf r \<open>get_group db n = Inr g\<close>
        add_group_perm_row_lookup [OF assms \<open>get_group db n = Inr g\<close> r]
      show ?thesis
        by (simp add: step_refines_def group_grant_permission_def validate_permission_valid)
    qed
  qed
qed

lemma group_update_permission_Inr:
  assumes "db_wf db" and "group_update_permission c db n key permission = Inr (e, db')"
  obtains g r where "valid_permission permission" and "get_group db n = Inr g"
    and "group_perm_at c db key (g_id g) = Some r"
    and "db' = db\<lparr>db_group_perms := (db_group_perms db)(c :=
          set_rows (\<lambda>x. gp_unique x = (key, g_id g)) (\<lambda>x. x\<lparr>gp_permission := permission\<rparr>)
            (db_group_perms db c))\<rparr>"
proof -
  from assms(2) obtain g r where gr: "valid_permission permission" "get_group db n = Inr g"
    "group_perm_at c db key (g_id g) = Some r"
    "db' = db\<lparr>db_group_perms := (db_group_perms db)(c :=
        set_rows (\<lambda>x. gp_id x = gp_id r) (\<lambda>x. x\<lparr>gp_permission := permission\<rparr>)
          (db_group_perms db c))\<rparr>"
    by (auto simp: group_update_permission_def group_key_filter [OF assms(1)] query_one_Inr Let_def
          split: option.splits)
  with group_perm_at_SomeD [OF gr(3)] group_perm_row_key(1) [OF assms(1)] show ?thesis
    by (intro that [of g r]) auto
qed

lemma group_revoke_permission_Inr:
  assumes "db_wf db" and "group_revoke_permission c db n key = Inr db'"
  obtains g r where "get_group db n = Inr g" and "group_perm_at c db key (g_id g) = Some r"
    and "db' = db\<lparr>db_group_perms := (db_group_perms db)(c :=
          delete_rows (\<lambda>x. gp_unique x = (key, g_id g)) (db_group_perms db c))\<rparr>"
proof -
  from assms(2) obtain g r where gr: "get_group db n = Inr g"
    "group_perm_at c db key (g_id g) = Some r"
    "db' = db\<lparr>db_group_perms := (db_group_perms db)(c :=
        delete_rows (\<lambda>x. gp_id x = gp_id r) (db_group_perms db c))\<rparr>"
    by (auto simp: group_revoke_permission_def group_key_filter [OF assms(1)] query_one_Inr
          split: option.splits)
  with group_perm_at_SomeD [OF gr(2)] group_perm_row_key(2) [OF assms(1)] show ?thesis
    by (intro that [of g r]) auto
qed

lemma group_update_permission_wf:
  assumes "db_wf db" and "group_update_permission c db n key permission = Inr (e, db')"
  shows "db_wf db'"
  using assms
proof (rule group_update_permission_Inr)
  fix g
  assume d: "db' = db\<lparr>db_group_perms := (db_group_perms db)(c :=
      set_rows (\<lambda>x. gp_unique x = (key, g_id g)) (\<lambda>x. x\<lparr>gp_permission := permission\<rparr>)
        (db_group_perms db c))\<rparr>"
  show "db_wf db'"
    unfolding d using db_wf_refs(4) [OF assms(1)] db_wf_keys(5) [OF assms(1)]
    by (intro db_wf_set_group_perms table_ok_set_rows assms) (auto simp: set_set_rows split: if_splits)
qed

lemma group_revoke_permission_wf:
  assumes "db_wf db" and "group_revoke_permission c db n key = Inr db'"
  shows "db_wf db'"
  using assms
proof (rule group_revoke_permission_Inr)
  fix g
  assume d: "db' = db\<lparr>db_group_perms := (db_group_perms db)(c :=
      delete_rows (\<lambda>x. gp_unique x = (key, g_id g)) (db_group_perms db c))\<rparr>"
  show "db_wf db'"
    unfolding d using db_wf_refs(4) [OF assms(1)] db_wf_keys(5) [OF assms(1)]
    by (intro db_wf_set_group_perms table_ok_delete assms) auto
qed

lemma group_update_permission_refines:
  assumes "db_wf db"
  shows "step_refines db_wf group_exists (group_perm_lookup c) db
    (result_state (group_update_permission c db n key p))
    (spec_apply valid_permission NoResultFound (group_exists db)
       (group_perm_lookup c db) (Update key n p))"
proof (cases "group_update_permission c db n key p")
  case (Inl e)
  then show ?thesis
    by (auto simp: step_refines_def group_update_permission_def group_key_filter [OF assms]
          Let_def group_perm_lookup_def group_exists_iff [OF assms] validate_permission_invalid
          validate_permission_valid bind_result_eq_Inl dest: get_group_Inl [OF assms]
          split: sum.splits option.splits if_splits)
next
  case (Inr x)
  then obtain e db' where Inr: "group_update_permission c db n key p = Inr (e, db')"
    by (cases x) simp
  show ?thesis
    using assms Inr
  proof (rule group_update_permission_Inr)
    fix g r
    assume v: "valid_permission p" and g: "get_group db n = Inr g"
      and r: "group_perm_at c db key (g_id g) = Some r"
      and d: "db' = db\<lparr>db_group_perms := (db_group_perms db)(c :=
          set_rows (\<lambda>x. gp_unique x = (key, g_id g)) (\<lambda>x. x\<lparr>gp_permission := p\<rparr>)
            (db_group_perms db c))\<rparr>"
    have "group_perm_at c db' k i = (if k = key \<and> i = g_id g then Some (r\<lparr>gp_permission := p\<rparr>)
        else group_perm_at c db k i)" for k i
      using r by (auto simp: d group_perm_at_def row_at_set_key)
    then have "group_perm_lookup c db' = perm_upd (group_perm_lookup c db) key n (Some p)"
      using group_perm_lookup_upd [OF assms g, of c db' key "Some (r\<lparr>gp_permission := p\<rparr>)"]
      by (simp add: d)
    moreover have "group_exists db' = group_exists db"
      by (rule ext) (simp add: group_exists_def d)
    ultimately show ?thesis
      using v g r Inr group_update_permission_wf [OF assms Inr]
      by (simp add: step_refines_def group_perm_lookup_def)
  qed
qed

lemma group_revoke_permission_refines:
  assumes "db_wf db"
  shows "step_refines db_wf group_exists (group_perm_lookup c) db
    (group_revoke_permission c db n key)
    (spec_apply valid_permission NoResultFound (group_exists db)
       (group_perm_lookup c db) (Revoke key n))"
proof (cases "group_revoke_permission c db n key")
  case (Inl e)
  then show ?thesis
    by (auto simp: step_refines_def group_revoke_permission_def group_key_filter [OF assms]
          group_perm_lookup_def group_exists_iff [OF assms] bind_result_eq_Inl
          dest: get_group_Inl [OF assms] split: sum.splits option.splits)
next
  case (Inr db')
  show ?thesis
    using assms Inr
  proof (rule group_revoke_permission_Inr)
    fix g r
    assume g: "get_group db n = Inr g" and r: "group_perm_at c db key (g_id g) = Some r"
      and d: "db' = db\<lparr>db_group_perms := (db_group_perms db)(c :=
          delete_rows (\<lambda>x. gp_unique x = (key, g_id g)) (db_group_perms db c))\<rparr>"
    have "group_perm_at c db' k i = (if k = key \<and> i = g_id g then None
        else group_perm_at c db k i)" for k i
      by (simp add: d group_perm_at_def)
    then have "group_perm_lookup c db' = perm_upd (group_perm_lookup c db) key n None"
      using group_perm_lookup_upd [OF assms g, of c db' key None] by (simp add: d)
    moreover have "group_exists db' = group_exists db"
      by (rule ext) (simp add: group_exists_def d)
    ultimately show ?thesis
      using g r Inr group_revoke_permission_wf [OF assms Inr]
      by (simp add: step_refines_def group_perm_lookup_def)
  qed
qed

interpretation group_repo: permission_repository db_wf valid_permission NoResultFound group_exists
  "group_perm_lookup c" "\<lambda>db k g p. result_state (group_grant_permission c db g k p)"
  "\<lambda>db k g p. result_state (group_update_permission c db g k p)"
  "\<lambda>db k g. group_revoke_permission c db g k"
  for c
proof unfold_locales
  fix db :: db and k n p
  assume wf: "db_wf db"
  show "step_refines db_wf group_exists (group_perm_lookup c) db
      (result_state (group_grant_permission c db n k p))
      (spec_apply valid_permission NoResultFound (group_exists db)
        (group_perm_lookup c db) (Grant k n p))"
    by (rule group_grant_permission_refines [OF wf])
  show "step_refines db_wf group_exists (group_perm_lookup c) db
      (result_state (group_update_permission c db n k p))
      (spec_apply valid_permission NoResultFound (group_exists db)
        (group_perm_lookup c db) (Update k n p))"
    by (rule group_update_permission_refines [OF wf])
  show "step_refines db_wf group_exists (group_perm_lookup c) db (group_revoke_permission c db n k)
      (spec_apply valid_permission NoResultFound (group_exists db)
        (group_perm_lookup c db) (Revoke k n))"
    by (rule group_revoke_permission_refines [OF wf])
  show "group_exists db n" if "group_perm_lookup c db k n \<noteq> None"
    using that by (auto simp: group_perm_lookup_def group_exists_iff [OF wf] split: sum.splits)
qed

definition group_repo_run :: "resource_class \<Rightarrow> db \<Rightarrow> (rkey, string) perm_op list \<Rightarrow>
    unit result list \<times> db" where
  "group_repo_run c =
     repo_run (\<lambda>db k g p. result_state (group_grant_permission c db g k p))
       (\<lambda>db k g p. result_state (group_update_permission c db g k p))
       (\<lambda>db k g. group_revoke_permission c db g k)"

section \<open>The best permission of a user's groups\<close>

text \<open>Among candidates with valid names, \<open>best_of\<close> says which results the loop may return.\<close>

definition best_of :: "('r \<Rightarrow> string) \<Rightarrow> 'r set \<Rightarrow> 'r option \<Rightarrow> bool" where
  "best_of perm candidates best \<longleftrightarrow>
     (case best of
        None \<Rightarrow> candidates = {}
      | Some p \<Rightarrow> p \<in> candidates \<and>
          (\<forall>q \<in> candidates. priority_of (perm q) \<le> priority_of (perm p)))"

lemma best_of_priority_unique:
  "best_of perm A (Some p) \<Longrightarrow> best_of perm A (Some q) \<Longrightarrow>
   priority_of (perm p) = priority_of (perm q)"
  by (force simp: best_of_def)

lemma best_of_insert:
  assumes "best_of perm A b"
  shows "best_of perm (insert p A)
    (case b of None \<Rightarrow> Some p
     | Some q \<Rightarrow> if priority_of (perm q) \<le> priority_of (perm p) then Some p else Some q)"
  using assms by (auto simp: best_of_def split: option.splits)

lemma highest_loop_best:
  assumes "\<And>ug. ug \<in> set ugs \<Longrightarrow> get ug = Inr (row ug)"
    and "\<And>ug p. ug \<in> set ugs \<Longrightarrow> row ug = Some p \<Longrightarrow> valid_permission (perm p)"
    and "\<And>p. p \<in> A \<Longrightarrow> valid_permission (perm p)" and "best_of perm A b"
  shows "\<exists>res. highest_loop get perm ugs b = Inr res \<and>
    best_of perm (A \<union> {p. \<exists>ug \<in> set ugs. row ug = Some p}) res"
  using assms
proof (induction ugs arbitrary: A b)
  case Nil
  then show ?case by simp
next
  case (Cons ug ugs)
  have get: "get ug = Inr (row ug)" by (simp add: Cons.prems(1))
  show ?case
  proof (cases "row ug")
    case None
    then have "{p. \<exists>x \<in> set (ug # ugs). row x = Some p} = {p. \<exists>x \<in> set ugs. row x = Some p}"
      by auto
    moreover have "\<exists>res. highest_loop get perm ugs b = Inr res \<and>
        best_of perm (A \<union> {p. \<exists>x \<in> set ugs. row x = Some p}) res"
      using Cons.prems by (intro Cons.IH) auto
    ultimately show ?thesis using get None by simp
  next
    case (Some p)
    let ?b = "case b of None \<Rightarrow> Some p
      | Some q \<Rightarrow> if priority_of (perm q) \<le> priority_of (perm p) then Some p else Some q"
    have vp: "valid_permission (perm p)" by (rule Cons.prems(2) [of ug]) (simp_all add: Some)
    have "highest_loop get perm (ug # ugs) b = highest_loop get perm ugs ?b"
    proof (cases b)
      case None
      with get Some show ?thesis by simp
    next
      case (Some q)
      then have "valid_permission (perm q)" using Cons.prems(3,4) by (auto simp: best_of_def)
      with Some \<open>row ug = Some p\<close> get vp show ?thesis by (simp add: compare_permissions_valid)
    qed
    moreover have "A \<union> {r. \<exists>x \<in> set (ug # ugs). row x = Some r} =
        insert p A \<union> {r. \<exists>x \<in> set ugs. row x = Some r}"
      using Some by auto
    moreover have "\<exists>res. highest_loop get perm ugs ?b = Inr res \<and>
        best_of perm (insert p A \<union> {r. \<exists>x \<in> set ugs. row x = Some r}) res"
      using Cons.prems(1,2,3) vp
      by (intro Cons.IH best_of_insert [OF Cons.prems(4)]) auto
    ultimately show ?thesis by simp
  qed
qed

text \<open>The group permission rows on a resource that a user has through some group.\<close>

definition user_group_rows :: "resource_class \<Rightarrow> db \<Rightarrow> rkey \<Rightarrow> string \<Rightarrow> group_perm set" where
  "user_group_rows c db key username =
     {r. \<exists>g h. member_of db username g \<and> get_group db g = Inr h \<and>
               group_perm_at c db key (g_id h) = Some r}"

definition group_perms_valid :: "db \<Rightarrow> bool" where
  "group_perms_valid db \<longleftrightarrow> (\<forall>c. \<forall>r \<in> set (db_group_perms db c). valid_permission (gp_permission r))"

lemma group_list_user_groups_eq: "group_list_user_groups = list_groups_for_user"
  by (intro ext) (simp add: group_list_user_groups_def list_groups_for_user_def)

lemma list_groups_for_user_unknown:
  assumes "db_wf db" and "\<nexists>u. get_user db n = Inr u"
  shows "list_groups_for_user db n = Inl (MlflowException RESOURCE_DOES_NOT_EXIST)"
proof (cases "get_user db n")
  case (Inl e)
  with get_user_Inl [OF assms(1) Inl] show ?thesis by (simp add: list_groups_for_user_def)
next
  case (Inr u)
  with assms(2) show ?thesis by blast
qed

lemma user_group_rows_valid:
  "group_perms_valid db \<Longrightarrow> r \<in> user_group_rows c db key n \<Longrightarrow> valid_permission (gp_permission r)"
  by (auto simp: user_group_rows_def group_perms_valid_def dest: group_perm_at_SomeD)

lemma user_group_rows_loop:
  assumes "db_wf db" and "group_perms_valid db" and "list_groups_for_user db n = Inr gs"
    and "get_user db n = Inr u"
    and "\<And>g. get g = group_get_permission_or_none c db key g"
  shows "\<exists>res. highest_loop get gp_permission gs None = Inr res \<and>
    best_of gp_permission (user_group_rows c db key n) res"
proof -
  define row where "row g = (case get_group db g of Inl _ \<Rightarrow> None
    | Inr h \<Rightarrow> group_perm_at c db key (g_id h))" for g
  from list_groups_for_user_set [OF assms(1,4)] assms(3)
  have gs: "set gs = {g. member_of db n g}" by auto
  have valid: "valid_permission (gp_permission p)" if "row g = Some p" for g p
    using that assms(2)
    by (auto simp: row_def group_perms_valid_def split: sum.splits dest: group_perm_at_SomeD)
  have "\<exists>res. highest_loop get gp_permission gs None = Inr res \<and>
      best_of gp_permission ({} \<union> {p. \<exists>g \<in> set gs. row g = Some p}) res"
    using valid
    by (intro highest_loop_best)
       (auto simp: assms(5) group_get_permission_or_none_eq [OF assms(1)] row_def best_of_def)
  moreover have "row g = Some p \<longleftrightarrow>
      (\<exists>h. get_group db g = Inr h \<and> group_perm_at c db key (g_id h) = Some p)" for g p
    by (simp add: row_def split: sum.split)
  then have "{p. \<exists>g \<in> set gs. row g = Some p} = user_group_rows c db key n"
    unfolding gs user_group_rows_def by blast
  ultimately show ?thesis by simp
qed

lemma group_get_permission_for_user_resource_best:
  assumes "db_wf db" and "group_perms_valid db"
  shows "\<exists>res. best_of gp_permission (user_group_rows c db key n) res \<and>
    group_get_permission_for_user_resource c db key n =
      (case res of None \<Rightarrow> Inl (MlflowException RESOURCE_DOES_NOT_EXIST)
       | Some r \<Rightarrow> Inr (group_perm_entity r))"
proof (cases "get_user db n")
  case (Inl e)
  then have "\<not> member_of db n g" for g by (simp add: member_of_def)
  then have "best_of gp_permission (user_group_rows c db key n) None"
    by (simp add: best_of_def user_group_rows_def)
  moreover have "list_groups_for_user db n = Inl (MlflowException RESOURCE_DOES_NOT_EXIST)"
    using Inl by (intro list_groups_for_user_unknown [OF assms(1)]) simp
  ultimately show ?thesis
    by (intro exI [of _ None])
       (simp add: group_get_permission_for_user_resource_def group_list_user_groups_eq)
next
  case (Inr u)
  from list_groups_for_user_set [OF assms(1) Inr] obtain gs where gs: "list_groups_for_user db n = Inr gs"
    by blast
  from user_group_rows_loop [OF assms gs Inr, of _ c key] obtain res where
    res: "highest_loop (group_get_permission_or_none c db key) gp_permission gs None = Inr res"
      "best_of gp_permission (user_group_rows c db key n) res" by blast
  then show ?thesis
    by (intro exI [of _ res])
       (simp add: group_get_permission_for_user_resource_def group_list_user_groups_eq gs split: option.split)
qed

lemma registered_model_get_for_user_eq:
  "registered_model_get_for_user db name n =
   group_get_permission_for_user_resource RegisteredModel db (ResourceId name) n"
  by (simp add: registered_model_get_for_user_def group_get_permission_for_user_resource_def
        group_list_user_groups_eq)

lemma get_group_permission_for_user_scorer_eq:
  "get_group_permission_for_user_scorer db e s n =
   group_get_permission_for_user_resource Scorer db (ScorerKey e s) n"
  by (simp add: get_group_permission_for_user_scorer_def group_get_permission_for_user_resource_def
        scorer_group_permission_or_none_def [abs_def])

section \<open>The other operations keep the database well-formed\<close>

lemma group_set_key_wf:
  assumes "db_wf db"
    and "rows = set_rows P (\<lambda>r. r\<lparr>gp_key := f (gp_key r)\<rparr>) (db_group_perms db c)"
    and "distinct (map gp_unique rows)"
  shows "db_wf (db\<lparr>db_group_perms := (db_group_perms db)(c := rows)\<rparr>)"
proof -
  have "map gp_id rows = map gp_id (db_group_perms db c)"
    unfolding assms(2) by (rule set_rows_map_same) simp
  with assms(3) have "table_ok gp_id gp_unique rows"
    using db_wf_keys(5) [OF assms(1)] by (simp add: table_ok_def)
  then show ?thesis
    using db_wf_refs(4) [OF assms(1)]
    by (intro db_wf_set_group_perms assms(1)) (auto simp: assms(2) set_set_rows)
qed

lemma group_rename_wf:
  assumes "db_wf db" and "group_rename c db old new = Inr db'"
  shows "db_wf db'"
  using assms(2) group_set_key_wf [OF assms(1) refl]
  by (auto simp: group_rename_def update_rows_Inr)

lemma registered_model_group_rename_wf:
  "db_wf db \<Longrightarrow> registered_model_group_rename db old new = Inr db' \<Longrightarrow> db_wf db'"
  by (auto simp: registered_model_group_rename_def dest: group_rename_wf split: if_splits)

lemma group_delete_wf:
  assumes "db_wf db"
  shows "db_wf (db\<lparr>db_group_perms := (db_group_perms db)(c := delete_rows P (db_group_perms db c))\<rparr>)"
  using db_wf_refs(4) [OF assms] db_wf_keys(5) [OF assms]
  by (intro db_wf_set_group_perms table_ok_delete assms) auto

lemma group_wipe_wf: "db_wf db \<Longrightarrow> db_wf (group_wipe c db rid)"
  unfolding group_wipe_def by (rule group_delete_wf)

lemma group_grant_permission_wf:
  assumes "db_wf db" and "group_grant_permission c db n key p = Inr (e, db')"
  shows "db_wf db'"
proof -
  from assms(2) obtain g where "get_group db n = Inr g"
    and "add_group_perm_row c db key (g_id g) p False = Inr (e, db')"
    by (auto simp: group_grant_permission_def)
  then show ?thesis using add_group_perm_row_wf [OF assms(1)] get_group_id by blast
qed

lemma grant_prompt_permission_to_group_wf:
  assumes "db_wf db" and "grant_prompt_permission_to_group db n name p = Inr (e, db')"
  shows "db_wf db'"
  using assms(2) by (auto simp: grant_prompt_permission_to_group_def
        intro: add_group_perm_row_wf [OF assms(1)] get_group_id)

lemma scorer_group_grant_permission_wf:
  assumes "db_wf db" and "scorer_group_grant_permission db n ex s p = Inr (e, db')"
  shows "db_wf db'"
  using assms(2) by (auto simp: scorer_group_grant_permission_def
        intro: add_group_perm_row_wf [OF assms(1)] get_group_id)

lemma group_set_permission_wf:
  assumes "db_wf db"
  shows "db_wf (db\<lparr>db_group_perms := (db_group_perms db)
    (c := set_rows P (\<lambda>r. r\<lparr>gp_permission := p\<rparr>) (db_group_perms db c))\<rparr>)"
  using db_wf_refs(4) [OF assms] db_wf_keys(5) [OF assms]
  by (intro db_wf_set_group_perms table_ok_set_rows assms) (auto simp: set_set_rows)

lemma update_prompt_permission_for_group_wf:
  assumes "db_wf db" and "update_prompt_permission_for_group db n name p = Inr (e, db')"
  shows "db_wf db'"
  using assms(2) group_set_permission_wf [OF assms(1)]
  by (auto simp: update_prompt_permission_for_group_def Let_def)

lemma revoke_prompt_permission_from_group_wf:
  assumes "db_wf db" and "revoke_prompt_permission_from_group db n name = Inr db'"
  shows "db_wf db'"
  using assms(2) group_delete_wf [OF assms(1)]
  by (auto simp: revoke_prompt_permission_from_group_def)

section \<open>Gateway group permissions\<close>

lemma group_get_permission_row_eq:
  assumes "db_wf db"
  shows "group_get_permission_row c db key n =
    (case get_group db n of
       Inl _ \<Rightarrow> Inl (MlflowException RESOURCE_DOES_NOT_EXIST)
     | Inr g \<Rightarrow> (case group_perm_at c db key (g_id g) of
           None \<Rightarrow> Inl (MlflowException RESOURCE_DOES_NOT_EXIST) | Some r \<Rightarrow> Inr r))"
proof (cases "get_group db n")
  case (Inl e)
  then have "n \<notin> g_name ` set (db_groups db)" using get_group_Inl [OF assms] by blast
  then have "group_perm_query c db key n = []"
    by (auto simp: group_perm_query_def filter_empty_conv)
  with Inl show ?thesis by (simp add: group_get_permission_row_def)
next
  case (Inr g)
  then have g: "g \<in> set (db_groups db)" "g_name g = n" using get_group_Inr [OF assms] by auto
  have "map (\<lambda>_. p) (filter (\<lambda>h. gp_group p = g_id h \<and> gp_key p = key \<and> g_name h = n)
          (db_groups db)) = (if gp_unique p = (key, g_id g) then [p] else [])" for p
  proof (cases "gp_unique p = (key, g_id g)")
    case True
    have "filter (\<lambda>h. gp_group p = g_id h \<and> gp_key p = key \<and> g_name h = n) (db_groups db) = [g]"
      using True g table_okD [OF db_wf_keys(2) [OF assms]]
      by (intro filter_unique [where key = g_id]) (auto simp: gp_unique_def dest: distinct_key_eq)
    with True show ?thesis by simp
  next
    case False
    then have "filter (\<lambda>h. gp_group p = g_id h \<and> gp_key p = key \<and> g_name h = n) (db_groups db) = []"
      using g table_okD(2) [OF db_wf_keys(2) [OF assms]]
      by (auto simp: filter_empty_conv gp_unique_def dest: distinct_key_eq)
    with False show ?thesis by simp
  qed
  then have "group_perm_query c db key n = filter (\<lambda>p. gp_unique p = (key, g_id g)) (db_group_perms db c)"
    by (simp add: group_perm_query_def concat_map_if)
  also have "\<dots> = filter (\<lambda>p. gp_key p = key \<and> gp_group p = g_id g) (db_group_perms db c)"
    by (simp add: gp_unique_def)
  finally have "group_perm_query c db key n =
      filter (\<lambda>p. gp_key p = key \<and> gp_group p = g_id g) (db_group_perms db c)" .
  then show ?thesis
    by (simp add: group_get_permission_row_def group_key_filter [OF assms] Inr split: option.split)
qed

text \<open>The answer for a name depends on the group of that name, never on any membership.\<close>

lemma gateway_get_group_permission_for_user_eq:
  assumes "db_wf db"
  shows "bind_result (gateway_get_group_permission_for_user c db rid n) (\<lambda>e. Inr (pe_permission e)) =
    (case group_perm_lookup c db (ResourceId rid) n of
       None \<Rightarrow> Inl (MlflowException RESOURCE_DOES_NOT_EXIST) | Some p \<Rightarrow> Inr p)"
  by (simp add: gateway_get_group_permission_for_user_def group_get_permission_row_eq [OF assms]
        group_perm_lookup_def split: sum.split option.split)

section \<open>Properties\<close>

text \<open>C4: The same for group permissions: a sequence of grants, updates and revocations behaves as
  the abstract map: every request returns or raises exactly what the specification says, with
  the library's NoResultFound where an update or a revocation finds no row of an existing
  group, and the permissions found afterwards are those of the specification.\<close>

theorem group_permissions_refine_map:
  assumes "db_wf db"
  shows "case group_repo_run c db xs of (outcomes, db') \<Rightarrow>
    db_wf db' \<and> (outcomes, group_perm_lookup c db') =
      spec_run valid_permission NoResultFound (group_exists db) (group_perm_lookup c db) xs"
  unfolding group_repo_run_def using assms by (rule group_repo.run_refines)

theorem group_permissions_refine_map_witness:
  "case group_repo_run Experiment example_db
        [Update (ResourceId ''20'') ''devs'' ''MANAGE'', Revoke (ResourceId ''20'') ''ops'',
         Revoke (ResourceId ''20'') ''ops'',
         Grant (ResourceId ''20'') ''ops'' ''nonsense''] of (outcomes, db') \<Rightarrow>
     outcomes = [Inr (), Inr (), Inl NoResultFound,
       Inl (MlflowException INVALID_PARAMETER_VALUE)] \<and>
     group_perm_lookup Experiment db' (ResourceId ''20'') ''devs'' = Some ''MANAGE''"
proof -
  let ?xs = "[Update (ResourceId ''20'') ''devs'' ''MANAGE'', Revoke (ResourceId ''20'') ''ops'',
         Revoke (ResourceId ''20'') ''ops'',
         Grant (ResourceId ''20'') ''ops'' ''nonsense'']"
  have "group_perm_lookup Experiment example_db (ResourceId ''20'') ''devs'' = Some ''READ''"
    and "group_perm_lookup Experiment example_db (ResourceId ''20'') ''ops'' = Some ''EDIT''"
    by (simp_all add: group_perm_lookup_def group_perm_at_def)
       (simp_all add: example_db_def row_at_def gp_unique_def)
  then show ?thesis
    using group_permissions_refine_map [OF example_db_wf, of Experiment ?xs]
    by (auto simp: group_exists_def perm_upd_apply Let_def valid_permission_cases)
qed

text \<open>C29: The group permission found for a user on a resource is the row of one of the user's
  groups, and no group of the user has a permission of higher priority on the resource; when
  no group of the user has one, the answer is that there is no record.\<close>

theorem group_permission_is_highest:
  assumes "db_wf db" and "group_perms_valid db"
  shows "\<exists>res. best_of gp_permission (user_group_rows c db key n) res \<and>
    group_get_permission_for_user_resource c db key n =
      (case res of None \<Rightarrow> Inl (MlflowException RESOURCE_DOES_NOT_EXIST)
       | Some r \<Rightarrow> Inr (group_perm_entity r))"
  by (rule group_get_permission_for_user_resource_best [OF assms])

lemma example_group_perms_valid: "group_perms_valid example_db"
  unfolding group_perms_valid_def all_resource_class by (simp add: example_db_def)

lemma best_of_two:
  assumes "best_of perm {p, q} res" and "priority_of (perm p) < priority_of (perm q)"
  shows "res = Some q"
  using assms by (auto simp: best_of_def split: option.splits)

lemma example_user_group_rows:
  "user_group_rows Experiment example_db (ResourceId ''20'') ''alice'' =
      {\<lparr>gp_id = 1, gp_key = ResourceId ''20'', gp_group = 1, gp_permission = ''READ'', gp_prompt = False\<rparr>,
       \<lparr>gp_id = 2, gp_key = ResourceId ''20'', gp_group = 2, gp_permission = ''EDIT'', gp_prompt = False\<rparr>}"
    (is "_ = {?p, ?q}")
proof -
  have at: "group_perm_at Experiment example_db (ResourceId ''20'') 1 = Some ?p"
    "group_perm_at Experiment example_db (ResourceId ''20'') 2 = Some ?q"
    by (simp_all add: group_perm_at_def) (simp_all add: example_db_def row_at_def gp_unique_def)
  have member: "member_of example_db ''alice'' ''devs''" "member_of example_db ''alice'' ''ops''"
    by (simp_all add: member_of_def ug_unique_def)
  have only: "g_id h = 1 \<or> g_id h = 2" if "get_group example_db g = Inr h" for g h
    using get_group_Inr_mem [OF that] by auto
  show ?thesis
  proof (intro set_eqI iffI)
    fix r assume "r \<in> user_group_rows Experiment example_db (ResourceId ''20'') ''alice''"
    then obtain g h where "get_group example_db g = Inr h"
      "group_perm_at Experiment example_db (ResourceId ''20'') (g_id h) = Some r"
      by (auto simp: user_group_rows_def)
    with only [of g h] at show "r \<in> {?p, ?q}" by auto
  next
    fix r assume "r \<in> {?p, ?q}"
    then consider "r = ?p" | "r = ?q" by blast
    then show "r \<in> user_group_rows Experiment example_db (ResourceId ''20'') ''alice''"
    proof cases
      case 1
      then show ?thesis using member(1) at(1) unfolding user_group_rows_def
        by (intro CollectI exI [of _ "''devs''"] exI [of _ "db_groups example_db ! 0"]) simp
    next
      case 2
      then show ?thesis using member(2) at(2) unfolding user_group_rows_def
        by (intro CollectI exI [of _ "''ops''"] exI [of _ "db_groups example_db ! 1"]) simp
    qed
  qed
qed

theorem group_permission_is_highest_witness:
  "\<exists>e. group_get_permission_for_user_resource Experiment example_db (ResourceId ''20'') ''alice'' = Inr e \<and>
     pe_permission e = ''EDIT''"
proof -
  from group_permission_is_highest [OF example_db_wf example_group_perms_valid, of Experiment
      "ResourceId ''20''" "''alice''"]
  obtain res where best: "best_of gp_permission
      (user_group_rows Experiment example_db (ResourceId ''20'') ''alice'') res"
    and res: "group_get_permission_for_user_resource Experiment example_db (ResourceId ''20'') ''alice'' =
      (case res of None \<Rightarrow> Inl (MlflowException RESOURCE_DOES_NOT_EXIST) | Some r \<Rightarrow> Inr (group_perm_entity r))"
    by blast
  from best_of_two [OF best [unfolded example_user_group_rows]]
  have "res = Some \<lparr>gp_id = 2, gp_key = ResourceId ''20'', gp_group = 2, gp_permission = ''EDIT'',
      gp_prompt = False\<rparr>"
    by simp
  with res show ?thesis by (simp add: group_perm_entity_def)
qed

end
