(* ===== verification/WorkspaceRepo.thy ===== *)
theory WorkspaceRepo
  imports GroupPermissionRepo
begin

text \<open>
  The workspace permission repositories (\<^verbatim>\<open>repository/workspace_permission.py\<close>,
  \<^verbatim>\<open>repository/workspace_group_permission.py\<close>) and the methods of the store that call them
  with a user or group name (\<^verbatim>\<open>sqlalchemy_store.py\<close>). They are keyed by the id of a user
  or group that the store has just looked up, and they do not check the permission name.
  The rows have the fields of the entities, so a row stands for its entity.
\<close>

section \<open>User permissions\<close>

definition ws_query_one :: "'r list \<Rightarrow> 'r result" where
  "ws_query_one rows =
     (case query_one rows of
        Inl NoResultFound \<Rightarrow> Inl (MlflowException RESOURCE_DOES_NOT_EXIST)
      | r \<Rightarrow> r)"

definition ws_get :: "db \<Rightarrow> string \<Rightarrow> nat \<Rightarrow> workspace_perm result" where
  "ws_get db workspace user_id =
     ws_query_one (filter (\<lambda>r. wp_workspace r = workspace \<and> wp_user r = user_id) (db_ws_perms db))"

definition ws_create :: "db \<Rightarrow> string \<Rightarrow> nat \<Rightarrow> string \<Rightarrow> (workspace_perm \<times> db) result" where
  "ws_create db workspace user_id permission =
     on_integrity_error RESOURCE_ALREADY_EXISTS
       (let perm = \<lparr>wp_workspace = workspace, wp_user = user_id, wp_permission = permission\<rparr>
        in bind_result (insert_row wp_unique perm (db_ws_perms db)) (\<lambda>rows.
           Inr (perm, db\<lparr>db_ws_perms := rows\<rparr>)))"

definition ws_update :: "db \<Rightarrow> string \<Rightarrow> nat \<Rightarrow> string \<Rightarrow> (workspace_perm \<times> db) result" where
  "ws_update db workspace user_id permission =
     bind_result (ws_get db workspace user_id) (\<lambda>perm.
     let rows = set_rows (\<lambda>r. wp_unique r = wp_unique perm) (\<lambda>r. r\<lparr>wp_permission := permission\<rparr>)
                  (db_ws_perms db)
     in Inr (perm\<lparr>wp_permission := permission\<rparr>, db\<lparr>db_ws_perms := rows\<rparr>))"

definition ws_delete :: "db \<Rightarrow> string \<Rightarrow> nat \<Rightarrow> db result" where
  "ws_delete db workspace user_id =
     bind_result (ws_get db workspace user_id) (\<lambda>perm.
     Inr (db\<lparr>db_ws_perms := delete_rows (\<lambda>r. wp_unique r = wp_unique perm) (db_ws_perms db)\<rparr>))"

definition ws_list_for_user :: "db \<Rightarrow> nat \<Rightarrow> workspace_perm list" where
  "ws_list_for_user db user_id = filter (\<lambda>r. wp_user r = user_id) (db_ws_perms db)"

definition ws_list_for_workspace :: "db \<Rightarrow> string \<Rightarrow> workspace_perm list" where
  "ws_list_for_workspace db workspace = filter (\<lambda>r. wp_workspace r = workspace) (db_ws_perms db)"

definition ws_delete_all_for_workspace :: "db \<Rightarrow> string \<Rightarrow> nat \<times> db" where
  "ws_delete_all_for_workspace db workspace =
     (length (filter (\<lambda>r. wp_workspace r = workspace) (db_ws_perms db)),
      db\<lparr>db_ws_perms := delete_rows (\<lambda>r. wp_workspace r = workspace) (db_ws_perms db)\<rparr>)"

section \<open>Group permissions\<close>

definition wsg_get :: "db \<Rightarrow> string \<Rightarrow> nat \<Rightarrow> workspace_group_perm result" where
  "wsg_get db workspace gid =
     ws_query_one
       (filter (\<lambda>r. wgp_workspace r = workspace \<and> wgp_group r = gid) (db_ws_group_perms db))"

definition wsg_create :: "db \<Rightarrow> string \<Rightarrow> nat \<Rightarrow> string \<Rightarrow> (workspace_group_perm \<times> db) result" where
  "wsg_create db workspace gid permission =
     on_integrity_error RESOURCE_ALREADY_EXISTS
       (let perm = \<lparr>wgp_workspace = workspace, wgp_group = gid, wgp_permission = permission\<rparr>
        in bind_result (insert_row wgp_unique perm (db_ws_group_perms db)) (\<lambda>rows.
           Inr (perm, db\<lparr>db_ws_group_perms := rows\<rparr>)))"

definition wsg_update :: "db \<Rightarrow> string \<Rightarrow> nat \<Rightarrow> string \<Rightarrow> (workspace_group_perm \<times> db) result" where
  "wsg_update db workspace gid permission =
     bind_result (wsg_get db workspace gid) (\<lambda>perm.
     let rows = set_rows (\<lambda>r. wgp_unique r = wgp_unique perm) (\<lambda>r. r\<lparr>wgp_permission := permission\<rparr>)
                  (db_ws_group_perms db)
     in Inr (perm\<lparr>wgp_permission := permission\<rparr>, db\<lparr>db_ws_group_perms := rows\<rparr>))"

definition wsg_delete :: "db \<Rightarrow> string \<Rightarrow> nat \<Rightarrow> db result" where
  "wsg_delete db workspace gid =
     bind_result (wsg_get db workspace gid) (\<lambda>perm.
     Inr (db\<lparr>db_ws_group_perms :=
            delete_rows (\<lambda>r. wgp_unique r = wgp_unique perm) (db_ws_group_perms db)\<rparr>))"

definition wsg_list_for_group :: "db \<Rightarrow> nat \<Rightarrow> workspace_group_perm list" where
  "wsg_list_for_group db gid = filter (\<lambda>r. wgp_group r = gid) (db_ws_group_perms db)"

definition wsg_list_for_workspace :: "db \<Rightarrow> string \<Rightarrow> workspace_group_perm list" where
  "wsg_list_for_workspace db workspace =
     filter (\<lambda>r. wgp_workspace r = workspace) (db_ws_group_perms db)"

definition wsg_delete_all_for_workspace :: "db \<Rightarrow> string \<Rightarrow> nat \<times> db" where
  "wsg_delete_all_for_workspace db workspace =
     (length (filter (\<lambda>r. wgp_workspace r = workspace) (db_ws_group_perms db)),
      db\<lparr>db_ws_group_perms :=
         delete_rows (\<lambda>r. wgp_workspace r = workspace) (db_ws_group_perms db)\<rparr>)"

text \<open>The join of the group permissions with the membership rows of the user.\<close>

definition wsg_rows_for_user :: "db \<Rightarrow> string \<Rightarrow> nat \<Rightarrow> workspace_group_perm list" where
  "wsg_rows_for_user db workspace user_id =
     concat (map (\<lambda>p. map (\<lambda>_. p)
       (filter (\<lambda>ug. wgp_group p = ug_group ug \<and> wgp_workspace p = workspace \<and> ug_user ug = user_id)
          (db_user_groups db)))
       (db_ws_group_perms db))"

fun wsg_highest_loop ::
    "workspace_group_perm \<Rightarrow> workspace_group_perm list \<Rightarrow> workspace_group_perm result" where
  "wsg_highest_loop highest [] = Inr highest"
| "wsg_highest_loop highest (p # ps) =
     bind_result (compare_permissions (wgp_permission highest) (wgp_permission p)) (\<lambda>le.
     wsg_highest_loop (if le then p else highest) ps)"

definition get_highest_for_user :: "db \<Rightarrow> string \<Rightarrow> nat \<Rightarrow> workspace_group_perm result" where
  "get_highest_for_user db workspace user_id =
     (case wsg_rows_for_user db workspace user_id of
        [] \<Rightarrow> Inl (MlflowException RESOURCE_DOES_NOT_EXIST)
      | p # ps \<Rightarrow> wsg_highest_loop p ps)"

section \<open>The store's methods\<close>

definition get_workspace_permission :: "db \<Rightarrow> string \<Rightarrow> string \<Rightarrow> workspace_perm result" where
  "get_workspace_permission db workspace username =
     bind_result (get_user db username) (\<lambda>user. ws_get db workspace (u_id user))"

definition create_workspace_permission ::
    "db \<Rightarrow> string \<Rightarrow> string \<Rightarrow> string \<Rightarrow> (workspace_perm \<times> db) result" where
  "create_workspace_permission db workspace username permission =
     bind_result (get_user db username) (\<lambda>user. ws_create db workspace (u_id user) permission)"

definition update_workspace_permission ::
    "db \<Rightarrow> string \<Rightarrow> string \<Rightarrow> string \<Rightarrow> (workspace_perm \<times> db) result" where
  "update_workspace_permission db workspace username permission =
     bind_result (get_user db username) (\<lambda>user. ws_update db workspace (u_id user) permission)"

definition delete_workspace_permission :: "db \<Rightarrow> string \<Rightarrow> string \<Rightarrow> db result" where
  "delete_workspace_permission db workspace username =
     bind_result (get_user db username) (\<lambda>user. ws_delete db workspace (u_id user))"

definition get_user_groups_workspace_permission ::
    "db \<Rightarrow> string \<Rightarrow> string \<Rightarrow> workspace_group_perm result" where
  "get_user_groups_workspace_permission db workspace username =
     bind_result (get_user db username) (\<lambda>user. get_highest_for_user db workspace (u_id user))"

definition get_workspace_group_permission :: "db \<Rightarrow> string \<Rightarrow> string \<Rightarrow> workspace_group_perm result" where
  "get_workspace_group_permission db workspace group_name =
     bind_result (get_group db group_name) (\<lambda>grp. wsg_get db workspace (g_id grp))"

definition create_workspace_group_permission ::
    "db \<Rightarrow> string \<Rightarrow> string \<Rightarrow> string \<Rightarrow> (workspace_group_perm \<times> db) result" where
  "create_workspace_group_permission db workspace group_name permission =
     bind_result (get_group db group_name) (\<lambda>grp. wsg_create db workspace (g_id grp) permission)"

definition update_workspace_group_permission ::
    "db \<Rightarrow> string \<Rightarrow> string \<Rightarrow> string \<Rightarrow> (workspace_group_perm \<times> db) result" where
  "update_workspace_group_permission db workspace group_name permission =
     bind_result (get_group db group_name) (\<lambda>grp. wsg_update db workspace (g_id grp) permission)"

definition delete_workspace_group_permission :: "db \<Rightarrow> string \<Rightarrow> string \<Rightarrow> db result" where
  "delete_workspace_group_permission db workspace group_name =
     bind_result (get_group db group_name) (\<lambda>grp. wsg_delete db workspace (g_id grp))"

definition wipe_workspace_permissions :: "db \<Rightarrow> string \<Rightarrow> nat \<times> db" where
  "wipe_workspace_permissions db workspace =
     (let (user_count, db1) = ws_delete_all_for_workspace db workspace;
          (group_count, db2) = wsg_delete_all_for_workspace db1 workspace
      in (user_count + group_count, db2))"

section \<open>The tables as maps\<close>

definition ws_lookup :: "db \<Rightarrow> string \<Rightarrow> string \<Rightarrow> string option" where
  "ws_lookup db workspace username =
     (case get_user db username of
        Inl _ \<Rightarrow> None
      | Inr u \<Rightarrow> map_option wp_permission (row_at wp_unique (workspace, u_id u) (db_ws_perms db)))"

definition ws_user_exists :: "db \<Rightarrow> string \<Rightarrow> bool" where
  "ws_user_exists db username \<longleftrightarrow> username \<in> u_username ` set (db_users db)"

lemma ws_query_one_simps [simp]:
  "ws_query_one [] = Inl (MlflowException RESOURCE_DOES_NOT_EXIST)"
  "ws_query_one [x] = Inr x"
  by (simp_all add: ws_query_one_def)

lemma wp_unique_upd [simp]: "wp_unique (r\<lparr>wp_permission := p\<rparr>) = wp_unique r"
  by (simp add: wp_unique_def)

lemma wgp_unique_upd [simp]: "wgp_unique (r\<lparr>wgp_permission := p\<rparr>) = wgp_unique r"
  by (simp add: wgp_unique_def)

lemma ws_get_eq:
  assumes "db_wf db"
  shows "ws_get db w i = (case row_at wp_unique (w, i) (db_ws_perms db) of
    None \<Rightarrow> Inl (MlflowException RESOURCE_DOES_NOT_EXIST) | Some r \<Rightarrow> Inr r)"
proof -
  have "filter (\<lambda>r. wp_workspace r = w \<and> wp_user r = i) (db_ws_perms db) =
      (case row_at wp_unique (w, i) (db_ws_perms db) of None \<Rightarrow> [] | Some r \<Rightarrow> [r])"
    by (rule filter_row_at [OF db_wf_keys(8) [OF assms]]) (simp add: wp_unique_def)
  then show ?thesis by (simp add: ws_get_def split: option.split)
qed

lemma wsg_get_eq:
  assumes "db_wf db"
  shows "wsg_get db w i = (case row_at wgp_unique (w, i) (db_ws_group_perms db) of
    None \<Rightarrow> Inl (MlflowException RESOURCE_DOES_NOT_EXIST) | Some r \<Rightarrow> Inr r)"
proof -
  have "filter (\<lambda>r. wgp_workspace r = w \<and> wgp_group r = i) (db_ws_group_perms db) =
      (case row_at wgp_unique (w, i) (db_ws_group_perms db) of None \<Rightarrow> [] | Some r \<Rightarrow> [r])"
    by (rule filter_row_at [OF db_wf_keys(9) [OF assms]]) (simp add: wgp_unique_def)
  then show ?thesis by (simp add: wsg_get_def split: option.split)
qed

lemma ws_lookup_upd:
  assumes "db_wf db" and "get_user db n = Inr u"
    and "\<And>k. row_at wp_unique k rows =
           (if k = (w, u_id u) then r else row_at wp_unique k (db_ws_perms db))"
  shows "ws_lookup (db\<lparr>db_ws_perms := rows\<rparr>) =
    perm_upd (ws_lookup db) w n (map_option wp_permission r)"
proof (intro perm_map_eqI)
  fix k m
  show "ws_lookup (db\<lparr>db_ws_perms := rows\<rparr>) k m =
      perm_upd (ws_lookup db) w n (map_option wp_permission r) k m"
  proof (cases "get_user db m")
    case (Inl e)
    then have "m \<noteq> n" using assms(2) by auto
    with Inl show ?thesis by (simp add: ws_lookup_def perm_upd_apply)
  next
    case (Inr v)
    with get_user_same_id [OF assms(1) Inr assms(2)] show ?thesis
      by (auto simp: ws_lookup_def perm_upd_apply assms(3))
  qed
qed

section \<open>Integrity\<close>

lemma ws_create_wf:
  assumes "db_wf db" and "i \<in> user_ids db" and "ws_create db w i p = Inr (e, db')"
  shows "db_wf db'"
  using assms db_wf_keys(8) [OF assms(1)] db_wf_refs(7) [OF assms(1)]
  by (auto simp: ws_create_def Let_def insert_row_Inr intro!: db_wf_set_ws_perms)

lemma ws_set_wf:
  "db_wf db \<Longrightarrow>
   db_wf (db\<lparr>db_ws_perms := set_rows P (\<lambda>r. r\<lparr>wp_permission := p\<rparr>) (db_ws_perms db)\<rparr>)"
  using db_wf_keys(8) [of db] db_wf_refs(7) [of db]
  by (intro db_wf_set_ws_perms) (auto simp: set_rows_map_same set_set_rows)

lemma ws_delete_rows_wf:
  "db_wf db \<Longrightarrow> db_wf (db\<lparr>db_ws_perms := delete_rows P (db_ws_perms db)\<rparr>)"
  using db_wf_keys(8) [of db] db_wf_refs(7) [of db]
  by (intro db_wf_set_ws_perms) (auto simp: delete_rows_distinct)

lemma wsg_create_wf:
  assumes "db_wf db" and "i \<in> group_ids db" and "wsg_create db w i p = Inr (e, db')"
  shows "db_wf db'"
  using assms db_wf_keys(9) [OF assms(1)] db_wf_refs(8) [OF assms(1)]
  by (auto simp: wsg_create_def Let_def insert_row_Inr intro!: db_wf_set_ws_group_perms)

lemma wsg_set_wf:
  "db_wf db \<Longrightarrow>
   db_wf (db\<lparr>db_ws_group_perms :=
     set_rows P (\<lambda>r. r\<lparr>wgp_permission := p\<rparr>) (db_ws_group_perms db)\<rparr>)"
  using db_wf_keys(9) [of db] db_wf_refs(8) [of db]
  by (intro db_wf_set_ws_group_perms) (auto simp: set_rows_map_same set_set_rows)

lemma wsg_delete_rows_wf:
  "db_wf db \<Longrightarrow> db_wf (db\<lparr>db_ws_group_perms := delete_rows P (db_ws_group_perms db)\<rparr>)"
  using db_wf_keys(9) [of db] db_wf_refs(8) [of db]
  by (intro db_wf_set_ws_group_perms) (auto simp: delete_rows_distinct)

lemma create_workspace_permission_wf:
  "db_wf db \<Longrightarrow> create_workspace_permission db w n p = Inr (e, db') \<Longrightarrow> db_wf db'"
  by (auto simp: create_workspace_permission_def intro: ws_create_wf get_user_id)

lemma update_workspace_permission_wf:
  "db_wf db \<Longrightarrow> update_workspace_permission db w n p = Inr (e, db') \<Longrightarrow> db_wf db'"
  by (auto simp: update_workspace_permission_def ws_update_def Let_def intro: ws_set_wf)

lemma delete_workspace_permission_wf:
  "db_wf db \<Longrightarrow> delete_workspace_permission db w n = Inr db' \<Longrightarrow> db_wf db'"
  by (auto simp: delete_workspace_permission_def ws_delete_def intro: ws_delete_rows_wf)

lemma create_workspace_group_permission_wf:
  "db_wf db \<Longrightarrow> create_workspace_group_permission db w n p = Inr (e, db') \<Longrightarrow> db_wf db'"
  by (auto simp: create_workspace_group_permission_def intro: wsg_create_wf get_group_id)

lemma update_workspace_group_permission_wf:
  "db_wf db \<Longrightarrow> update_workspace_group_permission db w n p = Inr (e, db') \<Longrightarrow> db_wf db'"
  by (auto simp: update_workspace_group_permission_def wsg_update_def Let_def intro: wsg_set_wf)

lemma delete_workspace_group_permission_wf:
  "db_wf db \<Longrightarrow> delete_workspace_group_permission db w n = Inr db' \<Longrightarrow> db_wf db'"
  by (auto simp: delete_workspace_group_permission_def wsg_delete_def intro: wsg_delete_rows_wf)

lemma wipe_workspace_permissions_wf:
  "db_wf db \<Longrightarrow> db_wf (snd (wipe_workspace_permissions db w))"
  using wsg_delete_rows_wf [OF ws_delete_rows_wf, of db]
  by (simp add: wipe_workspace_permissions_def ws_delete_all_for_workspace_def
        wsg_delete_all_for_workspace_def)

section \<open>The user permissions meet the contract\<close>

lemma ws_user_exists_iff: "db_wf db \<Longrightarrow> ws_user_exists db n \<longleftrightarrow> (\<exists>u. get_user db n = Inr u)"
  unfolding ws_user_exists_def by (auto simp: get_user_Inr)

lemma ws_user_exists_set [simp]: "ws_user_exists (db\<lparr>db_ws_perms := rows\<rparr>) = ws_user_exists db"
  by (rule ext) (simp add: ws_user_exists_def)

lemma create_workspace_permission_refines:
  assumes "db_wf db"
  shows "step_refines db_wf ws_user_exists ws_lookup db
    (result_state (create_workspace_permission db w n p))
    (spec_apply (\<lambda>_. True) (MlflowException RESOURCE_DOES_NOT_EXIST) (ws_user_exists db)
       (ws_lookup db) (Grant w n p))"
proof (cases "get_user db n")
  case (Inl e)
  with get_user_Inl [OF assms Inl] show ?thesis
    by (simp add: step_refines_def create_workspace_permission_def ws_user_exists_def)
next
  case (Inr u)
  then have ex: "ws_user_exists db n" by (simp add: ws_user_exists_iff [OF assms])
  let ?r = "\<lparr>wp_workspace = w, wp_user = u_id u, wp_permission = p\<rparr>"
  let ?rows = "db_ws_perms db @ [?r]"
  show ?thesis
  proof (cases "row_at wp_unique (w, u_id u) (db_ws_perms db)")
    case (Some r)
    then have "create_workspace_permission db w n p = Inl (MlflowException RESOURCE_ALREADY_EXISTS)"
      using Inr
      by (auto simp: create_workspace_permission_def ws_create_def Let_def insert_row_def wp_unique_def
            dest!: row_at_SomeD intro!: image_eqI)
    with Inr Some ex show ?thesis by (simp add: step_refines_def ws_lookup_def)
  next
    case None
    then have g: "create_workspace_permission db w n p = Inr (?r, db\<lparr>db_ws_perms := ?rows\<rparr>)"
      using Inr by (simp add: create_workspace_permission_def ws_create_def Let_def insert_row_def
            wp_unique_def row_at_None)
    have "ws_lookup (db\<lparr>db_ws_perms := ?rows\<rparr>) = perm_upd (ws_lookup db) w n (Some p)"
      using ws_lookup_upd [OF assms Inr, of ?rows w "Some ?r"] None
      by (auto simp: row_at_append wp_unique_def split: option.splits)
    with g ex Inr None create_workspace_permission_wf [OF assms g] show ?thesis
      by (simp add: step_refines_def ws_lookup_def)
  qed
qed

lemma update_workspace_permission_refines:
  assumes "db_wf db"
  shows "step_refines db_wf ws_user_exists ws_lookup db
    (result_state (update_workspace_permission db w n p))
    (spec_apply (\<lambda>_. True) (MlflowException RESOURCE_DOES_NOT_EXIST) (ws_user_exists db)
       (ws_lookup db) (Update w n p))"
proof (cases "get_user db n")
  case (Inl e)
  with get_user_Inl [OF assms Inl] show ?thesis
    by (simp add: step_refines_def update_workspace_permission_def ws_user_exists_def ws_lookup_def)
next
  case (Inr u)
  show ?thesis
  proof (cases "row_at wp_unique (w, u_id u) (db_ws_perms db)")
    case None
    with Inr show ?thesis
      by (simp add: step_refines_def update_workspace_permission_def ws_update_def ws_get_eq [OF assms]
            ws_lookup_def)
  next
    case (Some r)
    from row_at_SomeD [OF Some] have k: "wp_unique r = (w, u_id u)" ..
    let ?rows = "set_rows (\<lambda>x. wp_unique x = (w, u_id u)) (\<lambda>x. x\<lparr>wp_permission := p\<rparr>) (db_ws_perms db)"
    have g: "update_workspace_permission db w n p =
        Inr (r\<lparr>wp_permission := p\<rparr>, db\<lparr>db_ws_perms := ?rows\<rparr>)"
      using Inr Some k
      by (simp add: update_workspace_permission_def ws_update_def ws_get_eq [OF assms] Let_def)
    have "ws_lookup (db\<lparr>db_ws_perms := ?rows\<rparr>) = perm_upd (ws_lookup db) w n (Some p)"
      using ws_lookup_upd [OF assms Inr, of ?rows w "Some (r\<lparr>wp_permission := p\<rparr>)"] Some
      by (simp add: row_at_set_key)
    with g Inr Some update_workspace_permission_wf [OF assms g] show ?thesis
      by (simp add: step_refines_def ws_lookup_def)
  qed
qed

lemma delete_workspace_permission_refines:
  assumes "db_wf db"
  shows "step_refines db_wf ws_user_exists ws_lookup db (delete_workspace_permission db w n)
    (spec_apply (\<lambda>_. True) (MlflowException RESOURCE_DOES_NOT_EXIST) (ws_user_exists db)
       (ws_lookup db) (Revoke w n))"
proof (cases "get_user db n")
  case (Inl e)
  with get_user_Inl [OF assms Inl] show ?thesis
    by (simp add: step_refines_def delete_workspace_permission_def ws_user_exists_def ws_lookup_def)
next
  case (Inr u)
  show ?thesis
  proof (cases "row_at wp_unique (w, u_id u) (db_ws_perms db)")
    case None
    with Inr show ?thesis
      by (simp add: step_refines_def delete_workspace_permission_def ws_delete_def ws_get_eq [OF assms]
            ws_lookup_def)
  next
    case (Some r)
    from row_at_SomeD [OF Some] have k: "wp_unique r = (w, u_id u)" ..
    let ?rows = "delete_rows (\<lambda>x. wp_unique x = (w, u_id u)) (db_ws_perms db)"
    have g: "delete_workspace_permission db w n = Inr (db\<lparr>db_ws_perms := ?rows\<rparr>)"
      using Inr Some k
      by (simp add: delete_workspace_permission_def ws_delete_def ws_get_eq [OF assms])
    have "ws_lookup (db\<lparr>db_ws_perms := ?rows\<rparr>) = perm_upd (ws_lookup db) w n None"
      using ws_lookup_upd [OF assms Inr, of ?rows w None] by simp
    with g Inr Some delete_workspace_permission_wf [OF assms g] show ?thesis
      by (simp add: step_refines_def ws_lookup_def)
  qed
qed

lemma get_workspace_permission_eq:
  assumes "db_wf db"
  shows "bind_result (get_workspace_permission db w n) (\<lambda>r. Inr (wp_permission r)) =
    (case ws_lookup db w n of
       None \<Rightarrow> Inl (MlflowException RESOURCE_DOES_NOT_EXIST) | Some p \<Rightarrow> Inr p)"
proof (cases "get_user db n")
  case (Inl e)
  with get_user_Inl [OF assms Inl] show ?thesis
    by (simp add: get_workspace_permission_def ws_lookup_def)
qed (simp add: get_workspace_permission_def ws_lookup_def ws_get_eq [OF assms] split: option.split)

interpretation workspace_repo: readable_permission_repository db_wf "\<lambda>_. True"
  "MlflowException RESOURCE_DOES_NOT_EXIST" ws_user_exists ws_lookup
  "\<lambda>db w n p. result_state (create_workspace_permission db w n p)"
  "\<lambda>db w n p. result_state (update_workspace_permission db w n p)"
  delete_workspace_permission
  "\<lambda>db w n. bind_result (get_workspace_permission db w n) (\<lambda>r. Inr (wp_permission r))"
proof unfold_locales
  fix db :: db and w n p
  assume wf: "db_wf db"
  show "step_refines db_wf ws_user_exists ws_lookup db
      (result_state (create_workspace_permission db w n p))
      (spec_apply (\<lambda>_. True) (MlflowException RESOURCE_DOES_NOT_EXIST) (ws_user_exists db)
        (ws_lookup db) (Grant w n p))"
    by (rule create_workspace_permission_refines [OF wf])
  show "step_refines db_wf ws_user_exists ws_lookup db
      (result_state (update_workspace_permission db w n p))
      (spec_apply (\<lambda>_. True) (MlflowException RESOURCE_DOES_NOT_EXIST) (ws_user_exists db)
        (ws_lookup db) (Update w n p))"
    by (rule update_workspace_permission_refines [OF wf])
  show "step_refines db_wf ws_user_exists ws_lookup db (delete_workspace_permission db w n)
      (spec_apply (\<lambda>_. True) (MlflowException RESOURCE_DOES_NOT_EXIST) (ws_user_exists db)
        (ws_lookup db) (Revoke w n))"
    by (rule delete_workspace_permission_refines [OF wf])
  show "bind_result (get_workspace_permission db w n) (\<lambda>r. Inr (wp_permission r)) =
      (case ws_lookup db w n of
         None \<Rightarrow> Inl (MlflowException RESOURCE_DOES_NOT_EXIST) | Some p \<Rightarrow> Inr p)"
    by (rule get_workspace_permission_eq [OF wf])
  show "ws_user_exists db n" if "ws_lookup db w n \<noteq> None"
    using that by (auto simp: ws_lookup_def ws_user_exists_iff [OF wf] split: sum.splits)
qed

section \<open>The best workspace permission of a user's groups\<close>

lemma wsg_highest_loop_best:
  assumes "\<And>p. p \<in> insert h (set ps) \<Longrightarrow> valid_permission (wgp_permission p)"
    and "best_of wgp_permission A (Some h)" and "\<And>p. p \<in> A \<Longrightarrow> valid_permission (wgp_permission p)"
  shows "\<exists>r. wsg_highest_loop h ps = Inr r \<and> best_of wgp_permission (A \<union> set ps) (Some r)"
  using assms
proof (induction ps arbitrary: h A)
  case Nil
  then show ?case by simp
next
  case (Cons p ps)
  let ?h = "if priority_of (wgp_permission h) \<le> priority_of (wgp_permission p) then p else h"
  have v: "valid_permission (wgp_permission h)" "valid_permission (wgp_permission p)"
    using Cons.prems(1) by auto
  have "wsg_highest_loop h (p # ps) = wsg_highest_loop ?h ps"
    using v by (simp add: compare_permissions_valid)
  moreover have "best_of wgp_permission (insert p A) (Some ?h)"
    using best_of_insert [OF Cons.prems(2), of p] by (simp split: if_splits)
  then have "\<exists>r. wsg_highest_loop ?h ps = Inr r \<and>
      best_of wgp_permission (insert p A \<union> set ps) (Some r)"
    using Cons.prems(1,3) v by (intro Cons.IH) auto
  ultimately show ?case by simp
qed

definition ws_group_rows :: "db \<Rightarrow> string \<Rightarrow> nat \<Rightarrow> workspace_group_perm set" where
  "ws_group_rows db workspace user_id =
     {r \<in> set (db_ws_group_perms db). wgp_workspace r = workspace \<and>
        (user_id, wgp_group r) \<in> ug_unique ` set (db_user_groups db)}"

lemma wsg_rows_for_user_set: "set (wsg_rows_for_user db w i) = ws_group_rows db w i"
  by (auto simp: wsg_rows_for_user_def ws_group_rows_def ug_unique_def)

definition ws_group_perms_valid :: "db \<Rightarrow> bool" where
  "ws_group_perms_valid db \<longleftrightarrow>
     (\<forall>r \<in> set (db_ws_group_perms db). valid_permission (wgp_permission r))"

lemma get_highest_for_user_best:
  assumes "ws_group_perms_valid db"
  shows "\<exists>res. best_of wgp_permission (ws_group_rows db w i) res \<and>
    get_highest_for_user db w i =
      (case res of None \<Rightarrow> Inl (MlflowException RESOURCE_DOES_NOT_EXIST) | Some r \<Rightarrow> Inr r)"
proof (cases "wsg_rows_for_user db w i")
  case Nil
  then have "ws_group_rows db w i = {}" using wsg_rows_for_user_set [of db w i] by simp
  then show ?thesis
    by (intro exI [of _ None]) (simp add: best_of_def get_highest_for_user_def Nil)
next
  case (Cons p ps)
  then have S: "ws_group_rows db w i = insert p (set ps)"
    using wsg_rows_for_user_set [of db w i] by simp
  have v: "valid_permission (wgp_permission q)" if "q \<in> insert p (set ps)" for q
    using assms that S by (auto simp: ws_group_perms_valid_def ws_group_rows_def)
  have "\<exists>r. wsg_highest_loop p ps = Inr r \<and> best_of wgp_permission ({p} \<union> set ps) (Some r)"
    using v by (intro wsg_highest_loop_best) (auto simp: best_of_def)
  then obtain r where "wsg_highest_loop p ps = Inr r"
    "best_of wgp_permission (ws_group_rows db w i) (Some r)" unfolding S by auto
  then show ?thesis
    by (intro exI [of _ "Some r"]) (simp add: get_highest_for_user_def Cons)
qed

lemma wipe_workspace_permissions_counts:
  "wipe_workspace_permissions db w = (n, db') \<Longrightarrow>
   n = length (ws_list_for_workspace db w) + length (wsg_list_for_workspace db w) \<and>
   ws_list_for_workspace db' w = [] \<and> wsg_list_for_workspace db' w = []"
  by (auto simp: wipe_workspace_permissions_def ws_delete_all_for_workspace_def
        wsg_delete_all_for_workspace_def ws_list_for_workspace_def wsg_list_for_workspace_def
        filter_delete_rows filter_empty_conv)

section \<open>Properties\<close>

text \<open>The workspace permission of a user's groups is that of a group of the user, and of
  highest priority number among them. The number decides, so NO_PERMISSIONS, whose number is
  the largest, prevails over MANAGE.\<close>

theorem workspace_group_permission_is_highest:
  assumes "ws_group_perms_valid db"
  shows "\<exists>res. best_of wgp_permission (ws_group_rows db w i) res \<and>
    get_highest_for_user db w i =
      (case res of None \<Rightarrow> Inl (MlflowException RESOURCE_DOES_NOT_EXIST) | Some r \<Rightarrow> Inr r)"
  by (rule get_highest_for_user_best [OF assms])

definition denied_db :: db where
  "denied_db = example_db\<lparr>db_ws_group_perms :=
     [\<lparr>wgp_workspace = ''w2'', wgp_group = 1, wgp_permission = ''MANAGE''\<rparr>,
      \<lparr>wgp_workspace = ''w2'', wgp_group = 2, wgp_permission = ''NO_PERMISSIONS''\<rparr>]\<rparr>"

lemma denied_rows:
  "ws_group_rows denied_db ''w2'' 1 =
      {\<lparr>wgp_workspace = ''w2'', wgp_group = 1, wgp_permission = ''MANAGE''\<rparr>,
       \<lparr>wgp_workspace = ''w2'', wgp_group = 2, wgp_permission = ''NO_PERMISSIONS''\<rparr>}"
proof -
  have "db_ws_group_perms denied_db =
      [\<lparr>wgp_workspace = ''w2'', wgp_group = 1, wgp_permission = ''MANAGE''\<rparr>,
       \<lparr>wgp_workspace = ''w2'', wgp_group = 2, wgp_permission = ''NO_PERMISSIONS''\<rparr>]"
    "db_user_groups denied_db = db_user_groups example_db"
    by (simp_all add: denied_db_def)
  then show ?thesis
    unfolding ws_group_rows_def by (intro set_eqI) (simp add: ug_unique_def, fastforce)
qed

theorem workspace_group_permission_is_highest_witness:
  "\<exists>r. get_highest_for_user denied_db ''w2'' 1 = Inr r \<and> wgp_permission r = ''NO_PERMISSIONS''"
proof -
  have "ws_group_perms_valid denied_db" by (simp add: ws_group_perms_valid_def denied_db_def)
  from workspace_group_permission_is_highest [OF this, of "''w2''" 1]
  obtain res where best: "best_of wgp_permission (ws_group_rows denied_db ''w2'' 1) res"
    and res: "get_highest_for_user denied_db ''w2'' 1 =
      (case res of None \<Rightarrow> Inl (MlflowException RESOURCE_DOES_NOT_EXIST) | Some r \<Rightarrow> Inr r)" by blast
  from best_of_two [OF best [unfolded denied_rows]]
  have "res = Some \<lparr>wgp_workspace = ''w2'', wgp_group = 2, wgp_permission = ''NO_PERMISSIONS''\<rparr>"
    by simp
  with res show ?thesis by simp
qed

end
