(* ===== verification/RegexGuard.thy ===== *)
theory RegexGuard
  imports Prelude
begin

text \<open>
  \<^verbatim>\<open>validate_regex\<close> and \<^verbatim>\<open>_check_redos_patterns\<close> of \<^verbatim>\<open>repository/utils.py\<close>: the check a
  permission pattern passes before it is stored. The one pattern the check itself runs,
  \<^verbatim>\<open>_NESTED_QUANTIFIER_RE\<close>, is a term of a small regular expression language with the
  search semantics of \<^verbatim>\<open>re.search\<close>, computed by derivatives and related to the language
  of the expression. Compiling the user's pattern is \<^verbatim>\<open>re.compile\<close>, a parameter.
\<close>

section \<open>Regular expressions\<close>

datatype rx =
    Empty
  | Eps
  | Chars "char \<Rightarrow> bool"
  | Cat rx rx
  | Alt rx rx
  | Rep rx

inductive matches :: "rx \<Rightarrow> string \<Rightarrow> bool" where
  eps: "matches Eps []"
| chars: "P x \<Longrightarrow> matches (Chars P) [x]"
| cat: "matches r s \<Longrightarrow> matches q t \<Longrightarrow> matches (Cat r q) (s @ t)"
| altl: "matches r s \<Longrightarrow> matches (Alt r q) s"
| altr: "matches q s \<Longrightarrow> matches (Alt r q) s"
| rep0: "matches (Rep r) []"
| repS: "matches r s \<Longrightarrow> matches (Rep r) t \<Longrightarrow> matches (Rep r) (s @ t)"

inductive_simps matches_Empty [simp]: "matches Empty s"
inductive_simps matches_Eps [simp]: "matches Eps s"
inductive_simps matches_Chars [simp]: "matches (Chars P) s"
inductive_simps matches_Cat: "matches (Cat r q) s"
inductive_simps matches_Alt [simp]: "matches (Alt r q) s"
inductive_cases matches_RepE: "matches (Rep r) s"

primrec nullable :: "rx \<Rightarrow> bool" where
  "nullable Empty = False"
| "nullable Eps = True"
| "nullable (Chars P) = False"
| "nullable (Cat r q) = (nullable r \<and> nullable q)"
| "nullable (Alt r q) = (nullable r \<or> nullable q)"
| "nullable (Rep r) = True"

primrec deriv :: "char \<Rightarrow> rx \<Rightarrow> rx" where
  "deriv x Empty = Empty"
| "deriv x Eps = Empty"
| "deriv x (Chars P) = (if P x then Eps else Empty)"
| "deriv x (Cat r q) =
     (if nullable r then Alt (Cat (deriv x r) q) (deriv x q) else Cat (deriv x r) q)"
| "deriv x (Alt r q) = Alt (deriv x r) (deriv x q)"
| "deriv x (Rep r) = Cat (deriv x r) (Rep r)"

text \<open>\<^verbatim>\<open>re.match\<close> at the start of the string, and \<^verbatim>\<open>re.search\<close> at any position.\<close>

fun match_prefix :: "rx \<Rightarrow> string \<Rightarrow> bool" where
  "match_prefix r [] = nullable r"
| "match_prefix r (x # s) = (nullable r \<or> match_prefix (deriv x r) s)"

fun re_search :: "rx \<Rightarrow> string \<Rightarrow> bool" where
  "re_search r [] = match_prefix r []"
| "re_search r (x # s) = (match_prefix r (x # s) \<or> re_search r s)"

lemma nullable_matches: "nullable r \<longleftrightarrow> matches r []"
  by (induction r) (auto simp: matches_Cat intro: matches.intros)

lemma matches_Rep_Cons:
  "matches (Rep r) (x # s) \<longleftrightarrow> (\<exists>u v. s = u @ v \<and> matches r (x # u) \<and> matches (Rep r) v)"
proof
  assume "matches (Rep r) (x # s)"
  then show "\<exists>u v. s = u @ v \<and> matches r (x # u) \<and> matches (Rep r) v"
  proof (induction "Rep r" "x # s" rule: matches.induct)
    case (repS a b)
    then show ?case by (cases a) auto
  qed
next
  assume "\<exists>u v. s = u @ v \<and> matches r (x # u) \<and> matches (Rep r) v"
  then show "matches (Rep r) (x # s)" using matches.repS by fastforce
qed

lemma deriv_matches: "matches (deriv x r) s \<longleftrightarrow> matches r (x # s)"
proof (induction r arbitrary: s)
  case (Cat r q)
  show ?case
    by (auto simp: matches_Cat Cat nullable_matches Cons_eq_append_conv)
next
  case (Rep r)
  show ?case by (auto simp: matches_Cat Rep matches_Rep_Cons)
qed auto

lemma match_prefix_matches: "match_prefix r s \<longleftrightarrow> (\<exists>u v. s = u @ v \<and> matches r u)"
proof (induction s arbitrary: r)
  case Nil
  then show ?case by (simp add: nullable_matches)
next
  case (Cons x s)
  show ?case by (auto simp: Cons nullable_matches deriv_matches Cons_eq_append_conv)
qed

lemma re_search_matches: "re_search r s \<longleftrightarrow> (\<exists>a u b. s = a @ u @ b \<and> matches r u)"
proof (induction s)
  case Nil
  then show ?case by (simp add: nullable_matches)
next
  case (Cons x s)
  have "(\<exists>a u b. x # s = a @ u @ b \<and> matches r u) \<longleftrightarrow>
      (\<exists>u b. x # s = u @ b \<and> matches r u) \<or> (\<exists>a u b. s = a @ u @ b \<and> matches r u)"
    by (metis append_eq_Cons_conv)
  with Cons show ?case by (simp add: match_prefix_matches del: match_prefix.simps)
qed

section \<open>The nested quantifier pattern\<close>

definition lit :: "char \<Rightarrow> rx" where
  "lit x = Chars (\<lambda>y. y = x)"

definition one_of :: "string \<Rightarrow> rx" where
  "one_of xs = Chars (\<lambda>y. y \<in> set xs)"

definition none_of :: "string \<Rightarrow> rx" where
  "none_of xs = Chars (\<lambda>y. y \<notin> set xs)"

definition opt :: "rx \<Rightarrow> rx" where
  "opt r = Alt r Eps"

definition plus_rep :: "rx \<Rightarrow> rx" where
  "plus_rep r = Cat r (Rep r)"

definition DIGITS :: string where
  "DIGITS = ''0123456789''"

definition digit :: rx where
  "digit = one_of DIGITS"

definition NESTED_QUANTIFIER_RE :: rx where
  "NESTED_QUANTIFIER_RE =
     Cat (lit CHR ''('')
    (Cat (opt (Cat (lit CHR ''?'') (one_of '':<>=!'')))
    (Cat (Rep (none_of '')''))
    (Cat (one_of ''+*?'')
    (Cat (Rep (none_of '')''))
    (Cat (lit CHR '')'')
         (Alt (one_of ''+*'')
              (Cat (lit CHR ''{'')
              (Cat (plus_rep digit)
              (Cat (lit CHR '','')
              (Cat (Rep digit)
                   (lit CHR ''}'')))))))))))"

definition check_redos_patterns :: "string \<Rightarrow> unit result" where
  "check_redos_patterns regex =
     (if re_search NESTED_QUANTIFIER_RE regex then Inl (MlflowException INVALID_STATE) else Inr ())"

text \<open>What \<^verbatim>\<open>re.compile\<close> does with a pattern: fails, warns of an escape, or succeeds.\<close>

datatype compile_outcome = CompileError | CompiledWithSyntaxWarning | Compiled

definition validate_regex :: "(string \<Rightarrow> compile_outcome) \<Rightarrow> string \<Rightarrow> unit result" where
  "validate_regex re_compile regex =
     (if regex = [] then Inl (MlflowException INVALID_STATE)
      else if length regex > 1024 then Inl (MlflowException INVALID_STATE)
      else (case re_compile regex of
              CompileError \<Rightarrow> Inl (MlflowException INVALID_STATE)
            | CompiledWithSyntaxWarning \<Rightarrow> Inl (MlflowException INVALID_STATE)
            | Compiled \<Rightarrow> check_redos_patterns regex))"

section \<open>What the pattern finds\<close>

lemma matches_lit [simp]: "matches (lit x) s \<longleftrightarrow> s = [x]"
  by (auto simp: lit_def)

lemma matches_one_of [simp]: "matches (one_of xs) s \<longleftrightarrow> (\<exists>x \<in> set xs. s = [x])"
  by (auto simp: one_of_def)

lemma matches_Rep_Chars [simp]: "matches (Rep (Chars P)) s \<longleftrightarrow> (\<forall>x \<in> set s. P x)"
proof (induction s)
  case Nil
  show ?case by (simp add: matches.rep0)
next
  case (Cons x s)
  have "matches (Rep (Chars P)) (x # s) \<longleftrightarrow> P x \<and> matches (Rep (Chars P)) s"
    by (simp add: matches_Rep_Cons)
  with Cons show ?case by simp
qed

lemma matches_Rep_none_of [simp]: "matches (Rep (none_of xs)) s \<longleftrightarrow> set s \<inter> set xs = {}"
  by (auto simp: none_of_def)

lemma matches_Rep_one_of [simp]: "matches (Rep (one_of xs)) s \<longleftrightarrow> set s \<subseteq> set xs"
  by (auto simp: one_of_def)

lemma matches_opt [simp]: "matches (opt r) s \<longleftrightarrow> matches r s \<or> s = []"
  by (auto simp: opt_def)

lemma matches_plus_one_of [simp]:
  "matches (plus_rep (one_of xs)) s \<longleftrightarrow> s \<noteq> [] \<and> set s \<subseteq> set xs"
proof (cases s)
  case Nil
  then show ?thesis by (simp add: plus_rep_def matches_Cat)
next
  case (Cons x t)
  have "x # t = a @ b \<and> (\<exists>y \<in> set xs. a = [y]) \<and> set b \<subseteq> set xs \<longleftrightarrow>
      a = [x] \<and> b = t \<and> x \<in> set xs \<and> set t \<subseteq> set xs" for a b
    by auto
  then show ?thesis by (simp add: plus_rep_def matches_Cat Cons)
qed

lemma matches_Cat_lit [simp]: "matches (Cat (lit x) r) s \<longleftrightarrow> (\<exists>t. s = x # t \<and> matches r t)"
  by (auto simp: matches_Cat)

definition count_range :: "string \<Rightarrow> bool" where
  "count_range t \<longleftrightarrow>
     (\<exists>m n. t = m @ '','' @ n @ ''}'' \<and> m \<noteq> [] \<and> set m \<subseteq> set DIGITS \<and> set n \<subseteq> set DIGITS)"

definition repeat_suffix :: "string \<Rightarrow> bool" where
  "repeat_suffix q \<longleftrightarrow> q = ''+'' \<or> q = ''*'' \<or> (\<exists>t. q = CHR ''{'' # t \<and> count_range t)"

text \<open>
  The optional prefix of the group adds nothing, because the group contents may start with
  any character but the closing parenthesis.
\<close>

lemma matches_Cat_one_of:
  "matches (Cat (one_of xs) r) s \<longleftrightarrow> (\<exists>x t. s = x # t \<and> x \<in> set xs \<and> matches r t)"
  by (auto simp: matches_Cat) (metis append_Cons append_Nil)

lemma matches_NESTED_QUANTIFIER_RE:
  "matches NESTED_QUANTIFIER_RE s \<longleftrightarrow>
   (\<exists>w q. s = ''('' @ w @ '')'' @ q \<and> CHR '')'' \<notin> set w \<and>
      (\<exists>x \<in> set w. x \<in> set ''+*?'') \<and> repeat_suffix q)"
proof -
  define Q where "Q = ''+*?''"
  define Pre where "Pre = '':<>=!''"
  let ?outer = "Alt (one_of ''+*'') (Cat (lit CHR ''{'') (Cat (plus_rep digit)
    (Cat (lit CHR '','') (Cat (Rep digit) (lit CHR ''}'')))))"
  let ?r1 = "Cat (lit CHR '')'') ?outer"
  let ?r2 = "Cat (Rep (none_of '')'')) ?r1"
  let ?r3 = "Cat (one_of Q) ?r2"
  let ?r4 = "Cat (Rep (none_of '')'')) ?r3"
  let ?r5 = "Cat (opt (Cat (lit CHR ''?'') (one_of Pre))) ?r4"
  have tail: "matches (Cat (Rep digit) (lit CHR ''}'')) t \<longleftrightarrow>
      (\<exists>n. t = n @ ''}'' \<and> set n \<subseteq> set DIGITS)" for t
    by (auto simp: matches_Cat digit_def)
  have "matches (Cat (plus_rep digit) (Cat (lit CHR '','') (Cat (Rep digit) (lit CHR ''}'')))) t \<longleftrightarrow>
      count_range t" for t
    by (simp add: matches_Cat [of "plus_rep digit"] tail) (auto simp: digit_def count_range_def)
  then have r1: "matches ?r1 v \<longleftrightarrow> (\<exists>q. v = CHR '')'' # q \<and> repeat_suffix q)" for v
    by (auto simp: repeat_suffix_def)
  have r2: "matches ?r2 v \<longleftrightarrow>
      (\<exists>b q. v = b @ CHR '')'' # q \<and> CHR '')'' \<notin> set b \<and> repeat_suffix q)" for v
    unfolding matches_Cat [of "Rep (none_of '')'')"] r1 by auto
  have r3: "matches ?r3 v \<longleftrightarrow>
      (\<exists>x b q. v = x # b @ CHR '')'' # q \<and> x \<in> set Q \<and> CHR '')'' \<notin> set b \<and> repeat_suffix q)" for v
    unfolding matches_Cat_one_of r2 by blast
  have r4: "matches ?r4 v \<longleftrightarrow>
      (\<exists>w q. v = w @ CHR '')'' # q \<and> CHR '')'' \<notin> set w \<and> (\<exists>x \<in> set w. x \<in> set Q) \<and>
        repeat_suffix q)" (is "_ \<longleftrightarrow> ?group v") for v
  proof
    assume "matches ?r4 v"
    then obtain a x b q where "v = a @ x # b @ CHR '')'' # q" "CHR '')'' \<notin> set a" "x \<in> set Q"
      "CHR '')'' \<notin> set b" "repeat_suffix q"
      unfolding matches_Cat [of "Rep (none_of '')'')"] r3 by auto
    moreover from \<open>x \<in> set Q\<close> have "x \<noteq> CHR '')''" by (auto simp: Q_def)
    ultimately show "?group v"
      by (intro exI [of _ "a @ x # b"] exI [of _ q]) auto
  next
    assume "?group v"
    then obtain w q x where w: "v = w @ CHR '')'' # q" "CHR '')'' \<notin> set w" "x \<in> set w"
      "x \<in> set Q" "repeat_suffix q" by blast
    from split_list [OF w(3)] obtain a b where "w = a @ x # b" by blast
    with w have "v = a @ (x # b @ CHR '')'' # q)" "CHR '')'' \<notin> set a" "CHR '')'' \<notin> set b"
      by simp_all
    with w(4,5) show "matches ?r4 v"
      unfolding matches_Cat [of "Rep (none_of '')'')"] r3
      by (intro exI [of _ a] exI [of _ "x # b @ CHR '')'' # q"]) auto
  qed
  have r5: "matches ?r5 v \<longleftrightarrow>
      (\<exists>w q. v = w @ CHR '')'' # q \<and> CHR '')'' \<notin> set w \<and> (\<exists>x \<in> set w. x \<in> set Q) \<and>
        repeat_suffix q)" (is "_ \<longleftrightarrow> ?group v") for v
  proof
    assume "matches ?r5 v"
    then obtain a t where "v = a @ t" "matches ?r4 t"
      and a: "a = [] \<or> (\<exists>y \<in> set Pre. a = [CHR ''?'', y])"
      unfolding matches_Cat [of "opt _"] by auto
    then obtain w q where "v = (a @ w) @ CHR '')'' # q" "CHR '')'' \<notin> set w"
      "\<exists>x \<in> set w. x \<in> set Q" "repeat_suffix q" unfolding r4 by auto
    moreover from a have "CHR '')'' \<notin> set a" by (auto simp: Pre_def)
    ultimately show "?group v" by (intro exI [of _ "a @ w"] exI [of _ q]) auto
  next
    assume "?group v"
    then have "matches ?r4 v" by (simp only: r4)
    then show "matches ?r5 v" unfolding matches_Cat [of "opt _"]
      by (intro exI [of _ "[]"] exI [of _ v]) auto
  qed
  have body: "NESTED_QUANTIFIER_RE = Cat (lit CHR ''('') ?r5"
    by (simp add: NESTED_QUANTIFIER_RE_def Q_def Pre_def)
  have "matches NESTED_QUANTIFIER_RE s \<longleftrightarrow> (\<exists>v. s = CHR ''('' # v \<and> matches ?r5 v)"
    unfolding body by (rule matches_Cat_lit)
  also have "\<dots> \<longleftrightarrow> (\<exists>w q. s = ''('' @ w @ '')'' @ q \<and> CHR '')'' \<notin> set w \<and>
      (\<exists>x \<in> set w. x \<in> set Q) \<and> repeat_suffix q)"
    unfolding r5 append_Cons append_Nil by blast
  finally show ?thesis unfolding Q_def .
qed

definition nested_quantifier :: "string \<Rightarrow> bool" where
  "nested_quantifier regex \<longleftrightarrow>
     (\<exists>a w q b. regex = a @ ''('' @ w @ '')'' @ q @ b \<and> CHR '')'' \<notin> set w \<and>
        (\<exists>x \<in> set w. x \<in> set ''+*?'') \<and> repeat_suffix q)"

lemma re_search_nested_quantifier:
  "re_search NESTED_QUANTIFIER_RE regex \<longleftrightarrow> nested_quantifier regex"
proof -
  have gen: "(\<exists>a u b. s = a @ u @ b \<and> (\<exists>w q. u = f w q \<and> G w q)) \<longleftrightarrow>
      (\<exists>a w q b. s = a @ f w q @ b \<and> G w q)"
    for s :: string and f :: "string \<Rightarrow> string \<Rightarrow> string" and G by blast
  show ?thesis
    unfolding re_search_matches matches_NESTED_QUANTIFIER_RE nested_quantifier_def gen
    by (simp only: append_assoc)
qed

lemma check_redos_patterns_Inr:
  "check_redos_patterns regex = Inr () \<longleftrightarrow> \<not> nested_quantifier regex"
  by (simp add: check_redos_patterns_def re_search_nested_quantifier)

text \<open>The patterns that may be stored.\<close>

definition regex_ok :: "(string \<Rightarrow> compile_outcome) \<Rightarrow> string \<Rightarrow> bool" where
  "regex_ok re_compile regex \<longleftrightarrow>
     regex \<noteq> [] \<and> length regex \<le> 1024 \<and> re_compile regex = Compiled \<and> \<not> nested_quantifier regex"

lemma validate_regex_Inr [simp]:
  "validate_regex re_compile regex = Inr u \<longleftrightarrow> regex_ok re_compile regex"
  by (auto simp: validate_regex_def regex_ok_def check_redos_patterns_def
        re_search_nested_quantifier split: compile_outcome.split)

lemma validate_regex_Inl [simp]:
  "validate_regex re_compile regex = Inl e \<longleftrightarrow>
   \<not> regex_ok re_compile regex \<and> e = MlflowException INVALID_STATE"
  by (auto simp: validate_regex_def regex_ok_def check_redos_patterns_def
        re_search_nested_quantifier split: compile_outcome.split)

lemma validate_regex_eq:
  "validate_regex re_compile regex =
   (if regex_ok re_compile regex then Inr () else Inl (MlflowException INVALID_STATE))"
  by simp

end
