(* ===== verification/RegexRepo.thy ===== *)
theory RegexRepo
  imports GroupRepo RegexGuard "HOL-Library.Multiset"
begin

text \<open>
  The regex permission repositories: \<^verbatim>\<open>BaseRegexPermissionRepository\<close> and
  \<^verbatim>\<open>BaseGroupRegexPermissionRepository\<close> (\<^verbatim>\<open>repository/_base.py\<close>) and the registered
  model, scorer and gateway overrides. A resolution takes the first pattern that matches,
  so what matters is that a list holds exactly the rows of its user or groups, in order of
  priority. \<^verbatim>\<open>ORDER BY priority\<close> is a stable sort of the rows; the engine leaves rows of
  equal priority in an order of its own.
\<close>

section \<open>Patterns of a user\<close>

definition get_regex_permission_row ::
    "resource_class \<Rightarrow> db \<Rightarrow> nat \<Rightarrow> nat \<Rightarrow> regex_perm result" where
  "get_regex_permission_row c db user_id i =
     query_one_mlflow (filter (\<lambda>r. rp_user r = user_id \<and> rp_id r = i) (db_regex_perms db c))"

definition add_regex_row :: "resource_class \<Rightarrow> db \<Rightarrow> string \<Rightarrow> int \<Rightarrow> nat \<Rightarrow> string \<Rightarrow> bool \<Rightarrow>
    (regex_entity \<times> db) result" where
  "add_regex_row c db regex priority user_id permission prompt =
     (let perm = \<lparr>rp_id = db_new_id db (map rp_id (db_regex_perms db c)), rp_regex = regex,
                  rp_priority = priority, rp_user = user_id, rp_permission = permission,
                  rp_prompt = prompt\<rparr>
      in bind_result (insert_row rp_unique perm (db_regex_perms db c)) (\<lambda>rows.
         Inr (regex_perm_entity perm, db\<lparr>db_regex_perms := (db_regex_perms db)(c := rows)\<rparr>)))"

definition regex_grant :: "(string \<Rightarrow> compile_outcome) \<Rightarrow> resource_class \<Rightarrow> db \<Rightarrow> string \<Rightarrow> int \<Rightarrow>
    string \<Rightarrow> string \<Rightarrow> (regex_entity \<times> db) result" where
  "regex_grant re_compile c db regex priority permission username =
     bind_result (validate_regex re_compile regex) (\<lambda>_.
     bind_result (validate_permission permission) (\<lambda>_.
     on_integrity_error RESOURCE_ALREADY_EXISTS
       (bind_result (get_user db username) (\<lambda>user.
        add_regex_row c db regex priority (u_id user) permission False))))"

definition regex_get :: "resource_class \<Rightarrow> db \<Rightarrow> string \<Rightarrow> nat \<Rightarrow> regex_entity result" where
  "regex_get c db username i =
     bind_result (get_user db username) (\<lambda>user.
     bind_result (get_regex_permission_row c db (u_id user) i) (\<lambda>perm.
     Inr (regex_perm_entity perm)))"

definition regex_list :: "resource_class \<Rightarrow> db \<Rightarrow> regex_entity list" where
  "regex_list c db = map regex_perm_entity (db_regex_perms db c)"

definition list_regex_for_user :: "resource_class \<Rightarrow> db \<Rightarrow> string \<Rightarrow> regex_entity list result" where
  "list_regex_for_user c db username =
     bind_result (get_user db username) (\<lambda>user.
     Inr (map regex_perm_entity
       (sort_key rp_priority (filter (\<lambda>r. rp_user r = u_id user) (db_regex_perms db c)))))"

definition set_regex_row :: "resource_class \<Rightarrow> db \<Rightarrow> regex_perm \<Rightarrow> (regex_perm \<Rightarrow> regex_perm) \<Rightarrow>
    (regex_entity \<times> db) result" where
  "set_regex_row c db perm f =
     bind_result (update_rows rp_unique (\<lambda>r. rp_id r = rp_id perm) f (db_regex_perms db c)) (\<lambda>rows.
     Inr (regex_perm_entity (f perm), db\<lparr>db_regex_perms := (db_regex_perms db)(c := rows)\<rparr>))"

definition delete_regex_row :: "resource_class \<Rightarrow> db \<Rightarrow> regex_perm \<Rightarrow> db" where
  "delete_regex_row c db perm =
     db\<lparr>db_regex_perms := (db_regex_perms db)
          (c := delete_rows (\<lambda>r. rp_id r = rp_id perm) (db_regex_perms db c))\<rparr>"

text \<open>An update to a pattern the user already has raises an unhandled IntegrityError.\<close>

definition regex_update :: "(string \<Rightarrow> compile_outcome) \<Rightarrow> resource_class \<Rightarrow> db \<Rightarrow> string \<Rightarrow> int \<Rightarrow>
    string \<Rightarrow> string \<Rightarrow> nat \<Rightarrow> (regex_entity \<times> db) result" where
  "regex_update re_compile c db regex priority permission username i =
     bind_result (validate_regex re_compile regex) (\<lambda>_.
     bind_result (validate_permission permission) (\<lambda>_.
     bind_result (get_user db username) (\<lambda>user.
     bind_result (get_regex_permission_row c db (u_id user) i) (\<lambda>perm.
     set_regex_row c db perm
       (\<lambda>r. r\<lparr>rp_priority := priority, rp_permission := permission, rp_regex := regex\<rparr>)))))"

definition regex_revoke :: "resource_class \<Rightarrow> db \<Rightarrow> string \<Rightarrow> nat \<Rightarrow> db result" where
  "regex_revoke c db username i =
     bind_result (get_user db username) (\<lambda>user.
     bind_result (get_regex_permission_row c db (u_id user) i) (\<lambda>perm.
     Inr (delete_regex_row c db perm)))"

text \<open>Gateway resources: an update checks the pattern it is given and does not store it.\<close>

definition gateway_regex_update :: "(string \<Rightarrow> compile_outcome) \<Rightarrow> resource_class \<Rightarrow> db \<Rightarrow> nat \<Rightarrow>
    string \<Rightarrow> int \<Rightarrow> string \<Rightarrow> string \<Rightarrow> (regex_entity \<times> db) result" where
  "gateway_regex_update re_compile c db i regex priority permission username =
     bind_result (validate_regex re_compile regex) (\<lambda>_.
     bind_result (validate_permission permission) (\<lambda>_.
     bind_result (get_user db username) (\<lambda>user.
     bind_result (get_regex_permission_row c db (u_id user) i) (\<lambda>perm.
     set_regex_row c db perm (\<lambda>r. r\<lparr>rp_priority := priority, rp_permission := permission\<rparr>)))))"

text \<open>Scorers: the base operations with the arguments in another order.\<close>

definition scorer_regex_update :: "(string \<Rightarrow> compile_outcome) \<Rightarrow> db \<Rightarrow> nat \<Rightarrow> string \<Rightarrow> int \<Rightarrow>
    string \<Rightarrow> string \<Rightarrow> (regex_entity \<times> db) result" where
  "scorer_regex_update re_compile db i regex priority permission username =
     regex_update re_compile Scorer db regex priority permission username i"

definition scorer_regex_revoke :: "db \<Rightarrow> nat \<Rightarrow> string \<Rightarrow> db result" where
  "scorer_regex_revoke db i username = regex_revoke Scorer db username i"

subsection \<open>Registered models and prompts\<close>

definition get_registered_model_regex_permission_row ::
    "db \<Rightarrow> nat \<Rightarrow> nat \<Rightarrow> bool \<Rightarrow> regex_perm result" where
  "get_registered_model_regex_permission_row db i user_id prompt =
     query_one_mlflow
       (filter (\<lambda>r. rp_id r = i \<and> rp_user r = user_id \<and> rp_prompt r = prompt)
          (db_regex_perms db RegisteredModel))"

definition registered_model_regex_grant :: "(string \<Rightarrow> compile_outcome) \<Rightarrow> db \<Rightarrow> string \<Rightarrow> int \<Rightarrow>
    string \<Rightarrow> string \<Rightarrow> bool \<Rightarrow> (regex_entity \<times> db) result" where
  "registered_model_regex_grant re_compile db regex priority permission username prompt =
     bind_result (validate_regex re_compile regex) (\<lambda>_.
     bind_result (validate_permission permission) (\<lambda>_.
     on_integrity_error RESOURCE_ALREADY_EXISTS
       (bind_result (get_user db username) (\<lambda>user.
        add_regex_row RegisteredModel db regex priority (u_id user) permission prompt))))"

definition registered_model_regex_get ::
    "db \<Rightarrow> nat \<Rightarrow> string \<Rightarrow> bool \<Rightarrow> regex_entity result" where
  "registered_model_regex_get db i username prompt =
     bind_result (get_user db username) (\<lambda>user.
     bind_result (get_registered_model_regex_permission_row db i (u_id user) prompt) (\<lambda>perm.
     Inr (regex_perm_entity perm)))"

definition registered_model_list_regex_for_user ::
    "db \<Rightarrow> string \<Rightarrow> bool \<Rightarrow> regex_entity list result" where
  "registered_model_list_regex_for_user db username prompt =
     bind_result (get_user db username) (\<lambda>user.
     Inr (map regex_perm_entity
       (sort_key rp_priority
          (filter (\<lambda>r. rp_user r = u_id user \<and> rp_prompt r = prompt)
             (db_regex_perms db RegisteredModel)))))"

definition registered_model_regex_update :: "(string \<Rightarrow> compile_outcome) \<Rightarrow> db \<Rightarrow> nat \<Rightarrow> string \<Rightarrow>
    int \<Rightarrow> string \<Rightarrow> string \<Rightarrow> bool \<Rightarrow> (regex_entity \<times> db) result" where
  "registered_model_regex_update re_compile db i regex priority permission username prompt =
     bind_result (validate_regex re_compile regex) (\<lambda>_.
     bind_result (validate_permission permission) (\<lambda>_.
     bind_result (get_user db username) (\<lambda>user.
     bind_result (get_registered_model_regex_permission_row db i (u_id user) prompt) (\<lambda>perm.
     set_regex_row RegisteredModel db perm
       (\<lambda>r. r\<lparr>rp_priority := priority, rp_permission := permission\<rparr>)))))"

definition registered_model_regex_revoke :: "db \<Rightarrow> nat \<Rightarrow> string \<Rightarrow> bool \<Rightarrow> db result" where
  "registered_model_regex_revoke db i username prompt =
     bind_result (get_user db username) (\<lambda>user.
     bind_result (get_registered_model_regex_permission_row db i (u_id user) prompt) (\<lambda>perm.
     Inr (delete_regex_row RegisteredModel db perm)))"

section \<open>Patterns of a group\<close>

definition get_group_regex_permission_row ::
    "resource_class \<Rightarrow> db \<Rightarrow> nat \<Rightarrow> nat \<Rightarrow> group_regex_perm result" where
  "get_group_regex_permission_row c db i gid =
     query_one_mlflow (filter (\<lambda>r. grp_id r = i \<and> grp_group r = gid) (db_group_regex_perms db c))"

definition list_group_permissions ::
    "resource_class \<Rightarrow> db \<Rightarrow> nat list \<Rightarrow> group_regex_perm list" where
  "list_group_permissions c db groups =
     sort_key grp_priority (filter (\<lambda>r. grp_group r \<in> set groups) (db_group_regex_perms db c))"

definition add_group_regex_row :: "resource_class \<Rightarrow> db \<Rightarrow> string \<Rightarrow> int \<Rightarrow> nat \<Rightarrow> string \<Rightarrow> bool \<Rightarrow>
    (regex_entity \<times> db) result" where
  "add_group_regex_row c db regex priority gid permission prompt =
     (let perm = \<lparr>grp_id = db_new_id db (map grp_id (db_group_regex_perms db c)), grp_regex = regex,
                  grp_priority = priority, grp_group = gid, grp_permission = permission,
                  grp_prompt = prompt\<rparr>
      in bind_result (insert_row grp_unique perm (db_group_regex_perms db c)) (\<lambda>rows.
         Inr (group_regex_perm_entity perm,
              db\<lparr>db_group_regex_perms := (db_group_regex_perms db)(c := rows)\<rparr>)))"

definition set_group_regex_row :: "resource_class \<Rightarrow> db \<Rightarrow> group_regex_perm \<Rightarrow>
    (group_regex_perm \<Rightarrow> group_regex_perm) \<Rightarrow> (regex_entity \<times> db) result" where
  "set_group_regex_row c db perm f =
     bind_result (update_rows grp_unique (\<lambda>r. grp_id r = grp_id perm) f (db_group_regex_perms db c))
       (\<lambda>rows. Inr (group_regex_perm_entity (f perm),
                 db\<lparr>db_group_regex_perms := (db_group_regex_perms db)(c := rows)\<rparr>))"

definition delete_group_regex_row :: "resource_class \<Rightarrow> db \<Rightarrow> group_regex_perm \<Rightarrow> db" where
  "delete_group_regex_row c db perm =
     db\<lparr>db_group_regex_perms := (db_group_regex_perms db)
          (c := delete_rows (\<lambda>r. grp_id r = grp_id perm) (db_group_regex_perms db c))\<rparr>"

definition group_regex_grant :: "(string \<Rightarrow> compile_outcome) \<Rightarrow> resource_class \<Rightarrow> db \<Rightarrow> string \<Rightarrow>
    string \<Rightarrow> int \<Rightarrow> string \<Rightarrow> (regex_entity \<times> db) result" where
  "group_regex_grant re_compile c db group_name regex priority permission =
     bind_result (validate_permission permission) (\<lambda>_.
     bind_result (validate_regex re_compile regex) (\<lambda>_.
     on_integrity_error RESOURCE_ALREADY_EXISTS
       (bind_result (get_group db group_name) (\<lambda>grp.
        add_group_regex_row c db regex priority (g_id grp) permission False))))"

definition group_regex_get :: "resource_class \<Rightarrow> db \<Rightarrow> string \<Rightarrow> nat \<Rightarrow> regex_entity result" where
  "group_regex_get c db group_name i =
     bind_result (get_group db group_name) (\<lambda>grp.
     bind_result (get_group_regex_permission_row c db i (g_id grp)) (\<lambda>perm.
     Inr (group_regex_perm_entity perm)))"

definition group_regex_update :: "(string \<Rightarrow> compile_outcome) \<Rightarrow> resource_class \<Rightarrow> db \<Rightarrow> nat \<Rightarrow>
    string \<Rightarrow> string \<Rightarrow> int \<Rightarrow> string \<Rightarrow> (regex_entity \<times> db) result" where
  "group_regex_update re_compile c db i group_name regex priority permission =
     bind_result (validate_permission permission) (\<lambda>_.
     bind_result (validate_regex re_compile regex) (\<lambda>_.
     bind_result (get_group db group_name) (\<lambda>grp.
     bind_result (get_group_regex_permission_row c db i (g_id grp)) (\<lambda>perm.
     set_group_regex_row c db perm
       (\<lambda>r. r\<lparr>grp_permission := permission, grp_regex := regex, grp_priority := priority\<rparr>)))))"

definition group_regex_revoke :: "resource_class \<Rightarrow> db \<Rightarrow> string \<Rightarrow> nat \<Rightarrow> db result" where
  "group_regex_revoke c db group_name i =
     bind_result (get_group db group_name) (\<lambda>grp.
     bind_result (get_group_regex_permission_row c db i (g_id grp)) (\<lambda>perm.
     Inr (delete_group_regex_row c db perm)))"

definition group_regex_list_permissions_for_group ::
    "resource_class \<Rightarrow> db \<Rightarrow> string \<Rightarrow> regex_entity list result" where
  "group_regex_list_permissions_for_group c db group_name =
     bind_result (get_group db group_name) (\<lambda>grp.
     Inr (map group_regex_perm_entity (list_group_permissions c db [g_id grp])))"

definition group_regex_list_permissions_for_groups ::
    "resource_class \<Rightarrow> db \<Rightarrow> string list \<Rightarrow> regex_entity list result" where
  "group_regex_list_permissions_for_groups c db group_names =
     bind_result (mapM_result (get_group db) group_names) (\<lambda>groups.
     Inr (map group_regex_perm_entity (list_group_permissions c db (map g_id groups))))"

definition group_regex_list_permissions_for_group_id ::
    "resource_class \<Rightarrow> db \<Rightarrow> nat \<Rightarrow> regex_entity list" where
  "group_regex_list_permissions_for_group_id c db gid =
     map group_regex_perm_entity (list_group_permissions c db [gid])"

definition group_regex_list_permissions_for_groups_ids ::
    "resource_class \<Rightarrow> db \<Rightarrow> nat list \<Rightarrow> regex_entity list" where
  "group_regex_list_permissions_for_groups_ids c db gids =
     map group_regex_perm_entity (list_group_permissions c db gids)"

text \<open>The ids it collects are those of the membership rows, not of the groups.\<close>

definition group_regex_list_permissions_for_user_groups ::
    "resource_class \<Rightarrow> db \<Rightarrow> string \<Rightarrow> regex_entity list result" where
  "group_regex_list_permissions_for_user_groups c db username =
     bind_result (get_user db username) (\<lambda>user.
     let user_groups = list_user_groups db user;
         gids = map ug_id user_groups
     in Inr (map group_regex_perm_entity (list_group_permissions c db gids)))"

subsection \<open>Registered models and prompts\<close>

definition get_registered_model_group_regex_permission_row ::
    "db \<Rightarrow> nat \<Rightarrow> nat \<Rightarrow> bool \<Rightarrow> group_regex_perm result" where
  "get_registered_model_group_regex_permission_row db i gid prompt =
     query_one_mlflow
       (filter (\<lambda>r. grp_id r = i \<and> grp_group r = gid \<and> grp_prompt r = prompt)
          (db_group_regex_perms db RegisteredModel))"

definition registered_model_group_regex_grant ::
    "db \<Rightarrow> string \<Rightarrow> string \<Rightarrow> string \<Rightarrow> int \<Rightarrow> bool \<Rightarrow> (regex_entity \<times> db) result" where
  "registered_model_group_regex_grant db group_name regex permission priority prompt =
     bind_result (validate_permission permission) (\<lambda>_.
     bind_result (get_group db group_name) (\<lambda>grp.
     add_group_regex_row RegisteredModel db regex priority (g_id grp) permission prompt))"

definition registered_model_group_regex_get ::
    "db \<Rightarrow> nat \<Rightarrow> string \<Rightarrow> bool \<Rightarrow> regex_entity result" where
  "registered_model_group_regex_get db i group_name prompt =
     bind_result (get_group db group_name) (\<lambda>grp.
     bind_result (get_registered_model_group_regex_permission_row db i (g_id grp) prompt) (\<lambda>perm.
     Inr (group_regex_perm_entity perm)))"

definition registered_model_group_regex_rows :: "db \<Rightarrow> nat list \<Rightarrow> bool \<Rightarrow> regex_entity list" where
  "registered_model_group_regex_rows db gids prompt =
     map group_regex_perm_entity
       (sort_key grp_priority
          (filter (\<lambda>r. grp_group r \<in> set gids \<and> grp_prompt r = prompt)
             (db_group_regex_perms db RegisteredModel)))"

definition registered_model_group_regex_list_permissions_for_group ::
    "db \<Rightarrow> string \<Rightarrow> bool \<Rightarrow> regex_entity list result" where
  "registered_model_group_regex_list_permissions_for_group db group_name prompt =
     bind_result (get_group db group_name) (\<lambda>grp.
     Inr (map group_regex_perm_entity
       (sort_key grp_priority
          (filter (\<lambda>r. grp_group r = g_id grp \<and> grp_prompt r = prompt)
             (db_group_regex_perms db RegisteredModel)))))"

definition registered_model_group_regex_list_permissions_for_groups ::
    "db \<Rightarrow> string list \<Rightarrow> bool \<Rightarrow> regex_entity list result" where
  "registered_model_group_regex_list_permissions_for_groups db group_names prompt =
     bind_result (mapM_result (get_group db) group_names) (\<lambda>groups.
     Inr (registered_model_group_regex_rows db (map g_id groups) prompt))"

definition registered_model_group_regex_list_permissions_for_groups_ids ::
    "db \<Rightarrow> nat list \<Rightarrow> bool \<Rightarrow> regex_entity list" where
  "registered_model_group_regex_list_permissions_for_groups_ids db gids prompt =
     registered_model_group_regex_rows db gids prompt"

definition registered_model_group_regex_update :: "db \<Rightarrow> nat \<Rightarrow> string \<Rightarrow> string \<Rightarrow> string \<Rightarrow> int \<Rightarrow>
    bool \<Rightarrow> (regex_entity \<times> db) result" where
  "registered_model_group_regex_update db i regex group_name permission priority prompt =
     bind_result (validate_permission permission) (\<lambda>_.
     bind_result (get_group db group_name) (\<lambda>grp.
     bind_result (get_registered_model_group_regex_permission_row db i (g_id grp) prompt) (\<lambda>perm.
     set_group_regex_row RegisteredModel db perm
       (\<lambda>r. r\<lparr>grp_permission := permission, grp_priority := priority, grp_prompt := prompt,
              grp_regex := regex\<rparr>))))"

definition registered_model_group_regex_revoke :: "db \<Rightarrow> nat \<Rightarrow> string \<Rightarrow> bool \<Rightarrow> db result" where
  "registered_model_group_regex_revoke db i group_name prompt =
     bind_result (get_group db group_name) (\<lambda>grp.
     bind_result (get_registered_model_group_regex_permission_row db i (g_id grp) prompt) (\<lambda>perm.
     Inr (delete_group_regex_row RegisteredModel db perm)))"

section \<open>Order and contents of the lists\<close>

text \<open>A list of entities is the rows selected, sorted by priority.\<close>

definition priority_list_of :: "regex_entity list \<Rightarrow> regex_entity list \<Rightarrow> bool" where
  "priority_list_of res sel \<longleftrightarrow> mset res = mset sel \<and> sorted (map re_priority res)"

lemma priority_list_of_sort:
  assumes "\<And>x. re_priority (f x) = prio x"
  shows "priority_list_of (map f (sort_key prio xs)) (map f xs)"
proof -
  have "re_priority \<circ> f = prio" using assms by (simp add: fun_eq_iff)
  then show ?thesis by (simp add: priority_list_of_def)
qed

lemma list_regex_for_user_sorted:
  assumes "list_regex_for_user c db n = Inr res"
  shows "\<exists>u. get_user db n = Inr u \<and> priority_list_of res
    (map regex_perm_entity (filter (\<lambda>r. rp_user r = u_id u) (db_regex_perms db c)))"
proof -
  from assms obtain u where u: "get_user db n = Inr u"
    and res: "res = map regex_perm_entity
      (sort_key rp_priority (filter (\<lambda>r. rp_user r = u_id u) (db_regex_perms db c)))"
    by (auto simp: list_regex_for_user_def)
  have "priority_list_of res
      (map regex_perm_entity (filter (\<lambda>r. rp_user r = u_id u) (db_regex_perms db c)))"
    unfolding res by (rule priority_list_of_sort) simp
  with u show ?thesis by blast
qed

lemma group_regex_for_ids_sorted:
  "priority_list_of (group_regex_list_permissions_for_groups_ids c db ids)
     (map group_regex_perm_entity (filter (\<lambda>r. grp_group r \<in> set ids) (db_group_regex_perms db c)))"
  unfolding group_regex_list_permissions_for_groups_ids_def list_group_permissions_def
  by (rule priority_list_of_sort) simp

lemma registered_model_group_regex_rows_sorted:
  "priority_list_of (registered_model_group_regex_rows db ids prompt)
     (map group_regex_perm_entity (filter (\<lambda>r. grp_group r \<in> set ids \<and> grp_prompt r = prompt)
        (db_group_regex_perms db RegisteredModel)))"
  unfolding registered_model_group_regex_rows_def by (rule priority_list_of_sort) simp

section \<open>Integrity\<close>

lemma add_regex_row_Inr:
  assumes "add_regex_row c db regex prio i permission prompt = Inr (e, db')"
  obtains perm where "rp_id perm = db_new_id db (map rp_id (db_regex_perms db c))"
    and "rp_regex perm = regex" and "rp_priority perm = prio" and "rp_user perm = i"
    and "rp_permission perm = permission" and "rp_prompt perm = prompt"
    and "rp_unique perm \<notin> rp_unique ` set (db_regex_perms db c)"
    and "e = regex_perm_entity perm"
    and "db' = db\<lparr>db_regex_perms := (db_regex_perms db)(c := db_regex_perms db c @ [perm])\<rparr>"
proof -
  let ?r = "\<lparr>rp_id = db_new_id db (map rp_id (db_regex_perms db c)), rp_regex = regex,
    rp_priority = prio, rp_user = i, rp_permission = permission, rp_prompt = prompt\<rparr>"
  from assms have "rp_unique ?r \<notin> rp_unique ` set (db_regex_perms db c)"
    and "e = regex_perm_entity ?r"
    and "db' = db\<lparr>db_regex_perms := (db_regex_perms db)(c := db_regex_perms db c @ [?r])\<rparr>"
    by (auto simp: add_regex_row_def Let_def insert_row_Inr)
  then show ?thesis by (intro that [of ?r]) simp_all
qed

lemma add_regex_row_wf:
  assumes "db_wf db" and "i \<in> user_ids db"
    and "add_regex_row c db regex prio i permission prompt = Inr (e, db')"
  shows "db_wf db'"
  using assms(3)
proof (rule add_regex_row_Inr)
  fix perm
  assume p: "rp_id perm = db_new_id db (map rp_id (db_regex_perms db c))" "rp_user perm = i"
    "rp_unique perm \<notin> rp_unique ` set (db_regex_perms db c)"
    and d: "db' = db\<lparr>db_regex_perms := (db_regex_perms db)(c := db_regex_perms db c @ [perm])\<rparr>"
  have "table_ok rp_id rp_unique (db_regex_perms db c @ [perm])"
    using p fresh_keys_new_id [OF assms(1), of rp_id "db_regex_perms db c"]
    by (intro table_ok_append db_wf_keys(6) [OF assms(1)]) auto
  then show ?thesis
    unfolding d using p(2) assms(2) db_wf_refs(5) [OF assms(1)]
    by (intro db_wf_set_regex_perms assms) auto
qed

lemma set_regex_row_wf:
  assumes "db_wf db" and "set_regex_row c db perm f = Inr (e, db')"
    and "\<And>r. rp_id (f r) = rp_id r" and "\<And>r. rp_user (f r) = rp_user r"
  shows "db_wf db'"
proof -
  from assms(2) obtain rows where rows:
    "update_rows rp_unique (\<lambda>r. rp_id r = rp_id perm) f (db_regex_perms db c) = Inr rows"
    and d: "db' = db\<lparr>db_regex_perms := (db_regex_perms db)(c := rows)\<rparr>"
    by (auto simp: set_regex_row_def)
  have "table_ok rp_id rp_unique rows"
    using table_ok_update [OF db_wf_keys(6) [OF assms(1)] rows] assms(3) by blast
  then show ?thesis
    unfolding d using db_wf_refs(5) [OF assms(1)] rows
    by (intro db_wf_set_regex_perms assms(1))
       (auto simp: update_rows_Inr set_set_rows assms(4))
qed

lemma delete_regex_row_wf: "db_wf db \<Longrightarrow> db_wf (delete_regex_row c db perm)"
  unfolding delete_regex_row_def using db_wf_refs(5) [of db] db_wf_keys(6) [of db]
  by (intro db_wf_set_regex_perms table_ok_delete) auto

lemma regex_grant_wf:
  assumes "db_wf db" and "regex_grant rc c db regex prio p n = Inr (e, db')"
  shows "db_wf db'"
proof -
  from assms(2) obtain u where "get_user db n = Inr u"
    and "add_regex_row c db regex prio (u_id u) p False = Inr (e, db')"
    by (auto simp: regex_grant_def)
  then show ?thesis using add_regex_row_wf [OF assms(1)] get_user_id by blast
qed

lemma registered_model_regex_grant_wf:
  assumes "db_wf db" and "registered_model_regex_grant rc db regex prio p n pr = Inr (e, db')"
  shows "db_wf db'"
proof -
  from assms(2) obtain u where "get_user db n = Inr u"
    and "add_regex_row RegisteredModel db regex prio (u_id u) p pr = Inr (e, db')"
    by (auto simp: registered_model_regex_grant_def)
  then show ?thesis using add_regex_row_wf [OF assms(1)] get_user_id by blast
qed

lemma regex_update_wf:
  "db_wf db \<Longrightarrow> regex_update rc c db regex prio p n i = Inr (e, db') \<Longrightarrow> db_wf db'"
  by (auto simp: regex_update_def intro: set_regex_row_wf)

lemma gateway_regex_update_wf:
  "db_wf db \<Longrightarrow> gateway_regex_update rc c db i regex prio p n = Inr (e, db') \<Longrightarrow> db_wf db'"
  by (auto simp: gateway_regex_update_def intro: set_regex_row_wf)

lemma registered_model_regex_update_wf:
  "db_wf db \<Longrightarrow> registered_model_regex_update rc db i regex prio p n pr = Inr (e, db') \<Longrightarrow> db_wf db'"
  by (auto simp: registered_model_regex_update_def intro: set_regex_row_wf)

lemma regex_revoke_wf: "db_wf db \<Longrightarrow> regex_revoke c db n i = Inr db' \<Longrightarrow> db_wf db'"
  by (auto simp: regex_revoke_def intro: delete_regex_row_wf)

lemma registered_model_regex_revoke_wf:
  "db_wf db \<Longrightarrow> registered_model_regex_revoke db i n pr = Inr db' \<Longrightarrow> db_wf db'"
  by (auto simp: registered_model_regex_revoke_def intro: delete_regex_row_wf)

lemma add_group_regex_row_Inr:
  assumes "add_group_regex_row c db regex prio i permission prompt = Inr (e, db')"
  obtains perm where "grp_id perm = db_new_id db (map grp_id (db_group_regex_perms db c))"
    and "grp_group perm = i" and "grp_permission perm = permission" and "grp_regex perm = regex"
    and "grp_unique perm \<notin> grp_unique ` set (db_group_regex_perms db c)"
    and "db' = db\<lparr>db_group_regex_perms :=
          (db_group_regex_perms db)(c := db_group_regex_perms db c @ [perm])\<rparr>"
proof -
  let ?r = "\<lparr>grp_id = db_new_id db (map grp_id (db_group_regex_perms db c)), grp_regex = regex,
    grp_priority = prio, grp_group = i, grp_permission = permission, grp_prompt = prompt\<rparr>"
  from assms have "grp_unique ?r \<notin> grp_unique ` set (db_group_regex_perms db c)"
    and "db' = db\<lparr>db_group_regex_perms :=
          (db_group_regex_perms db)(c := db_group_regex_perms db c @ [?r])\<rparr>"
    by (auto simp: add_group_regex_row_def Let_def insert_row_Inr)
  then show ?thesis by (intro that [of ?r]) simp_all
qed

lemma add_group_regex_row_wf:
  assumes "db_wf db" and "i \<in> group_ids db"
    and "add_group_regex_row c db regex prio i permission prompt = Inr (e, db')"
  shows "db_wf db'"
  using assms(3)
proof (rule add_group_regex_row_Inr)
  fix perm
  assume p: "grp_id perm = db_new_id db (map grp_id (db_group_regex_perms db c))"
    "grp_group perm = i" "grp_unique perm \<notin> grp_unique ` set (db_group_regex_perms db c)"
    and d: "db' = db\<lparr>db_group_regex_perms :=
          (db_group_regex_perms db)(c := db_group_regex_perms db c @ [perm])\<rparr>"
  have "table_ok grp_id grp_unique (db_group_regex_perms db c @ [perm])"
    using p fresh_keys_new_id [OF assms(1), of grp_id "db_group_regex_perms db c"]
    by (intro table_ok_append db_wf_keys(7) [OF assms(1)]) auto
  then show ?thesis
    unfolding d using p(2) assms(2) db_wf_refs(6) [OF assms(1)]
    by (intro db_wf_set_group_regex_perms assms) auto
qed

lemma set_group_regex_row_wf:
  assumes "db_wf db" and "set_group_regex_row c db perm f = Inr (e, db')"
    and "\<And>r. grp_id (f r) = grp_id r" and "\<And>r. grp_group (f r) = grp_group r"
  shows "db_wf db'"
proof -
  from assms(2) obtain rows where rows:
    "update_rows grp_unique (\<lambda>r. grp_id r = grp_id perm) f (db_group_regex_perms db c) = Inr rows"
    and d: "db' = db\<lparr>db_group_regex_perms := (db_group_regex_perms db)(c := rows)\<rparr>"
    by (auto simp: set_group_regex_row_def)
  have "table_ok grp_id grp_unique rows"
    using table_ok_update [OF db_wf_keys(7) [OF assms(1)] rows] assms(3) by blast
  then show ?thesis
    unfolding d using db_wf_refs(6) [OF assms(1)] rows
    by (intro db_wf_set_group_regex_perms assms(1))
       (auto simp: update_rows_Inr set_set_rows assms(4))
qed

lemma delete_group_regex_row_wf: "db_wf db \<Longrightarrow> db_wf (delete_group_regex_row c db perm)"
  unfolding delete_group_regex_row_def using db_wf_refs(6) [of db] db_wf_keys(7) [of db]
  by (intro db_wf_set_group_regex_perms table_ok_delete) auto

lemma group_regex_grant_wf:
  assumes "db_wf db" and "group_regex_grant rc c db n regex prio p = Inr (e, db')"
  shows "db_wf db'"
proof -
  from assms(2) obtain g where "get_group db n = Inr g"
    and "add_group_regex_row c db regex prio (g_id g) p False = Inr (e, db')"
    by (auto simp: group_regex_grant_def)
  then show ?thesis using add_group_regex_row_wf [OF assms(1)] get_group_id by blast
qed

lemma registered_model_group_regex_grant_wf:
  assumes "db_wf db" and "registered_model_group_regex_grant db n regex p prio pr = Inr (e, db')"
  shows "db_wf db'"
proof -
  from assms(2) obtain g where "get_group db n = Inr g"
    and "add_group_regex_row RegisteredModel db regex prio (g_id g) p pr = Inr (e, db')"
    by (auto simp: registered_model_group_regex_grant_def)
  then show ?thesis using add_group_regex_row_wf [OF assms(1)] get_group_id by blast
qed

lemma group_regex_update_wf:
  "db_wf db \<Longrightarrow> group_regex_update rc c db i n regex prio p = Inr (e, db') \<Longrightarrow> db_wf db'"
  by (auto simp: group_regex_update_def intro: set_group_regex_row_wf)

lemma registered_model_group_regex_update_wf:
  "db_wf db \<Longrightarrow> registered_model_group_regex_update db i regex n p prio pr = Inr (e, db') \<Longrightarrow>
   db_wf db'"
  by (auto simp: registered_model_group_regex_update_def intro: set_group_regex_row_wf)

lemma group_regex_revoke_wf: "db_wf db \<Longrightarrow> group_regex_revoke c db n i = Inr db' \<Longrightarrow> db_wf db'"
  by (auto simp: group_regex_revoke_def intro: delete_group_regex_row_wf)

lemma registered_model_group_regex_revoke_wf:
  "db_wf db \<Longrightarrow> registered_model_group_regex_revoke db i n pr = Inr db' \<Longrightarrow> db_wf db'"
  by (auto simp: registered_model_group_regex_revoke_def intro: delete_group_regex_row_wf)

section \<open>A granted pattern can be read back\<close>

lemma get_regex_permission_row_Inr:
  assumes "db_wf db"
  shows "get_regex_permission_row c db uid i = Inr r \<longleftrightarrow>
    r \<in> set (db_regex_perms db c) \<and> rp_id r = i \<and> rp_user r = uid"
proof
  assume "get_regex_permission_row c db uid i = Inr r"
  then show "r \<in> set (db_regex_perms db c) \<and> rp_id r = i \<and> rp_user r = uid"
    by (auto simp: get_regex_permission_row_def query_one_mlflow_Inr dest: filter_eq_ConsD)
next
  assume r: "r \<in> set (db_regex_perms db c) \<and> rp_id r = i \<and> rp_user r = uid"
  then have "filter (\<lambda>r. rp_user r = uid \<and> rp_id r = i) (db_regex_perms db c) = [r]"
    using table_okD(1) [OF db_wf_keys(6) [OF assms]]
    by (intro filter_unique [where key = rp_id]) (auto dest: distinct_key_eq)
  then show "get_regex_permission_row c db uid i = Inr r"
    by (simp add: get_regex_permission_row_def)
qed

lemma regex_grant_get:
  assumes "db_wf db" and "regex_grant rc c db regex prio p n = Inr (e, db')"
  shows "regex_get c db' n (re_id e) = Inr e \<and>
    e = \<lparr>re_id = re_id e, re_regex = regex, re_priority = prio, re_permission = p,
         re_user_id = re_user_id e, re_group_id = None, re_prompt = False\<rparr> \<and>
    regex_ok rc regex \<and> valid_permission p"
proof -
  from assms(2) obtain u where u: "get_user db n = Inr u" and ok: "regex_ok rc regex" "valid_permission p"
    and a: "add_regex_row c db regex prio (u_id u) p False = Inr (e, db')"
    by (auto simp: regex_grant_def)
  from a show ?thesis
  proof (rule add_regex_row_Inr)
    fix perm
    assume f: "rp_regex perm = regex" "rp_priority perm = prio" "rp_user perm = u_id u"
      "rp_permission perm = p" "rp_prompt perm = False" "e = regex_perm_entity perm"
      and d: "db' = db\<lparr>db_regex_perms := (db_regex_perms db)(c := db_regex_perms db c @ [perm])\<rparr>"
    have "get_regex_permission_row c db' (u_id u) (rp_id perm) = Inr perm"
      using get_regex_permission_row_Inr [OF regex_grant_wf [OF assms]] f(3) by (simp add: d)
    moreover have "get_user db' n = Inr u" using u by (simp add: d)
    ultimately have "regex_get c db' n (re_id e) = Inr e"
      by (simp add: regex_get_def f(6))
    with f ok show ?thesis by simp
  qed
qed

lemma regex_revoke_get:
  assumes "db_wf db" and "regex_revoke c db n i = Inr db'"
  shows "regex_get c db' n i = Inl (MlflowException RESOURCE_DOES_NOT_EXIST)"
proof -
  from assms(2) obtain u r where u: "get_user db n = Inr u"
    and r: "get_regex_permission_row c db (u_id u) i = Inr r" and d: "db' = delete_regex_row c db r"
    by (auto simp: regex_revoke_def)
  have "rp_id r = i" using r get_regex_permission_row_Inr [OF assms(1)] by blast
  then have "filter (\<lambda>r. rp_user r = u_id u \<and> rp_id r = i) (db_regex_perms db' c) = []"
    by (auto simp: d delete_regex_row_def filter_empty_conv)
  moreover have "get_user db' n = Inr u" using u by (simp add: d delete_regex_row_def)
  ultimately show ?thesis by (simp add: regex_get_def get_regex_permission_row_def)
qed

text \<open>A gateway update leaves the stored pattern as it was.\<close>

lemma gateway_regex_update_keeps_regex:
  assumes "gateway_regex_update rc c db i regex prio p n = Inr (e, db')"
  shows "map rp_regex (db_regex_perms db' c) = map rp_regex (db_regex_perms db c)"
  using assms
  by (auto simp: gateway_regex_update_def set_regex_row_def update_rows_Inr set_rows_def)

text \<open>
  The patterns found for a user's groups are selected by the ids of the membership rows.
\<close>

lemma group_regex_list_permissions_for_user_groups_ids:
  assumes "get_user db n = Inr u"
  shows "group_regex_list_permissions_for_user_groups c db n =
    Inr (group_regex_list_permissions_for_groups_ids c db (map ug_id (list_user_groups db u)))"
  by (simp add: group_regex_list_permissions_for_user_groups_def assms Let_def
        group_regex_list_permissions_for_groups_ids_def)

end
