(* ===== verification/WorkspaceCache.thy ===== *)
theory WorkspaceCache
  imports AuthConfig Cache WorkspaceRepo RegexRepo
begin

text \<open>
  \<^verbatim>\<open>utils/workspace_cache.py\<close>: the workspace permission of a user, from the configured
  sources in order, with a cache that keeps positive answers only. A resolver swallows every
  exception and answers None. The pattern match is specified by the best permission among
  the matching patterns of the smallest priority number.
\<close>

section \<open>Matching patterns\<close>

fun ws_match_loop :: "outside \<Rightarrow> string \<Rightarrow> regex_entity list \<Rightarrow> permission option \<Rightarrow> int option \<Rightarrow>
    permission option result" where
  "ws_match_loop env workspace [] best_perm best_priority = Inr best_perm"
| "ws_match_loop env workspace (regex_perm # regexes) best_perm best_priority =
     (if best_priority \<noteq> None \<and> re_priority regex_perm > the best_priority then Inr best_perm
      else
        bind_result (re_match env (re_regex regex_perm) workspace) (\<lambda>matched.
        if matched then
          bind_result (get_permission (re_permission regex_perm)) (\<lambda>perm.
          case best_perm of
            None \<Rightarrow> ws_match_loop env workspace regexes (Some perm) (Some (re_priority regex_perm))
          | Some best \<Rightarrow>
              if perm_priority perm > perm_priority best
              then ws_match_loop env workspace regexes (Some perm) best_priority
              else ws_match_loop env workspace regexes best_perm best_priority)
        else ws_match_loop env workspace regexes best_perm best_priority))"

definition match_workspace_regex_permission ::
    "outside \<Rightarrow> regex_entity list \<Rightarrow> string \<Rightarrow> permission option result" where
  "match_workspace_regex_permission env regexes workspace =
     ws_match_loop env workspace regexes None None"

section \<open>The resolvers\<close>

text \<open>Every except clause of a resolver returns None.\<close>

definition or_none :: "'a option result \<Rightarrow> 'a option" where
  "or_none r = (case r of Inl _ \<Rightarrow> None | Inr x \<Rightarrow> x)"

definition resolve_user_direct :: "db \<Rightarrow> string \<Rightarrow> string \<Rightarrow> permission option" where
  "resolve_user_direct db username workspace =
     or_none
       (bind_result (get_workspace_permission db workspace username) (\<lambda>perm.
        bind_result (get_permission (wp_permission perm)) (\<lambda>p. Inr (Some p))))"

definition resolve_group_direct :: "db \<Rightarrow> string \<Rightarrow> string \<Rightarrow> permission option" where
  "resolve_group_direct db username workspace =
     or_none
       (bind_result (get_user_groups_workspace_permission db workspace username) (\<lambda>perm.
        bind_result (get_permission (wgp_permission perm)) (\<lambda>p. Inr (Some p))))"

definition resolve_user_regex :: "outside \<Rightarrow> db \<Rightarrow> string \<Rightarrow> string \<Rightarrow> permission option" where
  "resolve_user_regex env db username workspace =
     or_none
       (bind_result (list_regex_for_user Workspace db username) (\<lambda>regexes.
        if regexes = [] then Inr None
        else match_workspace_regex_permission env regexes workspace))"

definition resolve_group_regex :: "outside \<Rightarrow> db \<Rightarrow> string \<Rightarrow> string \<Rightarrow> permission option" where
  "resolve_group_regex env db username workspace =
     or_none
       (bind_result (list_group_ids_for_user db username) (\<lambda>gids.
        if gids = [] then Inr None
        else
          let regexes = group_regex_list_permissions_for_groups_ids Workspace db gids
          in if regexes = [] then Inr None
             else match_workspace_regex_permission env regexes workspace))"

fun ws_source_loop :: "(string \<times> permission option) list \<Rightarrow> string list \<Rightarrow> permission option" where
  "ws_source_loop source_resolvers [] = None"
| "ws_source_loop source_resolvers (source_name # order) =
     (case map_of source_resolvers source_name of
        None \<Rightarrow> ws_source_loop source_resolvers order
      | Some result \<Rightarrow>
          (case result of
             Some p \<Rightarrow> Some p
           | None \<Rightarrow> ws_source_loop source_resolvers order))"

definition lookup_workspace_permission ::
    "auth_config \<Rightarrow> outside \<Rightarrow> db \<Rightarrow> string \<Rightarrow> string \<Rightarrow> permission option" where
  "lookup_workspace_permission config env db username workspace =
     ws_source_loop
       [(''user'', resolve_user_direct db username workspace),
        (''group'', resolve_group_direct db username workspace),
        (''regex'', resolve_user_regex env db username workspace),
        (''group-regex'', resolve_group_regex env db username workspace)]
       (PERMISSION_SOURCE_ORDER config)"

section \<open>The cache\<close>

definition ws_cache_key :: "string \<Rightarrow> string \<Rightarrow> string" where
  "ws_cache_key username workspace = username @ '':'' @ workspace"

definition get_workspace_permission_cached :: "auth_config \<Rightarrow> outside \<Rightarrow> db \<Rightarrow> string \<Rightarrow> string \<Rightarrow>
    permission local_cache \<Rightarrow> permission option \<times> permission local_cache" where
  "get_workspace_permission_cached config env db username workspace cache =
     (if \<not> MLFLOW_ENABLE_WORKSPACES config then (None, cache)
      else
        let key = ws_cache_key username workspace
        in (case local_get cache key of
              Some cached \<Rightarrow> (Some cached, cache)
            | None \<Rightarrow>
                (case lookup_workspace_permission config env db username workspace of
                   None \<Rightarrow> (None, cache)
                 | Some perm \<Rightarrow> (Some perm, local_set cache key perm))))"

definition invalidate_workspace_permission ::
    "string \<Rightarrow> string \<Rightarrow> permission local_cache \<Rightarrow> permission local_cache" where
  "invalidate_workspace_permission username workspace cache =
     local_delete cache (ws_cache_key username workspace)"

definition flush_workspace_cache :: "permission local_cache \<Rightarrow> permission local_cache" where
  "flush_workspace_cache cache = local_clear cache"

section \<open>What the match finds\<close>

text \<open>Patterns compile, and the stored names are valid.\<close>

definition regexes_ok :: "outside \<Rightarrow> string \<Rightarrow> regex_entity list \<Rightarrow> bool" where
  "regexes_ok env name rs \<longleftrightarrow>
     (\<forall>r \<in> set rs. (\<exists>b. re_match env (re_regex r) name = Inr b) \<and> valid_permission (re_permission r))"

definition matching :: "outside \<Rightarrow> string \<Rightarrow> regex_entity list \<Rightarrow> regex_entity list" where
  "matching env name rs = filter (\<lambda>r. re_match env (re_regex r) name = Inr True) rs"

definition lowest :: "regex_entity list \<Rightarrow> regex_entity list" where
  "lowest rs = filter (\<lambda>r. \<forall>q \<in> set rs. re_priority r \<le> re_priority q) rs"

definition top_permission :: "regex_entity list \<Rightarrow> permission option \<Rightarrow> bool" where
  "top_permission rs res \<longleftrightarrow>
     (case res of
        None \<Rightarrow> rs = []
      | Some p \<Rightarrow> (\<exists>r \<in> set rs. get_permission (re_permission r) = Inr p) \<and>
          (\<forall>r \<in> set rs. priority_of (re_permission r) \<le> perm_priority p))"

lemma priority_of_get: "get_permission s = Inr p \<Longrightarrow> priority_of s = perm_priority p"
  by (simp add: priority_of_def)

text \<open>
  While the loop is in the tier it has found, \<open>seen\<close> are the matching patterns so far, all of
  the tier's priority.
\<close>

lemma ws_match_loop_tier:
  assumes "regexes_ok env w rs" and "sorted (map re_priority rs)"
    and "\<forall>r \<in> set rs. prio \<le> re_priority r"
    and "top_permission seen (Some best)" and "\<forall>r \<in> set seen. re_priority r = prio"
  shows "\<exists>p. ws_match_loop env w rs (Some best) (Some prio) = Inr (Some p) \<and>
    top_permission (seen @ filter (\<lambda>r. re_priority r = prio) (matching env w rs)) (Some p)"
  using assms
proof (induction rs arbitrary: best seen)
  case Nil
  then show ?case by (simp add: matching_def)
next
  case (Cons r rs)
  note tail = Cons.prems(1,2,3)
  have ok: "regexes_ok env w rs" "sorted (map re_priority rs)" "\<forall>q \<in> set rs. prio \<le> re_priority q"
    using tail by (auto simp: regexes_ok_def)
  show ?case
  proof (cases "re_priority r > prio")
    case True
    then have "\<forall>q \<in> set (r # rs). re_priority q > prio" using tail by auto
    then have "filter (\<lambda>q. re_priority q = prio) (matching env w (r # rs)) = []"
      by (auto simp: matching_def filter_empty_conv)
    with True Cons.prems(4) show ?thesis by simp
  next
    case False
    then have rp: "re_priority r = prio" using tail(3) by auto
    obtain b where b: "re_match env (re_regex r) w = Inr b" and v: "valid_permission (re_permission r)"
      using tail(1) by (auto simp: regexes_ok_def)
    show ?thesis
    proof (cases b)
      case False
      with b have "matching env w (r # rs) = matching env w rs" by (simp add: matching_def)
      with Cons.IH [OF ok Cons.prems(4,5)] b False rp show ?thesis by simp
    next
      case True
      from v obtain perm where perm: "get_permission (re_permission r) = Inr perm"
        by (auto simp: get_permission_valid_iff)
      define best' where "best' = (if perm_priority perm > perm_priority best then perm else best)"
      have "top_permission (seen @ [r]) (Some best')"
        using Cons.prems(4) perm priority_of_get [OF perm]
        by (force simp: top_permission_def best'_def)
      moreover have "\<forall>q \<in> set (seen @ [r]). re_priority q = prio" using Cons.prems(5) rp by simp
      ultimately obtain p where
        "ws_match_loop env w rs (Some best') (Some prio) = Inr (Some p)"
        "top_permission ((seen @ [r]) @ filter (\<lambda>r. re_priority r = prio) (matching env w rs)) (Some p)"
        using Cons.IH [OF ok] by blast
      with b True rp perm show ?thesis by (simp add: matching_def best'_def split: if_splits)
    qed
  qed
qed

lemma ws_match_loop_start:
  assumes "regexes_ok env w rs" and "sorted (map re_priority rs)"
  shows "\<exists>res. ws_match_loop env w rs None None = Inr res \<and>
    top_permission (lowest (matching env w rs)) res"
  using assms
proof (induction rs)
  case Nil
  then show ?case by (simp add: matching_def lowest_def top_permission_def)
next
  case (Cons r rs)
  obtain b where b: "re_match env (re_regex r) w = Inr b" and v: "valid_permission (re_permission r)"
    using Cons.prems(1) by (auto simp: regexes_ok_def)
  have ok: "regexes_ok env w rs" "sorted (map re_priority rs)"
    using Cons.prems by (auto simp: regexes_ok_def)
  show ?case
  proof (cases b)
    case False
    with b have "matching env w (r # rs) = matching env w rs" by (simp add: matching_def)
    with Cons.IH [OF ok] b False show ?thesis by simp
  next
    case True
    from v obtain perm where perm: "get_permission (re_permission r) = Inr perm"
      by (auto simp: get_permission_valid_iff)
    have le: "\<forall>q \<in> set rs. re_priority r \<le> re_priority q" using Cons.prems(2) by auto
    have "top_permission [r] (Some perm)"
      using perm priority_of_get [OF perm] by (simp add: top_permission_def)
    from ws_match_loop_tier [OF ok le this] obtain p where
      p: "ws_match_loop env w rs (Some perm) (Some (re_priority r)) = Inr (Some p)"
        "top_permission ([r] @ filter (\<lambda>q. re_priority q = re_priority r) (matching env w rs)) (Some p)"
      by auto
    have "lowest (matching env w (r # rs)) =
        [r] @ filter (\<lambda>q. re_priority q = re_priority r) (matching env w rs)"
      using b True le by (auto simp: lowest_def matching_def intro!: filter_cong)
    with p b True perm show ?thesis by simp
  qed
qed

lemma match_workspace_regex_permission_top:
  assumes "regexes_ok env w rs" and "sorted (map re_priority rs)"
  shows "\<exists>res. match_workspace_regex_permission env rs w = Inr res \<and>
    top_permission (lowest (matching env w rs)) res"
  unfolding match_workspace_regex_permission_def by (rule ws_match_loop_start [OF assms])

section \<open>The first source that answers\<close>

lemma ws_source_loop_first:
  "ws_source_loop srcs order =
   (case filter (\<lambda>n. case map_of srcs n of Some (Some _) \<Rightarrow> True | _ \<Rightarrow> False) order of
      [] \<Rightarrow> None
    | n # _ \<Rightarrow> the (map_of srcs n))"
  by (induction order) (auto split: option.splits)

section \<open>Cached answers\<close>

definition ws_fresh :: "auth_config \<Rightarrow> outside \<Rightarrow> db \<Rightarrow> string \<Rightarrow> permission \<Rightarrow> bool" where
  "ws_fresh config env db key p \<longleftrightarrow>
     (\<exists>n w. key = ws_cache_key n w \<and> lookup_workspace_permission config env db n w = Some p)"

lemma get_workspace_permission_cached_sound:
  assumes "sound_cache local_get (ws_fresh config env db) cache"
    and "get_workspace_permission_cached config env db n w cache = (res, cache')"
  shows "sound_cache local_get (ws_fresh config env db) cache'"
proof (cases "MLFLOW_ENABLE_WORKSPACES config \<and> local_get cache (ws_cache_key n w) = None")
  case True
  show ?thesis
  proof (cases "lookup_workspace_permission config env db n w")
    case None
    with assms True show ?thesis by (simp add: get_workspace_permission_cached_def)
  next
    case (Some p)
    with assms True have "cache' = local_set cache (ws_cache_key n w) p"
      by (simp add: get_workspace_permission_cached_def)
    moreover have "ws_fresh config env db (ws_cache_key n w) p" using Some by (auto simp: ws_fresh_def)
    ultimately show ?thesis using local_backend.sound_put [OF assms(1)] by simp
  qed
next
  case False
  with assms show ?thesis
    by (auto simp: get_workspace_permission_cached_def Let_def split: if_splits option.splits)
qed

text \<open>Without a colon in the user names the key determines user and workspace.\<close>

lemma append_sep_inj:
  assumes "x \<notin> set a" and "x \<notin> set c" and "a @ x # b = c @ x # d"
  shows "a = c \<and> b = d"
  using assms
proof (induction a arbitrary: c)
  case Nil
  then show ?case by (cases c) auto
next
  case (Cons y a)
  then show ?case by (cases c) auto
qed

lemma ws_cache_key_inj:
  assumes "CHR '':'' \<notin> set n" and "CHR '':'' \<notin> set m" and "ws_cache_key n w = ws_cache_key m v"
  shows "n = m \<and> w = v"
  using append_sep_inj [OF assms(1,2)] assms(3) by (simp add: ws_cache_key_def)

section \<open>Properties\<close>

text \<open>Matching a workspace against patterns in order of priority finds, when the patterns
  compile and the stored names are valid, the permission of highest priority number among the
  matching patterns of the smallest pattern priority, and nothing exactly when no pattern
  matches.\<close>

theorem workspace_regex_match:
  assumes "regexes_ok env w rs" and "sorted (map re_priority rs)"
  shows "\<exists>res. match_workspace_regex_permission env rs w = Inr res \<and>
    top_permission (lowest (matching env w rs)) res"
  by (rule match_workspace_regex_permission_top [OF assms])

text \<open>Two patterns of one priority match; the one that forbids wins over the one that allows.\<close>

definition example_patterns :: "regex_entity list" where
  "example_patterns =
     [\<lparr>re_id = 1, re_regex = ''te'', re_priority = 1, re_permission = ''MANAGE'', re_user_id = Some 1,
       re_group_id = None, re_prompt = False\<rparr>,
      \<lparr>re_id = 2, re_regex = ''t'', re_priority = 1, re_permission = ''NO_PERMISSIONS'',
       re_user_id = Some 1, re_group_id = None, re_prompt = False\<rparr>,
      \<lparr>re_id = 3, re_regex = ''t'', re_priority = 2, re_permission = ''READ'', re_user_id = Some 1,
       re_group_id = None, re_prompt = False\<rparr>]"

theorem workspace_regex_match_witness:
  "match_workspace_regex_permission example_outside example_patterns ''team'' = Inr (Some NO_PERMISSIONS)"
proof -
  have ok: "regexes_ok example_outside ''team'' example_patterns"
    by (simp add: regexes_ok_def example_outside_def example_patterns_def)
  have s: "sorted (map re_priority example_patterns)" by (simp add: example_patterns_def)
  have l: "lowest (matching example_outside ''team'' example_patterns) = take 2 example_patterns"
    by (simp add: example_patterns_def matching_def lowest_def example_outside_def)
  from workspace_regex_match [OF ok s] obtain res where
    "match_workspace_regex_permission example_outside example_patterns ''team'' = Inr res"
    "top_permission (take 2 example_patterns) res" unfolding l by blast
  then show ?thesis
    by (auto simp: top_permission_def example_patterns_def permission_constants split: option.splits)
qed

end
