(* ===== verification/UserPermissionRepo.thy ===== *)
theory UserPermissionRepo
  imports Database RepositoryInterface
begin

text \<open>
  \<^verbatim>\<open>BaseUserPermissionRepository\<close> (\<^verbatim>\<open>repository/_base.py\<close>), with the overrides of the
  registered model and scorer repositories. Every operation takes the resource class whose
  table it works on (the subclass's \<open>model_class\<close>) and the value of the identifying columns.
\<close>

section \<open>Operations\<close>

text \<open>The query joins the table with \<open>users\<close> and filters on resource and user name.\<close>

definition user_perm_query :: "resource_class \<Rightarrow> db \<Rightarrow> rkey \<Rightarrow> string \<Rightarrow> user_perm list" where
  "user_perm_query c db key username =
     concat (map (\<lambda>p. map (\<lambda>_. p)
       (filter (\<lambda>u. up_user p = u_id u \<and> up_key p = key \<and> u_username u = username) (db_users db)))
       (db_user_perms db c))"

definition user_get_permission_row :: "resource_class \<Rightarrow> db \<Rightarrow> rkey \<Rightarrow> string \<Rightarrow> user_perm result" where
  "user_get_permission_row c db key username = query_one_mlflow (user_perm_query c db key username)"

definition user_grant_permission ::
    "resource_class \<Rightarrow> db \<Rightarrow> rkey \<Rightarrow> string \<Rightarrow> string \<Rightarrow> (perm_entity \<times> db) result" where
  "user_grant_permission c db key username permission =
     bind_result (validate_permission permission) (\<lambda>_.
     on_integrity_error RESOURCE_ALREADY_EXISTS
       (bind_result (get_user db username) (\<lambda>user.
        let perm = \<lparr>up_id = db_new_id db (map up_id (db_user_perms db c)), up_key = key,
                    up_user = u_id user, up_permission = permission\<rparr>
        in bind_result (insert_row up_unique perm (db_user_perms db c)) (\<lambda>rows.
           Inr (user_perm_entity perm, db\<lparr>db_user_perms := (db_user_perms db)(c := rows)\<rparr>)))))"

definition user_get_permission :: "resource_class \<Rightarrow> db \<Rightarrow> rkey \<Rightarrow> string \<Rightarrow> perm_entity result" where
  "user_get_permission c db key username =
     bind_result (user_get_permission_row c db key username) (\<lambda>perm. Inr (user_perm_entity perm))"

definition user_list_permissions_for_user ::
    "resource_class \<Rightarrow> db \<Rightarrow> string \<Rightarrow> perm_entity list result" where
  "user_list_permissions_for_user c db username =
     bind_result (get_user db username) (\<lambda>user.
     Inr (map user_perm_entity (filter (\<lambda>r. up_user r = u_id user) (db_user_perms db c))))"

definition user_list_permissions_for_resource ::
    "resource_class \<Rightarrow> db \<Rightarrow> string \<Rightarrow> perm_entity list" where
  "user_list_permissions_for_resource c db resource_id =
     map user_perm_entity
       (filter (\<lambda>r. resource_id_of (up_key r) = resource_id) (db_user_perms db c))"

definition user_update_permission ::
    "resource_class \<Rightarrow> db \<Rightarrow> rkey \<Rightarrow> string \<Rightarrow> string \<Rightarrow> (perm_entity \<times> db) result" where
  "user_update_permission c db key username permission =
     bind_result (validate_permission permission) (\<lambda>_.
     bind_result (user_get_permission_row c db key username) (\<lambda>perm.
     let rows = set_rows (\<lambda>r. up_id r = up_id perm) (\<lambda>r. r\<lparr>up_permission := permission\<rparr>)
                  (db_user_perms db c)
     in Inr (user_perm_entity (perm\<lparr>up_permission := permission\<rparr>),
             db\<lparr>db_user_perms := (db_user_perms db)(c := rows)\<rparr>)))"

definition user_revoke_permission :: "resource_class \<Rightarrow> db \<Rightarrow> rkey \<Rightarrow> string \<Rightarrow> db result" where
  "user_revoke_permission c db key username =
     bind_result (user_get_permission_row c db key username) (\<lambda>perm.
     let rows = delete_rows (\<lambda>r. up_id r = up_id perm) (db_user_perms db c)
     in Inr (db\<lparr>db_user_perms := (db_user_perms db)(c := rows)\<rparr>))"

text \<open>A bulk rename that would break the unique constraint raises an unhandled IntegrityError.\<close>

definition user_rename :: "resource_class \<Rightarrow> db \<Rightarrow> string \<Rightarrow> string \<Rightarrow> db result" where
  "user_rename c db old_name new_name =
     bind_result
       (update_rows up_unique (\<lambda>r. resource_id_of (up_key r) = old_name)
          (\<lambda>r. r\<lparr>up_key := set_resource_id new_name (up_key r)\<rparr>) (db_user_perms db c))
       (\<lambda>rows. Inr (db\<lparr>db_user_perms := (db_user_perms db)(c := rows)\<rparr>))"

definition user_wipe :: "resource_class \<Rightarrow> db \<Rightarrow> string \<Rightarrow> db" where
  "user_wipe c db resource_id =
     db\<lparr>db_user_perms := (db_user_perms db)
          (c := delete_rows (\<lambda>r. resource_id_of (up_key r) = resource_id) (db_user_perms db c))\<rparr>"

text \<open>Registered models: a rename with nothing to rename raises.\<close>

definition registered_model_rename :: "db \<Rightarrow> string \<Rightarrow> string \<Rightarrow> db result" where
  "registered_model_rename db old_name new_name =
     (if filter (\<lambda>r. resource_id_of (up_key r) = old_name) (db_user_perms db RegisteredModel) = []
      then Inl (MlflowException RESOURCE_DOES_NOT_EXIST)
      else user_rename RegisteredModel db old_name new_name)"

text \<open>Scorers: the same operations on the two-column key.\<close>

definition scorer_grant_permission ::
    "db \<Rightarrow> string \<Rightarrow> string \<Rightarrow> string \<Rightarrow> string \<Rightarrow> (perm_entity \<times> db) result" where
  "scorer_grant_permission db experiment_id scorer_name username permission =
     user_grant_permission Scorer db (ScorerKey experiment_id scorer_name) username permission"

definition scorer_get_permission :: "db \<Rightarrow> string \<Rightarrow> string \<Rightarrow> string \<Rightarrow> perm_entity result" where
  "scorer_get_permission db experiment_id scorer_name username =
     user_get_permission Scorer db (ScorerKey experiment_id scorer_name) username"

definition scorer_update_permission ::
    "db \<Rightarrow> string \<Rightarrow> string \<Rightarrow> string \<Rightarrow> string \<Rightarrow> (perm_entity \<times> db) result" where
  "scorer_update_permission db experiment_id scorer_name username permission =
     user_update_permission Scorer db (ScorerKey experiment_id scorer_name) username permission"

definition scorer_revoke_permission :: "db \<Rightarrow> string \<Rightarrow> string \<Rightarrow> string \<Rightarrow> db result" where
  "scorer_revoke_permission db experiment_id scorer_name username =
     user_revoke_permission Scorer db (ScorerKey experiment_id scorer_name) username"

section \<open>The table as a map\<close>

definition user_exists :: "db \<Rightarrow> string \<Rightarrow> bool" where
  "user_exists db username \<longleftrightarrow> username \<in> u_username ` set (db_users db)"

definition user_perm_at :: "resource_class \<Rightarrow> db \<Rightarrow> rkey \<Rightarrow> nat \<Rightarrow> user_perm option" where
  "user_perm_at c db key uid = row_at up_unique (key, uid) (db_user_perms db c)"

definition user_perm_lookup :: "resource_class \<Rightarrow> db \<Rightarrow> rkey \<Rightarrow> string \<Rightarrow> string option" where
  "user_perm_lookup c db key username =
     (case get_user db username of
        Inl _ \<Rightarrow> None
      | Inr u \<Rightarrow> map_option up_permission (user_perm_at c db key (u_id u)))"

lemma user_exists_iff: "db_wf db \<Longrightarrow> user_exists db n \<longleftrightarrow> (\<exists>u. get_user db n = Inr u)"
  unfolding user_exists_def by (auto simp: get_user_Inr)

lemma user_exists_Inl:
  "db_wf db \<Longrightarrow> get_user db n = Inl e \<Longrightarrow>
   \<not> user_exists db n \<and> e = MlflowException RESOURCE_DOES_NOT_EXIST"
  unfolding user_exists_def by (simp add: get_user_Inl)

lemma user_perm_query_eq:
  assumes "db_wf db"
  shows "user_perm_query c db key username =
    (case get_user db username of
       Inl _ \<Rightarrow> []
     | Inr u \<Rightarrow> (case user_perm_at c db key (u_id u) of None \<Rightarrow> [] | Some r \<Rightarrow> [r]))"
proof (cases "get_user db username")
  case (Inl e)
  then have "username \<notin> u_username ` set (db_users db)"
    using get_user_Inl [OF assms] by blast
  then have "user_perm_query c db key username = []"
    by (auto simp: user_perm_query_def filter_empty_conv)
  with Inl show ?thesis by simp
next
  case (Inr u)
  then have u: "u \<in> set (db_users db)" "u_username u = username"
    using get_user_Inr [OF assms] by auto
  have "map (\<lambda>_. p) (filter (\<lambda>v. up_user p = u_id v \<and> up_key p = key \<and> u_username v = username)
          (db_users db)) = (if up_unique p = (key, u_id u) then [p] else [])" for p
  proof (cases "up_unique p = (key, u_id u)")
    case True
    have "filter (\<lambda>v. up_user p = u_id v \<and> up_key p = key \<and> u_username v = username)
        (db_users db) = [u]"
      using True u table_okD [OF db_wf_keys(1) [OF assms]]
      by (intro filter_unique [where key = u_id])
         (auto simp: up_unique_def dest: distinct_key_eq)
    with True show ?thesis by simp
  next
    case False
    then have "filter (\<lambda>v. up_user p = u_id v \<and> up_key p = key \<and> u_username v = username)
        (db_users db) = []"
      using u table_okD(2) [OF db_wf_keys(1) [OF assms]]
      by (auto simp: filter_empty_conv up_unique_def dest: distinct_key_eq)
    with False show ?thesis by simp
  qed
  then have "user_perm_query c db key username =
      filter (\<lambda>p. up_unique p = (key, u_id u)) (db_user_perms db c)"
    by (simp add: user_perm_query_def concat_map_if)
  also have "\<dots> = (case user_perm_at c db key (u_id u) of None \<Rightarrow> [] | Some r \<Rightarrow> [r])"
    unfolding user_perm_at_def
    by (rule filter_row_at [OF table_okD(2) [OF db_wf_keys(4) [OF assms]]]) simp
  finally show ?thesis using Inr by simp
qed

lemma user_get_permission_row_eq:
  assumes "db_wf db"
  shows "user_get_permission_row c db key username =
    (case get_user db username of
       Inl _ \<Rightarrow> Inl (MlflowException RESOURCE_DOES_NOT_EXIST)
     | Inr u \<Rightarrow> (case user_perm_at c db key (u_id u) of
           None \<Rightarrow> Inl (MlflowException RESOURCE_DOES_NOT_EXIST) | Some r \<Rightarrow> Inr r))"
  by (simp add: user_get_permission_row_def user_perm_query_eq [OF assms] split: sum.split option.split)

lemma user_get_permission_row_Inr:
  assumes "db_wf db" and "user_get_permission_row c db key username = Inr r"
  obtains u where "get_user db username = Inr u" and "user_perm_at c db key (u_id u) = Some r"
    and "r \<in> set (db_user_perms db c)" and "up_key r = key" and "up_user r = u_id u"
  using assms(2)
  by (auto simp: user_get_permission_row_eq [OF assms(1)] user_perm_at_def up_unique_def
        split: sum.splits option.splits dest: row_at_SomeD)

lemma user_perm_lookup_get:
  assumes "db_wf db"
  shows "bind_result (user_get_permission c db key username) (\<lambda>e. Inr (pe_permission e)) =
    (case user_perm_lookup c db key username of
       None \<Rightarrow> Inl (MlflowException RESOURCE_DOES_NOT_EXIST) | Some p \<Rightarrow> Inr p)"
  by (simp add: user_get_permission_def user_get_permission_row_eq [OF assms] user_perm_lookup_def
        split: sum.split option.split)

text \<open>
  Two users of a well-formed database with the same id are the same, so changing the entry at
  one key and user id changes the map at one key and name.
\<close>

lemma user_perm_lookup_upd:
  assumes "db_wf db" and "get_user db n = Inr u"
    and "\<And>k i. user_perm_at c db' k i =
           (if k = key \<and> i = u_id u then r else user_perm_at c db k i)"
    and "\<And>m. get_user db' m = get_user db m"
  shows "user_perm_lookup c db' = perm_upd (user_perm_lookup c db) key n (map_option up_permission r)"
proof (intro perm_map_eqI)
  fix k m
  show "user_perm_lookup c db' k m =
      perm_upd (user_perm_lookup c db) key n (map_option up_permission r) k m"
  proof (cases "get_user db m")
    case (Inl e)
    then have "m \<noteq> n" using assms(2) by auto
    with Inl show ?thesis by (simp add: user_perm_lookup_def perm_upd_apply assms(4))
  next
    case (Inr v)
    have "u_id v = u_id u \<longleftrightarrow> m = n"
    proof
      assume "u_id v = u_id u"
      then show "m = n"
        using Inr assms(2) user_eq_by_id [OF assms(1), of v u]
        by (auto simp: get_user_Inr [OF assms(1)])
    qed (use Inr assms(2) in simp)
    with Inr show ?thesis
      by (auto simp: user_perm_lookup_def perm_upd_apply assms(3,4))
  qed
qed

section \<open>The repository meets its contract\<close>

lemma user_grant_permission_Inr:
  assumes "user_grant_permission c db key username permission = Inr (e, db')"
  obtains user perm where "valid_permission permission" and "get_user db username = Inr user"
    and "perm = \<lparr>up_id = db_new_id db (map up_id (db_user_perms db c)), up_key = key,
                 up_user = u_id user, up_permission = permission\<rparr>"
    and "user_perm_at c db key (u_id user) = None"
    and "e = user_perm_entity perm"
    and "db' = db\<lparr>db_user_perms := (db_user_perms db)(c := db_user_perms db c @ [perm])\<rparr>"
  using assms
  by (auto simp: user_grant_permission_def Let_def insert_row_Inr user_perm_at_def row_at_None
        up_unique_def)

lemma user_grant_permission_wf:
  assumes "db_wf db" and "user_grant_permission c db key username permission = Inr (e, db')"
  shows "db_wf db'"
  using assms(2)
proof (rule user_grant_permission_Inr)
  fix user perm
  assume u: "get_user db username = Inr user"
    and p: "perm = \<lparr>up_id = db_new_id db (map up_id (db_user_perms db c)), up_key = key,
                 up_user = u_id user, up_permission = permission\<rparr>"
    and n: "user_perm_at c db key (u_id user) = None"
    and db': "db' = db\<lparr>db_user_perms := (db_user_perms db)(c := db_user_perms db c @ [perm])\<rparr>"
  have "up_unique perm \<notin> set (map up_unique (db_user_perms db c))"
    using n p by (simp add: user_perm_at_def row_at_None up_unique_def)
  moreover have "up_id perm \<notin> set (map up_id (db_user_perms db c))"
    using fresh_keys_new_id [OF assms(1)] p by simp
  ultimately have "table_ok up_id up_unique (db_user_perms db c @ [perm])"
    by (intro table_ok_append db_wf_keys assms)
  then show "db_wf db'"
    unfolding db' using p get_user_id [OF u] db_wf_refs(3) [OF assms(1)]
    by (intro db_wf_set_user_perms assms) auto
qed

lemma user_grant_permission_at:
  assumes "user_grant_permission c db key username permission = Inr (e, db')"
    and "get_user db username = Inr u"
  shows "user_perm_at c db' k i =
    (if k = key \<and> i = u_id u
     then Some \<lparr>up_id = db_new_id db (map up_id (db_user_perms db c)), up_key = key,
                up_user = u_id u, up_permission = permission\<rparr>
     else user_perm_at c db k i)"
  using assms(1)
  by (rule user_grant_permission_Inr)
     (auto simp: user_perm_at_def row_at_append up_unique_def assms(2) split: option.splits)

lemma user_grant_permission_refines:
  assumes "db_wf db"
  shows "step_refines db_wf user_exists (user_perm_lookup c) db
    (result_state (user_grant_permission c db key n p))
    (spec_apply valid_permission (MlflowException RESOURCE_DOES_NOT_EXIST) (user_exists db)
       (user_perm_lookup c db) (Grant key n p))"
proof (cases "valid_permission p")
  case False
  then show ?thesis
    by (simp add: step_refines_def user_grant_permission_def validate_permission_invalid)
next
  case True
  show ?thesis
  proof (cases "get_user db n")
    case (Inl e)
    with True user_exists_Inl [OF assms Inl] show ?thesis
      by (simp add: step_refines_def user_grant_permission_def validate_permission_valid)
  next
    case (Inr u)
    then have ex: "user_exists db n" by (simp add: user_exists_iff [OF assms])
    show ?thesis
    proof (cases "user_perm_at c db key (u_id u)")
      case (Some r)
      then have "user_grant_permission c db key n p = Inl (MlflowException RESOURCE_ALREADY_EXISTS)"
        using True Inr
        by (auto simp: user_grant_permission_def validate_permission_valid Let_def insert_row_def
              user_perm_at_def up_unique_def dest!: row_at_SomeD intro!: image_eqI)
      with True Inr Some ex show ?thesis by (simp add: step_refines_def user_perm_lookup_def)
    next
      case None
      define perm where "perm = \<lparr>up_id = db_new_id db (map up_id (db_user_perms db c)), up_key = key,
        up_user = u_id u, up_permission = p\<rparr>"
      define db' where
        "db' = db\<lparr>db_user_perms := (db_user_perms db)(c := db_user_perms db c @ [perm])\<rparr>"
      have g: "user_grant_permission c db key n p = Inr (user_perm_entity perm, db')"
        using True Inr None
        by (simp add: user_grant_permission_def validate_permission_valid Let_def insert_row_def
              user_perm_at_def row_at_None up_unique_def perm_def db'_def)
      have "user_perm_lookup c db' = perm_upd (user_perm_lookup c db) key n (Some p)"
        using user_perm_lookup_upd [OF assms Inr user_grant_permission_at [OF g Inr]]
        by (simp add: db'_def)
      moreover have "user_exists db' = user_exists db"
        by (rule ext) (simp add: user_exists_def db'_def)
      ultimately show ?thesis
        using True ex None Inr g user_grant_permission_wf [OF assms g]
        by (simp add: step_refines_def user_perm_lookup_def)
    qed
  qed
qed


lemma up_unique_upd [simp]: "up_unique (r\<lparr>up_permission := p\<rparr>) = up_unique r"
  by (simp add: up_unique_def)

text \<open>The row an update or a revocation works on, by its key.\<close>

lemma user_perm_row_key:
  assumes "db_wf db" and "r \<in> set (db_user_perms db c)"
  shows "set_rows (\<lambda>x. up_id x = up_id r) f (db_user_perms db c) =
           set_rows (\<lambda>x. up_unique x = up_unique r) f (db_user_perms db c)"
    and "delete_rows (\<lambda>x. up_id x = up_id r) (db_user_perms db c) =
           delete_rows (\<lambda>x. up_unique x = up_unique r) (db_user_perms db c)"
  using table_okD [OF db_wf_keys(4) [OF assms(1)]] assms(2)
  by (auto intro: set_rows_by_id delete_rows_by_id)

lemma user_update_permission_Inr:
  assumes "db_wf db" and "user_update_permission c db key username permission = Inr (e, db')"
  obtains u r where "valid_permission permission" and "get_user db username = Inr u"
    and "user_perm_at c db key (u_id u) = Some r" and "r \<in> set (db_user_perms db c)"
    and "up_unique r = (key, u_id u)"
    and "e = user_perm_entity (r\<lparr>up_permission := permission\<rparr>)"
    and "db' = db\<lparr>db_user_perms := (db_user_perms db)(c :=
          set_rows (\<lambda>x. up_unique x = (key, u_id u)) (\<lambda>x. x\<lparr>up_permission := permission\<rparr>)
            (db_user_perms db c))\<rparr>"
proof -
  from assms(2) obtain r where v: "valid_permission permission"
    and r: "user_get_permission_row c db key username = Inr r"
    and e: "e = user_perm_entity (r\<lparr>up_permission := permission\<rparr>)"
    and d: "db' = db\<lparr>db_user_perms := (db_user_perms db)(c :=
          set_rows (\<lambda>x. up_id x = up_id r) (\<lambda>x. x\<lparr>up_permission := permission\<rparr>)
            (db_user_perms db c))\<rparr>"
    by (auto simp: user_update_permission_def Let_def)
  from user_get_permission_row_Inr [OF assms(1) r] obtain u
    where u: "get_user db username = Inr u" "user_perm_at c db key (u_id u) = Some r"
      "r \<in> set (db_user_perms db c)" "up_unique r = (key, u_id u)"
    by (auto simp: up_unique_def)
  show ?thesis
    using that [OF v u(1,2,3,4) e] d user_perm_row_key(1) [OF assms(1) u(3)] u(4) by simp
qed

lemma user_revoke_permission_Inr:
  assumes "db_wf db" and "user_revoke_permission c db key username = Inr db'"
  obtains u r where "get_user db username = Inr u" and "user_perm_at c db key (u_id u) = Some r"
    and "db' = db\<lparr>db_user_perms := (db_user_perms db)(c :=
          delete_rows (\<lambda>x. up_unique x = (key, u_id u)) (db_user_perms db c))\<rparr>"
proof -
  from assms(2) obtain r where r: "user_get_permission_row c db key username = Inr r"
    and d: "db' = db\<lparr>db_user_perms := (db_user_perms db)(c :=
          delete_rows (\<lambda>x. up_id x = up_id r) (db_user_perms db c))\<rparr>"
    by (auto simp: user_revoke_permission_def Let_def)
  from user_get_permission_row_Inr [OF assms(1) r] obtain u
    where u: "get_user db username = Inr u" "user_perm_at c db key (u_id u) = Some r"
      "r \<in> set (db_user_perms db c)" "up_unique r = (key, u_id u)"
    by (auto simp: up_unique_def)
  show ?thesis
    using that [OF u(1,2)] d user_perm_row_key(2) [OF assms(1) u(3)] u(4) by simp
qed

lemma user_update_permission_wf:
  assumes "db_wf db" and "user_update_permission c db key username permission = Inr (e, db')"
  shows "db_wf db'"
  using assms
proof (rule user_update_permission_Inr)
  fix u
  assume d: "db' = db\<lparr>db_user_perms := (db_user_perms db)(c :=
      set_rows (\<lambda>x. up_unique x = (key, u_id u)) (\<lambda>x. x\<lparr>up_permission := permission\<rparr>)
        (db_user_perms db c))\<rparr>"
  show "db_wf db'"
    unfolding d using db_wf_refs(3) [OF assms(1)] db_wf_keys(4) [OF assms(1)]
    by (intro db_wf_set_user_perms table_ok_set_rows assms)
       (auto simp: set_set_rows up_unique_upd split: if_splits)
qed

lemma user_revoke_permission_wf:
  assumes "db_wf db" and "user_revoke_permission c db key username = Inr db'"
  shows "db_wf db'"
  using assms
proof (rule user_revoke_permission_Inr)
  fix u
  assume d: "db' = db\<lparr>db_user_perms := (db_user_perms db)(c :=
      delete_rows (\<lambda>x. up_unique x = (key, u_id u)) (db_user_perms db c))\<rparr>"
  show "db_wf db'"
    unfolding d using db_wf_refs(3) [OF assms(1)] db_wf_keys(4) [OF assms(1)]
    by (intro db_wf_set_user_perms table_ok_delete assms) auto
qed

lemma user_update_permission_refines:
  assumes "db_wf db"
  shows "step_refines db_wf user_exists (user_perm_lookup c) db
    (result_state (user_update_permission c db key n p))
    (spec_apply valid_permission (MlflowException RESOURCE_DOES_NOT_EXIST) (user_exists db)
       (user_perm_lookup c db) (Update key n p))"
proof (cases "user_update_permission c db key n p")
  case (Inl e)
  then show ?thesis
    by (auto simp: step_refines_def user_update_permission_def user_get_permission_row_eq [OF assms]
          Let_def user_perm_lookup_def validate_permission_invalid validate_permission_valid
          split: sum.splits option.splits if_splits)
next
  case (Inr x)
  then obtain e db' where Inr: "user_update_permission c db key n p = Inr (e, db')"
    by (cases x) simp
  show ?thesis
    using assms Inr
  proof (rule user_update_permission_Inr)
    fix u r
    assume v: "valid_permission p" and u: "get_user db n = Inr u"
      and r: "user_perm_at c db key (u_id u) = Some r"
      and d: "db' = db\<lparr>db_user_perms := (db_user_perms db)(c :=
          set_rows (\<lambda>x. up_unique x = (key, u_id u)) (\<lambda>x. x\<lparr>up_permission := p\<rparr>)
            (db_user_perms db c))\<rparr>"
    have "user_perm_at c db' k i = (if k = key \<and> i = u_id u then Some (r\<lparr>up_permission := p\<rparr>)
        else user_perm_at c db k i)" for k i
      using r by (auto simp: d user_perm_at_def row_at_set_key up_unique_upd)
    then have "user_perm_lookup c db' = perm_upd (user_perm_lookup c db) key n (Some p)"
      using user_perm_lookup_upd [OF assms u, of c db' key "Some (r\<lparr>up_permission := p\<rparr>)"]
      by (simp add: d)
    moreover have "user_exists db' = user_exists db"
      by (rule ext) (simp add: user_exists_def d)
    ultimately show ?thesis
      using v u r Inr user_update_permission_wf [OF assms Inr]
      by (simp add: step_refines_def user_perm_lookup_def)
  qed
qed

lemma user_revoke_permission_refines:
  assumes "db_wf db"
  shows "step_refines db_wf user_exists (user_perm_lookup c) db
    (user_revoke_permission c db key n)
    (spec_apply valid_permission (MlflowException RESOURCE_DOES_NOT_EXIST) (user_exists db)
       (user_perm_lookup c db) (Revoke key n))"
proof (cases "user_revoke_permission c db key n")
  case (Inl e)
  then show ?thesis
    by (auto simp: step_refines_def user_revoke_permission_def user_get_permission_row_eq [OF assms]
          Let_def user_perm_lookup_def split: sum.splits option.splits)
next
  case (Inr db')
  show ?thesis
    using assms Inr
  proof (rule user_revoke_permission_Inr)
    fix u r
    assume u: "get_user db n = Inr u" and r: "user_perm_at c db key (u_id u) = Some r"
      and d: "db' = db\<lparr>db_user_perms := (db_user_perms db)(c :=
          delete_rows (\<lambda>x. up_unique x = (key, u_id u)) (db_user_perms db c))\<rparr>"
    have "user_perm_at c db' k i = (if k = key \<and> i = u_id u then None
        else user_perm_at c db k i)" for k i
      by (simp add: d user_perm_at_def)
    then have "user_perm_lookup c db' = perm_upd (user_perm_lookup c db) key n None"
      using user_perm_lookup_upd [OF assms u, of c db' key None] by (simp add: d)
    moreover have "user_exists db' = user_exists db"
      by (rule ext) (simp add: user_exists_def d)
    ultimately show ?thesis
      using u r Inr user_revoke_permission_wf [OF assms Inr]
      by (simp add: step_refines_def user_perm_lookup_def)
  qed
qed


interpretation user_repo: readable_permission_repository db_wf valid_permission
  "MlflowException RESOURCE_DOES_NOT_EXIST" user_exists "user_perm_lookup c"
  "\<lambda>db k n p. result_state (user_grant_permission c db k n p)"
  "\<lambda>db k n p. result_state (user_update_permission c db k n p)"
  "user_revoke_permission c"
  "\<lambda>db k n. bind_result (user_get_permission c db k n) (\<lambda>e. Inr (pe_permission e))"
  for c
proof unfold_locales
  fix db :: db and k n p
  assume wf: "db_wf db"
  show "step_refines db_wf user_exists (user_perm_lookup c) db
      (result_state (user_grant_permission c db k n p))
      (spec_apply valid_permission (MlflowException RESOURCE_DOES_NOT_EXIST) (user_exists db)
        (user_perm_lookup c db) (Grant k n p))"
    by (rule user_grant_permission_refines [OF wf])
  show "step_refines db_wf user_exists (user_perm_lookup c) db
      (result_state (user_update_permission c db k n p))
      (spec_apply valid_permission (MlflowException RESOURCE_DOES_NOT_EXIST) (user_exists db)
        (user_perm_lookup c db) (Update k n p))"
    by (rule user_update_permission_refines [OF wf])
  show "step_refines db_wf user_exists (user_perm_lookup c) db (user_revoke_permission c db k n)
      (spec_apply valid_permission (MlflowException RESOURCE_DOES_NOT_EXIST) (user_exists db)
        (user_perm_lookup c db) (Revoke k n))"
    by (rule user_revoke_permission_refines [OF wf])
  show "bind_result (user_get_permission c db k n) (\<lambda>e. Inr (pe_permission e)) =
      (case user_perm_lookup c db k n of
         None \<Rightarrow> Inl (MlflowException RESOURCE_DOES_NOT_EXIST) | Some p \<Rightarrow> Inr p)"
    by (rule user_perm_lookup_get [OF wf])
  show "user_exists db n" if "user_perm_lookup c db k n \<noteq> None"
    using that by (auto simp: user_perm_lookup_def user_exists_iff [OF wf] split: sum.splits)
qed

text \<open>A history of grant, update and revoke requests against one table.\<close>

definition user_repo_run :: "resource_class \<Rightarrow> db \<Rightarrow> (rkey, string) perm_op list \<Rightarrow>
    unit result list \<times> db" where
  "user_repo_run c =
     repo_run (\<lambda>db k n p. result_state (user_grant_permission c db k n p))
       (\<lambda>db k n p. result_state (user_update_permission c db k n p)) (user_revoke_permission c)"

section \<open>Renaming and wiping a resource\<close>

lemma set_resource_id_simps [simp]:
  "resource_id_of (set_resource_id a k) = a"
  "set_resource_id a (set_resource_id b k) = set_resource_id a k"
  "set_resource_id (resource_id_of k) k = k"
  by (cases k; simp)+

lemma set_resource_id_eq: "resource_id_of k = a \<Longrightarrow> set_resource_id a k = k"
  by auto

lemma user_rename_Inr:
  assumes "user_rename c db old new = Inr db'"
  obtains rows where "rows = set_rows (\<lambda>r. resource_id_of (up_key r) = old)
        (\<lambda>r. r\<lparr>up_key := set_resource_id new (up_key r)\<rparr>) (db_user_perms db c)"
    and "distinct (map up_unique rows)"
    and "db' = db\<lparr>db_user_perms := (db_user_perms db)(c := rows)\<rparr>"
  using assms by (auto simp: user_rename_def update_rows_Inr)

lemma user_rename_wf:
  assumes "db_wf db" and "user_rename c db old new = Inr db'"
  shows "db_wf db'"
  using assms(2)
proof (rule user_rename_Inr)
  fix rows
  assume rows: "rows = set_rows (\<lambda>r. resource_id_of (up_key r) = old)
      (\<lambda>r. r\<lparr>up_key := set_resource_id new (up_key r)\<rparr>) (db_user_perms db c)"
    and d: "distinct (map up_unique rows)"
    and db': "db' = db\<lparr>db_user_perms := (db_user_perms db)(c := rows)\<rparr>"
  have "map up_id rows = map up_id (db_user_perms db c)"
    unfolding rows by (rule set_rows_map_same) simp
  with d have "table_ok up_id up_unique rows"
    using db_wf_keys(4) [OF assms(1)] by (simp add: table_ok_def)
  then show ?thesis
    unfolding db' using db_wf_refs(3) [OF assms(1)]
    by (intro db_wf_set_user_perms assms) (auto simp: rows set_set_rows)
qed

lemma user_perm_at_rename:
  assumes "db_wf db" and "user_rename c db old new = Inr db'" and "old \<noteq> new"
  shows "user_perm_at c db' k i =
    (if resource_id_of k = old then None
     else if resource_id_of k = new
     then (case user_perm_at c db (set_resource_id old k) i of
             Some r \<Rightarrow> Some (r\<lparr>up_key := k\<rparr>) | None \<Rightarrow> user_perm_at c db k i)
     else user_perm_at c db k i)" (is "_ = ?rhs")
  using assms(2)
proof (rule user_rename_Inr)
  fix rows
  assume rows: "rows = set_rows (\<lambda>r. resource_id_of (up_key r) = old)
      (\<lambda>r. r\<lparr>up_key := set_resource_id new (up_key r)\<rparr>) (db_user_perms db c)"
    and d: "distinct (map up_unique rows)"
    and db': "db' = db\<lparr>db_user_perms := (db_user_perms db)(c := rows)\<rparr>"
  have at': "user_perm_at c db' k i = Some r \<longleftrightarrow> r \<in> set rows \<and> up_unique r = (k, i)" for r
    using d by (simp add: user_perm_at_def db' row_at_Some)
  have at: "user_perm_at c db k i = Some r \<longleftrightarrow> r \<in> set (db_user_perms db c) \<and> up_unique r = (k, i)"
    for r k i
    using table_okD(2) [OF db_wf_keys(4) [OF assms(1)]] by (simp add: user_perm_at_def row_at_Some)
  have mem: "r \<in> set rows \<longleftrightarrow>
      (r \<in> set (db_user_perms db c) \<and> resource_id_of (up_key r) \<noteq> old) \<or>
      (\<exists>q \<in> set (db_user_perms db c). resource_id_of (up_key q) = old \<and>
         r = q\<lparr>up_key := set_resource_id new (up_key q)\<rparr>)" for r
    unfolding rows by (auto simp: set_set_rows)
  consider (old) "resource_id_of k = old" | (new) "resource_id_of k = new" "resource_id_of k \<noteq> old"
    | (other) "resource_id_of k \<noteq> new" "resource_id_of k \<noteq> old" by blast
  then show ?thesis
  proof cases
    case old
    then have "user_perm_at c db' k i \<noteq> Some r" for r
      using assms(3) by (auto simp: at' mem up_unique_def)
    then have "user_perm_at c db' k i = None" by (cases "user_perm_at c db' k i") auto
    with old show ?thesis by simp
  next
    case other
    then have "user_perm_at c db' k i = Some r \<longleftrightarrow> user_perm_at c db k i = Some r" for r
      by (auto simp: at' at mem up_unique_def)
    then have "user_perm_at c db' k i = user_perm_at c db k i" by (rule option_eqI)
    with other show ?thesis by simp
  next
    case new
    show ?thesis
    proof (cases "user_perm_at c db (set_resource_id old k) i")
      case (Some q)
      then have q: "q \<in> set (db_user_perms db c)" "up_key q = set_resource_id old k" "up_user q = i"
        by (auto simp: at up_unique_def)
      have "user_perm_at c db' k i = Some (q\<lparr>up_key := k\<rparr>)"
        unfolding at' mem using q new by (auto simp: up_unique_def set_resource_id_eq intro!: bexI [of _ q])
      with Some new show ?thesis by simp
    next
      case None
      then have no: "\<not> (q \<in> set (db_user_perms db c) \<and> up_key q = set_resource_id old k \<and> up_user q = i)" for q
        using at [of "set_resource_id old k" i q] by (auto simp: up_unique_def)
      have moved: False
        if q: "q \<in> set (db_user_perms db c)" "resource_id_of (up_key q) = old"
          and u: "up_unique (q\<lparr>up_key := set_resource_id new (up_key q)\<rparr>) = (k, i)" for q
      proof -
        from u have k: "k = set_resource_id new (up_key q)" and "up_user q = i"
          by (simp_all add: up_unique_def)
        have "up_key q = set_resource_id old k"
          unfolding k using set_resource_id_eq [OF q(2)] by simp
        with no [of q] q(1) \<open>up_user q = i\<close> show False by simp
      qed
      have "user_perm_at c db' k i = Some r \<longleftrightarrow> user_perm_at c db k i = Some r" for r
      proof
        assume "user_perm_at c db' k i = Some r"
        then show "user_perm_at c db k i = Some r"
          unfolding at' at mem using moved by blast
      next
        assume "user_perm_at c db k i = Some r"
        then have "r \<in> set (db_user_perms db c)" "up_unique r = (k, i)" by (simp_all add: at)
        moreover from this have "resource_id_of (up_key r) \<noteq> old" using new by (simp add: up_unique_def)
        ultimately show "user_perm_at c db' k i = Some r" by (simp add: at' mem)
      qed
      then have "user_perm_at c db' k i = user_perm_at c db k i" by (rule option_eqI)
      with None new show ?thesis by simp
    qed
  qed
qed

lemma user_perm_lookup_rename:
  assumes "db_wf db" and "user_rename c db old new = Inr db'" and "old \<noteq> new"
  shows "user_perm_lookup c db' k n =
    (if resource_id_of k = old then None
     else if resource_id_of k = new
     then (case user_perm_lookup c db (set_resource_id old k) n of
             Some p \<Rightarrow> Some p | None \<Rightarrow> user_perm_lookup c db k n)
     else user_perm_lookup c db k n)"
proof -
  have "get_user db' n = get_user db n"
    using assms(2) by (rule user_rename_Inr) simp
  then show ?thesis
    by (auto simp: user_perm_lookup_def user_perm_at_rename [OF assms] split: sum.splits option.splits)
qed

lemma user_wipe_wf: "db_wf db \<Longrightarrow> db_wf (user_wipe c db rid)"
  unfolding user_wipe_def using db_wf_refs(3) [of db] db_wf_keys(4) [of db]
  by (intro db_wf_set_user_perms table_ok_delete) auto

lemma user_perm_lookup_wipe:
  assumes "db_wf db"
  shows "user_perm_lookup c (user_wipe c db rid) k n =
    (if resource_id_of k = rid then None else user_perm_lookup c db k n)"
proof -
  have "row_at up_unique (k, i) (delete_rows (\<lambda>r. resource_id_of (up_key r) = rid) rows) =
      (if resource_id_of k = rid then None else row_at up_unique (k, i) rows)" for i rows
    by (induction rows) (auto simp: row_at_def delete_rows_def up_unique_def)
  then show ?thesis
    by (simp add: user_perm_lookup_def user_perm_at_def user_wipe_def split: sum.split)
qed

section \<open>Properties\<close>

text \<open>C3: Any sequence of grants, updates and revocations on the user permissions of a resource
  class behaves as the abstract permission map: every request returns or raises exactly what
  the specification says, the permissions found afterwards are those of the specification run
  on the same requests, failing requests change nothing, and the database stays
  well-formed.\<close>

theorem user_permissions_refine_map:
  assumes "db_wf db"
  shows "case user_repo_run c db xs of (outcomes, db') \<Rightarrow>
    db_wf db' \<and> (outcomes, user_perm_lookup c db') =
      spec_run valid_permission (MlflowException RESOURCE_DOES_NOT_EXIST) (user_exists db)
        (user_perm_lookup c db) xs"
  unfolding user_repo_run_def using assms by (rule user_repo.run_refines)

theorem user_permissions_refine_map_witness:
  "case user_repo_run Experiment example_db
        [Grant (ResourceId ''11'') ''bob'' ''EDIT'', Grant (ResourceId ''11'') ''bob'' ''READ'',
         Update (ResourceId ''11'') ''bob'' ''MANAGE'', Revoke (ResourceId ''10'') ''alice'',
         Grant (ResourceId ''12'') ''carol'' ''READ''] of (outcomes, db') \<Rightarrow>
     outcomes = [Inr (), Inl (MlflowException RESOURCE_ALREADY_EXISTS), Inr (), Inr (),
       Inl (MlflowException RESOURCE_DOES_NOT_EXIST)] \<and>
     user_perm_lookup Experiment db' (ResourceId ''11'') ''bob'' = Some ''MANAGE''"
proof -
  let ?xs = "[Grant (ResourceId ''11'') ''bob'' ''EDIT'', Grant (ResourceId ''11'') ''bob'' ''READ'',
         Update (ResourceId ''11'') ''bob'' ''MANAGE'', Revoke (ResourceId ''10'') ''alice'',
         Grant (ResourceId ''12'') ''carol'' ''READ'']"
  have "user_perm_lookup Experiment example_db (ResourceId ''11'') ''bob'' = None"
    by (simp add: user_perm_lookup_def user_perm_at_def) (simp add: example_db_def row_at_def up_unique_def)
  moreover have "user_perm_lookup Experiment example_db (ResourceId ''10'') ''alice'' = Some ''READ''"
    by (simp add: user_perm_lookup_def user_perm_at_def) (simp add: example_db_def row_at_def up_unique_def)
  ultimately show ?thesis
    using user_permissions_refine_map [OF example_db_wf, of Experiment ?xs]
    by (auto simp: user_exists_def perm_upd_apply Let_def valid_permission_cases)
qed

text \<open>Renaming a resource moves its user permissions to the new name and leaves every other
  resource as it was; the new name keeps a permission it already had for a user who has none
  under the old name. Nothing is left under the old name.\<close>

theorem rename_moves_permissions:
  assumes "db_wf db" and "user_rename c db old new = Inr db'" and "old \<noteq> new"
  shows "db_wf db' \<and> user_perm_lookup c db' k n =
    (if resource_id_of k = old then None
     else if resource_id_of k = new
     then (case user_perm_lookup c db (set_resource_id old k) n of
             Some p \<Rightarrow> Some p | None \<Rightarrow> user_perm_lookup c db k n)
     else user_perm_lookup c db k n)"
  using user_rename_wf [OF assms(1,2)] user_perm_lookup_rename [OF assms] by simp

theorem rename_moves_permissions_witness:
  "\<exists>db'. user_rename Experiment example_db ''10'' ''99'' = Inr db' \<and>
     user_perm_lookup Experiment db' (ResourceId ''99'') ''alice'' = Some ''READ'' \<and>
     user_perm_lookup Experiment db' (ResourceId ''10'') ''alice'' = None"
proof -
  have "\<exists>db'. user_rename Experiment example_db ''10'' ''99'' = Inr db'"
    by (simp add: user_rename_def update_rows_def Let_def) (simp add: example_db_def)
  then obtain db' where r: "user_rename Experiment example_db ''10'' ''99'' = Inr db'" by blast
  have "user_perm_lookup Experiment example_db (ResourceId ''10'') ''alice'' = Some ''READ''"
    by (simp add: user_perm_lookup_def user_perm_at_def) (simp add: example_db_def row_at_def up_unique_def)
  with r rename_moves_permissions [OF example_db_wf r, of "ResourceId ''99''" "''alice''"]
    rename_moves_permissions [OF example_db_wf r, of "ResourceId ''10''" "''alice''"]
  show ?thesis by simp
qed

end
