(* ===== verification/Resolve.thy ===== *)
theory Resolve
  imports WorkspaceCache UserPermissionRepo
begin

text \<open>
  \<^verbatim>\<open>utils/permissions.py\<close>: the sources of each resource type, the loop that takes the first
  source that answers, the workspace fallback, and the cache around them. \<open>resolve_uncached\<close>
  is the answer on a cache miss; the main facts relate the cached answer to it.
\<close>

section \<open>Results and cache keys\<close>

record permission_result =
  pr_permission :: permission
  pr_kind :: string

definition make_cache_key :: "string \<Rightarrow> string \<Rightarrow> string \<Rightarrow> string" where
  "make_cache_key resource_type resource_id username =
     resource_type @ '':'' @ resource_id @ '':'' @ username"

definition invalidate_permission_cache :: "string \<Rightarrow> string \<Rightarrow> string \<Rightarrow>
    permission_result local_cache \<Rightarrow> permission_result local_cache" where
  "invalidate_permission_cache resource_type resource_id username cache =
     local_delete cache (make_cache_key resource_type resource_id username)"

definition flush_permission_cache ::
    "permission_result local_cache \<Rightarrow> permission_result local_cache" where
  "flush_permission_cache cache = local_clear cache"

definition EXPERIMENT :: string where "EXPERIMENT = ''experiment''"
definition REGISTERED_MODEL :: string where "REGISTERED_MODEL = ''registered_model''"
definition PROMPT :: string where "PROMPT = ''prompt''"
definition SCORER :: string where "SCORER = ''scorer''"
definition GATEWAY_ENDPOINT :: string where "GATEWAY_ENDPOINT = ''gateway_endpoint''"
definition GATEWAY_SECRET :: string where "GATEWAY_SECRET = ''gateway_secret''"
definition GATEWAY_MODEL_DEFINITION :: string where
  "GATEWAY_MODEL_DEFINITION = ''gateway_model_definition''"

lemmas resource_type_defs = EXPERIMENT_def REGISTERED_MODEL_def PROMPT_def SCORER_def
  GATEWAY_ENDPOINT_def GATEWAY_SECRET_def GATEWAY_MODEL_DEFINITION_def

section \<open>Matching patterns\<close>

fun match_regex_permission :: "outside \<Rightarrow> regex_entity list \<Rightarrow> string \<Rightarrow> string result" where
  "match_regex_permission env [] name = Inl (MlflowException RESOURCE_DOES_NOT_EXIST)"
| "match_regex_permission env (regex # regexes) name =
     bind_result (re_match env (re_regex regex) name) (\<lambda>matched.
     if matched then Inr (re_permission regex) else match_regex_permission env regexes name)"

definition get_experiment_permission_from_regex ::
    "outside \<Rightarrow> regex_entity list \<Rightarrow> string \<Rightarrow> string result" where
  "get_experiment_permission_from_regex env regexes experiment_id =
     bind_result (experiment_name env experiment_id) (\<lambda>name.
     match_regex_permission env regexes name)"

definition get_experiment_group_permission_from_regex ::
    "outside \<Rightarrow> regex_entity list \<Rightarrow> string \<Rightarrow> string result" where
  "get_experiment_group_permission_from_regex env regexes experiment_id =
     bind_result (experiment_name env experiment_id) (\<lambda>name.
     match_regex_permission env regexes name)"

section \<open>The builders\<close>

type_synonym sources_config = "(string \<times> string result) list"

definition permission_of :: "perm_entity result \<Rightarrow> string result" where
  "permission_of r = bind_result r (\<lambda>e. Inr (pe_permission e))"

definition build_experiment_sources :: "outside \<Rightarrow> db \<Rightarrow> string \<Rightarrow> string \<Rightarrow> sources_config" where
  "build_experiment_sources env db experiment_id user =
     [(''user'', permission_of (user_get_permission Experiment db (ResourceId experiment_id) user)),
      (''group'', permission_of
         (group_get_permission_for_user_resource Experiment db (ResourceId experiment_id) user)),
      (''regex'', bind_result (list_regex_for_user Experiment db user) (\<lambda>regexes.
         get_experiment_permission_from_regex env regexes experiment_id)),
      (''group-regex'', bind_result (list_group_ids_for_user db user) (\<lambda>gids.
         get_experiment_group_permission_from_regex env
           (group_regex_list_permissions_for_groups_ids Experiment db gids) experiment_id))]"

definition build_registered_model_sources ::
    "outside \<Rightarrow> db \<Rightarrow> string \<Rightarrow> string \<Rightarrow> sources_config" where
  "build_registered_model_sources env db model_name user =
     [(''user'', permission_of (user_get_permission RegisteredModel db (ResourceId model_name) user)),
      (''group'', permission_of (registered_model_get_for_user db model_name user)),
      (''regex'', bind_result (registered_model_list_regex_for_user db user False) (\<lambda>regexes.
         match_regex_permission env regexes model_name)),
      (''group-regex'', bind_result (list_group_ids_for_user db user) (\<lambda>gids.
         match_regex_permission env
           (registered_model_group_regex_list_permissions_for_groups_ids db gids False) model_name))]"

definition build_prompt_sources :: "outside \<Rightarrow> db \<Rightarrow> string \<Rightarrow> string \<Rightarrow> sources_config" where
  "build_prompt_sources env db model_name user =
     [(''user'', permission_of (user_get_permission RegisteredModel db (ResourceId model_name) user)),
      (''group'', permission_of (registered_model_get_for_user db model_name user)),
      (''regex'', bind_result (registered_model_list_regex_for_user db user True) (\<lambda>regexes.
         match_regex_permission env regexes model_name)),
      (''group-regex'', bind_result (list_group_ids_for_user db user) (\<lambda>gids.
         match_regex_permission env
           (registered_model_group_regex_list_permissions_for_groups_ids db gids True) model_name))]"

definition build_scorer_sources ::
    "outside \<Rightarrow> db \<Rightarrow> string \<Rightarrow> string \<Rightarrow> string \<Rightarrow> sources_config" where
  "build_scorer_sources env db experiment_id user scorer_name =
     [(''user'', permission_of (scorer_get_permission db experiment_id scorer_name user)),
      (''group'', permission_of
         (get_group_permission_for_user_scorer db experiment_id scorer_name user)),
      (''regex'', bind_result (list_regex_for_user Scorer db user) (\<lambda>regexes.
         match_regex_permission env regexes scorer_name)),
      (''group-regex'', bind_result (list_group_ids_for_user db user) (\<lambda>gids.
         match_regex_permission env
           (group_regex_list_permissions_for_groups_ids Scorer db gids) scorer_name))]"

text \<open>
  The three gateway builders are alike. The group source passes the user name where the
  repository takes a group name.
\<close>

definition gateway_sources ::
    "resource_class \<Rightarrow> outside \<Rightarrow> db \<Rightarrow> string \<Rightarrow> string \<Rightarrow> sources_config" where
  "gateway_sources c env db gateway_name user =
     [(''user'', permission_of (user_get_permission c db (ResourceId gateway_name) user)),
      (''group'', permission_of (gateway_get_group_permission_for_user c db gateway_name user)),
      (''regex'', bind_result (list_regex_for_user c db user) (\<lambda>regexes.
         match_regex_permission env regexes gateway_name)),
      (''group-regex'', bind_result (list_group_ids_for_user db user) (\<lambda>gids.
         match_regex_permission env
           (group_regex_list_permissions_for_groups_ids c db gids) gateway_name))]"

definition build_gateway_endpoint_sources :: "outside \<Rightarrow> db \<Rightarrow> string \<Rightarrow> string \<Rightarrow> sources_config" where
  "build_gateway_endpoint_sources = gateway_sources GatewayEndpoint"

definition build_gateway_secret_sources :: "outside \<Rightarrow> db \<Rightarrow> string \<Rightarrow> string \<Rightarrow> sources_config" where
  "build_gateway_secret_sources = gateway_sources GatewaySecret"

definition build_gateway_model_definition_sources ::
    "outside \<Rightarrow> db \<Rightarrow> string \<Rightarrow> string \<Rightarrow> sources_config" where
  "build_gateway_model_definition_sources = gateway_sources GatewayModelDefinition"

text \<open>The keyword argument \<^verbatim>\<open>scorer_name\<close>, which only the scorer builder reads.\<close>

type_synonym builder = "outside \<Rightarrow> db \<Rightarrow> string \<Rightarrow> string \<Rightarrow> string option \<Rightarrow> sources_config result"

definition PERMISSION_REGISTRY :: "(string \<times> builder) list" where
  "PERMISSION_REGISTRY =
     [(EXPERIMENT, \<lambda>env db i u kw. Inr (build_experiment_sources env db i u)),
      (REGISTERED_MODEL, \<lambda>env db i u kw. Inr (build_registered_model_sources env db i u)),
      (PROMPT, \<lambda>env db i u kw. Inr (build_prompt_sources env db i u)),
      (SCORER, \<lambda>env db i u kw.
         (case kw of None \<Rightarrow> Inl KeyError | Some s \<Rightarrow> Inr (build_scorer_sources env db i u s))),
      (GATEWAY_ENDPOINT, \<lambda>env db i u kw. Inr (build_gateway_endpoint_sources env db i u)),
      (GATEWAY_SECRET, \<lambda>env db i u kw. Inr (build_gateway_secret_sources env db i u)),
      (GATEWAY_MODEL_DEFINITION,
         \<lambda>env db i u kw. Inr (build_gateway_model_definition_sources env db i u))]"

section \<open>The source loop\<close>

fun source_loop :: "string \<Rightarrow> sources_config \<Rightarrow> string list \<Rightarrow> permission_result result" where
  "source_loop dflt cfg [] =
     bind_result (get_permission dflt) (\<lambda>p.
     Inr \<lparr>pr_permission = p, pr_kind = ''fallback''\<rparr>)"
| "source_loop dflt cfg (source_name # order) =
     (case map_of cfg source_name of
        None \<Rightarrow> source_loop dflt cfg order
      | Some perm_func \<Rightarrow>
          (case bind_result perm_func (\<lambda>perm. bind_result (get_permission perm) (\<lambda>p.
                  Inr \<lparr>pr_permission = p, pr_kind = source_name\<rparr>)) of
             Inl (MlflowException RESOURCE_DOES_NOT_EXIST) \<Rightarrow> source_loop dflt cfg order
           | r \<Rightarrow> r))"

definition get_permission_from_store_or_default ::
    "auth_config \<Rightarrow> sources_config \<Rightarrow> permission_result result" where
  "get_permission_from_store_or_default config cfg =
     source_loop (DEFAULT_MLFLOW_PERMISSION config) cfg (PERMISSION_SOURCE_ORDER config)"

section \<open>Resolution\<close>

record auth_caches =
  permission_cache :: "permission_result local_cache"
  workspace_cache :: "permission local_cache"

text \<open>\<open>workspace\<close> is the workspace of the request, if it names one.\<close>

definition resolve_permission :: "auth_config \<Rightarrow> outside \<Rightarrow> db \<Rightarrow> string option \<Rightarrow> string \<Rightarrow> string \<Rightarrow>
    string \<Rightarrow> string option \<Rightarrow> auth_caches \<Rightarrow> permission_result result \<times> auth_caches" where
  "resolve_permission config env db workspace resource_type resource_id username kwargs caches =
     (let cache_key = make_cache_key resource_type resource_id username
      in case local_get (permission_cache caches) cache_key of
           Some cached \<Rightarrow> (Inr cached, caches)
         | None \<Rightarrow>
             (case map_of PERMISSION_REGISTRY resource_type of
                None \<Rightarrow> (Inl KeyError, caches)
              | Some builder \<Rightarrow>
                  (case bind_result (builder env db resource_id username kwargs)
                          (get_permission_from_store_or_default config) of
                     Inl e \<Rightarrow> (Inl e, caches)
                   | Inr result \<Rightarrow>
                       (let (result, caches) =
                          (if pr_kind result = ''fallback'' \<and> MLFLOW_ENABLE_WORKSPACES config
                           then (case workspace of
                                   None \<Rightarrow> (result, caches)
                                 | Some w \<Rightarrow>
                                     if w = '''' then (result, caches)
                                     else
                                       let (ws_perm, wc) = get_workspace_permission_cached config env db
                                             username w (workspace_cache caches);
                                           caches = caches\<lparr>workspace_cache := wc\<rparr>
                                       in (case ws_perm of
                                             Some p \<Rightarrow>
                                               (\<lparr>pr_permission = p, pr_kind = ''workspace''\<rparr>, caches)
                                           | None \<Rightarrow>
                                               (\<lparr>pr_permission = NO_PERMISSIONS,
                                                 pr_kind = ''workspace-deny''\<rparr>, caches)))
                           else (result, caches))
                        in (Inr result,
                            caches\<lparr>permission_cache :=
                              local_set (permission_cache caches) cache_key result\<rparr>)))))"

text \<open>The public functions: one resource type each, and one capability of its answer.\<close>

definition effective_experiment_permission where
  "effective_experiment_permission config env db ws experiment_id user =
     resolve_permission config env db ws EXPERIMENT experiment_id user None"

definition effective_registered_model_permission where
  "effective_registered_model_permission config env db ws model_name user =
     resolve_permission config env db ws REGISTERED_MODEL model_name user None"

definition effective_prompt_permission where
  "effective_prompt_permission config env db ws prompt_name user =
     resolve_permission config env db ws PROMPT prompt_name user None"

definition effective_scorer_permission where
  "effective_scorer_permission config env db ws experiment_id scorer_name user =
     resolve_permission config env db ws SCORER experiment_id user (Some scorer_name)"

definition effective_gateway_endpoint_permission where
  "effective_gateway_endpoint_permission config env db ws gateway_name user =
     resolve_permission config env db ws GATEWAY_ENDPOINT gateway_name user None"

definition effective_gateway_secret_permission where
  "effective_gateway_secret_permission config env db ws gateway_name user =
     resolve_permission config env db ws GATEWAY_SECRET gateway_name user None"

definition effective_gateway_model_definition_permission where
  "effective_gateway_model_definition_permission config env db ws gateway_name user =
     resolve_permission config env db ws GATEWAY_MODEL_DEFINITION gateway_name user None"

definition capability :: "(permission \<Rightarrow> bool) \<Rightarrow>
    (auth_caches \<Rightarrow> permission_result result \<times> auth_caches) \<Rightarrow> (bool, auth_caches) action" where
  "capability can resolve caches =
     (case resolve caches of
        (Inl e, caches') \<Rightarrow> (Inl e, caches')
      | (Inr r, caches') \<Rightarrow> (Inr (can (pr_permission r)), caches'))"

definition can_read_experiment where
  "can_read_experiment config env db ws experiment_id user =
     capability can_read (effective_experiment_permission config env db ws experiment_id user)"

definition can_read_registered_model where
  "can_read_registered_model config env db ws model_name user =
     capability can_read (effective_registered_model_permission config env db ws model_name user)"

definition can_manage_experiment where
  "can_manage_experiment config env db ws experiment_id user =
     capability can_manage (effective_experiment_permission config env db ws experiment_id user)"

definition can_manage_registered_model where
  "can_manage_registered_model config env db ws model_name user =
     capability can_manage (effective_registered_model_permission config env db ws model_name user)"

definition can_manage_scorer where
  "can_manage_scorer config env db ws experiment_id scorer_name user =
     capability can_manage
       (effective_scorer_permission config env db ws experiment_id scorer_name user)"

definition can_read_gateway_endpoint where
  "can_read_gateway_endpoint config env db ws gateway_name user =
     capability can_read (effective_gateway_endpoint_permission config env db ws gateway_name user)"

definition can_use_gateway_endpoint where
  "can_use_gateway_endpoint config env db ws gateway_name user =
     capability can_use (effective_gateway_endpoint_permission config env db ws gateway_name user)"

definition can_update_gateway_endpoint where
  "can_update_gateway_endpoint config env db ws gateway_name user =
     capability can_update (effective_gateway_endpoint_permission config env db ws gateway_name user)"

definition can_manage_gateway_endpoint where
  "can_manage_gateway_endpoint config env db ws gateway_name user =
     capability can_manage (effective_gateway_endpoint_permission config env db ws gateway_name user)"


definition can_read_gateway_secret where
  "can_read_gateway_secret config env db ws gateway_name user =
     capability can_read
       (effective_gateway_secret_permission config env db ws gateway_name user)"

definition can_use_gateway_secret where
  "can_use_gateway_secret config env db ws gateway_name user =
     capability can_use
       (effective_gateway_secret_permission config env db ws gateway_name user)"

definition can_update_gateway_secret where
  "can_update_gateway_secret config env db ws gateway_name user =
     capability can_update
       (effective_gateway_secret_permission config env db ws gateway_name user)"

definition can_manage_gateway_secret where
  "can_manage_gateway_secret config env db ws gateway_name user =
     capability can_manage
       (effective_gateway_secret_permission config env db ws gateway_name user)"

definition can_read_gateway_model_definition where
  "can_read_gateway_model_definition config env db ws gateway_name user =
     capability can_read
       (effective_gateway_model_definition_permission config env db ws gateway_name user)"

definition can_use_gateway_model_definition where
  "can_use_gateway_model_definition config env db ws gateway_name user =
     capability can_use
       (effective_gateway_model_definition_permission config env db ws gateway_name user)"

definition can_update_gateway_model_definition where
  "can_update_gateway_model_definition config env db ws gateway_name user =
     capability can_update
       (effective_gateway_model_definition_permission config env db ws gateway_name user)"

definition can_manage_gateway_model_definition where
  "can_manage_gateway_model_definition config env db ws gateway_name user =
     capability can_manage
       (effective_gateway_model_definition_permission config env db ws gateway_name user)"

section \<open>The answer without caches\<close>

definition resolve_fresh :: "auth_config \<Rightarrow> outside \<Rightarrow> db \<Rightarrow> string option \<Rightarrow> string \<Rightarrow> string \<Rightarrow>
    string \<Rightarrow> string option \<Rightarrow> permission_result result" where
  "resolve_fresh config env db workspace resource_type resource_id username kwargs =
     (case map_of PERMISSION_REGISTRY resource_type of
        None \<Rightarrow> Inl KeyError
      | Some builder \<Rightarrow>
          bind_result (builder env db resource_id username kwargs) (\<lambda>cfg.
          bind_result (get_permission_from_store_or_default config cfg) (\<lambda>result.
          if pr_kind result = ''fallback'' \<and> MLFLOW_ENABLE_WORKSPACES config \<and>
             workspace \<noteq> None \<and> workspace \<noteq> Some ''''
          then (case lookup_workspace_permission config env db username (the workspace) of
                  Some p \<Rightarrow> Inr \<lparr>pr_permission = p, pr_kind = ''workspace''\<rparr>
                | None \<Rightarrow> Inr \<lparr>pr_permission = NO_PERMISSIONS, pr_kind = ''workspace-deny''\<rparr>)
          else Inr result)))"

section \<open>The first source that answers wins\<close>

text \<open>A source answers unless it is unknown or says that it has no record.\<close>

definition answers :: "sources_config \<Rightarrow> string \<Rightarrow> bool" where
  "answers cfg n \<longleftrightarrow>
     (case map_of cfg n of None \<Rightarrow> False | Some r \<Rightarrow> r \<noteq> Inl (MlflowException RESOURCE_DOES_NOT_EXIST))"

definition source_answer :: "sources_config \<Rightarrow> string \<Rightarrow> permission_result result" where
  "source_answer cfg n =
     bind_result (the (map_of cfg n)) (\<lambda>perm. bind_result (get_permission perm) (\<lambda>p.
       Inr \<lparr>pr_permission = p, pr_kind = n\<rparr>))"

lemma get_permission_not_rdne: "get_permission s \<noteq> Inl (MlflowException c)"
  by (auto simp: get_permission_def split: option.split)

lemma source_answer_rdne:
  assumes "map_of cfg n = Some r"
  shows "source_answer cfg n = Inl (MlflowException RESOURCE_DOES_NOT_EXIST) \<longleftrightarrow> \<not> answers cfg n"
  using assms by (auto simp: source_answer_def answers_def bind_result_eq_Inl get_permission_not_rdne)

lemma source_loop_first:
  "source_loop dflt cfg order =
   (case filter (answers cfg) order of
      [] \<Rightarrow> bind_result (get_permission dflt) (\<lambda>p. Inr \<lparr>pr_permission = p, pr_kind = ''fallback''\<rparr>)
    | n # _ \<Rightarrow> source_answer cfg n)"
proof (induction order)
  case Nil
  then show ?case by simp
next
  case (Cons n order)
  show ?case
  proof (cases "map_of cfg n")
    case None
    with Cons show ?thesis by (simp add: answers_def)
  next
    case (Some r)
    have step: "source_loop dflt cfg (n # order) =
        (case source_answer cfg n of
           Inl (MlflowException RESOURCE_DOES_NOT_EXIST) \<Rightarrow> source_loop dflt cfg order | r \<Rightarrow> r)"
      by (simp add: Some source_answer_def)
    show ?thesis
    proof (cases "answers cfg n")
      case True
      with source_answer_rdne [OF Some]
      have "source_answer cfg n \<noteq> Inl (MlflowException RESOURCE_DOES_NOT_EXIST)" by simp
      then have "source_loop dflt cfg (n # order) = source_answer cfg n"
        unfolding step by (auto split: sum.split exn.split error_code.split)
      with True show ?thesis by simp
    next
      case False
      with source_answer_rdne [OF Some]
      have "source_answer cfg n = Inl (MlflowException RESOURCE_DOES_NOT_EXIST)" by simp
      then have "source_loop dflt cfg (n # order) = source_loop dflt cfg order"
        unfolding step by simp
      with False Cons show ?thesis by simp
    qed
  qed
qed

section \<open>The first matching pattern\<close>

lemma match_regex_permission_first:
  assumes "\<And>r. r \<in> set rs \<Longrightarrow> \<exists>b. re_match env (re_regex r) name = Inr b"
  shows "match_regex_permission env rs name =
    (case matching env name rs of
       [] \<Rightarrow> Inl (MlflowException RESOURCE_DOES_NOT_EXIST) | r # _ \<Rightarrow> Inr (re_permission r))"
  using assms
proof (induction rs)
  case Nil
  then show ?case by (simp add: matching_def)
next
  case (Cons r rs)
  obtain b where b: "re_match env (re_regex r) name = Inr b" using Cons.prems [of r] by auto
  have IH: "match_regex_permission env rs name =
    (case matching env name rs of
       [] \<Rightarrow> Inl (MlflowException RESOURCE_DOES_NOT_EXIST) | r # _ \<Rightarrow> Inr (re_permission r))"
    using Cons.prems by (intro Cons.IH) simp
  show ?case using b IH by (cases b) (simp_all add: matching_def)
qed

lemma match_regex_permission_lowest:
  assumes "\<And>r. r \<in> set rs \<Longrightarrow> \<exists>b. re_match env (re_regex r) name = Inr b"
    and "sorted (map re_priority rs)" and "match_regex_permission env rs name = Inr p"
  shows "\<exists>r \<in> set (lowest (matching env name rs)). p = re_permission r"
proof -
  from assms(3) obtain r qs where m: "matching env name rs = r # qs" and p: "p = re_permission r"
    by (auto simp: match_regex_permission_first [OF assms(1)] split: list.splits)
  have "sorted (map re_priority (r # qs))"
    unfolding m [symmetric] matching_def by (rule sorted_filter [OF assms(2)])
  then have "r \<in> set (lowest (matching env name rs))" by (auto simp: lowest_def m)
  with p show ?thesis by blast
qed

text \<open>One pattern that does not compile, ahead of every match, makes the whole source raise.\<close>

lemma match_regex_permission_raises:
  assumes "\<And>q. q \<in> set qs \<Longrightarrow> re_match env (re_regex q) name = Inr False"
    and "re_match env (re_regex r) name = Inl e"
  shows "match_regex_permission env (qs @ r # rs) name = Inl e"
  using assms by (induction qs) simp_all

section \<open>Group permissions on gateway resources\<close>

lemma gateway_group_source:
  assumes "db_wf db"
  shows "map_of (gateway_sources c env db i user) ''group'' =
    Some (case group_perm_lookup c db (ResourceId i) user of
            None \<Rightarrow> Inl (MlflowException RESOURCE_DOES_NOT_EXIST) | Some p \<Rightarrow> Inr p)"
  using gateway_get_group_permission_for_user_eq [OF assms, of c i user]
  by (simp add: gateway_sources_def permission_of_def)

section \<open>Cached resolution\<close>

lemma resolve_permission_hit:
  "local_get (permission_cache caches) (make_cache_key t i u) = Some r \<Longrightarrow>
   resolve_permission config env db w t i u kw caches = (Inr r, caches)"
  by (simp add: resolve_permission_def)

lemma resolve_permission_stores:
  assumes "resolve_permission config env db w t i u kw caches = (Inr r, caches')"
  shows "local_get (permission_cache caches') (make_cache_key t i u) = Some r"
  using assms
  by (auto simp: resolve_permission_def Let_def local_get_set_same
        split: option.splits sum.splits if_splits prod.splits)

section \<open>Properties\<close>

text \<open>C1: Sources are consulted in the configured order. The answer is the permission of the
  first source that is known and does not report a missing record (an error of that source
  included), tagged with the source's name; when no source answers it is the default
  permission, tagged as fallback.\<close>

theorem resolution_source_order:
  "get_permission_from_store_or_default config cfg =
   (case filter (answers cfg) (PERMISSION_SOURCE_ORDER config) of
      [] \<Rightarrow> bind_result (get_permission (DEFAULT_MLFLOW_PERMISSION config))
              (\<lambda>p. Inr \<lparr>pr_permission = p, pr_kind = ''fallback''\<rparr>)
    | n # _ \<Rightarrow> source_answer cfg n)"
  unfolding get_permission_from_store_or_default_def by (rule source_loop_first)

text \<open>When the user source is consulted first, a permission granted to the user on an
  experiment decides, whatever groups, patterns or workspace would say.\<close>

theorem direct_grant_decides:
  assumes "db_wf db" and "PERMISSION_SOURCE_ORDER config = ''user'' # order"
    and "user_perm_lookup Experiment db (ResourceId i) u = Some s" and "get_permission s = Inr p"
  shows "resolve_fresh config env db w EXPERIMENT i u kw =
    Inr \<lparr>pr_permission = p, pr_kind = ''user''\<rparr>"
proof -
  have "permission_of (user_get_permission Experiment db (ResourceId i) u) = Inr s"
    unfolding permission_of_def using user_perm_lookup_get [OF assms(1), of Experiment "ResourceId i" u] assms(3) by simp
  then have "get_permission_from_store_or_default config (build_experiment_sources env db i u) =
      Inr \<lparr>pr_permission = p, pr_kind = ''user''\<rparr>"
    by (simp add: get_permission_from_store_or_default_def assms(2,4) build_experiment_sources_def)
  then show ?thesis by (simp add: resolve_fresh_def PERMISSION_REGISTRY_def)
qed

theorem direct_grant_decides_witness:
  "resolve_fresh default_config example_outside example_db None EXPERIMENT ''10'' ''alice'' None =
   Inr \<lparr>pr_permission = READ, pr_kind = ''user''\<rparr>"
proof (rule direct_grant_decides [where s = "''READ''"])
  show "PERMISSION_SOURCE_ORDER default_config = ''user'' # [''group'', ''regex'', ''group-regex'']"
    by (simp add: default_config_def)
  show "user_perm_lookup Experiment example_db (ResourceId ''10'') ''alice'' = Some ''READ''"
    by (simp add: user_perm_lookup_def user_perm_at_def) (simp add: example_db_def row_at_def up_unique_def)
qed (simp_all add: example_db_wf)

text \<open>A group permission on a gateway resource is looked up under the user's own name as
  the name of a group. When no group has that name, the group source has no record for the
  user, whatever the groups the user belongs to were granted.\<close>

theorem gateway_group_source_ignores_membership:
  assumes "db_wf db" and "\<not> group_exists db u"
  shows "\<not> answers (gateway_sources c env db i u) ''group''"
proof -
  have "group_perm_lookup c db (ResourceId i) u = None"
  proof (cases "get_group db u")
    case (Inl e)
    then show ?thesis by (simp add: group_perm_lookup_def)
  next
    case (Inr g)
    with assms show ?thesis by (auto simp: group_exists_iff)
  qed
  then show ?thesis
    by (simp add: answers_def gateway_group_source [OF assms(1)])
qed

text \<open>Alice is in the group devs, which may use the endpoint.\<close>

theorem gateway_group_source_ignores_membership_witness:
  "member_of example_db ''alice'' ''devs'' \<and>
   group_perm_lookup GatewayEndpoint example_db (ResourceId ''ep'') ''devs'' = Some ''USE'' \<and>
   \<not> answers (gateway_sources GatewayEndpoint example_outside example_db ''ep'' ''alice'') ''group''"
proof (intro conjI)
  show "member_of example_db ''alice'' ''devs''" by (simp add: member_of_def ug_unique_def)
  show "group_perm_lookup GatewayEndpoint example_db (ResourceId ''ep'') ''devs'' = Some ''USE''"
    by (simp add: group_perm_lookup_def group_perm_at_def) (simp add: example_db_def row_at_def gp_unique_def)
  show "\<not> answers (gateway_sources GatewayEndpoint example_outside example_db ''ep'' ''alice'') ''group''"
    by (rule gateway_group_source_ignores_membership [OF example_db_wf]) (simp add: group_exists_def)
qed

text \<open>With a list in order of priority whose patterns all compile, the permission found is
  that of a matching pattern of the smallest priority number; without a matching pattern the
  source has no record.\<close>

theorem regex_source_lowest_priority:
  assumes "\<And>r. r \<in> set rs \<Longrightarrow> \<exists>b. re_match env (re_regex r) name = Inr b"
    and "sorted (map re_priority rs)"
  shows "(\<exists>r \<in> set (lowest (matching env name rs)). match_regex_permission env rs name = Inr (re_permission r)) \<or>
    matching env name rs = [] \<and>
      match_regex_permission env rs name = Inl (MlflowException RESOURCE_DOES_NOT_EXIST)"
proof (cases "matching env name rs")
  case Nil
  then show ?thesis by (simp add: match_regex_permission_first [OF assms(1)])
next
  case (Cons r qs)
  then have "match_regex_permission env rs name = Inr (re_permission r)"
    by (simp add: match_regex_permission_first [OF assms(1)])
  with match_regex_permission_lowest [OF assms(1,2) this] show ?thesis by auto
qed

theorem regex_source_lowest_priority_witness:
  "\<exists>rs. list_regex_for_user Experiment example_db ''alice'' = Inr rs \<and>
     match_regex_permission example_outside rs ''ab'' = Inr ''USE''"
proof -
  define rs where "rs = map regex_perm_entity
    (sort_key rp_priority (filter (\<lambda>r. rp_user r = 1) (db_regex_perms example_db Experiment)))"
  have rs: "rs = [\<lparr>re_id = 2, re_regex = ''a'', re_priority = 1, re_permission = ''USE'',
      re_user_id = Some 1, re_group_id = None, re_prompt = False\<rparr>,
     \<lparr>re_id = 1, re_regex = ''b'', re_priority = 2, re_permission = ''EDIT'',
      re_user_id = Some 1, re_group_id = None, re_prompt = False\<rparr>]"
    by (simp add: rs_def example_db_def)
  have "match_regex_permission example_outside rs ''ab'' = Inr ''USE''"
    using regex_source_lowest_priority [of rs example_outside "''ab''"]
    by (auto simp: rs example_outside_def matching_def lowest_def)
  moreover have "list_regex_for_user Experiment example_db ''alice'' = Inr rs"
    by (simp add: list_regex_for_user_def rs_def)
  ultimately show ?thesis by blast
qed

text \<open>When no source has a record, workspaces are enabled and the request names a workspace,
  the default permission is never given: the answer is the user's workspace permission, or
  no permissions when there is none.\<close>

theorem workspace_fallback:
  assumes "map_of PERMISSION_REGISTRY t = Some b" and "b env db i u kw = Inr cfg"
    and "filter (answers cfg) (PERMISSION_SOURCE_ORDER config) = []"
    and "valid_permission (DEFAULT_MLFLOW_PERMISSION config)"
    and "MLFLOW_ENABLE_WORKSPACES config" and "v \<noteq> ''''"
  shows "resolve_fresh config env db (Some v) t i u kw =
    Inr (case lookup_workspace_permission config env db u v of
           Some p \<Rightarrow> \<lparr>pr_permission = p, pr_kind = ''workspace''\<rparr>
         | None \<Rightarrow> \<lparr>pr_permission = NO_PERMISSIONS, pr_kind = ''workspace-deny''\<rparr>)"
proof -
  from assms(4) obtain p where "get_permission (DEFAULT_MLFLOW_PERMISSION config) = Inr p"
    by (auto simp: get_permission_valid_iff)
  then have "get_permission_from_store_or_default config cfg =
      Inr \<lparr>pr_permission = p, pr_kind = ''fallback''\<rparr>"
    by (simp add: get_permission_from_store_or_default_def source_loop_first assms(3))
  with assms show ?thesis by (simp add: resolve_fresh_def split: option.split)
qed

text \<open>Bob has no record for the prompt and no permission in the workspace.\<close>

theorem workspace_fallback_witness:
  "resolve_fresh (default_config\<lparr>MLFLOW_ENABLE_WORKSPACES := True\<rparr>) example_outside example_db
     (Some ''w1'') PROMPT ''p'' ''bob'' None =
   Inr \<lparr>pr_permission = NO_PERMISSIONS, pr_kind = ''workspace-deny''\<rparr>"
proof -
  let ?config = "default_config\<lparr>MLFLOW_ENABLE_WORKSPACES := True\<rparr>"
  let ?cfg = "build_prompt_sources example_outside example_db ''p'' ''bob''"
  have "user_get_permission RegisteredModel example_db (ResourceId ''p'') ''bob'' =
      Inl (MlflowException RESOURCE_DOES_NOT_EXIST)"
    by (simp add: user_get_permission_def user_get_permission_row_eq [OF example_db_wf] user_perm_at_def)
       (simp add: example_db_def)
  moreover have "registered_model_get_for_user example_db ''p'' ''bob'' =
      Inl (MlflowException RESOURCE_DOES_NOT_EXIST)"
    by (simp add: registered_model_get_for_user_def list_groups_for_user_def list_user_groups_def)
  moreover have "registered_model_list_regex_for_user example_db ''bob'' True = Inr []"
    by (simp add: registered_model_list_regex_for_user_def) (simp add: example_db_def)
  moreover have "list_group_ids_for_user example_db ''bob'' = Inr []"
    by (simp add: list_group_ids_for_user_def list_user_groups_def)
  moreover have "registered_model_group_regex_list_permissions_for_groups_ids example_db [] True = []"
    by (simp add: registered_model_group_regex_list_permissions_for_groups_ids_def
          registered_model_group_regex_rows_def)
  ultimately have cfg: "filter (answers ?cfg) (PERMISSION_SOURCE_ORDER ?config) = []"
    by (simp add: build_prompt_sources_def answers_def permission_of_def default_config_def)
  have "lookup_workspace_permission ?config example_outside example_db ''bob'' ''w1'' = None"
    by (simp add: lookup_workspace_permission_def default_config_def resolve_user_direct_def
          resolve_group_direct_def resolve_user_regex_def resolve_group_regex_def or_none_def
          get_workspace_permission_def ws_get_eq [OF example_db_wf] get_user_groups_workspace_permission_def
          get_highest_for_user_def wsg_rows_for_user_def list_regex_for_user_def
          list_group_ids_for_user_def list_user_groups_def)
       (simp add: example_db_def row_at_def wp_unique_def)
  with workspace_fallback [OF _ _ cfg, of PROMPT "\<lambda>env db i u kw. Inr (build_prompt_sources env db i u)"
      example_outside example_db "''p''" "''bob''" None "''w1''"]
  show ?thesis by (simp add: PERMISSION_REGISTRY_def resource_type_defs default_config_def)
qed

end
