(* ===== verification/ResolutionCache.thy ===== *)
theory ResolutionCache
  imports Resolve
begin

text \<open>
  What the caches around \<^verbatim>\<open>resolve_permission\<close> may hold. The key of a permission entry is
  resource type, resource id and user name; the answer also depends on the scorer name and
  on the workspace of the request. For a single workspace and the types other than scorers
  the cached answer is the fresh one; the counterpart for scorers and for several workspaces
  is that one answer is given to all.
\<close>

section \<open>Keys\<close>

definition colon_free :: "string \<Rightarrow> bool" where
  "colon_free s \<longleftrightarrow> CHR '':'' \<notin> set s"

definition resource_types :: "string list" where
  "resource_types = map fst PERMISSION_REGISTRY"

lemma resource_types_colon_free: "t \<in> set resource_types \<Longrightarrow> colon_free t"
  by (auto simp: resource_types_def PERMISSION_REGISTRY_def colon_free_def resource_type_defs)

lemma append_last_sep_inj:
  assumes "x \<notin> set b" and "x \<notin> set d" and "a @ x # b = c @ x # d"
  shows "a = c \<and> b = d"
proof -
  from assms(3) have "rev (a @ x # b) = rev (c @ x # d)" by simp
  then have "rev b @ x # rev a = rev d @ x # rev c" by simp
  then have "rev b = rev d \<and> rev a = rev c"
    using append_sep_inj [of x "rev b" "rev d" "rev a" "rev c"] assms(1,2) by simp
  then show ?thesis by simp
qed

lemma make_cache_key_inj:
  assumes "colon_free t" and "colon_free t'" and "colon_free u" and "colon_free u'"
    and "make_cache_key t i u = make_cache_key t' i' u'"
  shows "t = t' \<and> i = i' \<and> u = u'"
proof -
  have "t = t' \<and> i @ '':'' @ u = i' @ '':'' @ u'"
    using append_sep_inj [of "CHR '':''" t t' "i @ '':'' @ u" "i' @ '':'' @ u'"] assms
    by (simp add: colon_free_def make_cache_key_def)
  then show ?thesis
    using append_last_sep_inj [of "CHR '':''" u u' i i'] assms(3,4) by (simp add: colon_free_def)
qed

section \<open>Exact caches\<close>

definition exact_caches ::
    "auth_config \<Rightarrow> outside \<Rightarrow> db \<Rightarrow> string option \<Rightarrow> auth_caches \<Rightarrow> bool" where
  "exact_caches config env db w caches \<longleftrightarrow>
     (\<forall>n v p. colon_free n \<longrightarrow> local_get (workspace_cache caches) (ws_cache_key n v) = Some p \<longrightarrow>
        lookup_workspace_permission config env db n v = Some p) \<and>
     (\<forall>t i u r. t \<in> set resource_types \<longrightarrow> t \<noteq> SCORER \<longrightarrow> colon_free u \<longrightarrow>
        local_get (permission_cache caches) (make_cache_key t i u) = Some r \<longrightarrow>
        resolve_fresh config env db w t i u None = Inr r)"

definition empty_caches :: auth_caches where
  "empty_caches = \<lparr>permission_cache = (\<lambda>_. None), workspace_cache = (\<lambda>_. None)\<rparr>"

lemma exact_empty: "exact_caches config env db w empty_caches"
  by (simp add: exact_caches_def empty_caches_def local_get_def)

lemma exact_cachesD:
  assumes "exact_caches config env db w caches"
  shows "colon_free n \<Longrightarrow> local_get (workspace_cache caches) (ws_cache_key n v) = Some p \<Longrightarrow>
      lookup_workspace_permission config env db n v = Some p"
    and "t \<in> set resource_types \<Longrightarrow> t \<noteq> SCORER \<Longrightarrow> colon_free u \<Longrightarrow>
      local_get (permission_cache caches) (make_cache_key t i u) = Some r \<Longrightarrow>
      resolve_fresh config env db w t i u None = Inr r"
  using assms by (auto simp: exact_caches_def)

lemma exact_cachesI:
  assumes "\<And>n v p. colon_free n \<Longrightarrow> local_get (workspace_cache caches) (ws_cache_key n v) = Some p \<Longrightarrow>
      lookup_workspace_permission config env db n v = Some p"
    and "\<And>t i u r. t \<in> set resource_types \<Longrightarrow> t \<noteq> SCORER \<Longrightarrow> colon_free u \<Longrightarrow>
      local_get (permission_cache caches) (make_cache_key t i u) = Some r \<Longrightarrow>
      resolve_fresh config env db w t i u None = Inr r"
  shows "exact_caches config env db w caches"
  using assms by (simp add: exact_caches_def)

text \<open>Losing entries, deleting them and flushing keep the caches exact.\<close>

lemma exact_drop:
  "exact_caches config env db w caches \<Longrightarrow>
   exact_caches config env db w
     (caches\<lparr>permission_cache := local_drop f (permission_cache caches),
             workspace_cache := local_drop g (workspace_cache caches)\<rparr>)"
  by (auto simp: exact_caches_def local_cache_defs)

lemma exact_invalidate:
  "exact_caches config env db w caches \<Longrightarrow>
   exact_caches config env db w
     (caches\<lparr>permission_cache := invalidate_permission_cache t i u (permission_cache caches)\<rparr>)"
  by (auto simp: exact_caches_def invalidate_permission_cache_def local_cache_defs)

lemma exact_flush_both:
  "exact_caches config env db w
     \<lparr>permission_cache = flush_permission_cache c1, workspace_cache = flush_workspace_cache c2\<rparr>"
  by (simp add: exact_caches_def flush_permission_cache_def flush_workspace_cache_def local_cache_defs)

lemma exact_set_ws:
  assumes "exact_caches config env db w caches" and "colon_free n"
    and "lookup_workspace_permission config env db n v = Some p"
  shows "exact_caches config env db w
    (caches\<lparr>workspace_cache := local_set (workspace_cache caches) (ws_cache_key n v) p\<rparr>)"
proof -
  have "lookup_workspace_permission config env db m x = Some q"
    if "colon_free m" "local_get (local_set (workspace_cache caches) (ws_cache_key n v) p) (ws_cache_key m x) = Some q"
    for m x q
  proof (cases "ws_cache_key m x = ws_cache_key n v")
    case True
    have "m = n \<and> x = v"
      using that(1) assms(2) unfolding colon_free_def by (rule ws_cache_key_inj [OF _ _ True])
    with that(2) assms(3) show ?thesis by (simp add: local_cache_defs)
  next
    case False
    with that(2) have "local_get (workspace_cache caches) (ws_cache_key m x) = Some q"
      by (simp add: local_cache_defs)
    with exact_cachesD(1) [OF assms(1) that(1)] show ?thesis by blast
  qed
  then show ?thesis
    using exact_cachesD(2) [OF assms(1)] by (intro exact_cachesI) simp_all
qed

lemma exact_set_perm:
  assumes "exact_caches config env db w caches" and "t \<in> set resource_types" and "colon_free u"
    and "t \<noteq> SCORER \<Longrightarrow> resolve_fresh config env db w t i u None = Inr r"
  shows "exact_caches config env db w
    (caches\<lparr>permission_cache := local_set (permission_cache caches) (make_cache_key t i u) r\<rparr>)"
proof -
  have "resolve_fresh config env db w t' i' u' None = Inr r'"
    if "t' \<in> set resource_types" "t' \<noteq> SCORER" "colon_free u'"
      and g: "local_get (local_set (permission_cache caches) (make_cache_key t i u) r)
            (make_cache_key t' i' u') = Some r'"
    for t' i' u' r'
  proof (cases "make_cache_key t' i' u' = make_cache_key t i u")
    case True
    then have "t' = t \<and> i' = i \<and> u' = u"
      using make_cache_key_inj resource_types_colon_free that(1,3) assms(2,3) by blast
    with g that(2) assms(4) show ?thesis by (simp add: local_cache_defs)
  next
    case False
    with g have "local_get (permission_cache caches) (make_cache_key t' i' u') = Some r'"
      by (simp add: local_cache_defs)
    with exact_cachesD(2) [OF assms(1) that(1,2,3)] show ?thesis by blast
  qed
  then show ?thesis
    using exact_cachesD(1) [OF assms(1)] by (intro exact_cachesI) simp_all
qed

section \<open>The cached answer is the fresh one\<close>

lemma ws_cached_exact:
  assumes "exact_caches config env db w caches" and "colon_free u"
    and "MLFLOW_ENABLE_WORKSPACES config"
    and "get_workspace_permission_cached config env db u v (workspace_cache caches) = (res, wc)"
  shows "res = lookup_workspace_permission config env db u v \<and>
    exact_caches config env db w (caches\<lparr>workspace_cache := wc\<rparr>)"
proof (cases "local_get (workspace_cache caches) (ws_cache_key u v)")
  case None
  show ?thesis
  proof (cases "lookup_workspace_permission config env db u v")
    case None
    with assms(3,4) \<open>local_get (workspace_cache caches) (ws_cache_key u v) = None\<close>
    have "res = None" "wc = workspace_cache caches"
      by (simp_all add: get_workspace_permission_cached_def)
    with None assms(1) show ?thesis by simp
  next
    case (Some p)
    with assms \<open>local_get (workspace_cache caches) (ws_cache_key u v) = None\<close>
    have "res = Some p" "wc = local_set (workspace_cache caches) (ws_cache_key u v) p"
      by (simp_all add: get_workspace_permission_cached_def)
    with Some exact_set_ws [OF assms(1,2) Some] show ?thesis by simp
  qed
next
  case (Some p)
  with assms(3,4) have "res = Some p" "wc = workspace_cache caches"
    by (simp_all add: get_workspace_permission_cached_def)
  with exact_cachesD(1) [OF assms(1,2) Some] assms(1) show ?thesis by simp
qed

lemma builder_ignores_kwargs:
  assumes "map_of PERMISSION_REGISTRY t = Some b" and "t \<noteq> SCORER"
  shows "b env db i u kw = b env db i u None"
  using assms by (auto simp: PERMISSION_REGISTRY_def split: if_splits)

lemma resolve_fresh_kwargs:
  assumes "t \<noteq> SCORER"
  shows "resolve_fresh config env db w t i u kw = resolve_fresh config env db w t i u None"
proof (cases "map_of PERMISSION_REGISTRY t")
  case (Some b)
  have "b env db i u kw = b env db i u None" by (rule builder_ignores_kwargs [OF Some assms])
  with Some show ?thesis by (simp add: resolve_fresh_def)
qed (simp add: resolve_fresh_def)

lemma registry_map_of: "t \<in> set resource_types \<Longrightarrow> \<exists>b. map_of PERMISSION_REGISTRY t = Some b"
  by (cases "map_of PERMISSION_REGISTRY t") (auto simp: resource_types_def map_of_eq_None_iff)

text \<open>A miss: the answer is computed, and stored under its key.\<close>

lemma resolve_permission_miss:
  assumes "exact_caches config env db w caches" and "colon_free u" and "t \<in> set resource_types"
    and "local_get (permission_cache caches) (make_cache_key t i u) = None"
    and "resolve_permission config env db w t i u kw caches = (res, caches')"
  shows "res = resolve_fresh config env db w t i u kw \<and>
    (case res of
       Inl _ \<Rightarrow> caches' = caches
     | Inr r \<Rightarrow> \<exists>c1. exact_caches config env db w c1 \<and>
         caches' = c1\<lparr>permission_cache := local_set (permission_cache c1) (make_cache_key t i u) r\<rparr>)"
proof -
  obtain b where b: "map_of PERMISSION_REGISTRY t = Some b" using registry_map_of [OF assms(3)] by blast
  let ?r = "bind_result (b env db i u kw) (get_permission_from_store_or_default config)"
  show ?thesis
  proof (cases ?r)
    case (Inl e)
    then have "resolve_fresh config env db w t i u kw = Inl e"
      by (auto simp: resolve_fresh_def b bind_result_eq_Inl)
    moreover from Inl assms(4,5) b have "res = Inl e" "caches' = caches"
      by (simp_all add: resolve_permission_def)
    ultimately show ?thesis by simp
  next
    case (Inr result)
    then obtain cfg where cfg: "b env db i u kw = Inr cfg"
      "get_permission_from_store_or_default config cfg = Inr result" by auto
    show ?thesis
    proof (cases "pr_kind result = ''fallback'' \<and> MLFLOW_ENABLE_WORKSPACES config \<and> w \<noteq> None \<and> w \<noteq> Some ''''")
      case False
      then have "resolve_fresh config env db w t i u kw = Inr result"
        by (simp only: resolve_fresh_def b cfg option.case bind_result_simps if_False)
      moreover have "resolve_permission config env db w t i u kw caches =
          (Inr result, caches\<lparr>permission_cache :=
             local_set (permission_cache caches) (make_cache_key t i u) result\<rparr>)"
        using False assms(4) by (cases w) (auto simp: resolve_permission_def b cfg)
      ultimately show ?thesis using assms(1,5) by auto
    next
      case True
      then obtain v where v: "w = Some v" "v \<noteq> ''''" by auto
      obtain ws wc where wsc: "get_workspace_permission_cached config env db u v (workspace_cache caches) = (ws, wc)"
        by fastforce
      let ?c1 = "caches\<lparr>workspace_cache := wc\<rparr>"
      let ?res = "case ws of Some p \<Rightarrow> \<lparr>pr_permission = p, pr_kind = ''workspace''\<rparr>
        | None \<Rightarrow> \<lparr>pr_permission = NO_PERMISSIONS, pr_kind = ''workspace-deny''\<rparr>"
      have e: "ws = lookup_workspace_permission config env db u v" "exact_caches config env db w ?c1"
        using ws_cached_exact [OF assms(1,2) _ wsc] True by simp_all
      have "resolve_fresh config env db w t i u kw = Inr ?res"
        using True v e(1) by (simp add: resolve_fresh_def b cfg split: option.split)
      moreover have "resolve_permission config env db w t i u kw caches =
          (Inr ?res, ?c1\<lparr>permission_cache :=
             local_set (permission_cache ?c1) (make_cache_key t i u) ?res\<rparr>)"
        using True v assms(4) by (cases ws) (simp_all add: resolve_permission_def b cfg wsc)
      ultimately show ?thesis using e(2) assms(5) by auto
    qed
  qed
qed

lemma resolve_permission_exact:
  assumes "exact_caches config env db w caches" and "colon_free u" and "t \<in> set resource_types"
    and "resolve_permission config env db w t i u kw caches = (res, caches')"
  shows "exact_caches config env db w caches' \<and>
    (t \<noteq> SCORER \<longrightarrow> res = resolve_fresh config env db w t i u kw)"
proof (cases "local_get (permission_cache caches) (make_cache_key t i u)")
  case (Some r)
  with assms(4) have e: "res = Inr r" "caches' = caches" by (simp_all add: resolve_permission_hit)
  have "resolve_fresh config env db w t i u kw = Inr r" if "t \<noteq> SCORER"
    by (rule trans [OF resolve_fresh_kwargs [OF that] exact_cachesD(2) [OF assms(1,3) that assms(2) Some]])
  with e assms(1) show ?thesis by simp
next
  case None
  note m = resolve_permission_miss [OF assms(1,2,3) None assms(4)]
  show ?thesis
  proof (cases res)
    case (Inl e)
    with m assms(1) show ?thesis by simp
  next
    case (Inr r)
    with m obtain c1 where c1: "exact_caches config env db w c1"
      "caches' = c1\<lparr>permission_cache := local_set (permission_cache c1) (make_cache_key t i u) r\<rparr>"
      by auto
    have "t \<noteq> SCORER \<Longrightarrow> resolve_fresh config env db w t i u None = Inr r"
      using m Inr resolve_fresh_kwargs [of t config env db w i u kw] by simp
    then have "exact_caches config env db w caches'"
      unfolding c1(2) by (rule exact_set_perm [OF c1(1) assms(3,2)])
    with m show ?thesis by simp
  qed
qed

section \<open>One answer for several questions\<close>

lemma resolve_permission_shared:
  assumes "resolve_permission config env db w t i u kw caches = (Inr r, caches')"
  shows "resolve_permission config' env' db' w' t i u kw' caches' = (Inr r, caches')"
  using resolve_permission_hit [OF resolve_permission_stores [OF assms]] .

section \<open>Properties\<close>

text \<open>C2: For user names without a colon, and for requests and cache entries of one and the
  same workspace: behind caches that hold only answers of the present database, resolve_permission
  answers every resource type but scorers exactly as it would without any cache, errors included,
  and leaves such caches behind.\<close>

theorem cached_resolution_is_fresh:
  assumes "exact_caches config env db w caches" and "t \<in> set resource_types" and "t \<noteq> SCORER"
    and "colon_free u"
  shows "\<exists>caches'. resolve_permission config env db w t i u kw caches =
      (resolve_fresh config env db w t i u kw, caches') \<and>
    exact_caches config env db w caches'"
proof -
  obtain res caches' where r: "resolve_permission config env db w t i u kw caches = (res, caches')"
    by fastforce
  from resolve_permission_exact [OF assms(1,4,2) r] assms(3) r show ?thesis by auto
qed

theorem cached_resolution_is_fresh_witness:
  "\<exists>caches'. resolve_permission default_config example_outside example_db None EXPERIMENT ''10''
      ''alice'' None empty_caches =
      (resolve_fresh default_config example_outside example_db None EXPERIMENT ''10'' ''alice'' None,
       caches') \<and>
    exact_caches default_config example_outside example_db None caches'"
proof (rule cached_resolution_is_fresh [OF exact_empty])
  show "EXPERIMENT \<in> set resource_types" by (simp add: resource_types_def PERMISSION_REGISTRY_def)
qed (simp_all add: resource_type_defs colon_free_def)

text \<open>The cache entry of a scorer does not name the scorer: once a user's permission on one
  scorer of an experiment is cached, the same answer is given for every other scorer of that
  experiment, for any database, until the entry goes.\<close>

theorem scorer_answers_shared:
  assumes "effective_scorer_permission config env db w e s u caches = (Inr r, caches')"
  shows "effective_scorer_permission config env db' w' e s' u caches' = (Inr r, caches')"
  using resolve_permission_shared [OF assms [unfolded effective_scorer_permission_def]]
  by (simp add: effective_scorer_permission_def)

text \<open>A granted MANAGE on one scorer is answered for another on which nothing was granted.\<close>

definition scorer_db :: db where
  "scorer_db = example_db\<lparr>db_user_perms := (\<lambda>_. [])
     (Scorer := [\<lparr>up_id = 1, up_key = ScorerKey ''1'' ''s'', up_user = 2, up_permission = ''MANAGE''\<rparr>,
                 \<lparr>up_id = 2, up_key = ScorerKey ''1'' ''t'', up_user = 2, up_permission = ''READ''\<rparr>])\<rparr>"

theorem scorer_answers_shared_witness:
  "\<exists>caches'. effective_scorer_permission default_config example_outside scorer_db None ''1'' ''t'' ''bob''
      empty_caches = (Inr \<lparr>pr_permission = READ, pr_kind = ''user''\<rparr>, empty_caches\<lparr>permission_cache :=
        local_set (permission_cache empty_caches) (make_cache_key SCORER ''1'' ''bob'')
          \<lparr>pr_permission = READ, pr_kind = ''user''\<rparr>\<rparr>) \<and>
    effective_scorer_permission default_config example_outside scorer_db None ''1'' ''s'' ''bob''
      empty_caches = (Inr \<lparr>pr_permission = MANAGE, pr_kind = ''user''\<rparr>, caches') \<and>
    effective_scorer_permission default_config example_outside scorer_db None ''1'' ''t'' ''bob''
      caches' = (Inr \<lparr>pr_permission = MANAGE, pr_kind = ''user''\<rparr>, caches')"
proof -
  have g: "get_user scorer_db ''bob'' = Inr (db_users example_db ! 1)"
    by (simp add: scorer_db_def)
  have q: "user_perm_query Scorer scorer_db (ScorerKey ''1'' s) ''bob'' =
      (if s = ''s'' then [\<lparr>up_id = 1, up_key = ScorerKey ''1'' ''s'', up_user = 2, up_permission = ''MANAGE''\<rparr>]
       else if s = ''t'' then [\<lparr>up_id = 2, up_key = ScorerKey ''1'' ''t'', up_user = 2, up_permission = ''READ''\<rparr>]
       else [])" for s
    by (auto simp: user_perm_query_def scorer_db_def)
  define key where "key = make_cache_key SCORER ''1'' ''bob''"
  have first: "effective_scorer_permission default_config example_outside scorer_db None ''1'' s ''bob''
      empty_caches = (Inr \<lparr>pr_permission = p, pr_kind = ''user''\<rparr>, empty_caches\<lparr>permission_cache :=
        local_set (permission_cache empty_caches) key \<lparr>pr_permission = p, pr_kind = ''user''\<rparr>\<rparr>)"
    if "s = ''s'' \<and> p = MANAGE \<or> s = ''t'' \<and> p = READ" for s p
    using that q [of s] unfolding key_def
    by (auto simp: effective_scorer_permission_def resolve_permission_def empty_caches_def local_get_def
          PERMISSION_REGISTRY_def resource_type_defs build_scorer_sources_def permission_of_def
          scorer_get_permission_def user_get_permission_def user_get_permission_row_def
          get_permission_from_store_or_default_def default_config_def)
  from first [of "''s''" MANAGE] have "effective_scorer_permission default_config example_outside scorer_db
      None ''1'' ''s'' ''bob'' empty_caches = (Inr \<lparr>pr_permission = MANAGE, pr_kind = ''user''\<rparr>,
      empty_caches\<lparr>permission_cache := local_set (permission_cache empty_caches) key
        \<lparr>pr_permission = MANAGE, pr_kind = ''user''\<rparr>\<rparr>)" by simp
  note this scorer_answers_shared [OF this, of scorer_db None "''t''"]
  with first [of "''t''" READ] show ?thesis unfolding key_def by blast
qed

text \<open>The entry does not name the workspace of the request either: an answer computed for a
  request in one workspace is given to a request in any other, whatever the user may do
  there.\<close>

theorem workspace_answers_shared:
  assumes "resolve_permission config env db (Some w) t i u kw caches = (Inr r, caches')"
  shows "resolve_permission config env db (Some w') t i u kw caches' = (Inr r, caches')"
  by (rule resolve_permission_shared [OF assms])

text \<open>Alice manages workspace w1 and has no permission in w3; a prompt first read in w1 is hers
  to manage in w3.\<close>

lemma alice_prompt_sources:
  "filter (answers (build_prompt_sources example_outside example_db ''p'' ''alice''))
     (PERMISSION_SOURCE_ORDER default_config) = []"
proof -
  have "user_get_permission RegisteredModel example_db (ResourceId ''p'') ''alice'' =
      Inl (MlflowException RESOURCE_DOES_NOT_EXIST)"
    by (simp add: user_get_permission_def user_get_permission_row_eq [OF example_db_wf] user_perm_at_def)
       (simp add: example_db_def)
  moreover have "group_get_permission_or_none RegisteredModel example_db (ResourceId ''p'') g = Inr None" for g
    by (simp add: group_get_permission_or_none_eq [OF example_db_wf] group_perm_at_def split: sum.split)
       (simp add: example_db_def)
  then have "registered_model_get_for_user example_db ''p'' ''alice'' =
      Inl (MlflowException RESOURCE_DOES_NOT_EXIST)"
    by (simp add: registered_model_get_for_user_def list_groups_for_user_def list_user_groups_def)
  moreover have "registered_model_list_regex_for_user example_db ''alice'' True = Inr []"
    by (simp add: registered_model_list_regex_for_user_def) (simp add: example_db_def)
  moreover have "registered_model_group_regex_list_permissions_for_groups_ids example_db gs True = []" for gs
    by (simp add: registered_model_group_regex_list_permissions_for_groups_ids_def
          registered_model_group_regex_rows_def) (simp add: example_db_def)
  ultimately show ?thesis
    by (simp add: build_prompt_sources_def answers_def permission_of_def default_config_def
          list_group_ids_for_user_def)
qed

theorem workspace_answers_shared_witness:
  "\<exists>caches'. resolve_permission (default_config\<lparr>MLFLOW_ENABLE_WORKSPACES := True\<rparr>) example_outside
      example_db (Some ''w1'') PROMPT ''p'' ''alice'' None empty_caches =
      (Inr \<lparr>pr_permission = MANAGE, pr_kind = ''workspace''\<rparr>, caches') \<and>
    resolve_permission (default_config\<lparr>MLFLOW_ENABLE_WORKSPACES := True\<rparr>) example_outside
      example_db (Some ''w3'') PROMPT ''p'' ''alice'' None caches' =
      (Inr \<lparr>pr_permission = MANAGE, pr_kind = ''workspace''\<rparr>, caches')"
proof -
  let ?config = "default_config\<lparr>MLFLOW_ENABLE_WORKSPACES := True\<rparr>"
  have cfg: "get_permission_from_store_or_default ?config
      (build_prompt_sources example_outside example_db ''p'' ''alice'') =
      Inr \<lparr>pr_permission = MANAGE, pr_kind = ''fallback''\<rparr>"
    using alice_prompt_sources
    by (simp add: get_permission_from_store_or_default_def source_loop_first default_config_def)
  have "lookup_workspace_permission ?config example_outside example_db ''alice'' ''w1'' = Some MANAGE"
    by (simp add: lookup_workspace_permission_def default_config_def resolve_user_direct_def or_none_def
          get_workspace_permission_def ws_get_eq [OF example_db_wf])
       (simp add: example_db_def row_at_def wp_unique_def)
  then obtain wc where "get_workspace_permission_cached ?config example_outside example_db ''alice'' ''w1''
      (\<lambda>_. None) = (Some MANAGE, wc)"
    by (simp add: get_workspace_permission_cached_def local_get_def default_config_def)
  then have "\<exists>caches'. resolve_permission ?config example_outside example_db (Some ''w1'') PROMPT ''p''
      ''alice'' None empty_caches = (Inr \<lparr>pr_permission = MANAGE, pr_kind = ''workspace''\<rparr>, caches')"
    using cfg by (simp add: resolve_permission_def empty_caches_def local_get_def PERMISSION_REGISTRY_def
          resource_type_defs default_config_def)
  then obtain caches' where r: "resolve_permission ?config example_outside example_db (Some ''w1'') PROMPT
      ''p'' ''alice'' None empty_caches = (Inr \<lparr>pr_permission = MANAGE, pr_kind = ''workspace''\<rparr>, caches')"
    by blast
  show ?thesis using r workspace_answers_shared [OF r, of "''w3''"] by blast
qed

end
