(* ===== verification/BatchResolve.thy ===== *)
theory BatchResolve
  imports ResolutionCache
begin

text \<open>
  \<^verbatim>\<open>utils/batch_permissions.py\<close>: all permissions of a user are read once into a context, and
  every resource of a list is resolved against it. The main facts compare this with
  \<^verbatim>\<open>utils/permissions.py\<close>, which reads the database for every resource: both give the same
  answer where at most one group of the user has a row on the resource, and differ in general.
\<close>

section \<open>The context\<close>

text \<open>A dict comprehension: a later entry replaces an earlier one.\<close>

definition dict_of :: "('a \<times> 'b) list \<Rightarrow> 'a \<rightharpoonup> 'b" where
  "dict_of entries = map_of (rev entries)"

definition permissions_dict :: "perm_entity list \<Rightarrow> rkey \<rightharpoonup> string" where
  "permissions_dict ps = dict_of (map (\<lambda>p. (pe_key p, pe_permission p)) ps)"

record user_permission_context =
  ctx_username :: string
  ctx_group_ids :: "nat list"
  user_experiment_permissions :: "rkey \<rightharpoonup> string"
  group_experiment_permissions :: "rkey \<rightharpoonup> string"
  experiment_regex_permissions :: "regex_entity list"
  group_experiment_regex_permissions :: "regex_entity list"
  user_model_permissions :: "rkey \<rightharpoonup> string"
  group_model_permissions :: "rkey \<rightharpoonup> string"
  model_regex_permissions :: "regex_entity list"
  group_model_regex_permissions :: "regex_entity list"
  prompt_regex_permissions :: "regex_entity list"
  group_prompt_regex_permissions :: "regex_entity list"

definition build_user_permission_context :: "db \<Rightarrow> string \<Rightarrow> user_permission_context result" where
  "build_user_permission_context db username =
     bind_result (list_group_ids_for_user db username) (\<lambda>gids.
     bind_result (user_list_permissions_for_user Experiment db username) (\<lambda>user_exp_perms.
     bind_result (group_list_permissions_for_user_groups Experiment db username) (\<lambda>group_exp_perms.
     bind_result (list_regex_for_user Experiment db username) (\<lambda>exp_regexes.
     bind_result (user_list_permissions_for_user RegisteredModel db username) (\<lambda>user_model_perms.
     bind_result (registered_model_list_for_user db username) (\<lambda>group_model_perms.
     bind_result (registered_model_list_regex_for_user db username False) (\<lambda>model_regexes.
     bind_result (registered_model_list_regex_for_user db username True) (\<lambda>prompt_regexes.
     Inr \<lparr>ctx_username = username,
          ctx_group_ids = gids,
          user_experiment_permissions = permissions_dict user_exp_perms,
          group_experiment_permissions = permissions_dict group_exp_perms,
          experiment_regex_permissions = exp_regexes,
          group_experiment_regex_permissions =
            (if gids \<noteq> [] then group_regex_list_permissions_for_groups_ids Experiment db gids else []),
          user_model_permissions = permissions_dict user_model_perms,
          group_model_permissions = permissions_dict group_model_perms,
          model_regex_permissions = model_regexes,
          group_model_regex_permissions =
            (if gids \<noteq> []
             then registered_model_group_regex_list_permissions_for_groups_ids db gids False else []),
          prompt_regex_permissions = prompt_regexes,
          group_prompt_regex_permissions =
            (if gids \<noteq> []
             then registered_model_group_regex_list_permissions_for_groups_ids db gids True else [])\<rparr>))))))))"

section \<open>Resolving against the context\<close>

fun context_loop :: "(string \<rightharpoonup> string) \<Rightarrow> string \<Rightarrow> string list \<Rightarrow> permission_result result" where
  "context_loop source_map dflt [] =
     bind_result (get_permission dflt) (\<lambda>p. Inr \<lparr>pr_permission = p, pr_kind = ''fallback''\<rparr>)"
| "context_loop source_map dflt (source # order) =
     (case source_map source of
        Some perm \<Rightarrow> bind_result (get_permission perm) (\<lambda>p.
          Inr \<lparr>pr_permission = p, pr_kind = source\<rparr>)
      | None \<Rightarrow> context_loop source_map dflt order)"

definition context_source_map :: "string option \<Rightarrow> string option \<Rightarrow> string option \<Rightarrow> string option \<Rightarrow>
    string \<rightharpoonup> string" where
  "context_source_map user_direct group_direct user_regex group_regex source =
     (if source = ''user'' then user_direct
      else if source = ''group'' then group_direct
      else if source = ''regex'' then user_regex
      else if source = ''group-regex'' then group_regex
      else None)"

definition resolve_permission_from_context :: "auth_config \<Rightarrow> string option \<Rightarrow> string option \<Rightarrow>
    string option \<Rightarrow> string option \<Rightarrow> permission_result result" where
  "resolve_permission_from_context config user_direct group_direct user_regex group_regex =
     context_loop (context_source_map user_direct group_direct user_regex group_regex)
       (DEFAULT_MLFLOW_PERMISSION config) (PERMISSION_SOURCE_ORDER config)"

text \<open>
  The workspace of this fallback is that of MLflow's context variable. The single resolution of
  Resolve takes the one that Flask's environment carries, which a route outside Flask does not have.
\<close>

definition apply_workspace_fallback :: "auth_config \<Rightarrow> outside \<Rightarrow> db \<Rightarrow> string option \<Rightarrow> string \<Rightarrow>
    permission_result \<Rightarrow> (permission_result, permission local_cache) action" where
  "apply_workspace_fallback config env db workspace username result cache =
     (if pr_kind result \<noteq> ''fallback'' \<or> \<not> MLFLOW_ENABLE_WORKSPACES config then (Inr result, cache)
      else (case workspace of
              None \<Rightarrow> (Inr result, cache)
            | Some w \<Rightarrow>
                if w = '''' then (Inr result, cache)
                else
                  let (ws_perm, cache) = get_workspace_permission_cached config env db username w cache
                  in (case ws_perm of
                        Some p \<Rightarrow> (Inr \<lparr>pr_permission = p, pr_kind = ''workspace''\<rparr>, cache)
                      | None \<Rightarrow>
                          (Inr \<lparr>pr_permission = NO_PERMISSIONS, pr_kind = ''workspace-deny''\<rparr>, cache))))"

fun find_regex_permission :: "outside \<Rightarrow> regex_entity list \<Rightarrow> string \<Rightarrow> string option result" where
  "find_regex_permission env [] name = Inr None"
| "find_regex_permission env (regex_perm # regexes) name =
     bind_result (re_match env (re_regex regex_perm) name) (\<lambda>matched.
     if matched then Inr (Some (re_permission regex_perm))
     else find_regex_permission env regexes name)"

definition resolve_experiment_permission_from_context :: "auth_config \<Rightarrow> outside \<Rightarrow> db \<Rightarrow>
    string option \<Rightarrow> user_permission_context \<Rightarrow> string \<Rightarrow> string option \<Rightarrow>
    (permission_result, permission local_cache) action" where
  "resolve_experiment_permission_from_context config env db ws ctx experiment_id name =
     act_bind (act_read (\<lambda>_. case name of None \<Rightarrow> experiment_name env experiment_id | Some n \<Rightarrow> Inr n))
       (\<lambda>experiment_name.
     act_bind (act_read (\<lambda>_.
       bind_result (find_regex_permission env (experiment_regex_permissions ctx) experiment_name)
         (\<lambda>user_regex.
       bind_result (find_regex_permission env (group_experiment_regex_permissions ctx) experiment_name)
         (\<lambda>group_regex.
       resolve_permission_from_context config
         (user_experiment_permissions ctx (ResourceId experiment_id))
         (group_experiment_permissions ctx (ResourceId experiment_id)) user_regex group_regex))))
       (apply_workspace_fallback config env db ws (ctx_username ctx)))"

definition resolve_model_permission_from_context :: "auth_config \<Rightarrow> outside \<Rightarrow> db \<Rightarrow>
    string option \<Rightarrow> user_permission_context \<Rightarrow> string \<Rightarrow>
    (permission_result, permission local_cache) action" where
  "resolve_model_permission_from_context config env db ws ctx model_name =
     act_bind (act_read (\<lambda>_.
       bind_result (find_regex_permission env (model_regex_permissions ctx) model_name) (\<lambda>user_regex.
       bind_result (find_regex_permission env (group_model_regex_permissions ctx) model_name)
         (\<lambda>group_regex.
       resolve_permission_from_context config
         (user_model_permissions ctx (ResourceId model_name))
         (group_model_permissions ctx (ResourceId model_name)) user_regex group_regex))))
       (apply_workspace_fallback config env db ws (ctx_username ctx))"

definition resolve_prompt_permission_from_context :: "auth_config \<Rightarrow> outside \<Rightarrow> db \<Rightarrow>
    string option \<Rightarrow> user_permission_context \<Rightarrow> string \<Rightarrow>
    (permission_result, permission local_cache) action" where
  "resolve_prompt_permission_from_context config env db ws ctx prompt_name =
     act_bind (act_read (\<lambda>_.
       bind_result (find_regex_permission env (prompt_regex_permissions ctx) prompt_name) (\<lambda>user_regex.
       bind_result (find_regex_permission env (group_prompt_regex_permissions ctx) prompt_name)
         (\<lambda>group_regex.
       resolve_permission_from_context config
         (user_model_permissions ctx (ResourceId prompt_name))
         (group_model_permissions ctx (ResourceId prompt_name)) user_regex group_regex))))
       (apply_workspace_fallback config env db ws (ctx_username ctx))"

section \<open>Lists of resources\<close>

fun batch_loop :: "('r \<Rightarrow> string) \<Rightarrow> ('r \<Rightarrow> (permission_result, 's) action) \<Rightarrow> 'r list \<Rightarrow>
    (string \<rightharpoonup> permission_result) \<Rightarrow> (string \<rightharpoonup> permission_result, 's) action" where
  "batch_loop key resolve [] perms = act_return perms"
| "batch_loop key resolve (x # xs) perms =
     act_bind (resolve x) (\<lambda>r. batch_loop key resolve xs (perms(key x \<mapsto> r)))"

text \<open>An experiment is its id and its name.\<close>

definition batch_resolve_experiment_permissions where
  "batch_resolve_experiment_permissions config env db ws username experiments =
     act_bind (act_read (\<lambda>_. build_user_permission_context db username)) (\<lambda>ctx.
     batch_loop fst
       (\<lambda>x. resolve_experiment_permission_from_context config env db ws ctx (fst x) (Some (snd x)))
       experiments Map.empty)"

definition batch_resolve_model_permissions where
  "batch_resolve_model_permissions config env db ws username models =
     act_bind (act_read (\<lambda>_. build_user_permission_context db username)) (\<lambda>ctx.
     batch_loop (\<lambda>x. x) (resolve_model_permission_from_context config env db ws ctx) models Map.empty)"

definition batch_resolve_prompt_permissions where
  "batch_resolve_prompt_permissions config env db ws username prompts =
     act_bind (act_read (\<lambda>_. build_user_permission_context db username)) (\<lambda>ctx.
     batch_loop (\<lambda>x. x) (resolve_prompt_permission_from_context config env db ws ctx) prompts Map.empty)"

definition manageable :: "(string \<rightharpoonup> permission_result) \<Rightarrow> string \<Rightarrow> bool" where
  "manageable perms name = can_manage (pr_permission (the (perms name)))"

definition filter_manageable_experiments where
  "filter_manageable_experiments config env db ws username experiments =
     act_bind (batch_resolve_experiment_permissions config env db ws username experiments)
       (\<lambda>permissions. act_return (filter (\<lambda>x. manageable permissions (fst x)) experiments))"

definition filter_manageable_models where
  "filter_manageable_models config env db ws username models =
     act_bind (batch_resolve_model_permissions config env db ws username models)
       (\<lambda>permissions. act_return (filter (manageable permissions) models))"

definition filter_manageable_prompts where
  "filter_manageable_prompts config env db ws username prompts =
     act_bind (batch_resolve_prompt_permissions config env db ws username prompts)
       (\<lambda>permissions. act_return (filter (manageable permissions) prompts))"

text \<open>
  Gateway resources are dicts, checked one by one through the cached functions; an
  unnamed one and one whose check raises are left out.
\<close>

type_synonym json_object = "string \<rightharpoonup> string"

fun gateway_filter_loop :: "(json_object \<Rightarrow> string) \<Rightarrow> (string \<Rightarrow> (bool, auth_caches) action) \<Rightarrow>
    json_object list \<Rightarrow> auth_caches \<Rightarrow> json_object list \<times> auth_caches" where
  "gateway_filter_loop name_of can [] caches = ([], caches)"
| "gateway_filter_loop name_of can (item # items) caches =
     (if name_of item = '''' then gateway_filter_loop name_of can items caches
      else
        let (answer, caches) = can (name_of item) caches;
            (kept, caches) = gateway_filter_loop name_of can items caches
        in (if answer = Inr True then item # kept else kept, caches))"

definition item_name :: "json_object \<Rightarrow> string" where
  "item_name item = (case item ''name'' of None \<Rightarrow> '''' | Some n \<Rightarrow> n)"

text \<open>Python's \<^verbatim>\<open>or\<close> passes over a missing and over an empty string.\<close>

definition or_else :: "string option \<Rightarrow> string \<Rightarrow> string" where
  "or_else x y = (case x of None \<Rightarrow> y | Some s \<Rightarrow> if s = '''' then y else s)"

definition secret_item_name :: "json_object \<Rightarrow> string" where
  "secret_item_name item =
     or_else (item ''secret_name'') (or_else (item ''name'')
       (case item ''key'' of None \<Rightarrow> '''' | Some k \<Rightarrow> k))"

definition filter_manageable_gateway_endpoints where
  "filter_manageable_gateway_endpoints config env db ws username =
     gateway_filter_loop item_name (\<lambda>n. can_manage_gateway_endpoint config env db ws n username)"

definition filter_manageable_gateway_secrets where
  "filter_manageable_gateway_secrets config env db ws username =
     gateway_filter_loop secret_item_name (\<lambda>n. can_manage_gateway_secret config env db ws n username)"

definition filter_manageable_gateway_model_definitions where
  "filter_manageable_gateway_model_definitions config env db ws username =
     gateway_filter_loop item_name
       (\<lambda>n. can_manage_gateway_model_definition config env db ws n username)"


section \<open>One context, the same sources\<close>

text \<open>A look-up that found nothing is, for \<open>resolve_permission\<close>, the exception of a missing
  record.\<close>

definition found :: "'a option \<Rightarrow> 'a result" where
  "found m = (case m of None \<Rightarrow> Inl (MlflowException RESOURCE_DOES_NOT_EXIST) | Some x \<Rightarrow> Inr x)"

lemma found_simps [simp]:
  "found None = Inl (MlflowException RESOURCE_DOES_NOT_EXIST)" "found (Some x) = Inr x"
  by (simp_all add: found_def)

lemma source_loop_context:
  "source_loop dflt [(''user'', found a), (''group'', found b), (''regex'', found c),
      (''group-regex'', found d)] order =
   context_loop (context_source_map a b c d) dflt order"
proof (induction order)
  case Nil
  then show ?case by simp
next
  case (Cons n order)
  let ?cfg = "[(''user'', found a), (''group'', found b), (''regex'', found c), (''group-regex'', found d)]"
  let ?m = "context_source_map a b c d"
  have known: "map_of ?cfg n = Some (found (?m n)) \<or> map_of ?cfg n = None \<and> ?m n = None"
    by (simp add: context_source_map_def)
  show ?case
  proof (cases "?m n")
    case None
    with known consider "map_of ?cfg n = Some (Inl (MlflowException RESOURCE_DOES_NOT_EXIST))"
      | "map_of ?cfg n = None" by auto
    then have "source_loop dflt ?cfg (n # order) = source_loop dflt ?cfg order"
      by cases (simp_all only: source_loop.simps(2) option.case bind_result_simps sum.case exn.case
          error_code.case)
    with None Cons.IH show ?thesis by simp
  next
    case (Some p)
    with known have c: "map_of ?cfg n = Some (Inr p)" by simp
    have "bind_result (get_permission p) (\<lambda>q. Inr \<lparr>pr_permission = q, pr_kind = n\<rparr>) \<noteq>
        Inl (MlflowException RESOURCE_DOES_NOT_EXIST)"
      by (simp add: bind_result_eq_Inl get_permission_not_rdne)
    with Some show ?thesis
      unfolding source_loop.simps(2) c by (simp split: sum.split exn.split error_code.split)
  qed
qed

definition compiles :: "outside \<Rightarrow> string \<Rightarrow> regex_entity list \<Rightarrow> bool" where
  "compiles env name rs \<longleftrightarrow> (\<forall>r \<in> set rs. \<exists>b. re_match env (re_regex r) name = Inr b)"

lemma find_regex_permission_found:
  assumes "compiles env name rs"
  shows "\<exists>m. find_regex_permission env rs name = Inr m \<and> match_regex_permission env rs name = found m"
  using assms
proof (induction rs)
  case (Cons r rs)
  then obtain b where "re_match env (re_regex r) name = Inr b" by (auto simp: compiles_def)
  moreover have "\<exists>m. find_regex_permission env rs name = Inr m \<and>
      match_regex_permission env rs name = found m"
    using Cons by (auto simp: compiles_def)
  ultimately show ?case by (cases b) auto
qed simp

lemma dict_of_unique:
  assumes "\<And>v w. (k, v) \<in> set xs \<Longrightarrow> (k, w) \<in> set xs \<Longrightarrow> v = w"
  shows "dict_of xs k = Some v \<longleftrightarrow> (k, v) \<in> set xs"
proof
  assume "dict_of xs k = Some v"
  then show "(k, v) \<in> set xs" by (auto simp: dict_of_def dest: map_of_SomeD)
next
  assume v: "(k, v) \<in> set xs"
  then have "k \<in> fst ` set (rev xs)" by (force simp: image_iff)
  then have "dict_of xs k \<noteq> None" unfolding dict_of_def map_of_eq_None_iff by blast
  then obtain w where "dict_of xs k = Some w" by blast
  moreover from this have "(k, w) \<in> set xs" by (auto simp: dict_of_def dest: map_of_SomeD)
  ultimately show "dict_of xs k = Some v" using assms [OF v] by simp
qed

lemma permissions_dict_user:
  assumes "db_wf db" and "user_list_permissions_for_user c db n = Inr ps"
  shows "permission_of (user_get_permission c db key n) = found (permissions_dict ps key)"
proof -
  from assms(2) obtain u where u: "get_user db n = Inr u"
    and ps: "ps = map user_perm_entity (filter (\<lambda>r. up_user r = u_id u) (db_user_perms db c))"
    by (auto simp: user_list_permissions_for_user_def)
  let ?xs = "map (\<lambda>p. (pe_key p, pe_permission p)) ps"
  have d: "distinct (map up_unique (db_user_perms db c))"
    by (rule table_okD(2) [OF db_wf_keys(4) [OF assms(1)]])
  have row: "(key, v) \<in> set ?xs \<longleftrightarrow>
      map_option up_permission (user_perm_at c db key (u_id u)) = Some v" for v
    using row_at_Some [OF d]
    by (auto simp: ps user_perm_at_def up_unique_def image_iff)
  have "dict_of ?xs key = Some v \<longleftrightarrow> (key, v) \<in> set ?xs" for v
    using row by (intro dict_of_unique) auto
  with row have "permissions_dict ps key = map_option up_permission (user_perm_at c db key (u_id u))"
    unfolding permissions_dict_def by (intro option_eqI) blast
  then show ?thesis
    using user_perm_lookup_get [OF assms(1), of c key n] u
    by (simp add: permission_of_def found_def user_perm_lookup_def)
qed

text \<open>At most one group of the user has a row on the resource.\<close>

definition unambiguous :: "resource_class \<Rightarrow> db \<Rightarrow> rkey \<Rightarrow> string \<Rightarrow> bool" where
  "unambiguous c db key n \<longleftrightarrow>
     (\<forall>r \<in> user_group_rows c db key n. \<forall>q \<in> user_group_rows c db key n. r = q)"

lemma user_group_rows_eq:
  assumes "db_wf db" and "get_user db n = Inr u"
  shows "user_group_rows c db key n =
    {r \<in> set (db_group_perms db c). gp_key r = key \<and> gp_group r \<in> ug_group ` set (list_user_groups db u)}"
    (is "_ = ?S")
proof (intro set_eqI iffI)
  fix r assume "r \<in> user_group_rows c db key n"
  then obtain g h where "member_of db n g" and h: "get_group db g = Inr h"
    and r: "group_perm_at c db key (g_id h) = Some r" by (auto simp: user_group_rows_def)
  then have "g_id h \<in> ug_group ` set (list_user_groups db u)"
    by (force simp: member_of_def assms(2) ug_unique_def list_user_groups_def)
  with group_perm_at_SomeD [OF r] show "r \<in> ?S" by simp
next
  fix r assume "r \<in> ?S"
  then have r: "r \<in> set (db_group_perms db c)" "gp_key r = key"
    and m: "gp_group r \<in> ug_group ` set (list_user_groups db u)" by auto
  from m have "gp_group r \<in> group_ids db"
    using db_wf_refs [OF assms(1)] by (auto simp: list_user_groups_def)
  then obtain h where h: "h \<in> set (db_groups db)" "g_id h = gp_group r" by (auto simp: group_ids_def)
  then have "get_group db (g_name h) = Inr h" by (simp add: get_group_Inr [OF assms(1)])
  moreover from m have "(u_id u, g_id h) \<in> ug_unique ` set (db_user_groups db)"
    unfolding h(2) by (force simp: list_user_groups_def ug_unique_def)
  then have "member_of db n (g_name h)" using calculation by (simp add: member_of_def assms(2))
  moreover have "group_perm_at c db key (g_id h) = Some r"
    using r h(2) row_at_Some [OF table_okD(2) [OF db_wf_keys(5) [OF assms(1)]]]
    by (simp add: group_perm_at_def gp_unique_def)
  ultimately show "r \<in> user_group_rows c db key n" unfolding user_group_rows_def by blast
qed

lemma permissions_dict_group:
  assumes "db_wf db" and "group_perms_valid db" and "unambiguous c db key n"
    and "group_list_permissions_for_user_groups c db n = Inr ps"
  shows "permission_of (group_get_permission_for_user_resource c db key n) =
    found (permissions_dict ps key)"
proof -
  from assms(4) obtain u where u: "get_user db n = Inr u"
    and ps: "ps = map group_perm_entity (filter (\<lambda>r. gp_group r \<in> set (map ug_group (list_user_groups db u)))
      (db_group_perms db c))"
    by (auto simp: group_list_permissions_for_user_groups_def Let_def)
  let ?rows = "user_group_rows c db key n"
  let ?xs = "map (\<lambda>p. (pe_key p, pe_permission p)) ps"
  have row: "(key, v) \<in> set ?xs \<longleftrightarrow> (\<exists>r \<in> ?rows. gp_permission r = v)" for v
    unfolding user_group_rows_eq [OF assms(1) u] by (auto simp: ps image_iff)
  have dict: "permissions_dict ps key = Some v \<longleftrightarrow> (\<exists>r \<in> ?rows. gp_permission r = v)" for v
    unfolding permissions_dict_def using row assms(3) unambiguous_def
    by (subst dict_of_unique) (auto simp: unambiguous_def)
  from group_get_permission_for_user_resource_best [OF assms(1,2)] obtain res where
    best: "best_of gp_permission ?rows res" and res: "group_get_permission_for_user_resource c db key n =
      (case res of None \<Rightarrow> Inl (MlflowException RESOURCE_DOES_NOT_EXIST) | Some r \<Rightarrow> Inr (group_perm_entity r))"
    by blast
  show ?thesis
  proof (cases res)
    case None
    with best have "?rows = {}" by (simp add: best_of_def)
    with dict have "permissions_dict ps key = None" by (cases "permissions_dict ps key") auto
    with None res show ?thesis by (simp add: permission_of_def)
  next
    case (Some r)
    with best have "r \<in> ?rows" by (simp add: best_of_def)
    with dict [of "gp_permission r"] have "permissions_dict ps key = Some (gp_permission r)" by blast
    with Some res show ?thesis by (simp add: permission_of_def)
  qed
qed

section \<open>One context, the same answers\<close>

text \<open>On a miss of the permission cache \<open>resolve_permission\<close> is the source loop followed by
  the same workspace step.\<close>

lemma resolve_permission_two_steps:
  assumes "map_of PERMISSION_REGISTRY t = Some b"
    and "local_get (permission_cache caches) (make_cache_key t i u) = None"
    and "resolve_permission config env db ws t i u kw caches = (res, caches')"
  shows "(res, workspace_cache caches') =
    act_bind (act_read (\<lambda>_. bind_result (b env db i u kw) (get_permission_from_store_or_default config)))
      (apply_workspace_fallback config env db ws u) (workspace_cache caches)"
proof (cases "bind_result (b env db i u kw) (get_permission_from_store_or_default config)")
  case (Inl e)
  then have "resolve_permission config env db ws t i u kw caches = (Inl e, caches)"
    using assms(1,2) by (simp add: resolve_permission_def)
  with assms(3) have "res = Inl e" "caches' = caches" by simp_all
  with Inl show ?thesis by (simp add: act_bind_def)
next
  case (Inr r)
  show ?thesis
  proof (cases "pr_kind r = ''fallback'' \<and> MLFLOW_ENABLE_WORKSPACES config \<and> ws \<noteq> None \<and> ws \<noteq> Some ''''")
    case False
    then have "apply_workspace_fallback config env db ws u r (workspace_cache caches) =
        (Inr r, workspace_cache caches)"
      by (cases ws) (auto simp: apply_workspace_fallback_def)
    moreover have "resolve_permission config env db ws t i u kw caches =
        (Inr r, caches\<lparr>permission_cache := local_set (permission_cache caches) (make_cache_key t i u) r\<rparr>)"
      using False Inr assms(1,2) by (cases ws) (auto simp: resolve_permission_def)
    ultimately show ?thesis using Inr assms(3) by (auto simp: act_bind_def)
  next
    case True
    then obtain v where v: "ws = Some v" "v \<noteq> ''''" by auto
    obtain p wc where "get_workspace_permission_cached config env db u v (workspace_cache caches) = (p, wc)"
      by fastforce
    with True v Inr assms show ?thesis
      by (cases p) (auto simp: resolve_permission_def act_bind_def apply_workspace_fallback_def)
  qed
qed

text \<open>Four sources that agree with four entries of the context give the same answer.\<close>

lemma four_sources:
  assumes "b env db i u kw = Inr [(''user'', found ud), (''group'', found gd), (''regex'', x), (''group-regex'', y)]"
    and "compiles env name us" and "x = match_regex_permission env us name"
    and "compiles env name gs" and "y = match_regex_permission env gs name"
  shows "bind_result (b env db i u kw) (get_permission_from_store_or_default config) =
    bind_result (find_regex_permission env us name) (\<lambda>ur.
    bind_result (find_regex_permission env gs name) (\<lambda>gr.
    resolve_permission_from_context config ud gd ur gr))"
proof -
  from find_regex_permission_found [OF assms(2)] obtain ur where
    ur: "find_regex_permission env us name = Inr ur" "x = found ur" by (auto simp: assms(3))
  from find_regex_permission_found [OF assms(4)] obtain gr where
    gr: "find_regex_permission env gs name = Inr gr" "y = found gr" by (auto simp: assms(5))
  show ?thesis
    unfolding assms(1) ur gr bind_result_simps get_permission_from_store_or_default_def
      resolve_permission_from_context_def
    by (rule source_loop_context)
qed

lemma build_user_permission_context_Inr:
  assumes "build_user_permission_context db n = Inr ctx"
  obtains gids where "list_group_ids_for_user db n = Inr gids" and "ctx_username ctx = n"
    and "list_regex_for_user Experiment db n = Inr (experiment_regex_permissions ctx)"
    and "registered_model_list_regex_for_user db n False = Inr (model_regex_permissions ctx)"
    and "registered_model_list_regex_for_user db n True = Inr (prompt_regex_permissions ctx)"
    and "group_experiment_regex_permissions ctx =
           group_regex_list_permissions_for_groups_ids Experiment db gids"
    and "group_model_regex_permissions ctx =
           registered_model_group_regex_list_permissions_for_groups_ids db gids False"
    and "group_prompt_regex_permissions ctx =
           registered_model_group_regex_list_permissions_for_groups_ids db gids True"
    and "\<exists>ps. user_list_permissions_for_user Experiment db n = Inr ps \<and>
           user_experiment_permissions ctx = permissions_dict ps"
    and "\<exists>ps. group_list_permissions_for_user_groups Experiment db n = Inr ps \<and>
           group_experiment_permissions ctx = permissions_dict ps"
    and "\<exists>ps. user_list_permissions_for_user RegisteredModel db n = Inr ps \<and>
           user_model_permissions ctx = permissions_dict ps"
    and "\<exists>ps. group_list_permissions_for_user_groups RegisteredModel db n = Inr ps \<and>
           group_model_permissions ctx = permissions_dict ps"
proof -
  have none: "group_regex_list_permissions_for_groups_ids c db [] = []"
    "registered_model_group_regex_list_permissions_for_groups_ids db [] p = []" for c p
    by (simp_all add: group_regex_list_permissions_for_groups_ids_def list_group_permissions_def
        registered_model_group_regex_list_permissions_for_groups_ids_def
        registered_model_group_regex_rows_def)
  have models: "registered_model_list_for_user db n =
      group_list_permissions_for_user_groups RegisteredModel db n"
    by (simp add: registered_model_list_for_user_def group_list_permissions_for_user_groups_def)
  from assms obtain gids where "list_group_ids_for_user db n = Inr gids"
    by (auto simp: build_user_permission_context_def)
  with assms show ?thesis
    by (intro that [of gids])
       (auto simp: build_user_permission_context_def none models)
qed

lemma context_user:
  assumes "db_wf db" and "\<exists>ps. user_list_permissions_for_user c db n = Inr ps \<and> d = permissions_dict ps"
  shows "permission_of (user_get_permission c db key n) = found (d key)"
  using assms permissions_dict_user by blast

lemma context_group:
  assumes "db_wf db" and "group_perms_valid db" and "unambiguous c db key n"
    and "\<exists>ps. group_list_permissions_for_user_groups c db n = Inr ps \<and> d = permissions_dict ps"
  shows "permission_of (group_get_permission_for_user_resource c db key n) = found (d key)"
  using assms permissions_dict_group by blast

section \<open>Lists\<close>

lemma batch_loop_fresh:
  assumes "\<And>x wc. x \<in> set xs \<Longrightarrow> P wc \<Longrightarrow> \<exists>wc'. resolve x wc = (fresh (key x), wc') \<and> P wc'"
    and "P wc" and "batch_loop key resolve xs d wc = (Inr d', wc')"
  shows "(\<forall>x \<in> set xs. \<exists>r. fresh (key x) = Inr r \<and> d' (key x) = Some r) \<and>
    (\<forall>k. k \<notin> key ` set xs \<longrightarrow> d' k = d k)"
  using assms
proof (induction xs arbitrary: d wc)
  case Nil
  then show ?case by simp
next
  case (Cons x xs)
  from Cons.prems(1) [of x, OF _ Cons.prems(2)] obtain w1 where
    w1: "resolve x wc = (fresh (key x), w1)" "P w1" by auto
  from Cons.prems(3) w1(1) obtain r where r: "fresh (key x) = Inr r"
    and rest: "batch_loop key resolve xs (d(key x \<mapsto> r)) w1 = (Inr d', wc')"
    by (cases "fresh (key x)") (auto simp: act_bind_def)
  have "(\<forall>x \<in> set xs. \<exists>r. fresh (key x) = Inr r \<and> d' (key x) = Some r) \<and>
    (\<forall>k. k \<notin> key ` set xs \<longrightarrow> d' k = (d(key x \<mapsto> r)) k)"
    using Cons.prems(1) by (intro Cons.IH [OF _ w1(2) rest]) auto
  with r show ?case by (cases "key x \<in> key ` set xs") auto
qed

lemma map_of_find: "map_of (map (\<lambda>r. (f r, g r)) rs) k = map_option g (find (\<lambda>r. f r = k) rs)"
  by (induction rs) auto

section \<open>Experiments\<close>

lemma batch_experiment_same:
  assumes "db_wf db" and "group_perms_valid db" and "build_user_permission_context db n = Inr ctx"
    and "unambiguous Experiment db (ResourceId i) n" and "experiment_name env i = Inr name"
    and "compiles env name (experiment_regex_permissions ctx)"
    and "compiles env name (group_experiment_regex_permissions ctx)"
    and "local_get (permission_cache caches) (make_cache_key EXPERIMENT i n) = None"
    and "effective_experiment_permission config env db ws i n caches = (res, caches')"
  shows "resolve_experiment_permission_from_context config env db ws ctx i (Some name)
      (workspace_cache caches) = (res, workspace_cache caches')"
proof -
  from build_user_permission_context_Inr [OF assms(3)] obtain gids where
    gids: "list_group_ids_for_user db n = Inr gids" and name: "ctx_username ctx = n"
    and us: "list_regex_for_user Experiment db n = Inr (experiment_regex_permissions ctx)"
    and gs: "group_experiment_regex_permissions ctx =
           group_regex_list_permissions_for_groups_ids Experiment db gids"
    and ud: "\<exists>ps. user_list_permissions_for_user Experiment db n = Inr ps \<and>
           user_experiment_permissions ctx = permissions_dict ps"
    and gd: "\<exists>ps. group_list_permissions_for_user_groups Experiment db n = Inr ps \<and>
           group_experiment_permissions ctx = permissions_dict ps"
    by metis
  have reg: "map_of PERMISSION_REGISTRY EXPERIMENT =
      Some (\<lambda>env db i u kw. Inr (build_experiment_sources env db i u))"
    by (simp add: PERMISSION_REGISTRY_def)
  have "bind_result ((\<lambda>env db i u kw. Inr (build_experiment_sources env db i u)) env db i n None)
        (get_permission_from_store_or_default config) =
      bind_result (find_regex_permission env (experiment_regex_permissions ctx) name) (\<lambda>ur.
      bind_result (find_regex_permission env (group_experiment_regex_permissions ctx) name) (\<lambda>gr.
      resolve_permission_from_context config (user_experiment_permissions ctx (ResourceId i))
        (group_experiment_permissions ctx (ResourceId i)) ur gr))"
    by (rule four_sources [OF _ assms(6) _ assms(7)])
       (auto simp: build_experiment_sources_def context_user [OF assms(1) ud] gids us gs assms(5)
          context_group [OF assms(1,2,4) gd] get_experiment_permission_from_regex_def
          get_experiment_group_permission_from_regex_def)
  with resolve_permission_two_steps [OF reg assms(8)]
    assms(9) [unfolded effective_experiment_permission_def]
  show ?thesis
    by (simp add: resolve_experiment_permission_from_context_def name act_bind_def)
qed

section \<open>Properties\<close>

lemma context_resolution_off:
  assumes "\<not> MLFLOW_ENABLE_WORKSPACES config"
  shows "resolve_experiment_permission_from_context config env db w ctx i name =
    resolve_experiment_permission_from_context config env db w' ctx i name"
proof -
  have "apply_workspace_fallback config env db w u r c = apply_workspace_fallback config env db w' u r c" for u r c
    using assms by (simp add: apply_workspace_fallback_def)
  then show ?thesis unfolding resolve_experiment_permission_from_context_def by presburger
qed

text \<open>C28: Against a context of the same database an experiment resolves exactly as by
  \<open>effective_experiment_permission\<close> on a cache miss, answer and workspace cache alike, when the
  permissions of groups have valid names, at most one group of the user has a permission on it, the
  stored patterns compile, and, with workspaces enabled, MLflow's context variable, which the batch
  reads, holds the workspace that Flask's environment gives the single resolution.\<close>

theorem batch_experiment_agrees:
  assumes "db_wf db" and "group_perms_valid db" and "build_user_permission_context db n = Inr ctx"
    and "unambiguous Experiment db (ResourceId i) n" and "experiment_name env i = Inr name"
    and "compiles env name (experiment_regex_permissions ctx)"
    and "compiles env name (group_experiment_regex_permissions ctx)"
    and "local_get (permission_cache caches) (make_cache_key EXPERIMENT i n) = None"
    and "effective_experiment_permission config env db flask_workspace i n caches = (res, caches')"
    and "MLFLOW_ENABLE_WORKSPACES config \<Longrightarrow> context_workspace = flask_workspace"
  shows "resolve_experiment_permission_from_context config env db context_workspace ctx i (Some name)
      (workspace_cache caches) = (res, workspace_cache caches')"
proof -
  have "resolve_experiment_permission_from_context config env db context_workspace ctx i (Some name) =
      resolve_experiment_permission_from_context config env db flask_workspace ctx i (Some name)"
    using assms(10) context_resolution_off by (cases "MLFLOW_ENABLE_WORKSPACES config") (blast, metis)
  with batch_experiment_same [OF assms(1-9)] show ?thesis by simp
qed

text \<open>Where only the context variable has a workspace, as in the routes outside Flask, the two differ on
  every experiment without a permission: the fallback of the batch is the permission on the workspace or
  none, that of the single resolution the default permission.\<close>

theorem fallback_needs_a_workspace:
  assumes "pr_kind r = ''fallback''" and "MLFLOW_ENABLE_WORKSPACES config" and "w \<noteq> ''''"
  shows "apply_workspace_fallback config env db None n r cache = (Inr r, cache) \<and>
    (\<exists>r' cache'. apply_workspace_fallback config env db (Some w) n r cache = (Inr r', cache') \<and>
       pr_kind r' \<in> {''workspace'', ''workspace-deny''})"
  using assms by (auto simp: apply_workspace_fallback_def split: prod.split option.split)

text \<open>The group permissions of a context are those of the last matching row in the order of
  the table, over all groups of the user, whichever permission is higher.\<close>

theorem batch_group_takes_last_row:
  assumes "build_user_permission_context db n = Inr ctx" and "get_user db n = Inr u"
  shows "group_experiment_permissions ctx key =
    map_option gp_permission (find (\<lambda>r. gp_key r = key)
      (rev (filter (\<lambda>r. gp_group r \<in> ug_group ` set (list_user_groups db u))
        (db_group_perms db Experiment))))"
proof -
  from build_user_permission_context_Inr [OF assms(1)] obtain ps where
    "group_list_permissions_for_user_groups Experiment db n = Inr ps"
    "group_experiment_permissions ctx = permissions_dict ps" by metis
  with assms(2) show ?thesis
    by (auto simp: group_list_permissions_for_user_groups_def permissions_dict_def dict_of_def
        rev_map comp_def map_of_find [of gp_key gp_permission])
qed

text \<open>One user, two groups: the context has the lower permission, the repository the higher.\<close>

definition two_groups_db :: db where
  "two_groups_db = example_db\<lparr>db_group_perms := (\<lambda>_. [])(Experiment :=
     [\<lparr>gp_id = 1, gp_key = ResourceId ''20'', gp_group = 2, gp_permission = ''EDIT'', gp_prompt = False\<rparr>,
      \<lparr>gp_id = 2, gp_key = ResourceId ''20'', gp_group = 1, gp_permission = ''READ'', gp_prompt = False\<rparr>])\<rparr>"

lemma two_groups_sel [simp]:
  "db_users two_groups_db = db_users example_db"
  "db_groups two_groups_db = db_groups example_db"
  "db_user_groups two_groups_db = db_user_groups example_db"
  "db_user_perms two_groups_db = db_user_perms example_db"
  "db_group_perms two_groups_db Experiment =
     [\<lparr>gp_id = 1, gp_key = ResourceId ''20'', gp_group = 2, gp_permission = ''EDIT'', gp_prompt = False\<rparr>,
      \<lparr>gp_id = 2, gp_key = ResourceId ''20'', gp_group = 1, gp_permission = ''READ'', gp_prompt = False\<rparr>]"
  by (simp_all add: two_groups_db_def)

lemma two_groups_alice [simp]:
  "get_user two_groups_db ''alice'' = Inr (db_users example_db ! 0)"
  by (simp add: get_user_def)

theorem batch_group_takes_last_row_witness:
  "\<exists>ctx. build_user_permission_context two_groups_db ''alice'' = Inr ctx \<and>
     group_experiment_permissions ctx (ResourceId ''20'') = Some ''READ'' \<and>
     permission_of (group_get_permission_for_user_resource Experiment two_groups_db (ResourceId ''20'')
       ''alice'') = Inr ''EDIT''"
proof -
  let ?ctx = "projr (build_user_permission_context two_groups_db ''alice'')"
  have built: "build_user_permission_context two_groups_db ''alice'' = Inr ?ctx"
    by (simp add: build_user_permission_context_def list_group_ids_for_user_def
        user_list_permissions_for_user_def group_list_permissions_for_user_groups_def
        list_regex_for_user_def registered_model_list_for_user_def
        registered_model_list_regex_for_user_def Let_def)
  have last: "group_experiment_permissions ?ctx (ResourceId ''20'') = Some ''READ''"
    by (subst batch_group_takes_last_row [OF built two_groups_alice])
       (simp add: list_user_groups_def)
  have "list_groups_for_user two_groups_db ''alice'' = Inr [''devs'', ''ops'']"
    by (simp add: list_groups_for_user_def list_user_groups_def)
  then have "permission_of (group_get_permission_for_user_resource Experiment two_groups_db
      (ResourceId ''20'') ''alice'') = Inr ''EDIT''"
    by (simp add: group_get_permission_for_user_resource_def group_list_user_groups_eq
        group_get_permission_or_none_def compare_permissions_valid permission_of_def)
  with built last show ?thesis by blast
qed

lemma example_context:
  "build_user_permission_context example_db ''alice'' =
   Inr (projr (build_user_permission_context example_db ''alice''))"
  by (simp add: build_user_permission_context_def list_group_ids_for_user_def
      user_list_permissions_for_user_def group_list_permissions_for_user_groups_def
      list_regex_for_user_def registered_model_list_for_user_def
      registered_model_list_regex_for_user_def Let_def)

lemma example_compiles [simp]: "compiles example_outside name rs"
  by (simp add: compiles_def example_outside_def)

lemma example_unambiguous:
  assumes "i \<noteq> ''20''"
  shows "unambiguous Experiment example_db (ResourceId i) ''alice''"
proof -
  have "\<forall>r \<in> set (db_group_perms example_db Experiment). gp_key r = ResourceId ''20''"
    by (simp add: example_db_def)
  then have "user_group_rows Experiment example_db (ResourceId i) ''alice'' = {}"
    unfolding user_group_rows_eq [OF example_db_wf example_get_user(1)] using assms by auto
  then show ?thesis by (simp add: unambiguous_def)
qed

theorem batch_experiment_agrees_witness:
  "\<exists>res caches'. effective_experiment_permission default_config example_outside example_db None
      ''10'' ''alice'' empty_caches = (res, caches') \<and>
    resolve_experiment_permission_from_context default_config example_outside example_db None
      (projr (build_user_permission_context example_db ''alice'')) ''10'' (Some ''10'')
      (workspace_cache empty_caches) = (res, workspace_cache caches')"
proof -
  obtain res caches' where r: "effective_experiment_permission default_config example_outside example_db
      None ''10'' ''alice'' empty_caches = (res, caches')" by fastforce
  have n: "experiment_name example_outside ''10'' = Inr ''10''" by (simp add: example_outside_def)
  have m: "local_get (permission_cache empty_caches) (make_cache_key EXPERIMENT ''10'' ''alice'') = None"
    by (simp add: empty_caches_def local_get_def)
  from r batch_experiment_agrees [OF example_db_wf example_group_perms_valid example_context
      example_unambiguous n example_compiles example_compiles m r refl]
  show ?thesis by simp
qed

text \<open>With exact caches, the experiments a batch filter keeps are exactly those that a fresh
  single resolution allows the user to manage, when no experiment of the list has permissions
  from two groups of the user and the stored patterns compile.\<close>

theorem batch_filter_keeps_manageable:
  assumes "db_wf db" and "group_perms_valid db" and "build_user_permission_context db n = Inr ctx"
    and "exact_caches config env db w caches" and "colon_free n"
    and "\<forall>(i, name) \<in> set exps. unambiguous Experiment db (ResourceId i) n \<and>
           experiment_name env i = Inr name \<and> compiles env name (experiment_regex_permissions ctx) \<and>
           compiles env name (group_experiment_regex_permissions ctx)"
    and "filter_manageable_experiments config env db w n exps (workspace_cache caches) = (Inr kept, wc')"
  shows "kept = filter (\<lambda>(i, name). \<exists>r. resolve_fresh config env db w EXPERIMENT i n None = Inr r \<and>
      can_manage (pr_permission r)) exps"
proof -
  let ?res = "\<lambda>x. resolve_experiment_permission_from_context config env db w ctx (fst x) (Some (snd x))"
  let ?fresh = "\<lambda>i. resolve_fresh config env db w EXPERIMENT i n None"
  define P where "P wc \<longleftrightarrow> exact_caches config env db w
      \<lparr>permission_cache = (\<lambda>_. None), workspace_cache = wc\<rparr>" for wc
  have step: "\<exists>wc2. ?res x wc1 = (?fresh (fst x), wc2) \<and> P wc2" if "x \<in> set exps" and "P wc1" for x wc1
  proof -
    obtain i name where x: "x = (i, name)" by fastforce
    let ?c = "\<lparr>permission_cache = (\<lambda>_. None), workspace_cache = wc1\<rparr>"
    obtain r c where eff: "effective_experiment_permission config env db w i n ?c = (r, c)" by fastforce
    have t: "EXPERIMENT \<in> set resource_types" "EXPERIMENT \<noteq> SCORER"
      by (simp_all add: resource_types_def PERMISSION_REGISTRY_def resource_type_defs)
    from resolve_permission_exact [OF that(2) [unfolded P_def] assms(5) t(1)
        eff [unfolded effective_experiment_permission_def]] t(2)
    have r: "r = ?fresh i" and c: "exact_caches config env db w c" by simp_all
    have ok: "unambiguous Experiment db (ResourceId i) n" "experiment_name env i = Inr name"
      "compiles env name (experiment_regex_permissions ctx)"
      "compiles env name (group_experiment_regex_permissions ctx)"
      using assms(6) that(1) x by auto
    have "?res x wc1 = (r, workspace_cache c)"
      using batch_experiment_same [OF assms(1,2,3) ok _ eff] by (simp add: x local_get_def)
    moreover have "P (workspace_cache c)"
      using c unfolding P_def exact_caches_def by (simp add: local_get_def)
    ultimately show ?thesis using r x by auto
  qed
  have start: "P (workspace_cache caches)"
    using assms(4) unfolding P_def exact_caches_def by (simp add: local_get_def)
  from assms(3,7) obtain perms where
    loop: "batch_loop fst ?res exps Map.empty (workspace_cache caches) = (Inr perms, wc')"
    and kept: "kept = filter (\<lambda>x. manageable perms (fst x)) exps"
    by (auto simp: filter_manageable_experiments_def batch_resolve_experiment_permissions_def
        act_bind_def split: prod.splits sum.splits)
  from batch_loop_fresh [where P = P and fresh = ?fresh, OF step start loop]
  show ?thesis unfolding kept by (auto simp: manageable_def intro!: filter_cong)
qed

text \<open>Alice may read experiment 10; experiment 30 has the default permission.\<close>

lemma example_context_fields:
  "user_experiment_permissions (projr (build_user_permission_context example_db ''alice'')) =
     [ResourceId ''10'' \<mapsto> ''READ'']"
  "group_experiment_permissions (projr (build_user_permission_context example_db ''alice'')) =
     [ResourceId ''20'' \<mapsto> ''EDIT'']"
  "map re_regex (experiment_regex_permissions
     (projr (build_user_permission_context example_db ''alice''))) = [''a'', ''b'']"
  "map re_regex (group_experiment_regex_permissions
     (projr (build_user_permission_context example_db ''alice''))) = [''a'']"
  "ctx_username (projr (build_user_permission_context example_db ''alice'')) = ''alice''"
proof -
  have tables: "db_user_perms example_db Experiment =
      [\<lparr>up_id = 1, up_key = ResourceId ''10'', up_user = 1, up_permission = ''READ''\<rparr>]"
    "map (\<lambda>r. (gp_key r, gp_group r, gp_permission r)) (db_group_perms example_db Experiment) =
      [(ResourceId ''20'', 1, ''READ''), (ResourceId ''20'', 2, ''EDIT'')]"
    by (simp_all add: example_db_def)
  show "user_experiment_permissions (projr (build_user_permission_context example_db ''alice'')) =
     [ResourceId ''10'' \<mapsto> ''READ'']"
    by (simp add: build_user_permission_context_def list_group_ids_for_user_def
      user_list_permissions_for_user_def group_list_permissions_for_user_groups_def
      list_regex_for_user_def registered_model_list_for_user_def permissions_dict_def dict_of_def
      registered_model_list_regex_for_user_def Let_def tables)
  show "group_experiment_permissions (projr (build_user_permission_context example_db ''alice'')) =
     [ResourceId ''20'' \<mapsto> ''EDIT'']"
    by (simp add: build_user_permission_context_def list_group_ids_for_user_def
      user_list_permissions_for_user_def group_list_permissions_for_user_groups_def
      list_regex_for_user_def registered_model_list_for_user_def permissions_dict_def dict_of_def
      registered_model_list_regex_for_user_def Let_def list_user_groups_def)
     (simp add: example_db_def fun_eq_iff)
  show "map re_regex (experiment_regex_permissions
     (projr (build_user_permission_context example_db ''alice''))) = [''a'', ''b'']"
    by (simp add: build_user_permission_context_def list_group_ids_for_user_def
      user_list_permissions_for_user_def group_list_permissions_for_user_groups_def
      list_regex_for_user_def registered_model_list_for_user_def
      registered_model_list_regex_for_user_def Let_def)
     (simp add: example_db_def)
  show "map re_regex (group_experiment_regex_permissions
     (projr (build_user_permission_context example_db ''alice''))) = [''a'']"
    by (simp add: build_user_permission_context_def list_group_ids_for_user_def
      user_list_permissions_for_user_def group_list_permissions_for_user_groups_def
      list_regex_for_user_def registered_model_list_for_user_def list_user_groups_def
      group_regex_list_permissions_for_groups_ids_def list_group_permissions_def
      registered_model_list_regex_for_user_def Let_def)
     (simp add: example_db_def)
  show "ctx_username (projr (build_user_permission_context example_db ''alice'')) = ''alice''"
    by (simp add: build_user_permission_context_def list_group_ids_for_user_def
      user_list_permissions_for_user_def group_list_permissions_for_user_groups_def
      list_regex_for_user_def registered_model_list_for_user_def
      registered_model_list_regex_for_user_def Let_def)
qed

lemma find_regex_permission_none:
  "(\<And>p. p \<in> set (map re_regex rs) \<Longrightarrow> re_match env p name = Inr False) \<Longrightarrow>
   find_regex_permission env rs name = Inr None"
  by (induction rs) auto

theorem batch_filter_keeps_manageable_witness:
  "\<exists>kept wc'. filter_manageable_experiments default_config example_outside example_db None ''alice''
      [(''10'', ''10''), (''30'', ''30'')] (workspace_cache empty_caches) = (Inr kept, wc') \<and>
    kept = [(''30'', ''30'')] \<and>
    kept = filter (\<lambda>(i, name). \<exists>r. resolve_fresh default_config example_outside example_db None
      EXPERIMENT i ''alice'' None = Inr r \<and> can_manage (pr_permission r)) [(''10'', ''10''), (''30'', ''30'')]"
proof -
  define ctx where "ctx = projr (build_user_permission_context example_db ''alice'')"
  note ctx = example_context [folded ctx_def] and fields = example_context_fields [folded ctx_def]
  have rx: "find_regex_permission example_outside (experiment_regex_permissions ctx) n = Inr None"
    "find_regex_permission example_outside (group_experiment_regex_permissions ctx) n = Inr None"
    if "n = ''10'' \<or> n = ''30''" for n
    using that by (intro find_regex_permission_none; unfold fields; auto simp: example_outside_def)+
  have "act_bind (act_read (\<lambda>_. Inr ctx)) f = f ctx" for f :: "_ \<Rightarrow> ('b, 's) action"
    by (simp add: act_bind_def fun_eq_iff)
  then have run: "filter_manageable_experiments default_config example_outside example_db None ''alice''
      [(''10'', ''10''), (''30'', ''30'')] (workspace_cache empty_caches) =
      (Inr [(''30'', ''30'')], workspace_cache empty_caches)"
    unfolding filter_manageable_experiments_def batch_resolve_experiment_permissions_def ctx
    by (simp add: resolve_experiment_permission_from_context_def rx act_bind_def
        fields resolve_permission_from_context_def default_config_def
        context_source_map_def apply_workspace_fallback_def manageable_def MANAGE_def READ_def)
  have ok: "\<forall>(i, name) \<in> set [(''10'', ''10''), (''30'', ''30'')].
      unambiguous Experiment example_db (ResourceId i) ''alice'' \<and>
      experiment_name example_outside i = Inr name \<and>
      compiles example_outside name (experiment_regex_permissions
        (projr (build_user_permission_context example_db ''alice''))) \<and>
      compiles example_outside name (group_experiment_regex_permissions
        (projr (build_user_permission_context example_db ''alice'')))"
    by (simp add: example_unambiguous) (simp add: example_outside_def)
  from run batch_filter_keeps_manageable [OF example_db_wf example_group_perms_valid example_context
      exact_empty _ ok run]
  show ?thesis by (simp add: colon_free_def)
qed

end
