(* ===== verification/Request.thy ===== *)
theory Request
  imports Complex_Main Prelude "HOL-Library.Sublist"
begin

text \<open>
  Requests and their parameters: the parts of a Flask request that the plugin reads, the
  authentication context of \<^verbatim>\<open>bridge/user.py\<close>, and \<^verbatim>\<open>utils/request_helpers.py\<close>.
  MLflow's tracking store is a parameter, one function for each lookup the code makes. A
  parsed body is a JSON value whose objects have unique keys; no body, or one that does not
  parse, is \<open>None\<close>. Python's \<open>None\<close> as the value of a parameter is \<open>JNull\<close>.
\<close>

section \<open>JSON values, as Python sees them\<close>

datatype json =
    JNull
  | JBool bool
  | JNumber rat
  | JString string
  | JArray "json list"
  | JObject "(string \<times> json) list"

primrec truthy :: "json \<Rightarrow> bool" where
  "truthy JNull = False"
| "truthy (JBool b) = b"
| "truthy (JNumber n) = (n \<noteq> 0)"
| "truthy (JString s) = (s \<noteq> [])"
| "truthy (JArray xs) = (xs \<noteq> [])"
| "truthy (JObject kvs) = (kvs \<noteq> [])"

definition py_space :: "char \<Rightarrow> bool" where
  "py_space c \<longleftrightarrow> of_char c \<in> set [9, 10, 11, 12, 13, 28, 29, 30, 31, 32, 133, 160 :: nat]"

definition blank :: "json \<Rightarrow> bool" where
  "blank v \<longleftrightarrow> \<not> truthy v \<or> (case v of JString s \<Rightarrow> list_all py_space s | _ \<Rightarrow> False)"

text \<open>\<^verbatim>\<open>for x in v\<close>, \<^verbatim>\<open>v.get(key)\<close> and \<^verbatim>\<open>key in v and v[key]\<close> on a JSON value.\<close>

definition py_iter :: "json \<Rightarrow> json list result" where
  "py_iter v =
     (case v of
        JArray xs \<Rightarrow> Inr xs
      | JString s \<Rightarrow> Inr (map (\<lambda>c. JString [c]) s)
      | JObject kvs \<Rightarrow> Inr (map (JString \<circ> fst) kvs)
      | _ \<Rightarrow> Inl OtherError)"

definition py_get :: "json \<Rightarrow> string \<Rightarrow> json result" where
  "py_get v key =
     (case v of
        JObject kvs \<Rightarrow> Inr (case map_of kvs key of None \<Rightarrow> JNull | Some x \<Rightarrow> x)
      | _ \<Rightarrow> Inl OtherError)"

definition py_lookup :: "json \<Rightarrow> string \<Rightarrow> json option result" where
  "py_lookup v key =
     (if \<not> truthy v then Inr None
      else case v of
        JObject kvs \<Rightarrow> Inr (map_of kvs key)
      | JArray xs \<Rightarrow> if JString key \<in> set xs then Inl OtherError else Inr None
      | JString s \<Rightarrow> if sublist key s then Inl OtherError else Inr None
      | _ \<Rightarrow> Inl OtherError)"

definition or_empty :: "json option \<Rightarrow> json" where
  "or_empty v = (case v of Some j \<Rightarrow> if truthy j then j else JObject [] | None \<Rightarrow> JObject [])"

lemma blank_JString [simp]: "blank (JString s) \<longleftrightarrow> list_all py_space s"
  by (auto simp: blank_def)

section \<open>Requests\<close>

record auth_context =
  ac_username :: string
  ac_is_admin :: bool
  ac_workspace :: "string option"

text \<open>The query string and a form are multi-dictionaries: the first value of a key counts.\<close>

record request =
  rq_path :: string
  rq_method :: string
  rq_view_args :: "(string \<times> string) list option"
  rq_args :: "(string \<times> string) list"
  rq_form :: "(string \<times> string) list"
  rq_is_json :: bool
  rq_body :: "json option"
  rq_content_length :: "int option"
  rq_auth :: "auth_context option"

definition get_json :: "request \<Rightarrow> json option" where
  "get_json rq = (if rq_is_json rq then rq_body rq else None)"

definition get_json_force :: "request \<Rightarrow> json option" where
  "get_json_force rq = rq_body rq"

definition request_json :: "request \<Rightarrow> json result" where
  "request_json rq = (case get_json rq of Some v \<Rightarrow> Inr v | None \<Rightarrow> Inl OtherError)"

definition getlist :: "(string \<times> string) list \<Rightarrow> string \<Rightarrow> string list" where
  "getlist kvs key = map snd (filter (\<lambda>kv. fst kv = key) kvs)"

definition multi_dict :: "(string \<times> string) list \<Rightarrow> json" where
  "multi_dict kvs = JObject (map (\<lambda>(k, v). (k, JString v)) kvs)"

section \<open>The authentication context\<close>

definition get_auth_context :: "request \<Rightarrow> auth_context result" where
  "get_auth_context rq = (case rq_auth rq of Some c \<Rightarrow> Inr c | None \<Rightarrow> Inl OtherError)"

definition get_fastapi_username :: "request \<Rightarrow> string result" where
  "get_fastapi_username rq =
     (case get_auth_context rq of
        Inr c \<Rightarrow> if ac_username c \<noteq> '''' then Inr (ac_username c) else Inl OtherError
      | Inl _ \<Rightarrow> Inl OtherError)"

definition get_fastapi_admin_status :: "request \<Rightarrow> bool" where
  "get_fastapi_admin_status rq = (case get_auth_context rq of Inr c \<Rightarrow> ac_is_admin c | Inl _ \<Rightarrow> False)"

definition get_request_workspace :: "request \<Rightarrow> string option" where
  "get_request_workspace rq = (case get_auth_context rq of Inr c \<Rightarrow> ac_workspace c | Inl _ \<Rightarrow> None)"

section \<open>MLflow's stores\<close>

text \<open>
  What the code reads of MLflow's tracking store and job store: the experiment of a name, a
  run, a logged model and a trace, the names behind the ids of gateway resources, the
  parameters of a job. \<open>ts_bind_text\<close> is how the database driver binds a value that is not a
  string to a text column, \<open>ts_str\<close> is Python's \<^verbatim>\<open>str\<close> on it.
\<close>

record tracking =
  ts_experiment_by_name :: "json \<Rightarrow> string option result"
  ts_run_experiment :: "json \<Rightarrow> string result"
  ts_logged_model_experiment :: "json \<Rightarrow> string result"
  ts_trace_experiment :: "json \<Rightarrow> string result"
  ts_gateway_endpoint_name :: "json \<Rightarrow> string result"
  ts_secret_name :: "json \<Rightarrow> string result"
  ts_model_definition_name :: "json \<Rightarrow> string result"
  ts_job_params :: "json \<Rightarrow> json result"
  ts_bind_text :: "json \<Rightarrow> string result"
  ts_str :: "json \<Rightarrow> string"

definition db_text :: "tracking \<Rightarrow> json \<Rightarrow> string result" where
  "db_text ts v = (case v of JString s \<Rightarrow> Inr s | _ \<Rightarrow> ts_bind_text ts v)"

definition py_str :: "tracking \<Rightarrow> json \<Rightarrow> string" where
  "py_str ts v = (case v of JString s \<Rightarrow> s | _ \<Rightarrow> ts_str ts v)"

section \<open>Request parameters\<close>

definition experiment_id_from_name :: "tracking \<Rightarrow> json \<Rightarrow> string result" where
  "experiment_id_from_name ts name =
     (case ts_experiment_by_name ts name of
        Inr (Some i) \<Rightarrow> Inr i
      | Inr None \<Rightarrow> Inl (MlflowException INVALID_PARAMETER_VALUE)
      | Inl (MlflowException c) \<Rightarrow> Inl (MlflowException c)
      | Inl _ \<Rightarrow> Inl (MlflowException INVALID_PARAMETER_VALUE))"

definition view_arg :: "request \<Rightarrow> string \<Rightarrow> string option" where
  "view_arg rq param = (case rq_view_args rq of Some kvs \<Rightarrow> map_of kvs param | None \<Rightarrow> None)"

definition get_url_param :: "request \<Rightarrow> string \<Rightarrow> string result" where
  "get_url_param rq param =
     (case view_arg rq param of
        Some v \<Rightarrow> Inr v
      | None \<Rightarrow> Inl (MlflowException INVALID_PARAMETER_VALUE))"

definition get_optional_url_param :: "request \<Rightarrow> string \<Rightarrow> string option" where
  "get_optional_url_param rq param = view_arg rq param"

definition request_args :: "request \<Rightarrow> json result" where
  "request_args rq =
     (if rq_method rq = ''GET'' then Inr (multi_dict (rq_args rq))
      else if rq_method rq \<in> set [''POST'', ''PATCH'', ''DELETE'']
      then (if rq_is_json rq then request_json rq else Inr (multi_dict (rq_form rq)))
      else Inl (MlflowException BAD_REQUEST))"

definition request_value :: "request \<Rightarrow> string \<Rightarrow> json option result" where
  "request_value rq param = bind_result (request_args rq) (\<lambda>args. py_lookup args param)"

definition required_value :: "json option \<Rightarrow> json result" where
  "required_value v =
     (case v of
        None \<Rightarrow> Inl (MlflowException INVALID_PARAMETER_VALUE)
      | Some x \<Rightarrow> if blank x then Inl (MlflowException INVALID_PARAMETER_VALUE) else Inr x)"

definition get_request_param :: "request \<Rightarrow> string \<Rightarrow> json result" where
  "get_request_param rq param =
     bind_result (request_value rq param) (\<lambda>v.
     if v = None \<and> param = ''run_id''
     then bind_result (request_value rq ''run_uuid'') required_value
     else required_value v)"

definition get_optional_request_param :: "request \<Rightarrow> string \<Rightarrow> json option result" where
  "get_optional_request_param rq param = request_value rq param"

text \<open>The URL first, then the query string, then the body, whatever the method.\<close>

definition extract_param_from_all_sources :: "request \<Rightarrow> string \<Rightarrow> json" where
  "extract_param_from_all_sources rq param =
     (case view_arg rq param of
        Some v \<Rightarrow> JString v
      | None \<Rightarrow>
          (case map_of (rq_args rq) param of
             Some v \<Rightarrow> JString v
           | None \<Rightarrow>
               (case get_json rq of
                  Some (JObject kvs) \<Rightarrow> (case map_of kvs param of Some v \<Rightarrow> v | None \<Rightarrow> JNull)
                | _ \<Rightarrow> JNull)))"

definition get_experiment_id :: "tracking \<Rightarrow> request \<Rightarrow> json result" where
  "get_experiment_id ts rq =
     (let experiment_id = extract_param_from_all_sources rq ''experiment_id'';
          experiment_name = extract_param_from_all_sources rq ''experiment_name''
      in if experiment_id \<noteq> JNull then Inr experiment_id
         else if experiment_name \<noteq> JNull
         then bind_result (experiment_id_from_name ts experiment_name) (\<lambda>i. Inr (JString i))
         else Inl (MlflowException INVALID_PARAMETER_VALUE))"

definition get_model_id :: "request \<Rightarrow> json result" where
  "get_model_id rq =
     (let model_id = extract_param_from_all_sources rq ''model_id''
      in if model_id \<noteq> JNull then Inr model_id else Inl (MlflowException INVALID_PARAMETER_VALUE))"

definition get_model_name :: "request \<Rightarrow> json result" where
  "get_model_name rq =
     (let name = extract_param_from_all_sources rq ''name''
      in if name \<noteq> JNull then Inr name else Inl (MlflowException INVALID_PARAMETER_VALUE))"

text \<open>A value that is returned is present and not blank.\<close>

lemma get_request_param_not_blank: "get_request_param rq param = Inr v \<Longrightarrow> \<not> blank v"
  by (auto simp: get_request_param_def required_value_def split: if_splits option.splits)

lemma get_request_param_method:
  "get_request_param rq param = Inr v \<Longrightarrow> rq_method rq \<in> {''GET'', ''POST'', ''PATCH'', ''DELETE''}"
  by (auto simp: get_request_param_def request_value_def request_args_def split: if_splits)

end
