(* ===== verification/UserRepo.thy ===== *)
theory UserRepo
  imports GroupRepo
begin

text \<open>
  \<^verbatim>\<open>UserRepository\<close> (\<^verbatim>\<open>repository/user.py\<close>). Password hashing and the check of a user name
  are library functions, parameters here; the time of day is an argument. The main results
  are that deleting a user leaves no row behind that refers to it and touches nobody else,
  and when a password authenticates.
\<close>

section \<open>Operations\<close>

definition user_create :: "(string \<Rightarrow> bool) \<Rightarrow> (string \<Rightarrow> string) \<Rightarrow> db \<Rightarrow> string \<Rightarrow> string \<Rightarrow> string \<Rightarrow>
    bool \<Rightarrow> bool \<Rightarrow> (user_entity \<times> db) result" where
  "user_create valid_username generate_password_hash db username password display_name is_admin
      is_service_account =
     (if \<not> valid_username username then Inl (MlflowException INVALID_PARAMETER_VALUE)
      else
        let pwhash = generate_password_hash password;
            u = \<lparr>u_id = db_new_id db (map u_id (db_users db)), u_username = username,
                 u_display_name = display_name, u_password_hash = pwhash,
                 u_password_expiration = None, u_is_admin = is_admin,
                 u_is_service_account = is_service_account\<rparr>
        in on_integrity_error RESOURCE_ALREADY_EXISTS
             (bind_result (insert_row u_username u (db_users db)) (\<lambda>rows.
              let db' = db\<lparr>db_users := rows\<rparr> in Inr (user_to_entity db' u, db'))))"

definition user_get_row :: "db \<Rightarrow> string \<Rightarrow> user result" where
  "user_get_row db username =
     bind_result (query_one_or_none (filter (\<lambda>u. u_username u = username) (db_users db))) (\<lambda>u.
     case u of
       None \<Rightarrow> Inl (MlflowException RESOURCE_DOES_NOT_EXIST)
     | Some u \<Rightarrow> Inr u)"

definition user_get :: "db \<Rightarrow> string \<Rightarrow> user_entity result" where
  "user_get db username =
     bind_result (user_get_row db username) (\<lambda>u. Inr (user_to_entity db u))"

definition user_get_profile :: "db \<Rightarrow> string \<Rightarrow> user_entity result" where
  "user_get_profile db username =
     bind_result (user_get_row db username) (\<lambda>u.
     Inr \<lparr>ue_user = u\<lparr>u_password_hash := ''REDACTED''\<rparr>,
          ue_experiment_permissions = [], ue_registered_model_permissions = [],
          ue_scorer_permissions = [], ue_gateway_endpoint_permissions = [],
          ue_gateway_model_definition_permissions = [], ue_gateway_secret_permissions = [],
          ue_groups = user_groups_relation db u\<rparr>)"

definition user_exist :: "db \<Rightarrow> string \<Rightarrow> bool" where
  "user_exist db username \<longleftrightarrow>
     query_first (filter (\<lambda>u. u_username u = username) (db_users db)) \<noteq> None"

definition user_list :: "db \<Rightarrow> bool \<Rightarrow> bool \<Rightarrow> user_entity list" where
  "user_list db is_service_account all =
     map (user_to_entity db)
       (if \<not> all then filter (\<lambda>u. u_is_service_account u = is_service_account) (db_users db)
        else db_users db)"

definition list_usernames :: "db \<Rightarrow> bool \<Rightarrow> string list" where
  "list_usernames db is_service_account =
     map u_username (filter (\<lambda>u. u_is_service_account u = is_service_account) (db_users db))"

text \<open>The rows hold the one selected column, and the third is read.\<close>

definition list_basic_users :: "db \<Rightarrow> bool \<Rightarrow> (string \<times> string) list result" where
  "list_basic_users db is_service_account =
     (let rows = map (\<lambda>u. [u_username u])
            (filter (\<lambda>u. u_is_service_account u = is_service_account) (db_users db));
          item = (\<lambda>r i. if i < length r then Inr (r ! i) else Inl IndexError)
      in mapM_result (\<lambda>r.
           bind_result (item r 0) (\<lambda>name.
           bind_result (item r 2) (\<lambda>display_name. Inr (name, display_name)))) rows)"

definition set_user_row :: "db \<Rightarrow> user \<Rightarrow> (user \<Rightarrow> user) \<Rightarrow> (user_entity \<times> db) result" where
  "set_user_row db user f =
     bind_result (update_rows u_username (\<lambda>u. u_id u = u_id user) f (db_users db)) (\<lambda>rows.
     let db' = db\<lparr>db_users := rows\<rparr> in Inr (user_to_entity db' (f user), db'))"

definition set_if_some :: "'a option \<Rightarrow> ('a \<Rightarrow> 'b \<Rightarrow> 'b) \<Rightarrow> 'b \<Rightarrow> 'b" where
  "set_if_some x f = (case x of None \<Rightarrow> (\<lambda>b. b) | Some a \<Rightarrow> f a)"

definition user_update :: "(string \<Rightarrow> string) \<Rightarrow> db \<Rightarrow> string \<Rightarrow> string option \<Rightarrow> int option \<Rightarrow>
    bool option \<Rightarrow> bool option \<Rightarrow> (user_entity \<times> db) result" where
  "user_update generate_password_hash db username password password_expiration is_admin
      is_service_account =
     bind_result (get_user db username) (\<lambda>user.
     set_user_row db user
       (\<lambda>u. set_if_some is_service_account (\<lambda>x u. u\<lparr>u_is_service_account := x\<rparr>)
            (set_if_some is_admin (\<lambda>x u. u\<lparr>u_is_admin := x\<rparr>)
            (set_if_some password_expiration (\<lambda>x u. u\<lparr>u_password_expiration := Some x\<rparr>)
            (set_if_some password (\<lambda>x u. u\<lparr>u_password_hash := generate_password_hash x\<rparr>) u)))))"

text \<open>\<open>get_user\<close> raises for an unknown name, so the tests for None that follow it never hold.\<close>

definition user_rename_username ::
    "(string \<Rightarrow> bool) \<Rightarrow> db \<Rightarrow> string \<Rightarrow> string \<Rightarrow> (user_entity \<times> db) result" where
  "user_rename_username valid_username db old_username new_username =
     (if \<not> valid_username new_username then Inl (MlflowException INVALID_PARAMETER_VALUE)
      else bind_result (get_user db old_username) (\<lambda>user.
           on_integrity_error RESOURCE_ALREADY_EXISTS
             (set_user_row db user (\<lambda>u. u\<lparr>u_username := new_username\<rparr>))))"

definition update_displayname :: "db \<Rightarrow> string \<Rightarrow> string \<Rightarrow> (user_entity \<times> db) result" where
  "update_displayname db username display_name =
     bind_result (get_user db username) (\<lambda>user.
     on_integrity_error RESOURCE_ALREADY_EXISTS
       (set_user_row db user (\<lambda>u. u\<lparr>u_display_name := display_name\<rparr>)))"

definition delete_user_perm_rows :: "resource_class \<Rightarrow> nat \<Rightarrow> db \<Rightarrow> db" where
  "delete_user_perm_rows c user_id db =
     db\<lparr>db_user_perms := (db_user_perms db)
          (c := delete_rows (\<lambda>r. up_user r = user_id) (db_user_perms db c))\<rparr>"

definition delete_user_regex_rows :: "resource_class \<Rightarrow> nat \<Rightarrow> db \<Rightarrow> db" where
  "delete_user_regex_rows c user_id db =
     db\<lparr>db_regex_perms := (db_regex_perms db)
          (c := delete_rows (\<lambda>r. rp_user r = user_id) (db_regex_perms db c))\<rparr>"

definition user_delete :: "db \<Rightarrow> string \<Rightarrow> db result" where
  "user_delete db username =
     bind_result (get_user db username) (\<lambda>user.
     let user_id = u_id user;
         db = delete_user_perm_rows Experiment user_id db;
         db = delete_user_regex_rows Experiment user_id db;
         db = delete_user_perm_rows RegisteredModel user_id db;
         db = delete_user_regex_rows RegisteredModel user_id db;
         db = delete_user_perm_rows Scorer user_id db;
         db = delete_user_regex_rows Scorer user_id db;
         db = delete_user_perm_rows GatewayEndpoint user_id db;
         db = delete_user_regex_rows GatewayEndpoint user_id db;
         db = delete_user_perm_rows GatewaySecret user_id db;
         db = delete_user_regex_rows GatewaySecret user_id db;
         db = delete_user_perm_rows GatewayModelDefinition user_id db;
         db = delete_user_regex_rows GatewayModelDefinition user_id db;
         db = db\<lparr>db_ws_perms := delete_rows (\<lambda>r. wp_user r = user_id) (db_ws_perms db)\<rparr>;
         db = delete_user_regex_rows Workspace user_id db;
         db = db\<lparr>db_quotas := delete_rows (\<lambda>r. q_user r = user_id) (db_quotas db)\<rparr>;
         db = db\<lparr>db_user_groups := delete_rows (\<lambda>r. ug_user r = user_id) (db_user_groups db)\<rparr>
     in Inr (db\<lparr>db_users := delete_rows (\<lambda>u. u_id u = user_id) (db_users db)\<rparr>))"

definition authenticate :: "(string \<Rightarrow> string \<Rightarrow> bool) \<Rightarrow> int \<Rightarrow> db \<Rightarrow> string \<Rightarrow> string \<Rightarrow> bool" where
  "authenticate check_password_hash now db username password =
     (case get_user db username of
        Inl _ \<Rightarrow> False
      | Inr user \<Rightarrow>
          (case u_password_expiration user of
             Some t \<Rightarrow> if t < now then False else check_password_hash (u_password_hash user) password
           | None \<Rightarrow> check_password_hash (u_password_hash user) password))"

section \<open>Reading users\<close>

lemma user_get_row_eq:
  assumes "db_wf db"
  shows "user_get_row db n = get_user db n"
proof (cases "get_user db n")
  case (Inl e)
  with get_user_Inl [OF assms Inl] have "filter (\<lambda>u. u_username u = n) (db_users db) = []"
    by (auto simp: filter_empty_conv)
  with Inl get_user_Inl [OF assms Inl] show ?thesis by (simp add: user_get_row_def)
next
  case (Inr u)
  then have "filter (\<lambda>u. u_username u = n) (db_users db) = [u]"
    by (simp add: get_user_def query_one_mlflow_Inr)
  with Inr show ?thesis by (simp add: user_get_row_def)
qed

lemma user_exist_iff: "user_exist db n \<longleftrightarrow> n \<in> u_username ` set (db_users db)"
proof -
  have "query_first xs \<noteq> None \<longleftrightarrow> xs \<noteq> []" for xs :: "'a list" by (cases xs) simp_all
  then have "user_exist db n \<longleftrightarrow> filter (\<lambda>u. u_username u = n) (db_users db) \<noteq> []"
    unfolding user_exist_def .
  then show ?thesis by (auto simp: filter_empty_conv)
qed

lemma list_basic_users_raises:
  assumes "u \<in> set (db_users db)"
  shows "list_basic_users db (u_is_service_account u) = Inl IndexError"
proof -
  have "filter (\<lambda>v. u_is_service_account v = u_is_service_account u) (db_users db) \<noteq> []"
    using assms by (auto simp: filter_empty_conv)
  then show ?thesis
    by (cases "filter (\<lambda>v. u_is_service_account v = u_is_service_account u) (db_users db)")
       (simp_all add: list_basic_users_def)
qed

section \<open>Changing users\<close>

lemma user_create_Inr:
  assumes "user_create vu gh db n pw dn a s = Inr (e, db')"
  obtains u where "vu n" and "n \<notin> u_username ` set (db_users db)" and "u_username u = n"
    and "u_id u = db_new_id db (map u_id (db_users db))" and "u_password_hash u = gh pw"
    and "u_password_expiration u = None" and "u_is_admin u = a" and "u_is_service_account u = s"
    and "e = user_to_entity db' u" and "db' = db\<lparr>db_users := db_users db @ [u]\<rparr>"
proof -
  let ?u = "\<lparr>u_id = db_new_id db (map u_id (db_users db)), u_username = n,
                 u_display_name = dn, u_password_hash = gh pw,
                 u_password_expiration = None, u_is_admin = a, u_is_service_account = s\<rparr>"
  from assms have "vu n" "n \<notin> u_username ` set (db_users db)" "e = user_to_entity db' ?u"
    "db' = db\<lparr>db_users := db_users db @ [?u]\<rparr>"
    by (auto simp: user_create_def Let_def insert_row_Inr split: if_splits)
  then show ?thesis by (intro that [of ?u]) simp_all
qed

lemma user_create_wf:
  assumes "db_wf db" and "user_create vu gh db n pw dn a s = Inr (e, db')"
  shows "db_wf db'"
  using assms(2)
proof (rule user_create_Inr)
  fix u
  assume u: "n \<notin> u_username ` set (db_users db)" "u_username u = n"
    "u_id u = db_new_id db (map u_id (db_users db))" and d: "db' = db\<lparr>db_users := db_users db @ [u]\<rparr>"
  have "table_ok u_id u_username (db_users db @ [u])"
    using u fresh_keys_new_id [OF assms(1), of u_id "db_users db"]
    by (intro table_ok_append db_wf_keys(1) [OF assms(1)]) auto
  then show ?thesis
    unfolding d by (intro db_wf_set_users assms) (auto simp: user_ids_def)
qed

lemma set_user_row_Inr:
  assumes "set_user_row db user f = Inr (e, db')"
  obtains rows where "rows = set_rows (\<lambda>u. u_id u = u_id user) f (db_users db)"
    and "distinct (map u_username rows)" and "db' = db\<lparr>db_users := rows\<rparr>"
    and "e = user_to_entity db' (f user)"
  using assms by (auto simp: set_user_row_def update_rows_Inr Let_def)

lemma set_user_row_wf:
  assumes "db_wf db" and "set_user_row db user f = Inr (e, db')"
    and "\<And>u. u_id (f u) = u_id u"
  shows "db_wf db'"
  using assms(2)
proof (rule set_user_row_Inr)
  fix rows
  assume rows: "rows = set_rows (\<lambda>u. u_id u = u_id user) f (db_users db)"
    and dist: "distinct (map u_username rows)" and d: "db' = db\<lparr>db_users := rows\<rparr>"
  have ids: "map u_id rows = map u_id (db_users db)"
    unfolding rows by (rule set_rows_map_same) (rule assms(3))
  have "table_ok u_id u_username rows"
    using dist ids db_wf_keys(1) [OF assms(1)] by (simp add: table_ok_def)
  moreover have "user_ids db \<subseteq> u_id ` set rows"
    unfolding user_ids_def using ids by (metis image_set order_refl)
  ultimately show ?thesis unfolding d by (intro db_wf_set_users assms(1))
qed

lemma set_if_some_id:
  assumes "\<And>x u. u_id (f x u) = u_id u"
  shows "u_id (set_if_some x f u) = u_id u"
  by (cases x) (simp_all add: set_if_some_def assms)

lemma user_update_wf:
  "db_wf db \<Longrightarrow> user_update gh db n pw ex a s = Inr (e, db') \<Longrightarrow> db_wf db'"
  by (auto simp: user_update_def set_if_some_id elim!: set_user_row_wf)

lemma user_rename_username_wf:
  "db_wf db \<Longrightarrow> user_rename_username vu db old new = Inr (e, db') \<Longrightarrow> db_wf db'"
  by (auto simp: user_rename_username_def elim!: set_user_row_wf split: if_splits)

lemma update_displayname_wf:
  "db_wf db \<Longrightarrow> update_displayname db n d = Inr (e, db') \<Longrightarrow> db_wf db'"
  by (auto simp: update_displayname_def elim!: set_user_row_wf)

section \<open>Deleting a user\<close>

text \<open>Workspaces have permission tables of their own, so these two hold no rows.\<close>

definition no_workspace_rows :: "db \<Rightarrow> bool" where
  "no_workspace_rows db \<longleftrightarrow> db_user_perms db Workspace = [] \<and> db_group_perms db Workspace = []"

definition user_references :: "db \<Rightarrow> nat \<Rightarrow> bool" where
  "user_references db i \<longleftrightarrow>
     (\<exists>c. \<exists>r \<in> set (db_user_perms db c). up_user r = i) \<or>
     (\<exists>c. \<exists>r \<in> set (db_regex_perms db c). rp_user r = i) \<or>
     (\<exists>r \<in> set (db_ws_perms db). wp_user r = i) \<or>
     (\<exists>r \<in> set (db_quotas db). q_user r = i) \<or>
     (\<exists>r \<in> set (db_user_groups db). ug_user r = i) \<or>
     (\<exists>u \<in> set (db_users db). u_id u = i)"

text \<open>The database without the rows that belong to one user id.\<close>

definition without_user :: "nat \<Rightarrow> db \<Rightarrow> db" where
  "without_user i db =
     db\<lparr>db_user_perms := (\<lambda>c. delete_rows (\<lambda>r. up_user r = i) (db_user_perms db c)),
        db_regex_perms := (\<lambda>c. delete_rows (\<lambda>r. rp_user r = i) (db_regex_perms db c)),
        db_ws_perms := delete_rows (\<lambda>r. wp_user r = i) (db_ws_perms db),
        db_quotas := delete_rows (\<lambda>r. q_user r = i) (db_quotas db),
        db_user_groups := delete_rows (\<lambda>r. ug_user r = i) (db_user_groups db),
        db_users := delete_rows (\<lambda>u. u_id u = i) (db_users db)\<rparr>"

lemma delete_user_rows_fields [simp]:
  "db_user_perms (delete_user_perm_rows c i db) =
     (db_user_perms db)(c := delete_rows (\<lambda>r. up_user r = i) (db_user_perms db c))"
  "db_user_perms (delete_user_regex_rows c i db) = db_user_perms db"
  "db_regex_perms (delete_user_perm_rows c i db) = db_regex_perms db"
  "db_regex_perms (delete_user_regex_rows c i db) =
     (db_regex_perms db)(c := delete_rows (\<lambda>r. rp_user r = i) (db_regex_perms db c))"
  by (simp_all add: delete_user_perm_rows_def delete_user_regex_rows_def)

lemma user_delete_eq:
  assumes "no_workspace_rows db"
  shows "user_delete db n = bind_result (get_user db n) (\<lambda>u. Inr (without_user (u_id u) db))"
proof (cases "get_user db n")
  case (Inl e)
  then show ?thesis by (simp add: user_delete_def)
next
  case (Inr u)
  have p: "db_user_perms db Workspace = []" using assms by (simp add: no_workspace_rows_def)
  have "(\<lambda>c. delete_rows (\<lambda>r. up_user r = u_id u) (db_user_perms db c)) =
      (db_user_perms db)
        (Experiment := delete_rows (\<lambda>r. up_user r = u_id u) (db_user_perms db Experiment),
         RegisteredModel := delete_rows (\<lambda>r. up_user r = u_id u) (db_user_perms db RegisteredModel),
         Scorer := delete_rows (\<lambda>r. up_user r = u_id u) (db_user_perms db Scorer),
         GatewayEndpoint := delete_rows (\<lambda>r. up_user r = u_id u) (db_user_perms db GatewayEndpoint),
         GatewaySecret := delete_rows (\<lambda>r. up_user r = u_id u) (db_user_perms db GatewaySecret),
         GatewayModelDefinition :=
           delete_rows (\<lambda>r. up_user r = u_id u) (db_user_perms db GatewayModelDefinition))" (is "?p = _")
  proof
    fix c
    show "?p c = ((db_user_perms db)
        (Experiment := delete_rows (\<lambda>r. up_user r = u_id u) (db_user_perms db Experiment),
         RegisteredModel := delete_rows (\<lambda>r. up_user r = u_id u) (db_user_perms db RegisteredModel),
         Scorer := delete_rows (\<lambda>r. up_user r = u_id u) (db_user_perms db Scorer),
         GatewayEndpoint := delete_rows (\<lambda>r. up_user r = u_id u) (db_user_perms db GatewayEndpoint),
         GatewaySecret := delete_rows (\<lambda>r. up_user r = u_id u) (db_user_perms db GatewaySecret),
         GatewayModelDefinition :=
           delete_rows (\<lambda>r. up_user r = u_id u) (db_user_perms db GatewayModelDefinition))) c"
      using p by (cases c) (simp_all add: delete_rows_def)
  qed
  moreover have "(\<lambda>c. delete_rows (\<lambda>r. rp_user r = u_id u) (db_regex_perms db c)) =
      (db_regex_perms db)
        (Experiment := delete_rows (\<lambda>r. rp_user r = u_id u) (db_regex_perms db Experiment),
         RegisteredModel := delete_rows (\<lambda>r. rp_user r = u_id u) (db_regex_perms db RegisteredModel),
         Scorer := delete_rows (\<lambda>r. rp_user r = u_id u) (db_regex_perms db Scorer),
         GatewayEndpoint := delete_rows (\<lambda>r. rp_user r = u_id u) (db_regex_perms db GatewayEndpoint),
         GatewaySecret := delete_rows (\<lambda>r. rp_user r = u_id u) (db_regex_perms db GatewaySecret),
         GatewayModelDefinition :=
           delete_rows (\<lambda>r. rp_user r = u_id u) (db_regex_perms db GatewayModelDefinition),
         Workspace := delete_rows (\<lambda>r. rp_user r = u_id u) (db_regex_perms db Workspace))"
    (is "?q = ?q'")
  proof
    show "?q c = ?q' c" for c by (cases c) simp_all
  qed
  ultimately show ?thesis
    using Inr by (simp add: user_delete_def Let_def without_user_def delete_user_perm_rows_def
          delete_user_regex_rows_def)
qed

lemma without_user_no_references: "\<not> user_references (without_user i db) i"
  by (simp add: user_references_def without_user_def)

lemma without_user_wf:
  assumes "db_wf db"
  shows "db_wf (without_user i db)"
proof -
  have ids: "user_ids (without_user i db) = user_ids db - {i}"
    "group_ids (without_user i db) = group_ids db"
    by (auto simp: user_ids_def group_ids_def without_user_def)
  have "db_keys_ok (without_user i db)"
    using assms by (simp add: db_wf_def db_keys_ok_def without_user_def table_ok_delete delete_rows_distinct)
  moreover have "db_refs_ok (without_user i db)"
    using assms unfolding db_wf_def db_refs_ok_def ids by (simp add: without_user_def) blast
  moreover have "fresh_keys (db_new_id (without_user i db))"
    using assms by (simp add: db_wf_def without_user_def)
  ultimately show ?thesis by (simp add: db_wf_def)
qed

lemma user_delete_wf:
  assumes "db_wf db" and "no_workspace_rows db" and "user_delete db n = Inr db'"
  shows "db_wf db'"
  using assms by (auto simp: user_delete_eq intro: without_user_wf)

lemma user_delete_get:
  assumes "db_wf db" and "no_workspace_rows db" and "user_delete db n = Inr db'"
  shows "get_user db' m = (if m = n then Inl (MlflowException RESOURCE_DOES_NOT_EXIST) else get_user db m)"
proof -
  from assms obtain u where u: "get_user db n = Inr u" and d: "db' = without_user (u_id u) db"
    by (auto simp: user_delete_eq)
  have "filter (\<lambda>v. u_username v = m) (db_users db') =
      (if m = n then [] else filter (\<lambda>v. u_username v = m) (db_users db))"
  proof -
    have "u_id v = u_id u \<longleftrightarrow> u_username v = n" if "v \<in> set (db_users db)" for v
      using that u user_eq_by_id [OF assms(1), of v u] get_user_Inr [OF assms(1)]
        distinct_key_eq [OF table_okD(2) [OF db_wf_keys(1) [OF assms(1)]], of v u] by auto
    then show ?thesis
      by (auto simp: d without_user_def delete_rows_def filter_empty_conv intro!: filter_cong)
  qed
  then show ?thesis by (simp add: get_user_def)
qed

section \<open>Authentication\<close>

lemma authenticate_iff:
  assumes "db_wf db"
  shows "authenticate chk now db n pw \<longleftrightarrow>
    (\<exists>u \<in> set (db_users db). u_username u = n \<and> chk (u_password_hash u) pw \<and>
       (\<forall>t. u_password_expiration u = Some t \<longrightarrow> now \<le> t))"
proof (cases "get_user db n")
  case (Inl e)
  with get_user_Inl [OF assms Inl] show ?thesis by (auto simp: authenticate_def)
next
  case (Inr u)
  then have u: "u \<in> set (db_users db)" "u_username u = n" using get_user_Inr [OF assms] by auto
  have uniq: "v = u" if "v \<in> set (db_users db)" "u_username v = n" for v
    using that u distinct_key_eq [OF table_okD(2) [OF db_wf_keys(1) [OF assms]]] by blast
  have "(\<exists>v \<in> set (db_users db). u_username v = n \<and> chk (u_password_hash v) pw \<and>
       (\<forall>t. u_password_expiration v = Some t \<longrightarrow> now \<le> t)) \<longleftrightarrow>
      chk (u_password_hash u) pw \<and> (\<forall>t. u_password_expiration u = Some t \<longrightarrow> now \<le> t)"
    using uniq u by blast
  then show ?thesis
    using Inr by (simp add: authenticate_def split: option.split) linarith
qed

section \<open>Properties\<close>

text \<open>C30: Deleting a user succeeds for every user there is, leaves no row in any table that refers
  to it, keeps the database well-formed, and leaves every other user as it was.\<close>

theorem delete_user_is_complete:
  assumes "db_wf db" and "no_workspace_rows db" and "get_user db n = Inr u"
  shows "\<exists>db'. user_delete db n = Inr db' \<and> db_wf db' \<and> \<not> user_references db' (u_id u) \<and>
    (\<forall>m. get_user db' m =
       (if m = n then Inl (MlflowException RESOURCE_DOES_NOT_EXIST) else get_user db m))"
proof -
  let ?db' = "without_user (u_id u) db"
  have d: "user_delete db n = Inr ?db'" by (simp add: user_delete_eq [OF assms(2)] assms(3))
  with user_delete_wf [OF assms(1,2) d] user_delete_get [OF assms(1,2) d] without_user_no_references
  show ?thesis by blast
qed

theorem delete_user_is_complete_witness:
  "\<exists>db'. user_delete example_db ''alice'' = Inr db' \<and> \<not> user_references db' 1 \<and>
     user_references example_db 1"
proof -
  have n: "no_workspace_rows example_db" by (simp add: no_workspace_rows_def example_db_def)
  have "user_references example_db 1" by (simp add: user_references_def)
  with delete_user_is_complete [OF example_db_wf n example_get_user(1)] show ?thesis by auto
qed

text \<open>A password is accepted exactly when the user exists, the hash check accepts it, and an
  expiration time, if there is one, has not passed; nothing raises.\<close>

theorem authenticate_correct:
  assumes "db_wf db"
  shows "authenticate chk now db n pw \<longleftrightarrow>
    (\<exists>u \<in> set (db_users db). u_username u = n \<and> chk (u_password_hash u) pw \<and>
       (\<forall>t. u_password_expiration u = Some t \<longrightarrow> now \<le> t))"
  by (rule authenticate_iff [OF assms])

theorem authenticate_correct_witness:
  "authenticate (\<lambda>h p. h = p) 50 example_db ''alice'' ''pw'' \<and>
   \<not> authenticate (\<lambda>h p. h = p) 51 example_db ''alice'' ''pw'' \<and>
   \<not> authenticate (\<lambda>h p. h = p) 0 example_db ''carol'' ''pw''"
  by (simp add: authenticate_correct [OF example_db_wf])

text \<open>Listing the basic data of users raises an IndexError as soon as there is a user to
  list, because the rows hold one column and the third is read.\<close>

theorem list_basic_users_fails:
  assumes "u \<in> set (db_users db)"
  shows "list_basic_users db (u_is_service_account u) = Inl IndexError"
  by (rule list_basic_users_raises [OF assms])

theorem list_basic_users_fails_witness:
  "list_basic_users example_db False = Inl IndexError"
  using list_basic_users_fails [of "db_users example_db ! 0" example_db] by simp

end
