(* ===== verification/QuotaRepo.thy ===== *)
theory QuotaRepo
  imports GroupRepo
begin

text \<open>
  \<^verbatim>\<open>QuotaRepository\<close> (\<^verbatim>\<open>repository/quota.py\<close>): at most one row per user. The setters do
  nothing for an unknown user or a user without a row. Times are numbers of seconds, the
  column \<^verbatim>\<open>soft_cap_fraction\<close> is a rational.
\<close>

section \<open>Operations\<close>

definition find_user :: "db \<Rightarrow> string \<Rightarrow> user option result" where
  "find_user db username = query_one_or_none (filter (\<lambda>u. u_username u = username) (db_users db))"

definition quota_row_of :: "db \<Rightarrow> nat \<Rightarrow> user_quota option result" where
  "quota_row_of db user_id = query_one_or_none (filter (\<lambda>q. q_user q = user_id) (db_quotas db))"

definition quota_get_or_none :: "db \<Rightarrow> string \<Rightarrow> user_quota option result" where
  "quota_get_or_none db username =
     bind_result (find_user db username) (\<lambda>user.
     case user of
       None \<Rightarrow> Inr None
     | Some u \<Rightarrow> quota_row_of db (u_id u))"

definition get_quota :: "db \<Rightarrow> string \<Rightarrow> user_quota option result" where
  "get_quota db username = quota_get_or_none db username"

definition get_quota_by_user_id :: "db \<Rightarrow> nat \<Rightarrow> user_quota option result" where
  "get_quota_by_user_id db user_id = quota_row_of db user_id"

definition list_all_quotas :: "db \<Rightarrow> user_quota list" where
  "list_all_quotas db = db_quotas db"

definition add_quota_row :: "db \<Rightarrow> user_quota \<Rightarrow> (user_quota \<times> db) result" where
  "add_quota_row db quota =
     bind_result (insert_row q_user quota (db_quotas db)) (\<lambda>rows. Inr (quota, db\<lparr>db_quotas := rows\<rparr>))"

definition set_quota_row :: "db \<Rightarrow> user_quota \<Rightarrow> (user_quota \<Rightarrow> user_quota) \<Rightarrow> user_quota \<times> db" where
  "set_quota_row db quota f =
     (f quota, db\<lparr>db_quotas := set_rows (\<lambda>q. q_id q = q_id quota) f (db_quotas db)\<rparr>)"

definition new_quota :: "db \<Rightarrow> nat \<Rightarrow> int option \<Rightarrow> rat option \<Rightarrow> string option \<Rightarrow> user_quota" where
  "new_quota db user_id quota_bytes soft_cap_fraction email =
     \<lparr>q_id = db_new_id db (map q_id (db_quotas db)), q_user = user_id,
      q_quota_bytes = quota_bytes, q_used_bytes = 0, q_soft_cap_fraction = soft_cap_fraction,
      q_last_reconciled_at = None, q_soft_notified_at = None, q_hard_blocked = False,
      q_email = email\<rparr>"

definition set_quota :: "db \<Rightarrow> string \<Rightarrow> int option \<Rightarrow> rat option \<Rightarrow> (user_quota \<times> db) result" where
  "set_quota db username quota_bytes soft_cap_fraction =
     bind_result (get_user db username) (\<lambda>user.
     bind_result (quota_row_of db (u_id user)) (\<lambda>quota.
     case quota of
       None \<Rightarrow> add_quota_row db (new_quota db (u_id user) quota_bytes soft_cap_fraction None)
     | Some quota \<Rightarrow>
         Inr (set_quota_row db quota (\<lambda>q.
           let q = q\<lparr>q_quota_bytes := quota_bytes\<rparr>
           in if soft_cap_fraction \<noteq> None then q\<lparr>q_soft_cap_fraction := soft_cap_fraction\<rparr> else q))))"

definition update_email :: "db \<Rightarrow> string \<Rightarrow> string option \<Rightarrow> db result" where
  "update_email db username email =
     bind_result (find_user db username) (\<lambda>user.
     case user of
       None \<Rightarrow> Inr db
     | Some u \<Rightarrow>
         bind_result (quota_row_of db (u_id u)) (\<lambda>quota.
         case quota of
           None \<Rightarrow> result_state (add_quota_row db (new_quota db (u_id u) None None email))
         | Some quota \<Rightarrow> Inr (snd (set_quota_row db quota (\<lambda>q. q\<lparr>q_email := email\<rparr>)))))"

definition delete_quota :: "db \<Rightarrow> string \<Rightarrow> db result" where
  "delete_quota db username =
     bind_result (find_user db username) (\<lambda>user.
     case user of
       None \<Rightarrow> Inr db
     | Some u \<Rightarrow> Inr (db\<lparr>db_quotas := delete_rows (\<lambda>q. q_user q = u_id u) (db_quotas db)\<rparr>))"

text \<open>The guards the four setters share, and the change each of them makes.\<close>

definition modify_quota :: "db \<Rightarrow> string \<Rightarrow> (user_quota \<Rightarrow> user_quota) \<Rightarrow> db result" where
  "modify_quota db username f =
     bind_result (find_user db username) (\<lambda>user.
     case user of
       None \<Rightarrow> Inr db
     | Some u \<Rightarrow>
         bind_result (quota_row_of db (u_id u)) (\<lambda>quota.
         case quota of
           None \<Rightarrow> Inr db
         | Some quota \<Rightarrow> Inr (snd (set_quota_row db quota f))))"

definition update_used_bytes :: "int \<Rightarrow> db \<Rightarrow> string \<Rightarrow> int \<Rightarrow> db result" where
  "update_used_bytes now db username used_bytes =
     modify_quota db username (\<lambda>q. q\<lparr>q_used_bytes := used_bytes, q_last_reconciled_at := Some now\<rparr>)"

definition increment_used_bytes :: "db \<Rightarrow> string \<Rightarrow> int \<Rightarrow> db result" where
  "increment_used_bytes db username delta =
     modify_quota db username (\<lambda>q. q\<lparr>q_used_bytes := max 0 (q_used_bytes q + delta)\<rparr>)"

definition set_hard_blocked :: "db \<Rightarrow> string \<Rightarrow> bool \<Rightarrow> db result" where
  "set_hard_blocked db username blocked =
     modify_quota db username (\<lambda>q. q\<lparr>q_hard_blocked := blocked\<rparr>)"

definition set_soft_notified_at :: "db \<Rightarrow> string \<Rightarrow> int option \<Rightarrow> db result" where
  "set_soft_notified_at db username value =
     modify_quota db username (\<lambda>q. q\<lparr>q_soft_notified_at := value\<rparr>)"

text \<open>\<^verbatim>\<open>get_user_by_id\<close> of the store.\<close>

definition get_user_by_id :: "db \<Rightarrow> nat \<Rightarrow> user_entity option result" where
  "get_user_by_id db user_id =
     bind_result (query_one_or_none (filter (\<lambda>u. u_id u = user_id) (db_users db))) (\<lambda>u.
     case u of None \<Rightarrow> Inr None | Some u \<Rightarrow> Inr (Some (user_to_entity db u)))"

section \<open>The row of a user\<close>

definition quota_of :: "db \<Rightarrow> string \<Rightarrow> user_quota option" where
  "quota_of db username =
     (case get_user db username of Inl _ \<Rightarrow> None | Inr u \<Rightarrow> row_at q_user (u_id u) (db_quotas db))"

lemma find_user_eq:
  assumes "db_wf db"
  shows "find_user db n = Inr (case get_user db n of Inl _ \<Rightarrow> None | Inr u \<Rightarrow> Some u)"
proof (cases "get_user db n")
  case (Inl e)
  with get_user_Inl [OF assms Inl] have "filter (\<lambda>u. u_username u = n) (db_users db) = []"
    by (auto simp: filter_empty_conv)
  with Inl show ?thesis by (simp add: find_user_def)
next
  case (Inr u)
  then show ?thesis by (simp add: find_user_def get_user_def query_one_mlflow_Inr)
qed

lemma quota_row_of_eq:
  assumes "db_wf db"
  shows "quota_row_of db i = Inr (row_at q_user i (db_quotas db))"
proof -
  have "filter (\<lambda>q. q_user q = i) (db_quotas db) =
      (case row_at q_user i (db_quotas db) of None \<Rightarrow> [] | Some r \<Rightarrow> [r])"
    by (rule filter_row_at [OF table_okD(2) [OF db_wf_keys(10) [OF assms]]]) simp
  then show ?thesis by (simp add: quota_row_of_def split: option.split)
qed

lemma get_quota_eq: "db_wf db \<Longrightarrow> get_quota db n = Inr (quota_of db n)"
  by (simp add: get_quota_def quota_get_or_none_def find_user_eq quota_row_of_eq quota_of_def
        split: sum.split)

lemma get_user_by_id_eq:
  assumes "db_wf db" and "u \<in> set (db_users db)"
  shows "get_user_by_id db (u_id u) = Inr (Some (user_to_entity db u))"
proof -
  have "filter (\<lambda>v. u_id v = u_id u) (db_users db) = [u]"
    by (rule filter_unique [OF table_okD(1) [OF db_wf_keys(1) [OF assms(1)]] assms(2)]) simp
  then show ?thesis by (simp add: get_user_by_id_def)
qed

lemma quota_of_set:
  assumes "db_wf db" and "get_user db n = Inr u" and "row_at q_user (u_id u) rows = r"
    and "\<And>i. i \<noteq> u_id u \<Longrightarrow> row_at q_user i rows = row_at q_user i (db_quotas db)"
  shows "quota_of (db\<lparr>db_quotas := rows\<rparr>) = (quota_of db)(n := r)"
proof
  fix m
  show "quota_of (db\<lparr>db_quotas := rows\<rparr>) m = ((quota_of db)(n := r)) m"
  proof (cases "get_user db m")
    case (Inl e)
    then have "m \<noteq> n" using assms(2) by auto
    with Inl show ?thesis by (simp add: quota_of_def)
  next
    case (Inr v)
    with get_user_same_id [OF assms(1) Inr assms(2)] assms(3,4) show ?thesis
      by (auto simp: quota_of_def)
  qed
qed

lemma set_quota_row_wf:
  assumes "db_wf db" and "\<And>q. q_id (f q) = q_id q" and "\<And>q. q_user (f q) = q_user q"
  shows "db_wf (snd (set_quota_row db q f))"
  using db_wf_keys(10) [OF assms(1)] db_wf_refs(9) [OF assms(1)]
  by (auto simp: set_quota_row_def set_set_rows assms(2,3)
        intro!: db_wf_set_quotas table_ok_set_rows assms(1))

lemma quota_of_set_quota_row:
  assumes "db_wf db" and "get_user db n = Inr u" and "row_at q_user (u_id u) (db_quotas db) = Some q"
    and "\<And>q. q_user (f q) = q_user q"
  shows "quota_of (snd (set_quota_row db q f)) = (quota_of db)(n := Some (f q))"
proof -
  from row_at_SomeD [OF assms(3)] have q: "q \<in> set (db_quotas db)" "q_user q = u_id u" by simp_all
  have s: "snd (set_quota_row db q f) =
      db\<lparr>db_quotas := set_rows (\<lambda>x. q_user x = u_id u) f (db_quotas db)\<rparr>"
    using set_rows_by_id [OF table_okD [OF db_wf_keys(10) [OF assms(1)]] q(1)] q(2)
    by (simp add: set_quota_row_def)
  show ?thesis
    unfolding s using assms(3,4)
    by (intro quota_of_set [OF assms(1,2)]) (simp_all add: row_at_set_key)
qed

text \<open>The four setters: a change of the user's row when there is one, otherwise nothing.\<close>

lemma modify_quota_spec:
  assumes "db_wf db" and "\<And>q. q_id (f q) = q_id q" and "\<And>q. q_user (f q) = q_user q"
  shows "\<exists>db'. modify_quota db n f = Inr db' \<and> db_wf db' \<and>
    quota_of db' = (quota_of db)(n := map_option f (quota_of db n)) \<and>
    db' = db\<lparr>db_quotas := db_quotas db'\<rparr>"
proof (cases "get_user db n")
  case (Inl e)
  then have "quota_of db n = None" by (simp add: quota_of_def)
  with Inl assms(1) show ?thesis
    by (auto simp: modify_quota_def find_user_eq)
next
  case (Inr u)
  show ?thesis
  proof (cases "row_at q_user (u_id u) (db_quotas db)")
    case None
    then have "quota_of db n = None" by (simp add: quota_of_def Inr)
    with Inr None assms(1) show ?thesis
      by (auto simp: modify_quota_def find_user_eq quota_row_of_eq)
  next
    case (Some q)
    then have "quota_of db n = Some q" by (simp add: quota_of_def Inr)
    moreover have "modify_quota db n f = Inr (snd (set_quota_row db q f))"
      using Inr Some assms(1) by (simp add: modify_quota_def find_user_eq quota_row_of_eq)
    ultimately show ?thesis
      using quota_of_set_quota_row [OF assms(1) Inr Some assms(3)] set_quota_row_wf [OF assms, of q]
      by (auto simp: set_quota_row_def)
  qed
qed

lemma add_quota_row_spec:
  assumes "db_wf db" and "get_user db n = Inr u" and "row_at q_user (u_id u) (db_quotas db) = None"
    and "q = new_quota db (u_id u) b s em"
  shows "\<exists>db'. add_quota_row db q = Inr (q, db') \<and> db_wf db' \<and>
    quota_of db' = (quota_of db)(n := Some q) \<and> db' = db\<lparr>db_quotas := db_quotas db'\<rparr>"
proof -
  let ?db' = "db\<lparr>db_quotas := db_quotas db @ [q]\<rparr>"
  have k: "q_user q = u_id u" "q_id q = db_new_id db (map q_id (db_quotas db))"
    by (simp_all add: assms(4) new_quota_def)
  have "add_quota_row db q = Inr (q, ?db')"
    using assms(3) k by (simp add: add_quota_row_def insert_row_def row_at_None)
  moreover have "table_ok q_id q_user (db_quotas db @ [q])"
    using assms(3) k fresh_keys_new_id [OF assms(1), of q_id "db_quotas db"]
    by (intro table_ok_append db_wf_keys(10) [OF assms(1)]) (auto simp: row_at_None)
  then have "db_wf ?db'"
    using db_wf_refs(9) [OF assms(1)] k get_user_id [OF assms(2)]
    by (intro db_wf_set_quotas assms(1)) auto
  moreover have "quota_of ?db' = (quota_of db)(n := Some q)"
    using assms(3) k
    by (intro quota_of_set [OF assms(1,2)]) (auto simp: row_at_append split: option.split)
  ultimately show ?thesis by (intro exI [of _ ?db']) simp
qed

lemma set_quota_spec:
  assumes "db_wf db" and "get_user db n = Inr u"
  shows "\<exists>q db'. set_quota db n b s = Inr (q, db') \<and> db_wf db' \<and>
    quota_of db' = (quota_of db)(n := Some q) \<and> db' = db\<lparr>db_quotas := db_quotas db'\<rparr> \<and>
    q = (case quota_of db n of
           None \<Rightarrow> new_quota db (u_id u) b s None
         | Some q \<Rightarrow> q\<lparr>q_quota_bytes := b,
                     q_soft_cap_fraction := (if s = None then q_soft_cap_fraction q else s)\<rparr>)"
proof (cases "row_at q_user (u_id u) (db_quotas db)")
  case None
  then have "quota_of db n = None" by (simp add: quota_of_def assms(2))
  moreover have "set_quota db n b s = add_quota_row db (new_quota db (u_id u) b s None)"
    using None by (simp add: set_quota_def assms(2) quota_row_of_eq [OF assms(1)])
  ultimately show ?thesis using add_quota_row_spec [OF assms None refl, of b s None] by auto
next
  case (Some q)
  then have q: "quota_of db n = Some q" by (simp add: quota_of_def assms(2))
  define f where "f = (\<lambda>q. let q = q\<lparr>q_quota_bytes := b\<rparr>
       in if s \<noteq> None then q\<lparr>q_soft_cap_fraction := s\<rparr> else (q :: user_quota))"
  have f: "q_id (f q) = q_id q" "q_user (f q) = q_user q" for q
    by (simp_all add: f_def Let_def)
  have "set_quota db n b s = Inr (f q, snd (set_quota_row db q f))"
    using Some by (simp add: set_quota_def assms(2) quota_row_of_eq [OF assms(1)] f_def set_quota_row_def)
  moreover have "snd (set_quota_row db q f) = db\<lparr>db_quotas := db_quotas (snd (set_quota_row db q f))\<rparr>"
    by (simp add: set_quota_row_def)
  moreover have "f q = q\<lparr>q_quota_bytes := b,
      q_soft_cap_fraction := (if s = None then q_soft_cap_fraction q else s)\<rparr>"
    by (simp add: f_def Let_def)
  ultimately show ?thesis
    using q quota_of_set_quota_row [OF assms Some f(2)] set_quota_row_wf [OF assms(1) f]
    by (intro exI [of _ "f q"] exI [of _ "snd (set_quota_row db q f)"]) simp
qed

lemma set_quota_wf: "db_wf db \<Longrightarrow> set_quota db n b s = Inr (q, db') \<Longrightarrow> db_wf db'"
  using set_quota_spec [of db n _ b s] by (cases "get_user db n") (auto simp: set_quota_def)

lemma update_email_wf:
  assumes "db_wf db" and "update_email db n em = Inr db'"
  shows "db_wf db'"
proof (cases "get_user db n")
  case (Inl e)
  with assms show ?thesis by (simp add: update_email_def find_user_eq)
next
  case (Inr u)
  show ?thesis
  proof (cases "row_at q_user (u_id u) (db_quotas db)")
    case None
    from add_quota_row_spec [OF assms(1) Inr None refl, of None None em] assms None Inr show ?thesis
      by (auto simp: update_email_def find_user_eq quota_row_of_eq)
  next
    case (Some q)
    with assms Inr set_quota_row_wf [OF assms(1), of "\<lambda>q. q\<lparr>q_email := em\<rparr>" q] show ?thesis
      by (auto simp: update_email_def find_user_eq quota_row_of_eq)
  qed
qed

lemma delete_quota_wf:
  assumes "db_wf db" and "delete_quota db n = Inr db'"
  shows "db_wf db'"
  using assms db_wf_keys(10) [OF assms(1)] db_wf_refs(9) [OF assms(1)]
  by (auto simp: delete_quota_def find_user_eq split: sum.splits
        intro!: db_wf_set_quotas table_ok_delete)

end
