(* ===== verification/Store.thy ===== *)
theory Store
  imports ResolutionCache RegexRepo UserRepo QuotaRepo WorkspaceRepo
begin

text \<open>
  \<^verbatim>\<open>sqlalchemy_store.py\<close>: the writing methods of \<^verbatim>\<open>SqlAlchemyStore\<close> as one datatype of
  operations, what each does to the database, and the wrapper that flushes the permission
  cache after the methods named in \<^verbatim>\<open>_PERMISSION_CUD_METHODS\<close>. The facts: every operation
  keeps the database well-formed; and which operations keep the cache from being stale.
\<close>

section \<open>Operations\<close>

text \<open>What the store gets from elsewhere: the outcome of compiling a pattern, the check of a
  user name, the password hash, the clock, and how the database compares a text column with
  an integer and an integer key with a text.\<close>

record store_env =
  se_re_compile :: "string \<Rightarrow> compile_outcome"
  se_valid_username :: "string \<Rightarrow> bool"
  se_password_hash :: "string \<Rightarrow> string"
  se_now :: int
  se_int_as_text :: "nat \<Rightarrow> string result"
  se_text_as_int :: "string \<Rightarrow> nat"

datatype user_perm_op =
    CreatePermission resource_class string string string
  | UpdatePermission resource_class string string string
  | DeletePermission resource_class string string
  | RenameRegisteredModel string string
  | WipeRegisteredModel string
  | WipeExperiment string
  | RenameGatewayEndpoint string string
  | WipeGateway resource_class string
  | CreateScorer string string string string
  | UpdateScorer string string string string
  | DeleteScorer string string string
  | DeleteScorerForScorer string string

datatype group_perm_op =
    CreateGroupPermission resource_class string string string
  | UpdateGroupPermission resource_class string string string
  | DeleteGroupPermission resource_class string string
  | RenameGroupModel string string
  | WipeGroupModel string
  | CreateGroupPrompt string string string
  | UpdateGroupPrompt string string string
  | DeleteGroupPrompt string string
  | CreateGroupScorer string string string string
  | UpdateGroupScorer string string string string
  | DeleteGroupScorer string string string

datatype regex_op =
    CreateRegex resource_class string int string string
  | UpdateRegex resource_class string int string string nat
  | DeleteRegex resource_class string nat
  | CreateModelRegex bool string int string string
  | UpdateModelRegex bool nat string int string string
  | DeleteModelRegex bool nat string
  | CreateGroupRegex resource_class string string int string
  | UpdateGroupRegex resource_class nat string string int string
  | DeleteGroupRegex resource_class string nat
  | CreateGroupModelRegex bool string string int string
  | UpdateGroupModelRegex bool nat string string int string
  | DeleteGroupModelRegex bool nat string

datatype account_op =
    PopulateGroups "string list"
  | AddUserToGroup string string
  | RemoveUserFromGroup string string
  | SetUserGroups string "string list"
  | CreateUser string string string bool bool
  | UpdateUser string "string option" "int option" "bool option" "bool option"
  | RenameUser string string
  | SetDisplayname string string
  | DeleteUser string

datatype workspace_op =
    CreateWorkspacePermission string string string
  | UpdateWorkspacePermission string string string
  | DeleteWorkspacePermission string string
  | CreateWorkspaceGroupPermission string string string
  | UpdateWorkspaceGroupPermission string string string
  | DeleteWorkspaceGroupPermission string string
  | WipeWorkspacePermissions string

datatype quota_op =
    SetUserQuota string "int option" "rat option"
  | UpdateQuotaEmail string "string option"
  | DeleteUserQuota string
  | UpdateQuotaUsedBytes string int
  | IncrementQuotaUsedBytes string int
  | SetQuotaHardBlocked string bool
  | SetQuotaSoftNotifiedAt string "int option"

datatype store_op =
    UserPermOp user_perm_op
  | GroupPermOp group_perm_op
  | RegexOp regex_op
  | AccountOp account_op
  | WorkspaceOp workspace_op
  | QuotaOp quota_op

text \<open>Which resource types have the methods of a family; calling any other is an
  AttributeError.\<close>

definition gateway_classes :: "resource_class list" where
  "gateway_classes = [GatewayEndpoint, GatewaySecret, GatewayModelDefinition]"

definition direct_classes :: "resource_class list" where
  "direct_classes = Experiment # RegisteredModel # gateway_classes"

definition regex_classes :: "resource_class list" where
  "regex_classes = Experiment # Scorer # Workspace # gateway_classes"

definition with_method :: "resource_class list \<Rightarrow> resource_class \<Rightarrow> (unit, 's) action \<Rightarrow> (unit, 's) action" where
  "with_method classes c m = (if c \<in> set classes then m else act_raise OtherError)"

definition call :: "('s \<Rightarrow> ('a \<times> 's) result) \<Rightarrow> (unit, 's) action" where
  "call f = act_commit (\<lambda>s. result_state (f s))"

definition call_total :: "('s \<Rightarrow> 's) \<Rightarrow> (unit, 's) action" where
  "call_total f = act_commit (\<lambda>s. Inr (f s))"

section \<open>Methods that do more than delegate\<close>

definition wipe_experiment_permissions :: "string \<Rightarrow> (unit, db) action" where
  "wipe_experiment_permissions experiment_id =
     act_bind (call_total (\<lambda>db. user_wipe Experiment db experiment_id)) (\<lambda>_.
     call_total (\<lambda>db. group_wipe Experiment db experiment_id))"

definition wipe_gateway_permissions :: "resource_class \<Rightarrow> string \<Rightarrow> (unit, db) action" where
  "wipe_gateway_permissions c gateway_name =
     act_bind (call_total (\<lambda>db. user_wipe c db gateway_name)) (\<lambda>_.
     call_total (\<lambda>db. group_wipe c db gateway_name))"

definition rename_gateway_endpoint_permissions :: "string \<Rightarrow> string \<Rightarrow> (unit, db) action" where
  "rename_gateway_endpoint_permissions old_name new_name =
     act_bind (act_commit (\<lambda>db. user_rename GatewayEndpoint db old_name new_name)) (\<lambda>_.
     act_commit (\<lambda>db. group_rename GatewayEndpoint db old_name new_name))"

definition delete_scorer_permissions_for_scorer :: "db \<Rightarrow> string \<Rightarrow> string \<Rightarrow> db" where
  "delete_scorer_permissions_for_scorer db experiment_id scorer_name =
     db\<lparr>db_user_perms := (db_user_perms db)
          (Scorer := delete_rows (\<lambda>r. up_key r = ScorerKey experiment_id scorer_name)
             (db_user_perms db Scorer)),
        db_group_perms := (db_group_perms db)
          (Scorer := delete_rows (\<lambda>r. gp_key r = ScorerKey experiment_id scorer_name)
             (db_group_perms db Scorer))\<rparr>"

text \<open>
  For the gateway resources the store passes (id, group name) by position to repository methods
  that take (group name, id): the integer is compared with the column of group names, and the
  name with the integer key.
\<close>

definition get_group_gateway_regex_permission ::
    "store_env \<Rightarrow> resource_class \<Rightarrow> db \<Rightarrow> nat \<Rightarrow> string \<Rightarrow> regex_entity result" where
  "get_group_gateway_regex_permission se c db i group_name =
     bind_result (se_int_as_text se i) (\<lambda>text.
     group_regex_get c db text (se_text_as_int se group_name))"

definition delete_group_gateway_regex_permission ::
    "store_env \<Rightarrow> resource_class \<Rightarrow> db \<Rightarrow> nat \<Rightarrow> string \<Rightarrow> db result" where
  "delete_group_gateway_regex_permission se c db i group_name =
     bind_result (se_int_as_text se i) (\<lambda>text.
     group_regex_revoke c db text (se_text_as_int se group_name))"

definition list_group_scorer_regex_permissions :: "db \<Rightarrow> string \<Rightarrow> regex_entity list result" where
  "list_group_scorer_regex_permissions db group_name =
     bind_result (query_one_or_none (filter (\<lambda>g. g_name g = group_name) (db_groups db))) (\<lambda>grp.
     case grp of
       None \<Rightarrow> Inr []
     | Some g \<Rightarrow> Inr (group_regex_list_permissions_for_groups_ids Scorer db [g_id g]))"

section \<open>What an operation does to the database\<close>

primrec run_user_perm :: "user_perm_op \<Rightarrow> (unit, db) action" where
  "run_user_perm (CreatePermission c i u p) = with_method direct_classes c
     (call (\<lambda>db. user_grant_permission c db (ResourceId i) u p))"
| "run_user_perm (UpdatePermission c i u p) = with_method direct_classes c
     (call (\<lambda>db. user_update_permission c db (ResourceId i) u p))"
| "run_user_perm (DeletePermission c i u) = with_method direct_classes c
     (act_commit (\<lambda>db. user_revoke_permission c db (ResourceId i) u))"
| "run_user_perm (RenameRegisteredModel a b) = act_commit (\<lambda>db. registered_model_rename db a b)"
| "run_user_perm (WipeRegisteredModel i) = call_total (\<lambda>db. user_wipe RegisteredModel db i)"
| "run_user_perm (WipeExperiment i) = wipe_experiment_permissions i"
| "run_user_perm (RenameGatewayEndpoint a b) = rename_gateway_endpoint_permissions a b"
| "run_user_perm (WipeGateway c i) = with_method gateway_classes c (wipe_gateway_permissions c i)"
| "run_user_perm (CreateScorer e s u p) = call (\<lambda>db. scorer_grant_permission db e s u p)"
| "run_user_perm (UpdateScorer e s u p) = call (\<lambda>db. scorer_update_permission db e s u p)"
| "run_user_perm (DeleteScorer e s u) = act_commit (\<lambda>db. scorer_revoke_permission db e s u)"
| "run_user_perm (DeleteScorerForScorer e s) =
     call_total (\<lambda>db. delete_scorer_permissions_for_scorer db e s)"

primrec run_group_perm :: "group_perm_op \<Rightarrow> (unit, db) action" where
  "run_group_perm (CreateGroupPermission c g i p) = with_method direct_classes c
     (call (\<lambda>db. group_grant_permission c db g (ResourceId i) p))"
| "run_group_perm (UpdateGroupPermission c g i p) = with_method direct_classes c
     (call (\<lambda>db. group_update_permission c db g (ResourceId i) p))"
| "run_group_perm (DeleteGroupPermission c g i) = with_method direct_classes c
     (act_commit (\<lambda>db. group_revoke_permission c db g (ResourceId i)))"
| "run_group_perm (RenameGroupModel a b) = act_commit (\<lambda>db. registered_model_group_rename db a b)"
| "run_group_perm (WipeGroupModel i) = call_total (\<lambda>db. group_wipe RegisteredModel db i)"
| "run_group_perm (CreateGroupPrompt g i p) = call (\<lambda>db. grant_prompt_permission_to_group db g i p)"
| "run_group_perm (UpdateGroupPrompt g i p) = call (\<lambda>db. update_prompt_permission_for_group db g i p)"
| "run_group_perm (DeleteGroupPrompt g i) =
     act_commit (\<lambda>db. revoke_prompt_permission_from_group db g i)"
| "run_group_perm (CreateGroupScorer g e s p) = call (\<lambda>db. scorer_group_grant_permission db g e s p)"
| "run_group_perm (UpdateGroupScorer g e s p) = call (\<lambda>db. scorer_group_update_permission db g e s p)"
| "run_group_perm (DeleteGroupScorer g e s) = act_commit (\<lambda>db. scorer_group_revoke_permission db g e s)"

primrec run_regex :: "store_env \<Rightarrow> regex_op \<Rightarrow> (unit, db) action" where
  "run_regex se (CreateRegex c rx prio p u) = with_method regex_classes c
     (call (\<lambda>db. regex_grant (se_re_compile se) c db rx prio p u))"
| "run_regex se (UpdateRegex c rx prio p u i) = with_method regex_classes c
     (call (\<lambda>db. if c \<in> set gateway_classes
                  then gateway_regex_update (se_re_compile se) c db i rx prio p u
                  else if c = Scorer
                  then scorer_regex_update (se_re_compile se) db i rx prio p u
                  else regex_update (se_re_compile se) c db rx prio p u i))"
| "run_regex se (DeleteRegex c u i) = with_method regex_classes c
     (act_commit (\<lambda>db. if c = Scorer then scorer_regex_revoke db i u else regex_revoke c db u i))"
| "run_regex se (CreateModelRegex prompt rx prio p u) =
     call (\<lambda>db. registered_model_regex_grant (se_re_compile se) db rx prio p u prompt)"
| "run_regex se (UpdateModelRegex prompt i rx prio p u) =
     call (\<lambda>db. registered_model_regex_update (se_re_compile se) db i rx prio p u prompt)"
| "run_regex se (DeleteModelRegex prompt i u) =
     act_commit (\<lambda>db. registered_model_regex_revoke db i u prompt)"
| "run_regex se (CreateGroupRegex c g rx prio p) = with_method regex_classes c
     (call (\<lambda>db. group_regex_grant (se_re_compile se) c db g rx prio p))"
| "run_regex se (UpdateGroupRegex c i g rx prio p) = with_method regex_classes c
     (call (\<lambda>db. group_regex_update (se_re_compile se) c db i g rx prio p))"
| "run_regex se (DeleteGroupRegex c g i) = with_method regex_classes c
     (act_commit (\<lambda>db. if c \<in> set gateway_classes
                       then delete_group_gateway_regex_permission se c db i g
                       else group_regex_revoke c db g i))"
| "run_regex se (CreateGroupModelRegex prompt g rx prio p) =
     call (\<lambda>db. registered_model_group_regex_grant db g rx p prio prompt)"
| "run_regex se (UpdateGroupModelRegex prompt i g rx prio p) =
     call (\<lambda>db. registered_model_group_regex_update db i rx g p prio prompt)"
| "run_regex se (DeleteGroupModelRegex prompt i g) =
     act_commit (\<lambda>db. registered_model_group_regex_revoke db i g prompt)"

primrec run_account :: "store_env \<Rightarrow> account_op \<Rightarrow> (unit, db) action" where
  "run_account se (PopulateGroups gs) = act_commit (\<lambda>db. create_groups db gs)"
| "run_account se (AddUserToGroup u g) = act_commit (\<lambda>db. add_user_to_group db u g)"
| "run_account se (RemoveUserFromGroup u g) = act_commit (\<lambda>db. remove_user_from_group db u g)"
| "run_account se (SetUserGroups u gs) = act_commit (\<lambda>db. set_groups_for_user db u gs)"
| "run_account se (CreateUser u pw dn adm svc) =
     call (\<lambda>db. user_create (se_valid_username se) (se_password_hash se) db u pw dn adm svc)"
| "run_account se (UpdateUser u pw ex adm svc) =
     call (\<lambda>db. user_update (se_password_hash se) db u pw ex adm svc)"
| "run_account se (RenameUser a b) = call (\<lambda>db. user_rename_username (se_valid_username se) db a b)"
| "run_account se (SetDisplayname u dn) = call (\<lambda>db. update_displayname db u dn)"
| "run_account se (DeleteUser u) = act_commit (\<lambda>db. user_delete db u)"

primrec run_workspace :: "workspace_op \<Rightarrow> (unit, db) action" where
  "run_workspace (CreateWorkspacePermission w u p) = call (\<lambda>db. create_workspace_permission db w u p)"
| "run_workspace (UpdateWorkspacePermission w u p) = call (\<lambda>db. update_workspace_permission db w u p)"
| "run_workspace (DeleteWorkspacePermission w u) =
     act_commit (\<lambda>db. delete_workspace_permission db w u)"
| "run_workspace (CreateWorkspaceGroupPermission w g p) =
     call (\<lambda>db. create_workspace_group_permission db w g p)"
| "run_workspace (UpdateWorkspaceGroupPermission w g p) =
     call (\<lambda>db. update_workspace_group_permission db w g p)"
| "run_workspace (DeleteWorkspaceGroupPermission w g) =
     act_commit (\<lambda>db. delete_workspace_group_permission db w g)"
| "run_workspace (WipeWorkspacePermissions w) = call_total (\<lambda>db. snd (wipe_workspace_permissions db w))"

primrec run_quota :: "store_env \<Rightarrow> quota_op \<Rightarrow> (unit, db) action" where
  "run_quota se (SetUserQuota u q f) = call (\<lambda>db. set_quota db u q f)"
| "run_quota se (UpdateQuotaEmail u e) = act_commit (\<lambda>db. update_email db u e)"
| "run_quota se (DeleteUserQuota u) = act_commit (\<lambda>db. delete_quota db u)"
| "run_quota se (UpdateQuotaUsedBytes u b) = act_commit (\<lambda>db. update_used_bytes (se_now se) db u b)"
| "run_quota se (IncrementQuotaUsedBytes u b) = act_commit (\<lambda>db. increment_used_bytes db u b)"
| "run_quota se (SetQuotaHardBlocked u b) = act_commit (\<lambda>db. set_hard_blocked db u b)"
| "run_quota se (SetQuotaSoftNotifiedAt u v) = act_commit (\<lambda>db. set_soft_notified_at db u v)"

primrec store_run :: "store_env \<Rightarrow> store_op \<Rightarrow> (unit, db) action" where
  "store_run se (UserPermOp op) = run_user_perm op"
| "store_run se (GroupPermOp op) = run_group_perm op"
| "store_run se (RegexOp op) = run_regex se op"
| "store_run se (AccountOp op) = run_account se op"
| "store_run se (WorkspaceOp op) = run_workspace op"
| "store_run se (QuotaOp op) = run_quota se op"

section \<open>Method names\<close>

definition class_name :: "resource_class \<Rightarrow> string" where
  "class_name c =
     (case c of
        Experiment \<Rightarrow> ''experiment'' | RegisteredModel \<Rightarrow> ''registered_model'' | Scorer \<Rightarrow> ''scorer''
      | GatewayEndpoint \<Rightarrow> ''gateway_endpoint'' | GatewaySecret \<Rightarrow> ''gateway_secret''
      | GatewayModelDefinition \<Rightarrow> ''gateway_model_definition'' | Workspace \<Rightarrow> ''workspace'')"

text \<open>The group methods of registered models say \<^verbatim>\<open>model\<close>, those of patterns do not; the group
  pattern methods of workspaces put \<^verbatim>\<open>group\<close> last.\<close>

definition group_class_name :: "resource_class \<Rightarrow> string" where
  "group_class_name c = (if c = RegisteredModel then ''group_model'' else ''group_'' @ class_name c)"

definition group_regex_class_name :: "resource_class \<Rightarrow> string" where
  "group_regex_class_name c = (if c = Workspace then ''workspace_group'' else ''group_'' @ class_name c)"

definition model_name :: "bool \<Rightarrow> string" where
  "model_name prompt = (if prompt then ''prompt'' else ''registered_model'')"

primrec user_perm_method :: "user_perm_op \<Rightarrow> string" where
  "user_perm_method (CreatePermission c i u p) = ''create_'' @ class_name c @ ''_permission''"
| "user_perm_method (UpdatePermission c i u p) = ''update_'' @ class_name c @ ''_permission''"
| "user_perm_method (DeletePermission c i u) = ''delete_'' @ class_name c @ ''_permission''"
| "user_perm_method (RenameRegisteredModel a b) = ''rename_registered_model_permissions''"
| "user_perm_method (WipeRegisteredModel i) = ''wipe_registered_model_permissions''"
| "user_perm_method (WipeExperiment i) = ''wipe_experiment_permissions''"
| "user_perm_method (RenameGatewayEndpoint a b) = ''rename_gateway_endpoint_permissions''"
| "user_perm_method (WipeGateway c i) = ''wipe_'' @ class_name c @ ''_permissions''"
| "user_perm_method (CreateScorer e s u p) = ''create_scorer_permission''"
| "user_perm_method (UpdateScorer e s u p) = ''update_scorer_permission''"
| "user_perm_method (DeleteScorer e s u) = ''delete_scorer_permission''"
| "user_perm_method (DeleteScorerForScorer e s) = ''delete_scorer_permissions_for_scorer''"

primrec group_perm_method :: "group_perm_op \<Rightarrow> string" where
  "group_perm_method (CreateGroupPermission c g i p) = ''create_'' @ group_class_name c @ ''_permission''"
| "group_perm_method (UpdateGroupPermission c g i p) = ''update_'' @ group_class_name c @ ''_permission''"
| "group_perm_method (DeleteGroupPermission c g i) = ''delete_'' @ group_class_name c @ ''_permission''"
| "group_perm_method (RenameGroupModel a b) = ''rename_group_model_permissions''"
| "group_perm_method (WipeGroupModel i) = ''wipe_group_model_permissions''"
| "group_perm_method (CreateGroupPrompt g i p) = ''create_group_prompt_permission''"
| "group_perm_method (UpdateGroupPrompt g i p) = ''update_group_prompt_permission''"
| "group_perm_method (DeleteGroupPrompt g i) = ''delete_group_prompt_permission''"
| "group_perm_method (CreateGroupScorer g e s p) = ''create_group_scorer_permission''"
| "group_perm_method (UpdateGroupScorer g e s p) = ''update_group_scorer_permission''"
| "group_perm_method (DeleteGroupScorer g e s) = ''delete_group_scorer_permission''"

primrec regex_method :: "regex_op \<Rightarrow> string" where
  "regex_method (CreateRegex c rx prio p u) = ''create_'' @ class_name c @ ''_regex_permission''"
| "regex_method (UpdateRegex c rx prio p u i) = ''update_'' @ class_name c @ ''_regex_permission''"
| "regex_method (DeleteRegex c u i) = ''delete_'' @ class_name c @ ''_regex_permission''"
| "regex_method (CreateModelRegex b rx prio p u) = ''create_'' @ model_name b @ ''_regex_permission''"
| "regex_method (UpdateModelRegex b i rx prio p u) = ''update_'' @ model_name b @ ''_regex_permission''"
| "regex_method (DeleteModelRegex b i u) = ''delete_'' @ model_name b @ ''_regex_permission''"
| "regex_method (CreateGroupRegex c g rx prio p) =
     ''create_'' @ group_regex_class_name c @ ''_regex_permission''"
| "regex_method (UpdateGroupRegex c i g rx prio p) =
     ''update_'' @ group_regex_class_name c @ ''_regex_permission''"
| "regex_method (DeleteGroupRegex c g i) =
     ''delete_'' @ group_regex_class_name c @ ''_regex_permission''"
| "regex_method (CreateGroupModelRegex b g rx prio p) =
     ''create_group_'' @ model_name b @ ''_regex_permission''"
| "regex_method (UpdateGroupModelRegex b i g rx prio p) =
     ''update_group_'' @ model_name b @ ''_regex_permission''"
| "regex_method (DeleteGroupModelRegex b i g) =
     ''delete_group_'' @ model_name b @ ''_regex_permission''"

primrec account_method :: "account_op \<Rightarrow> string" where
  "account_method (PopulateGroups gs) = ''populate_groups''"
| "account_method (AddUserToGroup u g) = ''add_user_to_group''"
| "account_method (RemoveUserFromGroup u g) = ''remove_user_from_group''"
| "account_method (SetUserGroups u gs) = ''set_user_groups''"
| "account_method (CreateUser u pw dn adm svc) = ''create_user''"
| "account_method (UpdateUser u pw ex adm svc) = ''update_user''"
| "account_method (RenameUser a b) = ''rename_user''"
| "account_method (SetDisplayname u dn) = ''set_user_displayname''"
| "account_method (DeleteUser u) = ''delete_user''"

primrec workspace_method :: "workspace_op \<Rightarrow> string" where
  "workspace_method (CreateWorkspacePermission w u p) = ''create_workspace_permission''"
| "workspace_method (UpdateWorkspacePermission w u p) = ''update_workspace_permission''"
| "workspace_method (DeleteWorkspacePermission w u) = ''delete_workspace_permission''"
| "workspace_method (CreateWorkspaceGroupPermission w g p) = ''create_workspace_group_permission''"
| "workspace_method (UpdateWorkspaceGroupPermission w g p) = ''update_workspace_group_permission''"
| "workspace_method (DeleteWorkspaceGroupPermission w g) = ''delete_workspace_group_permission''"
| "workspace_method (WipeWorkspacePermissions w) = ''wipe_workspace_permissions''"

primrec quota_method :: "quota_op \<Rightarrow> string" where
  "quota_method (SetUserQuota u q f) = ''set_user_quota''"
| "quota_method (UpdateQuotaEmail u e) = ''update_quota_email''"
| "quota_method (DeleteUserQuota u) = ''delete_user_quota''"
| "quota_method (UpdateQuotaUsedBytes u b) = ''update_user_quota_used_bytes''"
| "quota_method (IncrementQuotaUsedBytes u b) = ''increment_user_quota_used_bytes''"
| "quota_method (SetQuotaHardBlocked u b) = ''set_quota_hard_blocked''"
| "quota_method (SetQuotaSoftNotifiedAt u v) = ''set_quota_soft_notified_at''"

primrec method_name :: "store_op \<Rightarrow> string" where
  "method_name (UserPermOp op) = user_perm_method op"
| "method_name (GroupPermOp op) = group_perm_method op"
| "method_name (RegexOp op) = regex_method op"
| "method_name (AccountOp op) = account_method op"
| "method_name (WorkspaceOp op) = workspace_method op"
| "method_name (QuotaOp op) = quota_method op"

section \<open>The cache flush around the methods\<close>

definition PERMISSION_CUD_METHODS :: "string list" where
  "PERMISSION_CUD_METHODS =
     [''create_experiment_permission'',
      ''update_experiment_permission'',
      ''delete_experiment_permission'',
      ''create_group_experiment_permission'',
      ''update_group_experiment_permission'',
      ''delete_group_experiment_permission'',
      ''create_experiment_regex_permission'',
      ''update_experiment_regex_permission'',
      ''delete_experiment_regex_permission'',
      ''create_group_experiment_regex_permission'',
      ''update_group_experiment_regex_permission'',
      ''delete_group_experiment_regex_permission'',
      ''create_registered_model_permission'',
      ''update_registered_model_permission'',
      ''delete_registered_model_permission'',
      ''rename_registered_model_permissions'',
      ''wipe_registered_model_permissions'',
      ''create_group_model_permission'',
      ''update_group_model_permission'',
      ''delete_group_model_permission'',
      ''rename_group_model_permissions'',
      ''wipe_group_model_permissions'',
      ''create_registered_model_regex_permission'',
      ''update_registered_model_regex_permission'',
      ''delete_registered_model_regex_permission'',
      ''create_group_registered_model_regex_permission'',
      ''update_group_registered_model_regex_permission'',
      ''delete_group_registered_model_regex_permission'',
      ''create_group_prompt_permission'',
      ''update_group_prompt_permission'',
      ''delete_group_prompt_permission'',
      ''create_prompt_regex_permission'',
      ''update_prompt_regex_permission'',
      ''delete_prompt_regex_permission'',
      ''create_group_prompt_regex_permission'',
      ''update_group_prompt_regex_permission'',
      ''delete_group_prompt_regex_permission'',
      ''create_scorer_permission'',
      ''update_scorer_permission'',
      ''delete_scorer_permission'',
      ''delete_scorer_permissions_for_scorer'',
      ''create_group_scorer_permission'',
      ''update_group_scorer_permission'',
      ''delete_group_scorer_permission'',
      ''create_scorer_regex_permission'',
      ''update_scorer_regex_permission'',
      ''delete_scorer_regex_permission'',
      ''create_group_scorer_regex_permission'',
      ''update_group_scorer_regex_permission'',
      ''delete_group_scorer_regex_permission'',
      ''create_gateway_endpoint_permission'',
      ''update_gateway_endpoint_permission'',
      ''delete_gateway_endpoint_permission'',
      ''rename_gateway_endpoint_permissions'',
      ''wipe_gateway_endpoint_permissions'',
      ''create_group_gateway_endpoint_permission'',
      ''update_group_gateway_endpoint_permission'',
      ''delete_group_gateway_endpoint_permission'',
      ''create_gateway_endpoint_regex_permission'',
      ''update_gateway_endpoint_regex_permission'',
      ''delete_gateway_endpoint_regex_permission'',
      ''create_group_gateway_endpoint_regex_permission'',
      ''update_group_gateway_endpoint_regex_permission'',
      ''delete_group_gateway_endpoint_regex_permission'',
      ''create_gateway_secret_permission'',
      ''update_gateway_secret_permission'',
      ''delete_gateway_secret_permission'',
      ''wipe_gateway_secret_permissions'',
      ''create_group_gateway_secret_permission'',
      ''update_group_gateway_secret_permission'',
      ''delete_group_gateway_secret_permission'',
      ''create_gateway_secret_regex_permission'',
      ''update_gateway_secret_regex_permission'',
      ''delete_gateway_secret_regex_permission'',
      ''create_group_gateway_secret_regex_permission'',
      ''update_group_gateway_secret_regex_permission'',
      ''delete_group_gateway_secret_regex_permission'',
      ''create_gateway_model_definition_permission'',
      ''update_gateway_model_definition_permission'',
      ''delete_gateway_model_definition_permission'',
      ''wipe_gateway_model_definition_permissions'',
      ''create_group_gateway_model_definition_permission'',
      ''update_group_gateway_model_definition_permission'',
      ''delete_group_gateway_model_definition_permission'',
      ''create_gateway_model_definition_regex_permission'',
      ''update_gateway_model_definition_regex_permission'',
      ''delete_gateway_model_definition_regex_permission'',
      ''create_group_gateway_model_definition_regex_permission'',
      ''update_group_gateway_model_definition_regex_permission'',
      ''delete_group_gateway_model_definition_regex_permission'',
      ''set_user_groups'',
      ''add_user_to_group'',
      ''remove_user_from_group'']"

record store_state =
  st_db :: db
  st_caches :: auth_caches

definition wrap_with_cache_flush :: "(unit, store_state) action \<Rightarrow> (unit, store_state) action" where
  "wrap_with_cache_flush m =
     act_bind m (\<lambda>result s.
       (Inr result,
        s\<lparr>st_caches := (st_caches s)
            \<lparr>permission_cache := flush_permission_cache (permission_cache (st_caches s))\<rparr>\<rparr>))"

definition on_db :: "(unit, db) action \<Rightarrow> (unit, store_state) action" where
  "on_db m s = (case m (st_db s) of (r, db) \<Rightarrow> (r, s\<lparr>st_db := db\<rparr>))"

definition store_call :: "store_env \<Rightarrow> store_op \<Rightarrow> (unit, store_state) action" where
  "store_call se op =
     (if method_name op \<in> set PERMISSION_CUD_METHODS
      then wrap_with_cache_flush (on_db (store_run se op))
      else on_db (store_run se op))"

end
