(* ===== verification/QuotaPolicy.thy ===== *)
theory QuotaPolicy
  imports QuotaRepo UserRepo UserPermissionRepo
begin

text \<open>
  Storage quotas, \<^verbatim>\<open>utils/quota.py\<close>: the limit that applies to a user, the check made before
  an upload, and the reconciliation that stores the measured usage and moves the row between
  its enforcement states. Sending mail is a parameter, the time of day an argument. So is
  measuring the usage, which is modelled in QuotaMeasure and works on more than the database:
  the state is the database and what else the measurement changes. The calls of the store
  commit one by one, so an exception keeps what the calls before it wrote.
\<close>

text \<open>
  The settings, and one thing that the database decides: \<open>naive_times\<close> says that it gives back times
  without their zone, as SQLite and MySQL do. The time of day has a zone, and to subtract a time without
  one from it raises TypeError.
\<close>

record quota_config =
  QUOTA_DEFAULT_BYTES :: "int option"
  QUOTA_SOFT_CAP_FRACTION :: rat
  naive_times :: bool

definition effective_quota_bytes :: "quota_config \<Rightarrow> user_quota option \<Rightarrow> int option" where
  "effective_quota_bytes config quota =
     (case quota of
        Some q \<Rightarrow> (case q_quota_bytes q of Some b \<Rightarrow> Some b | None \<Rightarrow> QUOTA_DEFAULT_BYTES config)
      | None \<Rightarrow> QUOTA_DEFAULT_BYTES config)"

definition effective_soft_cap_fraction :: "quota_config \<Rightarrow> user_quota option \<Rightarrow> rat" where
  "effective_soft_cap_fraction config quota =
     (case quota of
        Some q \<Rightarrow> (case q_soft_cap_fraction q of Some f \<Rightarrow> f | None \<Rightarrow> QUOTA_SOFT_CAP_FRACTION config)
      | None \<Rightarrow> QUOTA_SOFT_CAP_FRACTION config)"

section \<open>The owner of an experiment\<close>

fun owner_loop :: "db \<Rightarrow> perm_entity list \<Rightarrow> string option result" where
  "owner_loop db [] = Inr None"
| "owner_loop db (perm # perms) =
     (if pe_permission perm = perm_name MANAGE
      then (case pe_user_id perm of
              None \<Rightarrow> owner_loop db perms
            | Some i \<Rightarrow>
                bind_result (get_user_by_id db i) (\<lambda>user.
                case user of
                  Some u \<Rightarrow> Inr (Some (u_username (ue_user u)))
                | None \<Rightarrow> owner_loop db perms))
      else owner_loop db perms)"

definition get_experiment_owner :: "db \<Rightarrow> string \<Rightarrow> string option" where
  "get_experiment_owner db experiment_id =
     (case owner_loop db (user_list_permissions_for_resource Experiment db experiment_id) of
        Inl _ \<Rightarrow> None
      | Inr owner \<Rightarrow> owner)"

section \<open>Enforcement\<close>

definition enforce_quota :: "quota_config \<Rightarrow> db \<Rightarrow> string \<Rightarrow> unit result" where
  "enforce_quota config db username =
     bind_result (get_quota db username) (\<lambda>quota.
     case effective_quota_bytes config quota of
       None \<Rightarrow> Inr ()
     | Some limit \<Rightarrow>
         let used = (case quota of Some q \<Rightarrow> q_used_bytes q | None \<Rightarrow> 0)
         in if used \<ge> limit then Inl (MlflowException RESOURCE_LIMIT_EXCEEDED) else Inr ())"

section \<open>Reconciliation\<close>

text \<open>The display name for a mail; an MLflow error is swallowed.\<close>

definition mail_display_name :: "db \<Rightarrow> string \<Rightarrow> string option result" where
  "mail_display_name db username =
     (case user_get db username of
        Inr u \<Rightarrow> Inr (Some (u_display_name (ue_user u)))
      | Inl (MlflowException _) \<Rightarrow> Inr None
      | Inl e \<Rightarrow> Inl e)"

type_synonym mailer = "string \<Rightarrow> string option \<Rightarrow> int \<Rightarrow> int \<Rightarrow> string option \<Rightarrow> bool"

definition reminder_due :: "bool \<Rightarrow> int \<Rightarrow> int option \<Rightarrow> bool result" where
  "reminder_due naive now soft_notified_at =
     (case soft_notified_at of
        None \<Rightarrow> Inr True
      | Some t \<Rightarrow> if naive then Inl OtherError else Inr (now - t > 86400))"

definition hard_cap_step :: "bool \<Rightarrow> mailer \<Rightarrow> int \<Rightarrow> string \<Rightarrow> user_quota \<Rightarrow> int \<Rightarrow> int \<Rightarrow> (unit, db) action" where
  "hard_cap_step naive send_hard now username quota used effective_quota =
     act_bind (act_when (\<not> q_hard_blocked quota)
                 (act_commit (\<lambda>db. set_hard_blocked db username True))) (\<lambda>_.
     act_bind (act_read (\<lambda>_. reminder_due naive now (q_soft_notified_at quota))) (\<lambda>should_notify.
     act_when should_notify
          (act_bind (act_read (\<lambda>db. mail_display_name db username)) (\<lambda>display_name.
           act_when (send_hard username display_name used effective_quota (q_email quota))
             (act_commit (\<lambda>db. set_soft_notified_at db username (Some now)))))))"

definition soft_cap_step :: "mailer \<Rightarrow> int \<Rightarrow> string \<Rightarrow> user_quota \<Rightarrow> int \<Rightarrow> int \<Rightarrow> rat \<Rightarrow> rat \<Rightarrow>
    (unit, db) action" where
  "soft_cap_step send_soft now username quota used effective_quota pct soft_fraction =
     act_bind (act_when (q_hard_blocked quota)
                 (act_commit (\<lambda>db. set_hard_blocked db username False))) (\<lambda>_.
     if pct \<ge> soft_fraction then
       act_when (q_soft_notified_at quota = None)
         (act_bind (act_read (\<lambda>db. mail_display_name db username)) (\<lambda>display_name.
          act_when (send_soft username display_name used effective_quota (q_email quota))
            (act_commit (\<lambda>db. set_soft_notified_at db username (Some now)))))
     else
       act_when (q_soft_notified_at quota \<noteq> None)
         (act_commit (\<lambda>db. set_soft_notified_at db username None)))"

definition on_fst :: "('a, 's) action \<Rightarrow> ('a, 's \<times> 'c) action" where
  "on_fst m = (\<lambda>(s, c). case m s of (r, s') \<Rightarrow> (r, (s', c)))"

lemma on_fst_eval: "m s = (r, s') \<Longrightarrow> on_fst m (s, c) = (r, (s', c))"
  by (simp add: on_fst_def)

text \<open>
  \<open>calculate_used_bytes\<close> is the measurement; it returns the bytes used and the sizes of the
  experiments, and it may wipe the permissions of experiments that are gone. Dividing by a
  limit of zero raises.
\<close>

definition reconcile_user_quota :: "quota_config \<Rightarrow>
    (string \<Rightarrow> (int \<times> (string \<times> int) list, db \<times> 'c) action) \<Rightarrow> mailer \<Rightarrow> mailer \<Rightarrow> int \<Rightarrow> string \<Rightarrow>
    ((string \<times> int) list, db \<times> 'c) action" where
  "reconcile_user_quota config calculate_used_bytes send_hard send_soft now username =
     act_bind (on_fst (act_read (\<lambda>db. get_quota db username))) (\<lambda>quota.
     case quota of
       None \<Rightarrow>
         act_bind (calculate_used_bytes username) (\<lambda>(used, experiment_sizes).
         act_bind (on_fst (act_commit (\<lambda>db. result_state (set_quota db username None None)))) (\<lambda>_.
         act_bind (on_fst (act_commit (\<lambda>db. update_used_bytes now db username used))) (\<lambda>_.
         act_return experiment_sizes)))
     | Some quota \<Rightarrow>
         (case effective_quota_bytes config (Some quota) of
            None \<Rightarrow>
              act_bind (on_fst (act_when (q_hard_blocked quota)
                (act_commit (\<lambda>db. set_hard_blocked db username False)))) (\<lambda>_.
              act_bind (on_fst (act_when (q_soft_notified_at quota \<noteq> None)
                (act_commit (\<lambda>db. set_soft_notified_at db username None)))) (\<lambda>_.
              act_return []))
          | Some effective_quota \<Rightarrow>
              act_bind (calculate_used_bytes username) (\<lambda>(used, experiment_sizes).
              act_bind (on_fst (act_commit (\<lambda>db. update_used_bytes now db username used))) (\<lambda>_.
              if effective_quota = 0 then act_raise ZeroDivisionError
              else
                let pct = of_int used / of_int effective_quota;
                    soft_fraction = effective_soft_cap_fraction config (Some quota)
                in act_bind
                     (on_fst
                       (if used \<ge> effective_quota
                        then hard_cap_step (naive_times config) send_hard now username quota used effective_quota
                        else soft_cap_step send_soft now username quota used effective_quota pct
                               soft_fraction))
                     (\<lambda>_. act_return experiment_sizes)))))"

text \<open>All users in turn; an exception of one is recorded by its name and the loop goes on.\<close>

fun reconcile_loop :: "(string \<Rightarrow> ((string \<times> int) list, 's) action) \<Rightarrow> string list \<Rightarrow> 's \<Rightarrow>
    string list \<times> 's" where
  "reconcile_loop rec [] s = ([], s)"
| "reconcile_loop rec (n # ns) s =
     (let (r, s1) = rec n s;
          (errors, s2) = reconcile_loop rec ns s1
      in (case r of Inl _ \<Rightarrow> n # errors | Inr _ \<Rightarrow> errors, s2))"

definition reconcile_all_quotas :: "(string \<Rightarrow> ((string \<times> int) list, db \<times> 'c) action) \<Rightarrow> db \<times> 'c \<Rightarrow>
    string list \<times> db \<times> 'c" where
  "reconcile_all_quotas rec s =
     reconcile_loop rec (map (\<lambda>u. u_username (ue_user u)) (user_list (fst s) False True)) s"

section \<open>What enforcement decides\<close>

lemma enforce_quota_iff:
  assumes "db_wf db"
  shows "enforce_quota config db n = Inl (MlflowException RESOURCE_LIMIT_EXCEEDED) \<longleftrightarrow>
    (\<exists>limit. effective_quota_bytes config (quota_of db n) = Some limit \<and>
       limit \<le> (case quota_of db n of Some q \<Rightarrow> q_used_bytes q | None \<Rightarrow> 0))"
  and "enforce_quota config db n = Inr () \<or>
    enforce_quota config db n = Inl (MlflowException RESOURCE_LIMIT_EXCEEDED)"
  by (auto simp: enforce_quota_def get_quota_eq [OF assms] Let_def split: option.splits)

section \<open>What a reconciliation leaves\<close>

text \<open>
  A row after the thresholds were applied, as one function of the row before; and when the step for
  the hard limit raises instead of looking for the next reminder.
\<close>

definition reminder_raises :: "quota_config \<Rightarrow> user_quota \<Rightarrow> int \<Rightarrow> int \<Rightarrow> bool" where
  "reminder_raises config q limit used \<longleftrightarrow>
     limit \<le> used \<and> naive_times config \<and> q_soft_notified_at q \<noteq> None"

definition reconciled_row :: "quota_config \<Rightarrow> bool \<Rightarrow> bool \<Rightarrow> int \<Rightarrow> int \<Rightarrow> int \<Rightarrow> user_quota \<Rightarrow> user_quota" where
  "reconciled_row config hard_sent soft_sent now used limit q =
     q\<lparr>q_used_bytes := used, q_last_reconciled_at := Some now, q_hard_blocked := limit \<le> used,
       q_soft_notified_at :=
         (if limit \<le> used then
            (if hard_sent \<and> reminder_due (naive_times config) now (q_soft_notified_at q) = Inr True
             then Some now else q_soft_notified_at q)
          else if of_int used / of_int limit \<ge> effective_soft_cap_fraction config (Some q) then
            (if soft_sent \<and> q_soft_notified_at q = None then Some now else q_soft_notified_at q)
          else None)\<rparr>"

text \<open>The databases between the calls: only the row of one user has changed.\<close>

definition at_row :: "db \<Rightarrow> string \<Rightarrow> user_quota \<Rightarrow> db \<Rightarrow> bool" where
  "at_row db0 n q db \<longleftrightarrow>
     db_wf db \<and> quota_of db = (quota_of db0)(n := Some q) \<and> db = db0\<lparr>db_quotas := db_quotas db\<rparr>"

lemma at_row_start: "db_wf db \<Longrightarrow> quota_of db n = Some q \<Longrightarrow> at_row db n q db"
  by (auto simp: at_row_def)

lemma at_row_modify:
  assumes "at_row db0 n q db"
    and "\<And>q. q_id (f q) = q_id q" and "\<And>q. q_user (f q) = q_user q"
  shows "\<exists>db'. act_commit (\<lambda>db. modify_quota db n f) db = (Inr (), db') \<and> at_row db0 n (f q) db'"
proof -
  from assms(1) have "db_wf db" by (simp add: at_row_def)
  from modify_quota_spec [OF this assms(2,3), of n] obtain db' where d: "modify_quota db n f = Inr db'"
    "db_wf db'" "quota_of db' = (quota_of db)(n := map_option f (quota_of db n))"
    "db' = db\<lparr>db_quotas := db_quotas db'\<rparr>" by blast
  from assms(1) have q: "quota_of db = (quota_of db0)(n := Some q)" "db = db0\<lparr>db_quotas := db_quotas db\<rparr>"
    by (simp_all add: at_row_def)
  have "quota_of db' = (quota_of db0)(n := Some (f q))"
    using d(3) q(1) by simp
  moreover have "db' = db0\<lparr>db_quotas := db_quotas db'\<rparr>"
    using d(4) q(2) by (metis db.unfold_congs(10) db.update_convs(10) db.surjective)
  ultimately have "at_row db0 n (f q) db'" using d(2) by (simp add: at_row_def)
  with d(1) show ?thesis by (auto simp: act_commit_eval)
qed

lemma at_row_setters:
  assumes "at_row db0 n q db"
  shows "\<exists>db'. act_commit (\<lambda>db. update_used_bytes t db n b) db = (Inr (), db') \<and>
      at_row db0 n (q\<lparr>q_used_bytes := b, q_last_reconciled_at := Some t\<rparr>) db'"
    and "\<exists>db'. act_when g (act_commit (\<lambda>db. set_hard_blocked db n h)) db = (Inr (), db') \<and>
      at_row db0 n (if g then q\<lparr>q_hard_blocked := h\<rparr> else q) db'"
    and "\<exists>db'. act_when g (act_commit (\<lambda>db. set_soft_notified_at db n v)) db = (Inr (), db') \<and>
      at_row db0 n (if g then q\<lparr>q_soft_notified_at := v\<rparr> else q) db'"
proof -
  show "\<exists>db'. act_commit (\<lambda>db. update_used_bytes t db n b) db = (Inr (), db') \<and>
      at_row db0 n (q\<lparr>q_used_bytes := b, q_last_reconciled_at := Some t\<rparr>) db'"
    unfolding update_used_bytes_def by (rule at_row_modify [OF assms]) simp_all
  show "\<exists>db'. act_when g (act_commit (\<lambda>db. set_hard_blocked db n h)) db = (Inr (), db') \<and>
      at_row db0 n (if g then q\<lparr>q_hard_blocked := h\<rparr> else q) db'"
    unfolding set_hard_blocked_def act_when_def
    using assms at_row_modify [OF assms, of "\<lambda>q. q\<lparr>q_hard_blocked := h\<rparr>"] by (cases g) simp_all
  show "\<exists>db'. act_when g (act_commit (\<lambda>db. set_soft_notified_at db n v)) db = (Inr (), db') \<and>
      at_row db0 n (if g then q\<lparr>q_soft_notified_at := v\<rparr> else q) db'"
    unfolding set_soft_notified_at_def act_when_def
    using assms at_row_modify [OF assms, of "\<lambda>q. q\<lparr>q_soft_notified_at := v\<rparr>"] by (cases g) simp_all
qed

lemma mail_display_name_known:
  assumes "db_wf db" and "get_user db n = Inr u"
  shows "mail_display_name db n = Inr (Some (u_display_name u))"
  using assms by (simp add: mail_display_name_def user_get_def user_get_row_eq user_to_entity_def)

lemma at_row_display_name:
  assumes "at_row db0 n q db" and "get_user db0 n = Inr u"
  shows "mail_display_name db n = Inr (Some (u_display_name u))"
proof (rule mail_display_name_known)
  from assms(1) show "db_wf db" by (simp add: at_row_def)
  from assms(1) have "db = db0\<lparr>db_quotas := db_quotas db\<rparr>" by (simp add: at_row_def)
  then have "get_user db n = get_user db0 n" by (metis lookup_frame(7))
  with assms(2) show "get_user db n = Inr u" by simp
qed

text \<open>The branch that mails: ask for the name, send, and note the time when it was sent.\<close>

lemma at_row_mail:
  assumes "at_row db0 n q db" and "get_user db0 n = Inr u"
  shows "\<exists>db'. act_when g
        (act_bind (act_read (\<lambda>db. mail_display_name db n)) (\<lambda>display_name.
         act_when (send n display_name b e m) (act_commit (\<lambda>db. set_soft_notified_at db n v)))) db =
      (Inr (), db') \<and>
    at_row db0 n (if g \<and> send n (Some (u_display_name u)) b e m then q\<lparr>q_soft_notified_at := v\<rparr> else q) db'"
proof (cases g)
  case False
  with assms(1) show ?thesis by (simp add: act_when_def)
next
  case True
  have "act_bind (act_read (\<lambda>db. mail_display_name db n)) (\<lambda>display_name.
         act_when (send n display_name b e m) (act_commit (\<lambda>db. set_soft_notified_at db n v))) db =
      act_when (send n (Some (u_display_name u)) b e m) (act_commit (\<lambda>db. set_soft_notified_at db n v)) db"
    by (rule act_bind_eval(1)) (simp add: at_row_display_name [OF assms])
  with True at_row_setters(3) [OF assms(1), of "send n (Some (u_display_name u)) b e m" v] show ?thesis
    by (simp add: act_when_def [of True])
qed

lemma hard_cap_step_row:
  assumes "at_row db0 n q db" and "get_user db0 n = Inr u"
  shows "\<exists>db'. hard_cap_step naive send now n quota b e db =
      (if naive \<and> q_soft_notified_at quota \<noteq> None then Inl OtherError else Inr (), db') \<and>
    at_row db0 n
      (let q1 = (if q_hard_blocked quota then q else q\<lparr>q_hard_blocked := True\<rparr>)
       in if reminder_due naive now (q_soft_notified_at quota) = Inr True \<and>
             send n (Some (u_display_name u)) b e (q_email quota)
          then q1\<lparr>q_soft_notified_at := Some now\<rparr> else q1) db'"
proof -
  let ?q1 = "if \<not> q_hard_blocked quota then q\<lparr>q_hard_blocked := True\<rparr> else q"
  from at_row_setters(2) [OF assms(1), of "\<not> q_hard_blocked quota" True] obtain db1 where
    d1: "act_when (\<not> q_hard_blocked quota) (act_commit (\<lambda>db. set_hard_blocked db n True)) db = (Inr (), db1)"
    "at_row db0 n ?q1 db1" by blast
  define k where "k = (\<lambda>should. act_when should (act_bind (act_read (\<lambda>db. mail_display_name db n)) (\<lambda>display_name.
        act_when (send n display_name b e (q_email quota))
          (act_commit (\<lambda>db. set_soft_notified_at db n (Some now))))))"
  have s: "hard_cap_step naive send now n quota b e db =
      act_bind (act_read (\<lambda>_. reminder_due naive now (q_soft_notified_at quota))) k db1"
    unfolding hard_cap_step_def k_def by (rule act_bind_eval(1)) (rule d1(1))
  show ?thesis
  proof (cases "reminder_due naive now (q_soft_notified_at quota)")
    case (Inl x)
    then have "naive \<and> q_soft_notified_at quota \<noteq> None" "x = OtherError"
      by (auto simp: reminder_due_def split: option.splits if_splits)
    with Inl d1(2) show ?thesis
      unfolding s by (intro exI [of _ db1]) (auto simp: act_bind_def act_read_def Let_def)
  next
    case (Inr due)
    then have no: "\<not> (naive \<and> q_soft_notified_at quota \<noteq> None)"
      by (auto simp: reminder_due_def split: option.splits if_splits)
    from at_row_mail [OF d1(2) assms(2), of due send b e "q_email quota" "Some now"] obtain db' where
      m: "k due db1 = (Inr (), db')"
      and r: "at_row db0 n (if due \<and> send n (Some (u_display_name u)) b e (q_email quota)
        then ?q1\<lparr>q_soft_notified_at := Some now\<rparr> else ?q1) db'" unfolding k_def by blast
    have "hard_cap_step naive send now n quota b e db = (Inr (), db')"
      unfolding s using Inr m by (simp add: act_bind_def act_read_def)
    with r Inr no show ?thesis by (intro exI [of _ db']) (auto simp: Let_def if_distrib)
  qed
qed

lemma soft_cap_step_row:
  assumes "at_row db0 n q db" and "get_user db0 n = Inr u"
  shows "\<exists>db'. soft_cap_step send now n quota b e pct frc db = (Inr (), db') \<and>
    at_row db0 n
      (let q1 = (if q_hard_blocked quota then q\<lparr>q_hard_blocked := False\<rparr> else q)
       in if pct \<ge> frc
          then (if q_soft_notified_at quota = None \<and> send n (Some (u_display_name u)) b e (q_email quota)
                then q1\<lparr>q_soft_notified_at := Some now\<rparr> else q1)
          else (if q_soft_notified_at quota \<noteq> None then q1\<lparr>q_soft_notified_at := None\<rparr> else q1)) db'"
proof -
  let ?q1 = "if q_hard_blocked quota then q\<lparr>q_hard_blocked := False\<rparr> else q"
  from at_row_setters(2) [OF assms(1), of "q_hard_blocked quota" False] obtain db1 where
    d1: "act_when (q_hard_blocked quota) (act_commit (\<lambda>db. set_hard_blocked db n False)) db = (Inr (), db1)"
    "at_row db0 n ?q1 db1" by blast
  have s: "soft_cap_step send now n quota b e pct frc db =
      (if pct \<ge> frc then
       act_when (q_soft_notified_at quota = None)
         (act_bind (act_read (\<lambda>db. mail_display_name db n)) (\<lambda>display_name.
          act_when (send n display_name b e (q_email quota))
            (act_commit (\<lambda>db. set_soft_notified_at db n (Some now)))))
     else
       act_when (q_soft_notified_at quota \<noteq> None)
         (act_commit (\<lambda>db. set_soft_notified_at db n None))) db1"
    unfolding soft_cap_step_def by (rule act_bind_eval(1)) (rule d1(1))
  show ?thesis
  proof (cases "pct \<ge> frc")
    case True
    with at_row_mail [OF d1(2) assms(2), of "q_soft_notified_at quota = None" send b e "q_email quota"
        "Some now"]
    show ?thesis unfolding s by (simp add: Let_def)
  next
    case False
    with at_row_setters(3) [OF d1(2), of "q_soft_notified_at quota \<noteq> None" None]
    show ?thesis unfolding s by (simp add: Let_def)
  qed
qed

text \<open>
  A measurement that changes neither users nor quotas: what the reconciliation relies on
  while it holds on to the row it read first.
\<close>

definition measured :: "db \<Rightarrow> string \<Rightarrow> int \<Rightarrow> (string \<times> int) list \<Rightarrow>
    (string \<Rightarrow> (int \<times> (string \<times> int) list, db \<times> 'c) action) \<Rightarrow> 'c \<Rightarrow> db \<Rightarrow> 'c \<Rightarrow> bool" where
  "measured db n used sizes calc c db1 c1 \<longleftrightarrow>
     calc n (db, c) = (Inr (used, sizes), (db1, c1)) \<and> db_wf db1 \<and>
     db_users db1 = db_users db \<and> db_quotas db1 = db_quotas db"

lemma measured_same:
  assumes "measured db n used sizes calc c db1 c1"
  shows "quota_of db1 = quota_of db" and "get_user db1 = get_user db"
proof -
  show u: "get_user db1 = get_user db"
    using assms by (simp add: measured_def get_user_def fun_eq_iff)
  show "quota_of db1 = quota_of db"
  proof -
    have "db_quotas db1 = db_quotas db" using assms by (simp add: measured_def)
    then show ?thesis unfolding quota_of_def [abs_def] u by (simp only:)
  qed
qed

lemma reconcile_user_quota_limited:
  assumes "db_wf db" and "quota_of db n = Some q" and "get_user db n = Inr u"
    and "effective_quota_bytes config (Some q) = Some limit" and "limit \<noteq> 0"
    and "measured db n used sizes calc c db1 c1"
  shows "\<exists>db'. reconcile_user_quota config calc send_hard send_soft now n (db, c) =
      (if reminder_raises config q limit used then Inl OtherError else Inr sizes, (db', c1)) \<and>
    at_row db1 n
      (reconciled_row config (send_hard n (Some (u_display_name u)) used limit (q_email q))
         (send_soft n (Some (u_display_name u)) used limit (q_email q)) now used limit q) db'"
proof -
  let ?q2 = "q\<lparr>q_used_bytes := used, q_last_reconciled_at := Some now\<rparr>"
  let ?frc = "effective_soft_cap_fraction config (Some q)"
  let ?pct = "of_int used / of_int limit :: rat"
  have u1: "get_user db1 n = Inr u" and q1: "quota_of db1 n = Some q"
    using measured_same [OF assms(6)] assms(2,3) by simp_all
  have wf1: "db_wf db1" and calc: "calc n (db, c) = (Inr (used, sizes), (db1, c1))"
    using assms(6) by (simp_all add: measured_def)
  from at_row_setters(1) [OF at_row_start [OF wf1 q1], of now used] obtain db2 where
    d2: "act_commit (\<lambda>db. update_used_bytes now db n used) db1 = (Inr (), db2)" "at_row db1 n ?q2 db2"
    by blast
  let ?step = "if used \<ge> limit then hard_cap_step (naive_times config) send_hard now n q used limit
    else soft_cap_step send_soft now n q used limit ?pct ?frc"
  have "act_read (\<lambda>db. get_quota db n) db = (Inr (Some q), db)"
    by (simp add: get_quota_eq [OF assms(1)] assms(2))
  then have r: "reconcile_user_quota config calc send_hard send_soft now n (db, c) =
      act_bind (on_fst ?step) (\<lambda>_. act_return sizes) (db2, c1)"
    unfolding reconcile_user_quota_def
    by (simp add: act_bind_def on_fst_def assms(4,5) calc d2(1) Let_def)
  let ?r = "if reminder_raises config q limit used then Inl OtherError else Inr () :: unit result"
  have "\<exists>db'. ?step db2 = (?r, db') \<and> at_row db1 n
      (reconciled_row config (send_hard n (Some (u_display_name u)) used limit (q_email q))
         (send_soft n (Some (u_display_name u)) used limit (q_email q)) now used limit q) db'"
  proof (cases "used \<ge> limit")
    case True
    let ?hs = "send_hard n (Some (u_display_name u)) used limit (q_email q)"
    let ?due = "reminder_due (naive_times config) now (q_soft_notified_at q) = Inr True"
    let ?row = "let q1 = (if q_hard_blocked q then ?q2 else ?q2\<lparr>q_hard_blocked := True\<rparr>)
       in if ?due \<and> ?hs then q1\<lparr>q_soft_notified_at := Some now\<rparr> else q1"
    have "?row = reconciled_row config ?hs ss now used limit q" for ss
      by (rule user_quota.equality) (use True in \<open>auto simp: reconciled_row_def Let_def\<close>)
    with hard_cap_step_row [OF d2(2) u1, of "naive_times config" send_hard now q used limit] True show ?thesis
      by (simp add: reminder_raises_def)
  next
    case False
    let ?ss = "send_soft n (Some (u_display_name u)) used limit (q_email q)"
    let ?row = "let q1 = (if q_hard_blocked q then ?q2\<lparr>q_hard_blocked := False\<rparr> else ?q2)
       in if ?pct \<ge> ?frc
          then (if q_soft_notified_at q = None \<and> ?ss
                then q1\<lparr>q_soft_notified_at := Some now\<rparr> else q1)
          else (if q_soft_notified_at q \<noteq> None then q1\<lparr>q_soft_notified_at := None\<rparr> else q1)"
    have "?row = reconciled_row config hs ?ss now used limit q" for hs
      by (rule user_quota.equality) (use False in \<open>auto simp: reconciled_row_def Let_def\<close>)
    with soft_cap_step_row [OF d2(2) u1, of send_soft now q used limit ?pct ?frc] False show ?thesis
      by (simp add: reminder_raises_def)
  qed
  then obtain db' where "?step db2 = (?r, db')" "at_row db1 n
      (reconciled_row config (send_hard n (Some (u_display_name u)) used limit (q_email q))
         (send_soft n (Some (u_display_name u)) used limit (q_email q)) now used limit q) db'"
    by blast
  then show ?thesis unfolding r by (intro exI [of _ db']) (simp add: act_bind_def on_fst_def)
qed

text \<open>A limit of zero: the usage is stored, then the division raises and nothing is enforced.\<close>

lemma reconcile_user_quota_zero:
  assumes "db_wf db" and "quota_of db n = Some q"
    and "effective_quota_bytes config (Some q) = Some 0" and "measured db n used sizes calc c db1 c1"
  shows "\<exists>db'. reconcile_user_quota config calc send_hard send_soft now n (db, c) =
      (Inl ZeroDivisionError, (db', c1)) \<and>
    at_row db1 n (q\<lparr>q_used_bytes := used, q_last_reconciled_at := Some now\<rparr>) db'"
proof -
  have wf1: "db_wf db1" and calc: "calc n (db, c) = (Inr (used, sizes), (db1, c1))"
    and q1: "quota_of db1 n = Some q"
    using assms(2,4) measured_same [OF assms(4)] by (simp_all add: measured_def)
  from at_row_setters(1) [OF at_row_start [OF wf1 q1], of now used] obtain db2 where
    d2: "act_commit (\<lambda>db. update_used_bytes now db n used) db1 = (Inr (), db2)"
    "at_row db1 n (q\<lparr>q_used_bytes := used, q_last_reconciled_at := Some now\<rparr>) db2" by blast
  have "reconcile_user_quota config calc send_hard send_soft now n (db, c) = (Inl ZeroDivisionError, (db2, c1))"
    unfolding reconcile_user_quota_def
    by (simp add: act_bind_def on_fst_def get_quota_eq [OF assms(1)] assms(2,3) calc d2(1))
  with d2(2) show ?thesis by blast
qed

text \<open>Without a limit the enforcement state is cleared and nothing is measured.\<close>

lemma reconcile_user_quota_unlimited:
  assumes "db_wf db" and "quota_of db n = Some q" and "effective_quota_bytes config (Some q) = None"
  shows "\<exists>db'. reconcile_user_quota config calc send_hard send_soft now n (db, c) = (Inr [], (db', c)) \<and>
    at_row db n (q\<lparr>q_hard_blocked := False, q_soft_notified_at := None\<rparr>) db'"
proof -
  from at_row_setters(2) [OF at_row_start [OF assms(1,2)], of "q_hard_blocked q" False] obtain db1
    where d1: "act_when (q_hard_blocked q) (act_commit (\<lambda>db. set_hard_blocked db n False)) db = (Inr (), db1)"
      "at_row db n (if q_hard_blocked q then q\<lparr>q_hard_blocked := False\<rparr> else q) db1" by blast
  from at_row_setters(3) [OF d1(2), of "q_soft_notified_at q \<noteq> None" None] obtain db2 where
    d2: "act_when (q_soft_notified_at q \<noteq> None) (act_commit (\<lambda>db. set_soft_notified_at db n None)) db1 =
        (Inr (), db2)"
      "at_row db n (if q_soft_notified_at q \<noteq> None
        then (if q_hard_blocked q then q\<lparr>q_hard_blocked := False\<rparr> else q)\<lparr>q_soft_notified_at := None\<rparr>
        else (if q_hard_blocked q then q\<lparr>q_hard_blocked := False\<rparr> else q)) db2" by blast
  have "reconcile_user_quota config calc send_hard send_soft now n (db, c) = (Inr [], (db2, c))"
    unfolding reconcile_user_quota_def
    by (simp add: act_bind_def on_fst_def get_quota_eq [OF assms(1)] assms(2,3) d1(1) d2(1) del: not_None_eq)
  moreover have "at_row db n (q\<lparr>q_hard_blocked := False, q_soft_notified_at := None\<rparr>) db2"
  proof -
    have "(if q_soft_notified_at q \<noteq> None
        then (if q_hard_blocked q then q\<lparr>q_hard_blocked := False\<rparr> else q)\<lparr>q_soft_notified_at := None\<rparr>
        else (if q_hard_blocked q then q\<lparr>q_hard_blocked := False\<rparr> else q)) =
      q\<lparr>q_hard_blocked := False, q_soft_notified_at := None\<rparr>"
      by (rule user_quota.equality) auto
    with d2(2) show ?thesis by (simp only:)
  qed
  ultimately show ?thesis by blast
qed

text \<open>A user without a row gets one that records the usage and applies no limit to it.\<close>

lemma reconcile_user_quota_first:
  assumes "db_wf db" and "quota_of db n = None" and "get_user db n = Inr u"
    and "measured db n used sizes calc c db1 c1"
  shows "\<exists>db'. reconcile_user_quota config calc send_hard send_soft now n (db, c) = (Inr sizes, (db', c1)) \<and>
    at_row db1 n ((new_quota db1 (u_id u) None None None)
      \<lparr>q_used_bytes := used, q_last_reconciled_at := Some now\<rparr>) db'"
proof -
  let ?q = "new_quota db1 (u_id u) None None None"
  have wf1: "db_wf db1" and calc: "calc n (db, c) = (Inr (used, sizes), (db1, c1))"
    and q1: "quota_of db1 n = None" and u1: "get_user db1 n = Inr u"
    using assms(2,3,4) measured_same [OF assms(4)] by (simp_all add: measured_def)
  from set_quota_spec [OF wf1 u1, of None None] q1 obtain db2 where
    s: "set_quota db1 n None None = Inr (?q, db2)" "at_row db1 n ?q db2"
    by (auto simp: at_row_def)
  from at_row_setters(1) [OF s(2), of now used] obtain db3 where
    d3: "act_commit (\<lambda>db. update_used_bytes now db n used) db2 = (Inr (), db3)"
    "at_row db1 n (?q\<lparr>q_used_bytes := used, q_last_reconciled_at := Some now\<rparr>) db3" by blast
  have "act_commit (\<lambda>db. result_state (set_quota db n None None)) db1 = (Inr (), db2)"
    by (simp add: act_commit_eval s(1))
  then have "reconcile_user_quota config calc send_hard send_soft now n (db, c) = (Inr sizes, (db3, c1))"
    unfolding reconcile_user_quota_def
    by (simp add: act_bind_def on_fst_def get_quota_eq [OF assms(1)] assms(2) calc d3(1))
  with d3(2) show ?thesis by blast
qed

section \<open>Enforcement and reconciliation agree\<close>

text \<open>
  After a reconciliation under a limit, an upload is refused exactly when the row is blocked.
\<close>

lemma reconciled_enforce:
  assumes "at_row db1 n (reconciled_row config hs ss now used limit q) db'"
    and "effective_quota_bytes config (Some q) = Some limit"
  shows "enforce_quota config db' n = Inl (MlflowException RESOURCE_LIMIT_EXCEEDED) \<longleftrightarrow>
    (\<exists>q'. quota_of db' n = Some q' \<and> q_hard_blocked q')"
proof -
  let ?q = "reconciled_row config hs ss now used limit q"
  from assms(1) have wf: "db_wf db'" and q: "quota_of db' n = Some ?q" by (simp_all add: at_row_def)
  have "effective_quota_bytes config (Some ?q) = Some limit" and "q_used_bytes ?q = used"
    and "q_hard_blocked ?q \<longleftrightarrow> limit \<le> used"
    using assms(2) by (simp_all add: effective_quota_bytes_def reconciled_row_def split: option.splits)
  then show ?thesis by (simp add: enforce_quota_iff(1) [OF wf] q)
qed

end
