(* ===== verification/Validators.thy ===== *)
theory Validators
  imports Request Store QuotaPolicy
begin

text \<open>
  The validators of \<^verbatim>\<open>validators/*.py\<close>: each takes the request and the name of a user
  who is not an administrator and says whether the request may go on. They read the database,
  fill the caches of permission resolution, and may raise.
\<close>

text \<open>
  The running server: its settings, MLflow's stores, and the functions of other code. MLflow
  contributes its endpoints (a path, the request class it parses or \<open>None\<close> for an endpoint
  with a handler of its own, and the methods), the names of the request classes of budget
  policies if its version has them, two functions that place a path, the prefix of its REST
  API and the HTTP status of an error code; \<open>sv_fullmatch\<close> is \<^verbatim>\<open>re.fullmatch\<close>.
\<close>

record server =
  sv_config :: auth_config
  sv_outside :: outside
  sv_tracking :: tracking
  sv_store :: store_env
  sv_quota :: quota_config
  sv_endpoints :: "(string \<times> string option \<times> string list) list"
  sv_budget_policy_protos :: "string list"
  sv_add_static_prefix :: "string \<Rightarrow> string"
  sv_get_ajax_path :: "string \<Rightarrow> string"
  sv_rest_api_path_prefix :: string
  sv_fullmatch :: "string \<Rightarrow> string \<Rightarrow> bool"
  sv_error_status :: "error_code \<Rightarrow> nat"

definition with_caches :: "(db \<Rightarrow> auth_caches \<Rightarrow> 'a result \<times> auth_caches) \<Rightarrow> ('a, store_state) action" where
  "with_caches f s = (case f (st_db s) (st_caches s) of (r, c) \<Rightarrow> (r, s\<lparr>st_caches := c\<rparr>))"

definition act_map :: "('a \<Rightarrow> 'b) \<Rightarrow> ('a, 's) action \<Rightarrow> ('b, 's) action" where
  "act_map f m = act_bind m (\<lambda>x. act_return (f x))"

definition act_lift :: "'a result \<Rightarrow> ('a, 's) action" where
  "act_lift r = (\<lambda>s. (r, s))"

definition act_except :: "('a, 's) action \<Rightarrow> ('a, 's) action \<Rightarrow> ('a, 's) action" where
  "act_except m h = (\<lambda>s. case m s of (Inl e, s') \<Rightarrow> h s' | r \<Rightarrow> r)"

text \<open>The permission of a user on an experiment, a registered model or a scorer.\<close>

definition experiment_permission :: "server \<Rightarrow> request \<Rightarrow> json \<Rightarrow> string \<Rightarrow> (permission, store_state) action" where
  "experiment_permission sv rq experiment_id username =
     act_bind (act_lift (db_text (sv_tracking sv) experiment_id)) (\<lambda>i.
     act_map pr_permission (with_caches (\<lambda>db.
       effective_experiment_permission (sv_config sv) (sv_outside sv) db (get_request_workspace rq) i username)))"

definition model_permission :: "server \<Rightarrow> request \<Rightarrow> json \<Rightarrow> string \<Rightarrow> (permission, store_state) action" where
  "model_permission sv rq name username =
     act_bind (act_lift (db_text (sv_tracking sv) name)) (\<lambda>n.
     act_map pr_permission (with_caches (\<lambda>db.
       effective_registered_model_permission (sv_config sv) (sv_outside sv) db
         (get_request_workspace rq) n username)))"

definition scorer_permission :: "server \<Rightarrow> request \<Rightarrow> json \<Rightarrow> json \<Rightarrow> string \<Rightarrow> (permission, store_state) action" where
  "scorer_permission sv rq experiment_id name username =
     act_bind (act_lift (db_text (sv_tracking sv) experiment_id)) (\<lambda>i.
     act_bind (act_lift (db_text (sv_tracking sv) name)) (\<lambda>n.
     act_map pr_permission (with_caches (\<lambda>db.
       effective_scorer_permission (sv_config sv) (sv_outside sv) db (get_request_workspace rq) i n username))))"

text \<open>The loop \<^verbatim>\<open>for x in xs: if not check(x): return False\<close>.\<close>

primrec all_checked :: "('a \<Rightarrow> (bool, 's) action) \<Rightarrow> 'a list \<Rightarrow> (bool, 's) action" where
  "all_checked check [] = act_return True"
| "all_checked check (x # xs) =
     act_bind (check x) (\<lambda>ok. if ok then all_checked check xs else act_return False)"

section \<open>Experiments\<close>

definition get_permission_from_experiment_id where
  "get_permission_from_experiment_id sv rq username =
     act_bind (act_lift (get_experiment_id (sv_tracking sv) rq)) (\<lambda>experiment_id.
     experiment_permission sv rq experiment_id username)"

definition get_permission_from_experiment_name where
  "get_permission_from_experiment_name sv rq username =
     act_bind (act_lift (get_request_param rq ''experiment_name'')) (\<lambda>experiment_name.
     act_bind (act_lift (ts_experiment_by_name (sv_tracking sv) experiment_name)) (\<lambda>store_exp.
     case store_exp of
       None \<Rightarrow> act_lift (get_permission ''MANAGE'')
     | Some i \<Rightarrow> experiment_permission sv rq (JString i) username))"

text \<open>The two patterns \<^verbatim>\<open>^(\d+)/\<close> and \<^verbatim>\<open>^(workspaces)/([\w-]+)/(\d+)/\<close>, over ASCII.\<close>

definition is_digit :: "char \<Rightarrow> bool" where
  "is_digit c \<longleftrightarrow> 48 \<le> (of_char c :: nat) \<and> (of_char c :: nat) \<le> 57"

definition is_word_or_dash :: "char \<Rightarrow> bool" where
  "is_word_or_dash c \<longleftrightarrow>
     (let n = of_char c :: nat
      in is_digit c \<or> 65 \<le> n \<and> n \<le> 90 \<or> 97 \<le> n \<and> n \<le> 122 \<or> c = CHR ''_'' \<or> c = CHR ''-'')"

definition segment :: "(char \<Rightarrow> bool) \<Rightarrow> string \<Rightarrow> (string \<times> string) option" where
  "segment p s =
     (let taken = takeWhile p s; rest = dropWhile p s
      in if taken \<noteq> [] \<and> rest \<noteq> [] \<and> hd rest = CHR ''/'' then Some (taken, tl rest) else None)"

definition match_experiment_id :: "string \<Rightarrow> string option" where
  "match_experiment_id path = map_option fst (segment is_digit path)"

definition match_workspaces_experiment_id :: "string \<Rightarrow> string option" where
  "match_workspaces_experiment_id path =
     (if take 11 path = ''workspaces/''
      then (case segment is_word_or_dash (drop 11 path) of
              Some (w, rest) \<Rightarrow> map_option fst (segment is_digit rest)
            | None \<Rightarrow> None)
      else None)"

definition get_experiment_id_from_view_args :: "request \<Rightarrow> string option" where
  "get_experiment_id_from_view_args rq =
     (case view_arg rq ''artifact_path'' of
        Some path \<Rightarrow>
          if path = '''' then None
          else (case match_experiment_id path of
                  Some i \<Rightarrow> Some i
                | None \<Rightarrow> match_workspaces_experiment_id path)
      | None \<Rightarrow> None)"

definition get_permission_from_experiment_id_artifact_proxy where
  "get_permission_from_experiment_id_artifact_proxy sv rq username =
     (case get_experiment_id_from_view_args rq of
        Some i \<Rightarrow> experiment_permission sv rq (JString i) username
      | None \<Rightarrow> act_lift (get_permission (DEFAULT_MLFLOW_PERMISSION (sv_config sv))))"

definition validate_can_read_experiment where
  "validate_can_read_experiment sv rq u = act_map can_read (get_permission_from_experiment_id sv rq u)"

definition validate_can_read_experiment_by_name where
  "validate_can_read_experiment_by_name sv rq u =
     act_map can_read (get_permission_from_experiment_name sv rq u)"

definition validate_can_update_experiment where
  "validate_can_update_experiment sv rq u = act_map can_update (get_permission_from_experiment_id sv rq u)"

definition validate_can_delete_experiment where
  "validate_can_delete_experiment sv rq u = act_map can_delete (get_permission_from_experiment_id sv rq u)"

definition validate_can_manage_experiment where
  "validate_can_manage_experiment sv rq u = act_map can_manage (get_permission_from_experiment_id sv rq u)"

definition validate_can_read_experiment_artifact_proxy where
  "validate_can_read_experiment_artifact_proxy sv rq u =
     act_map can_read (get_permission_from_experiment_id_artifact_proxy sv rq u)"

definition validate_can_update_experiment_artifact_proxy where
  "validate_can_update_experiment_artifact_proxy sv rq u =
     act_map can_update (get_permission_from_experiment_id_artifact_proxy sv rq u)"

definition validate_can_delete_experiment_artifact_proxy where
  "validate_can_delete_experiment_artifact_proxy sv rq u =
     act_map can_delete (get_permission_from_experiment_id_artifact_proxy sv rq u)"

text \<open>\<^verbatim>\<open>data.get("experiment_ids", []) or []\<close>, as a list of values.\<close>

definition json_experiment_ids :: "request \<Rightarrow> json list result" where
  "json_experiment_ids rq =
     bind_result (py_get (or_empty (get_json rq)) ''experiment_ids'') (\<lambda>ids.
     if truthy ids then py_iter ids else Inr [])"

definition requested_experiment_ids :: "request \<Rightarrow> json list result" where
  "requested_experiment_ids rq =
     (if rq_method rq = ''POST'' \<and> rq_is_json rq then json_experiment_ids rq
      else Inr (map JString (getlist (rq_args rq) ''experiment_ids'')))"

definition can_read_experiments where
  "can_read_experiments sv rq u ids =
     all_checked (\<lambda>i. act_map can_read (experiment_permission sv rq i u)) ids"

definition validate_can_read_experiments_from_experiment_ids where
  "validate_can_read_experiments_from_experiment_ids sv rq u =
     act_bind (act_lift (requested_experiment_ids rq)) (can_read_experiments sv rq u)"

definition validate_can_update_experiment_from_experiment_id where
  "validate_can_update_experiment_from_experiment_id sv rq u =
     act_bind (act_lift (get_request_param rq ''experiment_id'')) (\<lambda>i.
     act_map can_update (experiment_permission sv rq i u))"

section \<open>Registered models, logged models and traces\<close>

definition get_permission_from_registered_model_name where
  "get_permission_from_registered_model_name sv rq u =
     act_bind (act_lift (get_model_name rq)) (\<lambda>name. model_permission sv rq name u)"

text \<open>A logged model, a trace and a run have the permission of their experiment.\<close>

definition permission_of_parent where
  "permission_of_parent sv rq parent_id u =
     act_bind (act_lift parent_id) (\<lambda>i. experiment_permission sv rq (JString i) u)"

definition get_permission_from_model_id where
  "get_permission_from_model_id sv rq u =
     permission_of_parent sv rq
       (bind_result (get_model_id rq) (ts_logged_model_experiment (sv_tracking sv))) u"

definition get_permission_from_model_version where
  "get_permission_from_model_version sv rq u = get_permission_from_registered_model_name sv rq u"

definition get_permission_from_trace_request_id where
  "get_permission_from_trace_request_id sv rq u =
     permission_of_parent sv rq
       (bind_result (get_request_param rq ''request_id'') (ts_trace_experiment (sv_tracking sv))) u"

definition validate_can_read_registered_model where
  "validate_can_read_registered_model sv rq u =
     act_map can_read (get_permission_from_registered_model_name sv rq u)"

definition validate_can_update_registered_model where
  "validate_can_update_registered_model sv rq u =
     act_map can_update (get_permission_from_registered_model_name sv rq u)"

definition validate_can_delete_registered_model where
  "validate_can_delete_registered_model sv rq u =
     act_map can_delete (get_permission_from_registered_model_name sv rq u)"

definition validate_can_manage_registered_model where
  "validate_can_manage_registered_model sv rq u =
     act_map can_manage (get_permission_from_registered_model_name sv rq u)"

definition validate_can_read_logged_model where
  "validate_can_read_logged_model sv rq u = act_map can_read (get_permission_from_model_id sv rq u)"

definition validate_can_update_logged_model where
  "validate_can_update_logged_model sv rq u = act_map can_update (get_permission_from_model_id sv rq u)"

definition validate_can_delete_logged_model where
  "validate_can_delete_logged_model sv rq u = act_map can_delete (get_permission_from_model_id sv rq u)"

definition validate_can_manage_logged_model where
  "validate_can_manage_logged_model sv rq u = act_map can_manage (get_permission_from_model_id sv rq u)"

definition validate_can_read_model_version_artifact where
  "validate_can_read_model_version_artifact sv rq u =
     act_map can_read (get_permission_from_model_version sv rq u)"

definition validate_can_read_trace_artifact where
  "validate_can_read_trace_artifact sv rq u =
     act_map can_read (get_permission_from_trace_request_id sv rq u)"

section \<open>Runs\<close>

definition get_permission_from_run_id where
  "get_permission_from_run_id sv rq u =
     permission_of_parent sv rq
       (bind_result (get_request_param rq ''run_id'') (ts_run_experiment (sv_tracking sv))) u"

definition validate_can_read_run where
  "validate_can_read_run sv rq u = act_map can_read (get_permission_from_run_id sv rq u)"

definition validate_can_update_run where
  "validate_can_update_run sv rq u = act_map can_update (get_permission_from_run_id sv rq u)"

definition validate_can_delete_run where
  "validate_can_delete_run sv rq u = act_map can_delete (get_permission_from_run_id sv rq u)"

definition validate_can_manage_run where
  "validate_can_manage_run sv rq u = act_map can_manage (get_permission_from_run_id sv rq u)"

definition validate_can_read_run_artifact where
  "validate_can_read_run_artifact sv rq u = act_map can_read (get_permission_from_run_id sv rq u)"

definition validate_can_update_run_artifact where
  "validate_can_update_run_artifact sv rq u = act_map can_update (get_permission_from_run_id sv rq u)"

definition can_read_runs where
  "can_read_runs sv rq u run_ids =
     all_checked (\<lambda>run_id. act_map can_read
       (permission_of_parent sv rq (ts_run_experiment (sv_tracking sv) (JString run_id)) u)) run_ids"

definition validate_can_read_metric_history_bulk_interval where
  "validate_can_read_metric_history_bulk_interval sv rq u =
     (let run_ids = getlist (rq_args rq) ''run_ids'';
          run_ids = (if run_ids = [] then getlist (rq_args rq) ''run_id'' else run_ids)
      in can_read_runs sv rq u run_ids)"

section \<open>Scorers and prompt optimization jobs\<close>

definition get_permission_from_scorer_name where
  "get_permission_from_scorer_name sv rq u =
     act_bind (act_lift (get_request_param rq ''experiment_id'')) (\<lambda>experiment_id.
     act_bind (act_lift (get_request_param rq ''name'')) (\<lambda>name.
     scorer_permission sv rq experiment_id name u))"

definition get_permission_from_scorer_permission_request where
  "get_permission_from_scorer_permission_request sv rq u =
     act_bind (act_lift (get_request_param rq ''experiment_id'')) (\<lambda>experiment_id.
     act_bind (act_lift (get_request_param rq ''scorer_name'')) (\<lambda>name.
     scorer_permission sv rq experiment_id name u))"

definition validate_can_read_scorer where
  "validate_can_read_scorer sv rq u = act_map can_read (get_permission_from_scorer_name sv rq u)"

definition validate_can_update_scorer where
  "validate_can_update_scorer sv rq u = act_map can_update (get_permission_from_scorer_name sv rq u)"

definition validate_can_delete_scorer where
  "validate_can_delete_scorer sv rq u = act_map can_delete (get_permission_from_scorer_name sv rq u)"

definition validate_can_manage_scorer where
  "validate_can_manage_scorer sv rq u = act_map can_manage (get_permission_from_scorer_name sv rq u)"

definition validate_can_manage_scorer_permission where
  "validate_can_manage_scorer_permission sv rq u =
     act_map can_manage (get_permission_from_scorer_permission_request sv rq u)"

definition get_permission_from_prompt_optimization_job_id where
  "get_permission_from_prompt_optimization_job_id sv rq u =
     act_bind (act_lift (get_request_param rq ''job_id'')) (\<lambda>job_id.
     act_bind (act_lift (ts_job_params (sv_tracking sv) job_id)) (\<lambda>params.
     act_bind (act_lift (py_get params ''experiment_id'')) (\<lambda>experiment_id.
     experiment_permission sv rq experiment_id u)))"

definition validate_can_read_prompt_optimization_job where
  "validate_can_read_prompt_optimization_job sv rq u =
     act_map can_read (get_permission_from_prompt_optimization_job_id sv rq u)"

definition validate_can_update_prompt_optimization_job where
  "validate_can_update_prompt_optimization_job sv rq u =
     act_map can_update (get_permission_from_prompt_optimization_job_id sv rq u)"

definition validate_can_delete_prompt_optimization_job where
  "validate_can_delete_prompt_optimization_job sv rq u =
     act_map can_delete (get_permission_from_prompt_optimization_job_id sv rq u)"

section \<open>Traces\<close>

definition has_request_param :: "request \<Rightarrow> string \<Rightarrow> bool" where
  "has_request_param rq name = (case get_request_param rq name of Inr _ \<Rightarrow> True | Inl _ \<Rightarrow> False)"

definition get_trace_id :: "request \<Rightarrow> json result" where
  "get_trace_id rq =
     (if has_request_param rq ''trace_id'' then get_request_param rq ''trace_id''
      else get_request_param rq ''request_id'')"

definition get_permission_from_trace_id where
  "get_permission_from_trace_id sv rq u =
     permission_of_parent sv rq (bind_result (get_trace_id rq) (ts_trace_experiment (sv_tracking sv))) u"

definition validate_can_read_traces_from_experiment_ids where
  "validate_can_read_traces_from_experiment_ids sv rq u =
     (let ids = (case py_get (or_empty (get_json rq)) ''experiment_ids'' of
                   Inr v \<Rightarrow> if truthy v then v else JArray []
                 | Inl _ \<Rightarrow> JArray [])
      in act_bind (act_lift (py_iter ids)) (can_read_experiments sv rq u))"

definition validate_can_read_trace where
  "validate_can_read_trace sv rq u = act_map can_read (get_permission_from_trace_id sv rq u)"

definition validate_can_update_trace where
  "validate_can_update_trace sv rq u = act_map can_update (get_permission_from_trace_id sv rq u)"

definition validate_can_update_trace_from_experiment_id where
  "validate_can_update_trace_from_experiment_id sv rq u =
     act_bind (act_lift (get_request_param rq ''experiment_id'')) (\<lambda>i.
     act_map can_update (experiment_permission sv rq i u))"

definition validate_can_delete_traces_from_experiment_id where
  "validate_can_delete_traces_from_experiment_id sv rq u =
     act_bind (act_lift (get_request_param rq ''experiment_id'')) (\<lambda>i.
     act_map can_delete (experiment_permission sv rq i u))"

definition validate_can_update_trace_from_run_id where
  "validate_can_update_trace_from_run_id sv rq u = act_map can_update (get_permission_from_run_id sv rq u)"

section \<open>Bulk requests, promptlab runs and the gateway proxy\<close>

definition validate_can_read_metric_history_bulk where
  "validate_can_read_metric_history_bulk sv rq u =
     (let run_ids = getlist (rq_args rq) ''run_id''
      in if run_ids = [] then act_raise (MlflowException INVALID_PARAMETER_VALUE)
         else can_read_runs sv rq u run_ids)"

definition validate_can_search_datasets where
  "validate_can_search_datasets sv rq u =
     act_bind (act_lift (requested_experiment_ids rq)) (\<lambda>ids.
     if ids = [] then act_raise (MlflowException INVALID_PARAMETER_VALUE)
     else can_read_experiments sv rq u ids)"

definition validate_can_create_promptlab_run where
  "validate_can_create_promptlab_run sv rq u =
     act_bind (act_lift (case get_request_param rq ''experiment_id'' of
         Inl (MlflowException _) \<Rightarrow> Inl (MlflowException INVALID_PARAMETER_VALUE)
       | r \<Rightarrow> r)) (\<lambda>i.
     act_map can_update (experiment_permission sv rq i u))"

definition validate_can_create_gateway :: "server \<Rightarrow> request \<Rightarrow> string \<Rightarrow> (bool, store_state) action" where
  "validate_can_create_gateway sv rq u = act_return True"

text \<open>A check of \<^verbatim>\<open>can_*\<close> of a gateway resource, on the database of the moment.\<close>

definition gateway_check where
  "gateway_check can sv rq name u =
     with_caches (\<lambda>db. can (sv_config sv) (sv_outside sv) db (get_request_workspace rq) name u)"

fun first_key :: "json \<Rightarrow> string list \<Rightarrow> json result" where
  "first_key v [] = Inr JNull"
| "first_key v (k # ks) =
     bind_result (py_lookup v k) (\<lambda>x. case x of Some y \<Rightarrow> Inr y | None \<Rightarrow> first_key v ks)"

definition gateway_keys :: "string list" where
  "gateway_keys = [''gateway_name'', ''gateway'', ''name'', ''target'']"

definition has_gateway_key :: "(string \<times> string) list \<Rightarrow> bool" where
  "has_gateway_key args \<longleftrightarrow> (\<exists>k \<in> set gateway_keys. k \<in> fst ` set args)"

definition extract_gateway_name :: "request \<Rightarrow> json result" where
  "extract_gateway_name rq =
     (if has_gateway_key (rq_args rq) then first_key (multi_dict (rq_args rq)) gateway_keys
      else if rq_is_json rq then first_key (or_empty (get_json rq)) gateway_keys
      else Inr JNull)"

fun any_permission :: "(permission \<Rightarrow> bool) \<Rightarrow> perm_entity list \<Rightarrow> bool result" where
  "any_permission can [] = Inr False"
| "any_permission can (p # ps) =
     bind_result (get_permission (pe_permission p)) (\<lambda>perm.
     if can perm then Inr True else any_permission can ps)"

definition any_gateway_endpoint :: "(permission \<Rightarrow> bool) \<Rightarrow> string \<Rightarrow> (bool, store_state) action" where
  "any_gateway_endpoint can u =
     act_read (\<lambda>s. bind_result (user_list_permissions_for_user GatewayEndpoint (st_db s) u) (any_permission can))"

definition validate_gateway_proxy where
  "validate_gateway_proxy sv rq u =
     act_bind (act_lift (extract_gateway_name rq)) (\<lambda>name.
     if rq_method rq = ''GET''
     then (if truthy name
           then gateway_check can_use_gateway_endpoint sv rq (py_str (sv_tracking sv) name) u
           else any_gateway_endpoint can_use u)
     else (if truthy name
           then gateway_check can_update_gateway_endpoint sv rq (py_str (sv_tracking sv) name) u
           else any_gateway_endpoint can_update u))"

section \<open>Gateway resources\<close>

definition resolve_name :: "string result \<Rightarrow> json" where
  "resolve_name r = (case r of Inr n \<Rightarrow> JString n | Inl _ \<Rightarrow> JNull)"

definition resolve_endpoint_name_from_id :: "server \<Rightarrow> json \<Rightarrow> json" where
  "resolve_endpoint_name_from_id sv i = resolve_name (ts_gateway_endpoint_name (sv_tracking sv) i)"

definition resolve_secret_name_from_id :: "server \<Rightarrow> json \<Rightarrow> json" where
  "resolve_secret_name_from_id sv i = resolve_name (ts_secret_name (sv_tracking sv) i)"

definition resolve_model_definition_name_from_id :: "server \<Rightarrow> json \<Rightarrow> json" where
  "resolve_model_definition_name_from_id sv i = resolve_name (ts_model_definition_name (sv_tracking sv) i)"

definition name_or_id :: "request \<Rightarrow> string \<Rightarrow> string \<Rightarrow> (json \<Rightarrow> json) \<Rightarrow> json" where
  "name_or_id rq name_param id_param resolve =
     (case get_request_param rq name_param of
        Inr v \<Rightarrow> v
      | Inl _ \<Rightarrow> (case get_request_param rq id_param of Inr i \<Rightarrow> resolve i | Inl _ \<Rightarrow> JNull))"

definition get_gateway_endpoint_name :: "server \<Rightarrow> request \<Rightarrow> json" where
  "get_gateway_endpoint_name sv rq = name_or_id rq ''name'' ''endpoint_id'' (resolve_endpoint_name_from_id sv)"

definition get_gateway_endpoint_name_for_update :: "server \<Rightarrow> request \<Rightarrow> json" where
  "get_gateway_endpoint_name_for_update sv rq =
     (case get_request_param rq ''endpoint_id'' of
        Inr i \<Rightarrow> resolve_endpoint_name_from_id sv i
      | Inl _ \<Rightarrow> JNull)"

definition get_gateway_secret_name :: "server \<Rightarrow> request \<Rightarrow> json" where
  "get_gateway_secret_name sv rq = name_or_id rq ''secret_name'' ''secret_id'' (resolve_secret_name_from_id sv)"

definition get_gateway_model_definition_name :: "server \<Rightarrow> request \<Rightarrow> json" where
  "get_gateway_model_definition_name sv rq =
     name_or_id rq ''name'' ''model_definition_id'' (resolve_model_definition_name_from_id sv)"

definition named_gateway_check where
  "named_gateway_check can sv rq name u =
     (if \<not> truthy name then act_return False
      else act_bind (act_lift (db_text (sv_tracking sv) name)) (\<lambda>n. gateway_check can sv rq n u))"

definition validate_can_read_gateway_endpoint where
  "validate_can_read_gateway_endpoint sv rq u =
     named_gateway_check can_read_gateway_endpoint sv rq (get_gateway_endpoint_name sv rq) u"

definition validate_can_update_gateway_endpoint where
  "validate_can_update_gateway_endpoint sv rq u =
     named_gateway_check can_update_gateway_endpoint sv rq (get_gateway_endpoint_name_for_update sv rq) u"

definition validate_can_delete_gateway_endpoint where
  "validate_can_delete_gateway_endpoint sv rq u =
     named_gateway_check can_manage_gateway_endpoint sv rq (get_gateway_endpoint_name sv rq) u"

definition validate_can_manage_gateway_endpoint_validator where
  "validate_can_manage_gateway_endpoint_validator sv rq u =
     named_gateway_check can_manage_gateway_endpoint sv rq (get_gateway_endpoint_name sv rq) u"

definition validate_can_read_gateway_secret where
  "validate_can_read_gateway_secret sv rq u =
     named_gateway_check can_read_gateway_secret sv rq (get_gateway_secret_name sv rq) u"

definition validate_can_update_gateway_secret where
  "validate_can_update_gateway_secret sv rq u =
     named_gateway_check can_update_gateway_secret sv rq (get_gateway_secret_name sv rq) u"

definition validate_can_delete_gateway_secret where
  "validate_can_delete_gateway_secret sv rq u =
     named_gateway_check can_manage_gateway_secret sv rq (get_gateway_secret_name sv rq) u"

definition validate_can_read_gateway_model_definition where
  "validate_can_read_gateway_model_definition sv rq u =
     named_gateway_check can_read_gateway_model_definition sv rq (get_gateway_model_definition_name sv rq) u"

definition validate_can_update_gateway_model_definition where
  "validate_can_update_gateway_model_definition sv rq u =
     named_gateway_check can_update_gateway_model_definition sv rq (get_gateway_model_definition_name sv rq) u"

definition validate_can_delete_gateway_model_definition where
  "validate_can_delete_gateway_model_definition sv rq u =
     named_gateway_check can_manage_gateway_model_definition sv rq (get_gateway_model_definition_name sv rq) u"

section \<open>Workspaces\<close>

text \<open>\<^verbatim>\<open>s.split(sep)\<close> for a separator that is not empty.\<close>

function split_on :: "string \<Rightarrow> string \<Rightarrow> string \<Rightarrow> string list" where
  "split_on sep acc [] = [rev acc]"
| "split_on sep acc (c # cs) =
     (if sep \<noteq> [] \<and> take (length sep) (c # cs) = sep
      then rev acc # split_on sep [] (drop (length sep) (c # cs))
      else split_on sep (c # acc) cs)"
  by pat_completeness auto

termination split_on
  by (relation "measure (\<lambda>(_, _, s). length s)") auto

definition split :: "string \<Rightarrow> string \<Rightarrow> string list" where
  "split sep s = split_on sep [] s"

definition rstrip_slash :: "string \<Rightarrow> string" where
  "rstrip_slash s = rev (dropWhile (\<lambda>c. c = CHR ''/'') (rev s))"

definition extract_workspace_name_from_path :: "request \<Rightarrow> string option" where
  "extract_workspace_name_from_path rq =
     (let parts = split ''/mlflow/workspaces/'' (rq_path rq)
      in if length parts = 2 \<and> parts ! 1 \<noteq> '''' then Some (hd (split ''/'' (rstrip_slash (parts ! 1))))
         else None)"

text \<open>The permission of a user in a workspace, through its cache.\<close>

definition workspace_permission :: "server \<Rightarrow> string \<Rightarrow> string \<Rightarrow> (permission option, store_state) action" where
  "workspace_permission sv username workspace s =
     (case get_workspace_permission_cached (sv_config sv) (sv_outside sv) (st_db s) username workspace
             (workspace_cache (st_caches s)) of
        (p, wc) \<Rightarrow> (Inr p, s\<lparr>st_caches := (st_caches s)\<lparr>workspace_cache := wc\<rparr>\<rparr>))"

definition may :: "(permission \<Rightarrow> bool) \<Rightarrow> permission option \<Rightarrow> bool" where
  "may can perm = (case perm of Some p \<Rightarrow> can p | None \<Rightarrow> False)"

definition workspace_check where
  "workspace_check can sv rq =
     (if \<not> MLFLOW_ENABLE_WORKSPACES (sv_config sv) then act_return False
      else act_bind (act_lift (get_auth_context rq)) (\<lambda>ctx.
        if ac_is_admin ctx then act_return True
        else case extract_workspace_name_from_path rq of
            None \<Rightarrow> act_return False
          | Some workspace \<Rightarrow> act_map (may can) (workspace_permission sv (ac_username ctx) workspace)))"

definition validate_can_create_workspace :: "server \<Rightarrow> request \<Rightarrow> string \<Rightarrow> (bool, store_state) action" where
  "validate_can_create_workspace sv rq u =
     (if \<not> MLFLOW_ENABLE_WORKSPACES (sv_config sv) then act_return False
      else act_bind (act_lift (get_auth_context rq)) (\<lambda>ctx. act_return (ac_is_admin ctx)))"

definition validate_can_read_workspace :: "server \<Rightarrow> request \<Rightarrow> string \<Rightarrow> (bool, store_state) action" where
  "validate_can_read_workspace sv rq u = workspace_check can_read sv rq"

definition validate_can_update_workspace :: "server \<Rightarrow> request \<Rightarrow> string \<Rightarrow> (bool, store_state) action" where
  "validate_can_update_workspace sv rq u = workspace_check can_manage sv rq"

definition validate_can_delete_workspace :: "server \<Rightarrow> request \<Rightarrow> string \<Rightarrow> (bool, store_state) action" where
  "validate_can_delete_workspace sv rq u = workspace_check can_manage sv rq"

definition validate_can_list_workspaces :: "server \<Rightarrow> request \<Rightarrow> string \<Rightarrow> (bool, store_state) action" where
  "validate_can_list_workspaces sv rq u = act_return (MLFLOW_ENABLE_WORKSPACES (sv_config sv))"

end
