(* ===== verification/BeforeRequest.thy ===== *)
theory BeforeRequest
  imports Validators "HOL-Library.AList"
begin

text \<open>
  \<^verbatim>\<open>hooks/before_request.py\<close>: the tables that send a request to its validator, the gate on
  creations in a workspace, the quota check, and the hook that decides whether MLflow's view
  runs. A hook answers with the status of a response, or \<open>None\<close> to let the request go on.
\<close>

section \<open>The validators as table entries\<close>

text \<open>\<open>VForeign\<close> is a handler of MLflow's own, which \<^verbatim>\<open>get_endpoints\<close> adds to every table.\<close>

datatype validator =
    VReadExperiment | VReadExperimentByName | VUpdateExperiment | VDeleteExperiment
  | VReadRun | VUpdateRun | VDeleteRun
  | VReadRegisteredModel | VUpdateRegisteredModel | VDeleteRegisteredModel
  | VReadScorer | VDeleteScorer
  | VReadJob | VUpdateJob | VDeleteJob
  | VCreateGateway
  | VReadGatewayEndpoint | VUpdateGatewayEndpoint | VDeleteGatewayEndpoint
  | VReadGatewaySecret | VUpdateGatewaySecret | VDeleteGatewaySecret
  | VReadGatewayModelDefinition | VUpdateGatewayModelDefinition | VDeleteGatewayModelDefinition
  | VReadRunArtifact | VUpdateRunArtifact | VReadModelVersionArtifact | VReadTraceArtifact
  | VMetricHistoryBulk | VMetricHistoryBulkInterval | VSearchDatasets | VCreatePromptlabRun
  | VGatewayProxy | VDenyNonAdmin
  | VReadLoggedModel | VUpdateLoggedModel | VDeleteLoggedModel
  | VCreateWorkspace | VReadWorkspace | VListWorkspaces | VUpdateWorkspace | VDeleteWorkspace
  | VReadArtifactProxy | VUpdateArtifactProxy | VDeleteArtifactProxy
  | VForeign

definition deny_non_admin :: "server \<Rightarrow> request \<Rightarrow> string \<Rightarrow> (bool, store_state) action" where
  "deny_non_admin sv rq u = act_return False"

primrec run_validator :: "validator \<Rightarrow> server \<Rightarrow> request \<Rightarrow> string \<Rightarrow> (bool, store_state) action" where
  "run_validator VReadExperiment = validate_can_read_experiment"
| "run_validator VReadExperimentByName = validate_can_read_experiment_by_name"
| "run_validator VUpdateExperiment = validate_can_update_experiment"
| "run_validator VDeleteExperiment = validate_can_delete_experiment"
| "run_validator VReadRun = validate_can_read_run"
| "run_validator VUpdateRun = validate_can_update_run"
| "run_validator VDeleteRun = validate_can_delete_run"
| "run_validator VReadRegisteredModel = validate_can_read_registered_model"
| "run_validator VUpdateRegisteredModel = validate_can_update_registered_model"
| "run_validator VDeleteRegisteredModel = validate_can_delete_registered_model"
| "run_validator VReadScorer = validate_can_read_scorer"
| "run_validator VDeleteScorer = validate_can_delete_scorer"
| "run_validator VReadJob = validate_can_read_prompt_optimization_job"
| "run_validator VUpdateJob = validate_can_update_prompt_optimization_job"
| "run_validator VDeleteJob = validate_can_delete_prompt_optimization_job"
| "run_validator VCreateGateway = validate_can_create_gateway"
| "run_validator VReadGatewayEndpoint = validate_can_read_gateway_endpoint"
| "run_validator VUpdateGatewayEndpoint = validate_can_update_gateway_endpoint"
| "run_validator VDeleteGatewayEndpoint = validate_can_delete_gateway_endpoint"
| "run_validator VReadGatewaySecret = validate_can_read_gateway_secret"
| "run_validator VUpdateGatewaySecret = validate_can_update_gateway_secret"
| "run_validator VDeleteGatewaySecret = validate_can_delete_gateway_secret"
| "run_validator VReadGatewayModelDefinition = validate_can_read_gateway_model_definition"
| "run_validator VUpdateGatewayModelDefinition = validate_can_update_gateway_model_definition"
| "run_validator VDeleteGatewayModelDefinition = validate_can_delete_gateway_model_definition"
| "run_validator VReadRunArtifact = validate_can_read_run_artifact"
| "run_validator VUpdateRunArtifact = validate_can_update_run_artifact"
| "run_validator VReadModelVersionArtifact = validate_can_read_model_version_artifact"
| "run_validator VReadTraceArtifact = validate_can_read_trace_artifact"
| "run_validator VMetricHistoryBulk = validate_can_read_metric_history_bulk"
| "run_validator VMetricHistoryBulkInterval = validate_can_read_metric_history_bulk_interval"
| "run_validator VSearchDatasets = validate_can_search_datasets"
| "run_validator VCreatePromptlabRun = validate_can_create_promptlab_run"
| "run_validator VGatewayProxy = validate_gateway_proxy"
| "run_validator VDenyNonAdmin = deny_non_admin"
| "run_validator VReadLoggedModel = validate_can_read_logged_model"
| "run_validator VUpdateLoggedModel = validate_can_update_logged_model"
| "run_validator VDeleteLoggedModel = validate_can_delete_logged_model"
| "run_validator VCreateWorkspace = validate_can_create_workspace"
| "run_validator VReadWorkspace = validate_can_read_workspace"
| "run_validator VListWorkspaces = validate_can_list_workspaces"
| "run_validator VUpdateWorkspace = validate_can_update_workspace"
| "run_validator VDeleteWorkspace = validate_can_delete_workspace"
| "run_validator VReadArtifactProxy = validate_can_read_experiment_artifact_proxy"
| "run_validator VUpdateArtifactProxy = validate_can_update_experiment_artifact_proxy"
| "run_validator VDeleteArtifactProxy = validate_can_delete_experiment_artifact_proxy"
| "run_validator VForeign = (\<lambda>_ _ _. act_raise OtherError)"

section \<open>The tables\<close>

definition BEFORE_REQUEST_HANDLERS :: "(string \<times> validator) list" where
  "BEFORE_REQUEST_HANDLERS =
     [(''GetExperiment'', VReadExperiment),
      (''GetExperimentByName'', VReadExperimentByName),
      (''DeleteExperiment'', VDeleteExperiment),
      (''RestoreExperiment'', VDeleteExperiment),
      (''UpdateExperiment'', VUpdateExperiment),
      (''SetExperimentTag'', VUpdateExperiment),
      (''DeleteExperimentTag'', VUpdateExperiment),
      (''CreateRun'', VUpdateExperiment),
      (''GetRun'', VReadRun),
      (''DeleteRun'', VDeleteRun),
      (''RestoreRun'', VDeleteRun),
      (''UpdateRun'', VUpdateRun),
      (''LogMetric'', VUpdateRun),
      (''LogBatch'', VUpdateRun),
      (''LogModel'', VUpdateRun),
      (''SetTag'', VUpdateRun),
      (''DeleteTag'', VUpdateRun),
      (''LogParam'', VUpdateRun),
      (''GetMetricHistory'', VReadRun),
      (''ListArtifacts'', VReadRun),
      (''GetRegisteredModel'', VReadRegisteredModel),
      (''DeleteRegisteredModel'', VDeleteRegisteredModel),
      (''UpdateRegisteredModel'', VUpdateRegisteredModel),
      (''RenameRegisteredModel'', VUpdateRegisteredModel),
      (''GetLatestVersions'', VReadRegisteredModel),
      (''CreateModelVersion'', VUpdateRegisteredModel),
      (''GetModelVersion'', VReadRegisteredModel),
      (''DeleteModelVersion'', VDeleteRegisteredModel),
      (''UpdateModelVersion'', VUpdateRegisteredModel),
      (''TransitionModelVersionStage'', VUpdateRegisteredModel),
      (''GetModelVersionDownloadUri'', VReadRegisteredModel),
      (''SetRegisteredModelTag'', VUpdateRegisteredModel),
      (''DeleteRegisteredModelTag'', VUpdateRegisteredModel),
      (''SetModelVersionTag'', VUpdateRegisteredModel),
      (''DeleteModelVersionTag'', VDeleteRegisteredModel),
      (''SetRegisteredModelAlias'', VUpdateRegisteredModel),
      (''DeleteRegisteredModelAlias'', VDeleteRegisteredModel),
      (''GetModelVersionByAlias'', VReadRegisteredModel),
      (''RegisterScorer'', VUpdateExperiment),
      (''ListScorers'', VReadExperiment),
      (''GetScorer'', VReadScorer),
      (''DeleteScorer'', VDeleteScorer),
      (''ListScorerVersions'', VReadScorer),
      (''CreatePromptOptimizationJob'', VUpdateExperiment),
      (''GetPromptOptimizationJob'', VReadJob),
      (''SearchPromptOptimizationJobs'', VReadExperiment),
      (''DeletePromptOptimizationJob'', VDeleteJob),
      (''CancelPromptOptimizationJob'', VUpdateJob),
      (''CreateGatewayEndpoint'', VCreateGateway),
      (''GetGatewayEndpoint'', VReadGatewayEndpoint),
      (''UpdateGatewayEndpoint'', VUpdateGatewayEndpoint),
      (''DeleteGatewayEndpoint'', VDeleteGatewayEndpoint),
      (''CreateGatewaySecret'', VCreateGateway),
      (''GetGatewaySecretInfo'', VReadGatewaySecret),
      (''UpdateGatewaySecret'', VUpdateGatewaySecret),
      (''DeleteGatewaySecret'', VDeleteGatewaySecret),
      (''CreateGatewayModelDefinition'', VCreateGateway),
      (''GetGatewayModelDefinition'', VReadGatewayModelDefinition),
      (''UpdateGatewayModelDefinition'', VUpdateGatewayModelDefinition),
      (''DeleteGatewayModelDefinition'', VDeleteGatewayModelDefinition),
      (''AttachModelToGatewayEndpoint'', VUpdateGatewayEndpoint),
      (''DetachModelFromGatewayEndpoint'', VUpdateGatewayEndpoint),
      (''CreateGatewayEndpointBinding'', VUpdateGatewayEndpoint),
      (''DeleteGatewayEndpointBinding'', VUpdateGatewayEndpoint),
      (''ListGatewayEndpointBindings'', VReadGatewayEndpoint),
      (''SetGatewayEndpointTag'', VUpdateGatewayEndpoint),
      (''DeleteGatewayEndpointTag'', VUpdateGatewayEndpoint)]"

definition LOGGED_MODEL_BEFORE_REQUEST_HANDLERS :: "(string \<times> validator) list" where
  "LOGGED_MODEL_BEFORE_REQUEST_HANDLERS =
     [(''CreateLoggedModel'', VUpdateExperiment),
      (''GetLoggedModel'', VReadLoggedModel),
      (''DeleteLoggedModel'', VDeleteLoggedModel),
      (''FinalizeLoggedModel'', VUpdateLoggedModel),
      (''DeleteLoggedModelTag'', VDeleteLoggedModel),
      (''SetLoggedModelTags'', VUpdateLoggedModel),
      (''LogLoggedModelParamsRequest'', VUpdateLoggedModel)]"

definition WORKSPACE_BEFORE_REQUEST_HANDLERS :: "(string \<times> validator) list" where
  "WORKSPACE_BEFORE_REQUEST_HANDLERS =
     [(''CreateWorkspace'', VCreateWorkspace),
      (''GetWorkspace'', VReadWorkspace),
      (''ListWorkspaces'', VListWorkspaces),
      (''UpdateWorkspace'', VUpdateWorkspace),
      (''DeleteWorkspace'', VDeleteWorkspace)]"

definition get_before_request_handler :: "server \<Rightarrow> string \<Rightarrow> validator option" where
  "get_before_request_handler sv request_class =
     (if request_class \<in> set (sv_budget_policy_protos sv) then Some VDenyNonAdmin
      else map_of BEFORE_REQUEST_HANDLERS request_class)"

definition get_logged_model_before_request_handler :: "string \<Rightarrow> validator option" where
  "get_logged_model_before_request_handler = map_of LOGGED_MODEL_BEFORE_REQUEST_HANDLERS"

definition get_workspace_before_request_handler :: "string \<Rightarrow> validator option" where
  "get_workspace_before_request_handler = map_of WORKSPACE_BEFORE_REQUEST_HANDLERS"

text \<open>\<^verbatim>\<open>get_endpoints(f)\<close>, one entry for each method.\<close>

definition get_endpoints :: "server \<Rightarrow> (string \<Rightarrow> validator option) \<Rightarrow> ((string \<times> string) \<times> validator option) list" where
  "get_endpoints sv f =
     concat (map (\<lambda>(path, request_class, methods).
       map (\<lambda>m. ((path, m), case request_class of Some c \<Rightarrow> f c | None \<Rightarrow> Some VForeign)) methods)
       (sv_endpoints sv))"

text \<open>A dictionary in insertion order; a repeated key keeps its place and takes the later value.\<close>

definition dict :: "('k \<times> 'v) list \<Rightarrow> ('k \<times> 'v) list" where
  "dict items = foldl (\<lambda>d (k, v). AList.update k v d) [] items"

definition proto_validators :: "server \<Rightarrow> ((string \<times> string) \<times> validator) list" where
  "proto_validators sv =
     List.map_filter (\<lambda>(key, handler). case handler of
         Some v \<Rightarrow> if v = VForeign then None else Some (key, v)
       | None \<Rightarrow> None)
       (get_endpoints sv (get_before_request_handler sv))"

definition flask_validators :: "server \<Rightarrow> ((string \<times> string) \<times> validator) list" where
  "flask_validators sv =
     (let static = sv_add_static_prefix sv; ajax = sv_get_ajax_path sv
      in [((static ''/get-artifact'', ''GET''), VReadRunArtifact),
          ((ajax ''/mlflow/upload-artifact'', ''POST''), VUpdateRunArtifact),
          ((static ''/model-versions/get-artifact'', ''GET''), VReadModelVersionArtifact),
          ((ajax ''/mlflow/get-trace-artifact'', ''GET''), VReadTraceArtifact),
          ((ajax ''/mlflow/metrics/get-history-bulk'', ''GET''), VMetricHistoryBulk),
          ((ajax ''/mlflow/metrics/get-history-bulk-interval'', ''GET''), VMetricHistoryBulkInterval),
          ((ajax ''/mlflow/experiments/search-datasets'', ''POST''), VSearchDatasets),
          ((ajax ''/mlflow/runs/create-promptlab-run'', ''POST''), VCreatePromptlabRun),
          ((ajax ''/mlflow/gateway-proxy'', ''GET''), VGatewayProxy),
          ((ajax ''/mlflow/gateway-proxy'', ''POST''), VGatewayProxy),
          ((ajax ''/mlflow/invocations/scorer'', ''GET''), VGatewayProxy),
          ((ajax ''/mlflow/invocations/scorer'', ''POST''), VGatewayProxy),
          ((ajax ''/mlflow/gateway/supported-providers'', ''GET''), VGatewayProxy),
          ((ajax ''/mlflow/gateway/supported-models'', ''GET''), VGatewayProxy),
          ((ajax ''/mlflow/gateway/provider-config'', ''GET''), VDenyNonAdmin),
          ((ajax ''/mlflow/gateway/secrets-config'', ''GET''), VDenyNonAdmin)])"

definition BEFORE_REQUEST_VALIDATORS :: "server \<Rightarrow> ((string \<times> string) \<times> validator) list" where
  "BEFORE_REQUEST_VALIDATORS sv = dict (proto_validators sv @ flask_validators sv)"

text \<open>
  The pattern of a path with parameters in angle brackets: \<^verbatim>\<open>re.sub(r"<([^>]+)>", r"([^/]+)", path)\<close>.
\<close>

function re_compile_path :: "string \<Rightarrow> string" where
  "re_compile_path [] = []"
| "re_compile_path (c # cs) =
     (let name = takeWhile (\<lambda>x. x \<noteq> CHR ''>'') cs; rest = dropWhile (\<lambda>x. x \<noteq> CHR ''>'') cs
      in if c = CHR ''<'' \<and> name \<noteq> [] \<and> rest \<noteq> [] then ''([^/]+)'' @ re_compile_path (tl rest)
         else c # re_compile_path cs)"
  by pat_completeness auto

termination re_compile_path
proof (relation "measure length")
  fix c cs name rest
  assume "rest = dropWhile (\<lambda>x :: char. x \<noteq> CHR ''>'') cs"
  then show "(tl rest, c # cs) \<in> measure length"
    using length_dropWhile_le [of "\<lambda>x. x \<noteq> CHR ''>''" cs] by simp
qed auto

definition LOGGED_MODEL_BEFORE_REQUEST_VALIDATORS :: "server \<Rightarrow> ((string \<times> string) \<times> validator option) list" where
  "LOGGED_MODEL_BEFORE_REQUEST_VALIDATORS sv =
     dict (map (\<lambda>((path, m), handler). ((re_compile_path path, m), handler))
       (get_endpoints sv get_logged_model_before_request_handler))"

definition WORKSPACE_BEFORE_REQUEST_VALIDATORS :: "server \<Rightarrow> ((string \<times> string) \<times> validator option) list" where
  "WORKSPACE_BEFORE_REQUEST_VALIDATORS sv =
     dict (map (\<lambda>((path, m), handler). ((re_compile_path path, m), handler))
       (filter (\<lambda>(_, handler). handler \<noteq> None) (get_endpoints sv get_workspace_before_request_handler)))"

definition gated_creation_handlers :: "string list" where
  "gated_creation_handlers =
     [''CreateExperiment'', ''CreateRegisteredModel'', ''CreateGatewayEndpoint'', ''CreateGatewaySecret'',
      ''CreateGatewayModelDefinition'']"

definition is_workspace_gated_creation :: "server \<Rightarrow> string \<Rightarrow> string \<Rightarrow> bool" where
  "is_workspace_gated_creation sv path m \<longleftrightarrow>
     (\<exists>(p, request_class, methods) \<in> set (sv_endpoints sv).
        p = path \<and> m \<in> set methods \<and>
        (case request_class of Some c \<Rightarrow> c \<in> set gated_creation_handlers | None \<Rightarrow> False))"

section \<open>The request of a hook\<close>

text \<open>\<^verbatim>\<open>flask.g\<close>: what the first hook leaves for the second.\<close>

record flask_g =
  g_updating_gateway_endpoint_old_name :: json
  g_deleting_gateway_endpoint_name :: json
  g_deleting_gateway_secret_name :: json
  g_deleting_gateway_model_definition_name :: json
  g_deleting_workspace_name :: "string option"
  g_after_request_perm_cache :: "string \<times> string \<times> string \<rightharpoonup> bool"

definition empty_g :: flask_g where
  "empty_g = \<lparr>g_updating_gateway_endpoint_old_name = JNull, g_deleting_gateway_endpoint_name = JNull,
     g_deleting_gateway_secret_name = JNull, g_deleting_gateway_model_definition_name = JNull,
     g_deleting_workspace_name = None, g_after_request_perm_cache = (\<lambda>_. None)\<rparr>"

record hook_state =
  hs_store :: store_state
  hs_g :: flask_g

definition on_store :: "('a, store_state) action \<Rightarrow> ('a, hook_state) action" where
  "on_store m h = (case m (hs_store h) of (r, s) \<Rightarrow> (r, h\<lparr>hs_store := s\<rparr>))"

definition set_g :: "(flask_g \<Rightarrow> flask_g) \<Rightarrow> (unit, hook_state) action" where
  "set_g f h = (Inr (), h\<lparr>hs_g := f (hs_g h)\<rparr>)"

definition starts_with :: "string \<Rightarrow> string \<Rightarrow> bool" where
  "starts_with p s \<longleftrightarrow> take (length p) s = p"

definition ends_with :: "string \<Rightarrow> string \<Rightarrow> bool" where
  "ends_with p s \<longleftrightarrow> length p \<le> length s \<and> drop (length s - length p) s = p"

definition is_unprotected_route :: "string \<Rightarrow> bool" where
  "is_unprotected_route path \<longleftrightarrow>
     list_ex (\<lambda>p. starts_with p path)
       [''/static'', ''/favicon.ico'', ''/health'', ''/metrics'', ''/docs'', ''/redoc'', ''/openapi.json'']"

definition auth_context_of :: "request \<Rightarrow> string option \<times> bool" where
  "auth_context_of rq =
     (case get_fastapi_username rq of Inr u \<Rightarrow> Some u | Inl _ \<Rightarrow> None, get_fastapi_admin_status rq)"

definition proxy_prefix :: "server \<Rightarrow> string" where
  "proxy_prefix sv = sv_rest_api_path_prefix sv @ ''/mlflow-artifacts/artifacts/''"

definition is_proxy_artifact_path :: "server \<Rightarrow> string \<Rightarrow> bool" where
  "is_proxy_artifact_path sv path = starts_with (proxy_prefix sv) path"

definition get_proxy_artifact_validator :: "request \<Rightarrow> validator option" where
  "get_proxy_artifact_validator rq =
     (case rq_view_args rq of
        None \<Rightarrow> Some VReadArtifactProxy
      | Some _ \<Rightarrow>
          map_of [(''GET'', VReadArtifactProxy), (''PUT'', VUpdateArtifactProxy),
                  (''DELETE'', VDeleteArtifactProxy)] (rq_method rq))"

text \<open>The first entry of a pattern table that matches the request.\<close>

definition first_match :: "server \<Rightarrow> request \<Rightarrow> ((string \<times> string) \<times> validator option) list \<Rightarrow> validator option" where
  "first_match sv rq table =
     (case find (\<lambda>((pattern, m), _). sv_fullmatch sv pattern (rq_path rq) \<and> m = rq_method rq) table of
        Some (_, v) \<Rightarrow> v
      | None \<Rightarrow> None)"

definition find_validator :: "server \<Rightarrow> request \<Rightarrow> (validator option, hook_state) action" where
  "find_validator sv rq =
     (if sublist ''/mlflow/workspaces'' (rq_path rq)
      then let validator = first_match sv rq (WORKSPACE_BEFORE_REQUEST_VALIDATORS sv);
               ws_name = extract_workspace_name_from_path rq
           in if validator \<noteq> None \<and> rq_method rq = ''DELETE'' \<and> ws_name \<noteq> None \<and> ws_name \<noteq> Some ''''
              then act_map (\<lambda>_. validator) (set_g (g_deleting_workspace_name_update (\<lambda>_. ws_name)))
              else act_return validator
      else if sublist ''/mlflow/logged-models'' (rq_path rq)
      then act_return (first_match sv rq (LOGGED_MODEL_BEFORE_REQUEST_VALIDATORS sv))
      else act_return (map_of (BEFORE_REQUEST_VALIDATORS sv) (rq_path rq, rq_method rq)))"

section \<open>The quota check\<close>

definition charge_owner :: "server \<Rightarrow> string \<Rightarrow> int option \<Rightarrow> (unit, store_state) action" where
  "charge_owner sv experiment_id content_length =
     act_bind (act_read (\<lambda>s. Inr (get_experiment_owner (st_db s) experiment_id))) (\<lambda>owner.
     case owner of
       None \<Rightarrow> act_return ()
     | Some u \<Rightarrow>
         if u = '''' then act_return ()
         else act_bind (act_read (\<lambda>s. enforce_quota (sv_quota sv) (st_db s) u)) (\<lambda>_.
           case content_length of
             None \<Rightarrow> act_return ()
           | Some n \<Rightarrow> act_when (n > 0) (store_call (sv_store sv) (QuotaOp (IncrementQuotaUsedBytes u n)))))"

definition quota_body :: "server \<Rightarrow> request \<Rightarrow> string \<Rightarrow> (unit, store_state) action" where
  "quota_body sv rq username =
     (if rq_method rq = ''POST'' \<and> ends_with ''/experiments/create'' (rq_path rq)
      then act_read (\<lambda>s. enforce_quota (sv_quota sv) (st_db s) username)
      else if rq_method rq = ''POST'' \<and> ends_with ''/runs/create'' (rq_path rq)
      then act_bind (act_lift (py_get (or_empty (get_json_force rq)) ''experiment_id'')) (\<lambda>i.
           act_when (truthy i) (charge_owner sv (py_str (sv_tracking sv) i) None))
      else if is_proxy_artifact_path sv (rq_path rq) \<and> rq_method rq = ''PUT''
      then let remainder = drop (length (proxy_prefix sv)) (rq_path rq);
               experiment_id = hd (split ''/'' remainder)
           in act_when (experiment_id \<noteq> '''') (charge_owner sv experiment_id (rq_content_length rq))
      else act_return ())"

definition check_quota :: "server \<Rightarrow> request \<Rightarrow> string \<Rightarrow> (nat option, store_state) action" where
  "check_quota sv rq username s =
     (case quota_body sv rq username s of
        (Inl (MlflowException _), s') \<Rightarrow> (Inr (Some 403), s')
      | (_, s') \<Rightarrow> (Inr None, s'))"

section \<open>Names for the hook after the request\<close>

definition stash :: "json \<Rightarrow> (json \<Rightarrow> flask_g \<Rightarrow> flask_g) \<Rightarrow> (unit, hook_state) action" where
  "stash name update = act_when (truthy name) (set_g (update name))"

definition stash_named where
  "stash_named rq name_param id_param resolve update =
     act_bind (act_lift (py_get (or_empty (get_json_force rq)) name_param)) (\<lambda>name.
     if truthy name then stash name update
     else act_bind (act_lift (py_get (or_empty (get_json_force rq)) id_param)) (\<lambda>i.
       stash (if truthy i then resolve i else name) update))"

definition stash_gateway_context :: "server \<Rightarrow> request \<Rightarrow> validator option \<Rightarrow> (unit, hook_state) action" where
  "stash_gateway_context sv rq validator =
     (if validator \<in> {Some VUpdateGatewayEndpoint, Some VDeleteGatewayEndpoint}
      then act_bind (act_lift (py_get (or_empty (get_json_force rq)) ''endpoint_id'')) (\<lambda>endpoint_id.
           act_when (truthy endpoint_id)
             (stash (resolve_endpoint_name_from_id sv endpoint_id) (\<lambda>name.
                if validator = Some VUpdateGatewayEndpoint
                then g_updating_gateway_endpoint_old_name_update (\<lambda>_. name)
                else g_deleting_gateway_endpoint_name_update (\<lambda>_. name))))
      else if validator = Some VDeleteGatewaySecret
      then stash_named rq ''secret_name'' ''secret_id'' (resolve_secret_name_from_id sv)
             (\<lambda>name. g_deleting_gateway_secret_name_update (\<lambda>_. name))
      else if validator = Some VDeleteGatewayModelDefinition
      then stash_named rq ''name'' ''model_definition_id'' (resolve_model_definition_name_from_id sv)
             (\<lambda>name. g_deleting_gateway_model_definition_name_update (\<lambda>_. name))
      else act_return ())"

section \<open>The hook\<close>

text \<open>The gate on creations in a workspace, then the validator, then the quota.\<close>

definition workspace_gate :: "server \<Rightarrow> request \<Rightarrow> string \<Rightarrow> (bool, store_state) action" where
  "workspace_gate sv rq username =
     (if MLFLOW_ENABLE_WORKSPACES (sv_config sv) \<and> is_workspace_gated_creation sv (rq_path rq) (rq_method rq)
      then (case get_request_workspace rq of
              None \<Rightarrow> act_return True
            | Some workspace \<Rightarrow>
                if workspace = '''' then act_return True
                else act_map (may can_manage) (workspace_permission sv username workspace))
      else act_return True)"

definition authorize :: "server \<Rightarrow> request \<Rightarrow> validator option \<Rightarrow> string \<Rightarrow> (bool, store_state) action" where
  "authorize sv rq validator username =
     (case validator of
        Some v \<Rightarrow> run_validator v sv rq username
      | None \<Rightarrow>
          if is_proxy_artifact_path sv (rq_path rq)
          then (case get_proxy_artifact_validator rq of
                  Some v \<Rightarrow> run_validator v sv rq username
                | None \<Rightarrow> act_return True)
          else act_return True)"

definition checks :: "server \<Rightarrow> request \<Rightarrow> validator option \<Rightarrow> string \<Rightarrow> (nat option, store_state) action" where
  "checks sv rq validator username =
     act_bind (workspace_gate sv rq username) (\<lambda>ok.
     if \<not> ok then act_return (Some 403)
     else act_bind (authorize sv rq validator username) (\<lambda>ok.
       if \<not> ok then act_return (Some 403) else check_quota sv rq username))"

definition before_request_body :: "server \<Rightarrow> request \<Rightarrow> (nat option, hook_state) action" where
  "before_request_body sv rq =
     (if is_unprotected_route (rq_path rq) then act_return None
      else case auth_context_of rq of
        (None, is_admin) \<Rightarrow> act_return (Some 401)
      | (Some username, is_admin) \<Rightarrow>
          act_bind (find_validator sv rq) (\<lambda>validator.
          act_bind (stash_gateway_context sv rq validator) (\<lambda>_.
          if is_admin then act_return None
          else on_store (checks sv rq validator username))))"

definition catch_mlflow_exception :: "server \<Rightarrow> (nat option, 's) action \<Rightarrow> (nat option, 's) action" where
  "catch_mlflow_exception sv m s =
     (case m s of
        (Inl (MlflowException c), s') \<Rightarrow> (Inr (Some (sv_error_status sv c)), s')
      | r \<Rightarrow> r)"

definition before_request_hook :: "server \<Rightarrow> request \<Rightarrow> (nat option, hook_state) action" where
  "before_request_hook sv rq = catch_mlflow_exception sv (before_request_body sv rq)"

end
