(* ===== verification/AfterRequest.thy ===== *)
theory AfterRequest
  imports BeforeRequest
begin

text \<open>
  \<^verbatim>\<open>hooks/after_request.py\<close>: what happens after MLflow's view has answered. The creator of
  a resource is given MANAGE on it, permissions follow renames and deletions, answers that
  list resources lose the ones the user may not read, and deletions start a reconciliation of
  the quota in the background. Parsing and printing of MLflow's messages, its searches and its
  page tokens are parameters; an item of an answer is represented by the key its permission
  depends on, its workspace and the rest of it.
\<close>

record item =
  it_key :: string
  it_workspace :: "string option"
  it_data :: json

record page =
  pg_items :: "item list"
  pg_token :: string

record response =
  rs_status :: nat
  rs_json :: json

text \<open>
  MLflow's side, for a request class: the page in a response and the response of a page, the
  \<^verbatim>\<open>max_results\<close> of a request, the entities a search returns from a page token, and the
  workspace of the experiment or the model of a name.
\<close>

record searches =
  sr_parse_page :: "string \<Rightarrow> json \<Rightarrow> page result"
  sr_page_json :: "string \<Rightarrow> json \<Rightarrow> page \<Rightarrow> json"
  sr_max_results :: "string \<Rightarrow> request \<Rightarrow> nat"
  sr_search :: "string \<Rightarrow> request \<Rightarrow> string \<Rightarrow> item list result"
  sr_workspace_of :: "string \<Rightarrow> string \<Rightarrow> string option result"
  sr_parse_start_offset :: "string \<Rightarrow> nat result"
  sr_create_page_token :: "nat \<Rightarrow> string"
  sr_search_logged_models :: "request \<Rightarrow> string \<Rightarrow> (item list \<times> string option) result"
  sr_decode_token :: "string \<Rightarrow> nat result"
  sr_encode_token :: "request \<Rightarrow> nat \<Rightarrow> string"

section \<open>Permission checks of one request\<close>

definition cached_check :: "string \<times> string \<times> string \<Rightarrow> (bool, store_state) action \<Rightarrow> (bool, hook_state) action" where
  "cached_check key check h =
     (case g_after_request_perm_cache (hs_g h) key of
        Some b \<Rightarrow> (Inr b, h)
      | None \<Rightarrow>
          (case on_store check h of
             (Inl e, h') \<Rightarrow> (Inl e, h')
           | (Inr b, h') \<Rightarrow>
               (Inr b, h'\<lparr>hs_g := (hs_g h')\<lparr>g_after_request_perm_cache :=
                  (g_after_request_perm_cache (hs_g h'))(key \<mapsto> b)\<rparr>\<rparr>)))"

definition cached_can_read_experiment :: "server \<Rightarrow> request \<Rightarrow> string \<Rightarrow> string \<Rightarrow> (bool, hook_state) action" where
  "cached_can_read_experiment sv rq u i =
     cached_check (''exp'', i, u) (gateway_check can_read_experiment sv rq i u)"

definition cached_can_read_registered_model :: "server \<Rightarrow> request \<Rightarrow> string \<Rightarrow> string \<Rightarrow> (bool, hook_state) action" where
  "cached_can_read_registered_model sv rq u name =
     cached_check (''rm'', name, u) (gateway_check can_read_registered_model sv rq name u)"

definition cached_can_read_gateway_endpoint :: "server \<Rightarrow> request \<Rightarrow> string \<Rightarrow> string \<Rightarrow> (bool, hook_state) action" where
  "cached_can_read_gateway_endpoint sv rq u name =
     cached_check (''gw_ep'', name, u) (gateway_check can_read_gateway_endpoint sv rq name u)"

definition cached_can_read_gateway_secret :: "server \<Rightarrow> request \<Rightarrow> string \<Rightarrow> string \<Rightarrow> (bool, hook_state) action" where
  "cached_can_read_gateway_secret sv rq u name =
     cached_check (''gw_secret'', name, u) (gateway_check can_read_gateway_secret sv rq name u)"

definition cached_can_read_gateway_model_definition ::
    "server \<Rightarrow> request \<Rightarrow> string \<Rightarrow> string \<Rightarrow> (bool, hook_state) action" where
  "cached_can_read_gateway_model_definition sv rq u name =
     cached_check (''gw_md'', name, u) (gateway_check can_read_gateway_model_definition sv rq name u)"

definition can_access_workspace :: "server \<Rightarrow> string \<Rightarrow> string option \<Rightarrow> (bool, hook_state) action" where
  "can_access_workspace sv u workspace =
     (if \<not> MLFLOW_ENABLE_WORKSPACES (sv_config sv) then act_return True
      else case workspace of
          None \<Rightarrow> act_return True
        | Some w \<Rightarrow>
            if w = '''' then act_return True
            else act_map (may can_read) (on_store (workspace_permission sv u w)))"

section \<open>Filtering a page\<close>

text \<open>\<^verbatim>\<open>for x in list(xs): if not check(x): xs.remove(x)\<close>, which removes the first equal item.\<close>

primrec remove_failing :: "('i \<Rightarrow> (bool, 's) action) \<Rightarrow> 'i list \<Rightarrow> 'i list \<Rightarrow> ('i list, 's) action" where
  "remove_failing check [] kept = act_return kept"
| "remove_failing check (x # xs) kept =
     act_bind (check x) (\<lambda>ok. remove_failing check xs (if ok then kept else remove1 x kept))"

text \<open>\<^verbatim>\<open>[x for x in xs if check(x)]\<close>\<close>

primrec keep_passing :: "('i \<Rightarrow> (bool, 's) action) \<Rightarrow> 'i list \<Rightarrow> ('i list, 's) action" where
  "keep_passing check [] = act_return []"
| "keep_passing check (x # xs) =
     act_bind (check x) (\<lambda>ok.
     act_map (\<lambda>kept. if ok then x # kept else kept) (keep_passing check xs))"

definition both :: "(bool, 's) action \<Rightarrow> (bool, 's) action \<Rightarrow> (bool, 's) action" where
  "both m n = act_bind m (\<lambda>ok. if ok then n else act_return False)"

definition workspace_of :: "searches \<Rightarrow> string \<Rightarrow> string \<Rightarrow> string option" where
  "workspace_of sr kind key = (case sr_workspace_of sr kind key of Inr w \<Rightarrow> w | Inl _ \<Rightarrow> None)"

text \<open>
  The loop that refills a page: it ends when the page is full, when there is no further
  token, or when a search returns nothing.
\<close>

partial_function (option) refetch ::
    "(string \<Rightarrow> 'i list result) \<Rightarrow> (string \<Rightarrow> nat result) \<Rightarrow> (nat \<Rightarrow> string) \<Rightarrow> nat \<Rightarrow>
     ('i \<Rightarrow> (bool, 's) action) \<Rightarrow> 'i list \<Rightarrow> string \<Rightarrow> 's \<Rightarrow> (('i list \<times> string) result \<times> 's) option" where
  "refetch search parse create max_results check items token s =
     (if length items < max_results \<and> token \<noteq> ''''
      then (case search token of
              Inl e \<Rightarrow> Some (Inl e, s)
            | Inr found \<Rightarrow>
                let refetched = take (max_results - length items) found
                in if refetched = [] then Some (Inr (items, ''''), s)
                   else (case keep_passing check refetched s of
                           (Inl e, s') \<Rightarrow> Some (Inl e, s')
                         | (Inr readable, s') \<Rightarrow>
                             (case parse token of
                                Inl e \<Rightarrow> Some (Inl e, s')
                              | Inr start_offset \<Rightarrow>
                                  refetch search parse create max_results check (items @ readable)
                                    (create (start_offset + length refetched)) s')))
      else Some (Inr (items, token), s))"

declare refetch.simps [code]

definition filter_search ::
    "server \<Rightarrow> searches \<Rightarrow> string \<Rightarrow> (string \<Rightarrow> (bool, hook_state) action) \<Rightarrow> request \<Rightarrow> string \<Rightarrow>
     page \<Rightarrow> hook_state \<Rightarrow> (page result \<times> hook_state) option" where
  "filter_search sv sr kind can_read_key rq u page h =
     (case remove_failing (can_read_key \<circ> it_key) (pg_items page) (pg_items page) h of
        (Inl e, h) \<Rightarrow> Some (Inl e, h)
      | (Inr items, h) \<Rightarrow>
          (case (if MLFLOW_ENABLE_WORKSPACES (sv_config sv)
                 then remove_failing (\<lambda>x. can_access_workspace sv u (workspace_of sr kind (it_key x))) items items
                 else act_return items) h of
             (Inl e, h) \<Rightarrow> Some (Inl e, h)
           | (Inr items, h) \<Rightarrow>
               (case refetch (sr_search sr kind rq) (sr_parse_start_offset sr) (sr_create_page_token sr)
                       (sr_max_results sr kind rq)
                       (\<lambda>x. both (can_read_key (it_key x)) (can_access_workspace sv u (it_workspace x)))
                       items (pg_token page) h of
                  None \<Rightarrow> None
                | Some (Inl e, h) \<Rightarrow> Some (Inl e, h)
                | Some (Inr (items, token), h) \<Rightarrow>
                    Some (Inr (page\<lparr>pg_items := items, pg_token := token\<rparr>), h))))"

section \<open>Logged models\<close>

text \<open>One batch: the models kept so far, and the token to go on with.\<close>

primrec scan_batch ::
    "('i \<Rightarrow> (bool, 's) action) \<Rightarrow> nat \<Rightarrow> (nat \<Rightarrow> string) \<Rightarrow> nat \<Rightarrow> bool \<Rightarrow> nat \<Rightarrow> 'i list \<Rightarrow> nat \<Rightarrow> 'i list \<Rightarrow>
     ('i list \<times> string option, 's) action" where
  "scan_batch check max_results encode offset is_last_page last_index [] index models =
     act_return (models, if is_last_page then None else Some (encode (offset + max_results)))"
| "scan_batch check max_results encode offset is_last_page last_index (m # batch) index models =
     act_bind (check m) (\<lambda>ok.
     if \<not> ok then scan_batch check max_results encode offset is_last_page last_index batch (index + 1) models
     else if length models + 1 \<ge> max_results
     then act_return (models @ [m],
            if is_last_page \<and> index = last_index then None else Some (encode (offset + index + 1)))
     else scan_batch check max_results encode offset is_last_page last_index batch (index + 1) (models @ [m]))"

partial_function (option) refetch_logged ::
    "(string \<Rightarrow> ('i list \<times> string option) result) \<Rightarrow> (string \<Rightarrow> nat result) \<Rightarrow> (nat \<Rightarrow> string) \<Rightarrow> nat \<Rightarrow>
     ('i \<Rightarrow> (bool, 's) action) \<Rightarrow> 'i list \<Rightarrow> string option \<Rightarrow> 's \<Rightarrow>
     (('i list \<times> string option) result \<times> 's) option" where
  "refetch_logged search decode encode max_results check models token s =
     (case token of
        None \<Rightarrow> Some (Inr (models, None), s)
      | Some t \<Rightarrow>
          if length models < max_results
          then (case bind_result (search t) (\<lambda>batch.
                       bind_result (if t = '''' then Inr 0 else decode t) (\<lambda>offset. Inr (batch, offset))) of
                  Inl e \<Rightarrow> Some (Inl e, s)
                | Inr ((batch, next), offset) \<Rightarrow>
                    (case scan_batch check max_results encode offset (next = None) (length batch - 1) batch 0 models s of
                       (Inl e, s') \<Rightarrow> Some (Inl e, s')
                     | (Inr (models, token), s') \<Rightarrow>
                         refetch_logged search decode encode max_results check models token s'))
          else Some (Inr (models, Some t), s))"

declare refetch_logged.simps [code]

definition filter_search_logged_models ::
    "server \<Rightarrow> searches \<Rightarrow> request \<Rightarrow> string \<Rightarrow> page \<Rightarrow> hook_state \<Rightarrow> (page result \<times> hook_state) option" where
  "filter_search_logged_models sv sr rq u page h =
     (let can_read_key = cached_can_read_experiment sv rq u;
          access = (\<lambda>x. can_access_workspace sv u (workspace_of sr ''SearchExperiments'' (it_key x)))
      in case remove_failing (can_read_key \<circ> it_key) (pg_items page) (pg_items page) h of
           (Inl e, h) \<Rightarrow> Some (Inl e, h)
         | (Inr models, h) \<Rightarrow>
             (case (if MLFLOW_ENABLE_WORKSPACES (sv_config sv) then remove_failing access models models
                    else act_return models) h of
                (Inl e, h) \<Rightarrow> Some (Inl e, h)
              | (Inr models, h) \<Rightarrow>
                  (case refetch_logged (sr_search_logged_models sr rq) (sr_decode_token sr) (sr_encode_token sr rq)
                          (sr_max_results sr ''SearchLoggedModels'' rq)
                          (\<lambda>x. both (can_read_key (it_key x)) (access x)) models
                          (if pg_token page = '''' then None else Some (pg_token page)) h of
                     None \<Rightarrow> None
                   | Some (Inl e, h) \<Rightarrow> Some (Inl e, h)
                   | Some (Inr (models, token), h) \<Rightarrow>
                       Some (Inr (page\<lparr>pg_items := models,
                               pg_token := (case token of Some t \<Rightarrow> t | None \<Rightarrow> '''')\<rparr>), h))))"

section \<open>Answers that are filtered\<close>

text \<open>A handler returns the response, or \<open>None\<close> if its loop does not end.\<close>

type_synonym after_handler = "response \<Rightarrow> hook_state \<Rightarrow> (response result \<times> hook_state) option"

definition rewrite_page ::
    "searches \<Rightarrow> string \<Rightarrow> (page \<Rightarrow> hook_state \<Rightarrow> (page result \<times> hook_state) option) \<Rightarrow> after_handler" where
  "rewrite_page sr kind f resp h =
     (case sr_parse_page sr kind (rs_json resp) of
        Inl e \<Rightarrow> Some (Inl e, h)
      | Inr page \<Rightarrow>
          (case f page h of
             None \<Rightarrow> None
           | Some (Inl e, h) \<Rightarrow> Some (Inl e, h)
           | Some (Inr page, h) \<Rightarrow>
               Some (Inr (resp\<lparr>rs_json := sr_page_json sr kind (rs_json resp) page\<rparr>), h)))"

text \<open>The answer of an administrator is left as it is; without a user the hook raises.\<close>

definition for_reader ::
    "request \<Rightarrow> (string \<Rightarrow> page \<Rightarrow> hook_state \<Rightarrow> (page result \<times> hook_state) option) \<Rightarrow> searches \<Rightarrow> string \<Rightarrow> after_handler" where
  "for_reader rq f sr kind resp h =
     (if get_fastapi_admin_status rq then Some (Inr resp, h)
      else rewrite_page sr kind (\<lambda>page h. case get_fastapi_username rq of
             Inl e \<Rightarrow> Some (Inl e, h)
           | Inr u \<Rightarrow> f u page h) resp h)"

definition filter_search_experiments :: "server \<Rightarrow> searches \<Rightarrow> request \<Rightarrow> after_handler" where
  "filter_search_experiments sv sr rq =
     for_reader rq (\<lambda>u. filter_search sv sr ''SearchExperiments'' (cached_can_read_experiment sv rq u) rq u)
       sr ''SearchExperiments''"

definition filter_search_registered_models :: "server \<Rightarrow> searches \<Rightarrow> request \<Rightarrow> after_handler" where
  "filter_search_registered_models sv sr rq =
     for_reader rq (\<lambda>u. filter_search sv sr ''SearchRegisteredModels''
       (cached_can_read_registered_model sv rq u) rq u) sr ''SearchRegisteredModels''"

definition filter_search_model_versions :: "server \<Rightarrow> searches \<Rightarrow> request \<Rightarrow> after_handler" where
  "filter_search_model_versions sv sr rq =
     for_reader rq (\<lambda>u. filter_search sv sr ''SearchModelVersions''
       (cached_can_read_registered_model sv rq u) rq u) sr ''SearchModelVersions''"

definition filter_logged_models :: "server \<Rightarrow> searches \<Rightarrow> request \<Rightarrow> after_handler" where
  "filter_logged_models sv sr rq =
     for_reader rq (filter_search_logged_models sv sr rq) sr ''SearchLoggedModels''"

text \<open>The lists of gateway resources have one page.\<close>

definition filter_list where
  "filter_list rq check sr kind =
     for_reader rq (\<lambda>u page h.
       case remove_failing (check u \<circ> it_key) (pg_items page) (pg_items page) h of
         (Inl e, h) \<Rightarrow> Some (Inl e, h)
       | (Inr items, h) \<Rightarrow> Some (Inr (page\<lparr>pg_items := items\<rparr>), h)) sr kind"

definition filter_list_gateway_endpoints :: "server \<Rightarrow> searches \<Rightarrow> request \<Rightarrow> after_handler" where
  "filter_list_gateway_endpoints sv sr rq =
     filter_list rq (cached_can_read_gateway_endpoint sv rq) sr ''ListGatewayEndpoints''"

definition filter_list_gateway_secrets :: "server \<Rightarrow> searches \<Rightarrow> request \<Rightarrow> after_handler" where
  "filter_list_gateway_secrets sv sr rq =
     filter_list rq (cached_can_read_gateway_secret sv rq) sr ''ListGatewaySecretInfos''"

definition filter_list_gateway_model_definitions :: "server \<Rightarrow> searches \<Rightarrow> request \<Rightarrow> after_handler" where
  "filter_list_gateway_model_definitions sv sr rq =
     filter_list rq (cached_can_read_gateway_model_definition sv rq) sr ''ListGatewayModelDefinitions''"

definition json_field :: "json \<Rightarrow> string \<Rightarrow> json" where
  "json_field v key = (case v of JObject kvs \<Rightarrow> (case map_of kvs key of Some x \<Rightarrow> x | None \<Rightarrow> JNull) | _ \<Rightarrow> JNull)"

text \<open>\<^verbatim>\<open>ws.get("name", "")\<close> of an entry, bound to a text column when looked up.\<close>

definition workspace_entry_name :: "server \<Rightarrow> json \<Rightarrow> string result" where
  "workspace_entry_name sv ws =
     (case ws of
        JObject kvs \<Rightarrow> (case map_of kvs ''name'' of Some v \<Rightarrow> db_text (sv_tracking sv) v | None \<Rightarrow> Inr '''')
      | _ \<Rightarrow> Inl OtherError)"

definition set_field :: "string \<Rightarrow> json \<Rightarrow> json \<Rightarrow> json" where
  "set_field key x v = (case v of JObject kvs \<Rightarrow> JObject (AList.update key x kvs) | _ \<Rightarrow> v)"

definition filter_list_workspaces :: "server \<Rightarrow> request \<Rightarrow> response \<Rightarrow> (response, hook_state) action" where
  "filter_list_workspaces sv rq resp =
     (if \<not> MLFLOW_ENABLE_WORKSPACES (sv_config sv) \<or> rs_status resp \<noteq> 200 then act_return resp
      else act_bind (act_lift (get_auth_context rq)) (\<lambda>ctx.
        if ac_is_admin ctx \<or> \<not> truthy (rs_json resp) then act_return resp
        else act_bind (act_lift (py_lookup (rs_json resp) ''workspaces'')) (\<lambda>entries.
          case entries of
            None \<Rightarrow> act_return resp
          | Some entries \<Rightarrow>
              act_bind (act_lift (py_iter entries)) (\<lambda>entries.
              act_bind (keep_passing (\<lambda>ws.
                  act_bind (act_lift (workspace_entry_name sv ws)) (\<lambda>w.
                  act_map (may can_read) (on_store (workspace_permission sv (ac_username ctx) w)))) entries) (\<lambda>filtered.
              act_return (resp\<lparr>rs_json := set_field ''workspaces'' (JArray filtered) (rs_json resp)\<rparr>))))))"

section \<open>Permissions that follow the resource\<close>

text \<open>A string field of a protobuf message read from JSON: absent or null is the empty string.\<close>

fun proto_string :: "json \<Rightarrow> string list \<Rightarrow> string result" where
  "proto_string JNull path = Inr ''''"
| "proto_string (JString s) [] = Inr s"
| "proto_string (JObject kvs) (k # path) =
     (case map_of kvs k of None \<Rightarrow> Inr '''' | Some v \<Rightarrow> proto_string v path)"
| "proto_string _ _ = Inl OtherError"

definition store_action :: "server \<Rightarrow> store_op \<Rightarrow> (unit, hook_state) action" where
  "store_action sv op = on_store (store_call (sv_store sv) op)"

definition MANAGE_name :: string where "MANAGE_name = perm_name MANAGE"

text \<open>The creator named by the request gets MANAGE on the resource named by the response.\<close>

definition grant_creator ::
    "server \<Rightarrow> request \<Rightarrow> string list \<Rightarrow> (string \<Rightarrow> string \<Rightarrow> store_op) \<Rightarrow> response \<Rightarrow> (unit, hook_state) action" where
  "grant_creator sv rq path op resp =
     act_bind (act_lift (proto_string (rs_json resp) path)) (\<lambda>name.
     act_bind (act_lift (get_fastapi_username rq)) (\<lambda>username. store_action sv (op name username)))"

definition set_can_manage_experiment_permission where
  "set_can_manage_experiment_permission sv rq =
     grant_creator sv rq [''experiment_id''] (\<lambda>i u. UserPermOp (CreatePermission Experiment i u MANAGE_name))"

definition set_can_manage_registered_model_permission where
  "set_can_manage_registered_model_permission sv rq =
     grant_creator sv rq [''registered_model'', ''name'']
       (\<lambda>n u. UserPermOp (CreatePermission RegisteredModel n u MANAGE_name))"

definition set_can_manage_gateway_endpoint_permission where
  "set_can_manage_gateway_endpoint_permission sv rq =
     grant_creator sv rq [''endpoint'', ''name'']
       (\<lambda>n u. UserPermOp (CreatePermission GatewayEndpoint n u MANAGE_name))"

definition set_can_manage_gateway_secret_permission where
  "set_can_manage_gateway_secret_permission sv rq =
     grant_creator sv rq [''secret'', ''secret_name'']
       (\<lambda>n u. UserPermOp (CreatePermission GatewaySecret n u MANAGE_name))"

definition set_can_manage_gateway_model_definition_permission where
  "set_can_manage_gateway_model_definition_permission sv rq =
     grant_creator sv rq [''model_definition'', ''name'']
       (\<lambda>n u. UserPermOp (CreatePermission GatewayModelDefinition n u MANAGE_name))"

definition set_can_manage_scorer_permission :: "server \<Rightarrow> request \<Rightarrow> response \<Rightarrow> (unit, hook_state) action" where
  "set_can_manage_scorer_permission sv rq resp =
     act_bind (act_lift (proto_string (rs_json resp) [''experiment_id''])) (\<lambda>i.
     act_bind (act_lift (proto_string (rs_json resp) [''name''])) (\<lambda>n.
     act_bind (act_lift (get_fastapi_username rq)) (\<lambda>username.
     store_action sv (UserPermOp (CreateScorer i n username MANAGE_name)))))"

definition delete_can_manage_registered_model_permission :: "server \<Rightarrow> request \<Rightarrow> (unit, hook_state) action" where
  "delete_can_manage_registered_model_permission sv rq =
     act_bind (act_lift (get_model_name rq)) (\<lambda>name.
     act_when (truthy name)
       (act_bind (act_lift (db_text (sv_tracking sv) name)) (\<lambda>n.
        act_bind (store_action sv (GroupPermOp (WipeGroupModel n))) (\<lambda>_.
        store_action sv (UserPermOp (WipeRegisteredModel n))))))"

definition rename_registered_model_permission :: "server \<Rightarrow> request \<Rightarrow> (unit, hook_state) action" where
  "rename_registered_model_permission sv rq =
     act_bind (act_lift (py_get (or_empty (get_json_force rq)) ''name'')) (\<lambda>name.
     act_bind (act_lift (py_get (or_empty (get_json_force rq)) ''new_name'')) (\<lambda>new_name.
     act_when (truthy name \<and> truthy new_name)
       (act_bind (act_lift (db_text (sv_tracking sv) name)) (\<lambda>old.
        act_bind (act_lift (db_text (sv_tracking sv) new_name)) (\<lambda>new.
        act_bind (store_action sv (UserPermOp (RenameRegisteredModel old new))) (\<lambda>_.
        store_action sv (GroupPermOp (RenameGroupModel old new))))))))"

definition delete_scorer_permissions_cascade :: "server \<Rightarrow> request \<Rightarrow> (unit, hook_state) action" where
  "delete_scorer_permissions_cascade sv rq =
     act_bind (act_lift (py_get (or_empty (get_json_force rq)) ''experiment_id'')) (\<lambda>i.
     act_bind (act_lift (py_get (or_empty (get_json_force rq)) ''name'')) (\<lambda>n.
     act_when (truthy i \<and> truthy n)
       (store_action sv (UserPermOp (DeleteScorerForScorer (py_str (sv_tracking sv) i) (py_str (sv_tracking sv) n))))))"

text \<open>\<^verbatim>\<open>try: m except Exception: log\<close>\<close>

definition quietly :: "(unit, 's) action \<Rightarrow> (unit, 's) action" where
  "quietly m = act_except m (act_return ())"

definition rename_gateway_endpoint_permission :: "server \<Rightarrow> response \<Rightarrow> (unit, hook_state) action" where
  "rename_gateway_endpoint_permission sv resp =
     act_bind (act_read (\<lambda>h. Inr (g_updating_gateway_endpoint_old_name (hs_g h)))) (\<lambda>old_name.
     if \<not> truthy old_name then act_return ()
     else act_bind (act_lift (proto_string (rs_json resp) [''endpoint'', ''name''])) (\<lambda>new_name.
       if new_name = '''' \<or> JString new_name = old_name then act_return ()
       else quietly (act_bind (act_lift (db_text (sv_tracking sv) old_name)) (\<lambda>old.
         store_action sv (UserPermOp (RenameGatewayEndpoint old new_name))))))"

definition wipe_stashed :: "server \<Rightarrow> (flask_g \<Rightarrow> json) \<Rightarrow> resource_class \<Rightarrow> (unit, hook_state) action" where
  "wipe_stashed sv field c =
     act_bind (act_read (\<lambda>h. Inr (field (hs_g h)))) (\<lambda>name.
     if \<not> truthy name then act_return ()
     else quietly (act_bind (act_lift (db_text (sv_tracking sv) name)) (\<lambda>n.
       store_action sv (UserPermOp (WipeGateway c n)))))"

definition delete_gateway_endpoint_permissions_cascade :: "server \<Rightarrow> (unit, hook_state) action" where
  "delete_gateway_endpoint_permissions_cascade sv =
     wipe_stashed sv g_deleting_gateway_endpoint_name GatewayEndpoint"

definition delete_gateway_secret_permissions_cascade :: "server \<Rightarrow> (unit, hook_state) action" where
  "delete_gateway_secret_permissions_cascade sv =
     wipe_stashed sv g_deleting_gateway_secret_name GatewaySecret"

definition delete_gateway_model_definition_permissions_cascade :: "server \<Rightarrow> (unit, hook_state) action" where
  "delete_gateway_model_definition_permissions_cascade sv =
     wipe_stashed sv g_deleting_gateway_model_definition_name GatewayModelDefinition"

definition flush_workspaces :: "(unit, hook_state) action" where
  "flush_workspaces = on_store (\<lambda>s.
     (Inr (), s\<lparr>st_caches := (st_caches s)\<lparr>workspace_cache := flush_workspace_cache (workspace_cache (st_caches s))\<rparr>\<rparr>))"

definition auto_grant_workspace_manage_permission :: "server \<Rightarrow> request \<Rightarrow> response \<Rightarrow> (unit, hook_state) action" where
  "auto_grant_workspace_manage_permission sv rq resp =
     (if \<not> MLFLOW_ENABLE_WORKSPACES (sv_config sv) \<or> rs_status resp \<ge> 300 \<or> \<not> truthy (rs_json resp)
      then act_return ()
      else act_bind (act_lift (py_get (rs_json resp) ''workspace'')) (\<lambda>workspace.
        let name = json_field workspace ''name''
        in if \<not> truthy name then act_return ()
           else act_bind (act_lift (get_auth_context rq)) (\<lambda>ctx.
             act_bind (quietly (act_bind (act_lift (db_text (sv_tracking sv) name)) (\<lambda>w.
               store_action sv (WorkspaceOp (CreateWorkspacePermission w (ac_username ctx) MANAGE_name))))) (\<lambda>_.
             flush_workspaces))))"

definition cascade_delete_workspace_permissions :: "server \<Rightarrow> response \<Rightarrow> (unit, hook_state) action" where
  "cascade_delete_workspace_permissions sv resp =
     (if \<not> MLFLOW_ENABLE_WORKSPACES (sv_config sv) \<or> rs_status resp \<ge> 300 then act_return ()
      else act_bind (act_read (\<lambda>h. Inr (g_deleting_workspace_name (hs_g h)))) (\<lambda>name.
        case name of
          None \<Rightarrow> act_return ()
        | Some w \<Rightarrow>
            if w = '''' then act_return ()
            else act_bind (quietly (store_action sv (WorkspaceOp (WipeWorkspacePermissions w)))) (\<lambda>_.
              flush_workspaces)))"

section \<open>The hook\<close>

text \<open>The handler of each request class, by its name.\<close>

definition no_loop :: "(response \<Rightarrow> (response, hook_state) action) \<Rightarrow> after_handler" where
  "no_loop f resp h = Some (f resp h)"

definition effect :: "(response \<Rightarrow> (unit, hook_state) action) \<Rightarrow> after_handler" where
  "effect f = no_loop (\<lambda>resp. act_map (\<lambda>_. resp) (f resp))"

definition AFTER_REQUEST_PATH_HANDLERS :: "server \<Rightarrow> searches \<Rightarrow> request \<Rightarrow> (string \<times> after_handler) list" where
  "AFTER_REQUEST_PATH_HANDLERS sv sr rq =
     [(''CreateExperiment'', effect (set_can_manage_experiment_permission sv rq)),
      (''CreateRegisteredModel'', effect (set_can_manage_registered_model_permission sv rq)),
      (''DeleteRegisteredModel'', effect (\<lambda>_. delete_can_manage_registered_model_permission sv rq)),
      (''SearchExperiments'', filter_search_experiments sv sr rq),
      (''SearchLoggedModels'', filter_logged_models sv sr rq),
      (''SearchRegisteredModels'', filter_search_registered_models sv sr rq),
      (''SearchModelVersions'', filter_search_model_versions sv sr rq),
      (''RenameRegisteredModel'', effect (\<lambda>_. rename_registered_model_permission sv rq)),
      (''RegisterScorer'', effect (set_can_manage_scorer_permission sv rq)),
      (''DeleteScorer'', effect (\<lambda>_. delete_scorer_permissions_cascade sv rq)),
      (''CreateGatewayEndpoint'', effect (set_can_manage_gateway_endpoint_permission sv rq)),
      (''CreateGatewaySecret'', effect (set_can_manage_gateway_secret_permission sv rq)),
      (''CreateGatewayModelDefinition'', effect (set_can_manage_gateway_model_definition_permission sv rq)),
      (''UpdateGatewayEndpoint'', effect (rename_gateway_endpoint_permission sv)),
      (''DeleteGatewayEndpoint'', effect (\<lambda>_. delete_gateway_endpoint_permissions_cascade sv)),
      (''DeleteGatewaySecret'', effect (\<lambda>_. delete_gateway_secret_permissions_cascade sv)),
      (''DeleteGatewayModelDefinition'', effect (\<lambda>_. delete_gateway_model_definition_permissions_cascade sv)),
      (''ListGatewayEndpoints'', filter_list_gateway_endpoints sv sr rq),
      (''ListGatewaySecretInfos'', filter_list_gateway_secrets sv sr rq),
      (''ListGatewayModelDefinitions'', filter_list_gateway_model_definitions sv sr rq),
      (''ListWorkspaces'', no_loop (filter_list_workspaces sv rq)),
      (''CreateWorkspace'', effect (auto_grant_workspace_manage_permission sv rq)),
      (''DeleteWorkspace'', effect (cascade_delete_workspace_permissions sv))]"

text \<open>The table by path and method: the request classes of MLflow's endpoints that have a handler.\<close>

definition after_request_keys :: "server \<Rightarrow> searches \<Rightarrow> request \<Rightarrow> ((string \<times> string) \<times> string) list" where
  "after_request_keys sv sr rq =
     concat (map (\<lambda>(path, request_class, methods).
       case request_class of
         Some c \<Rightarrow>
           if c \<in> set (map fst (AFTER_REQUEST_PATH_HANDLERS sv sr rq)) \<and> \<not> sublist ''/graphql'' path
           then map (\<lambda>m. ((path, m), c)) methods else []
       | None \<Rightarrow> [])
       (sv_endpoints sv))"

text \<open>The names alone, to evaluate the keys without the handlers.\<close>

definition after_request_names :: "string list" where
  "after_request_names =
     [''CreateExperiment'', ''CreateRegisteredModel'', ''DeleteRegisteredModel'', ''SearchExperiments'',
      ''SearchLoggedModels'', ''SearchRegisteredModels'', ''SearchModelVersions'', ''RenameRegisteredModel'',
      ''RegisterScorer'', ''DeleteScorer'', ''CreateGatewayEndpoint'', ''CreateGatewaySecret'',
      ''CreateGatewayModelDefinition'', ''UpdateGatewayEndpoint'', ''DeleteGatewayEndpoint'', ''DeleteGatewaySecret'',
      ''DeleteGatewayModelDefinition'', ''ListGatewayEndpoints'', ''ListGatewaySecretInfos'', ''ListGatewayModelDefinitions'',
      ''ListWorkspaces'', ''CreateWorkspace'', ''DeleteWorkspace'']"

lemma after_request_names: "map fst (AFTER_REQUEST_PATH_HANDLERS sv sr rq) = after_request_names"
  by (simp add: AFTER_REQUEST_PATH_HANDLERS_def after_request_names_def)

declare after_request_keys_def [unfolded after_request_names, code]

definition AFTER_REQUEST_HANDLERS :: "server \<Rightarrow> searches \<Rightarrow> request \<Rightarrow> after_handler option" where
  "AFTER_REQUEST_HANDLERS sv sr rq =
     (case map_of (dict (after_request_keys sv sr rq)) (rq_path rq, rq_method rq) of
        Some c \<Rightarrow> map_of (AFTER_REQUEST_PATH_HANDLERS sv sr rq) c
      | None \<Rightarrow> None)"

text \<open>The user whose quota is to be reconciled in the background, if any.\<close>

definition owner_to_reconcile :: "hook_state \<Rightarrow> string \<Rightarrow> string option" where
  "owner_to_reconcile h experiment_id =
     (case get_experiment_owner (st_db (hs_store h)) experiment_id of
        Some u \<Rightarrow> if u = '''' then None else Some u
      | None \<Rightarrow> None)"

definition reconcile_after_artifact_delete :: "server \<Rightarrow> request \<Rightarrow> (string option, hook_state) action" where
  "reconcile_after_artifact_delete sv rq =
     (let experiment_id = hd (split ''/'' (drop (length (proxy_prefix sv)) (rq_path rq)))
      in if experiment_id = '''' then act_return None
         else act_read (\<lambda>h. Inr (owner_to_reconcile h experiment_id)))"

definition reconcile_after_run_delete :: "server \<Rightarrow> request \<Rightarrow> (string option, hook_state) action" where
  "reconcile_after_run_delete sv rq =
     act_bind (act_lift (py_get (or_empty (get_json_force rq)) ''run_id'')) (\<lambda>run_id.
     if \<not> truthy run_id then act_return None
     else case ts_run_experiment (sv_tracking sv) run_id of
         Inl _ \<Rightarrow> act_return None
       | Inr i \<Rightarrow> act_read (\<lambda>h. Inr (owner_to_reconcile h i)))"

definition reconcile_after_experiment_delete :: "server \<Rightarrow> request \<Rightarrow> (string option, hook_state) action" where
  "reconcile_after_experiment_delete sv rq =
     act_bind (act_lift (py_get (or_empty (get_json_force rq)) ''experiment_id'')) (\<lambda>i.
     if \<not> truthy i then act_return None
     else act_read (\<lambda>h. Inr (owner_to_reconcile h (py_str (sv_tracking sv) i))))"

definition quota_after :: "server \<Rightarrow> request \<Rightarrow> (string option, hook_state) action" where
  "quota_after sv rq =
     (if is_proxy_artifact_path sv (rq_path rq) \<and> rq_method rq = ''DELETE''
      then reconcile_after_artifact_delete sv rq
      else if rq_method rq = ''POST'' \<and> ends_with ''/runs/delete'' (rq_path rq)
      then reconcile_after_run_delete sv rq
      else if rq_method rq = ''POST'' \<and> ends_with ''/experiments/delete'' (rq_path rq)
      then reconcile_after_experiment_delete sv rq
      else act_return None)"

text \<open>The response sent, and the user whose quota is reconciled in a thread of its own.\<close>

definition after_request_body ::
    "server \<Rightarrow> searches \<Rightarrow> request \<Rightarrow> response \<Rightarrow> hook_state \<Rightarrow> ((response \<times> string option) result \<times> hook_state) option" where
  "after_request_body sv sr rq resp h =
     (if 400 \<le> rs_status resp \<and> rs_status resp < 600 then Some (Inr (resp, None), h)
      else
        case (case AFTER_REQUEST_HANDLERS sv sr rq of
                Some handler \<Rightarrow> handler resp h
              | None \<Rightarrow> Some (Inr resp, h)) of
          None \<Rightarrow> None
        | Some (Inl e, h) \<Rightarrow> Some (Inl e, h)
        | Some (Inr resp, h) \<Rightarrow> Some (act_map (\<lambda>owner. (resp, owner)) (quota_after sv rq) h))"

definition after_request_hook ::
    "server \<Rightarrow> searches \<Rightarrow> request \<Rightarrow> response \<Rightarrow> hook_state \<Rightarrow> ((response \<times> string option) result \<times> hook_state) option" where
  "after_request_hook sv sr rq resp h =
     (case after_request_body sv sr rq resp h of
        Some (Inl (MlflowException c), h') \<Rightarrow>
          Some (Inr (\<lparr>rs_status = sv_error_status sv c, rs_json = JObject []\<rparr>, None), h')
      | r \<Rightarrow> r)"

end
