(* ===== verification/StableCheck.thy ===== *)
theory StableCheck
  imports AfterRequest ResolutionCache
begin

text \<open>
  The contract between the filters of the second hook and permission resolution: a check
  whose verdict on an item does not depend on what has been checked before. The filters are
  proved correct once against it, and the checks of the plugin are shown to keep it while
  the database does not change and the caches hold current answers.
\<close>

section \<open>Removing the failing items is filtering\<close>

lemma fold_remove1_failing:
  "filter (\<lambda>x. \<not> P x) ys = zs \<Longrightarrow> fold remove1 zs ys = filter P ys"
proof (induction zs arbitrary: ys)
  case Nil
  then have "filter P ys = ys" by (simp add: filter_empty_conv filter_id_conv)
  then show ?case by simp
next
  case (Cons z zs)
  have z: "\<not> P z" using Cons.prems by (metis filter_eq_ConsD)
  have rem: "filter Q (remove1 z xs) = (if Q z then remove1 z (filter Q xs) else filter Q xs)" for Q xs
    by (induction xs) auto
  have "filter (\<lambda>x. \<not> P x) (remove1 z ys) = zs" using Cons.prems z rem [of "\<lambda>x. \<not> P x"] by simp
  from Cons.IH [OF this] z rem [of P ys] show ?case by simp
qed

section \<open>The contract\<close>

locale stable_check =
  fixes check :: "'i \<Rightarrow> (bool, 's) action"
    and inv :: "'s \<Rightarrow> bool"
    and verdict :: "'i \<Rightarrow> bool result"
  assumes stable: "inv s \<Longrightarrow> check x s = (r, s') \<Longrightarrow> r = verdict x \<and> inv s'"

context stable_check
begin

definition accepted :: "'i \<Rightarrow> bool" where
  "accepted x \<longleftrightarrow> verdict x = Inr True"

definition decided :: "'i list \<Rightarrow> bool" where
  "decided xs \<longleftrightarrow> (\<forall>x \<in> set xs. \<exists>b. verdict x = Inr b)"

lemma decided_simps [simp]:
  "decided []" "decided (x # xs) \<longleftrightarrow> (\<exists>b. verdict x = Inr b) \<and> decided xs"
  "decided (xs @ ys) \<longleftrightarrow> decided xs \<and> decided ys"
  by (auto simp: decided_def)

lemma decided_subset: "decided ys \<Longrightarrow> set xs \<subseteq> set ys \<Longrightarrow> decided xs"
  by (auto simp: decided_def)

lemma check_cases:
  assumes "inv s"
  obtains (raises) e s' where "check x s = (Inl e, s')" "verdict x = Inl e" "inv s'"
    | (answers) b s' where "check x s = (Inr b, s')" "verdict x = Inr b" "accepted x \<longleftrightarrow> b" "inv s'"
proof -
  obtain r s' where c: "check x s = (r, s')" by fastforce
  from stable [OF assms c] have v: "r = verdict x" "inv s'" by simp_all
  show thesis
  proof (cases r)
    case (Inl e)
    with c v show thesis by (intro raises [of e s']) simp_all
  next
    case (Inr b)
    with c v show thesis by (intro answers [of b s']) (auto simp: accepted_def)
  qed
qed

lemma remove_failing_fold:
  assumes "inv s" and "remove_failing check xs kept s = (Inr ys, s')"
  shows "decided xs \<and> ys = fold remove1 (filter (\<lambda>x. \<not> accepted x) xs) kept \<and> inv s'"
  using assms
proof (induction xs arbitrary: kept s)
  case Nil
  then show ?case by simp
next
  case (Cons x xs)
  show ?case using Cons.prems(1)
  proof (cases rule: check_cases [of s x])
    case (raises e s1)
    then show ?thesis using Cons.prems(2) by (simp add: act_bind_def)
  next
    case (answers b s1)
    then show ?thesis
      using Cons.IH [OF answers(4)] Cons.prems(2) by (auto simp: act_bind_def split: if_splits)
  qed
qed

lemma remove_failing_filter:
  assumes "inv s" and "remove_failing check xs xs s = (Inr ys, s')"
  shows "ys = filter accepted xs \<and> decided xs \<and> inv s'"
  using remove_failing_fold [OF assms] fold_remove1_failing [OF refl] by simp

lemma remove_failing_total:
  "inv s \<Longrightarrow> decided xs \<Longrightarrow> \<exists>ys s'. remove_failing check xs kept s = (Inr ys, s') \<and> inv s'"
proof (induction xs arbitrary: kept s)
  case Nil
  then show ?case by simp
next
  case (Cons x xs)
  show ?case using Cons.prems(1)
  proof (cases rule: check_cases [of s x])
    case (raises e s1)
    then show ?thesis using Cons.prems(2) by auto
  next
    case (answers b s1)
    with Cons.IH [OF answers(4)] Cons.prems(2) show ?thesis by (simp add: act_bind_def)
  qed
qed

lemma keep_passing_filter:
  "inv s \<Longrightarrow> keep_passing check xs s = (Inr ys, s') \<Longrightarrow> ys = filter accepted xs \<and> inv s'"
proof (induction xs arbitrary: ys s)
  case Nil
  then show ?case by simp
next
  case (Cons x xs)
  show ?case using Cons.prems(1)
  proof (cases rule: check_cases [of s x])
    case (raises e s1)
    then show ?thesis using Cons.prems(2) by (simp add: act_bind_def)
  next
    case (answers b s1)
    with Cons.prems(2) obtain zs where z: "keep_passing check xs s1 = (Inr zs, s')"
      "ys = (if b then x # zs else zs)"
      by (auto simp: act_bind_def act_map_def split: prod.splits sum.splits)
    from Cons.IH [OF answers(4) z(1)] z(2) answers(3) show ?thesis by simp
  qed
qed

lemma keep_passing_total:
  "inv s \<Longrightarrow> decided xs \<Longrightarrow> \<exists>ys s'. keep_passing check xs s = (Inr ys, s')"
proof (induction xs arbitrary: s)
  case Nil
  then show ?case by simp
next
  case (Cons x xs)
  show ?case using Cons.prems(1)
  proof (cases rule: check_cases [of s x])
    case (raises e s1)
    then show ?thesis using Cons.prems(2) by auto
  next
    case (answers b s1)
    with Cons.IH [OF answers(4)] Cons.prems(2) obtain ys s2 where "keep_passing check xs s1 = (Inr ys, s2)"
      by auto
    with answers show ?thesis by (simp add: act_bind_def act_map_def)
  qed
qed

text \<open>Whatever the searches return, only accepted items are added.\<close>

definition adds_accepted :: "('i \<Rightarrow> (bool, 's) action) \<Rightarrow> 'i list \<Rightarrow> 's \<Rightarrow> ('i list \<times> string) result \<times> 's \<Rightarrow> bool" where
  "adds_accepted chk items s y \<longleftrightarrow>
     (chk = check \<longrightarrow> inv s \<longrightarrow>
      (\<forall>items' token' s'. y = (Inr (items', token'), s') \<longrightarrow> set items' \<subseteq> set items \<union> {x. accepted x}))"

lemma refetch_adds_accepted:
  assumes "refetch search parse create m chk items token s = Some y"
  shows "adds_accepted chk items s y"
proof (rule refetch.raw_induct [where P = "\<lambda>_ _ _ _ chk items _ s y. adds_accepted chk items s y", OF _ assms])
  fix rec search parse create m chk items token s y
  assume IH: "\<And>parse create m chk items token s b y.
      rec parse create m chk items token s b = Some y \<Longrightarrow> adds_accepted items token b y"
    and body: "(if length items < m \<and> token \<noteq> []
      then case search token of Inl e \<Rightarrow> Some (Inl e, s)
           | Inr found \<Rightarrow>
               let refetched = take (m - length items) found
               in if refetched = [] then Some (Inr (items, []), s)
                  else case keep_passing chk refetched s of
                       (Inl e, s') \<Rightarrow> Some (Inl e, s')
                       | (Inr readable, s') \<Rightarrow>
                           case parse token of Inl e \<Rightarrow> Some (Inl e, s')
                           | Inr start_offset \<Rightarrow>
                               rec search parse create m chk (items @ readable)
                                (create (start_offset + length refetched)) s'
      else Some (Inr (items, token), s)) = Some y"
  show "adds_accepted chk items s y"
    unfolding adds_accepted_def
  proof (intro impI allI)
    fix items' token' s'
    assume chk: "chk = check" and inv: "inv s"
      and y: "y = (Inr (items', token'), s')"
    let ?take = "\<lambda>found. take (m - length items) found"
    consider (stop) "items' = items"
      | (more) found start readable s1 where "search token = Inr found"
          "keep_passing check (?take found) s = (Inr readable, s1)"
          "rec search parse create m check (items @ readable) (create (start + length (?take found))) s1 = Some y"
      using body unfolding chk y Let_def
      by (auto split: if_splits sum.splits prod.splits)
    then show "set items' \<subseteq> set items \<union> {x. accepted x}"
    proof cases
      case stop
      then show ?thesis by simp
    next
      case (more found start readable s1)
      from keep_passing_filter [OF inv more(2)]
      have "inv s1" "set (items @ readable) \<subseteq> set items \<union> {x. accepted x}" by auto
      with IH [OF more(3)] y show ?thesis by (fastforce simp: adds_accepted_def)
    qed
  qed
qed

lemma refetch_accepted:
  assumes "refetch search parse create m check items token s = Some (Inr (items', token'), s')"
    and "inv s"
  shows "set items' \<subseteq> set items \<union> {x. accepted x}"
  using refetch_adds_accepted [OF assms(1)] assms(2) by (simp add: adds_accepted_def)

text \<open>
  Searches over one list, in pages, with the offset as the token: the loop ends, and the page
  is then full or the list is exhausted.
\<close>

lemma refetch_complete:
  assumes tokens: "\<And>n. parse (create n) = Inr n" "\<And>n. create n \<noteq> ''''"
    and pages: "\<And>n. search (create n) = Inr (take m (drop n all))"
    and dec: "decided all"
  shows "inv s \<Longrightarrow> length items \<le> m \<Longrightarrow>
    \<exists>k token s'. off \<le> k \<and>
      refetch search parse create m check items (create off) s =
        Some (Inr (items @ filter accepted (take (k - off) (drop off all)), token), s') \<and>
      (token = create k \<and> length (items @ filter accepted (take (k - off) (drop off all))) = m \<or>
       token = '''' \<and> length all \<le> k)"
proof (induction "length all - off" arbitrary: off items s rule: less_induct)
  case less
  let ?new = "take (m - length items) (take m (drop off all))"
  consider (full) "length items = m" | (stop) "length items < m" "length all \<le> off"
    | (more) "length items < m" "off < length all"
    using less.prems(2) by linarith
  then show ?case
  proof cases
    case full
    then show ?thesis
      by (subst refetch.simps) (intro exI [of _ off] exI [of _ "create off"] exI [of _ s], simp)
  next
    case stop
    then show ?thesis
      by (subst refetch.simps) (intro exI [of _ off] exI [of _ "''''"] exI [of _ s], simp add: tokens pages)
  next
    case more
    define n where "n = length ?new"
    have n: "?new = take n (drop off all)" "n \<le> m - length items" "0 < n" "n \<le> length all - off"
      using more by (auto simp: n_def take_take min_def)
    have "decided ?new" using dec by (auto simp: decided_def dest!: in_set_takeD in_set_dropD)
    then obtain kept s1 where kept: "keep_passing check ?new s = (Inr kept, s1)"
      using keep_passing_total [OF less.prems(1)] by blast
    from keep_passing_filter [OF less.prems(1) kept] have kept': "kept = filter accepted ?new" "inv s1" by simp_all
    have room: "length (items @ kept) \<le> m"
    proof -
      have "length kept \<le> length ?new" unfolding kept'(1) by (rule length_filter_le)
      with n(2) more(1) show ?thesis unfolding n_def length_append by linarith
    qed
    have "length all - (off + n) < length all - off" using n(3,4) by simp
    from less.hyps [OF this kept'(2) room] obtain k token s' where IH: "off + n \<le> k"
      "refetch search parse create m check (items @ kept) (create (off + n)) s1 =
         Some (Inr ((items @ kept) @ filter accepted (take (k - (off + n)) (drop (off + n) all)), token), s')"
      "token = create k \<and> length ((items @ kept) @ filter accepted (take (k - (off + n)) (drop (off + n) all))) = m \<or>
       token = '''' \<and> length all \<le> k" by blast
    have "take (k - off) (drop off all) = ?new @ take (k - (off + n)) (drop (off + n) all)"
      unfolding n(1) using IH(1) take_add [of n "k - (off + n)" "drop off all"] by (simp add: add.commute)
    then have all: "items @ filter accepted (take (k - off) (drop off all)) =
        (items @ kept) @ filter accepted (take (k - (off + n)) (drop (off + n) all))"
      unfolding kept'(1) by simp
    have "?new \<noteq> []" using n(1,3,4) more(2) by auto
    then have "refetch search parse create m check items (create off) s =
        refetch search parse create m check (items @ kept) (create (off + n)) s1"
      using more(1) kept by (subst refetch.simps) (simp add: tokens pages Let_def n_def)
    with IH all show ?thesis
      by (intro exI [of _ k] exI [of _ token] exI [of _ s']) simp
  qed
qed

end

section \<open>The checks of the plugin keep the contract\<close>

text \<open>What the database of the moment says, without any cache.\<close>

definition may_read :: "server \<Rightarrow> request \<Rightarrow> string \<Rightarrow> db \<Rightarrow> string \<Rightarrow> string \<Rightarrow> bool result" where
  "may_read sv rq u db t i =
     bind_result (resolve_fresh (sv_config sv) (sv_outside sv) db (get_request_workspace rq) t i u None)
       (\<lambda>r. Inr (can_read (pr_permission r)))"

definition may_access :: "server \<Rightarrow> string \<Rightarrow> db \<Rightarrow> string option \<Rightarrow> bool" where
  "may_access sv u db w \<longleftrightarrow>
     \<not> MLFLOW_ENABLE_WORKSPACES (sv_config sv) \<or> w = None \<or> w = Some '''' \<or>
     may can_read (lookup_workspace_permission (sv_config sv) (sv_outside sv) db u (the w))"

definition memo_kinds :: "(string \<times> string) list" where
  "memo_kinds = [(''exp'', EXPERIMENT), (''rm'', REGISTERED_MODEL), (''gw_ep'', GATEWAY_ENDPOINT),
     (''gw_secret'', GATEWAY_SECRET), (''gw_md'', GATEWAY_MODEL_DEFINITION)]"

text \<open>The database is \<open>db\<close>, and all caches, the one of the request included, agree with it.\<close>

definition reader_inv :: "server \<Rightarrow> request \<Rightarrow> string \<Rightarrow> db \<Rightarrow> hook_state \<Rightarrow> bool" where
  "reader_inv sv rq u db h \<longleftrightarrow>
     colon_free u \<and> st_db (hs_store h) = db \<and>
     exact_caches (sv_config sv) (sv_outside sv) db (get_request_workspace rq) (st_caches (hs_store h)) \<and>
     (\<forall>k t i b. (k, t) \<in> set memo_kinds \<longrightarrow> g_after_request_perm_cache (hs_g h) (k, i, u) = Some b \<longrightarrow>
        may_read sv rq u db t i = Inr b)"

lemma memo_kinds_types: "(k, t) \<in> set memo_kinds \<Longrightarrow> t \<in> set resource_types \<and> t \<noteq> SCORER"
  by (auto simp: memo_kinds_def resource_types_def PERMISSION_REGISTRY_def resource_type_defs)

lemma memo_kinds_unique: "(k, t) \<in> set memo_kinds \<Longrightarrow> (k, t') \<in> set memo_kinds \<Longrightarrow> t = t'"
  by (auto simp: memo_kinds_def)

lemma read_check_stable:
  assumes "reader_inv sv rq u db h" and t: "t \<in> set resource_types" "t \<noteq> SCORER"
    and "on_store (with_caches (\<lambda>db. capability can_read
           (resolve_permission (sv_config sv) (sv_outside sv) db (get_request_workspace rq) t i u None))) h = (r, h')"
  shows "r = may_read sv rq u db t i \<and> reader_inv sv rq u db h' \<and> hs_g h' = hs_g h"
proof -
  obtain res c where res: "resolve_permission (sv_config sv) (sv_outside sv) db (get_request_workspace rq) t i u None
      (st_caches (hs_store h)) = (res, c)" by fastforce
  have exact: "exact_caches (sv_config sv) (sv_outside sv) db (get_request_workspace rq) (st_caches (hs_store h))"
    and u: "colon_free u" and db: "st_db (hs_store h) = db"
    using assms(1) by (simp_all add: reader_inv_def)
  from resolve_permission_exact [OF exact u t(1) res] t(2)
  have fresh: "res = resolve_fresh (sv_config sv) (sv_outside sv) db (get_request_workspace rq) t i u None"
    and exact': "exact_caches (sv_config sv) (sv_outside sv) db (get_request_workspace rq) c" by simp_all
  have h': "r = bind_result res (\<lambda>r. Inr (can_read (pr_permission r)))"
    "h' = h\<lparr>hs_store := (hs_store h)\<lparr>st_caches := c\<rparr>\<rparr>"
    using assms(4) res db
    by (auto simp: on_store_def with_caches_def capability_def split: prod.splits sum.splits)
  show ?thesis
    using assms(1) exact' fresh h' by (simp add: reader_inv_def may_read_def)
qed

lemma cached_check_stable:
  assumes inv: "reader_inv sv rq u db h" and kind: "(k, t) \<in> set memo_kinds"
    and check: "\<And>h r h'. reader_inv sv rq u db h \<Longrightarrow> on_store check h = (r, h') \<Longrightarrow>
        r = may_read sv rq u db t i \<and> reader_inv sv rq u db h' \<and> hs_g h' = hs_g h"
    and step: "cached_check (k, i, u) check h = (r, h')"
  shows "r = may_read sv rq u db t i \<and> reader_inv sv rq u db h'"
proof (cases "g_after_request_perm_cache (hs_g h) (k, i, u)")
  case (Some b)
  with step inv kind show ?thesis by (auto simp: cached_check_def reader_inv_def)
next
  case None
  obtain r1 h1 where c: "on_store check h = (r1, h1)" by fastforce
  note c' = check [OF inv c]
  show ?thesis
  proof (cases r1)
    case (Inl e)
    with None c step have "r = Inl e" "h' = h1" by (auto simp: cached_check_def)
    with Inl c' show ?thesis by simp
  next
    case (Inr b)
    with None c step have "r = Inr b" "h' = h1\<lparr>hs_g := (hs_g h1)\<lparr>g_after_request_perm_cache :=
        (g_after_request_perm_cache (hs_g h1))((k, i, u) \<mapsto> b)\<rparr>\<rparr>"
      by (auto simp: cached_check_def)
    with Inr c' memo_kinds_unique [OF kind] show ?thesis by (auto simp: reader_inv_def)
  qed
qed

lemma access_stable:
  assumes inv: "reader_inv sv rq u db h" and step: "can_access_workspace sv u w h = (r, h')"
  shows "r = Inr (may_access sv u db w) \<and> reader_inv sv rq u db h'"
proof (cases "MLFLOW_ENABLE_WORKSPACES (sv_config sv) \<and> w \<noteq> None \<and> w \<noteq> Some ''''")
  case False
  with step inv show ?thesis by (auto simp: can_access_workspace_def may_access_def split: if_splits)
next
  case True
  then obtain v where w: "w = Some v" "v \<noteq> ''''" by auto
  obtain p wc where look: "get_workspace_permission_cached (sv_config sv) (sv_outside sv) db u v
      (workspace_cache (st_caches (hs_store h))) = (p, wc)" by fastforce
  from inv have db: "st_db (hs_store h) = db" and u: "colon_free u"
    and exact: "exact_caches (sv_config sv) (sv_outside sv) db (get_request_workspace rq) (st_caches (hs_store h))"
    by (simp_all add: reader_inv_def)
  note fresh = ws_cached_exact [OF exact u conjunct1 [OF True] look]
  have "r = Inr (may can_read p)" "h' = h\<lparr>hs_store := (hs_store h)\<lparr>st_caches :=
      (st_caches (hs_store h))\<lparr>workspace_cache := wc\<rparr>\<rparr>\<rparr>"
    using step True w db look
    by (auto simp: can_access_workspace_def act_map_def act_bind_def on_store_def workspace_permission_def)
  then show ?thesis using inv fresh w True by (simp add: reader_inv_def may_access_def)
qed

section \<open>Filtering what a user may read\<close>

definition read_action :: "server \<Rightarrow> request \<Rightarrow> string \<Rightarrow> string \<Rightarrow> string \<Rightarrow> (bool, store_state) action" where
  "read_action sv rq u t i =
     with_caches (\<lambda>db. capability can_read
       (resolve_permission (sv_config sv) (sv_outside sv) db (get_request_workspace rq) t i u None))"

interpretation access: stable_check "\<lambda>x. can_access_workspace sv u (ws x)" "reader_inv sv rq u db"
    "\<lambda>x. Inr (may_access sv u db (ws x))"
  for sv rq u db ws
  by unfold_locales (rule access_stable)

locale key_reader =
  fixes sv :: server and rq :: request and u :: string and db :: db
    and k t :: string and can_read_key :: "string \<Rightarrow> (bool, hook_state) action"
  assumes kind: "(k, t) \<in> set memo_kinds"
    and reads: "can_read_key i = cached_check (k, i, u) (read_action sv rq u t i)"

context key_reader
begin

lemma key_stable:
  assumes "reader_inv sv rq u db h" and "can_read_key i h = (r, h')"
  shows "r = may_read sv rq u db t i \<and> reader_inv sv rq u db h'"
proof (rule cached_check_stable [OF assms(1) kind _ assms(2) [unfolded reads]])
  note types = memo_kinds_types [OF kind]
  fix h r h'
  assume "reader_inv sv rq u db h" and "on_store (read_action sv rq u t i) h = (r, h')"
  from read_check_stable [OF this(1) conjunct1 [OF types] conjunct2 [OF types] this(2) [unfolded read_action_def]]
  show "r = may_read sv rq u db t i \<and> reader_inv sv rq u db h' \<and> hs_g h' = hs_g h" .
qed

end

sublocale key_reader \<subseteq> keys: stable_check "can_read_key \<circ> it_key" "reader_inv sv rq u db"
    "\<lambda>x. may_read sv rq u db t (it_key x)"
  by unfold_locales (simp add: key_stable)

sublocale key_reader \<subseteq> items: stable_check
    "\<lambda>x. both (can_read_key (it_key x)) (can_access_workspace sv u (it_workspace x))" "reader_inv sv rq u db"
    "\<lambda>x. bind_result (may_read sv rq u db t (it_key x)) (\<lambda>b. Inr (b \<and> may_access sv u db (it_workspace x)))"
proof unfold_locales
  fix h x r h'
  assume inv: "reader_inv sv rq u db h"
    and step: "both (can_read_key (it_key x)) (can_access_workspace sv u (it_workspace x)) h = (r, h')"
  obtain r1 h1 where c: "can_read_key (it_key x) h = (r1, h1)" by fastforce
  note key = key_stable [OF inv c]
  show "r = bind_result (may_read sv rq u db t (it_key x)) (\<lambda>b. Inr (b \<and> may_access sv u db (it_workspace x))) \<and>
      reader_inv sv rq u db h'"
  proof (cases "r1 = Inr True")
    case True
    with step c have ws: "can_access_workspace sv u (it_workspace x) h1 = (r, h')"
      by (simp add: both_def act_bind_def)
    from key True have read: "may_read sv rq u db t (it_key x) = Inr True" by simp
    from access_stable [OF conjunct2 [OF key] ws] show ?thesis unfolding read by simp
  next
    case False
    with step c key show ?thesis
      by (cases r1) (auto simp: both_def act_bind_def bind_result_def split: sum.splits)
  qed
qed

context key_reader
begin

lemma accepted_items:
  "items.accepted x \<longleftrightarrow> may_read sv rq u db t (it_key x) = Inr True \<and> may_access sv u db (it_workspace x)"
  "keys.accepted x \<longleftrightarrow> may_read sv rq u db t (it_key x) = Inr True"
  unfolding items.accepted_def keys.accepted_def by (auto simp: bind_result_eq_Inr)

text \<open>An item that passes is readable, and so is its workspace as the store or the search gives it.\<close>

lemma filter_search_readable:
  assumes inv: "reader_inv sv rq u db h"
    and run: "filter_search sv sr kind can_read_key rq u page h = Some (Inr page', h')"
    and x: "x \<in> set (pg_items page')"
  shows "may_read sv rq u db t (it_key x) = Inr True \<and>
    (may_access sv u db (it_workspace x) \<or> may_access sv u db (workspace_of sr kind (it_key x)))"
proof -
  let ?ws = "\<lambda>x. workspace_of sr kind (it_key x)"
  let ?chk = "\<lambda>x. both (can_read_key (it_key x)) (can_access_workspace sv u (it_workspace x))"
  from run obtain xs h1 ys h2 zs token where
    1: "remove_failing (can_read_key \<circ> it_key) (pg_items page) (pg_items page) h = (Inr xs, h1)" and
    2: "(if MLFLOW_ENABLE_WORKSPACES (sv_config sv)
         then remove_failing (\<lambda>x. can_access_workspace sv u (?ws x)) xs xs else act_return xs) h1 = (Inr ys, h2)" and
    3: "refetch (sr_search sr kind rq) (sr_parse_start_offset sr) (sr_create_page_token sr)
         (sr_max_results sr kind rq) ?chk ys (pg_token page) h2 = Some (Inr (zs, token), h')" and
    4: "pg_items page' = zs"
    by (auto simp: filter_search_def split: prod.splits sum.splits option.splits)
  from keys.remove_failing_filter [OF inv 1] have xs: "xs = filter keys.accepted (pg_items page)"
    and inv1: "reader_inv sv rq u db h1" by simp_all
  have ys: "set ys \<subseteq> set xs \<and> (\<forall>y \<in> set ys. may_access sv u db (?ws y)) \<and> reader_inv sv rq u db h2"
  proof (cases "MLFLOW_ENABLE_WORKSPACES (sv_config sv)")
    case True
    with 2 access.remove_failing_filter [OF inv1, of ?ws xs ys h2] show ?thesis
      by (auto simp: access.accepted_def)
  next
    case False
    with 2 inv1 show ?thesis by (auto simp: may_access_def)
  qed
  show ?thesis
  proof (cases "x \<in> set ys")
    case True
    with ys xs show ?thesis by (auto simp: accepted_items)
  next
    case False
    with items.refetch_accepted [OF 3] ys x 4 have "items.accepted x" by auto
    then show ?thesis by (simp add: accepted_items)
  qed
qed

text \<open>
  Over one list of all items, in pages of \<^verbatim>\<open>max_results\<close>: the loop ends, and the answer
  holds the readable items of a prefix of the list, a full page of them or all of them.
\<close>

lemma filter_search_complete:
  assumes inv: "reader_inv sv rq u db h"
    and tokens: "\<And>n. sr_parse_start_offset sr (sr_create_page_token sr n) = Inr n"
      "\<And>n. sr_create_page_token sr n \<noteq> ''''"
    and pages: "\<And>n. sr_search sr kind rq (sr_create_page_token sr n) =
        Inr (take (sr_max_results sr kind rq) (drop n all))"
    and ws: "\<And>x. x \<in> set all \<Longrightarrow> workspace_of sr kind (it_key x) = it_workspace x"
    and dec: "\<And>x. x \<in> set all \<Longrightarrow> \<exists>b. may_read sv rq u db t (it_key x) = Inr b"
    and first: "pg_items page = take (sr_max_results sr kind rq) all"
      "pg_token page = (if sr_max_results sr kind rq < length all
         then sr_create_page_token sr (sr_max_results sr kind rq) else '''')"
  shows "\<exists>n token h'. filter_search sv sr kind can_read_key rq u page h =
      Some (Inr (page\<lparr>pg_items := filter items.accepted (take n all), pg_token := token\<rparr>), h') \<and>
    (token = sr_create_page_token sr n \<and> length (filter items.accepted (take n all)) = sr_max_results sr kind rq \<or>
     token = '''' \<and> length all \<le> n)"
proof -
  let ?m = "sr_max_results sr kind rq"
  let ?ws = "\<lambda>x. workspace_of sr kind (it_key x)"
  have kdec: "keys.decided (take ?m all)" using dec by (auto simp: keys.decided_def dest!: in_set_takeD)
  then obtain xs h1 where 1: "remove_failing (can_read_key \<circ> it_key) (take ?m all) (take ?m all) h = (Inr xs, h1)"
    using keys.remove_failing_total [OF inv] by blast
  from keys.remove_failing_filter [OF inv 1] have xs: "xs = filter keys.accepted (take ?m all)"
    and inv1: "reader_inv sv rq u db h1" by simp_all
  have sub: "set xs \<subseteq> set all" using xs by (auto dest: in_set_takeD)
  let ?second = "if MLFLOW_ENABLE_WORKSPACES (sv_config sv)
         then remove_failing (\<lambda>x. can_access_workspace sv u (?ws x)) xs xs else act_return xs"
  obtain ys h2 where 2: "?second h1 = (Inr ys, h2)" and inv2: "reader_inv sv rq u db h2"
    and ys: "ys = filter (\<lambda>x. may_access sv u db (it_workspace x)) xs"
  proof (cases "MLFLOW_ENABLE_WORKSPACES (sv_config sv)")
    case True
    have "access.decided sv u db ?ws xs" by (simp add: access.decided_def)
    from access.remove_failing_total [OF inv1 this] obtain ys h2 where
      r: "remove_failing (\<lambda>x. can_access_workspace sv u (?ws x)) xs xs h1 = (Inr ys, h2)" by blast
    from access.remove_failing_filter [OF inv1 r]
    have "ys = filter (\<lambda>x. may_access sv u db (?ws x)) xs" "reader_inv sv rq u db h2"
      by (simp_all add: access.accepted_def [abs_def])
    moreover have "filter (\<lambda>x. may_access sv u db (?ws x)) xs = filter (\<lambda>x. may_access sv u db (it_workspace x)) xs"
      using ws sub by (intro filter_cong) auto
    ultimately show thesis using that r True by simp
  next
    case False
    then have "filter (\<lambda>x. may_access sv u db (it_workspace x)) xs = xs"
      by (auto simp: filter_id_conv may_access_def)
    with False that inv1 show thesis by simp
  qed
  have ys': "ys = filter items.accepted (take ?m all)"
    unfolding ys xs filter_filter by (rule filter_cong) (auto simp: accepted_items)
  have room: "length ys \<le> ?m" unfolding ys' by (rule order_trans [OF length_filter_le]) simp
  have run: "filter_search sv sr kind can_read_key rq u page h = Some (Inr (page\<lparr>pg_items := zs, pg_token := token\<rparr>), h')"
    if "refetch (sr_search sr kind rq) (sr_parse_start_offset sr) (sr_create_page_token sr) ?m
        (\<lambda>x. both (can_read_key (it_key x)) (can_access_workspace sv u (it_workspace x))) ys (pg_token page) h2 =
        Some (Inr (zs, token), h')" for zs token h'
    unfolding filter_search_def first(1) 1 prod.case sum.case 2 that by simp
  show ?thesis
  proof (cases "?m < length all")
    case False
    then have token: "pg_token page = ''''" using first(2) by simp
    have "refetch (sr_search sr kind rq) (sr_parse_start_offset sr) (sr_create_page_token sr) ?m
        (\<lambda>x. both (can_read_key (it_key x)) (can_access_workspace sv u (it_workspace x))) ys (pg_token page) h2 =
        Some (Inr (ys, ''''), h2)" by (subst refetch.simps) (simp add: token)
    from run [OF this] False show ?thesis
      by (intro exI [of _ ?m] exI [of _ "''''"] exI [of _ h2]) (simp add: ys')
  next
    case True
    then have token: "pg_token page = sr_create_page_token sr ?m" using first(2) by simp
    have "\<exists>b. bind_result (may_read sv rq u db t (it_key x)) (\<lambda>b. Inr (b \<and> may_access sv u db (it_workspace x))) = Inr b"
      if "x \<in> set all" for x using dec [OF that] by auto
    then have idec: "items.decided all" by (simp add: items.decided_def)
    from items.refetch_complete [OF tokens pages idec inv2 room, of ?m] obtain k tok h3 where
      k: "?m \<le> k" and loop: "refetch (sr_search sr kind rq) (sr_parse_start_offset sr) (sr_create_page_token sr) ?m
        (\<lambda>x. both (can_read_key (it_key x)) (can_access_workspace sv u (it_workspace x))) ys (pg_token page) h2 =
        Some (Inr (ys @ filter items.accepted (take (k - ?m) (drop ?m all)), tok), h3)" and
      fin: "tok = sr_create_page_token sr k \<and>
        length (ys @ filter items.accepted (take (k - ?m) (drop ?m all))) = ?m \<or> tok = '''' \<and> length all \<le> k"
      unfolding token by blast
    have whole: "ys @ filter items.accepted (take (k - ?m) (drop ?m all)) = filter items.accepted (take k all)"
      using take_add [of ?m "k - ?m" all] k by (simp add: ys')
    show ?thesis
      by (rule exI, rule exI, rule exI, rule conjI [OF run [OF loop, unfolded whole] fin [unfolded whole]])
  qed
qed

end

text \<open>The checks of the plugin, one for each kind.\<close>

interpretation experiment_reader: key_reader sv rq u db "''exp''" EXPERIMENT "cached_can_read_experiment sv rq u"
  for sv rq u db
  by unfold_locales (simp_all add: memo_kinds_def cached_can_read_experiment_def gateway_check_def read_action_def
      can_read_experiment_def effective_experiment_permission_def)

interpretation model_reader: key_reader sv rq u db "''rm''" REGISTERED_MODEL "cached_can_read_registered_model sv rq u"
  for sv rq u db
  by unfold_locales (simp_all add: memo_kinds_def cached_can_read_registered_model_def gateway_check_def
      read_action_def can_read_registered_model_def effective_registered_model_permission_def)

interpretation endpoint_reader: key_reader sv rq u db "''gw_ep''" GATEWAY_ENDPOINT
    "cached_can_read_gateway_endpoint sv rq u"
  for sv rq u db
  by unfold_locales (simp_all add: memo_kinds_def cached_can_read_gateway_endpoint_def gateway_check_def
      read_action_def can_read_gateway_endpoint_def effective_gateway_endpoint_permission_def)

interpretation secret_reader: key_reader sv rq u db "''gw_secret''" GATEWAY_SECRET
    "cached_can_read_gateway_secret sv rq u"
  for sv rq u db
  by unfold_locales (simp_all add: memo_kinds_def cached_can_read_gateway_secret_def gateway_check_def
      read_action_def can_read_gateway_secret_def effective_gateway_secret_permission_def)

interpretation model_definition_reader: key_reader sv rq u db "''gw_md''" GATEWAY_MODEL_DEFINITION
    "cached_can_read_gateway_model_definition sv rq u"
  for sv rq u db
  by unfold_locales (simp_all add: memo_kinds_def cached_can_read_gateway_model_definition_def gateway_check_def
      read_action_def can_read_gateway_model_definition_def effective_gateway_model_definition_permission_def)

end
