(* ===== verification/StoreInvariant.thy ===== *)
theory StoreInvariant
  imports Store
begin

text \<open>
  Every operation of the store, whether it returns or raises, leaves a well-formed database
  well-formed: the rules say how an action is built up, and one lemma per group of operations
  applies them.
\<close>

section \<open>Every operation keeps the database well-formed\<close>

definition keeps :: "('s \<Rightarrow> bool) \<Rightarrow> ('a, 's) action \<Rightarrow> bool" where
  "keeps I m \<longleftrightarrow> (\<forall>s. I s \<longrightarrow> I (snd (m s)))"

lemma keepsD: "keeps I m \<Longrightarrow> I s \<Longrightarrow> m s = (r, s') \<Longrightarrow> I s'"
  unfolding keeps_def by (metis snd_conv)

named_theorems keeps_intros \<open>how an action is built up keeps an invariant\<close>

lemma keeps_commit [keeps_intros]:
  "(\<And>s s'. I s \<Longrightarrow> f s = Inr s' \<Longrightarrow> I s') \<Longrightarrow> keeps I (act_commit f)"
  by (auto simp: keeps_def act_commit_def split: sum.split)

lemma keeps_call [keeps_intros]:
  "(\<And>s x s'. I s \<Longrightarrow> f s = Inr (x, s') \<Longrightarrow> I s') \<Longrightarrow> keeps I (call f)"
  unfolding call_def by (rule keeps_commit) (auto simp: result_state_Inr)

lemma keeps_call_total [keeps_intros]: "(\<And>s. I s \<Longrightarrow> I (f s)) \<Longrightarrow> keeps I (call_total f)"
  unfolding call_total_def by (rule keeps_commit) auto

lemma keeps_with_method [keeps_intros]:
  "(c \<in> set cs \<Longrightarrow> keeps I m) \<Longrightarrow> keeps I (with_method cs c m)"
  by (auto simp: keeps_def with_method_def)

lemma keeps_bind [keeps_intros]:
  "keeps I m \<Longrightarrow> (\<And>x. keeps I (f x)) \<Longrightarrow> keeps I (act_bind m f)"
  by (fastforce simp: keeps_def act_bind_def split: prod.split sum.split)

text \<open>The invariant of the store: the constraints of the schema, and no direct resource
  permission on a workspace, for which there is no table.\<close>

definition store_inv :: "db \<Rightarrow> bool" where
  "store_inv db \<longleftrightarrow> db_wf db \<and> no_workspace_rows db"

lemma store_inv_wf: "store_inv db \<Longrightarrow> db_wf db"
  by (simp add: store_inv_def)

lemma store_invI:
  assumes "store_inv db" and "db_wf db'"
    and "db_user_perms db' Workspace = db_user_perms db Workspace"
    and "db_group_perms db' Workspace = db_group_perms db Workspace"
  shows "store_inv db'"
  using assms by (simp add: store_inv_def no_workspace_rows_def)

lemma direct_not_workspace: "c \<in> set direct_classes \<Longrightarrow> c \<noteq> Workspace"
  "c \<in> set gateway_classes \<Longrightarrow> c \<noteq> Workspace"
  by (auto simp: direct_classes_def gateway_classes_def)

lemma user_grant_inv:
  assumes "c \<noteq> Workspace" and "store_inv db" and "user_grant_permission c db k n p = Inr (e, db')"
  shows "store_inv db'"
  using assms(1) user_grant_permission_wf [OF store_inv_wf [OF assms(2)] assms(3)]
  by (intro store_invI [OF assms(2)]; use assms(3) in \<open>auto elim!: user_grant_permission_Inr\<close>)

lemma user_update_inv:
  assumes "c \<noteq> Workspace" and "store_inv db" and "user_update_permission c db k n p = Inr (e, db')"
  shows "store_inv db'"
  using assms(1,3) user_update_permission_wf [OF store_inv_wf [OF assms(2)] assms(3)]
  by (intro store_invI [OF assms(2)]) (auto simp: user_update_permission_def Let_def)

lemma user_revoke_inv:
  assumes "c \<noteq> Workspace" and "store_inv db" and "user_revoke_permission c db k n = Inr db'"
  shows "store_inv db'"
  using assms(1,3) user_revoke_permission_wf [OF store_inv_wf [OF assms(2)] assms(3)]
  by (intro store_invI [OF assms(2)]) (auto simp: user_revoke_permission_def Let_def)

lemma user_rename_inv:
  assumes "c \<noteq> Workspace" and "store_inv db" and "user_rename c db a b = Inr db'"
  shows "store_inv db'"
  using assms(1,3) user_rename_wf [OF store_inv_wf [OF assms(2)] assms(3)]
  by (intro store_invI [OF assms(2)]) (auto simp: user_rename_def)

lemma user_wipe_inv:
  assumes "c \<noteq> Workspace" and "store_inv db"
  shows "store_inv (user_wipe c db i)"
  using assms(1) user_wipe_wf [OF store_inv_wf [OF assms(2)]]
  by (intro store_invI [OF assms(2)]) (auto simp: user_wipe_def)

lemma group_update_inv:
  assumes "c \<noteq> Workspace" and "store_inv db" and "group_update_permission c db g k p = Inr (e, db')"
  shows "store_inv db'"
  using assms(1,3) group_update_permission_wf [OF store_inv_wf [OF assms(2)] assms(3)]
  by (intro store_invI [OF assms(2)]) (auto simp: group_update_permission_def Let_def)

lemma group_revoke_inv:
  assumes "c \<noteq> Workspace" and "store_inv db" and "group_revoke_permission c db g k = Inr db'"
  shows "store_inv db'"
  using assms(1,3) group_revoke_permission_wf [OF store_inv_wf [OF assms(2)] assms(3)]
  by (intro store_invI [OF assms(2)]) (auto simp: group_revoke_permission_def Let_def)

lemma add_group_perm_row_inv:
  assumes "c \<noteq> Workspace" and "store_inv db" and "add_group_perm_row c db k i p b = Inr (e, db')"
    and "i \<in> group_ids db"
  shows "store_inv db'"
  using assms(1,3) add_group_perm_row_wf [OF store_inv_wf [OF assms(2)] assms(4,3)]
  by (intro store_invI [OF assms(2)]) (auto simp: add_group_perm_row_def Let_def)

lemma group_rename_inv:
  assumes "c \<noteq> Workspace" and "store_inv db" and "group_rename c db a b = Inr db'"
  shows "store_inv db'"
  using assms(1,3) group_rename_wf [OF store_inv_wf [OF assms(2)] assms(3)]
  by (intro store_invI [OF assms(2)]) (auto simp: group_rename_def)

lemma group_wipe_inv:
  assumes "c \<noteq> Workspace" and "store_inv db"
  shows "store_inv (group_wipe c db i)"
  using assms(1) group_wipe_wf [OF store_inv_wf [OF assms(2)]]
  by (intro store_invI [OF assms(2)]) (auto simp: group_wipe_def)

lemma delete_scorer_permissions_for_scorer_inv:
  assumes "store_inv db"
  shows "store_inv (delete_scorer_permissions_for_scorer db e s)"
proof -
  note wf = store_inv_wf [OF assms]
  let ?db1 = "db\<lparr>db_user_perms := (db_user_perms db)
          (Scorer := delete_rows (\<lambda>r. up_key r = ScorerKey e s) (db_user_perms db Scorer))\<rparr>"
  have "db_wf ?db1"
    using db_wf_refs(3) [OF wf] by (intro db_wf_set_user_perms table_ok_delete db_wf_keys(4) wf) auto
  from group_delete_wf [OF this, of Scorer "\<lambda>r. gp_key r = ScorerKey e s"]
  have "db_wf (delete_scorer_permissions_for_scorer db e s)"
    by (simp add: delete_scorer_permissions_for_scorer_def)
  then show ?thesis
    by (rule store_invI [OF assms]) (simp_all add: delete_scorer_permissions_for_scorer_def)
qed

lemma keeps_with_method_iff [simp]:
  "keeps I (with_method cs c m) \<longleftrightarrow> (c \<in> set cs \<longrightarrow> keeps I m)"
  by (auto simp: keeps_def with_method_def)

lemma keeps_user_perms:
  assumes "c \<noteq> Workspace"
  shows "keeps store_inv (call (\<lambda>db. user_grant_permission c db k n p))"
    and "keeps store_inv (call (\<lambda>db. user_update_permission c db k n p))"
    and "keeps store_inv (act_commit (\<lambda>db. user_revoke_permission c db k n))"
    and "keeps store_inv (act_commit (\<lambda>db. user_rename c db x y))"
    and "keeps store_inv (call_total (\<lambda>db. user_wipe c db i))"
     apply (rule keeps_call, erule (1) user_grant_inv [OF assms])
    apply (rule keeps_call, erule (1) user_update_inv [OF assms])
   apply (rule keeps_commit, erule (1) user_revoke_inv [OF assms])
  apply (rule keeps_commit, erule (1) user_rename_inv [OF assms])
  apply (rule keeps_call_total, erule user_wipe_inv [OF assms])
  done

lemma keeps_group_perms:
  assumes "c \<noteq> Workspace"
  shows "keeps store_inv (call (\<lambda>db. group_update_permission c db g k p))"
    and "keeps store_inv (act_commit (\<lambda>db. group_revoke_permission c db g k))"
    and "keeps store_inv (act_commit (\<lambda>db. group_rename c db x y))"
    and "keeps store_inv (call_total (\<lambda>db. group_wipe c db i))"
    apply (rule keeps_call, erule (1) group_update_inv [OF assms])
   apply (rule keeps_commit, erule (1) group_revoke_inv [OF assms])
  apply (rule keeps_commit, erule (1) group_rename_inv [OF assms])
  apply (rule keeps_call_total, erule group_wipe_inv [OF assms])
  done

lemma keeps_registered_model_rename:
  "keeps store_inv (act_commit (\<lambda>db. registered_model_rename db x y))"
  "keeps store_inv (act_commit (\<lambda>db. registered_model_group_rename db x y))"
proof -
  show "keeps store_inv (act_commit (\<lambda>db. registered_model_rename db x y))"
    by (rule keeps_commit)
       (auto simp: registered_model_rename_def split: if_splits
         intro: user_rename_inv [of RegisteredModel, simplified])
  show "keeps store_inv (act_commit (\<lambda>db. registered_model_group_rename db x y))"
    by (rule keeps_commit)
       (auto simp: registered_model_group_rename_def split: if_splits
         intro: group_rename_inv [of RegisteredModel, simplified])
qed

lemma keeps_delete_scorer:
  "keeps store_inv (call_total (\<lambda>db. delete_scorer_permissions_for_scorer db e s))"
  by (rule keeps_call_total) (rule delete_scorer_permissions_for_scorer_inv)

lemma run_user_perm_inv: "keeps store_inv (run_user_perm op)"
  by (cases op)
     (simp_all add: direct_not_workspace keeps_user_perms keeps_group_perms keeps_bind
        keeps_registered_model_rename keeps_delete_scorer scorer_grant_permission_def
        scorer_update_permission_def scorer_revoke_permission_def wipe_experiment_permissions_def
        wipe_gateway_permissions_def rename_gateway_endpoint_permissions_def)

lemma group_grant_inv:
  assumes "store_inv db" and "group_grant_permission c db g k p = Inr (e, db')" and "c \<noteq> Workspace"
  shows "store_inv db'"
proof -
  from assms(2) obtain h where "get_group db g = Inr h"
    and "add_group_perm_row c db k (g_id h) p False = Inr (e, db')"
    by (auto simp: group_grant_permission_def)
  then show ?thesis using add_group_perm_row_inv [OF assms(3,1)] get_group_id by blast
qed

lemma grant_prompt_inv:
  assumes "store_inv db" and "grant_prompt_permission_to_group db g i p = Inr (e, db')"
  shows "store_inv db'"
proof -
  from assms(2) obtain h where "get_group db g = Inr h"
    and "add_group_perm_row RegisteredModel db (ResourceId i) (g_id h) p True = Inr (e, db')"
    by (auto simp: grant_prompt_permission_to_group_def)
  then show ?thesis using add_group_perm_row_inv [OF _ assms(1)] get_group_id by blast
qed

lemma scorer_group_grant_inv:
  assumes "store_inv db" and "scorer_group_grant_permission db g ex s p = Inr (e, db')"
  shows "store_inv db'"
proof -
  from assms(2) obtain h where "get_group db g = Inr h"
    and "add_group_perm_row Scorer db (ScorerKey ex s) (g_id h) p False = Inr (e, db')"
    by (auto simp: scorer_group_grant_permission_def)
  then show ?thesis using add_group_perm_row_inv [OF _ assms(1)] get_group_id by blast
qed

lemma update_prompt_inv:
  assumes "store_inv db" and "update_prompt_permission_for_group db g i p = Inr (e, db')"
  shows "store_inv db'"
  using assms(2) update_prompt_permission_for_group_wf [OF store_inv_wf [OF assms(1)] assms(2)]
  by (intro store_invI [OF assms(1)]) (auto simp: update_prompt_permission_for_group_def Let_def)

lemma revoke_prompt_inv:
  assumes "store_inv db" and "revoke_prompt_permission_from_group db g i = Inr db'"
  shows "store_inv db'"
  using assms(2) revoke_prompt_permission_from_group_wf [OF store_inv_wf [OF assms(1)] assms(2)]
  by (intro store_invI [OF assms(1)]) (auto simp: revoke_prompt_permission_from_group_def)

lemma keeps_group_grants:
  "c \<noteq> Workspace \<Longrightarrow> keeps store_inv (call (\<lambda>db. group_grant_permission c db g k p))"
  "keeps store_inv (call (\<lambda>db. grant_prompt_permission_to_group db g i p))"
  "keeps store_inv (call (\<lambda>db. scorer_group_grant_permission db g e s p))"
  "keeps store_inv (call (\<lambda>db. update_prompt_permission_for_group db g i p))"
  "keeps store_inv (act_commit (\<lambda>db. revoke_prompt_permission_from_group db g i))"
      apply (rule keeps_call, erule (2) group_grant_inv)
     apply (rule keeps_call, erule (1) grant_prompt_inv)
    apply (rule keeps_call, erule (1) scorer_group_grant_inv)
   apply (rule keeps_call, erule (1) update_prompt_inv)
  apply (rule keeps_commit, erule (1) revoke_prompt_inv)
  done

lemma run_group_perm_inv: "keeps store_inv (run_group_perm op)"
  by (cases op)
     (simp_all add: direct_not_workspace keeps_group_perms keeps_group_grants
        keeps_registered_model_rename scorer_group_update_permission_def
        scorer_group_revoke_permission_def)

text \<open>Patterns live in tables of their own.\<close>

lemma regex_inv:
  assumes "store_inv db" and "db_wf db'"
    and "db_user_perms db' = db_user_perms db" and "db_group_perms db' = db_group_perms db"
  shows "store_inv db'"
  using assms by (intro store_invI [OF assms(1)]) simp_all

lemmas regex_op_defs = regex_grant_def regex_update_def regex_revoke_def gateway_regex_update_def
  scorer_regex_update_def scorer_regex_revoke_def registered_model_regex_grant_def
  registered_model_regex_update_def registered_model_regex_revoke_def add_regex_row_def
  set_regex_row_def delete_regex_row_def group_regex_grant_def group_regex_update_def
  group_regex_revoke_def registered_model_group_regex_grant_def
  registered_model_group_regex_update_def registered_model_group_regex_revoke_def
  add_group_regex_row_def set_group_regex_row_def delete_group_regex_row_def

lemma keeps_user_regex:
  "keeps store_inv (call (\<lambda>db. regex_grant rc c db rx prio p n))"
  "keeps store_inv (call (\<lambda>db. regex_update rc c db rx prio p n i))"
  "keeps store_inv (call (\<lambda>db. gateway_regex_update rc c db i rx prio p n))"
  "keeps store_inv (act_commit (\<lambda>db. regex_revoke c db n i))"
  "keeps store_inv (call (\<lambda>db. registered_model_regex_grant rc db rx prio p n b))"
  "keeps store_inv (call (\<lambda>db. registered_model_regex_update rc db i rx prio p n b))"
  "keeps store_inv (act_commit (\<lambda>db. registered_model_regex_revoke db i n b))"
        apply (rule keeps_call, rule regex_inv, assumption, erule (1) regex_grant_wf [OF store_inv_wf];
          auto simp: regex_op_defs Let_def)
       apply (rule keeps_call, rule regex_inv, assumption, erule (1) regex_update_wf [OF store_inv_wf];
          auto simp: regex_op_defs Let_def)
      apply (rule keeps_call, rule regex_inv, assumption, erule (1) gateway_regex_update_wf [OF store_inv_wf];
          auto simp: regex_op_defs Let_def)
     apply (rule keeps_commit, rule regex_inv, assumption, erule (1) regex_revoke_wf [OF store_inv_wf];
          auto simp: regex_op_defs Let_def)
    apply (rule keeps_call, rule regex_inv, assumption,
          erule (1) registered_model_regex_grant_wf [OF store_inv_wf]; auto simp: regex_op_defs Let_def)
   apply (rule keeps_call, rule regex_inv, assumption,
          erule (1) registered_model_regex_update_wf [OF store_inv_wf]; auto simp: regex_op_defs Let_def)
  apply (rule keeps_commit, rule regex_inv, assumption,
          erule (1) registered_model_regex_revoke_wf [OF store_inv_wf]; auto simp: regex_op_defs Let_def)
  done

lemma keeps_group_regex:
  "keeps store_inv (call (\<lambda>db. group_regex_grant rc c db g rx prio p))"
  "keeps store_inv (call (\<lambda>db. group_regex_update rc c db i g rx prio p))"
  "keeps store_inv (act_commit (\<lambda>db. group_regex_revoke c db g i))"
  "keeps store_inv (call (\<lambda>db. registered_model_group_regex_grant db g rx p prio b))"
  "keeps store_inv (call (\<lambda>db. registered_model_group_regex_update db i rx g p prio b))"
  "keeps store_inv (act_commit (\<lambda>db. registered_model_group_regex_revoke db i g b))"
       apply (rule keeps_call, rule regex_inv, assumption, erule (1) group_regex_grant_wf [OF store_inv_wf];
          auto simp: regex_op_defs Let_def)
      apply (rule keeps_call, rule regex_inv, assumption, erule (1) group_regex_update_wf [OF store_inv_wf];
          auto simp: regex_op_defs Let_def)
     apply (rule keeps_commit, rule regex_inv, assumption, erule (1) group_regex_revoke_wf [OF store_inv_wf];
          auto simp: regex_op_defs Let_def)
    apply (rule keeps_call, rule regex_inv, assumption,
          erule (1) registered_model_group_regex_grant_wf [OF store_inv_wf]; auto simp: regex_op_defs Let_def)
   apply (rule keeps_call, rule regex_inv, assumption,
          erule (1) registered_model_group_regex_update_wf [OF store_inv_wf]; auto simp: regex_op_defs Let_def)
  apply (rule keeps_commit, rule regex_inv, assumption,
          erule (1) registered_model_group_regex_revoke_wf [OF store_inv_wf]; auto simp: regex_op_defs Let_def)
  done

lemma keeps_if: "keeps I (act_commit (\<lambda>s. if b then f s else g s)) \<longleftrightarrow>
    (if b then keeps I (act_commit f) else keeps I (act_commit g))"
  "keeps I (call (\<lambda>s. if b then f' s else g' s)) \<longleftrightarrow>
    (if b then keeps I (call f') else keeps I (call g'))"
  by simp_all

lemma keeps_delete_group_gateway:
  "keeps store_inv (act_commit (\<lambda>db. delete_group_gateway_regex_permission se c db i g))"
proof (cases "se_int_as_text se i")
  case (Inl e)
  then show ?thesis by (auto simp: delete_group_gateway_regex_permission_def intro: keeps_commit)
next
  case (Inr str)
  then show ?thesis by (simp add: delete_group_gateway_regex_permission_def keeps_group_regex)
qed

lemma run_regex_inv: "keeps store_inv (run_regex se op)"
  by (cases op)
     (simp_all add: keeps_user_regex keeps_group_regex keeps_if keeps_delete_group_gateway
        scorer_regex_update_def scorer_regex_revoke_def)

text \<open>Accounts.\<close>

lemma add_group_row_wf:
  assumes "db_wf db" and "add_group_row db g = Inr db'"
  shows "db_wf db'"
proof -
  let ?r = "\<lparr>g_id = db_new_id db (map g_id (db_groups db)), g_name = g\<rparr>"
  from assms(2) have n: "g \<notin> g_name ` set (db_groups db)"
    and d: "db' = db\<lparr>db_groups := db_groups db @ [?r]\<rparr>"
    by (auto simp: add_group_row_def insert_row_Inr)
  have "table_ok g_id g_name (db_groups db @ [?r])"
    using n fresh_keys_new_id [OF assms(1), of g_id "db_groups db"]
    by (intro table_ok_append db_wf_keys(2) [OF assms(1)]) simp_all
  then show ?thesis unfolding d by (intro db_wf_set_groups assms(1)) (auto simp: group_ids_def)
qed

lemma add_group_row_inv:
  assumes "store_inv db" and "add_group_row db g = Inr db'"
  shows "store_inv db'"
  using assms(2) add_group_row_wf [OF store_inv_wf [OF assms(1)] assms(2)]
  by (intro store_invI [OF assms(1)]) (auto simp: add_group_row_def)

lemma create_groups_loop_inv:
  "store_inv db \<Longrightarrow> create_groups_loop db gs = Inr db' \<Longrightarrow> store_inv db'"
proof (induction db gs rule: create_groups_loop.induct)
  case (2 db g gs)
  then show ?case by (auto split: option.splits intro: add_group_row_inv)
qed simp

lemma set_groups_loop_frame:
  "set_groups_loop db u gs = Inr db' \<Longrightarrow>
   db_user_perms db' = db_user_perms db \<and> db_group_perms db' = db_group_perms db"
proof (induction db u gs rule: set_groups_loop.induct)
  case (2 db u g gs)
  then show ?case by (fastforce simp: add_user_group_row_def)
qed simp

lemma membership_inv:
  "store_inv db \<Longrightarrow> add_user_to_group db n g = Inr db' \<Longrightarrow> store_inv db'"
  "store_inv db \<Longrightarrow> remove_user_from_group db n g = Inr db' \<Longrightarrow> store_inv db'"
  "store_inv db \<Longrightarrow> set_groups_for_user db n gs = Inr db' \<Longrightarrow> store_inv db'"
    apply (rule regex_inv, assumption, erule (1) add_user_to_group_wf [OF store_inv_wf];
      auto simp: add_user_to_group_def add_user_group_row_def)
   apply (rule regex_inv, assumption, erule (1) remove_user_from_group_wf [OF store_inv_wf];
      auto simp: remove_user_from_group_def)
  apply (rule regex_inv, assumption, erule (1) set_groups_for_user_wf [OF store_inv_wf];
      auto simp: set_groups_for_user_def dest: set_groups_loop_frame)
  done

lemma user_row_inv:
  "store_inv db \<Longrightarrow> user_create vu gh db n pw dn adm svc = Inr (e, db') \<Longrightarrow> store_inv db'"
  "store_inv db \<Longrightarrow> user_update gh db n pw' ex adm' svc' = Inr (e, db') \<Longrightarrow> store_inv db'"
  "store_inv db \<Longrightarrow> user_rename_username vu db n m = Inr (e, db') \<Longrightarrow> store_inv db'"
  "store_inv db \<Longrightarrow> update_displayname db n dn = Inr (e, db') \<Longrightarrow> store_inv db'"
     apply (rule regex_inv, assumption, erule (1) user_create_wf [OF store_inv_wf];
      auto simp: user_create_def Let_def split: if_splits)
    apply (rule regex_inv, assumption, erule (1) user_update_wf [OF store_inv_wf];
      auto simp: user_update_def elim!: set_user_row_Inr)
   apply (rule regex_inv, assumption, erule (1) user_rename_username_wf [OF store_inv_wf];
      auto simp: user_rename_username_def elim!: set_user_row_Inr split: if_splits)
  apply (rule regex_inv, assumption, erule (1) update_displayname_wf [OF store_inv_wf];
      auto simp: update_displayname_def elim!: set_user_row_Inr)
  done

lemma user_delete_inv:
  assumes "store_inv db" and "user_delete db n = Inr db'"
  shows "store_inv db'"
proof (rule store_invI [OF assms(1)])
  show "db_wf db'" using user_delete_wf [OF _ _ assms(2)] assms(1) by (simp add: store_inv_def)
  show "db_user_perms db' Workspace = db_user_perms db Workspace"
    and "db_group_perms db' Workspace = db_group_perms db Workspace"
    using assms(2) by (auto simp: user_delete_def Let_def delete_user_perm_rows_def
        delete_user_regex_rows_def)
qed

lemma run_account_inv: "keeps store_inv (run_account se op)"
  by (cases op)
     (simp_all, (rule keeps_intros; auto simp: create_groups_def
        intro: create_groups_loop_inv membership_inv user_row_inv user_delete_inv)+)

text \<open>Workspaces and quotas.\<close>

lemma run_workspace_inv: "keeps store_inv (run_workspace op)"
proof (cases op)
  case (CreateWorkspacePermission w n p)
  show ?thesis
    unfolding CreateWorkspacePermission run_workspace.simps
    by (rule keeps_call, rule regex_inv, assumption,
        erule (1) create_workspace_permission_wf [OF store_inv_wf])
       (auto simp: create_workspace_permission_def ws_create_def Let_def)
next
  case (UpdateWorkspacePermission w n p)
  show ?thesis
    unfolding UpdateWorkspacePermission run_workspace.simps
    by (rule keeps_call, rule regex_inv, assumption,
        erule (1) update_workspace_permission_wf [OF store_inv_wf])
       (auto simp: update_workspace_permission_def ws_update_def Let_def)
next
  case (DeleteWorkspacePermission w n)
  show ?thesis
    unfolding DeleteWorkspacePermission run_workspace.simps
    by (rule keeps_commit, rule regex_inv, assumption,
        erule (1) delete_workspace_permission_wf [OF store_inv_wf])
       (auto simp: delete_workspace_permission_def ws_delete_def)
next
  case (CreateWorkspaceGroupPermission w g p)
  show ?thesis
    unfolding CreateWorkspaceGroupPermission run_workspace.simps
    by (rule keeps_call, rule regex_inv, assumption,
        erule (1) create_workspace_group_permission_wf [OF store_inv_wf])
       (auto simp: create_workspace_group_permission_def wsg_create_def Let_def)
next
  case (UpdateWorkspaceGroupPermission w g p)
  show ?thesis
    unfolding UpdateWorkspaceGroupPermission run_workspace.simps
    by (rule keeps_call, rule regex_inv, assumption,
        erule (1) update_workspace_group_permission_wf [OF store_inv_wf])
       (auto simp: update_workspace_group_permission_def wsg_update_def Let_def)
next
  case (DeleteWorkspaceGroupPermission w g)
  show ?thesis
    unfolding DeleteWorkspaceGroupPermission run_workspace.simps
    by (rule keeps_commit, rule regex_inv, assumption,
        erule (1) delete_workspace_group_permission_wf [OF store_inv_wf])
       (auto simp: delete_workspace_group_permission_def wsg_delete_def)
next
  case (WipeWorkspacePermissions w)
  show ?thesis
    unfolding WipeWorkspacePermissions run_workspace.simps
    by (rule keeps_call_total, rule regex_inv, assumption,
        erule wipe_workspace_permissions_wf [OF store_inv_wf])
       (auto simp: wipe_workspace_permissions_def ws_delete_all_for_workspace_def
         wsg_delete_all_for_workspace_def)
qed

lemma quota_inv:
  assumes "store_inv db" and "db_wf db'" and "db' = db\<lparr>db_quotas := db_quotas db'\<rparr>"
  shows "store_inv db'"
proof (rule regex_inv [OF assms(1,2)])
  show "db_user_perms db' = db_user_perms db" by (subst assms(3)) simp
  show "db_group_perms db' = db_group_perms db" by (subst assms(3)) simp
qed

lemma modify_quota_inv:
  assumes "store_inv db" and "\<And>q. q_id (f q) = q_id q" and "\<And>q. q_user (f q) = q_user q"
    and "modify_quota db n f = Inr db'"
  shows "store_inv db'"
  using modify_quota_spec [OF store_inv_wf [OF assms(1)] assms(2,3), of n] assms(4)
    quota_inv [OF assms(1)] by auto

lemma set_quota_inv:
  assumes "store_inv db" and "set_quota db n b s = Inr (q, db')"
  shows "store_inv db'"
proof (cases "get_user db n")
  case (Inl e)
  with assms(2) show ?thesis by (simp add: set_quota_def)
next
  case (Inr u)
  from set_quota_spec [OF store_inv_wf [OF assms(1)] Inr, of b s] assms(2) quota_inv [OF assms(1)]
  show ?thesis by auto
qed

lemma update_email_inv:
  assumes "store_inv db" and "update_email db n e = Inr db'"
  shows "store_inv db'"
  using assms(2) update_email_wf [OF store_inv_wf [OF assms(1)] assms(2)]
  by (intro regex_inv [OF assms(1)])
     (auto simp: update_email_def add_quota_row_def set_quota_row_def Let_def result_state_Inr
        split: option.splits)

lemma delete_quota_inv:
  assumes "store_inv db" and "delete_quota db n = Inr db'"
  shows "store_inv db'"
  using assms(2) delete_quota_wf [OF store_inv_wf [OF assms(1)] assms(2)]
  by (intro regex_inv [OF assms(1)]) (auto simp: delete_quota_def split: option.splits)

lemma run_quota_inv: "keeps store_inv (run_quota se op)"
  by (cases op)
     (simp_all, (rule keeps_intros; auto simp: update_used_bytes_def increment_used_bytes_def
        set_hard_blocked_def set_soft_notified_at_def
        elim!: modify_quota_inv [rotated 3] intro: set_quota_inv update_email_inv delete_quota_inv)+)

lemma store_run_inv: "keeps store_inv (store_run se op)"
  by (cases op)
     (simp_all add: run_user_perm_inv run_group_perm_inv run_regex_inv run_account_inv
        run_workspace_inv run_quota_inv)

end
