(* ===== verification/StoreSystem.thy ===== *)
theory StoreSystem
  imports StoreInvariant
begin

text \<open>
  The store in operation: calls of its methods, permission look-ups and the loss of cache
  entries in any order. In every reachable state the database is well-formed; and when only
  the operations are used whose effects the cache flush covers, no permission is ever
  answered from an outdated entry.
\<close>

section \<open>What a resolution reads of the database\<close>

definition uid :: "db \<Rightarrow> string \<Rightarrow> nat option" where
  "uid db n = (case get_user db n of Inl _ \<Rightarrow> None | Inr u \<Rightarrow> Some (u_id u))"

definition same_view :: "db \<Rightarrow> db \<Rightarrow> bool" where
  "same_view db db' \<longleftrightarrow>
     uid db' = uid db \<and> db_groups db' = db_groups db \<and> db_user_groups db' = db_user_groups db \<and>
     db_user_perms db' = db_user_perms db \<and> db_group_perms db' = db_group_perms db \<and>
     db_regex_perms db' = db_regex_perms db \<and> db_group_regex_perms db' = db_group_regex_perms db"

lemma uid_cases:
  assumes "db_wf db"
  shows "bind_result (get_user db n) (\<lambda>u. f (u_id u)) =
    (case uid db n of None \<Rightarrow> Inl (MlflowException RESOURCE_DOES_NOT_EXIST) | Some i \<Rightarrow> f i)"
  by (cases "get_user db n") (auto simp: uid_def dest: get_user_Inl [OF assms])

lemma list_groups_for_user_uid:
  assumes "db_wf db"
  shows "list_groups_for_user db n =
    (case uid db n of
       None \<Rightarrow> Inl (MlflowException RESOURCE_DOES_NOT_EXIST)
     | Some i \<Rightarrow> Inr (map g_name (filter (\<lambda>g. g_id g \<in>
         set (map ug_group (filter (\<lambda>r. ug_user r = i) (db_user_groups db)))) (db_groups db))))"
  unfolding list_groups_for_user_def list_user_groups_def Let_def
  by (rule uid_cases [OF assms])

lemma list_group_ids_for_user_uid:
  assumes "db_wf db"
  shows "list_group_ids_for_user db n =
    (case uid db n of
       None \<Rightarrow> Inl (MlflowException RESOURCE_DOES_NOT_EXIST)
     | Some i \<Rightarrow> Inr (map ug_group (filter (\<lambda>r. ug_user r = i) (db_user_groups db))))"
  unfolding list_group_ids_for_user_def list_user_groups_def
  by (rule uid_cases [OF assms])

lemma list_regex_for_user_uid:
  assumes "db_wf db"
  shows "list_regex_for_user c db n =
    (case uid db n of
       None \<Rightarrow> Inl (MlflowException RESOURCE_DOES_NOT_EXIST)
     | Some i \<Rightarrow> Inr (map regex_perm_entity
         (sort_key rp_priority (filter (\<lambda>r. rp_user r = i) (db_regex_perms db c)))))"
  unfolding list_regex_for_user_def by (rule uid_cases [OF assms])

lemma registered_model_list_regex_for_user_uid:
  assumes "db_wf db"
  shows "registered_model_list_regex_for_user db n b =
    (case uid db n of
       None \<Rightarrow> Inl (MlflowException RESOURCE_DOES_NOT_EXIST)
     | Some i \<Rightarrow> Inr (map regex_perm_entity
         (sort_key rp_priority (filter (\<lambda>r. rp_user r = i \<and> rp_prompt r = b)
            (db_regex_perms db RegisteredModel)))))"
  unfolding registered_model_list_regex_for_user_def by (rule uid_cases [OF assms])

lemma user_perm_lookup_uid:
  "user_perm_lookup c db k n =
    (case uid db n of None \<Rightarrow> None | Some i \<Rightarrow> map_option up_permission (row_at up_unique (k, i) (db_user_perms db c)))"
  by (auto simp: user_perm_lookup_def uid_def user_perm_at_def split: sum.split)

lemma get_group_view: "db_groups db' = db_groups db \<Longrightarrow> get_group db' = get_group db"
  by (simp add: get_group_def fun_eq_iff)

lemma same_view_sources:
  assumes "db_wf db" and "db_wf db'" and "same_view db db'"
  shows "permission_of (user_get_permission c db' k n) = permission_of (user_get_permission c db k n)"
    and "group_get_permission_for_user_resource c db' k n = group_get_permission_for_user_resource c db k n"
    and "registered_model_get_for_user db' m n = registered_model_get_for_user db m n"
    and "get_group_permission_for_user_scorer db' e s n = get_group_permission_for_user_scorer db e s n"
    and "gateway_get_group_permission_for_user c db' m n = gateway_get_group_permission_for_user c db m n"
    and "list_regex_for_user c db' n = list_regex_for_user c db n"
    and "registered_model_list_regex_for_user db' n b = registered_model_list_regex_for_user db n b"
    and "list_group_ids_for_user db' n = list_group_ids_for_user db n"
    and "group_regex_list_permissions_for_groups_ids c db' gids =
         group_regex_list_permissions_for_groups_ids c db gids"
    and "registered_model_group_regex_list_permissions_for_groups_ids db' gids b =
         registered_model_group_regex_list_permissions_for_groups_ids db gids b"
proof -
  have v: "uid db' = uid db" "db_groups db' = db_groups db" "db_user_groups db' = db_user_groups db"
    "db_user_perms db' = db_user_perms db" "db_group_perms db' = db_group_perms db"
    "db_regex_perms db' = db_regex_perms db" "db_group_regex_perms db' = db_group_regex_perms db"
    using assms(3) by (simp_all add: same_view_def)
  show "permission_of (user_get_permission c db' k n) = permission_of (user_get_permission c db k n)"
    unfolding permission_of_def user_perm_lookup_get [OF assms(1)] user_perm_lookup_get [OF assms(2)]
      user_perm_lookup_uid v ..
  have groups: "list_groups_for_user db' n = list_groups_for_user db n"
    unfolding list_groups_for_user_uid [OF assms(1)] list_groups_for_user_uid [OF assms(2)] v ..
  have get: "group_get_permission_or_none c db' k = group_get_permission_or_none c db k" for c k
    unfolding group_get_permission_or_none_def v ..
  show g: "group_get_permission_for_user_resource c db' k n = group_get_permission_for_user_resource c db k n" for c k
    by (simp add: group_get_permission_for_user_resource_def group_list_user_groups_eq groups get)
  show "registered_model_get_for_user db' m n = registered_model_get_for_user db m n"
    by (simp add: registered_model_get_for_user_eq g)
  show "get_group_permission_for_user_scorer db' e s n = get_group_permission_for_user_scorer db e s n"
    by (simp add: get_group_permission_for_user_scorer_eq g)
  show "gateway_get_group_permission_for_user c db' m n = gateway_get_group_permission_for_user c db m n"
    unfolding gateway_get_group_permission_for_user_def group_get_permission_row_def
      group_perm_query_def v ..
  show "list_regex_for_user c db' n = list_regex_for_user c db n"
    unfolding list_regex_for_user_uid [OF assms(1)] list_regex_for_user_uid [OF assms(2)] v ..
  show "registered_model_list_regex_for_user db' n b = registered_model_list_regex_for_user db n b"
    unfolding registered_model_list_regex_for_user_uid [OF assms(1)]
      registered_model_list_regex_for_user_uid [OF assms(2)] v ..
  show "list_group_ids_for_user db' n = list_group_ids_for_user db n"
    unfolding list_group_ids_for_user_uid [OF assms(1)] list_group_ids_for_user_uid [OF assms(2)] v ..
  show "group_regex_list_permissions_for_groups_ids c db' gids =
         group_regex_list_permissions_for_groups_ids c db gids"
    unfolding group_regex_list_permissions_for_groups_ids_def list_group_permissions_def v ..
  show "registered_model_group_regex_list_permissions_for_groups_ids db' gids b =
         registered_model_group_regex_list_permissions_for_groups_ids db gids b"
    unfolding registered_model_group_regex_list_permissions_for_groups_ids_def
      registered_model_group_regex_rows_def v ..
qed

text \<open>With workspaces disabled the answer depends on nothing else.\<close>

lemma resolve_fresh_view:
  assumes "db_wf db" and "db_wf db'" and "same_view db db'" and "\<not> MLFLOW_ENABLE_WORKSPACES config"
  shows "resolve_fresh config env db' w t i u kw = resolve_fresh config env db w t i u kw"
proof -
  note s = same_view_sources [OF assms(1-3)]
  have reg: "(case map_of PERMISSION_REGISTRY t of None \<Rightarrow> Inl KeyError
      | Some b \<Rightarrow> b env db' i u kw) =
    (case map_of PERMISSION_REGISTRY t of None \<Rightarrow> Inl KeyError | Some b \<Rightarrow> b env db i u kw)"
    by (simp add: PERMISSION_REGISTRY_def build_experiment_sources_def
        build_registered_model_sources_def build_prompt_sources_def build_scorer_sources_def
        build_gateway_endpoint_sources_def build_gateway_secret_sources_def
        build_gateway_model_definition_sources_def gateway_sources_def scorer_get_permission_def s
        split: option.split)
  show ?thesis
    unfolding resolve_fresh_def using reg assms(4) by (cases "map_of PERMISSION_REGISTRY t") simp_all
qed

section \<open>A failed operation leaves the database as it was\<close>

definition atomic :: "('a, 's) action \<Rightarrow> bool" where
  "atomic m \<longleftrightarrow> (\<forall>s e s'. m s = (Inl e, s') \<longrightarrow> s' = s)"

lemma atomic_simps [simp]:
  "atomic (act_commit f)" "atomic (call g)" "atomic (call_total h)" "atomic (act_raise e)"
  "atomic (with_method cs c m) \<longleftrightarrow> (c \<in> set cs \<longrightarrow> atomic m)"
  by (auto simp: atomic_def act_commit_def call_def call_total_def act_raise_def with_method_def
      split: sum.splits)

lemma atomic_bind_total: "atomic m \<Longrightarrow> atomic (act_bind m (\<lambda>_. call_total h))"
  by (auto simp: atomic_def act_bind_def call_total_def act_commit_def split: prod.splits sum.splits)

text \<open>The rename of a gateway endpoint makes two commits, and the second can fail.\<close>

definition two_commits :: "store_op \<Rightarrow> bool" where
  "two_commits op = (case op of UserPermOp (RenameGatewayEndpoint a b) \<Rightarrow> True | _ \<Rightarrow> False)"

lemma store_run_atomic:
  assumes "\<not> two_commits op"
  shows "atomic (store_run se op)"
proof (cases op)
  case (UserPermOp x)
  with assms show ?thesis
    by (cases x) (simp_all add: two_commits_def wipe_experiment_permissions_def
        wipe_gateway_permissions_def atomic_bind_total)
next
  case (GroupPermOp x)
  then show ?thesis by (cases x) simp_all
next
  case (RegexOp x)
  then show ?thesis by (cases x) simp_all
next
  case (AccountOp x)
  then show ?thesis by (cases x) simp_all
next
  case (WorkspaceOp x)
  then show ?thesis by (cases x) simp_all
next
  case (QuotaOp x)
  then show ?thesis by (cases x) simp_all
qed

section \<open>Operations that resolution does not see\<close>

definition neutral :: "store_op \<Rightarrow> bool" where
  "neutral op =
     (case op of
        QuotaOp q \<Rightarrow> True
      | WorkspaceOp x \<Rightarrow> True
      | AccountOp (UpdateUser u pw ex adm svc) \<Rightarrow> True
      | AccountOp (SetDisplayname u dn) \<Rightarrow> True
      | _ \<Rightarrow> False)"

lemma uid_Some:
  assumes "db_wf db"
  shows "uid db n = Some i \<longleftrightarrow> (\<exists>u \<in> set (db_users db). u_username u = n \<and> u_id u = i)"
proof
  assume "uid db n = Some i"
  then obtain u where "get_user db n = Inr u" "u_id u = i" by (auto simp: uid_def split: sum.splits)
  then show "\<exists>u \<in> set (db_users db). u_username u = n \<and> u_id u = i"
    by (auto simp: get_user_Inr [OF assms])
next
  assume "\<exists>u \<in> set (db_users db). u_username u = n \<and> u_id u = i"
  then obtain u where "get_user db n = Inr u" "u_id u = i" by (auto simp: get_user_Inr [OF assms])
  then show "uid db n = Some i" by (simp add: uid_def)
qed

lemma set_user_row_view:
  assumes "db_wf db" and "set_user_row db user f = Inr (e, db')"
    and id: "\<And>u. u_id (f u) = u_id u" and name: "\<And>u. u_username (f u) = u_username u"
  shows "same_view db db'"
  using assms(2)
proof (rule set_user_row_Inr)
  fix rows
  assume rows: "rows = set_rows (\<lambda>u. u_id u = u_id user) f (db_users db)"
    and d: "db' = db\<lparr>db_users := rows\<rparr>"
  have wf: "db_wf db'" by (rule set_user_row_wf [OF assms(1,2) id])
  define g where "g u = (if u_id u = u_id user then f u else u)" for u
  have g: "set rows = g ` set (db_users db)" "\<And>u. u_id (g u) = u_id u"
    "\<And>u. u_username (g u) = u_username u"
    by (simp_all add: rows set_set_rows g_def id name)
  have "uid db' n = uid db n" for n
  proof (rule option_eqI)
    fix i show "uid db' n = Some i \<longleftrightarrow> uid db n = Some i"
      by (subst uid_Some [OF wf], subst uid_Some [OF assms(1)], unfold d)
         (simp add: g)
  qed
  then show ?thesis unfolding same_view_def by (simp add: d fun_eq_iff)
qed

lemma same_view_refl [simp]: "same_view db db"
  by (simp add: same_view_def)

lemma same_view_tables:
  assumes "db_users db' = db_users db" and "db_groups db' = db_groups db"
    and "db_user_groups db' = db_user_groups db" and "db_user_perms db' = db_user_perms db"
    and "db_group_perms db' = db_group_perms db" and "db_regex_perms db' = db_regex_perms db"
    and "db_group_regex_perms db' = db_group_regex_perms db"
  shows "same_view db db'"
  using assms by (simp add: same_view_def uid_def fun_eq_iff get_user_def)

lemma commit_view:
  "act_commit f db = (r, db') \<Longrightarrow> (\<And>s. f db = Inr s \<Longrightarrow> same_view db s) \<Longrightarrow> same_view db db'"
  by (auto simp: act_commit_def split: sum.splits)

lemma call_view:
  "call g db = (r, db') \<Longrightarrow> (\<And>x s. g db = Inr (x, s) \<Longrightarrow> same_view db s) \<Longrightarrow> same_view db db'"
  unfolding call_def by (erule commit_view) (auto simp: result_state_Inr)

lemma call_total_view: "call_total h db = (r, db') \<Longrightarrow> same_view db (h db) \<Longrightarrow> same_view db db'"
  unfolding call_total_def by (erule commit_view) auto

lemma quota_view: "db' = db\<lparr>db_quotas := db_quotas db'\<rparr> \<Longrightarrow> same_view db db'"
  by (rule same_view_tables; erule ssubst; simp)

lemma modify_quota_view:
  assumes "db_wf db" and "\<And>q. q_id (f q) = q_id q" and "\<And>q. q_user (f q) = q_user q"
    and "modify_quota db n f = Inr db'"
  shows "same_view db db'"
  using modify_quota_spec [OF assms(1-3), of n] assms(4) quota_view by auto

lemma set_quota_view:
  assumes "db_wf db" and "set_quota db n b s = Inr (q, db')"
  shows "same_view db db'"
proof (cases "get_user db n")
  case (Inl e)
  with assms(2) show ?thesis by (simp add: set_quota_def)
next
  case (Inr u)
  from set_quota_spec [OF assms(1) Inr, of b s] assms(2) quota_view show ?thesis by auto
qed

lemma run_quota_view:
  assumes "db_wf db" and "run_quota se op db = (r, db')"
  shows "same_view db db'"
proof (cases op)
  case (SetUserQuota u q f)
  with assms show ?thesis by (auto elim!: call_view intro: set_quota_view)
next
  case (UpdateQuotaEmail u e)
  with assms(2) show ?thesis
    by (auto elim!: commit_view intro!: same_view_tables simp: update_email_def add_quota_row_def
        set_quota_row_def Let_def result_state_Inr split: option.splits)
next
  case (DeleteUserQuota u)
  with assms(2) show ?thesis
    by (auto elim!: commit_view intro!: same_view_tables simp: delete_quota_def split: option.splits)
next
  case (UpdateQuotaUsedBytes u b)
  with assms show ?thesis
    by (auto elim!: commit_view simp: update_used_bytes_def intro: modify_quota_view [rotated 3])
next
  case (IncrementQuotaUsedBytes u b)
  with assms show ?thesis
    by (auto elim!: commit_view simp: increment_used_bytes_def intro: modify_quota_view [rotated 3])
next
  case (SetQuotaHardBlocked u b)
  with assms show ?thesis
    by (auto elim!: commit_view simp: set_hard_blocked_def intro: modify_quota_view [rotated 3])
next
  case (SetQuotaSoftNotifiedAt u v)
  with assms show ?thesis
    by (auto elim!: commit_view simp: set_soft_notified_at_def intro: modify_quota_view [rotated 3])
qed

lemma run_workspace_view:
  assumes "run_workspace op db = (r, db')"
  shows "same_view db db'"
  using assms
  by (cases op)
     (auto elim!: call_view commit_view call_total_view intro!: same_view_tables
       simp: create_workspace_permission_def ws_create_def update_workspace_permission_def ws_update_def
         delete_workspace_permission_def ws_delete_def create_workspace_group_permission_def
         wsg_create_def update_workspace_group_permission_def wsg_update_def
         delete_workspace_group_permission_def wsg_delete_def wipe_workspace_permissions_def
         ws_delete_all_for_workspace_def wsg_delete_all_for_workspace_def Let_def)

lemma set_if_some_name:
  "(\<And>x u. u_username (f x u) = u_username u) \<Longrightarrow> u_username (set_if_some x f u) = u_username u"
  by (cases x) (simp_all add: set_if_some_def)

lemma neutral_view:
  assumes "db_wf db" and "neutral op" and "store_run se op db = (r, db')"
  shows "same_view db db'"
proof (cases op)
  case (AccountOp x)
  show ?thesis
  proof (cases x)
    case (UpdateUser u pw ex adm svc)
    with AccountOp assms show ?thesis
      by (auto elim!: call_view simp: user_update_def set_if_some_id set_if_some_name
          intro: set_user_row_view [OF assms(1)])
  next
    case (SetDisplayname u dn)
    with AccountOp assms show ?thesis
      by (auto elim!: call_view simp: update_displayname_def intro: set_user_row_view [OF assms(1)])
  qed (use AccountOp assms(2) in \<open>simp_all add: neutral_def\<close>)
next
  case (WorkspaceOp x)
  with assms show ?thesis by (auto intro: run_workspace_view)
next
  case (QuotaOp x)
  with assms show ?thesis by (auto intro: run_quota_view)
qed (use assms(2) in \<open>simp_all add: neutral_def\<close>)

section \<open>The transition system\<close>

text \<open>
  \<open>allowed\<close> are the operations in use. A look-up is one call of \<^verbatim>\<open>resolve_permission\<close>, by
  a user whose name has no colon; any cache entry may go at any time.
\<close>

inductive store_step :: "auth_config \<Rightarrow> outside \<Rightarrow> store_env \<Rightarrow> (store_op \<Rightarrow> bool) \<Rightarrow>
    store_state \<Rightarrow> store_state \<Rightarrow> bool"
  for config :: auth_config and env :: outside and se :: store_env and allowed :: "store_op \<Rightarrow> bool"
where
  step_call: "allowed op \<Longrightarrow> store_call se op s = (r, s') \<Longrightarrow> store_step config env se allowed s s'"
| step_resolve: "t \<in> set resource_types \<Longrightarrow> colon_free u \<Longrightarrow>
    resolve_permission config env (st_db s) w t i u kw (st_caches s) = (r, caches) \<Longrightarrow>
    store_step config env se allowed s (s\<lparr>st_caches := caches\<rparr>)"
| step_expire: "store_step config env se allowed s
    (s\<lparr>st_caches := (st_caches s)
        \<lparr>permission_cache := local_drop f (permission_cache (st_caches s)),
          workspace_cache := local_drop g (workspace_cache (st_caches s))\<rparr>\<rparr>)"

inductive reachable :: "auth_config \<Rightarrow> outside \<Rightarrow> store_env \<Rightarrow> (store_op \<Rightarrow> bool) \<Rightarrow>
    db \<Rightarrow> store_state \<Rightarrow> bool"
  for config :: auth_config and env :: outside and se :: store_env
    and allowed :: "store_op \<Rightarrow> bool" and db0 :: db
where
  reach_init: "reachable config env se allowed db0 \<lparr>st_db = db0, st_caches = empty_caches\<rparr>"
| reach_step: "reachable config env se allowed db0 s \<Longrightarrow> store_step config env se allowed s s' \<Longrightarrow>
    reachable config env se allowed db0 s'"

inductive_cases store_stepE: "store_step config env se allowed s s'"

lemma store_call_db:
  assumes "store_call se op s = (r, s')"
  shows "store_run se op (st_db s) = (r, st_db s')"
proof -
  obtain x db where run: "store_run se op (st_db s) = (x, db)" by fastforce
  with assms show ?thesis
    by (cases x) (auto simp: store_call_def wrap_with_cache_flush_def on_db_def act_bind_def split: if_splits)
qed

lemma store_call_caches:
  assumes "store_call se op s = (r, s')"
  shows "st_caches s' =
    (if method_name op \<in> set PERMISSION_CUD_METHODS \<and> r = Inr ()
     then (st_caches s)\<lparr>permission_cache := (\<lambda>_. None)\<rparr> else st_caches s)"
proof -
  obtain x db where run: "store_run se op (st_db s) = (x, db)" by fastforce
  with assms show ?thesis
    by (cases x)
       (auto simp: store_call_def wrap_with_cache_flush_def on_db_def act_bind_def
          flush_permission_cache_def local_clear_def split: if_splits)
qed

lemma reachable_inv:
  assumes "reachable config env se allowed db0 s" and "store_inv db0"
  shows "store_inv (st_db s)"
  using assms
proof induction
  case reach_init
  then show ?case by simp
next
  case (reach_step s s')
  from reach_step.hyps(2) reach_step.IH [OF reach_step.prems] show ?case
  proof cases
    case (step_call op r)
    show ?thesis
      using keepsD [OF store_run_inv reach_step.IH [OF reach_step.prems] store_call_db [OF step_call(2)]] .
  qed simp_all
qed

section \<open>No stale permission\<close>

text \<open>
  The operations whose effect on resolution the flush covers: those of the list, but for the
  rename in two commits, and those that resolution does not see.
\<close>

definition covered :: "store_op \<Rightarrow> bool" where
  "covered op \<longleftrightarrow>
     method_name op \<in> set PERMISSION_CUD_METHODS \<and> \<not> two_commits op \<or> neutral op"

text \<open>With workspaces disabled the workspace cache stays empty.\<close>

definition coherent :: "auth_config \<Rightarrow> outside \<Rightarrow> store_state \<Rightarrow> bool" where
  "coherent config env s \<longleftrightarrow>
     workspace_cache (st_caches s) = (\<lambda>_. None) \<and>
     exact_caches config env (st_db s) None (st_caches s)"

lemma exact_caches_view:
  assumes "db_wf db" and "db_wf db'" and "same_view db db'" and "\<not> MLFLOW_ENABLE_WORKSPACES config"
    and "workspace_cache caches = (\<lambda>_. None)" and "exact_caches config env db w caches"
  shows "exact_caches config env db' w caches"
  using exact_cachesD(2) [OF assms(6)] resolve_fresh_view [OF assms(1-4)]
  by (intro exact_cachesI) (simp_all add: assms(5) local_get_def)

lemma exact_caches_none: "exact_caches config env db w \<lparr>permission_cache = (\<lambda>_. None), workspace_cache = (\<lambda>_. None)\<rparr>"
  using exact_empty by (simp add: empty_caches_def)

lemma call_coherent:
  assumes "store_inv (st_db s)" and "coherent config env s" and "\<not> MLFLOW_ENABLE_WORKSPACES config"
    and "covered op" and "store_call se op s = (r, s')"
  shows "coherent config env s'"
proof -
  note run = store_call_db [OF assms(5)] and caches = store_call_caches [OF assms(5)]
  have wf: "db_wf (st_db s)" "db_wf (st_db s')"
    using assms(1) keepsD [OF store_run_inv assms(1) run] by (auto dest: store_inv_wf)
  have ws: "workspace_cache (st_caches s') = (\<lambda>_. None)"
    using assms(2) by (simp add: caches coherent_def)
  consider (flushed) "method_name op \<in> set PERMISSION_CUD_METHODS" "r = Inr ()"
    | (failed) e where "\<not> two_commits op" "r = Inl e" | (neutral) "neutral op" "st_caches s' = st_caches s"
    using assms(4) caches unfolding covered_def
    by (cases r; cases "method_name op \<in> set PERMISSION_CUD_METHODS") auto
  then show ?thesis
  proof cases
    case flushed
    then have "st_caches s' = \<lparr>permission_cache = (\<lambda>_. None), workspace_cache = (\<lambda>_. None)\<rparr>"
      using caches ws by (intro auth_caches.equality) simp_all
    with ws show ?thesis by (simp add: coherent_def exact_caches_none)
  next
    case failed
    with store_run_atomic [OF failed(1), of se] run have "st_db s' = st_db s" by (auto simp: atomic_def)
    with failed(2) caches assms(2) show ?thesis by (simp add: coherent_def)
  next
    case neutral
    with exact_caches_view [OF wf neutral_view [OF wf(1) neutral(1) run] assms(3)] assms(2) ws
    show ?thesis by (auto simp: coherent_def)
  qed
qed

lemma resolve_permission_off:
  assumes "MLFLOW_ENABLE_WORKSPACES config = False"
  shows "resolve_permission config env db w t i u kw caches =
    (case local_get (permission_cache caches) (make_cache_key t i u) of
       Some cached \<Rightarrow> (Inr cached, caches)
     | None \<Rightarrow>
         (case map_of PERMISSION_REGISTRY t of
            None \<Rightarrow> (Inl KeyError, caches)
          | Some builder \<Rightarrow>
              (case bind_result (builder env db i u kw) (get_permission_from_store_or_default config) of
                 Inl e \<Rightarrow> (Inl e, caches)
               | Inr result \<Rightarrow> (Inr result, caches\<lparr>permission_cache :=
                   local_set (permission_cache caches) (make_cache_key t i u) result\<rparr>))))"
  unfolding resolve_permission_def Let_def assms by (simp split: option.split sum.split)

lemma resolve_permission_disabled:
  assumes "\<not> MLFLOW_ENABLE_WORKSPACES config"
  shows "resolve_permission config env db w t i u kw caches = resolve_permission config env db None t i u kw caches"
  using assms by (simp add: resolve_permission_off)

lemma resolve_fresh_disabled:
  assumes "\<not> MLFLOW_ENABLE_WORKSPACES config"
  shows "resolve_fresh config env db w t i u kw = resolve_fresh config env db None t i u kw"
proof -
  from assms have off: "MLFLOW_ENABLE_WORKSPACES config = False" by simp
  show ?thesis
    unfolding resolve_fresh_def off by (cases "map_of PERMISSION_REGISTRY t") simp_all
qed

lemma resolve_keeps_ws_cache:
  assumes "\<not> MLFLOW_ENABLE_WORKSPACES config"
    and "resolve_permission config env db w t i u kw caches = (r, caches')"
  shows "workspace_cache caches' = workspace_cache caches"
  using assms by (auto simp: resolve_permission_off split: option.splits sum.splits)

lemma reachable_coherent:
  assumes "reachable config env se covered db0 s" and "store_inv db0"
    and "\<not> MLFLOW_ENABLE_WORKSPACES config"
  shows "coherent config env s"
  using assms(1)
proof induction
  case reach_init
  show ?case by (simp add: coherent_def empty_caches_def exact_caches_none)
next
  case (reach_step s s')
  from reach_step.hyps(2) show ?case
  proof cases
    case (step_call op r)
    then show ?thesis
      using call_coherent [OF reachable_inv [OF reach_step.hyps(1) assms(2)] reach_step.IH assms(3)] by blast
  next
    case (step_resolve t u w i kw r caches)
    have "resolve_permission config env (st_db s) None t i u kw (st_caches s) = (r, caches)"
      using step_resolve(4) resolve_permission_disabled [OF assms(3)] by metis
    from resolve_permission_exact [OF _ step_resolve(3,2) this] reach_step.IH
      resolve_keeps_ws_cache [OF assms(3) step_resolve(4)]
    show ?thesis by (simp add: coherent_def step_resolve(1))
  next
    case (step_expire f g)
    have "local_drop h (\<lambda>_. None) = (\<lambda>_. None)" for h :: "string \<Rightarrow> bool"
      by (simp add: local_drop_def fun_eq_iff)
    with exact_drop [of config env "st_db s" None "st_caches s" f g] reach_step.IH show ?thesis
      by (simp add: coherent_def step_expire)
  qed
qed

section \<open>Properties\<close>

definition example_env :: store_env where
  "example_env = \<lparr>se_re_compile = (\<lambda>_. Compiled), se_valid_username = (\<lambda>n. n \<noteq> ''''),
     se_password_hash = (\<lambda>p. p), se_now = 0, se_int_as_text = (\<lambda>_. Inr ''7''),
     se_text_as_int = (\<lambda>_. 0)\<rparr>"

lemma example_inv: "store_inv example_db"
  using example_db_wf by (simp add: store_inv_def no_workspace_rows_def) (simp add: example_db_def)

text \<open>C34: Whatever operations of the store are called, whether they return or raise, and however
  they are interleaved with permission look-ups and the loss of cache entries, the database
  keeps its keys unique and its references resolved.\<close>

theorem store_keeps_integrity:
  assumes "store_inv db0" and "reachable config env se allowed db0 s"
  shows "db_wf (st_db s)"
  using reachable_inv [OF assms(2,1)] by (rule store_inv_wf)

theorem store_keeps_integrity_witness:
  "db_wf (st_db (snd (store_call example_env (AccountOp (DeleteUser ''alice''))
     \<lparr>st_db = example_db, st_caches = empty_caches\<rparr>)))"
proof -
  let ?s = "\<lparr>st_db = example_db, st_caches = empty_caches\<rparr>"
  obtain r s' where call: "store_call example_env (AccountOp (DeleteUser ''alice'')) ?s = (r, s')" by fastforce
  have "reachable default_config example_outside example_env (\<lambda>_. True) example_db s'"
    by (rule reach_step [OF reach_init step_call [OF _ call]]) simp
  from store_keeps_integrity [OF example_inv this] call show ?thesis by simp
qed

text \<open>C31: With workspaces disabled, and with what MLflow says (the names of experiments, for
  the patterns) the same all along: in every state reached from empty caches by operations that the
  cache flush covers, by look-ups of users whose names have no colon and by the loss of cache
  entries, resolve_permission gives every such user for every resource type but scorers the answer
  that the present database gives without any cache.\<close>

theorem no_stale_permission:
  assumes "store_inv db0" and "\<not> MLFLOW_ENABLE_WORKSPACES config"
    and "reachable config env se covered db0 s"
    and "t \<in> set resource_types" and "t \<noteq> SCORER" and "colon_free u"
    and "resolve_permission config env (st_db s) w t i u kw (st_caches s) = (r, caches)"
  shows "r = resolve_fresh config env (st_db s) w t i u kw"
proof -
  have "exact_caches config env (st_db s) None (st_caches s)"
    using reachable_coherent [OF assms(3,1,2)] by (simp add: coherent_def)
  moreover have "resolve_permission config env (st_db s) None t i u kw (st_caches s) = (r, caches)"
    using assms(7) resolve_permission_disabled [OF assms(2)] by metis
  ultimately show ?thesis
    using resolve_permission_exact assms(4-6) resolve_fresh_disabled [OF assms(2)] by metis
qed

text \<open>Alice looks an experiment up, her permission on it is revoked, and she looks it up again.\<close>

theorem no_stale_permission_witness:
  "\<exists>(s :: store_state) r caches. st_db s = st_db (snd (store_call example_env
        (UserPermOp (DeletePermission Experiment ''10'' ''alice''))
        \<lparr>st_db = example_db, st_caches = empty_caches\<rparr>)) \<and>
     resolve_permission default_config example_outside (st_db s) None EXPERIMENT ''10'' ''alice'' None
       (st_caches s) = (r, caches) \<and>
     r = resolve_fresh default_config example_outside (st_db s) None EXPERIMENT ''10'' ''alice'' None"
proof -
  let ?op = "UserPermOp (DeletePermission Experiment ''10'' ''alice'')"
  let ?s0 = "\<lparr>st_db = example_db, st_caches = empty_caches\<rparr>"
  have t: "EXPERIMENT \<in> set resource_types" "EXPERIMENT \<noteq> SCORER"
    by (simp_all add: resource_types_def PERMISSION_REGISTRY_def resource_type_defs)
  have u: "colon_free ''alice''" by (simp add: colon_free_def)
  obtain r0 c0 where look: "resolve_permission default_config example_outside (st_db ?s0) None EXPERIMENT
      ''10'' ''alice'' None (st_caches ?s0) = (r0, c0)" by fastforce
  let ?s1 = "?s0\<lparr>st_caches := c0\<rparr>"
  have 1: "reachable default_config example_outside example_env covered example_db ?s1"
    by (rule reach_step [OF reach_init step_resolve [OF t(1) u look]])
  obtain r1 s2 where call: "store_call example_env ?op ?s1 = (r1, s2)" by fastforce
  have "covered ?op" by (simp add: covered_def two_commits_def PERMISSION_CUD_METHODS_def class_name_def)
  from reach_step [OF 1 step_call [where op = ?op and allowed = covered, OF this call]]
  have 2: "reachable default_config example_outside example_env covered example_db s2" .
  obtain r2 c2 where again: "resolve_permission default_config example_outside (st_db s2) None EXPERIMENT
      ''10'' ''alice'' None (st_caches s2) = (r2, c2)" by fastforce
  obtain r3 s3 where fresh: "store_call example_env ?op ?s0 = (r3, s3)" by fastforce
  have same: "st_db s2 = st_db (snd (store_call example_env ?op ?s0))"
    using store_call_db [OF call] store_call_db [OF fresh] fresh by simp
  have off: "\<not> MLFLOW_ENABLE_WORKSPACES default_config" by (simp add: default_config_def)
  note right = no_stale_permission [OF example_inv off 2 t u again]
  show ?thesis
    by (rule exI [of _ s2], rule exI [of _ r2], rule exI [of _ c2], rule conjI [OF same conjI [OF again right]])
qed

text \<open>C35: An operation that raises has changed neither the database nor the caches; only the
  rename of a gateway endpoint, which commits twice, is left out.\<close>

theorem failed_call_changes_nothing:
  assumes "\<not> two_commits op" and "store_call se op s = (Inl e, s')"
  shows "s' = s"
proof -
  from store_run_atomic [OF assms(1), of se] store_call_db [OF assms(2)]
  have "st_db s' = st_db s" by (auto simp: atomic_def)
  with store_call_caches [OF assms(2)] show ?thesis by (intro store_state.equality) simp_all
qed

theorem failed_call_changes_nothing_witness:
  "store_call example_env (UserPermOp (CreatePermission Experiment ''10'' ''alice'' ''EDIT''))
     \<lparr>st_db = example_db, st_caches = empty_caches\<rparr> =
   (Inl (MlflowException RESOURCE_ALREADY_EXISTS), \<lparr>st_db = example_db, st_caches = empty_caches\<rparr>)"
proof -
  let ?op = "UserPermOp (CreatePermission Experiment ''10'' ''alice'' ''EDIT'')"
  let ?s = "\<lparr>st_db = example_db, st_caches = empty_caches\<rparr>"
  obtain r s' where call: "store_call example_env ?op ?s = (r, s')" by fastforce
  have "user_grant_permission Experiment example_db (ResourceId ''10'') ''alice'' ''EDIT'' =
      Inl (MlflowException RESOURCE_ALREADY_EXISTS)"
    by (simp add: user_grant_permission_def validate_permission_valid Let_def insert_row_def)
       (simp add: example_db_def up_unique_def)
  then have "fst (store_run example_env ?op (st_db ?s)) = Inl (MlflowException RESOURCE_ALREADY_EXISTS)"
    by (simp add: with_method_def direct_classes_def call_def act_commit_def)
  with store_call_db [OF call] have r: "r = Inl (MlflowException RESOURCE_ALREADY_EXISTS)" by simp
  have "s' = ?s"
    by (rule failed_call_changes_nothing [OF _ call [unfolded r]]) (simp add: two_commits_def)
  with call r show ?thesis by simp
qed

text \<open>Wiping the permissions of an experiment leaves the permission cache alone: a cached
  answer outlives the rows it came from.\<close>

theorem wipe_experiment_leaves_answers:
  assumes "resolve_permission config env db w EXPERIMENT i u kw caches = (Inr answer, caches')"
    and "store_call se (UserPermOp (WipeExperiment i)) \<lparr>st_db = db, st_caches = caches'\<rparr> = (r, s')"
  shows "resolve_permission config env (st_db s') w EXPERIMENT i u kw (st_caches s') =
    (Inr answer, st_caches s')"
proof -
  have "''wipe_experiment_permissions'' \<notin> set PERMISSION_CUD_METHODS"
    by (simp add: PERMISSION_CUD_METHODS_def)
  with store_call_caches [OF assms(2)] have "st_caches s' = caches'" by simp
  then show ?thesis using resolve_permission_shared [OF assms(1)] by simp
qed

theorem wipe_experiment_leaves_answers_witness:
  "\<exists>caches s'. resolve_permission default_config example_outside example_db None EXPERIMENT ''10'' ''alice''
      None empty_caches = (Inr \<lparr>pr_permission = READ, pr_kind = ''user''\<rparr>, caches) \<and>
    store_call example_env (UserPermOp (WipeExperiment ''10'')) \<lparr>st_db = example_db, st_caches = caches\<rparr> =
      (Inr (), s') \<and>
    user_perm_lookup Experiment (st_db s') (ResourceId ''10'') ''alice'' = None \<and>
    resolve_permission default_config example_outside (st_db s') None EXPERIMENT ''10'' ''alice'' None
      (st_caches s') = (Inr \<lparr>pr_permission = READ, pr_kind = ''user''\<rparr>, st_caches s')"
proof -
  have t: "EXPERIMENT \<in> set resource_types" "EXPERIMENT \<noteq> SCORER"
    by (simp_all add: resource_types_def PERMISSION_REGISTRY_def resource_type_defs)
  obtain r caches where look: "resolve_permission default_config example_outside example_db None EXPERIMENT
      ''10'' ''alice'' None empty_caches = (r, caches)" by fastforce
  have granted: "user_perm_lookup Experiment example_db (ResourceId ''10'') ''alice'' = Some ''READ''"
    by (simp add: user_perm_lookup_def user_perm_at_def) (simp add: example_db_def row_at_def up_unique_def)
  have "resolve_fresh default_config example_outside example_db None EXPERIMENT ''10'' ''alice'' None =
      Inr \<lparr>pr_permission = READ, pr_kind = ''user''\<rparr>"
    using user_perm_lookup_get [OF example_db_wf, of Experiment "ResourceId ''10''" "''alice''"] granted
    by (simp add: resolve_fresh_def PERMISSION_REGISTRY_def build_experiment_sources_def permission_of_def
        get_permission_from_store_or_default_def default_config_def)
  with resolve_permission_exact [OF exact_empty _ t(1) look] t(2)
  have r: "r = Inr \<lparr>pr_permission = READ, pr_kind = ''user''\<rparr>" by (simp add: colon_free_def)
  obtain x s' where call: "store_call example_env (UserPermOp (WipeExperiment ''10''))
      \<lparr>st_db = example_db, st_caches = caches\<rparr> = (x, s')" by fastforce
  have run: "x = Inr ()" "st_db s' = group_wipe Experiment (user_wipe Experiment example_db ''10'') ''10''"
    using store_call_db [OF call]
    by (simp_all add: wipe_experiment_permissions_def act_bind_def call_total_def act_commit_def)
  have "user_perm_lookup Experiment (st_db s') (ResourceId ''10'') ''alice'' =
      user_perm_lookup Experiment (user_wipe Experiment example_db ''10'') (ResourceId ''10'') ''alice''"
    unfolding run(2) user_perm_lookup_def user_perm_at_def get_user_def group_wipe_def
    by (simp split: sum.split)
  then have gone: "user_perm_lookup Experiment (st_db s') (ResourceId ''10'') ''alice'' = None"
    by (simp add: user_perm_lookup_wipe [OF example_db_wf])
  from wipe_experiment_leaves_answers [OF look [unfolded r] call] look [unfolded r] call run(1) gone
  show ?thesis by blast
qed

text \<open>Deleting (or reading) a group pattern of a gateway resource by its id raises and deletes
  nothing, unless the text form of the id happens to be the name of a group.\<close>

theorem gateway_group_pattern_stays:
  assumes "c \<in> set gateway_classes" and "db_wf db"
    and "\<And>str. se_int_as_text se i = Inr str \<Longrightarrow> \<not> group_exists db str"
  shows "\<exists>e. store_run se (RegexOp (DeleteGroupRegex c g i)) db = (Inl e, db) \<and>
    get_group_gateway_regex_permission se c db i g = Inl e"
proof (cases "se_int_as_text se i")
  case (Inl e)
  then show ?thesis
    using assms(1) by (auto simp: with_method_def regex_classes_def act_commit_def
        delete_group_gateway_regex_permission_def get_group_gateway_regex_permission_def)
next
  case (Inr str)
  then obtain e where "get_group db str = Inl e"
    using assms(3) group_exists_iff [OF assms(2)] by (cases "get_group db str") auto
  with Inr show ?thesis
    using assms(1) by (auto simp: with_method_def regex_classes_def act_commit_def group_regex_revoke_def
        group_regex_get_def delete_group_gateway_regex_permission_def get_group_gateway_regex_permission_def)
qed

text \<open>A pattern of group \<^verbatim>\<open>ops\<close> with id 7 that the group's name and the id cannot remove.\<close>

definition gateway_pattern_db :: db where
  "gateway_pattern_db = example_db\<lparr>db_group_regex_perms := (\<lambda>_. [])(GatewaySecret :=
     [\<lparr>grp_id = 7, grp_regex = ''s'', grp_priority = 1, grp_group = 2, grp_permission = ''MANAGE'',
       grp_prompt = False\<rparr>])\<rparr>"

theorem gateway_group_pattern_stays_witness:
  "\<exists>e. store_run example_env (RegexOp (DeleteGroupRegex GatewaySecret ''ops'' 7)) gateway_pattern_db =
     (Inl e, gateway_pattern_db) \<and> get_group_gateway_regex_permission example_env GatewaySecret gateway_pattern_db 7 ''ops'' = Inl e"
proof (rule gateway_group_pattern_stays)
  show "db_wf gateway_pattern_db"
    unfolding gateway_pattern_db_def
    by (simp add: db_wf_def db_keys_ok_def db_refs_ok_def table_ok_def all_resource_class
        user_ids_def group_ids_def unique_defs) (simp add: example_db_def unique_defs)
qed (simp_all add: gateway_classes_def example_env_def group_exists_def gateway_pattern_db_def)

text \<open>No operation of the store clears the workspace cache, although memberships and group
  permissions change what it holds: a cached workspace permission is answered afterwards
  whatever the operation did.\<close>

theorem workspace_cache_outlives_operations:
  assumes "MLFLOW_ENABLE_WORKSPACES config"
    and "local_get (workspace_cache (st_caches s)) (ws_cache_key u v) = Some p"
    and "store_call se op s = (r, s')"
  shows "get_workspace_permission_cached config env (st_db s') u v (workspace_cache (st_caches s')) =
    (Some p, workspace_cache (st_caches s'))"
  using assms store_call_caches [OF assms(3)] by (simp add: get_workspace_permission_cached_def)

text \<open>Alice leaves the group that gave her EDIT in workspace \<^verbatim>\<open>w2\<close>, and keeps it.\<close>

theorem workspace_cache_outlives_operations_witness:
  "\<exists>s'. lookup_workspace_permission default_config example_outside example_db ''alice'' ''w2'' = Some EDIT \<and>
     store_call example_env (AccountOp (RemoveUserFromGroup ''alice'' ''ops''))
       \<lparr>st_db = example_db, st_caches = \<lparr>permission_cache = (\<lambda>_. None),
          workspace_cache = [ws_cache_key ''alice'' ''w2'' \<mapsto> EDIT]\<rparr>\<rparr> = (Inr (), s') \<and>
     \<not> member_of (st_db s') ''alice'' ''ops'' \<and>
     get_workspace_permission_cached (default_config\<lparr>MLFLOW_ENABLE_WORKSPACES := True\<rparr>) example_outside
       (st_db s') ''alice'' ''w2'' (workspace_cache (st_caches s')) =
       (Some EDIT, workspace_cache (st_caches s'))"
proof -
  let ?s = "\<lparr>st_db = example_db, st_caches = \<lparr>permission_cache = (\<lambda>_. None),
          workspace_cache = [ws_cache_key ''alice'' ''w2'' \<mapsto> EDIT]\<rparr>\<rparr>"
  have given: "lookup_workspace_permission default_config example_outside example_db ''alice'' ''w2'' = Some EDIT"
    by (simp add: lookup_workspace_permission_def default_config_def resolve_user_direct_def
          resolve_group_direct_def or_none_def
          get_workspace_permission_def ws_get_eq [OF example_db_wf] get_user_groups_workspace_permission_def
          get_highest_for_user_def wsg_rows_for_user_def list_user_groups_def)
       (simp add: example_db_def row_at_def wp_unique_def compare_permissions_valid)
  let ?rest = "[\<lparr>ug_id = 7, ug_user = 1, ug_group = 1\<rparr>]"
  have removed: "remove_user_from_group example_db ''alice'' ''ops'' = Inr (example_db\<lparr>db_user_groups := ?rest\<rparr>)"
    by (simp add: remove_user_from_group_def delete_rows_def)
  obtain r s' where call: "store_call example_env (AccountOp (RemoveUserFromGroup ''alice'' ''ops'')) ?s = (r, s')"
    by fastforce
  have r: "r = Inr ()" and after: "st_db s' = example_db\<lparr>db_user_groups := ?rest\<rparr>"
    using store_call_db [OF call] removed by (simp_all add: act_commit_def)
  have gone: "\<not> member_of (example_db\<lparr>db_user_groups := ?rest\<rparr>) ''alice'' ''ops''"
    by (simp add: member_of_def ug_unique_def)
  have stays: "get_workspace_permission_cached (default_config\<lparr>MLFLOW_ENABLE_WORKSPACES := True\<rparr>)
      example_outside (st_db s') ''alice'' ''w2'' (workspace_cache (st_caches s')) =
      (Some EDIT, workspace_cache (st_caches s'))"
    by (rule workspace_cache_outlives_operations [OF _ _ call]) (simp_all add: local_get_def)
  show ?thesis
    by (rule exI [of _ s'], intro conjI) (rule given call [unfolded r] gone [folded after] stays)+
qed

end
