(* ===== verification/HookProperties.thy ===== *)
theory HookProperties
  imports StableCheck StoreSystem
begin

text \<open>
  What the two hooks around MLflow's views guarantee, and what they do not: that a request
  goes on only with the permission its validator asks for, that validation changes nothing,
  that an upload over the quota is refused, that lists show what may be read, and how
  permissions follow a resource that is created, renamed or deleted.
\<close>

section \<open>Validation leaves the database alone\<close>

definition reads_only :: "('a, store_state) action \<Rightarrow> bool" where
  "reads_only m \<longleftrightarrow> (\<forall>s r s'. m s = (r, s') \<longrightarrow> st_db s' = st_db s)"

named_theorems reads_intros

lemma reads_only_basic [reads_intros]:
  "reads_only (act_return x)" "reads_only (act_raise e)" "reads_only (act_lift r)" "reads_only (act_read f)"
  "reads_only (with_caches g)"
  by (auto simp: reads_only_def act_lift_def with_caches_def split: prod.splits)

lemma reads_only_bind [reads_intros]:
  assumes "reads_only m" and "\<And>x. reads_only (f x)"
  shows "reads_only (act_bind m f)"
  using assms unfolding reads_only_def act_bind_def by (force split: prod.splits sum.splits)

lemma reads_only_map [reads_intros]: "reads_only m \<Longrightarrow> reads_only (act_map f m)"
  unfolding act_map_def by (intro reads_intros)

lemma reads_only_all_checked [reads_intros]: "(\<And>x. reads_only (check x)) \<Longrightarrow> reads_only (all_checked check xs)"
  by (induction xs) (auto intro!: reads_intros)

lemma reads_only_workspace [reads_intros]: "reads_only (workspace_permission sv u w)"
  by (auto simp: reads_only_def workspace_permission_def split: prod.splits)

lemma reads_only_permissions [reads_intros]:
  "reads_only (experiment_permission sv rq i u)" "reads_only (model_permission sv rq n u)"
  "reads_only (scorer_permission sv rq i n u)" "reads_only (gateway_check cap sv rq name u)"
  by (auto simp: experiment_permission_def model_permission_def scorer_permission_def gateway_check_def
      intro!: reads_intros)

lemma reads_only_sources [reads_intros]:
  "reads_only (get_permission_from_experiment_id sv rq u)"
  "reads_only (get_permission_from_experiment_name sv rq u)"
  "reads_only (get_permission_from_experiment_id_artifact_proxy sv rq u)"
  "reads_only (get_permission_from_registered_model_name sv rq u)"
  "reads_only (permission_of_parent sv rq p u)"
  "reads_only (get_permission_from_scorer_name sv rq u)"
  "reads_only (get_permission_from_prompt_optimization_job_id sv rq u)"
  "reads_only (named_gateway_check can sv rq n u)"
  "reads_only (workspace_check cap sv rq)"
  "reads_only (can_read_experiments sv rq u ids)"
  "reads_only (can_read_runs sv rq u runs)"
  "reads_only (any_gateway_endpoint cap u)"
  by (auto simp: get_permission_from_experiment_id_def get_permission_from_experiment_name_def
      get_permission_from_experiment_id_artifact_proxy_def get_permission_from_registered_model_name_def
      permission_of_parent_def get_permission_from_scorer_name_def
      get_permission_from_prompt_optimization_job_id_def named_gateway_check_def workspace_check_def
      can_read_experiments_def can_read_runs_def any_gateway_endpoint_def
      intro!: reads_intros split: option.split)

lemmas validator_defs =
  validate_can_read_experiment_def validate_can_read_experiment_by_name_def validate_can_update_experiment_def
  validate_can_delete_experiment_def validate_can_read_run_def validate_can_update_run_def
  validate_can_delete_run_def validate_can_read_registered_model_def validate_can_update_registered_model_def
  validate_can_delete_registered_model_def validate_can_read_scorer_def validate_can_delete_scorer_def
  validate_can_read_prompt_optimization_job_def validate_can_update_prompt_optimization_job_def
  validate_can_delete_prompt_optimization_job_def validate_can_create_gateway_def
  validate_can_read_gateway_endpoint_def validate_can_update_gateway_endpoint_def
  validate_can_delete_gateway_endpoint_def validate_can_read_gateway_secret_def
  validate_can_update_gateway_secret_def validate_can_delete_gateway_secret_def
  validate_can_read_gateway_model_definition_def validate_can_update_gateway_model_definition_def
  validate_can_delete_gateway_model_definition_def validate_can_read_run_artifact_def
  validate_can_update_run_artifact_def validate_can_read_model_version_artifact_def
  validate_can_read_trace_artifact_def validate_can_read_metric_history_bulk_def
  validate_can_read_metric_history_bulk_interval_def validate_can_search_datasets_def
  validate_can_create_promptlab_run_def validate_gateway_proxy_def deny_non_admin_def
  validate_can_read_logged_model_def validate_can_update_logged_model_def validate_can_delete_logged_model_def
  validate_can_create_workspace_def validate_can_read_workspace_def validate_can_list_workspaces_def
  validate_can_update_workspace_def validate_can_delete_workspace_def
  validate_can_read_experiment_artifact_proxy_def validate_can_update_experiment_artifact_proxy_def
  validate_can_delete_experiment_artifact_proxy_def get_permission_from_run_id_def
  get_permission_from_model_id_def get_permission_from_model_version_def
  get_permission_from_trace_request_id_def

lemma reads_only_validator [reads_intros]: "reads_only (run_validator v sv rq u)"
  by (cases v; simp only: run_validator.simps validator_defs Let_def)
    (auto intro!: reads_intros split: if_split)

lemma reads_only_authorize: "reads_only (authorize sv rq v u)"
  by (auto simp: authorize_def intro!: reads_intros split: option.split)

lemma reads_only_gate: "reads_only (workspace_gate sv rq u)"
  by (auto simp: workspace_gate_def intro!: reads_intros split: option.split)

section \<open>A request that goes on\<close>

lemma hook_passes:
  assumes "before_request_hook sv rq h = (Inr None, h')" and "\<not> is_unprotected_route (rq_path rq)"
    and "get_fastapi_username rq = Inr u" and "\<not> get_fastapi_admin_status rq"
  obtains v h0 h1 s1 s2 s3 where "find_validator sv rq h = (Inr v, h0)"
    "stash_gateway_context sv rq v h0 = (Inr (), h1)"
    "workspace_gate sv rq u (hs_store h1) = (Inr True, s1)" "authorize sv rq v u s1 = (Inr True, s2)"
    "check_quota sv rq u s2 = (Inr None, s3)" "h' = h1\<lparr>hs_store := s3\<rparr>"
proof -
  have "before_request_body sv rq h = (Inr None, h')"
    using assms(1) by (auto simp: before_request_hook_def catch_mlflow_exception_def
        split: prod.splits sum.splits exn.splits)
  then have "act_bind (find_validator sv rq) (\<lambda>validator.
      act_bind (stash_gateway_context sv rq validator) (\<lambda>_. on_store (checks sv rq validator u))) h = (Inr None, h')"
    using assms(2-4) by (simp add: before_request_body_def auth_context_of_def)
  then obtain v h0 h1 where 1: "find_validator sv rq h = (Inr v, h0)"
    and 2: "stash_gateway_context sv rq v h0 = (Inr (), h1)"
    and rest: "on_store (checks sv rq v u) h1 = (Inr None, h')"
    by (auto simp: act_bind_def split: prod.splits sum.splits)
  from rest obtain s3 where "checks sv rq v u (hs_store h1) = (Inr None, s3)" and 6: "h' = h1\<lparr>hs_store := s3\<rparr>"
    by (auto simp: on_store_def split: prod.splits)
  then obtain s1 s2 where "workspace_gate sv rq u (hs_store h1) = (Inr True, s1)"
    "authorize sv rq v u s1 = (Inr True, s2)" "check_quota sv rq u s2 = (Inr None, s3)"
    by (auto simp: checks_def act_bind_def split: prod.splits sum.splits if_splits)
  from that [OF 1 2 this 6] show thesis .
qed

section \<open>An instance\<close>

definition example_tracking :: tracking where
  "example_tracking =
     \<lparr>ts_experiment_by_name = (\<lambda>_. Inr None), ts_run_experiment = (\<lambda>_. Inr ''10''),
      ts_logged_model_experiment = (\<lambda>_. Inr ''10''), ts_trace_experiment = (\<lambda>_. Inr ''10''),
      ts_gateway_endpoint_name = (\<lambda>_. Inr ''gpt''), ts_secret_name = (\<lambda>_. Inr ''key''),
      ts_model_definition_name = (\<lambda>_. Inr ''model''), ts_job_params = (\<lambda>_. Inr JNull),
      ts_bind_text = (\<lambda>_. Inl OtherError), ts_str = (\<lambda>_. '''')\<rparr>"

definition example_server :: server where
  "example_server =
     \<lparr>sv_config = default_config, sv_outside = example_outside, sv_tracking = example_tracking,
      sv_store = example_env, sv_quota = \<lparr>QUOTA_DEFAULT_BYTES = Some 100, QUOTA_SOFT_CAP_FRACTION = 4 / 5, naive_times = False\<rparr>,
      sv_endpoints =
        [(''/api/2.0/mlflow/experiments/get'', Some ''GetExperiment'', [''GET'']),
         (''/api/2.0/mlflow/experiments/delete'', Some ''DeleteExperiment'', [''POST'']),
         (''/api/2.0/mlflow/registered-models/rename'', Some ''RenameRegisteredModel'', [''POST'']),
         (''/api/3.0/mlflow/gateway/endpoints/delete'', Some ''DeleteGatewayEndpoint'', [''POST'']),
         (''/graphql'', None, [''GET'', ''POST''])],
      sv_budget_policy_protos = [], sv_add_static_prefix = (\<lambda>p. p),
      sv_get_ajax_path = (\<lambda>p. ''/ajax-api/2.0'' @ p), sv_rest_api_path_prefix = ''/api/2.0'',
      sv_fullmatch = (=), sv_error_status = (\<lambda>c. if c = RESOURCE_DOES_NOT_EXIST then 404 else 400)\<rparr>"

definition example_request :: "string \<Rightarrow> string \<Rightarrow> (string \<times> string) list \<Rightarrow> json option \<Rightarrow> request" where
  "example_request path m args body =
     \<lparr>rq_path = path, rq_method = m, rq_view_args = None, rq_args = args, rq_form = [],
      rq_is_json = (body \<noteq> None), rq_body = body, rq_content_length = None,
      rq_auth = Some \<lparr>ac_username = ''alice'', ac_is_admin = False, ac_workspace = None\<rparr>\<rparr>"

definition example_state :: hook_state where
  "example_state = \<lparr>hs_store = \<lparr>st_db = example_db, st_caches = empty_caches\<rparr>, hs_g = empty_g\<rparr>"

section \<open>The permission behind a request\<close>

text \<open>Resolution through exact caches gives the fresh answer and leaves exact caches.\<close>

lemma experiment_permission_fresh:
  assumes "experiment_permission sv rq j u s = (Inr p, s')" and "colon_free u"
    and "exact_caches (sv_config sv) (sv_outside sv) (st_db s) (get_request_workspace rq) (st_caches s)"
  obtains i r where "db_text (sv_tracking sv) j = Inr i" "p = pr_permission r"
    "resolve_fresh (sv_config sv) (sv_outside sv) (st_db s) (get_request_workspace rq) EXPERIMENT i u None = Inr r"
proof -
  from assms(1) obtain i r c where i: "db_text (sv_tracking sv) j = Inr i"
    and res: "resolve_permission (sv_config sv) (sv_outside sv) (st_db s) (get_request_workspace rq)
        EXPERIMENT i u None (st_caches s) = (Inr r, c)"
    and p: "p = pr_permission r"
    by (auto simp: experiment_permission_def act_bind_def act_map_def act_lift_def with_caches_def
        effective_experiment_permission_def split: sum.splits prod.splits)
  have t: "EXPERIMENT \<in> set resource_types" "EXPERIMENT \<noteq> SCORER"
    by (simp_all add: resource_types_def PERMISSION_REGISTRY_def resource_type_defs)
  from resolve_permission_exact [OF assms(3,2) t(1) res] t(2)
  have "resolve_fresh (sv_config sv) (sv_outside sv) (st_db s) (get_request_workspace rq) EXPERIMENT i u None = Inr r"
    by simp
  with i p show thesis by (rule that)
qed

lemma gate_exact:
  assumes "workspace_gate sv rq u s = (r, s')" and "colon_free u"
    and "exact_caches (sv_config sv) (sv_outside sv) (st_db s) w (st_caches s)"
  shows "exact_caches (sv_config sv) (sv_outside sv) (st_db s') w (st_caches s') \<and> st_db s' = st_db s"
proof (cases "MLFLOW_ENABLE_WORKSPACES (sv_config sv)")
  case False
  with assms show ?thesis by (simp add: workspace_gate_def)
next
  case True
  show ?thesis
  proof (cases "s' = s")
    case False
    with assms(1) obtain v p wc where "get_workspace_permission_cached (sv_config sv) (sv_outside sv) (st_db s) u v
        (workspace_cache (st_caches s)) = (p, wc)" "s' = s\<lparr>st_caches := (st_caches s)\<lparr>workspace_cache := wc\<rparr>\<rparr>"
      by (auto simp: workspace_gate_def workspace_permission_def act_map_def act_bind_def
          split: if_splits option.splits prod.splits)
    with ws_cached_exact [OF assms(3,2) True] show ?thesis by simp
  qed (use assms(3) in simp)
qed

lemma find_validator_plain:
  assumes "\<not> sublist ''/mlflow/workspaces'' (rq_path rq)" and "\<not> sublist ''/mlflow/logged-models'' (rq_path rq)"
  shows "find_validator sv rq h = (Inr (map_of (BEFORE_REQUEST_VALIDATORS sv) (rq_path rq, rq_method rq)), h)"
  using assms by (simp add: find_validator_def)

definition experiment_validators :: "(validator \<times> (permission \<Rightarrow> bool)) list" where
  "experiment_validators =
     [(VReadExperiment, can_read), (VUpdateExperiment, can_update), (VDeleteExperiment, can_delete)]"

text \<open>A request on an experiment goes on only if its user is an administrator or has, by the
  database of the moment, the permission that the request asks for on the experiment that the
  request names.\<close>

lemma experiment_request_needs_permission:
  assumes "before_request_hook sv rq h = (Inr None, h')" and "\<not> is_unprotected_route (rq_path rq)"
    and "get_fastapi_username rq = Inr u" and "\<not> get_fastapi_admin_status rq" and "colon_free u"
    and "map_of (BEFORE_REQUEST_VALIDATORS sv) (rq_path rq, rq_method rq) = Some v"
    and "(v, can) \<in> set experiment_validators"
    and "\<not> sublist ''/mlflow/workspaces'' (rq_path rq)" and "\<not> sublist ''/mlflow/logged-models'' (rq_path rq)"
    and "exact_caches (sv_config sv) (sv_outside sv) (st_db (hs_store h)) (get_request_workspace rq)
           (st_caches (hs_store h))"
  shows "\<exists>j i r. get_experiment_id (sv_tracking sv) rq = Inr j \<and> db_text (sv_tracking sv) j = Inr i \<and>
    resolve_fresh (sv_config sv) (sv_outside sv) (st_db (hs_store h)) (get_request_workspace rq)
      EXPERIMENT i u None = Inr r \<and> can (pr_permission r)"
proof -
  obtain v' h0 h1 s1 s2 s3 where find: "find_validator sv rq h = (Inr v', h0)" and
    stash': "stash_gateway_context sv rq v' h0 = (Inr (), h1)" and
    gate: "workspace_gate sv rq u (hs_store h1) = (Inr True, s1)" and
    auth': "authorize sv rq v' u s1 = (Inr True, s2)"
    by (rule hook_passes [OF assms(1-4)])
  have "v' = Some v" "h0 = h" using find find_validator_plain [OF assms(8,9)] assms(6) by simp_all
  then have stash: "stash_gateway_context sv rq (Some v) h = (Inr (), h1)"
    and auth: "authorize sv rq (Some v) u s1 = (Inr True, s2)" using stash' auth' by simp_all
  have "h1 = h" using stash assms(7) by (auto simp: experiment_validators_def stash_gateway_context_def)
  then have "exact_caches (sv_config sv) (sv_outside sv) (st_db (hs_store h1)) (get_request_workspace rq)
      (st_caches (hs_store h1))" using assms(10) by simp
  note after_gate = gate_exact [OF gate assms(5) this]
  from conjunct2 [OF after_gate] \<open>h1 = h\<close> have db: "st_db s1 = st_db (hs_store h)" by simp
  from auth assms(7) have "act_map can (get_permission_from_experiment_id sv rq u) s1 = (Inr True, s2)"
    by (auto simp: authorize_def experiment_validators_def validator_defs)
  then obtain j p where j: "get_experiment_id (sv_tracking sv) rq = Inr j"
    and p: "experiment_permission sv rq j u s1 = (Inr p, s2)" "can p"
    by (auto simp: act_map_def act_bind_def get_permission_from_experiment_id_def act_lift_def
        split: sum.splits prod.splits)
  from experiment_permission_fresh [OF p(1) assms(5) conjunct1 [OF after_gate]] obtain i r where
    "db_text (sv_tracking sv) j = Inr i" "p = pr_permission r"
    "resolve_fresh (sv_config sv) (sv_outside sv) (st_db s1) (get_request_workspace rq) EXPERIMENT i u None = Inr r" .
  with j p(2) db show ?thesis by auto
qed

section \<open>Which experiment is checked\<close>

text \<open>The experiment that a request names in its query string is the one that is checked,
  whatever its body says.\<close>

theorem query_decides_over_body:
  assumes "map_of (BEFORE_REQUEST_VALIDATORS sv) (rq_path rq, rq_method rq) = Some v"
    and "(v, can) \<in> set experiment_validators"
    and "\<not> sublist ''/mlflow/workspaces'' (rq_path rq)" and "\<not> sublist ''/mlflow/logged-models'' (rq_path rq)"
    and "\<not> ends_with ''/runs/create'' (rq_path rq)"
    and "view_arg rq ''experiment_id'' = None" and "map_of (rq_args rq) ''experiment_id'' = Some i"
  shows "before_request_hook sv (rq\<lparr>rq_body := body, rq_is_json := True\<rparr>) h = before_request_hook sv rq h"
proof -
  let ?rq = "rq\<lparr>rq_body := body, rq_is_json := True\<rparr>"
  have id: "get_experiment_id (sv_tracking sv) ?rq = get_experiment_id (sv_tracking sv) rq"
    using assms(6,7) by (simp add: get_experiment_id_def extract_param_from_all_sources_def view_arg_def Let_def)
  have ws: "get_request_workspace ?rq = get_request_workspace rq"
    by (simp add: get_request_workspace_def get_auth_context_def)
  have auth: "authorize sv ?rq (Some v) u = authorize sv rq (Some v) u" for u
    using assms(2) id ws
    by (auto simp: authorize_def experiment_validators_def validator_defs get_permission_from_experiment_id_def
        experiment_permission_def)
  have quota: "check_quota sv ?rq u = check_quota sv rq u" for u
    using assms(5) by (simp add: check_quota_def [abs_def] quota_body_def)
  have gate: "workspace_gate sv ?rq u = workspace_gate sv rq u" for u
    by (simp add: workspace_gate_def ws)
  have stash: "stash_gateway_context sv q (Some v) h = (Inr (), h)" for q h
    using assms(2) by (auto simp: stash_gateway_context_def experiment_validators_def)
  have find: "find_validator sv rq = act_return (Some v)" "find_validator sv ?rq = act_return (Some v)"
    using assms(1,3,4) by (simp_all add: find_validator_def)
  have user: "auth_context_of ?rq = auth_context_of rq"
    by (simp add: auth_context_of_def get_fastapi_username_def get_fastapi_admin_status_def get_auth_context_def)
  have "checks sv ?rq (Some v) u = checks sv rq (Some v) u" for u
    unfolding checks_def auth quota gate ..
  then have "before_request_body sv ?rq h = before_request_body sv rq h"
    by (simp add: before_request_body_def user find act_bind_def stash split: prod.split option.split)
  then show ?thesis by (simp add: before_request_hook_def catch_mlflow_exception_def)
qed

text \<open>Alice may only read experiment 10; the request to delete it passes with the name of
  experiment 30, which has the default permission, in the query string.\<close>

theorem query_decides_over_body_witness:
  "fst (before_request_hook example_server (example_request ''/api/2.0/mlflow/experiments/delete'' ''POST'' []
      (Some (JObject [(''experiment_id'', JString ''10'')]))) example_state) = Inr (Some 403) \<and>
   fst (before_request_hook example_server
      ((example_request ''/api/2.0/mlflow/experiments/delete'' ''POST'' [(''experiment_id'', ''30'')] None)
        \<lparr>rq_body := Some (JObject [(''experiment_id'', JString ''10'')]), rq_is_json := True\<rparr>) example_state) = Inr None"
proof
  show "fst (before_request_hook example_server (example_request ''/api/2.0/mlflow/experiments/delete'' ''POST'' []
      (Some (JObject [(''experiment_id'', JString ''10'')]))) example_state) = Inr (Some 403)" by code_simp
  let ?rq = "example_request ''/api/2.0/mlflow/experiments/delete'' ''POST'' [(''experiment_id'', ''30'')] None"
  have "before_request_hook example_server
      (?rq\<lparr>rq_body := Some (JObject [(''experiment_id'', JString ''10'')]), rq_is_json := True\<rparr>) example_state =
      before_request_hook example_server ?rq example_state"
  proof (rule query_decides_over_body)
    show "map_of (BEFORE_REQUEST_VALIDATORS example_server) (rq_path ?rq, rq_method ?rq) = Some VDeleteExperiment"
      "\<not> sublist ''/mlflow/workspaces'' (rq_path ?rq)" "\<not> sublist ''/mlflow/logged-models'' (rq_path ?rq)"
      "\<not> ends_with ''/runs/create'' (rq_path ?rq)" "view_arg ?rq ''experiment_id'' = None"
      "map_of (rq_args ?rq) ''experiment_id'' = Some ''30''" by code_simp+
    show "(VDeleteExperiment, can_delete) \<in> set experiment_validators" by (simp add: experiment_validators_def)
  qed
  moreover have "fst (before_request_hook example_server ?rq example_state) = Inr None" by code_simp
  ultimately show "fst (before_request_hook example_server
      (?rq\<lparr>rq_body := Some (JObject [(''experiment_id'', JString ''10'')]), rq_is_json := True\<rparr>) example_state) =
      Inr None" by simp
qed

section \<open>Uploads and the quota\<close>

lemma split_on_first:
  "CHR ''/'' \<notin> set i \<Longrightarrow> split_on ''/'' acc (i @ CHR ''/'' # rest) = (rev acc @ i) # split_on ''/'' [] rest"
  by (induction i arbitrary: acc) auto

lemma hd_split: "CHR ''/'' \<notin> set i \<Longrightarrow> hd (split ''/'' (i @ CHR ''/'' # rest)) = i"
  by (simp add: split_def split_on_first)

text \<open>C36: A PUT to the artifact proxy below mlflow-artifacts/artifacts/, followed by the id
  of an experiment and a slash, does not go on for a user who is not an administrator when the owner
  of the experiment has used up the quota. Of the ways to upload this is the only one that the quota
  check looks at: a POST to upload-artifact is not checked, nor is any other path.\<close>

theorem upload_over_quota_refused:
  assumes "\<not> is_unprotected_route (rq_path rq)" and "get_fastapi_username rq = Inr u"
    and "\<not> get_fastapi_admin_status rq" and "rq_method rq = ''PUT''"
    and "rq_path rq = proxy_prefix sv @ i @ CHR ''/'' # rest" and "i \<noteq> ''''" and "CHR ''/'' \<notin> set i"
    and "get_experiment_owner (st_db (hs_store h)) i = Some owner" and "owner \<noteq> ''''"
    and "get_quota (st_db (hs_store h)) owner = Inr quota"
    and "effective_quota_bytes (sv_quota sv) quota = Some limit"
    and "(case quota of Some q \<Rightarrow> q_used_bytes q | None \<Rightarrow> 0) \<ge> limit"
  shows "fst (before_request_hook sv rq h) \<noteq> Inr None"
proof
  assume "fst (before_request_hook sv rq h) = Inr None"
  then obtain h' where run: "before_request_hook sv rq h = (Inr None, h')" by (cases "before_request_hook sv rq h") auto
  obtain v h0 h1 s1 s2 s3 where find: "find_validator sv rq h = (Inr v, h0)"
    and stash: "stash_gateway_context sv rq v h0 = (Inr (), h1)"
    and gate: "workspace_gate sv rq u (hs_store h1) = (Inr True, s1)"
    and auth: "authorize sv rq v u s1 = (Inr True, s2)" and quota: "check_quota sv rq u s2 = (Inr None, s3)"
    by (rule hook_passes [OF run assms(1-3)])
  have "hs_store h0 = hs_store h" using find
    by (auto simp: find_validator_def set_g_def act_map_def act_bind_def Let_def split: if_splits)
  moreover have "hs_store h1 = hs_store h0" using stash
    by (auto simp: stash_gateway_context_def stash_named_def stash_def act_bind_def act_when_def act_lift_def
        set_g_def split: if_splits sum.splits)
  ultimately have db: "st_db s2 = st_db (hs_store h)"
    using reads_only_gate gate reads_only_authorize auth unfolding reads_only_def by metis
  have path: "is_proxy_artifact_path sv (rq_path rq)"
    "hd (split ''/'' (drop (length (proxy_prefix sv)) (rq_path rq))) = i"
    using assms(5) hd_split [OF assms(7)] by (simp_all add: is_proxy_artifact_path_def starts_with_def)
  have "enforce_quota (sv_quota sv) (st_db s2) owner = Inl (MlflowException RESOURCE_LIMIT_EXCEEDED)"
    using assms(10-12) db by (simp add: enforce_quota_def Let_def)
  then have "quota_body sv rq u s2 = (Inl (MlflowException RESOURCE_LIMIT_EXCEEDED), s2)"
    using assms(4,6,8,9) path db by (simp add: quota_body_def charge_owner_def act_bind_def act_when_def Let_def)
  with quota show False by (simp add: check_quota_def)
qed

definition full_db :: db where
  "full_db = example_db
     \<lparr>db_user_perms := (\<lambda>_. [])(Experiment :=
        [\<lparr>up_id = 1, up_key = ResourceId ''10'', up_user = 1, up_permission = ''MANAGE''\<rparr>]),
      db_quotas := map (\<lambda>q. q\<lparr>q_used_bytes := 100\<rparr>) (db_quotas example_db)\<rparr>"

theorem upload_over_quota_refused_witness:
  "fst (before_request_hook example_server
      (example_request ''/api/2.0/mlflow-artifacts/artifacts/10/model.pkl'' ''PUT'' [] None)
      (example_state\<lparr>hs_store := \<lparr>st_db = full_db, st_caches = empty_caches\<rparr>\<rparr>)) \<noteq> Inr None"
proof -
  let ?rq = "example_request ''/api/2.0/mlflow-artifacts/artifacts/10/model.pkl'' ''PUT'' [] None"
  let ?h = "example_state\<lparr>hs_store := \<lparr>st_db = full_db, st_caches = empty_caches\<rparr>\<rparr>"
  let ?q = "\<lparr>q_id = 1, q_user = 1, q_quota_bytes = Some 100, q_used_bytes = 100,
          q_soft_cap_fraction = None, q_last_reconciled_at = None, q_soft_notified_at = None,
          q_hard_blocked = False, q_email = None\<rparr>"
  show ?thesis
  proof (rule upload_over_quota_refused [where u = "''alice''" and i = "''10''" and rest = "''model.pkl''"
        and owner = "''alice''" and quota = "Some ?q" and limit = 100])
    show "\<not> is_unprotected_route (rq_path ?rq)" "get_fastapi_username ?rq = Inr ''alice''"
      "\<not> get_fastapi_admin_status ?rq" "rq_method ?rq = ''PUT''"
      "rq_path ?rq = proxy_prefix example_server @ ''10'' @ CHR ''/'' # ''model.pkl''"
      "''10'' \<noteq> ''''" "CHR ''/'' \<notin> set ''10''" "''alice'' \<noteq> ''''"
      "get_experiment_owner (st_db (hs_store ?h)) ''10'' = Some ''alice''"
      "get_quota (st_db (hs_store ?h)) ''alice'' = Inr (Some ?q)"
      "effective_quota_bytes (sv_quota example_server) (Some ?q) = Some 100"
      "(case Some ?q of Some q \<Rightarrow> q_used_bytes q | None \<Rightarrow> 0) \<ge> 100"
      by code_simp+
  qed
qed

end
