(* ===== verification/AfterProperties.thy ===== *)
theory AfterProperties
  imports HookProperties
begin

text \<open>
  What the hook after a request guarantees: the lists it returns and the permissions it
  changes. The request is fresh, so the memory of its checks starts empty.
\<close>

section \<open>Lists\<close>

lemma fresh_reader:
  assumes "colon_free u" and "g_after_request_perm_cache (hs_g h) = (\<lambda>_. None)"
    and "exact_caches (sv_config sv) (sv_outside sv) (st_db (hs_store h)) (get_request_workspace rq)
           (st_caches (hs_store h))"
  shows "reader_inv sv rq u (st_db (hs_store h)) h"
  using assms by (simp add: reader_inv_def)

text \<open>C26: For a user who is not an administrator and whose name has no colon, with caches
  that hold only answers of the present database and an empty memo of the request: every experiment
  in the answer to a search is one that the user may read, and lies in a workspace that the user may
  read, by what the answer says of it or by what MLflow says when asked for it. An experiment
  without a workspace passes the second check, and so does one that MLflow fails to look up: the
  failure counts as no workspace.\<close>

theorem experiment_search_is_readable:
  assumes "filter_search_experiments sv sr rq resp h = Some (Inr resp', h')"
    and "get_fastapi_username rq = Inr u" and "\<not> get_fastapi_admin_status rq" and "colon_free u"
    and "g_after_request_perm_cache (hs_g h) = (\<lambda>_. None)"
    and "exact_caches (sv_config sv) (sv_outside sv) (st_db (hs_store h)) (get_request_workspace rq)
           (st_caches (hs_store h))"
  shows "\<exists>page'. rs_json resp' = sr_page_json sr ''SearchExperiments'' (rs_json resp) page' \<and>
    (\<forall>x \<in> set (pg_items page').
       may_read sv rq u (st_db (hs_store h)) EXPERIMENT (it_key x) = Inr True \<and>
       (may_access sv u (st_db (hs_store h)) (it_workspace x) \<or>
        may_access sv u (st_db (hs_store h)) (workspace_of sr ''SearchExperiments'' (it_key x))))"
proof -
  from assms(1-3) obtain page page' where
    run: "filter_search sv sr ''SearchExperiments'' (cached_can_read_experiment sv rq u) rq u page h =
        Some (Inr page', h')" and
    "rs_json resp' = sr_page_json sr ''SearchExperiments'' (rs_json resp) page'"
    by (auto simp: filter_search_experiments_def for_reader_def rewrite_page_def
        split: sum.splits option.splits)
  with experiment_reader.filter_search_readable [OF fresh_reader [OF assms(4-6)] run] show ?thesis by blast
qed

text \<open>Searches over a list of four experiments in pages of two, as MLflow answers them.\<close>

definition example_items :: "item list" where
  "example_items = map (\<lambda>i. \<lparr>it_key = i, it_workspace = None, it_data = JNull\<rparr>) [''30'', ''40'', ''10'', ''20'']"

definition example_searches :: searches where
  "example_searches =
     \<lparr>sr_parse_page = (\<lambda>_ _. Inr \<lparr>pg_items = take 2 example_items, pg_token = ''xxx''\<rparr>),
      sr_page_json = (\<lambda>_ _ page. JArray (map (JString \<circ> it_key) (pg_items page) @ [JString (pg_token page)])),
      sr_max_results = (\<lambda>_ _. 2), sr_search = (\<lambda>_ _ token. Inr (take 2 (drop (length token - 1) example_items))),
      sr_workspace_of = (\<lambda>_ _. Inr None), sr_parse_start_offset = (\<lambda>token. Inr (length token - 1)),
      sr_create_page_token = (\<lambda>n. replicate (n + 1) (CHR ''x'')),
      sr_search_logged_models = (\<lambda>_ _. Inr ([], None)), sr_decode_token = (\<lambda>_. Inr 0),
      sr_encode_token = (\<lambda>_ _. ''t'')\<rparr>"

definition strict_server :: server where
  "strict_server = example_server
     \<lparr>sv_config := default_config\<lparr>DEFAULT_MLFLOW_PERMISSION := ''NO_PERMISSIONS''\<rparr>\<rparr>"

definition search_request :: request where
  "search_request = example_request ''/api/2.0/mlflow/experiments/search'' ''GET'' [] None"

lemma search_request_user:
  "get_fastapi_username search_request = Inr ''alice''" "\<not> get_fastapi_admin_status search_request"
  "colon_free ''alice''" "g_after_request_perm_cache (hs_g example_state) = (\<lambda>_. None)"
  "exact_caches config env db w (st_caches (hs_store example_state))"
  by (simp_all add: search_request_def example_request_def get_fastapi_username_def get_auth_context_def
      get_fastapi_admin_status_def colon_free_def example_state_def empty_g_def exact_empty)

theorem experiment_search_is_readable_witness:
  "\<exists>page'. JArray [JString ''10'', JString ''20'', JString (replicate 5 (CHR ''x''))] =
      sr_page_json example_searches ''SearchExperiments'' JNull page' \<and>
    (\<forall>x \<in> set (pg_items page'). may_read strict_server search_request ''alice'' example_db EXPERIMENT (it_key x) = Inr True \<and>
       (may_access strict_server ''alice'' example_db (it_workspace x) \<or>
        may_access strict_server ''alice'' example_db
          (workspace_of example_searches ''SearchExperiments'' (it_key x))))"
proof -
  let ?resp = "\<lparr>rs_status = 200, rs_json = JNull\<rparr>"
  let ?run = "filter_search_experiments strict_server example_searches search_request ?resp example_state"
  have "map_option fst ?run =
      Some (Inr \<lparr>rs_status = 200, rs_json = JArray [JString ''10'', JString ''20'', JString (replicate 5 (CHR ''x''))]\<rparr>)"
    by code_simp
  then obtain h' where "?run = Some (Inr \<lparr>rs_status = 200,
      rs_json = JArray [JString ''10'', JString ''20'', JString (replicate 5 (CHR ''x''))]\<rparr>, h')"
    by (cases ?run) auto
  from experiment_search_is_readable [OF this search_request_user]
  show ?thesis by (simp add: example_state_def)
qed

text \<open>A search that pages through one list of all experiments, with the offset as its token.\<close>

definition pages_through :: "searches \<Rightarrow> string \<Rightarrow> request \<Rightarrow> item list \<Rightarrow> page \<Rightarrow> bool" where
  "pages_through sr kind rq all page \<longleftrightarrow>
     (\<forall>n. sr_parse_start_offset sr (sr_create_page_token sr n) = Inr n \<and> sr_create_page_token sr n \<noteq> '''' \<and>
        sr_search sr kind rq (sr_create_page_token sr n) = Inr (take (sr_max_results sr kind rq) (drop n all))) \<and>
     (\<forall>x \<in> set all. workspace_of sr kind (it_key x) = it_workspace x) \<and>
     pg_items page = take (sr_max_results sr kind rq) all \<and>
     pg_token page = (if sr_max_results sr kind rq < length all
       then sr_create_page_token sr (sr_max_results sr kind rq) else '''')"

text \<open>C27: For a search that MLflow answers by paging through one fixed list by offsets, with
  the same workspaces when it is asked for the single experiments, and for a user who is not an
  administrator, whose name has no colon and for whom the check of every experiment of the list is
  decided without an exception, with caches that hold only answers of the present database and an
  empty memo of the request: the loop that refills a page of experiments ends. The answer holds, in
  order, the readable experiments among the first n of the list, where either the page is full and
  its token continues at n, or the list has been read to its end.\<close>

theorem experiment_search_terminates:
  assumes "get_fastapi_username rq = Inr u" and "\<not> get_fastapi_admin_status rq" and "colon_free u"
    and "g_after_request_perm_cache (hs_g h) = (\<lambda>_. None)"
    and "exact_caches (sv_config sv) (sv_outside sv) (st_db (hs_store h)) (get_request_workspace rq)
           (st_caches (hs_store h))"
    and "sr_parse_page sr ''SearchExperiments'' (rs_json resp) = Inr page"
    and "pages_through sr ''SearchExperiments'' rq all page"
    and "\<forall>x \<in> set all. \<exists>b. may_read sv rq u (st_db (hs_store h)) EXPERIMENT (it_key x) = Inr b"
  shows "\<exists>n shown token h'.
    filter_search_experiments sv sr rq resp h =
      Some (Inr (resp\<lparr>rs_json := sr_page_json sr ''SearchExperiments'' (rs_json resp)
        (page\<lparr>pg_items := shown, pg_token := token\<rparr>)\<rparr>), h') \<and>
    shown = filter (\<lambda>x. may_read sv rq u (st_db (hs_store h)) EXPERIMENT (it_key x) = Inr True \<and>
        may_access sv u (st_db (hs_store h)) (it_workspace x)) (take n all) \<and>
    (token = sr_create_page_token sr n \<and> length shown = sr_max_results sr ''SearchExperiments'' rq \<or>
     token = '''' \<and> length all \<le> n)"
proof -
  let ?db = "st_db (hs_store h)"
  note through = assms(7) [unfolded pages_through_def]
  have acc: "experiment_reader.items.accepted sv rq u ?db =
      (\<lambda>x. may_read sv rq u ?db EXPERIMENT (it_key x) = Inr True \<and> may_access sv u ?db (it_workspace x))"
    by (simp add: fun_eq_iff experiment_reader.accepted_items)
  obtain n token h' where run: "filter_search sv sr ''SearchExperiments'' (cached_can_read_experiment sv rq u) rq u page h =
      Some (Inr (page\<lparr>pg_items := filter (experiment_reader.items.accepted sv rq u ?db) (take n all), pg_token := token\<rparr>), h')"
    and fin: "token = sr_create_page_token sr n \<and>
        length (filter (experiment_reader.items.accepted sv rq u ?db) (take n all)) =
          sr_max_results sr ''SearchExperiments'' rq \<or> token = '''' \<and> length all \<le> n"
    using experiment_reader.filter_search_complete [OF fresh_reader [OF assms(3-5)], of sr "''SearchExperiments''" all page]
      through assms(8) by blast
  have "filter_search_experiments sv sr rq resp h =
      Some (Inr (resp\<lparr>rs_json := sr_page_json sr ''SearchExperiments'' (rs_json resp)
        (page\<lparr>pg_items := filter (experiment_reader.items.accepted sv rq u ?db) (take n all), pg_token := token\<rparr>)\<rparr>), h')"
    using assms(1,2,6) run by (simp add: filter_search_experiments_def for_reader_def rewrite_page_def)
  with fin show ?thesis unfolding acc by blast
qed

theorem experiment_search_terminates_witness:
  "\<exists>n shown token h'.
    filter_search_experiments strict_server example_searches search_request \<lparr>rs_status = 200, rs_json = JNull\<rparr> example_state =
      Some (Inr \<lparr>rs_status = 200, rs_json = JArray (map (JString \<circ> it_key) shown @ [JString token])\<rparr>, h') \<and>
    shown = filter (\<lambda>x. may_read strict_server search_request ''alice'' example_db EXPERIMENT (it_key x) = Inr True \<and>
        may_access strict_server ''alice'' example_db (it_workspace x)) (take n example_items) \<and>
    (token = replicate (n + 1) (CHR ''x'') \<and> length shown = 2 \<or> token = '''' \<and> length example_items \<le> n)"
proof -
  let ?page = "\<lparr>pg_items = take 2 example_items, pg_token = ''xxx''\<rparr>"
  have through: "pages_through example_searches ''SearchExperiments'' search_request example_items ?page"
    by (auto simp: pages_through_def example_searches_def example_items_def workspace_of_def
        numeral_2_eq_2 eval_nat_numeral)
  have "list_all (\<lambda>x. may_read strict_server search_request ''alice'' example_db EXPERIMENT (it_key x) = Inr True \<or>
      may_read strict_server search_request ''alice'' example_db EXPERIMENT (it_key x) = Inr False) example_items"
    by code_simp
  then have dec: "\<forall>x \<in> set example_items. \<exists>b. may_read strict_server search_request ''alice''
      (st_db (hs_store example_state)) EXPERIMENT (it_key x) = Inr b"
    unfolding list_all_iff by (auto simp: example_state_def)
  have parse: "sr_parse_page example_searches ''SearchExperiments'' (rs_json \<lparr>rs_status = 200, rs_json = JNull\<rparr>) = Inr ?page"
    by (simp add: example_searches_def)
  from experiment_search_terminates [OF search_request_user parse through dec]
  show ?thesis by (simp add: example_searches_def example_state_def)
qed

section \<open>Permissions that follow the resource\<close>

text \<open>The hook runs the handler of the request class that the table gives for path and method.\<close>

definition handled_as :: "server \<Rightarrow> searches \<Rightarrow> request \<Rightarrow> string \<Rightarrow> bool" where
  "handled_as sv sr rq c \<longleftrightarrow>
     map_of (dict (after_request_keys sv sr rq)) (rq_path rq, rq_method rq) = Some c"

lemma handler_of:
  "handled_as sv sr rq c \<Longrightarrow> AFTER_REQUEST_HANDLERS sv sr rq = map_of (AFTER_REQUEST_PATH_HANDLERS sv sr rq) c"
  by (simp add: handled_as_def AFTER_REQUEST_HANDLERS_def)

lemma handlers:
  "map_of (AFTER_REQUEST_PATH_HANDLERS sv sr rq) ''RenameRegisteredModel'' =
     Some (effect (\<lambda>_. rename_registered_model_permission sv rq))"
  "map_of (AFTER_REQUEST_PATH_HANDLERS sv sr rq) ''DeleteGatewayEndpoint'' =
     Some (effect (\<lambda>_. delete_gateway_endpoint_permissions_cascade sv))"
  "map_of (AFTER_REQUEST_PATH_HANDLERS sv sr rq) ''CreateExperiment'' =
     Some (effect (set_can_manage_experiment_permission sv rq))"
  by (simp_all add: AFTER_REQUEST_PATH_HANDLERS_def)

lemma effect_run: "effect f resp h = Some (act_map (\<lambda>_. resp) (f resp) h)"
  by (simp add: effect_def no_loop_def)

text \<open>Renaming a registered model on which only groups have permissions ends in an error answer, after
  MLflow has renamed it, and the permissions of the groups stay under the old name.\<close>

theorem rename_without_user_permissions_fails:
  assumes "handled_as sv sr rq ''RenameRegisteredModel''" and "rs_status resp < 400"
    and "get_json_force rq = Some (JObject kvs)"
    and "map_of kvs ''name'' = Some (JString old)" and "map_of kvs ''new_name'' = Some (JString new)"
    and "old \<noteq> ''''" and "new \<noteq> ''''"
    and "\<forall>r \<in> set (db_user_perms (st_db (hs_store h)) RegisteredModel). resource_id_of (up_key r) \<noteq> old"
  shows "after_request_hook sv sr rq resp h =
    Some (Inr (\<lparr>rs_status = sv_error_status sv RESOURCE_DOES_NOT_EXIST, rs_json = JObject []\<rparr>, None), h)"
proof -
  let ?op = "UserPermOp (RenameRegisteredModel old new)"
  have "kvs \<noteq> []" using assms(4) by auto
  then have body: "or_empty (get_json_force rq) = JObject kvs" using assms(3) by (simp add: or_empty_def)
  have none: "filter (\<lambda>r. resource_id_of (up_key r) = old) (db_user_perms (st_db (hs_store h)) RegisteredModel) = []"
    using assms(8) by (simp add: filter_empty_conv)
  obtain r s' where call: "store_call (sv_store sv) ?op (hs_store h) = (r, s')" by fastforce
  have "r = Inl (MlflowException RESOURCE_DOES_NOT_EXIST)" and "st_db s' = st_db (hs_store h)"
    using store_call_db [OF call] none by (simp_all add: registered_model_rename_def act_commit_def)
  with store_call_caches [OF call] have "store_call (sv_store sv) ?op (hs_store h) =
      (Inl (MlflowException RESOURCE_DOES_NOT_EXIST), hs_store h)"
    using call by simp
  then have "store_action sv ?op h = (Inl (MlflowException RESOURCE_DOES_NOT_EXIST), h)"
    by (simp add: store_action_def on_store_def)
  then have "rename_registered_model_permission sv rq h = (Inl (MlflowException RESOURCE_DOES_NOT_EXIST), h)"
    using assms(4-7) body
    by (simp add: rename_registered_model_permission_def py_get_def act_lift_def act_bind_def act_when_def db_text_def)
  then have "after_request_body sv sr rq resp h = Some (Inl (MlflowException RESOURCE_DOES_NOT_EXIST), h)"
    using assms(2) handler_of [OF assms(1)]
    by (simp add: after_request_body_def handlers effect_run act_map_def act_bind_def)
  then show ?thesis by (simp add: after_request_hook_def)
qed

definition rename_request :: request where
  "rename_request = example_request ''/api/2.0/mlflow/registered-models/rename'' ''POST'' []
     (Some (JObject [(''name'', JString ''m''), (''new_name'', JString ''n'')]))"

theorem rename_without_user_permissions_fails_witness:
  "after_request_hook example_server example_searches rename_request \<lparr>rs_status = 200, rs_json = JNull\<rparr> example_state =
    Some (Inr (\<lparr>rs_status = 404, rs_json = JObject []\<rparr>, None), example_state)"
proof -
  let ?kvs = "[(''name'', JString ''m''), (''new_name'', JString ''n'')]"
  have 1: "handled_as example_server example_searches rename_request ''RenameRegisteredModel''"
    "get_json_force rename_request = Some (JObject ?kvs)"
    "map_of ?kvs ''name'' = Some (JString ''m'')" "map_of ?kvs ''new_name'' = Some (JString ''n'')"
    by code_simp+
  have "db_user_perms (st_db (hs_store example_state)) RegisteredModel = []"
    by (simp add: example_state_def example_db_def)
  with rename_without_user_permissions_fails [OF 1(1) _ 1(2-4), of "\<lparr>rs_status = 200, rs_json = JNull\<rparr>" example_state]
  show ?thesis by (simp add: example_server_def)
qed

lemma quietly_Inr: "quietly m s = (r, s') \<Longrightarrow> r = Inr ()"
  by (auto simp: quietly_def act_except_def split: prod.splits sum.splits)

text \<open>C37: After a gateway endpoint has been deleted by its id, no permission of a user or a group is left
  under the name that the id had before the request, whoever made the request.\<close>

theorem gateway_delete_forgets:
  assumes "before_request_hook sv rq h = (Inr None, h1)" and "\<not> is_unprotected_route (rq_path rq)"
    and "map_of (BEFORE_REQUEST_VALIDATORS sv) (rq_path rq, rq_method rq) = Some VDeleteGatewayEndpoint"
    and "\<not> sublist ''/mlflow/workspaces'' (rq_path rq)" and "\<not> sublist ''/mlflow/logged-models'' (rq_path rq)"
    and "get_json_force rq = Some (JObject kvs)" and "map_of kvs ''endpoint_id'' = Some i" and "truthy i"
    and "ts_gateway_endpoint_name (sv_tracking sv) i = Inr name" and "name \<noteq> ''''"
    and "handled_as sv sr rq ''DeleteGatewayEndpoint''" and "rs_status resp < 400" and "hs_g h2 = hs_g h1"
    and "after_request_hook sv sr rq resp h2 = Some (r, h3)"
  shows "(\<forall>x \<in> set (db_user_perms (st_db (hs_store h3)) GatewayEndpoint). resource_id_of (up_key x) \<noteq> name) \<and>
    (\<forall>x \<in> set (db_group_perms (st_db (hs_store h3)) GatewayEndpoint). resource_id_of (gp_key x) \<noteq> name)"
proof -
  have "kvs \<noteq> []" using assms(7) by auto
  then have body: "or_empty (get_json_force rq) = JObject kvs" using assms(6) by (simp add: or_empty_def)
  have stash: "stash_gateway_context sv rq (Some VDeleteGatewayEndpoint) h =
      (Inr (), h\<lparr>hs_g := (hs_g h)\<lparr>g_deleting_gateway_endpoint_name := JString name\<rparr>\<rparr>)"
    using assms(7-10) body
    by (simp add: stash_gateway_context_def py_get_def act_lift_def act_bind_def act_when_def stash_def set_g_def
        resolve_endpoint_name_from_id_def resolve_name_def)
  have "before_request_body sv rq h = (Inr None, h1)"
    using assms(1) by (auto simp: before_request_hook_def catch_mlflow_exception_def
        split: prod.splits sum.splits exn.splits)
  then have "hs_g h1 = (hs_g h)\<lparr>g_deleting_gateway_endpoint_name := JString name\<rparr>"
    using assms(2) find_validator_plain [OF assms(4,5), of sv h] assms(3) stash
    by (auto simp: before_request_body_def act_bind_def on_store_def split: option.splits prod.splits if_splits)
  then have g: "g_deleting_gateway_endpoint_name (hs_g h2) = JString name" using assms(13) by simp
  let ?op = "UserPermOp (WipeGateway GatewayEndpoint name)"
  obtain x s' where call: "store_call (sv_store sv) ?op (hs_store h2) = (x, s')" by fastforce
  have db: "st_db s' = group_wipe GatewayEndpoint (user_wipe GatewayEndpoint (st_db (hs_store h2)) name) name"
    and x: "x = Inr ()"
    using store_call_db [OF call]
    by (simp_all add: with_method_def gateway_classes_def wipe_gateway_permissions_def call_total_def act_bind_def
        act_commit_def)
  have wipe: "delete_gateway_endpoint_permissions_cascade sv h2 = (Inr (), h2\<lparr>hs_store := s'\<rparr>)"
    using g call x assms(10)
    by (simp add: delete_gateway_endpoint_permissions_cascade_def wipe_stashed_def act_bind_def act_lift_def
        db_text_def quietly_def act_except_def store_action_def on_store_def)
  have quota: "snd (quota_after sv rq k) = k" for k
    by (auto simp: quota_after_def reconcile_after_artifact_delete_def reconcile_after_run_delete_def
        reconcile_after_experiment_delete_def act_bind_def act_lift_def Let_def split: sum.split)
  have "\<exists>y. after_request_body sv sr rq resp h2 = Some (y, h2\<lparr>hs_store := s'\<rparr>)"
    using assms(12) handler_of [OF assms(11)] wipe quota [of "h2\<lparr>hs_store := s'\<rparr>"]
    by (cases "quota_after sv rq (h2\<lparr>hs_store := s'\<rparr>)"; cases "fst (quota_after sv rq (h2\<lparr>hs_store := s'\<rparr>))")
      (auto simp: after_request_body_def handlers effect_run act_map_def act_bind_def)
  then have "h3 = h2\<lparr>hs_store := s'\<rparr>"
    using assms(14) by (auto simp: after_request_hook_def split: sum.splits exn.splits)
  then show ?thesis using db by (auto simp: group_wipe_def user_wipe_def delete_rows_def)
qed

theorem gateway_delete_forgets_witness:
  "\<exists>h1 r h3. before_request_hook example_server
      ((example_request ''/api/3.0/mlflow/gateway/endpoints/delete'' ''POST'' []
         (Some (JObject [(''endpoint_id'', JString ''e1'')])))\<lparr>rq_auth := Some \<lparr>ac_username = ''bob'', ac_is_admin = True,
           ac_workspace = None\<rparr>\<rparr>) example_state = (Inr None, h1) \<and>
    after_request_hook example_server example_searches
      ((example_request ''/api/3.0/mlflow/gateway/endpoints/delete'' ''POST'' []
         (Some (JObject [(''endpoint_id'', JString ''e1'')])))\<lparr>rq_auth := Some \<lparr>ac_username = ''bob'', ac_is_admin = True,
           ac_workspace = None\<rparr>\<rparr>) \<lparr>rs_status = 200, rs_json = JNull\<rparr> h1 = Some (r, h3) \<and>
    (\<forall>x \<in> set (db_group_perms (st_db (hs_store h3)) GatewayEndpoint). resource_id_of (gp_key x) \<noteq> ''gpt'')"
proof -
  let ?rq = "(example_request ''/api/3.0/mlflow/gateway/endpoints/delete'' ''POST'' []
         (Some (JObject [(''endpoint_id'', JString ''e1'')])))\<lparr>rq_auth := Some \<lparr>ac_username = ''bob'', ac_is_admin = True,
           ac_workspace = None\<rparr>\<rparr>"
  have "fst (before_request_hook example_server ?rq example_state) = Inr None" by code_simp
  then obtain h1 where before: "before_request_hook example_server ?rq example_state = (Inr None, h1)"
    by (cases "before_request_hook example_server ?rq example_state") auto
  have 1: "\<not> is_unprotected_route (rq_path ?rq)"
    "map_of (BEFORE_REQUEST_VALIDATORS example_server) (rq_path ?rq, rq_method ?rq) = Some VDeleteGatewayEndpoint"
    "\<not> sublist ''/mlflow/workspaces'' (rq_path ?rq)" "\<not> sublist ''/mlflow/logged-models'' (rq_path ?rq)"
    "get_json_force ?rq = Some (JObject [(''endpoint_id'', JString ''e1'')])"
    "map_of [(''endpoint_id'', JString ''e1'')] ''endpoint_id'' = Some (JString ''e1'')" "truthy (JString ''e1'')"
    "ts_gateway_endpoint_name (sv_tracking example_server) (JString ''e1'') = Inr ''gpt''" "''gpt'' \<noteq> ''''"
    "handled_as example_server example_searches ?rq ''DeleteGatewayEndpoint''"
    by code_simp+
  let ?resp = "\<lparr>rs_status = 200, rs_json = JNull\<rparr>"
  have "after_request_hook example_server example_searches ?rq ?resp h1 \<noteq> None"
    using handler_of [OF 1(10)]
    by (auto simp: after_request_hook_def after_request_body_def handlers effect_run
        split: sum.splits exn.splits prod.splits option.splits)
  then obtain r h3 where after: "after_request_hook example_server example_searches ?rq ?resp h1 = Some (r, h3)" by auto
  note gone = gateway_delete_forgets [OF before 1 _ refl after]
  show ?thesis
    by (rule exI, rule exI, rule exI, intro conjI, rule before, rule after, rule conjunct2 [OF gone]) simp
qed

text \<open>After the creation of an experiment the user who created it, and had no permission on it, has
  MANAGE on it, and nobody's permissions on other experiments have changed.\<close>

theorem creator_gets_manage:
  assumes "handled_as sv sr rq ''CreateExperiment''" and "rs_status resp < 400"
    and "proto_string (rs_json resp) [''experiment_id''] = Inr i" and "get_fastapi_username rq = Inr u"
    and "db_wf (st_db (hs_store h))" and "user_exists (st_db (hs_store h)) u"
    and "user_perm_lookup Experiment (st_db (hs_store h)) (ResourceId i) u = None"
    and "after_request_hook sv sr rq resp h = Some (r, h')"
  shows "user_perm_lookup Experiment (st_db (hs_store h')) (ResourceId i) u = Some ''MANAGE'' \<and>
    (\<forall>k n. (k, n) \<noteq> (ResourceId i, u) \<longrightarrow>
       user_perm_lookup Experiment (st_db (hs_store h')) k n = user_perm_lookup Experiment (st_db (hs_store h)) k n)"
proof -
  let ?db = "st_db (hs_store h)"
  let ?op = "UserPermOp (CreatePermission Experiment i u MANAGE_name)"
  have valid: "valid_permission MANAGE_name"
    by (simp add: MANAGE_name_def valid_permission_def ALL_PERMISSIONS_def)
  from user_grant_permission_refines [OF assms(5), of Experiment "ResourceId i" u MANAGE_name]
  have "step_refines db_wf user_exists (user_perm_lookup Experiment) ?db
      (result_state (user_grant_permission Experiment ?db (ResourceId i) u MANAGE_name))
      (Inr (perm_upd (user_perm_lookup Experiment ?db) (ResourceId i) u (Some MANAGE_name)))"
    using valid assms(6,7) by simp
  from step_refines_Inr [OF this] obtain db' where
    grant: "result_state (user_grant_permission Experiment ?db (ResourceId i) u MANAGE_name) = Inr db'" and
    db': "user_perm_lookup Experiment db' = perm_upd (user_perm_lookup Experiment ?db) (ResourceId i) u (Some MANAGE_name)"
    by blast
  obtain x s' where call: "store_call (sv_store sv) ?op (hs_store h) = (x, s')" by fastforce
  have s': "st_db s' = db'" and x: "x = Inr ()"
    using store_call_db [OF call] grant
    by (simp_all add: with_method_def direct_classes_def call_def act_commit_def)
  have "set_can_manage_experiment_permission sv rq resp h = (Inr (), h\<lparr>hs_store := s'\<rparr>)"
    using assms(3,4) call x
    by (simp add: set_can_manage_experiment_permission_def grant_creator_def act_bind_def act_lift_def
        store_action_def on_store_def)
  then have run: "after_request_body sv sr rq resp h = Some (act_map (\<lambda>owner. (resp, owner)) (quota_after sv rq) (h\<lparr>hs_store := s'\<rparr>))"
    using assms(2) handler_of [OF assms(1)]
    by (simp add: after_request_body_def handlers effect_run act_map_def act_bind_def)
  have quota: "snd (act_map f (quota_after sv rq) k) = k" for f :: "string option \<Rightarrow> response \<times> string option" and k
    by (auto simp: quota_after_def reconcile_after_artifact_delete_def reconcile_after_run_delete_def
        reconcile_after_experiment_delete_def act_map_def act_bind_def act_lift_def Let_def split: sum.split)
  have "h' = h\<lparr>hs_store := s'\<rparr>"
    using assms(8) run quota [of "\<lambda>owner. (resp, owner)" "h\<lparr>hs_store := s'\<rparr>"]
    by (cases "act_map (\<lambda>owner. (resp, owner)) (quota_after sv rq) (h\<lparr>hs_store := s'\<rparr>)")
      (auto simp: after_request_hook_def split: sum.splits exn.splits)
  with s' db' show ?thesis by (simp add: perm_upd_def MANAGE_name_def MANAGE_def)
qed

definition create_request :: request where
  "create_request = example_request ''/api/2.0/mlflow/experiments/create'' ''POST'' []
     (Some (JObject [(''name'', JString ''new'')]))"

definition create_server :: server where
  "create_server = example_server
     \<lparr>sv_endpoints := [(''/api/2.0/mlflow/experiments/create'', Some ''CreateExperiment'', [''POST''])]\<rparr>"

theorem creator_gets_manage_witness:
  "\<exists>r h'. after_request_hook create_server example_searches create_request
      \<lparr>rs_status = 200, rs_json = JObject [(''experiment_id'', JString ''77'')]\<rparr> example_state = Some (r, h') \<and>
    user_perm_lookup Experiment (st_db (hs_store h')) (ResourceId ''77'') ''alice'' = Some ''MANAGE''"
proof -
  let ?resp = "\<lparr>rs_status = 200, rs_json = JObject [(''experiment_id'', JString ''77'')]\<rparr>"
  have 1: "handled_as create_server example_searches create_request ''CreateExperiment''"
    "rs_status ?resp < 400" "proto_string (rs_json ?resp) [''experiment_id''] = Inr ''77''"
    "get_fastapi_username create_request = Inr ''alice''"
    by code_simp+
  have 2: "db_wf (st_db (hs_store example_state))" by (simp add: example_state_def example_db_wf)
  have 3: "user_exists (st_db (hs_store example_state)) ''alice''"
    by (simp add: example_state_def user_exists_def)
  have 4: "user_perm_lookup Experiment (st_db (hs_store example_state)) (ResourceId ''77'') ''alice'' = None"
    by code_simp
  have "after_request_hook create_server example_searches create_request ?resp example_state \<noteq> None"
    using handler_of [OF 1(1)]
    by (auto simp: after_request_hook_def after_request_body_def handlers effect_run
        split: sum.splits exn.splits prod.splits option.splits)
  then obtain r h' where after: "after_request_hook create_server example_searches create_request ?resp example_state =
      Some (r, h')" by auto
  from creator_gets_manage [OF 1 2 3 4 after] after show ?thesis by blast
qed

end
