(* ===== verification/DataFetching.thy ===== *)
theory DataFetching
  imports BatchResolve
begin

text \<open>
  \<^verbatim>\<open>utils/data_fetching.py\<close>: the loops that read all pages of MLflow's searches, and the same
  with only what a user can read. A loop ends when a page has no token of a next page, so it
  need not end: not ending is \<open>None\<close>.
\<close>

section \<open>MLflow's searches\<close>

text \<open>
  A search takes the page token (and the arguments that every page repeats) and gives the items
  of the page and the token of the next. A registered model is its name, an experiment its id
  and name, a logged model the id of its experiment with its own.
\<close>

type_synonym 'a paged = "string option \<Rightarrow> ('a list \<times> string option) result"

record search_args =
  sa_filter_string :: "string option"
  sa_order_by :: "string list option"
  sa_max_results :: nat

record mlflow_stores =
  ms_search_registered_models :: "search_args \<Rightarrow> string paged"
  ms_search_experiments :: "nat \<Rightarrow> search_args \<Rightarrow> (string \<times> string) paged"
  ms_search_logged_models :: "string list \<Rightarrow> search_args \<Rightarrow> (string \<times> string) paged"
  ms_list_gateway_endpoints :: "json_object list result"
  ms_list_secret_infos :: "json_object list result"
  ms_list_gateway_model_definitions :: "json_object list result"

section \<open>All pages\<close>

definition next_token :: "string option \<Rightarrow> string option" where
  "next_token token = (case token of Some t \<Rightarrow> if t = '''' then None else Some t | None \<Rightarrow> None)"

partial_function (option) fetch_pages :: "'a paged \<Rightarrow> string option \<Rightarrow> 'a list \<Rightarrow> 'a list result option" where
  "fetch_pages search page_token acc =
     (case search page_token of
        Inl e \<Rightarrow> Some (Inl e)
      | Inr (result, token) \<Rightarrow>
          (case next_token token of
             Some t \<Rightarrow> fetch_pages search (Some t) (acc @ result)
           | None \<Rightarrow> Some (Inr (acc @ result))))"

declare fetch_pages.simps [code]

definition fetch_all_registered_models :: "mlflow_stores \<Rightarrow> string option \<Rightarrow> string list option \<Rightarrow> nat \<Rightarrow>
    string list result option" where
  "fetch_all_registered_models ms filter_string order_by max_results_per_page =
     fetch_pages (ms_search_registered_models ms
       \<lparr>sa_filter_string = filter_string, sa_order_by = order_by, sa_max_results = max_results_per_page\<rparr>)
       None []"

definition fetch_all_experiments :: "mlflow_stores \<Rightarrow> nat \<Rightarrow> nat \<Rightarrow> string list option \<Rightarrow> string option \<Rightarrow>
    (string \<times> string) list result option" where
  "fetch_all_experiments ms view_type max_results_per_page order_by filter_string =
     fetch_pages (ms_search_experiments ms view_type
       \<lparr>sa_filter_string = filter_string, sa_order_by = order_by, sa_max_results = max_results_per_page\<rparr>)
       None []"

definition fetch_all_prompts :: "mlflow_stores \<Rightarrow> nat \<Rightarrow> string list result option" where
  "fetch_all_prompts ms max_results_per_page =
     fetch_all_registered_models ms
       (Some (''tags.`mlflow.prompt.is_prompt` = '' @ [CHR 0x27] @ ''true'' @ [CHR 0x27])) None
       max_results_per_page"

definition fetch_registered_models_paginated where
  "fetch_registered_models_paginated ms filter_string max_results order_by page_token =
     ms_search_registered_models ms
       \<lparr>sa_filter_string = filter_string, sa_order_by = order_by, sa_max_results = max_results\<rparr> page_token"

definition fetch_experiments_paginated where
  "fetch_experiments_paginated ms view_type max_results order_by filter_string page_token =
     ms_search_experiments ms view_type
       \<lparr>sa_filter_string = filter_string, sa_order_by = order_by, sa_max_results = max_results\<rparr> page_token"

section \<open>What a user can read\<close>

text \<open>\<^verbatim>\<open>[x for x in xs if check(x)]\<close> with a check that may raise and fills the caches.\<close>

fun filterM_action :: "('a \<Rightarrow> (bool, 's) action) \<Rightarrow> 'a list \<Rightarrow> ('a list, 's) action" where
  "filterM_action check [] = act_return []"
| "filterM_action check (x # xs) =
     act_bind (check x) (\<lambda>ok.
     act_bind (filterM_action check xs) (\<lambda>ys. act_return (if ok then x # ys else ys)))"

definition fetched_then :: "'a result option \<Rightarrow> ('a \<Rightarrow> ('b, 's) action) \<Rightarrow> 's \<Rightarrow> ('b result \<times> 's) option" where
  "fetched_then fetched f s =
     (case fetched of
        None \<Rightarrow> None
      | Some (Inl e) \<Rightarrow> Some (Inl e, s)
      | Some (Inr x) \<Rightarrow> Some (f x s))"

definition fetch_readable_experiments where
  "fetch_readable_experiments ms config env db ws username view_type max_results_per_page order_by
     filter_string =
     fetched_then (fetch_all_experiments ms view_type max_results_per_page order_by filter_string)
       (filterM_action (\<lambda>experiment. can_read_experiment config env db ws (fst experiment) username))"

definition fetch_readable_registered_models where
  "fetch_readable_registered_models ms config env db ws username filter_string order_by
     max_results_per_page =
     fetched_then (fetch_all_registered_models ms filter_string order_by max_results_per_page)
       (filterM_action (\<lambda>name. can_read_registered_model config env db ws name username))"

text \<open>Logged models go by the direct permissions of the user on their experiments, else the default.\<close>

definition fetch_readable_logged_models :: "mlflow_stores \<Rightarrow> auth_config \<Rightarrow> db \<Rightarrow> string \<Rightarrow>
    string list option \<Rightarrow> string option \<Rightarrow> string list option \<Rightarrow> nat \<Rightarrow> (string \<times> string) list result option" where
  "fetch_readable_logged_models ms config db username experiment_ids filter_string order_by
     max_results_per_page =
     (case bind_result (user_list_permissions_for_user Experiment db username) (\<lambda>perms.
           bind_result (mapM_result (\<lambda>p. bind_result (get_permission (pe_permission p)) (\<lambda>q.
                          Inr (resource_id_of (pe_key p), can_read q))) perms) (\<lambda>can_read_perms.
           bind_result (get_permission (DEFAULT_MLFLOW_PERMISSION config)) (\<lambda>dflt.
           Inr (dict_of can_read_perms, can_read dflt)))) of
        Inl e \<Rightarrow> Some (Inl e)
      | Inr (can_read_perms, default_can_read) \<Rightarrow>
          fetch_pages (\<lambda>page_token.
            bind_result (ms_search_logged_models ms (case experiment_ids of Some is \<Rightarrow> is | None \<Rightarrow> [])
              \<lparr>sa_filter_string = filter_string, sa_order_by = order_by,
                sa_max_results = max_results_per_page\<rparr> page_token) (\<lambda>(result, token).
            Inr (filter (\<lambda>model. case can_read_perms (fst model) of
                                    Some r \<Rightarrow> r | None \<Rightarrow> default_can_read) result, token)))
            None [])"

definition fetch_all_gateway_endpoints :: "mlflow_stores \<Rightarrow> json_object list result" where
  "fetch_all_gateway_endpoints ms = ms_list_gateway_endpoints ms"

definition fetch_all_gateway_secrets :: "mlflow_stores \<Rightarrow> json_object list result" where
  "fetch_all_gateway_secrets ms = ms_list_secret_infos ms"

definition fetch_all_gateway_model_definitions :: "mlflow_stores \<Rightarrow> json_object list result" where
  "fetch_all_gateway_model_definitions ms = ms_list_gateway_model_definitions ms"

section \<open>The loops\<close>

text \<open>
  A search that gives the items of one list in pages: the pages that follow from a token, until
  one without a token.
\<close>

inductive pages :: "'a paged \<Rightarrow> string option \<Rightarrow> 'a list \<Rightarrow> bool" for search where
  last_page: "search t = Inr (xs, token) \<Longrightarrow> next_token token = None \<Longrightarrow> pages search t xs"
| more_pages: "search t = Inr (xs, token) \<Longrightarrow> next_token token = Some t' \<Longrightarrow>
    pages search (Some t') ys \<Longrightarrow> pages search t (xs @ ys)"

inductive_cases pagesE: "pages search t xs"

lemma fetch_pages_pages:
  "pages search t xs \<Longrightarrow> fetch_pages search t acc = Some (Inr (acc @ xs))"
proof (induction arbitrary: acc rule: pages.induct)
  case (last_page t xs token)
  then show ?case by (subst fetch_pages.simps) simp
next
  case (more_pages t xs token t' ys)
  then show ?case by (subst fetch_pages.simps) simp
qed

lemma fetch_pages_result:
  assumes "fetch_pages search0 t0 acc0 = Some r0"
  shows "\<forall>zs. r0 = Inr zs \<longrightarrow> (\<exists>xs. zs = acc0 @ xs \<and> pages search0 t0 xs)"
proof (rule fetch_pages.raw_induct [OF _ assms, where P = "\<lambda>search t acc r.
    \<forall>zs. r = Inr zs \<longrightarrow> (\<exists>xs. zs = acc @ xs \<and> pages search t xs)"])
  fix fetch :: "'a paged \<Rightarrow> string option \<Rightarrow> 'a list \<Rightarrow> 'a list result option" and search t acc r
  assume IH: "\<And>search t acc r. fetch search t acc = Some r \<Longrightarrow>
      \<forall>zs. r = Inr zs \<longrightarrow> (\<exists>xs. zs = acc @ xs \<and> pages search t xs)"
    and body: "(case search t of Inl e \<Rightarrow> Some (Inl e)
      | Inr (result, token) \<Rightarrow>
          (case next_token token of
             None \<Rightarrow> Some (Inr (acc @ result))
           | Some t' \<Rightarrow> fetch search (Some t') (acc @ result))) = Some r"
  show "\<forall>zs. r = Inr zs \<longrightarrow> (\<exists>xs. zs = acc @ xs \<and> pages search t xs)"
  proof (cases "search t")
    case (Inl e)
    then show ?thesis using body by auto
  next
    case (Inr p)
    obtain xs token where p: "p = (xs, token)" by (cases p)
    show ?thesis
    proof (cases "next_token token")
      case None
      then have "pages search t xs" using Inr p by (intro last_page) simp_all
      then show ?thesis using body Inr p None by auto
    next
      case (Some t')
      then have "fetch search (Some t') (acc @ xs) = Some r" using body Inr p by simp
      from IH [OF this] have ih: "\<exists>ys. zs = (acc @ xs) @ ys \<and> pages search (Some t') ys" if "r = Inr zs" for zs
        using that by blast
      have "pages search t (xs @ ys)" if "pages search (Some t') ys" for ys
        using Inr p Some that by (intro more_pages) simp_all
      with ih show ?thesis by (metis append.assoc)
    qed
  qed
qed

lemma fetch_pages_Some:
  "fetch_pages search t acc = Some (Inr zs) \<Longrightarrow> \<exists>xs. zs = acc @ xs \<and> pages search t xs"
  using fetch_pages_result by blast

text \<open>A search whose tokens lead towards an end is read to the end.\<close>

lemma fetch_pages_terminates:
  assumes "\<And>t xs token t'. search t = Inr (xs, token) \<Longrightarrow> next_token token = Some t' \<Longrightarrow>
    (rank (Some t') :: nat) < rank t"
  shows "\<exists>r. fetch_pages search t acc = Some r"
proof (induction "rank t" arbitrary: t acc rule: less_induct)
  case less
  show ?case
  proof (cases "search t")
    case (Inl e)
    then show ?thesis by (subst fetch_pages.simps) simp
  next
    case (Inr p)
    obtain xs token where p: "p = (xs, token)" by (cases p)
    show ?thesis
    proof (cases "next_token token")
      case None
      then show ?thesis using Inr p by (subst fetch_pages.simps) simp
    next
      case (Some t')
      have "rank (Some t') < rank t" using Inr p Some by (intro assms) simp_all
      from less [OF this, of "acc @ xs"] show ?thesis using Inr p Some by (subst fetch_pages.simps) simp
    qed
  qed
qed

end
