(* ===== verification/Entities.thy ===== *)
theory Entities
  imports Request Database
begin

text \<open>
  The entities of \<^verbatim>\<open>entities/*.py\<close> and their conversions to and from dictionaries. A field
  that the code copies without looking at it is a JSON value; the ids of users and groups are
  converted to integers when a dictionary is read. A dictionary is a \<open>JObject\<close>.
\<close>

section \<open>Python's integers as texts\<close>

text \<open>
  \<^verbatim>\<open>int(s)\<close>: white space around, a sign, digits with single underscores between them, at most
  4300 of them. \<open>None\<close> is the ValueError. \<open>show_nat\<close> is \<^verbatim>\<open>str(n)\<close>.
\<close>

definition digit_char :: "char \<Rightarrow> bool" where
  "digit_char c \<longleftrightarrow> 48 \<le> (of_char c :: nat) \<and> (of_char c :: nat) \<le> 57"

definition digit_value :: "char \<Rightarrow> int" where
  "digit_value c = int (of_char c) - 48"

fun read_digits :: "int \<Rightarrow> string \<Rightarrow> int option" where
  "read_digits acc [] = Some acc"
| "read_digits acc (c # cs) =
     (if digit_char c then read_digits (10 * acc + digit_value c) cs
      else if c = CHR ''_'' \<and> cs \<noteq> [] \<and> digit_char (hd cs) then read_digits acc cs
      else None)"

definition read_natural :: "string \<Rightarrow> int option" where
  "read_natural s =
     (if s \<noteq> [] \<and> digit_char (hd s) \<and> length (filter digit_char s) \<le> 4300
      then read_digits 0 s else None)"

definition py_strip :: "string \<Rightarrow> string" where
  "py_strip s = rev (dropWhile py_space (rev (dropWhile py_space s)))"

definition py_int :: "string \<Rightarrow> int option" where
  "py_int s =
     (case py_strip s of
        [] \<Rightarrow> None
      | c # cs \<Rightarrow>
          if c = CHR ''-'' then map_option uminus (read_natural cs)
          else if c = CHR ''+'' then read_natural cs
          else read_natural (c # cs))"

fun show_nat :: "nat \<Rightarrow> string" where
  "show_nat n =
     (if n < 10 then [char_of (48 + n)] else show_nat (n div 10) @ [char_of (48 + n mod 10)])"

declare show_nat.simps [simp del]

lemma digit_of [simp]:
  assumes "d < 10"
  shows "digit_char (char_of (48 + d))" and "digit_value (char_of (48 + d)) = int d"
    and "\<not> py_space (char_of (48 + d))" and "char_of (48 + d) \<noteq> CHR ''-''" and "char_of (48 + d) \<noteq> CHR ''+''"
proof -
  have d: "of_char (char_of (48 + d) :: char) = 48 + d" using assms by simp
  show "digit_char (char_of (48 + d))" "digit_value (char_of (48 + d)) = int d"
    using assms by (simp_all add: digit_char_def digit_value_def d)
  show "\<not> py_space (char_of (48 + d))"
    unfolding py_space_def d using assms by auto
  have "of_char (CHR ''-'') = (45 :: nat)" "of_char (CHR ''+'') = (43 :: nat)" by simp_all
  with d show "char_of (48 + d) \<noteq> CHR ''-''" "char_of (48 + d) \<noteq> CHR ''+''" by fastforce+
qed

lemma show_nat_rec:
  "n < 10 \<Longrightarrow> show_nat n = [char_of (48 + n)]"
  "\<not> n < 10 \<Longrightarrow> show_nat n = show_nat (n div 10) @ [char_of (48 + n mod 10)]"
  by (subst show_nat.simps, simp)+

lemma show_nat_digits: "list_all digit_char (show_nat n)" "show_nat n \<noteq> []"
proof (induction n rule: show_nat.induct)
  case (1 n)
  show "list_all digit_char (show_nat n)" "show_nat n \<noteq> []"
    using 1 by (cases "n < 10"; simp add: show_nat_rec)+
qed

lemma read_digits_append:
  "list_all digit_char xs \<Longrightarrow> read_digits acc xs = Some v \<Longrightarrow> digit_char c \<Longrightarrow>
    read_digits acc (xs @ [c]) = Some (10 * v + digit_value c)"
  by (induction acc xs rule: read_digits.induct) auto

lemma read_digits_show_nat: "read_digits 0 (show_nat n) = Some (int n)"
proof (induction n rule: show_nat.induct)
  case (1 n)
  show ?case
  proof (cases "n < 10")
    case True
    then show ?thesis by (simp add: show_nat_rec)
  next
    case False
    have "read_digits 0 (show_nat (n div 10) @ [char_of (48 + n mod 10)]) =
        Some (10 * int (n div 10) + digit_value (char_of (48 + n mod 10)))"
      by (rule read_digits_append) (use 1 False show_nat_digits in simp_all)
    also have "10 * int (n div 10) + digit_value (char_of (48 + n mod 10)) = int n"
      by (simp del: of_nat_add of_nat_mult) presburger
    finally show ?thesis using False by (simp add: show_nat_rec)
  qed
qed

text \<open>A number of at most 4300 digits is read back from the text it is shown as.\<close>

lemma py_int_show_nat:
  assumes "length (show_nat n) \<le> 4300"
  shows "py_int (show_nat n) = Some (int n)"
proof -
  have digit: "\<not> py_space c" "c \<noteq> CHR ''-''" "c \<noteq> CHR ''+''" if "digit_char c" for c
    using that by (auto simp: digit_char_def py_space_def)
  have all: "list_all digit_char (show_nat n)" by (rule show_nat_digits)
  have id: "dropWhile py_space xs = xs" if "list_all digit_char xs" for xs
    using that digit(1) by (cases xs) auto
  have "list_all digit_char (rev (show_nat n))" using all by (simp add: list_all_iff)
  then have strip: "py_strip (show_nat n) = show_nat n"
    using all by (simp add: py_strip_def id)
  have len: "length (filter digit_char (show_nat n)) \<le> 4300"
    using assms le_trans length_filter_le by blast
  obtain c cs where cs: "show_nat n = c # cs" using show_nat_digits(2) [of n] by (cases "show_nat n") auto
  have "digit_char c" using all by (simp add: cs)
  then have "py_int (show_nat n) = read_natural (show_nat n)"
    using digit(2,3) [of c] by (simp add: py_int_def strip [unfolded cs] cs)
  also have "\<dots> = Some (int n)"
    using len read_digits_show_nat [of n] \<open>digit_char c\<close> by (simp add: read_natural_def cs)
  finally show ?thesis .
qed

section \<open>Dictionaries\<close>

type_synonym dict = "(string \<times> json) list"

definition dict_get :: "dict \<Rightarrow> string \<Rightarrow> json" where
  "dict_get d key = (case map_of d key of Some v \<Rightarrow> v | None \<Rightarrow> JNull)"

definition dict_item :: "dict \<Rightarrow> string \<Rightarrow> json result" where
  "dict_item d key = (case map_of d key of Some v \<Rightarrow> Inr v | None \<Rightarrow> Inl KeyError)"

definition as_dict :: "json \<Rightarrow> dict result" where
  "as_dict v = (case v of JObject d \<Rightarrow> Inr d | _ \<Rightarrow> Inl OtherError)"

text \<open>\<^verbatim>\<open>int(v)\<close>, whose TypeError and ValueError both become a ValueError.\<close>

definition int_of_json :: "json \<Rightarrow> int result" where
  "int_of_json v =
     (case v of
        JString s \<Rightarrow> (case py_int s of Some i \<Rightarrow> Inr i | None \<Rightarrow> Inl ValueError)
      | JNumber q \<Rightarrow> Inr (if q < 0 then \<lceil>q\<rceil> else \<lfloor>q\<rfloor>)
      | JBool b \<Rightarrow> Inr (if b then 1 else 0)
      | _ \<Rightarrow> Inl ValueError)"

definition optional_id :: "json \<Rightarrow> int option result" where
  "optional_id v = (if v = JNull then Inr None else bind_result (int_of_json v) (\<lambda>i. Inr (Some i)))"

definition json_int :: "int \<Rightarrow> json" where
  "json_int i = JNumber (of_int i)"

definition json_id :: "int option \<Rightarrow> json" where
  "json_id v = (case v of Some i \<Rightarrow> json_int i | None \<Rightarrow> JNull)"

section \<open>Permissions\<close>

record permission_base =
  pb_instance :: json
  pb_permission :: json
  pb_user_id :: "int option"
  pb_group_id :: "int option"

definition permission_base_to_json :: "permission_base \<Rightarrow> dict" where
  "permission_base_to_json e =
     [(''instance'', pb_instance e), (''permission'', pb_permission e),
      (''user_id'', json_id (pb_user_id e)), (''group_id'', json_id (pb_group_id e))]"

text \<open>\<^verbatim>\<open>d[key] = d.pop("instance")\<close>\<close>

definition rename_instance :: "string \<Rightarrow> dict \<Rightarrow> dict" where
  "rename_instance key d =
     filter (\<lambda>kv. fst kv \<noteq> ''instance'') d @ [(key, dict_get d ''instance'')]"

definition keyed_from_json :: "string \<Rightarrow> dict \<Rightarrow> permission_base result" where
  "keyed_from_json key d =
     bind_result (optional_id (dict_get d ''user_id'')) (\<lambda>user_id.
     bind_result (optional_id (dict_get d ''group_id'')) (\<lambda>group_id.
     bind_result (dict_item d key) (\<lambda>instance_id.
     bind_result (dict_item d ''permission'') (\<lambda>permission.
     Inr \<lparr>pb_instance = instance_id, pb_permission = permission, pb_user_id = user_id,
          pb_group_id = group_id\<rparr>))))"

definition experiment_permission_to_json :: "permission_base \<Rightarrow> dict" where
  "experiment_permission_to_json e = rename_instance ''experiment_id'' (permission_base_to_json e)"

definition experiment_permission_from_json :: "dict \<Rightarrow> permission_base result" where
  "experiment_permission_from_json = keyed_from_json ''experiment_id''"

definition gateway_endpoint_permission_to_json :: "permission_base \<Rightarrow> dict" where
  "gateway_endpoint_permission_to_json e = rename_instance ''endpoint_id'' (permission_base_to_json e)"

definition gateway_endpoint_permission_from_json :: "dict \<Rightarrow> permission_base result" where
  "gateway_endpoint_permission_from_json = keyed_from_json ''endpoint_id''"

definition gateway_secret_permission_to_json :: "permission_base \<Rightarrow> dict" where
  "gateway_secret_permission_to_json e = rename_instance ''secret_id'' (permission_base_to_json e)"

definition gateway_secret_permission_from_json :: "dict \<Rightarrow> permission_base result" where
  "gateway_secret_permission_from_json = keyed_from_json ''secret_id''"

definition gateway_model_definition_permission_to_json :: "permission_base \<Rightarrow> dict" where
  "gateway_model_definition_permission_to_json e =
     rename_instance ''model_definition_id'' (permission_base_to_json e)"

definition gateway_model_definition_permission_from_json :: "dict \<Rightarrow> permission_base result" where
  "gateway_model_definition_permission_from_json = keyed_from_json ''model_definition_id''"

record model_permission_object =
  mo_name :: json
  mo_permission :: json
  mo_user_id :: "int option"
  mo_group_id :: "int option"
  mo_prompt :: bool

definition registered_model_permission_to_json :: "model_permission_object \<Rightarrow> dict" where
  "registered_model_permission_to_json e =
     [(''name'', mo_name e), (''user_id'', json_id (mo_user_id e)), (''permission'', mo_permission e),
      (''group_id'', json_id (mo_group_id e)), (''prompt'', JBool (mo_prompt e))]"

definition registered_model_permission_from_json :: "dict \<Rightarrow> model_permission_object result" where
  "registered_model_permission_from_json d =
     bind_result (optional_id (dict_get d ''user_id'')) (\<lambda>user_id.
     bind_result (optional_id (dict_get d ''group_id'')) (\<lambda>group_id.
     bind_result (dict_item d ''name'') (\<lambda>name.
     bind_result (dict_item d ''permission'') (\<lambda>permission.
     Inr \<lparr>mo_name = name, mo_permission = permission, mo_user_id = user_id, mo_group_id = group_id,
          mo_prompt = truthy (dict_get d ''prompt'')\<rparr>))))"

record scorer_permission_object =
  so_experiment_id :: json
  so_scorer_name :: json
  so_permission :: json
  so_user_id :: json
  so_group_id :: json

definition scorer_permission_to_json :: "scorer_permission_object \<Rightarrow> dict" where
  "scorer_permission_to_json e =
     [(''experiment_id'', so_experiment_id e), (''scorer_name'', so_scorer_name e),
      (''permission'', so_permission e), (''user_id'', so_user_id e), (''group_id'', so_group_id e)]"

definition scorer_permission_from_json :: "dict \<Rightarrow> scorer_permission_object result" where
  "scorer_permission_from_json d =
     bind_result (dict_item d ''experiment_id'') (\<lambda>experiment_id.
     bind_result (dict_item d ''scorer_name'') (\<lambda>scorer_name.
     bind_result (dict_item d ''permission'') (\<lambda>permission.
     Inr \<lparr>so_experiment_id = experiment_id, so_scorer_name = scorer_name, so_permission = permission,
          so_user_id = dict_get d ''user_id'', so_group_id = dict_get d ''group_id''\<rparr>)))"

section \<open>Patterns\<close>

record regex_base =
  rb_id :: json
  rb_regex :: json
  rb_priority :: json
  rb_permission :: json
  rb_user_id :: "int option"
  rb_group_id :: "int option"

definition regex_base_to_json :: "regex_base \<Rightarrow> dict" where
  "regex_base_to_json e =
     filter (\<lambda>kv. snd kv \<noteq> JNull)
       [(''id'', rb_id e), (''regex'', rb_regex e), (''priority'', rb_priority e),
        (''permission'', rb_permission e), (''user_id'', json_id (rb_user_id e)),
        (''group_id'', json_id (rb_group_id e))]"

definition required_field :: "dict \<Rightarrow> string \<Rightarrow> json result" where
  "required_field d key = (case dict_item d key of Inr v \<Rightarrow> Inr v | Inl _ \<Rightarrow> Inl ValueError)"

definition regex_base_from_json :: "dict \<Rightarrow> regex_base result" where
  "regex_base_from_json d =
     bind_result (required_field d ''id'') (\<lambda>i.
     bind_result (required_field d ''regex'') (\<lambda>regex.
     bind_result (required_field d ''priority'') (\<lambda>priority.
     bind_result (required_field d ''permission'') (\<lambda>permission.
     bind_result (optional_id (dict_get d ''user_id'')) (\<lambda>user_id.
     bind_result (optional_id (dict_get d ''group_id'')) (\<lambda>group_id.
     Inr \<lparr>rb_id = i, rb_regex = regex, rb_priority = priority, rb_permission = permission,
          rb_user_id = user_id, rb_group_id = group_id\<rparr>))))))"

text \<open>The readers of the classes: the owner is a user or a group, the permission is required
  (\<^verbatim>\<open>d["permission"]\<close>) or not (\<^verbatim>\<open>d.get("permission")\<close>).\<close>

definition user_regex_from_json :: "bool \<Rightarrow> dict \<Rightarrow> regex_base result" where
  "user_regex_from_json permission_required d =
     bind_result (optional_id (dict_get d ''user_id'')) (\<lambda>user_id.
     bind_result (dict_item d ''id'') (\<lambda>i.
     bind_result (dict_item d ''regex'') (\<lambda>regex.
     bind_result (dict_item d ''priority'') (\<lambda>priority.
     bind_result (if permission_required then dict_item d ''permission''
                  else Inr (dict_get d ''permission'')) (\<lambda>permission.
     Inr \<lparr>rb_id = i, rb_regex = regex, rb_priority = priority, rb_permission = permission,
          rb_user_id = user_id, rb_group_id = None\<rparr>)))))"

definition group_regex_from_json :: "bool \<Rightarrow> dict \<Rightarrow> regex_base result" where
  "group_regex_from_json permission_required d =
     bind_result (optional_id (dict_get d ''group_id'')) (\<lambda>group_id.
     bind_result (dict_item d ''id'') (\<lambda>i.
     bind_result (dict_item d ''regex'') (\<lambda>regex.
     bind_result (dict_item d ''priority'') (\<lambda>priority.
     bind_result (if permission_required then dict_item d ''permission''
                  else Inr (dict_get d ''permission'')) (\<lambda>permission.
     Inr \<lparr>rb_id = i, rb_regex = regex, rb_priority = priority, rb_permission = permission,
          rb_user_id = None, rb_group_id = group_id\<rparr>)))))"

definition experiment_regex_from_json :: "dict \<Rightarrow> regex_base result" where
  "experiment_regex_from_json = user_regex_from_json False"

definition experiment_group_regex_from_json :: "dict \<Rightarrow> regex_base result" where
  "experiment_group_regex_from_json = group_regex_from_json True"

definition gateway_endpoint_regex_from_json :: "dict \<Rightarrow> regex_base result" where
  "gateway_endpoint_regex_from_json = user_regex_from_json False"

definition gateway_endpoint_group_regex_from_json :: "dict \<Rightarrow> regex_base result" where
  "gateway_endpoint_group_regex_from_json = group_regex_from_json False"

definition gateway_secret_regex_from_json :: "dict \<Rightarrow> regex_base result" where
  "gateway_secret_regex_from_json = user_regex_from_json False"

definition gateway_secret_group_regex_from_json :: "dict \<Rightarrow> regex_base result" where
  "gateway_secret_group_regex_from_json = group_regex_from_json False"

definition gateway_model_definition_regex_from_json :: "dict \<Rightarrow> regex_base result" where
  "gateway_model_definition_regex_from_json = user_regex_from_json False"

definition gateway_model_definition_group_regex_from_json :: "dict \<Rightarrow> regex_base result" where
  "gateway_model_definition_group_regex_from_json = group_regex_from_json False"

definition workspace_regex_from_json :: "dict \<Rightarrow> regex_base result" where
  "workspace_regex_from_json = user_regex_from_json False"

definition workspace_group_regex_from_json :: "dict \<Rightarrow> regex_base result" where
  "workspace_group_regex_from_json = group_regex_from_json True"

text \<open>The patterns of registered models carry the prompt flag beside the fields of the base.\<close>

definition model_regex_to_json :: "regex_base \<times> bool \<Rightarrow> dict" where
  "model_regex_to_json e = regex_base_to_json (fst e) @ [(''prompt'', JBool (snd e))]"

definition model_group_regex_to_json :: "regex_base \<times> bool \<Rightarrow> dict" where
  "model_group_regex_to_json e = regex_base_to_json (fst e) @ [(''prompt'', JBool (snd e))]"

definition model_regex_from_json :: "dict \<Rightarrow> (regex_base \<times> bool) result" where
  "model_regex_from_json d =
     bind_result (user_regex_from_json True d) (\<lambda>e. Inr (e, truthy (dict_get d ''prompt'')))"

definition model_group_regex_from_json :: "dict \<Rightarrow> (regex_base \<times> bool) result" where
  "model_group_regex_from_json d =
     bind_result (group_regex_from_json True d) (\<lambda>e. Inr (e, truthy (dict_get d ''prompt'')))"

record scorer_regex_object =
  sr_id :: json
  sr_regex :: json
  sr_priority :: json
  sr_owner :: json
  sr_permission :: json

definition owned_regex_to_json :: "string \<Rightarrow> scorer_regex_object \<Rightarrow> dict" where
  "owned_regex_to_json owner e =
     [(''id'', sr_id e), (''regex'', sr_regex e), (''priority'', sr_priority e), (owner, sr_owner e),
      (''permission'', sr_permission e)]"

definition owned_regex_from_json :: "string \<Rightarrow> dict \<Rightarrow> scorer_regex_object result" where
  "owned_regex_from_json owner d =
     bind_result (dict_item d ''id'') (\<lambda>i.
     bind_result (dict_item d ''regex'') (\<lambda>regex.
     bind_result (dict_item d ''priority'') (\<lambda>priority.
     bind_result (dict_item d owner) (\<lambda>owner_id.
     bind_result (dict_item d ''permission'') (\<lambda>permission.
     Inr \<lparr>sr_id = i, sr_regex = regex, sr_priority = priority, sr_owner = owner_id,
          sr_permission = permission\<rparr>)))))"

definition scorer_regex_to_json :: "scorer_regex_object \<Rightarrow> dict" where
  "scorer_regex_to_json = owned_regex_to_json ''user_id''"

definition scorer_regex_from_json :: "dict \<Rightarrow> scorer_regex_object result" where
  "scorer_regex_from_json = owned_regex_from_json ''user_id''"

definition scorer_group_regex_to_json :: "scorer_regex_object \<Rightarrow> dict" where
  "scorer_group_regex_to_json = owned_regex_to_json ''group_id''"

definition scorer_group_regex_from_json :: "dict \<Rightarrow> scorer_regex_object result" where
  "scorer_group_regex_from_json = owned_regex_from_json ''group_id''"

section \<open>Workspaces\<close>

record workspace_permission_object =
  wo_workspace :: string
  wo_user_id :: int
  wo_permission :: string
  wo_username :: "string option"
  wo_display_name :: "string option"

definition json_text :: "string option \<Rightarrow> json" where
  "json_text v = (case v of Some s \<Rightarrow> JString s | None \<Rightarrow> JNull)"

definition workspace_permission_to_json :: "workspace_permission_object \<Rightarrow> dict" where
  "workspace_permission_to_json e =
     [(''workspace'', JString (wo_workspace e)), (''user_id'', json_int (wo_user_id e)),
      (''permission'', JString (wo_permission e)), (''username'', json_text (wo_username e)),
      (''display_name'', json_text (wo_display_name e))]"

record workspace_group_permission_object =
  wgo_workspace :: string
  wgo_group_id :: int
  wgo_permission :: string
  wgo_group_name :: "string option"

definition workspace_group_permission_to_json :: "workspace_group_permission_object \<Rightarrow> dict" where
  "workspace_group_permission_to_json e =
     [(''workspace'', JString (wgo_workspace e)), (''group_id'', json_int (wgo_group_id e)),
      (''permission'', JString (wgo_permission e)), (''group_name'', json_text (wgo_group_name e))]"

section \<open>Groups and users\<close>

record group_object =
  go_id :: json
  go_group_name :: json

definition group_to_json :: "group_object \<Rightarrow> dict" where
  "group_to_json e = [(''id'', go_id e), (''group_name'', go_group_name e)]"

definition group_from_json :: "dict \<Rightarrow> group_object result" where
  "group_from_json d =
     bind_result (dict_item d ''id'') (\<lambda>i.
     bind_result (dict_item d ''group_name'') (\<lambda>group_name.
     Inr \<lparr>go_id = i, go_group_name = group_name\<rparr>))"

definition user_group_to_json :: "int \<times> int \<Rightarrow> dict" where
  "user_group_to_json e = [(''user_id'', json_int (fst e)), (''group_id'', json_int (snd e))]"

definition user_group_from_json :: "dict \<Rightarrow> (int \<times> int) result" where
  "user_group_from_json d =
     bind_result (dict_item d ''user_id'') (\<lambda>user_id.
     bind_result (dict_item d ''group_id'') (\<lambda>group_id.
     bind_result (int_of_json user_id) (\<lambda>user_id.
     bind_result (int_of_json group_id) (\<lambda>group_id.
     Inr (user_id, group_id)))))"

text \<open>
  A user, with a time of type \<open>'t\<close>. The standard library contributes \<^verbatim>\<open>isoformat\<close> and
  \<^verbatim>\<open>datetime.fromisoformat\<close>.
\<close>

record 't user_object =
  uo_id :: json
  uo_username :: json
  uo_password_hash :: string
  uo_password_expiration :: "'t option"
  uo_is_admin :: bool
  uo_is_service_account :: json
  uo_display_name :: json
  uo_experiment_permissions :: "permission_base list"
  uo_registered_model_permissions :: "model_permission_object list"
  uo_scorer_permissions :: "scorer_permission_object list"
  uo_gateway_endpoint_permissions :: "permission_base list"
  uo_gateway_model_definition_permissions :: "permission_base list"
  uo_gateway_secret_permissions :: "permission_base list"
  uo_groups :: "group_object list"

definition json_list :: "('a \<Rightarrow> dict) \<Rightarrow> 'a list \<Rightarrow> json" where
  "json_list to_json xs = JArray (map (\<lambda>x. JObject (to_json x)) xs)"

definition user_to_json :: "('t \<Rightarrow> string) \<Rightarrow> 't user_object \<Rightarrow> dict" where
  "user_to_json isoformat u =
     [(''id'', uo_id u), (''username'', uo_username u), (''is_admin'', JBool (uo_is_admin u)),
      (''is_service_account'', uo_is_service_account u),
      (''experiment_permissions'', json_list experiment_permission_to_json (uo_experiment_permissions u)),
      (''registered_model_permissions'',
        json_list registered_model_permission_to_json (uo_registered_model_permissions u)),
      (''scorer_permissions'', json_list scorer_permission_to_json (uo_scorer_permissions u)),
      (''gateway_endpoint_permissions'',
        json_list gateway_endpoint_permission_to_json (uo_gateway_endpoint_permissions u)),
      (''gateway_model_definition_permissions'',
        json_list gateway_model_definition_permission_to_json (uo_gateway_model_definition_permissions u)),
      (''gateway_secret_permissions'',
        json_list gateway_secret_permission_to_json (uo_gateway_secret_permissions u)),
      (''password_expiration'',
        case uo_password_expiration u of Some t \<Rightarrow> JString (isoformat t) | None \<Rightarrow> JNull),
      (''display_name'', uo_display_name u),
      (''groups'', json_list group_to_json (uo_groups u))]"

definition parse_optional_datetime :: "(string \<Rightarrow> 't result) \<Rightarrow> json \<Rightarrow> 't option result" where
  "parse_optional_datetime fromisoformat value =
     (case value of
        JNull \<Rightarrow> Inr None
      | JString s \<Rightarrow>
          bind_result (fromisoformat (if s \<noteq> [] \<and> last s = CHR ''Z'' then butlast s @ ''+00:00'' else s))
            (\<lambda>t. Inr (Some t))
      | _ \<Rightarrow> Inl OtherError)"

text \<open>\<^verbatim>\<open>[from_json(p) for p in dictionary.get(key, [])]\<close>\<close>

definition read_list :: "(dict \<Rightarrow> 'a result) \<Rightarrow> dict \<Rightarrow> string \<Rightarrow> 'a list result" where
  "read_list from_json d key =
     (case map_of d key of
        None \<Rightarrow> Inr []
      | Some v \<Rightarrow> bind_result (py_iter v) (mapM_result (\<lambda>x. bind_result (as_dict x) from_json)))"

definition user_from_json :: "(string \<Rightarrow> 't result) \<Rightarrow> dict \<Rightarrow> 't user_object result" where
  "user_from_json fromisoformat d =
     bind_result (parse_optional_datetime fromisoformat (dict_get d ''password_expiration'')) (\<lambda>expiration.
     bind_result (read_list experiment_permission_from_json d ''experiment_permissions'') (\<lambda>eps.
     bind_result (read_list registered_model_permission_from_json d ''registered_model_permissions'') (\<lambda>mps.
     bind_result (read_list scorer_permission_from_json d ''scorer_permissions'') (\<lambda>sps.
     bind_result (read_list gateway_endpoint_permission_from_json d ''gateway_endpoint_permissions'') (\<lambda>geps.
     bind_result (read_list gateway_model_definition_permission_from_json d
                    ''gateway_model_definition_permissions'') (\<lambda>gmps.
     bind_result (read_list gateway_secret_permission_from_json d ''gateway_secret_permissions'') (\<lambda>gsps.
     bind_result (read_list group_from_json d ''groups'') (\<lambda>groups.
     Inr \<lparr>uo_id = dict_get d ''id'', uo_username = dict_get d ''username'',
          uo_password_hash = ''REDACTED'', uo_password_expiration = expiration,
          uo_is_admin = truthy (dict_get d ''is_admin''),
          uo_is_service_account =
            (case map_of d ''is_service_account'' of Some v \<Rightarrow> v | None \<Rightarrow> JBool False),
          uo_display_name = dict_get d ''display_name'',
          uo_experiment_permissions = eps, uo_registered_model_permissions = mps,
          uo_scorer_permissions = sps, uo_gateway_endpoint_permissions = geps,
          uo_gateway_model_definition_permissions = gmps, uo_gateway_secret_permissions = gsps,
          uo_groups = groups\<rparr>))))))))"

section \<open>Round trips\<close>

lemma optional_id_json_id [simp]: "optional_id (json_id v) = Inr v"
  by (cases v) (simp_all add: optional_id_def json_id_def json_int_def int_of_json_def)

lemma int_of_json_int [simp]: "int_of_json (json_int i) = Inr i"
  by (simp add: int_of_json_def json_int_def)

lemmas dict_simps = dict_get_def dict_item_def rename_instance_def permission_base_to_json_def

lemma permission_round_trip:
  "experiment_permission_from_json (experiment_permission_to_json e) = Inr e"
  "gateway_endpoint_permission_from_json (gateway_endpoint_permission_to_json e) = Inr e"
  "gateway_secret_permission_from_json (gateway_secret_permission_to_json e) = Inr e"
  "gateway_model_definition_permission_from_json (gateway_model_definition_permission_to_json e) = Inr e"
  unfolding experiment_permission_from_json_def experiment_permission_to_json_def
    gateway_endpoint_permission_from_json_def gateway_endpoint_permission_to_json_def
    gateway_secret_permission_from_json_def gateway_secret_permission_to_json_def
    gateway_model_definition_permission_from_json_def gateway_model_definition_permission_to_json_def
  by (simp_all add: keyed_from_json_def dict_simps)

lemma model_permission_round_trip:
  "registered_model_permission_from_json (registered_model_permission_to_json e) = Inr e"
  by (simp add: registered_model_permission_from_json_def registered_model_permission_to_json_def
      dict_get_def dict_item_def)

lemma scorer_permission_round_trip:
  "scorer_permission_from_json (scorer_permission_to_json e) = Inr e"
  by (simp add: scorer_permission_from_json_def scorer_permission_to_json_def dict_get_def dict_item_def)

lemma scorer_regex_round_trip:
  "scorer_regex_from_json (scorer_regex_to_json e) = Inr e"
  "scorer_group_regex_from_json (scorer_group_regex_to_json e) = Inr e"
  by (simp_all add: scorer_regex_from_json_def scorer_regex_to_json_def scorer_group_regex_from_json_def
      scorer_group_regex_to_json_def owned_regex_from_json_def owned_regex_to_json_def dict_item_def)

lemma group_round_trip: "group_from_json (group_to_json e) = Inr e"
  by (simp add: group_from_json_def group_to_json_def dict_item_def)

lemma user_group_round_trip: "user_group_from_json (user_group_to_json e) = Inr e"
  by (simp add: user_group_from_json_def user_group_to_json_def dict_item_def)

text \<open>A pattern drops the fields that are null, so those that its reader requires must not be.\<close>

definition regex_present :: "regex_base \<Rightarrow> bool" where
  "regex_present e \<longleftrightarrow> rb_id e \<noteq> JNull \<and> rb_regex e \<noteq> JNull \<and> rb_priority e \<noteq> JNull"

lemma map_of_not_null:
  assumes "distinct (map fst d)"
  shows "map_of (filter (\<lambda>kv. snd kv \<noteq> JNull) d) k =
    (case map_of d k of Some v \<Rightarrow> if v = JNull then None else Some v | None \<Rightarrow> None)"
  using assms
proof (induction d)
  case (Cons kv d)
  have "map_of d k = None" if "fst kv = k"
    using Cons.prems that by (auto simp: map_of_eq_None_iff)
  with Cons show ?case by (cases kv) (auto split: option.splits)
qed simp

lemma regex_fields:
  "dict_get (regex_base_to_json e) ''user_id'' = json_id (rb_user_id e)"
  "dict_get (regex_base_to_json e) ''group_id'' = json_id (rb_group_id e)"
  "dict_get (regex_base_to_json e) ''permission'' = rb_permission e"
  "regex_present e \<Longrightarrow> dict_item (regex_base_to_json e) ''id'' = Inr (rb_id e)"
  "regex_present e \<Longrightarrow> dict_item (regex_base_to_json e) ''regex'' = Inr (rb_regex e)"
  "regex_present e \<Longrightarrow> dict_item (regex_base_to_json e) ''priority'' = Inr (rb_priority e)"
  "rb_permission e \<noteq> JNull \<Longrightarrow> dict_item (regex_base_to_json e) ''permission'' = Inr (rb_permission e)"
  unfolding regex_base_to_json_def dict_get_def dict_item_def regex_present_def
  by (subst map_of_not_null; auto)+

lemma regex_round_trip:
  assumes "regex_present e"
  shows "rb_permission e \<noteq> JNull \<Longrightarrow> regex_base_from_json (regex_base_to_json e) = Inr e"
    and "rb_group_id e = None \<Longrightarrow> required \<longrightarrow> rb_permission e \<noteq> JNull \<Longrightarrow>
      user_regex_from_json required (regex_base_to_json e) = Inr e"
    and "rb_user_id e = None \<Longrightarrow> required \<longrightarrow> rb_permission e \<noteq> JNull \<Longrightarrow>
      group_regex_from_json required (regex_base_to_json e) = Inr e"
  using assms by (auto simp: regex_base_from_json_def user_regex_from_json_def group_regex_from_json_def
      required_field_def regex_fields)

lemma read_list_json_list:
  assumes "\<And>x. from_json (to_json x) = Inr x" and "map_of d key = Some (json_list to_json xs)"
  shows "read_list from_json d key = Inr xs"
proof -
  have "mapM_result (\<lambda>x. bind_result (as_dict x) from_json) (map (\<lambda>x. JObject (to_json x)) xs) = Inr xs"
    by (induction xs) (simp_all add: as_dict_def assms(1))
  then show ?thesis by (simp add: read_list_def assms(2) json_list_def py_iter_def)
qed

text \<open>C38: Reading the dictionary of a user gives the user back with all permissions and
  groups, except that the password hash comes back as the text REDACTED, since it is not written;
  for dates whose texts the standard library reads back and which do not end in Z.\<close>

theorem user_json_round_trip:
  assumes "\<And>t. fromisoformat (isoformat t) = Inr t"
    and "\<And>t. isoformat t \<noteq> [] \<and> last (isoformat t) \<noteq> CHR ''Z''"
  shows "user_from_json fromisoformat (user_to_json isoformat u) =
    Inr (u\<lparr>uo_password_hash := ''REDACTED''\<rparr>)"
proof -
  let ?d = "user_to_json isoformat u"
  have "read_list experiment_permission_from_json ?d ''experiment_permissions'' =
      Inr (uo_experiment_permissions u)"
    by (rule read_list_json_list [OF permission_round_trip(1)]) (simp add: user_to_json_def)
  moreover have "read_list registered_model_permission_from_json ?d ''registered_model_permissions'' =
      Inr (uo_registered_model_permissions u)"
    by (rule read_list_json_list [OF model_permission_round_trip]) (simp add: user_to_json_def)
  moreover have "read_list scorer_permission_from_json ?d ''scorer_permissions'' =
      Inr (uo_scorer_permissions u)"
    by (rule read_list_json_list [OF scorer_permission_round_trip]) (simp add: user_to_json_def)
  moreover have "read_list gateway_endpoint_permission_from_json ?d ''gateway_endpoint_permissions'' =
      Inr (uo_gateway_endpoint_permissions u)"
    by (rule read_list_json_list [OF permission_round_trip(2)]) (simp add: user_to_json_def)
  moreover have "read_list gateway_model_definition_permission_from_json ?d
      ''gateway_model_definition_permissions'' = Inr (uo_gateway_model_definition_permissions u)"
    by (rule read_list_json_list [OF permission_round_trip(4)]) (simp add: user_to_json_def)
  moreover have "read_list gateway_secret_permission_from_json ?d ''gateway_secret_permissions'' =
      Inr (uo_gateway_secret_permissions u)"
    by (rule read_list_json_list [OF permission_round_trip(3)]) (simp add: user_to_json_def)
  moreover have "read_list group_from_json ?d ''groups'' = Inr (uo_groups u)"
    by (rule read_list_json_list [OF group_round_trip]) (simp add: user_to_json_def)
  moreover have "parse_optional_datetime fromisoformat (dict_get ?d ''password_expiration'') =
      Inr (uo_password_expiration u)"
    using assms by (cases "uo_password_expiration u")
      (simp_all add: user_to_json_def dict_get_def parse_optional_datetime_def)
  moreover have "dict_get ?d ''id'' = uo_id u" "dict_get ?d ''username'' = uo_username u"
    "dict_get ?d ''is_admin'' = JBool (uo_is_admin u)" "dict_get ?d ''display_name'' = uo_display_name u"
    "map_of ?d ''is_service_account'' = Some (uo_is_service_account u)"
    by (simp_all add: user_to_json_def dict_get_def)
  ultimately show ?thesis by (simp add: user_from_json_def)
qed

definition example_isoformat :: "bool \<Rightarrow> string" where
  "example_isoformat t =
     (if t then ''2026-01-31T12:00:00+00:00'' else ''2025-06-30T00:00:00+00:00'')"

definition example_fromisoformat :: "string \<Rightarrow> bool result" where
  "example_fromisoformat s =
     (if s = ''2026-01-31T12:00:00+00:00'' then Inr True
      else if s = ''2025-06-30T00:00:00+00:00'' then Inr False else Inl ValueError)"

definition example_user :: "bool user_object" where
  "example_user =
     \<lparr>uo_id = json_int 1, uo_username = JString ''alice'', uo_password_hash = ''secret'',
      uo_password_expiration = Some True, uo_is_admin = False, uo_is_service_account = JBool False,
      uo_display_name = JString ''Alice'',
      uo_experiment_permissions =
        [\<lparr>pb_instance = JString ''10'', pb_permission = JString ''READ'', pb_user_id = Some 1,
          pb_group_id = None\<rparr>],
      uo_registered_model_permissions = [], uo_scorer_permissions = [],
      uo_gateway_endpoint_permissions = [], uo_gateway_model_definition_permissions = [],
      uo_gateway_secret_permissions = [],
      uo_groups = [\<lparr>go_id = json_int 1, go_group_name = JString ''staff''\<rparr>]\<rparr>"

theorem user_json_round_trip_witness:
  "user_from_json example_fromisoformat (user_to_json example_isoformat example_user) =
     Inr (example_user\<lparr>uo_password_hash := ''REDACTED''\<rparr>)"
  by (rule user_json_round_trip) (simp_all add: example_isoformat_def example_fromisoformat_def)

end
