(* ===== verification/FastApi.thy ===== *)
theory FastApi
  imports Validators DataFetching Entities
begin

text \<open>
  What the routes of the FastAPI application share: the request
  (\<^verbatim>\<open>utils/request_helpers_fastapi.py\<close>), the audit log (\<^verbatim>\<open>audit.py\<close>), the dependencies that
  guard a route (\<^verbatim>\<open>dependencies.py\<close>), the status of an exception that leaves a handler
  (\<^verbatim>\<open>exceptions.py\<close>), and the shapes that most handlers have. The Flask request that
  permission resolution asks for the workspace does not exist here, so a route resolves
  permissions as if no workspace were named.
\<close>

section \<open>Requests\<close>

text \<open>Names of headers are in lower case. A repeated query parameter counts with its last value.
  \<open>hr_workspace\<close> is the workspace in MLflow's context variable while the request runs,
  \<open>hr_json\<close> is \<open>None\<close> when \<^verbatim>\<open>await request.json()\<close> raises, \<open>hr_session_username\<close> an exception
  when there is no session. \<open>hr_root_path\<close> is the root path of the ASGI scope and
  \<open>hr_base_path\<close> the path of the base URL.\<close>

record http_request =
  hr_path :: string
  hr_method :: string
  hr_headers :: "(string \<times> string) list"
  hr_query :: "(string \<times> string) list"
  hr_path_params :: "(string \<times> string) list"
  hr_json :: "json option"
  hr_state_username :: "string option"
  hr_state_is_admin :: bool
  hr_session_username :: "string option result"
  hr_workspace :: "string option"
  hr_root_path :: string
  hr_base_path :: string

definition query_param :: "http_request \<Rightarrow> string \<Rightarrow> string option" where
  "query_param rq key = map_of (rev (hr_query rq)) key"

text \<open>Python's \<^verbatim>\<open>a or b\<close> on optional texts.\<close>

definition or_text :: "string option \<Rightarrow> string option \<Rightarrow> string option" where
  "or_text a b = (case a of Some s \<Rightarrow> if s = '''' then b else a | None \<Rightarrow> b)"

section \<open>Who is asking\<close>

definition get_username_from_session :: "http_request \<Rightarrow> string option" where
  "get_username_from_session rq =
     (case or_text (hr_state_username rq) None of
        Some u \<Rightarrow> Some u
      | None \<Rightarrow> (case hr_session_username rq of
                    Inr username \<Rightarrow> or_text username None
                  | Inl _ \<Rightarrow> None))"

text \<open>The name in the credentials is looked up; the password is not.\<close>

definition get_username_from_basic_auth :: "db \<Rightarrow> string option \<Rightarrow> string option" where
  "get_username_from_basic_auth db credentials =
     (case credentials of
        None \<Rightarrow> None
      | Some username \<Rightarrow>
          (case user_get_profile db username of
             Inr user \<Rightarrow> or_text (Some (u_username (ue_user user))) None
           | Inl _ \<Rightarrow> None))"

definition get_username_from_bearer_token ::
    "(string \<Rightarrow> (string \<Rightarrow> string option) result) \<Rightarrow> string option \<Rightarrow> string option" where
  "get_username_from_bearer_token validate_token credentials =
     (case credentials of
        None \<Rightarrow> None
      | Some token \<Rightarrow>
          (case validate_token token of
             Inr token_data \<Rightarrow> or_text (token_data ''email'') None
           | Inl _ \<Rightarrow> None))"

definition get_authenticated_username ::
    "http_request \<Rightarrow> string option \<Rightarrow> string option \<Rightarrow> string result" where
  "get_authenticated_username rq basic_username bearer_username =
     (case or_text (or_text (get_username_from_session rq) basic_username) bearer_username of
        Some username \<Rightarrow> if username = '''' then Inl (HTTPException 401) else Inr username
      | None \<Rightarrow> Inl (HTTPException 401))"

definition get_username :: "http_request \<Rightarrow> string result" where
  "get_username rq =
     (case get_authenticated_username rq None None of
        Inl (HTTPException _) \<Rightarrow> Inl (MlflowException UNAUTHENTICATED)
      | r \<Rightarrow> r)"

definition get_is_admin :: "db \<Rightarrow> http_request \<Rightarrow> bool result" where
  "get_is_admin db rq =
     bind_result (get_username rq) (\<lambda>username.
     bind_result (user_get_profile db username) (\<lambda>user. Inr (u_is_admin (ue_user user))))"

definition is_authenticated :: "http_request \<Rightarrow> bool" where
  "is_authenticated rq = (case get_authenticated_username rq None None of Inr _ \<Rightarrow> True | Inl _ \<Rightarrow> False)"

definition rstrip_slash :: "string \<Rightarrow> string" where
  "rstrip_slash s = rev (dropWhile (\<lambda>c. c = CHR ''/'') (rev s))"

definition get_base_path :: "http_request \<Rightarrow> string" where
  "get_base_path rq =
     (case or_text (map_of (hr_headers rq) ''x-forwarded-prefix'') None of
        Some p \<Rightarrow> rstrip_slash p
      | None \<Rightarrow>
          if hr_root_path rq \<noteq> '''' then rstrip_slash (hr_root_path rq)
          else if hr_base_path rq \<noteq> '''' \<and> hr_base_path rq \<noteq> ''/'' then rstrip_slash (hr_base_path rq)
          else '''')"

section \<open>The application and its state\<close>

text \<open>
  \<open>ap_code_equals c d\<close> is the outcome of comparing the \<^verbatim>\<open>error_code\<close> attribute of MLflow's
  exception for the code \<open>c\<close> with the protobuf constant \<open>d\<close>; \<open>ap_search_experiments\<close> is the one
  page (ids and names) that \<^verbatim>\<open>search_experiments()\<close> gives without arguments.
\<close>

record app =
  ap_server :: server
  ap_audit_enabled :: bool
  ap_code_equals :: "error_code \<Rightarrow> error_code \<Rightarrow> bool"
  ap_search_experiments :: "(string \<times> string) list result"
  ap_mlflow :: mlflow_stores

text \<open>An audit event, without its time stamp.\<close>

record audit_event =
  ae_event :: string
  ae_actor :: "string option"
  ae_resource_type :: string
  ae_resource_id :: string
  ae_detail :: "(string \<times> json) list"
  ae_status :: string

record app_state =
  as_store :: store_state
  as_audit :: "audit_event list"

definition on_store_state :: "('a, store_state) action \<Rightarrow> ('a, app_state) action" where
  "on_store_state m s = (case m (as_store s) of (r, st) \<Rightarrow> (r, s\<lparr>as_store := st\<rparr>))"

definition read_db :: "(db \<Rightarrow> 'a result) \<Rightarrow> ('a, app_state) action" where
  "read_db f = act_read (\<lambda>s. f (st_db (as_store s)))"

definition emit_audit_event :: "app \<Rightarrow> string \<Rightarrow> string option \<Rightarrow> string \<Rightarrow> string \<Rightarrow>
    (string \<times> json) list \<Rightarrow> (unit, app_state) action" where
  "emit_audit_event ap event actor resource_type resource_id detail s =
     (Inr (),
      if ap_audit_enabled ap
      then s\<lparr>as_audit := as_audit s @
             [\<lparr>ae_event = event, ae_actor = actor, ae_resource_type = resource_type,
               ae_resource_id = resource_id, ae_detail = detail, ae_status = ''success''\<rparr>]\<rparr>
      else s)"

text \<open>What uses the cache of workspace permissions only.\<close>

definition with_workspace_cache ::
    "(db \<Rightarrow> permission local_cache \<Rightarrow> 'a result \<times> permission local_cache) \<Rightarrow> ('a, store_state) action" where
  "with_workspace_cache f =
     with_caches (\<lambda>db caches. case f db (workspace_cache caches) of
       (r, wc) \<Rightarrow> (r, caches\<lparr>workspace_cache := wc\<rparr>))"

text \<open>A method of the store: what it does to the state, and what it returns.\<close>

definition store_do :: "app \<Rightarrow> store_op \<Rightarrow> (unit, app_state) action" where
  "store_do ap op = on_store_state (store_call (sv_store (ap_server ap)) op)"

definition store_get :: "app \<Rightarrow> store_op \<Rightarrow> (db \<Rightarrow> ('a \<times> db) result) \<Rightarrow> ('a, app_state) action" where
  "store_get ap op f s =
     (case f (st_db (as_store s)) of
        Inl e \<Rightarrow> (Inl e, s)
      | Inr (x, _) \<Rightarrow> act_map (\<lambda>_. x) (store_do ap op) s)"

section \<open>Exceptions\<close>

definition handle_mlflow_exception :: "error_code \<Rightarrow> nat" where
  "handle_mlflow_exception c =
     (case c of
        RESOURCE_ALREADY_EXISTS \<Rightarrow> 409
      | RESOURCE_DOES_NOT_EXIST \<Rightarrow> 404
      | INVALID_PARAMETER_VALUE \<Rightarrow> 400
      | UNAUTHENTICATED \<Rightarrow> 401
      | INVALID_STATE \<Rightarrow> 400
      | _ \<Rightarrow> 500)"

definition status_of :: "exn \<Rightarrow> nat" where
  "status_of e =
     (case e of
        HTTPException n \<Rightarrow> n
      | MlflowException c \<Rightarrow> handle_mlflow_exception c
      | _ \<Rightarrow> 500)"

text \<open>\<^verbatim>\<open>except Exception: raise HTTPException(status_code=n)\<close>\<close>

definition or_status :: "nat \<Rightarrow> ('a, app_state) action \<Rightarrow> ('a, app_state) action" where
  "or_status n m = act_except m (act_raise (HTTPException n))"

text \<open>The same with \<^verbatim>\<open>except ValueError\<close> before it, for an id that is not an integer.\<close>

definition or_status_id :: "nat \<Rightarrow> ('a, app_state) action \<Rightarrow> ('a, app_state) action" where
  "or_status_id n m =
     (\<lambda>s. case m s of
            (Inl ValueError, s') \<Rightarrow> (Inl (HTTPException 400), s')
          | (Inl _, s') \<Rightarrow> (Inl (HTTPException n), s')
          | r \<Rightarrow> r)"

text \<open>The same with \<^verbatim>\<open>except MlflowException\<close> before it: the code named \<open>c\<close> gets the status \<open>n\<close>,
  an invalid parameter 400, and any other code is raised again.\<close>

definition or_status_code :: "app \<Rightarrow> error_code \<Rightarrow> nat \<Rightarrow> ('a, app_state) action \<Rightarrow> ('a, app_state) action" where
  "or_status_code ap c n m =
     (\<lambda>s. case m s of
            (Inl (MlflowException d), s') \<Rightarrow>
              (Inl (if ap_code_equals ap d c then HTTPException n
                    else if ap_code_equals ap d INVALID_PARAMETER_VALUE then HTTPException 400
                    else MlflowException d), s')
          | (Inl _, s') \<Rightarrow> (Inl (HTTPException 500), s')
          | r \<Rightarrow> r)"

section \<open>Responses\<close>

text \<open>
  A handler returns a status and a JSON body, without the texts of messages. A response model
  takes the fields it declares from the keyword arguments; a required field must be there.
\<close>

type_synonym handler = "(nat \<times> json, app_state) action"

definition build_model :: "string list \<Rightarrow> (string \<times> json) list \<Rightarrow> dict \<Rightarrow> json result" where
  "build_model required optional d =
     (if list_all (\<lambda>k. dict_get d k \<noteq> JNull) required
      then Inr (JObject (map (\<lambda>k. (k, dict_get d k)) required @
                  map (\<lambda>(k, dflt). (k, case map_of d k of Some v \<Rightarrow> v | None \<Rightarrow> dflt)) optional))
      else Inl ValueError)"

definition message_response :: json where
  "message_response = JObject []"

definition status_response :: json where
  "status_response = JObject [(''status'', JString ''success'')]"

text \<open>Entities of the store as the objects of \<^verbatim>\<open>entities/*.py\<close>: \<^verbatim>\<open>to_mlflow_entity\<close>.\<close>

definition perm_object :: "perm_entity \<Rightarrow> permission_base" where
  "perm_object e =
     \<lparr>pb_instance = JString (resource_id_of (pe_key e)), pb_permission = JString (pe_permission e),
      pb_user_id = map_option int (pe_user_id e), pb_group_id = map_option int (pe_group_id e)\<rparr>"

definition model_object :: "perm_entity \<Rightarrow> model_permission_object" where
  "model_object e =
     \<lparr>mo_name = JString (resource_id_of (pe_key e)), mo_permission = JString (pe_permission e),
      mo_user_id = map_option int (pe_user_id e), mo_group_id = map_option int (pe_group_id e),
      mo_prompt = pe_prompt e\<rparr>"

definition scorer_name_of :: "rkey \<Rightarrow> string" where
  "scorer_name_of key = (case key of ScorerKey i n \<Rightarrow> n | ResourceId i \<Rightarrow> '''')"

definition scorer_object :: "perm_entity \<Rightarrow> scorer_permission_object" where
  "scorer_object e =
     \<lparr>so_experiment_id = JString (resource_id_of (pe_key e)),
      so_scorer_name = JString (scorer_name_of (pe_key e)),
      so_permission = JString (pe_permission e),
      so_user_id = json_id (map_option int (pe_user_id e)),
      so_group_id = json_id (map_option int (pe_group_id e))\<rparr>"

definition regex_object :: "regex_entity \<Rightarrow> regex_base" where
  "regex_object e =
     \<lparr>rb_id = json_int (int (re_id e)), rb_regex = JString (re_regex e),
      rb_priority = json_int (re_priority e), rb_permission = JString (re_permission e),
      rb_user_id = map_option int (re_user_id e), rb_group_id = map_option int (re_group_id e)\<rparr>"

definition model_regex_object :: "regex_entity \<Rightarrow> regex_base \<times> bool" where
  "model_regex_object e = (regex_object e, re_prompt e)"

definition scorer_regex_of :: "regex_entity \<Rightarrow> scorer_regex_object" where
  "scorer_regex_of e =
     \<lparr>sr_id = json_int (int (re_id e)), sr_regex = JString (re_regex e),
      sr_priority = json_int (re_priority e),
      sr_owner = json_id (map_option int (case re_user_id e of Some i \<Rightarrow> Some i | None \<Rightarrow> re_group_id e)),
      sr_permission = JString (re_permission e)\<rparr>"

text \<open>A row id from the path: no row has a negative key.\<close>

definition row_id :: "int \<Rightarrow> (nat \<Rightarrow> ('a, 's) action) \<Rightarrow> ('a, 's) action" where
  "row_id i k = (if i < 0 then act_raise (MlflowException RESOURCE_DOES_NOT_EXIST) else k (nat i))"

definition pattern_id :: "string \<Rightarrow> (nat \<Rightarrow> ('a, 's) action) \<Rightarrow> ('a, 's) action" where
  "pattern_id s k = (case py_int s of None \<Rightarrow> act_raise ValueError | Some i \<Rightarrow> row_id i k)"

text \<open>A change of the store that is written to the audit log once it is done.\<close>

definition audited :: "app \<Rightarrow> store_op \<Rightarrow> string \<Rightarrow> string option \<Rightarrow> string \<Rightarrow> string \<Rightarrow>
    (string \<times> json) list \<Rightarrow> nat \<times> json \<Rightarrow> handler" where
  "audited ap op event actor resource_type resource_id detail response =
     act_bind (store_do ap op) (\<lambda>_.
     act_bind (emit_audit_event ap event actor resource_type resource_id detail) (\<lambda>_.
     act_return response))"

text \<open>The same when the response is made of the entity that the method returns.\<close>

definition audited_entity :: "app \<Rightarrow> store_op \<Rightarrow> (db \<Rightarrow> ('a \<times> db) result) \<Rightarrow> string \<Rightarrow> string option \<Rightarrow>
    string \<Rightarrow> string \<Rightarrow> (string \<times> json) list \<Rightarrow> nat \<Rightarrow> ('a \<Rightarrow> json result) \<Rightarrow> handler" where
  "audited_entity ap op f event actor resource_type resource_id detail status body =
     act_bind (store_get ap op f) (\<lambda>e.
     act_bind (emit_audit_event ap event actor resource_type resource_id detail) (\<lambda>_.
     act_bind (act_lift (body e)) (\<lambda>j. act_return (status, j))))"

text \<open>The caller of a route without a guard, and whether it is an administrator.\<close>

definition caller :: "http_request \<Rightarrow> (string \<times> bool, app_state) action" where
  "caller rq =
     act_bind (act_lift (get_username rq)) (\<lambda>current_username.
     act_bind (read_db (\<lambda>db. get_is_admin db rq)) (\<lambda>is_admin.
     act_return (current_username, is_admin)))"

section \<open>The dependencies that guard a route\<close>

definition check_admin_permission :: "http_request \<Rightarrow> (string, app_state) action" where
  "check_admin_permission rq =
     read_db (\<lambda>db.
       case (get_username rq, get_is_admin db rq) of
         (Inr username, Inr is_admin) \<Rightarrow>
           if is_admin then Inr username else Inl (HTTPException 403)
       | _ \<Rightarrow> Inl (HTTPException 403))"

text \<open>
  The checks of a resource: an administrator passes, anyone else needs the capability \<open>can\<close>,
  resolved without a workspace. They return \<^verbatim>\<open>None\<close>, although the handlers take the result for
  the name of the caller.
\<close>

definition check_manage :: "http_request \<Rightarrow>
    (db \<Rightarrow> string \<Rightarrow> auth_caches \<Rightarrow> bool result \<times> auth_caches) \<Rightarrow> (string option, app_state) action" where
  "check_manage rq can =
     act_bind (act_lift (get_username rq)) (\<lambda>current_username.
     act_bind (read_db (\<lambda>db. get_is_admin db rq)) (\<lambda>is_admin.
     if is_admin then act_return None
     else act_bind (on_store_state (with_caches (\<lambda>db. can db current_username))) (\<lambda>ok.
       if ok then act_return None else act_raise (HTTPException 403))))"

definition check_experiment_manage_permission where
  "check_experiment_manage_permission sv rq experiment_id =
     check_manage rq (\<lambda>db. can_manage_experiment (sv_config sv) (sv_outside sv) db None experiment_id)"

definition check_registered_model_manage_permission where
  "check_registered_model_manage_permission sv rq name =
     check_manage rq (\<lambda>db. can_manage_registered_model (sv_config sv) (sv_outside sv) db None name)"

definition check_prompt_manage_permission where
  "check_prompt_manage_permission sv rq prompt_name =
     check_manage rq (\<lambda>db. can_manage_registered_model (sv_config sv) (sv_outside sv) db None prompt_name)"

definition check_gateway_endpoint_manage_permission where
  "check_gateway_endpoint_manage_permission sv rq name =
     check_manage rq (\<lambda>db. can_manage_gateway_endpoint (sv_config sv) (sv_outside sv) db None name)"

definition check_gateway_secret_manage_permission where
  "check_gateway_secret_manage_permission sv rq name =
     check_manage rq (\<lambda>db. can_manage_gateway_secret (sv_config sv) (sv_outside sv) db None name)"

definition check_gateway_model_definition_manage_permission where
  "check_gateway_model_definition_manage_permission sv rq name =
     check_manage rq (\<lambda>db. can_manage_gateway_model_definition (sv_config sv) (sv_outside sv) db None name)"

text \<open>The scorer is named by the query, the path, or for a writing method the JSON object sent.\<close>

definition scorer_param :: "http_request \<Rightarrow> string \<Rightarrow> json" where
  "scorer_param rq key =
     (case or_text (or_text (query_param rq key) (map_of (hr_path_params rq) key)) None of
        Some v \<Rightarrow> JString v
      | None \<Rightarrow>
          if hr_method rq \<in> {''POST'', ''PATCH'', ''DELETE''}
          then (case hr_json rq of
                  Some (JObject kvs) \<Rightarrow> (case map_of kvs key of Some v \<Rightarrow> v | None \<Rightarrow> JNull)
                | _ \<Rightarrow> JNull)
          else JNull)"

definition check_scorer_manage_permission where
  "check_scorer_manage_permission sv rq =
     act_bind (act_lift (get_username rq)) (\<lambda>current_username.
     act_bind (read_db (\<lambda>db. get_is_admin db rq)) (\<lambda>is_admin.
     let experiment_id = scorer_param rq ''experiment_id''; scorer_name = scorer_param rq ''scorer_name''
     in if \<not> truthy experiment_id \<or> \<not> truthy scorer_name then act_raise (HTTPException 400)
        else if is_admin then act_return None
        else act_bind (on_store_state (with_caches (\<lambda>db.
               can_manage_scorer (sv_config sv) (sv_outside sv) db None
                 (py_str (sv_tracking sv) experiment_id) (py_str (sv_tracking sv) scorer_name)
                 current_username))) (\<lambda>ok.
             if ok then act_return None else act_raise (HTTPException 403))))"

text \<open>The checks of a workspace do return the caller, and answer 403 to whoever is unknown.\<close>

definition check_workspace :: "(permission \<Rightarrow> bool) \<Rightarrow> server \<Rightarrow> http_request \<Rightarrow> string \<Rightarrow>
    (string, app_state) action" where
  "check_workspace can sv rq workspace =
     act_bind (or_status 403 (act_lift (get_username rq))) (\<lambda>username.
     act_bind (or_status 403 (read_db (\<lambda>db. get_is_admin db rq))) (\<lambda>is_admin.
     if is_admin then act_return username
     else if \<not> MLFLOW_ENABLE_WORKSPACES (sv_config sv) then act_raise (HTTPException 403)
     else act_bind (on_store_state (with_workspace_cache (\<lambda>db wc.
            case get_workspace_permission_cached (sv_config sv) (sv_outside sv) db username workspace wc of
              (perm, wc') \<Rightarrow> (Inr perm, wc')))) (\<lambda>perm.
          case perm of
            None \<Rightarrow> act_raise (HTTPException 403)
          | Some p \<Rightarrow> if can p then act_return username else act_raise (HTTPException 403))))"

definition check_workspace_manage_permission where
  "check_workspace_manage_permission = check_workspace can_manage"

definition check_workspace_read_permission where
  "check_workspace_read_permission = check_workspace can_read"

end
