(* ===== verification/UserRouter.thy ===== *)
theory UserRouter
  imports FastApi
begin

text \<open>
  \<^verbatim>\<open>routers/user_permissions.py\<close>: the routes that list, create, read, change and delete the
  permissions and the patterns of a user. A handler takes the application, the request, the
  parameters of the path and the body, and returns a status and a body, or raises; the guard
  it depends on runs first.
\<close>

section \<open>Experiments\<close>

text \<open>\<^verbatim>\<open>[x for x in xs if p(x)]\<close> with a condition that may raise, here the KeyError of a look-up.\<close>

fun filter_result :: "('a \<Rightarrow> bool result) \<Rightarrow> 'a list \<Rightarrow> 'a list result" where
  "filter_result p [] = Inr []"
| "filter_result p (x # xs) =
     bind_result (p x) (\<lambda>ok.
     bind_result (filter_result p xs) (\<lambda>ys. Inr (if ok then x # ys else ys)))"

definition looked_up :: "(string \<rightharpoonup> permission_result) \<Rightarrow> string \<Rightarrow> permission_result result" where
  "looked_up perms key = (case perms key of Some r \<Rightarrow> Inr r | None \<Rightarrow> Inl KeyError)"

definition has_permission :: "(string \<rightharpoonup> permission_result) \<Rightarrow> string \<Rightarrow> bool result" where
  "has_permission perms key =
     bind_result (looked_up perms key) (\<lambda>r. Inr (perm_name (pr_permission r) \<noteq> perm_name NO_PERMISSIONS))"

definition may_manage :: "(string \<rightharpoonup> permission_result) \<Rightarrow> string \<Rightarrow> bool result" where
  "may_manage perms key = bind_result (looked_up perms key) (\<lambda>r. Inr (can_manage (pr_permission r)))"

text \<open>The items shown: all to an administrator, to users their own, to others what they manage.\<close>

definition shown :: "(string \<Rightarrow> (string \<rightharpoonup> permission_result, app_state) action) \<Rightarrow> ('a \<Rightarrow> string) \<Rightarrow>
    string \<times> bool \<Rightarrow> string \<Rightarrow> (string \<rightharpoonup> permission_result) \<Rightarrow> 'a list \<Rightarrow> ('a list, app_state) action" where
  "shown batch key who username perms xs =
     (if snd who then act_return xs
      else if fst who = username then act_lift (filter_result (\<lambda>x. has_permission perms (key x)) xs)
      else act_bind (batch (fst who)) (\<lambda>mine. act_lift (filter_result (\<lambda>x. may_manage mine (key x)) xs)))"

definition experiment_batch where
  "experiment_batch ap rq xs username =
     on_store_state (with_workspace_cache (\<lambda>db. batch_resolve_experiment_permissions
       (sv_config (ap_server ap)) (sv_outside (ap_server ap)) db (hr_workspace rq) username xs))"

definition get_user_experiment_permissions :: "app \<Rightarrow> http_request \<Rightarrow> string \<Rightarrow> handler" where
  "get_user_experiment_permissions ap rq username =
     act_bind (caller rq) (\<lambda>who.
     act_bind (act_lift (ap_search_experiments ap)) (\<lambda>all_experiments.
     act_bind (experiment_batch ap rq all_experiments username) (\<lambda>perms.
     act_bind (shown (experiment_batch ap rq all_experiments) fst who username perms all_experiments) (\<lambda>xs.
     act_bind (act_lift (mapM_result (\<lambda>x.
       bind_result (looked_up perms (fst x)) (\<lambda>r.
       Inr (JObject [(''name'', JString (snd x)), (''id'', JString (fst x)),
         (''permission'', JString (perm_name (pr_permission r))), (''kind'', JString (pr_kind r))]))) xs)) (\<lambda>js.
     act_return (200, JArray js))))))"

definition permission_detail :: "string \<Rightarrow> string \<Rightarrow> string \<Rightarrow> (string \<times> json) list" where
  "permission_detail key owner permission = [(key, JString owner), (''permission'', JString permission)]"

definition create_user_experiment_permission :: "app \<Rightarrow> http_request \<Rightarrow> string \<Rightarrow> string \<Rightarrow> string \<Rightarrow> handler" where
  "create_user_experiment_permission ap rq username experiment_id permission =
     act_bind (check_experiment_manage_permission (ap_server ap) rq experiment_id) (\<lambda>current_username.
     audited ap (UserPermOp (CreatePermission Experiment experiment_id username permission))
       ''permission.create'' current_username ''experiment_permission'' experiment_id
       (permission_detail ''username'' username permission) (200, message_response))"

definition experiment_record :: "perm_entity \<Rightarrow> json result" where
  "experiment_record e =
     bind_result (build_model [''experiment_id'', ''permission'']
       [(''user_id'', JNull), (''group_id'', JNull)] (experiment_permission_to_json (perm_object e))) (\<lambda>r.
     Inr (JObject [(''experiment_permission'', r)]))"

definition get_user_experiment_permission :: "app \<Rightarrow> http_request \<Rightarrow> string \<Rightarrow> string \<Rightarrow> handler" where
  "get_user_experiment_permission ap rq username experiment_id =
     act_bind (check_experiment_manage_permission (ap_server ap) rq experiment_id) (\<lambda>_.
     act_bind (read_db (\<lambda>db. user_get_permission Experiment db (ResourceId experiment_id) username)) (\<lambda>ep.
     act_bind (act_lift (experiment_record ep)) (\<lambda>j. act_return (200, j))))"

definition update_user_experiment_permission :: "app \<Rightarrow> http_request \<Rightarrow> string \<Rightarrow> string \<Rightarrow> string \<Rightarrow> handler" where
  "update_user_experiment_permission ap rq username experiment_id permission =
     act_bind (check_experiment_manage_permission (ap_server ap) rq experiment_id) (\<lambda>current_username.
     audited ap (UserPermOp (UpdatePermission Experiment experiment_id username permission))
       ''permission.update'' current_username ''experiment_permission'' experiment_id
       (permission_detail ''username'' username permission) (200, message_response))"

definition delete_user_experiment_permission :: "app \<Rightarrow> http_request \<Rightarrow> string \<Rightarrow> string \<Rightarrow> handler" where
  "delete_user_experiment_permission ap rq username experiment_id =
     act_bind (check_experiment_manage_permission (ap_server ap) rq experiment_id) (\<lambda>current_username.
     audited ap (UserPermOp (DeletePermission Experiment experiment_id username))
       ''permission.delete'' current_username ''experiment_permission'' experiment_id
       [(''username'', JString username)] (200, message_response))"

text \<open>A pattern in a body: the regular expression, its priority, the permission.\<close>

record pattern_data =
  pd_regex :: string
  pd_priority :: int
  pd_permission :: string

definition pattern_detail :: "pattern_data \<Rightarrow> (string \<times> json) list" where
  "pattern_detail d =
     [(''regex'', JString (pd_regex d)), (''priority'', json_int (pd_priority d)),
      (''permission'', JString (pd_permission d))]"

definition create_user_experiment_pattern_permission ::
    "app \<Rightarrow> http_request \<Rightarrow> string \<Rightarrow> pattern_data \<Rightarrow> handler" where
  "create_user_experiment_pattern_permission ap rq username d =
     act_bind (check_admin_permission rq) (\<lambda>admin_username.
     or_status 500
       (audited ap (RegexOp (CreateRegex Experiment (pd_regex d) (pd_priority d) (pd_permission d) username))
          ''permission.create'' (Some admin_username) ''experiment_regex_permission'' username
          (pattern_detail d) (201, status_response)))"

definition experiment_pattern :: "regex_entity \<Rightarrow> json" where
  "experiment_pattern p =
     JObject [(''id'', JString (show_nat (re_id p))), (''regex'', JString (re_regex p)),
       (''priority'', json_int (re_priority p)), (''permission'', JString (re_permission p))]"

definition list_user_experiment_pattern_permissions :: "app \<Rightarrow> http_request \<Rightarrow> string \<Rightarrow> handler" where
  "list_user_experiment_pattern_permissions ap rq username =
     act_bind (check_admin_permission rq) (\<lambda>_.
     or_status 500
       (act_bind (read_db (\<lambda>db. list_regex_for_user Experiment db username)) (\<lambda>permissions.
        act_return (200, JArray (map experiment_pattern permissions)))))"

definition get_user_experiment_pattern_permission :: "app \<Rightarrow> http_request \<Rightarrow> string \<Rightarrow> string \<Rightarrow> handler" where
  "get_user_experiment_pattern_permission ap rq username i =
     act_bind (check_admin_permission rq) (\<lambda>_.
     or_status_id 404 (pattern_id i (\<lambda>n.
        act_bind (read_db (\<lambda>db. regex_get Experiment db username n)) (\<lambda>permission.
        act_return (200, experiment_pattern permission)))))"

definition update_user_experiment_pattern_permission ::
    "app \<Rightarrow> http_request \<Rightarrow> string \<Rightarrow> string \<Rightarrow> pattern_data \<Rightarrow> handler" where
  "update_user_experiment_pattern_permission ap rq username i d =
     act_bind (check_admin_permission rq) (\<lambda>admin_username.
     or_status_id 500 (pattern_id i (\<lambda>n.
       audited ap (RegexOp (UpdateRegex Experiment (pd_regex d) (pd_priority d) (pd_permission d) username n))
         ''permission.update'' (Some admin_username) ''experiment_regex_permission'' username
         ((''id'', JString i) # pattern_detail d) (200, status_response))))"

definition delete_user_experiment_pattern_permission :: "app \<Rightarrow> http_request \<Rightarrow> string \<Rightarrow> string \<Rightarrow> handler" where
  "delete_user_experiment_pattern_permission ap rq username i =
     act_bind (check_admin_permission rq) (\<lambda>admin_username.
     or_status_id 500 (pattern_id i (\<lambda>n.
       audited ap (RegexOp (DeleteRegex Experiment username n))
         ''permission.delete'' (Some admin_username) ''experiment_regex_permission'' username
         [(''id'', JString i)] (200, status_response))))"

section \<open>Prompts\<close>

text \<open>The lists of prompts and of models read all pages first, which need not end.\<close>

definition named_batch where
  "named_batch resolve ap rq xs username =
     on_store_state (with_workspace_cache (\<lambda>db.
       resolve (sv_config (ap_server ap)) (sv_outside (ap_server ap)) db (hr_workspace rq) username xs))"

definition named_summary :: "string \<Rightarrow> permission_result \<Rightarrow> json" where
  "named_summary name r =
     JObject [(''name'', JString name), (''permission'', JString (perm_name (pr_permission r))),
       (''kind'', JString (pr_kind r))]"

definition named_listing :: "(string list \<Rightarrow> string \<Rightarrow> (string \<rightharpoonup> permission_result, app_state) action) \<Rightarrow>
    string \<times> bool \<Rightarrow> string \<Rightarrow> string list \<Rightarrow> handler" where
  "named_listing batch who username names =
     act_bind (batch names username) (\<lambda>perms.
     act_bind (shown (batch names) (\<lambda>x. x) who username perms names) (\<lambda>xs.
     act_bind (act_lift (mapM_result (\<lambda>x.
       bind_result (looked_up perms x) (\<lambda>r. Inr (named_summary x r))) xs)) (\<lambda>js.
     act_return (200, JArray js))))"

definition get_user_prompts :: "app \<Rightarrow> http_request \<Rightarrow> string \<Rightarrow> app_state \<Rightarrow>
    ((nat \<times> json) result \<times> app_state) option" where
  "get_user_prompts ap rq username s =
     (case caller rq s of
        (Inl e, s') \<Rightarrow> Some (Inl e, s')
      | (Inr who, s') \<Rightarrow>
          fetched_then (fetch_all_prompts (ap_mlflow ap) 1000)
            (named_listing (named_batch batch_resolve_prompt_permissions ap rq) who username) s')"

definition create_user_prompt_permission :: "app \<Rightarrow> http_request \<Rightarrow> string \<Rightarrow> string \<Rightarrow> string \<Rightarrow> handler" where
  "create_user_prompt_permission ap rq username name permission =
     act_bind (check_registered_model_manage_permission (ap_server ap) rq name) (\<lambda>current_username.
     or_status_code ap RESOURCE_ALREADY_EXISTS 409
       (audited ap (UserPermOp (CreatePermission RegisteredModel name username permission))
          ''permission.create'' current_username ''prompt_permission'' name
          (permission_detail ''username'' username permission) (201, status_response)))"

definition model_record :: "string \<Rightarrow> perm_entity \<Rightarrow> json result" where
  "model_record key e =
     bind_result (build_model [''name'', ''permission'']
       [(''user_id'', JNull), (''group_id'', JNull), (''prompt'', JBool False)]
       (registered_model_permission_to_json (model_object e))) (\<lambda>r. Inr (JObject [(key, r)]))"

definition get_user_prompt_permission :: "app \<Rightarrow> http_request \<Rightarrow> string \<Rightarrow> string \<Rightarrow> handler" where
  "get_user_prompt_permission ap rq username name =
     act_bind (check_registered_model_manage_permission (ap_server ap) rq name) (\<lambda>_.
     or_status 404
       (act_bind (read_db (\<lambda>db. user_get_permission RegisteredModel db (ResourceId name) username)) (\<lambda>rmp.
        act_bind (act_lift (model_record ''prompt_permission'' rmp)) (\<lambda>j. act_return (200, j)))))"

definition update_user_prompt_permission :: "app \<Rightarrow> http_request \<Rightarrow> string \<Rightarrow> string \<Rightarrow> string \<Rightarrow> handler" where
  "update_user_prompt_permission ap rq username name permission =
     act_bind (check_registered_model_manage_permission (ap_server ap) rq name) (\<lambda>current_username.
     or_status_code ap RESOURCE_DOES_NOT_EXIST 404
       (audited ap (UserPermOp (UpdatePermission RegisteredModel name username permission))
          ''permission.update'' current_username ''prompt_permission'' name
          (permission_detail ''username'' username permission) (200, status_response)))"

definition delete_user_prompt_permission :: "app \<Rightarrow> http_request \<Rightarrow> string \<Rightarrow> string \<Rightarrow> handler" where
  "delete_user_prompt_permission ap rq username name =
     act_bind (check_registered_model_manage_permission (ap_server ap) rq name) (\<lambda>current_username.
     or_status 500
       (audited ap (UserPermOp (DeletePermission RegisteredModel name username))
          ''permission.delete'' current_username ''prompt_permission'' name
          [(''username'', JString username)] (200, status_response)))"

definition model_pattern_fields :: "regex_entity \<Rightarrow> json result" where
  "model_pattern_fields r =
     build_model [''id'', ''regex'', ''priority'', ''user_id'', ''permission''] [(''prompt'', JBool False)]
       (model_regex_to_json (model_regex_object r))"

definition model_pattern_response :: "string \<Rightarrow> regex_entity \<Rightarrow> json result" where
  "model_pattern_response key r =
     bind_result (model_pattern_fields r) (\<lambda>j. Inr (JObject [(key, j)]))"

definition get_user_prompt_pattern_permissions :: "app \<Rightarrow> http_request \<Rightarrow> string \<Rightarrow> handler" where
  "get_user_prompt_pattern_permissions ap rq username =
     act_bind (check_admin_permission rq) (\<lambda>_.
     or_status 500
       (act_bind (read_db (\<lambda>db. registered_model_list_regex_for_user db username True)) (\<lambda>rm.
        act_bind (act_lift (mapM_result model_pattern_fields rm)) (\<lambda>js.
        act_return (200, JArray js)))))"

definition create_user_prompt_regex_permission ::
    "app \<Rightarrow> http_request \<Rightarrow> string \<Rightarrow> pattern_data \<Rightarrow> handler" where
  "create_user_prompt_regex_permission ap rq username d =
     act_bind (check_admin_permission rq) (\<lambda>admin_username.
     or_status 500
       (audited ap (RegexOp (CreateModelRegex True (pd_regex d) (pd_priority d) (pd_permission d) username))
          ''permission.create'' (Some admin_username) ''prompt_regex_permission'' username
          (pattern_detail d) (201, status_response)))"

definition get_user_prompt_regex_permission :: "app \<Rightarrow> http_request \<Rightarrow> string \<Rightarrow> string \<Rightarrow> handler" where
  "get_user_prompt_regex_permission ap rq username i =
     act_bind (check_admin_permission rq) (\<lambda>_.
     or_status_id 404 (pattern_id i (\<lambda>n.
        act_bind (read_db (\<lambda>db. registered_model_regex_get db n username True)) (\<lambda>rm.
        act_bind (act_lift (model_pattern_response ''prompt_permission'' rm)) (\<lambda>j.
        act_return (200, j))))))"

definition update_user_prompt_regex_permission ::
    "app \<Rightarrow> http_request \<Rightarrow> string \<Rightarrow> string \<Rightarrow> pattern_data \<Rightarrow> handler" where
  "update_user_prompt_regex_permission ap rq username i d =
     act_bind (check_admin_permission rq) (\<lambda>admin_username.
     or_status_id 500 (pattern_id i (\<lambda>n.
       audited_entity ap
         (RegexOp (UpdateModelRegex True n (pd_regex d) (pd_priority d) (pd_permission d) username))
         (\<lambda>db. registered_model_regex_update (se_re_compile (sv_store (ap_server ap))) db n (pd_regex d)
            (pd_priority d) (pd_permission d) username True)
         ''permission.update'' (Some admin_username) ''prompt_regex_permission'' username
         ((''id'', JString i) # pattern_detail d) 200 (model_pattern_response ''prompt_permission''))))"

definition delete_user_prompt_regex_permission :: "app \<Rightarrow> http_request \<Rightarrow> string \<Rightarrow> string \<Rightarrow> handler" where
  "delete_user_prompt_regex_permission ap rq username i =
     act_bind (check_admin_permission rq) (\<lambda>admin_username.
     or_status_id 500 (pattern_id i (\<lambda>n.
       audited ap (RegexOp (DeleteModelRegex True n username))
         ''permission.delete'' (Some admin_username) ''prompt_regex_permission'' username
         [(''id'', JString i)] (200, status_response))))"

section \<open>Registered models\<close>

definition get_user_registered_models :: "app \<Rightarrow> http_request \<Rightarrow> string \<Rightarrow> app_state \<Rightarrow>
    ((nat \<times> json) result \<times> app_state) option" where
  "get_user_registered_models ap rq username s =
     (case caller rq s of
        (Inl e, s') \<Rightarrow> Some (Inl e, s')
      | (Inr who, s') \<Rightarrow>
          fetched_then (fetch_all_registered_models (ap_mlflow ap) None None 1000)
            (named_listing (named_batch batch_resolve_model_permissions ap rq) who username) s')"

definition create_user_registered_model_permission ::
    "app \<Rightarrow> http_request \<Rightarrow> string \<Rightarrow> string \<Rightarrow> string \<Rightarrow> handler" where
  "create_user_registered_model_permission ap rq username name permission =
     act_bind (check_registered_model_manage_permission (ap_server ap) rq name) (\<lambda>current_username.
     or_status_code ap RESOURCE_ALREADY_EXISTS 409
       (audited ap (UserPermOp (CreatePermission RegisteredModel name username permission))
          ''permission.create'' current_username ''registered_model_permission'' name
          (permission_detail ''username'' username permission) (201, status_response)))"

definition get_user_registered_model_permission :: "app \<Rightarrow> http_request \<Rightarrow> string \<Rightarrow> string \<Rightarrow> handler" where
  "get_user_registered_model_permission ap rq username name =
     act_bind (check_registered_model_manage_permission (ap_server ap) rq name) (\<lambda>_.
     or_status 404
       (act_bind (read_db (\<lambda>db. user_get_permission RegisteredModel db (ResourceId name) username)) (\<lambda>rmp.
        act_bind (act_lift (model_record ''registered_model_permission'' rmp)) (\<lambda>j. act_return (200, j)))))"

definition update_user_registered_model_permission ::
    "app \<Rightarrow> http_request \<Rightarrow> string \<Rightarrow> string \<Rightarrow> string \<Rightarrow> handler" where
  "update_user_registered_model_permission ap rq username name permission =
     act_bind (check_registered_model_manage_permission (ap_server ap) rq name) (\<lambda>current_username.
     or_status_code ap RESOURCE_DOES_NOT_EXIST 404
       (audited ap (UserPermOp (UpdatePermission RegisteredModel name username permission))
          ''permission.update'' current_username ''registered_model_permission'' name
          (permission_detail ''username'' username permission) (200, status_response)))"

definition delete_user_registered_model_permission ::
    "app \<Rightarrow> http_request \<Rightarrow> string \<Rightarrow> string \<Rightarrow> handler" where
  "delete_user_registered_model_permission ap rq username name =
     act_bind (check_registered_model_manage_permission (ap_server ap) rq name) (\<lambda>current_username.
     or_status 500
       (audited ap (UserPermOp (DeletePermission RegisteredModel name username))
          ''permission.delete'' current_username ''registered_model_permission'' name
          [(''username'', JString username)] (200, status_response)))"

definition get_user_registered_model_regex_permissions :: "app \<Rightarrow> http_request \<Rightarrow> string \<Rightarrow> handler" where
  "get_user_registered_model_regex_permissions ap rq username =
     act_bind (check_admin_permission rq) (\<lambda>_.
     or_status 500
       (act_bind (read_db (\<lambda>db. registered_model_list_regex_for_user db username False)) (\<lambda>rm.
        act_bind (act_lift (mapM_result model_pattern_fields rm)) (\<lambda>js.
        act_return (200, JArray js)))))"

definition create_user_registered_model_regex_permission ::
    "app \<Rightarrow> http_request \<Rightarrow> string \<Rightarrow> pattern_data \<Rightarrow> handler" where
  "create_user_registered_model_regex_permission ap rq username d =
     act_bind (check_admin_permission rq) (\<lambda>admin_username.
     or_status 500
       (audited ap (RegexOp (CreateModelRegex False (pd_regex d) (pd_priority d) (pd_permission d) username))
          ''permission.create'' (Some admin_username) ''registered_model_regex_permission'' username
          (pattern_detail d) (201, status_response)))"

definition get_user_registered_model_regex_permission ::
    "app \<Rightarrow> http_request \<Rightarrow> string \<Rightarrow> string \<Rightarrow> handler" where
  "get_user_registered_model_regex_permission ap rq username i =
     act_bind (check_admin_permission rq) (\<lambda>_.
     or_status_id 404 (pattern_id i (\<lambda>n.
        act_bind (read_db (\<lambda>db. registered_model_regex_get db n username False)) (\<lambda>rm.
        act_bind (act_lift (model_pattern_response ''registered_model_permission'' rm)) (\<lambda>j.
        act_return (200, j))))))"

definition update_user_registered_model_regex_permission ::
    "app \<Rightarrow> http_request \<Rightarrow> string \<Rightarrow> string \<Rightarrow> pattern_data \<Rightarrow> handler" where
  "update_user_registered_model_regex_permission ap rq username i d =
     act_bind (check_admin_permission rq) (\<lambda>admin_username.
     or_status_id 500 (pattern_id i (\<lambda>n.
       audited_entity ap
         (RegexOp (UpdateModelRegex False n (pd_regex d) (pd_priority d) (pd_permission d) username))
         (\<lambda>db. registered_model_regex_update (se_re_compile (sv_store (ap_server ap))) db n (pd_regex d)
            (pd_priority d) (pd_permission d) username False)
         ''permission.update'' (Some admin_username) ''registered_model_regex_permission'' username
         ((''id'', JString i) # pattern_detail d) 200
         (model_pattern_response ''registered_model_permission''))))"

definition delete_user_registered_model_regex_permission ::
    "app \<Rightarrow> http_request \<Rightarrow> string \<Rightarrow> string \<Rightarrow> handler" where
  "delete_user_registered_model_regex_permission ap rq username i =
     act_bind (check_admin_permission rq) (\<lambda>admin_username.
     or_status_id 500 (pattern_id i (\<lambda>n.
       audited ap (RegexOp (DeleteModelRegex False n username))
         ''permission.delete'' (Some admin_username) ''registered_model_regex_permission'' username
         [(''id'', JString i)] (200, status_response))))"

section \<open>Scorers\<close>

definition scorer_record :: "perm_entity \<Rightarrow> json result" where
  "scorer_record e =
     build_model [''experiment_id'', ''scorer_name'', ''user_id'', ''permission''] []
       (scorer_permission_to_json (scorer_object e))"

definition scorer_response :: "perm_entity \<Rightarrow> json result" where
  "scorer_response e = bind_result (scorer_record e) (\<lambda>j. Inr (JObject [(''scorer_permission'', j)]))"

text \<open>Whether a user manages the experiment of a scorer.\<close>

definition manages_experiment :: "server \<Rightarrow> string \<Rightarrow> perm_entity \<Rightarrow> (bool, app_state) action" where
  "manages_experiment sv current_username e =
     on_store_state (with_caches (\<lambda>db.
       can_manage_experiment (sv_config sv) (sv_outside sv) db None (resource_id_of (pe_key e))
         current_username))"

definition get_user_scorer_permissions :: "app \<Rightarrow> http_request \<Rightarrow> string \<Rightarrow> handler" where
  "get_user_scorer_permissions ap rq username =
     act_bind (caller rq) (\<lambda>(current_username, is_admin).
     or_status 500
       (act_bind (read_db (\<lambda>db. user_list_permissions_for_user Scorer db username)) (\<lambda>perms.
        act_bind (if is_admin \<or> current_username = username then act_return perms
                  else filterM_action (manages_experiment (ap_server ap) current_username) perms) (\<lambda>filtered.
        act_bind (act_lift (mapM_result scorer_record filtered)) (\<lambda>js.
        act_return (200, JArray js))))))"

definition scorer_detail :: "string \<Rightarrow> string \<Rightarrow> string \<Rightarrow> string \<Rightarrow> (string \<times> json) list" where
  "scorer_detail key owner experiment_id permission =
     [(key, JString owner), (''experiment_id'', JString experiment_id), (''permission'', JString permission)]"

definition create_user_scorer_permission ::
    "app \<Rightarrow> http_request \<Rightarrow> string \<Rightarrow> string \<Rightarrow> string \<Rightarrow> string \<Rightarrow> handler" where
  "create_user_scorer_permission ap rq username experiment_id scorer_name permission =
     act_bind (check_experiment_manage_permission (ap_server ap) rq experiment_id) (\<lambda>current_username.
     or_status_code ap RESOURCE_ALREADY_EXISTS 409
       (audited_entity ap (UserPermOp (CreateScorer experiment_id scorer_name username permission))
          (\<lambda>db. scorer_grant_permission db experiment_id scorer_name username permission)
          ''permission.create'' current_username ''scorer_permission'' scorer_name
          (scorer_detail ''username'' username experiment_id permission) 201 scorer_response))"

definition get_user_scorer_permission :: "app \<Rightarrow> http_request \<Rightarrow> string \<Rightarrow> string \<Rightarrow> string \<Rightarrow> handler" where
  "get_user_scorer_permission ap rq username experiment_id scorer_name =
     act_bind (check_experiment_manage_permission (ap_server ap) rq experiment_id) (\<lambda>_.
     or_status 404
       (act_bind (read_db (\<lambda>db. scorer_get_permission db experiment_id scorer_name username)) (\<lambda>sp.
        act_bind (act_lift (scorer_response sp)) (\<lambda>j. act_return (200, j)))))"

definition update_user_scorer_permission ::
    "app \<Rightarrow> http_request \<Rightarrow> string \<Rightarrow> string \<Rightarrow> string \<Rightarrow> string \<Rightarrow> handler" where
  "update_user_scorer_permission ap rq username experiment_id scorer_name permission =
     act_bind (check_experiment_manage_permission (ap_server ap) rq experiment_id) (\<lambda>current_username.
     or_status_code ap RESOURCE_DOES_NOT_EXIST 404
       (audited ap (UserPermOp (UpdateScorer experiment_id scorer_name username permission))
          ''permission.update'' current_username ''scorer_permission'' scorer_name
          (scorer_detail ''username'' username experiment_id permission) (200, status_response)))"

definition delete_user_scorer_permission ::
    "app \<Rightarrow> http_request \<Rightarrow> string \<Rightarrow> string \<Rightarrow> string \<Rightarrow> handler" where
  "delete_user_scorer_permission ap rq username experiment_id scorer_name =
     act_bind (check_experiment_manage_permission (ap_server ap) rq experiment_id) (\<lambda>current_username.
     or_status 500
       (audited ap (UserPermOp (DeleteScorer experiment_id scorer_name username))
          ''permission.delete'' current_username ''scorer_permission'' scorer_name
          [(''username'', JString username), (''experiment_id'', JString experiment_id)]
          (200, status_response)))"

definition scorer_pattern_fields :: "regex_entity \<Rightarrow> json result" where
  "scorer_pattern_fields r =
     build_model [''id'', ''regex'', ''priority'', ''user_id'', ''permission''] []
       (scorer_regex_to_json (scorer_regex_of r))"

definition scorer_pattern_response :: "regex_entity \<Rightarrow> json result" where
  "scorer_pattern_response r = bind_result (scorer_pattern_fields r) (\<lambda>j. Inr (JObject [(''pattern'', j)]))"

definition get_user_scorer_regex_permissions :: "app \<Rightarrow> http_request \<Rightarrow> string \<Rightarrow> handler" where
  "get_user_scorer_regex_permissions ap rq username =
     act_bind (check_admin_permission rq) (\<lambda>_.
     or_status 500
       (act_bind (read_db (\<lambda>db. list_regex_for_user Scorer db username)) (\<lambda>perms.
        act_bind (act_lift (mapM_result scorer_pattern_fields perms)) (\<lambda>js. act_return (200, JArray js)))))"

definition create_user_scorer_regex_permission ::
    "app \<Rightarrow> http_request \<Rightarrow> string \<Rightarrow> pattern_data \<Rightarrow> handler" where
  "create_user_scorer_regex_permission ap rq username d =
     act_bind (check_admin_permission rq) (\<lambda>admin_username.
     or_status_code ap RESOURCE_ALREADY_EXISTS 409
       (audited_entity ap (RegexOp (CreateRegex Scorer (pd_regex d) (pd_priority d) (pd_permission d) username))
          (\<lambda>db. regex_grant (se_re_compile (sv_store (ap_server ap))) Scorer db (pd_regex d) (pd_priority d)
             (pd_permission d) username)
          ''permission.create'' (Some admin_username) ''scorer_regex_permission'' username
          (pattern_detail d) 201 scorer_pattern_response))"

definition get_user_scorer_pattern_permission :: "app \<Rightarrow> http_request \<Rightarrow> string \<Rightarrow> int \<Rightarrow> handler" where
  "get_user_scorer_pattern_permission ap rq username i =
     act_bind (check_admin_permission rq) (\<lambda>_.
     or_status 404 (row_id i (\<lambda>n.
       act_bind (read_db (\<lambda>db. regex_get Scorer db username n)) (\<lambda>perm.
       act_bind (act_lift (scorer_pattern_response perm)) (\<lambda>j. act_return (200, j))))))"

definition update_user_scorer_pattern_permission ::
    "app \<Rightarrow> http_request \<Rightarrow> string \<Rightarrow> int \<Rightarrow> pattern_data \<Rightarrow> handler" where
  "update_user_scorer_pattern_permission ap rq username i d =
     act_bind (check_admin_permission rq) (\<lambda>admin_username.
     or_status 500 (row_id i (\<lambda>n.
       audited_entity ap
         (RegexOp (UpdateRegex Scorer (pd_regex d) (pd_priority d) (pd_permission d) username n))
         (\<lambda>db. scorer_regex_update (se_re_compile (sv_store (ap_server ap))) db n (pd_regex d)
            (pd_priority d) (pd_permission d) username)
         ''permission.update'' (Some admin_username) ''scorer_regex_permission'' username
         ((''id'', json_int i) # pattern_detail d) 200 scorer_pattern_response)))"

definition delete_user_scorer_pattern_permission :: "app \<Rightarrow> http_request \<Rightarrow> string \<Rightarrow> int \<Rightarrow> handler" where
  "delete_user_scorer_pattern_permission ap rq username i =
     act_bind (check_admin_permission rq) (\<lambda>admin_username.
     or_status 500 (row_id i (\<lambda>n.
       audited ap (RegexOp (DeleteRegex Scorer username n))
         ''permission.delete'' (Some admin_username) ''scorer_regex_permission'' username
         [(''id'', json_int i)] (200, status_response))))"

section \<open>Gateway resources\<close>

text \<open>
  The routes of the three gateway resources are the same but for the resource: each is an
  instance, at the end of this section, of a handler for any class of resource.
\<close>

definition effective_gateway_permission where
  "effective_gateway_permission c =
     (if c = GatewayEndpoint then effective_gateway_endpoint_permission
      else if c = GatewaySecret then effective_gateway_secret_permission
      else effective_gateway_model_definition_permission)"

definition gateway_permission :: "app \<Rightarrow> resource_class \<Rightarrow> string \<Rightarrow> string \<Rightarrow> (permission_result, app_state) action" where
  "gateway_permission ap c name username =
     on_store_state (with_caches (\<lambda>db. effective_gateway_permission c (sv_config (ap_server ap))
       (sv_outside (ap_server ap)) db None name username))"

fun gateway_results :: "app \<Rightarrow> resource_class \<Rightarrow> string \<times> bool \<Rightarrow> string \<Rightarrow> string list \<Rightarrow>
    (json list, app_state) action" where
  "gateway_results ap c who username [] = act_return []"
| "gateway_results ap c who username (name # names) =
     (if name = '''' then gateway_results ap c who username names
      else
        act_bind (gateway_permission ap c name username) (\<lambda>perm_result.
        act_bind (if snd who then act_return True
                  else if fst who = username
                  then act_return (perm_name (pr_permission perm_result) \<noteq> perm_name NO_PERMISSIONS)
                  else act_map (\<lambda>r. can_manage (pr_permission r)) (gateway_permission ap c name (fst who)))
          (\<lambda>ok.
        act_bind (gateway_results ap c who username names) (\<lambda>js.
        act_return (if ok then named_summary name perm_result # js else js)))))"

definition gateway_listing :: "app \<Rightarrow> http_request \<Rightarrow> resource_class \<Rightarrow> json_object list result \<Rightarrow>
    (json_object \<Rightarrow> string) \<Rightarrow> string \<Rightarrow> handler" where
  "gateway_listing ap rq c fetched name_of username =
     act_bind (caller rq) (\<lambda>who.
     or_status 500
       (act_bind (act_lift fetched) (\<lambda>items.
        act_bind (gateway_results ap c who username (map name_of items)) (\<lambda>js.
        act_return (200, JArray js)))))"

definition gateway_summary :: "perm_entity \<Rightarrow> json" where
  "gateway_summary perm =
     JObject [(''name'', JString (resource_id_of (pe_key perm))), (''permission'', JString (pe_permission perm)),
       (''kind'', JString ''user'')]"

definition create_user_gateway_permission ::
    "resource_class \<Rightarrow> app \<Rightarrow> http_request \<Rightarrow> string \<Rightarrow> string \<Rightarrow> string \<Rightarrow> handler" where
  "create_user_gateway_permission c ap rq username name permission =
     act_bind (check_admin_permission rq) (\<lambda>admin_username.
     or_status 500
       (audited_entity ap (UserPermOp (CreatePermission c name username permission))
          (\<lambda>db. user_grant_permission c db (ResourceId name) username permission)
          ''permission.create'' (Some admin_username) (class_name c @ ''_permission'') name
          (permission_detail ''username'' username permission) 201 (\<lambda>e. Inr (gateway_summary e))))"

definition get_user_gateway_permission ::
    "resource_class \<Rightarrow> app \<Rightarrow> http_request \<Rightarrow> string \<Rightarrow> string \<Rightarrow> handler" where
  "get_user_gateway_permission c ap rq username name =
     act_bind (check_admin_permission rq) (\<lambda>_.
     or_status 404
       (act_bind (read_db (\<lambda>db. user_get_permission c db (ResourceId name) username)) (\<lambda>perm.
        act_return (200, gateway_summary perm))))"

definition update_user_gateway_permission ::
    "resource_class \<Rightarrow> app \<Rightarrow> http_request \<Rightarrow> string \<Rightarrow> string \<Rightarrow> string \<Rightarrow> handler" where
  "update_user_gateway_permission c ap rq username name permission =
     act_bind (check_admin_permission rq) (\<lambda>admin_username.
     or_status 500
       (audited ap (UserPermOp (UpdatePermission c name username permission))
          ''permission.update'' (Some admin_username) (class_name c @ ''_permission'') name
          (permission_detail ''username'' username permission) (200, status_response)))"

definition delete_user_gateway_permission ::
    "resource_class \<Rightarrow> app \<Rightarrow> http_request \<Rightarrow> string \<Rightarrow> string \<Rightarrow> handler" where
  "delete_user_gateway_permission c ap rq username name =
     act_bind (check_admin_permission rq) (\<lambda>admin_username.
     or_status 500
       (audited ap (UserPermOp (DeletePermission c name username))
          ''permission.delete'' (Some admin_username) (class_name c @ ''_permission'') name
          [(''username'', JString username)] (200, status_response)))"

definition user_gateway_pattern :: "regex_entity \<Rightarrow> json" where
  "user_gateway_pattern p =
     JObject [(''id'', json_int (int (re_id p))), (''regex'', JString (re_regex p)),
       (''priority'', json_int (re_priority p)), (''user_id'', json_id (map_option int (re_user_id p))),
       (''permission'', JString (re_permission p)), (''kind'', JString ''user'')]"

definition get_user_gateway_pattern_permissions ::
    "resource_class \<Rightarrow> app \<Rightarrow> http_request \<Rightarrow> string \<Rightarrow> handler" where
  "get_user_gateway_pattern_permissions c ap rq username =
     act_bind (check_admin_permission rq) (\<lambda>_.
     or_status 500
       (act_bind (read_db (\<lambda>db. list_regex_for_user c db username)) (\<lambda>perms.
        act_return (200, JArray (map user_gateway_pattern perms)))))"

definition create_user_gateway_pattern_permission ::
    "resource_class \<Rightarrow> app \<Rightarrow> http_request \<Rightarrow> string \<Rightarrow> pattern_data \<Rightarrow> handler" where
  "create_user_gateway_pattern_permission c ap rq username d =
     act_bind (check_admin_permission rq) (\<lambda>admin_username.
     or_status 500
       (audited_entity ap (RegexOp (CreateRegex c (pd_regex d) (pd_priority d) (pd_permission d) username))
          (\<lambda>db. regex_grant (se_re_compile (sv_store (ap_server ap))) c db (pd_regex d) (pd_priority d)
             (pd_permission d) username)
          ''permission.create'' (Some admin_username) (class_name c @ ''_regex_permission'') username
          (pattern_detail d) 201 (\<lambda>p. Inr (user_gateway_pattern p))))"

definition get_user_gateway_pattern_permission ::
    "resource_class \<Rightarrow> app \<Rightarrow> http_request \<Rightarrow> string \<Rightarrow> int \<Rightarrow> handler" where
  "get_user_gateway_pattern_permission c ap rq username i =
     act_bind (check_admin_permission rq) (\<lambda>_.
     or_status 404 (row_id i (\<lambda>n.
       act_bind (read_db (\<lambda>db. regex_get c db username n)) (\<lambda>perm.
       act_return (200, user_gateway_pattern perm)))))"

definition update_user_gateway_pattern_permission ::
    "resource_class \<Rightarrow> app \<Rightarrow> http_request \<Rightarrow> string \<Rightarrow> int \<Rightarrow> pattern_data \<Rightarrow> handler" where
  "update_user_gateway_pattern_permission c ap rq username i d =
     act_bind (check_admin_permission rq) (\<lambda>admin_username.
     or_status 500 (row_id i (\<lambda>n.
       audited_entity ap
         (RegexOp (UpdateRegex c (pd_regex d) (pd_priority d) (pd_permission d) username n))
         (\<lambda>db. gateway_regex_update (se_re_compile (sv_store (ap_server ap))) c db n (pd_regex d)
            (pd_priority d) (pd_permission d) username)
         ''permission.update'' (Some admin_username) (class_name c @ ''_regex_permission'') username
         ((''id'', json_int i) # pattern_detail d) 200 (\<lambda>p. Inr (user_gateway_pattern p)))))"

definition delete_user_gateway_pattern_permission ::
    "resource_class \<Rightarrow> app \<Rightarrow> http_request \<Rightarrow> string \<Rightarrow> int \<Rightarrow> handler" where
  "delete_user_gateway_pattern_permission c ap rq username i =
     act_bind (check_admin_permission rq) (\<lambda>admin_username.
     or_status 500 (row_id i (\<lambda>n.
       audited ap (RegexOp (DeleteRegex c username n))
         ''permission.delete'' (Some admin_username) (class_name c @ ''_regex_permission'') username
         [(''id'', json_int i)] (200, status_response))))"

text \<open>The instances.\<close>

definition get_user_gateway_endpoint_permissions :: "app \<Rightarrow> http_request \<Rightarrow> string \<Rightarrow> handler" where
  "get_user_gateway_endpoint_permissions ap rq =
     gateway_listing ap rq GatewayEndpoint (fetch_all_gateway_endpoints (ap_mlflow ap)) item_name"

definition create_user_gateway_endpoint_permission where
  "create_user_gateway_endpoint_permission = create_user_gateway_permission GatewayEndpoint"

definition get_user_gateway_endpoint_permission where
  "get_user_gateway_endpoint_permission = get_user_gateway_permission GatewayEndpoint"

definition update_user_gateway_endpoint_permission where
  "update_user_gateway_endpoint_permission = update_user_gateway_permission GatewayEndpoint"

definition delete_user_gateway_endpoint_permission where
  "delete_user_gateway_endpoint_permission = delete_user_gateway_permission GatewayEndpoint"

definition get_user_gateway_endpoint_pattern_permissions where
  "get_user_gateway_endpoint_pattern_permissions = get_user_gateway_pattern_permissions GatewayEndpoint"

definition create_user_gateway_endpoint_pattern_permission where
  "create_user_gateway_endpoint_pattern_permission = create_user_gateway_pattern_permission GatewayEndpoint"

definition get_user_gateway_endpoint_pattern_permission where
  "get_user_gateway_endpoint_pattern_permission = get_user_gateway_pattern_permission GatewayEndpoint"

definition update_user_gateway_endpoint_pattern_permission where
  "update_user_gateway_endpoint_pattern_permission = update_user_gateway_pattern_permission GatewayEndpoint"

definition delete_user_gateway_endpoint_pattern_permission where
  "delete_user_gateway_endpoint_pattern_permission = delete_user_gateway_pattern_permission GatewayEndpoint"

definition get_user_gateway_model_definition_permissions :: "app \<Rightarrow> http_request \<Rightarrow> string \<Rightarrow> handler" where
  "get_user_gateway_model_definition_permissions ap rq =
     gateway_listing ap rq GatewayModelDefinition (fetch_all_gateway_model_definitions (ap_mlflow ap)) item_name"

definition create_user_gateway_model_definition_permission where
  "create_user_gateway_model_definition_permission = create_user_gateway_permission GatewayModelDefinition"

definition get_user_gateway_model_definition_permission where
  "get_user_gateway_model_definition_permission = get_user_gateway_permission GatewayModelDefinition"

definition update_user_gateway_model_definition_permission where
  "update_user_gateway_model_definition_permission = update_user_gateway_permission GatewayModelDefinition"

definition delete_user_gateway_model_definition_permission where
  "delete_user_gateway_model_definition_permission = delete_user_gateway_permission GatewayModelDefinition"

definition get_user_gateway_model_definition_pattern_permissions where
  "get_user_gateway_model_definition_pattern_permissions = get_user_gateway_pattern_permissions GatewayModelDefinition"

definition create_user_gateway_model_definition_pattern_permission where
  "create_user_gateway_model_definition_pattern_permission = create_user_gateway_pattern_permission GatewayModelDefinition"

definition get_user_gateway_model_definition_pattern_permission where
  "get_user_gateway_model_definition_pattern_permission = get_user_gateway_pattern_permission GatewayModelDefinition"

definition update_user_gateway_model_definition_pattern_permission where
  "update_user_gateway_model_definition_pattern_permission = update_user_gateway_pattern_permission GatewayModelDefinition"

definition delete_user_gateway_model_definition_pattern_permission where
  "delete_user_gateway_model_definition_pattern_permission = delete_user_gateway_pattern_permission GatewayModelDefinition"

definition get_user_gateway_secret_permissions :: "app \<Rightarrow> http_request \<Rightarrow> string \<Rightarrow> handler" where
  "get_user_gateway_secret_permissions ap rq =
     gateway_listing ap rq GatewaySecret (fetch_all_gateway_secrets (ap_mlflow ap)) secret_item_name"

definition create_user_gateway_secret_permission where
  "create_user_gateway_secret_permission = create_user_gateway_permission GatewaySecret"

definition get_user_gateway_secret_permission where
  "get_user_gateway_secret_permission = get_user_gateway_permission GatewaySecret"

definition update_user_gateway_secret_permission where
  "update_user_gateway_secret_permission = update_user_gateway_permission GatewaySecret"

definition delete_user_gateway_secret_permission where
  "delete_user_gateway_secret_permission = delete_user_gateway_permission GatewaySecret"

definition get_user_gateway_secret_pattern_permissions where
  "get_user_gateway_secret_pattern_permissions = get_user_gateway_pattern_permissions GatewaySecret"

definition create_user_gateway_secret_pattern_permission where
  "create_user_gateway_secret_pattern_permission = create_user_gateway_pattern_permission GatewaySecret"

definition get_user_gateway_secret_pattern_permission where
  "get_user_gateway_secret_pattern_permission = get_user_gateway_pattern_permission GatewaySecret"

definition update_user_gateway_secret_pattern_permission where
  "update_user_gateway_secret_pattern_permission = update_user_gateway_pattern_permission GatewaySecret"

definition delete_user_gateway_secret_pattern_permission where
  "delete_user_gateway_secret_pattern_permission = delete_user_gateway_pattern_permission GatewaySecret"

text \<open>The routes that write.\<close>

lemmas user_handler_defs =
  create_user_experiment_permission_def update_user_experiment_permission_def
  delete_user_experiment_permission_def create_user_experiment_pattern_permission_def
  update_user_experiment_pattern_permission_def delete_user_experiment_pattern_permission_def
  create_user_prompt_permission_def update_user_prompt_permission_def
  delete_user_prompt_permission_def create_user_prompt_regex_permission_def
  update_user_prompt_regex_permission_def delete_user_prompt_regex_permission_def
  create_user_registered_model_permission_def update_user_registered_model_permission_def
  delete_user_registered_model_permission_def create_user_registered_model_regex_permission_def
  update_user_registered_model_regex_permission_def
  delete_user_registered_model_regex_permission_def create_user_scorer_permission_def
  update_user_scorer_permission_def delete_user_scorer_permission_def
  create_user_scorer_regex_permission_def update_user_scorer_pattern_permission_def
  delete_user_scorer_pattern_permission_def create_user_gateway_permission_def
  update_user_gateway_permission_def delete_user_gateway_permission_def
  create_user_gateway_pattern_permission_def update_user_gateway_pattern_permission_def
  delete_user_gateway_pattern_permission_def

end
