(* ===== verification/GroupRouter.thy ===== *)
theory GroupRouter
  imports UserRouter
begin

text \<open>
  \<^verbatim>\<open>routers/group_permissions.py\<close>: the routes that list the groups and their members, and those
  that list, create, read, change and delete the permissions and the patterns of a group.
\<close>

section \<open>Groups\<close>

definition list_groups_route :: "app \<Rightarrow> http_request \<Rightarrow> handler" where
  "list_groups_route ap rq =
     act_bind (act_lift (get_username rq)) (\<lambda>_.
     or_status 500
       (act_bind (read_db (\<lambda>db. Inr (list_groups db))) (\<lambda>groups.
        act_return (200, JArray (map JString groups)))))"

definition get_group_users :: "app \<Rightarrow> http_request \<Rightarrow> string \<Rightarrow> handler" where
  "get_group_users ap rq group_name =
     act_bind (check_admin_permission rq) (\<lambda>_.
     or_status 404
       (act_bind (read_db (\<lambda>db. list_group_members db group_name)) (\<lambda>users.
        act_return (200, JArray (map (\<lambda>u.
          JObject [(''username'', JString (u_username (ue_user u))),
            (''is_admin'', JBool (u_is_admin (ue_user u)))]) users)))))"

text \<open>\<^verbatim>\<open>is_admin or effective_..._permission(...).permission.can_manage\<close>\<close>

definition manages where
  "manages can ap who name =
     (if snd who then act_return True
      else on_store_state (with_caches (\<lambda>db.
        can (sv_config (ap_server ap)) (sv_outside (ap_server ap)) db None name (fst who))))"

definition can_manage_prompt where
  "can_manage_prompt config env db ws prompt_name user =
     capability can_manage (effective_prompt_permission config env db ws prompt_name user)"

definition require_manage where
  "require_manage can ap who name =
     act_bind (manages can ap who name) (\<lambda>ok.
     if ok then act_return () else act_raise (HTTPException 403))"

definition group_item :: "(string \<times> json) list \<Rightarrow> json" where
  "group_item attributes = JObject (attributes @ [(''kind'', JString ''group'')])"

section \<open>Experiments\<close>

fun group_experiment_items :: "app \<Rightarrow> string \<times> bool \<Rightarrow> perm_entity list \<Rightarrow> (json list, app_state) action" where
  "group_experiment_items ap who [] = act_return []"
| "group_experiment_items ap who (e # es) =
     act_bind (manages can_manage_experiment ap who (resource_id_of (pe_key e))) (\<lambda>ok.
     if \<not> ok then group_experiment_items ap who es
     else
       act_bind (act_lift (experiment_name (sv_outside (ap_server ap)) (resource_id_of (pe_key e)))) (\<lambda>name.
       act_bind (group_experiment_items ap who es) (\<lambda>js.
       act_return (group_item [(''id'', JString (resource_id_of (pe_key e))), (''name'', JString name),
         (''permission'', JString (pe_permission e))] # js))))"

definition get_group_experiments :: "app \<Rightarrow> http_request \<Rightarrow> string \<Rightarrow> handler" where
  "get_group_experiments ap rq group_name =
     act_bind (caller rq) (\<lambda>who.
     or_status 500
       (act_bind (read_db (\<lambda>db. group_list_permissions_for_group Experiment db group_name)) (\<lambda>es.
        act_bind (group_experiment_items ap who es) (\<lambda>js. act_return (200, JArray js)))))"

definition create_group_experiment_permission :: "app \<Rightarrow> http_request \<Rightarrow> string \<Rightarrow> string \<Rightarrow> string \<Rightarrow> handler" where
  "create_group_experiment_permission ap rq group_name experiment_id permission =
     act_bind (check_experiment_manage_permission (ap_server ap) rq experiment_id) (\<lambda>current_username.
     or_status 500
       (audited ap (GroupPermOp (CreateGroupPermission Experiment group_name experiment_id permission))
          ''permission.create'' current_username ''group_experiment_permission'' experiment_id
          (permission_detail ''group_name'' group_name permission) (201, status_response)))"

definition update_group_experiment_permission :: "app \<Rightarrow> http_request \<Rightarrow> string \<Rightarrow> string \<Rightarrow> string \<Rightarrow> handler" where
  "update_group_experiment_permission ap rq group_name experiment_id permission =
     act_bind (check_experiment_manage_permission (ap_server ap) rq experiment_id) (\<lambda>current_username.
     or_status 500
       (audited ap (GroupPermOp (UpdateGroupPermission Experiment group_name experiment_id permission))
          ''permission.update'' current_username ''group_experiment_permission'' experiment_id
          (permission_detail ''group_name'' group_name permission) (200, status_response)))"

definition delete_group_experiment_permission :: "app \<Rightarrow> http_request \<Rightarrow> string \<Rightarrow> string \<Rightarrow> handler" where
  "delete_group_experiment_permission ap rq group_name experiment_id =
     act_bind (check_experiment_manage_permission (ap_server ap) rq experiment_id) (\<lambda>current_username.
     or_status 500
       (audited ap (GroupPermOp (DeleteGroupPermission Experiment group_name experiment_id))
          ''permission.delete'' current_username ''group_experiment_permission'' experiment_id
          [(''group_name'', JString group_name)] (200, status_response)))"

section \<open>Registered models and prompts\<close>

definition named_items :: "perm_entity list \<Rightarrow> json list" where
  "named_items es =
     map (\<lambda>e. group_item [(''name'', JString (resource_id_of (pe_key e))),
                          (''permission'', JString (pe_permission e))]) es"

definition get_group_registered_models :: "app \<Rightarrow> http_request \<Rightarrow> string \<Rightarrow> handler" where
  "get_group_registered_models ap rq group_name =
     act_bind (caller rq) (\<lambda>who.
     or_status 500
       (act_bind (read_db (\<lambda>db. group_list_permissions_for_group RegisteredModel db group_name)) (\<lambda>es.
        act_bind (filterM_action (\<lambda>e. manages can_manage_registered_model ap who (resource_id_of (pe_key e))) es)
          (\<lambda>es. act_return (200, JArray (named_items es))))))"

definition create_group_registered_model_permission ::
    "app \<Rightarrow> http_request \<Rightarrow> string \<Rightarrow> string \<Rightarrow> string \<Rightarrow> handler" where
  "create_group_registered_model_permission ap rq group_name name permission =
     act_bind (caller rq) (\<lambda>who.
     act_bind (require_manage can_manage_registered_model ap who name) (\<lambda>_.
     or_status 500
       (audited ap (GroupPermOp (CreateGroupPermission RegisteredModel group_name name permission))
          ''permission.create'' (Some (fst who)) ''group_registered_model_permission'' name
          (permission_detail ''group_name'' group_name permission) (201, status_response))))"

definition update_group_registered_model_permission ::
    "app \<Rightarrow> http_request \<Rightarrow> string \<Rightarrow> string \<Rightarrow> string \<Rightarrow> handler" where
  "update_group_registered_model_permission ap rq group_name name permission =
     act_bind (caller rq) (\<lambda>who.
     act_bind (require_manage can_manage_registered_model ap who name) (\<lambda>_.
     or_status 500
       (audited ap (GroupPermOp (UpdateGroupPermission RegisteredModel group_name name permission))
          ''permission.update'' (Some (fst who)) ''group_registered_model_permission'' name
          (permission_detail ''group_name'' group_name permission) (200, status_response))))"

definition delete_group_registered_model_permission ::
    "app \<Rightarrow> http_request \<Rightarrow> string \<Rightarrow> string \<Rightarrow> handler" where
  "delete_group_registered_model_permission ap rq group_name name =
     act_bind (caller rq) (\<lambda>who.
     act_bind (require_manage can_manage_registered_model ap who name) (\<lambda>_.
     or_status 500
       (audited ap (GroupPermOp (DeleteGroupPermission RegisteredModel group_name name))
          ''permission.delete'' (Some (fst who)) ''group_registered_model_permission'' name
          [(''group_name'', JString group_name)] (200, status_response))))"

definition get_group_prompts :: "app \<Rightarrow> http_request \<Rightarrow> string \<Rightarrow> handler" where
  "get_group_prompts ap rq group_name =
     act_bind (caller rq) (\<lambda>who.
     or_status 500
       (act_bind (read_db (\<lambda>db. list_prompt_permissions_for_group db group_name)) (\<lambda>es.
        act_bind (filterM_action (\<lambda>e. manages can_manage_prompt ap who (resource_id_of (pe_key e))) es)
          (\<lambda>es. act_return (200, JArray (named_items es))))))"

definition create_group_prompt_permission ::
    "app \<Rightarrow> http_request \<Rightarrow> string \<Rightarrow> string \<Rightarrow> string \<Rightarrow> handler" where
  "create_group_prompt_permission ap rq group_name prompt_name permission =
     act_bind (caller rq) (\<lambda>who.
     act_bind (require_manage can_manage_prompt ap who prompt_name) (\<lambda>_.
     or_status 500
       (audited ap (GroupPermOp (CreateGroupPrompt group_name prompt_name permission))
          ''permission.create'' (Some (fst who)) ''group_prompt_permission'' prompt_name
          (permission_detail ''group_name'' group_name permission) (201, status_response))))"

definition update_group_prompt_permission ::
    "app \<Rightarrow> http_request \<Rightarrow> string \<Rightarrow> string \<Rightarrow> string \<Rightarrow> handler" where
  "update_group_prompt_permission ap rq group_name prompt_name permission =
     act_bind (caller rq) (\<lambda>who.
     act_bind (require_manage can_manage_prompt ap who prompt_name) (\<lambda>_.
     or_status 500
       (audited ap (GroupPermOp (UpdateGroupPrompt group_name prompt_name permission))
          ''permission.update'' (Some (fst who)) ''group_prompt_permission'' prompt_name
          (permission_detail ''group_name'' group_name permission) (200, status_response))))"

definition delete_group_prompt_permission :: "app \<Rightarrow> http_request \<Rightarrow> string \<Rightarrow> string \<Rightarrow> handler" where
  "delete_group_prompt_permission ap rq group_name prompt_name =
     act_bind (caller rq) (\<lambda>who.
     act_bind (require_manage can_manage_prompt ap who prompt_name) (\<lambda>_.
     or_status 500
       (audited ap (GroupPermOp (DeleteGroupPrompt group_name prompt_name))
          ''permission.delete'' (Some (fst who)) ''group_prompt_permission'' prompt_name
          [(''group_name'', JString group_name)] (200, status_response))))"

section \<open>Patterns\<close>

definition group_pattern_item :: "regex_entity \<Rightarrow> json" where
  "group_pattern_item p =
     group_item [(''id'', json_int (int (re_id p))), (''regex'', JString (re_regex p)),
       (''priority'', json_int (re_priority p)), (''group_id'', json_id (map_option int (re_group_id p))),
       (''permission'', JString (re_permission p))]"

definition group_model_pattern_item :: "regex_entity \<Rightarrow> json" where
  "group_model_pattern_item p =
     group_item [(''id'', json_int (int (re_id p))), (''regex'', JString (re_regex p)),
       (''priority'', json_int (re_priority p)), (''group_id'', json_id (map_option int (re_group_id p))),
       (''permission'', JString (re_permission p)), (''prompt'', JBool (re_prompt p))]"

definition get_group_experiment_pattern_permissions :: "app \<Rightarrow> http_request \<Rightarrow> string \<Rightarrow> handler" where
  "get_group_experiment_pattern_permissions ap rq group_name =
     act_bind (check_admin_permission rq) (\<lambda>_.
     or_status 500
       (act_bind (read_db (\<lambda>db. group_regex_list_permissions_for_group Experiment db group_name)) (\<lambda>patterns.
        act_return (200, JArray (map group_pattern_item patterns)))))"

definition create_group_experiment_pattern_permission ::
    "app \<Rightarrow> http_request \<Rightarrow> string \<Rightarrow> pattern_data \<Rightarrow> handler" where
  "create_group_experiment_pattern_permission ap rq group_name d =
     act_bind (check_admin_permission rq) (\<lambda>admin_username.
     or_status 500
       (audited ap (RegexOp (CreateGroupRegex Experiment group_name (pd_regex d) (pd_priority d) (pd_permission d)))
          ''permission.create'' (Some admin_username) ''group_experiment_regex_permission'' group_name
          (pattern_detail d) (201, status_response)))"

definition get_group_experiment_pattern_permission :: "app \<Rightarrow> http_request \<Rightarrow> string \<Rightarrow> int \<Rightarrow> handler" where
  "get_group_experiment_pattern_permission ap rq group_name i =
     act_bind (check_admin_permission rq) (\<lambda>_.
     or_status 500 (row_id i (\<lambda>n.
       act_bind (read_db (\<lambda>db. group_regex_get Experiment db group_name n)) (\<lambda>pattern.
       act_return (200, group_pattern_item pattern)))))"

definition update_group_experiment_pattern_permission ::
    "app \<Rightarrow> http_request \<Rightarrow> string \<Rightarrow> int \<Rightarrow> pattern_data \<Rightarrow> handler" where
  "update_group_experiment_pattern_permission ap rq group_name i d =
     act_bind (check_admin_permission rq) (\<lambda>admin_username.
     or_status 500 (row_id i (\<lambda>n.
       audited ap (RegexOp (UpdateGroupRegex Experiment n group_name (pd_regex d) (pd_priority d) (pd_permission d)))
         ''permission.update'' (Some admin_username) ''group_experiment_regex_permission'' group_name
         ((''id'', json_int i) # pattern_detail d) (200, status_response))))"

definition delete_group_experiment_pattern_permission ::
    "app \<Rightarrow> http_request \<Rightarrow> string \<Rightarrow> int \<Rightarrow> handler" where
  "delete_group_experiment_pattern_permission ap rq group_name i =
     act_bind (check_admin_permission rq) (\<lambda>admin_username.
     or_status 500 (row_id i (\<lambda>n.
       audited ap (RegexOp (DeleteGroupRegex Experiment group_name n))
         ''permission.delete'' (Some admin_username) ''group_experiment_regex_permission'' group_name
         [(''id'', json_int i)] (200, status_response))))"

definition get_group_registered_model_pattern_permissions :: "app \<Rightarrow> http_request \<Rightarrow> string \<Rightarrow> handler" where
  "get_group_registered_model_pattern_permissions ap rq group_name =
     act_bind (check_admin_permission rq) (\<lambda>_.
     or_status 500
       (act_bind (read_db (\<lambda>db. registered_model_group_regex_list_permissions_for_group db group_name False)) (\<lambda>patterns.
        act_return (200, JArray (map group_model_pattern_item patterns)))))"

definition create_group_registered_model_pattern_permission ::
    "app \<Rightarrow> http_request \<Rightarrow> string \<Rightarrow> pattern_data \<Rightarrow> handler" where
  "create_group_registered_model_pattern_permission ap rq group_name d =
     act_bind (check_admin_permission rq) (\<lambda>admin_username.
     or_status 500
       (audited ap (RegexOp (CreateGroupModelRegex False group_name (pd_regex d) (pd_priority d) (pd_permission d)))
          ''permission.create'' (Some admin_username) ''group_registered_model_regex_permission'' group_name
          (pattern_detail d) (201, status_response)))"

definition get_group_registered_model_pattern_permission :: "app \<Rightarrow> http_request \<Rightarrow> string \<Rightarrow> int \<Rightarrow> handler" where
  "get_group_registered_model_pattern_permission ap rq group_name i =
     act_bind (check_admin_permission rq) (\<lambda>_.
     or_status 500 (row_id i (\<lambda>n.
       act_bind (read_db (\<lambda>db. registered_model_group_regex_get db n group_name False)) (\<lambda>pattern.
       act_return (200, group_model_pattern_item pattern)))))"

definition update_group_registered_model_pattern_permission ::
    "app \<Rightarrow> http_request \<Rightarrow> string \<Rightarrow> int \<Rightarrow> pattern_data \<Rightarrow> handler" where
  "update_group_registered_model_pattern_permission ap rq group_name i d =
     act_bind (check_admin_permission rq) (\<lambda>admin_username.
     or_status 500 (row_id i (\<lambda>n.
       audited ap (RegexOp (UpdateGroupModelRegex False n group_name (pd_regex d) (pd_priority d) (pd_permission d)))
         ''permission.update'' (Some admin_username) ''group_registered_model_regex_permission'' group_name
         ((''id'', json_int i) # pattern_detail d) (200, status_response))))"

definition delete_group_registered_model_pattern_permission ::
    "app \<Rightarrow> http_request \<Rightarrow> string \<Rightarrow> int \<Rightarrow> handler" where
  "delete_group_registered_model_pattern_permission ap rq group_name i =
     act_bind (check_admin_permission rq) (\<lambda>admin_username.
     or_status 500 (row_id i (\<lambda>n.
       audited ap (RegexOp (DeleteGroupModelRegex False n group_name))
         ''permission.delete'' (Some admin_username) ''group_registered_model_regex_permission'' group_name
         [(''id'', json_int i)] (200, status_response))))"

definition get_group_prompt_pattern_permissions :: "app \<Rightarrow> http_request \<Rightarrow> string \<Rightarrow> handler" where
  "get_group_prompt_pattern_permissions ap rq group_name =
     act_bind (check_admin_permission rq) (\<lambda>_.
     or_status 500
       (act_bind (read_db (\<lambda>db. registered_model_group_regex_list_permissions_for_group db group_name True)) (\<lambda>patterns.
        act_return (200, JArray (map group_model_pattern_item patterns)))))"

definition create_group_prompt_pattern_permission ::
    "app \<Rightarrow> http_request \<Rightarrow> string \<Rightarrow> pattern_data \<Rightarrow> handler" where
  "create_group_prompt_pattern_permission ap rq group_name d =
     act_bind (check_admin_permission rq) (\<lambda>admin_username.
     or_status 500
       (audited ap (RegexOp (CreateGroupModelRegex True group_name (pd_regex d) (pd_priority d) (pd_permission d)))
          ''permission.create'' (Some admin_username) ''group_prompt_regex_permission'' group_name
          (pattern_detail d) (201, status_response)))"

definition get_group_prompt_pattern_permission :: "app \<Rightarrow> http_request \<Rightarrow> string \<Rightarrow> int \<Rightarrow> handler" where
  "get_group_prompt_pattern_permission ap rq group_name i =
     act_bind (check_admin_permission rq) (\<lambda>_.
     or_status 500 (row_id i (\<lambda>n.
       act_bind (read_db (\<lambda>db. registered_model_group_regex_get db n group_name True)) (\<lambda>pattern.
       act_return (200, group_model_pattern_item pattern)))))"

definition update_group_prompt_pattern_permission ::
    "app \<Rightarrow> http_request \<Rightarrow> string \<Rightarrow> int \<Rightarrow> pattern_data \<Rightarrow> handler" where
  "update_group_prompt_pattern_permission ap rq group_name i d =
     act_bind (check_admin_permission rq) (\<lambda>admin_username.
     or_status 500 (row_id i (\<lambda>n.
       audited ap (RegexOp (UpdateGroupModelRegex True n group_name (pd_regex d) (pd_priority d) (pd_permission d)))
         ''permission.update'' (Some admin_username) ''group_prompt_regex_permission'' group_name
         ((''id'', json_int i) # pattern_detail d) (200, status_response))))"

definition delete_group_prompt_pattern_permission ::
    "app \<Rightarrow> http_request \<Rightarrow> string \<Rightarrow> int \<Rightarrow> handler" where
  "delete_group_prompt_pattern_permission ap rq group_name i =
     act_bind (check_admin_permission rq) (\<lambda>admin_username.
     or_status 500 (row_id i (\<lambda>n.
       audited ap (RegexOp (DeleteGroupModelRegex True n group_name))
         ''permission.delete'' (Some admin_username) ''group_prompt_regex_permission'' group_name
         [(''id'', json_int i)] (200, status_response))))"

section \<open>Scorers\<close>

definition group_scorer_item :: "perm_entity \<Rightarrow> json" where
  "group_scorer_item e =
     group_item [(''experiment_id'', JString (resource_id_of (pe_key e))),
       (''scorer_name'', JString (scorer_name_of (pe_key e))),
       (''group_id'', json_id (map_option int (pe_group_id e))), (''permission'', JString (pe_permission e))]"

definition get_group_scorers :: "app \<Rightarrow> http_request \<Rightarrow> string \<Rightarrow> handler" where
  "get_group_scorers ap rq group_name =
     act_bind (caller rq) (\<lambda>(current_username, is_admin).
     or_status 500
       (act_bind (read_db (\<lambda>db. group_list_permissions_for_group Scorer db group_name)) (\<lambda>group_scorers.
        act_bind (if is_admin then act_return group_scorers
                  else filterM_action (manages_experiment (ap_server ap) current_username) group_scorers)
          (\<lambda>filtered. act_return (200, JArray (map group_scorer_item filtered))))))"

definition create_group_scorer_permission ::
    "app \<Rightarrow> http_request \<Rightarrow> string \<Rightarrow> string \<Rightarrow> string \<Rightarrow> string \<Rightarrow> handler" where
  "create_group_scorer_permission ap rq group_name experiment_id scorer_name permission =
     act_bind (check_experiment_manage_permission (ap_server ap) rq experiment_id) (\<lambda>current_username.
     or_status 500
       (audited ap (GroupPermOp (CreateGroupScorer group_name experiment_id scorer_name permission))
          ''permission.create'' current_username ''group_scorer_permission'' scorer_name
          (scorer_detail ''group_name'' group_name experiment_id permission) (201, status_response)))"

definition update_group_scorer_permission ::
    "app \<Rightarrow> http_request \<Rightarrow> string \<Rightarrow> string \<Rightarrow> string \<Rightarrow> string \<Rightarrow> handler" where
  "update_group_scorer_permission ap rq group_name experiment_id scorer_name permission =
     act_bind (check_experiment_manage_permission (ap_server ap) rq experiment_id) (\<lambda>current_username.
     or_status 500
       (audited ap (GroupPermOp (UpdateGroupScorer group_name experiment_id scorer_name permission))
          ''permission.update'' current_username ''group_scorer_permission'' scorer_name
          (scorer_detail ''group_name'' group_name experiment_id permission) (200, status_response)))"

definition delete_group_scorer_permission ::
    "app \<Rightarrow> http_request \<Rightarrow> string \<Rightarrow> string \<Rightarrow> string \<Rightarrow> handler" where
  "delete_group_scorer_permission ap rq group_name experiment_id scorer_name =
     act_bind (check_experiment_manage_permission (ap_server ap) rq experiment_id) (\<lambda>current_username.
     or_status 500
       (audited ap (GroupPermOp (DeleteGroupScorer group_name experiment_id scorer_name))
          ''permission.delete'' current_username ''group_scorer_permission'' scorer_name
          [(''group_name'', JString group_name), (''experiment_id'', JString experiment_id)]
          (200, status_response)))"

definition get_group_scorer_pattern_permissions :: "app \<Rightarrow> http_request \<Rightarrow> string \<Rightarrow> handler" where
  "get_group_scorer_pattern_permissions ap rq group_name =
     act_bind (check_admin_permission rq) (\<lambda>_.
     or_status 500
       (act_bind (read_db (\<lambda>db. list_group_scorer_regex_permissions db group_name)) (\<lambda>patterns.
        act_return (200, JArray (map group_pattern_item patterns)))))"

definition create_group_scorer_pattern_permission ::
    "app \<Rightarrow> http_request \<Rightarrow> string \<Rightarrow> pattern_data \<Rightarrow> handler" where
  "create_group_scorer_pattern_permission ap rq group_name d =
     act_bind (check_admin_permission rq) (\<lambda>admin_username.
     or_status 500
       (audited ap (RegexOp (CreateGroupRegex Scorer group_name (pd_regex d) (pd_priority d) (pd_permission d)))
          ''permission.create'' (Some admin_username) ''group_scorer_regex_permission'' group_name
          (pattern_detail d) (201, status_response)))"

definition get_group_scorer_pattern_permission :: "app \<Rightarrow> http_request \<Rightarrow> string \<Rightarrow> int \<Rightarrow> handler" where
  "get_group_scorer_pattern_permission ap rq group_name i =
     act_bind (check_admin_permission rq) (\<lambda>_.
     or_status 500 (row_id i (\<lambda>n.
       act_bind (read_db (\<lambda>db. group_regex_get Scorer db group_name n)) (\<lambda>pattern.
       act_return (200, group_pattern_item pattern)))))"

definition update_group_scorer_pattern_permission ::
    "app \<Rightarrow> http_request \<Rightarrow> string \<Rightarrow> int \<Rightarrow> pattern_data \<Rightarrow> handler" where
  "update_group_scorer_pattern_permission ap rq group_name i d =
     act_bind (check_admin_permission rq) (\<lambda>admin_username.
     or_status 500 (row_id i (\<lambda>n.
       audited ap (RegexOp (UpdateGroupRegex Scorer n group_name (pd_regex d) (pd_priority d) (pd_permission d)))
         ''permission.update'' (Some admin_username) ''group_scorer_regex_permission'' group_name
         ((''id'', json_int i) # pattern_detail d) (200, status_response))))"

definition delete_group_scorer_pattern_permission ::
    "app \<Rightarrow> http_request \<Rightarrow> string \<Rightarrow> int \<Rightarrow> handler" where
  "delete_group_scorer_pattern_permission ap rq group_name i =
     act_bind (check_admin_permission rq) (\<lambda>admin_username.
     or_status 500 (row_id i (\<lambda>n.
       audited ap (RegexOp (DeleteGroupRegex Scorer group_name n))
         ''permission.delete'' (Some admin_username) ''group_scorer_regex_permission'' group_name
         [(''id'', json_int i)] (200, status_response))))"

section \<open>Gateway resources\<close>

text \<open>
  As for users, the routes of the three gateway resources are instances of handlers for any
  class of resource. They return the entity that was stored.
\<close>

definition group_gateway_type :: "resource_class \<Rightarrow> string \<Rightarrow> string" where
  "group_gateway_type c suffix_text = ''group_'' @ class_name c @ suffix_text"

definition group_named_item :: "perm_entity \<Rightarrow> json" where
  "group_named_item e =
     group_item [(''name'', JString (resource_id_of (pe_key e))), (''permission'', JString (pe_permission e))]"

definition list_group_gateway_permissions ::
    "resource_class \<Rightarrow> app \<Rightarrow> http_request \<Rightarrow> string \<Rightarrow> handler" where
  "list_group_gateway_permissions c ap rq group_name =
     act_bind (check_admin_permission rq) (\<lambda>_.
     or_status 500
       (act_bind (read_db (\<lambda>db. group_list_permissions_for_group c db group_name)) (\<lambda>perms.
        act_return (200, JArray (map group_named_item perms)))))"

definition create_group_gateway_permission ::
    "resource_class \<Rightarrow> app \<Rightarrow> http_request \<Rightarrow> string \<Rightarrow> string \<Rightarrow> string \<Rightarrow> handler" where
  "create_group_gateway_permission c ap rq group_name name permission =
     act_bind (check_admin_permission rq) (\<lambda>admin_username.
     or_status 500
       (audited_entity ap (GroupPermOp (CreateGroupPermission c group_name name permission))
          (\<lambda>db. group_grant_permission c db group_name (ResourceId name) permission)
          ''permission.create'' (Some admin_username) (group_gateway_type c ''_permission'') name
          (permission_detail ''group_name'' group_name permission) 201 (\<lambda>e. Inr (group_named_item e))))"

definition get_group_gateway_permission ::
    "resource_class \<Rightarrow> app \<Rightarrow> http_request \<Rightarrow> string \<Rightarrow> string \<Rightarrow> handler" where
  "get_group_gateway_permission c ap rq group_name name =
     act_bind (check_admin_permission rq) (\<lambda>_.
     or_status 404
       (act_bind (read_db (\<lambda>db. gateway_get_group_permission_for_user c db name group_name)) (\<lambda>perm.
        act_return (200, group_named_item perm))))"

definition update_group_gateway_permission ::
    "resource_class \<Rightarrow> app \<Rightarrow> http_request \<Rightarrow> string \<Rightarrow> string \<Rightarrow> string \<Rightarrow> handler" where
  "update_group_gateway_permission c ap rq group_name name permission =
     act_bind (check_admin_permission rq) (\<lambda>admin_username.
     or_status 500
       (audited ap (GroupPermOp (UpdateGroupPermission c group_name name permission))
          ''permission.update'' (Some admin_username) (group_gateway_type c ''_permission'') name
          (permission_detail ''group_name'' group_name permission) (200, status_response)))"

definition delete_group_gateway_permission ::
    "resource_class \<Rightarrow> app \<Rightarrow> http_request \<Rightarrow> string \<Rightarrow> string \<Rightarrow> handler" where
  "delete_group_gateway_permission c ap rq group_name name =
     act_bind (check_admin_permission rq) (\<lambda>admin_username.
     or_status 500
       (audited ap (GroupPermOp (DeleteGroupPermission c group_name name))
          ''permission.delete'' (Some admin_username) (group_gateway_type c ''_permission'') name
          [(''group_name'', JString group_name)] (200, status_response)))"

definition list_group_gateway_pattern_permissions ::
    "resource_class \<Rightarrow> app \<Rightarrow> http_request \<Rightarrow> string \<Rightarrow> handler" where
  "list_group_gateway_pattern_permissions c ap rq group_name =
     act_bind (check_admin_permission rq) (\<lambda>_.
     or_status 500
       (act_bind (read_db (\<lambda>db. group_regex_list_permissions_for_group c db group_name)) (\<lambda>perms.
        act_return (200, JArray (map group_pattern_item perms)))))"

definition create_group_gateway_pattern_permission ::
    "resource_class \<Rightarrow> app \<Rightarrow> http_request \<Rightarrow> string \<Rightarrow> pattern_data \<Rightarrow> handler" where
  "create_group_gateway_pattern_permission c ap rq group_name d =
     act_bind (check_admin_permission rq) (\<lambda>admin_username.
     or_status 500
       (audited_entity ap
          (RegexOp (CreateGroupRegex c group_name (pd_regex d) (pd_priority d) (pd_permission d)))
          (\<lambda>db. group_regex_grant (se_re_compile (sv_store (ap_server ap))) c db group_name (pd_regex d)
             (pd_priority d) (pd_permission d))
          ''permission.create'' (Some admin_username) (group_gateway_type c ''_regex_permission'') group_name
          (pattern_detail d) 201 (\<lambda>p. Inr (group_pattern_item p))))"

definition get_group_gateway_pattern_permission ::
    "resource_class \<Rightarrow> app \<Rightarrow> http_request \<Rightarrow> string \<Rightarrow> int \<Rightarrow> handler" where
  "get_group_gateway_pattern_permission c ap rq group_name i =
     act_bind (check_admin_permission rq) (\<lambda>_.
     or_status 404 (row_id i (\<lambda>n.
       act_bind (read_db (\<lambda>db.
         get_group_gateway_regex_permission (sv_store (ap_server ap)) c db n group_name)) (\<lambda>perm.
       act_return (200, group_pattern_item perm)))))"

definition update_group_gateway_pattern_permission ::
    "resource_class \<Rightarrow> app \<Rightarrow> http_request \<Rightarrow> string \<Rightarrow> int \<Rightarrow> pattern_data \<Rightarrow> handler" where
  "update_group_gateway_pattern_permission c ap rq group_name i d =
     act_bind (check_admin_permission rq) (\<lambda>admin_username.
     or_status 500 (row_id i (\<lambda>n.
       audited_entity ap
         (RegexOp (UpdateGroupRegex c n group_name (pd_regex d) (pd_priority d) (pd_permission d)))
         (\<lambda>db. group_regex_update (se_re_compile (sv_store (ap_server ap))) c db n group_name (pd_regex d)
            (pd_priority d) (pd_permission d))
         ''permission.update'' (Some admin_username) (group_gateway_type c ''_regex_permission'') group_name
         ((''id'', json_int i) # pattern_detail d) 200 (\<lambda>p. Inr (group_pattern_item p)))))"

definition delete_group_gateway_pattern_permission ::
    "resource_class \<Rightarrow> app \<Rightarrow> http_request \<Rightarrow> string \<Rightarrow> int \<Rightarrow> handler" where
  "delete_group_gateway_pattern_permission c ap rq group_name i =
     act_bind (check_admin_permission rq) (\<lambda>admin_username.
     or_status 500 (row_id i (\<lambda>n.
       audited ap (RegexOp (DeleteGroupRegex c group_name n))
         ''permission.delete'' (Some admin_username) (group_gateway_type c ''_regex_permission'') group_name
         [(''id'', json_int i)] (200, status_response))))"

text \<open>The instances.\<close>

definition get_group_gateway_endpoint_permissions ::
    "app \<Rightarrow> http_request \<Rightarrow> string \<Rightarrow> handler" where
  "get_group_gateway_endpoint_permissions = list_group_gateway_permissions GatewayEndpoint"

definition create_group_gateway_endpoint_permission ::
    "app \<Rightarrow> http_request \<Rightarrow> string \<Rightarrow> string \<Rightarrow> string \<Rightarrow> handler" where
  "create_group_gateway_endpoint_permission = create_group_gateway_permission GatewayEndpoint"

definition get_group_gateway_endpoint_permission ::
    "app \<Rightarrow> http_request \<Rightarrow> string \<Rightarrow> string \<Rightarrow> handler" where
  "get_group_gateway_endpoint_permission = get_group_gateway_permission GatewayEndpoint"

definition update_group_gateway_endpoint_permission ::
    "app \<Rightarrow> http_request \<Rightarrow> string \<Rightarrow> string \<Rightarrow> string \<Rightarrow> handler" where
  "update_group_gateway_endpoint_permission = update_group_gateway_permission GatewayEndpoint"

definition delete_group_gateway_endpoint_permission ::
    "app \<Rightarrow> http_request \<Rightarrow> string \<Rightarrow> string \<Rightarrow> handler" where
  "delete_group_gateway_endpoint_permission = delete_group_gateway_permission GatewayEndpoint"

definition get_group_gateway_endpoint_pattern_permissions ::
    "app \<Rightarrow> http_request \<Rightarrow> string \<Rightarrow> handler" where
  "get_group_gateway_endpoint_pattern_permissions = list_group_gateway_pattern_permissions GatewayEndpoint"

definition create_group_gateway_endpoint_pattern_permission ::
    "app \<Rightarrow> http_request \<Rightarrow> string \<Rightarrow> pattern_data \<Rightarrow> handler" where
  "create_group_gateway_endpoint_pattern_permission = create_group_gateway_pattern_permission GatewayEndpoint"

definition get_group_gateway_endpoint_pattern_permission ::
    "app \<Rightarrow> http_request \<Rightarrow> string \<Rightarrow> int \<Rightarrow> handler" where
  "get_group_gateway_endpoint_pattern_permission = get_group_gateway_pattern_permission GatewayEndpoint"

definition update_group_gateway_endpoint_pattern_permission ::
    "app \<Rightarrow> http_request \<Rightarrow> string \<Rightarrow> int \<Rightarrow> pattern_data \<Rightarrow> handler" where
  "update_group_gateway_endpoint_pattern_permission = update_group_gateway_pattern_permission GatewayEndpoint"

definition delete_group_gateway_endpoint_pattern_permission ::
    "app \<Rightarrow> http_request \<Rightarrow> string \<Rightarrow> int \<Rightarrow> handler" where
  "delete_group_gateway_endpoint_pattern_permission = delete_group_gateway_pattern_permission GatewayEndpoint"

definition get_group_gateway_model_definition_permissions ::
    "app \<Rightarrow> http_request \<Rightarrow> string \<Rightarrow> handler" where
  "get_group_gateway_model_definition_permissions = list_group_gateway_permissions GatewayModelDefinition"

definition create_group_gateway_model_definition_permission ::
    "app \<Rightarrow> http_request \<Rightarrow> string \<Rightarrow> string \<Rightarrow> string \<Rightarrow> handler" where
  "create_group_gateway_model_definition_permission = create_group_gateway_permission GatewayModelDefinition"

definition get_group_gateway_model_definition_permission ::
    "app \<Rightarrow> http_request \<Rightarrow> string \<Rightarrow> string \<Rightarrow> handler" where
  "get_group_gateway_model_definition_permission = get_group_gateway_permission GatewayModelDefinition"

definition update_group_gateway_model_definition_permission ::
    "app \<Rightarrow> http_request \<Rightarrow> string \<Rightarrow> string \<Rightarrow> string \<Rightarrow> handler" where
  "update_group_gateway_model_definition_permission = update_group_gateway_permission GatewayModelDefinition"

definition delete_group_gateway_model_definition_permission ::
    "app \<Rightarrow> http_request \<Rightarrow> string \<Rightarrow> string \<Rightarrow> handler" where
  "delete_group_gateway_model_definition_permission = delete_group_gateway_permission GatewayModelDefinition"

definition get_group_gateway_model_definition_pattern_permissions ::
    "app \<Rightarrow> http_request \<Rightarrow> string \<Rightarrow> handler" where
  "get_group_gateway_model_definition_pattern_permissions = list_group_gateway_pattern_permissions GatewayModelDefinition"

definition create_group_gateway_model_definition_pattern_permission ::
    "app \<Rightarrow> http_request \<Rightarrow> string \<Rightarrow> pattern_data \<Rightarrow> handler" where
  "create_group_gateway_model_definition_pattern_permission = create_group_gateway_pattern_permission GatewayModelDefinition"

definition get_group_gateway_model_definition_pattern_permission ::
    "app \<Rightarrow> http_request \<Rightarrow> string \<Rightarrow> int \<Rightarrow> handler" where
  "get_group_gateway_model_definition_pattern_permission = get_group_gateway_pattern_permission GatewayModelDefinition"

definition update_group_gateway_model_definition_pattern_permission ::
    "app \<Rightarrow> http_request \<Rightarrow> string \<Rightarrow> int \<Rightarrow> pattern_data \<Rightarrow> handler" where
  "update_group_gateway_model_definition_pattern_permission = update_group_gateway_pattern_permission GatewayModelDefinition"

definition delete_group_gateway_model_definition_pattern_permission ::
    "app \<Rightarrow> http_request \<Rightarrow> string \<Rightarrow> int \<Rightarrow> handler" where
  "delete_group_gateway_model_definition_pattern_permission = delete_group_gateway_pattern_permission GatewayModelDefinition"

definition get_group_gateway_secret_permissions ::
    "app \<Rightarrow> http_request \<Rightarrow> string \<Rightarrow> handler" where
  "get_group_gateway_secret_permissions = list_group_gateway_permissions GatewaySecret"

definition create_group_gateway_secret_permission ::
    "app \<Rightarrow> http_request \<Rightarrow> string \<Rightarrow> string \<Rightarrow> string \<Rightarrow> handler" where
  "create_group_gateway_secret_permission = create_group_gateway_permission GatewaySecret"

definition get_group_gateway_secret_permission ::
    "app \<Rightarrow> http_request \<Rightarrow> string \<Rightarrow> string \<Rightarrow> handler" where
  "get_group_gateway_secret_permission = get_group_gateway_permission GatewaySecret"

definition update_group_gateway_secret_permission ::
    "app \<Rightarrow> http_request \<Rightarrow> string \<Rightarrow> string \<Rightarrow> string \<Rightarrow> handler" where
  "update_group_gateway_secret_permission = update_group_gateway_permission GatewaySecret"

definition delete_group_gateway_secret_permission ::
    "app \<Rightarrow> http_request \<Rightarrow> string \<Rightarrow> string \<Rightarrow> handler" where
  "delete_group_gateway_secret_permission = delete_group_gateway_permission GatewaySecret"

definition get_group_gateway_secret_pattern_permissions ::
    "app \<Rightarrow> http_request \<Rightarrow> string \<Rightarrow> handler" where
  "get_group_gateway_secret_pattern_permissions = list_group_gateway_pattern_permissions GatewaySecret"

definition create_group_gateway_secret_pattern_permission ::
    "app \<Rightarrow> http_request \<Rightarrow> string \<Rightarrow> pattern_data \<Rightarrow> handler" where
  "create_group_gateway_secret_pattern_permission = create_group_gateway_pattern_permission GatewaySecret"

definition get_group_gateway_secret_pattern_permission ::
    "app \<Rightarrow> http_request \<Rightarrow> string \<Rightarrow> int \<Rightarrow> handler" where
  "get_group_gateway_secret_pattern_permission = get_group_gateway_pattern_permission GatewaySecret"

definition update_group_gateway_secret_pattern_permission ::
    "app \<Rightarrow> http_request \<Rightarrow> string \<Rightarrow> int \<Rightarrow> pattern_data \<Rightarrow> handler" where
  "update_group_gateway_secret_pattern_permission = update_group_gateway_pattern_permission GatewaySecret"

definition delete_group_gateway_secret_pattern_permission ::
    "app \<Rightarrow> http_request \<Rightarrow> string \<Rightarrow> int \<Rightarrow> handler" where
  "delete_group_gateway_secret_pattern_permission = delete_group_gateway_pattern_permission GatewaySecret"

text \<open>The routes that write.\<close>

lemmas group_handler_defs =
  create_group_experiment_permission_def update_group_experiment_permission_def
  delete_group_experiment_permission_def create_group_registered_model_permission_def
  update_group_registered_model_permission_def delete_group_registered_model_permission_def
  create_group_prompt_permission_def update_group_prompt_permission_def
  delete_group_prompt_permission_def create_group_experiment_pattern_permission_def
  update_group_experiment_pattern_permission_def delete_group_experiment_pattern_permission_def
  create_group_registered_model_pattern_permission_def
  update_group_registered_model_pattern_permission_def
  delete_group_registered_model_pattern_permission_def create_group_prompt_pattern_permission_def
  update_group_prompt_pattern_permission_def delete_group_prompt_pattern_permission_def
  create_group_scorer_permission_def update_group_scorer_permission_def
  delete_group_scorer_permission_def create_group_scorer_pattern_permission_def
  update_group_scorer_pattern_permission_def delete_group_scorer_pattern_permission_def
  create_group_gateway_permission_def update_group_gateway_permission_def
  delete_group_gateway_permission_def create_group_gateway_pattern_permission_def
  update_group_gateway_pattern_permission_def delete_group_gateway_pattern_permission_def

end
