(* ===== verification/RouteProperties.thy ===== *)
theory RouteProperties
  imports GroupRouter HookProperties
begin

text \<open>
  What the routes for permissions guarantee: none of them changes anything for a caller who
  is neither an administrator nor a manager of the resource, and each one that succeeds
  leaves one event in the audit log.
\<close>

section \<open>The routes that write\<close>

text \<open>What a route asks of its caller: administration, or to manage the resource of a type and id.\<close>

datatype requirement = Administrator | Manager string string

definition meets :: "server \<Rightarrow> http_request \<Rightarrow> db \<Rightarrow> requirement \<Rightarrow> bool" where
  "meets sv rq db req \<longleftrightarrow>
     (\<exists>u. get_username rq = Inr u \<and>
        (get_is_admin db rq = Inr True \<or>
         (case req of
            Administrator \<Rightarrow> False
          | Manager t name \<Rightarrow>
              (\<exists>r. resolve_fresh (sv_config sv) (sv_outside sv) db None t name u None = Inr r \<and>
                   can_manage (pr_permission r)))))"

text \<open>
  Every route of the two routers that creates, changes or deletes: the owner is the user or the
  group, \<open>name\<close> the resource (the experiment of a scorer), \<open>d\<close> the pattern in the body, and an
  id is a number or a text. The routes of a gateway resource are taken for any class.
\<close>

definition admin_writes :: "app \<Rightarrow> http_request \<Rightarrow> resource_class \<Rightarrow> string \<Rightarrow> string \<Rightarrow> string \<Rightarrow>
    pattern_data \<Rightarrow> int \<Rightarrow> string \<Rightarrow> handler list" where
  "admin_writes ap rq c owner name permission d i text_id =
     [create_user_experiment_pattern_permission ap rq owner d,
      update_user_experiment_pattern_permission ap rq owner text_id d,
      delete_user_experiment_pattern_permission ap rq owner text_id,
      create_user_prompt_regex_permission ap rq owner d,
      update_user_prompt_regex_permission ap rq owner text_id d,
      delete_user_prompt_regex_permission ap rq owner text_id,
      create_user_registered_model_regex_permission ap rq owner d,
      update_user_registered_model_regex_permission ap rq owner text_id d,
      delete_user_registered_model_regex_permission ap rq owner text_id,
      create_user_scorer_regex_permission ap rq owner d,
      update_user_scorer_pattern_permission ap rq owner i d,
      delete_user_scorer_pattern_permission ap rq owner i,
      create_user_gateway_permission c ap rq owner name permission,
      update_user_gateway_permission c ap rq owner name permission,
      delete_user_gateway_permission c ap rq owner name,
      create_user_gateway_pattern_permission c ap rq owner d,
      update_user_gateway_pattern_permission c ap rq owner i d,
      delete_user_gateway_pattern_permission c ap rq owner i,
      create_group_experiment_pattern_permission ap rq owner d,
      update_group_experiment_pattern_permission ap rq owner i d,
      delete_group_experiment_pattern_permission ap rq owner i,
      create_group_registered_model_pattern_permission ap rq owner d,
      update_group_registered_model_pattern_permission ap rq owner i d,
      delete_group_registered_model_pattern_permission ap rq owner i,
      create_group_prompt_pattern_permission ap rq owner d,
      update_group_prompt_pattern_permission ap rq owner i d,
      delete_group_prompt_pattern_permission ap rq owner i,
      create_group_scorer_pattern_permission ap rq owner d,
      update_group_scorer_pattern_permission ap rq owner i d,
      delete_group_scorer_pattern_permission ap rq owner i,
      create_group_gateway_permission c ap rq owner name permission,
      update_group_gateway_permission c ap rq owner name permission,
      delete_group_gateway_permission c ap rq owner name,
      create_group_gateway_pattern_permission c ap rq owner d,
      update_group_gateway_pattern_permission c ap rq owner i d,
      delete_group_gateway_pattern_permission c ap rq owner i]"

definition experiment_writes :: "app \<Rightarrow> http_request \<Rightarrow> string \<Rightarrow> string \<Rightarrow> string \<Rightarrow> string \<Rightarrow> handler list" where
  "experiment_writes ap rq owner name scorer_name permission =
     [create_user_experiment_permission ap rq owner name permission,
      update_user_experiment_permission ap rq owner name permission,
      delete_user_experiment_permission ap rq owner name,
      create_user_scorer_permission ap rq owner name scorer_name permission,
      update_user_scorer_permission ap rq owner name scorer_name permission,
      delete_user_scorer_permission ap rq owner name scorer_name,
      create_group_experiment_permission ap rq owner name permission,
      update_group_experiment_permission ap rq owner name permission,
      delete_group_experiment_permission ap rq owner name,
      create_group_scorer_permission ap rq owner name scorer_name permission,
      update_group_scorer_permission ap rq owner name scorer_name permission,
      delete_group_scorer_permission ap rq owner name scorer_name]"

definition model_writes :: "app \<Rightarrow> http_request \<Rightarrow> string \<Rightarrow> string \<Rightarrow> string \<Rightarrow> handler list" where
  "model_writes ap rq owner name permission =
     [create_user_registered_model_permission ap rq owner name permission,
      update_user_registered_model_permission ap rq owner name permission,
      delete_user_registered_model_permission ap rq owner name,
      create_user_prompt_permission ap rq owner name permission,
      update_user_prompt_permission ap rq owner name permission,
      delete_user_prompt_permission ap rq owner name]"

definition group_model_writes :: "app \<Rightarrow> http_request \<Rightarrow> string \<Rightarrow> string \<Rightarrow> string \<Rightarrow> handler list" where
  "group_model_writes ap rq owner name permission =
     [create_group_registered_model_permission ap rq owner name permission,
      update_group_registered_model_permission ap rq owner name permission,
      delete_group_registered_model_permission ap rq owner name]"

definition group_prompt_writes :: "app \<Rightarrow> http_request \<Rightarrow> string \<Rightarrow> string \<Rightarrow> string \<Rightarrow> handler list" where
  "group_prompt_writes ap rq owner name permission =
     [create_group_prompt_permission ap rq owner name permission,
      update_group_prompt_permission ap rq owner name permission,
      delete_group_prompt_permission ap rq owner name]"

definition permission_writes :: "app \<Rightarrow> http_request \<Rightarrow> resource_class \<Rightarrow> string \<Rightarrow> string \<Rightarrow> string \<Rightarrow>
    string \<Rightarrow> pattern_data \<Rightarrow> int \<Rightarrow> string \<Rightarrow> (requirement \<times> handler) list" where
  "permission_writes ap rq c owner name scorer_name permission d i text_id =
     map (Pair Administrator) (admin_writes ap rq c owner name permission d i text_id) @
     map (Pair (Manager EXPERIMENT name)) (experiment_writes ap rq owner name scorer_name permission) @
     map (Pair (Manager REGISTERED_MODEL name))
       (model_writes ap rq owner name permission @ group_model_writes ap rq owner name permission) @
     map (Pair (Manager PROMPT name)) (group_prompt_writes ap rq owner name permission)"

section \<open>Guards\<close>

text \<open>A guard that lets a caller through has checked the requirement, and changes nothing itself.\<close>

definition app_ok :: "server \<Rightarrow> http_request \<Rightarrow> app_state \<Rightarrow> bool" where
  "app_ok sv rq s \<longleftrightarrow>
     exact_caches (sv_config sv) (sv_outside sv) (st_db (as_store s)) None (st_caches (as_store s)) \<and>
     (\<forall>u. get_username rq = Inr u \<longrightarrow> colon_free u)"

definition guards :: "server \<Rightarrow> http_request \<Rightarrow> requirement \<Rightarrow> ('a, app_state) action \<Rightarrow> bool" where
  "guards sv rq req g \<longleftrightarrow>
     (\<forall>s r s1. app_ok sv rq s \<longrightarrow> g s = (r, s1) \<longrightarrow>
        st_db (as_store s1) = st_db (as_store s) \<and> as_audit s1 = as_audit s \<and>
        (\<forall>x. r = Inr x \<longrightarrow> meets sv rq (st_db (as_store s)) req))"

definition guarded :: "server \<Rightarrow> http_request \<Rightarrow> requirement \<Rightarrow> ('a, app_state) action \<Rightarrow> bool" where
  "guarded sv rq req h \<longleftrightarrow>
     (\<forall>s r s1. app_ok sv rq s \<longrightarrow> h s = (r, s1) \<longrightarrow> \<not> meets sv rq (st_db (as_store s)) req \<longrightarrow>
        (\<exists>e. r = Inl e) \<and> st_db (as_store s1) = st_db (as_store s) \<and> as_audit s1 = as_audit s)"

lemma guarded_bind: "guards sv rq req g \<Longrightarrow> guarded sv rq req (act_bind g k)"
  unfolding guarded_def
proof (intro allI impI)
  fix s r s1
  assume g: "guards sv rq req g" and ok: "app_ok sv rq s" and run: "act_bind g k s = (r, s1)"
    and no: "\<not> meets sv rq (st_db (as_store s)) req"
  obtain q s2 where q: "g s = (q, s2)" by force
  from g ok q no have "st_db (as_store s2) = st_db (as_store s) \<and> as_audit s2 = as_audit s" "\<nexists>x. q = Inr x"
    unfolding guards_def by blast+
  with run q show "(\<exists>e. r = Inl e) \<and> st_db (as_store s1) = st_db (as_store s) \<and> as_audit s1 = as_audit s"
    by (cases q) (auto simp: act_bind_def)
qed

lemma guards_admin: "guards sv rq Administrator (check_admin_permission rq)"
  by (auto simp: guards_def check_admin_permission_def read_db_def act_read_def meets_def
      split: sum.splits if_splits)

lemma capability_manage:
  assumes "exact_caches config env db w caches" and "colon_free u" and "t \<in> set resource_types"
    and "t \<noteq> SCORER" and "capability can (resolve_permission config env db w t i u None) caches = (Inr True, c')"
  shows "\<exists>r. resolve_fresh config env db w t i u None = Inr r \<and> can (pr_permission r)"
proof -
  obtain res c where res: "resolve_permission config env db w t i u None caches = (res, c)" by force
  from resolve_permission_exact [OF assms(1-3) res] assms(4) have "res = resolve_fresh config env db w t i u None"
    by simp
  with assms(5) res show ?thesis by (auto simp: capability_def split: sum.splits)
qed

text \<open>A check that resolves one capability, for the caller of a route.\<close>

lemma guards_check_manage:
  assumes "\<And>db u. can db u =
      capability can_manage (resolve_permission (sv_config sv) (sv_outside sv) db None t name u None)"
    and "t \<in> set resource_types" and "t \<noteq> SCORER"
  shows "guards sv rq (Manager t name) (check_manage rq can)"
  unfolding guards_def
proof (intro allI impI)
  fix s r s1
  assume ok: "app_ok sv rq s" and run: "check_manage rq can s = (r, s1)"
  show "st_db (as_store s1) = st_db (as_store s) \<and> as_audit s1 = as_audit s \<and>
      (\<forall>x. r = Inr x \<longrightarrow> meets sv rq (st_db (as_store s)) (Manager t name))"
  proof (cases "get_username rq")
    case (Inl e)
    with run show ?thesis by (auto simp: check_manage_def act_bind_def act_lift_def)
  next
    case (Inr u)
    obtain b c' where can: "can (st_db (as_store s)) u (st_caches (as_store s)) = (b, c')" by force
    have fresh: "\<exists>r. resolve_fresh (sv_config sv) (sv_outside sv) (st_db (as_store s)) None t name u None = Inr r \<and>
        can_manage (pr_permission r)" if "b = Inr True"
      using capability_manage [OF _ _ assms(2,3)] ok can that Inr unfolding app_ok_def assms(1) by blast
    show ?thesis
      using run Inr fresh can
      by (cases "get_is_admin (st_db (as_store s)) rq"; cases b)
        (auto simp: check_manage_def act_bind_def act_lift_def read_db_def act_read_def act_return_def
          act_raise_def on_store_state_def with_caches_def meets_def split: if_splits)
  qed
qed

text \<open>The same where the handler checks by itself.\<close>

lemma guards_require_manage:
  assumes "\<And>db u. can (sv_config (ap_server ap)) (sv_outside (ap_server ap)) db None name u =
      capability can_manage (resolve_permission (sv_config (ap_server ap)) (sv_outside (ap_server ap)) db None t name u None)"
    and "t \<in> set resource_types" and "t \<noteq> SCORER"
  shows "guarded (ap_server ap) rq (Manager t name)
    (act_bind (caller rq) (\<lambda>who. act_bind (require_manage can ap who name) (k who)))"
proof -
  let ?sv = "ap_server ap"
  let ?g = "\<lambda>s. act_bind (caller rq) (\<lambda>who. act_bind (require_manage can ap who name) (\<lambda>_. act_return who)) s"
  have same: "act_bind (caller rq) (\<lambda>who. act_bind (require_manage can ap who name) (k who)) =
      act_bind ?g (\<lambda>who. k who ())"
    by (auto simp: fun_eq_iff act_bind_def act_return_def split: sum.splits prod.splits)
  have "guards ?sv rq (Manager t name) ?g"
    unfolding guards_def
  proof (intro allI impI)
    fix s r s1
    assume ok: "app_ok ?sv rq s" and run: "?g s = (r, s1)"
    show "st_db (as_store s1) = st_db (as_store s) \<and> as_audit s1 = as_audit s \<and>
        (\<forall>x. r = Inr x \<longrightarrow> meets ?sv rq (st_db (as_store s)) (Manager t name))"
    proof (cases "get_username rq")
      case (Inl e)
      with run show ?thesis by (auto simp: caller_def act_bind_def act_lift_def)
    next
      case (Inr u)
      obtain b c' where can: "can (sv_config ?sv) (sv_outside ?sv) (st_db (as_store s)) None name u
          (st_caches (as_store s)) = (b, c')" by force
      have fresh: "\<exists>r. resolve_fresh (sv_config ?sv) (sv_outside ?sv) (st_db (as_store s)) None t name u None = Inr r \<and>
          can_manage (pr_permission r)" if "b = Inr True"
        using capability_manage [OF _ _ assms(2,3)] ok can that Inr unfolding app_ok_def assms(1) by blast
      show ?thesis
        using run Inr fresh can
        by (cases "get_is_admin (st_db (as_store s)) rq"; cases b)
          (auto simp: caller_def require_manage_def manages_def act_bind_def act_lift_def read_db_def act_read_def
            act_return_def act_raise_def on_store_state_def with_caches_def meets_def split: if_splits)
    qed
  qed
  then show ?thesis unfolding same by (rule guarded_bind)
qed

lemma route_types:
  "EXPERIMENT \<in> set resource_types" "REGISTERED_MODEL \<in> set resource_types" "PROMPT \<in> set resource_types"
  "EXPERIMENT \<noteq> SCORER" "REGISTERED_MODEL \<noteq> SCORER" "PROMPT \<noteq> SCORER"
  by (simp_all add: resource_types_def PERMISSION_REGISTRY_def resource_type_defs)

lemma guards_experiment:
  "guards sv rq (Manager EXPERIMENT name) (check_experiment_manage_permission sv rq name)"
  unfolding check_experiment_manage_permission_def
  by (rule guards_check_manage)
    (simp_all add: can_manage_experiment_def effective_experiment_permission_def route_types)

lemma guards_registered_model:
  "guards sv rq (Manager REGISTERED_MODEL name) (check_registered_model_manage_permission sv rq name)"
  unfolding check_registered_model_manage_permission_def
  by (rule guards_check_manage)
    (simp_all add: can_manage_registered_model_def effective_registered_model_permission_def route_types)

lemma guarded_group_model:
  "guarded (ap_server ap) rq (Manager REGISTERED_MODEL name)
    (act_bind (caller rq) (\<lambda>who. act_bind (require_manage can_manage_registered_model ap who name) (k who)))"
  by (rule guards_require_manage)
    (simp_all add: can_manage_registered_model_def effective_registered_model_permission_def route_types)

lemma guarded_group_prompt:
  "guarded (ap_server ap) rq (Manager PROMPT name)
    (act_bind (caller rq) (\<lambda>who. act_bind (require_manage can_manage_prompt ap who name) (k who)))"
  by (rule guards_require_manage)
    (simp_all add: can_manage_prompt_def effective_prompt_permission_def route_types)

text \<open>Every route of the list begins with a guard of its requirement.\<close>

lemmas route_lists = permission_writes_def admin_writes_def experiment_writes_def model_writes_def
  group_model_writes_def group_prompt_writes_def

lemma admin_writes_guarded:
  "list_all (guarded sv rq Administrator) (admin_writes ap rq c owner name permission d i text_id)"
  unfolding admin_writes_def
  by (simp add: guarded_bind [OF guards_admin] user_handler_defs group_handler_defs)

lemma experiment_writes_guarded:
  "list_all (guarded (ap_server ap) rq (Manager EXPERIMENT name))
     (experiment_writes ap rq owner name scorer_name permission)"
  unfolding experiment_writes_def
  by (simp add: guarded_bind [OF guards_experiment] user_handler_defs group_handler_defs)

lemma model_writes_guarded:
  "list_all (guarded (ap_server ap) rq (Manager REGISTERED_MODEL name)) (model_writes ap rq owner name permission)"
  unfolding model_writes_def
  by (simp add: guarded_bind [OF guards_registered_model] user_handler_defs)

lemma group_model_writes_guarded:
  "list_all (guarded (ap_server ap) rq (Manager REGISTERED_MODEL name))
     (group_model_writes ap rq owner name permission)"
  "list_all (guarded (ap_server ap) rq (Manager PROMPT name)) (group_prompt_writes ap rq owner name permission)"
  unfolding group_model_writes_def group_prompt_writes_def
  by (simp_all add: guarded_group_model guarded_group_prompt group_handler_defs)

lemma permission_writes_guarded:
  assumes "(req, h) \<in> set (permission_writes ap rq c owner name scorer_name permission d i text_id)"
  shows "guarded (ap_server ap) rq req h"
  using assms admin_writes_guarded experiment_writes_guarded model_writes_guarded group_model_writes_guarded
  unfolding permission_writes_def list_all_iff by auto

text \<open>C5: Every writing route of the two routers for the permissions and patterns of users and
  of groups changes something only for an administrator or, where it is open to managers, for a user
  who may manage the resource by the present database; for anyone else it answers with an error, and
  neither the database nor the audit log changes. This holds when the caches hold only answers of
  the present database and the caller's name has no colon.\<close>

theorem route_writes_need_permission:
  assumes "(req, h) \<in> set (permission_writes ap rq c owner name scorer_name permission d i text_id)"
    and "h s = (r, s')"
    and "exact_caches (sv_config (ap_server ap)) (sv_outside (ap_server ap)) (st_db (as_store s)) None
           (st_caches (as_store s))"
    and "\<And>u. get_username rq = Inr u \<Longrightarrow> colon_free u"
    and "\<not> meets (ap_server ap) rq (st_db (as_store s)) req"
  shows "(\<exists>e. r = Inl e) \<and> st_db (as_store s') = st_db (as_store s) \<and> as_audit s' = as_audit s"
  using permission_writes_guarded [OF assms(1)] assms(2-5) unfolding guarded_def app_ok_def by blast

section \<open>The audit log\<close>

text \<open>A success leaves one event, of which \<open>P\<close> holds.\<close>

definition logs :: "app \<Rightarrow> (audit_event \<Rightarrow> bool) \<Rightarrow> ('a, app_state) action \<Rightarrow> bool" where
  "logs ap P h \<longleftrightarrow>
     (\<forall>s x s'. h s = (Inr x, s') \<longrightarrow> ap_audit_enabled ap \<longrightarrow> (\<exists>e. as_audit s' = as_audit s @ [e] \<and> P e))"

lemma logs_bind:
  assumes "\<And>s x s'. g s = (Inr x, s') \<Longrightarrow> as_audit s' = as_audit s \<and> Q x"
    and "\<And>x. Q x \<Longrightarrow> logs ap P (k x)"
  shows "logs ap P (act_bind g k)"
  unfolding logs_def
proof (intro allI impI)
  fix s y s'
  assume run: "act_bind g k s = (Inr y, s')" and on: "ap_audit_enabled ap"
  from run obtain x s1 where x: "g s = (Inr x, s1)" "k x s1 = (Inr y, s')"
    by (auto simp: act_bind_def split: sum.splits prod.splits)
  from assms(1) [OF x(1)] assms(2) have "as_audit s1 = as_audit s" "logs ap P (k x)" by blast+
  with x(2) on show "\<exists>e. as_audit s' = as_audit s @ [e] \<and> P e" unfolding logs_def by metis
qed

lemma logs_or_status: "logs ap P m \<Longrightarrow> logs ap P (or_status n m)"
  unfolding logs_def or_status_def act_except_def act_raise_def
  by (auto split: sum.splits prod.splits)

lemma logs_or_status_id:
  assumes "logs ap P m" shows "logs ap P (or_status_id n m)"
  unfolding logs_def
proof (intro allI impI)
  fix s x s'
  assume "or_status_id n m s = (Inr x, s')" and "ap_audit_enabled ap"
  moreover from this(1) have "m s = (Inr x, s')"
    by (auto simp: or_status_id_def split: sum.splits prod.splits exn.splits)
  ultimately show "\<exists>e. as_audit s' = as_audit s @ [e] \<and> P e" using assms unfolding logs_def by blast
qed

lemma logs_or_status_code:
  assumes "logs ap P m" shows "logs ap P (or_status_code ap' c n m)"
  unfolding logs_def
proof (intro allI impI)
  fix s x s'
  assume "or_status_code ap' c n m s = (Inr x, s')" and "ap_audit_enabled ap"
  moreover from this(1) have "m s = (Inr x, s')"
    by (auto simp: or_status_code_def split: sum.splits prod.splits exn.splits)
  ultimately show "\<exists>e. as_audit s' = as_audit s @ [e] \<and> P e" using assms unfolding logs_def by blast
qed

lemma logs_row_id: "(\<And>n. logs ap P (k n)) \<Longrightarrow> logs ap P (row_id i k)"
  by (simp add: row_id_def) (simp add: logs_def act_raise_def)

lemma logs_pattern_id: "(\<And>n. logs ap P (k n)) \<Longrightarrow> logs ap P (pattern_id t k)"
  by (cases "py_int t") (simp_all add: pattern_id_def logs_row_id, simp add: logs_def act_raise_def)

lemma store_do_audit: "store_do ap op s = (r, s') \<Longrightarrow> as_audit s' = as_audit s"
  by (auto simp: store_do_def on_store_state_def split: prod.splits)

lemma store_get_audit: "store_get ap op f s = (r, s') \<Longrightarrow> as_audit s' = as_audit s"
  by (auto simp: store_get_def act_map_def act_bind_def act_return_def split: sum.splits prod.splits
      dest: store_do_audit)

abbreviation logged_as where
  "logged_as actor e \<equiv> ae_actor e = actor \<and> ae_status e = ''success''"

lemma logs_audited: "logs ap (logged_as actor) (audited ap op ev actor rt i detail resp)"
  unfolding audited_def
  by (rule logs_bind [where Q = "\<lambda>_. True"])
    (auto simp: logs_def act_bind_def emit_audit_event_def act_return_def dest: store_do_audit)

lemma logs_audited_entity: "logs ap (logged_as actor) (audited_entity ap op f ev actor rt i detail st body)"
  unfolding audited_entity_def
  by (rule logs_bind [where Q = "\<lambda>_. True"])
    (auto simp: logs_def act_bind_def emit_audit_event_def act_return_def act_lift_def
      dest: store_get_audit split: sum.splits)

lemmas logs_intros = logs_or_status logs_or_status_id logs_or_status_code logs_row_id logs_pattern_id
  logs_audited logs_audited_entity

text \<open>What the guards pass on: the administrator, nobody, or the caller.\<close>

lemma admin_passes:
  "check_admin_permission rq s = (Inr x, s') \<Longrightarrow> as_audit s' = as_audit s \<and> get_username rq = Inr x"
  by (auto simp: check_admin_permission_def read_db_def act_read_def split: sum.splits if_splits)

lemma check_manage_passes:
  "check_manage rq can s = (Inr x, s') \<Longrightarrow> as_audit s' = as_audit s \<and> x = None"
  by (auto simp: check_manage_def act_bind_def act_lift_def read_db_def act_read_def act_return_def
      act_raise_def on_store_state_def with_caches_def split: sum.splits if_splits prod.splits)

lemma caller_passes: "caller rq s = (Inr x, s') \<Longrightarrow> as_audit s' = as_audit s \<and> get_username rq = Inr (fst x)"
  by (auto simp: caller_def act_bind_def act_lift_def read_db_def act_read_def act_return_def
      split: sum.splits prod.splits)

lemma require_manage_passes: "require_manage can ap who name s = (Inr x, s') \<Longrightarrow> as_audit s' = as_audit s"
  by (auto simp: require_manage_def manages_def act_bind_def act_return_def act_raise_def
      on_store_state_def with_caches_def split: sum.splits if_splits prod.splits)

lemma logs_admin:
  assumes "\<And>u. get_username rq = Inr u \<Longrightarrow> logs ap P (k u)"
  shows "logs ap P (act_bind (check_admin_permission rq) k)"
  by (rule logs_bind [OF admin_passes assms])

lemma logs_check_manage: "logs ap P (k None) \<Longrightarrow> logs ap P (act_bind (check_manage rq can) k)"
  by (rule logs_bind [OF check_manage_passes], assumption, hypsubst)

lemma logs_caller:
  assumes "\<And>who. get_username rq = Inr (fst who) \<Longrightarrow> logs ap P (k who)"
  shows "logs ap P (act_bind (caller rq) (\<lambda>who. act_bind (require_manage can ap' who name) (\<lambda>_. k who)))"
  by (rule logs_bind [OF caller_passes], assumption)
    (rule logs_bind [where Q = "\<lambda>_. True"], auto dest: require_manage_passes assms)

lemma admin_writes_logged:
  assumes "get_username rq = Inr u"
  shows "list_all (logs ap (logged_as (Some u))) (admin_writes ap rq c owner name permission d i text_id)"
  unfolding admin_writes_def user_handler_defs group_handler_defs
  by (simp only: list.pred_inject, intro conjI TrueI; rule logs_admin; use assms in \<open>simp add: logs_intros\<close>)

lemma group_model_writes_logged:
  assumes "get_username rq = Inr u"
  shows "list_all (logs ap (logged_as (Some u))) (group_model_writes ap rq owner name permission)"
    and "list_all (logs ap (logged_as (Some u))) (group_prompt_writes ap rq owner name permission)"
  unfolding group_model_writes_def group_prompt_writes_def group_handler_defs
  by (simp only: list.pred_inject, intro conjI TrueI; rule logs_caller; use assms in \<open>simp add: logs_intros\<close>)+

lemma dependency_writes_logged:
  "list_all (logs ap (logged_as None)) (experiment_writes ap rq owner name scorer_name permission)"
  "list_all (logs ap (logged_as None)) (model_writes ap rq owner name permission)"
  unfolding experiment_writes_def model_writes_def user_handler_defs group_handler_defs
    check_experiment_manage_permission_def check_registered_model_manage_permission_def
  by (simp only: list.pred_inject, intro conjI TrueI; rule logs_check_manage; simp add: logs_intros)+

text \<open>C39: With the audit log enabled, a successful request to a writing route of the two
  permission routers leaves exactly one event in the log, of status success, whose actor is the
  caller, if the route is one for administrators or one of those for the models and prompts of
  groups, which check the permission of their caller themselves.
  (The routes for experiments and scorers, and for the models and prompts of users, are left out: their
  events have no actor.)\<close>

theorem route_writes_are_logged:
  assumes "h \<in> set (admin_writes ap rq c owner name permission d i text_id @
      group_model_writes ap rq owner name permission @ group_prompt_writes ap rq owner name permission)"
    and "h s = (Inr response, s')" and "ap_audit_enabled ap" and "get_username rq = Inr u"
  shows "\<exists>e. as_audit s' = as_audit s @ [e] \<and> ae_actor e = Some u \<and> ae_status e = ''success''"
proof -
  have "logs ap (logged_as (Some u)) h"
    using assms(1) admin_writes_logged [OF assms(4)] group_model_writes_logged [OF assms(4)]
    by (auto simp: list_all_iff)
  with assms(2,3) show ?thesis unfolding logs_def by blast
qed

text \<open>A successful request to a route on an experiment, a scorer, or a registered model or prompt
  of a user leaves exactly one event, but the event does not say who made the request: the
  dependency that guards these routes returns nothing, and the handlers take that for the
  name of the caller.\<close>

theorem dependency_routes_log_no_actor:
  assumes "h \<in> set (experiment_writes ap rq owner name scorer_name permission @
      model_writes ap rq owner name permission)"
    and "h s = (Inr response, s')" and "ap_audit_enabled ap"
  shows "\<exists>e. as_audit s' = as_audit s @ [e] \<and> ae_actor e = None \<and> ae_status e = ''success''"
proof -
  have "logs ap (logged_as None) h"
    using assms(1) dependency_writes_logged by (auto simp: list_all_iff)
  with assms(2,3) show ?thesis unfolding logs_def by blast
qed

section \<open>A run\<close>

definition example_app :: app where
  "example_app =
     \<lparr>ap_server = example_server, ap_audit_enabled = True, ap_code_equals = (\<lambda>_ _. False),
      ap_search_experiments = Inr [(''10'', ''ten''), (''20'', ''twenty'')],
      ap_mlflow = \<lparr>ms_search_registered_models = (\<lambda>_ _. Inr ([], None)),
        ms_search_experiments = (\<lambda>_ _ _. Inr ([], None)), ms_search_logged_models = (\<lambda>_ _ _. Inr ([], None)),
        ms_list_gateway_endpoints = Inr [], ms_list_secret_infos = Inr [],
        ms_list_gateway_model_definitions = Inr []\<rparr>\<rparr>"

definition request_of :: "string \<Rightarrow> http_request" where
  "request_of username =
     \<lparr>hr_path = ''/'', hr_method = ''POST'', hr_headers = [], hr_query = [], hr_path_params = [],
      hr_json = None, hr_state_username = Some username, hr_state_is_admin = False,
      hr_session_username = Inl OtherError, hr_workspace = None, hr_root_path = '''', hr_base_path = ''/''\<rparr>"

definition example_app_state :: app_state where
  "example_app_state = \<lparr>as_store = \<lparr>st_db = example_db, st_caches = empty_caches\<rparr>, as_audit = []\<rparr>"

text \<open>Alice may only read experiment 10, so she cannot give it to bob.\<close>

theorem route_writes_need_permission_witness:
  "\<exists>e s'. create_user_experiment_permission example_app (request_of ''alice'') ''bob'' ''10'' ''READ''
      example_app_state = (Inl e, s') \<and>
    st_db (as_store s') = st_db (as_store example_app_state) \<and> as_audit s' = as_audit example_app_state"
proof -
  let ?h = "create_user_experiment_permission example_app (request_of ''alice'') ''bob'' ''10'' ''READ''"
  obtain r s' where run: "?h example_app_state = (r, s')" by force
  have user: "get_username (request_of ''alice'') = Inr ''alice''" by code_simp
  have cannot: "\<not> meets (ap_server example_app) (request_of ''alice'') (st_db (as_store example_app_state))
      (Manager EXPERIMENT ''10'')"
  proof -
    have "get_is_admin (st_db (as_store example_app_state)) (request_of ''alice'') = Inr False"
      "map_sum id pr_permission (resolve_fresh (sv_config (ap_server example_app)) (sv_outside (ap_server example_app))
         (st_db (as_store example_app_state)) None EXPERIMENT ''10'' ''alice'' None) = Inr READ"
      "\<not> can_manage READ"
      by code_simp+
    then show ?thesis by (auto simp: meets_def user)
  qed
  have "(\<exists>e. r = Inl e) \<and> st_db (as_store s') = st_db (as_store example_app_state) \<and>
      as_audit s' = as_audit example_app_state"
  proof (rule route_writes_need_permission [where h = ?h, OF _ run _ _ cannot])
    show "(Manager EXPERIMENT ''10'', ?h) \<in> set (permission_writes example_app (request_of ''alice'')
        GatewaySecret ''bob'' ''10'' ''s'' ''READ'' \<lparr>pd_regex = ''a'', pd_priority = 1, pd_permission = ''READ''\<rparr>
        0 ''0'')"
      by (simp add: permission_writes_def experiment_writes_def)
  qed (simp_all add: example_app_state_def exact_empty user colon_free_def)
  with run show ?thesis by blast
qed

text \<open>By the default permission alice manages the model \<open>m\<close>.\<close>

theorem route_writes_are_logged_witness:
  "\<exists>s' e. create_group_registered_model_permission example_app (request_of ''alice'') ''devs'' ''m'' ''READ''
      example_app_state = (Inr (201, status_response), s') \<and> as_audit s' = [e] \<and> ae_actor e = Some ''alice''"
proof -
  let ?h = "create_group_registered_model_permission example_app (request_of ''alice'') ''devs'' ''m'' ''READ''"
  have "fst (?h example_app_state) = Inr (201, status_response)" by code_simp
  then obtain s' where run: "?h example_app_state = (Inr (201, status_response), s')" by (metis prod.collapse)
  have "\<exists>e. as_audit s' = as_audit example_app_state @ [e] \<and> ae_actor e = Some ''alice'' \<and>
      ae_status e = ''success''"
  proof (rule route_writes_are_logged [where h = ?h, OF _ run])
    show "?h \<in> set (admin_writes example_app (request_of ''alice'') GatewaySecret ''devs'' ''m'' ''READ''
          \<lparr>pd_regex = ''a'', pd_priority = 1, pd_permission = ''READ''\<rparr> 0 ''0'' @
        group_model_writes example_app (request_of ''alice'') ''devs'' ''m'' ''READ'' @
        group_prompt_writes example_app (request_of ''alice'') ''devs'' ''m'' ''READ'')"
      by (simp add: group_model_writes_def)
    show "ap_audit_enabled example_app" by (simp add: example_app_def)
    show "get_username (request_of ''alice'') = Inr ''alice''" by code_simp
  qed
  with run show ?thesis by (auto simp: example_app_state_def)
qed

text \<open>Bob is an administrator.\<close>

theorem dependency_routes_log_no_actor_witness:
  "\<exists>s' e. update_user_experiment_permission example_app (request_of ''bob'') ''alice'' ''10'' ''EDIT''
      example_app_state = (Inr (200, message_response), s') \<and> as_audit s' = [e] \<and> ae_actor e = None"
proof -
  let ?h = "update_user_experiment_permission example_app (request_of ''bob'') ''alice'' ''10'' ''EDIT''"
  have "fst (?h example_app_state) = Inr (200, message_response)" by code_simp
  then obtain s' where run: "?h example_app_state = (Inr (200, message_response), s')" by (metis prod.collapse)
  have "\<exists>e. as_audit s' = as_audit example_app_state @ [e] \<and> ae_actor e = None \<and> ae_status e = ''success''"
  proof (rule dependency_routes_log_no_actor [where h = ?h, OF _ run])
    show "?h \<in> set (experiment_writes example_app (request_of ''bob'') ''alice'' ''10'' ''s'' ''EDIT'' @
        model_writes example_app (request_of ''bob'') ''alice'' ''10'' ''EDIT'')"
      by (simp add: experiment_writes_def)
    show "ap_audit_enabled example_app" by (simp add: example_app_def)
  qed
  with run show ?thesis by (auto simp: example_app_state_def)
qed

end
