(* ===== verification/Texts.thy ===== *)
theory Texts
  imports Entities BeforeRequest
begin

text \<open>
  The text functions of Python's standard library that authentication uses: lower case,
  \<^verbatim>\<open>split\<close>, UTF-8, Base64 and the quoting of URLs. The bytes of a \<^verbatim>\<open>bytes\<close> object are natural
  numbers below 256. Decoded text with a code point above 255, which the strings of the model
  cannot hold, counts as text that does not decode.
\<close>

section \<open>Characters and lines\<close>

definition lower_char :: "char \<Rightarrow> char" where
  "lower_char c =
     (let n = of_char c :: nat
      in if (65 \<le> n \<and> n \<le> 90) \<or> (192 \<le> n \<and> n \<le> 222 \<and> n \<noteq> 215) then char_of (n + 32) else c)"

definition py_lower :: "string \<Rightarrow> string" where
  "py_lower s = map lower_char s"

text \<open>\<^verbatim>\<open>s.split(sep, 1)\<close>: the parts before and after the first separator, if there is one.\<close>

fun split_once :: "char \<Rightarrow> string \<Rightarrow> (string \<times> string) option" where
  "split_once sep [] = None"
| "split_once sep (c # cs) =
     (if c = sep then Some ([], cs)
      else map_option (\<lambda>(a, b). (c # a, b)) (split_once sep cs))"

text \<open>\<^verbatim>\<open>s.replace(old, new)\<close>, for an \<open>old\<close> that is not empty: from the left, without overlaps.\<close>

function replace_all :: "string \<Rightarrow> string \<Rightarrow> string \<Rightarrow> string" where
  "replace_all old new s =
     (if old = '''' \<or> s = '''' then s
      else if take (length old) s = old then new @ replace_all old new (drop (length old) s)
      else hd s # replace_all old new (tl s))"
  by auto
termination
  by (relation "measure (\<lambda>(old, new, s). length s)") (auto simp: neq_Nil_conv)

declare replace_all.simps [simp del]

lemma split_once_append: "sep \<notin> set a \<Longrightarrow> split_once sep (a @ sep # b) = Some (a, b)"
  by (induction a) auto

lemma split_once_Some: "split_once sep s = Some (a, b) \<Longrightarrow> s = a @ sep # b \<and> sep \<notin> set a"
  by (induction s arbitrary: a) (auto split: if_splits)

lemma starts_with_append [simp]: "starts_with p (p @ s)"
  by (simp add: starts_with_def)

lemma lower_char_idem: "lower_char (lower_char c) = lower_char c"
proof -
  have "of_char (lower_char c) = (let n = of_char c :: nat in
      if (65 \<le> n \<and> n \<le> 90) \<or> (192 \<le> n \<and> n \<le> 222 \<and> n \<noteq> 215) then n + 32 else n)"
    by (auto simp: lower_char_def Let_def)
  then show ?thesis unfolding lower_char_def [of "lower_char c"] by (auto simp: Let_def split: if_splits)
qed

lemma py_lower_idem [simp]: "py_lower (py_lower s) = py_lower s"
  by (simp add: py_lower_def lower_char_idem)

section \<open>UTF-8\<close>

definition utf8_char :: "char \<Rightarrow> nat list" where
  "utf8_char c = (let n = of_char c in if n < 128 then [n] else [192 + n div 64, 128 + n mod 64])"

definition utf8_encode :: "string \<Rightarrow> nat list" where
  "utf8_encode s = concat (map utf8_char s)"

fun utf8_decode :: "nat list \<Rightarrow> string option" where
  "utf8_decode [] = Some []"
| "utf8_decode (b # bs) =
     (if b < 128 then map_option ((#) (char_of b)) (utf8_decode bs)
      else case bs of
        [] \<Rightarrow> None
      | b' # bs' \<Rightarrow>
          if (b = 194 \<or> b = 195) \<and> 128 \<le> b' \<and> b' < 192
          then map_option ((#) (char_of ((b - 192) * 64 + (b' - 128)))) (utf8_decode bs')
          else None)"

lemma utf8_decode_char: "utf8_decode (utf8_char c @ bs) = map_option ((#) c) (utf8_decode bs)"
proof (cases "(of_char c :: nat) < 128")
  case True
  then show ?thesis by (simp add: utf8_char_def)
next
  case False
  define n :: nat where "n = of_char c"
  have n: "128 \<le> n" "n < 256" using False nat_of_char_less_256 [of c] by (simp_all add: n_def)
  have "2 \<le> n div 64" using div_le_mono [OF n(1), of 64] by simp
  moreover have "n div 64 < 4" using n(2) by (simp add: less_mult_imp_div_less)
  ultimately have "n div 64 = 2 \<or> n div 64 = 3" by linarith
  moreover have "(192 + n div 64 - 192) * 64 + (128 + n mod 64 - 128) = n" by simp
  moreover have "char_of n = c" by (simp add: n_def)
  ultimately show ?thesis using n by (auto simp: utf8_char_def Let_def n_def [symmetric])
qed

lemma utf8_round_trip [simp]: "utf8_decode (utf8_encode s) = Some s"
  by (induction s) (simp_all add: utf8_encode_def utf8_decode_char)

lemma utf8_bytes: "b \<in> set (utf8_encode s) \<Longrightarrow> b < 256"
proof -
  have "b < 256" if "b \<in> set (utf8_char c)" for b c
  proof -
    define n :: nat where "n = of_char c"
    have "n < 256" using nat_of_char_less_256 [of c] by (simp add: n_def)
    then have "n div 64 < 4" "n mod 64 < 64" by (simp_all add: less_mult_imp_div_less)
    with that show ?thesis by (auto simp: utf8_char_def Let_def n_def [symmetric] split: if_splits)
  qed
  then show "b \<in> set (utf8_encode s) \<Longrightarrow> b < 256" by (auto simp: utf8_encode_def)
qed

section \<open>Base64\<close>

definition b64_value :: "char \<Rightarrow> nat option" where
  "b64_value c =
     (let n = of_char c :: nat
      in if 65 \<le> n \<and> n \<le> 90 then Some (n - 65)
         else if 97 \<le> n \<and> n \<le> 122 then Some (n - 71)
         else if 48 \<le> n \<and> n \<le> 57 then Some (n + 4)
         else if n = 43 then Some 62
         else if n = 47 then Some 63
         else None)"

definition b64_char :: "nat \<Rightarrow> char" where
  "b64_char v =
     (if v < 26 then char_of (v + 65) else if v < 52 then char_of (v + 71)
      else if v < 62 then char_of (v - 4) else if v = 62 then CHR ''+'' else CHR ''/'')"

text \<open>
  \<^verbatim>\<open>base64.b64decode\<close> without validation: characters outside the alphabet are skipped, a padding
  that completes a group ends the text, and an incomplete group is an error. \<open>q\<close> is the
  position in the group, \<open>l\<close> the bits left over, \<open>pads\<close> the number of padding characters seen.
\<close>

fun b64_scan :: "nat \<Rightarrow> nat \<Rightarrow> nat \<Rightarrow> string \<Rightarrow> nat list option" where
  "b64_scan q l pads [] = (if q = 0 then Some [] else None)"
| "b64_scan q l pads (c # cs) =
     (if c = CHR ''='' then
        (if 2 \<le> q then (if 4 \<le> q + (pads + 1) then Some [] else b64_scan q l (pads + 1) cs)
         else b64_scan q l pads cs)
      else case b64_value c of
        None \<Rightarrow> b64_scan q l pads cs
      | Some v \<Rightarrow>
          if q = 0 then b64_scan 1 v 0 cs
          else if q = 1 then map_option ((#) (l * 4 + v div 16)) (b64_scan 2 (v mod 16) 0 cs)
          else if q = 2 then map_option ((#) (l * 16 + v div 4)) (b64_scan 3 (v mod 4) 0 cs)
          else map_option ((#) (l * 64 + v)) (b64_scan 0 0 0 cs))"

definition b64decode :: "string \<Rightarrow> nat list option" where
  "b64decode s = (if list_all (\<lambda>c. (of_char c :: nat) < 128) s then b64_scan 0 0 0 s else None)"

fun b64encode :: "nat list \<Rightarrow> string" where
  "b64encode [] = []"
| "b64encode [a] = [b64_char (a div 4), b64_char (a mod 4 * 16), CHR ''='', CHR ''='']"
| "b64encode [a, b] =
     [b64_char (a div 4), b64_char (a mod 4 * 16 + b div 16), b64_char (b mod 16 * 4), CHR ''='']"
| "b64encode (a # b # c # bs) =
     b64_char (a div 4) # b64_char (a mod 4 * 16 + b div 16) # b64_char (b mod 16 * 4 + c div 64) #
     b64_char (c mod 64) # b64encode bs"

lemma b64_value_char [simp]: "v < 64 \<Longrightarrow> b64_value (b64_char v) = Some v"
  by (auto simp: b64_value_def b64_char_def Let_def)

lemma b64_char_ascii [simp]: "v < 64 \<Longrightarrow> (of_char (b64_char v) :: nat) < 128"
  by (auto simp: b64_char_def)

lemma b64_char_not_pad [simp]: "v < 64 \<Longrightarrow> b64_char v \<noteq> CHR ''=''"
  using b64_value_char [of v] by (auto simp: b64_value_def Let_def)

text \<open>The four groups of six bits that three bytes make, and back.\<close>

lemma b64_groups:
  fixes a b c :: nat
  assumes "a < 256" and "b < 256" and "c < 256"
  shows "a div 4 < 64" and "a mod 4 * 16 + b div 16 < 64" and "b mod 16 * 4 + c div 64 < 64"
    and "a mod 4 * 16 < 64" and "b mod 16 * 4 < 64"
    and "(a mod 4 * 16 + b div 16) div 16 = a mod 4" and "(a mod 4 * 16 + b div 16) mod 16 = b div 16"
    and "(b mod 16 * 4 + c div 64) div 4 = b mod 16" and "(b mod 16 * 4 + c div 64) mod 4 = c div 64"
proof -
  have "a mod 4 < 4" "b div 16 < 16" "b mod 16 < 16" "c div 64 < 4" using assms by auto
  then show "a mod 4 * 16 + b div 16 < 64" "b mod 16 * 4 + c div 64 < 64" "a mod 4 * 16 < 64"
    "b mod 16 * 4 < 64" "(a mod 4 * 16 + b div 16) div 16 = a mod 4"
    "(a mod 4 * 16 + b div 16) mod 16 = b div 16" "(b mod 16 * 4 + c div 64) div 4 = b mod 16"
    "(b mod 16 * 4 + c div 64) mod 4 = c div 64"
    by simp_all
  show "a div 4 < 64" using assms by auto
qed

lemma b64_scan_char:
  assumes "v < 64"
  shows "b64_scan 0 l p (b64_char v # cs) = b64_scan 1 v 0 cs"
    and "b64_scan 1 l p (b64_char v # cs) = map_option ((#) (l * 4 + v div 16)) (b64_scan 2 (v mod 16) 0 cs)"
    and "b64_scan 2 l p (b64_char v # cs) = map_option ((#) (l * 16 + v div 4)) (b64_scan 3 (v mod 4) 0 cs)"
    and "b64_scan 3 l p (b64_char v # cs) = map_option ((#) (l * 64 + v)) (b64_scan 0 0 0 cs)"
  using b64_value_char [OF assms] b64_char_not_pad [OF assms] by simp_all

lemma b64_scan_pad:
  "b64_scan 2 l 0 ''=='' = Some []" "b64_scan 3 l 0 ''='' = Some []"
  by simp_all

lemma b64_bytes:
  fixes a b c :: nat
  shows "a div 4 * 4 + a mod 4 = a" "b div 16 * 16 + b mod 16 = b" "c div 64 * 64 + c mod 64 = c"
  by simp_all

lemma b64_scan_encode:
  "list_all (\<lambda>b. b < 256) bs \<Longrightarrow> b64_scan 0 0 0 (b64encode bs) = Some bs"
proof (induction bs rule: b64encode.induct)
  case (2 a)
  then have a: "a < 256" by simp
  have "a mod 4 * 16 div 16 = a mod 4" by simp
  then show ?case
    by (simp only: b64encode.simps b64_scan_char [OF b64_groups(1) [OF a a a]]
        b64_scan_char [OF b64_groups(4) [OF a a a]] b64_scan_pad option.map b64_bytes)
next
  case (3 a b)
  then have ab: "a < 256" "b < 256" by simp_all
  note g = b64_groups [OF ab ab(1)]
  have "b mod 16 * 4 div 4 = b mod 16" by simp
  then show ?case
    by (simp only: b64encode.simps b64_scan_char [OF g(1)] b64_scan_char [OF g(2)] b64_scan_char [OF g(5)]
        b64_scan_pad option.map b64_bytes g(6,7))
next
  case (4 a b c bs)
  then have abc: "a < 256" "b < 256" "c < 256" by simp_all
  note g = b64_groups [OF abc]
  have m: "c mod 64 < 64" by simp
  have "b64_scan 0 0 0 (b64encode bs) = Some bs" using 4 by simp
  then show ?case
    by (simp only: b64encode.simps b64_scan_char [OF g(1)] b64_scan_char [OF g(2)] b64_scan_char [OF g(3)]
        b64_scan_char [OF m] option.map b64_bytes g(6-9))
qed simp

lemma b64encode_ascii:
  "list_all (\<lambda>b. b < 256) bs \<Longrightarrow> list_all (\<lambda>c. (of_char c :: nat) < 128) (b64encode bs)"
proof (induction bs rule: b64encode.induct)
  case (2 a)
  then have "a < 256" by simp
  from b64_groups [OF this this this] show ?case by simp
next
  case (3 a b)
  then have "a < 256" "b < 256" by simp_all
  from b64_groups [OF this this(1)] show ?case by simp
next
  case (4 a b c bs)
  then have "a < 256" "b < 256" "c < 256" by simp_all
  from b64_groups [OF this] 4 show ?case by simp
qed simp

lemma b64_round_trip: "(\<And>b. b \<in> set bs \<Longrightarrow> b < 256) \<Longrightarrow> b64decode (b64encode bs) = Some bs"
  using b64encode_ascii [of bs] b64_scan_encode [of bs] by (simp add: b64decode_def list_all_iff)

section \<open>Quoting\<close>

text \<open>\<^verbatim>\<open>urllib.parse.quote(s, safe='')\<close>\<close>

definition hex_digit :: "nat \<Rightarrow> char" where
  "hex_digit n = (if n < 10 then char_of (n + 48) else char_of (n + 55))"

definition unreserved :: "nat \<Rightarrow> bool" where
  "unreserved b \<longleftrightarrow> (65 \<le> b \<and> b \<le> 90) \<or> (97 \<le> b \<and> b \<le> 122) \<or> (48 \<le> b \<and> b \<le> 57) \<or> b \<in> {45, 46, 95, 126}"

definition quote_byte :: "nat \<Rightarrow> string" where
  "quote_byte b =
     (if unreserved b then [char_of b] else [CHR ''%'', hex_digit (b div 16), hex_digit (b mod 16)])"

definition quote :: "string \<Rightarrow> string" where
  "quote s = concat (map quote_byte (utf8_encode s))"

text \<open>A quoted text holds nothing that ends or splits the query of a URL.\<close>

lemma quote_safe:
  assumes "c \<in> set (quote s)"
  shows "c = CHR ''%'' \<or> unreserved (of_char c)"
proof -
  have "c = CHR ''%'' \<or> unreserved (of_char c)" if "c \<in> set (quote_byte b)" "b < 256" for b
  proof -
    have "b div 16 < 16" "b mod 16 < 16" using that(2) by auto
    then have "unreserved (of_char (hex_digit (b div 16)))" "unreserved (of_char (hex_digit (b mod 16)))"
      by (auto simp: hex_digit_def unreserved_def)
    with that show ?thesis by (auto simp: quote_byte_def split: if_splits)
  qed
  with assms utf8_bytes show ?thesis by (auto simp: quote_def)
qed

end
