(* ===== verification/Oidc.thy ===== *)
theory Oidc
  imports Texts FastApi
begin

text \<open>
  What the plugin asks of the identity provider: the check of tokens (\<^verbatim>\<open>auth.py\<close>), the fields of a
  token that name the user (\<^verbatim>\<open>utils/oidc_field_extraction.py\<close>) and the registration of the
  client (\<^verbatim>\<open>oauth.py\<close>). The provider and the library that talks to it are a parameter, \<open>idp\<close>.
\<close>

section \<open>Settings and provider\<close>

record oidc_config =
  OIDC_DISCOVERY_URL :: "string option"
  OIDC_CLIENT_ID :: "string option"
  OIDC_CLIENT_SECRET :: "string option"
  OIDC_SCOPE :: "string option"
  OIDC_AUDIENCE :: "string option"
  OIDC_REDIRECT_URI :: "string option"
  OIDC_PROVIDER_DISPLAY_NAME :: string
  OIDC_USERNAME_FIELD :: "string list"
  OIDC_DISPLAY_NAME_FIELD :: "string list"
  OIDC_GROUPS_ATTRIBUTE :: string
  OIDC_GROUP_NAME :: "string list"
  OIDC_ADMIN_GROUP_NAME :: "string list"
  OIDC_GROUP_DETECTION_PLUGIN :: "string option"
  OIDC_WORKSPACE_CLAIM_NAME :: string
  OIDC_WORKSPACE_DETECTION_PLUGIN :: "string option"
  OIDC_WORKSPACE_DEFAULT_PERMISSION :: string
  OIDC_USE_REFRESH_TOKEN :: bool
  OIDC_SESSION_EXPIRY_LEEWAY_SECONDS :: int
  DEFAULT_LANDING_PAGE_IS_PERMISSIONS :: bool
  AUTOMATIC_LOGIN_REDIRECT :: bool

text \<open>The outcome of \<^verbatim>\<open>jwt.decode\<close> and the validation of its claims.\<close>

datatype jwt_outcome = Claims dict | BadSignature | InvalidToken

text \<open>
  \<open>idp_get_json\<close> is \<^verbatim>\<open>requests.get(url).json()\<close>. The client has the methods that its flags say;
  \<open>idp_exchange n code\<close> is the token response of the attempt \<open>n\<close> (from 0) to exchange a code,
  which may differ after the keys have been refreshed. Token responses and user information are
  dictionaries. Plugins take the access token. \<open>idp_workspace_exists\<close> is MLflow's workspace store.
\<close>

record idp =
  idp_get_json :: "string \<Rightarrow> json result"
  idp_jwt :: "string \<Rightarrow> json \<Rightarrow> json option \<Rightarrow> jwt_outcome"
  idp_registers :: bool
  idp_has_exchange :: bool
  idp_exchange :: "nat \<Rightarrow> string \<Rightarrow> dict result"
  idp_userinfo :: "dict \<Rightarrow> dict result"
  idp_refresh :: "(string \<Rightarrow> dict result) option"
  idp_authorize_url :: "(string \<Rightarrow> string \<Rightarrow> string result) option"
  idp_metadata :: "dict option"
  idp_user_groups :: "string \<Rightarrow> json \<Rightarrow> json result"
  idp_user_workspaces :: "string \<Rightarrow> json \<Rightarrow> json result"
  idp_workspace_exists :: "(string \<Rightarrow> bool) option"

section \<open>Keys and tokens\<close>

text \<open>The keys of the provider are cached for a while; losing the entry is a cache of \<open>None\<close>.\<close>

definition get_oidc_jwks :: "oidc_config \<Rightarrow> idp \<Rightarrow> bool \<Rightarrow> (json, json option) action" where
  "get_oidc_jwks cfg p force_refresh cache =
     (case OIDC_DISCOVERY_URL cfg of
        None \<Rightarrow> (Inl ValueError, cache)
      | Some url \<Rightarrow>
          let cache = (if force_refresh then None else cache) in
          case cache of
            Some jwks \<Rightarrow> (Inr jwks, cache)
          | None \<Rightarrow>
              (case bind_result (idp_get_json p url) (\<lambda>metadata.
                    bind_result (py_get metadata ''jwks_uri'') (\<lambda>uri.
                    case uri of
                      JString u \<Rightarrow> if u = '''' then Inl ValueError else idp_get_json p u
                    | _ \<Rightarrow> if truthy uri then Inl OtherError else Inl ValueError)) of
                 Inl e \<Rightarrow> (Inl e, cache)
               | Inr jwks \<Rightarrow> (Inr jwks, if jwks = JNull then None else Some jwks)))"

definition get_claims_options :: "oidc_config \<Rightarrow> json option" where
  "get_claims_options cfg =
     (case or_text (OIDC_AUDIENCE cfg) None of
        Some aud \<Rightarrow> Some (JObject [(''aud'', JObject [(''essential'', JBool True), (''value'', JString aud)])])
      | None \<Rightarrow> None)"

definition decode_token :: "oidc_config \<Rightarrow> idp \<Rightarrow> string \<Rightarrow> json \<Rightarrow> jwt_outcome" where
  "decode_token cfg p token jwks = idp_jwt p token jwks (get_claims_options cfg)"

text \<open>A bad signature is tried once more with fresh keys.\<close>

definition validate_token :: "oidc_config \<Rightarrow> idp \<Rightarrow> string \<Rightarrow> (dict, json option) action" where
  "validate_token cfg p token =
     act_bind (get_oidc_jwks cfg p False) (\<lambda>jwks.
     case decode_token cfg p token jwks of
       Claims payload \<Rightarrow> act_return payload
     | InvalidToken \<Rightarrow> act_raise OtherError
     | BadSignature \<Rightarrow>
         act_bind (get_oidc_jwks cfg p True) (\<lambda>jwks.
         case decode_token cfg p token jwks of
           Claims payload \<Rightarrow> act_return payload
         | _ \<Rightarrow> act_raise OtherError))"

text \<open>The key set that the provider serves: the one behind the address in its metadata.\<close>

definition provider_keys :: "oidc_config \<Rightarrow> idp \<Rightarrow> json \<Rightarrow> bool" where
  "provider_keys cfg p jwks \<longleftrightarrow>
     (\<exists>url metadata uri. OIDC_DISCOVERY_URL cfg = Some url \<and> idp_get_json p url = Inr metadata \<and>
        py_get metadata ''jwks_uri'' = Inr (JString uri) \<and> uri \<noteq> '''' \<and> idp_get_json p uri = Inr jwks)"

lemma get_oidc_jwks_sound:
  assumes "get_oidc_jwks cfg p force cache = (r, cache')"
  shows "r = Inr jwks \<Longrightarrow> cache = Some jwks \<or> provider_keys cfg p jwks"
    and "cache' = Some jwks \<Longrightarrow> cache = Some jwks \<or> provider_keys cfg p jwks"
  using assms
  by (auto simp: get_oidc_jwks_def provider_keys_def Let_def bind_result_def
      split: option.splits sum.splits json.splits if_splits) (metis sum.distinct(1))+

text \<open>A token is accepted only with claims that a key set of the provider, cached or fetched, verifies;
  and only key sets of the provider get into the cache.\<close>

lemma validate_token_sound:
  assumes "validate_token cfg p token cache = (Inr payload, cache')"
  shows "\<exists>jwks. decode_token cfg p token jwks = Claims payload \<and> (cache = Some jwks \<or> provider_keys cfg p jwks)"
  using assms
  by (auto simp: validate_token_def act_bind_def act_return_def act_raise_def
      split: sum.splits jwt_outcome.splits prod.splits dest: get_oidc_jwks_sound)

lemma validate_token_cache:
  assumes "validate_token cfg p token cache = (r, Some jwks)"
  shows "cache = Some jwks \<or> provider_keys cfg p jwks"
  using assms
  by (auto simp: validate_token_def act_bind_def act_return_def act_raise_def
      split: sum.splits jwt_outcome.splits prod.splits dest: get_oidc_jwks_sound)

section \<open>The fields of a token\<close>

definition join_with :: "string \<Rightarrow> string list \<Rightarrow> string" where
  "join_with sep xs = (case xs of [] \<Rightarrow> [] | x # xs \<Rightarrow> x @ concat (map (\<lambda>y. sep @ y) xs))"

definition quoted :: "string \<Rightarrow> string" where
  "quoted s = CHR 0x27 # s @ [CHR 0x27]"

fun first_field :: "dict \<Rightarrow> string list \<Rightarrow> string \<Rightarrow> (string option \<times> string option) option" where
  "first_field payload [] kind = None"
| "first_field payload (field # rest) kind =
     (case dict_get payload field of
        JNull \<Rightarrow> first_field payload rest kind
      | JString s \<Rightarrow> if list_all py_space s then first_field payload rest kind else Some (Some s, None)
      | _ \<Rightarrow> Some (None, Some (''Invalid OIDC '' @ kind @ '' field: '' @ field @ '' is not a string'')))"

definition extract_field_from_payload ::
    "dict \<Rightarrow> string list \<Rightarrow> string \<Rightarrow> string option \<times> string option" where
  "extract_field_from_payload payload field_list field_type_name =
     (if field_list = [] then (None, Some (''No '' @ field_type_name @ '' fields configured''))
      else case first_field payload field_list field_type_name of
        Some r \<Rightarrow> r
      | None \<Rightarrow>
          let what = ''Could not determine '' @ map (\<lambda>c. if c = CHR ''_'' then CHR '' '' else c) field_type_name @
                '': the identity provider did not provide a non-empty value for ''
          in (None, Some (if length field_list = 1 then what @ ''the '' @ quoted (hd field_list) @ '' claim''
                else what @ ''any of the claims '' @ join_with '', '' (map quoted field_list))))"

definition extract_username :: "oidc_config \<Rightarrow> dict \<Rightarrow> string option \<times> string option" where
  "extract_username cfg payload =
     (case extract_field_from_payload payload (OIDC_USERNAME_FIELD cfg) ''username'' of
        (_, Some e) \<Rightarrow> (None, Some e)
      | (value, None) \<Rightarrow> (map_option py_lower (or_text value None), None))"

definition extract_display_name :: "oidc_config \<Rightarrow> dict \<Rightarrow> string option \<Rightarrow> string option \<times> string option" where
  "extract_display_name cfg payload fallback =
     (case extract_field_from_payload payload (OIDC_DISPLAY_NAME_FIELD cfg) ''display_name'' of
        (value, Some e) \<Rightarrow>
          (case or_text fallback None of Some f \<Rightarrow> (Some f, None) | None \<Rightarrow> (value, Some e))
      | r \<Rightarrow> r)"

text \<open>There is a value or an error, never both or neither, and a value is not blank.\<close>

lemma first_field_cases:
  assumes "first_field payload fs kind = Some r"
  obtains s where "r = (Some s, None)" and "\<not> list_all py_space s" and "\<exists>f \<in> set fs. dict_get payload f = JString s"
  | e where "r = (None, Some e)" and "e \<noteq> []"
  using assms
proof (induction payload fs kind rule: first_field.induct)
  case (2 payload f fs kind)
  then show ?case by (cases "dict_get payload f") (auto split: if_splits)
qed simp

lemma extract_field_cases:
  obtains s where "extract_field_from_payload payload fs kind = (Some s, None)" and "\<not> list_all py_space s"
    and "\<exists>f \<in> set fs. dict_get payload f = JString s"
  | e where "extract_field_from_payload payload fs kind = (None, Some e)" and "e \<noteq> []"
proof (cases "first_field payload fs kind")
  case None
  then have "\<exists>e. extract_field_from_payload payload fs kind = (None, Some e) \<and> e \<noteq> []"
    by (simp add: extract_field_from_payload_def Let_def)
  then show thesis using that(2) by blast
next
  case (Some r)
  show thesis
  proof (cases "fs = []")
    case True
    then have "\<exists>e. extract_field_from_payload payload fs kind = (None, Some e) \<and> e \<noteq> []"
      by (simp add: extract_field_from_payload_def)
    then show thesis using that(2) by blast
  next
    case False
    with Some have "extract_field_from_payload payload fs kind = r"
      by (simp add: extract_field_from_payload_def)
    with Some show thesis by (auto elim!: first_field_cases intro: that)
  qed
qed

lemma extract_username_cases:
  obtains u where "extract_username cfg payload = (Some (py_lower u), None)" and "\<not> list_all py_space u"
    and "\<exists>f \<in> set (OIDC_USERNAME_FIELD cfg). dict_get payload f = JString u"
  | e where "extract_username cfg payload = (None, Some e)" and "e \<noteq> []"
proof (cases rule: extract_field_cases [of payload "OIDC_USERNAME_FIELD cfg" "''username''"])
  case (1 s)
  then have "s \<noteq> []" by auto
  with 1 show thesis by (intro that(1) [of s]) (auto simp: extract_username_def or_text_def)
next
  case (2 e)
  then show thesis by (intro that(2) [of e]) (simp_all add: extract_username_def)
qed

section \<open>Registration of the client\<close>

definition has_required_config :: "oidc_config \<Rightarrow> bool" where
  "has_required_config cfg \<longleftrightarrow>
     list_all (\<lambda>v. or_text v None \<noteq> None) [OIDC_CLIENT_ID cfg, OIDC_CLIENT_SECRET cfg, OIDC_DISCOVERY_URL cfg]"

text \<open>\<^verbatim>\<open>s.split()\<close>\<close>

definition py_words :: "string \<Rightarrow> string list" where
  "py_words s =
     (let (w, ws) = foldr (\<lambda>c (w, ws). if py_space c then ([], if w = [] then ws else w # ws) else (c # w, ws)) s ([], [])
      in if w = [] then ws else w # ws)"

definition build_scope :: "oidc_config \<Rightarrow> string" where
  "build_scope cfg =
     (let raw = (case OIDC_SCOPE cfg of Some s \<Rightarrow> s | None \<Rightarrow> [])
      in if \<not> OIDC_USE_REFRESH_TOKEN cfg then raw
         else
           let separator = (if CHR '','' \<in> set raw then '','' else '' '');
               scopes = py_words (map (\<lambda>c. if c = CHR '','' then CHR '' '' else c) raw);
               scopes = (if ''offline_access'' \<in> set scopes then scopes else scopes @ [''offline_access''])
           in join_with separator scopes)"

text \<open>The state is whether the client has been registered.\<close>

definition ensure_oidc_client_registered :: "oidc_config \<Rightarrow> idp \<Rightarrow> bool \<Rightarrow> bool \<times> bool" where
  "ensure_oidc_client_registered cfg p registered =
     (if registered then (True, True)
      else if \<not> has_required_config cfg then (False, False)
      else if idp_registers p then (True, True)
      else (False, False))"

definition is_oidc_configured :: "oidc_config \<Rightarrow> idp \<Rightarrow> bool \<Rightarrow> bool \<times> bool" where
  "is_oidc_configured = ensure_oidc_client_registered"

lemma build_scope_examples:
  "build_scope (c\<lparr>OIDC_SCOPE := Some ''openid,email'', OIDC_USE_REFRESH_TOKEN := True\<rparr>) = ''openid,email,offline_access''"
  "build_scope (c\<lparr>OIDC_SCOPE := Some ''openid email'', OIDC_USE_REFRESH_TOKEN := False\<rparr>) = ''openid email''"
  by (simp_all add: build_scope_def py_words_def py_space_def join_with_def)

end
