(* ===== verification/Uri.thy ===== *)
theory Uri
  imports Oidc
begin

text \<open>
  The addresses the server gives for itself (\<^verbatim>\<open>utils/uri.py\<close>): the base of the URL of a request
  without the default port, and the address for the provider to come back to. A parsed URL is
  its scheme, the part between the slashes and the path, all that these functions keep.
\<close>

record url_parts =
  ur_scheme :: string
  ur_netloc :: string
  ur_path :: string

definition urlunparse :: "url_parts \<Rightarrow> string" where
  "urlunparse u = ur_scheme u @ ''://'' @ ur_netloc u @ ur_path u"

text \<open>\<^verbatim>\<open>s.rpartition(sep)\<close>: what is before and after the last separator.\<close>

definition rsplit_once :: "char \<Rightarrow> string \<Rightarrow> (string \<times> string) option" where
  "rsplit_once sep s = map_option (\<lambda>(a, b). (rev b, rev a)) (split_once sep (rev s))"

definition before :: "char \<Rightarrow> string \<Rightarrow> string" where
  "before sep s = takeWhile (\<lambda>c. c \<noteq> sep) s"

definition after :: "char \<Rightarrow> string \<Rightarrow> string" where
  "after sep s = drop 1 (dropWhile (\<lambda>c. c \<noteq> sep) s)"

text \<open>The port in the part between the slashes, as \<^verbatim>\<open>urlparse\<close> reads it: no port is \<open>None\<close>, and one
  that is not a number below 65536 raises.\<close>

definition netloc_port :: "string \<Rightarrow> int option result" where
  "netloc_port netloc =
     (let hostinfo = (case rsplit_once (CHR ''@'') netloc of Some (_, h) \<Rightarrow> h | None \<Rightarrow> netloc);
          port = (if CHR ''['' \<in> set hostinfo then after (CHR '':'') (after (CHR '']'') (after (CHR ''['') hostinfo))
                  else after (CHR '':'') hostinfo)
      in if port = [] then Inr None
         else if list_all digit_char port
         then (case read_digits 0 port of
                 Some n \<Rightarrow> if n \<le> 65535 then Inr (Some n) else Inl ValueError
               | None \<Rightarrow> Inl ValueError)
         else Inl ValueError)"

definition normalize_url_port :: "url_parts \<Rightarrow> url_parts" where
  "normalize_url_port parsed =
     (case netloc_port (ur_netloc parsed) of
        Inl _ \<Rightarrow> parsed
      | Inr port \<Rightarrow>
          if (ur_scheme parsed = ''http'' \<and> port = Some 80) \<or> (ur_scheme parsed = ''https'' \<and> port = Some 443)
          then
            (case rsplit_once (CHR ''@'') (ur_netloc parsed) of
               Some (userinfo, host_port) \<Rightarrow>
                 parsed\<lparr>ur_netloc := userinfo @ ''@'' @ before (CHR '':'') host_port\<rparr>
             | None \<Rightarrow> parsed\<lparr>ur_netloc := before (CHR '':'') (ur_netloc parsed)\<rparr>)
          else parsed)"

text \<open>A request with its URL: the query string as it was sent, and \<^verbatim>\<open>str(request.base_url)\<close>.\<close>

record web_request = http_request +
  wr_scheme :: string
  wr_netloc :: string
  wr_query_string :: string
  wr_base_url :: string

definition get_base_url_from_request :: "'a web_request_scheme \<Rightarrow> string" where
  "get_base_url_from_request rq =
     urlunparse (normalize_url_port
       \<lparr>ur_scheme = wr_scheme rq, ur_netloc = wr_netloc rq,
        ur_path = (if hr_root_path rq = [] \<or> hd (hr_root_path rq) = CHR ''/'' then hr_root_path rq
                   else CHR ''/'' # hr_root_path rq)\<rparr>)"

definition get_dynamic_redirect_uri :: "'a web_request_scheme \<Rightarrow> string \<Rightarrow> string" where
  "get_dynamic_redirect_uri rq callback_path =
     get_base_url_from_request rq @
     (if callback_path = [] then ''/''
      else if hd callback_path = CHR ''/'' then callback_path
      else CHR ''/'' # callback_path)"

definition get_configured_or_dynamic_redirect_uri ::
    "'a web_request_scheme \<Rightarrow> string \<Rightarrow> string option \<Rightarrow> string" where
  "get_configured_or_dynamic_redirect_uri rq callback_path configured_uri =
     (case configured_uri of
        Some uri \<Rightarrow> if list_all py_space uri then get_dynamic_redirect_uri rq callback_path else py_strip uri
      | None \<Rightarrow> get_dynamic_redirect_uri rq callback_path)"

section \<open>The default port\<close>

lemma rsplit_once_None: "sep \<notin> set s \<Longrightarrow> rsplit_once sep s = None"
proof -
  have "sep \<notin> set t \<Longrightarrow> split_once sep t = None" for t by (induction t) auto
  then show "sep \<notin> set s \<Longrightarrow> rsplit_once sep s = None" by (simp add: rsplit_once_def)
qed

lemma before_append: "sep \<notin> set a \<Longrightarrow> before sep (a @ sep # b) = a"
  unfolding before_def by (induction a) auto

lemma after_append: "sep \<notin> set a \<Longrightarrow> after sep (a @ sep # b) = b"
  unfolding after_def by (induction a) auto

text \<open>The host of a plain name loses its default port; the address in brackets of IPv6 is cut at
  its first colon.\<close>

lemma normalize_plain_host:
  assumes "CHR ''@'' \<notin> set host" and "CHR ''['' \<notin> set host" and "CHR '':'' \<notin> set host"
  shows "normalize_url_port \<lparr>ur_scheme = ''http'', ur_netloc = host @ '':80'', ur_path = p\<rparr> =
    \<lparr>ur_scheme = ''http'', ur_netloc = host, ur_path = p\<rparr>"
proof -
  have n: "rsplit_once (CHR ''@'') (host @ '':80'') = None" using assms by (intro rsplit_once_None) auto
  have "netloc_port (host @ '':80'') = Inr (Some 80)"
    using assms after_append [OF assms(3), of "''80''"]
    by (simp add: netloc_port_def n digit_char_def digit_value_def)
  then show ?thesis using before_append [OF assms(3), of "''80''"] by (simp add: normalize_url_port_def n)
qed

lemma normalize_ipv6_host:
  "normalize_url_port \<lparr>ur_scheme = ''http'', ur_netloc = ''[::1]:80'', ur_path = p\<rparr> =
    \<lparr>ur_scheme = ''http'', ur_netloc = ''['', ur_path = p\<rparr>"
  by (simp add: normalize_url_port_def netloc_port_def rsplit_once_def after_def before_def digit_char_def
      digit_value_def)

end
