(* ===== verification/Login.thy ===== *)
theory Login
  imports Uri GroupRouter
begin

text \<open>
  Sessions and the login: \<^verbatim>\<open>user.py\<close> and \<^verbatim>\<open>routers/auth.py\<close>. A session is a dictionary in a signed
  cookie, so its entries are those that this code put there. Random texts (the state of a login,
  a generated password) and the time are arguments.
\<close>

section \<open>State\<close>

type_synonym session = "string \<Rightarrow> json option"

record web_state =
  wb_session :: session
  wb_app :: app_state
  wb_created :: "string list"
  wb_registered :: bool
  wb_jwks :: "json option"

record oidc_app =
  oa_app :: app
  oa_config :: oidc_config
  oa_idp :: idp
  oa_check_password :: "string \<Rightarrow> string \<Rightarrow> bool"

datatype web_response = Redirect string | JsonResponse nat json

definition on_app :: "('a, app_state) action \<Rightarrow> ('a, web_state) action" where
  "on_app m s = (case m (wb_app s) of (r, a) \<Rightarrow> (r, s\<lparr>wb_app := a\<rparr>))"

definition session_get :: "session \<Rightarrow> string \<Rightarrow> json" where
  "session_get session key = (case session key of Some v \<Rightarrow> v | None \<Rightarrow> JNull)"

definition on_session :: "(session \<Rightarrow> session) \<Rightarrow> (unit, web_state) action" where
  "on_session f s = (Inr (), s\<lparr>wb_session := f (wb_session s)\<rparr>)"

definition put_session :: "string \<Rightarrow> json \<Rightarrow> (unit, web_state) action" where
  "put_session key v = on_session (\<lambda>session. session(key \<mapsto> v))"

definition pop_session :: "string \<Rightarrow> (unit, web_state) action" where
  "pop_session key = on_session (\<lambda>session. session(key := None))"

definition web_store :: "oidc_app \<Rightarrow> store_op \<Rightarrow> (unit, web_state) action" where
  "web_store oa op = on_app (store_do (oa_app oa) op)"

definition web_read :: "(db \<Rightarrow> 'a result) \<Rightarrow> ('a, web_state) action" where
  "web_read f = on_app (read_db f)"

text \<open>\<^verbatim>\<open>try: ... except Exception: log\<close>\<close>

definition non_fatal :: "(unit, 's) action \<Rightarrow> (unit, 's) action" where
  "non_fatal m = act_except m (act_return ())"

text \<open>An audit event without a resource has empty texts for it.\<close>

definition session_event :: "oidc_app \<Rightarrow> string \<Rightarrow> json \<Rightarrow> (string \<times> json) list \<Rightarrow> (unit, web_state) action" where
  "session_event oa event actor detail =
     on_app (emit_audit_event (oa_app oa) event
       (Some (py_str (sv_tracking (ap_server (oa_app oa))) actor)) '''' '''' detail)"

section \<open>Users (user.py)\<close>

text \<open>\<open>generate_token\<close> draws letters and digits; the draw is the argument \<open>draw\<close>, one index each.\<close>

definition token_alphabet :: string where
  "token_alphabet = ''abcdefghijklmnopqrstuvwxyzABCDEFGHIJKLMNOPQRSTUVWXYZ0123456789''"

definition generate_token :: "(nat \<Rightarrow> nat) \<Rightarrow> string" where
  "generate_token draw = map (\<lambda>i. token_alphabet ! (draw i mod length token_alphabet)) [0..<24]"

definition has_user :: "db \<Rightarrow> string \<Rightarrow> bool" where
  "has_user db username = user_exist db username"

text \<open>Whether the user was created. An account that exists is made what the arguments say.\<close>

definition create_user :: "app \<Rightarrow> string \<Rightarrow> string \<Rightarrow> string \<Rightarrow> bool \<Rightarrow> bool \<Rightarrow> (bool, app_state) action" where
  "create_user ap password username display_name is_admin is_service_account =
     (\<lambda>s. case act_bind (read_db (\<lambda>db. user_get_profile db username)) (\<lambda>_.
                store_do ap (AccountOp (UpdateUser username None None (Some is_admin) (Some is_service_account)))) s of
            (Inr _, s') \<Rightarrow> (Inr False, s')
          | (Inl (MlflowException _), s') \<Rightarrow>
              act_map (\<lambda>_. True)
                (store_do ap (AccountOp (CreateUser username password display_name is_admin is_service_account))) s'
          | (Inl e, s') \<Rightarrow> (Inl e, s'))"

definition populate_groups :: "app \<Rightarrow> string list \<Rightarrow> (unit, app_state) action" where
  "populate_groups ap group_names = store_do ap (AccountOp (PopulateGroups group_names))"

definition update_user :: "app \<Rightarrow> string \<Rightarrow> string list \<Rightarrow> (unit, app_state) action" where
  "update_user ap username group_names = store_do ap (AccountOp (SetUserGroups username group_names))"

definition update_user_displayname :: "app \<Rightarrow> string \<Rightarrow> string \<Rightarrow> (unit, app_state) action" where
  "update_user_displayname ap username display_name = store_do ap (AccountOp (SetDisplayname username display_name))"

definition update_quota_email :: "app \<Rightarrow> string \<Rightarrow> string \<Rightarrow> (unit, app_state) action" where
  "update_quota_email ap username email = store_do ap (QuotaOp (UpdateQuotaEmail username (Some email)))"

definition rename_user :: "app \<Rightarrow> string \<Rightarrow> string \<Rightarrow> (unit, app_state) action" where
  "rename_user ap old_username new_username = store_do ap (AccountOp (RenameUser old_username new_username))"

section \<open>The expiry of a session\<close>

text \<open>\<^verbatim>\<open>isinstance(v, (int, float))\<close>, which holds for \<^verbatim>\<open>True\<close> and \<^verbatim>\<open>False\<close> too.\<close>

definition number_of :: "json \<Rightarrow> rat option" where
  "number_of v = (case v of JNumber n \<Rightarrow> Some n | JBool b \<Rightarrow> Some (if b then 1 else 0) | _ \<Rightarrow> None)"

definition positive :: "json \<Rightarrow> rat option" where
  "positive v = (case number_of v of Some n \<Rightarrow> if 0 < n then Some n else None | None \<Rightarrow> None)"

definition extract_session_expiry :: "rat \<Rightarrow> dict \<Rightarrow> int option result" where
  "extract_session_expiry now token_response =
     (case positive (dict_get token_response ''expires_at'') of
        Some n \<Rightarrow> Inr (Some \<lfloor>n\<rfloor>)
      | None \<Rightarrow>
          bind_result (as_dict (or_empty (Some (dict_get token_response ''userinfo'')))) (\<lambda>userinfo.
          case positive (dict_get userinfo ''exp'') of
            Some n \<Rightarrow> Inr (Some \<lfloor>n\<rfloor>)
          | None \<Rightarrow>
              (case positive (dict_get token_response ''expires_in'') of
                 Some n \<Rightarrow> Inr (Some (\<lfloor>now\<rfloor> + \<lfloor>n\<rfloor>))
               | None \<Rightarrow> Inr None)))"

definition persist_session_auth :: "oidc_config \<Rightarrow> rat \<Rightarrow> dict \<Rightarrow> (unit, web_state) action" where
  "persist_session_auth cfg now token_response =
     act_bind (act_lift (extract_session_expiry now token_response)) (\<lambda>expiry.
     act_bind (case expiry of
         Some t \<Rightarrow> put_session ''expires_at'' (json_int t)
       | None \<Rightarrow> pop_session ''expires_at'') (\<lambda>_.
     if OIDC_USE_REFRESH_TOKEN cfg
     then act_when (truthy (dict_get token_response ''refresh_token''))
            (put_session ''refresh_token'' (dict_get token_response ''refresh_token''))
     else pop_session ''refresh_token''))"

definition refresh_session_with_idp :: "oidc_app \<Rightarrow> rat \<Rightarrow> (bool, web_state) action" where
  "refresh_session_with_idp oa now s =
     (if \<not> OIDC_USE_REFRESH_TOKEN (oa_config oa) then (Inr False, s)
      else let refresh_token = session_get (wb_session s) ''refresh_token'' in
        if \<not> truthy refresh_token then (Inr False, s)
        else case idp_refresh (oa_idp oa) of
          None \<Rightarrow> (Inr False, s)
        | Some fetch \<Rightarrow>
            (case fetch (py_str (sv_tracking (ap_server (oa_app oa))) refresh_token) of
               Inl _ \<Rightarrow> (Inr False, s)
             | Inr new_token \<Rightarrow>
                 if new_token = [] then (Inr False, s)
                 else act_map (\<lambda>_. True) (persist_session_auth (oa_config oa) now new_token) s))"

section \<open>Where to go after the login\<close>

definition sanitize_next :: "string option \<Rightarrow> string option" where
  "sanitize_next v =
     (case v of
        Some s \<Rightarrow>
          if s \<noteq> '''' \<and> starts_with ''/'' s \<and> \<not> starts_with ''//'' s \<and>
             char_of (10 :: nat) \<notin> set s \<and> char_of (13 :: nat) \<notin> set s
          then Some s else None
      | None \<Rightarrow> None)"

text \<open>\<^verbatim>\<open>urllib.parse.quote_plus\<close>, and \<^verbatim>\<open>urlencode\<close> of one key with a list of values.\<close>

definition quote_plus :: "string \<Rightarrow> string" where
  "quote_plus s = concat (map (\<lambda>c. if c = CHR '' '' then ''+'' else quote [c]) s)"

definition UI_ROUTER_PREFIX :: string where
  "UI_ROUTER_PREFIX = ''/oidc/ui''"

definition build_ui_url :: "'a web_request_scheme \<Rightarrow> string \<Rightarrow> string list \<Rightarrow> string" where
  "build_ui_url rq path errors =
     rstrip_slash (wr_base_url rq) @ UI_ROUTER_PREFIX @ path @
     (if errors = [] then '''' else ''?'' @ join_with ''&'' (map (\<lambda>e. ''error='' @ quote_plus e) errors))"

definition html_escape :: "string \<Rightarrow> string" where
  "html_escape s = concat (map (\<lambda>c.
     if c = CHR ''&'' then ''&amp;'' else if c = CHR ''<'' then ''&lt;'' else if c = CHR ''>'' then ''&gt;''
     else if c = CHR 0x22 then ''&quot;'' else if c = CHR 0x27 then ''&#x27;'' else [c]) s)"

section \<open>The exchange of the code\<close>

text \<open>Two attempts; any exception of the first is followed by a refresh of the keys.\<close>

definition authorize_access_token_with_retry :: "idp \<Rightarrow> string \<Rightarrow> dict result" where
  "authorize_access_token_with_retry p code =
     (case idp_exchange p 0 code of
        Inr token \<Rightarrow> Inr token
      | Inl _ \<Rightarrow> idp_exchange p 1 code)"

text \<open>\<^verbatim>\<open>any(g in user_groups for g in names)\<close>, where \<^verbatim>\<open>user_groups\<close> need not be a list.\<close>

definition py_in :: "string \<Rightarrow> json \<Rightarrow> bool result" where
  "py_in g v =
     (case v of
        JArray xs \<Rightarrow> Inr (JString g \<in> set xs)
      | JObject d \<Rightarrow> Inr (g \<in> fst ` set d)
      | JString s \<Rightarrow> Inr (sublist g s)
      | _ \<Rightarrow> Inl OtherError)"

fun any_in :: "string list \<Rightarrow> json \<Rightarrow> bool result" where
  "any_in [] v = Inr False"
| "any_in (g # gs) v = bind_result (py_in g v) (\<lambda>b. if b then Inr True else any_in gs v)"

definition detected_groups :: "oidc_app \<Rightarrow> json \<Rightarrow> dict \<Rightarrow> json result" where
  "detected_groups oa access_token userinfo =
     (case or_text (OIDC_GROUP_DETECTION_PLUGIN (oa_config oa)) None of
        Some plugin \<Rightarrow> idp_user_groups (oa_idp oa) plugin access_token
      | None \<Rightarrow>
          (case map_of userinfo (OIDC_GROUPS_ATTRIBUTE (oa_config oa)) of
             None \<Rightarrow> Inr (JArray [])
           | Some (JString s) \<Rightarrow> Inr (JArray [JString s])
           | Some v \<Rightarrow> Inr v))"

text \<open>The names of groups as the store gets them.\<close>

definition group_texts :: "oidc_app \<Rightarrow> json \<Rightarrow> string list result" where
  "group_texts oa v =
     bind_result (py_iter v) (mapM_result (db_text (sv_tracking (ap_server (oa_app oa)))))"

definition revoke_groups :: "oidc_app \<Rightarrow> string \<Rightarrow> (unit, web_state) action" where
  "revoke_groups oa username =
     act_bind (web_read (\<lambda>db. Inr (has_user db username))) (\<lambda>known.
     act_when known (non_fatal (on_app (update_user (oa_app oa) username []))))"

definition migrate_user :: "oidc_app \<Rightarrow> dict \<Rightarrow> string \<Rightarrow> (unit, web_state) action" where
  "migrate_user oa userinfo username =
     (case (OIDC_USERNAME_FIELD (oa_config oa), dict_get userinfo ''email'') of
        (field # _, JString legacy_email) \<Rightarrow>
          if field = ''email'' then act_return ()
          else
            let legacy_username = py_lower legacy_email in
            if legacy_username = '''' \<or> legacy_username = username then act_return ()
            else
              act_bind (web_read (\<lambda>db. Inr (has_user db legacy_username \<and> \<not> has_user db username))) (\<lambda>ok.
              act_when ok (non_fatal (on_app (rename_user (oa_app oa) legacy_username username))))
      | _ \<Rightarrow> act_return ())"

definition sync_profile :: "oidc_app \<Rightarrow> json \<Rightarrow> string \<Rightarrow> string option \<Rightarrow> (unit, web_state) action" where
  "sync_profile oa user_groups username display_name =
     non_fatal
       (act_bind (act_lift (group_texts oa user_groups)) (\<lambda>groups.
        act_bind (on_app (populate_groups (oa_app oa) groups)) (\<lambda>_.
        act_bind (on_app (update_user (oa_app oa) username groups)) (\<lambda>_.
        case or_text display_name None of
          Some d \<Rightarrow> on_app (update_user_displayname (oa_app oa) username d)
        | None \<Rightarrow> act_return ()))))"

section \<open>Workspaces\<close>

definition detected_workspaces :: "oidc_app \<Rightarrow> json \<Rightarrow> dict \<Rightarrow> json list result" where
  "detected_workspaces oa access_token userinfo =
     (case or_text (OIDC_WORKSPACE_DETECTION_PLUGIN (oa_config oa)) None of
        Some plugin \<Rightarrow>
          (case idp_user_workspaces (oa_idp oa) plugin access_token of
             Inl _ \<Rightarrow> Inr []
           | Inr v \<Rightarrow> py_iter v)
      | None \<Rightarrow>
          (case map_of userinfo (OIDC_WORKSPACE_CLAIM_NAME (oa_config oa)) of
             Some (JString s) \<Rightarrow> Inr [JString s]
           | Some (JArray xs) \<Rightarrow> Inr (map (\<lambda>w. JString (py_str (sv_tracking (ap_server (oa_app oa))) w)) xs)
           | _ \<Rightarrow> Inr []))"

text \<open>A workspace that MLflow does not know is asked for; whether it is made does not matter here.\<close>

definition sync_workspace :: "oidc_app \<Rightarrow> string \<Rightarrow> json \<Rightarrow> (unit, web_state) action" where
  "sync_workspace oa username ws_name =
     (if \<not> truthy ws_name then act_return ()
      else
        act_bind (\<lambda>s. (Inr (),
          case (idp_workspace_exists (oa_idp oa), ws_name) of
            (Some exists, JString w) \<Rightarrow> if exists w then s else s\<lparr>wb_created := wb_created s @ [w]\<rparr>
          | _ \<Rightarrow> s)) (\<lambda>_.
        non_fatal
          (act_bind (act_lift (db_text (sv_tracking (ap_server (oa_app oa))) ws_name)) (\<lambda>w.
           web_store oa (WorkspaceOp (CreateWorkspacePermission w username
             (OIDC_WORKSPACE_DEFAULT_PERMISSION (oa_config oa))))))))"

fun sync_workspaces :: "oidc_app \<Rightarrow> string \<Rightarrow> json list \<Rightarrow> (unit, web_state) action" where
  "sync_workspaces oa username [] = act_return ()"
| "sync_workspaces oa username (w # ws) =
     act_bind (sync_workspace oa username w) (\<lambda>_. sync_workspaces oa username ws)"

definition assign_workspaces :: "oidc_app \<Rightarrow> json \<Rightarrow> dict \<Rightarrow> string \<Rightarrow> (unit, web_state) action" where
  "assign_workspaces oa access_token userinfo username =
     non_fatal
       (act_when (MLFLOW_ENABLE_WORKSPACES (sv_config (ap_server (oa_app oa))))
         (act_bind (act_lift (detected_workspaces oa access_token userinfo))
           (sync_workspaces oa username)))"

definition sync_quota_email :: "oidc_app \<Rightarrow> dict \<Rightarrow> string \<Rightarrow> (unit, web_state) action" where
  "sync_quota_email oa userinfo username =
     (let real_email = dict_get userinfo ''email'' in
      act_when (truthy real_email)
        (non_fatal
          (act_bind (act_lift (db_text (sv_tracking (ap_server (oa_app oa))) real_email)) (\<lambda>e.
           on_app (update_quota_email (oa_app oa) username e)))))"

section \<open>The callback\<close>

text \<open>Whether the user may log in, and then the account. The result is the errors.\<close>

definition sync_account :: "oidc_app \<Rightarrow> string \<Rightarrow> json \<Rightarrow> dict \<Rightarrow> string \<Rightarrow> string option \<Rightarrow>
    (string list, web_state) action" where
  "sync_account oa password access_token userinfo username display_name =
     act_bind (act_lift (detected_groups oa access_token userinfo)) (\<lambda>user_groups.
     act_bind (act_lift (any_in (OIDC_ADMIN_GROUP_NAME (oa_config oa)) user_groups)) (\<lambda>is_admin.
     act_bind (act_lift (if is_admin then Inr True else any_in (OIDC_GROUP_NAME (oa_config oa)) user_groups))
       (\<lambda>allowed.
     if \<not> allowed then
       act_bind (revoke_groups oa username) (\<lambda>_. act_return [''User is not allowed to login''])
     else
       act_bind (migrate_user oa userinfo username) (\<lambda>_.
       act_bind (on_app (create_user (oa_app oa) password username
         (case display_name of Some d \<Rightarrow> d | None \<Rightarrow> []) is_admin False)) (\<lambda>_.
       act_bind (sync_profile oa user_groups username display_name) (\<lambda>_.
       act_bind (assign_workspaces oa access_token userinfo username) (\<lambda>_.
       act_bind (sync_quota_email oa userinfo username) (\<lambda>_. act_return []))))))))"

definition exchange_code :: "oidc_app \<Rightarrow> rat \<Rightarrow> string \<Rightarrow> string \<Rightarrow>
    (string option \<times> string list, web_state) action" where
  "exchange_code oa now password code =
     (if \<not> idp_has_exchange (oa_idp oa)
      then act_return (None, [''OIDC configuration error: OAuth client not properly initialized.''])
      else
        act_bind (act_lift (authorize_access_token_with_retry (oa_idp oa) code)) (\<lambda>token_response.
        if token_response = [] then act_return (None, [''Failed to exchange authorization code''])
        else
          act_bind (act_lift (idp_userinfo (oa_idp oa) token_response)) (\<lambda>userinfo.
          if userinfo = [] then act_return (None, [''No user information received''])
          else
            let (username, username_error) = extract_username (oa_config oa) userinfo;
                (display_name, display_name_error) = extract_display_name (oa_config oa) userinfo username
            in case (username, username_error, display_name_error) of
                 (Some u, None, None) \<Rightarrow>
                   act_bind (act_except
                       (sync_account oa password (dict_get token_response ''access_token'') userinfo u display_name)
                       (act_return [''Failed to update user/groups''])) (\<lambda>errors.
                   if errors \<noteq> [] then act_return (None, errors)
                   else
                     act_bind (persist_session_auth (oa_config oa) now token_response) (\<lambda>_.
                     act_return (Some u, [])))
               | _ \<Rightarrow> act_return (None,
                   (case username_error of Some e \<Rightarrow> [e] | None \<Rightarrow> []) @
                   (case display_name_error of Some e \<Rightarrow> [e] | None \<Rightarrow> [])))))"

definition process_oidc_callback :: "oidc_app \<Rightarrow> rat \<Rightarrow> string \<Rightarrow> 'a web_request_scheme \<Rightarrow>
    (string option \<times> string list, web_state) action" where
  "process_oidc_callback oa now password rq =
     (\<lambda>s.
        case or_text (query_param (http_request.truncate rq) ''error'') None of
          Some _ \<Rightarrow>
            (Inr (None, ''OIDC provider error'' #
               (case or_text (query_param (http_request.truncate rq) ''error_description'') None of
                  Some d \<Rightarrow> [html_escape d] | None \<Rightarrow> [])), s)
        | None \<Rightarrow>
            (let stored_state = session_get (wb_session s) ''oauth_state'' in
             if \<not> truthy stored_state then (Inr (None, [''Missing OAuth state in session'']), s)
             else if (case query_param (http_request.truncate rq) ''state'' of
                        Some st \<Rightarrow> JString st | None \<Rightarrow> JNull) \<noteq> stored_state
             then (Inr (None, [''Invalid state parameter'']), s)
             else
               act_bind (pop_session ''oauth_state'') (\<lambda>_.
               case or_text (query_param (http_request.truncate rq) ''code'') None of
                 None \<Rightarrow> act_return (None, [''No authorization code received''])
               | Some code \<Rightarrow>
                   act_except (exchange_code oa now password code)
                     (act_return (None, [''Failed to process authentication response'']))) s))"

text \<open>\<^verbatim>\<open>except HTTPException: raise\<close> before \<^verbatim>\<open>except Exception\<close>\<close>

definition or_http :: "nat \<Rightarrow> ('a, 's) action \<Rightarrow> ('a, 's) action" where
  "or_http n m =
     (\<lambda>s. case m s of
            (Inl (HTTPException k), s') \<Rightarrow> (Inl (HTTPException k), s')
          | (Inl _, s') \<Rightarrow> (Inl (HTTPException n), s')
          | r \<Rightarrow> r)"

definition check_configured :: "oidc_app \<Rightarrow> (bool, web_state) action" where
  "check_configured oa s =
     (case is_oidc_configured (oa_config oa) (oa_idp oa) (wb_registered s) of
        (ok, registered) \<Rightarrow> (Inr ok, s\<lparr>wb_registered := registered\<rparr>))"

definition landing_page :: "oidc_app \<Rightarrow> 'a web_request_scheme \<Rightarrow> json \<Rightarrow> string" where
  "landing_page oa rq redirect_after_login =
     (if truthy redirect_after_login
      then py_str (sv_tracking (ap_server (oa_app oa))) redirect_after_login
      else if DEFAULT_LANDING_PAGE_IS_PERMISSIONS (oa_config oa) then build_ui_url rq ''/user'' []
      else rstrip_slash (wr_base_url rq))"

definition callback :: "oidc_app \<Rightarrow> rat \<Rightarrow> string \<Rightarrow> 'a web_request_scheme \<Rightarrow> (web_response, web_state) action" where
  "callback oa now password rq =
     or_http 500
       (act_bind (check_configured oa) (\<lambda>ok.
        if \<not> ok then
          act_return (Redirect (build_ui_url rq ''/auth'' [''OIDC authentication not available - configuration error'']))
        else
          act_bind (process_oidc_callback oa now password rq) (\<lambda>(email, errors).
          if errors \<noteq> [] then act_return (Redirect (build_ui_url rq ''/auth'' errors))
          else case or_text email None of
            None \<Rightarrow> act_raise (HTTPException 401)
          | Some email \<Rightarrow>
              act_bind (put_session ''username'' (JString email)) (\<lambda>_.
              act_bind (put_session ''authenticated'' (JBool True)) (\<lambda>_.
              act_bind (session_event oa ''auth.login'' (JString email) [(''method'', JString ''oidc'')]) (\<lambda>_.
              act_bind (\<lambda>s. (Inr (session_get (wb_session s) ''redirect_after_login''), s)) (\<lambda>target.
              act_bind (pop_session ''redirect_after_login'') (\<lambda>_.
              act_return (Redirect (landing_page oa rq target))))))))))"

definition login :: "oidc_app \<Rightarrow> string \<Rightarrow> 'a web_request_scheme \<Rightarrow> (web_response, web_state) action" where
  "login oa oauth_state rq =
     or_http 500
       (act_bind (check_configured oa) (\<lambda>ok.
        if \<not> ok then act_raise (HTTPException 500)
        else
          act_bind (put_session ''oauth_state'' (JString oauth_state)) (\<lambda>_.
          act_bind (case sanitize_next (query_param (http_request.truncate rq) ''next'') of
              Some target \<Rightarrow> put_session ''redirect_after_login'' (JString target)
            | None \<Rightarrow> act_return ()) (\<lambda>_.
          let redirect_url = get_configured_or_dynamic_redirect_uri rq ''/callback'' (OIDC_REDIRECT_URI (oa_config oa))
          in case idp_authorize_url (oa_idp oa) of
               None \<Rightarrow> act_raise (HTTPException 500)
             | Some authorize_redirect \<Rightarrow>
                 act_bind (act_lift (authorize_redirect redirect_url oauth_state)) (\<lambda>url.
                 act_return (Redirect url))))))"

definition logout :: "oidc_app \<Rightarrow> 'a web_request_scheme \<Rightarrow> (web_response, web_state) action" where
  "logout oa rq =
     act_except
       (act_bind (\<lambda>s. (Inr (session_get (wb_session s) ''username''), s)) (\<lambda>username.
           act_bind (on_session (\<lambda>_ _. None)) (\<lambda>_.
           act_bind (act_when (truthy username) (session_event oa ''auth.logout'' username [])) (\<lambda>_.
           let auth_url = build_ui_url rq ''/auth'' [] in
           case idp_metadata (oa_idp oa) of
             None \<Rightarrow> act_return (Redirect auth_url)
           | Some metadata \<Rightarrow>
               let end_session_endpoint = dict_get metadata ''end_session_endpoint'' in
               if truthy end_session_endpoint
               then act_return (Redirect (py_str (sv_tracking (ap_server (oa_app oa))) end_session_endpoint @
                      ''?post_logout_redirect_uri='' @ auth_url))
               else act_return (Redirect auth_url)))))
       (act_return (Redirect (build_ui_url rq ''/auth'' [])))"

definition auth_status :: "oidc_app \<Rightarrow> (web_response, web_state) action" where
  "auth_status oa s =
     (let username = session_get (wb_session s) ''username'' in
      (Inr (JsonResponse 200 (JObject
         [(''authenticated'', JBool (truthy username)), (''username'', username),
          (''provider'', if truthy username then JString (OIDC_PROVIDER_DISPLAY_NAME (oa_config oa)) else JNull)])), s))"

end
