(* ===== verification/AccountRouter.thy ===== *)
theory AccountRouter
  imports Login QuotaPolicy
begin

text \<open>
  The routes for accounts and quotas: \<^verbatim>\<open>routers/users.py\<close> and \<^verbatim>\<open>routers/quota.py\<close>. How Python reads
  and writes dates is a parameter, the draw of a token an argument. Dates with a time zone are
  seconds; one without cannot be compared with the clock.
\<close>

datatype parsed_time = NotATime | Naive int | Aware int

record account_env =
  ae_fromisoformat :: "string \<Rightarrow> parsed_time"
  ae_isoformat :: "int \<Rightarrow> string"

section \<open>Access tokens\<close>

record token_request =
  tr_username :: "string option"
  tr_expiration :: "string option"

definition parse_expiration :: "account_env \<Rightarrow> int \<Rightarrow> string option \<Rightarrow> int option result" where
  "parse_expiration env now expiration =
     (case or_text expiration None of
        None \<Rightarrow> Inr None
      | Some s \<Rightarrow>
          (case ae_fromisoformat env (if ends_with ''Z'' s then butlast s @ ''+00:00'' else s) of
             NotATime \<Rightarrow> Inl (HTTPException 400)
           | Naive _ \<Rightarrow> Inl OtherError
           | Aware t \<Rightarrow>
               if t < now then Inl (HTTPException 400)
               else if t > now + 366 * 86400 then Inl (HTTPException 400)
               else Inr (Some t)))"

definition target_of :: "string \<times> bool \<Rightarrow> token_request option \<Rightarrow> string result" where
  "target_of who token_request =
     (case or_text (Option.bind token_request tr_username) None of
        None \<Rightarrow> Inr (fst who)
      | Some target \<Rightarrow>
          if target \<noteq> fst who \<and> \<not> snd who then Inl (HTTPException 403) else Inr target)"

text \<open>\<open>get_user_profile\<close> raises for an unknown name, so the test for None that follows never holds.\<close>

definition create_access_token :: "app \<Rightarrow> account_env \<Rightarrow> (nat \<Rightarrow> nat) \<Rightarrow> http_request \<Rightarrow> token_request option \<Rightarrow> handler" where
  "create_access_token ap env draw rq token_request =
     act_bind (caller rq) (\<lambda>who.
     or_http 500
       (act_bind (act_lift (target_of who token_request)) (\<lambda>target_username.
        act_bind (act_lift (parse_expiration env (se_now (sv_store (ap_server ap)))
          (Option.bind token_request tr_expiration))) (\<lambda>expiration.
        act_bind (read_db (\<lambda>db. user_get_profile db target_username)) (\<lambda>_.
        let new_token = generate_token draw
        in audited ap (AccountOp (UpdateUser target_username (Some new_token) expiration None None))
             ''user.token_rotate'' (Some (fst who)) ''user'' target_username []
             (200, JObject [(''token'', JString new_token)]))))))"

section \<open>Users\<close>

definition list_users :: "app \<Rightarrow> http_request \<Rightarrow> bool \<Rightarrow> handler" where
  "list_users ap rq service =
     act_bind (act_lift (get_username rq)) (\<lambda>_.
     or_status 500
       (act_bind (read_db (\<lambda>db. Inr (user_list db service False))) (\<lambda>users.
        act_return (200, JArray (map (\<lambda>u. JObject
          [(''username'', JString (u_username (ue_user u))),
           (''display_name'', JString (u_display_name (ue_user u)))]) users)))))"

record user_request =
  ur_username :: string
  ur_display_name :: string
  ur_is_admin :: bool
  ur_is_service_account :: bool

text \<open>An account that exists is changed without a trace in the audit log.\<close>

definition create_new_user :: "app \<Rightarrow> (nat \<Rightarrow> nat) \<Rightarrow> http_request \<Rightarrow> user_request \<Rightarrow> handler" where
  "create_new_user ap draw rq user_request =
     act_bind (check_admin_permission rq) (\<lambda>admin_username.
     or_status 500
       (act_bind (create_user ap (generate_token draw) (ur_username user_request) (ur_display_name user_request)
          (ur_is_admin user_request) (ur_is_service_account user_request)) (\<lambda>status.
        if status then
          act_bind (emit_audit_event ap ''user.create'' (Some admin_username) ''user'' (ur_username user_request)
            [(''is_admin'', JBool (ur_is_admin user_request)),
             (''is_service_account'', JBool (ur_is_service_account user_request))]) (\<lambda>_.
          act_return (201, message_response))
        else act_return (200, message_response))))"

definition delete_user :: "app \<Rightarrow> http_request \<Rightarrow> string \<Rightarrow> handler" where
  "delete_user ap rq username =
     act_bind (check_admin_permission rq) (\<lambda>admin_username.
     or_http 500
       (act_bind (read_db (\<lambda>db. user_get_profile db username)) (\<lambda>_.
        audited ap (AccountOp (DeleteUser username)) ''user.delete'' (Some admin_username) ''user'' username []
          (200, message_response))))"

definition current_user_profile :: "account_env \<Rightarrow> user_entity \<Rightarrow> json" where
  "current_user_profile env e =
     (let user = ue_user e in JObject
       [(''id'', json_int (int (u_id user))), (''username'', JString (u_username user)),
        (''display_name'', JString (u_display_name user)), (''is_admin'', JBool (u_is_admin user)),
        (''is_service_account'', JBool (u_is_service_account user)),
        (''password_expiration'', case u_password_expiration user of
           Some t \<Rightarrow> JString (ae_isoformat env t) | None \<Rightarrow> JNull),
        (''groups'', JArray (map (\<lambda>g. JObject (group_to_json
           \<lparr>go_id = json_int (int (g_id g)), go_group_name = JString (g_name g)\<rparr>)) (ue_groups e)))])"

definition get_current_user_information :: "app \<Rightarrow> account_env \<Rightarrow> http_request \<Rightarrow> handler" where
  "get_current_user_information ap env rq =
     act_bind (act_lift (get_username rq)) (\<lambda>current_username.
     or_status 404
       (act_bind (read_db (\<lambda>db. user_get_profile db current_username)) (\<lambda>user.
        act_return (200, current_user_profile env user))))"

definition get_user_information :: "app \<Rightarrow> account_env \<Rightarrow> http_request \<Rightarrow> string \<Rightarrow> handler" where
  "get_user_information ap env rq username =
     act_bind (check_admin_permission rq) (\<lambda>_.
     or_status 404
       (act_bind (read_db (\<lambda>db. user_get_profile db username)) (\<lambda>user.
        act_return (200, current_user_profile env user))))"

section \<open>Quotas\<close>

text \<open>The dependency of the quota routes: whether the caller is an administrator.\<close>

definition admin_only :: "http_request \<Rightarrow> (unit, app_state) action" where
  "admin_only rq =
     act_bind (read_db (\<lambda>db. get_is_admin db rq)) (\<lambda>is_admin.
     if is_admin then act_return () else act_raise (HTTPException 403))"

definition optional_text :: "string option \<Rightarrow> json" where
  "optional_text v = (case v of Some s \<Rightarrow> JString s | None \<Rightarrow> JNull)"

definition quota_response :: "app \<Rightarrow> account_env \<Rightarrow> user_quota option \<Rightarrow> nat \<Rightarrow> string \<Rightarrow> string \<Rightarrow> json" where
  "quota_response ap env quota user_id username display_name =
     (let config = sv_quota (ap_server ap);
          time = (\<lambda>t. optional_text (map_option (ae_isoformat env) t))
      in JObject
       [(''username'', JString username), (''display_name'', JString display_name),
        (''user_id'', json_int (int user_id)),
        (''quota_bytes'', json_id (effective_quota_bytes config quota)),
        (''soft_cap_fraction'', JNumber (effective_soft_cap_fraction config quota)),
        (''used_bytes'', json_int (case quota of Some q \<Rightarrow> q_used_bytes q | None \<Rightarrow> 0)),
        (''hard_blocked'', JBool (case quota of Some q \<Rightarrow> q_hard_blocked q | None \<Rightarrow> False)),
        (''email'', optional_text (Option.bind quota q_email)),
        (''last_reconciled_at'', time (Option.bind quota q_last_reconciled_at)),
        (''last_notified_at'', time (Option.bind quota q_soft_notified_at))])"

definition from_db_model :: "app \<Rightarrow> account_env \<Rightarrow> user_quota \<Rightarrow> string \<Rightarrow> string \<Rightarrow> json" where
  "from_db_model ap env quota username display_name =
     quota_response ap env (Some quota) (q_user quota) username display_name"

fun quota_list :: "app \<Rightarrow> account_env \<Rightarrow> db \<Rightarrow> user_quota list \<Rightarrow> json list result" where
  "quota_list ap env db [] = Inr []"
| "quota_list ap env db (q # qs) =
     bind_result (get_user_by_id db (q_user q)) (\<lambda>user.
     bind_result (quota_list ap env db qs) (\<lambda>result.
     case user of
       None \<Rightarrow> Inr result
     | Some u \<Rightarrow> Inr (from_db_model ap env q (u_username (ue_user u)) (u_display_name (ue_user u)) # result)))"

definition list_user_quotas :: "app \<Rightarrow> account_env \<Rightarrow> http_request \<Rightarrow> handler" where
  "list_user_quotas ap env rq =
     act_bind (admin_only rq) (\<lambda>_.
     or_status 500
       (act_bind (read_db (\<lambda>db. quota_list ap env db (list_all_quotas db))) (\<lambda>result.
        act_return (200, JArray result))))"

definition get_user_quota :: "app \<Rightarrow> account_env \<Rightarrow> http_request \<Rightarrow> string \<Rightarrow> handler" where
  "get_user_quota ap env rq username =
     act_bind (caller rq) (\<lambda>who.
     if \<not> snd who \<and> fst who \<noteq> username then act_raise (HTTPException 403)
     else
       act_bind (read_db (\<lambda>db. user_get_profile db username)) (\<lambda>_.
       or_http 500
         (act_bind (read_db (\<lambda>db. user_get_profile db username)) (\<lambda>user.
          act_bind (read_db (\<lambda>db. get_quota db username)) (\<lambda>quota.
          act_return (200,
            case quota of
              None \<Rightarrow> quota_response ap env None (u_id (ue_user user)) username (u_display_name (ue_user user))
            | Some q \<Rightarrow> from_db_model ap env q username (u_display_name (ue_user user))))))))"

definition set_user_quota :: "app \<Rightarrow> http_request \<Rightarrow> string \<Rightarrow> int option \<Rightarrow> rat option \<Rightarrow> handler" where
  "set_user_quota ap rq username quota_bytes soft_cap_fraction =
     act_bind (admin_only rq) (\<lambda>_.
     or_http 500
       (act_bind (read_db (\<lambda>db. user_get_profile db username)) (\<lambda>_.
        act_bind (store_do ap (QuotaOp (SetUserQuota username quota_bytes soft_cap_fraction))) (\<lambda>_.
        act_return (200, message_response)))))"

definition delete_user_quota :: "app \<Rightarrow> http_request \<Rightarrow> string \<Rightarrow> handler" where
  "delete_user_quota ap rq username =
     act_bind (admin_only rq) (\<lambda>_.
     or_status 500
       (act_bind (store_do ap (QuotaOp (DeleteUserQuota username))) (\<lambda>_.
        act_return (200, message_response))))"

text \<open>
  The errors are the names of the users whose reconciliation failed, without their texts. A
  reconciliation works on the database, the caches of permissions and what else it measures.
\<close>

definition trigger_reconcile :: "(string \<Rightarrow> ((string \<times> int) list, db \<times> auth_caches \<times> 'c) action) \<Rightarrow> http_request \<Rightarrow>
    app_state \<times> 'c \<Rightarrow> (nat \<times> json) result \<times> app_state \<times> 'c" where
  "trigger_reconcile rec rq =
     act_bind (on_fst (admin_only rq)) (\<lambda>_ (s, c).
     case reconcile_all_quotas rec (st_db (as_store s), st_caches (as_store s), c) of
       (errors, db, caches, c') \<Rightarrow>
         (Inr (if errors \<noteq> [] then (500, JObject [(''errors'', JArray (map JString errors))])
               else (200, message_response)),
          (s\<lparr>as_store := \<lparr>st_db = db, st_caches = caches\<rparr>\<rparr>, c')))"

section \<open>The owner of an experiment\<close>

definition transfer_experiment_ownership :: "app \<Rightarrow> http_request \<Rightarrow> string \<Rightarrow> string \<Rightarrow> handler" where
  "transfer_experiment_ownership ap rq experiment_id new_owner =
     act_bind (caller rq) (\<lambda>who.
     or_http 500
       (act_bind (read_db (\<lambda>db. Inr (get_experiment_owner db experiment_id))) (\<lambda>current_owner.
        if \<not> snd who \<and> Some (fst who) \<noteq> current_owner then act_raise (HTTPException 403)
        else if current_owner = Some new_owner then act_return (200, message_response)
        else
          act_bind (read_db (\<lambda>db. user_get_profile db new_owner)) (\<lambda>_.
          act_bind (case or_text current_owner None of
              Some owner \<Rightarrow>
                act_except
                  (store_do ap (UserPermOp (UpdatePermission Experiment experiment_id owner (perm_name EDIT))))
                  (act_return ())
            | None \<Rightarrow> act_return ()) (\<lambda>_.
          act_bind (act_except
              (store_do ap (UserPermOp (UpdatePermission Experiment experiment_id new_owner (perm_name MANAGE))))
              (store_do ap (UserPermOp (CreatePermission Experiment experiment_id new_owner (perm_name MANAGE)))))
            (\<lambda>_. act_return (200, message_response)))))))"

end
