(* ===== verification/Middleware.thy ===== *)
theory Middleware
  imports Login
begin

text \<open>
  The middleware between the server and the routes (\<^verbatim>\<open>middleware/*.py\<close>), from the outermost in:
  the workspace of a request, its authentication, the headers of a proxy, and the check of the
  routes of MLflow that run outside Flask. \<open>flask_request\<close> is what reaches the hooks.
\<close>

section \<open>Authentication\<close>

definition auth_unprotected_route :: "string \<Rightarrow> bool" where
  "auth_unprotected_route path \<longleftrightarrow>
     list_ex (\<lambda>p. starts_with p path)
       [''/health'', ''/login'', ''/callback'', ''/oidc/static'', ''/metrics'', ''/docs'', ''/redoc'',
        ''/openapi.json'', ''/oidc/ui'', ''/static-files'']"

definition header :: "'a http_request_scheme \<Rightarrow> string \<Rightarrow> string option" where
  "header rq name = map_of (hr_headers rq) name"

text \<open>The name and the password in the header of basic authentication.\<close>

definition basic_credentials :: "string \<Rightarrow> (string \<times> string) option" where
  "basic_credentials auth_header =
     Option.bind (split_once (CHR '' '') auth_header) (\<lambda>(_, encoded).
     Option.bind (b64decode encoded) (\<lambda>bytes.
     Option.bind (utf8_decode bytes) (\<lambda>decoded. split_once (CHR '':'') decoded)))"

definition authenticate_basic_auth :: "oidc_app \<Rightarrow> db \<Rightarrow> string \<Rightarrow> string option" where
  "authenticate_basic_auth oa db auth_header =
     (case basic_credentials auth_header of
        None \<Rightarrow> None
      | Some (username, password) \<Rightarrow>
          if authenticate (oa_check_password oa) (se_now (sv_store (ap_server (oa_app oa)))) db
               (py_lower username) password
          then Some (py_lower username) else None)"

definition authenticate_bearer_token :: "oidc_app \<Rightarrow> string \<Rightarrow> web_state \<Rightarrow> string option \<times> web_state" where
  "authenticate_bearer_token oa auth_header s =
     (case split_once (CHR '' '') auth_header of
        None \<Rightarrow> (None, s)
      | Some (_, token) \<Rightarrow>
          (case validate_token (oa_config oa) (oa_idp oa) token (wb_jwks s) of
             (Inl _, jwks) \<Rightarrow> (None, s\<lparr>wb_jwks := jwks\<rparr>)
           | (Inr payload, jwks) \<Rightarrow>
               (case extract_username (oa_config oa) payload of
                  (_, Some _) \<Rightarrow> (None, s\<lparr>wb_jwks := jwks\<rparr>)
                | (username, None) \<Rightarrow> (or_text username None, s\<lparr>wb_jwks := jwks\<rparr>))))"

definition is_session_expired :: "oidc_config \<Rightarrow> rat \<Rightarrow> session \<Rightarrow> bool" where
  "is_session_expired cfg now session =
     (case number_of (session_get session ''expires_at'') of
        None \<Rightarrow> False
      | Some t \<Rightarrow> t - of_int (max 0 (OIDC_SESSION_EXPIRY_LEEWAY_SECONDS cfg)) \<le> now)"

definition authenticate_session :: "oidc_app \<Rightarrow> rat \<Rightarrow> web_state \<Rightarrow> string option \<times> web_state" where
  "authenticate_session oa now s =
     (let username = session_get (wb_session s) ''username'';
          name = py_str (sv_tracking (ap_server (oa_app oa))) username
      in if \<not> truthy username then (None, s)
         else if is_session_expired (oa_config oa) now (wb_session s) then
           (case refresh_session_with_idp oa now s of
              (Inl _, s') \<Rightarrow> (None, s')
            | (Inr False, s') \<Rightarrow> (None, s'\<lparr>wb_session := (\<lambda>_. None)\<rparr>)
            | (Inr True, s') \<Rightarrow> (Some name, s'))
         else (Some name, s))"

definition authenticate_user :: "oidc_app \<Rightarrow> rat \<Rightarrow> 'a http_request_scheme \<Rightarrow> web_state \<Rightarrow> string option \<times> web_state" where
  "authenticate_user oa now rq s =
     (case or_text (header rq ''authorization'') None of
        Some h \<Rightarrow>
          if starts_with ''Basic '' h
          then (authenticate_basic_auth oa (st_db (as_store (wb_app s))) h, s)
          else if starts_with ''Bearer '' h then authenticate_bearer_token oa h s
          else authenticate_session oa now s
      | None \<Rightarrow> authenticate_session oa now s)"

definition get_user_admin_status :: "db \<Rightarrow> string \<Rightarrow> bool" where
  "get_user_admin_status db username =
     (case user_get_profile db username of Inr user \<Rightarrow> u_is_admin (ue_user user) | Inl _ \<Rightarrow> False)"

definition is_document_request :: "'a http_request_scheme \<Rightarrow> bool" where
  "is_document_request rq =
     (let sec_fetch_dest = py_lower (case header rq ''sec-fetch-dest'' of Some v \<Rightarrow> v | None \<Rightarrow> '''')
      in if sec_fetch_dest \<noteq> '''' then sec_fetch_dest = ''document''
         else sublist ''text/html'' (py_lower (case header rq ''accept'' of Some v \<Rightarrow> v | None \<Rightarrow> '''')))"

definition handle_auth_redirect :: "oidc_config \<Rightarrow> 'a web_request_scheme \<Rightarrow> string" where
  "handle_auth_redirect cfg rq =
     (let base_path = get_base_path (http_request.truncate rq);
          target = hr_path rq @ (if wr_query_string rq = '''' then '''' else ''?'' @ wr_query_string rq)
      in if AUTOMATIC_LOGIN_REDIRECT cfg then base_path @ ''/login?next='' @ quote target
         else base_path @ ''/oidc/ui'')"

text \<open>The request goes on, with the authentication context in its scope, or it is answered.\<close>

datatype 'r outcome = Proceed 'r "auth_context option" | Answer nat | RedirectTo string

definition auth_dispatch :: "oidc_app \<Rightarrow> rat \<Rightarrow> 'a web_request_scheme \<Rightarrow> web_state \<Rightarrow>
    'a web_request_scheme outcome \<times> web_state" where
  "auth_dispatch oa now rq s =
     (let path = hr_path rq in
      if auth_unprotected_route path then (Proceed rq None, s)
      else case authenticate_user oa now rq s of
        (user, s') \<Rightarrow>
          (case or_text user None of
             Some username \<Rightarrow>
               let is_admin = get_user_admin_status (st_db (as_store (wb_app s'))) username;
                   workspace = (if MLFLOW_ENABLE_WORKSPACES (sv_config (ap_server (oa_app oa)))
                                then header rq ''x-mlflow-workspace'' else None)
               in (Proceed (rq\<lparr>hr_state_username := Some username, hr_state_is_admin := is_admin\<rparr>)
                     (Some \<lparr>ac_username = username, ac_is_admin = is_admin, ac_workspace = workspace\<rparr>), s')
           | None \<Rightarrow>
               if starts_with ''/api'' path then (Answer 401, s')
               else if starts_with ''/oidc/trash'' path then (Answer 403, s')
               else if \<not> is_document_request rq then (Answer 401, s')
               else (RedirectTo (handle_auth_redirect (oa_config oa) rq), s')))"

section \<open>The workspace of a request\<close>

text \<open>MLflow resolves the workspace of a path and a header; an error is answered with its status.\<close>

definition workspace_dispatch :: "oidc_app \<Rightarrow> (string \<Rightarrow> string option \<Rightarrow> nat + string option) \<Rightarrow>
    'a web_request_scheme \<Rightarrow> nat + 'a web_request_scheme" where
  "workspace_dispatch oa resolve rq =
     (if \<not> MLFLOW_ENABLE_WORKSPACES (sv_config (ap_server (oa_app oa))) then Inr rq
      else case resolve (hr_path rq) (header rq ''x-mlflow-workspace'') of
        Inl status \<Rightarrow> Inl status
      | Inr workspace \<Rightarrow> Inr (rq\<lparr>hr_workspace := workspace\<rparr>))"

section \<open>The headers of a proxy\<close>

text \<open>
  Networks and addresses are those of Python's \<^verbatim>\<open>ipaddress\<close>: \<open>px_network\<close> reads a network
  as the test of its addresses, \<open>px_address\<close> says whether a text is an address.
\<close>

record proxy_env =
  px_network :: "string \<Rightarrow> (string \<Rightarrow> bool) option"
  px_address :: "string \<Rightarrow> bool"
  px_trusted :: "string list"

definition parse_trusted_proxies :: "proxy_env \<Rightarrow> (string \<Rightarrow> bool) list" where
  "parse_trusted_proxies px =
     List.map_filter (px_network px) (filter (\<lambda>c. c \<noteq> '''') (map py_strip (px_trusted px)))"

definition is_trusted_proxy :: "proxy_env \<Rightarrow> string option \<Rightarrow> bool" where
  "is_trusted_proxy px client =
     (let networks = parse_trusted_proxies px in
      if networks = [] then True
      else case client of
        None \<Rightarrow> False
      | Some host \<Rightarrow> px_address px host \<and> list_ex (\<lambda>net. net host) networks)"

definition get_forwarded_port :: "'a http_request_scheme \<Rightarrow> int option" where
  "get_forwarded_port rq =
     (case or_text (header rq ''x-forwarded-port'') None of Some p \<Rightarrow> py_int p | None \<Rightarrow> None)"

definition get_forwarded_prefix :: "'a http_request_scheme \<Rightarrow> string" where
  "get_forwarded_prefix rq =
     (let prefix_text = (case header rq ''x-forwarded-prefix'' of Some p \<Rightarrow> p | None \<Rightarrow> '''')
      in rstrip_slash (if prefix_text \<noteq> '''' \<and> \<not> starts_with ''/'' prefix_text
           then CHR ''/'' # prefix_text else prefix_text))"

definition show_int :: "int \<Rightarrow> string" where
  "show_int i = (if i < 0 then CHR ''-'' # show_nat (nat (- i)) else show_nat (nat i))"

text \<open>The URL of a request is made of its scheme and its host header.\<close>

definition proxy_dispatch :: "proxy_env \<Rightarrow> string option \<Rightarrow> 'a web_request_scheme \<Rightarrow> 'a web_request_scheme" where
  "proxy_dispatch px client rq =
     (if \<not> is_trusted_proxy px client then rq
      else
        let proto = or_text (header rq ''x-forwarded-proto'') None;
            host = or_text (header rq ''x-forwarded-host'') None;
            port = get_forwarded_port rq;
            prefix_text = get_forwarded_prefix rq;
            netloc = map_option (\<lambda>h.
              case port of
                Some p \<Rightarrow> if p \<noteq> 0 \<and> p \<noteq> 80 \<and> p \<noteq> 443 then h @ '':'' @ show_int p else h
              | None \<Rightarrow> h) host;
            rq = (case proto of Some p \<Rightarrow> rq\<lparr>wr_scheme := p\<rparr> | None \<Rightarrow> rq);
            rq = (case netloc of
                    Some n \<Rightarrow> rq\<lparr>wr_netloc := n,
                      hr_headers := map (\<lambda>(k, v). if k = ''host'' then (k, n) else (k, v)) (hr_headers rq)\<rparr>
                  | None \<Rightarrow> rq)
        in if prefix_text \<noteq> '''' then rq\<lparr>hr_root_path := prefix_text\<rparr> else rq)"

section \<open>The routes of MLflow outside Flask\<close>

definition ROUTES_NEEDING_BODY :: "string list" where
  "ROUTES_NEEDING_BODY =
     [''/gateway/mlflow/v1/chat/completions'', ''/gateway/openai/v1/chat/completions'',
      ''/gateway/openai/v1/embeddings'', ''/gateway/openai/v1/responses'', ''/gateway/anthropic/v1/messages'']"

text \<open>A pattern of the form \<^verbatim>\<open>^front([^...]+)back$\<close>, which a trailing newline does not spoil.\<close>

definition match_between :: "string \<Rightarrow> (char \<Rightarrow> bool) \<Rightarrow> string \<Rightarrow> string \<Rightarrow> string option" where
  "match_between front ok back path =
     (if starts_with front path then
        let rest = drop (length front) path; name = takeWhile ok rest; tail = dropWhile ok rest
        in if name \<noteq> [] \<and> (tail = back \<or> tail = back @ [char_of (10 :: nat)]) then Some name else None
      else None)"

definition extract_gateway_endpoint_name :: "string \<Rightarrow> json option \<Rightarrow> json result" where
  "extract_gateway_endpoint_name path body =
     (case match_between ''/gateway/'' (\<lambda>c. c \<noteq> CHR ''/'') ''/mlflow/invocations'' path of
        Some name \<Rightarrow> Inr (JString name)
      | None \<Rightarrow>
          if path \<in> set ROUTES_NEEDING_BODY then
            (case body of
               Some b \<Rightarrow> if truthy b then py_get b ''model'' else Inr JNull
             | None \<Rightarrow> Inr JNull)
          else
            let segment = (\<lambda>c. c \<noteq> CHR ''/'' \<and> c \<noteq> CHR '':'') in
            case match_between ''/gateway/gemini/v1beta/models/'' segment '':generateContent'' path of
              Some name \<Rightarrow> Inr (JString name)
            | None \<Rightarrow>
                (case match_between ''/gateway/gemini/v1beta/models/'' segment '':streamGenerateContent'' path of
                   Some name \<Rightarrow> Inr (JString name)
                 | None \<Rightarrow> Inr JNull))"

definition gateway_validator :: "app \<Rightarrow> 'a http_request_scheme \<Rightarrow> string \<Rightarrow> (bool, app_state) action" where
  "gateway_validator ap rq username =
     (let path = hr_path rq in
      if path \<in> set ROUTES_NEEDING_BODY \<and> hr_json rq = None then act_return False
      else
        act_bind (act_lift (extract_gateway_endpoint_name path (hr_json rq))) (\<lambda>endpoint_name.
        if endpoint_name = JNull then act_return False
        else
          act_bind (act_lift (db_text (sv_tracking (ap_server ap)) endpoint_name)) (\<lambda>name.
          on_store_state (with_caches (\<lambda>db. can_use_gateway_endpoint (sv_config (ap_server ap))
            (sv_outside (ap_server ap)) db None name username)))))"

definition otel_validator :: "app \<Rightarrow> 'a http_request_scheme \<Rightarrow> string \<Rightarrow> (bool, app_state) action" where
  "otel_validator ap rq username =
     (case or_text (header rq ''x-mlflow-experiment-id'') None of
        None \<Rightarrow> act_return False
      | Some experiment_id \<Rightarrow>
          on_store_state (with_caches (\<lambda>db. capability can_update (effective_experiment_permission
            (sv_config (ap_server ap)) (sv_outside (ap_server ap)) db None experiment_id username))))"

definition find_fastapi_validator ::
    "app \<Rightarrow> 'a http_request_scheme \<Rightarrow> (string \<Rightarrow> (bool, app_state) action) option" where
  "find_fastapi_validator ap rq =
     (let path = hr_path rq in
      if starts_with ''/gateway/'' path then Some (gateway_validator ap rq)
      else if starts_with ''/v1/traces'' path then Some (otel_validator ap rq)
      else if starts_with ''/ajax-api/3.0/jobs'' path then Some (\<lambda>_. act_return True)
      else if starts_with ''/ajax-api/3.0/mlflow/assistant'' path then Some (\<lambda>_. act_return True)
      else None)"

text \<open>The status of the answer, or \<open>None\<close> when the request goes on.\<close>

definition fastapi_permission_middleware :: "app \<Rightarrow> 'a http_request_scheme \<Rightarrow> (nat option, app_state) action" where
  "fastapi_permission_middleware ap rq =
     (case find_fastapi_validator ap rq of
        None \<Rightarrow> act_return None
      | Some validator \<Rightarrow>
          (case or_text (hr_state_username rq) None of
             None \<Rightarrow> act_return (Some 401)
           | Some username \<Rightarrow>
               if hr_state_is_admin rq then act_return None
               else act_except
                 (act_map (\<lambda>ok. if ok then None else Some 403) (validator username))
                 (act_return (Some 403))))"

section \<open>Into Flask\<close>

text \<open>\<open>AuthInjectingWSGIApp\<close>: Flask's request, as its path, parameters and body make it, gets the
  authentication context of the scope.\<close>

definition flask_request :: "auth_context option \<Rightarrow> request \<Rightarrow> request" where
  "flask_request ctx frq = frq\<lparr>rq_auth := ctx\<rparr>"

end
