(* ===== verification/SessionSystem.thy ===== *)
theory SessionSystem
  imports Middleware RouteProperties "HOL-Library.Sublist"
begin

text \<open>
  Sessions as a state machine: logins, callbacks, logouts and requests of one browser, between
  which anything may happen to the database. What a session may hold, and how a name gets
  into it.
\<close>

section \<open>What actions keep\<close>

lemma keeps_simple [keeps_intros]:
  "keeps I (act_return x)" "keeps I (act_raise e)" "keeps I (act_lift r)" "keeps I (act_read f)"
  by (simp_all add: keeps_def act_lift_def)

lemma keeps_when [keeps_intros]: "(b \<Longrightarrow> keeps I m) \<Longrightarrow> keeps I (act_when b m)"
  by (simp add: act_when_def keeps_simple)

lemma keeps_map [keeps_intros]: "keeps I m \<Longrightarrow> keeps I (act_map f m)"
  unfolding act_map_def by (intro keeps_bind keeps_simple)

lemma keeps_except [keeps_intros]:
  assumes "keeps I m" and "keeps I h"
  shows "keeps I (act_except m h)"
  unfolding keeps_def
proof (intro allI impI)
  fix s assume "I s"
  obtain r s1 where m: "m s = (r, s1)" by force
  from keepsD [OF assms(1) \<open>I s\<close> m] have "I s1" .
  then show "I (snd (act_except m h s))" using m assms(2) by (cases r) (simp_all add: act_except_def keeps_def)
qed

lemma keeps_non_fatal [keeps_intros]: "keeps I m \<Longrightarrow> keeps I (non_fatal m)"
  unfolding non_fatal_def by (intro keeps_except keeps_simple)

lemma keeps_or_http [keeps_intros]:
  assumes "keeps I m" shows "keeps I (or_http n m)"
  unfolding keeps_def
proof (intro allI impI)
  fix s assume "I s"
  obtain r s1 where m: "m s = (r, s1)" by force
  from keepsD [OF assms \<open>I s\<close> m] have "I s1" .
  then show "I (snd (or_http n m s))" using m by (auto simp: or_http_def split: sum.splits exn.splits)
qed

lemma keeps_cond [keeps_intros]:
  "(b \<Longrightarrow> keeps I m) \<Longrightarrow> (\<not> b \<Longrightarrow> keeps I n) \<Longrightarrow> keeps I (if b then m else n)"
  "(x = None \<Longrightarrow> keeps I m) \<Longrightarrow> (\<And>y. x = Some y \<Longrightarrow> keeps I (f y)) \<Longrightarrow>
    keeps I (case x of None \<Rightarrow> m | Some y \<Rightarrow> f y)"
  "(\<And>a b. p = (a, b) \<Longrightarrow> keeps I (g a b)) \<Longrightarrow> keeps I (case p of (a, b) \<Rightarrow> g a b)"
  by (auto split: option.split prod.split)

lemma keeps_let [keeps_intros]: "keeps I (f x) \<Longrightarrow> keeps I (Let x f)"
  by simp

text \<open>Parts of the state that an action does not touch, or only by the actions it runs.\<close>

definition on_part :: "(web_state \<Rightarrow> 'a) \<Rightarrow> ('a \<Rightarrow> bool) \<Rightarrow> web_state \<Rightarrow> bool" where
  "on_part part P s = P (part s)"

lemma keeps_on_app [keeps_intros]:
  "keeps P m \<Longrightarrow> keeps (on_part wb_app P) (on_app m)"
  "keeps (on_part wb_session Q) (on_app m)"
  by (auto simp: keeps_def on_part_def on_app_def split: prod.split)

lemma keeps_on_session [keeps_intros]:
  "keeps (on_part wb_app P) (on_session f)"
  "(\<And>x. Q x \<Longrightarrow> Q (f x)) \<Longrightarrow> keeps (on_part wb_session Q) (on_session f)"
  by (auto simp: keeps_def on_part_def on_session_def)

lemma keeps_put_session [keeps_intros]:
  "keeps (on_part wb_app P) (put_session k v)"
  "(\<And>x. Q x \<Longrightarrow> Q (x(k \<mapsto> v))) \<Longrightarrow> keeps (on_part wb_session Q) (put_session k v)"
  by (auto simp: put_session_def intro: keeps_intros)

lemma keeps_pop_session [keeps_intros]:
  "keeps (on_part wb_app P) (pop_session k)"
  "(\<And>x. Q x \<Longrightarrow> Q (x(k := None))) \<Longrightarrow> keeps (on_part wb_session Q) (pop_session k)"
  by (auto simp: pop_session_def intro: keeps_intros)

lemma keeps_web_read [keeps_intros]: "keeps (on_part wb_app P) (web_read f)" "keeps (on_part wb_session Q) (web_read f)"
  unfolding web_read_def by (rule keeps_on_app, simp add: read_db_def keeps_simple)
    (rule keeps_on_app)

lemma keeps_check_configured [keeps_intros]:
  "keeps (on_part wb_app P) (check_configured oa)" "keeps (on_part wb_session Q) (check_configured oa)"
  by (auto simp: keeps_def on_part_def check_configured_def split: prod.split)

lemma keeps_look [keeps_intros]: "keeps I (\<lambda>s. (Inr (f s), s))"
  by (simp add: keeps_def)

section \<open>The database behind the login\<close>

text \<open>A condition on the database that the store's operations keep.\<close>

definition db_part :: "(db \<Rightarrow> bool) \<Rightarrow> app_state \<Rightarrow> bool" where
  "db_part P a = P (st_db (as_store a))"

lemma keeps_store_do:
  assumes "keeps P (store_run (sv_store (ap_server ap)) op)"
  shows "keeps (db_part P) (store_do ap op)"
  unfolding keeps_def
proof (intro allI impI)
  fix a assume a: "db_part P a"
  obtain r d where run: "store_run (sv_store (ap_server ap)) op (st_db (as_store a)) = (r, d)" by force
  have "P d" using keepsD [OF assms _ run] a by (simp add: db_part_def)
  then show "db_part P (snd (store_do ap op a))" using run
    by (cases r) (auto simp: db_part_def store_do_def on_store_state_def store_call_def on_db_def
        wrap_with_cache_flush_def act_bind_def)
qed

lemma keeps_emit [keeps_intros]: "keeps (db_part P) (emit_audit_event ap ev ac rt ri d)"
  by (simp add: keeps_def db_part_def emit_audit_event_def)

lemma keeps_read_db [keeps_intros]: "keeps I (read_db f)"
  by (simp add: keeps_def read_db_def)

lemma keeps_create_user [keeps_intros]:
  assumes "keeps (db_part P) (store_do ap (AccountOp (UpdateUser n None None (Some a) (Some s))))"
    and "keeps (db_part P) (store_do ap (AccountOp (CreateUser n pw d a s)))"
  shows "keeps (db_part P) (create_user ap pw n d a s)"
  unfolding keeps_def
proof (intro allI impI)
  fix st assume st: "db_part P st"
  let ?m = "act_bind (read_db (\<lambda>db. user_get_profile db n))
      (\<lambda>_. store_do ap (AccountOp (UpdateUser n None None (Some a) (Some s))))"
  obtain r st1 where m: "?m st = (r, st1)" by force
  have "keeps (db_part P) ?m" by (intro keeps_bind keeps_read_db assms(1))
  from keepsD [OF this st m] have "db_part P st1" .
  moreover from this keeps_map [OF assms(2), of "\<lambda>_. True"] have
    "db_part P (snd (act_map (\<lambda>_. True) (store_do ap (AccountOp (CreateUser n pw d a s))) st1))"
    by (simp add: keeps_def)
  ultimately show "db_part P (snd (create_user ap pw n d a s st))"
    using m by (auto simp: create_user_def split: sum.splits exn.splits)
qed

section \<open>What a session holds\<close>

definition local_path :: "string \<Rightarrow> bool" where
  "local_path s \<longleftrightarrow>
     starts_with ''/'' s \<and> \<not> starts_with ''//'' s \<and> char_of (10 :: nat) \<notin> set s \<and> char_of (13 :: nat) \<notin> set s"

definition user_name :: "string \<Rightarrow> bool" where
  "user_name u \<longleftrightarrow> \<not> list_all py_space u \<and> py_lower u = u"

definition entry_ok :: "oidc_config \<Rightarrow> string \<Rightarrow> json \<Rightarrow> bool" where
  "entry_ok cfg key v \<longleftrightarrow>
     key = ''username'' \<and> (case v of JString u \<Rightarrow> user_name u | _ \<Rightarrow> False) \<or>
     key = ''authenticated'' \<and> v = JBool True \<or>
     key = ''expires_at'' \<and> (case v of JNumber n \<Rightarrow> n = of_int \<lfloor>n\<rfloor> | _ \<Rightarrow> False) \<or>
     key = ''refresh_token'' \<and> OIDC_USE_REFRESH_TOKEN cfg \<and> truthy v \<or>
     key = ''redirect_after_login'' \<and> (case v of JString p \<Rightarrow> local_path p | _ \<Rightarrow> False) \<or>
     key = ''oauth_state'' \<and> (case v of JString _ \<Rightarrow> True | _ \<Rightarrow> False)"

definition session_ok :: "oidc_config \<Rightarrow> session \<Rightarrow> bool" where
  "session_ok cfg session \<longleftrightarrow>
     (\<forall>key v. session key = Some v \<longrightarrow> entry_ok cfg key v) \<and>
     (session ''username'' = None \<longleftrightarrow> session ''authenticated'' = None)"

lemma session_ok_empty [simp]: "session_ok cfg (\<lambda>_. None)"
  by (simp add: session_ok_def)

lemma session_ok_put:
  "session_ok cfg session \<Longrightarrow> entry_ok cfg key v \<Longrightarrow> key \<noteq> ''username'' \<Longrightarrow> key \<noteq> ''authenticated'' \<Longrightarrow>
    session_ok cfg (session(key \<mapsto> v))"
  by (auto simp: session_ok_def)

lemma session_ok_pop:
  "session_ok cfg session \<Longrightarrow> key \<noteq> ''username'' \<Longrightarrow> key \<noteq> ''authenticated'' \<Longrightarrow>
    session_ok cfg (session(key := None))"
  by (auto simp: session_ok_def)

lemma entries_two:
  "(\<forall>key v. m key = Some v \<longrightarrow> E key v) \<Longrightarrow> E a x \<Longrightarrow> E b y \<Longrightarrow>
    \<forall>key v. (m(a \<mapsto> x, b \<mapsto> y)) key = Some v \<longrightarrow> E key v"
  by auto

lemma session_ok_login:
  assumes "session_ok cfg session" and "user_name u"
  shows "session_ok cfg (session(''username'' \<mapsto> JString u, ''authenticated'' \<mapsto> JBool True))"
proof -
  have "entry_ok cfg ''username'' (JString u)" "entry_ok cfg ''authenticated'' (JBool True)"
    using assms(2) by (simp_all add: entry_ok_def)
  then have "\<forall>key v. (session(''username'' \<mapsto> JString u, ''authenticated'' \<mapsto> JBool True)) key = Some v \<longrightarrow>
      entry_ok cfg key v"
    using assms(1) unfolding session_ok_def by (intro entries_two) blast+
  then show ?thesis by (simp add: session_ok_def)
qed

lemma sanitize_next_local: "sanitize_next v = Some s \<Longrightarrow> local_path s"
  by (auto simp: sanitize_next_def local_path_def split: option.splits if_splits)

lemma py_space_lower [simp]: "py_space (lower_char c) = py_space c"
proof -
  have lower: "of_char (lower_char c) = (let n = of_char c :: nat in
      if (65 \<le> n \<and> n \<le> 90) \<or> (192 \<le> n \<and> n \<le> 222 \<and> n \<noteq> 215) then n + 32 else n)"
    by (auto simp: lower_char_def Let_def)
  have "(let n = n in if (65 \<le> n \<and> n \<le> 90) \<or> (192 \<le> n \<and> n \<le> 222 \<and> n \<noteq> 215) then n + 32 else n)
      \<in> set [9, 10, 11, 12, 13, 28, 29, 30, 31, 32, 133, 160] \<longleftrightarrow>
      n \<in> set [9, 10, 11, 12, 13, 28, 29, 30, 31, 32, 133, 160]" for n :: nat
    unfolding Let_def list.set insert_iff empty_iff by presburger
  then show ?thesis unfolding py_space_def lower .
qed

lemma extract_username_name:
  assumes "extract_username cfg payload = (Some u, None)"
  shows "user_name u"
proof (cases rule: extract_username_cases [of cfg payload])
  case (1 v)
  have "list_all py_space (py_lower v) = list_all py_space v" by (simp add: py_lower_def list.pred_map comp_def)
  with 1 assms show ?thesis by (simp add: user_name_def)
next
  case (2 e)
  with assms show ?thesis by simp
qed

section \<open>The database work of a login leaves the session alone\<close>

lemma keeps_session_store [keeps_intros]:
  "keeps (on_part wb_session Q) (web_store oa op)"
  "keeps (on_part wb_session Q) (session_event oa ev actor detail)"
  by (simp_all add: web_store_def session_event_def keeps_on_app)

lemma keeps_session_sync [keeps_intros]:
  "keeps (on_part wb_session Q) (revoke_groups oa username)"
  "keeps (on_part wb_session Q) (sync_profile oa groups username display)"
  "keeps (on_part wb_session Q) (sync_quota_email oa userinfo username)"
  by (simp_all add: revoke_groups_def sync_profile_def sync_quota_email_def Let_def)
    (intro keeps_intros | simp split: option.split)+

lemma keeps_session_migrate [keeps_intros]: "keeps (on_part wb_session Q) (migrate_user oa userinfo username)"
  unfolding migrate_user_def
  by (auto simp: Let_def split: list.split json.split intro!: keeps_intros)

lemma keeps_session_workspace [keeps_intros]: "keeps (on_part wb_session Q) (sync_workspace oa username ws)"
proof -
  have "keeps (on_part wb_session Q) (\<lambda>s. (Inr (), case (idp_workspace_exists (oa_idp oa), ws) of
      (Some exists, JString w) \<Rightarrow> if exists w then s else s\<lparr>wb_created := wb_created s @ [w]\<rparr> | _ \<Rightarrow> s))"
    by (auto simp: keeps_def on_part_def split: option.split json.split)
  then show ?thesis unfolding sync_workspace_def by (intro keeps_intros)
qed

lemma keeps_session_workspaces [keeps_intros]: "keeps (on_part wb_session Q) (sync_workspaces oa username ws)"
  by (induction ws) (auto intro: keeps_intros)

lemma keeps_session_assign [keeps_intros]:
  "keeps (on_part wb_session Q) (assign_workspaces oa access_token userinfo username)"
  unfolding assign_workspaces_def by (intro keeps_intros)

lemma keeps_session_account [keeps_intros]:
  "keeps (on_part wb_session Q) (sync_account oa password access_token userinfo username display)"
  unfolding sync_account_def by (intro keeps_intros)

section \<open>The steps of a session keep it well-formed\<close>

abbreviation "web_ok oa \<equiv> on_part wb_session (session_ok (oa_config oa))"

lemma keeps_web_put:
  "entry_ok (oa_config oa) key v \<Longrightarrow> key \<noteq> ''username'' \<Longrightarrow> key \<noteq> ''authenticated'' \<Longrightarrow> keeps (web_ok oa) (put_session key v)"
  by (intro keeps_intros) (rule session_ok_put)

lemma keeps_web_pop:
  "key \<noteq> ''username'' \<Longrightarrow> key \<noteq> ''authenticated'' \<Longrightarrow> keeps (web_ok oa) (pop_session key)"
  by (intro keeps_intros) (rule session_ok_pop)

lemma keeps_web_persist [keeps_intros]: "keeps (web_ok oa) (persist_session_auth (oa_config oa) now token)"
proof -
  have "entry_ok (oa_config oa) ''expires_at'' (json_int t)" for t by (simp add: entry_ok_def json_int_def)
  moreover have "entry_ok (oa_config oa) ''refresh_token'' v" if "OIDC_USE_REFRESH_TOKEN (oa_config oa)" "truthy v" for v
    using that by (simp add: entry_ok_def)
  ultimately show ?thesis unfolding persist_session_auth_def
    by (intro keeps_intros keeps_web_put keeps_web_pop) auto
qed

lemma keeps_web_exchange [keeps_intros]: "keeps (web_ok oa) (exchange_code oa now password code)"
  unfolding exchange_code_def Let_def
  by (intro keeps_intros)

lemma keeps_web_process [keeps_intros]: "keeps (web_ok oa) (process_oidc_callback oa now password rq)"
proof -
  let ?go = "act_bind (pop_session ''oauth_state'') (\<lambda>_.
       case or_text (query_param (http_request.truncate rq) ''code'') None of
         None \<Rightarrow> act_return (None, [''No authorization code received''])
       | Some code \<Rightarrow> act_except (exchange_code oa now password code)
           (act_return (None, [''Failed to process authentication response''])))"
  have go: "keeps (web_ok oa) ?go" by (intro keeps_intros keeps_web_pop) simp_all
  have "snd (process_oidc_callback oa now password rq s) \<in> {s, snd (?go s)}" for s
    unfolding process_oidc_callback_def Let_def by (simp split: option.split)
  then show ?thesis using go unfolding keeps_def by (metis insert_iff singletonD)
qed

text \<open>The name in the result of a callback is one that a token gave.\<close>

lemma exchange_code_user:
  assumes "exchange_code oa now password code s = (Inr (Some u, errors), s')"
  shows "user_name u"
  using assms extract_username_name
  by (auto simp: exchange_code_def act_bind_def act_return_def act_lift_def Let_def
      split: if_splits sum.splits prod.splits option.splits)

lemma process_user:
  assumes "process_oidc_callback oa now password rq s = (Inr (Some u, errors), s')"
  shows "user_name u"
  using assms
  by (auto simp: process_oidc_callback_def act_bind_def act_except_def Let_def pop_session_def on_session_def
      split: if_splits sum.splits prod.splits option.splits dest: exchange_code_user)

lemma put_two:
  "act_bind (put_session a x) (\<lambda>_. act_bind (put_session b y) k) =
    act_bind (on_session (\<lambda>session. session(a \<mapsto> x, b \<mapsto> y))) k"
  by (simp add: fun_eq_iff act_bind_def put_session_def on_session_def)

lemma keeps_web_login_name:
  "user_name u \<Longrightarrow> keeps (web_ok oa)
    (on_session (\<lambda>session. session(''username'' \<mapsto> JString u, ''authenticated'' \<mapsto> JBool True)))"
  by (intro keeps_intros) (rule session_ok_login)

text \<open>A continuation need only keep the invariant for the results that are possible.\<close>

lemma keeps_bind_result:
  assumes "keeps I m" and "\<And>s x s'. m s = (Inr x, s') \<Longrightarrow> keeps I (f x)"
  shows "keeps I (act_bind m f)"
  unfolding keeps_def
proof (intro allI impI)
  fix s assume "I s"
  obtain r s1 where m: "m s = (r, s1)" by force
  from keepsD [OF assms(1) \<open>I s\<close> m] have "I s1" .
  then show "I (snd (act_bind m f s))" using m assms(2) by (cases r) (auto simp: act_bind_def keeps_def)
qed

lemma keeps_web_callback: "keeps (web_ok oa) (callback oa now password rq)"
  unfolding callback_def
proof (intro keeps_or_http, rule keeps_bind, rule keeps_check_configured, rule keeps_cond(1), rule keeps_simple,
    rule keeps_bind_result, rule keeps_web_process, intro keeps_cond keeps_simple)
  fix s x s' email errors u
  assume "process_oidc_callback oa now password rq s = (Inr x, s')" and "x = (email, errors)" and "or_text email None = Some u"
  then have "user_name u" using process_user by (auto simp: or_text_def split: option.splits if_splits)
  then show "keeps (web_ok oa)
      (act_bind (put_session ''username'' (JString u)) (\<lambda>_.
       act_bind (put_session ''authenticated'' (JBool True)) (\<lambda>_.
       act_bind (session_event oa ''auth.login'' (JString u) [(''method'', JString ''oidc'')]) (\<lambda>_.
       act_bind (\<lambda>s. (Inr (session_get (wb_session s) ''redirect_after_login''), s)) (\<lambda>target.
       act_bind (pop_session ''redirect_after_login'') (\<lambda>_.
       act_return (Redirect (landing_page oa rq target))))))))"
    unfolding put_two by (intro keeps_bind keeps_web_login_name keeps_intros keeps_web_pop) simp_all
qed

lemma keeps_web_login: "keeps (web_ok oa) (login oa oauth_state rq)"
proof -
  have "entry_ok (oa_config oa) ''oauth_state'' (JString oauth_state)" by (simp add: entry_ok_def)
  moreover have "entry_ok (oa_config oa) ''redirect_after_login'' (JString p)" if "sanitize_next v = Some p" for v p
    using sanitize_next_local [OF that] by (simp add: entry_ok_def)
  ultimately show ?thesis unfolding login_def
    by (intro keeps_intros keeps_web_put) auto
qed

lemma keeps_web_logout: "keeps (web_ok oa) (logout oa rq)"
  unfolding logout_def Let_def by (intro keeps_intros session_ok_empty)

section \<open>Requests\<close>

lemma refresh_state:
  "snd (refresh_session_with_idp oa now s) = s \<or>
    (\<exists>token. snd (refresh_session_with_idp oa now s) = snd (persist_session_auth (oa_config oa) now token s))"
  by (auto simp: refresh_session_with_idp_def Let_def act_map_def act_bind_def act_return_def
      split: option.split sum.split prod.split) (metis snd_conv)+

lemma keeps_web_refresh: "keeps (web_ok oa) (refresh_session_with_idp oa now)"
  unfolding keeps_def
proof (intro allI impI)
  fix s assume ok: "web_ok oa s"
  show "web_ok oa (snd (refresh_session_with_idp oa now s))"
    using refresh_state [of oa now s]
  proof (elim disjE exE)
    fix token assume "snd (refresh_session_with_idp oa now s) = snd (persist_session_auth (oa_config oa) now token s)"
    then show ?thesis using keeps_web_persist ok unfolding keeps_def by metis
  qed (simp add: ok)
qed

lemma web_ok_jwks [simp]: "on_part wb_session Q (s\<lparr>wb_jwks := j\<rparr>) = on_part wb_session Q s"
  by (simp add: on_part_def)

lemma authenticate_bearer_session: "wb_session (snd (authenticate_bearer_token oa h s)) = wb_session s"
  by (auto simp: authenticate_bearer_token_def split: option.split prod.split sum.split)

lemma web_ok_authenticate_session:
  assumes "web_ok oa s" shows "web_ok oa (snd (authenticate_session oa now s))"
proof -
  obtain r s1 where r: "refresh_session_with_idp oa now s = (r, s1)" by force
  from keepsD [OF keeps_web_refresh assms r] have "web_ok oa s1" .
  then show ?thesis using assms r
    by (auto simp: authenticate_session_def Let_def on_part_def split: sum.split bool.split)
qed

lemma web_ok_dispatch:
  assumes "web_ok oa s" shows "web_ok oa (snd (auth_dispatch oa now rq s))"
proof -
  have "web_ok oa (snd (authenticate_user oa now rq s))"
    using assms web_ok_authenticate_session [OF assms] authenticate_bearer_session
    by (auto simp: authenticate_user_def on_part_def split: option.split)
  then show ?thesis using assms
    by (auto simp: auth_dispatch_def Let_def split: prod.split option.split)
qed

section \<open>The life of a session\<close>

text \<open>
  The server keeps no sessions: a session is what the signed cookie of a request says, and the response
  sets a cookie with what the handler has left of it. \<open>web_step\<close> is one request of one chain of
  cookies, with \<open>wb_session\<close> for the cookie that the request carries and then for the one that the
  response sets; \<open>web_run\<close> is a chain in which each request carries the cookie that the one before
  set. Between two requests of a chain anything may happen to the rest of the server (\<open>Elsewhere\<close>).
  \<open>cookie_run\<close> below is the whole system, in which any cookie may be presented again.
\<close>

datatype web_event =
    Login string web_request
  | Callback rat string web_request
  | Logout web_request
  | Request rat web_request
  | Elsewhere

inductive web_step :: "oidc_app \<Rightarrow> web_state \<Rightarrow> web_event \<Rightarrow> web_state \<Rightarrow> bool" for oa where
  login: "login oa st rq s = (r, s') \<Longrightarrow> web_step oa s (Login st rq) s'"
| callback: "callback oa now password rq s = (r, s') \<Longrightarrow> web_step oa s (Callback now password rq) s'"
| logout: "logout oa rq s = (r, s') \<Longrightarrow> web_step oa s (Logout rq) s'"
| request: "auth_dispatch oa now rq s = (out, s') \<Longrightarrow> web_step oa s (Request now rq) s'"
| elsewhere: "wb_session s' = wb_session s \<Longrightarrow> web_step oa s Elsewhere s'"

inductive_cases web_stepE: "web_step oa s e s'"

text \<open>A chain of cookies: its events, the last one first, each with the state it happened in.\<close>

inductive web_run :: "oidc_app \<Rightarrow> web_state \<Rightarrow> (web_state \<times> web_event) list \<Rightarrow> web_state \<Rightarrow> bool" for oa s where
  start: "web_run oa s [] s"
| event: "web_run oa s tr s1 \<Longrightarrow> web_step oa s1 e s2 \<Longrightarrow> web_run oa s ((s1, e) # tr) s2"

inductive_cases web_run_ConsE: "web_run oa s (p # tr) s'"

lemma web_step_ok: "web_step oa s e s' \<Longrightarrow> web_ok oa s \<Longrightarrow> web_ok oa s'"
proof (induction rule: web_step.induct)
  case (request now rq s out s')
  then show ?case using web_ok_dispatch [of oa s now rq] by simp
next
  case (elsewhere s' s)
  then show ?case by (simp add: on_part_def)
qed (blast dest: keepsD [OF keeps_web_login] keepsD [OF keeps_web_callback] keepsD [OF keeps_web_logout])+

section \<open>Cookies that are kept\<close>

text \<open>
  What the signature leaves to the client: a request carries any cookie that the server has ever set, or
  none, which is the empty session; the client may keep cookies and present them again, in any order and
  in several browsers at a time. The state of \<open>cookie_step\<close> is the server and the sessions of all cookies
  it has signed.
\<close>

inductive cookie_step :: "oidc_app \<Rightarrow> web_state \<times> session set \<Rightarrow> web_state \<times> web_event \<Rightarrow>
    web_state \<times> session set \<Rightarrow> bool" for oa where
  present: "cookie \<in> cookies \<Longrightarrow> web_step oa (server\<lparr>wb_session := cookie\<rparr>) e server' \<Longrightarrow>
    cookie_step oa (server, cookies) (server\<lparr>wb_session := cookie\<rparr>, e) (server', insert (wb_session server') cookies)"

inductive_cases cookie_stepE: "cookie_step oa s p s'"

inductive cookie_run :: "oidc_app \<Rightarrow> web_state \<Rightarrow> (web_state \<times> web_event) list \<Rightarrow> web_state \<times> session set \<Rightarrow> bool"
  for oa server where
  start: "cookie_run oa server [] (server, {\<lambda>_. None})"
| event: "cookie_run oa server tr s \<Longrightarrow> cookie_step oa s p s' \<Longrightarrow> cookie_run oa server (p # tr) s'"

text \<open>Every cookie is the end of a chain from the empty session, whose requests are among those made.\<close>

definition chain_to :: "oidc_app \<Rightarrow> web_state \<Rightarrow> (web_state \<times> web_event) list \<Rightarrow> session \<Rightarrow>
    (web_state \<times> web_event) list \<Rightarrow> web_state \<Rightarrow> bool" where
  "chain_to oa server requests cookie chain s \<longleftrightarrow>
     web_run oa (server\<lparr>wb_session := (\<lambda>_. None)\<rparr>) chain s \<and> wb_session s = cookie \<and>
     subseq (filter (\<lambda>p. snd p \<noteq> Elsewhere) chain) requests"

lemma cookie_has_chain:
  assumes "cookie_run oa server requests s" and "cookie \<in> snd s"
  shows "\<exists>chain s'. chain_to oa server requests cookie chain s'"
  using assms
proof (induction arbitrary: cookie rule: cookie_run.induct)
  case start
  then have "chain_to oa server [] cookie [] (server\<lparr>wb_session := (\<lambda>_. None)\<rparr>)"
    by (simp add: chain_to_def web_run.start)
  then show ?case by blast
next
  case (event tr s p s')
  from event.hyps(2) obtain srv cookies shown e srv' where
    s: "s = (srv, cookies)" "shown \<in> cookies" "p = (srv\<lparr>wb_session := shown\<rparr>, e)"
    and step: "web_step oa (srv\<lparr>wb_session := shown\<rparr>) e srv'"
    and s': "s' = (srv', insert (wb_session srv') cookies)"
    by (auto elim!: cookie_stepE)
  show ?case
  proof (cases "cookie \<in> cookies")
    case True
    with event.IH s(1) obtain chain s2 where "chain_to oa server tr cookie chain s2" by force
    then have "chain_to oa server (p # tr) cookie chain s2" by (simp add: chain_to_def list_emb_Cons)
    then show ?thesis by blast
  next
    case False
    from event.IH [of shown] s(1,2) obtain chain s2 where chain: "chain_to oa server tr shown chain s2" by auto
    let ?now = "srv\<lparr>wb_session := shown\<rparr>"
    have "web_step oa s2 Elsewhere ?now"
      using chain by (intro web_step.elsewhere) (simp add: chain_to_def)
    with chain step have "web_run oa (server\<lparr>wb_session := (\<lambda>_. None)\<rparr>) ((?now, e) # (s2, Elsewhere) # chain) srv'"
      by (auto simp: chain_to_def intro: web_run.event)
    moreover have "cookie = wb_session srv'" using False event.prems s' by simp
    moreover have "subseq (filter (\<lambda>p. snd p \<noteq> Elsewhere) ((?now, e) # (s2, Elsewhere) # chain)) (p # tr)"
      using chain s(3) by (simp add: chain_to_def list_emb_Cons)
    ultimately have "chain_to oa server (p # tr) cookie ((?now, e) # (s2, Elsewhere) # chain) srv'"
      by (simp add: chain_to_def)
    then show ?thesis by blast
  qed
qed

end
