(* ===== verification/SessionProperties.thy ===== *)
theory SessionProperties
  imports SessionSystem
begin

text \<open>
  How a name gets into a session: what the callback has checked when it logs somebody in, that
  a state is accepted once, and what a login leaves in the database.
\<close>

section \<open>What a callback has checked\<close>

text \<open>The state of the request is the one that the session waits for.\<close>

definition state_matches :: "web_request \<Rightarrow> session \<Rightarrow> string \<Rightarrow> bool" where
  "state_matches rq session st \<longleftrightarrow>
     st \<noteq> '''' \<and> session ''oauth_state'' = Some (JString st) \<and>
     query_param (http_request.truncate rq) ''state'' = Some st"

text \<open>The provider answers the code of the request with a token that names the user, in an allowed group.\<close>

definition allowed_in :: "oidc_config \<Rightarrow> json \<Rightarrow> bool" where
  "allowed_in cfg groups \<longleftrightarrow>
     any_in (OIDC_ADMIN_GROUP_NAME cfg) groups = Inr True \<or> any_in (OIDC_GROUP_NAME cfg) groups = Inr True"

definition names_user :: "oidc_app \<Rightarrow> web_request \<Rightarrow> string \<Rightarrow> dict \<Rightarrow> dict \<Rightarrow> json \<Rightarrow> bool" where
  "names_user oa rq u token userinfo groups \<longleftrightarrow>
     (case or_text (query_param (http_request.truncate rq) ''code'') None of
        None \<Rightarrow> False
      | Some code \<Rightarrow> idp_has_exchange (oa_idp oa) \<and>
          authorize_access_token_with_retry (oa_idp oa) code = Inr token) \<and>
     token \<noteq> [] \<and> idp_userinfo (oa_idp oa) token = Inr userinfo \<and>
     extract_username (oa_config oa) userinfo = (Some u, None) \<and>
     detected_groups oa (dict_get token ''access_token'') userinfo = Inr groups"

text \<open>A callback that accepts the state uses it up.\<close>

definition accepts :: "oidc_app \<Rightarrow> web_request \<Rightarrow> web_state \<Rightarrow> string \<Rightarrow> bool" where
  "accepts oa rq s st \<longleftrightarrow>
     fst (is_oidc_configured (oa_config oa) (oa_idp oa) (wb_registered s)) \<and>
     or_text (query_param (http_request.truncate rq) ''error'') None = None \<and> state_matches rq (wb_session s) st"

definition grants :: "oidc_app \<Rightarrow> web_request \<Rightarrow> web_state \<Rightarrow> string \<Rightarrow> bool" where
  "grants oa rq s u \<longleftrightarrow>
     (\<exists>st. accepts oa rq s st) \<and>
     (\<exists>token userinfo groups. names_user oa rq u token userinfo groups \<and> allowed_in (oa_config oa) groups)"

lemma sync_account_allowed:
  assumes "sync_account oa password access_token userinfo username display s = (Inr [], s')"
  shows "\<exists>groups. detected_groups oa access_token userinfo = Inr groups \<and> allowed_in (oa_config oa) groups"
  using assms
  by (auto simp: sync_account_def act_bind_def act_lift_def allowed_in_def act_return_def
      split: sum.splits if_splits prod.splits)

lemma exchange_code_steps:
  assumes "exchange_code oa now password code s = (Inr (Some u, errors), s')"
  obtains token userinfo display s1 where "idp_has_exchange (oa_idp oa)" and "token \<noteq> []"
    and "authorize_access_token_with_retry (oa_idp oa) code = Inr token"
    and "idp_userinfo (oa_idp oa) token = Inr userinfo" and "extract_username (oa_config oa) userinfo = (Some u, None)"
    and "sync_account oa password (dict_get token ''access_token'') userinfo u display s = (Inr [], s1)"
    and "persist_session_auth (oa_config oa) now token s1 = (Inr (), s')"
proof -
  from assms obtain token userinfo display s1 where facts: "idp_has_exchange (oa_idp oa)" "token \<noteq> []"
      "authorize_access_token_with_retry (oa_idp oa) code = Inr token"
      "idp_userinfo (oa_idp oa) token = Inr userinfo" "extract_username (oa_config oa) userinfo = (Some u, None)"
      "persist_session_auth (oa_config oa) now token s1 = (Inr (), s')"
      and sync: "act_except (sync_account oa password (dict_get token ''access_token'') userinfo u display)
        (act_return [''Failed to update user/groups'']) s = (Inr [], s1)"
    by (auto simp: exchange_code_def act_bind_def act_return_def act_lift_def Let_def
        split: if_splits sum.splits prod.splits option.splits)
  from sync have "sync_account oa password (dict_get token ''access_token'') userinfo u display s = (Inr [], s1)"
    by (auto simp: act_except_def act_return_def split: sum.splits prod.splits)
  with facts show thesis by (intro that)
qed

lemma process_names:
  assumes "process_oidc_callback oa now password rq s = (Inr (Some u, errors), s')"
    and "session_ok (oa_config oa) (wb_session s)"
  shows "\<exists>st. state_matches rq (wb_session s) st"
    and "or_text (query_param (http_request.truncate rq) ''error'') None = None"
    and "\<exists>token userinfo groups. names_user oa rq u token userinfo groups \<and> allowed_in (oa_config oa) groups"
proof -
  let ?code = "or_text (query_param (http_request.truncate rq) ''code'') None"
  let ?stored = "session_get (wb_session s) ''oauth_state''"
  from assms(1) have stored: "truthy ?stored"
    and eq: "(case query_param (http_request.truncate rq) ''state'' of Some st \<Rightarrow> JString st | None \<Rightarrow> JNull) = ?stored"
    and "\<exists>code s1 s2. ?code = Some code \<and> exchange_code oa now password code s1 = (Inr (Some u, errors), s2)"
    by (auto simp: process_oidc_callback_def act_bind_def act_except_def Let_def pop_session_def on_session_def
        split: if_splits sum.splits prod.splits option.splits)
  then obtain code s1 s2 where code: "?code = Some code"
    and "exchange_code oa now password code s1 = (Inr (Some u, errors), s2)" by blast
  from this(2) show "\<exists>token userinfo groups. names_user oa rq u token userinfo groups \<and> allowed_in (oa_config oa) groups"
  proof (rule exchange_code_steps)
    fix token userinfo display s3
    assume "idp_has_exchange (oa_idp oa)" and "token \<noteq> []"
      and "authorize_access_token_with_retry (oa_idp oa) code = Inr token"
      and "idp_userinfo (oa_idp oa) token = Inr userinfo" and "extract_username (oa_config oa) userinfo = (Some u, None)"
      and "sync_account oa password (dict_get token ''access_token'') userinfo u display s1 = (Inr [], s3)"
    with sync_account_allowed [OF this(6)] code show ?thesis by (auto simp: names_user_def)
  qed
  from stored eq obtain st where "query_param (http_request.truncate rq) ''state'' = Some st" and "?stored = JString st"
    by (auto split: option.splits)
  with stored have "state_matches rq (wb_session s) st"
    by (auto simp: state_matches_def session_get_def split: option.splits)
  then show "\<exists>st. state_matches rq (wb_session s) st" by blast
  from assms(1) show "or_text (query_param (http_request.truncate rq) ''error'') None = None"
    by (auto simp: process_oidc_callback_def split: option.splits)
qed

section \<open>Single entries of a session\<close>

abbreviation "entry_is key v \<equiv> on_part wb_session (\<lambda>session. session key = v)"

lemma keeps_entry_put: "key \<noteq> k \<Longrightarrow> keeps (entry_is key v) (put_session k x)"
  and keeps_entry_pop: "key \<noteq> k \<Longrightarrow> keeps (entry_is key v) (pop_session k)"
  by (intro keeps_intros, simp)+

lemma keeps_entry_persist:
  assumes "key \<noteq> ''expires_at''" and "key \<noteq> ''refresh_token''"
  shows "keeps (entry_is key v) (persist_session_auth cfg now token)"
  unfolding persist_session_auth_def
  by (intro keeps_intros keeps_entry_put keeps_entry_pop assms)

lemma keeps_entry_exchange:
  assumes "key \<noteq> ''expires_at''" and "key \<noteq> ''refresh_token''"
  shows "keeps (entry_is key v) (exchange_code oa now password code)"
  unfolding exchange_code_def Let_def
  by (intro keeps_intros keeps_entry_persist assms)

definition go_on :: "oidc_app \<Rightarrow> rat \<Rightarrow> string \<Rightarrow> web_request \<Rightarrow> (string option \<times> string list, web_state) action" where
  "go_on oa now password rq =
     (case or_text (query_param (http_request.truncate rq) ''code'') None of
        None \<Rightarrow> act_return (None, [''No authorization code received''])
      | Some code \<Rightarrow> act_except (exchange_code oa now password code)
          (act_return (None, [''Failed to process authentication response''])))"

lemma keeps_entry_go_on:
  assumes "key \<noteq> ''expires_at''" and "key \<noteq> ''refresh_token''"
  shows "keeps (entry_is key v) (go_on oa now password rq)"
  unfolding go_on_def by (intro keeps_intros keeps_entry_exchange assms)

lemma process_cases:
  obtains r where "process_oidc_callback oa now password rq s = (r, s)"
    and "\<And>st. \<not> (or_text (query_param (http_request.truncate rq) ''error'') None = None \<and> state_matches rq (wb_session s) st)"
    and "\<And>u e. r \<noteq> Inr (Some u, e)"
  | "process_oidc_callback oa now password rq s = act_bind (pop_session ''oauth_state'') (\<lambda>_. go_on oa now password rq) s"
proof (cases "or_text (query_param (http_request.truncate rq) ''error'') None")
  case None
  have matches: "state_matches rq (wb_session s) st \<Longrightarrow> truthy (session_get (wb_session s) ''oauth_state'') \<and>
      (case query_param (http_request.truncate rq) ''state'' of Some st \<Rightarrow> JString st | None \<Rightarrow> JNull) =
        session_get (wb_session s) ''oauth_state''" for st
    by (simp add: state_matches_def session_get_def)
  show thesis
  proof (cases "truthy (session_get (wb_session s) ''oauth_state'') \<and>
      (case query_param (http_request.truncate rq) ''state'' of Some st \<Rightarrow> JString st | None \<Rightarrow> JNull) =
        session_get (wb_session s) ''oauth_state''")
    case True
    with None show thesis by (intro that(2)) (simp add: process_oidc_callback_def Let_def go_on_def)
  next
    case False
    with None have "\<exists>r. process_oidc_callback oa now password rq s = (r, s) \<and> (\<forall>u e. r \<noteq> Inr (Some u, e))"
      by (auto simp: process_oidc_callback_def Let_def)
    with False matches show thesis using that(1) by blast
  qed
next
  case (Some e)
  then have "\<exists>r. process_oidc_callback oa now password rq s = (r, s) \<and> (\<forall>u e. r \<noteq> Inr (Some u, e))"
    by (auto simp: process_oidc_callback_def)
  with Some show thesis using that(1) by auto
qed

lemma process_entry:
  fixes rq :: web_request
  assumes "process_oidc_callback oa now password rq s = (r, s')"
    and "key \<noteq> ''expires_at''" and "key \<noteq> ''refresh_token''" and "key \<noteq> ''oauth_state''"
  shows "wb_session s' key = wb_session s key"
proof (cases rule: process_cases [of oa now password rq s])
  case (1 r)
  with assms(1) show ?thesis by simp
next
  case 2
  with assms(1) have run: "act_bind (pop_session ''oauth_state'') (\<lambda>_. go_on oa now password rq) s = (r, s')" by simp
  have "keeps (entry_is key (wb_session s key)) (act_bind (pop_session ''oauth_state'') (\<lambda>_. go_on oa now password rq))"
    by (intro keeps_bind keeps_entry_pop keeps_entry_go_on assms)
  from keepsD [OF this _ run] show ?thesis by (simp add: on_part_def)
qed

lemma process_state:
  assumes "process_oidc_callback oa now password rq s = (r, s')"
  shows "wb_session s' ''oauth_state'' = wb_session s ''oauth_state'' \<or> wb_session s' ''oauth_state'' = None"
    and "state_matches rq (wb_session s) st \<Longrightarrow> or_text (query_param (http_request.truncate rq) ''error'') None = None \<Longrightarrow>
      wb_session s' ''oauth_state'' = None"
proof -
  have go: "wb_session s' ''oauth_state'' = None"
    if run: "act_bind (pop_session ''oauth_state'') (\<lambda>_. go_on oa now password rq) s = (r, s')"
  proof -
    have "go_on oa now password rq (s\<lparr>wb_session := (wb_session s)(''oauth_state'' := None)\<rparr>) = (r, s')"
      using run by (simp add: act_bind_def pop_session_def on_session_def)
    from keepsD [OF keeps_entry_go_on [where key = "''oauth_state''" and v = None] _ this]
    show ?thesis by (simp add: on_part_def)
  qed
  show "wb_session s' ''oauth_state'' = wb_session s ''oauth_state'' \<or> wb_session s' ''oauth_state'' = None"
    by (cases rule: process_cases [of oa now password rq s]) (use assms go in auto)
  show "wb_session s' ''oauth_state'' = None"
    if "state_matches rq (wb_session s) st" "or_text (query_param (http_request.truncate rq) ''error'') None = None"
    by (cases rule: process_cases [of oa now password rq s]) (use assms go that in auto)
qed

section \<open>The steps that change a name or a state\<close>

lemma or_http_state: "snd (or_http n m s) = snd (m s)"
  by (auto simp: or_http_def split: prod.split sum.split exn.split)

lemma session_event_run: "\<exists>s1. session_event oa ev actor detail s = (Inr (), s1) \<and> wb_session s1 = wb_session s \<and>
    st_db (as_store (wb_app s1)) = st_db (as_store (wb_app s))"
  by (simp add: session_event_def on_app_def emit_audit_event_def)

definition logged_in :: "session \<Rightarrow> string \<Rightarrow> session" where
  "logged_in session u =
     session(''username'' \<mapsto> JString u, ''authenticated'' \<mapsto> JBool True, ''redirect_after_login'' := None)"

lemma callback_cases:
  assumes "callback oa now password rq s = (r, s')"
  obtains "wb_session s' = wb_session s" and "wb_app s' = wb_app s" and "\<not> fst (is_oidc_configured (oa_config oa) (oa_idp oa) (wb_registered s))"
  | q s1 s2 where "fst (is_oidc_configured (oa_config oa) (oa_idp oa) (wb_registered s))"
      and "wb_session s1 = wb_session s" and "wb_app s1 = wb_app s"
      and "process_oidc_callback oa now password rq s1 = (q, s2)"
      and "wb_session s' = wb_session s2" and "wb_app s' = wb_app s2"
  | u s1 s2 where "fst (is_oidc_configured (oa_config oa) (oa_idp oa) (wb_registered s))"
      and "wb_session s1 = wb_session s" and "wb_app s1 = wb_app s"
      and "process_oidc_callback oa now password rq s1 = (Inr (Some u, []), s2)"
      and "st_db (as_store (wb_app s')) = st_db (as_store (wb_app s2))"
      and "wb_session s' = logged_in (wb_session s2) u"
      and "r = Inr (Redirect (landing_page oa rq (session_get (wb_session s2) ''redirect_after_login'')))"
proof -
  obtain ok reg where reg: "is_oidc_configured (oa_config oa) (oa_idp oa) (wb_registered s) = (ok, reg)" by force
  let ?s1 = "s\<lparr>wb_registered := reg\<rparr>"
  have check: "check_configured oa s = (Inr ok, ?s1)" by (simp add: check_configured_def reg)
  show thesis
  proof (cases ok)
    case False
    then have "wb_session s' = wb_session s \<and> wb_app s' = wb_app s"
      using assms check by (auto simp: callback_def or_http_def act_bind_def act_return_def)
    with False reg show thesis by (intro that(1)) simp_all
  next
    case True
    obtain q s2 where q: "process_oidc_callback oa now password rq ?s1 = (q, s2)" by force
    show thesis
    proof (cases "\<exists>u. q = Inr (Some u, []) \<and> u \<noteq> ''''")
      case False
      then have "wb_session s' = wb_session s2 \<and> wb_app s' = wb_app s2"
        using assms check True q
        by (auto simp: callback_def or_http_def act_bind_def act_return_def act_raise_def or_text_def
            split: sum.splits option.splits if_splits prod.splits exn.splits)
      then show thesis using that(2) [of ?s1 q s2] True reg q by simp
    next
      case name: True
      then obtain u where u: "q = Inr (Some u, [])" "u \<noteq> ''''" by blast
      obtain s3 where event: "session_event oa ''auth.login'' (JString u) [(''method'', JString ''oidc'')]
          (s2\<lparr>wb_session := (wb_session s2)(''username'' \<mapsto> JString u, ''authenticated'' \<mapsto> JBool True)\<rparr>) = (Inr (), s3)"
        and s3: "wb_session s3 = (wb_session s2)(''username'' \<mapsto> JString u, ''authenticated'' \<mapsto> JBool True)"
          "st_db (as_store (wb_app s3)) = st_db (as_store (wb_app s2))"
        using session_event_run [of oa "''auth.login''" "JString u" "[(''method'', JString ''oidc'')]"
            "s2\<lparr>wb_session := (wb_session s2)(''username'' \<mapsto> JString u, ''authenticated'' \<mapsto> JBool True)\<rparr>"] by auto
      have "callback oa now password rq s = (Inr (Redirect (landing_page oa rq (session_get (wb_session s3) ''redirect_after_login''))),
          s3\<lparr>wb_session := (wb_session s3)(''redirect_after_login'' := None)\<rparr>)"
        using True q u event check
        by (simp add: callback_def or_http_def act_bind_def or_text_def on_session_def put_session_def
            pop_session_def act_return_def)
      with assms have "wb_session s' = logged_in (wb_session s2) u"
        and "st_db (as_store (wb_app s')) = st_db (as_store (wb_app s2))"
        and "r = Inr (Redirect (landing_page oa rq (session_get (wb_session s2) ''redirect_after_login'')))"
        by (auto simp: logged_in_def s3 session_get_def)
      then show thesis using that(3) [of ?s1 u s2] True reg q u by simp
    qed
  qed
qed

lemma keeps_entry_login:
  assumes "key \<noteq> ''oauth_state''" and "key \<noteq> ''redirect_after_login''"
  shows "keeps (entry_is key v) (login oa st rq)"
  unfolding login_def Let_def by (intro keeps_intros keeps_entry_put assms)

lemma login_state:
  assumes "login oa st rq s = (r, s')"
  shows "wb_session s' ''oauth_state'' = wb_session s ''oauth_state'' \<or> wb_session s' ''oauth_state'' = Some (JString st)"
proof -
  let ?key = "''oauth_state''"
  define k where "k = (\<lambda>_ :: unit. act_bind (case sanitize_next (query_param (http_request.truncate rq) ''next'') of
              Some target \<Rightarrow> put_session ''redirect_after_login'' (JString target)
            | None \<Rightarrow> act_return ()) (\<lambda>_.
          let redirect_url = get_configured_or_dynamic_redirect_uri rq ''/callback'' (OIDC_REDIRECT_URI (oa_config oa))
          in case idp_authorize_url (oa_idp oa) of
               None \<Rightarrow> act_raise (HTTPException 500)
             | Some authorize_redirect \<Rightarrow>
                 act_bind (act_lift (authorize_redirect redirect_url st)) (\<lambda>url.
                 act_return (Redirect url))))"
  have k: "keeps (entry_is ?key v) (k x)" for v x
    unfolding k_def Let_def by (intro keeps_intros keeps_entry_put) simp
  obtain ok reg where reg: "is_oidc_configured (oa_config oa) (oa_idp oa) (wb_registered s) = (ok, reg)" by force
  let ?s1 = "s\<lparr>wb_registered := reg, wb_session := (wb_session s)(?key \<mapsto> JString st)\<rparr>"
  have "snd (login oa st rq s) = (if ok then snd (k () ?s1) else s\<lparr>wb_registered := reg\<rparr>)"
    unfolding login_def or_http_state by (simp add: act_bind_def check_configured_def reg put_session_def on_session_def k_def)
  moreover have "entry_is ?key (Some (JString st)) (snd (k () ?s1))"
    using k [of "Some (JString st)" "()"] unfolding keeps_def by (simp add: on_part_def)
  ultimately show ?thesis using assms by (auto simp: on_part_def split: if_splits)
qed

lemma logout_session:
  assumes "logout oa rq s = (r, s')"
  shows "wb_session s' = (\<lambda>_. None)"
proof -
  let ?empty = "on_part wb_session (\<lambda>x. x = (\<lambda>_. None))"
  define k where "k = (\<lambda>username (_ :: unit). act_bind (act_when (truthy username) (session_event oa ''auth.logout'' username [])) (\<lambda>_.
           let auth_url = build_ui_url rq ''/auth'' [] in
           case idp_metadata (oa_idp oa) of
             None \<Rightarrow> act_return (Redirect auth_url)
           | Some metadata \<Rightarrow>
               let end_session_endpoint = dict_get metadata ''end_session_endpoint'' in
               if truthy end_session_endpoint
               then act_return (Redirect (py_str (sv_tracking (ap_server (oa_app oa))) end_session_endpoint @
                      ''?post_logout_redirect_uri='' @ auth_url))
               else act_return (Redirect auth_url)))"
  have k: "keeps ?empty (k username x)" for username x
    unfolding k_def Let_def by (intro keeps_intros)
  have run: "logout oa rq s = act_except (k (session_get (wb_session s) ''username'') ())
      (act_return (Redirect (build_ui_url rq ''/auth'' []))) (s\<lparr>wb_session := (\<lambda>_. None)\<rparr>)"
    by (simp add: logout_def k_def act_except_def act_bind_def on_session_def)
  have "?empty (snd (logout oa rq s))"
    using keeps_except [OF k keeps_simple(1)] unfolding run keeps_def by (simp add: on_part_def)
  then show ?thesis using assms by (simp add: on_part_def)
qed

lemma authenticate_session_entry:
  assumes "key \<noteq> ''expires_at''" and "key \<noteq> ''refresh_token''"
  shows "wb_session (snd (authenticate_session oa now s)) key = wb_session s key \<or>
    wb_session (snd (authenticate_session oa now s)) = (\<lambda>_. None)"
proof -
  have refresh: "wb_session (snd (refresh_session_with_idp oa now s)) key = wb_session s key"
    using refresh_state [of oa now s] keeps_entry_persist [OF assms, of "wb_session s key" "oa_config oa" now]
    by (auto simp: keeps_def on_part_def)
  obtain r s1 where r: "refresh_session_with_idp oa now s = (r, s1)" by force
  with refresh have "wb_session s1 key = wb_session s key" by simp
  then show ?thesis
    by (auto simp: authenticate_session_def Let_def r split: sum.split bool.split)
qed

lemma dispatch_entry:
  assumes "auth_dispatch oa now rq s = (out, s')" and "key \<noteq> ''expires_at''" and "key \<noteq> ''refresh_token''"
  shows "wb_session s' key = wb_session s key \<or> wb_session s' key = None"
proof -
  have "wb_session (snd (authenticate_user oa now rq s)) key = wb_session s key \<or>
      wb_session (snd (authenticate_user oa now rq s)) key = None"
    using authenticate_session_entry [OF assms(2,3), of oa now s] authenticate_bearer_session
    by (auto simp: authenticate_user_def split: option.split)
  moreover have "s' = s \<or> s' = snd (authenticate_user oa now rq s)"
    using assms(1) by (auto simp: auth_dispatch_def Let_def split: if_splits prod.splits option.splits)
  ultimately show ?thesis by auto
qed

section \<open>Names and states along a run\<close>

lemma step_username:
  assumes "web_step oa s e s'" and "web_ok oa s" and "wb_session s' ''username'' = Some v"
  shows "wb_session s ''username'' = Some v \<and> (\<forall>rq. e \<noteq> Logout rq) \<or>
    (\<exists>now password rq u. e = Callback now password rq \<and> v = JString u \<and> grants oa rq s u)"
  using assms(1)
proof (cases rule: web_step.cases)
  case (login st rq r)
  from keepsD [OF keeps_entry_login [where key = "''username''" and v = "wb_session s ''username''"] _ login(2)]
  have "wb_session s' ''username'' = wb_session s ''username''" by (simp add: on_part_def)
  with assms(3) login(1) show ?thesis by simp
next
  case (callback now password rq r)
  from callback(2) show ?thesis
  proof (cases rule: callback_cases)
    case 1
    with assms(3) callback(1) show ?thesis by simp
  next
    case (2 q s1 s2)
    then have "wb_session s' ''username'' = wb_session s ''username''"
      using process_entry [OF 2(4), of "''username''"] by simp
    with assms(3) callback(1) show ?thesis by simp
  next
    case (3 u s1 s2)
    have "session_ok (oa_config oa) (wb_session s1)" using assms(2) 3(2) by (simp add: on_part_def)
    from process_names [OF 3(4) this] 3(1,2) have "grants oa rq s u" by (auto simp: grants_def accepts_def)
    moreover have "v = JString u" using assms(3) 3(6) by (simp add: logged_in_def)
    ultimately show ?thesis using callback(1) by blast
  qed
next
  case (logout rq r)
  with assms(3) show ?thesis using logout_session [OF logout(2)] by simp
next
  case (request now rq out)
  with assms(3) show ?thesis using dispatch_entry [OF request(2), of "''username''"] by auto
next
  case elsewhere
  with assms(3) show ?thesis by simp
qed

lemma step_state:
  assumes "web_step oa s e s'" and "wb_session s' ''oauth_state'' = Some v"
  shows "wb_session s ''oauth_state'' = Some v \<or> (\<exists>st rq. e = Login st rq \<and> v = JString st)"
  using assms(1)
proof (cases rule: web_step.cases)
  case (login st rq r)
  with assms(2) show ?thesis using login_state [OF login(2)] by auto
next
  case (callback now password rq r)
  from callback(2) have "wb_session s' ''oauth_state'' = wb_session s ''oauth_state'' \<or> wb_session s' ''oauth_state'' = None"
    by (cases rule: callback_cases) (auto simp: logged_in_def dest: process_state(1))
  with assms(2) show ?thesis by auto
next
  case (logout rq r)
  with assms(2) show ?thesis using logout_session [OF logout(2)] by simp
next
  case (request now rq out)
  with assms(2) show ?thesis using dispatch_entry [OF request(2), of "''oauth_state''"] by auto
next
  case elsewhere
  with assms(2) show ?thesis by simp
qed

lemma accepted_state_is_gone:
  assumes "callback oa now password rq s = (r, s')" and "accepts oa rq s st"
  shows "wb_session s' ''oauth_state'' = None"
  using assms(1)
proof (cases rule: callback_cases)
  case (2 q s1 s2)
  then show ?thesis using assms(2) process_state(2) [OF 2(4), of st] by (simp add: accepts_def)
next
  case (3 u s1 s2)
  then show ?thesis using assms(2) process_state(2) [OF 3(4), of st] by (simp add: accepts_def logged_in_def)
qed (use assms(2) in \<open>simp add: accepts_def\<close>)

lemma web_run_ok: "web_run oa s tr s' \<Longrightarrow> web_ok oa s \<Longrightarrow> web_ok oa s'"
  by (induction rule: web_run.induct) (auto intro: web_step_ok)

lemma web_run_split:
  assumes "web_run oa s (later @ (s1, e) # earlier) s'"
  shows "\<exists>s2. web_run oa s earlier s1 \<and> web_step oa s1 e s2 \<and> web_run oa s2 later s'"
  using assms
proof (induction later arbitrary: s')
  case Nil
  then show ?case by (auto elim!: web_run_ConsE intro: web_run.start)
next
  case (Cons p later)
  then obtain s3 where "p = (s3, snd p)" and "web_run oa s (later @ (s1, e) # earlier) s3"
    and "web_step oa s3 (snd p) s'"
    by (auto elim!: web_run_ConsE)
  with Cons.IH show ?case by (metis web_run.event)
qed

text \<open>A state in the session was put there by a login of the run.\<close>

lemma state_from_login:
  assumes "web_run oa s tr s'" and "wb_session s ''oauth_state'' = None"
    and "wb_session s' ''oauth_state'' = Some (JString st)"
  shows "\<exists>s1 rq. (s1, Login st rq) \<in> set tr"
  using assms
proof (induction rule: web_run.induct)
  case (event tr s1 e s2)
  then show ?case using step_state [OF event.hyps(2) event.prems(2)] by auto
qed simp

text \<open>C10: Every chain of cookies that starts with the empty session stays well-typed whatever its browser asks for and whatever
  happens to the server in between: its name is a lower-case text that is not blank, it is
  authenticated exactly when it has a name, its expiry is an integer, and the page to go to
  after the login is a path on this server.\<close>

theorem sessions_stay_well_formed:
  assumes "web_run oa s tr s'" and "wb_session s = (\<lambda>_. None)"
  shows "session_ok (oa_config oa) (wb_session s')"
  using web_run_ok [OF assms(1)] assms(2) by (simp add: on_part_def)

text \<open>C8: Along every chain of cookies from the empty session, each set by the response to a request with
  the one before, a session has a user only by a callback of the chain: that callback came with the state which
  the session waited for, its code was exchanged for a token, the user information of the token
  gave this name and groups that may log in; and the session was not logged out since.\<close>

theorem session_user_was_granted:
  assumes "web_run oa s tr s'" and "wb_session s = (\<lambda>_. None)"
    and "wb_session s' ''username'' = Some v"
  shows "\<exists>later s0 now password rq earlier u. tr = later @ (s0, Callback now password rq) # earlier \<and>
    v = JString u \<and> grants oa rq s0 u \<and> (\<forall>p \<in> set later. \<forall>rq. snd p \<noteq> Logout rq)"
  using assms
proof (induction rule: web_run.induct)
  case (event tr s1 e s2)
  have "web_ok oa s1" using web_run_ok [OF event.hyps(1)] event.prems(1) by (simp add: on_part_def)
  from step_username [OF event.hyps(2) this event.prems(2)] show ?case
  proof (elim disjE conjE exE)
    assume "wb_session s1 ''username'' = Some v" and "\<forall>rq. e \<noteq> Logout rq"
    with event.IH [OF event.prems(1)] obtain later s0 now password rq earlier u where
      "tr = later @ (s0, Callback now password rq) # earlier" "v = JString u" "grants oa rq s0 u"
      "\<forall>p \<in> set ((s1, e) # later). \<forall>rq. snd p \<noteq> Logout rq" by auto
    then show ?thesis by (metis append_Cons)
  next
    fix now password rq u
    assume "e = Callback now password rq" "v = JString u" "grants oa rq s1 u"
    then show ?thesis by (metis append_Nil empty_iff list.set(1))
  qed
qed simp

text \<open>What a chain says of a state holds for every cookie; the sessions of all cookies are well-typed.\<close>

lemma cookies_well_formed:
  assumes "cookie_run oa server requests s" and "cookie \<in> snd s"
  shows "session_ok (oa_config oa) cookie"
proof -
  from cookie_has_chain [OF assms] obtain chain s' where "chain_to oa server requests cookie chain s'" by blast
  then show ?thesis using web_run_ok [of oa _ chain s'] by (auto simp: chain_to_def on_part_def)
qed

lemma state_once_in_chain:
  assumes "web_run oa s (later @ (s2, Callback now2 password2 rq2) # between @
      (s1, Callback now1 password1 rq1) # earlier) s'"
    and "accepts oa rq1 s1 st" and "accepts oa rq2 s2 st"
  shows "\<exists>s3 rq3. (s3, Login st rq3) \<in> set between"
proof -
  from web_run_split [OF assms(1)] have "web_run oa s (between @ (s1, Callback now1 password1 rq1) # earlier) s2"
    by blast
  from web_run_split [OF this] obtain s3 where step: "web_step oa s1 (Callback now1 password1 rq1) s3"
    and run: "web_run oa s3 between s2" by blast
  from step have "wb_session s3 ''oauth_state'' = None"
    by (cases rule: web_step.cases) (auto intro: accepted_state_is_gone assms(2))
  moreover from assms(3) have "wb_session s2 ''oauth_state'' = Some (JString st)"
    by (simp add: accepts_def state_matches_def)
  ultimately show ?thesis using state_from_login [OF run] by blast
qed

text \<open>C9: Sessions are signed cookies that a client may keep and present again. Whatever cookies are
  presented, each cookie comes from the empty session by a chain of requests that were made, each with
  the cookie that the one before set, and along this chain a state that a callback has accepted is
  accepted by a second one only if a login gave it out again in between. Nothing keeps a client from
  presenting the cookie from before the first callback again.\<close>

theorem state_is_used_once_per_chain:
  assumes "cookie_run oa server requests (server', cookies)" and "cookie \<in> cookies"
  shows "\<exists>chain s'. chain_to oa server requests cookie chain s' \<and>
    (\<forall>later s2 now2 password2 rq2 between s1 now1 password1 rq1 earlier st.
       chain = later @ (s2, Callback now2 password2 rq2) # between @ (s1, Callback now1 password1 rq1) # earlier \<longrightarrow>
       accepts oa rq1 s1 st \<longrightarrow> accepts oa rq2 s2 st \<longrightarrow> (\<exists>s3 rq3. (s3, Login st rq3) \<in> set between))"
proof -
  have "cookie \<in> snd (server', cookies)" using assms(2) by simp
  from cookie_has_chain [OF assms(1) this] obtain chain s' where chain: "chain_to oa server requests cookie chain s'"
    by blast
  then have "web_run oa (server\<lparr>wb_session := (\<lambda>_. None)\<rparr>) chain s'" by (simp add: chain_to_def)
  with chain state_once_in_chain show ?thesis by blast
qed

text \<open>A cookie with a state that is kept accepts this state again after the callback.\<close>

theorem kept_cookie_accepts_again:
  assumes "cookie_run oa server requests (srv, cookies)" and "cookie \<in> cookies"
    and "accepts oa rq (srv\<lparr>wb_session := cookie\<rparr>) st"
    and "callback oa now password rq (srv\<lparr>wb_session := cookie\<rparr>) = (r, srv')"
    and "fst (is_oidc_configured (oa_config oa) (oa_idp oa) (wb_registered srv'))"
  shows "cookie_run oa server ((srv\<lparr>wb_session := cookie\<rparr>, Callback now password rq) # requests)
      (srv', insert (wb_session srv') cookies) \<and>
    cookie \<in> insert (wb_session srv') cookies \<and> accepts oa rq (srv'\<lparr>wb_session := cookie\<rparr>) st"
proof -
  have "cookie_run oa server ((srv\<lparr>wb_session := cookie\<rparr>, Callback now password rq) # requests)
      (srv', insert (wb_session srv') cookies)"
    using assms(1,2,4) by (blast intro: cookie_run.event cookie_step.present web_step.callback)
  with assms(2,3,5) show ?thesis by (simp add: accepts_def state_matches_def)
qed

end
