(* ===== verification/LoginProperties.thy ===== *)
theory LoginProperties
  imports SessionProperties
begin

text \<open>
  What a login leaves in the database: the account of who may log in, with the administrator's flag
  that the groups of the token give; and what is left of the account of who may not.
\<close>

section \<open>Operations that leave the users alone\<close>

definition users_part :: "(user list \<Rightarrow> bool) \<Rightarrow> app_state \<Rightarrow> bool" where
  "users_part P a = P (db_users (st_db (as_store a)))"

lemma users_part_eq: "users_part P = db_part (\<lambda>db. P (db_users db))"
  by (simp add: fun_eq_iff users_part_def db_part_def)

lemma create_groups_loop_users: "create_groups_loop db gs = Inr db' \<Longrightarrow> db_users db' = db_users db"
  by (induction db gs rule: create_groups_loop.induct) (auto simp: add_group_row_def split: option.splits)

lemma set_groups_loop_users: "set_groups_loop db u gs = Inr db' \<Longrightarrow> db_users db' = db_users db"
  by (induction db u gs rule: set_groups_loop.induct) (fastforce simp: add_user_group_row_def)+

lemma same_users_intros:
  "create_groups db gs = Inr db' \<Longrightarrow> db_users db' = db_users db"
  "set_groups_for_user db n gs = Inr db' \<Longrightarrow> db_users db' = db_users db"
  "update_email db n e = Inr db' \<Longrightarrow> db_users db' = db_users db"
  "create_workspace_permission db w n p = Inr (x, db') \<Longrightarrow> db_users db' = db_users db"
  by (auto simp: create_groups_def set_groups_for_user_def update_email_def create_workspace_permission_def
      ws_create_def add_quota_row_def set_quota_row_def Let_def result_state_Inr
      dest!: create_groups_loop_users set_groups_loop_users split: option.splits if_splits)

lemma keeps_users_commit:
  "(\<And>db db'. f db = Inr db' \<Longrightarrow> db_users db' = db_users db) \<Longrightarrow> keeps (\<lambda>db. P (db_users db)) (act_commit f)"
  by (rule keeps_commit) simp

lemma keeps_users_call:
  "(\<And>db x db'. f db = Inr (x, db') \<Longrightarrow> db_users db' = db_users db) \<Longrightarrow> keeps (\<lambda>db. P (db_users db)) (call f)"
  by (rule keeps_call) simp

lemma keeps_users_store:
  "keeps (users_part P) (store_do ap (AccountOp (PopulateGroups gs)))"
  "keeps (users_part P) (store_do ap (AccountOp (SetUserGroups n gs)))"
  "keeps (users_part P) (store_do ap (WorkspaceOp (CreateWorkspacePermission w n p)))"
  "keeps (users_part P) (store_do ap (QuotaOp (UpdateQuotaEmail n e)))"
  unfolding users_part_eq
  by (rule keeps_store_do, simp,
      (rule keeps_users_commit | rule keeps_users_call), erule same_users_intros)+

abbreviation "web_users P \<equiv> on_part wb_app (users_part P)"

lemma keeps_users_event [keeps_intros]: "keeps (web_users P) (session_event oa ev actor detail)"
  unfolding session_event_def users_part_eq by (intro keeps_intros)

lemma keeps_users_revoke: "keeps (web_users P) (revoke_groups oa n)"
  unfolding revoke_groups_def update_user_def by (intro keeps_intros keeps_users_store)

lemma keeps_users_quota_email: "keeps (web_users P) (sync_quota_email oa userinfo n)"
  unfolding sync_quota_email_def Let_def update_quota_email_def by (intro keeps_intros keeps_users_store)

lemma keeps_users_workspace: "keeps (web_users P) (sync_workspace oa n ws)"
proof -
  have "keeps (web_users P) (\<lambda>s. (Inr (), case (idp_workspace_exists (oa_idp oa), ws) of
      (Some exists, JString w) \<Rightarrow> if exists w then s else s\<lparr>wb_created := wb_created s @ [w]\<rparr> | _ \<Rightarrow> s))"
    by (auto simp: keeps_def on_part_def split: option.split json.split)
  then show ?thesis unfolding sync_workspace_def web_store_def by (intro keeps_intros keeps_users_store)
qed

lemma keeps_users_workspaces: "keeps (web_users P) (sync_workspaces oa n ws)"
  by (induction ws) (auto intro: keeps_intros keeps_users_workspace)

lemma keeps_users_assign: "keeps (web_users P) (assign_workspaces oa access_token userinfo n)"
  unfolding assign_workspaces_def by (intro keeps_intros keeps_users_workspaces)

lemma keeps_users_persist: "keeps (web_users P) (persist_session_auth cfg now token)"
  unfolding persist_session_auth_def by (intro keeps_intros)

section \<open>The flag of an administrator\<close>

definition has_flag :: "string \<Rightarrow> bool \<Rightarrow> user list \<Rightarrow> bool" where
  "has_flag n b users \<longleftrightarrow>
     (\<exists>u \<in> set users. u_username u = n) \<and> (\<forall>u \<in> set users. u_username u = n \<longrightarrow> u_is_admin u = b)"

lemma has_flag_set_rows:
  assumes "\<And>u. u_username (f u) = u_username u" and "u \<in> set users" and "u_username u = n"
    and "\<And>u. u \<in> set users \<Longrightarrow> u_username u = n \<Longrightarrow> u_is_admin (if u_id u = i then f u else u) = b"
  shows "has_flag n b (set_rows (\<lambda>u. u_id u = i) f users)"
proof -
  have "(if u_id u = i then f u else u) \<in> set (set_rows (\<lambda>u. u_id u = i) f users)"
    using assms(2) by (simp add: set_rows_def)
  moreover have "u_username (if u_id u = i then f u else u) = n" using assms(1,3) by simp
  moreover have "u_is_admin v = b" if "v \<in> set (set_rows (\<lambda>u. u_id u = i) f users)" "u_username v = n" for v
  proof -
    from that(1) obtain w where "w \<in> set users" "v = (if u_id w = i then f w else w)"
      unfolding set_rows_def set_map by blast
    with that(2) assms(1,4) show ?thesis by metis
  qed
  ultimately show ?thesis unfolding has_flag_def by blast
qed

lemma has_flag_display:
  assumes "update_displayname db m d = Inr (e, db')" and "has_flag n b (db_users db)"
  shows "has_flag n b (db_users db')"
proof -
  from assms(1) obtain i where rows: "db_users db' = set_rows (\<lambda>u. u_id u = i) (\<lambda>u. u\<lparr>u_display_name := d\<rparr>) (db_users db)"
    by (auto simp: update_displayname_def elim!: set_user_row_Inr)
  from assms(2) obtain u where u: "u \<in> set (db_users db)" "u_username u = n" by (auto simp: has_flag_def)
  show ?thesis unfolding rows
    by (rule has_flag_set_rows [OF _ u]) (use assms(2) in \<open>auto simp: has_flag_def\<close>)
qed

lemma keeps_flag_display:
  "keeps (users_part (has_flag n b)) (store_do ap (AccountOp (SetDisplayname m d)))"
  unfolding users_part_eq
  by (rule keeps_store_do, simp, rule keeps_call, erule (1) has_flag_display)

lemma keeps_flag_profile: "keeps (web_users (has_flag n b)) (sync_profile oa groups m display)"
  unfolding sync_profile_def populate_groups_def update_user_def update_user_displayname_def
  by (intro keeps_intros keeps_users_store keeps_flag_display)

lemma user_update_flag:
  assumes "user_update gh db n None None (Some b) svc = Inr (e, db')"
  shows "has_flag n b (db_users db')"
proof -
  from assms obtain u where u: "get_user db n = Inr u" and run: "set_user_row db u (\<lambda>u. set_if_some svc
      (\<lambda>x u. u\<lparr>u_is_service_account := x\<rparr>) (u\<lparr>u_is_admin := b\<rparr>)) = Inr (e, db')"
    by (auto simp: user_update_def set_if_some_def)
  from u have one: "filter (\<lambda>x. u_username x = n) (db_users db) = [u]"
    by (simp add: get_user_def query_one_mlflow_Inr)
  have "{x \<in> set (db_users db). u_username x = n} = {u}"
    using arg_cong [OF one, of set] by simp
  then have mem: "u \<in> set (db_users db)" and name: "u_username u = n"
    and only: "\<And>x. x \<in> set (db_users db) \<Longrightarrow> u_username x = n \<Longrightarrow> x = u"
    by auto
  define f where "f = (\<lambda>u :: user. set_if_some svc (\<lambda>x u. u\<lparr>u_is_service_account := x\<rparr>) (u\<lparr>u_is_admin := b\<rparr>))"
  have f: "u_username (f v) = u_username v" "u_is_admin (f v) = b" for v
    by (simp_all add: f_def set_if_some_def split: option.split)
  from run have "db_users db' = set_rows (\<lambda>x. u_id x = u_id u) f (db_users db)"
    unfolding f_def by (auto elim!: set_user_row_Inr)
  moreover have "has_flag n b (set_rows (\<lambda>x. u_id x = u_id u) f (db_users db))"
    by (rule has_flag_set_rows [OF f(1) mem name]) (use f(2) only in auto)
  ultimately show ?thesis by simp
qed

lemma user_create_flag:
  assumes "user_create vu gh db n pw dn b svc = Inr (e, db')"
  shows "has_flag n b (db_users db')"
  using assms by (rule user_create_Inr) (auto simp: has_flag_def image_iff)

lemma store_do_run:
  assumes "store_do ap op a = (r, a')"
  shows "store_run (sv_store (ap_server ap)) op (st_db (as_store a)) = (r, st_db (as_store a'))"
proof -
  obtain q d where run: "store_run (sv_store (ap_server ap)) op (st_db (as_store a)) = (q, d)" by force
  with assms show ?thesis
    by (cases q) (auto simp: store_do_def on_store_state_def store_call_def on_db_def
        wrap_with_cache_flush_def act_bind_def split: if_splits)
qed

lemma call_Inr: "call f s = (Inr (), s') \<Longrightarrow> \<exists>x. f s = Inr (x, s')"
  by (auto simp: call_def act_commit_def result_state_def split: sum.splits)

lemma create_user_flag:
  assumes "create_user ap pw n d b svc a = (Inr x, a')"
  shows "has_flag n b (db_users (st_db (as_store a')))"
proof -
  let ?update = "act_bind (read_db (\<lambda>db. user_get_profile db n))
      (\<lambda>_. store_do ap (AccountOp (UpdateUser n None None (Some b) (Some svc))))"
  obtain r a1 where run: "?update a = (r, a1)" by force
  show ?thesis
  proof (cases r)
    case (Inr y)
    with run assms have a': "a' = a1" by (simp add: create_user_def)
    from run Inr have "store_do ap (AccountOp (UpdateUser n None None (Some b) (Some svc))) a = (Inr (), a1)"
      by (auto simp: act_bind_def read_db_def act_read_def split: sum.splits)
    from call_Inr [OF store_do_run [OF this, simplified]] show ?thesis
      unfolding a' by (auto dest: user_update_flag)
  next
    case (Inl e)
    with run assms have "store_do ap (AccountOp (CreateUser n pw d b svc)) a1 = (Inr (), a')"
      by (auto simp: create_user_def act_map_def act_bind_def act_return_def split: exn.splits sum.splits prod.splits)
    from call_Inr [OF store_do_run [OF this, simplified]] show ?thesis by (auto dest: user_create_flag)
  qed
qed

text \<open>What an action that succeeds establishes, and the next ones keep.\<close>

lemma act_bind_Inr:
  assumes "act_bind m f s = (Inr y, s')"
  obtains x s1 where "m s = (Inr x, s1)" and "f x s1 = (Inr y, s')"
  using assms by (auto simp: act_bind_def split: prod.splits sum.splits)

lemma act_map_Inr:
  assumes "act_map f m s = (Inr y, s')"
  obtains x where "m s = (Inr x, s')" and "y = f x"
  using assms by (auto simp: act_map_def act_return_def elim!: act_bind_Inr)

lemma sync_account_flag:
  assumes "sync_account oa pw access_token userinfo n display s = (Inr [], s')"
    and "detected_groups oa access_token userinfo = Inr groups"
  shows "\<exists>b. any_in (OIDC_ADMIN_GROUP_NAME (oa_config oa)) groups = Inr b \<and>
    has_flag n b (db_users (st_db (as_store (wb_app s'))))"
proof -
  from assms obtain b s1 s2 s3 s4 x where b: "any_in (OIDC_ADMIN_GROUP_NAME (oa_config oa)) groups = Inr b"
    and made: "on_app (create_user (oa_app oa) pw n (case display of Some d \<Rightarrow> d | None \<Rightarrow> []) b False) s1 = (Inr x, s2)"
    and rest: "sync_profile oa groups n display s2 = (Inr (), s3)"
      "assign_workspaces oa access_token userinfo n s3 = (Inr (), s4)" "sync_quota_email oa userinfo n s4 = (Inr (), s')"
    by (auto simp: sync_account_def act_lift_def elim!: act_bind_Inr split: if_splits)
  have "web_users (has_flag n b) s2"
    using made create_user_flag by (fastforce simp: on_part_def users_part_def on_app_def split: prod.splits)
  from keepsD [OF keeps_flag_profile this rest(1)] have "web_users (has_flag n b) s3" .
  from keepsD [OF keeps_users_assign this rest(2)] have "web_users (has_flag n b) s4" .
  from keepsD [OF keeps_users_quota_email this rest(3)] have "web_users (has_flag n b) s'" .
  with b show ?thesis by (auto simp: on_part_def users_part_def)
qed

section \<open>After a callback\<close>

lemma process_exchange:
  fixes rq :: web_request
  assumes "process_oidc_callback oa now password rq s = (Inr (Some u, errors), s')"
  obtains code s1 where "or_text (query_param (http_request.truncate rq) ''code'') None = Some code"
    and "exchange_code oa now password code s1 = (Inr (Some u, errors), s')"
proof (cases rule: process_cases [of oa now password rq s])
  case (1 r)
  with assms show thesis by auto
next
  case 2
  with assms show thesis
    by (auto simp: go_on_def act_bind_def act_except_def pop_session_def on_session_def
        split: option.splits sum.splits prod.splits intro: that)
qed

text \<open>C12: Whoever a callback logs in has an account afterwards, and the account is an administrator's
  exactly when the groups of the token contain an administrators' group: a login both gives the
  flag and takes it away.\<close>

theorem login_sets_admin_flag:
  assumes "callback oa now password rq s = (r, s')"
    and "wb_session s ''username'' = None" and "wb_session s' ''username'' = Some (JString u)"
  shows "\<exists>token userinfo groups b. names_user oa rq u token userinfo groups \<and> allowed_in (oa_config oa) groups \<and>
    any_in (OIDC_ADMIN_GROUP_NAME (oa_config oa)) groups = Inr b \<and>
    has_flag u b (db_users (st_db (as_store (wb_app s'))))"
  using assms(1)
proof (cases rule: callback_cases)
  case 1
  with assms show ?thesis by simp
next
  case (2 q s1 s2)
  with assms process_entry [OF 2(4), of "''username''"] show ?thesis by simp
next
  case (3 v s1 s2)
  have v: "v = u" using assms(3) 3(6) by (simp add: logged_in_def)
  from 3(4) obtain code s3 where code: "or_text (query_param (http_request.truncate rq) ''code'') None = Some code"
    and "exchange_code oa now password code s3 = (Inr (Some u, []), s2)" unfolding v by (rule process_exchange)
  from this(2) show ?thesis
  proof (rule exchange_code_steps)
    fix token userinfo display s4
    assume steps: "idp_has_exchange (oa_idp oa)" "token \<noteq> []"
        "authorize_access_token_with_retry (oa_idp oa) code = Inr token"
        "idp_userinfo (oa_idp oa) token = Inr userinfo" "extract_username (oa_config oa) userinfo = (Some u, None)"
      and sync: "sync_account oa password (dict_get token ''access_token'') userinfo u display s3 = (Inr [], s4)"
      and persist: "persist_session_auth (oa_config oa) now token s4 = (Inr (), s2)"
    from sync_account_allowed [OF sync] obtain groups
      where groups: "detected_groups oa (dict_get token ''access_token'') userinfo = Inr groups"
        "allowed_in (oa_config oa) groups" by blast
    then have names: "names_user oa rq u token userinfo groups" using steps code by (simp add: names_user_def)
    from sync_account_flag [OF sync groups(1)] obtain b where b: "any_in (OIDC_ADMIN_GROUP_NAME (oa_config oa)) groups = Inr b"
      and "has_flag u b (db_users (st_db (as_store (wb_app s4))))" by blast
    then have "web_users (has_flag u b) s4" by (simp add: on_part_def users_part_def)
    from keepsD [OF keeps_users_persist this persist] have "has_flag u b (db_users (st_db (as_store (wb_app s'))))"
      using 3(5) by (simp add: on_part_def users_part_def)
    with names groups(2) b show ?thesis by blast
  qed
qed

lemma display_name_fallback:
  assumes "extract_username cfg userinfo = (Some u, None)"
  obtains d where "extract_display_name cfg userinfo (Some u) = (Some d, None)"
proof (cases rule: extract_field_cases [of userinfo "OIDC_DISPLAY_NAME_FIELD cfg" "''display_name''"])
  case (1 s)
  then show thesis by (intro that [of s]) (simp add: extract_display_name_def)
next
  case (2 e)
  have "u \<noteq> []" using extract_username_name [OF assms] by (auto simp: user_name_def)
  with 2 show thesis by (intro that [of u]) (simp add: extract_display_name_def or_text_def)
qed

lemma names_userinfo: "extract_username cfg userinfo = (Some u, None) \<Longrightarrow> userinfo \<noteq> []"
proof
  assume "extract_username cfg userinfo = (Some u, None)" and "userinfo = []"
  moreover from this have "dict_get userinfo f = JNull" for f by (simp add: dict_get_def)
  ultimately show False by (cases rule: extract_username_cases [of cfg userinfo]) auto
qed

definition refuses :: "oidc_config \<Rightarrow> json \<Rightarrow> bool" where
  "refuses cfg groups \<longleftrightarrow>
     any_in (OIDC_ADMIN_GROUP_NAME cfg) groups = Inr False \<and> any_in (OIDC_GROUP_NAME cfg) groups = Inr False"

lemma revoke_groups_run:
  assumes "db_wf (st_db (as_store (wb_app s)))"
  shows "\<exists>s1. revoke_groups oa n s = (Inr (), s1) \<and> wb_session s1 = wb_session s \<and>
    db_users (st_db (as_store (wb_app s1))) = db_users (st_db (as_store (wb_app s))) \<and>
    (\<forall>g. \<not> member_of (st_db (as_store (wb_app s1))) n g)"
proof (cases "has_user (st_db (as_store (wb_app s))) n")
  case False
  then have "revoke_groups oa n s = (Inr (), s)"
    by (simp add: revoke_groups_def act_bind_def web_read_def on_app_def read_db_def act_when_def)
  moreover have "get_user (st_db (as_store (wb_app s))) n \<noteq> Inr v" for v
    using False get_user_Inr_mem by (fastforce simp: has_user_def user_exist_iff)
  then have "\<not> member_of (st_db (as_store (wb_app s))) n g" for g
    by (cases "get_user (st_db (as_store (wb_app s))) n") (auto simp: member_of_def)
  ultimately show ?thesis by simp
next
  case True
  let ?db = "st_db (as_store (wb_app s))"
  let ?op = "AccountOp (SetUserGroups n [])"
  obtain db' where db': "set_groups_for_user ?db n [] = Inr db'" "\<And>g. \<not> member_of db' n g"
    "db' = ?db\<lparr>db_user_groups := db_user_groups db'\<rparr>"
    using set_groups_for_user_ok [OF assms, of n "[]"] True by (auto simp: has_user_def user_exist_iff)
  obtain q a1 where run: "store_do (oa_app oa) ?op (wb_app s) = (q, a1)" by force
  from store_do_run [OF run] db'(1) have "q = Inr ()" and a1: "st_db (as_store a1) = db'"
    by (simp_all add: act_commit_def)
  with run True have "revoke_groups oa n s = (Inr (), s\<lparr>wb_app := a1\<rparr>)"
    by (simp add: revoke_groups_def act_bind_def web_read_def on_app_def read_db_def act_when_def non_fatal_def
        act_except_def update_user_def)
  with a1 db'(2) show ?thesis by (simp, subst db'(3)) simp
qed

lemma exchange_code_refused:
  fixes rq :: web_request
  assumes "names_user oa rq u token userinfo groups" and "refuses (oa_config oa) groups"
    and "or_text (query_param (http_request.truncate rq) ''code'') None = Some code"
    and "revoke_groups oa u s = (Inr (), s1)"
  shows "exchange_code oa now password code s = (Inr (None, [''User is not allowed to login'']), s1)"
proof -
  have names: "idp_has_exchange (oa_idp oa)" "token \<noteq> []" "authorize_access_token_with_retry (oa_idp oa) code = Inr token"
    "idp_userinfo (oa_idp oa) token = Inr userinfo" "extract_username (oa_config oa) userinfo = (Some u, None)"
    "detected_groups oa (dict_get token ''access_token'') userinfo = Inr groups"
    using assms(1,3) by (auto simp: names_user_def)
  obtain d where d: "extract_display_name (oa_config oa) userinfo (Some u) = (Some d, None)"
    using display_name_fallback [OF names(5)] .
  from names_userinfo [OF names(5)] names d assms(2,4) show ?thesis
    by (auto simp: exchange_code_def act_lift_def act_bind_def act_except_def sync_account_def refuses_def
        act_return_def)
qed

text \<open>C13: Who is in no allowed group any more is refused: the callback answers with the error page, the
  session gets no name and the account loses all groups. But the table of users stays as it is:
  an account that was an administrator's keeps that flag.\<close>

theorem refused_login_keeps_admin_flag:
  assumes "accepts oa rq s st" and "names_user oa rq u token userinfo groups" and "refuses (oa_config oa) groups"
    and "db_wf (st_db (as_store (wb_app s)))"
  shows "\<exists>s'. callback oa now password rq s =
      (Inr (Redirect (build_ui_url rq ''/auth'' [''User is not allowed to login''])), s') \<and>
    wb_session s' ''username'' = wb_session s ''username'' \<and>
    db_users (st_db (as_store (wb_app s'))) = db_users (st_db (as_store (wb_app s))) \<and>
    (\<forall>g. \<not> member_of (st_db (as_store (wb_app s'))) u g)"
proof -
  from assms(2) obtain code where code: "or_text (query_param (http_request.truncate rq) ''code'') None = Some code"
    by (auto simp: names_user_def split: option.splits)
  obtain reg where reg: "is_oidc_configured (oa_config oa) (oa_idp oa) (wb_registered s) = (True, reg)"
    using assms(1) by (cases "is_oidc_configured (oa_config oa) (oa_idp oa) (wb_registered s)") (auto simp: accepts_def)
  let ?s1 = "s\<lparr>wb_registered := reg\<rparr>"
  let ?s2 = "?s1\<lparr>wb_session := (wb_session s)(''oauth_state'' := None)\<rparr>"
  obtain s3 where s3: "revoke_groups oa u ?s2 = (Inr (), s3)" "wb_session s3 = wb_session ?s2"
    "db_users (st_db (as_store (wb_app s3))) = db_users (st_db (as_store (wb_app s)))"
    "\<forall>g. \<not> member_of (st_db (as_store (wb_app s3))) u g"
    using revoke_groups_run [of ?s2 oa u] assms(4) by auto
  have process: "process_oidc_callback oa now password rq ?s1 = (Inr (None, [''User is not allowed to login'']), s3)"
  proof (cases rule: process_cases [of oa now password rq ?s1])
    case (1 r)
    then show ?thesis using assms(1) by (auto simp: accepts_def)
  next
    case 2
    with exchange_code_refused [OF assms(2,3) code s3(1)] code show ?thesis
      by (simp add: act_bind_def pop_session_def on_session_def go_on_def act_except_def)
  qed
  then have "callback oa now password rq s =
      (Inr (Redirect (build_ui_url rq ''/auth'' [''User is not allowed to login''])), s3)"
    by (simp add: callback_def or_http_def act_bind_def check_configured_def reg act_return_def)
  with s3 show ?thesis by simp
qed

section \<open>A login that is due succeeds\<close>

lemma user_update_succeeds:
  assumes "db_wf db" and "n \<in> u_username ` set (db_users db)"
  shows "\<exists>r. user_update gh db n None None (Some b) svc = Inr r"
proof -
  from assms(2) obtain u where u: "get_user db n = Inr u" using get_user_Inr [OF assms(1)] by auto
  define f where "f = (\<lambda>u :: user. set_if_some svc (\<lambda>x u. u\<lparr>u_is_service_account := x\<rparr>) (u\<lparr>u_is_admin := b\<rparr>))"
  have "u_username (f v) = u_username v" for v by (simp add: f_def set_if_some_def split: option.split)
  then have "map u_username (set_rows (\<lambda>x. u_id x = u_id u) f (db_users db)) = map u_username (db_users db)"
    by (intro set_rows_map_same)
  moreover have "distinct (map u_username (db_users db))" using db_wf_keys(1) [OF assms(1)] by (simp add: table_ok_def)
  ultimately have "update_rows u_username (\<lambda>x. u_id x = u_id u) f (db_users db) =
      Inr (set_rows (\<lambda>x. u_id x = u_id u) f (db_users db))"
    by (simp add: update_rows_Inr)
  with u show ?thesis by (auto simp: user_update_def set_user_row_def Let_def set_if_some_def f_def)
qed

lemma user_create_succeeds:
  assumes "n \<notin> u_username ` set (db_users db)" and "vu n"
  shows "\<exists>r. user_create vu gh db n pw dn b svc = Inr r"
  using assms by (auto simp: user_create_def Let_def insert_row_def)

lemma store_do_succeeds:
  assumes "store_run (sv_store (ap_server ap)) op (st_db (as_store a)) = (Inr (), d)"
  shows "\<exists>a'. store_do ap op a = (Inr (), a')"
proof -
  obtain q a' where run: "store_do ap op a = (q, a')" by force
  from store_do_run [OF run] assms have "q = Inr ()" by simp
  with run show ?thesis by blast
qed

lemma create_user_succeeds:
  assumes "db_wf (st_db (as_store a))" and "se_valid_username (sv_store (ap_server ap)) n"
  shows "\<exists>x a'. create_user ap pw n d b svc a = (Inr x, a')"
proof (cases "n \<in> u_username ` set (db_users (st_db (as_store a)))")
  case True
  then obtain r where "user_update (se_password_hash (sv_store (ap_server ap))) (st_db (as_store a)) n None None (Some b) (Some svc) = Inr r"
    using user_update_succeeds [OF assms(1)] by blast
  then have "\<exists>d. store_run (sv_store (ap_server ap)) (AccountOp (UpdateUser n None None (Some b) (Some svc)))
      (st_db (as_store a)) = (Inr (), d)"
    by (cases r) (simp add: call_def act_commit_def result_state_def)
  then obtain a' where "store_do ap (AccountOp (UpdateUser n None None (Some b) (Some svc))) a = (Inr (), a')"
    using store_do_succeeds by blast
  moreover obtain u where "get_user (st_db (as_store a)) n = Inr u" using True get_user_Inr [OF assms(1)] by auto
  ultimately show ?thesis
    by (simp add: create_user_def act_bind_def read_db_def user_get_profile_def user_get_row_eq [OF assms(1)]) blast
next
  case False
  then obtain e where "get_user (st_db (as_store a)) n = Inl e" using get_user_Inr_mem
    by (cases "get_user (st_db (as_store a)) n") force+
  then have none: "get_user (st_db (as_store a)) n = Inl (MlflowException RESOURCE_DOES_NOT_EXIST)"
    using get_user_Inl [OF assms(1)] by simp
  obtain r where "user_create (se_valid_username (sv_store (ap_server ap))) (se_password_hash (sv_store (ap_server ap)))
      (st_db (as_store a)) n pw d b svc = Inr r"
    using user_create_succeeds [OF False, of "se_valid_username (sv_store (ap_server ap))"] assms(2) by blast
  then have "\<exists>d'. store_run (sv_store (ap_server ap)) (AccountOp (CreateUser n pw d b svc)) (st_db (as_store a)) = (Inr (), d')"
    by (cases r) (simp add: call_def act_commit_def result_state_def)
  then obtain a' where "store_do ap (AccountOp (CreateUser n pw d b svc)) a = (Inr (), a')"
    using store_do_succeeds by blast
  then show ?thesis
    by (simp add: create_user_def act_bind_def read_db_def user_get_profile_def user_get_row_eq [OF assms(1)] none
        act_map_def) blast
qed

lemma non_fatal_run: "\<exists>s'. non_fatal m s = (Inr (), s')"
  by (cases "m s"; cases "fst (m s)") (auto simp: non_fatal_def act_except_def)

lemma keeps_wf_migrate: "keeps (on_part wb_app (db_part db_wf)) (migrate_user oa userinfo n)"
proof -
  have "keeps (db_part db_wf) (store_do ap (AccountOp (RenameUser a b)))" for ap a b
    by (rule keeps_store_do, simp, rule keeps_call, erule (1) user_rename_username_wf)
  then show ?thesis unfolding migrate_user_def rename_user_def
    by (auto simp: Let_def split: list.split json.split intro!: keeps_intros)
qed

lemma migrate_user_run: "\<exists>s'. migrate_user oa userinfo n s = (Inr (), s')"
  using non_fatal_run
  by (auto simp: migrate_user_def Let_def act_bind_def web_read_def on_app_def read_db_def act_when_def
      act_return_def split: list.split json.split)

lemma sync_tail_run:
  "\<exists>s'. sync_profile oa groups n display s = (Inr (), s')"
  "\<exists>s'. assign_workspaces oa access_token userinfo n s = (Inr (), s')"
  "\<exists>s'. sync_quota_email oa userinfo n s = (Inr (), s')"
  using non_fatal_run by (auto simp: sync_profile_def assign_workspaces_def sync_quota_email_def Let_def act_when_def act_return_def)

lemma sync_account_succeeds:
  assumes "db_wf (st_db (as_store (wb_app s)))" and "se_valid_username (sv_store (ap_server (oa_app oa))) n"
    and "detected_groups oa access_token userinfo = Inr groups"
    and "any_in (OIDC_ADMIN_GROUP_NAME (oa_config oa)) groups = Inr b"
    and "b \<or> any_in (OIDC_GROUP_NAME (oa_config oa)) groups = Inr True"
  shows "\<exists>s'. sync_account oa pw access_token userinfo n display s = (Inr [], s')"
proof -
  obtain s1 where s1: "migrate_user oa userinfo n s = (Inr (), s1)" using migrate_user_run by blast
  have "db_wf (st_db (as_store (wb_app s1)))"
    using keepsD [OF keeps_wf_migrate _ s1] assms(1) by (simp add: on_part_def db_part_def)
  from create_user_succeeds [OF this assms(2)] obtain x a
    where a: "create_user (oa_app oa) pw n (case display of Some d \<Rightarrow> d | None \<Rightarrow> []) b False (wb_app s1) = (Inr x, a)"
    by blast
  obtain s3 where s3: "sync_profile oa groups n display (s1\<lparr>wb_app := a\<rparr>) = (Inr (), s3)" using sync_tail_run by blast
  obtain s4 where s4: "assign_workspaces oa access_token userinfo n s3 = (Inr (), s4)" using sync_tail_run by blast
  obtain s5 where s5: "sync_quota_email oa userinfo n s4 = (Inr (), s5)" using sync_tail_run by blast
  have "(if b then Inr True else any_in (OIDC_GROUP_NAME (oa_config oa)) groups) = Inr True" using assms(5) by auto
  then show ?thesis using assms(3,4) s1 a s3 s4 s5
    by (simp add: sync_account_def act_lift_def act_bind_def on_app_def act_return_def)
qed

lemma persist_run:
  assumes "extract_session_expiry now token = Inr expiry"
  shows "\<exists>s'. persist_session_auth cfg now token s = (Inr (), s')"
  using assms
  by (auto simp: persist_session_auth_def act_bind_def act_lift_def put_session_def pop_session_def on_session_def
      act_when_def act_return_def split: option.split)

text \<open>C11: A callback with the state that the session waits for, and a code whose token names somebody in an
  allowed group, logs that user in: nothing but a name the store does not accept or a token
  without a readable expiry can prevent it. What goes wrong in moving the account, its groups,
  workspaces and address does not.\<close>

theorem allowed_login_succeeds:
  assumes "accepts oa rq s st" and "names_user oa rq u token userinfo groups"
    and "any_in (OIDC_ADMIN_GROUP_NAME (oa_config oa)) groups = Inr b"
    and "b \<or> any_in (OIDC_GROUP_NAME (oa_config oa)) groups = Inr True"
    and "db_wf (st_db (as_store (wb_app s)))" and "se_valid_username (sv_store (ap_server (oa_app oa))) u"
    and "extract_session_expiry now token = Inr expiry"
  shows "\<exists>page s'. callback oa now password rq s = (Inr (Redirect page), s') \<and>
    wb_session s' ''username'' = Some (JString u) \<and> wb_session s' ''authenticated'' = Some (JBool True) \<and>
    wb_session s' ''oauth_state'' = None"
proof -
  from assms(2) obtain code where code: "or_text (query_param (http_request.truncate rq) ''code'') None = Some code"
    by (auto simp: names_user_def split: option.splits)
  with assms(2) have names: "idp_has_exchange (oa_idp oa)" "token \<noteq> []"
    "authorize_access_token_with_retry (oa_idp oa) code = Inr token" "idp_userinfo (oa_idp oa) token = Inr userinfo"
    "extract_username (oa_config oa) userinfo = (Some u, None)"
    "detected_groups oa (dict_get token ''access_token'') userinfo = Inr groups"
    by (auto simp: names_user_def)
  have u: "u \<noteq> []" using extract_username_name [OF names(5)] by (auto simp: user_name_def)
  have userinfo: "userinfo \<noteq> []" using names_userinfo [OF names(5)] .
  obtain d where d: "extract_display_name (oa_config oa) userinfo (Some u) = (Some d, None)"
    using display_name_fallback [OF names(5)] .
  obtain reg where reg: "is_oidc_configured (oa_config oa) (oa_idp oa) (wb_registered s) = (True, reg)"
    using assms(1) by (cases "is_oidc_configured (oa_config oa) (oa_idp oa) (wb_registered s)") (auto simp: accepts_def)
  let ?s1 = "s\<lparr>wb_registered := reg\<rparr>"
  let ?s2 = "?s1\<lparr>wb_session := (wb_session s)(''oauth_state'' := None)\<rparr>"
  obtain s3 where s3: "sync_account oa password (dict_get token ''access_token'') userinfo u (Some d) ?s2 = (Inr [], s3)"
    using sync_account_succeeds [OF _ assms(6) names(6) assms(3,4), of ?s2] assms(5) by auto
  obtain s4 where s4: "persist_session_auth (oa_config oa) now token s3 = (Inr (), s4)"
    using persist_run [OF assms(7)] by blast
  have exchange: "exchange_code oa now password code ?s2 = (Inr (Some u, []), s4)"
    using names userinfo d s3 s4 by (simp add: exchange_code_def act_lift_def act_bind_def act_except_def act_return_def)
  have process: "process_oidc_callback oa now password rq ?s1 = (Inr (Some u, []), s4)"
  proof (cases rule: process_cases [of oa now password rq ?s1])
    case (1 r)
    then show ?thesis using assms(1) by (auto simp: accepts_def)
  next
    case 2
    with exchange code show ?thesis
      by (simp add: act_bind_def pop_session_def on_session_def go_on_def act_except_def)
  qed
  obtain r s' where run: "callback oa now password rq s = (r, s')" by force
  then have r: "\<exists>page. r = Inr (Redirect page)" and name: "wb_session s' ''username'' = Some (JString u)"
    and auth: "wb_session s' ''authenticated'' = Some (JBool True)"
    using process u
    by (auto simp: callback_def or_http_def act_bind_def check_configured_def reg or_text_def put_session_def
        on_session_def pop_session_def act_return_def session_event_def on_app_def emit_audit_event_def)
  from r name auth run accepted_state_is_gone [OF run assms(1)] show ?thesis by auto
qed

section \<open>Where a callback leads\<close>

lemma or_http_Inr: "or_http n m s = (Inr x, s') \<Longrightarrow> m s = (Inr x, s')"
  by (auto simp: or_http_def split: prod.splits sum.splits exn.splits)

lemma session_event_session: "session_event oa ev actor detail s = (x, s') \<Longrightarrow> wb_session s' = wb_session s"
  using session_event_run [of oa ev actor detail s] by auto

text \<open>Where a redirect may lead: to a path, which begins with one slash and has no line break, or to
  the server's own base URL or a path below it.\<close>

definition own_target :: "string \<Rightarrow> string \<Rightarrow> bool" where
  "own_target base url \<longleftrightarrow> local_path url \<or> url = base \<or> starts_with (base @ ''/'') url"

lemma build_ui_url_own: "own_target (rstrip_slash (wr_base_url rq)) (build_ui_url rq path errors)"
  by (simp add: own_target_def build_ui_url_def starts_with_def UI_ROUTER_PREFIX_def)

lemma landing_page_own:
  assumes "session_ok cfg session"
  shows "own_target (rstrip_slash (wr_base_url rq)) (landing_page oa rq (session_get session ''redirect_after_login''))"
proof (cases "session ''redirect_after_login''")
  case None
  then show ?thesis using build_ui_url_own [of rq "''/user''" "[]"]
    by (auto simp: session_get_def landing_page_def own_target_def)
next
  case (Some v)
  then have "entry_ok cfg ''redirect_after_login'' v" using assms by (simp add: session_ok_def)
  then obtain p where "v = JString p" "local_path p" by (auto simp: entry_ok_def split: json.splits)
  with Some show ?thesis using build_ui_url_own [of rq "''/user''" "[]"]
    by (auto simp: session_get_def landing_page_def py_str_def own_target_def)
qed

lemma callback_target:
  assumes "callback oa now password rq s = (Inr response, s')" and "session_ok (oa_config oa) (wb_session s)"
  shows "\<exists>url. response = Redirect url \<and> own_target (rstrip_slash (wr_base_url rq)) url"
proof -
  let ?finish = "\<lambda>email errors.
    if errors \<noteq> [] then act_return (Redirect (build_ui_url rq ''/auth'' errors))
    else case or_text email None of
      None \<Rightarrow> act_raise (HTTPException 401)
    | Some email \<Rightarrow>
        act_bind (put_session ''username'' (JString email)) (\<lambda>_.
        act_bind (put_session ''authenticated'' (JBool True)) (\<lambda>_.
        act_bind (session_event oa ''auth.login'' (JString email) [(''method'', JString ''oidc'')]) (\<lambda>_.
        act_bind (\<lambda>s. (Inr (session_get (wb_session s) ''redirect_after_login''), s)) (\<lambda>target.
        act_bind (pop_session ''redirect_after_login'') (\<lambda>_.
        act_return (Redirect (landing_page oa rq target)))))))"
  have errors: "\<exists>url. Redirect (build_ui_url rq path es) = Redirect url \<and>
      own_target (rstrip_slash (wr_base_url rq)) url" for path es
    by (simp add: build_ui_url_own)
  from or_http_Inr [OF assms(1) [unfolded callback_def]] show ?thesis
  proof (elim act_bind_Inr)
    fix ok s1
    assume check: "check_configured oa s = (Inr ok, s1)"
      and run: "(if \<not> ok then act_return (Redirect (build_ui_url rq ''/auth'' [''OIDC authentication not available - configuration error'']))
          else act_bind (process_oidc_callback oa now password rq) (\<lambda>(email, errors). ?finish email errors)) s1 = (Inr response, s')"
    have s1: "web_ok oa s1" using check assms(2) by (auto simp: check_configured_def on_part_def split: prod.splits)
    show ?thesis
    proof (cases ok)
      case False
      with run show ?thesis using errors by auto
    next
      case True
      with run obtain email es s2 where process: "process_oidc_callback oa now password rq s1 = (Inr (email, es), s2)"
        and rest: "?finish email es s2 = (Inr response, s')"
        by (auto elim!: act_bind_Inr)
      have s2: "session_ok (oa_config oa) (wb_session s2)"
        using keepsD [OF keeps_web_process s1 process] by (simp add: on_part_def)
      have "\<exists>es. response = Redirect (build_ui_url rq ''/auth'' es)
        \<or> response = Redirect (landing_page oa rq (session_get (wb_session s2) ''redirect_after_login''))"
        using rest
        by (auto simp: act_bind_def put_session_def on_session_def pop_session_def act_return_def session_get_def
            split: if_splits option.splits prod.splits sum.splits dest: session_event_session)
      then show ?thesis using errors landing_page_own [OF s2] by blast
    qed
  qed
qed

text \<open>C40: Whatever the logins were asked to go to and whatever cookie of the server a callback comes
  with, a callback that answers redirects the browser to a path (a text that begins with one slash, not
  with two, and has no line break), to the server's own base URL, or to a path below that. A path may
  begin with a slash and a backslash, which browsers take for two slashes.\<close>

theorem callback_redirects_locally:
  assumes "cookie_run oa server requests (srv, cookies)" and "cookie \<in> cookies"
    and "callback oa now password rq (srv\<lparr>wb_session := cookie\<rparr>) = (Inr response, srv')"
  shows "\<exists>url. response = Redirect url \<and> own_target (rstrip_slash (wr_base_url rq)) url"
  using callback_target [OF assms(3)] cookies_well_formed [OF assms(1)] assms(2) by simp

section \<open>A login, step by step\<close>

definition example_config :: oidc_config where
  "example_config =
     \<lparr>OIDC_DISCOVERY_URL = Some ''https://idp/'', OIDC_CLIENT_ID = Some ''c'', OIDC_CLIENT_SECRET = Some ''s'',
      OIDC_SCOPE = Some ''openid'', OIDC_AUDIENCE = None, OIDC_REDIRECT_URI = None,
      OIDC_PROVIDER_DISPLAY_NAME = ''Login'', OIDC_USERNAME_FIELD = [''preferred_username'', ''email''],
      OIDC_DISPLAY_NAME_FIELD = [''name''], OIDC_GROUPS_ATTRIBUTE = ''groups'', OIDC_GROUP_NAME = [''devs''],
      OIDC_ADMIN_GROUP_NAME = [''admins''], OIDC_GROUP_DETECTION_PLUGIN = None,
      OIDC_WORKSPACE_CLAIM_NAME = ''workspace'', OIDC_WORKSPACE_DETECTION_PLUGIN = None,
      OIDC_WORKSPACE_DEFAULT_PERMISSION = ''READ'', OIDC_USE_REFRESH_TOKEN = False,
      OIDC_SESSION_EXPIRY_LEEWAY_SECONDS = 60, DEFAULT_LANDING_PAGE_IS_PERMISSIONS = True,
      AUTOMATIC_LOGIN_REDIRECT = False\<rparr>"

text \<open>A provider that takes a name for a code; only carol is in a group.\<close>

definition example_token :: "string \<Rightarrow> dict" where
  "example_token code = [(''access_token'', JString code), (''expires_at'', JNumber 1000)]"

definition example_userinfo :: "string \<Rightarrow> dict" where
  "example_userinfo code =
     [(''preferred_username'', JString code),
      (''groups'', JArray (if code = ''Carol'' then [JString ''devs'', JString ''staff''] else [JString ''staff'']))]"

definition example_idp :: idp where
  "example_idp =
     \<lparr>idp_get_json = (\<lambda>_. Inl OtherError), idp_jwt = (\<lambda>_ _ _. InvalidToken), idp_registers = True,
      idp_has_exchange = True, idp_exchange = (\<lambda>_ code. Inr (example_token code)),
      idp_userinfo = (\<lambda>token. case dict_get token ''access_token'' of JString c \<Rightarrow> Inr (example_userinfo c) | _ \<Rightarrow> Inl OtherError),
      idp_refresh = None, idp_authorize_url = Some (\<lambda>url st. Inr (''https://idp/?state='' @ st)),
      idp_metadata = None, idp_user_groups = (\<lambda>_ _. Inl OtherError), idp_user_workspaces = (\<lambda>_ _. Inl OtherError),
      idp_workspace_exists = None\<rparr>"

definition example_oidc :: oidc_app where
  "example_oidc =
     \<lparr>oa_app = example_app, oa_config = example_config, oa_idp = example_idp,
      oa_check_password = (\<lambda>stored given. stored = given)\<rparr>"

definition example_web :: "session \<Rightarrow> web_state" where
  "example_web session =
     \<lparr>wb_session = session, wb_app = example_app_state, wb_created = [], wb_registered = False, wb_jwks = None\<rparr>"

definition browser_request :: "string \<Rightarrow> (string \<times> string) list \<Rightarrow> web_request" where
  "browser_request path query =
     \<lparr>hr_path = path, hr_method = ''GET'', hr_headers = [], hr_query = query, hr_path_params = [],
      hr_json = None, hr_state_username = None, hr_state_is_admin = False,
      hr_session_username = Inl OtherError, hr_workspace = None, hr_root_path = '''', hr_base_path = ''/'',
      wr_scheme = ''https'', wr_netloc = ''mlflow.example'', wr_query_string = '''',
      wr_base_url = ''https://mlflow.example/''\<rparr>"

definition login_request :: web_request where
  "login_request = browser_request ''/login'' [(''next'', ''/models'')]"

definition callback_request :: "string \<Rightarrow> web_request" where
  "callback_request code = browser_request ''/callback'' [(''state'', ''xyz''), (''code'', code)]"

definition waiting :: web_state where
  "waiting = snd (login example_oidc ''xyz'' login_request (example_web (\<lambda>_. None)))"

definition after_callback :: "string \<Rightarrow> web_state" where
  "after_callback code = snd (callback example_oidc 10 ''pw'' (callback_request code) waiting)"

lemma example_run:
  "web_run example_oidc (example_web (\<lambda>_. None))
     [(waiting, Callback 10 ''pw'' (callback_request code)), (example_web (\<lambda>_. None), Login ''xyz'' login_request)]
     (after_callback code)"
  unfolding waiting_def after_callback_def
  by (intro web_run.start web_run.event web_step.login web_step.callback)
    (rule prod.collapse [symmetric])+

lemma example_facts:
  "wb_session (after_callback ''Carol'') ''username'' = Some (JString ''carol'')"
  "wb_session waiting ''oauth_state'' = Some (JString ''xyz'')"
  "wb_session waiting ''username'' = None"
  "fst (is_oidc_configured example_config example_idp (wb_registered waiting))"
  "names_user example_oidc (callback_request ''Carol'') ''carol'' (example_token ''Carol'') (example_userinfo ''Carol'')
     (JArray [JString ''devs'', JString ''staff''])"
  "names_user example_oidc (callback_request ''Bob'') ''bob'' (example_token ''Bob'') (example_userinfo ''Bob'')
     (JArray [JString ''staff''])"
  by code_simp+

lemma waiting_db: "st_db (as_store (wb_app waiting)) = example_db"
proof -
  have "keeps (on_part wb_app (\<lambda>a. a = example_app_state)) (login example_oidc ''xyz'' login_request)"
    unfolding login_def Let_def by (intro keeps_intros)
  then have "wb_app waiting = example_app_state" unfolding waiting_def keeps_def by (simp add: on_part_def example_web_def)
  then show ?thesis by (simp add: example_app_state_def)
qed

lemma example_web_wf: "db_wf (st_db (as_store (wb_app waiting)))"
  by (simp add: waiting_db example_db_wf)

theorem sessions_stay_well_formed_witness:
  "session_ok example_config (wb_session (after_callback ''Carol''))"
  using sessions_stay_well_formed [OF example_run, of "''Carol''"] by (simp add: example_web_def example_oidc_def)

theorem session_user_was_granted_witness:
  "grants example_oidc (callback_request ''Carol'') waiting ''carol''"
  using session_user_was_granted [OF example_run _ example_facts(1)]
  by (auto simp: example_web_def Cons_eq_append_conv)

theorem allowed_login_succeeds_witness:
  "\<exists>page s'. callback example_oidc 10 ''pw'' (callback_request ''Carol'') waiting = (Inr (Redirect page), s') \<and>
    wb_session s' ''username'' = Some (JString ''carol'')"
proof -
  have "accepts example_oidc (callback_request ''Carol'') waiting ''xyz''"
    using example_facts(2,4) by (simp add: accepts_def state_matches_def example_oidc_def callback_request_def
        browser_request_def query_param_def or_text_def http_request.defs)
  from allowed_login_succeeds [OF this example_facts(5) _ _ example_web_wf,
      where b = False and now = 10 and password = "''pw''" and expiry = "Some 1000"]
  have "any_in (OIDC_ADMIN_GROUP_NAME (oa_config example_oidc)) (JArray [JString ''devs'', JString ''staff'']) = Inr False \<Longrightarrow>
      any_in (OIDC_GROUP_NAME (oa_config example_oidc)) (JArray [JString ''devs'', JString ''staff'']) = Inr True \<Longrightarrow>
      se_valid_username (sv_store (ap_server (oa_app example_oidc))) ''carol'' \<Longrightarrow>
      extract_session_expiry 10 (example_token ''Carol'') = Inr (Some 1000) \<Longrightarrow> ?thesis" by blast
  moreover have "any_in (OIDC_ADMIN_GROUP_NAME (oa_config example_oidc)) (JArray [JString ''devs'', JString ''staff'']) = Inr False"
    "any_in (OIDC_GROUP_NAME (oa_config example_oidc)) (JArray [JString ''devs'', JString ''staff'']) = Inr True"
    "se_valid_username (sv_store (ap_server (oa_app example_oidc))) ''carol''"
    "extract_session_expiry 10 (example_token ''Carol'') = Inr (Some 1000)"
    by code_simp+
  ultimately show ?thesis by blast
qed

theorem login_sets_admin_flag_witness:
  "\<exists>b. has_flag ''carol'' b (db_users (st_db (as_store (wb_app (after_callback ''Carol'')))))"
proof -
  obtain r where "callback example_oidc 10 ''pw'' (callback_request ''Carol'') waiting = (r, after_callback ''Carol'')"
    unfolding after_callback_def by (metis prod.collapse)
  from login_sets_admin_flag [OF this example_facts(3,1)] show ?thesis by blast
qed

theorem refused_login_keeps_admin_flag_witness:
  "\<exists>s'. callback example_oidc 10 ''pw'' (callback_request ''Bob'') waiting =
      (Inr (Redirect (build_ui_url (callback_request ''Bob'') ''/auth'' [''User is not allowed to login''])), s') \<and>
    db_users (st_db (as_store (wb_app s'))) = db_users example_db \<and> (\<exists>u \<in> set (db_users example_db). u_username u = ''bob'' \<and> u_is_admin u)"
proof -
  have accepts: "accepts example_oidc (callback_request ''Bob'') waiting ''xyz''"
    using example_facts(2,4) by (simp add: accepts_def state_matches_def example_oidc_def callback_request_def
        browser_request_def query_param_def or_text_def http_request.defs)
  have refuses: "refuses (oa_config example_oidc) (JArray [JString ''staff''])" by code_simp
  have "\<exists>u \<in> set (db_users example_db). u_username u = ''bob'' \<and> u_is_admin u" by code_simp
  with refused_login_keeps_admin_flag [OF accepts example_facts(6) refuses example_web_wf,
      where now = 10 and password = "''pw''"] waiting_db
  show ?thesis by auto
qed

lemma example_cookies:
  "cookie_run example_oidc (example_web (\<lambda>_. None)) [(example_web (\<lambda>_. None), Login ''xyz'' login_request)]
     (waiting, {wb_session waiting, \<lambda>_. None})"
proof -
  have same: "(example_web (\<lambda>_. None))\<lparr>wb_session := (\<lambda>_. None)\<rparr> = example_web (\<lambda>_. None)"
    by (simp add: example_web_def)
  have "web_step example_oidc ((example_web (\<lambda>_. None))\<lparr>wb_session := (\<lambda>_. None)\<rparr>) (Login ''xyz'' login_request) waiting"
    unfolding waiting_def same by (rule web_step.login) (rule prod.collapse [symmetric])
  from cookie_run.event [OF cookie_run.start cookie_step.present [OF _ this]]
  show ?thesis by (simp add: same)
qed

lemma accepts_xyz: "accepts example_oidc (callback_request code) waiting ''xyz''"
  using example_facts(2,4) by (simp add: accepts_def state_matches_def example_oidc_def callback_request_def
      browser_request_def query_param_def or_text_def http_request.defs)

lemma waiting_same: "waiting\<lparr>wb_session := wb_session waiting\<rparr> = waiting"
  by simp

theorem callback_redirects_locally_witness:
  "\<exists>url s'. callback example_oidc 10 ''pw'' (callback_request ''Carol'') waiting = (Inr (Redirect url), s') \<and>
    own_target ''https://mlflow.example'' url"
proof -
  have "\<exists>x. fst (callback example_oidc 10 ''pw'' (callback_request ''Carol'') waiting) = Inr x"
    by (rule exI [of _ "Redirect ''/models''"]) code_simp
  then obtain x s' where run: "callback example_oidc 10 ''pw'' (callback_request ''Carol'')
      (waiting\<lparr>wb_session := wb_session waiting\<rparr>) = (Inr x, s')"
    unfolding waiting_same by (metis prod.collapse)
  have "rstrip_slash (wr_base_url (callback_request ''Carol'')) = ''https://mlflow.example''" by code_simp
  with callback_redirects_locally [OF example_cookies _ run] run show ?thesis by auto
qed

text \<open>Bob presents the cookie that his login set, is refused, and presents it again with the same state.\<close>

theorem state_is_used_once_per_chain_witness:
  "\<exists>chain s'. chain_to example_oidc (example_web (\<lambda>_. None))
      [(waiting, Callback 10 ''pw'' (callback_request ''Bob'')), (example_web (\<lambda>_. None), Login ''xyz'' login_request)]
      (wb_session (after_callback ''Bob'')) chain s'"
proof -
  have "web_step example_oidc (waiting\<lparr>wb_session := wb_session waiting\<rparr>) (Callback 10 ''pw'' (callback_request ''Bob''))
      (after_callback ''Bob'')"
    unfolding after_callback_def waiting_same by (rule web_step.callback) (rule prod.collapse [symmetric])
  from cookie_run.event [OF example_cookies cookie_step.present [OF _ this]]
  have "cookie_run example_oidc (example_web (\<lambda>_. None))
      [(waiting, Callback 10 ''pw'' (callback_request ''Bob'')), (example_web (\<lambda>_. None), Login ''xyz'' login_request)]
      (after_callback ''Bob'', {wb_session (after_callback ''Bob''), wb_session waiting, \<lambda>_. None})"
    by simp
  from state_is_used_once_per_chain [OF this, of "wb_session (after_callback ''Bob'')"] show ?thesis by blast
qed

theorem kept_cookie_accepts_again_witness:
  "accepts example_oidc (callback_request ''Bob'') ((after_callback ''Bob'')\<lparr>wb_session := wb_session waiting\<rparr>) ''xyz''"
proof -
  have run: "callback example_oidc 10 ''pw'' (callback_request ''Bob'') (waiting\<lparr>wb_session := wb_session waiting\<rparr>) =
      (fst (callback example_oidc 10 ''pw'' (callback_request ''Bob'') waiting), after_callback ''Bob'')"
    unfolding waiting_same after_callback_def by (rule prod.collapse [symmetric])
  have "fst (is_oidc_configured (oa_config example_oidc) (oa_idp example_oidc) (wb_registered (after_callback ''Bob'')))"
    by code_simp
  from kept_cookie_accepts_again [OF example_cookies _ _ run this] show ?thesis
    using accepts_xyz [of "''Bob''"] by (simp add: waiting_same)
qed

text \<open>A path that begins with a slash and a backslash passes as one of this server. Browsers read the
  backslash as a second slash, which names another host.\<close>

lemma sanitize_next_backslash:
  "sanitize_next (Some (''/'' @ [CHR 0x5C] @ ''evil.example'')) = Some (''/'' @ [CHR 0x5C] @ ''evil.example'')"
  by code_simp

end
