(* ===== verification/RequestProperties.thy ===== *)
theory RequestProperties
  imports LoginProperties
begin

text \<open>
  Requests from the browser to Flask and to the routes beside it: who is taken for their user, and
  what that user must be allowed to do.
\<close>

section \<open>Basic credentials\<close>

definition basic_header :: "string \<Rightarrow> string \<Rightarrow> string" where
  "basic_header username password = ''Basic '' @ b64encode (utf8_encode (username @ CHR '':'' # password))"

text \<open>The header of basic authentication is read back: any name without a colon and any password that
  a client encodes are the ones that are checked.\<close>

theorem basic_credentials_round_trip:
  assumes "CHR '':'' \<notin> set username"
  shows "basic_credentials (basic_header username password) = Some (username, password)"
proof -
  let ?bytes = "utf8_encode (username @ CHR '':'' # password)"
  have "''Basic '' @ b64encode ?bytes = ''Basic'' @ CHR '' '' # b64encode ?bytes" by simp
  then have "split_once (CHR '' '') (basic_header username password) = Some (''Basic'', b64encode ?bytes)"
    unfolding basic_header_def by (simp only:) (rule split_once_append, simp)
  moreover have "b64decode (b64encode ?bytes) = Some ?bytes" by (rule b64_round_trip) (rule utf8_bytes)
  ultimately show ?thesis by (simp add: basic_credentials_def split_once_append [OF assms])
qed

theorem basic_credentials_round_trip_witness:
  "basic_credentials (basic_header ''alice'' ''a:b'') = Some (''alice'', ''a:b'')"
  using basic_credentials_round_trip [of "''alice''" "''a:b''"] by simp

section \<open>Who is taken for the user\<close>

text \<open>The three ways to be somebody: basic credentials that the database knows, a bearer token
  whose claims a key set verifies that is cached or that the provider serves, and a session that is
  not over or could be refreshed.\<close>

definition by_basic :: "oidc_app \<Rightarrow> db \<Rightarrow> string \<Rightarrow> string \<Rightarrow> bool" where
  "by_basic oa db h u \<longleftrightarrow>
     starts_with ''Basic '' h \<and>
     (\<exists>name password. basic_credentials h = Some (name, password) \<and> u = py_lower name \<and>
        authenticate (oa_check_password oa) (se_now (sv_store (ap_server (oa_app oa)))) db u password)"

definition by_bearer :: "oidc_app \<Rightarrow> json option \<Rightarrow> string \<Rightarrow> string \<Rightarrow> bool" where
  "by_bearer oa cached h u \<longleftrightarrow>
     starts_with ''Bearer '' h \<and>
     (\<exists>start token jwks payload. split_once (CHR '' '') h = Some (start, token) \<and>
        (cached = Some jwks \<or> provider_keys (oa_config oa) (oa_idp oa) jwks) \<and>
        decode_token (oa_config oa) (oa_idp oa) token jwks = Claims payload \<and>
        extract_username (oa_config oa) payload = (Some u, None))"

definition by_session :: "oidc_app \<Rightarrow> rat \<Rightarrow> web_state \<Rightarrow> string \<Rightarrow> bool" where
  "by_session oa now s u \<longleftrightarrow>
     wb_session s ''username'' = Some (JString u) \<and>
     (\<not> is_session_expired (oa_config oa) now (wb_session s) \<or>
      fst (refresh_session_with_idp oa now s) = Inr True)"

definition authentic :: "oidc_app \<Rightarrow> rat \<Rightarrow> 'a http_request_scheme \<Rightarrow> web_state \<Rightarrow> string \<Rightarrow> bool" where
  "authentic oa now rq s u \<longleftrightarrow>
     (case or_text (header rq ''authorization'') None of
        Some h \<Rightarrow> by_basic oa (st_db (as_store (wb_app s))) h u \<or> by_bearer oa (wb_jwks s) h u \<or>
          \<not> starts_with ''Basic '' h \<and> \<not> starts_with ''Bearer '' h \<and> by_session oa now s u
      | None \<Rightarrow> by_session oa now s u)"

lemma authenticate_basic_authentic:
  "starts_with ''Basic '' h \<Longrightarrow> authenticate_basic_auth oa db h = Some u \<Longrightarrow> by_basic oa db h u"
  by (auto simp: authenticate_basic_auth_def by_basic_def split: option.splits if_splits)

lemma authenticate_bearer_authentic:
  assumes "starts_with ''Bearer '' h" and "authenticate_bearer_token oa h s = (Some u, s')"
  shows "by_bearer oa (wb_jwks s) h u"
proof -
  from assms(2) obtain start token payload jwks where split: "split_once (CHR '' '') h = Some (start, token)"
    and valid: "validate_token (oa_config oa) (oa_idp oa) token (wb_jwks s) = (Inr payload, jwks)"
    and "extract_username (oa_config oa) payload = (Some u, None)"
    by (auto simp: authenticate_bearer_token_def or_text_def split: option.splits prod.splits sum.splits if_splits)
  with assms(1) validate_token_sound [OF valid] show ?thesis unfolding by_bearer_def by blast
qed

lemma authenticate_session_authentic:
  assumes "authenticate_session oa now s = (Some u, s')" and "session_ok (oa_config oa) (wb_session s)"
  shows "by_session oa now s u"
proof (cases "wb_session s ''username''")
  case None
  with assms(1) show ?thesis by (simp add: authenticate_session_def session_get_def)
next
  case (Some v)
  then have "entry_ok (oa_config oa) ''username'' v" using assms(2) by (simp add: session_ok_def)
  then obtain n where v: "v = JString n" by (auto simp: entry_ok_def split: json.splits)
  with assms(1) Some show ?thesis
    by (auto simp: authenticate_session_def session_get_def by_session_def py_str_def Let_def
        split: if_splits sum.splits prod.splits bool.splits)
qed

lemma authenticate_user_authentic:
  assumes "authenticate_user oa now rq s = (Some u, s')" and "session_ok (oa_config oa) (wb_session s)"
  shows "authentic oa now rq s u"
  using assms
  by (auto simp: authenticate_user_def authentic_def split: option.splits if_splits
      dest: authenticate_basic_authentic authenticate_bearer_authentic authenticate_session_authentic)

lemma keeps_app_refresh: "wb_app (snd (refresh_session_with_idp oa now s)) = wb_app s"
proof -
  have "keeps (on_part wb_app (\<lambda>a. a = wb_app s)) (persist_session_auth (oa_config oa) now token)" for token
    unfolding persist_session_auth_def by (intro keeps_intros)
  then show ?thesis using refresh_state [of oa now s] by (auto simp: keeps_def on_part_def)
qed

lemma authenticate_user_app: "wb_app (snd (authenticate_user oa now rq s)) = wb_app s"
proof -
  have "wb_app (snd (authenticate_session oa now s)) = wb_app s"
    using keeps_app_refresh [of oa now s]
    by (cases "refresh_session_with_idp oa now s") (auto simp: authenticate_session_def Let_def split: sum.split bool.split)
  moreover have "wb_app (snd (authenticate_bearer_token oa h s)) = wb_app s" for h
    by (auto simp: authenticate_bearer_token_def split: option.split prod.split sum.split)
  ultimately show ?thesis by (simp add: authenticate_user_def split: option.split)
qed

text \<open>The cache of key sets takes up only what the provider serves.\<close>

definition keys_from_provider :: "oidc_app \<Rightarrow> web_state \<Rightarrow> web_state \<Rightarrow> bool" where
  "keys_from_provider oa s s' \<longleftrightarrow>
     (\<forall>jwks. wb_jwks s' = Some jwks \<longrightarrow> wb_jwks s = Some jwks \<or> provider_keys (oa_config oa) (oa_idp oa) jwks)"

lemma keys_refresh: "wb_jwks (snd (refresh_session_with_idp oa now s)) = wb_jwks s"
proof -
  have part: "wb_jwks (snd (put_session k v s)) = wb_jwks s" "wb_jwks (snd (pop_session k s)) = wb_jwks s" for k v s
    by (simp_all add: put_session_def pop_session_def on_session_def)
  have "keeps (on_part wb_jwks (\<lambda>j. j = wb_jwks s)) (persist_session_auth (oa_config oa) now token)" for token
    unfolding persist_session_auth_def
    by (intro keeps_simple keeps_cond keeps_let keeps_bind keeps_when) (simp_all add: keeps_def on_part_def part)
  then show ?thesis using refresh_state [of oa now s] by (auto simp: keeps_def on_part_def)
qed

lemma keys_authenticate_user: "keys_from_provider oa s (snd (authenticate_user oa now rq s))"
proof -
  have session: "wb_jwks (snd (authenticate_session oa now s)) = wb_jwks s"
    using keys_refresh [of oa now s]
    by (cases "refresh_session_with_idp oa now s") (auto simp: authenticate_session_def Let_def split: sum.split bool.split)
  have "keys_from_provider oa s (snd (authenticate_bearer_token oa h s))" for h
    by (auto simp: authenticate_bearer_token_def keys_from_provider_def split: option.split prod.split sum.split
        dest: validate_token_cache)
  then show ?thesis using session by (auto simp: authenticate_user_def keys_from_provider_def split: option.split)
qed

lemma protected_request_dispatch:
  assumes "auth_dispatch oa now rq s = (outcome, s')" and "\<not> auth_unprotected_route (hr_path rq)"
    and "session_ok (oa_config oa) (wb_session s)"
  shows "wb_app s' = wb_app s \<and> keys_from_provider oa s s' \<and>
    (case outcome of
       Proceed rq' ctx \<Rightarrow> \<exists>u w. authentic oa now rq s u \<and> u \<noteq> '''' \<and>
         ctx = Some \<lparr>ac_username = u, ac_is_admin = get_user_admin_status (st_db (as_store (wb_app s))) u, ac_workspace = w\<rparr> \<and>
         rq' = rq\<lparr>hr_state_username := Some u,
                  hr_state_is_admin := get_user_admin_status (st_db (as_store (wb_app s))) u\<rparr>
     | Answer status \<Rightarrow> status \<in> {401, 403} \<and> or_text (fst (authenticate_user oa now rq s)) None = None
     | RedirectTo _ \<Rightarrow> or_text (fst (authenticate_user oa now rq s)) None = None)"
proof -
  obtain user s1 where user: "authenticate_user oa now rq s = (user, s1)" by force
  have app: "wb_app s1 = wb_app s" "keys_from_provider oa s s1"
    using authenticate_user_app [of oa now rq s] keys_authenticate_user [of oa s now rq] user by simp_all
  show ?thesis
  proof (cases "or_text user None")
    case None
    with assms(1,2) user app show ?thesis by (auto simp: auth_dispatch_def Let_def split: if_splits)
  next
    case (Some u)
    then have "user = Some u" "u \<noteq> ''''" by (auto simp: or_text_def split: option.splits if_splits)
    with authenticate_user_authentic [OF _ assms(3)] user have "authentic oa now rq s u" by blast
    with assms(1,2) user app Some \<open>u \<noteq> ''''\<close> show ?thesis
      by (auto simp: auth_dispatch_def Let_def split: prod.splits)
  qed
qed

text \<open>C7: With a well-typed session, a request to a protected path goes on only with the name of
  somebody who authenticated with it (basic credentials of an account; a bearer token whose claims a
  key set verifies that is in the cache or that the provider serves; or a session that is not over or
  could be refreshed), and with the administrator's flag of the database; any other one is answered
  with 401, 403 or a redirect. In either case the check changes nothing in the database, and only key
  sets of the provider get into the cache.\<close>

theorem protected_request_is_authenticated:
  assumes "auth_dispatch oa now rq s = (outcome, s')" and "\<not> auth_unprotected_route (hr_path rq)"
    and "session_ok (oa_config oa) (wb_session s)"
  shows "wb_app s' = wb_app s \<and> keys_from_provider oa s s' \<and>
    (case outcome of
       Proceed rq' ctx \<Rightarrow> \<exists>u w. authentic oa now rq s u \<and> u \<noteq> '''' \<and>
         ctx = Some \<lparr>ac_username = u, ac_is_admin = get_user_admin_status (st_db (as_store (wb_app s))) u, ac_workspace = w\<rparr> \<and>
         rq' = rq\<lparr>hr_state_username := Some u,
                  hr_state_is_admin := get_user_admin_status (st_db (as_store (wb_app s))) u\<rparr>
     | Answer status \<Rightarrow> status \<in> {401, 403} \<and> or_text (fst (authenticate_user oa now rq s)) None = None
     | RedirectTo _ \<Rightarrow> or_text (fst (authenticate_user oa now rq s)) None = None)"
  using protected_request_dispatch [OF assms] .

section \<open>From the browser to an experiment\<close>


definition alice_session :: session where
  "alice_session = [''username'' \<mapsto> JString ''alice'', ''authenticated'' \<mapsto> JBool True]"

definition alice_context :: auth_context where
  "alice_context = \<lparr>ac_username = ''alice'', ac_is_admin = False, ac_workspace = None\<rparr>"

definition experiment_path :: string where
  "experiment_path = ''/api/2.0/mlflow/experiments/get''"

lemma alice_dispatch:
  "\<exists>rq' s'. auth_dispatch example_oidc 10 (browser_request experiment_path []) (example_web alice_session) =
    (Proceed rq' (Some alice_context), s')"
proof -
  have "fst (auth_dispatch example_oidc 10 (browser_request experiment_path []) (example_web alice_session)) =
      Proceed ((browser_request experiment_path [])\<lparr>hr_state_username := Some ''alice''\<rparr>) (Some alice_context)"
    by code_simp
  then show ?thesis by (metis prod.collapse)
qed

lemma alice_session_ok: "session_ok (oa_config example_oidc) (wb_session (example_web alice_session))"
proof -
  have "user_name ''alice''" by code_simp
  from session_ok_login [OF session_ok_empty this] show ?thesis
    by (simp add: example_web_def alice_session_def)
qed

theorem protected_request_is_authenticated_witness:
  "authentic example_oidc 10 (browser_request experiment_path []) (example_web alice_session) ''alice''"
proof -
  have open_route: "\<not> auth_unprotected_route (hr_path (browser_request experiment_path []))" by code_simp
  obtain rq' s' where run: "auth_dispatch example_oidc 10 (browser_request experiment_path []) (example_web alice_session) =
      (Proceed rq' (Some alice_context), s')" using alice_dispatch by blast
  from protected_request_is_authenticated [OF run open_route alice_session_ok] show ?thesis
    by (auto simp: alice_context_def)
qed


end
