(* ===== verification/AccountProperties.thy ===== *)
theory AccountProperties
  imports AccountRouter RequestProperties
begin

text \<open>
  What the routes for accounts guarantee: who may have a token made and when it is accepted,
  and what a transfer of ownership does.
\<close>

section \<open>Single operations on experiment permissions\<close>

abbreviation "app_db a \<equiv> st_db (as_store a)"
abbreviation "experiment_perms db \<equiv> user_perm_lookup Experiment db"

text \<open>The database differs at most in the table of the permissions of users on experiments.\<close>

definition only_experiment_rows :: "db \<Rightarrow> db \<Rightarrow> bool" where
  "only_experiment_rows db db' \<longleftrightarrow>
     (\<exists>rows. db' = db\<lparr>db_user_perms := (db_user_perms db)(Experiment := rows)\<rparr>)"

lemma only_experiment_rows_refl: "only_experiment_rows db db"
proof -
  have "db = db\<lparr>db_user_perms := (db_user_perms db)(Experiment := db_user_perms db Experiment)\<rparr>" by simp
  then show ?thesis unfolding only_experiment_rows_def by blast
qed

lemma only_experiment_rows_trans:
  "only_experiment_rows a b \<Longrightarrow> only_experiment_rows b c \<Longrightarrow> only_experiment_rows a c"
  by (auto simp: only_experiment_rows_def)

lemma only_experiment_rows_ops:
  "result_state (user_update_permission Experiment db k n p) = Inr db' \<Longrightarrow> only_experiment_rows db db'"
  "result_state (user_grant_permission Experiment db k n p) = Inr db' \<Longrightarrow> only_experiment_rows db db'"
  by (auto simp: only_experiment_rows_def result_state_def user_update_permission_def user_grant_permission_def
      bind_result_def Let_def on_integrity_error_def split: sum.splits exn.splits)

text \<open>What a step did to the permissions of users on experiments, and to nothing else.\<close>

definition became :: "app_state \<Rightarrow> app_state \<Rightarrow> (rkey, string) perm_map \<Rightarrow> bool" where
  "became a a' m \<longleftrightarrow>
     db_wf (app_db a') \<and> user_exists (app_db a') = user_exists (app_db a) \<and> experiment_perms (app_db a') = m \<and>
     only_experiment_rows (app_db a) (app_db a')"

lemma became_trans:
  "became a b m \<Longrightarrow> became b c m' \<Longrightarrow> became a c m'"
  by (auto simp: became_def intro: only_experiment_rows_trans)

lemma store_step:
  assumes "store_do ap (UserPermOp op) a = (r, a')"
    and "run_user_perm op = act_commit f"
    and "step_refines db_wf user_exists (user_perm_lookup Experiment) (app_db a) (f (app_db a)) spec"
    and "db_wf (app_db a)" and "\<And>d. f (app_db a) = Inr d \<Longrightarrow> only_experiment_rows (app_db a) d"
  shows "(case spec of
      Inl e \<Rightarrow> r = Inl e \<and> became a a' (experiment_perms (app_db a))
    | Inr m \<Rightarrow> r = Inr () \<and> became a a' m)"
proof -
  from store_do_run [OF assms(1)] assms(2) have run: "act_commit f (app_db a) = (r, app_db a')" by simp
  show ?thesis
  proof (cases "f (app_db a)")
    case (Inl e)
    with run assms(3,4) show ?thesis by (simp add: act_commit_def step_refines_def became_def only_experiment_rows_refl)
  next
    case (Inr d)
    with run assms(3) have "r = Inr ()" "app_db a' = d" "db_wf d" "user_exists d = user_exists (app_db a)"
      "spec = Inr (user_perm_lookup Experiment d)"
      by (auto simp: act_commit_def step_refines_def)
    with assms(5) [OF Inr] show ?thesis by (simp add: became_def)
  qed
qed

lemma update_step:
  assumes "store_do ap (UserPermOp (UpdatePermission Experiment i n p)) a = (r, a')"
    and "db_wf (app_db a)" and "valid_permission p"
  shows "if experiment_perms (app_db a) (ResourceId i) n = None
    then (\<exists>e. r = Inl e) \<and> became a a' (experiment_perms (app_db a))
    else r = Inr () \<and> became a a' (perm_upd (experiment_perms (app_db a)) (ResourceId i) n (Some p))"
proof -
  have "run_user_perm (UpdatePermission Experiment i n p) =
      act_commit (\<lambda>db. result_state (user_update_permission Experiment db (ResourceId i) n p))"
    by (simp add: with_method_def direct_classes_def call_def)
  from store_step [OF assms(1) this user_update_permission_refines [OF assms(2)] assms(2)
      only_experiment_rows_ops(1)] show ?thesis
    using assms(3) by (auto split: if_splits)
qed

lemma create_step:
  assumes "store_do ap (UserPermOp (CreatePermission Experiment i n p)) a = (r, a')"
    and "db_wf (app_db a)" and "valid_permission p" and "user_exists (app_db a) n"
    and "experiment_perms (app_db a) (ResourceId i) n = None"
  shows "r = Inr () \<and> became a a' (perm_upd (experiment_perms (app_db a)) (ResourceId i) n (Some p))"
proof -
  have "run_user_perm (CreatePermission Experiment i n p) =
      act_commit (\<lambda>db. result_state (user_grant_permission Experiment db (ResourceId i) n p))"
    by (simp add: with_method_def direct_classes_def call_def)
  from store_step [OF assms(1) this user_grant_permission_refines [OF assms(2)] assms(2)
      only_experiment_rows_ops(2)] show ?thesis
    using assms(3-5) by simp
qed

lemma manage_valid: "valid_permission (perm_name MANAGE)" "valid_permission (perm_name EDIT)"
  by code_simp+

section \<open>Transfers of ownership\<close>

definition demoted :: "(rkey, string) perm_map \<Rightarrow> rkey \<Rightarrow> string option \<Rightarrow> (rkey, string) perm_map" where
  "demoted m key owner =
     (case owner of
        Some n \<Rightarrow> if m key n = None then m else perm_upd m key n (Some (perm_name EDIT))
      | None \<Rightarrow> m)"

lemma demote_step:
  assumes "(case owner of
      Some n \<Rightarrow> act_except (store_do ap (UserPermOp (UpdatePermission Experiment i n (perm_name EDIT)))) (act_return ())
    | None \<Rightarrow> act_return ()) a = (r, a')" and "db_wf (app_db a)"
  shows "r = Inr () \<and> became a a' (demoted (experiment_perms (app_db a)) (ResourceId i) owner)"
proof (cases owner)
  case None
  with assms show ?thesis by (auto simp: demoted_def became_def only_experiment_rows_refl)
next
  case (Some n)
  obtain q a1 where q: "store_do ap (UserPermOp (UpdatePermission Experiment i n (perm_name EDIT))) a = (q, a1)" by force
  with assms(1) Some have "r = Inr ()" "a' = a1" by (auto simp: act_except_def split: sum.splits)
  with update_step [OF q assms(2) manage_valid(2)] Some show ?thesis by (auto simp: demoted_def split: if_splits)
qed

lemma promote_step:
  assumes "act_except (store_do ap (UserPermOp (UpdatePermission Experiment i n (perm_name MANAGE))))
      (store_do ap (UserPermOp (CreatePermission Experiment i n (perm_name MANAGE)))) a = (r, a')"
    and "db_wf (app_db a)" and "user_exists (app_db a) n"
  shows "r = Inr () \<and> became a a' (perm_upd (experiment_perms (app_db a)) (ResourceId i) n (Some (perm_name MANAGE)))"
proof -
  obtain q a1 where q: "store_do ap (UserPermOp (UpdatePermission Experiment i n (perm_name MANAGE))) a = (q, a1)" by force
  note step = update_step [OF q assms(2) manage_valid(1)]
  show ?thesis
  proof (cases "experiment_perms (app_db a) (ResourceId i) n = None")
    case False
    with step q assms(1) show ?thesis by (simp add: act_except_def)
  next
    case True
    with step have kept: "became a a1 (experiment_perms (app_db a))" and "\<exists>e. q = Inl e" by simp_all
    with q assms(1) have "store_do ap (UserPermOp (CreatePermission Experiment i n (perm_name MANAGE))) a1 = (r, a')"
      by (auto simp: act_except_def)
    from create_step [OF this _ manage_valid(1)] kept True assms(3) show ?thesis
      by (auto simp: became_def intro: only_experiment_rows_trans)
  qed
qed

text \<open>C24: Only an administrator or the owner of an experiment transfers it. A transfer gives the new
  owner MANAGE and leaves EDIT to the old one; it changes no other permission of a user on an experiment,
  and nothing in any other table of the database. To an unknown user it fails and changes nothing. (The
  owner's name is not the empty text.)\<close>

theorem ownership_transfer:
  assumes "db_wf (app_db s)" and "get_username rq = Inr u" and "get_is_admin (app_db s) rq = Inr is_admin"
    and "get_experiment_owner (app_db s) i = owner" and "owner \<noteq> Some ''''"
    and "transfer_experiment_ownership ap rq i new_owner s = (r, s')"
  shows "if \<not> is_admin \<and> owner \<noteq> Some u then r = Inl (HTTPException 403) \<and> s' = s
    else if owner = Some new_owner then r = Inr (200, message_response) \<and> s' = s
    else if user_exists (app_db s) new_owner
    then r = Inr (200, message_response) \<and> db_wf (app_db s') \<and>
      experiment_perms (app_db s') =
        perm_upd (demoted (experiment_perms (app_db s)) (ResourceId i) owner) (ResourceId i) new_owner (Some (perm_name MANAGE)) \<and>
      only_experiment_rows (app_db s) (app_db s')
    else r = Inl (HTTPException 500) \<and> s' = s"
proof -
  have "caller rq s = (Inr (u, is_admin), s)"
    using assms(2,3) by (simp add: caller_def act_lift_def read_db_def act_bind_def)
  note start = this and unfold = transfer_experiment_ownership_def read_db_def act_bind_def or_http_def act_return_def
  consider "\<not> is_admin \<and> owner \<noteq> Some u" | "is_admin \<or> owner = Some u" "owner = Some new_owner"
    | "is_admin \<or> owner = Some u" "owner \<noteq> Some new_owner" by blast
  then show ?thesis
  proof cases
    case 1
    with assms(4,6) start show ?thesis by (auto simp: unfold)
  next
    case 2
    with assms(4,6) start show ?thesis by (auto simp: unfold)
  next
    case 3
    show ?thesis
    proof (cases "user_exists (app_db s) new_owner")
      case False
      then obtain e where "get_user (app_db s) new_owner = Inl e"
        using user_exists_iff [OF assms(1)] by (cases "get_user (app_db s) new_owner") auto
      with user_exists_Inl [OF assms(1) this] have "user_get_profile (app_db s) new_owner = Inl (MlflowException RESOURCE_DOES_NOT_EXIST)"
        by (simp add: user_get_profile_def user_get_row_eq [OF assms(1)])
      with False 3 assms(4,6) start show ?thesis by (auto simp: unfold)
    next
      case True
      then obtain v where "user_get_profile (app_db s) new_owner = Inr v"
        using user_exists_iff [OF assms(1)] by (auto simp: user_get_profile_def user_get_row_eq [OF assms(1)])
      obtain q1 s1 where demote: "(case owner of
          Some n \<Rightarrow> act_except (store_do ap (UserPermOp (UpdatePermission Experiment i n (perm_name EDIT)))) (act_return ())
        | None \<Rightarrow> act_return ()) s = (q1, s1)" by force
      note d = demote_step [OF this assms(1)]
      obtain q2 s2 where promote: "act_except (store_do ap (UserPermOp (UpdatePermission Experiment i new_owner (perm_name MANAGE))))
          (store_do ap (UserPermOp (CreatePermission Experiment i new_owner (perm_name MANAGE)))) s1 = (q2, s2)" by force
      have "db_wf (app_db s1)" "user_exists (app_db s1) new_owner" using d True by (simp_all add: became_def)
      note p = promote_step [OF promote this]
      have "or_text owner None = owner" using assms(5) by (auto simp: or_text_def split: option.split)
      with 3 assms(4,6) start \<open>user_get_profile (app_db s) new_owner = Inr v\<close> demote promote d p
      have "r = Inr (200, message_response) \<and> s' = s2" by (auto simp: unfold)
      with 3 True d p show ?thesis by (auto simp: became_def intro: only_experiment_rows_trans)
    qed
  qed
qed

section \<open>Access tokens\<close>

lemma get_user_set_rows:
  assumes "db_wf db" and "db_wf db'" and "db_users db' = set_rows (\<lambda>u. u_id u = i) f (db_users db)"
    and "\<And>u. u_username (f u) = u_username u"
  shows "get_user db' n = map_sum id (\<lambda>v. if u_id v = i then f v else v) (get_user db n)"
proof -
  have mem: "v \<in> set (db_users db') \<longleftrightarrow> (\<exists>w \<in> set (db_users db). v = (if u_id w = i then f w else w))" for v
    unfolding assms(3) set_rows_def set_map by blast
  have name: "u_username (if u_id w = i then f w else w) = u_username w" for w using assms(4) by simp
  show ?thesis
  proof (cases "get_user db n")
    case (Inr w)
    then have "w \<in> set (db_users db)" "u_username w = n" using get_user_Inr [OF assms(1)] by auto
    then have "get_user db' n = Inr (if u_id w = i then f w else w)"
      unfolding get_user_Inr [OF assms(2)] using mem name by blast
    with Inr show ?thesis by simp
  next
    case (Inl e)
    note none = get_user_Inl [OF assms(1) Inl]
    have "get_user db' n \<noteq> Inr v" for v
    proof
      assume "get_user db' n = Inr v"
      then have v: "v \<in> set (db_users db')" "u_username v = n" by (simp_all add: get_user_Inr [OF assms(2)])
      from v(1) obtain w where "w \<in> set (db_users db)" "v = (if u_id w = i then f w else w)"
        unfolding mem by (rule bexE)
      with v(2) have w: "w \<in> set (db_users db)" "u_username (if u_id w = i then f w else w) = n" by simp_all
      from w(2) have "u_username w = n" by (rule trans [OF name [symmetric]])
      with w(1) none show False by auto
    qed
    then obtain e' where e': "get_user db' n = Inl e'" by (cases "get_user db' n") auto
    from get_user_Inl [OF assms(2) e'] none e' Inl show ?thesis by simp
  qed
qed

lemma user_update_token:
  assumes "db_wf db" and "user_update gh db n (Some token) e None None = Inr (x, db')"
  obtains u where "get_user db n = Inr u" and "db_wf db'"
    and "\<forall>m. get_user db' m = map_sum id (\<lambda>v. if u_id v = u_id u
           then set_if_some e (\<lambda>x v. v\<lparr>u_password_expiration := Some x\<rparr>) (v\<lparr>u_password_hash := gh token\<rparr>) else v)
           (get_user db m)"
proof -
  define f where "f = (\<lambda>v :: user. set_if_some e (\<lambda>x v. v\<lparr>u_password_expiration := Some x\<rparr>) (v\<lparr>u_password_hash := gh token\<rparr>))"
  from assms(2) obtain u where u: "get_user db n = Inr u" and run: "set_user_row db u f = Inr (x, db')"
    by (auto simp: user_update_def set_if_some_def f_def)
  from run have rows: "db_users db' = set_rows (\<lambda>v. u_id v = u_id u) f (db_users db)" by (auto elim!: set_user_row_Inr)
  have "u_username (f v) = u_username v" for v by (simp add: f_def set_if_some_def split: option.split)
  note after = get_user_set_rows [OF assms(1) user_update_wf [OF assms] rows this]
  show thesis by (rule that [OF u user_update_wf [OF assms]]) (use after [unfolded f_def] in blast)
qed

definition not_over :: "int option \<Rightarrow> int \<Rightarrow> bool" where
  "not_over expiration now = (case expiration of Some t \<Rightarrow> now \<le> t | None \<Rightarrow> True)"

lemma authenticate_user_of:
  "authenticate check now db n p =
    (case get_user db n of Inr u \<Rightarrow> not_over (u_password_expiration u) now \<and> check (u_password_hash u) p | Inl _ \<Rightarrow> False)"
  by (auto simp: authenticate_def not_over_def split: sum.split option.split)

text \<open>The token that a request makes: for whom, until when and what for.\<close>

definition token_for :: "app \<Rightarrow> account_env \<Rightarrow> http_request \<Rightarrow> token_request option \<Rightarrow> app_state \<Rightarrow>
    string \<Rightarrow> int option \<Rightarrow> bool" where
  "token_for ap env rq token_request s target expiration \<longleftrightarrow>
     (\<exists>who. caller rq s = (Inr who, s) \<and> target_of who token_request = Inr target \<and> (target = fst who \<or> snd who)) \<and>
     parse_expiration env (se_now (sv_store (ap_server ap))) (Option.bind token_request tr_expiration) = Inr expiration"

lemma target_of_allowed: "target_of who token_request = Inr target \<Longrightarrow> target = fst who \<or> snd who"
  by (auto simp: target_of_def split: option.splits if_splits)

lemma caller_state: "caller rq s = (r, s') \<Longrightarrow> s' = s"
  by (auto simp: caller_def act_lift_def read_db_def act_bind_def split: sum.splits)

text \<open>C25: A token is made only for its caller or by an administrator. Afterwards exactly that account
  has the token as its password, and it is accepted as long as the expiration that was asked for
  has not passed; but when none was asked for, the one that the account had still counts, so a
  token made for an account whose expiration has passed is never accepted. No other account is
  affected.\<close>

theorem access_token_is_accepted_until:
  assumes "create_access_token ap env draw rq token_request s = (Inr response, s')" and "db_wf (app_db s)"
  shows "\<exists>target e u. token_for ap env rq token_request s target e \<and> get_user (app_db s) target = Inr u \<and>
    response = (200, JObject [(''token'', JString (generate_token draw))]) \<and>
    (\<forall>check now. authenticate check now (app_db s') target (generate_token draw) \<longleftrightarrow>
       not_over (if e = None then u_password_expiration u else e) now \<and>
       check (se_password_hash (sv_store (ap_server ap)) (generate_token draw)) (generate_token draw)) \<and>
    (\<forall>check now n password. n \<noteq> target \<longrightarrow>
       authenticate check now (app_db s') n password = authenticate check now (app_db s) n password)"
proof -
  let ?token = "generate_token draw" and ?gh = "se_password_hash (sv_store (ap_server ap))"
  obtain w s0 where w: "caller rq s = (w, s0)" by force
  with caller_state have s0: "s0 = s" by blast
  from assms(1) w s0 obtain who target e where who: "caller rq s = (Inr who, s)" and target: "target_of who token_request = Inr target"
    and e: "parse_expiration env (se_now (sv_store (ap_server ap))) (Option.bind token_request tr_expiration) = Inr e"
    and run: "audited ap (AccountOp (UpdateUser target (Some ?token) e None None))
             ''user.token_rotate'' (Some (fst who)) ''user'' target []
             (200, JObject [(''token'', JString ?token)]) s = (Inr response, s')"
    by (auto simp: create_access_token_def act_lift_def read_db_def Let_def elim!: act_bind_Inr dest!: or_http_Inr)
  from run obtain s1 where s1: "store_do ap (AccountOp (UpdateUser target (Some ?token) e None None)) s = (Inr (), s1)"
    and rest: "response = (200, JObject [(''token'', JString ?token)])" "app_db s' = app_db s1"
    by (auto simp: audited_def emit_audit_event_def act_return_def elim!: act_bind_Inr split: if_splits)
  from call_Inr [OF store_do_run [OF s1, simplified]] obtain x where
    "user_update ?gh (app_db s) target (Some ?token) e None None = Inr (x, app_db s1)" by auto
  with assms(2) obtain u where u: "get_user (app_db s) target = Inr u" and "db_wf (app_db s1)"
    and after': "\<forall>m. get_user (app_db s1) m = map_sum id (\<lambda>v. if u_id v = u_id u
           then set_if_some e (\<lambda>x v. v\<lparr>u_password_expiration := Some x\<rparr>) (v\<lparr>u_password_hash := ?gh ?token\<rparr>) else v)
           (get_user (app_db s) m)" by (rule user_update_token)
  note after = after' [rule_format]
  have "token_for ap env rq token_request s target e"
    using who target e target_of_allowed [OF target] by (auto simp: token_for_def)
  moreover have "authenticate check now (app_db s') target ?token \<longleftrightarrow>
      not_over (if e = None then u_password_expiration u else e) now \<and> check (?gh ?token) ?token" for check now
    unfolding rest authenticate_user_of after u by (cases e) (simp_all add: set_if_some_def)
  moreover have "authenticate check now (app_db s') n password = authenticate check now (app_db s) n password"
    if "n \<noteq> target" for check now n password
  proof (cases "get_user (app_db s) n")
    case (Inr v)
    then have "u_id v \<noteq> u_id u"
      using u that user_eq_by_id [OF assms(2), of v u] by (auto simp: get_user_Inr [OF assms(2)])
    with Inr show ?thesis unfolding rest authenticate_user_of after by simp
  qed (simp add: rest authenticate_user_of after)
  ultimately show ?thesis using u rest(1) by blast
qed

section \<open>Runs\<close>

definition example_account_env :: account_env where
  "example_account_env =
     \<lparr>ae_fromisoformat = (\<lambda>s. if s = ''2030-01-01T00:00:00+00:00'' then Aware 1000 else NotATime),
      ae_isoformat = (\<lambda>_. ''2030-01-01T00:00:00+00:00'')\<rparr>"

theorem access_token_is_accepted_until_witness:
  "\<exists>s' u. create_access_token example_app example_account_env (\<lambda>_. 0) (request_of ''alice'') None example_app_state =
      (Inr (200, JObject [(''token'', JString (generate_token (\<lambda>_. 0)))]), s') \<and>
    get_user example_db ''alice'' = Inr u \<and> u_password_expiration u = Some 50 \<and>
    \<not> authenticate (\<lambda>_ _. True) 51 (app_db s') ''alice'' (generate_token (\<lambda>_. 0))"
proof -
  let ?h = "create_access_token example_app example_account_env (\<lambda>_. 0) (request_of ''alice'') None"
  have "case fst (?h example_app_state) of Inr _ \<Rightarrow> True | Inl _ \<Rightarrow> False" by code_simp
  then obtain response s' where run: "?h example_app_state = (Inr response, s')"
    by (cases "?h example_app_state") (auto split: sum.splits)
  have db: "app_db example_app_state = example_db" by (simp add: example_app_state_def)
  from access_token_is_accepted_until [OF run] obtain target e u where
    token: "token_for example_app example_account_env (request_of ''alice'') None example_app_state target e"
    and u: "get_user example_db target = Inr u"
    and response: "response = (200, JObject [(''token'', JString (generate_token (\<lambda>_. 0)))])"
    and accepted: "\<forall>check now. authenticate check now (app_db s') target (generate_token (\<lambda>_. 0)) \<longleftrightarrow>
       not_over (if e = None then u_password_expiration u else e) now \<and>
       check (se_password_hash (sv_store (ap_server example_app)) (generate_token (\<lambda>_. 0))) (generate_token (\<lambda>_. 0))"
    unfolding db by (auto simp: example_db_wf)
  have "fst (caller (request_of ''alice'') example_app_state) = Inr (''alice'', False)" by code_simp
  with token have "target = ''alice''" "e = None"
    by (auto simp: token_for_def target_of_def parse_expiration_def or_text_def)
  moreover have "map_sum id u_password_expiration (get_user example_db ''alice'') = Inr (Some 50)" by code_simp
  ultimately show ?thesis using run response u accepted by (auto simp: not_over_def)
qed

definition transferred :: app_state where
  "transferred = snd (transfer_experiment_ownership example_app (request_of ''bob'') ''10'' ''alice'' example_app_state)"

text \<open>Bob, an administrator, makes alice the owner of experiment 10; she hands it to him.\<close>

theorem ownership_transfer_witness:
  "\<exists>s'. transfer_experiment_ownership example_app (request_of ''alice'') ''10'' ''bob'' transferred =
      (Inr (200, message_response), s') \<and>
    experiment_perms (app_db s') (ResourceId ''10'') ''alice'' = Some ''EDIT'' \<and>
    experiment_perms (app_db s') (ResourceId ''10'') ''bob'' = Some ''MANAGE''"
proof -
  let ?first = "transfer_experiment_ownership example_app (request_of ''bob'') ''10'' ''alice''"
  let ?second = "transfer_experiment_ownership example_app (request_of ''alice'') ''10'' ''bob''"
  have db: "app_db example_app_state = example_db" by (simp add: example_app_state_def)
  have first: "?first example_app_state = (fst (?first example_app_state), transferred)" by (simp add: transferred_def)
  have 1: "get_username (request_of ''bob'') = Inr ''bob''" "get_is_admin example_db (request_of ''bob'') = Inr True"
    "get_experiment_owner example_db ''10'' = None" "user_exists example_db ''alice''" by code_simp+
  have wf: "db_wf (app_db transferred)"
    using ownership_transfer [OF _ 1(1) _ _ _ first] 1 by (simp add: db example_db_wf)
  have 2: "get_username (request_of ''alice'') = Inr ''alice''" "get_is_admin (app_db transferred) (request_of ''alice'') = Inr False"
    "get_experiment_owner (app_db transferred) ''10'' = Some ''alice''" "user_exists (app_db transferred) ''bob''"
    "experiment_perms (app_db transferred) (ResourceId ''10'') ''alice'' = Some ''MANAGE''" by code_simp+
  have names: "perm_name EDIT = ''EDIT''" "perm_name MANAGE = ''MANAGE''" by code_simp+
  obtain r s' where second: "?second transferred = (r, s')" by force
  from ownership_transfer [OF wf 2(1,2) refl _ second] 2(3-) show ?thesis
    using second by (auto simp: demoted_def names perm_upd_def)
qed

text \<open>The owner is the first user found with MANAGE. Where two users have it, a transfer to a third
  makes the second one the owner.\<close>

definition three_users :: app_state where
  "three_users = \<lparr>as_store = \<lparr>st_db =
     example_db\<lparr>db_users := db_users example_db @
         [\<lparr>u_id = 3, u_username = ''carol'', u_display_name = ''Carol'', u_password_hash = ''pw3'',
           u_password_expiration = None, u_is_admin = False, u_is_service_account = False\<rparr>],
       db_user_perms := (\<lambda>_. [])(Experiment :=
         [\<lparr>up_id = 1, up_key = ResourceId ''10'', up_user = 1, up_permission = ''MANAGE''\<rparr>,
          \<lparr>up_id = 2, up_key = ResourceId ''10'', up_user = 2, up_permission = ''MANAGE''\<rparr>])\<rparr>,
     st_caches = empty_caches\<rparr>, as_audit = []\<rparr>"

theorem transfer_misses_the_new_owner:
  "case transfer_experiment_ownership example_app (request_of ''alice'') ''10'' ''carol'' three_users of
     (r, s') \<Rightarrow> r = Inr (200, message_response) \<and> get_experiment_owner (app_db three_users) ''10'' = Some ''alice'' \<and>
       get_experiment_owner (app_db s') ''10'' = Some ''bob''"
  by code_simp

end
