(* ===== verification/Graphql.thy ===== *)
theory Graphql
  imports Texts StableCheck FastApi
begin

text \<open>
  The authorization of GraphQL fields: \<^verbatim>\<open>graphql/middleware.py\<close>. MLflow calls the middleware for
  every field that a query resolves, with the resolver that comes next and its arguments.
\<close>

section \<open>Arguments of a resolver\<close>

text \<open>The conventional argument \<^verbatim>\<open>input\<close>: a dictionary, or an object with attributes.\<close>

datatype graphql_input = InputDict "(string \<times> json) list" | InputObject "(string \<times> json) list"

record graphql_args =
  ga_input :: "graphql_input option"
  ga_others :: "(string \<times> json) list"

definition get_input_attr :: "graphql_input option \<Rightarrow> string \<Rightarrow> json \<Rightarrow> json" where
  "get_input_attr input_obj name dflt =
     (case input_obj of
        None \<Rightarrow> dflt
      | Some (InputDict kvs) \<Rightarrow> (case map_of kvs name of Some v \<Rightarrow> v | None \<Rightarrow> dflt)
      | Some (InputObject attrs) \<Rightarrow> (case map_of attrs name of Some v \<Rightarrow> v | None \<Rightarrow> dflt))"

definition set_input_attr :: "graphql_input option \<Rightarrow> string \<Rightarrow> json \<Rightarrow> graphql_input option" where
  "set_input_attr input_obj name v =
     (case input_obj of
        None \<Rightarrow> None
      | Some (InputDict kvs) \<Rightarrow> Some (InputDict (AList.update name v kvs))
      | Some (InputObject attrs) \<Rightarrow> Some (InputObject (AList.update name v attrs)))"

section \<open>The value that a filter compares a key with\<close>

text \<open>Python's \<^verbatim>\<open>\w\<close> on the code points below 256, and the boundary \<^verbatim>\<open>\b\<close> between two positions.\<close>

definition py_word :: "char \<Rightarrow> bool" where
  "py_word c \<longleftrightarrow>
     (let n = of_char c :: nat
      in (48 \<le> n \<and> n \<le> 57) \<or> (65 \<le> n \<and> n \<le> 90) \<or> (97 \<le> n \<and> n \<le> 122) \<or>
         n \<in> set [95, 170, 178, 179, 181, 185, 186, 188, 189, 190] \<or>
         (192 \<le> n \<and> n \<le> 214) \<or> (216 \<le> n \<and> n \<le> 246) \<or> 248 \<le> n)"

definition word_at :: "string \<Rightarrow> bool" where
  "word_at s = (case s of c # _ \<Rightarrow> py_word c | [] \<Rightarrow> False)"

definition is_quote :: "char \<Rightarrow> bool" where
  "is_quote c \<longleftrightarrow> c = CHR 0x27 \<or> c = CHR 0x22"

text \<open>
  A key as a word at the start of a text that follows the character \<open>prev\<close>: the text behind it.
  The keys that are asked for begin and end with characters of a word.
\<close>

definition key_word :: "(char \<Rightarrow> char) \<Rightarrow> string \<Rightarrow> string \<Rightarrow> string \<Rightarrow> string option" where
  "key_word f key prev s =
     (let rest = drop (length key) s
      in if \<not> word_at prev \<and> map f (take (length key) s) = map f key \<and> \<not> word_at rest
         then Some rest else None)"

text \<open>\<^verbatim>\<open>\bkey\b\s*=\s*(['"])(?P<val>[^'"]+)\1\<close>, at the start of a text.\<close>

definition match_equals :: "string \<Rightarrow> string \<Rightarrow> string \<Rightarrow> string option" where
  "match_equals key prev s =
     (case key_word id key prev s of
        None \<Rightarrow> None
      | Some rest \<Rightarrow>
          (case dropWhile py_space rest of
             [] \<Rightarrow> None
           | e # rest \<Rightarrow>
               if e \<noteq> CHR ''='' then None
               else (case dropWhile py_space rest of
                 [] \<Rightarrow> None
               | q # rest \<Rightarrow>
                   let val = takeWhile (\<lambda>c. \<not> is_quote c) rest;
                       rest = dropWhile (\<lambda>c. \<not> is_quote c) rest
                   in if is_quote q \<and> val \<noteq> [] \<and> rest \<noteq> [] \<and> hd rest = q then Some val else None)))"

text \<open>\<^verbatim>\<open>\bkey\b\s+IN\s*\((?P<vals>[^)]+)\)\<close>, in any case, at the start of a text.\<close>

definition match_in :: "string \<Rightarrow> string \<Rightarrow> string \<Rightarrow> string option" where
  "match_in key prev s =
     (case key_word lower_char key prev s of
        None \<Rightarrow> None
      | Some rest \<Rightarrow>
          let tail = dropWhile py_space rest
          in if tail = rest \<or> py_lower (take 2 tail) \<noteq> ''in'' then None
             else (case dropWhile py_space (drop 2 tail) of
               [] \<Rightarrow> None
             | p # rest \<Rightarrow>
                 let vals = takeWhile (\<lambda>c. c \<noteq> CHR '')'') rest
                 in if p = CHR ''('' \<and> vals \<noteq> [] \<and> length vals < length rest then Some vals else None))"

text \<open>\<^verbatim>\<open>re.search\<close>: the first position where the pattern matches; \<open>prev\<close> holds the character before it.\<close>

fun search_from :: "(string \<Rightarrow> string \<Rightarrow> 'a option) \<Rightarrow> string \<Rightarrow> string \<Rightarrow> 'a option" where
  "search_from m prev [] = m prev []"
| "search_from m prev (c # cs) = (case m prev (c # cs) of Some v \<Rightarrow> Some v | None \<Rightarrow> search_from m [c] cs)"

fun split_all :: "char \<Rightarrow> string \<Rightarrow> string list" where
  "split_all sep [] = [[]]"
| "split_all sep (c # cs) =
     (if c = sep then [] # split_all sep cs
      else case split_all sep cs of p # ps \<Rightarrow> (c # p) # ps | [] \<Rightarrow> [[c]])"

primrec first_quoted :: "string list \<Rightarrow> string option" where
  "first_quoted [] = None"
| "first_quoted (t # ts) =
     (let token = py_strip t
      in if length token \<ge> 2 \<and> is_quote (hd token) \<and> last token = hd token
         then Some (butlast (tl token)) else first_quoted ts)"

definition extract_first_filter_value :: "string \<Rightarrow> string \<Rightarrow> string option" where
  "extract_first_filter_value filter_str key =
     (case search_from (match_equals key) [] filter_str of
        Some val \<Rightarrow> Some val
      | None \<Rightarrow>
          (case search_from (match_in key) [] filter_str of
             Some vals \<Rightarrow> first_quoted (split_all (CHR '','') vals)
           | None \<Rightarrow> None))"

section \<open>Checks\<close>

definition graphql_can_read_experiment where
  "graphql_can_read_experiment sv rq experiment_id username =
     act_map can_read (experiment_permission sv rq (JString experiment_id) username)"

definition graphql_can_read_run where
  "graphql_can_read_run sv rq run_id username =
     act_bind (act_lift (ts_run_experiment (sv_tracking sv) (JString run_id))) (\<lambda>experiment_id.
     graphql_can_read_experiment sv rq experiment_id username)"

definition graphql_can_read_model where
  "graphql_can_read_model sv rq name username =
     act_map can_read (model_permission sv rq (JString name) username)"

definition PROTECTED_FIELDS :: "string list" where
  "PROTECTED_FIELDS =
     [''mlflowGetExperiment'', ''mlflowGetRun'', ''mlflowListArtifacts'', ''mlflowGetMetricHistoryBulkInterval'',
      ''mlflowSearchRuns'', ''mlflowSearchDatasets'', ''mlflowSearchModelVersions'', ''modelVersions'']"

text \<open>\<^verbatim>\<open>a or b\<close>, and the items of \<^verbatim>\<open>v or []\<close>.\<close>

definition py_or :: "json \<Rightarrow> json \<Rightarrow> json" where
  "py_or a b = (if truthy a then a else b)"

definition items_of :: "json \<Rightarrow> json list result" where
  "items_of v = (if truthy v then py_iter v else Inr [])"

definition search_model_versions where
  "search_model_versions sv rq filter_str username =
     (if \<not> truthy filter_str then act_return False
      else
        let text = py_str (sv_tracking sv) filter_str;
            value_of = (\<lambda>key. or_text (extract_first_filter_value text key) None)
        in case value_of ''name'' of
          Some model \<Rightarrow> graphql_can_read_model sv rq model username
        | None \<Rightarrow>
            (case (case value_of ''run_id'' of Some i \<Rightarrow> Some i | None \<Rightarrow> value_of ''run_uuid'') of
               Some run_id \<Rightarrow> graphql_can_read_run sv rq run_id username
             | None \<Rightarrow> act_return False))"

text \<open>
  The answer and the arguments as the check leaves them; \<open>root_experiment\<close> is the experiment of
  the object that the field belongs to, null if it has none.
\<close>

definition check_graphql_authorization ::
    "server \<Rightarrow> request \<Rightarrow> string \<Rightarrow> json \<Rightarrow> graphql_args \<Rightarrow> string \<Rightarrow> (bool \<times> graphql_args, store_state) action" where
  "check_graphql_authorization sv rq field_name root_experiment args username =
     (let text = py_str (sv_tracking sv);
          attr = (\<lambda>name. get_input_attr (ga_input args) name JNull);
          unless_null = (\<lambda>v check. if v = JNull then act_return True else check (text v) username);
          unchanged = act_map (\<lambda>ok. (ok, args))
      in if ga_input args = None then act_return (True, args)
         else if field_name = ''mlflowGetExperiment''
         then unchanged (unless_null (attr ''experiment_id'') (graphql_can_read_experiment sv rq))
         else if field_name \<in> set [''mlflowGetRun'', ''mlflowListArtifacts'']
         then unchanged (unless_null (py_or (attr ''run_id'') (attr ''run_uuid'')) (graphql_can_read_run sv rq))
         else if field_name = ''mlflowGetMetricHistoryBulkInterval''
         then act_bind (act_lift (items_of (attr ''run_ids''))) (\<lambda>run_ids.
              unchanged (all_checked (\<lambda>run_id. graphql_can_read_run sv rq (text run_id) username) run_ids))
         else if field_name \<in> set [''mlflowSearchRuns'', ''mlflowSearchDatasets'']
         then act_bind (act_lift (items_of (attr ''experiment_ids''))) (\<lambda>experiment_ids.
              act_bind (keep_passing (\<lambda>i. graphql_can_read_experiment sv rq i username) (map text experiment_ids))
                (\<lambda>readable_ids.
                  if readable_ids = [] then act_return (False, args)
                  else act_return (True, args\<lparr>ga_input :=
                    set_input_attr (ga_input args) ''experiment_ids'' (JArray (map JString readable_ids))\<rparr>)))
         else if field_name = ''modelVersions''
         then unchanged (unless_null root_experiment (graphql_can_read_experiment sv rq))
         else if field_name = ''mlflowSearchModelVersions''
         then unchanged (search_model_versions sv rq (py_or (attr ''filter'') (attr ''filter_string'')) username)
         else act_return (True, args))"

text \<open>The hook around a next resolver; \<open>None\<close> is the answer null.\<close>

definition graphql_resolve ::
    "server \<Rightarrow> request \<Rightarrow> (graphql_args \<Rightarrow> ('r option, store_state) action) \<Rightarrow> string option \<Rightarrow> json \<Rightarrow> graphql_args \<Rightarrow>
     ('r option, store_state) action" where
  "graphql_resolve sv rq next_resolver field_name root_experiment args =
     (case or_text field_name None of
        None \<Rightarrow> next_resolver args
      | Some f \<Rightarrow>
          if f \<notin> set PROTECTED_FIELDS then next_resolver args
          else case get_fastapi_username rq of
            Inl _ \<Rightarrow> act_return None
          | Inr username \<Rightarrow>
              if get_fastapi_admin_status rq then next_resolver args
              else (\<lambda>s. case check_graphql_authorization sv rq f root_experiment args username s of
                     (Inl _, s') \<Rightarrow> (Inr None, s')
                   | (Inr (ok, args'), s') \<Rightarrow> if ok then next_resolver args' s' else (Inr None, s')))"

lemma filter_examples:
  "extract_first_filter_value ''name = \"mine\" AND run_id=\"r\"'' ''name'' = Some ''mine''"
  "extract_first_filter_value ''name = \"mine\" AND run_id=\"r\"'' ''run_id'' = Some ''r''"
  "extract_first_filter_value ''Name in (\"mine\", \"other\")'' ''name'' = Some ''mine''"
  "extract_first_filter_value ''filename=\"x\"'' ''name'' = None"
  "extract_first_filter_value ''tags.name = \"mine\"'' ''name'' = Some ''mine''"
  by code_simp+

end
