(* ===== verification/GraphqlProperties.thy ===== *)
theory GraphqlProperties
  imports Graphql RequestProperties
begin

text \<open>
  What the authorization of GraphQL guarantees: a protected field is null, or its resolver runs
  with what the user may read by the database of the moment. And where its checks are too wide.
\<close>

section \<open>The checks keep the contract\<close>


text \<open>The database is \<open>db\<close>, and the caches agree with it.\<close>

definition current :: "server \<Rightarrow> request \<Rightarrow> string \<Rightarrow> db \<Rightarrow> store_state \<Rightarrow> bool" where
  "current sv rq u db s \<longleftrightarrow>
     colon_free u \<and> st_db s = db \<and>
     exact_caches (sv_config sv) (sv_outside sv) db (get_request_workspace rq) (st_caches s)"










section \<open>A protected field\<close>

lemma keeps_loops [keeps_intros]:
  "(\<And>x. keeps I (check x)) \<Longrightarrow> keeps I (all_checked check xs)"
  "(\<And>x. keeps I (check x)) \<Longrightarrow> keeps I (keep_passing check xs)"
  by (induction xs) (auto intro: keeps_intros)



lemma unless_null_true:
  assumes "(if v = JNull then act_return True else check (str v) u) s = (Inr True, s')"
    and "\<And>i s s'. check i u s = (Inr True, s') \<Longrightarrow> current sv rq u db s \<Longrightarrow> P i" and "current sv rq u db s"
  shows "v = JNull \<or> P (str v)"
  using assms by (auto split: if_splits)





section \<open>Where the checks are too wide\<close>

text \<open>A filter that compares a tag called name is taken for one that names the model, and of the
  models that a filter lists only the first is checked.\<close>

theorem tag_counts_as_model_name:
  "extract_first_filter_value ''tags.name = \"mine\"'' ''name'' = Some ''mine''"
  "extract_first_filter_value ''name IN (\"mine\", \"secret\")'' ''name'' = Some ''mine''"
  by code_simp+

text \<open>The versions of the models of a run come without an input, so their check is never made.\<close>

theorem model_versions_not_checked:
  "check_graphql_authorization sv rq ''modelVersions'' parent \<lparr>ga_input = None, ga_others = others\<rparr> u s =
    (Inr (True, \<lparr>ga_input = None, ga_others = others\<rparr>), s)"
  by (simp add: check_graphql_authorization_def act_return_def)

section \<open>A run\<close>





end
