(* ===== verification/ResourceRouter.thy ===== *)
theory ResourceRouter
  imports UserRouter AfterRequest
begin

text \<open>
  The routers of the resources: who has a permission on an experiment, a model, a prompt, a
  scorer or a gateway resource, and which resources a user manages.
  (\<^verbatim>\<open>routers/experiment_permissions.py\<close>, \<^verbatim>\<open>registered_model_permissions.py\<close>,
  \<^verbatim>\<open>prompt_permissions.py\<close>, \<^verbatim>\<open>scorers_permissions.py\<close>, \<^verbatim>\<open>gateway_*_permissions.py\<close>)
\<close>

section \<open>MLflow's part of the answers\<close>

record listed_scorer =
  ls_experiment_id :: json
  ls_scorer_name :: string
  ls_version :: json
  ls_creation_time :: json
  ls_scorer_id :: json

text \<open>The sizes measured last, tags, the fields of a model beside its name, and the scorers of an experiment.\<close>

record listing_env =
  le_experiment_size :: "string \<Rightarrow> int option"
  le_experiment_tags :: "string \<Rightarrow> json"
  le_model_fields :: "string \<Rightarrow> (string \<times> json) list"
  le_list_scorers :: "string \<Rightarrow> listed_scorer list result"

section \<open>Users and groups of a resource\<close>

text \<open>A dictionary made in a loop: the last entry of a key counts.\<close>

definition permission_dict :: "(perm_entity \<Rightarrow> 'k) \<Rightarrow> perm_entity list \<Rightarrow> 'k \<Rightarrow> string option" where
  "permission_dict key_of perms = map_of (rev (map (\<lambda>p. (key_of p, pe_permission p)) perms))"

definition user_permission :: "user \<Rightarrow> string \<Rightarrow> json" where
  "user_permission u permission =
     JObject [(''name'', JString (u_username u)), (''display_name'', JString (u_display_name u)),
       (''permission'', JString permission),
       (''kind'', JString (if u_is_service_account u then ''service-account'' else ''user''))]"

text \<open>The loop over all users that keeps those with the key in their dictionary.\<close>

fun users_with :: "(user_entity \<Rightarrow> string option) \<Rightarrow> user_entity list \<Rightarrow> (user \<times> string) list" where
  "users_with permission_on [] = []"
| "users_with permission_on (u # us) =
     (case permission_on u of
        Some p \<Rightarrow> (ue_user u, p) # users_with permission_on us
      | None \<Rightarrow> users_with permission_on us)"

definition users_response :: "(user_entity \<Rightarrow> string option) \<Rightarrow> handler" where
  "users_response permission_on =
     act_bind (read_db (\<lambda>db. Inr (user_list db False True))) (\<lambda>users.
     act_return (200, JArray (map (\<lambda>(u, p). user_permission u p) (users_with permission_on users))))"

definition groups_response :: "(db \<Rightarrow> (string \<times> string) list) \<Rightarrow> handler" where
  "groups_response groups_of =
     or_status 500
       (act_bind (read_db (\<lambda>db. Inr (groups_of db))) (\<lambda>groups.
        act_return (200, JArray (map (\<lambda>(name, permission).
          JObject [(''name'', JString name), (''permission'', JString permission)]) groups))))"

definition id_of :: "perm_entity \<Rightarrow> string" where
  "id_of p = resource_id_of (pe_key p)"

section \<open>Experiments\<close>

definition get_experiment_users :: "app \<Rightarrow> http_request \<Rightarrow> string \<Rightarrow> handler" where
  "get_experiment_users ap rq experiment_id =
     act_bind (check_experiment_manage_permission (ap_server ap) rq experiment_id) (\<lambda>_.
     users_response (\<lambda>u. permission_dict id_of (ue_experiment_permissions u) experiment_id))"

definition get_experiment_groups :: "app \<Rightarrow> http_request \<Rightarrow> string \<Rightarrow> handler" where
  "get_experiment_groups ap rq experiment_id =
     act_bind (check_experiment_manage_permission (ap_server ap) rq experiment_id) (\<lambda>_.
     groups_response (\<lambda>db. group_list_groups_for_resource Experiment db experiment_id))"

definition list_experiments :: "app \<Rightarrow> listing_env \<Rightarrow> http_request \<Rightarrow> handler" where
  "list_experiments ap le rq =
     act_bind (caller rq) (\<lambda>who.
     act_bind (act_lift (ap_search_experiments ap)) (\<lambda>all_experiments.
     act_bind (if snd who then act_return all_experiments
               else on_store_state (with_workspace_cache (\<lambda>db. filter_manageable_experiments
                 (sv_config (ap_server ap)) (sv_outside (ap_server ap)) db (hr_workspace rq) (fst who) all_experiments)))
       (\<lambda>manageable_experiments.
     act_return (200, JArray (map (\<lambda>x. JObject
       [(''name'', JString (snd x)), (''id'', JString (fst x)), (''tags'', le_experiment_tags le (fst x)),
        (''size_bytes'', json_id (le_experiment_size le (fst x)))]) manageable_experiments)))))"

section \<open>Registered models and prompts\<close>

definition get_registered_model_users :: "app \<Rightarrow> http_request \<Rightarrow> string \<Rightarrow> handler" where
  "get_registered_model_users ap rq name =
     act_bind (check_registered_model_manage_permission (ap_server ap) rq name) (\<lambda>_.
     users_response (\<lambda>u. permission_dict id_of (ue_registered_model_permissions u) name))"

definition get_registered_model_groups :: "app \<Rightarrow> http_request \<Rightarrow> string \<Rightarrow> handler" where
  "get_registered_model_groups ap rq name =
     act_bind (check_registered_model_manage_permission (ap_server ap) rq name) (\<lambda>_.
     groups_response (\<lambda>db. list_groups_for_model db name))"

definition get_prompt_users :: "app \<Rightarrow> http_request \<Rightarrow> string \<Rightarrow> handler" where
  "get_prompt_users ap rq prompt_name =
     act_bind (check_prompt_manage_permission (ap_server ap) rq prompt_name) (\<lambda>_.
     users_response (\<lambda>u. permission_dict id_of (ue_registered_model_permissions u) prompt_name))"

definition get_prompt_groups :: "app \<Rightarrow> http_request \<Rightarrow> string \<Rightarrow> handler" where
  "get_prompt_groups ap rq prompt_name =
     act_bind (check_prompt_manage_permission (ap_server ap) rq prompt_name) (\<lambda>_.
     groups_response (\<lambda>db. list_groups_for_prompt db prompt_name))"

definition named_models :: "(http_request \<Rightarrow> string \<Rightarrow> string list \<Rightarrow> (string list, app_state) action) \<Rightarrow>
    listing_env \<Rightarrow> http_request \<Rightarrow> string \<times> bool \<Rightarrow> string list \<Rightarrow> handler" where
  "named_models manageable_of le rq who all_models =
     act_bind (if snd who then act_return all_models else manageable_of rq (fst who) all_models) (\<lambda>models.
     act_return (200, JArray (map (\<lambda>name. JObject ((''name'', JString name) # le_model_fields le name)) models)))"

text \<open>Both read all pages first, which need not end: that is \<open>None\<close>.\<close>

definition list_prompts :: "app \<Rightarrow> listing_env \<Rightarrow> http_request \<Rightarrow> app_state \<Rightarrow>
    ((nat \<times> json) result \<times> app_state) option" where
  "list_prompts ap le rq s =
     (case caller rq s of
        (Inl e, s') \<Rightarrow> Some (Inl e, s')
      | (Inr who, s') \<Rightarrow>
          fetched_then (fetch_all_prompts (ap_mlflow ap) 1000)
            (named_models (\<lambda>rq u names. on_store_state (with_workspace_cache (\<lambda>db. filter_manageable_prompts
               (sv_config (ap_server ap)) (sv_outside (ap_server ap)) db (hr_workspace rq) u names))) le rq who) s')"

definition list_models :: "app \<Rightarrow> listing_env \<Rightarrow> http_request \<Rightarrow> app_state \<Rightarrow>
    ((nat \<times> json) result \<times> app_state) option" where
  "list_models ap le rq s =
     (case caller rq s of
        (Inl e, s') \<Rightarrow> Some (Inl e, s')
      | (Inr who, s') \<Rightarrow>
          fetched_then (fetch_all_registered_models (ap_mlflow ap) None None 1000)
            (named_models (\<lambda>rq u names. on_store_state (with_workspace_cache (\<lambda>db. filter_manageable_models
               (sv_config (ap_server ap)) (sv_outside (ap_server ap)) db (hr_workspace rq) u names))) le rq who) s')"

section \<open>Scorers\<close>

definition list_scorers :: "app \<Rightarrow> listing_env \<Rightarrow> http_request \<Rightarrow> string \<Rightarrow> handler" where
  "list_scorers ap le rq experiment_id =
     act_bind (caller rq) (\<lambda>who.
     act_bind (or_status 500 (act_lift (le_list_scorers le experiment_id))) (\<lambda>all_scorers.
     act_bind (if snd who then act_return all_scorers
               else keep_passing (\<lambda>scorer. on_store_state (with_caches (\<lambda>db. can_manage_scorer
                 (sv_config (ap_server ap)) (sv_outside (ap_server ap)) db None experiment_id (ls_scorer_name scorer) (fst who))))
                 all_scorers) (\<lambda>visible_scorers.
     act_return (200, JArray (map (\<lambda>scorer. JObject
       [(''experiment_id'', ls_experiment_id scorer), (''name'', JString (ls_scorer_name scorer)),
        (''version'', ls_version scorer), (''creation_time'', ls_creation_time scorer),
        (''scorer_id'', ls_scorer_id scorer)]) visible_scorers)))))"

definition get_scorer_users :: "app \<Rightarrow> http_request \<Rightarrow> string \<Rightarrow> string \<Rightarrow> handler" where
  "get_scorer_users ap rq experiment_id scorer_name =
     act_bind (check_scorer_manage_permission (ap_server ap) rq) (\<lambda>_.
     users_response (\<lambda>u. permission_dict (\<lambda>p. (id_of p, scorer_name_of (pe_key p))) (ue_scorer_permissions u)
       (experiment_id, scorer_name)))"

definition get_scorer_groups :: "app \<Rightarrow> http_request \<Rightarrow> string \<Rightarrow> string \<Rightarrow> handler" where
  "get_scorer_groups ap rq experiment_id scorer_name =
     act_bind (check_scorer_manage_permission (ap_server ap) rq) (\<lambda>_.
     groups_response (\<lambda>db. list_groups_for_scorer db experiment_id scorer_name))"

section \<open>Gateway resources\<close>

definition get_gateway_endpoint_users :: "app \<Rightarrow> http_request \<Rightarrow> string \<Rightarrow> handler" where
  "get_gateway_endpoint_users ap rq name =
     act_bind (check_gateway_endpoint_manage_permission (ap_server ap) rq name) (\<lambda>_.
     users_response (\<lambda>u. permission_dict id_of (ue_gateway_endpoint_permissions u) name))"

definition get_gateway_endpoint_groups :: "app \<Rightarrow> http_request \<Rightarrow> string \<Rightarrow> handler" where
  "get_gateway_endpoint_groups ap rq name =
     act_bind (check_gateway_endpoint_manage_permission (ap_server ap) rq name) (\<lambda>_.
     groups_response (\<lambda>db. group_list_groups_for_resource GatewayEndpoint db name))"

definition get_gateway_secret_users :: "app \<Rightarrow> http_request \<Rightarrow> string \<Rightarrow> handler" where
  "get_gateway_secret_users ap rq name =
     act_bind (check_gateway_secret_manage_permission (ap_server ap) rq name) (\<lambda>_.
     users_response (\<lambda>u. permission_dict id_of (ue_gateway_secret_permissions u) name))"

definition get_gateway_secret_groups :: "app \<Rightarrow> http_request \<Rightarrow> string \<Rightarrow> handler" where
  "get_gateway_secret_groups ap rq name =
     act_bind (check_gateway_secret_manage_permission (ap_server ap) rq name) (\<lambda>_.
     groups_response (\<lambda>db. group_list_groups_for_resource GatewaySecret db name))"

definition get_gateway_model_definition_users :: "app \<Rightarrow> http_request \<Rightarrow> string \<Rightarrow> handler" where
  "get_gateway_model_definition_users ap rq name =
     act_bind (check_gateway_model_definition_manage_permission (ap_server ap) rq name) (\<lambda>_.
     users_response (\<lambda>u. permission_dict id_of (ue_gateway_model_definition_permissions u) name))"

definition get_gateway_model_definition_groups :: "app \<Rightarrow> http_request \<Rightarrow> string \<Rightarrow> handler" where
  "get_gateway_model_definition_groups ap rq name =
     act_bind (check_gateway_model_definition_manage_permission (ap_server ap) rq name) (\<lambda>_.
     groups_response (\<lambda>db. group_list_groups_for_resource GatewayModelDefinition db name))"

text \<open>The three lists differ in the filter and in the fields shown.\<close>

definition gateway_resources :: "http_request \<Rightarrow> json_object list result \<Rightarrow>
    (db \<Rightarrow> string \<Rightarrow> json_object list \<Rightarrow> auth_caches \<Rightarrow> json_object list \<times> auth_caches) \<Rightarrow>
    (json_object \<Rightarrow> json) \<Rightarrow> handler" where
  "gateway_resources rq fetched manageable_of entry =
     act_bind (caller rq) (\<lambda>who.
     or_status 500
       (act_bind (act_lift fetched) (\<lambda>all_items.
        act_bind (if snd who then act_return all_items
                  else on_store_state (with_caches (\<lambda>db caches. apfst Inr (manageable_of db (fst who) all_items caches))))
          (\<lambda>items. act_return (200, JArray (map entry items))))))"

definition field_or_empty :: "json_object \<Rightarrow> string \<Rightarrow> json" where
  "field_or_empty item key = JString (case item key of Some v \<Rightarrow> v | None \<Rightarrow> '''')"

definition list_gateway_endpoints :: "app \<Rightarrow> http_request \<Rightarrow> handler" where
  "list_gateway_endpoints ap rq =
     gateway_resources rq (fetch_all_gateway_endpoints (ap_mlflow ap))
       (\<lambda>db. filter_manageable_gateway_endpoints (sv_config (ap_server ap)) (sv_outside (ap_server ap)) db None)
       (\<lambda>endpoint. JObject
         [(''name'', field_or_empty endpoint ''name''), (''type'', field_or_empty endpoint ''endpoint_type''),
          (''description'', field_or_empty endpoint ''description''),
          (''route_type'', field_or_empty endpoint ''route_type''),
          (''auth_type'', field_or_empty endpoint ''auth_type'')])"

definition list_gateway_secrets :: "app \<Rightarrow> http_request \<Rightarrow> handler" where
  "list_gateway_secrets ap rq =
     gateway_resources rq (fetch_all_gateway_secrets (ap_mlflow ap))
       (\<lambda>db. filter_manageable_gateway_secrets (sv_config (ap_server ap)) (sv_outside (ap_server ap)) db None)
       (\<lambda>secret. JObject [(''key'', JString (secret_item_name secret))])"

definition list_gateway_model_definitions :: "app \<Rightarrow> http_request \<Rightarrow> handler" where
  "list_gateway_model_definitions ap rq =
     gateway_resources rq (fetch_all_gateway_model_definitions (ap_mlflow ap))
       (\<lambda>db. filter_manageable_gateway_model_definitions (sv_config (ap_server ap)) (sv_outside (ap_server ap)) db None)
       (\<lambda>model. JObject
         [(''name'', field_or_empty model ''name''),
          (''source'', JString (or_else (model ''source'')
             (case model ''provider'' of Some v \<Rightarrow> v | None \<Rightarrow> '''')))])"

end
