(* ===== verification/ResourceProperties.thy ===== *)
theory ResourceProperties
  imports ResourceRouter AccountProperties
begin

text \<open>
  The lists of the users of a resource agree with the permissions that resolution reads.
\<close>

section \<open>The dictionary of a user\<close>

text \<open>Only scorers have keys of two columns.\<close>

definition plain_keys :: "db \<Rightarrow> resource_class \<Rightarrow> bool" where
  "plain_keys db c \<longleftrightarrow> list_all (\<lambda>r. up_key r = ResourceId (resource_id_of (up_key r))) (db_user_perms db c)"

lemma permission_dict_Some:
  assumes "distinct (map key_of perms)"
  shows "permission_dict key_of perms k = Some p \<longleftrightarrow> (\<exists>e \<in> set perms. key_of e = k \<and> pe_permission e = p)"
proof -
  have "distinct (map fst (rev (map (\<lambda>e. (key_of e, pe_permission e)) perms)))"
    using assms by (simp add: rev_map [symmetric] comp_def)
  from map_of_eq_Some_iff [OF this] show ?thesis unfolding permission_dict_def by auto
qed

lemma plain_keys_distinct:
  assumes "db_wf db" and "plain_keys db c"
  shows "distinct (map (\<lambda>r. resource_id_of (up_key r)) (filter (\<lambda>r. up_user r = i) (db_user_perms db c)))"
proof -
  let ?rows = "filter (\<lambda>r. up_user r = i) (db_user_perms db c)"
  have unique: "distinct (map up_unique (db_user_perms db c))" using db_wf_keys(4) [OF assms(1)] by (simp add: table_ok_def)
  have key: "resource_id_of (up_key r) = j \<longleftrightarrow> up_key r = ResourceId j" if "r \<in> set (db_user_perms db c)" for r j
    using assms(2) that by (auto simp: plain_keys_def list_all_iff)
  have "inj_on (\<lambda>r. resource_id_of (up_key r)) (set ?rows)"
  proof (rule inj_onI)
    fix r r' assume "r \<in> set ?rows" "r' \<in> set ?rows" "resource_id_of (up_key r) = resource_id_of (up_key r')"
    then have "up_unique r = up_unique r'" "r \<in> set (db_user_perms db c)" "r' \<in> set (db_user_perms db c)"
      using key [of r "resource_id_of (up_key r')"] key [of r' "resource_id_of (up_key r')"] by (auto simp: up_unique_def)
    with unique show "r = r'" by (auto simp: distinct_map dest: inj_onD)
  qed
  moreover have "distinct ?rows" using unique by (simp add: distinct_map)
  ultimately show ?thesis by (simp add: distinct_map)
qed

lemma permission_dict_lookup:
  assumes "db_wf db" and "plain_keys db c" and "u \<in> set (db_users db)"
  shows "permission_dict id_of (user_perm_relation c db u) i = user_perm_lookup c db (ResourceId i) (u_username u)"
proof -
  let ?rows = "filter (\<lambda>r. up_user r = u_id u) (db_user_perms db c)"
  have unique: "distinct (map up_unique (db_user_perms db c))" using db_wf_keys(4) [OF assms(1)] by (simp add: table_ok_def)
  have user: "get_user db (u_username u) = Inr u" using assms(3) by (simp add: get_user_Inr [OF assms(1)])
  have key: "resource_id_of (up_key r) = j \<longleftrightarrow> up_key r = ResourceId j" if "r \<in> set (db_user_perms db c)" for r j
    using assms(2) that by (auto simp: plain_keys_def list_all_iff)
  from plain_keys_distinct [OF assms(1,2)]
  have "distinct (map (\<lambda>r. resource_id_of (up_key r)) ?rows)" .
  then have "distinct (map id_of (user_perm_relation c db u))"
    by (simp add: user_perm_relation_def comp_def id_of_def user_perm_entity_def)
  then have "permission_dict id_of (user_perm_relation c db u) i = Some p \<longleftrightarrow>
      user_perm_lookup c db (ResourceId i) (u_username u) = Some p" for p
    by (auto simp: permission_dict_Some user_perm_relation_def id_of_def user_perm_entity_def user_perm_lookup_def user
        user_perm_at_def row_at_Some [OF unique] key up_unique_def)
  then show ?thesis by (metis option.exhaust)
qed

section \<open>The routes\<close>

definition users_of :: "resource_class \<Rightarrow> db \<Rightarrow> string \<Rightarrow> (user \<times> string) list" where
  "users_of c db i =
     List.map_filter (\<lambda>u. map_option (Pair u) (user_perm_lookup c db (ResourceId i) (u_username u))) (db_users db)"

lemma users_with_filter:
  "users_with f (map (user_to_entity db) us) =
    List.map_filter (\<lambda>u. map_option (Pair u) (f (user_to_entity db u))) us"
  by (induction us) (auto simp: map_filter_simps user_to_entity_def split: option.split)

lemma users_with_lookup:
  assumes "db_wf db" and "plain_keys db c"
    and "\<And>u. f (user_to_entity db u) = permission_dict id_of (user_perm_relation c db u) i"
  shows "users_with f (user_list db False True) = users_of c db i"
proof -
  have "List.map_filter (\<lambda>u. map_option (Pair u) (f (user_to_entity db u))) us =
      List.map_filter (\<lambda>u. map_option (Pair u) (user_perm_lookup c db (ResourceId i) (u_username u))) us"
    if "set us \<subseteq> set (db_users db)" for us
    using that by (induction us) (auto simp: map_filter_simps assms(3) permission_dict_lookup [OF assms(1,2)] split: option.split)
  then show ?thesis by (simp add: user_list_def users_with_filter users_of_def)
qed

text \<open>The routes that list the users of a resource with a name or an id.\<close>

definition user_listings :: "app \<Rightarrow> http_request \<Rightarrow> string \<Rightarrow> (handler \<times> resource_class) list" where
  "user_listings ap rq i =
     [(get_experiment_users ap rq i, Experiment), (get_registered_model_users ap rq i, RegisteredModel),
      (get_prompt_users ap rq i, RegisteredModel), (get_gateway_endpoint_users ap rq i, GatewayEndpoint),
      (get_gateway_secret_users ap rq i, GatewaySecret),
      (get_gateway_model_definition_users ap rq i, GatewayModelDefinition)]"

lemma check_manage_db: "check_manage rq can a = (r, a') \<Longrightarrow> app_db a' = app_db a"
  by (auto simp: check_manage_def act_bind_def act_lift_def read_db_def on_store_state_def with_caches_def
      act_return_def split: sum.splits prod.splits if_splits)

lemma listing_users:
  assumes "act_bind (check_manage rq can) (\<lambda>_. users_response f) a = (Inr response, a')"
    and "db_wf (app_db a)" and "plain_keys (app_db a) c"
    and "\<And>u. f (user_to_entity (app_db a) u) = permission_dict id_of (user_perm_relation c (app_db a) u) i"
  shows "app_db a' = app_db a \<and>
    response = (200, JArray (map (\<lambda>(u, p). user_permission u p) (users_of c (app_db a) i)))"
proof -
  from assms(1) obtain x s1 where guard: "check_manage rq can a = (Inr x, s1)"
    and rest: "users_response f s1 = (Inr response, a')"
    by (rule act_bind_Inr)
  note db = check_manage_db [OF guard]
  from rest users_with_lookup [OF assms(2-4)] db show ?thesis
    by (auto simp: users_response_def read_db_def act_bind_def act_return_def)
qed

text \<open>C23: The list of the users of a resource holds each user with a permission on it once, with the
  permission that resolution reads for that user, and no other.\<close>

theorem resource_users_are_current:
  assumes "(h, c) \<in> set (user_listings ap rq i)" and "h a = (Inr response, a')"
    and "db_wf (app_db a)" and "plain_keys (app_db a) c"
  shows "app_db a' = app_db a \<and>
    response = (200, JArray (map (\<lambda>(u, p). user_permission u p) (users_of c (app_db a) i)))"
  using assms(1)
  unfolding user_listings_def list.set insert_iff empty_iff prod.inject
proof (elim disjE conjE)
  assume "h = get_experiment_users ap rq i" and "c = Experiment"
  with assms(2-4) show ?thesis unfolding get_experiment_users_def check_experiment_manage_permission_def
    by (intro listing_users) (auto simp: user_to_entity_def)
next
  assume "h = get_registered_model_users ap rq i" and "c = RegisteredModel"
  with assms(2-4) show ?thesis unfolding get_registered_model_users_def check_registered_model_manage_permission_def
    by (intro listing_users) (auto simp: user_to_entity_def)
next
  assume "h = get_prompt_users ap rq i" and "c = RegisteredModel"
  with assms(2-4) show ?thesis unfolding get_prompt_users_def check_prompt_manage_permission_def
    by (intro listing_users) (auto simp: user_to_entity_def)
next
  assume "h = get_gateway_endpoint_users ap rq i" and "c = GatewayEndpoint"
  with assms(2-4) show ?thesis unfolding get_gateway_endpoint_users_def check_gateway_endpoint_manage_permission_def
    by (intro listing_users) (auto simp: user_to_entity_def)
next
  assume "h = get_gateway_secret_users ap rq i" and "c = GatewaySecret"
  with assms(2-4) show ?thesis unfolding get_gateway_secret_users_def check_gateway_secret_manage_permission_def
    by (intro listing_users) (auto simp: user_to_entity_def)
next
  assume "h = get_gateway_model_definition_users ap rq i" and "c = GatewayModelDefinition"
  with assms(2-4) show ?thesis
    unfolding get_gateway_model_definition_users_def check_gateway_model_definition_manage_permission_def
    by (intro listing_users) (auto simp: user_to_entity_def)
qed simp

text \<open>Bob, an administrator, lists the users of experiment 10.\<close>

theorem resource_users_are_current_witness:
  "\<exists>a'. get_experiment_users example_app (request_of ''bob'') ''10'' example_app_state =
    (Inr (200, JArray (map (\<lambda>(u, p). user_permission u p) (users_of Experiment example_db ''10''))), a') \<and>
    map (\<lambda>(u, p). (u_username u, p)) (users_of Experiment example_db ''10'') = [(''alice'', ''READ'')]"
proof -
  let ?h = "get_experiment_users example_app (request_of ''bob'') ''10''"
  have facts: "case fst (?h example_app_state) of Inr _ \<Rightarrow> True | Inl _ \<Rightarrow> False"
    "plain_keys example_db Experiment"
    "map (\<lambda>(u, p). (u_username u, p)) (users_of Experiment example_db ''10'') = [(''alice'', ''READ'')]" by code_simp+
  then obtain response a' where run: "?h example_app_state = (Inr response, a')"
    by (cases "?h example_app_state") (auto split: sum.splits)
  have db: "app_db example_app_state = example_db" by (simp add: example_app_state_def)
  have "(?h, Experiment) \<in> set (user_listings example_app (request_of ''bob'') ''10'')" by (simp add: user_listings_def)
  from resource_users_are_current [OF this run, unfolded db, OF example_db_wf facts(2)] run facts(3)
  show ?thesis by auto
qed

end
