(* ===== verification/WorkspaceRouter.thy ===== *)
theory WorkspaceRouter
  imports UserRouter Middleware
begin

text \<open>
  The routes for the permissions and the patterns of workspaces:
  \<^verbatim>\<open>routers/workspace_permissions.py\<close> and \<^verbatim>\<open>routers/workspace_regex_permissions.py\<close>. None of
  them handles an exception: it leaves as it was raised.
\<close>

section \<open>The cache of workspace permissions\<close>

definition on_workspace_cache :: "(permission local_cache \<Rightarrow> permission local_cache) \<Rightarrow> (unit, app_state) action" where
  "on_workspace_cache f =
     on_store_state (\<lambda>s. (Inr (), s\<lparr>st_caches := (st_caches s)\<lparr>workspace_cache := f (workspace_cache (st_caches s))\<rparr>\<rparr>))"

section \<open>Permissions\<close>

definition list_workspace_users :: "app \<Rightarrow> http_request \<Rightarrow> string \<Rightarrow> handler" where
  "list_workspace_users ap rq workspace =
     act_bind (check_workspace_read_permission (ap_server ap) rq workspace) (\<lambda>_.
     act_bind (read_db (\<lambda>db. Inr (map (\<lambda>p. (p, find (\<lambda>u. u_id u = wp_user p) (db_users db)))
       (ws_list_for_workspace db workspace)))) (\<lambda>perms.
     act_return (200, JArray (map (\<lambda>(p, user). JObject
       [(''workspace'', JString (wp_workspace p)),
        (''username'', JString (or_else (map_option u_username user) (show_nat (wp_user p)))),
        (''display_name'', case user of Some u \<Rightarrow> JString (u_display_name u) | None \<Rightarrow> JNull),
        (''permission'', JString (wp_permission p))]) perms))))"

definition list_workspace_groups :: "app \<Rightarrow> http_request \<Rightarrow> string \<Rightarrow> handler" where
  "list_workspace_groups ap rq workspace =
     act_bind (check_workspace_read_permission (ap_server ap) rq workspace) (\<lambda>_.
     act_bind (read_db (\<lambda>db. Inr (map (\<lambda>p. (p, find (\<lambda>g. g_id g = wgp_group p) (db_groups db)))
       (wsg_list_for_workspace db workspace)))) (\<lambda>perms.
     act_return (200, JArray (map (\<lambda>(p, group). JObject
       [(''workspace'', JString (wgp_workspace p)),
        (''group_name'', JString (or_else (map_option g_name group) (show_nat (wgp_group p)))),
        (''permission'', JString (wgp_permission p))]) perms))))"

definition workspace_user_response :: "string \<Rightarrow> workspace_perm \<Rightarrow> json" where
  "workspace_user_response username perm =
     JObject [(''workspace'', JString (wp_workspace perm)), (''username'', JString username),
       (''display_name'', JNull), (''permission'', JString (wp_permission perm))]"

definition workspace_group_response :: "string \<Rightarrow> workspace_group_perm \<Rightarrow> json" where
  "workspace_group_response group_name perm =
     JObject [(''workspace'', JString (wgp_workspace perm)), (''group_name'', JString group_name),
       (''permission'', JString (wgp_permission perm))]"

definition create_workspace_user_permission :: "app \<Rightarrow> http_request \<Rightarrow> string \<Rightarrow> string \<Rightarrow> string \<Rightarrow> handler" where
  "create_workspace_user_permission ap rq workspace username permission =
     act_bind (check_workspace_manage_permission (ap_server ap) rq workspace) (\<lambda>current_username.
     act_bind (act_lift (validate_permission permission)) (\<lambda>_.
     act_bind (store_get ap (WorkspaceOp (CreateWorkspacePermission workspace username permission))
       (\<lambda>db. create_workspace_permission db workspace username permission)) (\<lambda>perm.
     act_bind (on_workspace_cache (invalidate_workspace_permission username workspace)) (\<lambda>_.
     act_bind (emit_audit_event ap ''permission.create'' (Some current_username) ''workspace_permission'' workspace
       (permission_detail ''username'' username permission)) (\<lambda>_.
     act_return (201, workspace_user_response username perm))))))"

text \<open>A change for a group leaves the cached permissions of its members to expire.\<close>

definition create_workspace_group_permission_route ::
    "app \<Rightarrow> http_request \<Rightarrow> string \<Rightarrow> string \<Rightarrow> string \<Rightarrow> handler" where
  "create_workspace_group_permission_route ap rq workspace group_name permission =
     act_bind (check_workspace_manage_permission (ap_server ap) rq workspace) (\<lambda>current_username.
     act_bind (act_lift (validate_permission permission)) (\<lambda>_.
     act_bind (store_get ap (WorkspaceOp (CreateWorkspaceGroupPermission workspace group_name permission))
       (\<lambda>db. create_workspace_group_permission db workspace group_name permission)) (\<lambda>perm.
     act_bind (emit_audit_event ap ''permission.create'' (Some current_username) ''group_workspace_permission'' workspace
       (permission_detail ''group_name'' group_name permission)) (\<lambda>_.
     act_return (201, workspace_group_response group_name perm)))))"

definition update_workspace_user_permission :: "app \<Rightarrow> http_request \<Rightarrow> string \<Rightarrow> string \<Rightarrow> string \<Rightarrow> handler" where
  "update_workspace_user_permission ap rq workspace username permission =
     act_bind (check_workspace_manage_permission (ap_server ap) rq workspace) (\<lambda>current_username.
     act_bind (act_lift (validate_permission permission)) (\<lambda>_.
     act_bind (store_get ap (WorkspaceOp (UpdateWorkspacePermission workspace username permission))
       (\<lambda>db. update_workspace_permission db workspace username permission)) (\<lambda>perm.
     act_bind (on_workspace_cache (invalidate_workspace_permission username workspace)) (\<lambda>_.
     act_bind (emit_audit_event ap ''permission.update'' (Some current_username) ''workspace_permission'' workspace
       (permission_detail ''username'' username permission)) (\<lambda>_.
     act_return (200, workspace_user_response username perm))))))"

definition update_workspace_group_permission_route ::
    "app \<Rightarrow> http_request \<Rightarrow> string \<Rightarrow> string \<Rightarrow> string \<Rightarrow> handler" where
  "update_workspace_group_permission_route ap rq workspace group_name permission =
     act_bind (check_workspace_manage_permission (ap_server ap) rq workspace) (\<lambda>current_username.
     act_bind (act_lift (validate_permission permission)) (\<lambda>_.
     act_bind (store_get ap (WorkspaceOp (UpdateWorkspaceGroupPermission workspace group_name permission))
       (\<lambda>db. update_workspace_group_permission db workspace group_name permission)) (\<lambda>perm.
     act_bind (emit_audit_event ap ''permission.update'' (Some current_username) ''group_workspace_permission'' workspace
       (permission_detail ''group_name'' group_name permission)) (\<lambda>_.
     act_return (200, workspace_group_response group_name perm)))))"

definition delete_workspace_user_permission :: "app \<Rightarrow> http_request \<Rightarrow> string \<Rightarrow> string \<Rightarrow> handler" where
  "delete_workspace_user_permission ap rq workspace username =
     act_bind (check_workspace_manage_permission (ap_server ap) rq workspace) (\<lambda>current_username.
     act_bind (store_do ap (WorkspaceOp (DeleteWorkspacePermission workspace username))) (\<lambda>_.
     act_bind (on_workspace_cache (invalidate_workspace_permission username workspace)) (\<lambda>_.
     act_bind (emit_audit_event ap ''permission.delete'' (Some current_username) ''workspace_permission'' workspace
       [(''username'', JString username)]) (\<lambda>_.
     act_return (204, JNull)))))"

definition delete_workspace_group_permission_route :: "app \<Rightarrow> http_request \<Rightarrow> string \<Rightarrow> string \<Rightarrow> handler" where
  "delete_workspace_group_permission_route ap rq workspace group_name =
     act_bind (check_workspace_manage_permission (ap_server ap) rq workspace) (\<lambda>current_username.
     audited ap (WorkspaceOp (DeleteWorkspaceGroupPermission workspace group_name))
       ''permission.delete'' (Some current_username) ''group_workspace_permission'' workspace
       [(''group_name'', JString group_name)] (204, JNull))"

section \<open>Patterns\<close>

definition workspace_regex_response :: "string \<Rightarrow> string \<Rightarrow> regex_entity \<Rightarrow> json" where
  "workspace_regex_response key owner perm =
     JObject [(''id'', json_int (int (re_id perm))), (''regex'', JString (re_regex perm)),
       (''priority'', json_int (re_priority perm)), (''permission'', JString (re_permission perm)),
       (key, JString owner)]"

text \<open>A change of a pattern: validation, the store, the flush of all workspace permissions, the audit log.\<close>

definition workspace_pattern_write :: "app \<Rightarrow> http_request \<Rightarrow> (regex_entity, app_state) action \<Rightarrow>
    string \<Rightarrow> string \<Rightarrow> (regex_entity \<Rightarrow> string) \<Rightarrow> string \<Rightarrow> string \<Rightarrow> pattern_data \<Rightarrow> nat \<Rightarrow> handler" where
  "workspace_pattern_write ap rq write event resource_type resource_id key owner d status =
     act_bind (check_admin_permission rq) (\<lambda>admin_username.
     act_bind (act_lift (validate_permission (pd_permission d))) (\<lambda>_.
     act_bind write (\<lambda>perm.
     act_bind (on_workspace_cache flush_workspace_cache) (\<lambda>_.
     act_bind (emit_audit_event ap event (Some admin_username) resource_type (resource_id perm)
       ((key, JString owner) # pattern_detail d)) (\<lambda>_.
     act_return (status, workspace_regex_response key owner perm))))))"

definition create_user_regex_permission :: "app \<Rightarrow> http_request \<Rightarrow> string \<Rightarrow> pattern_data \<Rightarrow> handler" where
  "create_user_regex_permission ap rq username d =
     workspace_pattern_write ap rq
       (store_get ap (RegexOp (CreateRegex Workspace (pd_regex d) (pd_priority d) (pd_permission d) username))
       (\<lambda>db. regex_grant (se_re_compile (sv_store (ap_server ap))) Workspace db (pd_regex d) (pd_priority d)
          (pd_permission d) username))
       ''permission.create'' ''workspace_regex_permission'' (\<lambda>perm. show_nat (re_id perm)) ''username'' username d 201"

text \<open>The lists show the id of the owner in place of the name.\<close>

definition list_user_regex_permissions :: "app \<Rightarrow> http_request \<Rightarrow> handler" where
  "list_user_regex_permissions ap rq =
     act_bind (check_admin_permission rq) (\<lambda>_.
     act_bind (read_db (\<lambda>db. Inr (regex_list Workspace db))) (\<lambda>perms.
     act_return (200, JArray (map (\<lambda>p. workspace_regex_response ''username''
       (case re_user_id p of Some i \<Rightarrow> show_nat i | None \<Rightarrow> ''None'') p) perms))))"

text \<open>\<open>permission_id\<close> is an integer; no row has a negative one.\<close>

definition update_user_regex_permission :: "app \<Rightarrow> http_request \<Rightarrow> int \<Rightarrow> string \<Rightarrow> pattern_data \<Rightarrow> handler" where
  "update_user_regex_permission ap rq permission_id username d =
     workspace_pattern_write ap rq
       (row_id permission_id (\<lambda>i. store_get ap (RegexOp (UpdateRegex Workspace (pd_regex d) (pd_priority d) (pd_permission d) username i))
       (\<lambda>db. regex_update (se_re_compile (sv_store (ap_server ap))) Workspace db (pd_regex d) (pd_priority d)
          (pd_permission d) username i)))
       ''permission.update'' ''workspace_regex_permission'' (\<lambda>_. show_int permission_id) ''username'' username d 200"

definition delete_user_regex_permission :: "app \<Rightarrow> http_request \<Rightarrow> int \<Rightarrow> string \<Rightarrow> handler" where
  "delete_user_regex_permission ap rq permission_id username =
     act_bind (check_admin_permission rq) (\<lambda>admin_username.
     row_id permission_id (\<lambda>i.
     act_bind (store_do ap (RegexOp (DeleteRegex Workspace username i))) (\<lambda>_.
     act_bind (on_workspace_cache flush_workspace_cache) (\<lambda>_.
     act_bind (emit_audit_event ap ''permission.delete'' (Some admin_username) ''workspace_regex_permission''
       (show_int permission_id) [(''username'', JString username)]) (\<lambda>_.
     act_return (204, JNull))))))"

definition create_group_regex_permission :: "app \<Rightarrow> http_request \<Rightarrow> string \<Rightarrow> pattern_data \<Rightarrow> handler" where
  "create_group_regex_permission ap rq group_name d =
     workspace_pattern_write ap rq
       (store_get ap (RegexOp (CreateGroupRegex Workspace group_name (pd_regex d) (pd_priority d) (pd_permission d)))
       (\<lambda>db. group_regex_grant (se_re_compile (sv_store (ap_server ap))) Workspace db group_name (pd_regex d)
          (pd_priority d) (pd_permission d)))
       ''permission.create'' ''group_workspace_regex_permission'' (\<lambda>perm. show_nat (re_id perm)) ''group_name'' group_name d 201"

definition list_group_regex_permissions :: "app \<Rightarrow> http_request \<Rightarrow> handler" where
  "list_group_regex_permissions ap rq =
     act_bind (check_admin_permission rq) (\<lambda>_.
     act_bind (read_db (\<lambda>db. Inr (map group_regex_perm_entity (db_group_regex_perms db Workspace)))) (\<lambda>perms.
     act_return (200, JArray (map (\<lambda>p. workspace_regex_response ''group_name''
       (case re_group_id p of Some i \<Rightarrow> show_nat i | None \<Rightarrow> ''None'') p) perms))))"

definition update_group_regex_permission :: "app \<Rightarrow> http_request \<Rightarrow> int \<Rightarrow> string \<Rightarrow> pattern_data \<Rightarrow> handler" where
  "update_group_regex_permission ap rq permission_id group_name d =
     workspace_pattern_write ap rq
       (row_id permission_id (\<lambda>i. store_get ap (RegexOp (UpdateGroupRegex Workspace i group_name (pd_regex d) (pd_priority d) (pd_permission d)))
       (\<lambda>db. group_regex_update (se_re_compile (sv_store (ap_server ap))) Workspace db i group_name (pd_regex d)
          (pd_priority d) (pd_permission d))))
       ''permission.update'' ''group_workspace_regex_permission'' (\<lambda>_. show_int permission_id) ''group_name'' group_name d 200"

definition delete_group_regex_permission :: "app \<Rightarrow> http_request \<Rightarrow> int \<Rightarrow> string \<Rightarrow> handler" where
  "delete_group_regex_permission ap rq permission_id group_name =
     act_bind (check_admin_permission rq) (\<lambda>admin_username.
     row_id permission_id (\<lambda>i.
     act_bind (store_do ap (RegexOp (DeleteGroupRegex Workspace group_name i))) (\<lambda>_.
     act_bind (on_workspace_cache flush_workspace_cache) (\<lambda>_.
     act_bind (emit_audit_event ap ''permission.delete'' (Some admin_username) ''group_workspace_regex_permission''
       (show_int permission_id) [(''group_name'', JString group_name)]) (\<lambda>_.
     act_return (204, JNull))))))"

end
