(* ===== verification/WorkspaceProperties.thy ===== *)
theory WorkspaceProperties
  imports WorkspaceRouter AccountProperties
begin

text \<open>
  The routes for the permissions of users on a workspace: who may use them, what they change,
  and that the cache of workspace permissions follows.
\<close>

section \<open>What a permission on a workspace depends on\<close>

lemma resolve_user_direct_lookup:
  assumes "db_wf db"
  shows "resolve_user_direct db n w =
    (case ws_lookup db w n of None \<Rightarrow> None | Some p \<Rightarrow> (case get_permission p of Inr q \<Rightarrow> Some q | Inl _ \<Rightarrow> None))"
  by (auto simp: resolve_user_direct_def get_workspace_permission_def ws_lookup_def ws_get_eq [OF assms] or_none_def
      split: sum.split option.split)

lemma group_patterns_frame:
  "group_regex_list_permissions_for_groups_ids c (db\<lparr>db_ws_perms := rows\<rparr>) =
    group_regex_list_permissions_for_groups_ids c db"
  by (rule ext) (simp add: group_regex_list_permissions_for_groups_ids_def list_group_permissions_def)

lemma group_ids_frame: "list_group_ids_for_user (db\<lparr>db_ws_perms := rows\<rparr>) n = list_group_ids_for_user db n"
  by (simp add: list_group_ids_for_user_def list_user_groups_def)

lemma resolve_others_frame:
  "resolve_group_direct (db\<lparr>db_ws_perms := rows\<rparr>) n w = resolve_group_direct db n w"
  "resolve_user_regex env (db\<lparr>db_ws_perms := rows\<rparr>) n w = resolve_user_regex env db n w"
  "resolve_group_regex env (db\<lparr>db_ws_perms := rows\<rparr>) n w = resolve_group_regex env db n w"
    apply (simp add: resolve_group_direct_def get_user_groups_workspace_permission_def get_highest_for_user_def
      wsg_rows_for_user_def)
   apply (simp add: resolve_user_regex_def list_regex_for_user_def)
  unfolding resolve_group_regex_def group_patterns_frame group_ids_frame by (rule refl)

lemma lookup_workspace_other:
  assumes "db_wf db" and "db_wf (db\<lparr>db_ws_perms := rows\<rparr>)"
    and "ws_lookup (db\<lparr>db_ws_perms := rows\<rparr>) w n = ws_lookup db w n"
  shows "lookup_workspace_permission config env (db\<lparr>db_ws_perms := rows\<rparr>) n w =
    lookup_workspace_permission config env db n w"
  by (simp add: lookup_workspace_permission_def resolve_others_frame resolve_user_direct_lookup [OF assms(1)]
      resolve_user_direct_lookup [OF assms(2)] assms(3))

section \<open>The changes\<close>

text \<open>One change of the permission of a user on a workspace: the new permission, \<open>None\<close> for none.\<close>

definition workspace_changed :: "string \<Rightarrow> string \<Rightarrow> string option \<Rightarrow> db \<Rightarrow> db \<Rightarrow> bool" where
  "workspace_changed w n p db db' \<longleftrightarrow>
     db_wf db' \<and> ws_lookup db' = perm_upd (ws_lookup db) w n p \<and> (\<exists>rows. db' = db\<lparr>db_ws_perms := rows\<rparr>)"

lemma create_workspace_changed:
  assumes "db_wf db" and "create_workspace_permission db w n p = Inr (e, db')"
  shows "workspace_changed w n (Some p) db db'"
proof -
  have "step_refines db_wf ws_user_exists ws_lookup db (Inr db')
      (spec_apply (\<lambda>_. True) (MlflowException RESOURCE_DOES_NOT_EXIST) (ws_user_exists db) (ws_lookup db) (Grant w n p))"
    using create_workspace_permission_refines [OF assms(1), of w n p] assms(2) by (simp add: result_state_def)
  from step_refinesD [OF this] have "db_wf db'" "ws_lookup db' = perm_upd (ws_lookup db) w n (Some p)"
    by (auto split: if_splits)
  moreover have "\<exists>rows. db' = db\<lparr>db_ws_perms := rows\<rparr>"
    using assms(2) by (auto simp: create_workspace_permission_def ws_create_def Let_def on_integrity_error_def
        split: sum.splits exn.splits)
  ultimately show ?thesis by (simp add: workspace_changed_def)
qed

lemma update_workspace_changed:
  assumes "db_wf db" and "update_workspace_permission db w n p = Inr (e, db')"
  shows "workspace_changed w n (Some p) db db'"
proof -
  have "step_refines db_wf ws_user_exists ws_lookup db (Inr db')
      (spec_apply (\<lambda>_. True) (MlflowException RESOURCE_DOES_NOT_EXIST) (ws_user_exists db) (ws_lookup db) (Update w n p))"
    using update_workspace_permission_refines [OF assms(1), of w n p] assms(2) by (simp add: result_state_def)
  from step_refinesD [OF this] have "db_wf db'" "ws_lookup db' = perm_upd (ws_lookup db) w n (Some p)"
    by (auto split: if_splits option.splits)
  moreover have "\<exists>rows. db' = db\<lparr>db_ws_perms := rows\<rparr>"
    using assms(2) by (auto simp: update_workspace_permission_def ws_update_def Let_def)
  ultimately show ?thesis by (simp add: workspace_changed_def)
qed

lemma delete_workspace_changed:
  assumes "db_wf db" and "delete_workspace_permission db w n = Inr db'"
  shows "workspace_changed w n None db db'"
proof -
  have "step_refines db_wf ws_user_exists ws_lookup db (Inr db')
      (spec_apply (\<lambda>_. True) (MlflowException RESOURCE_DOES_NOT_EXIST) (ws_user_exists db) (ws_lookup db) (Revoke w n))"
    using delete_workspace_permission_refines [OF assms(1), of w n] assms(2) by simp
  from step_refinesD [OF this] have "db_wf db'" "ws_lookup db' = perm_upd (ws_lookup db) w n None"
    by (auto split: if_splits option.splits)
  moreover have "\<exists>rows. db' = db\<lparr>db_ws_perms := rows\<rparr>"
    using assms(2) by (auto simp: delete_workspace_permission_def ws_delete_def)
  ultimately show ?thesis by (simp add: workspace_changed_def)
qed

text \<open>Every entry of the cache is what the database says.\<close>

definition workspaces_current :: "auth_config \<Rightarrow> outside \<Rightarrow> db \<Rightarrow> permission local_cache \<Rightarrow> bool" where
  "workspaces_current config env db cache \<longleftrightarrow>
     (\<forall>n w p. colon_free n \<longrightarrow> local_get cache (ws_cache_key n w) = Some p \<longrightarrow>
        lookup_workspace_permission config env db n w = Some p)"

lemma workspaces_current_change:
  assumes "db_wf db" and "workspace_changed w n p db db'" and "workspaces_current config env db cache"
  shows "workspaces_current config env db' (invalidate_workspace_permission n w cache)"
  unfolding workspaces_current_def
proof (intro allI impI)
  fix m v q assume m: "colon_free m" and
    get: "local_get (invalidate_workspace_permission n w cache) (ws_cache_key m v) = Some q"
  from get have "ws_cache_key m v \<noteq> ws_cache_key n w" and old: "local_get cache (ws_cache_key m v) = Some q"
    by (auto simp: invalidate_workspace_permission_def local_cache_defs split: if_splits)
  then have other: "ws_lookup db' v m = ws_lookup db v m"
    using assms(2) by (auto simp: workspace_changed_def perm_upd_apply)
  from assms(2) obtain rows where db': "db' = db\<lparr>db_ws_perms := rows\<rparr>" and "db_wf db'"
    by (auto simp: workspace_changed_def)
  with lookup_workspace_other [OF assms(1)] other
  have "lookup_workspace_permission config env db' m v = lookup_workspace_permission config env db m v" by blast
  with old assms(3) m show "lookup_workspace_permission config env db' m v = Some q"
    by (simp add: workspaces_current_def)
qed

section \<open>The routes\<close>

lemma store_do_workspace_cache:
  assumes "store_do ap op a = (r, a')"
  shows "workspace_cache (st_caches (as_store a')) = workspace_cache (st_caches (as_store a))"
proof -
  obtain q d where "store_run (sv_store (ap_server ap)) op (st_db (as_store a)) = (q, d)" by force
  with assms show ?thesis
    by (cases q) (auto simp: store_do_def on_store_state_def store_call_def on_db_def
        wrap_with_cache_flush_def act_bind_def split: if_splits)
qed

text \<open>The handlers that change the permission of a user on a workspace, with the permission after it.\<close>

definition workspace_user_writes :: "app \<Rightarrow> http_request \<Rightarrow> string \<Rightarrow> string \<Rightarrow> string \<Rightarrow> (handler \<times> string option) list" where
  "workspace_user_writes ap rq w n p =
     [(create_workspace_user_permission ap rq w n p, Some p), (update_workspace_user_permission ap rq w n p, Some p),
      (delete_workspace_user_permission ap rq w n, None)]"

abbreviation "app_cache a \<equiv> workspace_cache (st_caches (as_store a))"

lemma store_get_Inr:
  assumes "store_get ap op f a = (Inr x, a')"
  obtains db' where "f (app_db a) = Inr (x, db')" and "store_do ap op a = (Inr (), a')"
  using assms by (auto simp: store_get_def split: sum.splits elim!: act_map_Inr)

lemma workspace_cache_step:
  assumes "on_workspace_cache f a = (r, a')"
  shows "app_db a' = app_db a \<and> app_cache a' = f (app_cache a)"
  using assms by (auto simp: on_workspace_cache_def on_store_state_def)

lemma emit_app:
  assumes "emit_audit_event ap ev ac rt ri d a = (r, a')"
  shows "as_store a' = as_store a"
  using assms by (auto simp: emit_audit_event_def split: if_splits)

lemma exact_workspaces:
  "exact_caches config env db w \<lparr>permission_cache = (\<lambda>_. None), workspace_cache = c\<rparr> \<longleftrightarrow>
    workspaces_current config env db c"
  by (auto simp: exact_caches_def workspaces_current_def local_get_def)

lemma cached_current:
  assumes "get_workspace_permission_cached config env db u w cache = (res, cache')"
    and "workspaces_current config env db cache" and "colon_free u" and "MLFLOW_ENABLE_WORKSPACES config"
  shows "res = lookup_workspace_permission config env db u w \<and> workspaces_current config env db cache'"
  using ws_cached_exact [of config env db None "\<lparr>permission_cache = (\<lambda>_. None), workspace_cache = cache\<rparr>" u w res cache'] assms
  by (simp add: exact_workspaces)

lemma or_status_Inr: "or_status n m s = (Inr x, s') \<Longrightarrow> m s = (Inr x, s')"
  by (auto simp: or_status_def act_except_def split: prod.splits sum.splits)

lemma workspace_guard:
  assumes "check_workspace can (ap_server ap) rq w a = (Inr u, a')" and "get_username rq = Inr u \<Longrightarrow> colon_free u"
    and "workspaces_current (sv_config (ap_server ap)) (sv_outside (ap_server ap)) (app_db a) (app_cache a)"
  shows "get_username rq = Inr u \<and> app_db a' = app_db a \<and>
    workspaces_current (sv_config (ap_server ap)) (sv_outside (ap_server ap)) (app_db a) (app_cache a') \<and>
    (get_is_admin (app_db a) rq = Inr True \<or>
     (\<exists>p. lookup_workspace_permission (sv_config (ap_server ap)) (sv_outside (ap_server ap)) (app_db a) u w = Some p \<and> can p))"
proof -
  let ?rest = "\<lambda>v b. if b then act_return v
      else if \<not> MLFLOW_ENABLE_WORKSPACES (sv_config (ap_server ap)) then act_raise (HTTPException 403)
      else act_bind (on_store_state (with_workspace_cache (\<lambda>db wc.
            case get_workspace_permission_cached (sv_config (ap_server ap)) (sv_outside (ap_server ap)) db v w wc of
              (perm, wc') \<Rightarrow> (Inr perm, wc')))) (\<lambda>perm.
          case perm of
            None \<Rightarrow> act_raise (HTTPException 403)
          | Some p \<Rightarrow> if can p then act_return v else act_raise (HTTPException 403))"
  from assms(1) [unfolded check_workspace_def] obtain v s1 where
    1: "or_status 403 (act_lift (get_username rq)) a = (Inr v, s1)"
    and 2: "act_bind (or_status 403 (read_db (\<lambda>db. get_is_admin db rq))) (?rest v) s1 = (Inr u, a')"
    by (rule act_bind_Inr)
  from 2 obtain b s2 where 3: "or_status 403 (read_db (\<lambda>db. get_is_admin db rq)) s1 = (Inr b, s2)"
    and 4: "?rest v b s2 = (Inr u, a')"
    by (rule act_bind_Inr)
  from or_status_Inr [OF 1] or_status_Inr [OF 3] have v: "get_username rq = Inr v" and b: "get_is_admin (app_db a) rq = Inr b"
    and s: "s1 = a" "s2 = a" by (auto simp: act_lift_def read_db_def)
  have "v = u" using 4 by (auto simp: act_return_def act_bind_def split: if_splits prod.splits sum.splits option.splits)
  have u: "get_username rq = Inr u" using v unfolding \<open>v = u\<close> .
  have rest: "?rest u b a = (Inr u, a')" using 4 unfolding \<open>v = u\<close> s(2) .
  show ?thesis
  proof (cases b)
    case True
    with rest u b assms(3) show ?thesis by (simp add: act_return_def)
  next
    case False
    obtain res c where look: "get_workspace_permission_cached (sv_config (ap_server ap)) (sv_outside (ap_server ap))
        (app_db a) u w (app_cache a) = (res, c)" by force
    with rest False have on: "MLFLOW_ENABLE_WORKSPACES (sv_config (ap_server ap))"
      and "\<exists>p. res = Some p \<and> can p" "app_db a' = app_db a" "app_cache a' = c"
      by (auto simp: act_bind_def on_store_state_def with_workspace_cache_def with_caches_def act_return_def
          split: if_splits option.splits)
    with cached_current [OF look assms(3) assms(2) [OF u] on] u show ?thesis by auto
  qed
qed

lemma workspace_store_get:
  assumes "store_get ap (WorkspaceOp op) f a = (Inr x, a')" and "run_workspace op = call f"
  shows "f (app_db a) = Inr (x, app_db a') \<and> app_cache a' = app_cache a"
proof -
  from assms(1) obtain d where f: "f (app_db a) = Inr (x, d)" and op: "store_do ap (WorkspaceOp op) a = (Inr (), a')"
    by (rule store_get_Inr)
  from store_do_run [OF op] assms(2) f have "app_db a' = d"
    by (simp add: call_def act_commit_def result_state_def)
  with f store_do_workspace_cache [OF op] show ?thesis by simp
qed

lemma workspace_store_do:
  assumes "store_do ap (WorkspaceOp op) a = (Inr (), a')" and "run_workspace op = act_commit f"
  shows "f (app_db a) = Inr (app_db a') \<and> app_cache a' = app_cache a"
  using store_do_run [OF assms(1)] store_do_workspace_cache [OF assms(1)] assms(2)
  by (auto simp: act_commit_def split: sum.splits)

text \<open>The end of each handler: the entry of the cache goes, the event is logged.\<close>

lemma workspace_write_end:
  assumes "act_bind (on_workspace_cache f) (\<lambda>_. act_bind (emit_audit_event ap ev ac rt ri d) (\<lambda>_. act_return resp)) a = (r, a')"
  shows "app_db a' = app_db a \<and> app_cache a' = f (app_cache a)"
proof -
  obtain q a1 where 1: "on_workspace_cache f a = (q, a1)" by force
  obtain q2 a2 where 2: "emit_audit_event ap ev ac rt ri d a1 = (q2, a2)" by force
  have "q = Inr ()" "q2 = Inr ()" using 1 2 by (auto simp: on_workspace_cache_def on_store_state_def emit_audit_event_def)
  with assms 1 2 have "a' = a2" by (simp add: act_bind_def act_return_def)
  with workspace_cache_step [OF 1] emit_app [OF 2] show ?thesis by simp
qed

lemma workspace_write_entity:
  assumes "act_bind (check_workspace can_manage (ap_server ap) rq w) (\<lambda>v. act_bind (act_lift q) (\<lambda>_.
      act_bind (store_get ap (WorkspaceOp op) f) (\<lambda>perm. act_bind (on_workspace_cache c) (\<lambda>_.
      act_bind (emit_audit_event ap ev (Some v) rt ri d) (\<lambda>_. act_return (resp perm)))))) a = (Inr response, a')"
    and "run_workspace op = call f"
  obtains v a1 e where "check_workspace can_manage (ap_server ap) rq w a = (Inr v, a1)"
    "f (app_db a1) = Inr (e, app_db a')" "app_cache a' = c (app_cache a1)"
proof -
  from assms(1) obtain v a1 where guard: "check_workspace can_manage (ap_server ap) rq w a = (Inr v, a1)"
    and 1: "act_bind (act_lift q) (\<lambda>_. act_bind (store_get ap (WorkspaceOp op) f) (\<lambda>perm. act_bind (on_workspace_cache c) (\<lambda>_.
      act_bind (emit_audit_event ap ev (Some v) rt ri d) (\<lambda>_. act_return (resp perm))))) a1 = (Inr response, a')"
    by (rule act_bind_Inr)
  from 1 obtain x s1 where "act_lift q a1 = (Inr x, s1)"
    and 2: "act_bind (store_get ap (WorkspaceOp op) f) (\<lambda>perm. act_bind (on_workspace_cache c) (\<lambda>_.
      act_bind (emit_audit_event ap ev (Some v) rt ri d) (\<lambda>_. act_return (resp perm)))) s1 = (Inr response, a')"
    by (rule act_bind_Inr)
  from this(1) have "s1 = a1" by (simp add: act_lift_def)
  from 2 [unfolded this] obtain perm a2 where get: "store_get ap (WorkspaceOp op) f a1 = (Inr perm, a2)"
    and tail: "act_bind (on_workspace_cache c) (\<lambda>_. act_bind (emit_audit_event ap ev (Some v) rt ri d) (\<lambda>_.
      act_return (resp perm))) a2 = (Inr response, a')"
    by (rule act_bind_Inr)
  from workspace_store_get [OF get assms(2)] workspace_write_end [OF tail] that [OF guard, of perm] show thesis by simp
qed

lemma workspace_write_delete:
  assumes "delete_workspace_user_permission ap rq w n a = (Inr response, a')"
  obtains v a1 where "check_workspace can_manage (ap_server ap) rq w a = (Inr v, a1)"
    "delete_workspace_permission (app_db a1) w n = Inr (app_db a')"
    "app_cache a' = invalidate_workspace_permission n w (app_cache a1)"
proof -
  from assms [unfolded delete_workspace_user_permission_def check_workspace_manage_permission_def]
  obtain v a1 where guard: "check_workspace can_manage (ap_server ap) rq w a = (Inr v, a1)"
    and 1: "act_bind (store_do ap (WorkspaceOp (DeleteWorkspacePermission w n))) (\<lambda>_.
      act_bind (on_workspace_cache (invalidate_workspace_permission n w)) (\<lambda>_.
      act_bind (emit_audit_event ap ''permission.delete'' (Some v) ''workspace_permission'' w
        [(''username'', JString n)]) (\<lambda>_. act_return (204, JNull)))) a1 = (Inr response, a')"
    by (rule act_bind_Inr)
  from 1 obtain x a2 where run: "store_do ap (WorkspaceOp (DeleteWorkspacePermission w n)) a1 = (Inr x, a2)"
    and tail: "act_bind (on_workspace_cache (invalidate_workspace_permission n w)) (\<lambda>_.
      act_bind (emit_audit_event ap ''permission.delete'' (Some v) ''workspace_permission'' w
        [(''username'', JString n)]) (\<lambda>_. act_return (204, JNull))) a2 = (Inr response, a')"
    by (rule act_bind_Inr)
  from run have "store_do ap (WorkspaceOp (DeleteWorkspacePermission w n)) a1 = (Inr (), a2)" by simp
  from workspace_store_do [OF this] workspace_write_end [OF tail] that [OF guard] show thesis by simp
qed

text \<open>A successful write passed the guard, made its change and dropped the entry of the cache.\<close>

lemma workspace_write_run:
  assumes "(h, p') \<in> set (workspace_user_writes ap rq w n p)" and "h a = (Inr response, a')"
  shows "\<exists>v a1. check_workspace can_manage (ap_server ap) rq w a = (Inr v, a1) \<and>
    ((\<exists>e. create_workspace_permission (app_db a1) w n p = Inr (e, app_db a')) \<and> p' = Some p \<or>
     (\<exists>e. update_workspace_permission (app_db a1) w n p = Inr (e, app_db a')) \<and> p' = Some p \<or>
     delete_workspace_permission (app_db a1) w n = Inr (app_db a') \<and> p' = None) \<and>
    app_cache a' = invalidate_workspace_permission n w (app_cache a1)"
proof -
  from assms(1) consider "h = create_workspace_user_permission ap rq w n p" "p' = Some p"
    | "h = update_workspace_user_permission ap rq w n p" "p' = Some p"
    | "h = delete_workspace_user_permission ap rq w n" "p' = None"
    by (auto simp: workspace_user_writes_def)
  then show ?thesis
  proof cases
    case 1
    show ?thesis
      by (rule workspace_write_entity [OF assms(2) [unfolded 1 create_workspace_user_permission_def
          check_workspace_manage_permission_def]]) (use 1 in auto)
  next
    case 2
    show ?thesis
      by (rule workspace_write_entity [OF assms(2) [unfolded 2 update_workspace_user_permission_def
          check_workspace_manage_permission_def]]) (use 2 in auto)
  next
    case 3
    show ?thesis by (rule workspace_write_delete [OF assms(2) [unfolded 3]]) (use 3 in auto)
  qed
qed

text \<open>A write that fails has changed neither the database nor the log.\<close>

lemma store_do_fails:
  assumes "store_do ap (WorkspaceOp op) a = (Inl e, a')"
  shows "a' = a"
proof -
  from assms obtain st where call: "store_call (sv_store (ap_server ap)) (WorkspaceOp op) (as_store a) = (Inl e, st)"
    and a': "a' = a\<lparr>as_store := st\<rparr>"
    by (auto simp: store_do_def on_store_state_def split: prod.splits)
  have "atomic (store_run (sv_store (ap_server ap)) (WorkspaceOp op))" by (rule store_run_atomic) (simp add: two_commits_def)
  with store_call_db [OF call] store_call_caches [OF call] have "st = as_store a"
    by (auto simp: atomic_def intro: store_state.equality)
  with a' show ?thesis by simp
qed

lemma store_get_fails:
  assumes "store_get ap (WorkspaceOp op) f a = (Inl e, a')"
  shows "a' = a"
  using assms store_do_fails [of ap op a]
  by (auto simp: store_get_def act_map_def act_bind_def act_return_def split: sum.splits prod.splits)

definition app_same :: "app \<Rightarrow> app_state \<Rightarrow> app_state \<Rightarrow> bool" where
  "app_same ap a s \<longleftrightarrow> app_db s = app_db a \<and> as_audit s = as_audit a \<and>
     workspaces_current (sv_config (ap_server ap)) (sv_outside (ap_server ap)) (app_db a) (app_cache s)"

lemma keeps_check_workspace:
  assumes "\<And>u. get_username rq = Inr u \<Longrightarrow> colon_free u"
  shows "keeps (app_same ap a) (check_workspace can (ap_server ap) rq w)"
proof -
  let ?I = "app_same ap a"
  let ?look = "\<lambda>v. on_store_state (with_workspace_cache (\<lambda>db wc.
            case get_workspace_permission_cached (sv_config (ap_server ap)) (sv_outside (ap_server ap)) db v w wc of
              (perm, wc') \<Rightarrow> (Inr perm, wc'))) :: (permission option, app_state) action"
  have look: "keeps ?I (?look v)" if "colon_free v" "MLFLOW_ENABLE_WORKSPACES (sv_config (ap_server ap))" for v
    unfolding keeps_def
  proof (intro allI impI)
    fix s assume s: "?I s"
    obtain res c where c: "get_workspace_permission_cached (sv_config (ap_server ap)) (sv_outside (ap_server ap))
        (app_db s) v w (app_cache s) = (res, c)" by force
    with cached_current [OF c _ that] s show "?I (snd (?look v s))"
      by (simp add: app_same_def on_store_state_def with_workspace_cache_def with_caches_def)
  qed
  have guard: "keeps ?I (act_bind (or_status 403 (read_db (\<lambda>db. get_is_admin db rq))) (\<lambda>is_admin.
     if is_admin then act_return u
     else if \<not> MLFLOW_ENABLE_WORKSPACES (sv_config (ap_server ap)) then act_raise (HTTPException 403)
     else act_bind (?look u) (\<lambda>perm.
          case perm of
            None \<Rightarrow> act_raise (HTTPException 403)
          | Some p \<Rightarrow> if can p then act_return u else act_raise (HTTPException 403))))" if "colon_free u" for u
    unfolding or_status_def
    by (intro keeps_bind keeps_except keeps_read_db keeps_simple keeps_cond look that) simp_all
  show ?thesis
  proof (cases "get_username rq")
    case (Inl e)
    then show ?thesis
      by (simp add: check_workspace_def or_status_def act_lift_def act_except_def act_raise_def act_bind_def keeps_def)
  next
    case (Inr u)
    have "check_workspace can (ap_server ap) rq w = (act_bind (or_status 403 (read_db (\<lambda>db. get_is_admin db rq))) (\<lambda>is_admin.
     if is_admin then act_return u
     else if \<not> MLFLOW_ENABLE_WORKSPACES (sv_config (ap_server ap)) then act_raise (HTTPException 403)
     else act_bind (?look u) (\<lambda>perm.
          case perm of
            None \<Rightarrow> act_raise (HTTPException 403)
          | Some p \<Rightarrow> if can p then act_return u else act_raise (HTTPException 403))))"
      by (rule ext) (simp add: check_workspace_def Inr or_status_def act_lift_def act_except_def act_bind_def)
    with guard [OF assms [OF Inr]] show ?thesis by (simp only:)
  qed
qed

lemma tail_returns: "fst (act_bind (on_workspace_cache f) (\<lambda>_. act_bind (emit_audit_event ap ev ac rt ri d)
    (\<lambda>_. act_return resp)) s) = Inr resp"
  by (simp add: act_bind_def on_workspace_cache_def on_store_state_def emit_audit_event_def act_return_def)

lemma workspace_write_fails:
  assumes "(h, p') \<in> set (workspace_user_writes ap rq w n p)" and "h a = (Inl e, a')"
    and "\<And>u. get_username rq = Inr u \<Longrightarrow> colon_free u" and "app_same ap a a"
  shows "app_same ap a a'"
proof -
  let ?guard = "check_workspace can_manage (ap_server ap) rq w"
  obtain q a1 where guard: "?guard a = (q, a1)" by force
  note same = keepsD [OF keeps_check_workspace [OF assms(3)] assms(4) guard]
  have entity: "a' = a1" if "act_bind ?guard (\<lambda>v. act_bind (act_lift l) (\<lambda>_.
      act_bind (store_get ap (WorkspaceOp op) f) (\<lambda>perm. act_bind (on_workspace_cache c) (\<lambda>_.
      act_bind (emit_audit_event ap ev (Some v) rt ri d) (\<lambda>_. act_return (resp perm)))))) a = (Inl e, a')" for l op f c ev rt ri d resp
  proof (cases q)
    case (Inl x)
    with that guard show ?thesis by (simp add: act_bind_def)
  next
    case (Inr v)
    show ?thesis
    proof (cases l)
      case (Inl x)
      with that guard Inr show ?thesis by (simp add: act_bind_def act_lift_def)
    next
      case lift: (Inr x)
      obtain g a2 where get: "store_get ap (WorkspaceOp op) f a1 = (g, a2)" by force
      show ?thesis
      proof (cases g)
        case (Inl y)
        with store_get_fails [of ap op f a1] get that guard Inr lift show ?thesis
          by (simp add: act_bind_def act_lift_def)
      next
        case run: (Inr perm)
        from that guard Inr lift get run have "act_bind (on_workspace_cache c) (\<lambda>_.
            act_bind (emit_audit_event ap ev (Some v) rt ri d) (\<lambda>_. act_return (resp perm))) a2 = (Inl e, a')"
          by (simp add: act_bind_def act_lift_def)
        with tail_returns show ?thesis by (metis Inl_Inr_False fst_conv)
      qed
    qed
  qed
  have delete: "a' = a1" if "delete_workspace_user_permission ap rq w n a = (Inl e, a')"
  proof (cases q)
    case (Inl x)
    with that guard show ?thesis
      by (simp add: delete_workspace_user_permission_def check_workspace_manage_permission_def act_bind_def)
  next
    case (Inr v)
    obtain g a2 where get: "store_do ap (WorkspaceOp (DeleteWorkspacePermission w n)) a1 = (g, a2)" by force
    show ?thesis
    proof (cases g)
      case (Inl y)
      with store_do_fails [of ap _ a1] get that guard Inr show ?thesis
        by (simp add: delete_workspace_user_permission_def check_workspace_manage_permission_def act_bind_def)
    next
      case run: (Inr u)
      from that guard Inr get run have "act_bind (on_workspace_cache (invalidate_workspace_permission n w)) (\<lambda>_.
          act_bind (emit_audit_event ap ''permission.delete'' (Some v) ''workspace_permission'' w
            [(''username'', JString n)]) (\<lambda>_. act_return (204 :: nat, JNull))) a2 = (Inl e, a')"
        by (simp add: delete_workspace_user_permission_def check_workspace_manage_permission_def act_bind_def)
      with tail_returns show ?thesis by (metis Inl_Inr_False fst_conv)
    qed
  qed
  from assms(1) consider "h = create_workspace_user_permission ap rq w n p"
    | "h = update_workspace_user_permission ap rq w n p" | "h = delete_workspace_user_permission ap rq w n"
    by (auto simp: workspace_user_writes_def)
  then have "a' = a1"
  proof cases
    case 1
    show ?thesis by (rule entity) (rule assms(2) [unfolded 1 create_workspace_user_permission_def
          check_workspace_manage_permission_def])
  next
    case 2
    show ?thesis by (rule entity) (rule assms(2) [unfolded 2 update_workspace_user_permission_def
          check_workspace_manage_permission_def])
  next
    case 3
    show ?thesis by (rule delete) (rule assms(2) [unfolded 3])
  qed
  with same show ?thesis by simp
qed

text \<open>C22: For a caller whose name has no colon, and with a cache of workspace permissions in which every
  entry under a name without a colon is what the database says: a route that creates, changes or deletes
  the permission of a user on a workspace succeeds only for an administrator or for somebody who by the
  database manages the workspace, and then changes exactly that permission; when it fails, neither the
  database nor the audit log changes. In both cases the cache agrees with the database afterwards.\<close>

theorem workspace_change_is_exact:
  assumes "(h, p') \<in> set (workspace_user_writes ap rq w n p)" and "h a = (r, a')" and "db_wf (app_db a)"
    and "workspaces_current (sv_config (ap_server ap)) (sv_outside (ap_server ap)) (app_db a) (app_cache a)"
    and "get_username rq = Inr u" and "colon_free u"
  shows "workspaces_current (sv_config (ap_server ap)) (sv_outside (ap_server ap)) (app_db a') (app_cache a') \<and>
    (case r of
       Inl _ \<Rightarrow> app_db a' = app_db a \<and> as_audit a' = as_audit a
     | Inr _ \<Rightarrow> workspace_changed w n p' (app_db a) (app_db a') \<and>
         (get_is_admin (app_db a) rq = Inr True \<or>
          (\<exists>q. lookup_workspace_permission (sv_config (ap_server ap)) (sv_outside (ap_server ap)) (app_db a) u w = Some q \<and>
             can_manage q)))"
proof (cases r)
  case (Inl e)
  have "app_same ap a a" using assms(4) by (simp add: app_same_def)
  from workspace_write_fails [OF assms(1) assms(2) [unfolded Inl] _ this] assms(5,6) Inl show ?thesis
    by (simp add: app_same_def)
next
  case (Inr response)
  from workspace_write_run [OF assms(1) assms(2) [unfolded Inr]] obtain v a1 where
    guard: "check_workspace can_manage (ap_server ap) rq w a = (Inr v, a1)"
    and step: "(\<exists>e. create_workspace_permission (app_db a1) w n p = Inr (e, app_db a')) \<and> p' = Some p \<or>
     (\<exists>e. update_workspace_permission (app_db a1) w n p = Inr (e, app_db a')) \<and> p' = Some p \<or>
     delete_workspace_permission (app_db a1) w n = Inr (app_db a') \<and> p' = None"
    and cache: "app_cache a' = invalidate_workspace_permission n w (app_cache a1)"
    by blast
  have "get_username rq = Inr v \<Longrightarrow> colon_free v" using assms(5,6) by simp
  note g = workspace_guard [OF guard this assms(4)]
  with step have changed: "workspace_changed w n p' (app_db a) (app_db a')"
    by (auto intro: create_workspace_changed [OF assms(3)] update_workspace_changed [OF assms(3)]
        delete_workspace_changed [OF assms(3)])
  from g have "workspaces_current (sv_config (ap_server ap)) (sv_outside (ap_server ap)) (app_db a) (app_cache a1)" by simp
  from workspaces_current_change [OF assms(3) changed this] g changed cache assms(5) Inr show ?thesis by auto
qed

section \<open>A run\<close>

definition workspace_app :: app where
  "workspace_app =
     example_app\<lparr>ap_server := example_server\<lparr>sv_config := default_config\<lparr>MLFLOW_ENABLE_WORKSPACES := True\<rparr>\<rparr>\<rparr>"

text \<open>Alice manages the workspace w1 and lets bob read it.\<close>

theorem workspace_change_is_exact_witness:
  "\<exists>response a'. create_workspace_user_permission workspace_app (request_of ''alice'') ''w1'' ''bob'' ''READ''
      example_app_state = (Inr response, a') \<and>
    ws_lookup (app_db a') ''w1'' ''bob'' = Some ''READ'' \<and> ws_lookup (app_db a') ''w1'' ''alice'' = Some ''MANAGE''"
proof -
  let ?h = "create_workspace_user_permission workspace_app (request_of ''alice'') ''w1'' ''bob'' ''READ''"
  have facts: "get_username (request_of ''alice'') = Inr ''alice''" "ws_lookup example_db ''w1'' ''alice'' = Some ''MANAGE''"
    "case fst (?h example_app_state) of Inr _ \<Rightarrow> True | Inl _ \<Rightarrow> False" by code_simp+
  then obtain response a' where run: "?h example_app_state = (Inr response, a')"
    by (cases "?h example_app_state") (auto split: sum.splits)
  have db: "app_db example_app_state = example_db" by (simp add: example_app_state_def)
  have mem: "(?h, Some ''READ'') \<in> set (workspace_user_writes workspace_app (request_of ''alice'') ''w1'' ''bob'' ''READ'')"
    by (simp add: workspace_user_writes_def)
  have "workspaces_current (sv_config (ap_server workspace_app)) (sv_outside (ap_server workspace_app)) example_db
      (app_cache example_app_state)"
    by (simp add: workspaces_current_def example_app_state_def empty_caches_def local_get_def)
  from workspace_change_is_exact [OF mem run, unfolded db, OF example_db_wf this facts(1)] run
  have "workspace_changed ''w1'' ''bob'' (Some ''READ'') example_db (app_db a')" by (simp add: colon_free_def)
  with run facts(2) show ?thesis by (auto simp: workspace_changed_def perm_upd_apply)
qed

end
