(* ===== verification/QuotaMeasure.thy ===== *)
theory QuotaMeasure
  imports QuotaPolicy Validators "HOL-Library.AList"
begin

text \<open>
  The measuring half of \<^verbatim>\<open>utils/quota.py\<close>: the bytes that the experiments and registered models
  of a user take, summed over MLflow's workspaces and the listings of the artifact store. MLflow
  and the artifact store are parameters that read a state; the size cache of experiments
  and the permissions of experiments that no workspace knows are changed on the way.
\<close>

section \<open>MLflow\<close>

record experiment_info =
  ei_experiment_id :: string
  ei_name :: string
  ei_lifecycle_stage :: string
  ei_artifact_location :: string
  ei_creation_time :: "int option"
  ei_last_update_time :: "int option"
  ei_tags :: "(string \<times> string) list"

record artifact =
  art_path :: string
  art_is_dir :: bool
  art_file_size :: "int option"

text \<open>Every call depends on the workspace of the request; a model version is its source.\<close>

record 'm mlflow_reads =
  mr_list_workspaces :: "'m \<Rightarrow> string list result"
  mr_get_experiment :: "'m \<Rightarrow> string option \<Rightarrow> string \<Rightarrow> experiment_info result"
  mr_search_model_versions :: "'m \<Rightarrow> string option \<Rightarrow> string \<Rightarrow> string list result"
  mr_list_artifacts :: "'m \<Rightarrow> string option \<Rightarrow> string \<Rightarrow> string option \<Rightarrow> artifact list result"

text \<open>
  Whether workspaces are enabled, how deep the interpreter lets a recursion go, and the order in
  which it enumerates a set.
\<close>

record quota_env =
  qe_workspaces :: bool
  qe_recursion_limit :: nat
  qe_set_order :: "string list \<Rightarrow> string list"
  qe_store :: store_env

definition DELETED :: string where
  "DELETED = ''deleted''"

definition workspace_context :: "quota_env \<Rightarrow> string option \<Rightarrow> string option" where
  "workspace_context env workspace_name = (if qe_workspaces env then workspace_name else None)"

definition iter_workspace_names :: "'m mlflow_reads \<Rightarrow> quota_env \<Rightarrow> 'm \<Rightarrow> string option list" where
  "iter_workspace_names mr env m =
     (if \<not> qe_workspaces env then [None]
      else (case mr_list_workspaces mr m of Inl _ \<Rightarrow> [None] | Inr names \<Rightarrow> map Some names))"

section \<open>Summing artifacts\<close>

fun sum_files :: "(string \<Rightarrow> int result) \<Rightarrow> artifact list \<Rightarrow> int result" where
  "sum_files rec [] = Inr 0"
| "sum_files rec (a # as) =
     bind_result (if art_is_dir a then rec (art_path a)
                  else Inr (case art_file_size a of Some n \<Rightarrow> n | None \<Rightarrow> 0)) (\<lambda>n.
     bind_result (sum_files rec as) (\<lambda>total. Inr (n + total)))"

primrec sum_artifacts :: "nat \<Rightarrow> (string option \<Rightarrow> artifact list result) \<Rightarrow> string \<Rightarrow> int result" where
  "sum_artifacts 0 list_artifacts path = Inl OtherError"
| "sum_artifacts (Suc depth) list_artifacts path =
     bind_result (list_artifacts (if path = '''' then None else Some path)) (\<lambda>artifacts.
     sum_files (sum_artifacts depth list_artifacts) artifacts)"

text \<open>What a failed sum counts.\<close>

definition artifact_bytes :: "'m mlflow_reads \<Rightarrow> quota_env \<Rightarrow> 'm \<Rightarrow> string option \<Rightarrow> string \<Rightarrow> int" where
  "artifact_bytes mr env m ws uri =
     (if uri = '''' then 0
      else (case sum_artifacts (qe_recursion_limit env) (mr_list_artifacts mr m ws uri) '''' of
              Inl _ \<Rightarrow> 0
            | Inr n \<Rightarrow> n))"

section \<open>What a user's resources take\<close>

type_synonym size_cache = "int local_cache"

type_synonym 'm quota_world = "db \<times> auth_caches \<times> size_cache \<times> 'm"

record progress =
  pr_total :: int
  pr_sizes :: "(string \<times> int) list"
  pr_experiments :: "string list"
  pr_models :: "string list"

definition get_experiment_size :: "size_cache \<Rightarrow> string \<Rightarrow> int option" where
  "get_experiment_size sizes experiment_id = local_get sizes experiment_id"

fun act_fold :: "('a \<Rightarrow> 'p \<Rightarrow> ('p, 's) action) \<Rightarrow> 'a list \<Rightarrow> 'p \<Rightarrow> ('p, 's) action" where
  "act_fold f [] p = act_return p"
| "act_fold f (x # xs) p = act_bind (f x p) (act_fold f xs)"

definition measure_experiment :: "'m mlflow_reads \<Rightarrow> quota_env \<Rightarrow> string option \<Rightarrow> string \<Rightarrow> progress \<Rightarrow>
    (progress, 'm quota_world) action" where
  "measure_experiment mr env ws exp_id p = (\<lambda>(db, caches, sizes, m).
     case mr_get_experiment mr m ws exp_id of
       Inl (MlflowException _) \<Rightarrow> (Inr p, (db, caches, sizes, m))
     | Inl e \<Rightarrow> (Inl e, (db, caches, sizes, m))
     | Inr experiment \<Rightarrow>
         let p = p\<lparr>pr_experiments := removeAll exp_id (pr_experiments p)\<rparr>
         in if ei_lifecycle_stage experiment = DELETED
            then (Inr (p\<lparr>pr_sizes := AList.update exp_id 0 (pr_sizes p)\<rparr>), (db, caches, sizes, m))
            else
              let exp_bytes = artifact_bytes mr env m ws (ei_artifact_location experiment)
              in (Inr (p\<lparr>pr_sizes := AList.update exp_id exp_bytes (pr_sizes p),
                        pr_total := pr_total p + exp_bytes\<rparr>),
                  (db, caches, local_set sizes exp_id exp_bytes, m)))"

definition name_filter :: "string \<Rightarrow> string" where
  "name_filter model =
     (let quote = CHR 0x27;
          escaped = concat (map (\<lambda>c. if c = quote then [CHR 0x5C, quote] else [c]) model)
      in ''name = '' @ [quote] @ escaped @ [quote])"

definition measure_model :: "'m mlflow_reads \<Rightarrow> quota_env \<Rightarrow> string option \<Rightarrow> string \<Rightarrow> progress \<Rightarrow>
    (progress, 'm quota_world) action" where
  "measure_model mr env ws model p = (\<lambda>(db, caches, sizes, m).
     case mr_search_model_versions mr m ws (name_filter model) of
       Inl (MlflowException _) \<Rightarrow> (Inr p, (db, caches, sizes, m))
     | Inl e \<Rightarrow> (Inl e, (db, caches, sizes, m))
     | Inr versions \<Rightarrow>
         (Inr (p\<lparr>pr_models := removeAll model (pr_models p),
                 pr_total := pr_total p + sum_list (map (artifact_bytes mr env m ws) versions)\<rparr>),
          (db, caches, sizes, m)))"

fun measure_workspaces :: "'m mlflow_reads \<Rightarrow> quota_env \<Rightarrow> string option list \<Rightarrow> progress \<Rightarrow>
    (progress, 'm quota_world) action" where
  "measure_workspaces mr env [] p = act_return p"
| "measure_workspaces mr env (workspace_name # names) p =
     (if pr_experiments p = [] \<and> pr_models p = [] then act_return p
      else
        let ws = workspace_context env workspace_name
        in act_bind (act_fold (measure_experiment mr env ws) (qe_set_order env (pr_experiments p)) p) (\<lambda>p.
           act_bind (act_fold (measure_model mr env ws) (qe_set_order env (pr_models p)) p) (\<lambda>p.
           measure_workspaces mr env names p)))"

section \<open>Experiments that are gone\<close>

text \<open>Their permissions are removed through the store, which flushes the permission cache.\<close>

definition world_store :: "store_env \<Rightarrow> store_op \<Rightarrow> (unit, 'm quota_world) action" where
  "world_store se op = (\<lambda>(db, caches, rest).
     case store_call se op \<lparr>st_db = db, st_caches = caches\<rparr> of
       (r, st) \<Rightarrow> (r, (st_db st, st_caches st, rest)))"

definition wipe_missing :: "quota_env \<Rightarrow> string \<Rightarrow> (unit, 'm quota_world) action" where
  "wipe_missing env exp_id =
     act_except
       (act_bind (world_store (qe_store env) (UserPermOp (WipeExperiment exp_id))) (\<lambda>_ (db, caches, sizes, m).
        (Inr (), (db, caches, local_delete sizes exp_id, m))))
       (act_return ())"

text \<open>The direct permissions a user manages by; sets are lists without repetition.\<close>

definition managed :: "perm_entity list \<Rightarrow> string list" where
  "managed perms = map (\<lambda>p. resource_id_of (pe_key p)) (filter (\<lambda>p. pe_permission p = perm_name MANAGE) perms)"

fun cached_sizes :: "size_cache \<Rightarrow> string list \<Rightarrow> progress \<Rightarrow> progress" where
  "cached_sizes sizes [] p = p"
| "cached_sizes sizes (exp_id # ids) p =
     cached_sizes sizes ids
       (case local_get sizes exp_id of
          Some n \<Rightarrow> p\<lparr>pr_sizes := AList.update exp_id n (pr_sizes p), pr_total := pr_total p + n\<rparr>
        | None \<Rightarrow> p\<lparr>pr_experiments := List.insert exp_id (pr_experiments p)\<rparr>)"

definition calculate_used_bytes :: "'m mlflow_reads \<Rightarrow> quota_env \<Rightarrow> string \<Rightarrow>
    (int \<times> (string \<times> int) list, 'm quota_world) action" where
  "calculate_used_bytes mr env username =
     act_bind (on_fst (act_read (\<lambda>db. user_list_permissions_for_user Experiment db username))) (\<lambda>exp_perms.
     act_bind (on_fst (act_read (\<lambda>db. user_list_permissions_for_user RegisteredModel db username))) (\<lambda>model_perms.
     let owned_experiment_ids = managed exp_perms;
         owned_model_names = managed model_perms
     in if owned_experiment_ids = [] \<and> owned_model_names = [] then act_return (0, [])
        else (\<lambda>(db, caches, sizes, m).
          let p = cached_sizes sizes owned_experiment_ids
                \<lparr>pr_total = 0, pr_sizes = [], pr_experiments = [], pr_models = remdups owned_model_names\<rparr>
          in act_bind (measure_workspaces mr env (iter_workspace_names mr env m) p) (\<lambda>p.
             act_bind (act_fold (\<lambda>exp_id _. wipe_missing env exp_id)
               (qe_set_order env (pr_experiments p)) ()) (\<lambda>_.
             act_return (pr_total p, pr_sizes p))) (db, caches, sizes, m))))"

section \<open>What is measured\<close>

text \<open>
  The reference: a resource counts in the first workspace that answers for it, and not at all
  when there is none or when it is an experiment in the trash.
\<close>

fun first_answer :: "('w \<Rightarrow> 'a result) \<Rightarrow> 'w list \<Rightarrow> ('w \<times> 'a) option" where
  "first_answer f [] = None"
| "first_answer f (w # ws) = (case f w of Inl _ \<Rightarrow> first_answer f ws | Inr x \<Rightarrow> Some (w, x))"

definition bytes_at :: "'m mlflow_reads \<Rightarrow> quota_env \<Rightarrow> 'm \<Rightarrow> string option \<Rightarrow> experiment_info \<Rightarrow> int" where
  "bytes_at mr env m ws x =
     (if ei_lifecycle_stage x = DELETED then 0 else artifact_bytes mr env m ws (ei_artifact_location x))"

definition ask_experiment where
  "ask_experiment mr env m e w = mr_get_experiment mr m (workspace_context env w) e"

definition ask_model where
  "ask_model mr env m x w = mr_search_model_versions mr m (workspace_context env w) (name_filter x)"

definition experiment_usage :: "'m mlflow_reads \<Rightarrow> quota_env \<Rightarrow> 'm \<Rightarrow> string option list \<Rightarrow> string \<Rightarrow> int" where
  "experiment_usage mr env m names e =
     (case first_answer (ask_experiment mr env m e) names of
        None \<Rightarrow> 0
      | Some (w, x) \<Rightarrow> bytes_at mr env m (workspace_context env w) x)"

definition model_usage :: "'m mlflow_reads \<Rightarrow> quota_env \<Rightarrow> 'm \<Rightarrow> string option list \<Rightarrow> string \<Rightarrow> int" where
  "model_usage mr env m names x =
     (case first_answer (ask_model mr env m x) names of
        None \<Rightarrow> 0
      | Some (w, vs) \<Rightarrow> sum_list (map (artifact_bytes mr env m (workspace_context env w)) vs))"

text \<open>MLflow refuses with its own exceptions only, and a set is enumerated once.\<close>

definition mlflow_answers :: "'m mlflow_reads \<Rightarrow> 'm \<Rightarrow> bool" where
  "mlflow_answers mr m \<longleftrightarrow>
     (\<forall>ws e x. mr_get_experiment mr m ws e = Inl x \<longrightarrow> (\<exists>c. x = MlflowException c)) \<and>
     (\<forall>ws e x. mr_search_model_versions mr m ws e = Inl x \<longrightarrow> (\<exists>c. x = MlflowException c))"

definition enumerates :: "quota_env \<Rightarrow> bool" where
  "enumerates env \<longleftrightarrow> (\<forall>xs. mset (qe_set_order env xs) = mset xs)"

lemma enumerates_order:
  assumes "enumerates env"
  shows "set (qe_set_order env xs) = set xs" and "distinct (qe_set_order env xs) = distinct xs"
proof -
  from assms have m: "mset (qe_set_order env xs) = mset xs" by (simp add: enumerates_def)
  show "set (qe_set_order env xs) = set xs" using m by (rule mset_eq_setD)
  show "distinct (qe_set_order env xs) = distinct xs" using m by (rule mset_eq_imp_distinct_iff)
qed

lemma act_fold_Cons:
  "act_fold f (x # xs) p s = (case f x p s of (Inl e, s') \<Rightarrow> (Inl e, s') | (Inr p', s') \<Rightarrow> act_fold f xs p' s')"
  by (simp add: act_bind_def)

definition answered where
  "answered f w \<longleftrightarrow> (\<exists>x. f w = Inr x)"

lemma first_answer_Cons:
  "first_answer f (w # ws) = (if answered f w then Some (w, projr (f w)) else first_answer f ws)"
  by (cases "f w") (auto simp: answered_def)

declare first_answer.simps(2) [simp del]

lemma experiment_usage_Cons:
  "experiment_usage mr env m (w # ws) e =
     (if answered (ask_experiment mr env m e) w
      then bytes_at mr env m (workspace_context env w) (projr (ask_experiment mr env m e w))
      else experiment_usage mr env m ws e)"
  by (simp add: experiment_usage_def first_answer_Cons)

lemma model_usage_Cons:
  "model_usage mr env m (w # ws) x =
     (if answered (ask_model mr env m x) w
      then sum_list (map (artifact_bytes mr env m (workspace_context env w)) (projr (ask_model mr env m x w)))
      else model_usage mr env m ws x)"
  by (simp add: model_usage_def first_answer_Cons)

lemma usage_Nil: "experiment_usage mr env m [] e = 0" "model_usage mr env m [] x = 0"
  by (simp_all add: experiment_usage_def model_usage_def)

text \<open>One step: the experiment is gone from the list and counted when the workspace answers for it.\<close>

lemma measure_experiment_step:
  assumes "mlflow_answers mr m"
  shows "\<exists>sizes' szs. measure_experiment mr env (workspace_context env w) e p (db, caches, sizes, m) =
      (Inr (p\<lparr>pr_total := pr_total p + experiment_usage mr env m [w] e, pr_sizes := szs,
              pr_experiments := filter (\<lambda>i. \<not> (i = e \<and> answered (ask_experiment mr env m e) w)) (pr_experiments p)\<rparr>),
       (db, caches, sizes', m)) \<and>
    (\<forall>i. sizes' i = sizes i \<or> i = e \<and> answered (ask_experiment mr env m e) w \<and>
       sizes' i = Some (experiment_usage mr env m [w] e))"
proof (cases "mr_get_experiment mr m (workspace_context env w) e")
  case (Inl x)
  with assms obtain c where "x = MlflowException c"
    unfolding mlflow_answers_def by blast
  with Inl show ?thesis
    by (intro exI [of _ sizes] exI [of _ "pr_sizes p"])
      (simp add: measure_experiment_def experiment_usage_Cons usage_Nil answered_def ask_experiment_def)
next
  case (Inr x)
  have r: "removeAll e es = filter (\<lambda>i. i \<noteq> e) es" for es :: "string list"
    by (induction es) auto
  show ?thesis
  proof (cases "ei_lifecycle_stage x = DELETED")
    case True
    with Inr show ?thesis
      by (intro exI [of _ sizes] exI [of _ "AList.update e 0 (pr_sizes p)"])
        (simp add: measure_experiment_def experiment_usage_Cons answered_def ask_experiment_def bytes_at_def r)
  next
    case False
    with Inr show ?thesis
      by (intro exI [of _ "local_set sizes e (bytes_at mr env m (workspace_context env w) x)"]
          exI [of _ "AList.update e (bytes_at mr env m (workspace_context env w) x) (pr_sizes p)"])
        (simp add: measure_experiment_def experiment_usage_Cons answered_def ask_experiment_def bytes_at_def r
          local_set_def Let_def)
  qed
qed

lemma measure_model_step:
  assumes "mlflow_answers mr m"
  shows "measure_model mr env (workspace_context env w) x p (db, caches, sizes, m) =
      (Inr (p\<lparr>pr_total := pr_total p + model_usage mr env m [w] x,
              pr_models := filter (\<lambda>i. \<not> (i = x \<and> answered (ask_model mr env m x) w)) (pr_models p)\<rparr>),
       (db, caches, sizes, m))"
proof (cases "mr_search_model_versions mr m (workspace_context env w) (name_filter x)")
  case (Inl y)
  with assms obtain c where "y = MlflowException c"
    unfolding mlflow_answers_def by blast
  with Inl show ?thesis
    by (simp add: measure_model_def model_usage_Cons usage_Nil answered_def ask_model_def)
next
  case (Inr vs)
  have "removeAll x es = filter (\<lambda>i. i \<noteq> x) es" for es :: "string list"
    by (induction es) auto
  with Inr show ?thesis
    by (simp add: measure_model_def model_usage_Cons answered_def ask_model_def)
qed

lemma fold_experiments:
  assumes "mlflow_answers mr m" and "distinct es"
  shows "\<exists>sizes' szs. act_fold (measure_experiment mr env (workspace_context env w)) es p (db, caches, sizes, m) =
      (Inr (p\<lparr>pr_total := pr_total p + (\<Sum>e\<in>set es. experiment_usage mr env m [w] e), pr_sizes := szs,
              pr_experiments := filter (\<lambda>i. \<not> (i \<in> set es \<and> answered (ask_experiment mr env m i) w)) (pr_experiments p)\<rparr>),
       (db, caches, sizes', m)) \<and>
    (\<forall>i. sizes' i = sizes i \<or> i \<in> set es \<and> answered (ask_experiment mr env m i) w \<and>
       sizes' i = Some (experiment_usage mr env m [w] i))"
  using assms(2)
proof (induction es arbitrary: p sizes)
  case Nil
  show ?case by (intro exI [of _ sizes] exI [of _ "pr_sizes p"]) (simp add: act_return_def)
next
  case (Cons e es)
  from measure_experiment_step [OF assms(1), of env w e p db caches sizes] obtain s1 z1 where
    1: "measure_experiment mr env (workspace_context env w) e p (db, caches, sizes, m) =
      (Inr (p\<lparr>pr_total := pr_total p + experiment_usage mr env m [w] e, pr_sizes := z1,
              pr_experiments := filter (\<lambda>i. \<not> (i = e \<and> answered (ask_experiment mr env m e) w)) (pr_experiments p)\<rparr>),
       (db, caches, s1, m))" (is "_ = (Inr ?p1, _)")
    and s1: "\<forall>i. s1 i = sizes i \<or> i = e \<and> answered (ask_experiment mr env m e) w \<and>
       s1 i = Some (experiment_usage mr env m [w] e)" by blast
  from Cons.prems have "e \<notin> set es" "distinct es" by simp_all
  from Cons.IH [OF this(2), of ?p1 s1] obtain s2 z2 where
    2: "act_fold (measure_experiment mr env (workspace_context env w)) es ?p1 (db, caches, s1, m) =
      (Inr (?p1\<lparr>pr_total := pr_total ?p1 + (\<Sum>e\<in>set es. experiment_usage mr env m [w] e), pr_sizes := z2,
              pr_experiments := filter (\<lambda>i. \<not> (i \<in> set es \<and> answered (ask_experiment mr env m i) w)) (pr_experiments ?p1)\<rparr>),
       (db, caches, s2, m))"
    and s2: "\<forall>i. s2 i = s1 i \<or> i \<in> set es \<and> answered (ask_experiment mr env m i) w \<and>
       s2 i = Some (experiment_usage mr env m [w] i)" by blast
  have f: "filter (\<lambda>i. \<not> (i \<in> set es \<and> answered (ask_experiment mr env m i) w))
       (filter (\<lambda>i. \<not> (i = e \<and> answered (ask_experiment mr env m e) w)) xs) =
     filter (\<lambda>i. \<not> (i \<in> set (e # es) \<and> answered (ask_experiment mr env m i) w)) xs" for xs
    by (induction xs) auto
  show ?case
  proof (intro exI [of _ s2] exI [of _ z2] conjI)
    show "act_fold (measure_experiment mr env (workspace_context env w)) (e # es) p (db, caches, sizes, m) =
      (Inr (p\<lparr>pr_total := pr_total p + (\<Sum>e\<in>set (e # es). experiment_usage mr env m [w] e), pr_sizes := z2,
              pr_experiments := filter (\<lambda>i. \<not> (i \<in> set (e # es) \<and> answered (ask_experiment mr env m i) w)) (pr_experiments p)\<rparr>),
       (db, caches, s2, m))"
      using 2 \<open>e \<notin> set es\<close> by (simp only: act_fold_Cons 1 prod.case sum.case) (simp add: f [simplified] add.assoc)
    show "\<forall>i. s2 i = sizes i \<or> i \<in> set (e # es) \<and> answered (ask_experiment mr env m i) w \<and>
       s2 i = Some (experiment_usage mr env m [w] i)"
    proof
      fix i
      show "s2 i = sizes i \<or> i \<in> set (e # es) \<and> answered (ask_experiment mr env m i) w \<and>
        s2 i = Some (experiment_usage mr env m [w] i)"
        using s1 [rule_format, of i] s2 [rule_format, of i] by auto
    qed
  qed
qed

lemma fold_models:
  assumes "mlflow_answers mr m" and "distinct xs"
  shows "act_fold (measure_model mr env (workspace_context env w)) xs p (db, caches, sizes, m) =
      (Inr (p\<lparr>pr_total := pr_total p + (\<Sum>x\<in>set xs. model_usage mr env m [w] x),
              pr_models := filter (\<lambda>i. \<not> (i \<in> set xs \<and> answered (ask_model mr env m i) w)) (pr_models p)\<rparr>),
       (db, caches, sizes, m))"
  using assms(2)
proof (induction xs arbitrary: p)
  case Nil
  show ?case by (simp add: act_return_def)
next
  case (Cons x xs)
  have f: "filter (\<lambda>i. \<not> (i \<in> set xs \<and> answered (ask_model mr env m i) w))
       (filter (\<lambda>i. \<not> (i = x \<and> answered (ask_model mr env m x) w)) ys) =
     filter (\<lambda>i. \<not> (i \<in> set (x # xs) \<and> answered (ask_model mr env m i) w)) ys" for ys
    by (induction ys) auto
  from Cons.prems have "x \<notin> set xs" "distinct xs" by simp_all
  then show ?case
    by (simp only: act_fold_Cons measure_model_step [OF assms(1)] prod.case sum.case Cons.IH)
      (simp add: f [simplified] add.assoc)
qed

lemma usage_split:
  assumes "finite E"
  shows "(\<Sum>e\<in>E. experiment_usage mr env m (w # ws) e) = (\<Sum>e\<in>E. experiment_usage mr env m [w] e) +
      (\<Sum>e\<in>{e \<in> E. \<not> answered (ask_experiment mr env m e) w}. experiment_usage mr env m ws e)"
    and "(\<Sum>e\<in>E. model_usage mr env m (w # ws) e) = (\<Sum>e\<in>E. model_usage mr env m [w] e) +
      (\<Sum>e\<in>{e \<in> E. \<not> answered (ask_model mr env m e) w}. model_usage mr env m ws e)"
  unfolding sum.inter_filter [OF assms] sum.distrib [symmetric]
  by (rule sum.cong; simp add: experiment_usage_Cons model_usage_Cons usage_Nil)+

text \<open>All workspaces: what the reference counts, whatever the order of the sets.\<close>

lemma measure_workspaces_total:
  assumes "mlflow_answers mr m" and "enumerates env"
    and "distinct (pr_experiments p)" and "distinct (pr_models p)"
  shows "\<exists>p' sizes'. measure_workspaces mr env names p (db, caches, sizes, m) = (Inr p', (db, caches, sizes', m)) \<and>
    pr_total p' = pr_total p + (\<Sum>e\<in>set (pr_experiments p). experiment_usage mr env m names e) +
      (\<Sum>x\<in>set (pr_models p). model_usage mr env m names x) \<and>
    distinct (pr_experiments p') \<and>
    set (pr_experiments p') = {e \<in> set (pr_experiments p). first_answer (ask_experiment mr env m e) names = None} \<and>
    (\<forall>i. sizes' i = sizes i \<or> i \<in> set (pr_experiments p) \<and>
       first_answer (ask_experiment mr env m i) names \<noteq> None \<and> sizes' i = Some (experiment_usage mr env m names i))"
  using assms(3,4)
proof (induction names arbitrary: p sizes)
  case Nil
  show ?case by (intro exI [of _ p] exI [of _ sizes]) (simp add: act_return_def usage_Nil Nil)
next
  case (Cons w names)
  show ?case
  proof (cases "pr_experiments p = [] \<and> pr_models p = []")
    case True
    then show ?thesis by (intro exI [of _ p] exI [of _ sizes]) (simp add: act_return_def)
  next
    case False
    let ?es = "qe_set_order env (pr_experiments p)"
    have es: "set ?es = set (pr_experiments p)" "distinct ?es"
      using enumerates_order [OF assms(2)] Cons.prems by simp_all
    from fold_experiments [OF assms(1) es(2), of env w p db caches sizes] obtain s1 z1 where
      1: "act_fold (measure_experiment mr env (workspace_context env w)) ?es p (db, caches, sizes, m) =
        (Inr (p\<lparr>pr_total := pr_total p + (\<Sum>e\<in>set ?es. experiment_usage mr env m [w] e), pr_sizes := z1,
              pr_experiments := filter (\<lambda>i. \<not> (i \<in> set ?es \<and> answered (ask_experiment mr env m i) w)) (pr_experiments p)\<rparr>),
         (db, caches, s1, m))" (is "_ = (Inr ?p1, _)")
      and s1: "\<forall>i. s1 i = sizes i \<or> i \<in> set ?es \<and> answered (ask_experiment mr env m i) w \<and>
        s1 i = Some (experiment_usage mr env m [w] i)" by blast
    let ?xs = "qe_set_order env (pr_models ?p1)"
    have xs: "set ?xs = set (pr_models p)" "distinct ?xs"
      using enumerates_order [OF assms(2)] Cons.prems by simp_all
    let ?p2 = "?p1\<lparr>pr_total := pr_total ?p1 + (\<Sum>x\<in>set ?xs. model_usage mr env m [w] x),
              pr_models := filter (\<lambda>i. \<not> (i \<in> set ?xs \<and> answered (ask_model mr env m i) w)) (pr_models ?p1)\<rparr>"
    note 2 = fold_models [OF assms(1) xs(2), of env w ?p1 db caches s1]
    have "distinct (pr_experiments ?p2)" "distinct (pr_models ?p2)" using Cons.prems by simp_all
    from Cons.IH [OF this, of s1] obtain p' s' where
      3: "measure_workspaces mr env names ?p2 (db, caches, s1, m) = (Inr p', (db, caches, s', m))"
      and t: "pr_total p' = pr_total ?p2 + (\<Sum>e\<in>set (pr_experiments ?p2). experiment_usage mr env m names e) +
        (\<Sum>x\<in>set (pr_models ?p2). model_usage mr env m names x)"
      and d: "distinct (pr_experiments p')"
      and r: "set (pr_experiments p') = {e \<in> set (pr_experiments ?p2). first_answer (ask_experiment mr env m e) names = None}"
      and s': "\<forall>i. s' i = s1 i \<or> i \<in> set (pr_experiments ?p2) \<and>
        first_answer (ask_experiment mr env m i) names \<noteq> None \<and> s' i = Some (experiment_usage mr env m names i)"
      by blast
    have run: "measure_workspaces mr env (w # names) p (db, caches, sizes, m) = (Inr p', (db, caches, s', m))"
      using False by (simp only: measure_workspaces.simps Let_def if_False act_bind_def 1 2 3 prod.case sum.case)
    have sets: "set (pr_experiments ?p2) = {e \<in> set (pr_experiments p). \<not> answered (ask_experiment mr env m e) w}"
      "set (pr_models ?p2) = {x \<in> set (pr_models p). \<not> answered (ask_model mr env m x) w}"
      using es(1) xs(1) by auto
    have total: "pr_total p' = pr_total p + (\<Sum>e\<in>set (pr_experiments p). experiment_usage mr env m (w # names) e) +
      (\<Sum>x\<in>set (pr_models p). model_usage mr env m (w # names) x)"
      unfolding t sets usage_split [OF finite_set, where ws = names] using es(1) xs(1) by simp
    have rest: "set (pr_experiments p') =
      {e \<in> set (pr_experiments p). first_answer (ask_experiment mr env m e) (w # names) = None}"
      unfolding r sets by (auto simp: first_answer_Cons)
    have cache: "\<forall>i. s' i = sizes i \<or> i \<in> set (pr_experiments p) \<and>
       first_answer (ask_experiment mr env m i) (w # names) \<noteq> None \<and>
       s' i = Some (experiment_usage mr env m (w # names) i)"
    proof
      fix i
      have c: "s1 i = sizes i \<or> i \<in> set (pr_experiments p) \<and> answered (ask_experiment mr env m i) w \<and>
        s1 i = Some (experiment_usage mr env m [w] i)" using s1 es(1) by blast
      have c': "s' i = s1 i \<or> (i \<in> set (pr_experiments p) \<and> \<not> answered (ask_experiment mr env m i) w) \<and>
        first_answer (ask_experiment mr env m i) names \<noteq> None \<and> s' i = Some (experiment_usage mr env m names i)"
        using s' unfolding sets by blast
      show "s' i = sizes i \<or> i \<in> set (pr_experiments p) \<and>
        first_answer (ask_experiment mr env m i) (w # names) \<noteq> None \<and>
        s' i = Some (experiment_usage mr env m (w # names) i)"
        unfolding first_answer_Cons experiment_usage_Cons [of _ _ _ w names]
      proof (cases "answered (ask_experiment mr env m i) w")
        case True
        with c c' show "s' i = sizes i \<or> i \<in> set (pr_experiments p) \<and>
          (if answered (ask_experiment mr env m i) w then Some (w, projr (ask_experiment mr env m i w))
           else first_answer (ask_experiment mr env m i) names) \<noteq> None \<and>
          s' i = Some (if answered (ask_experiment mr env m i) w
            then bytes_at mr env m (workspace_context env w) (projr (ask_experiment mr env m i w))
            else experiment_usage mr env m names i)"
          by (simp add: experiment_usage_Cons [of _ _ _ w "[]"])
      next
        case False
        with c c' show "s' i = sizes i \<or> i \<in> set (pr_experiments p) \<and>
          (if answered (ask_experiment mr env m i) w then Some (w, projr (ask_experiment mr env m i w))
           else first_answer (ask_experiment mr env m i) names) \<noteq> None \<and>
          s' i = Some (if answered (ask_experiment mr env m i) w
            then bytes_at mr env m (workspace_context env w) (projr (ask_experiment mr env m i w))
            else experiment_usage mr env m names i)"
          by auto
      qed
    qed
    show ?thesis by (intro exI [of _ p'] exI [of _ s'] conjI run total d rest cache)
  qed
qed

end
