(* ===== verification/Trash.thy ===== *)
theory Trash
  imports QuotaMeasure Entities
begin

text \<open>
  MLflow's trash: \<^verbatim>\<open>utils/trash_cleanup.py\<close>, which deletes runs and experiments for good, the
  scheduled clean-up of \<^verbatim>\<open>utils/quota.py\<close>, and the readers of the arguments of
  \<^verbatim>\<open>routers/trash.py\<close>. The tracking store is a parameter that works on a state of its own.
\<close>

section \<open>The tracking store\<close>

record run_info =
  ri_run_id :: string
  ri_experiment_id :: string
  ri_run_name :: string
  ri_status :: string
  ri_start_time :: "int option"
  ri_end_time :: "int option"
  ri_lifecycle_stage :: string
  ri_artifact_uri :: string

text \<open>
  Every call depends on the workspace of the request. The searches are for what is in the trash;
  that for experiments takes a filter, both take a page token. Whether the store has a method is
  a flag. Artifacts are served by MLflow itself or live in a repository of their own.
\<close>

record 'm backend =
  bk_reads :: "'m mlflow_reads"
  bk_search_experiments :: "'m \<Rightarrow> string option \<Rightarrow> string option \<Rightarrow> string option \<Rightarrow> (experiment_info list \<times> string option) result"
  bk_search_runs :: "'m \<Rightarrow> string option \<Rightarrow> string list \<Rightarrow> string option \<Rightarrow> (run_info list \<times> string option) result"
  bk_get_run :: "'m \<Rightarrow> string option \<Rightarrow> string \<Rightarrow> run_info result"
  bk_has_get_deleted_runs :: bool
  bk_get_deleted_runs :: "'m \<Rightarrow> string option \<Rightarrow> int \<Rightarrow> string list result"
  bk_has_hard_delete_run :: bool
  bk_hard_delete_run :: "string option \<Rightarrow> string \<Rightarrow> (unit, 'm) action"
  bk_has_hard_delete_experiment :: bool
  bk_hard_delete_experiment :: "string option \<Rightarrow> string \<Rightarrow> (unit, 'm) action"
  bk_restore_run :: "string option \<Rightarrow> string \<Rightarrow> (unit, 'm) action"
  bk_restore_experiment :: "string option \<Rightarrow> string \<Rightarrow> (unit, 'm) action"
  bk_servable_root :: "string \<Rightarrow> bool"
  bk_destination_path :: "string option \<Rightarrow> string \<Rightarrow> string"
  bk_delete_served :: "string \<Rightarrow> (unit, 'm) action"
  bk_delete_repository :: "string \<Rightarrow> (unit, 'm) action"

section \<open>Deleting for good\<close>

definition delete_run_artifacts :: "'m backend \<Rightarrow> string option \<Rightarrow> string \<Rightarrow> (unit, 'm) action" where
  "delete_run_artifacts bk ws artifact_uri =
     (if bk_servable_root bk artifact_uri
      then bk_delete_served bk (bk_destination_path bk ws artifact_uri)
      else bk_delete_repository bk artifact_uri)"

text \<open>Artifacts that cannot be deleted do not keep the run.\<close>

definition hard_delete_run :: "'m backend \<Rightarrow> string option \<Rightarrow> string \<Rightarrow> string \<Rightarrow> (unit, 'm) action" where
  "hard_delete_run bk ws run_id artifact_uri =
     act_bind (act_except (delete_run_artifacts bk ws artifact_uri) (act_return ())) (\<lambda>_.
     bk_hard_delete_run bk ws run_id)"

definition hard_delete_experiment_with_runs :: "'m backend \<Rightarrow> string option \<Rightarrow> string \<Rightarrow> (unit, 'm) action" where
  "hard_delete_experiment_with_runs bk ws experiment_id =
     act_bind (act_read (\<lambda>m. bk_search_runs bk m ws [experiment_id] None)) (\<lambda>(deleted_runs, _).
     act_bind (act_fold (\<lambda>run _. hard_delete_run bk ws (ri_run_id run) (ri_artifact_uri run)) deleted_runs ()) (\<lambda>_.
     bk_hard_delete_experiment bk ws experiment_id))"

section \<open>The scheduled clean-up\<close>

text \<open>The time of a deletion, if known; zero counts as unknown.\<close>

definition deletion_time :: "experiment_info \<Rightarrow> int option" where
  "deletion_time experiment =
     (let nonzero = (\<lambda>t. case t of Some n \<Rightarrow> if n = 0 then None else Some n | None \<Rightarrow> None)
      in case nonzero (ei_last_update_time experiment) of
           Some t \<Rightarrow> Some t
         | None \<Rightarrow> nonzero (ei_creation_time experiment))"

definition expired :: "rat \<Rightarrow> experiment_info \<Rightarrow> bool" where
  "expired cutoff_ms experiment = (case deletion_time experiment of Some t \<Rightarrow> of_int t < cutoff_ms | None \<Rightarrow> False)"

definition on_mlflow :: "('a, 'm) action \<Rightarrow> ('a, 'm quota_world) action" where
  "on_mlflow f = (\<lambda>(db, caches, sizes, m). case f m of (r, m') \<Rightarrow> (r, (db, caches, sizes, m')))"

definition cleanup_experiment :: "'m backend \<Rightarrow> string option \<Rightarrow> rat \<Rightarrow> experiment_info \<Rightarrow> string list \<Rightarrow>
    (string list, 'm quota_world) action" where
  "cleanup_experiment bk ws cutoff_ms experiment affected_owners =
     (if \<not> expired cutoff_ms experiment then act_return affected_owners
      else
        act_bind (on_fst (act_read (\<lambda>db. Inr (get_experiment_owner db (ei_experiment_id experiment))))) (\<lambda>owner.
        act_except
          (act_bind (on_mlflow (hard_delete_experiment_with_runs bk ws (ei_experiment_id experiment))) (\<lambda>_.
           act_return (case owner of
             Some name \<Rightarrow> if name = '''' then affected_owners else List.insert name affected_owners
           | None \<Rightarrow> affected_owners)))
          (act_return affected_owners)))"

text \<open>One page of each workspace is looked at.\<close>

definition cleanup_workspace :: "'m backend \<Rightarrow> quota_env \<Rightarrow> rat \<Rightarrow> string option \<Rightarrow> string list \<Rightarrow>
    (string list, 'm quota_world) action" where
  "cleanup_workspace bk env cutoff_ms workspace_name affected_owners = (\<lambda>(db, caches, sizes, m).
     let ws = workspace_context env workspace_name
     in case bk_search_experiments bk m ws None None of
          Inl _ \<Rightarrow> (Inr affected_owners, (db, caches, sizes, m))
        | Inr (deleted_experiments, _) \<Rightarrow>
            act_fold (cleanup_experiment bk ws cutoff_ms) deleted_experiments affected_owners
              (db, caches, sizes, m))"

definition cleanup_trash :: "'m backend \<Rightarrow> quota_env \<Rightarrow> (string \<Rightarrow> ((string \<times> int) list, 'm quota_world) action) \<Rightarrow>
    rat \<Rightarrow> int \<Rightarrow> (unit, 'm quota_world) action" where
  "cleanup_trash bk env reconcile now retention_days =
     (\<lambda>(db, caches, sizes, m).
       let cutoff_ms = (now - of_int (retention_days * 86400)) * 1000
       in act_bind (act_fold (cleanup_workspace bk env cutoff_ms) (iter_workspace_names (bk_reads bk) env m) [])
            (\<lambda>affected_owners.
             act_fold (\<lambda>owner _. act_except (act_map (\<lambda>_. ()) (reconcile owner)) (act_return ()))
               (qe_set_order env affected_owners) ()) (db, caches, sizes, m))"

section \<open>Reading arguments\<close>

definition split_csv :: "string option \<Rightarrow> string list" where
  "split_csv raw =
     (case raw of
        None \<Rightarrow> []
      | Some s \<Rightarrow> if s = '''' then [] else filter (\<lambda>v. v \<noteq> '''') (map py_strip (split '','' s)))"

text \<open>
  A number of the pattern \<^verbatim>\<open>[.\d]+\<close> in front of a unit; the unit ends it, so an optional part
  either matches whole or is not there.
\<close>

definition number_char :: "char \<Rightarrow> bool" where
  "number_char c \<longleftrightarrow> c = CHR ''.'' \<or> digit_char c"

definition unit_part :: "char \<Rightarrow> string \<Rightarrow> string option \<times> string" where
  "unit_part u s =
     (let num = takeWhile number_char s; rest = dropWhile number_char s
      in if num \<noteq> [] \<and> rest \<noteq> [] \<and> hd rest = u then (Some num, tl rest) else (None, s))"

text \<open>\<^verbatim>\<open>float\<close> of such a number, exactly.\<close>

fun digits_value :: "string \<Rightarrow> rat \<Rightarrow> rat" where
  "digits_value [] acc = acc"
| "digits_value (c # cs) acc = digits_value cs (10 * acc + of_int (digit_value c))"

definition read_float :: "string \<Rightarrow> rat result" where
  "read_float s =
     (let whole = takeWhile digit_char s; rest = dropWhile digit_char s
      in case rest of
           [] \<Rightarrow> if whole = [] then Inl ValueError else Inr (digits_value whole 0)
         | _ # decimals \<Rightarrow>
             if list_all digit_char decimals \<and> (whole \<noteq> [] \<or> decimals \<noteq> [])
             then Inr (digits_value (whole @ decimals) 0 / 10 ^ length decimals) else Inl ValueError)"

definition part_value :: "string option \<Rightarrow> rat result" where
  "part_value part = (case part of None \<Rightarrow> Inr 0 | Some s \<Rightarrow> read_float s)"

text \<open>
  A \<^verbatim>\<open>timedelta\<close> has at most 999999999 days and counts microseconds. The end of the pattern
  also matches before a line feed that ends the text.
\<close>

definition parse_time_delta :: "string \<Rightarrow> int result" where
  "parse_time_delta older_than =
     (let (days, s1) = unit_part (CHR ''d'') older_than;
          (hours, s2) = unit_part (CHR ''h'') s1;
          (minutes, s3) = unit_part (CHR ''m'') s2;
          (seconds, s4) = unit_part (CHR ''s'') s3
      in if s4 \<noteq> [] \<and> s4 \<noteq> [CHR 0x0A] then Inl (MlflowException INVALID_PARAMETER_VALUE)
         else
           bind_result (part_value days) (\<lambda>d.
           bind_result (part_value hours) (\<lambda>h.
           bind_result (part_value minutes) (\<lambda>m.
           bind_result (part_value seconds) (\<lambda>s.
           let microseconds = round ((((d * 24 + h) * 60 + m) * 60 + s) * 1000000)
           in if microseconds \<ge> 1000000000 * 86400 * 1000000 then Inl OtherError
              else Inr (microseconds div 1000))))))"

section \<open>Texts\<close>

lemma unit_part_number:
  assumes "list_all number_char num" and "num \<noteq> []" and "\<not> number_char u"
  shows "unit_part u (num @ u # s) = (Some num, s)"
    and "\<not> number_char v \<Longrightarrow> v \<noteq> u \<Longrightarrow> unit_part v (num @ u # s) = (None, num @ u # s)"
    and "unit_part v [] = (None, [])"
proof -
  have "takeWhile number_char (num @ u # s) = num" "dropWhile number_char (num @ u # s) = u # s"
    using assms(1,3) by (simp_all add: takeWhile_append2 dropWhile_append2 list_all_iff)
  with assms(2) show "unit_part u (num @ u # s) = (Some num, s)"
    and "\<not> number_char v \<Longrightarrow> v \<noteq> u \<Longrightarrow> unit_part v (num @ u # s) = (None, num @ u # s)"
    by (simp_all add: unit_part_def)
  show "unit_part v [] = (None, [])" by (simp add: unit_part_def)
qed

lemma digits_value_append: "digits_value (s @ t) a = digits_value t (digits_value s a)"
  by (induction s arbitrary: a) simp_all

lemma digits_value_show_nat: "digits_value (show_nat n) 0 = of_nat n"
proof (induction n rule: show_nat.induct)
  case (1 n)
  show ?case
  proof (cases "n < 10")
    case True
    then show ?thesis by (subst show_nat.simps) simp
  next
    case False
    have "10 * of_nat (n div 10) + of_nat (n mod 10) = (of_nat n :: rat)"
      by (metis mult_div_mod_eq of_nat_add of_nat_mult of_nat_numeral)
    with False 1 show ?thesis by (subst show_nat.simps) (simp add: digits_value_append)
  qed
qed

lemma read_float_show_nat: "read_float (show_nat n) = Inr (of_nat n)"
proof -
  have "takeWhile digit_char (show_nat n) = show_nat n" "dropWhile digit_char (show_nat n) = []"
    using show_nat_digits(1) [of n] by (simp_all add: list_all_iff)
  then show ?thesis by (simp only: read_float_def Let_def list.case show_nat_digits(2) digits_value_show_nat if_False)
qed

text \<open>A part of a time, left out or written as a number in front of its unit.\<close>

definition show_part :: "char \<Rightarrow> nat option \<Rightarrow> string" where
  "show_part u part = (case part of None \<Rightarrow> '''' | Some n \<Rightarrow> show_nat n @ [u])"

definition the_part :: "nat option \<Rightarrow> nat" where
  "the_part part = (case part of None \<Rightarrow> 0 | Some n \<Rightarrow> n)"

lemma number_chars:
  "\<not> number_char (CHR ''d'')" "\<not> number_char (CHR ''h'')" "\<not> number_char (CHR ''m'')" "\<not> number_char (CHR ''s'')"
  "list_all number_char (show_nat n)"
  using show_nat_digits(1) [of n] by (auto simp: number_char_def digit_char_def list_all_iff)

lemma unit_part_show:
  assumes "\<not> number_char u" and "fst (unit_part u s) = None"
  shows "unit_part u (show_part u part @ s) = (map_option show_nat part, s)"
  using assms unit_part_number [OF number_chars(5) show_nat_digits(2) assms(1)]
  by (cases part) (auto simp: show_part_def unit_part_def Let_def split: if_splits)

lemma unit_part_other:
  assumes "\<not> number_char u" and "\<not> number_char v" and "v \<noteq> u" and "fst (unit_part v s) = None"
  shows "fst (unit_part v (show_part u part @ s)) = None"
  using assms(4) unit_part_number(2) [OF number_chars(5) show_nat_digits(2) assms(1,2,3)]
  by (cases part) (auto simp: show_part_def)

lemma part_value_show: "part_value (map_option show_nat part) = Inr (of_nat (the_part part))"
  by (cases part) (simp_all add: part_value_def the_part_def read_float_show_nat)

text \<open>A time written in days, hours, minutes and seconds, any of them left out, is read as its
  length in milliseconds, if it is not longer than a time delta can be.\<close>

theorem time_delta_round_trip:
  assumes "the_part days * 86400 + the_part hours * 3600 + the_part minutes * 60 + the_part seconds < 86400000000000"
  shows "parse_time_delta (show_part (CHR ''d'') days @ show_part (CHR ''h'') hours @ show_part (CHR ''m'') minutes @
      show_part (CHR ''s'') seconds) =
    Inr (1000 * int (the_part days * 86400 + the_part hours * 3600 + the_part minutes * 60 + the_part seconds))"
proof -
  let ?n = "the_part days * 86400 + the_part hours * 3600 + the_part minutes * 60 + the_part seconds"
  let ?s4 = "show_part (CHR ''s'') seconds"
  let ?s3 = "show_part (CHR ''m'') minutes @ ?s4"
  let ?s2 = "show_part (CHR ''h'') hours @ ?s3"
  have empty: "fst (unit_part v []) = None" for v by (simp add: unit_part_def)
  have s: "unit_part (CHR ''s'') ?s4 = (map_option show_nat seconds, [])"
    using unit_part_show [OF number_chars(4) empty] by simp
  have o4: "fst (unit_part v ?s4) = None" if "\<not> number_char v" "v \<noteq> CHR ''s''" for v
    using unit_part_other [OF number_chars(4) that empty] by simp
  have m: "unit_part (CHR ''m'') ?s3 = (map_option show_nat minutes, ?s4)"
    by (rule unit_part_show [OF number_chars(3)]) (simp add: o4 number_chars)
  have o3: "fst (unit_part v ?s3) = None" if "\<not> number_char v" "v \<noteq> CHR ''s''" "v \<noteq> CHR ''m''" for v
    by (rule unit_part_other [OF number_chars(3) that(1,3)]) (rule o4 [OF that(1,2)])
  have h: "unit_part (CHR ''h'') ?s2 = (map_option show_nat hours, ?s3)"
    by (rule unit_part_show [OF number_chars(2)]) (simp add: o3 number_chars)
  have "fst (unit_part (CHR ''d'') ?s2) = None"
    by (rule unit_part_other [OF number_chars(2,1)]) (simp_all add: o3 number_chars)
  then have d: "unit_part (CHR ''d'') (show_part (CHR ''d'') days @ ?s2) = (map_option show_nat days, ?s2)"
    by (rule unit_part_show [OF number_chars(1)])
  have r: "round ((((of_nat (the_part days) * 24 + of_nat (the_part hours)) * 60 + of_nat (the_part minutes)) * 60 +
      of_nat (the_part seconds)) * 1000000 :: rat) = int ?n * 1000000"
  proof -
    have "(((of_nat (the_part days) * 24 + of_nat (the_part hours)) * 60 + of_nat (the_part minutes)) * 60 +
        of_nat (the_part seconds)) * 1000000 = (of_int (int ?n * 1000000) :: rat)"
      by (simp add: algebra_simps)
    then show ?thesis by (simp only: round_of_int)
  qed
  have "int ?n < int 86400000000000" using assms by (simp only: of_nat_less_iff)
  then have "int ?n * 1000000 < 1000000000 * 86400 * 1000000" by (simp del: of_nat_add of_nat_mult)
  then have less: "(1000000000 * 86400 * 1000000 \<le> int ?n * 1000000) = False" by simp
  have ms: "int ?n * 1000000 div 1000 = 1000 * int ?n" by simp
  show ?thesis
    unfolding parse_time_delta_def d prod.case h m s part_value_show bind_result_simps r Let_def less ms if_False
    by (simp del: of_nat_add of_nat_mult)
qed

theorem time_delta_round_trip_witness:
  "parse_time_delta ''2d8h5m20s'' = Inr 201920000 \<and> parse_time_delta ''8h'' = Inr 28800000"
proof -
  have s: "show_nat 2 = ''2''" "show_nat 8 = ''8''" "show_nat 5 = ''5''" "show_nat 20 = ''20''"
    by code_simp+
  from time_delta_round_trip [of "Some 2" "Some 8" "Some 5" "Some 20"] time_delta_round_trip [of None "Some 8" None None]
  show ?thesis by (simp add: the_part_def show_part_def s)
qed

end
