(* ===== verification/TrashRouter.thy ===== *)
theory TrashRouter
  imports Trash AccountRouter Middleware
begin

text \<open>
  \<^verbatim>\<open>routers/trash.py\<close>: what administrators see in MLflow's trash, delete from it for good and take
  out of it. The texts of errors are left out; an audit event without a resource has the empty
  text as its id. Fetching all pages need not end, so two routes may not answer (\<open>None\<close>).
\<close>

type_synonym 'm trash_state = "app_state \<times> size_cache \<times> 'm"

type_synonym 'm trash_handler = "(nat \<times> json, 'm trash_state) action"

definition on_backend :: "('a, 'm) action \<Rightarrow> ('a, 'm trash_state) action" where
  "on_backend f = (\<lambda>(s, sizes, m). case f m of (r, m') \<Rightarrow> (r, (s, sizes, m')))"

text \<open>The calls that read the store, and \<^verbatim>\<open>except Exception: raise HTTPException(500)\<close>.\<close>

definition ask :: "('m \<Rightarrow> 'a result) \<Rightarrow> ('a, 'm trash_state) action" where
  "ask f = on_backend (act_read f)"

definition or_500 :: "('a, 's) action \<Rightarrow> ('a, 's) action" where
  "or_500 f = act_except f (act_raise (HTTPException 500))"

definition error_response :: "nat \<Rightarrow> (nat \<times> json)" where
  "error_response status = (status, JObject [(''error'', JNull)])"

section \<open>What is in the trash\<close>

definition deleted_experiment_json :: "size_cache \<Rightarrow> experiment_info \<Rightarrow> json" where
  "deleted_experiment_json sizes e =
     JObject
       [(''experiment_id'', JString (ei_experiment_id e)), (''name'', JString (ei_name e)),
        (''lifecycle_stage'', JString (ei_lifecycle_stage e)),
        (''artifact_location'', JString (ei_artifact_location e)),
        (''tags'', JObject (map (\<lambda>(k, v). (k, JString v)) (ei_tags e))),
        (''creation_time'', json_id (ei_creation_time e)),
        (''last_update_time'', json_id (ei_last_update_time e)),
        (''size_bytes'', json_id (get_experiment_size sizes (ei_experiment_id e)))]"

definition list_deleted_experiments :: "'m backend \<Rightarrow> string option \<Rightarrow> http_request \<Rightarrow> 'm trash_state \<Rightarrow>
    ((nat \<times> json) result \<times> 'm trash_state) option" where
  "list_deleted_experiments bk ws rq = (\<lambda>(s, sizes, m).
     case check_admin_permission rq s of
       (Inl e, s') \<Rightarrow> Some (Inl e, (s', sizes, m))
     | (Inr _, s') \<Rightarrow>
         (case fetch_pages (\<lambda>token. bk_search_experiments bk m ws None token) None [] of
            None \<Rightarrow> None
          | Some (Inl _) \<Rightarrow> Some (Inl (HTTPException 500), (s', sizes, m))
          | Some (Inr deleted_experiments) \<Rightarrow>
              Some (Inr (200, JObject [(''deleted_experiments'',
                      JArray (map (deleted_experiment_json sizes) deleted_experiments))]), (s', sizes, m))))"

text \<open>
  Pages fetched by a recursion that swallows exceptions: a page that fails ends the list, and so
  does the depth that the interpreter allows.
\<close>

primrec fetch_deleted :: "nat \<Rightarrow> 'a paged \<Rightarrow> string option \<Rightarrow> 'a list" where
  "fetch_deleted 0 search token = []"
| "fetch_deleted (Suc depth) search token =
     (case search token of
        Inl _ \<Rightarrow> []
      | Inr (page, next_page) \<Rightarrow>
          (case next_token next_page of
             Some t \<Rightarrow> page @ fetch_deleted depth search (Some t)
           | None \<Rightarrow> page))"

definition deleted_run_json :: "run_info \<Rightarrow> json" where
  "deleted_run_json run =
     JObject
       [(''run_id'', JString (ri_run_id run)), (''experiment_id'', JString (ri_experiment_id run)),
        (''run_name'', JString (ri_run_name run)), (''status'', JString (ri_status run)),
        (''start_time'', json_id (ri_start_time run)), (''end_time'', json_id (ri_end_time run)),
        (''lifecycle_stage'', JString (ri_lifecycle_stage run))]"

text \<open>The runs that can be read, are in the trash and belong to one of the experiments asked for.\<close>

definition listed_run :: "'m backend \<Rightarrow> string option \<Rightarrow> 'm \<Rightarrow> string list \<Rightarrow> string \<Rightarrow> run_info option" where
  "listed_run bk ws m experiment_filter run_id =
     (case bk_get_run bk m ws run_id of
        Inl _ \<Rightarrow> None
      | Inr run \<Rightarrow>
          if ri_lifecycle_stage run \<noteq> DELETED then None
          else if experiment_filter \<noteq> [] \<and> ri_experiment_id run \<notin> set experiment_filter then None
          else Some run)"

definition older_than_delta :: "string option \<Rightarrow> int result" where
  "older_than_delta older_than =
     (case or_text older_than None of None \<Rightarrow> Inr 0 | Some s \<Rightarrow> parse_time_delta s)"

text \<open>View type 3 is every experiment.\<close>

definition list_deleted_runs :: "app \<Rightarrow> 'm backend \<Rightarrow> quota_env \<Rightarrow> string option \<Rightarrow> http_request \<Rightarrow> string option \<Rightarrow>
    string option \<Rightarrow> 'm trash_state \<Rightarrow> ((nat \<times> json) result \<times> 'm trash_state) option" where
  "list_deleted_runs ap bk env ws rq experiment_ids older_than = (\<lambda>(s, sizes, m).
     case check_admin_permission rq s of
       (Inl e, s') \<Rightarrow> Some (Inl e, (s', sizes, m))
     | (Inr _, s') \<Rightarrow>
         let experiment_filter = split_csv experiment_ids;
             answer = (\<lambda>r. (r, (s', sizes, m)));
             listed = (\<lambda>run_ids. answer (Inr (200, JObject [(''deleted_runs'',
               JArray (map deleted_run_json (List.map_filter (listed_run bk ws m experiment_filter) run_ids)))])))
         in case older_than_delta older_than of
              Inl (MlflowException _) \<Rightarrow> Some (answer (Inr (error_response 400)))
            | Inl e \<Rightarrow> Some (answer (Inl e))
            | Inr time_delta \<Rightarrow>
                if bk_has_get_deleted_runs bk
                then Some (case bk_get_deleted_runs bk m ws time_delta of
                       Inl _ \<Rightarrow> answer (Inl (HTTPException 500))
                     | Inr run_ids \<Rightarrow> listed run_ids)
                else
                  let fetch = (\<lambda>ids. map ri_run_id (fetch_deleted (qe_recursion_limit env)
                        (bk_search_runs bk m ws ids) None))
                  in if experiment_filter \<noteq> [] then Some (listed (fetch experiment_filter))
                     else (case fetch_all_experiments (ap_mlflow ap) 3 1000 None None of
                             None \<Rightarrow> None
                           | Some (Inl _) \<Rightarrow> Some (answer (Inl (HTTPException 500)))
                           | Some (Inr es) \<Rightarrow> Some (listed (fetch (map fst es)))))"

section \<open>Emptying the trash\<close>

text \<open>A run: removed, or why not.\<close>

definition cleanup_run :: "'m backend \<Rightarrow> string option \<Rightarrow> string option \<Rightarrow> string list \<Rightarrow> string \<Rightarrow>
    string list \<times> string list \<Rightarrow> (string list \<times> string list, 'm) action" where
  "cleanup_run bk ws older_than deleted_run_ids_older_than run_id = (\<lambda>(deleted_runs, failed_runs).
     act_except
       (act_bind (act_read (\<lambda>m. bk_get_run bk m ws run_id)) (\<lambda>run.
        if ri_lifecycle_stage run \<noteq> DELETED then act_return (deleted_runs, failed_runs @ [run_id])
        else if or_text older_than None \<noteq> None \<and> run_id \<notin> set deleted_run_ids_older_than
        then act_return (deleted_runs, failed_runs @ [run_id])
        else
          act_bind (hard_delete_run bk ws run_id (ri_artifact_uri run)) (\<lambda>_.
          act_return (deleted_runs @ [run_id], failed_runs))))
       (act_return (deleted_runs, failed_runs @ [run_id])))"

definition cleanup_named_experiment :: "'m backend \<Rightarrow> string option \<Rightarrow> string \<Rightarrow> string list \<times> string list \<Rightarrow>
    (string list \<times> string list, 'm) action" where
  "cleanup_named_experiment bk ws experiment_id = (\<lambda>(deleted_experiments, failed_experiments).
     act_except
       (act_bind (hard_delete_experiment_with_runs bk ws experiment_id) (\<lambda>_.
        act_return (deleted_experiments @ [experiment_id], failed_experiments)))
       (act_return (deleted_experiments, failed_experiments @ [experiment_id])))"

text \<open>
  The experiments to delete: those named, when each is there, in the trash and as old as asked;
  else all in the trash. \<open>Inl\<close> is the answer that ends the request.
\<close>

definition target_experiments :: "'m backend \<Rightarrow> quota_env \<Rightarrow> string option \<Rightarrow> 'm \<Rightarrow> string option \<Rightarrow> string option \<Rightarrow>
    int \<Rightarrow> (nat \<times> json) + string list" where
  "target_experiments bk env ws m experiment_ids older_than time_threshold =
     (let dated = (or_text older_than None \<noteq> None)
      in case or_text experiment_ids None of
           Some ids \<Rightarrow>
             (case mapM_result (\<lambda>exp_id. mr_get_experiment (bk_reads bk) m ws exp_id) (split_csv (Some ids)) of
                Inl _ \<Rightarrow> Inl (error_response 404)
              | Inr experiments \<Rightarrow>
                  if list_ex (\<lambda>e. ei_lifecycle_stage e \<noteq> DELETED) experiments then Inl (error_response 400)
                  else if dated \<and> list_ex (\<lambda>e. case ei_last_update_time e of
                              None \<Rightarrow> True | Some t \<Rightarrow> t \<ge> time_threshold) experiments
                  then Inl (error_response 400)
                  else Inr (split_csv (Some ids)))
         | None \<Rightarrow>
             let filter_string = (if dated then Some (''last_update_time < '' @ show_int time_threshold) else None)
             in Inr (map ei_experiment_id
                  (fetch_deleted (qe_recursion_limit env) (bk_search_experiments bk m ws filter_string) None)))"

text \<open>A store without the method, or one that fails, has no old runs.\<close>

definition deleted_runs_older_than :: "'m backend \<Rightarrow> string option \<Rightarrow> 'm \<Rightarrow> int \<Rightarrow> string list" where
  "deleted_runs_older_than bk ws m time_delta =
     (if bk_has_get_deleted_runs bk
      then (case bk_get_deleted_runs bk m ws time_delta of Inl _ \<Rightarrow> [] | Inr ids \<Rightarrow> ids)
      else [])"

definition failures :: "string \<Rightarrow> string \<Rightarrow> string list \<Rightarrow> dict" where
  "failures key id_key ids =
     (if ids = [] then []
      else [(key, JArray (map (\<lambda>i. JObject [(id_key, JString i), (''error'', JNull)]) ids))])"

definition cleanup_response :: "string list \<times> string list \<Rightarrow> string list \<times> string list \<Rightarrow> json" where
  "cleanup_response runs experiments =
     JObject
       ([(''deleted_runs'', JArray (map JString (fst runs))),
         (''deleted_experiments'', JArray (map JString (fst experiments))),
         (''total_deleted_runs'', json_int (int (length (fst runs)))),
         (''total_deleted_experiments'', json_int (int (length (fst experiments))))] @
        failures ''failed_runs'' ''run_id'' (snd runs) @
        failures ''failed_experiments'' ''experiment_id'' (snd experiments))"

definition empty_trash :: "app \<Rightarrow> 'm backend \<Rightarrow> quota_env \<Rightarrow> string option \<Rightarrow> string \<Rightarrow> string option \<Rightarrow>
    string list \<Rightarrow> string list \<Rightarrow> string list \<Rightarrow> 'm trash_handler" where
  "empty_trash ap bk env ws admin_username older_than deleted_run_ids_older_than target_run_ids
     target_experiment_ids =
     act_bind (on_backend (act_fold (cleanup_run bk ws older_than deleted_run_ids_older_than)
       (qe_set_order env (remdups target_run_ids)) ([], []))) (\<lambda>runs.
     act_bind (on_backend (act_fold (cleanup_named_experiment bk ws) target_experiment_ids ([], []))) (\<lambda>experiments.
     act_bind (on_fst (emit_audit_event ap ''trash.cleanup'' (Some admin_username) ''trash'' ''''
       [(''deleted_runs_count'', json_int (int (length (fst runs)))),
        (''deleted_experiments_count'', json_int (int (length (fst experiments)))),
        (''older_than'', optional_text older_than)])) (\<lambda>_.
     act_return (200, cleanup_response runs experiments))))"

definition permanently_delete_all_trashed_entities :: "app \<Rightarrow> 'm backend \<Rightarrow> quota_env \<Rightarrow> string option \<Rightarrow> int \<Rightarrow>
    http_request \<Rightarrow> string option \<Rightarrow> string option \<Rightarrow> string option \<Rightarrow> 'm trash_handler" where
  "permanently_delete_all_trashed_entities ap bk env ws now_millis rq older_than run_ids experiment_ids =
     act_bind (on_fst (check_admin_permission rq)) (\<lambda>admin_username.
     or_500
       (if \<not> bk_has_hard_delete_run bk then act_return (error_response 400)
        else
          let skip_experiments = \<not> bk_has_hard_delete_experiment bk
          in case (case older_than of None \<Rightarrow> Inr 0 | Some s \<Rightarrow> parse_time_delta s) of
               Inl (MlflowException _) \<Rightarrow> act_return (error_response 400)
             | Inl e \<Rightarrow> act_raise e
             | Inr time_delta \<Rightarrow>
                 act_bind (ask (\<lambda>m. Inr (deleted_runs_older_than bk ws m time_delta))) (\<lambda>deleted_run_ids_older_than.
                 let target_run_ids = (case or_text run_ids None of
                       Some ids \<Rightarrow> split_csv (Some ids) | None \<Rightarrow> deleted_run_ids_older_than);
                     time_threshold = now_millis - time_delta
                 in act_bind
                      (if skip_experiments then act_return (Inr [])
                       else ask (\<lambda>m. Inr (target_experiments bk env ws m experiment_ids older_than time_threshold)))
                      (\<lambda>targets.
                    case targets of
                      Inl response \<Rightarrow> act_return response
                    | Inr target_experiment_ids \<Rightarrow>
                        empty_trash ap bk env ws admin_username older_than deleted_run_ids_older_than
                          target_run_ids target_experiment_ids))))"

section \<open>Taking out of the trash\<close>

definition restore_experiment :: "app \<Rightarrow> 'm backend \<Rightarrow> string option \<Rightarrow> http_request \<Rightarrow> string \<Rightarrow> 'm trash_handler" where
  "restore_experiment ap bk ws rq experiment_id =
     act_bind (on_fst (check_admin_permission rq)) (\<lambda>admin_username.
     act_bind (act_except (act_map Some (ask (\<lambda>m. mr_get_experiment (bk_reads bk) m ws experiment_id)))
       (act_return None)) (\<lambda>experiment.
     case experiment of
       None \<Rightarrow> act_return (error_response 404)
     | Some e \<Rightarrow>
         if ei_lifecycle_stage e \<noteq> DELETED then act_return (error_response 400)
         else or_500
           (act_bind (on_backend (bk_restore_experiment bk ws experiment_id)) (\<lambda>_.
            act_bind (ask (\<lambda>m. mr_get_experiment (bk_reads bk) m ws experiment_id)) (\<lambda>restored.
            act_bind (on_fst (emit_audit_event ap ''trash.restore'' (Some admin_username) ''experiment''
              experiment_id [])) (\<lambda>_.
            act_return (200, JObject [(''experiment'', JObject
              [(''experiment_id'', JString (ei_experiment_id restored)), (''name'', JString (ei_name restored)),
               (''lifecycle_stage'', JString (ei_lifecycle_stage restored)),
               (''last_update_time'', json_id (ei_last_update_time restored))])])))))))"

definition restore_run :: "app \<Rightarrow> 'm backend \<Rightarrow> string option \<Rightarrow> http_request \<Rightarrow> string \<Rightarrow> 'm trash_handler" where
  "restore_run ap bk ws rq run_id =
     act_bind (on_fst (check_admin_permission rq)) (\<lambda>admin_username.
     act_bind (act_except (act_map Some (ask (\<lambda>m. bk_get_run bk m ws run_id))) (act_return None)) (\<lambda>run.
     case run of
       None \<Rightarrow> act_return (error_response 404)
     | Some r \<Rightarrow>
         if ri_lifecycle_stage r \<noteq> DELETED then act_return (error_response 400)
         else or_500
           (act_bind (on_backend (bk_restore_run bk ws run_id)) (\<lambda>_.
            act_bind (ask (\<lambda>m. bk_get_run bk m ws run_id)) (\<lambda>restored.
            act_bind (on_fst (emit_audit_event ap ''trash.restore'' (Some admin_username) ''run'' run_id [])) (\<lambda>_.
            act_return (200, JObject [(''run'', JObject
              [(''run_id'', JString (ri_run_id restored)), (''experiment_id'', JString (ri_experiment_id restored)),
               (''run_name'', JString (ri_run_name restored)), (''status'', JString (ri_status restored)),
               (''lifecycle_stage'', JString (ri_lifecycle_stage restored))])])))))))"

end
