(* ===== verification/QuotaProperties.thy ===== *)
theory QuotaProperties
  imports QuotaMeasure ResourceProperties
begin

text \<open>
  What a reconciliation comes to: the measurement agrees with the reference of QuotaMeasure, so
  that the row of a user ends with what the user's resources take and the next upload is refused
  by it; and which permissions it takes away.
\<close>

section \<open>The resources of a user\<close>

definition owned :: "resource_class \<Rightarrow> db \<Rightarrow> string \<Rightarrow> string set" where
  "owned c db n = {i. user_perm_lookup c db (ResourceId i) n = Some (perm_name MANAGE)}"

lemma managed_owned:
  assumes "db_wf db" and "plain_keys db c" and "get_user db n = Inr u"
  shows "\<exists>perms. user_list_permissions_for_user c db n = Inr perms \<and>
    set (managed perms) = owned c db n \<and> distinct (managed perms)"
proof -
  let ?rows = "filter (\<lambda>r. up_user r = u_id u) (db_user_perms db c)"
  have unique: "distinct (map up_unique (db_user_perms db c))" using db_wf_keys(4) [OF assms(1)] by (simp add: table_ok_def)
  have key: "resource_id_of (up_key r) = j \<longleftrightarrow> up_key r = ResourceId j" if "r \<in> set (db_user_perms db c)" for r j
    using assms(2) that by (auto simp: plain_keys_def list_all_iff)
  have m: "managed (map user_perm_entity ?rows) =
      map (\<lambda>r. resource_id_of (up_key r)) (filter (\<lambda>r. up_permission r = perm_name MANAGE) ?rows)"
    by (simp add: managed_def filter_map comp_def user_perm_entity_def)
  have "distinct (managed (map user_perm_entity ?rows))"
    unfolding m using plain_keys_distinct [OF assms(1,2)] by (rule distinct_map_filter)
  moreover have "set (managed (map user_perm_entity ?rows)) = owned c db n"
  proof (rule set_eqI)
    fix i
    have "i \<in> set (managed (map user_perm_entity ?rows)) \<longleftrightarrow>
        (\<exists>r\<in>set (db_user_perms db c). up_key r = ResourceId i \<and> up_user r = u_id u \<and> up_permission r = perm_name MANAGE)"
      unfolding m using key by (auto simp: image_iff)
    also have "\<dots> \<longleftrightarrow> (\<exists>r. user_perm_at c db (ResourceId i) (u_id u) = Some r \<and> up_permission r = perm_name MANAGE)"
      by (auto simp: user_perm_at_def row_at_Some [OF unique] up_unique_def)
    also have "\<dots> \<longleftrightarrow> i \<in> owned c db n"
      by (auto simp: owned_def user_perm_lookup_def assms(3))
    finally show "i \<in> set (managed (map user_perm_entity ?rows)) \<longleftrightarrow> i \<in> owned c db n" .
  qed
  ultimately show ?thesis
    by (intro exI [of _ "map user_perm_entity ?rows"]) (simp add: user_list_permissions_for_user_def assms(3))
qed

definition experiment_bytes :: "'m mlflow_reads \<Rightarrow> quota_env \<Rightarrow> 'm \<Rightarrow> size_cache \<Rightarrow> string \<Rightarrow> int" where
  "experiment_bytes mr env m sizes e =
     (case sizes e of
        Some n \<Rightarrow> n
      | None \<Rightarrow> experiment_usage mr env m (iter_workspace_names mr env m) e)"

definition usage :: "'m mlflow_reads \<Rightarrow> quota_env \<Rightarrow> 'm \<Rightarrow> size_cache \<Rightarrow> db \<Rightarrow> string \<Rightarrow> int" where
  "usage mr env m sizes db n =
     (\<Sum>e\<in>owned Experiment db n. experiment_bytes mr env m sizes e) +
     (\<Sum>x\<in>owned RegisteredModel db n. model_usage mr env m (iter_workspace_names mr env m) x)"

text \<open>The experiments that no workspace answers for, and the database without their permissions.\<close>

definition missing :: "'m mlflow_reads \<Rightarrow> quota_env \<Rightarrow> 'm \<Rightarrow> size_cache \<Rightarrow> db \<Rightarrow> string \<Rightarrow> string set" where
  "missing mr env m sizes db n =
     {e \<in> owned Experiment db n. sizes e = None \<and>
        first_answer (ask_experiment mr env m e) (iter_workspace_names mr env m) = None}"

definition forget :: "string set \<Rightarrow> db \<Rightarrow> db" where
  "forget E db =
     db\<lparr>db_user_perms := (db_user_perms db)
          (Experiment := delete_rows (\<lambda>r. resource_id_of (up_key r) \<in> E) (db_user_perms db Experiment)),
        db_group_perms := (db_group_perms db)
          (Experiment := delete_rows (\<lambda>r. resource_id_of (gp_key r) \<in> E) (db_group_perms db Experiment))\<rparr>"

lemma forget_empty: "forget {} db = db"
  by (simp add: forget_def delete_rows_def)

lemma forget_insert: "forget (insert e E) db = forget E (group_wipe Experiment (user_wipe Experiment db e) e)"
proof -
  have d: "delete_rows (\<lambda>r. f r = e \<or> f r \<in> E) xs = delete_rows (\<lambda>r. f r \<in> E) (delete_rows (\<lambda>r. f r = e) xs)"
    for f :: "'r \<Rightarrow> string" and xs
    by (simp add: delete_rows_def conj_commute)
  show ?thesis by (simp add: forget_def group_wipe_def user_wipe_def d)
qed

lemma forget_wf:
  assumes "finite E" and "db_wf db"
  shows "db_wf (forget E db)"
  using assms
proof (induction E arbitrary: db)
  case empty
  then show ?case by (simp add: forget_empty)
next
  case (insert e E)
  then show ?case by (simp add: forget_insert user_wipe_wf group_wipe_wf)
qed

lemma forget_lookup:
  "user_perm_lookup c (forget E db) (ResourceId i) n =
     (if c = Experiment \<and> i \<in> E then None else user_perm_lookup c db (ResourceId i) n)"
proof -
  have "row_at up_unique (ResourceId i, j) (delete_rows (\<lambda>r. resource_id_of (up_key r) \<in> E) rows) =
      (if i \<in> E then None else row_at up_unique (ResourceId i, j) rows)" for j rows
    by (induction rows) (auto simp: row_at_def delete_rows_def up_unique_def)
  moreover have "get_user (forget E db) n = get_user db n" by (simp add: get_user_def forget_def)
  ultimately show ?thesis
    by (auto simp: user_perm_lookup_def user_perm_at_def forget_def split: sum.split)
qed

section \<open>The measurement\<close>

lemma cached_sizes_spec:
  assumes "distinct (pr_experiments p)"
  shows "pr_total (cached_sizes sizes ids p) =
      pr_total p + sum_list (map (\<lambda>e. case sizes e of Some n \<Rightarrow> n | None \<Rightarrow> 0) ids)"
    and "pr_models (cached_sizes sizes ids p) = pr_models p"
    and "set (pr_experiments (cached_sizes sizes ids p)) = set (pr_experiments p) \<union> {e \<in> set ids. sizes e = None}"
    and "distinct (pr_experiments (cached_sizes sizes ids p))"
  using assms by (induction ids arbitrary: p) (auto simp: local_get_def split: option.splits)

lemma wipe_missing_run:
  "wipe_missing env e (db, caches, sizes, m) =
     (Inr (), (group_wipe Experiment (user_wipe Experiment db e) e, caches, local_delete sizes e, m))"
proof -
  have "method_name (UserPermOp (WipeExperiment e)) \<notin> set PERMISSION_CUD_METHODS"
    by (simp add: PERMISSION_CUD_METHODS_def)
  then show ?thesis
    by (simp add: wipe_missing_def act_except_def act_bind_def world_store_def store_call_def on_db_def
        wipe_experiment_permissions_def call_total_def act_commit_def)
qed

lemma wipe_fold:
  "\<exists>sizes'. act_fold (\<lambda>e _. wipe_missing env e) es () (db, caches, sizes, m) =
     (Inr (), (forget (set es) db, caches, sizes', m))"
proof (induction es arbitrary: db sizes)
  case Nil
  show ?case by (simp add: act_return_def forget_empty)
next
  case (Cons e es)
  show ?case
    by (simp only: act_fold_Cons wipe_missing_run prod.case sum.case list.set forget_insert) (rule Cons.IH)
qed

lemma calculate_measured:
  assumes "db_wf db" and "plain_keys db Experiment" and "plain_keys db RegisteredModel"
    and "get_user db n = Inr u" and "mlflow_answers mr m" and "enumerates env"
  shows "\<exists>szs sizes'. measured db n (usage mr env m sizes db n) szs (calculate_used_bytes mr env)
    (caches, sizes, m) (forget (missing mr env m sizes db n) db) (caches, sizes', m)"
proof -
  from managed_owned [OF assms(1,2,4)] obtain eps where
    eps: "user_list_permissions_for_user Experiment db n = Inr eps"
    and E: "set (managed eps) = owned Experiment db n" "distinct (managed eps)" by blast
  from managed_owned [OF assms(1,3,4)] obtain mps where
    mps: "user_list_permissions_for_user RegisteredModel db n = Inr mps"
    and M: "set (managed mps) = owned RegisteredModel db n" by blast
  let ?D = "missing mr env m sizes db n" and ?names = "iter_workspace_names mr env m"
  have "?D \<subseteq> set (managed eps)" unfolding E(1) missing_def by blast
  then have fin: "finite ?D" by (rule finite_subset) simp
  have frame: "measured db n used szs calc c (forget ?D db) c'"
    if "calc n (db, c) = (Inr (used, szs), (forget ?D db, c'))" for used szs calc c c'
    using that forget_wf [OF fin assms(1)] by (simp add: measured_def forget_def)
  have calc: "calculate_used_bytes mr env n (db, caches, sizes, m) =
     (if managed eps = [] \<and> managed mps = [] then (Inr (0, []), (db, caches, sizes, m))
      else act_bind (measure_workspaces mr env ?names
             (cached_sizes sizes (managed eps)
                \<lparr>pr_total = 0, pr_sizes = [], pr_experiments = [], pr_models = remdups (managed mps)\<rparr>)) (\<lambda>p.
           act_bind (act_fold (\<lambda>e _. wipe_missing env e) (qe_set_order env (pr_experiments p)) ()) (\<lambda>_.
           act_return (pr_total p, pr_sizes p))) (db, caches, sizes, m))"
    by (simp add: calculate_used_bytes_def act_bind_def on_fst_def act_read_def eps mps Let_def act_return_def)
  show ?thesis
  proof (cases "managed eps = [] \<and> managed mps = []")
    case True
    then have "owned Experiment db n = {}" "owned RegisteredModel db n = {}" using E(1) M by auto
    then have "usage mr env m sizes db n = 0" "?D = {}" by (simp_all add: usage_def missing_def)
    with calc True show ?thesis by (intro exI frame) (simp add: forget_empty)
  next
    case False
    let ?start = "\<lparr>pr_total = 0, pr_sizes = [], pr_experiments = [], pr_models = remdups (managed mps)\<rparr>"
    let ?p = "cached_sizes sizes (managed eps) ?start"
    note p = cached_sizes_spec [of ?start sizes "managed eps", simplified]
    from measure_workspaces_total [OF assms(5,6), of ?p ?names db caches sizes] p(2,4) obtain p' s' where
      run: "measure_workspaces mr env ?names ?p (db, caches, sizes, m) = (Inr p', (db, caches, s', m))"
      and total: "pr_total p' = pr_total ?p + (\<Sum>e\<in>set (pr_experiments ?p). experiment_usage mr env m ?names e) +
        (\<Sum>x\<in>set (pr_models ?p). model_usage mr env m ?names x)"
      and rest: "set (pr_experiments p') = {e \<in> set (pr_experiments ?p). first_answer (ask_experiment mr env m e) ?names = None}"
      by auto
    have D: "set (qe_set_order env (pr_experiments p')) = ?D"
      using rest enumerates_order(1) [OF assms(6)] by (auto simp: p(3) E(1) missing_def)
    from wipe_fold [of env "qe_set_order env (pr_experiments p')" db caches s' m] obtain s2 where
      w: "act_fold (\<lambda>e _. wipe_missing env e) (qe_set_order env (pr_experiments p')) () (db, caches, s', m) =
        (Inr (), (forget ?D db, caches, s2, m))" unfolding D by blast
    have "pr_total ?p + (\<Sum>e\<in>set (pr_experiments ?p). experiment_usage mr env m ?names e) =
        (\<Sum>e\<in>set (managed eps). experiment_bytes mr env m sizes e)"
    proof -
      have "(\<Sum>e\<in>set (pr_experiments ?p). experiment_usage mr env m ?names e) =
          (\<Sum>e\<in>set (managed eps). if sizes e = None then experiment_usage mr env m ?names e else 0)"
        unfolding p(3) by (rule sum.inter_filter) simp
      moreover have "pr_total ?p = (\<Sum>e\<in>set (managed eps). case sizes e of Some n \<Rightarrow> n | None \<Rightarrow> 0)"
        unfolding p(1) using E(2) by (simp add: sum_list_distinct_conv_sum_set)
      ultimately show ?thesis
        by (simp add: sum.distrib [symmetric]) (rule sum.cong; simp add: experiment_bytes_def split: option.split)
    qed
    with total have "pr_total p' = usage mr env m sizes db n"
      by (simp add: usage_def p(2) E(1) M)
    with calc False run w show ?thesis
      by (intro exI frame) (simp add: act_bind_def act_return_def)
  qed
qed

section \<open>Reconciliation\<close>

lemma forget_quota_of: "quota_of (forget E db) = quota_of db"
proof -
  have "get_user (forget E db) = get_user db" by (simp add: get_user_def [abs_def] forget_def)
  moreover have "db_quotas (forget E db) = db_quotas db" by (simp add: forget_def)
  ultimately show ?thesis unfolding quota_of_def [abs_def] by (simp only:)
qed

lemma perm_lookup_frame:
  assumes "db_users db' = db_users db" and "db_user_perms db' = db_user_perms db"
  shows "user_perm_lookup c db' k v = user_perm_lookup c db k v"
  unfolding user_perm_lookup_def user_perm_at_def get_user_def by (simp only: assms)

text \<open>What a reconciliation does to the row of the user and how it ends, by the row before.\<close>

definition settled :: "quota_config \<Rightarrow> user_quota option \<Rightarrow> int \<Rightarrow> int \<Rightarrow> user_quota \<Rightarrow> 'a result \<Rightarrow> bool" where
  "settled config old_row limit used new_row r \<longleftrightarrow>
     q_used_bytes new_row = used \<and>
     (case old_row of
        None \<Rightarrow> \<not> q_hard_blocked new_row \<and> q_quota_bytes new_row = None \<and> (\<exists>x. r = Inr x)
      | Some q \<Rightarrow> q_quota_bytes new_row = q_quota_bytes q \<and>
          (if limit = 0 then q_hard_blocked new_row = q_hard_blocked q \<and> r = Inl ZeroDivisionError
           else (q_hard_blocked new_row \<longleftrightarrow> limit \<le> used) \<and>
             (if reminder_raises config q limit used then r = Inl OtherError else \<exists>x. r = Inr x)))"

lemma reconcile_measured:
  assumes "db_wf db" and "plain_keys db Experiment" and "plain_keys db RegisteredModel"
    and "get_user db n = Inr u" and "effective_quota_bytes config (quota_of db n) = Some limit"
    and "mlflow_answers mr m" and "enumerates env"
  shows "\<exists>r db' sizes' q'.
    reconcile_user_quota config (calculate_used_bytes mr env) send_hard send_soft now n (db, caches, sizes, m) =
      (r, (db', caches, sizes', m)) \<and>
    at_row (forget (missing mr env m sizes db n) db) n q' db' \<and>
    settled config (quota_of db n) limit (usage mr env m sizes db n) q' r"
proof -
  let ?used = "usage mr env m sizes db n"
  from calculate_measured [OF assms(1-4,6,7), of sizes caches] obtain szs sizes' where
    c: "measured db n ?used szs (calculate_used_bytes mr env)
      (caches, sizes, m) (forget (missing mr env m sizes db n) db) (caches, sizes', m)" by blast
  show ?thesis
  proof (cases "quota_of db n")
    case None
    with reconcile_user_quota_first [OF assms(1) None assms(4) c, of config send_hard send_soft now]
    show ?thesis by (fastforce simp: settled_def new_quota_def)
  next
    case (Some q)
    show ?thesis
    proof (cases "limit = 0")
      case True
      with Some reconcile_user_quota_zero [OF assms(1) Some _ c, of config send_hard send_soft now] assms(5)
      show ?thesis by (fastforce simp: settled_def)
    next
      case False
      from reconcile_user_quota_limited [OF assms(1) Some assms(4) _ False c, of config send_hard send_soft now]
        assms(5) Some obtain db' q' where
        run: "reconcile_user_quota config (calculate_used_bytes mr env) send_hard send_soft now n (db, caches, sizes, m) =
          (if reminder_raises config q limit ?used then Inl OtherError else Inr szs, (db', caches, sizes', m))"
        and row: "at_row (forget (missing mr env m sizes db n) db) n q' db'"
        and q': "\<exists>hs ss. q' = reconciled_row config hs ss now ?used limit q"
        by auto
      from q' Some False have "settled config (quota_of db n) limit ?used q'
          (if reminder_raises config q limit ?used then Inl OtherError else Inr szs)"
        by (auto simp: settled_def reconciled_row_def)
      with run row show ?thesis by blast
    qed
  qed
qed

text \<open>C15: After a reconciliation of a user under a limit, the row of the user holds what the user's
  experiments and models take: each counted in the first workspace that answers for it, by its cached
  size or by its artifacts, in whatever order the sets are enumerated; and the next upload is refused
  exactly when that reaches the limit. The row is marked as blocked exactly then too if it was there
  before and the limit is not zero: a row made for a user without one is not blocked, and with a limit of
  zero the mark stays and the reconciliation raises ZeroDivisionError. It also raises when a blocked user
  was reminded before and the database gives times back without their zone; otherwise it returns. No
  other user's row changes.\<close>

theorem usage_is_enforced:
  assumes "db_wf db" and "plain_keys db Experiment" and "plain_keys db RegisteredModel"
    and "get_user db n = Inr u" and "effective_quota_bytes config (quota_of db n) = Some limit"
    and "mlflow_answers mr m" and "enumerates env"
  shows "\<exists>r db' sizes' q'.
    reconcile_user_quota config (calculate_used_bytes mr env) send_hard send_soft now n (db, caches, sizes, m) =
      (r, (db', caches, sizes', m)) \<and>
    quota_of db' = (quota_of db)(n := Some q') \<and>
    settled config (quota_of db n) limit (usage mr env m sizes db n) q' r \<and>
    (enforce_quota config db' n = Inl (MlflowException RESOURCE_LIMIT_EXCEEDED) \<longleftrightarrow>
       limit \<le> usage mr env m sizes db n)"
proof -
  from reconcile_measured [OF assms, of send_hard send_soft now caches sizes] obtain r db' sizes' q' where
    run: "reconcile_user_quota config (calculate_used_bytes mr env) send_hard send_soft now n (db, caches, sizes, m) =
      (r, (db', caches, sizes', m))"
    and row: "at_row (forget (missing mr env m sizes db n) db) n q' db'"
    and settled: "settled config (quota_of db n) limit (usage mr env m sizes db n) q' r" by blast
  note forget_quota_of [of "missing mr env m sizes db n" db]
  with row have rows: "quota_of db' = (quota_of db)(n := Some q')" and wf: "db_wf db'" by (simp_all add: at_row_def)
  have "effective_quota_bytes config (Some q') = Some limit" and "q_used_bytes q' = usage mr env m sizes db n"
    using settled assms(5) by (auto simp: settled_def effective_quota_bytes_def split: option.splits)
  then have "enforce_quota config db' n = Inl (MlflowException RESOURCE_LIMIT_EXCEEDED) \<longleftrightarrow>
      limit \<le> usage mr env m sizes db n"
    by (simp add: enforce_quota_iff(1) [OF wf] rows)
  with run rows settled show ?thesis by blast
qed

text \<open>C17: A reconciliation takes permissions away only for the user's own experiments whose size is not
  cached and that no workspace answers for, and none when the user has a row and no limit: of the table
  of user permissions and of the one of group permissions it removes exactly the rows on these
  experiments, and apart from the user's quota nothing else in the database changes.\<close>

theorem reconciliation_forgets_only_missing:
  assumes "db_wf db" and "plain_keys db Experiment" and "plain_keys db RegisteredModel"
    and "get_user db n = Inr u" and "mlflow_answers mr m" and "enumerates env"
    and "gone = (if quota_of db n \<noteq> None \<and> effective_quota_bytes config (quota_of db n) = None then {}
      else missing mr env m sizes db n)"
  shows "\<exists>r db' sizes' q'.
    reconcile_user_quota config (calculate_used_bytes mr env) send_hard send_soft now n (db, caches, sizes, m) =
      (r, (db', caches, sizes', m)) \<and> db_wf db' \<and>
    quota_of db' = (quota_of db)(n := Some q') \<and>
    db' = db\<lparr>db_user_perms := (db_user_perms db)
          (Experiment := filter (\<lambda>r. resource_id_of (up_key r) \<notin> gone) (db_user_perms db Experiment)),
        db_group_perms := (db_group_perms db)
          (Experiment := filter (\<lambda>r. resource_id_of (gp_key r) \<notin> gone) (db_group_perms db Experiment)),
        db_quotas := db_quotas db'\<rparr>"
proof -
  obtain r db' sizes' q' where
    run: "reconcile_user_quota config (calculate_used_bytes mr env) send_hard send_soft now n (db, caches, sizes, m) =
      (r, (db', caches, sizes', m))"
    and row: "at_row (forget gone db) n q' db'"
  proof (cases "effective_quota_bytes config (quota_of db n)")
    case (Some limit)
    with reconcile_measured [OF assms(1-4) Some assms(5,6), of send_hard send_soft now caches sizes] assms(7) that
    show thesis by auto
  next
    case none: None
    show thesis
    proof (cases "quota_of db n")
      case None
      from calculate_measured [OF assms(1-6), of sizes caches] obtain szs sizes' where
        "measured db n (usage mr env m sizes db n) szs (calculate_used_bytes mr env)
          (caches, sizes, m) (forget (missing mr env m sizes db n) db) (caches, sizes', m)" by blast
      from reconcile_user_quota_first [OF assms(1) None assms(4) this, of config send_hard send_soft now] None assms(7) that
      show thesis by auto
    next
      case (Some q)
      with none reconcile_user_quota_unlimited [OF assms(1) Some, of config "calculate_used_bytes mr env"
          send_hard send_soft now "(caches, sizes, m)"] assms(7) that
      show thesis by (auto simp: forget_empty)
    qed
  qed
  from row have wf: "db_wf db'" and db': "db' = (forget gone db)\<lparr>db_quotas := db_quotas db'\<rparr>"
    and q: "quota_of db' = (quota_of (forget gone db))(n := Some q')"
    by (simp_all add: at_row_def)
  from db' have "db' = db\<lparr>db_user_perms := (db_user_perms db)
          (Experiment := filter (\<lambda>r. resource_id_of (up_key r) \<notin> gone) (db_user_perms db Experiment)),
        db_group_perms := (db_group_perms db)
          (Experiment := filter (\<lambda>r. resource_id_of (gp_key r) \<notin> gone) (db_group_perms db Experiment)),
        db_quotas := db_quotas db'\<rparr>"
    by (simp add: forget_def delete_rows_def)
  with run wf q show ?thesis unfolding forget_quota_of by blast
qed

section \<open>Examples\<close>

text \<open>
  Alice manages two experiments and a model. The experiment 10 is in the second workspace, 12
  nowhere, and the list of workspaces may fail.
\<close>

definition storage_db :: db where
  "storage_db = example_db\<lparr>db_user_perms := (\<lambda>_. [])
     (Experiment :=
        [\<lparr>up_id = 1, up_key = ResourceId ''10'', up_user = 1, up_permission = ''MANAGE''\<rparr>,
         \<lparr>up_id = 2, up_key = ResourceId ''12'', up_user = 1, up_permission = ''MANAGE''\<rparr>,
         \<lparr>up_id = 3, up_key = ResourceId ''10'', up_user = 2, up_permission = ''EDIT''\<rparr>],
      RegisteredModel :=
        [\<lparr>up_id = 1, up_key = ResourceId ''m'', up_user = 1, up_permission = ''MANAGE''\<rparr>])\<rparr>"

definition storage_reads :: "bool \<Rightarrow> unit mlflow_reads" where
  "storage_reads listed =
     \<lparr>mr_list_workspaces = (\<lambda>_. if listed then Inr [''a'', ''b''] else Inl OtherError),
      mr_get_experiment = (\<lambda>_ ws e.
        if ws = Some ''b'' \<and> e = ''10''
        then Inr \<lparr>ei_experiment_id = ''10'', ei_name = ''exp'', ei_lifecycle_stage = ''active'',
               ei_artifact_location = ''s3'', ei_creation_time = None, ei_last_update_time = None, ei_tags = []\<rparr>
        else Inl (MlflowException RESOURCE_DOES_NOT_EXIST)),
      mr_search_model_versions = (\<lambda>_ ws f. Inr (if f = name_filter ''m'' then [''s3''] else [])),
      mr_list_artifacts = (\<lambda>_ ws uri path. Inr
        (case path of
           None \<Rightarrow> [\<lparr>art_path = ''f'', art_is_dir = False, art_file_size = Some 60\<rparr>,
                    \<lparr>art_path = ''d'', art_is_dir = True, art_file_size = None\<rparr>]
         | Some _ \<Rightarrow> [\<lparr>art_path = ''d/g'', art_is_dir = False, art_file_size = Some 5\<rparr>]))\<rparr>"

definition storage_quota :: user_quota where
  "storage_quota = \<lparr>q_id = 1, q_user = 1, q_quota_bytes = Some 100, q_used_bytes = 40, q_soft_cap_fraction = None,
      q_last_reconciled_at = None, q_soft_notified_at = None, q_hard_blocked = False, q_email = None\<rparr>"

definition storage_env :: quota_env where
  "storage_env = \<lparr>qe_workspaces = True, qe_recursion_limit = 3, qe_set_order = rev, qe_store = example_env\<rparr>"

definition storage_config :: quota_config where
  "storage_config = \<lparr>QUOTA_DEFAULT_BYTES = None, QUOTA_SOFT_CAP_FRACTION = 9 / 10, naive_times = True\<rparr>"

lemma storage_facts:
  "db_wf storage_db" "plain_keys storage_db Experiment" "plain_keys storage_db RegisteredModel"
  "get_user storage_db ''alice'' = Inr (db_users example_db ! 0)"
  "quota_of storage_db ''alice'' = Some storage_quota"
  "mlflow_answers (storage_reads listed) ()" "enumerates storage_env"
proof -
  show "db_wf storage_db"
    by (simp add: storage_db_def db_wf_def db_keys_ok_def db_refs_ok_def table_ok_def all_resource_class
        user_ids_def group_ids_def unique_defs) (simp add: example_db_def unique_defs)
  show "plain_keys storage_db Experiment" "plain_keys storage_db RegisteredModel"
    by (simp_all add: storage_db_def plain_keys_def)
  show u: "get_user storage_db ''alice'' = Inr (db_users example_db ! 0)"
    by (simp add: storage_db_def get_user_def)
  show "quota_of storage_db ''alice'' = Some storage_quota"
    by (simp add: quota_of_def u) (simp add: storage_db_def example_db_def row_at_def storage_quota_def)
  show "mlflow_answers (storage_reads listed) ()"
    by (simp add: mlflow_answers_def storage_reads_def)
  show "enumerates storage_env" by (simp add: enumerates_def storage_env_def)
qed

lemma storage_owned:
  "owned Experiment storage_db ''alice'' = {''10'', ''12''}" "owned RegisteredModel storage_db ''alice'' = {''m''}"
  by (auto simp: owned_def user_perm_lookup_def storage_facts(4) user_perm_at_def storage_db_def row_at_def
      up_unique_def MANAGE_def split: if_splits)

lemma storage_names:
  "iter_workspace_names (storage_reads listed) storage_env () = (if listed then [Some ''a'', Some ''b''] else [None])"
  by (simp add: iter_workspace_names_def storage_env_def storage_reads_def)

lemma storage_answers:
  "ask_experiment (storage_reads listed) storage_env () e w =
     (if w = Some ''b'' \<and> e = ''10''
      then Inr \<lparr>ei_experiment_id = ''10'', ei_name = ''exp'', ei_lifecycle_stage = ''active'',
             ei_artifact_location = ''s3'', ei_creation_time = None, ei_last_update_time = None, ei_tags = []\<rparr>
      else Inl (MlflowException RESOURCE_DOES_NOT_EXIST))"
  "ask_model (storage_reads listed) storage_env () ''m'' w = Inr [''s3'']"
  by (simp_all add: ask_experiment_def ask_model_def workspace_context_def storage_env_def storage_reads_def)

lemma storage_usage: "usage (storage_reads True) storage_env () (\<lambda>_. None) storage_db ''alice'' = 130"
proof -
  have a: "artifact_bytes (storage_reads True) storage_env () ws ''s3'' = 65" for ws
    by (simp add: artifact_bytes_def storage_env_def storage_reads_def numeral_3_eq_3)
  show ?thesis
    by (simp add: usage_def storage_owned experiment_bytes_def storage_names experiment_usage_Cons model_usage_Cons
        usage_Nil answered_def storage_answers bytes_at_def a DELETED_def)
qed

lemma storage_missing:
  "missing (storage_reads listed) storage_env () (\<lambda>_. None) storage_db ''alice'' =
     (if listed then {''12''} else {''10'', ''12''})"
  by (auto simp: missing_def storage_owned storage_names first_answer_Cons answered_def storage_answers)

lemma storage_limit:
  "effective_quota_bytes storage_config (Some storage_quota) = Some 100" "(100 :: int) \<noteq> 0"
  by (simp_all add: effective_quota_bytes_def storage_quota_def)

theorem usage_is_enforced_witness:
  "\<exists>szs db' sizes' q'.
    reconcile_user_quota storage_config (calculate_used_bytes (storage_reads True) storage_env)
      (\<lambda>_ _ _ _ _. True) (\<lambda>_ _ _ _ _. True) 7 ''alice'' (storage_db, empty_caches, (\<lambda>_. None), ()) =
      (Inr szs, (db', empty_caches, sizes', ())) \<and>
    quota_of db' = (quota_of storage_db)(''alice'' := Some q') \<and> q_used_bytes q' = 130 \<and> q_hard_blocked q' \<and>
    enforce_quota storage_config db' ''alice'' = Inl (MlflowException RESOURCE_LIMIT_EXCEEDED)"
proof -
  note f = storage_facts
  have limit: "effective_quota_bytes storage_config (quota_of storage_db ''alice'') = Some 100"
    using storage_limit f(5) by simp
  have "\<not> reminder_raises storage_config storage_quota 100 130"
    by (simp add: reminder_raises_def storage_quota_def)
  with usage_is_enforced [OF f(1-4) limit f(6) [of True] f(7), of "\<lambda>_ _ _ _ _. True" "\<lambda>_ _ _ _ _. True" 7 empty_caches "\<lambda>_. None"]
  show ?thesis by (fastforce simp: storage_usage settled_def f(5))
qed

text \<open>A user without a row under a limit for all is not marked, and one who was reminded before makes
  the reconciliation raise where times come back without their zone; uploads are refused in both cases.\<close>

theorem first_reconciliation_does_not_block:
  assumes "db_wf db" and "plain_keys db Experiment" and "plain_keys db RegisteredModel"
    and "get_user db n = Inr u" and "quota_of db n = None" and "QUOTA_DEFAULT_BYTES config = Some limit"
    and "mlflow_answers mr m" and "enumerates env"
  shows "\<exists>r db' sizes' q'.
    reconcile_user_quota config (calculate_used_bytes mr env) send_hard send_soft now n (db, caches, sizes, m) =
      (Inr r, (db', caches, sizes', m)) \<and> quota_of db' n = Some q' \<and> \<not> q_hard_blocked q'"
proof -
  have "effective_quota_bytes config (quota_of db n) = Some limit" using assms(5,6) by (simp add: effective_quota_bytes_def)
  from reconcile_measured [OF assms(1-4) this assms(7,8), of send_hard send_soft now caches sizes]
  show ?thesis using assms(5) by (fastforce simp: settled_def at_row_def)
qed

theorem reconciliation_forgets_only_missing_witness:
  "\<exists>r db' sizes'.
    reconcile_user_quota storage_config (calculate_used_bytes (storage_reads True) storage_env)
      (\<lambda>_ _ _ _ _. True) (\<lambda>_ _ _ _ _. True) 7 ''alice'' (storage_db, empty_caches, (\<lambda>_. None), ()) =
      (r, (db', empty_caches, sizes', ())) \<and>
    map up_id (db_user_perms db' Experiment) = [1, 3] \<and> db_user_perms db' RegisteredModel = db_user_perms storage_db RegisteredModel \<and>
    db_regex_perms db' = db_regex_perms storage_db"
proof -
  note f = storage_facts
  let ?gone = "if quota_of storage_db ''alice'' \<noteq> None \<and>
      effective_quota_bytes storage_config (quota_of storage_db ''alice'') = None then {}
      else missing (storage_reads True) storage_env () (\<lambda>_. None) storage_db ''alice''"
  have gone: "?gone = {''12''}" using storage_limit f(5) by (simp add: storage_missing)
  from reconciliation_forgets_only_missing [OF f(1-4) f(6) [of True] f(7), where config = storage_config, OF refl,
      of "\<lambda>_ _ _ _ _. True" "\<lambda>_ _ _ _ _. True" 7 empty_caches "\<lambda>_. None"]
  obtain r db' sizes' where run: "reconcile_user_quota storage_config
      (calculate_used_bytes (storage_reads True) storage_env)
      (\<lambda>_ _ _ _ _. True) (\<lambda>_ _ _ _ _. True) 7 ''alice'' (storage_db, empty_caches, (\<lambda>_. None), ()) =
      (r, (db', empty_caches, sizes', ()))"
    and p: "db' = storage_db\<lparr>db_user_perms := (db_user_perms storage_db)
          (Experiment := filter (\<lambda>r. resource_id_of (up_key r) \<notin> ?gone) (db_user_perms storage_db Experiment)),
        db_group_perms := (db_group_perms storage_db)
          (Experiment := filter (\<lambda>r. resource_id_of (gp_key r) \<notin> ?gone) (db_group_perms storage_db Experiment)),
        db_quotas := db_quotas db'\<rparr>"
    by blast
  have "map up_id (db_user_perms db' Experiment) = [1, 3] \<and>
      db_user_perms db' RegisteredModel = db_user_perms storage_db RegisteredModel \<and> db_regex_perms db' = db_regex_perms storage_db"
    by (subst (1 2 3) p) (unfold gone, simp add: storage_db_def)
  with run show ?thesis by (intro exI [of _ r] exI [of _ db'] exI [of _ sizes']) (rule conjI)
qed

text \<open>
  When MLflow fails to list its workspaces once, the experiments of all workspaces count as
  missing: the measurement takes away every permission on an experiment that is there.
\<close>

theorem unlisted_workspaces_lose_permissions:
  "\<exists>szs sizes'. measured storage_db ''alice'' 65 szs (calculate_used_bytes (storage_reads False) storage_env)
      (empty_caches, (\<lambda>_. None), ()) (forget {''10'', ''12''} storage_db) (empty_caches, sizes', ())"
  "mr_get_experiment (storage_reads False) () (Some ''b'') ''10'' = mr_get_experiment (storage_reads True) () (Some ''b'') ''10''"
  "user_perm_lookup Experiment storage_db (ResourceId ''10'') ''bob'' = Some ''EDIT''"
  "user_perm_lookup Experiment (forget {''10'', ''12''} storage_db) (ResourceId ''10'') ''bob'' = None"
proof -
  have a: "artifact_bytes (storage_reads False) storage_env () ws ''s3'' = 65" for ws
    by (simp add: artifact_bytes_def storage_env_def storage_reads_def numeral_3_eq_3)
  have "usage (storage_reads False) storage_env () (\<lambda>_. None) storage_db ''alice'' = 65"
    by (simp add: usage_def storage_owned experiment_bytes_def storage_names experiment_usage_Cons model_usage_Cons
        usage_Nil answered_def storage_answers a)
  with calculate_measured [OF storage_facts(1-4) storage_facts(6) [of False] storage_facts(7), of "\<lambda>_. None" empty_caches]
  show "\<exists>szs sizes'. measured storage_db ''alice'' 65 szs (calculate_used_bytes (storage_reads False) storage_env)
      (empty_caches, (\<lambda>_. None), ()) (forget {''10'', ''12''} storage_db) (empty_caches, sizes', ())"
    by (simp add: storage_missing)
  show "mr_get_experiment (storage_reads False) () (Some ''b'') ''10'' =
      mr_get_experiment (storage_reads True) () (Some ''b'') ''10''"
    by (simp add: storage_reads_def)
  show "user_perm_lookup Experiment storage_db (ResourceId ''10'') ''bob'' = Some ''EDIT''"
    by (simp add: user_perm_lookup_def get_user_def user_perm_at_def storage_db_def row_at_def up_unique_def)
  show "user_perm_lookup Experiment (forget {''10'', ''12''} storage_db) (ResourceId ''10'') ''bob'' = None"
    by (simp add: forget_lookup)
qed

end
