(* ===== verification/TrashProperties.thy ===== *)
theory TrashProperties
  imports TrashRouter QuotaProperties
begin

text \<open>
  What is deleted for good: by the route that empties the trash only what an administrator asked
  for and what is in the trash, by the scheduled clean-up only experiments whose retention is over.
\<close>

section \<open>Deletions\<close>

text \<open>
  The states of MLflow that deletions lead to from \<open>m\<close>. A run is deleted while it is in the trash;
  an experiment for a reason found in a state on the way.
\<close>

inductive emptied :: "'m backend \<Rightarrow> (string option \<Rightarrow> string \<Rightarrow> bool) \<Rightarrow> ('m \<Rightarrow> string option \<Rightarrow> string \<Rightarrow> bool) \<Rightarrow>
    'm \<Rightarrow> 'm \<Rightarrow> bool" for bk run_ok experiment_ok m where
  no_deletion: "emptied bk run_ok experiment_ok m m"
| run_deletion: "emptied bk run_ok experiment_ok m m1 \<Longrightarrow> run_ok ws run_id \<Longrightarrow> bk_get_run bk m1 ws run_id = Inr info \<Longrightarrow>
    ri_lifecycle_stage info = DELETED \<Longrightarrow>
    emptied bk run_ok experiment_ok m (snd (hard_delete_run bk ws run_id (ri_artifact_uri info) m1))"
| experiment_deletion: "emptied bk run_ok experiment_ok m m1 \<Longrightarrow> emptied bk run_ok experiment_ok m mq \<Longrightarrow>
    experiment_ok mq ws experiment_id \<Longrightarrow>
    emptied bk run_ok experiment_ok m (snd (hard_delete_experiment_with_runs bk ws experiment_id m1))"

text \<open>A fold whose steps lead on and never raise.\<close>

lemma act_fold_steps:
  assumes "\<And>x p s. x \<in> set xs \<Longrightarrow> Q s \<Longrightarrow> Q (snd (f x p s)) \<and> (\<exists>p'. fst (f x p s) = Inr p')" and "Q s"
  shows "Q (snd (act_fold f xs p s)) \<and> (\<exists>p'. fst (act_fold f xs p s) = Inr p')"
  using assms
proof (induction xs arbitrary: p s)
  case Nil
  then show ?case by (simp add: act_return_def)
next
  case (Cons x xs)
  from Cons.prems(1) [of x s p] Cons.prems(2) obtain p' s' where "f x p s = (Inr p', s')" "Q s'"
    by (metis list.set_intros(1) prod.collapse)
  with Cons.IH [of s' p'] Cons.prems(1) show ?case by (simp add: act_fold_Cons del: act_fold.simps)
qed

section \<open>The route\<close>

definition old_runs :: "'m backend \<Rightarrow> string option \<Rightarrow> 'm \<Rightarrow> string option \<Rightarrow> string list" where
  "old_runs bk ws m older_than =
     (case older_than_delta older_than of Inl _ \<Rightarrow> [] | Inr delta \<Rightarrow> deleted_runs_older_than bk ws m delta)"

text \<open>What a request may delete, by the state before it.\<close>

definition may_delete_run :: "'m backend \<Rightarrow> string option \<Rightarrow> 'm \<Rightarrow> string option \<Rightarrow> string option \<Rightarrow>
    string option \<Rightarrow> string \<Rightarrow> bool" where
  "may_delete_run bk ws m older_than run_ids ws' run_id \<longleftrightarrow>
     ws' = ws \<and>
     (case or_text run_ids None of
        Some ids \<Rightarrow> run_id \<in> set (split_csv (Some ids)) \<and>
          (or_text older_than None \<noteq> None \<longrightarrow> run_id \<in> set (old_runs bk ws m older_than))
      | None \<Rightarrow> run_id \<in> set (old_runs bk ws m older_than))"

definition may_delete_experiment :: "'m backend \<Rightarrow> quota_env \<Rightarrow> string option \<Rightarrow> 'm \<Rightarrow> int \<Rightarrow> string option \<Rightarrow>
    string option \<Rightarrow> 'm \<Rightarrow> string option \<Rightarrow> string \<Rightarrow> bool" where
  "may_delete_experiment bk env ws m now_millis older_than experiment_ids mq ws' e \<longleftrightarrow>
     ws' = ws \<and> (\<exists>delta. older_than_delta older_than = Inr delta \<and>
     (case or_text experiment_ids None of
        Some ids \<Rightarrow> e \<in> set (split_csv (Some ids)) \<and>
          (\<exists>x. mr_get_experiment (bk_reads bk) m ws e = Inr x \<and> ei_lifecycle_stage x = DELETED \<and>
             (or_text older_than None \<noteq> None \<longrightarrow>
                (\<exists>t. ei_last_update_time x = Some t \<and> t < now_millis - delta)))
      | None \<Rightarrow> e \<in> ei_experiment_id ` set (fetch_deleted (qe_recursion_limit env)
          (bk_search_experiments bk m ws
             (if or_text older_than None \<noteq> None
              then Some (''last_update_time < '' @ show_int (now_millis - delta)) else None)) None)))"

lemma cleanup_run_step:
  assumes "emptied bk run_ok experiment_ok m m1"
    and "or_text older_than None = None \<or> run_id \<in> set old \<Longrightarrow> run_ok ws run_id"
  shows "emptied bk run_ok experiment_ok m (snd (cleanup_run bk ws older_than old run_id p m1)) \<and>
    (\<exists>p'. fst (cleanup_run bk ws older_than old run_id p m1) = Inr p')"
proof (cases "bk_get_run bk m1 ws run_id")
  case (Inl e)
  with assms(1) show ?thesis
    by (simp add: cleanup_run_def act_except_def act_bind_def act_read_def act_return_def split: prod.split)
next
  case (Inr info)
  show ?thesis
  proof (cases "ri_lifecycle_stage info = DELETED \<and> (or_text older_than None = None \<or> run_id \<in> set old)")
    case True
    then have "emptied bk run_ok experiment_ok m (snd (hard_delete_run bk ws run_id (ri_artifact_uri info) m1))"
      using assms Inr by (intro emptied.run_deletion) auto
    with Inr True show ?thesis
      by (cases "hard_delete_run bk ws run_id (ri_artifact_uri info) m1")
        (auto simp: cleanup_run_def act_except_def act_bind_def act_read_def act_return_def split: prod.split sum.split)
  next
    case False
    with assms(1) Inr show ?thesis
      by (auto simp: cleanup_run_def act_except_def act_bind_def act_read_def act_return_def split: prod.split)
  qed
qed

lemma cleanup_experiment_step:
  assumes "emptied bk run_ok experiment_ok m m1" and "emptied bk run_ok experiment_ok m mq"
    and "experiment_ok mq ws e"
  shows "emptied bk run_ok experiment_ok m (snd (cleanup_named_experiment bk ws e p m1)) \<and>
    (\<exists>p'. fst (cleanup_named_experiment bk ws e p m1) = Inr p')"
  using emptied.experiment_deletion [OF assms]
  by (cases "hard_delete_experiment_with_runs bk ws e m1")
    (auto simp: cleanup_named_experiment_def act_except_def act_bind_def act_return_def split: prod.split sum.split)

lemma empty_trash_steps:
  assumes "enumerates env"
    and "\<And>i. i \<in> set targets \<Longrightarrow> or_text older_than None = None \<or> i \<in> set old \<Longrightarrow> run_ok ws i"
    and "\<And>e. e \<in> set experiments \<Longrightarrow> experiment_ok m ws e"
    and "empty_trash ap bk env ws admin older_than old targets experiments (s, sizes, m) = (r, (s', sizes', m'))"
  shows "emptied bk run_ok experiment_ok m m' \<and> as_store s' = as_store s \<and> sizes' = sizes"
proof -
  let ?runs = "qe_set_order env (remdups targets)"
  let ?Q = "emptied bk run_ok experiment_ok m"
  have "?Q (snd (act_fold (cleanup_run bk ws older_than old) ?runs ([], []) m)) \<and>
      (\<exists>p. fst (act_fold (cleanup_run bk ws older_than old) ?runs ([], []) m) = Inr p)"
    using enumerates_order(1) [OF assms(1), of "remdups targets"] assms(2)
    by (intro act_fold_steps cleanup_run_step emptied.no_deletion) auto
  then obtain runs m1 where
    1: "act_fold (cleanup_run bk ws older_than old) ?runs ([], []) m = (Inr runs, m1)" "?Q m1"
    by (metis prod.collapse)
  have "?Q (snd (act_fold (cleanup_named_experiment bk ws) experiments ([], []) m1)) \<and>
      (\<exists>p. fst (act_fold (cleanup_named_experiment bk ws) experiments ([], []) m1) = Inr p)"
  proof (rule act_fold_steps)
    fix e p s
    assume "e \<in> set experiments" and "?Q s"
    from this(2) show "?Q (snd (cleanup_named_experiment bk ws e p s)) \<and>
        (\<exists>p'. fst (cleanup_named_experiment bk ws e p s) = Inr p')"
      by (rule cleanup_experiment_step [OF _ emptied.no_deletion]) (rule assms(3) [OF \<open>e \<in> set experiments\<close>])
  qed (rule 1(2))
  then obtain exps m2 where
    2: "act_fold (cleanup_named_experiment bk ws) experiments ([], []) m1 = (Inr exps, m2)" "?Q m2"
    by (metis prod.collapse)
  from assms(4) 1 2 show ?thesis
    by (simp add: empty_trash_def act_bind_def on_backend_def on_fst_def emit_audit_event_def act_return_def
        split: if_splits) auto
qed

lemma check_admin_frame: "check_admin_permission rq s = (r, s') \<Longrightarrow> s' = s"
  by (simp add: check_admin_permission_def read_db_def act_read_def)

lemma mapM_named:
  assumes "mapM_result f xs = Inr ys" and "x \<in> set xs"
  shows "\<exists>y\<in>set ys. f x = Inr y"
  using assms by (induction xs arbitrary: ys) (auto simp: bind_result_eq_Inr)

lemma target_experiments_ok:
  assumes "target_experiments bk env ws m experiment_ids older_than (now_millis - delta) = Inr es"
    and "older_than_delta older_than = Inr delta" and "e \<in> set es"
  shows "may_delete_experiment bk env ws m now_millis older_than experiment_ids mq ws e"
proof (cases "or_text experiment_ids None")
  case None
  with assms show ?thesis
    by (cases "or_text older_than None") (auto simp: target_experiments_def may_delete_experiment_def)
next
  case (Some ids)
  let ?dated = "or_text older_than None \<noteq> None"
  from assms(1) Some obtain xs where
    xs: "mapM_result (\<lambda>i. mr_get_experiment (bk_reads bk) m ws i) (split_csv (Some ids)) = Inr xs"
    and es: "es = split_csv (Some ids)"
    and stage: "\<forall>x\<in>set xs. ei_lifecycle_stage x = DELETED"
    and young: "?dated \<longrightarrow> \<not> list_ex (\<lambda>x. case ei_last_update_time x of
        None \<Rightarrow> True | Some t \<Rightarrow> t \<ge> now_millis - delta) xs"
    by (auto simp: target_experiments_def Let_def list_ex_iff split: sum.splits if_splits)
  have age: "?dated \<longrightarrow> (\<forall>x\<in>set xs. \<exists>t. ei_last_update_time x = Some t \<and> t < now_millis - delta)"
    using young by (auto simp: list_ex_iff split: option.splits)
  from mapM_named [OF xs] assms(3) obtain x where "x \<in> set xs" "mr_get_experiment (bk_reads bk) m ws e = Inr x"
    unfolding es by blast
  with stage age Some assms(2,3) es show ?thesis
    by (auto simp: may_delete_experiment_def)
qed

lemma parse_time_delta_empty: "parse_time_delta [] = Inr 0"
  by (simp add: parse_time_delta_def unit_part_def part_value_def)

text \<open>The route for an administrator; what the request says is either refused or carried out.\<close>

lemma emptying_by_admin:
  assumes "enumerates env" and who: "check_admin_permission rq s = (Inr admin, s)"
    and run: "permanently_delete_all_trashed_entities ap bk env ws now_millis rq older_than run_ids experiment_ids
      (s, sizes, m) = (r, (s', sizes', m'))"
  shows "emptied bk (may_delete_run bk ws m older_than run_ids)
      (may_delete_experiment bk env ws m now_millis older_than experiment_ids) m m' \<and>
    as_store s' = as_store s \<and> sizes' = sizes"
proof -
  let ?delta = "case older_than of None \<Rightarrow> Inr 0 | Some t \<Rightarrow> parse_time_delta t"
  note defs = permanently_delete_all_trashed_entities_def act_bind_def on_fst_def or_500_def act_except_def
    act_return_def act_raise_def ask_def on_backend_def act_read_def
  show ?thesis
  proof (cases "bk_has_hard_delete_run bk \<and> (\<exists>delta. ?delta = Inr delta)")
    case False
    with run who show ?thesis
      by (cases ?delta) (auto simp: defs emptied.no_deletion split: exn.splits if_splits)
  next
    case True
    then obtain delta where delta: "?delta = Inr delta" and has: "bk_has_hard_delete_run bk" by blast
    let ?old = "deleted_runs_older_than bk ws m delta"
    let ?runs = "case or_text run_ids None of Some ids \<Rightarrow> split_csv (Some ids) | None \<Rightarrow> ?old"
    let ?targets = "if \<not> bk_has_hard_delete_experiment bk then Inr []
      else target_experiments bk env ws m experiment_ids older_than (now_millis - delta)"
    have delta': "older_than_delta older_than = Inr delta"
      using delta by (cases older_than) (auto simp: older_than_delta_def or_text_def parse_time_delta_empty)
    show ?thesis
    proof (cases ?targets)
      case (Inl response)
      with run who has delta show ?thesis
        by (auto simp: defs Let_def emptied.no_deletion split: if_splits)
    next
      case (Inr es)
      with run who has delta
      have "empty_trash ap bk env ws admin older_than ?old ?runs es (s, sizes, m) = (r', (s', sizes', m'))"
        if "r' = fst (empty_trash ap bk env ws admin older_than ?old ?runs es (s, sizes, m))" for r'
        using that by (auto simp: defs Let_def split: if_splits sum.splits prod.splits)
      note go = this [OF refl]
      have "may_delete_run bk ws m older_than run_ids ws i"
        if "i \<in> set ?runs" "or_text older_than None = None \<or> i \<in> set ?old" for i
        using that delta' by (auto simp: may_delete_run_def old_runs_def split: option.splits)
      moreover have "may_delete_experiment bk env ws m now_millis older_than experiment_ids m ws e"
        if "e \<in> set es" for e
        using Inr that target_experiments_ok [OF _ delta'] by (auto split: if_splits)
      ultimately show ?thesis using empty_trash_steps [OF assms(1) _ _ go] by blast
    qed
  qed
qed

text \<open>C16: Emptying the trash deletes nothing unless the caller is an administrator. By itself
  a run is deleted only while it is in the trash, if it is named in the request or none are, and if
  the store counts it as old as asked. An experiment is deleted only if it was found in the trash,
  by its name in the request or by the search, and is as old as asked; with it go all its runs that
  the search for deleted runs lists, named or not and of any age. The database, the permission
  caches and the sizes do not change.\<close>

theorem emptying_deletes_only_trash:
  assumes "enumerates env"
    and "permanently_delete_all_trashed_entities ap bk env ws now_millis rq older_than run_ids experiment_ids
      (s, sizes, m) = (r, (s', sizes', m'))"
  shows "emptied bk (may_delete_run bk ws m older_than run_ids)
      (may_delete_experiment bk env ws m now_millis older_than experiment_ids) m m' \<and>
    as_store s' = as_store s \<and> sizes' = sizes \<and>
    (m' \<noteq> m \<longrightarrow> (\<exists>admin. check_admin_permission rq s = (Inr admin, s)))"
proof -
  obtain who s0 where who: "check_admin_permission rq s = (who, s0)" by (cases "check_admin_permission rq s")
  note s0 = check_admin_frame [OF who]
  show ?thesis
  proof (cases who)
    case (Inl e)
    with assms(2) who s0 show ?thesis
      by (simp add: permanently_delete_all_trashed_entities_def act_bind_def on_fst_def emptied.no_deletion)
  next
    case (Inr admin)
    with who s0 emptying_by_admin [OF assms(1) _ assms(2)] show ?thesis by simp
  qed
qed

text \<open>Two runs, the first of them in the trash.\<close>

definition trash_run :: "string \<Rightarrow> string \<Rightarrow> run_info" where
  "trash_run i stage = \<lparr>ri_run_id = i, ri_experiment_id = ''10'', ri_run_name = ''run'', ri_status = ''FINISHED'',
     ri_start_time = None, ri_end_time = None, ri_lifecycle_stage = stage, ri_artifact_uri = ''s3''\<rparr>"

definition trash_backend :: "run_info list backend" where
  "trash_backend =
     \<lparr>bk_reads = \<lparr>mr_list_workspaces = (\<lambda>_. Inr []),
        mr_get_experiment = (\<lambda>_ _ _. Inl (MlflowException RESOURCE_DOES_NOT_EXIST)),
        mr_search_model_versions = (\<lambda>_ _ _. Inr []), mr_list_artifacts = (\<lambda>_ _ _ _. Inr [])\<rparr>,
      bk_search_experiments = (\<lambda>_ _ _ _. Inr ([], None)), bk_search_runs = (\<lambda>_ _ _ _. Inr ([], None)),
      bk_get_run = (\<lambda>m _ i. case filter (\<lambda>r. ri_run_id r = i) m of
        r # _ \<Rightarrow> Inr r | [] \<Rightarrow> Inl (MlflowException RESOURCE_DOES_NOT_EXIST)),
      bk_has_get_deleted_runs = True,
      bk_get_deleted_runs = (\<lambda>m _ _. Inr (map ri_run_id (filter (\<lambda>r. ri_lifecycle_stage r = DELETED) m))),
      bk_has_hard_delete_run = True,
      bk_hard_delete_run = (\<lambda>_ i m. (Inr (), filter (\<lambda>r. ri_run_id r \<noteq> i) m)),
      bk_has_hard_delete_experiment = True, bk_hard_delete_experiment = (\<lambda>_ _ m. (Inr (), m)),
      bk_restore_run = (\<lambda>_ _ m. (Inr (), m)), bk_restore_experiment = (\<lambda>_ _ m. (Inr (), m)),
      bk_servable_root = (\<lambda>_. False), bk_destination_path = (\<lambda>_ p. p),
      bk_delete_served = (\<lambda>_ m. (Inl OtherError, m)), bk_delete_repository = (\<lambda>_ m. (Inl OtherError, m))\<rparr>"

theorem emptying_deletes_only_trash_witness:
  "\<exists>s'. permanently_delete_all_trashed_entities example_app trash_backend storage_env None 5000 (request_of ''bob'')
      None (Some ''r1, r2'') None
      (example_app_state, (\<lambda>_. None), [trash_run ''r1'' DELETED, trash_run ''r2'' ''active'']) =
      (Inr (200, cleanup_response ([''r1''], [''r2'']) ([], [])), (s', (\<lambda>_. None), [trash_run ''r2'' ''active''])) \<and>
    emptied trash_backend
      (may_delete_run trash_backend None [trash_run ''r1'' DELETED, trash_run ''r2'' ''active''] None (Some ''r1, r2''))
      (may_delete_experiment trash_backend storage_env None
        [trash_run ''r1'' DELETED, trash_run ''r2'' ''active''] 5000 None None)
      [trash_run ''r1'' DELETED, trash_run ''r2'' ''active''] [trash_run ''r2'' ''active''] \<and>
    as_store s' = as_store example_app_state"
proof -
  let ?h = "permanently_delete_all_trashed_entities example_app trash_backend storage_env None 5000 (request_of ''bob'')
      None (Some ''r1, r2'') None
      (example_app_state, (\<lambda>_. None), [trash_run ''r1'' DELETED, trash_run ''r2'' ''active''])"
  have 1: "fst ?h = Inr (200, cleanup_response ([''r1''], [''r2'']) ([], []))"
    and 2: "snd (snd (snd ?h)) = [trash_run ''r2'' ''active'']" by code_simp+
  obtain s' z' m' where run: "?h = (Inr (200, cleanup_response ([''r1''], [''r2'']) ([], [])), (s', z', m'))"
    using 1 by (cases ?h) auto
  from 2 run have m': "m' = [trash_run ''r2'' ''active'']" by simp
  from emptying_deletes_only_trash [OF storage_facts(7) run] show ?thesis
    unfolding m' using run unfolding m' by auto
qed

section \<open>The scheduled clean-up\<close>

text \<open>Reconciling a quota reads MLflow and changes nothing there.\<close>

definition leaves_mlflow :: "('a, 'm quota_world) action \<Rightarrow> bool" where
  "leaves_mlflow f \<longleftrightarrow> (\<forall>db caches sizes m. snd (snd (snd (snd (f (db, caches, sizes, m))))) = m)"

lemma leaves_mlflowD: "leaves_mlflow f \<Longrightarrow> f (db, caches, sizes, m) = (r, (db', caches', sizes', m')) \<Longrightarrow> m' = m"
  unfolding leaves_mlflow_def by (metis snd_conv)

lemma leaves_mlflow_bind:
  assumes "leaves_mlflow f" and "\<And>x. leaves_mlflow (g x)"
  shows "leaves_mlflow (act_bind f g)"
  unfolding leaves_mlflow_def
proof (intro allI)
  fix db caches sizes m
  obtain r d c z n where f: "f (db, caches, sizes, m) = (r, (d, c, z, n))" by (metis surj_pair)
  have "n = m" using leaves_mlflowD [OF assms(1) f] .
  then show "snd (snd (snd (snd (act_bind f g (db, caches, sizes, m))))) = m"
    using assms(2) f by (cases r) (simp_all add: act_bind_def leaves_mlflow_def)
qed

lemma leaves_mlflow_fold:
  assumes "\<And>x p. leaves_mlflow (f x p)"
  shows "leaves_mlflow (act_fold f xs p)"
proof (induction xs arbitrary: p)
  case Nil
  show ?case by (simp add: leaves_mlflow_def act_return_def)
next
  case (Cons x xs)
  then show ?case using assms by (simp add: leaves_mlflow_bind)
qed

lemma leaves_mlflow_intros:
  "leaves_mlflow (act_return x)" "leaves_mlflow (act_raise e)" "leaves_mlflow (on_fst f)"
  "leaves_mlflow (wipe_missing env i)" "leaves_mlflow (measure_experiment mr env ws i p)"
  "leaves_mlflow (measure_model mr env ws i p)"
  by (auto simp: leaves_mlflow_def act_return_def act_raise_def on_fst_def wipe_missing_run measure_experiment_def
      measure_model_def Let_def split: prod.split sum.split exn.split)

lemma leaves_mlflow_measure: "leaves_mlflow (measure_workspaces mr env names p)"
proof (induction names arbitrary: p)
  case Nil
  show ?case unfolding measure_workspaces.simps by (rule leaves_mlflow_intros)
next
  case (Cons w names)
  have "leaves_mlflow (act_bind (act_fold (measure_experiment mr env ws) es p) (\<lambda>p.
      act_bind (act_fold (measure_model mr env ws) (xs p) p) (\<lambda>p. measure_workspaces mr env names p)))" for ws es xs p
    by (intro leaves_mlflow_bind leaves_mlflow_fold leaves_mlflow_intros Cons)
  then show ?case unfolding measure_workspaces.simps Let_def by (auto intro: leaves_mlflow_intros)
qed

lemma leaves_mlflow_state_bind:
  assumes "\<And>db caches sizes m. leaves_mlflow (f db caches sizes m)" and "\<And>db caches sizes m x. leaves_mlflow (g db caches sizes m x)"
  shows "leaves_mlflow (\<lambda>(db, caches, sizes, m). act_bind (f db caches sizes m) (g db caches sizes m) (db, caches, sizes, m))"
  using leaves_mlflow_bind [OF assms(1), of "g _ _ _ _", OF assms(2)] by (simp add: leaves_mlflow_def)

lemma leaves_mlflow_calculate: "leaves_mlflow (calculate_used_bytes mr env n)"
proof -
  have run: "leaves_mlflow (\<lambda>(db, caches, sizes, m).
      act_bind (measure_workspaces mr env (names m) (p sizes)) (\<lambda>p.
      act_bind (act_fold (\<lambda>i _. wipe_missing env i) (es p) ()) (\<lambda>_. act_return (pr_total p, pr_sizes p)))
        (db, caches, sizes, m))" for names p es
    by (intro leaves_mlflow_state_bind leaves_mlflow_bind leaves_mlflow_measure leaves_mlflow_fold leaves_mlflow_intros)
  have "leaves_mlflow (if b then act_return (0, []) else (\<lambda>(db, caches, sizes, m).
      act_bind (measure_workspaces mr env (names m) (p sizes)) (\<lambda>p.
      act_bind (act_fold (\<lambda>i _. wipe_missing env i) (es p) ()) (\<lambda>_. act_return (pr_total p, pr_sizes p)))
        (db, caches, sizes, m)))" for b names p es
    using run leaves_mlflow_intros(1) by (cases b) (simp_all only: if_True if_False)
  then show ?thesis
    unfolding calculate_used_bytes_def Let_def by (intro leaves_mlflow_bind leaves_mlflow_intros)
qed

lemma leaves_mlflow_reconcile:
  "leaves_mlflow (reconcile_user_quota config (calculate_used_bytes mr env) send_hard send_soft now n)"
  unfolding reconcile_user_quota_def Let_def
  by (auto intro!: leaves_mlflow_bind leaves_mlflow_intros leaves_mlflow_calculate split: option.split prod.split)

text \<open>
  An experiment that was found in the trash of its workspace and whose last change lies before the time
  given: the time MLflow knows for its last update or, where that is missing or zero, for its creation,
  which must be there and not zero.
\<close>

definition retention_over :: "'m backend \<Rightarrow> rat \<Rightarrow> 'm \<Rightarrow> string option \<Rightarrow> string \<Rightarrow> bool" where
  "retention_over bk before_ms m ws i \<longleftrightarrow>
     (\<exists>es token e t. bk_search_experiments bk m ws None None = Inr (es, token) \<and> e \<in> set es \<and>
        ei_experiment_id e = i \<and> t \<noteq> 0 \<and> of_int t < before_ms \<and>
        (ei_last_update_time e = Some t \<or>
         (ei_last_update_time e = None \<or> ei_last_update_time e = Some 0) \<and> ei_creation_time e = Some t))"

lemma expired_time:
  "expired cutoff e \<longleftrightarrow>
     (\<exists>t. t \<noteq> 0 \<and> of_int t < cutoff \<and> (ei_last_update_time e = Some t \<or>
         (ei_last_update_time e = None \<or> ei_last_update_time e = Some 0) \<and> ei_creation_time e = Some t))"
  by (auto simp: expired_def deletion_time_def Let_def split: option.splits if_splits)

definition mlflow_of :: "'m quota_world \<Rightarrow> 'm" where
  "mlflow_of s = snd (snd (snd s))"

lemma cleanup_experiment_deletes:
  assumes "emptied bk run_ok experiment_ok m (mlflow_of s)" and "emptied bk run_ok experiment_ok m mq"
    and "expired cutoff e \<Longrightarrow> experiment_ok mq ws (ei_experiment_id e)"
  shows "emptied bk run_ok experiment_ok m (mlflow_of (snd (cleanup_experiment bk ws cutoff e owners s))) \<and>
    (\<exists>p. fst (cleanup_experiment bk ws cutoff e owners s) = Inr p)"
proof (cases "expired cutoff e")
  case False
  with assms(1) show ?thesis by (simp add: cleanup_experiment_def act_return_def)
next
  case True
  obtain db caches sizes m1 where s: "s = (db, caches, sizes, m1)" by (metis surj_pair)
  from emptied.experiment_deletion [OF assms(1,2) assms(3) [OF True]] True s show ?thesis
    by (cases "hard_delete_experiment_with_runs bk ws (ei_experiment_id e) m1")
      (auto simp: cleanup_experiment_def mlflow_of_def act_bind_def act_except_def on_fst_def act_read_def
        on_mlflow_def act_return_def split: sum.split)
qed

lemma cleanup_workspace_deletes:
  assumes "emptied bk run_ok (retention_over bk cutoff) m (mlflow_of s)"
  shows "emptied bk run_ok (retention_over bk cutoff) m (mlflow_of (snd (cleanup_workspace bk env cutoff w owners s))) \<and>
    (\<exists>p. fst (cleanup_workspace bk env cutoff w owners s) = Inr p)"
proof -
  obtain db caches sizes m1 where s: "s = (db, caches, sizes, m1)" by (metis surj_pair)
  let ?ws = "workspace_context env w"
  show ?thesis
  proof (cases "bk_search_experiments bk m1 ?ws None None")
    case (Inl e)
    with assms s show ?thesis by (simp add: cleanup_workspace_def Let_def)
  next
    case (Inr p)
    obtain es token where p: "p = (es, token)" by (cases p)
    have "emptied bk run_ok (retention_over bk cutoff) m (mlflow_of (snd (act_fold (cleanup_experiment bk ?ws cutoff) es owners s))) \<and>
        (\<exists>p. fst (act_fold (cleanup_experiment bk ?ws cutoff) es owners s) = Inr p)"
    proof (rule act_fold_steps [where Q = "\<lambda>s. emptied bk run_ok (retention_over bk cutoff) m (mlflow_of s)", OF _ assms])
      fix e owners s'
      assume "e \<in> set es" and here: "emptied bk run_ok (retention_over bk cutoff) m (mlflow_of s')"
      from this(1) Inr p have "expired cutoff e \<Longrightarrow> retention_over bk cutoff m1 ?ws (ei_experiment_id e)"
        unfolding expired_time retention_over_def by blast
      with cleanup_experiment_deletes [OF here] assms s
      show "emptied bk run_ok (retention_over bk cutoff) m (mlflow_of (snd (cleanup_experiment bk ?ws cutoff e owners s'))) \<and>
        (\<exists>p. fst (cleanup_experiment bk ?ws cutoff e owners s') = Inr p)"
        by (simp add: mlflow_of_def)
    qed
    with Inr p s show ?thesis by (simp add: cleanup_workspace_def Let_def)
  qed
qed

lemma clean_up_run:
  assumes "cleanup_trash bk env
      (reconcile_user_quota config (calculate_used_bytes (bk_reads bk) env) send_hard send_soft now_s) now retention_days
      (db, caches, sizes, m) = (r, (db', caches', sizes', m'))"
  shows "r = Inr () \<and>
    emptied bk (\<lambda>_ _. False) (retention_over bk ((now - of_int retention_days * 86400) * 1000)) m m'"
proof -
  let ?cutoff = "(now - of_int (retention_days * 86400)) * 1000"
  let ?E = "emptied bk (\<lambda>_ _. False) (retention_over bk ?cutoff) m"
  let ?names = "iter_workspace_names (bk_reads bk) env m"
  let ?rec = "reconcile_user_quota config (calculate_used_bytes (bk_reads bk) env) send_hard send_soft now_s"
  have "?E (mlflow_of (snd (act_fold (cleanup_workspace bk env ?cutoff) ?names [] (db, caches, sizes, m)))) \<and>
      (\<exists>p. fst (act_fold (cleanup_workspace bk env ?cutoff) ?names [] (db, caches, sizes, m)) = Inr p)"
    by (rule act_fold_steps [where Q = "\<lambda>s. ?E (mlflow_of s)", OF cleanup_workspace_deletes])
      (simp_all add: mlflow_of_def emptied.no_deletion)
  then obtain owners s1 where
    1: "act_fold (cleanup_workspace bk env ?cutoff) ?names [] (db, caches, sizes, m) = (Inr owners, s1)" "?E (mlflow_of s1)"
    by (metis prod.collapse)
  let ?swallow = "\<lambda>owner (_ :: unit). act_except (act_map (\<lambda>_. ()) (?rec owner)) (act_return ())"
  have same: "mlflow_of (snd (?rec owner s)) = mlflow_of s" for owner s
    using leaves_mlflow_reconcile [of config "bk_reads bk" env send_hard send_soft now_s owner]
    by (cases s) (auto simp: mlflow_of_def leaves_mlflow_def)
  have "?E (mlflow_of (snd (?swallow owner p s))) \<and> (\<exists>p'. fst (?swallow owner p s) = Inr p')"
    if "?E (mlflow_of s)" for owner p s
    using that same [of owner s]
    by (cases "?rec owner s") (auto simp: act_except_def act_map_def act_bind_def act_return_def split: sum.split)
  then have "?E (mlflow_of (snd (act_fold ?swallow (qe_set_order env owners) () s1))) \<and>
      (\<exists>p. fst (act_fold ?swallow (qe_set_order env owners) () s1) = Inr p)"
    using 1(2) by (intro act_fold_steps [where Q = "\<lambda>s. ?E (mlflow_of s)"])
  then obtain s2 where 2: "act_fold ?swallow (qe_set_order env owners) () s1 = (Inr (), s2)" "?E (mlflow_of s2)"
    by (cases "act_fold ?swallow (qe_set_order env owners) () s1") auto
  from assms 1(1) 2(1) have "r = Inr ()" "s2 = (db', caches', sizes', m')"
    by (simp_all add: cleanup_trash_def Let_def act_bind_def)
  with 2(2) show ?thesis by (simp add: mlflow_of_def)
qed

text \<open>C18: The scheduled clean-up returns, whatever MLflow raises, and deletes only experiments that
  were found in the trash of the workspace searched and whose last update (or creation, where no update
  is known) lies more than the days of retention before now, and with an experiment the runs of it that
  are in the trash; the quotas it reconciles afterwards delete nothing in MLflow.\<close>

theorem clean_up_respects_retention:
  "fst (cleanup_trash bk env
      (reconcile_user_quota config (calculate_used_bytes (bk_reads bk) env) send_hard send_soft now_s) now retention_days
      (db, caches, sizes, m)) = Inr () \<and>
   emptied bk (\<lambda>_ _. False) (retention_over bk ((now - of_int retention_days * 86400) * 1000)) m
     (mlflow_of (snd (cleanup_trash bk env
      (reconcile_user_quota config (calculate_used_bytes (bk_reads bk) env) send_hard send_soft now_s) now retention_days
      (db, caches, sizes, m))))"
proof -
  let ?c = "cleanup_trash bk env
      (reconcile_user_quota config (calculate_used_bytes (bk_reads bk) env) send_hard send_soft now_s) now retention_days
      (db, caches, sizes, m)"
  obtain r db' caches' sizes' m' where run: "?c = (r, (db', caches', sizes', m'))" by (metis surj_pair)
  from clean_up_run [OF run] show ?thesis by (simp add: run mlflow_of_def)
qed

text \<open>Two experiments in the trash, one deleted five days ago and one a hundred days ago.\<close>

definition trashed_experiment :: "string \<Rightarrow> int \<Rightarrow> experiment_info" where
  "trashed_experiment i t = \<lparr>ei_experiment_id = i, ei_name = ''exp'', ei_lifecycle_stage = DELETED,
     ei_artifact_location = ''s3'', ei_creation_time = Some 500, ei_last_update_time = Some t, ei_tags = []\<rparr>"

definition experiment_trash :: "experiment_info list backend" where
  "experiment_trash =
     \<lparr>bk_reads = \<lparr>mr_list_workspaces = (\<lambda>_. Inr [''a'']),
        mr_get_experiment = (\<lambda>_ _ _. Inl (MlflowException RESOURCE_DOES_NOT_EXIST)),
        mr_search_model_versions = (\<lambda>_ _ _. Inr []), mr_list_artifacts = (\<lambda>_ _ _ _. Inr [])\<rparr>,
      bk_search_experiments = (\<lambda>m _ _ _. Inr (m, None)), bk_search_runs = (\<lambda>_ _ _ _. Inr ([], None)),
      bk_get_run = (\<lambda>_ _ _. Inl (MlflowException RESOURCE_DOES_NOT_EXIST)),
      bk_has_get_deleted_runs = True, bk_get_deleted_runs = (\<lambda>_ _ _. Inr []),
      bk_has_hard_delete_run = True, bk_hard_delete_run = (\<lambda>_ _ m. (Inr (), m)),
      bk_has_hard_delete_experiment = True,
      bk_hard_delete_experiment = (\<lambda>_ i m. (Inr (), filter (\<lambda>e. ei_experiment_id e \<noteq> i) m)),
      bk_restore_run = (\<lambda>_ _ m. (Inr (), m)), bk_restore_experiment = (\<lambda>_ _ m. (Inr (), m)),
      bk_servable_root = (\<lambda>_. False), bk_destination_path = (\<lambda>_ p. p),
      bk_delete_served = (\<lambda>_ m. (Inl OtherError, m)), bk_delete_repository = (\<lambda>_ m. (Inl OtherError, m))\<rparr>"

definition example_clean_up where
  "example_clean_up =
     cleanup_trash experiment_trash storage_env
       (reconcile_user_quota storage_config (calculate_used_bytes (bk_reads experiment_trash) storage_env)
          (\<lambda>_ _ _ _ _. True) (\<lambda>_ _ _ _ _. True) 0)
       (100 * 86400) 30
       (example_db, empty_caches, (\<lambda>_. None), [trashed_experiment ''1'' 1000, trashed_experiment ''2'' (95 * 86400000)])"

theorem clean_up_respects_retention_witness:
  "mlflow_of (snd example_clean_up) = [trashed_experiment ''2'' (95 * 86400000)] \<and>
   emptied experiment_trash (\<lambda>_ _. False) (retention_over experiment_trash ((100 * 86400 - of_int 30 * 86400) * 1000))
     [trashed_experiment ''1'' 1000, trashed_experiment ''2'' (95 * 86400000)]
     [trashed_experiment ''2'' (95 * 86400000)]"
proof -
  have "mlflow_of (snd example_clean_up) = [trashed_experiment ''2'' (95 * 86400000)]" by code_simp
  then show ?thesis
    using clean_up_respects_retention unfolding example_clean_up_def by metis
qed

end
