(* ===== verification/UiRouter.thy ===== *)
theory UiRouter
  imports AccountRouter "HOL-Library.Sublist"
begin

text \<open>
  \<^verbatim>\<open>routers/ui.py\<close>, \<^verbatim>\<open>routers/health.py\<close> and \<^verbatim>\<open>hack.py\<close>: the files of the web front end, the health
  checks, and MLflow's own page with the plugin's additions.
  Which files there are is a parameter; the paths are those of \<^verbatim>\<open>posixpath\<close>. The property: whatever
  is asked for, only files below the directory of the front end are served.
\<close>

section \<open>Paths\<close>

definition path_join :: "string \<Rightarrow> string \<Rightarrow> string" where
  "path_join a b =
     (if b \<noteq> [] \<and> hd b = CHR ''/'' then b
      else if a = [] \<or> last a = CHR ''/'' then a @ b
      else a @ ''/'' @ b)"

text \<open>Components from the left, the last one kept first: \<^verbatim>\<open>..\<close> takes one away.\<close>

fun collapse :: "bool \<Rightarrow> string list \<Rightarrow> string list \<Rightarrow> string list" where
  "collapse rooted acc [] = rev acc"
| "collapse rooted acc (c # comps) =
     (if c = '''' \<or> c = ''.'' then collapse rooted acc comps
      else if c \<noteq> ''..'' \<or> (\<not> rooted \<and> acc = []) \<or> (acc \<noteq> [] \<and> hd acc = ''..'')
      then collapse rooted (c # acc) comps
      else collapse rooted (tl acc) comps)"

text \<open>Two slashes in front stay two, any other number is one.\<close>

definition initial_slashes :: "string \<Rightarrow> nat" where
  "initial_slashes path =
     (if prefix ''/'' path then if prefix ''//'' path \<and> \<not> prefix ''///'' path then 2 else 1 else 0)"

definition normpath :: "string \<Rightarrow> string" where
  "normpath path =
     (if path = '''' then ''.''
      else
        let n = initial_slashes path;
            p = replicate n (CHR ''/'') @ join_with ''/'' (collapse (n \<noteq> 0) [] (split ''/'' path))
        in if p = '''' then ''.'' else p)"

section \<open>The front end\<close>

record ui_files =
  uf_directory :: string
  uf_is_dir :: "string \<Rightarrow> bool"
  uf_is_file :: "string \<Rightarrow> bool"

definition index_file :: "ui_files \<Rightarrow> string" where
  "index_file fs = path_join (uf_directory fs) ''index.html''"

definition get_ui_directory :: "ui_files \<Rightarrow> (string \<times> string) result" where
  "get_ui_directory fs =
     (if \<not> uf_is_dir fs (uf_directory fs) then Inl OtherError
      else if \<not> uf_is_file fs (index_file fs) then Inl OtherError
      else Inr (uf_directory fs, index_file fs))"

definition serve_spa_root :: "ui_files \<Rightarrow> string result" where
  "serve_spa_root fs = bind_result (get_ui_directory fs) (\<lambda>(_, index). Inr index)"

definition serve_spa :: "ui_files \<Rightarrow> string \<Rightarrow> string result" where
  "serve_spa fs filename =
     bind_result (get_ui_directory fs) (\<lambda>(ui_dir_path, index).
     let safe_root = ui_dir_path @ ''/'';
         candidate = normpath (path_join ui_dir_path filename)
     in if \<not> prefix safe_root candidate then Inr index
        else if uf_is_file fs candidate then Inr candidate
        else Inr index)"

record ui_config =
  uc_provider :: string
  uc_gen_ai_gateway :: bool
  uc_privacy_policy :: "string option"
  uc_terms_of_service :: "string option"
  uc_legals :: "string option"

definition serve_spa_config :: "ui_config \<Rightarrow> bool \<Rightarrow> http_request \<Rightarrow> json" where
  "serve_spa_config config workspaces_enabled rq =
     (let base_path = get_base_path rq
      in JObject
        [(''basePath'', JString base_path), (''uiPath'', JString (base_path @ UI_ROUTER_PREFIX)),
         (''provider'', JString (uc_provider config)), (''authenticated'', JBool (is_authenticated rq)),
         (''gen_ai_gateway_enabled'', JBool (uc_gen_ai_gateway config)),
         (''workspaces_enabled'', JBool workspaces_enabled),
         (''privacyPolicyUrl'', optional_text (uc_privacy_policy config)),
         (''termsOfServiceUrl'', optional_text (uc_terms_of_service config)),
         (''legalsUrl'', optional_text (uc_legals config))])"

definition redirect_to_ui :: "http_request \<Rightarrow> web_response" where
  "redirect_to_ui rq = Redirect (get_base_path rq @ UI_ROUTER_PREFIX @ ''/'')"

section \<open>MLflow's page\<close>

text \<open>
  The page is read from the static folder, and what is configured is put in front of each end of a
  body. A snippet that is missing or empty adds nothing. \<open>read_file\<close> is \<open>None\<close> where there is no file.
\<close>

definition BODY_CLOSE_TAG :: string where
  "BODY_CLOSE_TAG = ''</body>''"

definition read_snippet :: "(string \<Rightarrow> string option) \<Rightarrow> string \<Rightarrow> string \<Rightarrow> string" where
  "read_snippet read_file folder name =
     (case read_file (path_join folder name) of Some s \<Rightarrow> s | None \<Rightarrow> '''')"

definition mlflow_index :: "bool \<Rightarrow> bool \<Rightarrow> (string \<Rightarrow> string option) \<Rightarrow> string \<Rightarrow> string option \<Rightarrow> string" where
  "mlflow_index extend_reauth extend_menu read_file folder static_folder =
     (case static_folder of
        None \<Rightarrow> ''Static folder is not set''
      | Some static \<Rightarrow>
          (case read_file (path_join static ''index.html'') of
             None \<Rightarrow> ''Unable to display MLflow UI - landing page not found''
           | Some html_content \<Rightarrow>
               if \<not> sublist BODY_CLOSE_TAG html_content then html_content
               else
                 let injections = (if extend_reauth then [read_snippet read_file folder ''reauth.html''] else []) @
                       (if extend_menu then [read_snippet read_file folder ''menu.html''] else []);
                     injected = join_with [CHR 0x0A] (filter (\<lambda>s. s \<noteq> '''') injections)
                 in if injected = '''' then html_content
                    else replace_all BODY_CLOSE_TAG (injected @ [CHR 0x0A] @ BODY_CLOSE_TAG) html_content))"

lemma mlflow_index_example:
  "mlflow_index True True (map_of [(''/s/index.html'', ''<body>x</body>''), (''h/menu.html'', ''<a/>'')]) ''h'' (Some ''/s'') =
     ''<body>x<a/>'' @ [CHR 0x0A] @ ''</body>''"
  by code_simp

section \<open>Health\<close>

text \<open>Each probe answers, raises or says no.\<close>

definition health_check_ready :: "bool result \<Rightarrow> bool result \<Rightarrow> nat \<times> json" where
  "health_check_ready configured ping =
     (let oidc = (case configured of Inr b \<Rightarrow> b | Inl _ \<Rightarrow> False);
          database = (case ping of Inr b \<Rightarrow> b | Inl _ \<Rightarrow> False);
          all_ready = (oidc \<and> database)
      in (if all_ready then 200 else 503,
          JObject [(''status'', JString (if all_ready then ''ready'' else ''not_ready'')),
                   (''checks'', JObject [(''oidc'', JBool oidc), (''database'', JBool database)])]))"

definition health_check_root :: "nat \<times> json" where
  "health_check_root = (200, JObject [(''status'', JString ''ok'')])"

definition health_check_live :: "nat \<times> json" where
  "health_check_live = (200, JObject [(''status'', JString ''live'')])"

definition health_check_startup :: "bool \<Rightarrow> nat \<times> json" where
  "health_check_startup oidc_ready =
     (if oidc_ready
      then (200, JObject [(''status'', JString ''started''), (''oidc_initialized'', JBool True)])
      else (503, JObject [(''status'', JString ''initializing''), (''oidc_initialized'', JBool False)]))"

section \<open>Only files below the directory are served\<close>

definition proper :: "string \<Rightarrow> bool" where
  "proper c \<longleftrightarrow> c \<noteq> '''' \<and> c \<noteq> ''.'' \<and> c \<noteq> ''..'' \<and> CHR ''/'' \<notin> set c"

text \<open>The text of an absolute path with these components.\<close>

definition rooted :: "string list \<Rightarrow> string" where
  "rooted comps = concat (map (\<lambda>c. CHR ''/'' # c) comps)"

lemma rooted_simps [simp]: "rooted [] = []" "rooted (c # cs) = CHR ''/'' # c @ rooted cs"
  by (simp_all add: rooted_def)

lemma join_rooted: "cs \<noteq> [] \<Longrightarrow> CHR ''/'' # join_with ''/'' cs = rooted cs"
  by (induction cs rule: induct_list012) (simp_all add: join_with_def)

lemma split_on_slash:
  "CHR ''/'' \<notin> set acc \<Longrightarrow> list_all (\<lambda>c. CHR ''/'' \<notin> set c) (split_on ''/'' acc s)"
  by (induction s arbitrary: acc) auto

lemma split_slash: "c \<in> set (split ''/'' s) \<Longrightarrow> CHR ''/'' \<notin> set c"
  using split_on_slash [of "[]" s] by (simp add: split_def list_all_iff)

lemma collapse_proper:
  assumes "list_all proper acc" and "\<And>c. c \<in> set comps \<Longrightarrow> CHR ''/'' \<notin> set c"
  shows "list_all proper (collapse True acc comps)"
  using assms
proof (induction comps arbitrary: acc)
  case Nil
  then show ?case by simp
next
  case (Cons c comps)
  have hd: "hd acc \<noteq> ''..''" if "acc \<noteq> []" using Cons.prems(1) that by (cases acc) (auto simp: proper_def)
  have "list_all proper (tl acc)" using Cons.prems(1) by (cases acc) simp_all
  moreover have "proper c" if "c \<noteq> ''''" "c \<noteq> ''.''" "c \<noteq> ''..''"
    using Cons.prems(2) [of c] that by (simp add: proper_def)
  moreover have "list_all proper (collapse True acc' comps)" if "list_all proper acc'" for acc'
    using Cons.IH [OF that] Cons.prems(2) by simp
  ultimately show ?case using Cons.prems(1) hd by auto
qed

text \<open>A path below another one, read by components.\<close>

lemma prefix_rooted:
  assumes "list_all proper rs" and "list_all proper cs" and "prefix (rooted rs @ ''/'') (rooted cs)"
  shows "\<exists>rest. rest \<noteq> [] \<and> cs = rs @ rest"
  using assms
proof (induction rs arbitrary: cs)
  case Nil
  then show ?case by (cases cs) auto
next
  case (Cons r rs)
  from Cons.prems(3) obtain c cs' where cs: "cs = c # cs'" by (cases cs) auto
  from Cons.prems(3) obtain t where t: "c @ rooted cs' = r @ (rooted rs @ ''/'') @ t"
    by (auto simp: cs prefix_def)
  have slash: "CHR ''/'' \<notin> set r" "CHR ''/'' \<notin> set c" using Cons.prems(1,2) cs by (simp_all add: proper_def)
  have "takeWhile (\<lambda>x. x \<noteq> CHR ''/'') (c @ rooted cs') = c"
    using slash(2) by (cases cs') (auto simp: takeWhile_append)
  moreover have "takeWhile (\<lambda>x. x \<noteq> CHR ''/'') (r @ (rooted rs @ ''/'') @ t) = r"
    using slash(1) by (cases rs) (auto simp: takeWhile_append)
  ultimately have "c = r" using t by simp
  with t have "prefix (rooted rs @ ''/'') (rooted cs')" by (auto simp: prefix_def)
  with Cons.IH Cons.prems(1,2) cs \<open>c = r\<close> show ?case by simp
qed

lemma normpath_rooted:
  assumes "prefix ''/'' path"
  shows "\<exists>cs. list_all proper cs \<and> (normpath path = ''/'' @ rooted cs \<or> normpath path = rooted cs \<or> normpath path = ''//'')"
proof -
  let ?cs = "collapse True [] (split ''/'' path)"
  have proper: "list_all proper ?cs" by (rule collapse_proper) (auto dest: split_slash)
  from assms have "path \<noteq> []" by auto
  have n: "initial_slashes path = 1 \<or> initial_slashes path = 2"
    using assms by (auto simp: initial_slashes_def)
  show ?thesis
  proof (cases "?cs = []")
    case True
    with n \<open>path \<noteq> []\<close> proper show ?thesis
      by (intro exI [of _ "[]"]) (auto simp: normpath_def Let_def join_with_def numeral_2_eq_2)
  next
    case False
    with n \<open>path \<noteq> []\<close> proper join_rooted [OF False] show ?thesis
      by (intro exI [of _ ?cs]) (auto simp: normpath_def Let_def numeral_2_eq_2)
  qed
qed

text \<open>C20: Whatever path is asked for, dots and slashes included, the front end serves its index or an
  existing file whose path, component by component, lies below the directory of the front end and
  has no component that leads upwards.\<close>

theorem only_ui_files_are_served:
  assumes "uf_directory fs = rooted base" and "base \<noteq> []" and "list_all proper base"
    and "serve_spa fs filename = Inr file"
  shows "file = index_file fs \<or>
    (\<exists>rest. rest \<noteq> [] \<and> list_all proper rest \<and> file = rooted (base @ rest) \<and> uf_is_file fs file)"
proof (cases "file = index_file fs")
  case False
  let ?candidate = "normpath (path_join (uf_directory fs) filename)"
  from assms(4) False have candidate: "file = ?candidate" "uf_is_file fs file"
    and below: "prefix (rooted base @ ''/'') ?candidate"
    by (auto simp: serve_spa_def get_ui_directory_def assms(1) Let_def bind_result_def split: if_splits)
  have "prefix ''/'' (path_join (uf_directory fs) filename)"
    using assms(1,2) by (cases base; cases filename) (auto simp: path_join_def)
  then obtain cs where cs: "list_all proper cs"
    "?candidate = ''/'' @ rooted cs \<or> ?candidate = rooted cs \<or> ?candidate = ''//''"
    using normpath_rooted by blast
  obtain r rs where base: "base = r # rs" "r \<noteq> []" "CHR ''/'' \<notin> set r"
    using assms(2,3) by (cases base) (auto simp: proper_def)
  have "hd r \<noteq> CHR ''/''" using base by (cases r) auto
  then have "?candidate = rooted cs"
    using cs(2) below base by (cases cs; cases r) auto
  with below cs(1) obtain rest where "rest \<noteq> []" "cs = base @ rest"
    using prefix_rooted [OF assms(3) cs(1)] by auto
  with candidate cs(1) \<open>?candidate = rooted cs\<close> show ?thesis by auto
qed simp

definition example_files :: ui_files where
  "example_files = \<lparr>uf_directory = ''/srv/ui'', uf_is_dir = (\<lambda>p. p = ''/srv/ui''),
     uf_is_file = (\<lambda>p. p \<in> {''/srv/ui/index.html'', ''/srv/ui/a/main.js'', ''/etc/passwd''})\<rparr>"

theorem only_ui_files_are_served_witness:
  "serve_spa example_files ''b/../a//./main.js'' = Inr ''/srv/ui/a/main.js'' \<and>
   serve_spa example_files ''../../etc/passwd'' = Inr ''/srv/ui/index.html'' \<and>
   (\<exists>rest. rest \<noteq> [] \<and> list_all proper rest \<and> ''/srv/ui/a/main.js'' = rooted ([''srv'', ''ui''] @ rest))"
proof -
  have a: "serve_spa example_files ''b/../a//./main.js'' = Inr ''/srv/ui/a/main.js''"
    and b: "serve_spa example_files ''../../etc/passwd'' = Inr ''/srv/ui/index.html''" by code_simp+
  have "uf_directory example_files = rooted [''srv'', ''ui'']" by (simp add: example_files_def)
  moreover have "list_all proper [''srv'', ''ui'']" by (simp add: proper_def)
  ultimately have "''/srv/ui/a/main.js'' = index_file example_files \<or>
    (\<exists>rest. rest \<noteq> [] \<and> list_all proper rest \<and> ''/srv/ui/a/main.js'' = rooted ([''srv'', ''ui''] @ rest) \<and>
      uf_is_file example_files ''/srv/ui/a/main.js'')"
    using only_ui_files_are_served [OF _ _ _ a, of "[''srv'', ''ui'']"] by simp
  moreover have "index_file example_files = ''/srv/ui/index.html''" by code_simp
  ultimately show ?thesis using a b by auto
qed

end
