(* ===== verification/ConfigManager.thy ===== *)
theory ConfigManager
  imports AuthConfig Cache Oidc QuotaPolicy
begin

text \<open>
  \<^verbatim>\<open>config_providers/manager.py\<close>, \<^verbatim>\<open>env_provider.py\<close>, \<^verbatim>\<open>base.py\<close>, \<^verbatim>\<open>mlflow_env.py\<close> and \<^verbatim>\<open>config.py\<close>: where a
  setting comes from, how its value is read, and the settings that the other theories take as
  their records. The providers for cloud services are parameters, like the environment and how a
  value that is not a text is shown. To ask a provider may raise; what raises then raises to the start.
\<close>

section \<open>Providers\<close>

record provider =
  pv_name :: string
  pv_priority :: int
  pv_available :: bool
  pv_get :: "string \<Rightarrow> json option result"

definition env_provider :: "(string \<Rightarrow> string option) \<Rightarrow> provider" where
  "env_provider environ =
     \<lparr>pv_name = ''env'', pv_priority = 1000, pv_available = True, pv_get = (\<lambda>k. Inr (map_option JString (environ k)))\<rparr>"

fun get_many :: "provider \<Rightarrow> string list \<Rightarrow> (string \<times> json) list result" where
  "get_many p [] = Inr []"
| "get_many p (key # keys) =
     bind_result (pv_get p key) (\<lambda>found.
     bind_result (get_many p keys) (\<lambda>others.
     case found of
       Some value \<Rightarrow> Inr ((key, value) # filter (\<lambda>(k, _). k \<noteq> key) others)
     | None \<Rightarrow> Inr others))"

text \<open>A built-in provider whose library is missing is \<open>None\<close>; the environment is always there.\<close>

definition load_builtin_providers :: "provider option list \<Rightarrow> (string \<Rightarrow> string option) \<Rightarrow> provider list" where
  "load_builtin_providers builtin environ = List.map_filter id builtin @ [env_provider environ]"

text \<open>An entry point may fail to load or give something that is no provider.\<close>

definition load_entry_point_providers :: "provider option result list result \<Rightarrow> provider list" where
  "load_entry_point_providers entry_points =
     (case entry_points of
        Inl _ \<Rightarrow> []
      | Inr eps \<Rightarrow> List.map_filter (\<lambda>ep. case ep of Inr (Some p) \<Rightarrow> Some p | _ \<Rightarrow> None) eps)"

definition discover_providers :: "provider option list \<Rightarrow> provider option result list result \<Rightarrow>
    (string \<Rightarrow> string option) \<Rightarrow> provider list" where
  "discover_providers builtin entry_points environ =
     (let all_providers = load_builtin_providers builtin environ @ load_entry_point_providers entry_points;
          enabled = (case environ ''CONFIG_PROVIDERS'' of
            Some names \<Rightarrow>
              if names = '''' then all_providers
              else filter (\<lambda>p. pv_name p \<in> set (map py_strip (split '','' names))) all_providers
          | None \<Rightarrow> all_providers);
          providers = sort_key pv_priority (filter pv_available enabled)
      in if providers = [] then [env_provider environ] else providers)"

definition register_provider :: "provider \<Rightarrow> provider list \<Rightarrow> provider list" where
  "register_provider p providers = sort_key pv_priority (providers @ [p])"

section \<open>Reading a setting\<close>

fun config_get :: "provider list \<Rightarrow> string \<Rightarrow> json option result" where
  "config_get [] key = Inr None"
| "config_get (p # ps) key =
     (case pv_get p key of
        Inl e \<Rightarrow> Inl e
      | Inr (Some value) \<Rightarrow> Inr (Some value)
      | Inr None \<Rightarrow> config_get ps key)"

text \<open>\<^verbatim>\<open>str\<close> of a value; \<open>show\<close> is that of a value that is not a text.\<close>

definition text_of :: "(json \<Rightarrow> string) \<Rightarrow> json \<Rightarrow> string" where
  "text_of show v = (case v of JString s \<Rightarrow> s | _ \<Rightarrow> show v)"

definition config_get_bool :: "(json \<Rightarrow> string) \<Rightarrow> provider list \<Rightarrow> string \<Rightarrow> bool \<Rightarrow> bool result" where
  "config_get_bool show ps key dflt =
     bind_result (config_get ps key) (\<lambda>value.
     Inr (case value of
        None \<Rightarrow> dflt
      | Some (JBool b) \<Rightarrow> b
      | Some v \<Rightarrow> py_lower (text_of show v) \<in> {''true'', ''1'', ''t''}))"

definition config_get_int :: "provider list \<Rightarrow> string \<Rightarrow> int \<Rightarrow> int result" where
  "config_get_int ps key dflt =
     bind_result (config_get ps key) (\<lambda>value.
     Inr (case value of
        None \<Rightarrow> dflt
      | Some v \<Rightarrow> (case int_of_json v of Inr i \<Rightarrow> i | Inl _ \<Rightarrow> dflt)))"

definition config_get_list :: "(json \<Rightarrow> string) \<Rightarrow> provider list \<Rightarrow> string \<Rightarrow> json list \<Rightarrow> json list result" where
  "config_get_list show ps key dflt =
     bind_result (config_get ps key) (\<lambda>value.
     Inr (case value of
        None \<Rightarrow> dflt
      | Some (JArray vs) \<Rightarrow> vs
      | Some v \<Rightarrow> map (\<lambda>s. JString (py_strip s)) (split '','' (text_of show v))))"

section \<open>The settings\<close>

text \<open>
  The settings as the other theories use them: texts and lists of texts, where a value of another
  type is shown as one.
\<close>

definition setting :: "(json \<Rightarrow> string) \<Rightarrow> provider list \<Rightarrow> string \<Rightarrow> string option result" where
  "setting show ps key = bind_result (config_get ps key) (\<lambda>value. Inr (map_option (text_of show) value))"

definition setting_or :: "(json \<Rightarrow> string) \<Rightarrow> provider list \<Rightarrow> string \<Rightarrow> string \<Rightarrow> string result" where
  "setting_or show ps key dflt =
     bind_result (setting show ps key) (\<lambda>value. Inr (case value of Some s \<Rightarrow> s | None \<Rightarrow> dflt))"

definition setting_list :: "(json \<Rightarrow> string) \<Rightarrow> provider list \<Rightarrow> string \<Rightarrow> string list \<Rightarrow> string list result" where
  "setting_list show ps key dflt =
     bind_result (config_get_list show ps key (map JString dflt)) (\<lambda>vs. Inr (map (text_of show) vs))"

text \<open>
  The settings of one record are read one after the other, and the first that raises ends the start. The
  code reads all settings in one sequence, here the records come in turn, so where several settings raise
  it may be another of them that is reported.
\<close>

definition load_auth_config :: "(json \<Rightarrow> string) \<Rightarrow> provider list \<Rightarrow> auth_config result" where
  "load_auth_config show ps =
     bind_result (setting_list show ps ''PERMISSION_SOURCE_ORDER'' [''user'', ''group'', ''regex'', ''group-regex'']) (\<lambda>permission_source_order.
     bind_result (setting_or show ps ''DEFAULT_MLFLOW_PERMISSION'' ''MANAGE'') (\<lambda>default_mlflow_permission.
     bind_result (config_get_bool show ps ''MLFLOW_ENABLE_WORKSPACES'' False) (\<lambda>mlflow_enable_workspaces.
     Inr \<lparr>PERMISSION_SOURCE_ORDER = permission_source_order,
          DEFAULT_MLFLOW_PERMISSION = default_mlflow_permission,
          MLFLOW_ENABLE_WORKSPACES = mlflow_enable_workspaces\<rparr>)))"

definition load_oidc_config :: "(json \<Rightarrow> string) \<Rightarrow> provider list \<Rightarrow> oidc_config result" where
  "load_oidc_config show ps =
     bind_result (setting show ps ''OIDC_DISCOVERY_URL'') (\<lambda>oidc_discovery_url.
     bind_result (setting show ps ''OIDC_CLIENT_ID'') (\<lambda>oidc_client_id.
     bind_result (setting show ps ''OIDC_CLIENT_SECRET'') (\<lambda>oidc_client_secret.
     bind_result (setting_or show ps ''OIDC_SCOPE'' ''openid,email,profile'') (\<lambda>oidc_scope.
     bind_result (setting show ps ''OIDC_AUDIENCE'') (\<lambda>oidc_audience.
     bind_result (setting show ps ''OIDC_REDIRECT_URI'') (\<lambda>oidc_redirect_uri.
     bind_result (setting_or show ps ''OIDC_PROVIDER_DISPLAY_NAME'' ''Login with OIDC'') (\<lambda>oidc_provider_display_name.
     bind_result (setting_list show ps ''OIDC_USERNAME_FIELD'' [''email'', ''preferred_username'']) (\<lambda>oidc_username_field.
     bind_result (setting_list show ps ''OIDC_DISPLAY_NAME_FIELD'' [''name'']) (\<lambda>oidc_display_name_field.
     bind_result (setting_or show ps ''OIDC_GROUPS_ATTRIBUTE'' ''groups'') (\<lambda>oidc_groups_attribute.
     bind_result (setting_list show ps ''OIDC_GROUP_NAME'' [''mlflow'']) (\<lambda>oidc_group_name.
     bind_result (setting_list show ps ''OIDC_ADMIN_GROUP_NAME'' [''mlflow-admin'']) (\<lambda>oidc_admin_group_name.
     bind_result (setting show ps ''OIDC_GROUP_DETECTION_PLUGIN'') (\<lambda>oidc_group_detection_plugin.
     bind_result (setting_or show ps ''OIDC_WORKSPACE_CLAIM_NAME'' ''workspace'') (\<lambda>oidc_workspace_claim_name.
     bind_result (setting show ps ''OIDC_WORKSPACE_DETECTION_PLUGIN'') (\<lambda>oidc_workspace_detection_plugin.
     bind_result (setting_or show ps ''OIDC_WORKSPACE_DEFAULT_PERMISSION'' ''NO_PERMISSIONS'') (\<lambda>oidc_workspace_default_permission.
     bind_result (config_get_bool show ps ''OIDC_USE_REFRESH_TOKEN'' False) (\<lambda>oidc_use_refresh_token.
     bind_result (config_get_int ps ''OIDC_SESSION_EXPIRY_LEEWAY_SECONDS'' 30) (\<lambda>oidc_session_expiry_leeway_seconds.
     bind_result (config_get_bool show ps ''DEFAULT_LANDING_PAGE_IS_PERMISSIONS'' True) (\<lambda>default_landing_page_is_permissions.
     bind_result (config_get_bool show ps ''AUTOMATIC_LOGIN_REDIRECT'' False) (\<lambda>automatic_login_redirect.
     Inr \<lparr>OIDC_DISCOVERY_URL = oidc_discovery_url, OIDC_CLIENT_ID = oidc_client_id,
          OIDC_CLIENT_SECRET = oidc_client_secret, OIDC_SCOPE = Some oidc_scope, OIDC_AUDIENCE = oidc_audience,
          OIDC_REDIRECT_URI = oidc_redirect_uri, OIDC_PROVIDER_DISPLAY_NAME = oidc_provider_display_name,
          OIDC_USERNAME_FIELD = oidc_username_field, OIDC_DISPLAY_NAME_FIELD = oidc_display_name_field,
          OIDC_GROUPS_ATTRIBUTE = oidc_groups_attribute, OIDC_GROUP_NAME = oidc_group_name,
          OIDC_ADMIN_GROUP_NAME = oidc_admin_group_name,
          OIDC_GROUP_DETECTION_PLUGIN = oidc_group_detection_plugin,
          OIDC_WORKSPACE_CLAIM_NAME = oidc_workspace_claim_name,
          OIDC_WORKSPACE_DETECTION_PLUGIN = oidc_workspace_detection_plugin,
          OIDC_WORKSPACE_DEFAULT_PERMISSION = oidc_workspace_default_permission,
          OIDC_USE_REFRESH_TOKEN = oidc_use_refresh_token,
          OIDC_SESSION_EXPIRY_LEEWAY_SECONDS = oidc_session_expiry_leeway_seconds,
          DEFAULT_LANDING_PAGE_IS_PERMISSIONS = default_landing_page_is_permissions,
          AUTOMATIC_LOGIN_REDIRECT = automatic_login_redirect\<rparr>))))))))))))))))))))"

definition load_cache_config :: "(json \<Rightarrow> string) \<Rightarrow> provider list \<Rightarrow> cache_config result" where
  "load_cache_config show ps =
     bind_result (setting_or show ps ''CACHE_BACKEND'' ''local'') (\<lambda>cache_backend.
     bind_result (setting show ps ''CACHE_REDIS_URL'') (\<lambda>cache_redis_url.
     bind_result (setting_or show ps ''CACHE_KEY_PREFIX'' ''mlflow_oidc_auth:'') (\<lambda>cache_key_prefix.
     Inr \<lparr>CACHE_BACKEND = cache_backend, CACHE_REDIS_URL = cache_redis_url,
          CACHE_KEY_PREFIX = cache_key_prefix\<rparr>)))"

text \<open>A limit or fraction that cannot be read raises; \<open>to_float\<close> is \<^verbatim>\<open>float\<close>. That the database gives
  back times without their zone is no setting but follows from its kind.\<close>

definition load_quota_config :: "(json \<Rightarrow> rat result) \<Rightarrow> bool \<Rightarrow> provider list \<Rightarrow> quota_config result" where
  "load_quota_config to_float naive ps =
     bind_result (config_get ps ''QUOTA_DEFAULT_BYTES'') (\<lambda>given_bytes.
     bind_result (case given_bytes of
         None \<Rightarrow> Inr None | Some v \<Rightarrow> map_sum id Some (int_of_json v)) (\<lambda>quota_bytes.
     bind_result (config_get ps ''QUOTA_SOFT_CAP_FRACTION'') (\<lambda>given_fraction.
     bind_result (case given_fraction of
         None \<Rightarrow> Inr (9 / 10) | Some v \<Rightarrow> to_float v) (\<lambda>soft_cap.
     Inr \<lparr>QUOTA_DEFAULT_BYTES = quota_bytes, QUOTA_SOFT_CAP_FRACTION = soft_cap, naive_times = naive\<rparr>))))"

record cookie_config =
  ck_secret_key :: string
  ck_name :: string
  ck_max_age :: "int option"
  ck_samesite :: string
  ck_secure :: bool

text \<open>Without a key a random one is drawn; no age is an age of zero.\<close>

definition load_cookie_config :: "(json \<Rightarrow> string) \<Rightarrow> string \<Rightarrow> provider list \<Rightarrow> cookie_config result" where
  "load_cookie_config show random_key ps =
     bind_result (setting show ps ''SECRET_KEY'') (\<lambda>given_key.
     bind_result (setting_or show ps ''SESSION_COOKIE_NAME'' ''session'') (\<lambda>name.
     bind_result (config_get_int ps ''SESSION_COOKIE_MAX_AGE_SECONDS'' (14 * 24 * 60 * 60)) (\<lambda>max_age.
     bind_result (setting_or show ps ''SESSION_COOKIE_SAMESITE'' ''lax'') (\<lambda>given_samesite.
     let secret_key = (case given_key of
            Some k \<Rightarrow> if k = '''' then random_key else k | None \<Rightarrow> random_key);
         samesite = py_lower given_samesite
     in if samesite \<notin> {''lax'', ''strict'', ''none''} then Inl ValueError
        else bind_result (config_get_bool show ps ''SESSION_COOKIE_SECURE'' False) (\<lambda>secure.
          Inr \<lparr>ck_secret_key = secret_key, ck_name = name,
           ck_max_age = (if max_age = 0 then None else Some max_age), ck_samesite = samesite,
           ck_secure = secure\<rparr>)))))"

text \<open>The rest of the settings, and all of them as one object.\<close>

record other_settings =
  OIDC_ALEMBIC_VERSION_TABLE :: string
  OIDC_USERS_DB_URI :: string
  AUDIT_LOG_LEVEL :: string
  QUOTA_SMTP_HOST :: string
  QUOTA_SMTP_FROM :: string
  QUOTA_SMTP_USERNAME :: "string option"
  QUOTA_SMTP_PASSWORD :: "string option"
  PRIVACY_POLICY_URL :: "string option"
  TERMS_OF_SERVICE_URL :: "string option"
  LEGALS_URL :: "string option"
  DOMAIN :: "string option"
  EXTEND_MLFLOW_MENU :: bool
  EXTEND_MLFLOW_REAUTH :: bool
  OIDC_GEN_AI_GATEWAY_ENABLED :: bool
  AUDIT_LOG_ENABLED :: bool
  ENABLE_API_DOCS :: bool
  QUOTA_SMTP_TLS :: bool
  OIDC_JWKS_CACHE_TTL_SECONDS :: int
  PERMISSION_CACHE_TTL_SECONDS :: int
  WORKSPACE_CACHE_MAX_SIZE :: int
  WORKSPACE_CACHE_TTL_SECONDS :: int
  DB_POOL_SIZE :: int
  DB_POOL_MAX_OVERFLOW :: int
  DB_POOL_RECYCLE_SECONDS :: int
  QUOTA_SMTP_PORT :: int
  QUOTA_RECONCILE_INTERVAL_S :: int
  QUOTA_TRASH_RETENTION_DAYS :: int
  TRUSTED_PROXIES :: "string list"

definition load_other_settings :: "(json \<Rightarrow> string) \<Rightarrow> provider list \<Rightarrow> other_settings result" where
  "load_other_settings show ps =
     bind_result (setting_or show ps ''OIDC_ALEMBIC_VERSION_TABLE'' ''alembic_version'') (\<lambda>oidc_alembic_version_table.
     bind_result (setting_or show ps ''OIDC_USERS_DB_URI'' ''sqlite:///auth.db'') (\<lambda>oidc_users_db_uri.
     bind_result (setting_or show ps ''AUDIT_LOG_LEVEL'' ''INFO'') (\<lambda>audit_log_level.
     bind_result (setting_or show ps ''QUOTA_SMTP_HOST'' ''localhost'') (\<lambda>quota_smtp_host.
     bind_result (setting_or show ps ''QUOTA_SMTP_FROM'' ''mlflow-quota@localhost'') (\<lambda>quota_smtp_from.
     bind_result (setting show ps ''QUOTA_SMTP_USERNAME'') (\<lambda>quota_smtp_username.
     bind_result (setting show ps ''QUOTA_SMTP_PASSWORD'') (\<lambda>quota_smtp_password.
     bind_result (setting show ps ''PRIVACY_POLICY_URL'') (\<lambda>privacy_policy_url.
     bind_result (setting show ps ''TERMS_OF_SERVICE_URL'') (\<lambda>terms_of_service_url.
     bind_result (setting show ps ''LEGALS_URL'') (\<lambda>legals_url.
     bind_result (setting show ps ''DOMAIN'') (\<lambda>domain.
     bind_result (config_get_bool show ps ''EXTEND_MLFLOW_MENU'' True) (\<lambda>extend_mlflow_menu.
     bind_result (config_get_bool show ps ''EXTEND_MLFLOW_REAUTH'' True) (\<lambda>extend_mlflow_reauth.
     bind_result (config_get_bool show ps ''OIDC_GEN_AI_GATEWAY_ENABLED'' True) (\<lambda>oidc_gen_ai_gateway_enabled.
     bind_result (config_get_bool show ps ''AUDIT_LOG_ENABLED'' True) (\<lambda>audit_log_enabled.
     bind_result (config_get_bool show ps ''ENABLE_API_DOCS'' False) (\<lambda>enable_api_docs.
     bind_result (config_get_bool show ps ''QUOTA_SMTP_TLS'' True) (\<lambda>quota_smtp_tls.
     bind_result (config_get_int ps ''OIDC_JWKS_CACHE_TTL_SECONDS'' 300) (\<lambda>oidc_jwks_cache_ttl_seconds.
     bind_result (config_get_int ps ''PERMISSION_CACHE_TTL_SECONDS'' 30) (\<lambda>permission_cache_ttl_seconds.
     bind_result (config_get_int ps ''WORKSPACE_CACHE_MAX_SIZE'' 1024) (\<lambda>workspace_cache_max_size.
     bind_result (config_get_int ps ''WORKSPACE_CACHE_TTL_SECONDS'' 300) (\<lambda>workspace_cache_ttl_seconds.
     bind_result (config_get_int ps ''OIDC_DB_POOL_SIZE'' 0) (\<lambda>db_pool_size.
     bind_result (config_get_int ps ''OIDC_DB_POOL_MAX_OVERFLOW'' 0) (\<lambda>db_pool_max_overflow.
     bind_result (config_get_int ps ''OIDC_DB_POOL_RECYCLE_SECONDS'' 0) (\<lambda>db_pool_recycle_seconds.
     bind_result (config_get_int ps ''QUOTA_SMTP_PORT'' 587) (\<lambda>quota_smtp_port.
     bind_result (config_get_int ps ''QUOTA_RECONCILE_INTERVAL_S'' 3600) (\<lambda>quota_reconcile_interval_s.
     bind_result (config_get_int ps ''QUOTA_TRASH_RETENTION_DAYS'' 30) (\<lambda>quota_trash_retention_days.
     bind_result (setting_list show ps ''TRUSTED_PROXIES'' []) (\<lambda>trusted_proxies.
     Inr \<lparr>OIDC_ALEMBIC_VERSION_TABLE = oidc_alembic_version_table,
          OIDC_USERS_DB_URI = oidc_users_db_uri, AUDIT_LOG_LEVEL = audit_log_level,
          QUOTA_SMTP_HOST = quota_smtp_host, QUOTA_SMTP_FROM = quota_smtp_from,
          QUOTA_SMTP_USERNAME = quota_smtp_username, QUOTA_SMTP_PASSWORD = quota_smtp_password,
          PRIVACY_POLICY_URL = privacy_policy_url, TERMS_OF_SERVICE_URL = terms_of_service_url,
          LEGALS_URL = legals_url, DOMAIN = domain, EXTEND_MLFLOW_MENU = extend_mlflow_menu,
          EXTEND_MLFLOW_REAUTH = extend_mlflow_reauth,
          OIDC_GEN_AI_GATEWAY_ENABLED = oidc_gen_ai_gateway_enabled, AUDIT_LOG_ENABLED = audit_log_enabled,
          ENABLE_API_DOCS = enable_api_docs, QUOTA_SMTP_TLS = quota_smtp_tls,
          OIDC_JWKS_CACHE_TTL_SECONDS = oidc_jwks_cache_ttl_seconds,
          PERMISSION_CACHE_TTL_SECONDS = permission_cache_ttl_seconds,
          WORKSPACE_CACHE_MAX_SIZE = workspace_cache_max_size,
          WORKSPACE_CACHE_TTL_SECONDS = workspace_cache_ttl_seconds, DB_POOL_SIZE = db_pool_size,
          DB_POOL_MAX_OVERFLOW = db_pool_max_overflow, DB_POOL_RECYCLE_SECONDS = db_pool_recycle_seconds,
          QUOTA_SMTP_PORT = quota_smtp_port, QUOTA_RECONCILE_INTERVAL_S = quota_reconcile_interval_s,
          QUOTA_TRASH_RETENTION_DAYS = quota_trash_retention_days, TRUSTED_PROXIES = trusted_proxies\<rparr>))))))))))))))))))))))))))))"

record app_config =
  ac_auth :: auth_config
  ac_oidc :: oidc_config
  ac_cache :: cache_config
  ac_quota :: quota_config
  ac_cookie :: cookie_config
  ac_other :: other_settings

definition load_app_config :: "(json \<Rightarrow> string) \<Rightarrow> (json \<Rightarrow> rat result) \<Rightarrow> bool \<Rightarrow> string \<Rightarrow>
    provider list \<Rightarrow> app_config result" where
  "load_app_config show to_float naive random_key ps =
     bind_result (load_auth_config show ps) (\<lambda>auth.
     bind_result (load_cookie_config show random_key ps) (\<lambda>cookie.
     bind_result (load_oidc_config show ps) (\<lambda>oidc.
     bind_result (load_cache_config show ps) (\<lambda>cache.
     bind_result (load_quota_config to_float naive ps) (\<lambda>quota.
     bind_result (load_other_settings show ps) (\<lambda>others.
     Inr \<lparr>ac_auth = auth, ac_oidc = oidc, ac_cache = cache, ac_quota = quota, ac_cookie = cookie,
          ac_other = others\<rparr>))))))"

section \<open>MLflow's environment\<close>

datatype secret_level = PUBLIC | SENSITIVE | SECRET

definition SECRET_CLASSIFICATION :: "(string \<times> secret_level) list" where
  "SECRET_CLASSIFICATION =
     [(''SECRET_KEY'', SECRET), (''OIDC_CLIENT_SECRET'', SECRET), (''OIDC_USERS_DB_URI'', SENSITIVE),
      (''OIDC_CLIENT_ID'', SENSITIVE), (''MLFLOW_BACKEND_STORE_URI'', SECRET),
      (''MLFLOW_REGISTRY_STORE_URI'', SECRET), (''MLFLOW_FLASK_SERVER_SECRET_KEY'', SECRET)]"

definition get_secret_level :: "string \<Rightarrow> secret_level" where
  "get_secret_level key = (case map_of SECRET_CLASSIFICATION key of Some l \<Rightarrow> l | None \<Rightarrow> PUBLIC)"

text \<open>Every key is mapped to the variable of the same name.\<close>

definition MLFLOW_ENV_MAPPINGS :: "string list" where
  "MLFLOW_ENV_MAPPINGS =
     [''MLFLOW_BACKEND_STORE_URI'', ''MLFLOW_REGISTRY_STORE_URI'', ''MLFLOW_DEFAULT_ARTIFACT_ROOT'',
      ''MLFLOW_ARTIFACTS_DESTINATION'', ''MLFLOW_SERVE_ARTIFACTS'', ''MLFLOW_ARTIFACTS_ONLY'',
      ''MLFLOW_WORKERS'', ''MLFLOW_GUNICORN_OPTS'', ''MLFLOW_UVICORN_OPTS'', ''MLFLOW_STATIC_PREFIX'',
      ''MLFLOW_FLASK_SERVER_SECRET_KEY'']"

definition is_set :: "(string \<Rightarrow> string option) \<Rightarrow> string \<Rightarrow> bool" where
  "is_set environ k = (case environ k of Some s \<Rightarrow> s \<noteq> '''' | None \<Rightarrow> False)"

text \<open>The manager reads the environment that is being changed, through its provider. What has been
  set stays set when a later key raises.\<close>

fun configure_loop :: "(json \<Rightarrow> string) \<Rightarrow> ((string \<Rightarrow> string option) \<Rightarrow> provider list) \<Rightarrow> bool \<Rightarrow> string list \<Rightarrow>
    (string \<Rightarrow> string option) \<Rightarrow> (string \<times> json) list result \<times> (string \<Rightarrow> string option)" where
  "configure_loop show providers override [] environ = (Inr [], environ)"
| "configure_loop show providers override (k # ks) environ =
     (if \<not> override \<and> is_set environ k then configure_loop show providers override ks environ
      else (case config_get (providers environ) k of
              Inl e \<Rightarrow> (Inl e, environ)
            | Inr None \<Rightarrow> configure_loop show providers override ks environ
            | Inr (Some v) \<Rightarrow>
                let (configured, environ') = configure_loop show providers override ks (environ(k \<mapsto> text_of show v))
                in (bind_result configured (\<lambda>others. Inr ((k, v) # others)), environ')))"

definition configure_mlflow_environment where
  "configure_mlflow_environment show providers override environ =
     configure_loop show providers override MLFLOW_ENV_MAPPINGS environ"

definition get_mlflow_config_summary :: "(string \<Rightarrow> string option) \<Rightarrow> (string \<times> string) list" where
  "get_mlflow_config_summary environ =
     List.map_filter (\<lambda>k.
       if is_set environ k
       then Some (k, if get_secret_level k \<in> {SECRET, SENSITIVE} then ''********'' else the (environ k))
       else None) MLFLOW_ENV_MAPPINGS"

section \<open>Which provider decides\<close>

lemma config_get_least:
  assumes "sorted (map pv_priority ps)" and "config_get ps key = r" and "r \<noteq> Inr None"
  shows "\<exists>p\<in>set ps. pv_get p key = r \<and> (\<forall>q\<in>set ps. pv_get q key \<noteq> Inr None \<longrightarrow> pv_priority p \<le> pv_priority q)"
  using assms by (induction ps) (auto split: option.splits sum.splits)

lemma config_get_None: "config_get ps key = Inr None \<longleftrightarrow> (\<forall>p\<in>set ps. pv_get p key = Inr None)"
  by (induction ps) (auto split: option.split sum.split)

text \<open>A manager: discovered, then extended.\<close>

fun managed_providers :: "provider list \<Rightarrow> provider list \<Rightarrow> provider list" where
  "managed_providers ps [] = ps"
| "managed_providers ps (p # new) = managed_providers (register_provider p ps) new"

lemma managed_providers_sorted:
  "sorted (map pv_priority ps) \<Longrightarrow> sorted (map pv_priority (managed_providers ps new))"
  by (induction new arbitrary: ps) (simp_all add: register_provider_def)

lemma managed_providers_set: "set (managed_providers ps new) = set ps \<union> set new"
  by (induction new arbitrary: ps) (auto simp: register_provider_def)

lemma discover_sorted: "sorted (map pv_priority (discover_providers builtin entry_points environ))"
  by (simp add: discover_providers_def Let_def)

text \<open>C21: A setting has the value of a provider with the least priority number among all that know it,
  whether they were discovered or registered later, and the default only when none knows it; a
  provider that raises when it is asked ends the search, and its priority number is no greater than
  that of any that knows the setting. Every discovered provider but the last resort is available and,
  where \<^verbatim>\<open>CONFIG_PROVIDERS\<close> names providers, named there.\<close>

theorem highest_priority_decides:
  "(case config_get (managed_providers (discover_providers builtin entry_points environ) new) key of
      Inr None \<Rightarrow> \<forall>p\<in>set (discover_providers builtin entry_points environ) \<union> set new. pv_get p key = Inr None
    | r \<Rightarrow> \<exists>p\<in>set (discover_providers builtin entry_points environ) \<union> set new.
        pv_get p key = r \<and>
        (\<forall>q\<in>set (discover_providers builtin entry_points environ) \<union> set new.
           pv_get q key \<noteq> Inr None \<longrightarrow> pv_priority p \<le> pv_priority q)) \<and>
   (\<forall>p\<in>set (discover_providers builtin entry_points environ).
      discover_providers builtin entry_points environ = [env_provider environ] \<or>
      pv_available p \<and> (\<forall>names. environ ''CONFIG_PROVIDERS'' = Some names \<longrightarrow> names \<noteq> '''' \<longrightarrow>
        pv_name p \<in> set (map py_strip (split '','' names))))"
proof
  let ?ps = "managed_providers (discover_providers builtin entry_points environ) new"
  have s: "sorted (map pv_priority ?ps)" by (rule managed_providers_sorted [OF discover_sorted])
  show "case config_get ?ps key of
      Inr None \<Rightarrow> \<forall>p\<in>set (discover_providers builtin entry_points environ) \<union> set new. pv_get p key = Inr None
    | r \<Rightarrow> \<exists>p\<in>set (discover_providers builtin entry_points environ) \<union> set new.
        pv_get p key = r \<and>
        (\<forall>q\<in>set (discover_providers builtin entry_points environ) \<union> set new.
           pv_get q key \<noteq> Inr None \<longrightarrow> pv_priority p \<le> pv_priority q)"
  proof (cases "config_get ?ps key")
    case (Inl e)
    from config_get_least [OF s Inl] show ?thesis unfolding managed_providers_set Inl by simp
  next
    case (Inr found)
    show ?thesis
    proof (cases found)
      case None
      with Inr config_get_None [of ?ps key] show ?thesis unfolding managed_providers_set by simp
    next
      case (Some v)
      with Inr have v: "config_get ?ps key = Inr (Some v)" by simp
      from config_get_least [OF s v] show ?thesis unfolding managed_providers_set v by simp
    qed
  qed
  show "\<forall>p\<in>set (discover_providers builtin entry_points environ).
      discover_providers builtin entry_points environ = [env_provider environ] \<or>
      pv_available p \<and> (\<forall>names. environ ''CONFIG_PROVIDERS'' = Some names \<longrightarrow> names \<noteq> '''' \<longrightarrow>
        pv_name p \<in> set (map py_strip (split '','' names)))"
    by (auto simp: discover_providers_def Let_def)
qed

text \<open>A vault that keeps a secret which the environment has too.\<close>

definition example_vault :: provider where
  "example_vault = \<lparr>pv_name = ''vault'', pv_priority = 10, pv_available = True,
     pv_get = (\<lambda>k. Inr (if k = ''OIDC_CLIENT_SECRET'' then Some (JString ''kept'') else None))\<rparr>"

definition example_environ :: "string \<Rightarrow> string option" where
  "example_environ = map_of [(''OIDC_CLIENT_SECRET'', ''plain''), (''CONFIG_PROVIDERS'', ''env , vault'')]"

theorem highest_priority_decides_witness:
  "\<exists>p\<in>set (discover_providers [Some example_vault, None] (Inr [Inl OtherError]) example_environ).
     config_get (managed_providers (discover_providers [Some example_vault, None] (Inr [Inl OtherError]) example_environ) [])
       ''OIDC_CLIENT_SECRET'' = Inr (Some (JString ''kept'')) \<and>
     pv_get p ''OIDC_CLIENT_SECRET'' = Inr (Some (JString ''kept'')) \<and> pv_available p \<and> pv_name p \<in> {''env'', ''vault''}"
proof -
  let ?ps = "discover_providers [Some example_vault, None] (Inr [Inl OtherError]) example_environ"
  have get: "config_get (managed_providers ?ps []) ''OIDC_CLIENT_SECRET'' = Inr (Some (JString ''kept''))"
    and two: "length ?ps = 2" by code_simp+
  have names: "example_environ ''CONFIG_PROVIDERS'' = Some ''env , vault''"
    "py_strip ` set (split '','' ''env , vault'') = {''env'', ''vault''}" by code_simp+
  from highest_priority_decides [of "[Some example_vault, None]" "Inr [Inl OtherError]" example_environ "[]" "''OIDC_CLIENT_SECRET''"]
  obtain p where p: "p \<in> set ?ps" "pv_get p ''OIDC_CLIENT_SECRET'' = Inr (Some (JString ''kept''))"
    and rest: "?ps = [env_provider example_environ] \<or> pv_available p \<and> pv_name p \<in> {''env'', ''vault''}"
    unfolding get by (auto simp: names)
  have "?ps \<noteq> [env_provider example_environ]" using two by auto
  with get p rest show ?thesis by blast
qed

lemma no_settings:
  assumes "\<And>k. config_get ps k = Inr None"
  shows "load_auth_config show ps = Inr default_config"
  by (simp add: load_auth_config_def default_config_def setting_or_def setting_def setting_list_def config_get_list_def
      config_get_bool_def assms text_of_def)

text \<open>An empty list in the environment is a list of one empty text.\<close>

lemma empty_list_setting:
  "config_get ps key = Inr (Some (JString '''')) \<Longrightarrow> config_get_list show ps key dflt = Inr [JString '''']"
  by (simp add: config_get_list_def text_of_def split_def py_strip_def)

text \<open>No secret of MLflow is shown.\<close>

lemma summary_hides_secrets:
  assumes "(k, v) \<in> set (get_mlflow_config_summary environ)" and "get_secret_level k \<noteq> PUBLIC"
  shows "v = ''********''"
  using assms by (auto simp: get_mlflow_config_summary_def map_filter_def split: if_splits)
    (metis secret_level.exhaust)+

end
