(* ===== verification/CloudProviders.thy ===== *)
theory CloudProviders
  imports ConfigManager Uri "HOL-Library.Sublist"
begin

text \<open>
  The providers of settings besides the environment (\<^verbatim>\<open>config_providers/*_provider.py\<close>), each with the
  cache it keeps: Kubernetes secrets, HashiCorp Vault, AWS Secrets Manager and Parameter Store and
  Azure Key Vault. The clients of the services are parameters. The facts: which settings a provider
  gives at all, whence its values come, and where one can see more than it should.
\<close>

section \<open>A source with a cache\<close>

text \<open>The cache is what was read, usually an object; a client is there or not.\<close>

record secret_source =
  so_client :: bool
  so_cache :: json
  so_initialized :: bool

definition new_source :: secret_source where
  "new_source = \<lparr>so_client = False, so_cache = JObject [], so_initialized = False\<rparr>"

definition set_cache :: "json \<Rightarrow> (unit, secret_source) action" where
  "set_cache v = (\<lambda>s. (Inr (), s\<lparr>so_cache := v\<rparr>))"

definition set_client :: "bool \<Rightarrow> (unit, secret_source) action" where
  "set_client b = (\<lambda>s. (Inr (), s\<lparr>so_client := b\<rparr>))"

definition set_initialized :: "bool \<Rightarrow> (unit, secret_source) action" where
  "set_initialized b = (\<lambda>s. (Inr (), s\<lparr>so_initialized := b\<rparr>))"

text \<open>\<^verbatim>\<open>cache.get(key, default)\<close>: \<open>None\<close> is the default; what is no object has no \<^verbatim>\<open>get\<close>.\<close>

definition cache_lookup :: "json \<Rightarrow> string \<Rightarrow> json option result" where
  "cache_lookup cache key = (case cache of JObject kvs \<Rightarrow> Inr (map_of kvs key) | _ \<Rightarrow> Inl OtherError)"

definition read_cache :: "string \<Rightarrow> (json option, secret_source) action" where
  "read_cache key = act_read (\<lambda>s. cache_lookup (so_cache s) key)"

text \<open>The first use makes the client and loads; what raises there is tried again by the next use.\<close>

definition ensure_initialized :: "(unit, secret_source) action \<Rightarrow> (unit, secret_source) action" where
  "ensure_initialized load =
     act_bind (act_read (\<lambda>s. Inr (so_initialized s))) (\<lambda>done.
     act_when (\<not> done) (act_bind load (\<lambda>_. set_initialized True)))"

definition close_source :: "(unit, secret_source) action" where
  "close_source =
     act_bind (set_client False) (\<lambda>_. act_bind (set_cache (JObject [])) (\<lambda>_. set_initialized False))"

definition env_or :: "(string \<Rightarrow> string option) \<Rightarrow> string \<Rightarrow> string \<Rightarrow> string" where
  "env_or environ key dflt = (case environ key of Some v \<Rightarrow> v | None \<Rightarrow> dflt)"

definition enabled :: "(string \<Rightarrow> string option) \<Rightarrow> string \<Rightarrow> bool" where
  "enabled environ key = (py_lower (env_or environ key '''') = ''true'')"

definition int_setting :: "(string \<Rightarrow> string option) \<Rightarrow> string \<Rightarrow> string \<Rightarrow> int result" where
  "int_setting environ key dflt =
     (case py_int (env_or environ key dflt) of Some i \<Rightarrow> Inr i | None \<Rightarrow> Inl ValueError)"

text \<open>\<^verbatim>\<open>v.get(key, dflt)\<close> on what may be no object.\<close>

definition get_default :: "json \<Rightarrow> string \<Rightarrow> json \<Rightarrow> json result" where
  "get_default v key dflt =
     (case v of JObject kvs \<Rightarrow> Inr (case map_of kvs key of Some x \<Rightarrow> x | None \<Rightarrow> dflt) | _ \<Rightarrow> Inl OtherError)"

definition put_key :: "string \<Rightarrow> json \<Rightarrow> json \<Rightarrow> json" where
  "put_key key v cache =
     (case cache of JObject kvs \<Rightarrow> JObject ((key, v) # filter (\<lambda>(k, _). k \<noteq> key) kvs) | _ \<Rightarrow> cache)"

section \<open>Kubernetes\<close>

text \<open>The entries of the directory, where it is one: name, whether it is a file, and its text.\<close>

type_synonym secret_files = "(string \<times> bool \<times> string result) list option"

definition k8s_is_available :: "(string \<Rightarrow> string option) \<Rightarrow> secret_files \<Rightarrow> bool" where
  "k8s_is_available environ files \<longleftrightarrow> enabled environ ''CONFIG_K8S_SECRETS_ENABLED'' \<and> files \<noteq> None"

definition strip_line_ends :: "string \<Rightarrow> string" where
  "strip_line_ends s = rev (dropWhile (\<lambda>c. of_char c \<in> {10, 13 :: nat}) (rev s))"

fun k8s_read_files :: "(string \<times> bool \<times> string result) list \<Rightarrow> json \<Rightarrow> json" where
  "k8s_read_files [] cache = cache"
| "k8s_read_files ((name, is_file, content) # files) cache =
     k8s_read_files files
       (if is_file \<and> \<not> prefix ''.'' name
        then (case content of Inr s \<Rightarrow> put_key name (JString (strip_line_ends s)) cache | Inl _ \<Rightarrow> cache)
        else cache)"

definition k8s_load_secrets :: "secret_files \<Rightarrow> (unit, secret_source) action" where
  "k8s_load_secrets files =
     act_bind (set_cache (JObject [])) (\<lambda>_.
     case files of None \<Rightarrow> act_return () | Some fs \<Rightarrow> set_cache (k8s_read_files fs (JObject [])))"

definition k8s_get :: "secret_files \<Rightarrow> string \<Rightarrow> (json option, secret_source) action" where
  "k8s_get files key =
     (if get_secret_level key = PUBLIC then act_return None
      else act_bind (ensure_initialized (k8s_load_secrets files)) (\<lambda>_. read_cache key))"

definition k8s_refresh :: "secret_files \<Rightarrow> (unit, secret_source) action" where
  "k8s_refresh files = act_bind (set_cache (JObject [])) (\<lambda>_. k8s_load_secrets files)"

definition k8s_close :: "(unit, secret_source) action" where
  "k8s_close = act_bind (set_cache (JObject [])) (\<lambda>_. set_initialized False)"

section \<open>Vault\<close>

record vault_settings =
  va_token :: "string option"
  va_role_id :: "string option"
  va_secret_id :: "string option"
  va_path :: string
  va_kv_version :: int

record vault_client =
  vc_login :: "unit result"
  vc_read_v2 :: "string \<Rightarrow> string \<Rightarrow> json result"
  vc_read_v1 :: "string \<Rightarrow> json result"

definition vault_settings_of :: "(string \<Rightarrow> string option) \<Rightarrow> vault_settings result" where
  "vault_settings_of environ =
     bind_result (int_setting environ ''CONFIG_VAULT_KV_VERSION'' ''2'') (\<lambda>kv_version.
     Inr \<lparr>va_token = environ ''CONFIG_VAULT_TOKEN'', va_role_id = environ ''CONFIG_VAULT_ROLE_ID'',
          va_secret_id = environ ''CONFIG_VAULT_SECRET_ID'',
          va_path = env_or environ ''CONFIG_VAULT_PATH'' ''secret/data/mlflow-oidc-auth'',
          va_kv_version = kv_version\<rparr>)"

definition given :: "string option \<Rightarrow> bool" where
  "given v \<longleftrightarrow> v \<noteq> None \<and> v \<noteq> Some ''''"

definition vault_is_available :: "(string \<Rightarrow> string option) \<Rightarrow> bool \<Rightarrow> vault_settings \<Rightarrow> bool" where
  "vault_is_available environ has_library v \<longleftrightarrow>
     enabled environ ''CONFIG_VAULT_ENABLED'' \<and>
     (given (va_token v) \<or> given (va_role_id v) \<and> given (va_secret_id v)) \<and> has_library"

text \<open>The path and the mount point for the second version of the key-value engine.\<close>

definition vault_location :: "string \<Rightarrow> string \<times> string" where
  "vault_location path =
     (case rsplit_once (CHR ''/'') path of Some (mount, name) \<Rightarrow> (name, mount) | None \<Rightarrow> (path, ''secret''))"

definition vault_load_secrets :: "vault_client \<Rightarrow> vault_settings \<Rightarrow> (unit, secret_source) action" where
  "vault_load_secrets vc v =
     act_bind (act_read (\<lambda>s. Inr (so_client s))) (\<lambda>client.
     act_when client
       (case (if va_kv_version v = 2
              then bind_result (vc_read_v2 vc (fst (vault_location (va_path v))) (snd (vault_location (va_path v))))
                     (\<lambda>response. bind_result (get_default response ''data'' (JObject [])) (\<lambda>d.
                      get_default d ''data'' (JObject [])))
              else bind_result (vc_read_v1 vc (va_path v)) (\<lambda>response. get_default response ''data'' (JObject []))) of
          Inr cache \<Rightarrow> set_cache cache
        | Inl _ \<Rightarrow> set_cache (JObject [])))"

definition vault_open :: "vault_client \<Rightarrow> vault_settings \<Rightarrow> (unit, secret_source) action" where
  "vault_open vc v =
     act_bind (set_client True) (\<lambda>_.
     act_bind (act_when (\<not> given (va_token v) \<and> given (va_role_id v) \<and> given (va_secret_id v))
         (act_lift (vc_login vc))) (\<lambda>_.
     vault_load_secrets vc v))"

definition vault_get :: "vault_client \<Rightarrow> vault_settings \<Rightarrow> string \<Rightarrow> (json option, secret_source) action" where
  "vault_get vc v key =
     (if get_secret_level key = PUBLIC then act_return None
      else act_bind (ensure_initialized (vault_open vc v)) (\<lambda>_. read_cache key))"

text \<open>A refresh before the first use does nothing.\<close>

definition refresh_if_used :: "(unit, secret_source) action \<Rightarrow> (unit, secret_source) action" where
  "refresh_if_used load = act_bind (act_read (\<lambda>s. Inr (so_initialized s))) (\<lambda>used. act_when used load)"

definition vault_refresh :: "vault_client \<Rightarrow> vault_settings \<Rightarrow> (unit, secret_source) action" where
  "vault_refresh vc v = refresh_if_used (vault_load_secrets vc v)"

section \<open>AWS Secrets Manager\<close>

text \<open>\<open>make_client\<close> and \<open>get_secret\<close> are \<^verbatim>\<open>boto3\<close>; a secret that does not exist is told apart from other
  failures, which are not caught. The text is parsed by \<open>loads\<close>, \<open>None\<close> where it is no JSON.\<close>

datatype aws_answer = AwsSecret json | AwsNotFound | AwsFails exn

record aws_settings =
  aw_secret_name :: string
  aw_region :: string
  aw_cache_ttl :: int

definition aws_settings_of :: "(string \<Rightarrow> string option) \<Rightarrow> aws_settings result" where
  "aws_settings_of environ =
     bind_result (int_setting environ ''CONFIG_AWS_SECRETS_CACHE_TTL'' ''300'') (\<lambda>cache_ttl.
     Inr \<lparr>aw_secret_name = env_or environ ''CONFIG_AWS_SECRETS_NAME'' ''mlflow-oidc-auth'',
          aw_region = env_or environ ''CONFIG_AWS_SECRETS_REGION'' (env_or environ ''AWS_REGION'' ''us-east-1''),
          aw_cache_ttl = cache_ttl\<rparr>)"

definition aws_is_available :: "(string \<Rightarrow> string option) \<Rightarrow> bool \<Rightarrow> bool" where
  "aws_is_available environ has_library \<longleftrightarrow> enabled environ ''CONFIG_AWS_SECRETS_ENABLED'' \<and> has_library"

definition aws_load_secrets :: "aws_answer \<Rightarrow> (string \<Rightarrow> json option) \<Rightarrow> (unit, secret_source) action" where
  "aws_load_secrets answer loads =
     act_bind (act_read (\<lambda>s. Inr (so_client s))) (\<lambda>client.
     act_when client
       (case answer of
          AwsFails e \<Rightarrow> act_raise e
        | AwsNotFound \<Rightarrow> set_cache (JObject [])
        | AwsSecret response \<Rightarrow>
            act_bind (act_lift (get_default response ''SecretString'' JNull)) (\<lambda>secret_string.
            act_when (truthy secret_string)
              (case secret_string of
                 JString s \<Rightarrow>
                   (case loads s of Some v \<Rightarrow> set_cache v | None \<Rightarrow> set_cache (JObject []))
               | _ \<Rightarrow> act_raise OtherError))))"

definition aws_open :: "unit result \<Rightarrow> aws_answer \<Rightarrow> (string \<Rightarrow> json option) \<Rightarrow> (unit, secret_source) action" where
  "aws_open make_client answer loads =
     act_bind (act_lift make_client) (\<lambda>_. act_bind (set_client True) (\<lambda>_. aws_load_secrets answer loads))"

definition aws_get :: "unit result \<Rightarrow> aws_answer \<Rightarrow> (string \<Rightarrow> json option) \<Rightarrow> string \<Rightarrow>
    (json option, secret_source) action" where
  "aws_get make_client answer loads key =
     (if get_secret_level key = PUBLIC then act_return None
      else act_bind (ensure_initialized (aws_open make_client answer loads)) (\<lambda>_. read_cache key))"

definition aws_refresh :: "aws_answer \<Rightarrow> (string \<Rightarrow> json option) \<Rightarrow> (unit, secret_source) action" where
  "aws_refresh answer loads = refresh_if_used (aws_load_secrets answer loads)"

section \<open>AWS Parameter Store\<close>

definition parameters_available :: "(string \<Rightarrow> string option) \<Rightarrow> bool \<Rightarrow> bool" where
  "parameters_available environ has_library \<longleftrightarrow>
     enabled environ ''CONFIG_AWS_PARAMETER_STORE_ENABLED'' \<and> has_library"

definition parameter_prefix :: "(string \<Rightarrow> string option) \<Rightarrow> string" where
  "parameter_prefix environ = env_or environ ''CONFIG_AWS_PARAMETER_STORE_PREFIX'' ''/mlflow-oidc-auth/''"

text \<open>A page lists parameters by name and value; a page or a parameter of another shape raises, as
  the service may, and then nothing is kept.\<close>

fun read_parameters :: "string \<Rightarrow> json list \<Rightarrow> json \<Rightarrow> json result" where
  "read_parameters pre [] cache = Inr cache"
| "read_parameters pre (param # params) cache =
     (case param of
        JObject kvs \<Rightarrow>
          (case (map_of kvs ''Name'', map_of kvs ''Value'') of
             (Some (JString name), Some v) \<Rightarrow> read_parameters pre params (put_key (replace_all pre '''' name) v cache)
           | _ \<Rightarrow> Inl KeyError)
      | _ \<Rightarrow> Inl OtherError)"

fun read_pages :: "string \<Rightarrow> json list \<Rightarrow> json \<Rightarrow> json result" where
  "read_pages pre [] cache = Inr cache"
| "read_pages pre (page # others) cache =
     bind_result (get_default page ''Parameters'' (JArray [])) (\<lambda>params.
     case params of
       JArray ps \<Rightarrow> bind_result (read_parameters pre ps cache) (read_pages pre others)
     | _ \<Rightarrow> Inl OtherError)"

definition load_parameters :: "json list result \<Rightarrow> string \<Rightarrow> (unit, secret_source) action" where
  "load_parameters listing pre =
     act_bind (act_read (\<lambda>s. Inr (so_client s))) (\<lambda>client.
     act_when client
       (act_bind (act_read (\<lambda>s. Inr (so_cache s))) (\<lambda>cache.
        case bind_result listing (\<lambda>ps. read_pages pre ps cache) of
          Inr cache' \<Rightarrow> set_cache cache'
        | Inl _ \<Rightarrow> set_cache (JObject []))))"

definition open_parameters :: "unit result \<Rightarrow> json list result \<Rightarrow> string \<Rightarrow> (unit, secret_source) action" where
  "open_parameters make_client listing pre =
     act_bind (act_lift make_client) (\<lambda>_. act_bind (set_client True) (\<lambda>_. load_parameters listing pre))"

definition parameters_get :: "unit result \<Rightarrow> json list result \<Rightarrow> string \<Rightarrow> string \<Rightarrow>
    (json option, secret_source) action" where
  "parameters_get make_client listing pre key =
     (if get_secret_level key = SECRET then act_return None
      else act_bind (ensure_initialized (open_parameters make_client listing pre)) (\<lambda>_. read_cache key))"

definition parameters_get_many :: "unit result \<Rightarrow> json list result \<Rightarrow> string \<Rightarrow> string list \<Rightarrow>
    ((string \<times> json) list, secret_source) action" where
  "parameters_get_many make_client listing pre keys =
     act_bind (ensure_initialized (open_parameters make_client listing pre)) (\<lambda>_.
     act_read (\<lambda>s. case so_cache s of
       JObject kvs \<Rightarrow> Inr (List.map_filter (\<lambda>k. map_option (Pair k) (map_of kvs k)) (dict_fromkeys keys))
     | _ \<Rightarrow> Inl OtherError))"

definition parameters_refresh :: "json list result \<Rightarrow> string \<Rightarrow> (unit, secret_source) action" where
  "parameters_refresh listing pre =
     refresh_if_used (act_bind (set_cache (JObject [])) (\<lambda>_. load_parameters listing pre))"

section \<open>Azure Key Vault\<close>

definition azure_is_available :: "(string \<Rightarrow> string option) \<Rightarrow> bool \<Rightarrow> bool" where
  "azure_is_available environ has_library \<longleftrightarrow>
     enabled environ ''CONFIG_AZURE_KEYVAULT_ENABLED'' \<and> env_or environ ''CONFIG_AZURE_KEYVAULT_NAME'' '''' \<noteq> '''' \<and>
     has_library"

definition key_to_secret_name :: "string \<Rightarrow> string" where
  "key_to_secret_name key = map (\<lambda>c. if c = CHR ''_'' then CHR ''-'' else c) key"

text \<open>One secret at a time is read and kept; a failure is not.\<close>

definition azure_get :: "unit result \<Rightarrow> (string \<Rightarrow> json result) \<Rightarrow> string \<Rightarrow> (json option, secret_source) action" where
  "azure_get make_client get_secret key =
     (if get_secret_level key = PUBLIC then act_return None
      else act_bind (read_cache key) (\<lambda>cached.
        case cached of
          Some v \<Rightarrow> act_return (Some v)
        | None \<Rightarrow>
            act_bind (ensure_initialized (act_bind (act_lift make_client) (\<lambda>_. set_client True))) (\<lambda>_.
            case get_secret (key_to_secret_name key) of
              Inr v \<Rightarrow> act_bind (\<lambda>s. (Inr (), s\<lparr>so_cache := put_key key v (so_cache s)\<rparr>)) (\<lambda>_. act_return (Some v))
            | Inl _ \<Rightarrow> act_return None)))"

definition azure_refresh :: "(unit, secret_source) action" where
  "azure_refresh = set_cache (JObject [])"

section \<open>What a provider gives\<close>

text \<open>Secrets come only from stores for secrets, and what is public comes from none of these.\<close>

lemma public_settings_elsewhere:
  assumes "get_secret_level key = PUBLIC"
  shows "k8s_get files key s = (Inr None, s)" and "vault_get vc v key s = (Inr None, s)"
    and "aws_get mc answer loads key s = (Inr None, s)" and "azure_get mc get_secret key s = (Inr None, s)"
  using assms by (simp_all add: k8s_get_def vault_get_def aws_get_def azure_get_def)

lemma secrets_not_from_parameters:
  "get_secret_level key = SECRET \<Longrightarrow> parameters_get mc listing pre key s = (Inr None, s)"
  by (simp add: parameters_get_def)

text \<open>But several settings at once are read without looking at their level.\<close>

lemma many_parameters_have_secrets:
  "fst (parameters_get_many (Inr ()) (Inr [JObject [(''Parameters'', JArray
       [JObject [(''Name'', JString ''/mlflow-oidc-auth/SECRET_KEY''), (''Value'', JString ''k'')]])]])
     ''/mlflow-oidc-auth/'' [''SECRET_KEY''] new_source) = Inr [(''SECRET_KEY'', JString ''k'')] \<and>
   get_secret_level ''SECRET_KEY'' = SECRET"
  by code_simp

text \<open>A source that has loaded answers from what it loaded, until it is refreshed or closed.\<close>

lemma loaded_source_answers:
  assumes "so_initialized s" and "so_cache s = JObject kvs"
  shows "get_secret_level key \<noteq> PUBLIC \<Longrightarrow> k8s_get files key s = (Inr (map_of kvs key), s)"
    and "get_secret_level key \<noteq> PUBLIC \<Longrightarrow> vault_get vc v key s = (Inr (map_of kvs key), s)"
    and "get_secret_level key \<noteq> PUBLIC \<Longrightarrow> aws_get mc answer loads key s = (Inr (map_of kvs key), s)"
    and "get_secret_level key \<noteq> SECRET \<Longrightarrow> parameters_get mc listing pre key s = (Inr (map_of kvs key), s)"
  using assms by (simp_all add: k8s_get_def vault_get_def aws_get_def parameters_get_def ensure_initialized_def
      act_bind_def act_read_def act_when_def act_return_def read_cache_def cache_lookup_def)

text \<open>Without an answer from Vault nothing is known, and the chain goes on to the next provider; a
  failure of Secrets Manager other than a missing secret is not caught and ends the start.\<close>

lemma vault_failure_is_silent:
  assumes "vc_read_v2 vc = (\<lambda>_ _. Inl e)" and "va_kv_version v = 2" and "given (va_token v)"
    and "get_secret_level key \<noteq> PUBLIC"
  shows "fst (vault_get vc v key new_source) = Inr None"
  using assms by (simp add: vault_get_def ensure_initialized_def vault_open_def vault_load_secrets_def new_source_def
      set_client_def set_cache_def set_initialized_def read_cache_def cache_lookup_def
      act_bind_def act_read_def act_when_def act_return_def)

lemma aws_failure_is_raised:
  "get_secret_level key \<noteq> PUBLIC \<Longrightarrow>
   fst (aws_get (Inr ()) (AwsFails e) loads key new_source) = Inl e"
  by (simp add: aws_get_def ensure_initialized_def aws_open_def aws_load_secrets_def new_source_def
      set_client_def act_bind_def act_read_def act_when_def act_return_def act_raise_def act_lift_def)

text \<open>The documented path of a secret, read with the mount point that is taken from it.\<close>

lemma vault_default_location:
  "vault_location ''secret/data/mlflow-oidc-auth'' = (''mlflow-oidc-auth'', ''secret/data'')"
  by code_simp

text \<open>A Kubernetes secret without its final line ends.\<close>

lemma k8s_example:
  "fst (k8s_get (Some [(''.hidden'', True, Inr ''x''), (''SECRET_KEY'', True, Inr (''abc'' @ [char_of (10 :: nat)]))])
     ''SECRET_KEY'' new_source) = Inr (Some (JString ''abc''))"
  by code_simp

end
