(* ===== verification/WebhookRouter.thy ===== *)
theory WebhookRouter
  imports AccountRouter RouteProperties Uri
begin

text \<open>
  \<^verbatim>\<open>models/webhook.py\<close> and \<^verbatim>\<open>routers/webhook.py\<close>: the checks of a webhook's URL, events and status,
  and the routes that administrators create, change and test webhooks with. MLflow's webhook store
  is a parameter that works on a state of its own. The property: what is stored is an https URL
  without credentials, and only an administrator stores it.
\<close>

section \<open>The parts of a URL\<close>

text \<open>
  \<^verbatim>\<open>urllib.parse.urlparse\<close> as far as the scheme and the network location: control characters in
  front are dropped. \<open>netloc_error\<close> is its check of hosts in brackets and of characters outside
  ASCII, which raises.
\<close>

definition scheme_char :: "char \<Rightarrow> bool" where
  "scheme_char c \<longleftrightarrow> (let n = of_char c :: nat in
     (97 \<le> n \<and> n \<le> 122) \<or> (65 \<le> n \<and> n \<le> 90) \<or> (48 \<le> n \<and> n \<le> 57) \<or> n \<in> {43, 45, 46})"

definition letter :: "char \<Rightarrow> bool" where
  "letter c \<longleftrightarrow> (let n = of_char c :: nat in (97 \<le> n \<and> n \<le> 122) \<or> (65 \<le> n \<and> n \<le> 90))"

definition control_or_space :: "char \<Rightarrow> bool" where
  "control_or_space c \<longleftrightarrow> (of_char c :: nat) \<le> 32"

definition split_scheme :: "string \<Rightarrow> string \<times> string" where
  "split_scheme url =
     (case split_once (CHR '':'') url of
        Some (scheme, rest) \<Rightarrow>
          if scheme \<noteq> [] \<and> letter (hd scheme) \<and> list_all scheme_char scheme then (py_lower scheme, rest)
          else ('''', url)
      | None \<Rightarrow> ('''', url))"

definition netloc_end :: "char \<Rightarrow> bool" where
  "netloc_end c \<longleftrightarrow> c \<in> {CHR ''/'', CHR ''?'', CHR ''#''}"

definition url_netloc :: "string \<Rightarrow> string" where
  "url_netloc rest = (if take 2 rest = ''//'' then takeWhile (\<lambda>c. \<not> netloc_end c) (drop 2 rest) else '''')"

text \<open>The user name and password of a network location; \<open>None\<close> where there is none.\<close>

definition userinfo :: "string \<Rightarrow> string option \<times> string option" where
  "userinfo netloc =
     (case rsplit_once (CHR ''@'') netloc of
        None \<Rightarrow> (None, None)
      | Some (info, _) \<Rightarrow>
          (case split_once (CHR '':'') info of
             Some (username, password) \<Rightarrow> (Some username, Some password)
           | None \<Rightarrow> (Some info, None)))"

section \<open>The checks\<close>

definition validate_https_url :: "(string \<Rightarrow> bool) \<Rightarrow> string \<Rightarrow> unit result" where
  "validate_https_url netloc_error v =
     (if list_ex py_space v then Inl ValueError
      else
        let (scheme, rest) = split_scheme (dropWhile control_or_space v);
            netloc = url_netloc rest
        in if netloc_error netloc then Inl ValueError
           else if py_lower scheme \<noteq> ''https'' then Inl ValueError
           else if netloc = '''' then Inl ValueError
           else if or_text (fst (userinfo netloc)) (snd (userinfo netloc)) \<noteq> None \<and>
                   or_text (fst (userinfo netloc)) (snd (userinfo netloc)) \<noteq> Some ''''
           then Inl ValueError
           else Inr ())"

definition VALID_WEBHOOK_STATUSES :: "string list" where
  "VALID_WEBHOOK_STATUSES = [''ACTIVE'', ''DISABLED'']"

definition VALID_WEBHOOK_EVENTS :: "string list" where
  "VALID_WEBHOOK_EVENTS =
     [''registered_model.created'', ''model_version.created'', ''model_version_tag.set'',
      ''model_version_tag.deleted'', ''model_version_alias.created'', ''model_version_alias.deleted'',
      ''prompt.created'', ''prompt_version.created'', ''prompt_tag.set'', ''prompt_tag.deleted'',
      ''prompt_version_tag.set'', ''prompt_version_tag.deleted'', ''prompt_alias.created'',
      ''prompt_alias.deleted'']"

definition validate_events :: "string list \<Rightarrow> unit result" where
  "validate_events v =
     (if v = [] \<or> list_ex (\<lambda>event. event \<notin> set VALID_WEBHOOK_EVENTS) v then Inl ValueError else Inr ())"

definition validate_status :: "string option \<Rightarrow> unit result" where
  "validate_status v =
     (case v of Some s \<Rightarrow> if s \<in> set VALID_WEBHOOK_STATUSES then Inr () else Inl ValueError | None \<Rightarrow> Inr ())"

text \<open>\<open>allow_none=True\<close>: nothing is accepted as it is.\<close>

definition validate_optional :: "('a \<Rightarrow> unit result) \<Rightarrow> 'a option \<Rightarrow> unit result" where
  "validate_optional check v = (case v of None \<Rightarrow> Inr () | Some x \<Rightarrow> check x)"

definition validate_event_type :: "string \<Rightarrow> unit result" where
  "validate_event_type v = (if v \<in> set VALID_WEBHOOK_EVENTS then Inr () else Inl ValueError)"

record webhook_request =
  wq_name :: "string option"
  wq_url :: "string option"
  wq_events :: "string list option"
  wq_description :: "string option"
  wq_secret :: "string option"
  wq_status :: "string option"

definition name_fits :: "string \<Rightarrow> bool" where
  "name_fits s \<longleftrightarrow> 1 \<le> length s \<and> length s \<le> 256"

text \<open>A body that does not pass is answered with 422 before the handler runs.\<close>

definition webhook_create_request :: "(string \<Rightarrow> bool) \<Rightarrow> webhook_request \<Rightarrow> (string \<times> string \<times> string list) result" where
  "webhook_create_request netloc_error rq =
     (case (wq_name rq, wq_url rq, wq_events rq) of
        (Some name, Some url, Some events) \<Rightarrow>
          (case (validate_https_url netloc_error url, validate_events events, validate_status (wq_status rq)) of
             (Inr _, Inr _, Inr _) \<Rightarrow>
               if name_fits name \<and> (case wq_description rq of Some d \<Rightarrow> length d \<le> 500 | None \<Rightarrow> True)
               then Inr (name, url, events) else Inl (HTTPException 422)
           | _ \<Rightarrow> Inl (HTTPException 422))
      | _ \<Rightarrow> Inl (HTTPException 422))"

definition webhook_update_request :: "(string \<Rightarrow> bool) \<Rightarrow> webhook_request \<Rightarrow> unit result" where
  "webhook_update_request netloc_error rq =
     (case (validate_optional (validate_https_url netloc_error) (wq_url rq),
            validate_optional validate_events (wq_events rq), validate_status (wq_status rq)) of
        (Inr _, Inr _, Inr _) \<Rightarrow>
          if (case wq_name rq of Some n \<Rightarrow> name_fits n | None \<Rightarrow> True) \<and>
             (case wq_description rq of Some d \<Rightarrow> length d \<le> 500 | None \<Rightarrow> True)
          then Inr () else Inl (HTTPException 422)
      | _ \<Rightarrow> Inl (HTTPException 422))"

section \<open>The store\<close>

record webhook =
  wh_id :: string
  wh_name :: string
  wh_url :: string
  wh_events :: "string list"
  wh_description :: "string option"
  wh_status :: string
  wh_created :: int
  wh_updated :: int

text \<open>The fields of a call; an event is MLflow's, shown as a text.\<close>

record webhook_fields =
  wf_name :: "string option"
  wf_url :: "string option"
  wf_events :: "string list option"
  wf_description :: "string option"
  wf_secret :: "string option"
  wf_status :: "string option"

record test_result =
  te_success :: bool
  te_status :: "int option"
  te_body :: "string option"
  te_error :: "string option"

record 'm webhook_store =
  ws_available :: bool
  ws_event :: "string \<Rightarrow> string result"
  ws_create :: "webhook_fields \<Rightarrow> (webhook, 'm) action"
  ws_list :: "'m \<Rightarrow> int option \<Rightarrow> string option \<Rightarrow> (webhook list \<times> string option) result"
  ws_get :: "'m \<Rightarrow> string \<Rightarrow> webhook result"
  ws_update :: "string \<Rightarrow> webhook_fields \<Rightarrow> (webhook, 'm) action"
  ws_delete :: "string \<Rightarrow> (unit, 'm) action"
  ws_test :: "webhook \<Rightarrow> string option \<Rightarrow> test_result result"

type_synonym 'm webhook_handler = "(nat \<times> json, app_state \<times> 'm) action"

definition on_webhooks :: "('a, 'm) action \<Rightarrow> ('a, app_state \<times> 'm) action" where
  "on_webhooks f = (\<lambda>(s, m). case f m of (r, m') \<Rightarrow> (r, (s, m')))"

definition get_model_registry_store :: "'m webhook_store \<Rightarrow> (unit, 's) action" where
  "get_model_registry_store st = (if ws_available st then act_return () else act_raise (HTTPException 503))"

definition webhook_to_response :: "webhook \<Rightarrow> json" where
  "webhook_to_response w =
     JObject
       [(''webhook_id'', JString (wh_id w)), (''name'', JString (wh_name w)), (''url'', JString (wh_url w)),
        (''events'', JArray (map JString (wh_events w))), (''description'', optional_text (wh_description w)),
        (''status'', JString (wh_status w)), (''creation_timestamp'', json_int (wh_created w)),
        (''last_updated_timestamp'', json_int (wh_updated w))]"

text \<open>The first event that MLflow does not know ends the request.\<close>

definition convert_events :: "'m webhook_store \<Rightarrow> string list \<Rightarrow> (string list, 's) action" where
  "convert_events st events =
     act_lift (case mapM_result (ws_event st) events of Inl _ \<Rightarrow> Inl (HTTPException 400) | Inr es \<Rightarrow> Inr es)"

definition optional_list :: "string list option \<Rightarrow> json" where
  "optional_list v = (case v of None \<Rightarrow> JNull | Some xs \<Rightarrow> JArray (map JString xs))"

section \<open>The routes\<close>

definition create_webhook :: "app \<Rightarrow> 'm webhook_store \<Rightarrow> (string \<Rightarrow> bool) \<Rightarrow> http_request \<Rightarrow> webhook_request \<Rightarrow>
    'm webhook_handler" where
  "create_webhook ap st netloc_error rq webhook_data =
     act_bind (on_fst (check_admin_permission rq)) (\<lambda>admin_username.
     act_bind (act_lift (webhook_create_request netloc_error webhook_data)) (\<lambda>(name, url, events).
     act_bind (get_model_registry_store st) (\<lambda>_.
     act_bind (convert_events st events) (\<lambda>webhook_events.
     let status = (case or_text (wq_status webhook_data) None of Some s \<Rightarrow> s | None \<Rightarrow> ''ACTIVE'')
     in act_bind (on_webhooks (ws_create st
            \<lparr>wf_name = Some name, wf_url = Some url, wf_events = Some webhook_events,
             wf_description = wq_description webhook_data, wf_secret = wq_secret webhook_data,
             wf_status = Some status\<rparr>)) (\<lambda>webhook.
        act_bind (on_fst (emit_audit_event ap ''webhook.create'' (Some admin_username) ''webhook'' (wh_id webhook)
            [(''name'', JString name), (''url'', JString url), (''events'', JArray (map JString events))])) (\<lambda>_.
        act_return (200, webhook_to_response webhook)))))))"

text \<open>Any failure of the store is an unavailable service; the text of the answer tells which.\<close>

definition list_webhooks :: "'m webhook_store \<Rightarrow> http_request \<Rightarrow> int option \<Rightarrow> string option \<Rightarrow> 'm webhook_handler" where
  "list_webhooks st rq max_results page_token =
     act_bind (on_fst (check_admin_permission rq)) (\<lambda>_.
     act_bind (act_when (case max_results of Some n \<Rightarrow> n < 1 \<or> 1000 < n | None \<Rightarrow> False)
         (act_raise (HTTPException 422))) (\<lambda>_.
     act_bind (get_model_registry_store st) (\<lambda>_.
     act_bind (act_except (on_webhooks (act_read (\<lambda>m. ws_list st m max_results page_token)))
         (act_raise (HTTPException 503))) (\<lambda>(webhooks, next_page_token).
     act_return (200, JObject [(''webhooks'', JArray (map webhook_to_response webhooks)),
       (''next_page_token'', optional_text next_page_token)])))))"

definition get_webhook :: "'m webhook_store \<Rightarrow> http_request \<Rightarrow> string \<Rightarrow> 'm webhook_handler" where
  "get_webhook st rq webhook_id =
     act_bind (on_fst (check_admin_permission rq)) (\<lambda>_.
     act_bind (get_model_registry_store st) (\<lambda>_.
     act_bind (on_webhooks (act_read (\<lambda>m. ws_get st m webhook_id))) (\<lambda>webhook.
     act_return (200, webhook_to_response webhook))))"

definition update_webhook :: "app \<Rightarrow> 'm webhook_store \<Rightarrow> (string \<Rightarrow> bool) \<Rightarrow> http_request \<Rightarrow> string \<Rightarrow>
    webhook_request \<Rightarrow> 'm webhook_handler" where
  "update_webhook ap st netloc_error rq webhook_id webhook_data =
     act_bind (on_fst (check_admin_permission rq)) (\<lambda>admin_username.
     act_bind (act_lift (webhook_update_request netloc_error webhook_data)) (\<lambda>_.
     act_bind (get_model_registry_store st) (\<lambda>_.
     act_bind (case wq_events webhook_data of
         None \<Rightarrow> act_return None
       | Some events \<Rightarrow> act_map Some (convert_events st events)) (\<lambda>webhook_events.
     act_bind (on_webhooks (ws_update st webhook_id
         \<lparr>wf_name = wq_name webhook_data, wf_url = wq_url webhook_data, wf_events = webhook_events,
          wf_description = wq_description webhook_data, wf_secret = wq_secret webhook_data,
          wf_status = wq_status webhook_data\<rparr>)) (\<lambda>webhook.
     act_bind (on_fst (emit_audit_event ap ''webhook.update'' (Some admin_username) ''webhook'' webhook_id
         [(''name'', optional_text (wq_name webhook_data)), (''url'', optional_text (wq_url webhook_data)),
          (''events'', optional_list (wq_events webhook_data)),
          (''status'', optional_text (wq_status webhook_data))])) (\<lambda>_.
     act_return (200, webhook_to_response webhook)))))))"

definition delete_webhook :: "app \<Rightarrow> 'm webhook_store \<Rightarrow> http_request \<Rightarrow> string \<Rightarrow> 'm webhook_handler" where
  "delete_webhook ap st rq webhook_id =
     act_bind (on_fst (check_admin_permission rq)) (\<lambda>admin_username.
     act_bind (get_model_registry_store st) (\<lambda>_.
     act_bind (on_webhooks (ws_delete st webhook_id)) (\<lambda>_.
     act_bind (on_fst (emit_audit_event ap ''webhook.delete'' (Some admin_username) ''webhook'' webhook_id [])) (\<lambda>_.
     act_return (200, message_response)))))"

definition test_webhook_endpoint :: "'m webhook_store \<Rightarrow> http_request \<Rightarrow> string \<Rightarrow> string option \<Rightarrow> 'm webhook_handler" where
  "test_webhook_endpoint st rq webhook_id event_type =
     act_bind (on_fst (check_admin_permission rq)) (\<lambda>_.
     act_bind (act_lift (case validate_optional validate_event_type event_type of
         Inl _ \<Rightarrow> Inl (HTTPException 422) | Inr _ \<Rightarrow> Inr ())) (\<lambda>_.
     act_bind (get_model_registry_store st) (\<lambda>_.
     act_bind (on_webhooks (act_read (\<lambda>m. ws_get st m webhook_id))) (\<lambda>webhook.
     act_bind (act_lift (case or_text event_type None of
         None \<Rightarrow> Inr None
       | Some e \<Rightarrow> (case ws_event st e of Inl _ \<Rightarrow> Inl (HTTPException 400) | Inr ev \<Rightarrow> Inr (Some ev)))) (\<lambda>event.
     act_bind (act_lift (ws_test st webhook event)) (\<lambda>test_result.
     act_return (200, JObject
       [(''success'', JBool (te_success test_result)), (''response_status'', json_id (te_status test_result)),
        (''response_body'', optional_text (te_body test_result)),
        (''error_message'', optional_text (te_error test_result))])))))))"

section \<open>What is stored\<close>

text \<open>
  An https URL with a network location and without credentials: the location reaches up to the next
  slash, question mark or hash, and what is in front of its last at-sign is empty or a colon.
\<close>

definition safe_url :: "string \<Rightarrow> bool" where
  "safe_url url \<longleftrightarrow>
     \<not> list_ex py_space url \<and>
     (\<exists>front scheme netloc rest. url = front @ scheme @ ''://'' @ netloc @ rest \<and>
        list_all control_or_space front \<and> py_lower scheme = ''https'' \<and> netloc \<noteq> '''' \<and>
        \<not> list_ex netloc_end netloc \<and> (rest = '''' \<or> netloc_end (hd rest)) \<and>
        (\<forall>info host. netloc = info @ ''@'' @ host \<longrightarrow> CHR ''@'' \<notin> set host \<longrightarrow> info \<in> {'''', '':''}))"

lemma rsplit_once_last: "CHR ''@'' \<notin> set host \<Longrightarrow>
    rsplit_once (CHR ''@'') (info @ ''@'' @ host) = Some (info, host)"
  by (simp add: rsplit_once_def split_once_append)

lemma url_netloc_split:
  assumes "url_netloc rest \<noteq> ''''"
  obtains tail where "rest = ''//'' @ url_netloc rest @ tail" "tail = '''' \<or> netloc_end (hd tail)"
    "\<not> list_ex netloc_end (url_netloc rest)"
proof -
  define tail where "tail = dropWhile (\<lambda>c. \<not> netloc_end c) (drop 2 rest)"
  have slashes: "take 2 rest = ''//''" using assms by (simp add: url_netloc_def split: if_splits)
  have "rest = take 2 rest @ drop 2 rest" by simp
  then have "rest = ''//'' @ url_netloc rest @ tail"
    unfolding tail_def url_netloc_def slashes by simp
  moreover have "tail = '''' \<or> netloc_end (hd tail)"
    unfolding tail_def using hd_dropWhile [of "\<lambda>c. \<not> netloc_end c"] by blast
  moreover have "\<not> list_ex netloc_end (url_netloc rest)"
    by (auto simp: url_netloc_def list_ex_iff dest: set_takeWhileD)
  ultimately show ?thesis by (rule that)
qed

lemma split_scheme_https:
  assumes "split_scheme url = (scheme, rest)" "py_lower scheme = ''https''"
  obtains written where "url = written @ CHR '':'' # rest" "py_lower written = ''https''"
proof (cases "split_once (CHR '':'') url")
  case None
  then show ?thesis using assms by (auto simp: split_scheme_def py_lower_def)
next
  case (Some p)
  obtain front others where p: "p = (front, others)" by (cases p)
  have eq: "scheme = py_lower front \<and> rest = others"
    using assms(1,2) unfolding split_scheme_def Some p option.case prod.case
    by (simp add: py_lower_def split: if_splits)
  show ?thesis
    by (rule that [of front]) (use split_once_Some Some p eq assms(2) in auto)
qed

lemma no_credentials:
  assumes "or_text (fst (userinfo netloc)) (snd (userinfo netloc)) = None \<or>
      or_text (fst (userinfo netloc)) (snd (userinfo netloc)) = Some ''''"
    and "netloc = info @ ''@'' @ host" "CHR ''@'' \<notin> set host"
  shows "info \<in> {'''', '':''}"
proof (cases "split_once (CHR '':'') info")
  case None
  then show ?thesis using assms(1)
    by (auto simp: userinfo_def rsplit_once_last [OF assms(3), simplified] assms(2) or_text_def split: if_splits)
next
  case (Some p)
  then show ?thesis using assms(1) split_once_Some [of "CHR '':''" info "fst p" "snd p"]
    by (cases p) (auto simp: userinfo_def rsplit_once_last [OF assms(3), simplified] assms(2) or_text_def
      split: if_splits)
qed

lemma validate_https_url_safe:
  assumes "validate_https_url netloc_error url = Inr u"
  shows "safe_url url"
proof -
  obtain scheme rest where split: "split_scheme (dropWhile control_or_space url) = (scheme, rest)" by force
  define netloc where "netloc = url_netloc rest"
  have ok: "\<not> list_ex py_space url" "py_lower scheme = ''https''" "netloc \<noteq> ''''"
    "or_text (fst (userinfo netloc)) (snd (userinfo netloc)) = None \<or>
     or_text (fst (userinfo netloc)) (snd (userinfo netloc)) = Some ''''"
    using assms unfolding validate_https_url_def split netloc_def Let_def prod.case
    by (simp_all split: if_splits)
  obtain written where written: "dropWhile control_or_space url = written @ CHR '':'' # rest"
    "py_lower written = ''https''" using split_scheme_https [OF split ok(2)] by blast
  obtain tail where tail: "rest = ''//'' @ netloc @ tail" "tail = '''' \<or> netloc_end (hd tail)"
    "\<not> list_ex netloc_end netloc" using url_netloc_split ok(3) unfolding netloc_def by blast
  have "url = takeWhile control_or_space url @ written @ ''://'' @ netloc @ tail"
    using written(1) tail(1) by (metis append_Cons append_Nil takeWhile_dropWhile_id)
  moreover have "list_all control_or_space (takeWhile control_or_space url)"
    by (auto simp: list_all_iff dest: set_takeWhileD)
  ultimately show ?thesis
    unfolding safe_url_def using ok(1,3) written(2) tail(2,3) no_credentials [OF ok(4)] by blast
qed

lemma handler_store_unchanged [simp]:
  "snd (snd (on_fst f (s, m))) = m"
  "get_model_registry_store st (s, m) = (r, t) \<Longrightarrow> snd t = m"
  "convert_events st events (s, m) = (r', t') \<Longrightarrow> snd t' = m"
  by (auto simp: on_fst_def get_model_registry_store_def convert_events_def act_lift_def act_return_def
      act_raise_def split: prod.splits if_splits)

lemma check_admin_permission_state: "check_admin_permission rq s = (r, s') \<Longrightarrow> s' = s"
  by (auto simp: check_admin_permission_def read_db_def split: prod.splits)

text \<open>The requests that write, and a sequence of them by anybody.\<close>

datatype webhook_write = CreateWebhook webhook_request | UpdateWebhook string webhook_request | DeleteWebhook string

definition serve_webhook_write :: "app \<Rightarrow> 'm webhook_store \<Rightarrow> (string \<Rightarrow> bool) \<Rightarrow> http_request \<Rightarrow> webhook_write \<Rightarrow>
    'm webhook_handler" where
  "serve_webhook_write ap st netloc_error rq w =
     (case w of
        CreateWebhook d \<Rightarrow> create_webhook ap st netloc_error rq d
      | UpdateWebhook i d \<Rightarrow> update_webhook ap st netloc_error rq i d
      | DeleteWebhook i \<Rightarrow> delete_webhook ap st rq i)"

fun webhook_writes :: "app \<Rightarrow> 'm webhook_store \<Rightarrow> (string \<Rightarrow> bool) \<Rightarrow> (http_request \<times> webhook_write) list \<Rightarrow>
    app_state \<times> 'm \<Rightarrow> app_state \<times> 'm" where
  "webhook_writes ap st netloc_error [] x = x"
| "webhook_writes ap st netloc_error ((rq, w) # rest) x =
     webhook_writes ap st netloc_error rest (snd (serve_webhook_write ap st netloc_error rq w x))"

text \<open>What MLflow's store promises: a webhook's URL is one that was there or the one of the call.\<close>

definition keeps_urls :: "'m webhook_store \<Rightarrow> ('m \<Rightarrow> string set) \<Rightarrow> bool" where
  "keeps_urls st urls \<longleftrightarrow>
     (\<forall>f m. urls (snd (ws_create st f m)) \<subseteq> urls m \<union> set_option (wf_url f)) \<and>
     (\<forall>i f m. urls (snd (ws_update st i f m)) \<subseteq> urls m \<union> set_option (wf_url f)) \<and>
     (\<forall>i m. urls (snd (ws_delete st i m)) \<subseteq> urls m)"

text \<open>What every step of a handler keeps: the database, and the store until its call.\<close>

definition frames :: "('a, app_state \<times> 'm) action \<Rightarrow> bool" where
  "frames f \<longleftrightarrow> (\<forall>s m. as_store (fst (snd (f (s, m)))) = as_store s \<and> snd (snd (f (s, m))) = m)"

definition writes :: "('m \<Rightarrow> 'm \<Rightarrow> bool) \<Rightarrow> ('a, app_state \<times> 'm) action \<Rightarrow> bool" where
  "writes R f \<longleftrightarrow> (\<forall>s m. as_store (fst (snd (f (s, m)))) = as_store s \<and> (snd (snd (f (s, m))) = m \<or> R m (snd (snd (f (s, m))))))"

lemma frames_intro:
  "frames (on_fst (check_admin_permission rq))" "frames (get_model_registry_store st)"
  "frames (act_lift r)" "frames (act_return x)" "frames (convert_events st events)"
  "frames (on_fst (emit_audit_event ap event actor kind i detail))"
  by (auto simp: frames_def on_fst_def check_admin_permission_def read_db_def act_read_def act_lift_def
      get_model_registry_store_def act_return_def act_raise_def convert_events_def emit_audit_event_def)

lemma frames_writes: "frames f \<Longrightarrow> writes R f"
  by (simp add: frames_def writes_def)

lemma frames_bind: "frames f \<Longrightarrow> (\<And>x. frames (g x)) \<Longrightarrow> frames (act_bind f g)"
  unfolding frames_def act_bind_def
  by (auto split: prod.splits sum.splits) (metis fst_conv snd_conv)+

lemma writes_bind_before: "frames f \<Longrightarrow> (\<And>x. writes R (g x)) \<Longrightarrow> writes R (act_bind f g)"
  unfolding frames_def writes_def act_bind_def
  by (auto split: prod.splits sum.splits) (metis fst_conv snd_conv)+

lemma writes_bind_after: "writes R f \<Longrightarrow> (\<And>x. frames (g x)) \<Longrightarrow> writes R (act_bind f g)"
  unfolding frames_def writes_def act_bind_def
  by (auto split: prod.splits sum.splits) (metis fst_conv snd_conv)+

lemma writes_bind_lift:
  "(\<And>x. r = Inr x \<Longrightarrow> writes R (g x)) \<Longrightarrow> writes R (act_bind (act_lift r) g)"
  by (cases r) (auto simp: writes_def act_bind_def act_lift_def)

lemma writes_store: "(\<And>m. R m (snd (f m))) \<Longrightarrow> writes R (on_webhooks f)"
  by (auto simp: writes_def on_webhooks_def split: prod.splits) (metis snd_conv)

abbreviation adds_safe :: "('m \<Rightarrow> string set) \<Rightarrow> 'm \<Rightarrow> 'm \<Rightarrow> bool" where
  "adds_safe urls m m' \<equiv> urls m' \<subseteq> urls m \<union> Collect safe_url"

lemma create_request_safe:
  assumes "webhook_create_request netloc_error d = Inr (name, url, events)"
  shows "wq_url d = Some url" "safe_url url"
proof -
  obtain u where u: "wq_url d = Some url" "validate_https_url netloc_error url = Inr u"
    using assms by (auto simp: webhook_create_request_def split: option.splits sum.splits prod.splits if_splits)
  show "wq_url d = Some url" by (rule u(1))
  show "safe_url url" by (rule validate_https_url_safe [OF u(2)])
qed

lemma update_request_safe:
  assumes "webhook_update_request netloc_error d = Inr u" "wq_url d = Some url"
  shows "safe_url url"
proof -
  obtain v where "validate_https_url netloc_error url = Inr v"
    using assms by (auto simp: webhook_update_request_def validate_optional_def split: sum.splits prod.splits)
  then show ?thesis by (rule validate_https_url_safe)
qed

lemma create_writes:
  assumes "keeps_urls st urls"
  shows "writes (adds_safe urls) (create_webhook ap st netloc_error rq d)"
  unfolding create_webhook_def
proof (rule writes_bind_before [OF frames_intro(1)], rule writes_bind_lift)
  fix admin fields assume "webhook_create_request netloc_error d = Inr fields"
  then obtain name url events where fields: "fields = (name, url, events)"
    and ok: "webhook_create_request netloc_error d = Inr (name, url, events)" by (cases fields) auto
  show "writes (adds_safe urls) (case fields of (name, url, events) \<Rightarrow>
     act_bind (get_model_registry_store st) (\<lambda>_.
     act_bind (convert_events st events) (\<lambda>webhook_events.
     let status = (case or_text (wq_status d) None of Some s \<Rightarrow> s | None \<Rightarrow> ''ACTIVE'')
     in act_bind (on_webhooks (ws_create st
            \<lparr>wf_name = Some name, wf_url = Some url, wf_events = Some webhook_events,
             wf_description = wq_description d, wf_secret = wq_secret d, wf_status = Some status\<rparr>)) (\<lambda>webhook.
        act_bind (on_fst (emit_audit_event ap ''webhook.create'' (Some admin) ''webhook'' (wh_id webhook)
            [(''name'', JString name), (''url'', JString url), (''events'', JArray (map JString events))])) (\<lambda>_.
        act_return (200, webhook_to_response webhook))))))"
    unfolding fields prod.case Let_def
  proof (rule writes_bind_before [OF frames_intro(2)], rule writes_bind_before [OF frames_intro(5)],
      rule writes_bind_after [OF writes_store frames_bind [OF frames_intro(6) frames_intro(4)]])
    fix webhook_events m
    show "adds_safe urls m (snd (ws_create st
      \<lparr>wf_name = Some name, wf_url = Some url, wf_events = Some webhook_events,
       wf_description = wq_description d, wf_secret = wq_secret d,
       wf_status = Some (case or_text (wq_status d) None of Some s \<Rightarrow> s | None \<Rightarrow> ''ACTIVE'')\<rparr> m))"
      using assms create_request_safe(2) [OF ok] by (fastforce simp: keeps_urls_def)
  qed
qed

lemma update_writes:
  assumes "keeps_urls st urls"
  shows "writes (adds_safe urls) (update_webhook ap st netloc_error rq i d)"
  unfolding update_webhook_def
proof (rule writes_bind_before [OF frames_intro(1)], rule writes_bind_lift,
    rule writes_bind_before [OF frames_intro(2)], rule writes_bind_before,
    goal_cases events store)
  case events
  show ?case
    by (auto simp: act_map_def frames_intro frames_bind split: option.split)
next
  case (store admin u x webhook_events)
  show ?case
  proof (rule writes_bind_after [OF writes_store frames_bind [OF frames_intro(6) frames_intro(4)]])
    fix m
    show "adds_safe urls m (snd (ws_update st i
      \<lparr>wf_name = wq_name d, wf_url = wq_url d, wf_events = webhook_events, wf_description = wq_description d,
       wf_secret = wq_secret d, wf_status = wq_status d\<rparr> m))"
      using assms update_request_safe [OF store] by (fastforce simp: keeps_urls_def)
  qed
qed

lemma delete_writes:
  assumes "keeps_urls st urls"
  shows "writes (adds_safe urls) (delete_webhook ap st rq i)"
  unfolding delete_webhook_def
  by (rule writes_bind_before [OF frames_intro(1)], rule writes_bind_before [OF frames_intro(2)],
      rule writes_bind_after [OF writes_store frames_bind [OF frames_intro(6) frames_intro(4)]])
     (use assms in \<open>fastforce simp: keeps_urls_def\<close>)

lemma webhook_write_safe: "keeps_urls st urls \<Longrightarrow> writes (adds_safe urls) (serve_webhook_write ap st netloc_error rq w)"
  by (cases w) (simp_all add: serve_webhook_write_def create_writes update_writes delete_writes)

lemma refused_write:
  "fst (check_admin_permission rq s) = Inl e \<Longrightarrow> snd (serve_webhook_write ap st netloc_error rq w (s, m)) = (s, m)"
  by (cases w) (simp_all add: serve_webhook_write_def create_webhook_def update_webhook_def delete_webhook_def
      act_bind_def on_fst_def check_admin_permission_def read_db_def act_read_def split: prod.splits sum.splits)

lemma admin_check_reads: "as_store s = as_store t \<Longrightarrow> fst (check_admin_permission rq s) = fst (check_admin_permission rq t)"
  by (auto simp: check_admin_permission_def read_db_def act_read_def split: sum.split)

lemma webhook_write_state:
  assumes "keeps_urls st urls" and "snd (serve_webhook_write ap st netloc_error rq w (s, m)) = (s', m')"
  shows "as_store s' = as_store s" "urls m' \<subseteq> urls m \<union> Collect safe_url"
  using webhook_write_safe [OF assms(1), of ap netloc_error rq w] assms(2)
  unfolding writes_def by (metis fst_conv snd_conv sup_ge1)+

lemma webhook_writes_state:
  assumes "keeps_urls st urls" and "webhook_writes ap st netloc_error xs (s, m) = (s', m')"
  shows "urls m' \<subseteq> urls m \<union> Collect safe_url"
  using assms(2)
proof (induction xs arbitrary: s m)
  case Nil
  then show ?case by simp
next
  case (Cons x xs)
  obtain rq w where x: "x = (rq, w)" by (cases x)
  obtain t n where step: "snd (serve_webhook_write ap st netloc_error rq w (s, m)) = (t, n)" by force
  have "urls m' \<subseteq> urls n \<union> Collect safe_url" using Cons.IH [of t n] Cons.prems step x by simp
  then show ?case using webhook_write_state(2) [OF assms(1) step] by blast
qed

lemma refused_writes:
  assumes "keeps_urls st urls" and "\<forall>(rq, w) \<in> set xs. \<exists>e. fst (check_admin_permission rq s) = Inl e"
  shows "webhook_writes ap st netloc_error xs (s, m) = (s, m)"
  using assms(2)
proof (induction xs)
  case Nil
  then show ?case by simp
next
  case (Cons x xs)
  obtain rq w where x: "x = (rq, w)" by (cases x)
  then obtain e where "fst (check_admin_permission rq s) = Inl e" using Cons.prems by auto
  then show ?case using x Cons by (simp add: refused_write)
qed

text \<open>C19: Whatever requests to create, change and delete webhooks arrive, in whatever order and from
  whomever: every URL in MLflow's store that was not there before is https, has a network location,
  no white space and no user name or password. And the store changes only when one of the requests
  comes from an administrator. The hypothesis is what MLflow's store promises about URLs.
\<close>

theorem webhook_urls_stay_safe:
  assumes "keeps_urls st urls" and "webhook_writes ap st netloc_error xs (s, m) = (s', m')"
  shows "(\<forall>url \<in> urls m' - urls m. safe_url url) \<and>
    (m' \<noteq> m \<longrightarrow> (\<exists>(rq, w) \<in> set xs. \<exists>admin. fst (check_admin_permission rq s) = Inr admin))"
proof (cases "\<forall>(rq, w) \<in> set xs. \<exists>e. fst (check_admin_permission rq s) = Inl e")
  case True
  then show ?thesis using refused_writes [OF assms(1) True, of ap netloc_error m] assms(2) by simp
next
  case False
  then obtain rq w where x: "(rq, w) \<in> set xs" "\<And>e. fst (check_admin_permission rq s) \<noteq> Inl e" by auto
  then obtain admin where "fst (check_admin_permission rq s) = Inr admin"
    by (cases "fst (check_admin_permission rq s)") auto
  then show ?thesis using x(1) webhook_writes_state [OF assms] by blast
qed

text \<open>A store that keeps the URLs in a list, addressed by their place.\<close>

definition webhook_at :: "string \<Rightarrow> webhook" where
  "webhook_at url = \<lparr>wh_id = '''', wh_name = '''', wh_url = url, wh_events = [], wh_description = None,
     wh_status = ''ACTIVE'', wh_created = 0, wh_updated = 0\<rparr>"

definition url_list_store :: "string list webhook_store" where
  "url_list_store =
     \<lparr>ws_available = True, ws_event = Inr,
      ws_create = (\<lambda>f m. (Inr (webhook_at (the (wf_url f))), case wf_url f of Some url \<Rightarrow> url # m | None \<Rightarrow> m)),
      ws_list = (\<lambda>m _ _. Inr (map webhook_at m, None)),
      ws_get = (\<lambda>m i. Inl OtherError),
      ws_update = (\<lambda>i f m. (Inr (webhook_at (the (wf_url f))), case wf_url f of Some url \<Rightarrow> url # tl m | None \<Rightarrow> m)),
      ws_delete = (\<lambda>i m. (Inr (), tl m)),
      ws_test = (\<lambda>_ _. Inl OtherError)\<rparr>"

lemma url_list_store_keeps: "keeps_urls url_list_store set"
proof -
  have "x \<in> set m" if "x \<in> set (tl m)" for x and m :: "string list" using that by (cases m) auto
  then show ?thesis by (auto simp: keeps_urls_def url_list_store_def split: option.splits)
qed

definition webhook_to :: "string \<Rightarrow> webhook_request" where
  "webhook_to url = \<lparr>wq_name = Some ''w'', wq_url = Some url, wq_events = Some [''prompt.created''],
     wq_description = None, wq_secret = None, wq_status = None\<rparr>"

theorem webhook_urls_stay_safe_witness:
  "(let xs = [(request_of ''bob'', CreateWebhook (webhook_to ''https://u:p@h.org/'')),
              (request_of ''alice'', CreateWebhook (webhook_to ''https://h.org/'')),
              (request_of ''bob'', CreateWebhook (webhook_to ''hTTps://h.org/x@y''))];
        m' = snd (webhook_writes example_app url_list_store (\<lambda>_. False) xs (example_app_state, []))
    in m' = [''hTTps://h.org/x@y''] \<and> safe_url ''hTTps://h.org/x@y'' \<and>
       (\<exists>(rq, w) \<in> set xs. \<exists>admin. fst (check_admin_permission rq example_app_state) = Inr admin))"
proof -
  let ?xs = "[(request_of ''bob'', CreateWebhook (webhook_to ''https://u:p@h.org/'')),
              (request_of ''alice'', CreateWebhook (webhook_to ''https://h.org/'')),
              (request_of ''bob'', CreateWebhook (webhook_to ''hTTps://h.org/x@y''))]"
  let ?r = "webhook_writes example_app url_list_store (\<lambda>_. False) ?xs (example_app_state, [])"
  have m: "snd ?r = [''hTTps://h.org/x@y'']" by code_simp
  have run: "?r = (fst ?r, snd ?r)" by simp
  from webhook_urls_stay_safe [OF url_list_store_keeps run] show ?thesis
    unfolding Let_def m by auto
qed

text \<open>The network location may be a port without a host.\<close>

lemma url_without_host: "validate_https_url (\<lambda>_. False) ''https://:443/'' = Inr ()"
  by code_simp

end
