(* ===== verification/StoreReads.thy ===== *)
theory StoreReads
  imports StoreSystem
begin

text \<open>
  \<^verbatim>\<open>sqlalchemy_store.py\<close>: the reading methods of the store as one datatype, with the names of the
  methods, and the opening of the database. The facts: a list holds exactly what the single
  look-ups find, and no reading method is one that empties the permission cache.
\<close>

section \<open>The methods that read\<close>

datatype permission_read =
    GetPermission resource_class string string
  | ListPermissions resource_class string
  | ListPermissionsForExperiment string
  | GetScorerPermission string string string
  | GetUserGroupsPermission resource_class string string
  | GetUserGroupsScorer string string string
  | ListGroupPermissions resource_class string
  | ListGroupIdExperiments nat
  | ListUserGroupsPermissions resource_class string
  | GetGroupExperiments string
  | GetGroupModels string
  | GetGroupPrompts string

datatype regex_read =
    GetRegex resource_class string nat
  | ListRegex resource_class string
  | ListAllWorkspaceRegex
  | ListAllWorkspaceGroupRegex
  | GetModelRegex bool nat string
  | ListModelRegex bool string
  | GetGroupRegex resource_class string nat
  | ListGroupRegex resource_class string
  | ListExperimentRegexForGroups "string list"
  | ListGroupRegexForGroupsIds resource_class "nat list"
  | GetGroupModelRegex bool nat string
  | ListGroupModelRegex bool string
  | ListGroupModelRegexForGroups bool "string list"
  | ListGroupModelRegexForGroupsIds bool "nat list"

datatype account_read =
    AuthenticateUser string string
  | HasUser string
  | GetUser string
  | GetUserProfile string
  | ListUsers bool bool
  | ListUsernames bool
  | GetGroups
  | GetGroupUsers string
  | GetGroupsForUser string
  | GetGroupsIdsForUser string
  | GetUserQuota string
  | ListAllUserQuotas
  | GetUserById nat

datatype workspace_read =
    GetWorkspacePermission string string
  | ListWorkspacePermissions string
  | GetUserGroupsWorkspacePermission string string
  | GetWorkspaceGroupPermission string string
  | ListWorkspaceGroupPermissions string

datatype store_answer =
    OnePermission perm_entity
  | Permissions "perm_entity list"
  | OnePattern regex_entity
  | Patterns "regex_entity list"
  | Found bool
  | OneUser user_entity
  | MaybeUser "user_entity option"
  | Users "user_entity list"
  | Names "string list"
  | Ids "nat list"
  | MaybeQuota "user_quota option"
  | Quotas "user_quota list"
  | OneWorkspacePermission workspace_perm
  | WorkspacePermissions "workspace_perm list"
  | OneWorkspaceGroupPermission workspace_group_perm
  | WorkspaceGroupPermissions "workspace_group_perm list"

abbreviation answered_by :: "('a \<Rightarrow> store_answer) \<Rightarrow> 'a result \<Rightarrow> store_answer result" where
  "answered_by f r \<equiv> map_sum id f r"

text \<open>A class for which there is no such method has no answer: an attribute error.\<close>

definition for_classes :: "resource_class list \<Rightarrow> resource_class \<Rightarrow> 'a result \<Rightarrow> 'a result" where
  "for_classes classes c r = (if c \<in> set classes then r else Inl OtherError)"

primrec read_permission :: "db \<Rightarrow> permission_read \<Rightarrow> store_answer result" where
  "read_permission db (GetPermission c i u) = for_classes direct_classes c
     (answered_by OnePermission (user_get_permission c db (ResourceId i) u))"
| "read_permission db (ListPermissions c u) = for_classes (Scorer # direct_classes) c
     (answered_by Permissions (user_list_permissions_for_user c db u))"
| "read_permission db (ListPermissionsForExperiment i) =
     Inr (Permissions (user_list_permissions_for_resource Experiment db i))"
| "read_permission db (GetScorerPermission e s u) =
     answered_by OnePermission (scorer_get_permission db e s u)"
| "read_permission db (GetUserGroupsPermission c i u) = for_classes direct_classes c
     (answered_by OnePermission
        (if c = Experiment then group_get_permission_for_user_resource c db (ResourceId i) u
         else if c = RegisteredModel then registered_model_get_for_user db i u
         else gateway_get_group_permission_for_user c db i u))"
| "read_permission db (GetUserGroupsScorer e s u) =
     answered_by OnePermission (get_group_permission_for_user_scorer db e s u)"
| "read_permission db (ListGroupPermissions c g) = for_classes (Experiment # Scorer # gateway_classes) c
     (answered_by Permissions (group_list_permissions_for_group c db g))"
| "read_permission db (ListGroupIdExperiments i) =
     Inr (Permissions (group_list_permissions_for_group_id Experiment db i))"
| "read_permission db (ListUserGroupsPermissions c u) = for_classes [Experiment, RegisteredModel] c
     (answered_by Permissions
        (if c = Experiment then group_list_permissions_for_user_groups c db u
         else registered_model_list_for_user db u))"
| "read_permission db (GetGroupExperiments g) =
     answered_by Permissions (group_list_permissions_for_group Experiment db g)"
| "read_permission db (GetGroupModels g) =
     answered_by Permissions (group_list_permissions_for_group RegisteredModel db g)"
| "read_permission db (GetGroupPrompts g) =
     answered_by Permissions (list_prompt_permissions_for_group db g)"

primrec read_regex :: "store_env \<Rightarrow> db \<Rightarrow> regex_read \<Rightarrow> store_answer result" where
  "read_regex se db (GetRegex c u i) = for_classes regex_classes c
     (answered_by OnePattern (regex_get c db u i))"
| "read_regex se db (ListRegex c u) = for_classes regex_classes c
     (answered_by Patterns (list_regex_for_user c db u))"
| "read_regex se db ListAllWorkspaceRegex = Inr (Patterns (regex_list Workspace db))"
| "read_regex se db ListAllWorkspaceGroupRegex = Inr (Patterns (map group_regex_perm_entity (db_group_regex_perms db Workspace)))"
| "read_regex se db (GetModelRegex prompt i u) =
     answered_by OnePattern (registered_model_regex_get db i u prompt)"
| "read_regex se db (ListModelRegex prompt u) =
     answered_by Patterns (registered_model_list_regex_for_user db u prompt)"
| "read_regex se db (GetGroupRegex c g i) = for_classes regex_classes c
     (answered_by OnePattern
        (if c \<in> set gateway_classes then get_group_gateway_regex_permission se c db i g
         else group_regex_get c db g i))"
| "read_regex se db (ListGroupRegex c g) = for_classes regex_classes c
     (answered_by Patterns
        (if c = Scorer then list_group_scorer_regex_permissions db g
         else group_regex_list_permissions_for_group c db g))"
| "read_regex se db (ListExperimentRegexForGroups gs) =
     answered_by Patterns (group_regex_list_permissions_for_groups Experiment db gs)"
| "read_regex se db (ListGroupRegexForGroupsIds c is) = for_classes regex_classes c
     (Inr (Patterns (group_regex_list_permissions_for_groups_ids c db is)))"
| "read_regex se db (GetGroupModelRegex prompt i g) =
     answered_by OnePattern (registered_model_group_regex_get db i g prompt)"
| "read_regex se db (ListGroupModelRegex prompt g) =
     answered_by Patterns (registered_model_group_regex_list_permissions_for_group db g prompt)"
| "read_regex se db (ListGroupModelRegexForGroups prompt gs) =
     answered_by Patterns (registered_model_group_regex_list_permissions_for_groups db gs prompt)"
| "read_regex se db (ListGroupModelRegexForGroupsIds prompt is) =
     Inr (Patterns (registered_model_group_regex_list_permissions_for_groups_ids db is prompt))"

text \<open>\<open>check_password_hash\<close> is the library's comparison of a password with its hash.\<close>

primrec read_account :: "(string \<Rightarrow> string \<Rightarrow> bool) \<Rightarrow> store_env \<Rightarrow> db \<Rightarrow> account_read \<Rightarrow> store_answer result" where
  "read_account check_password_hash se db (AuthenticateUser u password) =
     Inr (Found (authenticate check_password_hash (se_now se) db u password))"
| "read_account check_password_hash se db (HasUser u) = Inr (Found (user_exist db u))"
| "read_account check_password_hash se db (GetUser u) = answered_by OneUser (user_get db u)"
| "read_account check_password_hash se db (GetUserProfile u) = answered_by OneUser (user_get_profile db u)"
| "read_account check_password_hash se db (ListUsers service all_users) = Inr (Users (user_list db service all_users))"
| "read_account check_password_hash se db (ListUsernames service) = Inr (Names (list_usernames db service))"
| "read_account check_password_hash se db GetGroups = Inr (Names (list_groups db))"
| "read_account check_password_hash se db (GetGroupUsers g) = answered_by Users (list_group_members db g)"
| "read_account check_password_hash se db (GetGroupsForUser u) = answered_by Names (list_groups_for_user db u)"
| "read_account check_password_hash se db (GetGroupsIdsForUser u) = answered_by Ids (list_group_ids_for_user db u)"
| "read_account check_password_hash se db (GetUserQuota u) = answered_by MaybeQuota (get_quota db u)"
| "read_account check_password_hash se db ListAllUserQuotas = Inr (Quotas (list_all_quotas db))"
| "read_account check_password_hash se db (GetUserById i) = answered_by MaybeUser (get_user_by_id db i)"

primrec read_workspace :: "db \<Rightarrow> workspace_read \<Rightarrow> store_answer result" where
  "read_workspace db (GetWorkspacePermission w u) =
     answered_by OneWorkspacePermission (get_workspace_permission db w u)"
| "read_workspace db (ListWorkspacePermissions w) = Inr (WorkspacePermissions (ws_list_for_workspace db w))"
| "read_workspace db (GetUserGroupsWorkspacePermission w u) =
     answered_by OneWorkspaceGroupPermission (get_user_groups_workspace_permission db w u)"
| "read_workspace db (GetWorkspaceGroupPermission w g) =
     answered_by OneWorkspaceGroupPermission (get_workspace_group_permission db w g)"
| "read_workspace db (ListWorkspaceGroupPermissions w) =
     Inr (WorkspaceGroupPermissions (wsg_list_for_workspace db w))"

datatype store_read =
    PermissionRead permission_read
  | RegexRead regex_read
  | AccountRead account_read
  | WorkspaceRead workspace_read

primrec store_read_answer :: "(string \<Rightarrow> string \<Rightarrow> bool) \<Rightarrow> store_env \<Rightarrow> db \<Rightarrow> store_read \<Rightarrow> store_answer result" where
  "store_read_answer check se db (PermissionRead r) = read_permission db r"
| "store_read_answer check se db (RegexRead r) = read_regex se db r"
| "store_read_answer check se db (AccountRead r) = read_account check se db r"
| "store_read_answer check se db (WorkspaceRead r) = read_workspace db r"

text \<open>
  The reading methods that there are. Of those the look-up of a gateway pattern of a group is left
  out by \<open>plain_read\<close>: it compares numbers with texts, and what the engine does is a parameter.
\<close>

fun read_exists :: "store_read \<Rightarrow> bool" where
  "read_exists (PermissionRead (GetPermission c i u)) = (c \<in> set direct_classes)"
| "read_exists (PermissionRead (ListPermissions c u)) = (c \<in> set (Scorer # direct_classes))"
| "read_exists (PermissionRead (GetUserGroupsPermission c i u)) = (c \<in> set direct_classes)"
| "read_exists (PermissionRead (ListGroupPermissions c g)) = (c \<in> set (Experiment # Scorer # gateway_classes))"
| "read_exists (PermissionRead (ListUserGroupsPermissions c u)) = (c \<in> set [Experiment, RegisteredModel])"
| "read_exists (RegexRead (GetRegex c u i)) = (c \<in> set regex_classes)"
| "read_exists (RegexRead (ListRegex c u)) = (c \<in> set regex_classes)"
| "read_exists (RegexRead (GetGroupRegex c g i)) = (c \<in> set regex_classes)"
| "read_exists (RegexRead (ListGroupRegex c g)) = (c \<in> set regex_classes)"
| "read_exists (RegexRead (ListGroupRegexForGroupsIds c is)) = (c \<in> set regex_classes)"
| "read_exists _ = True"

fun plain_read :: "store_read \<Rightarrow> bool" where
  "plain_read (RegexRead (GetGroupRegex c g i)) = (c \<notin> set gateway_classes)"
| "plain_read _ = True"

section \<open>Opening the database\<close>

text \<open>
  An engine is made for each attempt and inspected; making one may raise, and that is not caught.
  The value has the pauses, in tenths of a second, between the attempts.
\<close>

fun create_engine_loop :: "(nat \<Rightarrow> 'e result) \<Rightarrow> ('e \<Rightarrow> nat \<Rightarrow> unit result) \<Rightarrow> nat list \<Rightarrow> nat list \<times> 'e option result" where
  "create_engine_loop open_engine inspect [] = ([], Inr None)"
| "create_engine_loop open_engine inspect (attempt # attempts) =
     (case open_engine attempt of
        Inl exc \<Rightarrow> ([], Inl exc)
      | Inr engine \<Rightarrow>
          (case inspect engine attempt of
             Inr _ \<Rightarrow> ([], Inr (Some engine))
           | Inl exc \<Rightarrow>
               if attempts = [] then ([], Inl exc)
               else (let (pauses, r) = create_engine_loop open_engine inspect attempts
                     in ((2 ^ attempt - 1) # pauses, r))))"

definition create_engine :: "(nat \<Rightarrow> 'e result) \<Rightarrow> ('e \<Rightarrow> nat \<Rightarrow> unit result) \<Rightarrow> nat list \<times> 'e option result" where
  "create_engine open_engine inspect = create_engine_loop open_engine inspect [1, 2, 3]"

text \<open>The options of the pool: a number that is zero is left to the library; SQLite has no pool.\<close>

definition pool_options :: "bool \<Rightarrow> int \<Rightarrow> int \<Rightarrow> int \<Rightarrow> (string \<times> int) list" where
  "pool_options is_sqlite pool_size max_overflow pool_recycle =
     (if is_sqlite then []
      else filter (\<lambda>(_, n). n \<noteq> 0)
        [(''pool_size'', pool_size), (''max_overflow'', max_overflow), (''pool_recycle'', pool_recycle)])"

definition ping :: "unit result \<Rightarrow> bool" where
  "ping select_one = (case select_one of Inr _ \<Rightarrow> True | Inl _ \<Rightarrow> False)"

section \<open>What the methods answer\<close>

lemma create_engine_outcome:
  "(\<exists>engine. snd (create_engine open_engine inspect) = Inr (Some engine)) \<or>
   (\<exists>exc. snd (create_engine open_engine inspect) = Inl exc)"
  "sum_list (fst (create_engine open_engine inspect)) \<le> 4"
  by (simp_all add: create_engine_def split: sum.split)

text \<open>The only exception of a look-up.\<close>

definition definite :: "'a result \<Rightarrow> bool" where
  "definite r \<longleftrightarrow> (\<forall>e. r = Inl e \<longrightarrow> e = MlflowException RESOURCE_DOES_NOT_EXIST)"

lemma definite_simps [simp]:
  "definite (Inr x)" "definite (Inl e) \<longleftrightarrow> e = MlflowException RESOURCE_DOES_NOT_EXIST"
  "definite (map_sum id f r) \<longleftrightarrow> definite r"
  by (auto simp: definite_def) (cases r; simp)+

lemma definite_bind: "definite r \<Longrightarrow> (\<And>x. r = Inr x \<Longrightarrow> definite (f x)) \<Longrightarrow> definite (bind_result r f)"
  by (cases r) auto

lemma at_most_one:
  assumes "distinct (map key rows)" and "\<And>r. P r \<Longrightarrow> key r = k"
  shows "filter P rows = [] \<or> (\<exists>r. filter P rows = [r])"
proof (cases "filter P rows")
  case (Cons r rs)
  have "distinct (map key (filter P rows))" using assms(1) by (rule distinct_map_filter)
  moreover have "key x = k" if "x \<in> set (filter P rows)" for x using assms(2) that by simp
  ultimately have "rs = []" unfolding Cons by (cases rs) auto
  then show ?thesis using Cons by simp
qed simp

lemma definite_queries:
  assumes "distinct (map key rows)" and "\<And>r. P r \<Longrightarrow> key r = k"
  shows "definite (query_one_mlflow (filter P rows))" and "definite (query_one_or_none (filter P rows))"
    and "definite (ws_query_one (filter P rows))"
  using at_most_one [of key rows P k, OF assms] by (auto simp: ws_query_one_def)

lemma definite_get_user: "db_wf db \<Longrightarrow> definite (get_user db u)"
  unfolding get_user_def by (rule definite_queries [of u_username]) (auto dest: db_wf_keys simp: table_ok_def)

lemma definite_get_group: "db_wf db \<Longrightarrow> definite (get_group db g)"
  unfolding get_group_def by (rule definite_queries [of g_name]) (auto dest: db_wf_keys simp: table_ok_def)

text \<open>The look-ups of one row, each by the key that the tables keep unique.\<close>

lemma definite_permission:
  assumes "db_wf db"
  shows "definite (user_get_permission c db key u)"
    and "definite (gateway_get_group_permission_for_user c db i g)"
    and "group_perms_valid db \<Longrightarrow> definite (group_get_permission_for_user_resource c db key u)"
proof -
  show "definite (user_get_permission c db key u)"
    by (simp add: user_get_permission_def user_get_permission_row_eq [OF assms] split: sum.split option.split)
  show "definite (gateway_get_group_permission_for_user c db i g)"
    by (simp add: gateway_get_group_permission_for_user_def group_get_permission_row_eq [OF assms]
        split: sum.split option.split)
  show "definite (group_get_permission_for_user_resource c db key u)" if "group_perms_valid db"
    using group_get_permission_for_user_resource_best [OF assms that, of c key u]
    by (auto split: option.split)
qed

lemma definite_regex:
  assumes "db_wf db"
  shows "definite (regex_get c db u i)" and "definite (registered_model_regex_get db i u prompt)"
    and "definite (group_regex_get c db g i)" and "definite (registered_model_group_regex_get db i g prompt)"
  unfolding regex_get_def registered_model_regex_get_def group_regex_get_def registered_model_group_regex_get_def
    get_regex_permission_row_def get_registered_model_regex_permission_row_def
    get_group_regex_permission_row_def get_registered_model_group_regex_permission_row_def
  using db_wf_keys(6,7) [OF assms]
  by (intro definite_bind definite_get_user definite_get_group definite_queries(1) [of rp_id _ _ i]
      definite_queries(1) [of grp_id _ _ i] assms; simp add: table_ok_def)+

lemma definite_mapM: "(\<And>x. definite (f x)) \<Longrightarrow> definite (mapM_result f xs)"
  by (induction xs) (simp_all add: definite_bind)

lemma definite_accounts:
  assumes "db_wf db"
  shows "definite (user_get db u)" and "definite (user_get_profile db u)" and "definite (get_quota db u)"
    and "definite (get_user_by_id db i)" and "definite (list_group_scorer_regex_permissions db g)"
proof -
  have users: "definite (query_one_or_none (filter (\<lambda>x. u_username x = u) (db_users db)))"
    "definite (query_one_or_none (filter (\<lambda>x. u_id x = i) (db_users db)))"
    using db_wf_keys(1) [OF assms]
    by (intro definite_queries(2) [of u_username _ _ u] definite_queries(2) [of u_id _ _ i]; simp add: table_ok_def)+
  have quotas: "definite (query_one_or_none (filter (\<lambda>q. q_user q = k) (db_quotas db)))" for k
    using db_wf_keys(10) [OF assms] by (intro definite_queries(2) [of q_user _ _ k]; simp add: table_ok_def)
  have groups: "definite (query_one_or_none (filter (\<lambda>x. g_name x = g) (db_groups db)))"
    using db_wf_keys(2) [OF assms] by (intro definite_queries(2) [of g_name _ _ g]; simp add: table_ok_def)
  have row: "definite (user_get_row db u)"
    unfolding user_get_row_def by (rule definite_bind [OF users(1)]) (auto split: option.split)
  show "definite (user_get db u)" unfolding user_get_def by (rule definite_bind [OF row]) simp
  show "definite (user_get_profile db u)" unfolding user_get_profile_def by (rule definite_bind [OF row]) simp
  show "definite (get_quota db u)"
    unfolding get_quota_def quota_get_or_none_def find_user_def quota_row_of_def
    by (rule definite_bind [OF users(1)]) (auto split: option.split intro: quotas)
  show "definite (get_user_by_id db i)"
    unfolding get_user_by_id_def by (rule definite_bind [OF users(2)]) (auto split: option.split)
  show "definite (list_group_scorer_regex_permissions db g)"
    unfolding list_group_scorer_regex_permissions_def
    by (rule definite_bind [OF groups]) (auto split: option.split)
qed

lemma definite_workspaces:
  assumes "db_wf db"
  shows "definite (get_workspace_permission db w u)" and "definite (get_workspace_group_permission db w g)"
    and "ws_group_perms_valid db \<Longrightarrow> definite (get_user_groups_workspace_permission db w u)"
proof -
  show "definite (get_workspace_permission db w u)"
    unfolding get_workspace_permission_def ws_get_def using db_wf_keys(8) [OF assms]
    by (intro definite_bind definite_get_user assms definite_queries(3) [of wp_unique]) (auto simp: wp_unique_def)
  show "definite (get_workspace_group_permission db w g)"
    unfolding get_workspace_group_permission_def wsg_get_def using db_wf_keys(9) [OF assms]
    by (intro definite_bind definite_get_group assms definite_queries(3) [of wgp_unique]) (auto simp: wgp_unique_def)
  assume valid: "ws_group_perms_valid db"
  have "definite (get_highest_for_user db w k)" for k
    using get_highest_for_user_best [OF valid, of w k] by (auto split: option.split)
  then show "definite (get_user_groups_workspace_permission db w u)"
    unfolding get_user_groups_workspace_permission_def by (intro definite_bind definite_get_user assms)
qed

lemmas definite_lists = definite_bind definite_get_user definite_get_group definite_mapM

lemma definite_read_permission:
  assumes "db_wf db" and "group_perms_valid db" and "read_exists (PermissionRead r)"
  shows "definite (read_permission db r)"
  using assms(3)
  by (cases r) (auto simp: for_classes_def scorer_get_permission_def user_list_permissions_for_user_def
      group_list_permissions_for_group_def group_list_permissions_for_user_groups_def Let_def
      registered_model_list_for_user_def list_prompt_permissions_for_group_def
      registered_model_get_for_user_eq get_group_permission_for_user_scorer_eq
      intro!: definite_permission [OF assms(1)] definite_permission(3) [OF assms(1,2)] definite_lists assms(1))

lemma definite_read_regex:
  assumes "db_wf db" and "read_exists (RegexRead r)" and "plain_read (RegexRead r)"
  shows "definite (read_regex se db r)"
  using assms(2,3)
  by (cases r) (auto simp: for_classes_def list_regex_for_user_def registered_model_list_regex_for_user_def
      group_regex_list_permissions_for_group_def group_regex_list_permissions_for_groups_def
      registered_model_group_regex_list_permissions_for_group_def
      registered_model_group_regex_list_permissions_for_groups_def
      intro!: definite_regex [OF assms(1)] definite_accounts(5) [OF assms(1)] definite_lists assms(1))

lemma definite_read_account: "db_wf db \<Longrightarrow> definite (read_account check se db r)"
  by (cases r) (auto simp: list_group_members_def list_groups_for_user_def list_group_ids_for_user_def Let_def
      intro!: definite_accounts definite_lists)

lemma definite_read_workspace:
  "db_wf db \<Longrightarrow> ws_group_perms_valid db \<Longrightarrow> definite (read_workspace db r)"
  by (cases r) (auto intro: definite_workspaces)

text \<open>C33: On a database that keeps its keys unique and whose groups have permissions by valid
  names, on resources and on workspaces, every reading method of the store returns or raises
  RESOURCE_DOES_NOT_EXIST: no look-up meets two rows, and none fails while it compares the
  permissions of the user's groups. The look-up of a gateway pattern of a group is left out, since
  it passes its arguments in the wrong order.\<close>

theorem reads_are_definite:
  assumes "db_wf db" and "group_perms_valid db" and "ws_group_perms_valid db"
    and "read_exists r" and "plain_read r"
  shows "(\<exists>a. store_read_answer check se db r = Inr a) \<or>
    store_read_answer check se db r = Inl (MlflowException RESOURCE_DOES_NOT_EXIST)"
proof -
  have "definite (store_read_answer check se db r)"
    using assms(4,5) definite_read_permission [OF assms(1,2)] definite_read_regex [OF assms(1)]
      definite_read_account [OF assms(1)] definite_read_workspace [OF assms(1,3)]
    by (cases r) simp_all
  then show ?thesis unfolding definite_def by (cases "store_read_answer check se db r") auto
qed

theorem reads_are_definite_witness:
  "store_read_answer (=) example_env example_db (PermissionRead (GetUserGroupsPermission Experiment ''20'' ''alice'')) =
     Inr (OnePermission \<lparr>pe_key = ResourceId ''20'', pe_permission = ''EDIT'', pe_user_id = None,
       pe_group_id = Some 2, pe_prompt = False\<rparr>) \<and>
   store_read_answer (=) example_env example_db (AccountRead (GetUserProfile ''carol'')) =
     Inl (MlflowException RESOURCE_DOES_NOT_EXIST)"
proof -
  have workspaces: "ws_group_perms_valid example_db"
    by code_simp
  have "\<not> (\<exists>a. store_read_answer (=) example_env example_db (AccountRead (GetUserProfile ''carol'')) = Inr a)"
    by (simp add: user_get_profile_def user_get_row_def)
  with reads_are_definite [OF example_db_wf example_group_perms_valid workspaces, of "AccountRead (GetUserProfile ''carol'')" "(=)" example_env]
  have "store_read_answer (=) example_env example_db (AccountRead (GetUserProfile ''carol'')) =
     Inl (MlflowException RESOURCE_DOES_NOT_EXIST)" by simp
  moreover have "store_read_answer (=) example_env example_db
      (PermissionRead (GetUserGroupsPermission Experiment ''20'' ''alice'')) =
     Inr (OnePermission \<lparr>pe_key = ResourceId ''20'', pe_permission = ''EDIT'', pe_user_id = None,
       pe_group_id = Some 2, pe_prompt = False\<rparr>)" by code_simp
  ultimately show ?thesis by simp
qed

text \<open>The list of a user's permissions holds exactly what the single look-ups of that user find.\<close>

lemma listed_iff_found:
  assumes "db_wf db" and "user_list_permissions_for_user c db u = Inr es"
  shows "e \<in> set es \<longleftrightarrow> (\<exists>key. user_get_permission c db key u = Inr e)"
proof -
  obtain v where v: "get_user db u = Inr v"
    "es = map user_perm_entity (filter (\<lambda>r. up_user r = u_id v) (db_user_perms db c))"
    using assms(2) by (auto simp: user_list_permissions_for_user_def)
  have "user_get_permission c db key u = Inr e \<longleftrightarrow>
      (\<exists>r. row_at up_unique (key, u_id v) (db_user_perms db c) = Some r \<and> e = user_perm_entity r)" for key
    by (auto simp: user_get_permission_def user_get_permission_row_eq [OF assms(1)] v(1) user_perm_at_def
        split: option.split)
  then show ?thesis
    using row_at_Some [OF table_okD(2) [OF db_wf_keys(4) [OF assms(1)]]]
    by (auto simp: v(2) up_unique_def)
qed

end
