(* ===== verification/LazyStore.thy ===== *)
theory LazyStore
  imports Prelude
begin

text \<open>
  \<^verbatim>\<open>store.py\<close>: the store that is opened on its first use, by whichever thread comes first, with a
  lock and a second look at the variable once the lock is held. The steps of the threads interleave
  freely, and opening may raise. The property: along every run the database is opened once at most,
  and every thread that gets a store gets that one.
\<close>

section \<open>Threads\<close>

text \<open>
  Where a thread is in \<^verbatim>\<open>_get_instance\<close>: before the first look, waiting for the lock, before the
  second look, in \<^verbatim>\<open>_init\<close>, holding the store that it opened, before the last look, or out with what
  it returns or raised. A store is its number in the order of opening.
\<close>

datatype place =
    Calling | Waiting | Looking | Opening | Publishing nat | Reading | Returned "nat option" | Raised

record lazy_store =
  lz_instance :: "nat option"
  lz_lock :: "nat option"
  lz_opened :: nat
  lz_place :: "nat \<Rightarrow> place"

definition goes :: "nat \<Rightarrow> place \<Rightarrow> lazy_store \<Rightarrow> lazy_store" where
  "goes t p s = s\<lparr>lz_place := (lz_place s)(t := p)\<rparr>"

inductive lazy_step :: "lazy_store \<Rightarrow> lazy_store \<Rightarrow> bool" where
  look_hit: "lz_place s t = Calling \<Longrightarrow> lz_instance s \<noteq> None \<Longrightarrow>
     lazy_step s (goes t (Returned (lz_instance s)) s)"
| look_miss: "lz_place s t = Calling \<Longrightarrow> lz_instance s = None \<Longrightarrow> lazy_step s (goes t Waiting s)"
| acquire: "lz_place s t = Waiting \<Longrightarrow> lz_lock s = None \<Longrightarrow>
     lazy_step s (goes t Looking (s\<lparr>lz_lock := Some t\<rparr>))"
| again_hit: "lz_place s t = Looking \<Longrightarrow> lz_instance s \<noteq> None \<Longrightarrow>
     lazy_step s (goes t (Returned (lz_instance s)) (s\<lparr>lz_lock := None\<rparr>))"
| again_miss: "lz_place s t = Looking \<Longrightarrow> lz_instance s = None \<Longrightarrow> lazy_step s (goes t Opening s)"
| open_ok: "lz_place s t = Opening \<Longrightarrow>
     lazy_step s (goes t (Publishing (lz_opened s)) (s\<lparr>lz_opened := Suc (lz_opened s)\<rparr>))"
| open_fails: "lz_place s t = Opening \<Longrightarrow> lazy_step s (goes t Raised (s\<lparr>lz_lock := None\<rparr>))"
| publish: "lz_place s t = Publishing n \<Longrightarrow> lazy_step s (goes t Reading (s\<lparr>lz_instance := Some n\<rparr>))"
| read_last: "lz_place s t = Reading \<Longrightarrow>
     lazy_step s (goes t (Returned (lz_instance s)) (s\<lparr>lz_lock := None\<rparr>))"
| call_again: "lz_place s t = Returned r \<or> lz_place s t = Raised \<Longrightarrow> lazy_step s (goes t Calling s)"

definition lazy_start :: lazy_store where
  "lazy_start = \<lparr>lz_instance = None, lz_lock = None, lz_opened = 0, lz_place = (\<lambda>_. Calling)\<rparr>"

inductive lazy_run :: "lazy_store \<Rightarrow> bool" where
  run_start: "lazy_run lazy_start"
| run_step: "lazy_run s \<Longrightarrow> lazy_step s s' \<Longrightarrow> lazy_run s'"

section \<open>The invariant\<close>

text \<open>The places where the lock is held.\<close>

fun holds_lock :: "place \<Rightarrow> bool" where
  "holds_lock Looking = True"
| "holds_lock Opening = True"
| "holds_lock (Publishing n) = True"
| "holds_lock Reading = True"
| "holds_lock _ = False"

text \<open>Whoever is past the second look found nothing, and nothing has been opened before.\<close>

fun place_ok :: "nat option \<Rightarrow> nat \<Rightarrow> place \<Rightarrow> bool" where
  "place_ok found_store opened Looking = (found_store = None \<longrightarrow> opened = 0)"
| "place_ok found_store opened Opening = (found_store = None \<and> opened = 0)"
| "place_ok found_store opened (Publishing n) = (found_store = None \<and> n = 0 \<and> opened = 1)"
| "place_ok found_store opened Reading = (found_store = Some 0)"
| "place_ok found_store opened (Returned r) = (r = Some 0 \<and> found_store = Some 0)"
| "place_ok found_store opened _ = True"

definition lazy_inv :: "lazy_store \<Rightarrow> bool" where
  "lazy_inv s \<longleftrightarrow>
     (\<forall>t. holds_lock (lz_place s t) \<longleftrightarrow> lz_lock s = Some t) \<and>
     (\<forall>t. place_ok (lz_instance s) (lz_opened s) (lz_place s t)) \<and>
     (lz_instance s = None \<or> lz_instance s = Some 0 \<and> lz_opened s = 1) \<and>
     (lz_instance s = None \<longrightarrow> lz_lock s = None \<longrightarrow> lz_opened s = 0)"

lemma goes_sel [simp]:
  "lz_instance (goes t p s) = lz_instance s" "lz_lock (goes t p s) = lz_lock s"
  "lz_opened (goes t p s) = lz_opened s" "lz_place (goes t p s) = (lz_place s)(t := p)"
  by (simp_all add: goes_def)

lemma lazy_invD:
  assumes "lazy_inv s"
  shows "holds_lock (lz_place s t) = (lz_lock s = Some t)"
    and "place_ok (lz_instance s) (lz_opened s) (lz_place s t)"
    and "lz_instance s = None \<or> lz_instance s = Some 0 \<and> lz_opened s = 1"
    and "lz_instance s = None \<Longrightarrow> lz_lock s = None \<Longrightarrow> lz_opened s = 0"
  using assms unfolding lazy_inv_def by blast+

text \<open>A thread outside the lock is as it was, unless a store is taken away.\<close>

lemma place_ok_outside:
  "\<not> holds_lock p \<Longrightarrow> place_ok i n p \<Longrightarrow> (i = None \<or> j = i) \<Longrightarrow> place_ok j m p"
  by (cases p) auto

lemma lazy_inv_move:
  assumes inv: "lazy_inv s" and moved: "lz_place s' = (lz_place s)(t := p)"
    and change: "lz_instance s' = lz_instance s \<and> lz_opened s' = lz_opened s \<or>
      lz_lock s = Some t \<and> (lz_instance s = None \<or> lz_instance s' = lz_instance s)"
    and there: "place_ok (lz_instance s') (lz_opened s') p"
    and lock: "lz_lock s' = lz_lock s \<and> holds_lock p = holds_lock (lz_place s t) \<or>
      lz_lock s = None \<and> lz_lock s' = Some t \<and> holds_lock p \<or>
      lz_lock s = Some t \<and> lz_lock s' = None \<and> \<not> holds_lock p"
    and opened: "lz_instance s' = None \<or> lz_instance s' = Some 0 \<and> lz_opened s' = 1"
      "lz_instance s' = None \<Longrightarrow> lz_lock s' = None \<Longrightarrow> lz_opened s' = 0"
  shows "lazy_inv s'"
proof -
  have held: "holds_lock (lz_place s u) = (lz_lock s = Some u)" for u by (rule lazy_invD(1) [OF inv])
  have "holds_lock (((lz_place s)(t := p)) u) = (lz_lock s' = Some u)" for u
    using lock held [of u] held [of t] by (cases "u = t") auto
  moreover have "place_ok (lz_instance s') (lz_opened s') (((lz_place s)(t := p)) u)" for u
  proof (cases "u = t")
    case False
    then have "place_ok (lz_instance s') (lz_opened s') (lz_place s u)"
      using change held [of u] lazy_invD(2) [OF inv, of u] place_ok_outside [of "lz_place s u"] by auto
    then show ?thesis using False by simp
  qed (use there in simp)
  ultimately show ?thesis using opened by (auto simp: lazy_inv_def moved)
qed

lemma lazy_step_inv:
  assumes "lazy_step s s'" and "lazy_inv s"
  shows "lazy_inv s'"
  using assms
proof (induction rule: lazy_step.induct)
  case (look_hit s t)
  then have inv: "lazy_inv s" by simp
  show ?case
    by (rule lazy_inv_move [OF inv, of _ t "Returned (lz_instance s)"])
       (use look_hit lazy_invD(1,2) [OF inv, of t] lazy_invD(3,4) [OF inv] in auto)
next
  case (look_miss s t)
  then have inv: "lazy_inv s" by simp
  show ?case
    by (rule lazy_inv_move [OF inv, of _ t "Waiting"])
       (use look_miss lazy_invD(1,2) [OF inv, of t] lazy_invD(3,4) [OF inv] in auto)
next
  case (acquire s t)
  then have inv: "lazy_inv s" by simp
  show ?case
    by (rule lazy_inv_move [OF inv, of _ t "Looking"])
       (use acquire lazy_invD(1,2) [OF inv, of t] lazy_invD(3,4) [OF inv] in auto)
next
  case (again_hit s t)
  then have inv: "lazy_inv s" by simp
  show ?case
    by (rule lazy_inv_move [OF inv, of _ t "Returned (lz_instance s)"])
       (use again_hit lazy_invD(1,2) [OF inv, of t] lazy_invD(3,4) [OF inv] in auto)
next
  case (again_miss s t)
  then have inv: "lazy_inv s" by simp
  show ?case
    by (rule lazy_inv_move [OF inv, of _ t "Opening"])
       (use again_miss lazy_invD(1,2) [OF inv, of t] lazy_invD(3,4) [OF inv] in auto)
next
  case (open_ok s t)
  then have inv: "lazy_inv s" by simp
  show ?case
    by (rule lazy_inv_move [OF inv, of _ t "Publishing (lz_opened s)"])
       (use open_ok lazy_invD(1,2) [OF inv, of t] lazy_invD(3,4) [OF inv] in auto)
next
  case (open_fails s t)
  then have inv: "lazy_inv s" by simp
  show ?case
    by (rule lazy_inv_move [OF inv, of _ t "Raised"])
       (use open_fails lazy_invD(1,2) [OF inv, of t] lazy_invD(3,4) [OF inv] in auto)
next
  case (publish s t n)
  then have inv: "lazy_inv s" by simp
  show ?case
    by (rule lazy_inv_move [OF inv, of _ t "Reading"])
       (use publish lazy_invD(1,2) [OF inv, of t] lazy_invD(3,4) [OF inv] in auto)
next
  case (read_last s t)
  then have inv: "lazy_inv s" by simp
  show ?case
    by (rule lazy_inv_move [OF inv, of _ t "Returned (lz_instance s)"])
       (use read_last lazy_invD(1,2) [OF inv, of t] lazy_invD(3,4) [OF inv] in auto)
next
  case (call_again s t r)
  then have inv: "lazy_inv s" by simp
  show ?case
    by (rule lazy_inv_move [OF inv, of _ t "Calling"])
       (use call_again lazy_invD(1,2) [OF inv, of t] lazy_invD(3,4) [OF inv] in auto)
qed

lemma lazy_run_inv: "lazy_run s \<Longrightarrow> lazy_inv s"
proof (induction rule: lazy_run.induct)
  case run_start
  show ?case by (simp add: lazy_inv_def lazy_start_def)
next
  case (run_step s s')
  then show ?case using lazy_step_inv by simp
qed

text \<open>Whoever holds the lock can go on, and so can everybody when it is free.\<close>

definition moves :: "lazy_store \<Rightarrow> nat \<Rightarrow> bool" where
  "moves s t \<longleftrightarrow> (\<exists>s'. lazy_step s s' \<and> lz_place s' t \<noteq> lz_place s t)"

lemma holder_moves:
  assumes "holds_lock (lz_place s t)"
  shows "moves s t"
proof (cases "lz_place s t")
  case Looking
  then show ?thesis
    using again_hit [of s t] again_miss [of s t] unfolding moves_def by (cases "lz_instance s") fastforce+
next
  case Opening
  then show ?thesis using open_fails [of s t] unfolding moves_def by fastforce
next
  case (Publishing n)
  then show ?thesis using publish [of s t n] unfolding moves_def by fastforce
next
  case Reading
  then show ?thesis using read_last [of s t] unfolding moves_def by fastforce
qed (use assms in simp_all)

lemma waiting_moves: "lz_place s t = Waiting \<Longrightarrow> lz_lock s = None \<Longrightarrow> moves s t"
  using acquire [of s t] unfolding moves_def by fastforce

lemma calling_moves: "lz_place s t = Calling \<Longrightarrow> moves s t"
  using look_hit [of s t] look_miss [of s t] unfolding moves_def by (cases "lz_instance s") fastforce+

text \<open>C32: However the threads interleave that ask for the store, and whichever of their attempts to open
  the database fail: at most one attempt succeeds, every call that returns, returns the one store,
  and no call is stuck: a thread that is in a call can go on, or the holder of the lock can.\<close>

theorem store_is_opened_once:
  assumes "lazy_run s"
  shows "lz_opened s \<le> 1 \<and>
    (\<forall>t r. lz_place s t = Returned r \<longrightarrow> r = Some 0) \<and>
    (\<forall>t. moves s t \<or> (\<exists>r. lz_place s t = Returned r) \<or> lz_place s t = Raised \<or>
       (\<exists>u. lz_lock s = Some u \<and> moves s u))"
proof (intro conjI allI impI)
  have inv: "lazy_inv s" by (rule lazy_run_inv [OF assms])
  show "lz_opened s \<le> 1"
  proof (cases "lz_lock s")
    case None
    then show ?thesis using lazy_invD(3,4) [OF inv] by auto
  next
    case (Some t)
    then show ?thesis
      using lazy_invD(1,2) [OF inv, of t] lazy_invD(3) [OF inv] by (cases "lz_place s t") auto
  qed
  show "r = Some 0" if "lz_place s t = Returned r" for t r
    using lazy_invD(2) [OF inv, of t] that by simp
  show "moves s t \<or> (\<exists>r. lz_place s t = Returned r) \<or> lz_place s t = Raised \<or>
      (\<exists>u. lz_lock s = Some u \<and> moves s u)" for t
  proof (cases "holds_lock (lz_place s t)")
    case True
    then show ?thesis using holder_moves by blast
  next
    case False
    have "moves s u" if "lz_lock s = Some u" for u
      using holder_moves lazy_invD(1) [OF inv, of u] that by simp
    then show ?thesis
      using False calling_moves [of s t] waiting_moves [of s t]
      by (cases "lz_place s t"; cases "lz_lock s") auto
  qed
qed

text \<open>Two threads find no store; the first fails to open it, the second opens it.\<close>

definition raced :: lazy_store where
  "raced = \<lparr>lz_instance = Some 0, lz_lock = None, lz_opened = 1,
     lz_place = (\<lambda>_. Calling)(0 := Raised, 1 := Returned (Some 0))\<rparr>"

lemma raced_run: "lazy_run raced"
proof -
  let ?s1 = "goes 0 Waiting lazy_start"
  let ?s2 = "goes 1 Waiting ?s1"
  let ?s3 = "goes 0 Looking (?s2\<lparr>lz_lock := Some 0\<rparr>)"
  let ?s4 = "goes 0 Opening ?s3"
  let ?s5 = "goes 0 Raised (?s4\<lparr>lz_lock := None\<rparr>)"
  let ?s6 = "goes 1 Looking (?s5\<lparr>lz_lock := Some 1\<rparr>)"
  let ?s7 = "goes 1 Opening ?s6"
  let ?s8 = "goes 1 (Publishing (lz_opened ?s7)) (?s7\<lparr>lz_opened := Suc (lz_opened ?s7)\<rparr>)"
  let ?s9 = "goes 1 Reading (?s8\<lparr>lz_instance := Some 0\<rparr>)"
  let ?s10 = "goes 1 (Returned (lz_instance ?s9)) (?s9\<lparr>lz_lock := None\<rparr>)"
  have "lazy_run ?s2"
    by (rule run_step [OF run_step [OF run_start look_miss] look_miss]) (simp_all add: lazy_start_def)
  then have "lazy_run ?s5"
    by (rule run_step [OF run_step [OF run_step [OF _ acquire] again_miss] open_fails]) (simp_all add: lazy_start_def)
  then have "lazy_run ?s8"
    by (rule run_step [OF run_step [OF run_step [OF _ acquire] again_miss] open_ok]) (simp_all add: lazy_start_def)
  then have "lazy_run ?s10"
    by (rule run_step [OF run_step [OF _ publish] read_last]) (simp_all add: lazy_start_def)
  moreover have "?s10 = raced" by (simp add: goes_def lazy_start_def raced_def fun_eq_iff)
  ultimately show ?thesis by simp
qed

theorem store_is_opened_once_witness:
  "lazy_run raced \<and> lz_opened raced \<le> 1 \<and> lz_place raced 1 = Returned (Some 0) \<and> lz_place raced 0 = Raised"
  using store_is_opened_once [OF raced_run] raced_run by (simp add: raced_def)

end
