(* ===== verification/Jobs.thy ===== *)
theory Jobs
  imports Trash ConfigManager
begin

text \<open>
  \<^verbatim>\<open>scheduler.py\<close> and \<^verbatim>\<open>utils/email.py\<close>: the background jobs behind a lock that the processes of a
  host share, and the mails about quotas. The lock is a set of names next to the state of a job;
  the library that calls the jobs and the mail server are parameters.
\<close>

section \<open>A job behind its lock\<close>

type_synonym 'w locked = "(string \<Rightarrow> bool) \<times> 'w"

definition on_world :: "('a, 'w) action \<Rightarrow> ('a, 'w locked) action" where
  "on_world f = (\<lambda>(held, w). case f w of (r, w') \<Rightarrow> (r, (held, w')))"

definition set_lock :: "string \<Rightarrow> bool \<Rightarrow> (unit, 'w locked) action" where
  "set_lock name b = (\<lambda>(held, w). (Inr (), (held(name := b), w)))"

text \<open>\<^verbatim>\<open>with _job_lock(name) as acquired\<close>: the body runs in any case, and the lock is released also when
  it raises.\<close>

definition job_lock :: "string \<Rightarrow> (bool \<Rightarrow> ('a, 'w) action) \<Rightarrow> ('a, 'w locked) action" where
  "job_lock name body =
     (\<lambda>(held, w).
        if held name then on_world (body False) (held, w)
        else (case on_world (body True) (held(name := True), w) of
                (r, s') \<Rightarrow> (case set_lock name False s' of (_, s'') \<Rightarrow> (r, s''))))"

definition run_reconcile_quotas :: "(string list, 'w) action \<Rightarrow> (unit, 'w locked) action" where
  "run_reconcile_quotas reconcile_all =
     job_lock ''quota_reconcile'' (\<lambda>acquired.
       if \<not> acquired then act_return () else act_map (\<lambda>_. ()) reconcile_all)"

definition run_cleanup_trash :: "(int \<Rightarrow> (unit, 'w) action) \<Rightarrow> other_settings \<Rightarrow> (unit, 'w locked) action" where
  "run_cleanup_trash cleanup config =
     job_lock ''trash_cleanup'' (\<lambda>acquired.
       if \<not> acquired then act_return () else cleanup (QUOTA_TRASH_RETENTION_DAYS config))"

text \<open>The jobs with their intervals in seconds, both due at once; none without the library.\<close>

definition init_scheduler :: "bool \<Rightarrow> other_settings \<Rightarrow> (string \<times> int) list option" where
  "init_scheduler available config =
     (if \<not> available then None
      else Some [(''quota_reconcile'', QUOTA_RECONCILE_INTERVAL_S config), (''trash_cleanup'', 86400)])"

section \<open>Mails\<close>

record mail =
  ma_from :: string
  ma_to :: string
  ma_subject :: string
  ma_body :: string

text \<open>The calls on a mail server, each of which may raise.\<close>

record mail_server =
  ms_connect :: "string \<Rightarrow> int \<Rightarrow> unit result"
  ms_starttls :: "unit result"
  ms_login :: "string \<Rightarrow> string \<Rightarrow> unit result"
  ms_sendmail :: "mail \<Rightarrow> unit result"
  ms_quit :: "unit result"

definition send_quota_email :: "other_settings \<Rightarrow> mail_server \<Rightarrow> string \<Rightarrow> string \<Rightarrow> string \<Rightarrow> bool" where
  "send_quota_email config ms to_address subject body =
     (if to_address = '''' then False
      else
        let msg = \<lparr>ma_from = QUOTA_SMTP_FROM config, ma_to = to_address, ma_subject = subject, ma_body = body\<rparr>;
            sent =
              bind_result (ms_connect ms (QUOTA_SMTP_HOST config) (QUOTA_SMTP_PORT config)) (\<lambda>_.
              bind_result (if QUOTA_SMTP_TLS config then ms_starttls ms else Inr ()) (\<lambda>_.
              bind_result
                (case (or_text (QUOTA_SMTP_USERNAME config) None, or_text (QUOTA_SMTP_PASSWORD config) None) of
                   (Some u, Some p) \<Rightarrow> ms_login ms u p
                 | _ \<Rightarrow> Inr ()) (\<lambda>_.
              bind_result (ms_sendmail ms msg) (\<lambda>_. ms_quit ms))))
        in (case sent of Inr _ \<Rightarrow> True | Inl _ \<Rightarrow> False))"

text \<open>The texts: how numbers are shown is a parameter (\<open>percent\<close>, \<open>megabytes\<close>), and so is the subject
  of the second mail, which has a dash outside the characters of the model.\<close>

definition new_line :: string where
  "new_line = [CHR 0x0A]"

definition recipient_name :: "string \<Rightarrow> string option \<Rightarrow> string" where
  "recipient_name username display_name =
     (case or_text display_name None of Some d \<Rightarrow> d @ '' ('' @ username @ '')'' | None \<Rightarrow> username)"

definition domain_text :: "other_settings \<Rightarrow> string" where
  "domain_text config = (case or_text (DOMAIN config) None of Some d \<Rightarrow> d | None \<Rightarrow> '''')"

definition send_soft_cap_warning :: "other_settings \<Rightarrow> mail_server \<Rightarrow> (nat \<Rightarrow> rat \<Rightarrow> string) \<Rightarrow> (int \<Rightarrow> string) \<Rightarrow>
    string \<Rightarrow> string option \<Rightarrow> int \<Rightarrow> int \<Rightarrow> rat \<Rightarrow> string option \<Rightarrow> bool" where
  "send_soft_cap_warning config ms percent megabytes username display_name used_bytes quota_bytes pct email_address =
     (case or_text email_address None of
        None \<Rightarrow> False
      | Some address \<Rightarrow>
          send_quota_email config ms address (''MLflow storage quota warning: '' @ percent 0 pct @ '' used'')
            (''Dear '' @ recipient_name username display_name @ '','' @ new_line @ new_line @
             ''You are approaching your MLflow artifact storage quota.'' @ new_line @ new_line @
             ''  Used:  '' @ megabytes used_bytes @ '' MB'' @ new_line @
             ''  Quota: '' @ megabytes quota_bytes @ '' MB'' @ new_line @
             ''  Usage: '' @ percent 1 pct @ new_line @
             ''  Domain: '' @ domain_text config @ new_line @ new_line @
             ''Please delete unused experiments or artifacts to free up space.'' @ new_line @
             ''When your quota is reached, new runs and artifact uploads will be blocked.'' @ new_line @ new_line @
             ''Your MLOps support.'' @ new_line))"

definition send_hard_cap_notification :: "other_settings \<Rightarrow> mail_server \<Rightarrow> string \<Rightarrow> (int \<Rightarrow> string) \<Rightarrow>
    string \<Rightarrow> string option \<Rightarrow> int \<Rightarrow> int \<Rightarrow> string option \<Rightarrow> bool" where
  "send_hard_cap_notification config ms subject megabytes username display_name used_bytes quota_bytes email_address =
     (case or_text email_address None of
        None \<Rightarrow> False
      | Some address \<Rightarrow>
          send_quota_email config ms address subject
            (''Dear '' @ recipient_name username display_name @ '','' @ new_line @ new_line @
             ''Your MLflow artifact storage quota has been reached.'' @ new_line @ new_line @
             ''  Used:  '' @ megabytes used_bytes @ '' MB'' @ new_line @
             ''  Quota: '' @ megabytes quota_bytes @ '' MB'' @ new_line @
             ''  Domain: '' @ domain_text config @ new_line @ new_line @
             ''New experiment creation, run creation, and artifact uploads are now blocked.'' @ new_line @
             ''Please delete unused experiments or artifacts to restore access.'' @ new_line @ new_line @
             ''Your MLOps support.'' @ new_line))"

section \<open>The lock is free again\<close>

text \<open>Whatever a job does, it leaves the locks as they were; while another process runs the job, it
  does nothing.\<close>

lemma job_lock_restores:
  "fst (snd (job_lock name body (held, w))) = held"
  by (auto simp: job_lock_def on_world_def set_lock_def fun_eq_iff split: prod.splits)

lemma job_skipped:
  "held ''quota_reconcile'' \<Longrightarrow> run_reconcile_quotas f (held, w) = (Inr (), (held, w))"
  "held ''trash_cleanup'' \<Longrightarrow> run_cleanup_trash g config (held, w) = (Inr (), (held, w))"
  by (simp_all add: run_reconcile_quotas_def run_cleanup_trash_def job_lock_def on_world_def act_return_def)

lemma job_runs:
  "\<not> held ''trash_cleanup'' \<Longrightarrow>
   run_cleanup_trash g config (held, w) =
     (fst (g (QUOTA_TRASH_RETENTION_DAYS config) w), (held, snd (g (QUOTA_TRASH_RETENTION_DAYS config) w)))"
  by (auto simp: run_cleanup_trash_def job_lock_def on_world_def set_lock_def fun_eq_iff split: prod.splits)

text \<open>The processes of a host: one takes a free lock and runs the job, or passes, or ends its job.\<close>

record job_state =
  jb_holder :: "nat option"
  jb_running :: "nat set"

inductive job_step :: "job_state \<Rightarrow> job_state \<Rightarrow> bool" where
  job_start: "jb_holder s = None \<Longrightarrow> job_step s (s\<lparr>jb_holder := Some p, jb_running := insert p (jb_running s)\<rparr>)"
| job_pass: "jb_holder s \<noteq> None \<Longrightarrow> job_step s s"
| job_end: "p \<in> jb_running s \<Longrightarrow> job_step s (s\<lparr>jb_holder := None, jb_running := jb_running s - {p}\<rparr>)"

inductive job_run :: "job_state \<Rightarrow> bool" where
  job_run_start: "job_run \<lparr>jb_holder = None, jb_running = {}\<rparr>"
| job_run_step: "job_run s \<Longrightarrow> job_step s s' \<Longrightarrow> job_run s'"

lemma job_runs_alone:
  assumes "job_run s"
  shows "jb_running s = set_option (jb_holder s)"
  using assms
proof (induction rule: job_run.induct)
  case (job_run_step s s')
  from job_run_step.hyps(2) job_run_step.IH show ?case by (cases rule: job_step.cases) auto
qed simp

text \<open>No mail goes anywhere without an address, and a failing server is no exception.\<close>

lemma no_address_no_mail:
  "send_soft_cap_warning config ms percent megabytes u d used limit pct None = False"
  "send_hard_cap_notification config ms subject megabytes u d used limit (Some '''') = False"
  "ms_connect ms (QUOTA_SMTP_HOST config) (QUOTA_SMTP_PORT config) = Inl e \<Longrightarrow>
   send_quota_email config ms address subject body = False"
  by (simp_all add: send_soft_cap_warning_def send_hard_cap_notification_def or_text_def send_quota_email_def)

end
