(* ===== verification/Spec2Isabelle.thy ===== *)
theory Spec2Isabelle
  imports BatchResolve AfterProperties QuotaPolicy RouteProperties AccountProperties
    GraphqlProperties ResourceProperties WorkspaceProperties TrashProperties
    UiRouter CloudProviders WebhookRouter StoreReads LazyStore Jobs
begin

text \<open>
  The access control of the MLflow OIDC authentication plugin (\<^verbatim>\<open>src/mlflow_oidc_auth/\<close>).

  \<^bold>\<open>The program.\<close> The plugin keeps users, groups and permissions in a database of its own and
  decides for every request to MLflow whether its user may make it. A permission is one of
  five levels, given to a user or a group, on a resource of one of seven types, directly or by
  a pattern on names. The \<^emph>\<open>repositories\<close> (\<^verbatim>\<open>repository/\<close>) read and write the tables, each call
  in a session of its own; the \<^emph>\<open>store\<close> (\<^verbatim>\<open>sqlalchemy_store.py\<close>) puts one method in front of
  each of their operations and clears the permission cache after most of those that write.
  \<^emph>\<open>Resolution\<close> (\<^verbatim>\<open>utils/permissions.py\<close>) asks the sources user, group, regex and group-regex in
  a configured order and falls back on the workspace of the request or a default; its answers
  are cached. The \<^emph>\<open>hook before a request\<close> (\<^verbatim>\<open>hooks/before_request.py\<close>) finds the validator
  (\<^verbatim>\<open>validators/\<close>) of the request, which resolves the permission on the resource that the
  request names, and checks the storage quota (\<^verbatim>\<open>utils/quota.py\<close>). The \<^emph>\<open>hook after it\<close>
  (\<^verbatim>\<open>hooks/after_request.py\<close>) filters lists and lets permissions follow the resources that are
  created, renamed and deleted. The plugin's own API are \<^emph>\<open>routes\<close> of a FastAPI application
  (\<^verbatim>\<open>routers/\<close>), which call the store behind guards (\<^verbatim>\<open>dependencies.py\<close>) and write an audit log.
  In front of both stands the \<^emph>\<open>middleware\<close> (\<^verbatim>\<open>middleware/\<close>), which finds out who a request acts
  for: from basic credentials, a bearer token or a session that the \<^emph>\<open>login\<close> (\<^verbatim>\<open>routers/auth.py\<close>)
  with an OpenID provider has opened.

  \<^bold>\<open>The theories\<close>, in the order of their imports.
  \<^item> \<open>Prelude\<close>: errors as values (\<open>exn\<close>, \<open>'a result\<close>), the queries and row operations of
    SQLAlchemy on a table as a list of rows, and actions, functions of a state that return a
    result and keep what was committed before an exception.
  \<^item> \<open>Permissions\<close> (\<^verbatim>\<open>permissions.py\<close>): the five levels and their comparison.
  \<^item> \<open>Database\<close> (\<^verbatim>\<open>db/models/\<close>, \<^verbatim>\<open>repository/utils.py\<close>): the tables as a record, one table of
    direct permissions and of patterns for each resource type, their unique constraints and
    the well-formedness \<open>db_wf\<close>.
  \<^item> \<open>RepositoryInterface\<close>: the contract of a permission repository as a locale: it refines a map
    from resource and subject to permission. \<open>UserPermissionRepo\<close>, \<open>GroupPermissionRepo\<close> and
    \<open>WorkspaceRepo\<close> interpret it on their operations.
  \<^item> \<open>UserPermissionRepo\<close>, \<open>GroupRepo\<close>, \<open>GroupPermissionRepo\<close>, \<open>RegexGuard\<close>, \<open>RegexRepo\<close>,
    \<open>WorkspaceRepo\<close>, \<open>UserRepo\<close>, \<open>QuotaRepo\<close> (\<^verbatim>\<open>repository/*.py\<close>): every operation of the
    repositories, on every branch. Definitions of a base class take the resource type as an
    argument; an override has a definition of its own.
  \<^item> \<open>QuotaPolicy\<close> (\<^verbatim>\<open>utils/quota.py\<close>): limits, owners, enforcement and reconciliation.
  \<^item> \<open>Cache\<close> (\<^verbatim>\<open>cache/\<close>): the two cache backends behind one contract, a locale.
  \<^item> \<open>AuthConfig\<close> (\<^verbatim>\<open>config.py\<close>): the settings that resolution reads.
  \<^item> \<open>WorkspaceCache\<close> (\<^verbatim>\<open>utils/workspace_cache.py\<close>), \<open>Resolve\<close> (\<^verbatim>\<open>utils/permissions.py\<close>): permission
    resolution and its caches; \<open>resolve_fresh\<close> is the answer without caches, the reference.
  \<^item> \<open>ResolutionCache\<close>: what the caches may hold (\<open>exact_caches\<close>), that every step keeps it, and
    the two cases where the key of an entry says too little.
  \<^item> \<open>BatchResolve\<close> (\<^verbatim>\<open>utils/batch_permissions.py\<close>): resolution against a prefetched context, and
    when it agrees with single resolution.
  \<^item> \<open>Store\<close> (\<^verbatim>\<open>sqlalchemy_store.py\<close>): the writing methods as a datatype of operations, their
    names, and the cache flush around those in \<open>PERMISSION_CUD_METHODS\<close>.
  \<^item> \<open>StoreInvariant\<close>, \<open>StoreSystem\<close>: the invariant of every operation; the store as a state
    machine whose steps are operations, look-ups and the loss of cache entries; which
    operations leave every answer as it was (\<open>neutral\<close>), and that cached answers stay current
    along operations that are neutral or flush.
  \<^item> \<open>Request\<close> (\<^verbatim>\<open>utils/request_helpers.py\<close>, \<^verbatim>\<open>bridge/user.py\<close>), \<open>Validators\<close> (\<^verbatim>\<open>validators/*.py\<close>),
    \<open>BeforeRequest\<close>, \<open>AfterRequest\<close> (\<^verbatim>\<open>hooks/*.py\<close>): a Flask request and its parameters, every
    validator, the tables that send a request to its validator or handler, and both hooks.
  \<^item> \<open>StableCheck\<close>: the contract between filters and checks as a locale, the filters proved
    against it, and its interpretations on the five cached checks.
  \<^item> \<open>HookProperties\<close>, \<open>AfterProperties\<close>: what the hooks guarantee.
  \<^item> \<open>Entities\<close> (\<^verbatim>\<open>entities/*.py\<close>): the entities as dictionaries and back, and which conversions
    are round trips.
  \<^item> \<open>DataFetching\<close> (\<^verbatim>\<open>utils/data_fetching.py\<close>): all pages of a search, and what a user can read.
  \<^item> \<open>FastApi\<close> (\<^verbatim>\<open>utils/request_helpers_fastapi.py\<close>, \<^verbatim>\<open>dependencies.py\<close>, \<^verbatim>\<open>audit.py\<close>,
    \<^verbatim>\<open>exceptions.py\<close>): a request to a route, the guards, the audit log and the status of an
    exception.
  \<^item> \<open>UserRouter\<close>, \<open>GroupRouter\<close> (\<^verbatim>\<open>routers/user_permissions.py\<close>, \<^verbatim>\<open>routers/group_permissions.py\<close>):
    every route of the two routers. \<open>RouteProperties\<close>: the guards of all routes that write, and
    what they leave in the audit log.
  \<^item> \<open>Texts\<close>: lower case, splitting, UTF-8, Base64 and URL quoting of Python's library, with
    their round trips. \<open>Oidc\<close> (\<^verbatim>\<open>auth.py\<close>, \<^verbatim>\<open>oauth.py\<close>, \<^verbatim>\<open>utils/oidc_field_extraction.py\<close>), \<open>Uri\<close>
    (\<^verbatim>\<open>utils/uri.py\<close>): tokens and their keys, the fields that name a user, redirect URIs.
  \<^item> \<open>Login\<close> (\<^verbatim>\<open>user.py\<close>, \<^verbatim>\<open>routers/auth.py\<close>): sessions, the login, the callback and what it does to
    the database. \<open>Middleware\<close> (\<^verbatim>\<open>middleware/*.py\<close>): who a request acts for, the workspace of a
    request, proxy headers, the native routes of MLflow, and the context that reaches Flask.
  \<^item> \<open>SessionSystem\<close>: sessions are signed cookies that a client may keep and present again.
    \<open>web_step\<close> and \<open>web_run\<close> are one chain of cookies, each set by the response to a request with
    the one before, among arbitrary changes of the rest of the server; \<open>cookie_step\<close> and
    \<open>cookie_run\<close> are the whole system, whose requests carry any cookie ever set. Every cookie is
    the end of a chain (\<open>cookie_has_chain\<close>), so what holds along chains holds of every cookie.
    \<open>SessionProperties\<close>: how a name gets into a session, and that a chain accepts a state once,
    while a cookie that is kept accepts it again. \<open>LoginProperties\<close>: what a login leaves in the
    database, that a login that is due succeeds, where a callback leads. \<open>RequestProperties\<close>:
    who may reach the hooks, composed with what the hooks check.
  \<^item> \<open>AccountRouter\<close> (\<^verbatim>\<open>routers/users.py\<close>, \<^verbatim>\<open>routers/quota.py\<close>): accounts, access tokens, quotas and
    the owners of experiments. \<open>AccountProperties\<close>: until when a token is accepted, and what a
    transfer changes.
  \<^item> \<open>ResourceRouter\<close>, \<open>WorkspaceRouter\<close> (the routers of the seven resources and of workspaces): who
    has a permission on a resource, what a user manages, the permissions and patterns of
    workspaces. \<open>ResourceProperties\<close>, \<open>WorkspaceProperties\<close>: the lists agree with resolution, and
    a change of a workspace permission is exact in the database and in its cache.
  \<^item> \<open>Graphql\<close> (\<^verbatim>\<open>graphql/middleware.py\<close>): the check of the protected fields of GraphQL, with its
    reading of filters. \<open>GraphqlProperties\<close>: the checks as instances of the contract of
    \<open>StableCheck\<close>, and what a resolver may run with.
  \<^item> \<open>QuotaMeasure\<close> (\<^verbatim>\<open>utils/quota.py\<close>): the measuring of what a user's experiments and models
    take, with the reference it is compared with. \<open>QuotaProperties\<close>: the measurement composed
    with the reconciliation and the enforcement, and which permissions it removes.
  \<^item> \<open>Trash\<close> (\<^verbatim>\<open>utils/trash_cleanup.py\<close>, the clean-up of \<^verbatim>\<open>utils/quota.py\<close>), \<open>TrashRouter\<close>
    (\<^verbatim>\<open>routers/trash.py\<close>): deleting for good, the time a request names, what is in the trash and
    goes back. \<open>TrashProperties\<close>: the deletions as a relation (\<open>emptied\<close>) and what may be deleted.
  \<^item> \<open>UiRouter\<close> (\<^verbatim>\<open>routers/ui.py\<close>, \<^verbatim>\<open>routers/health.py\<close>, \<^verbatim>\<open>hack.py\<close>): the files of the front end, with the
    normal form of a path, the health checks and MLflow's page; only files below the directory are
    served.
  \<^item> \<open>ConfigManager\<close> (\<^verbatim>\<open>config_providers/manager.py\<close>, \<^verbatim>\<open>config.py\<close>): where a setting comes from and
    how it is read, the settings of the other theories read so, and MLflow's environment.
    \<open>CloudProviders\<close> (\<^verbatim>\<open>config_providers/*_provider.py\<close>): the providers with their caches, and which
    settings they give.
  \<^item> \<open>WebhookRouter\<close> (\<^verbatim>\<open>routers/webhook.py\<close>, \<^verbatim>\<open>models/webhook.py\<close>): the checks of a webhook and its
    routes; which URLs can get into MLflow's store.
  \<^item> \<open>StoreReads\<close> (\<^verbatim>\<open>sqlalchemy_store.py\<close>): the reading methods and the opening of the database; the
    only exception of a look-up. \<open>LazyStore\<close> (\<^verbatim>\<open>store.py\<close>): the store opened on its first use, as a
    system of threads (\<open>lazy_step\<close>), and that it is opened once.
  \<^item> \<open>Jobs\<close> (\<^verbatim>\<open>scheduler.py\<close>, \<^verbatim>\<open>utils/email.py\<close>): the background jobs behind their lock, and the mails.

  \<^bold>\<open>State and failure.\<close> A repository operation maps a database to \<open>Inr\<close> of the next one or to
  \<open>Inl\<close> of the exception; the session rolls back, so a failed operation leaves the database as
  it was (MLflow's managed session may translate an exception that is not its own; the model
  keeps the one raised in the body). A store method that makes several calls is an action, and
  keeps the calls committed before an exception. Rows are fetched in table order; \<^verbatim>\<open>ORDER BY\<close>
  is a stable sort. A cache is a partial map: expiry, eviction and restarts are the loss of
  arbitrary entries. Integers are Python's, unbounded. Times are integers; where the code mixes
  a time of the clock with one that a database gives back without its zone (\<open>naive_times\<close>), the
  subtraction raises. Strings are lists of code points below 256.

  \<^bold>\<open>Conditions that recur.\<close> The key of a cached permission joins its parts with colons, so
  statements about cached answers are for user names without a colon (\<open>colon_free\<close>). They are for
  caches that hold only answers of the present database (\<open>exact_caches\<close>, \<open>workspaces_current\<close>);
  \<open>no_stale_permission\<close> and \<open>workspace_change_is_exact\<close> say which operations keep that. A key does
  not name the workspace of the request, so it is one workspace throughout.

  \<^bold>\<open>Loops.\<close> All loops run over a fetched list and are structural, but three: the loops that
  refill a page of a search (\<open>refetch\<close>, \<open>refetch_logged\<close>) and the loop that reads all pages
  (\<open>fetch_pages\<close>) are partial functions, whose value is \<open>None\<close> where they do not end;
  \<open>experiment_search_terminates\<close> and \<open>fetch_pages_terminates\<close> show that the first and the third
  end for searches that page through a list. The recursions over directories and over the pages
  of the trash are as deep as the interpreter allows, a number in \<open>quota_env\<close>: beyond it the sum
  of an artifact store fails and counts as nothing, and a list ends.

  \<^bold>\<open>Parameters.\<close> Code of others is an argument: \<^verbatim>\<open>re.match\<close>, \<^verbatim>\<open>re.fullmatch\<close> and \<^verbatim>\<open>re.compile\<close>
  on patterns that users or MLflow supply; password hashing; the database engine's new primary
  keys and its binding of values of another type; MLflow's tracking store, endpoints, messages,
  searches, page tokens, error statuses and webhooks; the files of the front end; the clients of the
  cloud services that settings come from; Redis; the mail server; the clock; the OpenID provider with its client
  library (\<open>idp\<close>), the IP networks of proxies and MLflow's resolution of a workspace.

  \<^bold>\<open>Not modelled.\<close> FastAPI's dispatch to a handler and its validation of bodies, but for those of
  webhooks; the texts of messages; the signature of session cookies, which is taken to
  admit only sessions that the server has set; the assembly of the application
  and its command line, which put together the parts above; migrations, logging and the web front
  end, which hold no decision about access.
\<close>

end
